(* ===== verification/Prelude.thy ===== *)
theory Prelude
  imports Complex_Main "HOL-Library.AList"
begin

text \<open>
  Shared vocabulary of the development: Python strings and their methods (a \<open>str\<close> is a
  list of characters, one per code point below 256), Python dictionaries with insertion
  order (association lists with distinct keys, updated by \<open>AList.update\<close>), string-valued
  enumerations, and the lemma collections the component theories extend.
\<close>

named_theorems vocab_simps \<open>closed facts about the enumerations and their projections\<close>
named_theorems lifecycle_defs \<open>definitions of guards, effects and state updates\<close>
named_theorems frame_simps \<open>which fields an operation leaves alone\<close>

section \<open>Python strings\<close>

definition is_space :: "char \<Rightarrow> bool" where
  "is_space c = (let n = (of_char c :: nat) in
     (9 \<le> n \<and> n \<le> 13) \<or> (28 \<le> n \<and> n \<le> 32) \<or> n = 133 \<or> n = 160)"

definition py_lstrip :: "string \<Rightarrow> string" where
  "py_lstrip s = dropWhile is_space s"

definition py_rstrip :: "string \<Rightarrow> string" where
  "py_rstrip s = rev (dropWhile is_space (rev s))"

definition py_strip :: "string \<Rightarrow> string" where
  "py_strip s = py_rstrip (py_lstrip s)"

definition py_lower_char :: "char \<Rightarrow> char" where
  "py_lower_char c = (let n = (of_char c :: nat) in
     if (65 \<le> n \<and> n \<le> 90) \<or> (192 \<le> n \<and> n \<le> 222 \<and> n \<noteq> 215) then char_of (n + 32) else c)"

definition py_lower :: "string \<Rightarrow> string" where
  "py_lower s = map py_lower_char s"

text \<open>\<open>str.split()\<close> without arguments: the maximal runs of non-space characters.\<close>

fun split_go :: "string \<Rightarrow> string \<Rightarrow> string list" where
  "split_go acc [] = (if acc = [] then [] else [rev acc])"
| "split_go acc (c # cs) =
     (if is_space c then (if acc = [] then split_go [] cs else rev acc # split_go [] cs)
      else split_go (c # acc) cs)"

definition py_split :: "string \<Rightarrow> string list" where
  "py_split s = split_go [] s"

fun py_join :: "string \<Rightarrow> string list \<Rightarrow> string" where
  "py_join sep [] = []"
| "py_join sep [x] = x"
| "py_join sep (x # y # ys) = x @ sep @ py_join sep (y # ys)"

definition starts_with :: "string \<Rightarrow> string \<Rightarrow> bool" where
  "starts_with s p = (take (length p) s = p)"

definition ends_with :: "string \<Rightarrow> string \<Rightarrow> bool" where
  "ends_with s p = (length p \<le> length s \<and> drop (length s - length p) s = p)"

definition removeprefix :: "string \<Rightarrow> string \<Rightarrow> string" where
  "removeprefix s p = (if starts_with s p then drop (length p) s else s)"

text \<open>\<open>x or y\<close> on strings and on optional strings: the empty string is false.\<close>

definition str_or :: "string \<Rightarrow> string \<Rightarrow> string" where
  "str_or s t = (if s = [] then t else s)"

definition opt_str_or :: "string option \<Rightarrow> string \<Rightarrow> string" where
  "opt_str_or s t = (case s of None \<Rightarrow> t | Some u \<Rightarrow> str_or u t)"

fun nat_str :: "nat \<Rightarrow> string" where
  "nat_str n = (if n < 10 then [char_of (48 + n)]
                else nat_str (n div 10) @ [char_of (48 + n mod 10)])"

declare nat_str.simps [simp del]

definition int_str :: "int \<Rightarrow> string" where
  "int_str i = (if i < 0 then ''-'' @ nat_str (nat (- i)) else nat_str (nat i))"

text \<open>\<open>format(x, '.1f')\<close> of an exact rational: one decimal, halves to even.\<close>

definition round_half_even :: "rat \<Rightarrow> int" where
  "round_half_even x = (let f = \<lfloor>x\<rfloor>; d = x - of_int f in
     if d < 1 / 2 then f else if d > 1 / 2 then f + 1 else if even f then f else f + 1)"

definition fmt1 :: "rat \<Rightarrow> string" where
  "fmt1 x = (let n = nat (round_half_even (\<bar>x\<bar> * 10)) in
     (if x < 0 then ''-'' else []) @ nat_str (n div 10) @ ''.'' @ nat_str (n mod 10))"

lemma starts_with_append [simp]: "starts_with (p @ s) p"
  by (simp add: starts_with_def)

lemma removeprefix_append [simp]: "removeprefix (p @ s) p = s"
  by (simp add: removeprefix_def)

lemma py_strip_Nil [simp]: "py_strip [] = []"
  by (simp add: py_strip_def py_lstrip_def py_rstrip_def)

lemma dropWhile_idem [simp]: "dropWhile P (dropWhile P xs) = dropWhile P xs"
  by (induction xs) auto

lemma dropWhile_rev_dropWhile:
  "dropWhile P (rev (dropWhile P (rev (dropWhile P xs)))) = rev (dropWhile P (rev (dropWhile P xs)))"
proof (cases "dropWhile P xs")
  case Nil
  then show ?thesis by (simp del: dropWhile_eq_Nil_conv)
next
  case (Cons y ys)
  then have y: "\<not> P y" using hd_dropWhile [of P xs] by auto
  then have "dropWhile P (rev ys @ [y]) = dropWhile P (rev ys) @ [y]"
    by (induction "rev ys" arbitrary: ys rule: list.induct) (auto simp: dropWhile_append)
  with Cons y show ?thesis by simp
qed

lemma py_strip_idem [simp]: "py_strip (py_strip s) = py_strip s"
  unfolding py_strip_def py_lstrip_def py_rstrip_def
  by (subst dropWhile_rev_dropWhile) simp

lemma py_strip_no_space:
  assumes "\<And>c. c \<in> set s \<Longrightarrow> \<not> is_space c"
  shows "py_strip s = s"
proof -
  have dw: "dropWhile is_space xs = xs" if "\<And>c. c \<in> set xs \<Longrightarrow> \<not> is_space c" for xs
    using that by (cases xs) auto
  show ?thesis
    using dw [of s] dw [of "rev s"] assms by (simp add: py_strip_def py_lstrip_def py_rstrip_def)
qed

lemma length_dropWhile_rev: "length (dropWhile P (rev xs)) \<le> length xs"
  using length_dropWhile_le [of P "rev xs"] by simp

lemma length_py_strip: "length (py_strip s) \<le> length s"
  unfolding py_strip_def py_lstrip_def py_rstrip_def
  by (metis length_dropWhile_le length_dropWhile_rev length_rev order_trans)

lemma split_go_nonempty: "w \<in> set (split_go acc s) \<Longrightarrow> w \<noteq> []"
  by (induction acc s rule: split_go.induct) (auto split: if_splits)

lemma split_go_no_space:
  "\<lbrakk>w \<in> set (split_go acc s); \<And>c. c \<in> set acc \<Longrightarrow> \<not> is_space c; c \<in> set w\<rbrakk> \<Longrightarrow> \<not> is_space c"
  by (induction acc s rule: split_go.induct) (auto split: if_splits)

lemma split_go_word:
  "(\<And>c. c \<in> set w \<Longrightarrow> \<not> is_space c) \<Longrightarrow> split_go acc (w @ s) = split_go (rev w @ acc) s"
  by (induction w arbitrary: acc) auto

section \<open>Dictionaries with insertion order\<close>

text \<open>
  A dict is an association list whose keys are distinct: \<open>d[k] = v\<close> is
  \<open>AList.update k v d\<close> (in place when the key is there, appended when it is not), \<open>d.pop(k, None)\<close> is
  \<open>AList.delete k d\<close>, \<open>d.get(k, x)\<close> is \<open>dict_get k x d\<close>.
\<close>

type_synonym ('k, 'v) dict = "('k \<times> 'v) list"

definition dict_get :: "'k \<Rightarrow> 'v \<Rightarrow> ('k, 'v) dict \<Rightarrow> 'v" where
  "dict_get k x d = (case map_of d k of None \<Rightarrow> x | Some v \<Rightarrow> v)"

definition dict_ok :: "('k, 'v) dict \<Rightarrow> bool" where
  "dict_ok d = distinct (map fst d)"

lemma dict_get_update [simp]:
  "dict_get k x (AList.update k' v d) = (if k = k' then v else dict_get k x d)"
  by (auto simp: dict_get_def update_conv')

lemma dict_get_delete [simp]:
  "dict_get k x (AList.delete k' d) = (if k = k' then x else dict_get k x d)"
  by (auto simp: dict_get_def delete_conv')

lemma dict_get_Nil [simp]: "dict_get k x [] = x"
  by (simp add: dict_get_def)

lemma dict_ok_Nil [simp]: "dict_ok []"
  by (simp add: dict_ok_def)

lemma dict_ok_update [simp]: "dict_ok d \<Longrightarrow> dict_ok (AList.update k v d)"
  by (simp add: dict_ok_def distinct_update)

lemma dict_ok_delete [simp]: "dict_ok d \<Longrightarrow> dict_ok (AList.delete k d)"
  by (simp add: dict_ok_def distinct_delete)

text \<open>Rebuilding a dict by assigning its entries in order gives it back.\<close>

lemma update_fresh: "k \<notin> fst ` set d \<Longrightarrow> AList.update k v d = d @ [(k, v)]"
  by (induction d) auto

lemma foldl_update_rebuild:
  assumes "distinct (map fst (acc @ d))"
  shows "foldl (\<lambda>a (k, v). AList.update k v a) acc d = acc @ d"
  using assms
proof (induction d arbitrary: acc)
  case Nil
  then show ?case by simp
next
  case (Cons p d)
  obtain k v where p: "p = (k, v)" by (cases p)
  have "k \<notin> fst ` set acc" using Cons.prems p by auto
  then have "AList.update k v acc = acc @ [(k, v)]" by (rule update_fresh)
  with Cons.IH [of "acc @ [(k, v)]"] Cons.prems p show ?case by simp
qed

section \<open>String-valued enumerations\<close>

text \<open>
  \<open>StringEnum\<close> (\<open>domain/common.py\<close>): an enumeration whose members are strings. Calling the
  class on a string looks the member up by value and raises \<open>ValueError\<close> (here \<open>None\<close>) when
  there is none. The laws of the interface are what Python's \<open>Enum\<close> guarantees: the member
  list is complete and no two members share a value.
\<close>

definition enum_parse :: "('a \<Rightarrow> string) \<Rightarrow> 'a list \<Rightarrow> string \<Rightarrow> 'a option" where
  "enum_parse val members s = find (\<lambda>m. val m = s) members"

locale string_enum =
  fixes members :: "'a list" and val :: "'a \<Rightarrow> string"
  assumes complete: "x \<in> set members"
    and distinct_vals: "distinct (map val members)"
begin

lemma val_inj: "val x = val y \<longleftrightarrow> x = y"
  using complete [of x] complete [of y] distinct_vals by (auto simp: distinct_map inj_on_def)

lemma parse_iff: "enum_parse val members s = Some x \<longleftrightarrow> val x = s"
proof
  assume "enum_parse val members s = Some x"
  then show "val x = s" by (auto simp: enum_parse_def find_Some_iff)
next
  assume s: "val x = s"
  have "find (\<lambda>m. val m = s) members \<noteq> None"
    using complete [of x] s by (auto simp: find_None_iff)
  then obtain y where y: "find (\<lambda>m. val m = s) members = Some y" by blast
  then have "val y = s" by (auto simp: find_Some_iff)
  with s have "y = x" by (simp add: val_inj [symmetric])
  with y show "enum_parse val members s = Some x" by (simp add: enum_parse_def)
qed

lemma parse_val: "enum_parse val members (val x) = Some x"
  by (simp add: parse_iff)

lemma parse_None: "enum_parse val members s = None \<longleftrightarrow> s \<notin> range val"
proof (cases "enum_parse val members s")
  case None
  then show ?thesis using parse_iff [of s] by auto
next
  case (Some x)
  then show ?thesis using parse_iff [of s x] by auto
qed

end

end
