(* ===== verification/Vocabulary.thy ===== *)
theory Vocabulary
  imports Prelude
begin

text \<open>
  The vocabulary of \<open>litehive/domain/common.py\<close>, \<open>litehive/lifecycle/types.py\<close> and
  \<open>litehive/domain/outcomes.py\<close>: every enumeration as a datatype with its string values, the
  projections of a pipeline state (task stage, operator status, primary stage, hook points)
  and the boundary parsers. Each enumeration is an interpretation of \<open>string_enum\<close>, so
  parsing a value back is one fact per type.
\<close>

section \<open>Pipeline modes and states\<close>

datatype pipeline_mode = SINGLE | FULL

definition pipeline_mode_members :: "pipeline_mode list" where
  "pipeline_mode_members = [SINGLE, FULL]"

fun pipeline_mode_value :: "pipeline_mode \<Rightarrow> string" where
  "pipeline_mode_value SINGLE = ''single''"
| "pipeline_mode_value FULL = ''full''"

datatype pipeline_state =
    READY | WORKTREE_SYNC | RECOVERING_PRE_EXEC
  | BEFORE_GROOMING | GROOMING | AFTER_GROOMING
  | BEFORE_IMPLEMENTING | IMPLEMENTING | AFTER_IMPLEMENTING
  | BEFORE_TESTING | TESTING | AFTER_TESTING
  | BEFORE_ACCEPTING | ACCEPTING | AFTER_ACCEPTING
  | COMMIT | AFTER_COMMIT | MERGE_RESOLVING
  | RECOVERING | DONE | FAILED

definition pipeline_state_members :: "pipeline_state list" where
  "pipeline_state_members =
    [READY, WORKTREE_SYNC, RECOVERING_PRE_EXEC,
     BEFORE_GROOMING, GROOMING, AFTER_GROOMING,
     BEFORE_IMPLEMENTING, IMPLEMENTING, AFTER_IMPLEMENTING,
     BEFORE_TESTING, TESTING, AFTER_TESTING,
     BEFORE_ACCEPTING, ACCEPTING, AFTER_ACCEPTING,
     COMMIT, AFTER_COMMIT, MERGE_RESOLVING, RECOVERING, DONE, FAILED]"

fun pipeline_state_value :: "pipeline_state \<Rightarrow> string" where
  "pipeline_state_value READY = ''ready''"
| "pipeline_state_value WORKTREE_SYNC = ''worktree_sync''"
| "pipeline_state_value RECOVERING_PRE_EXEC = ''recovering_pre_exec''"
| "pipeline_state_value BEFORE_GROOMING = ''before_grooming''"
| "pipeline_state_value GROOMING = ''grooming''"
| "pipeline_state_value AFTER_GROOMING = ''after_grooming''"
| "pipeline_state_value BEFORE_IMPLEMENTING = ''before_implementing''"
| "pipeline_state_value IMPLEMENTING = ''implementing''"
| "pipeline_state_value AFTER_IMPLEMENTING = ''after_implementing''"
| "pipeline_state_value BEFORE_TESTING = ''before_testing''"
| "pipeline_state_value TESTING = ''testing''"
| "pipeline_state_value AFTER_TESTING = ''after_testing''"
| "pipeline_state_value BEFORE_ACCEPTING = ''before_accepting''"
| "pipeline_state_value ACCEPTING = ''accepting''"
| "pipeline_state_value AFTER_ACCEPTING = ''after_accepting''"
| "pipeline_state_value COMMIT = ''commit''"
| "pipeline_state_value AFTER_COMMIT = ''after_commit''"
| "pipeline_state_value MERGE_RESOLVING = ''merge_resolving''"
| "pipeline_state_value RECOVERING = ''recovering''"
| "pipeline_state_value DONE = ''done''"
| "pipeline_state_value FAILED = ''failed''"

definition human_label :: "pipeline_state \<Rightarrow> string" where
  "human_label s = map (\<lambda>c. if c = CHR ''_'' then CHR '' '' else c) (pipeline_state_value s)"

text \<open>\<open>canonical_pipeline_state\<close> on a string; \<open>None\<close> is the \<open>ValueError\<close>.\<close>

definition canonical_pipeline_state :: "string \<Rightarrow> pipeline_state option" where
  "canonical_pipeline_state s = enum_parse pipeline_state_value pipeline_state_members s"

section \<open>Task stages and operator-facing statuses\<close>

datatype task_stage =
  Stg_GROOMING | Stg_IMPLEMENTING | Stg_TESTING | Stg_ACCEPTING | Stg_COMMIT_TO_GIT

definition task_stage_members :: "task_stage list" where
  "task_stage_members =
    [Stg_GROOMING, Stg_IMPLEMENTING, Stg_TESTING, Stg_ACCEPTING, Stg_COMMIT_TO_GIT]"

fun task_stage_value :: "task_stage \<Rightarrow> string" where
  "task_stage_value Stg_GROOMING = ''grooming''"
| "task_stage_value Stg_IMPLEMENTING = ''implementing''"
| "task_stage_value Stg_TESTING = ''testing''"
| "task_stage_value Stg_ACCEPTING = ''accepting''"
| "task_stage_value Stg_COMMIT_TO_GIT = ''commit_to_git''"

fun owner_role :: "task_stage \<Rightarrow> string" where
  "owner_role Stg_GROOMING = ''planner''"
| "owner_role Stg_IMPLEMENTING = ''swe''"
| "owner_role Stg_TESTING = ''qa''"
| "owner_role Stg_ACCEPTING = ''reviewer''"
| "owner_role Stg_COMMIT_TO_GIT = ''runner''"

fun retry_counter_state :: "task_stage \<Rightarrow> pipeline_state" where
  "retry_counter_state Stg_GROOMING = GROOMING"
| "retry_counter_state Stg_IMPLEMENTING = IMPLEMENTING"
| "retry_counter_state Stg_TESTING = TESTING"
| "retry_counter_state Stg_ACCEPTING = ACCEPTING"
| "retry_counter_state Stg_COMMIT_TO_GIT = COMMIT"

datatype pipeline_status =
    Pst_BACKLOG | Pst_GROOMING | Pst_IMPLEMENTING | Pst_TESTING | Pst_ACCEPTING
  | Pst_COMMIT_TO_GIT | Pst_DONE | Pst_FLAGGED

definition pipeline_status_members :: "pipeline_status list" where
  "pipeline_status_members =
    [Pst_BACKLOG, Pst_GROOMING, Pst_IMPLEMENTING, Pst_TESTING, Pst_ACCEPTING,
     Pst_COMMIT_TO_GIT, Pst_DONE, Pst_FLAGGED]"

fun pipeline_status_value :: "pipeline_status \<Rightarrow> string" where
  "pipeline_status_value Pst_BACKLOG = ''backlog''"
| "pipeline_status_value Pst_GROOMING = ''grooming''"
| "pipeline_status_value Pst_IMPLEMENTING = ''implementing''"
| "pipeline_status_value Pst_TESTING = ''testing''"
| "pipeline_status_value Pst_ACCEPTING = ''accepting''"
| "pipeline_status_value Pst_COMMIT_TO_GIT = ''commit_to_git''"
| "pipeline_status_value Pst_DONE = ''done''"
| "pipeline_status_value Pst_FLAGGED = ''flagged''"

fun task_stage_of :: "pipeline_state \<Rightarrow> task_stage option" where
  "task_stage_of BEFORE_GROOMING = Some Stg_GROOMING"
| "task_stage_of GROOMING = Some Stg_GROOMING"
| "task_stage_of AFTER_GROOMING = Some Stg_GROOMING"
| "task_stage_of RECOVERING = Some Stg_GROOMING"
| "task_stage_of BEFORE_IMPLEMENTING = Some Stg_IMPLEMENTING"
| "task_stage_of IMPLEMENTING = Some Stg_IMPLEMENTING"
| "task_stage_of AFTER_IMPLEMENTING = Some Stg_IMPLEMENTING"
| "task_stage_of BEFORE_TESTING = Some Stg_TESTING"
| "task_stage_of TESTING = Some Stg_TESTING"
| "task_stage_of AFTER_TESTING = Some Stg_TESTING"
| "task_stage_of BEFORE_ACCEPTING = Some Stg_ACCEPTING"
| "task_stage_of ACCEPTING = Some Stg_ACCEPTING"
| "task_stage_of AFTER_ACCEPTING = Some Stg_ACCEPTING"
| "task_stage_of COMMIT = Some Stg_COMMIT_TO_GIT"
| "task_stage_of AFTER_COMMIT = Some Stg_COMMIT_TO_GIT"
| "task_stage_of MERGE_RESOLVING = Some Stg_COMMIT_TO_GIT"
| "task_stage_of READY = None"
| "task_stage_of WORKTREE_SYNC = None"
| "task_stage_of RECOVERING_PRE_EXEC = None"
| "task_stage_of DONE = None"
| "task_stage_of FAILED = None"

fun pipeline_status_of :: "pipeline_state \<Rightarrow> pipeline_status" where
  "pipeline_status_of READY = Pst_BACKLOG"
| "pipeline_status_of WORKTREE_SYNC = Pst_BACKLOG"
| "pipeline_status_of RECOVERING_PRE_EXEC = Pst_BACKLOG"
| "pipeline_status_of BEFORE_GROOMING = Pst_GROOMING"
| "pipeline_status_of GROOMING = Pst_GROOMING"
| "pipeline_status_of AFTER_GROOMING = Pst_GROOMING"
| "pipeline_status_of RECOVERING = Pst_GROOMING"
| "pipeline_status_of BEFORE_IMPLEMENTING = Pst_IMPLEMENTING"
| "pipeline_status_of IMPLEMENTING = Pst_IMPLEMENTING"
| "pipeline_status_of AFTER_IMPLEMENTING = Pst_IMPLEMENTING"
| "pipeline_status_of BEFORE_TESTING = Pst_TESTING"
| "pipeline_status_of TESTING = Pst_TESTING"
| "pipeline_status_of AFTER_TESTING = Pst_TESTING"
| "pipeline_status_of BEFORE_ACCEPTING = Pst_ACCEPTING"
| "pipeline_status_of ACCEPTING = Pst_ACCEPTING"
| "pipeline_status_of AFTER_ACCEPTING = Pst_ACCEPTING"
| "pipeline_status_of COMMIT = Pst_COMMIT_TO_GIT"
| "pipeline_status_of AFTER_COMMIT = Pst_COMMIT_TO_GIT"
| "pipeline_status_of MERGE_RESOLVING = Pst_COMMIT_TO_GIT"
| "pipeline_status_of DONE = Pst_DONE"
| "pipeline_status_of FAILED = Pst_FLAGGED"

fun primary_stage :: "pipeline_state \<Rightarrow> pipeline_state" where
  "primary_stage BEFORE_GROOMING = GROOMING"
| "primary_stage AFTER_GROOMING = GROOMING"
| "primary_stage BEFORE_IMPLEMENTING = IMPLEMENTING"
| "primary_stage AFTER_IMPLEMENTING = IMPLEMENTING"
| "primary_stage BEFORE_TESTING = TESTING"
| "primary_stage AFTER_TESTING = TESTING"
| "primary_stage BEFORE_ACCEPTING = ACCEPTING"
| "primary_stage AFTER_ACCEPTING = ACCEPTING"
| "primary_stage AFTER_COMMIT = COMMIT"
| "primary_stage RECOVERING = GROOMING"
| "primary_stage s = s"

fun accepts_runner_hook :: "pipeline_state \<Rightarrow> bool" where
  "accepts_runner_hook BEFORE_GROOMING = True"
| "accepts_runner_hook AFTER_GROOMING = True"
| "accepts_runner_hook BEFORE_IMPLEMENTING = True"
| "accepts_runner_hook AFTER_IMPLEMENTING = True"
| "accepts_runner_hook BEFORE_TESTING = True"
| "accepts_runner_hook AFTER_TESTING = True"
| "accepts_runner_hook BEFORE_ACCEPTING = True"
| "accepts_runner_hook AFTER_ACCEPTING = True"
| "accepts_runner_hook AFTER_COMMIT = True"
| "accepts_runner_hook _ = False"

definition runner_hook_points :: "string set" where
  "runner_hook_points =
     set (map pipeline_state_value (filter accepts_runner_hook pipeline_state_members))"

section \<open>The stage key of an arbitrary label\<close>

text \<open>
  \<open>pipeline_stage_key\<close> returns a \<open>TaskStage\<close> when the label names a state inside one, and the
  label itself otherwise. The result is compared with strings and with members of both
  enumerations, which are strings, so \<open>key_str\<close> is what every comparison sees.
\<close>

datatype stage_key = KStage task_stage | KLabel string

definition pipeline_stage_key :: "string option \<Rightarrow> stage_key option" where
  "pipeline_stage_key name =
     (case name of None \<Rightarrow> None
      | Some n \<Rightarrow>
          (case canonical_pipeline_state n of
             None \<Rightarrow> Some (KLabel n)
           | Some s \<Rightarrow> (case task_stage_of s of
                None \<Rightarrow> Some (KLabel n)
              | Some t \<Rightarrow> Some (KStage t))))"

fun key_str :: "stage_key \<Rightarrow> string" where
  "key_str (KStage t) = task_stage_value t"
| "key_str (KLabel n) = n"

section \<open>Task and runtime statuses\<close>

datatype task_status =
    Tst_QUEUED | Tst_IN_PROGRESS | Tst_INTERRUPTED | Tst_PARKED | Tst_DONE | Tst_CLOSED | Tst_FLAGGED

definition task_status_members :: "task_status list" where
  "task_status_members =
    [Tst_QUEUED, Tst_IN_PROGRESS, Tst_INTERRUPTED, Tst_PARKED, Tst_DONE, Tst_CLOSED, Tst_FLAGGED]"

fun task_status_value :: "task_status \<Rightarrow> string" where
  "task_status_value Tst_QUEUED = ''queued''"
| "task_status_value Tst_IN_PROGRESS = ''in_progress''"
| "task_status_value Tst_INTERRUPTED = ''interrupted''"
| "task_status_value Tst_PARKED = ''parked''"
| "task_status_value Tst_DONE = ''done''"
| "task_status_value Tst_CLOSED = ''closed''"
| "task_status_value Tst_FLAGGED = ''flagged''"

datatype execution_status =
    Exe_IDLE | Exe_RUNNING | Exe_PAUSED | Exe_QUEUED | Exe_INTERRUPTED | Exe_DONE
  | Exe_CANCELLED | Exe_FAILED | Exe_BLOCKED | Exe_FLAGGED

definition execution_status_members :: "execution_status list" where
  "execution_status_members =
    [Exe_IDLE, Exe_RUNNING, Exe_PAUSED, Exe_QUEUED, Exe_INTERRUPTED, Exe_DONE,
     Exe_CANCELLED, Exe_FAILED, Exe_BLOCKED, Exe_FLAGGED]"

fun execution_status_value :: "execution_status \<Rightarrow> string" where
  "execution_status_value Exe_IDLE = ''idle''"
| "execution_status_value Exe_RUNNING = ''running''"
| "execution_status_value Exe_PAUSED = ''paused''"
| "execution_status_value Exe_QUEUED = ''queued''"
| "execution_status_value Exe_INTERRUPTED = ''interrupted''"
| "execution_status_value Exe_DONE = ''done''"
| "execution_status_value Exe_CANCELLED = ''cancelled''"
| "execution_status_value Exe_FAILED = ''failed''"
| "execution_status_value Exe_BLOCKED = ''blocked''"
| "execution_status_value Exe_FLAGGED = ''flagged''"

datatype runtime_stage_status = Rts_IDLE | Rts_RUNNING | Rts_INTERRUPTED | Rts_COMPLETED | Rts_FAILED

definition runtime_stage_status_members :: "runtime_stage_status list" where
  "runtime_stage_status_members = [Rts_IDLE, Rts_RUNNING, Rts_INTERRUPTED, Rts_COMPLETED, Rts_FAILED]"

fun runtime_stage_status_value :: "runtime_stage_status \<Rightarrow> string" where
  "runtime_stage_status_value Rts_IDLE = ''idle''"
| "runtime_stage_status_value Rts_RUNNING = ''running''"
| "runtime_stage_status_value Rts_INTERRUPTED = ''interrupted''"
| "runtime_stage_status_value Rts_COMPLETED = ''completed''"
| "runtime_stage_status_value Rts_FAILED = ''failed''"

section \<open>Verdicts\<close>

datatype verdict =
    Vd_PASS | Vd_ACCEPT | Vd_FAIL | Vd_REJECT | Vd_BLOCKED | Vd_COMMENT | Vd_RESUME
  | Vd_ADVANCE | Vd_DONE | Vd_BUDGET_HIT

definition verdict_members :: "verdict list" where
  "verdict_members =
    [Vd_PASS, Vd_ACCEPT, Vd_FAIL, Vd_REJECT, Vd_BLOCKED, Vd_COMMENT, Vd_RESUME,
     Vd_ADVANCE, Vd_DONE, Vd_BUDGET_HIT]"

fun verdict_value :: "verdict \<Rightarrow> string" where
  "verdict_value Vd_PASS = ''pass''"
| "verdict_value Vd_ACCEPT = ''accept''"
| "verdict_value Vd_FAIL = ''fail''"
| "verdict_value Vd_REJECT = ''reject''"
| "verdict_value Vd_BLOCKED = ''blocked''"
| "verdict_value Vd_COMMENT = ''comment''"
| "verdict_value Vd_RESUME = ''resume''"
| "verdict_value Vd_ADVANCE = ''advance''"
| "verdict_value Vd_DONE = ''done''"
| "verdict_value Vd_BUDGET_HIT = ''budget_hit''"

fun stage_report_verdict :: "verdict \<Rightarrow> string option" where
  "stage_report_verdict Vd_PASS = Some ''pass''"
| "stage_report_verdict Vd_ACCEPT = Some ''pass''"
| "stage_report_verdict Vd_RESUME = Some ''pass''"
| "stage_report_verdict Vd_ADVANCE = Some ''pass''"
| "stage_report_verdict Vd_DONE = Some ''pass''"
| "stage_report_verdict Vd_REJECT = Some ''reject''"
| "stage_report_verdict Vd_FAIL = Some ''reject''"
| "stage_report_verdict Vd_BLOCKED = Some ''blocked''"
| "stage_report_verdict Vd_BUDGET_HIT = Some ''blocked''"
| "stage_report_verdict Vd_COMMENT = None"

section \<open>Outcomes\<close>

datatype task_outcome_kind =
    Ok_DONE | Ok_CLOSED | Ok_FLAGGED | Ok_BLOCKED | Ok_INTERRUPTED | Ok_CANCELLED | Ok_WONT_DO
  | Ok_DEFERRED | Ok_DUPLICATE

definition task_outcome_kind_members :: "task_outcome_kind list" where
  "task_outcome_kind_members =
    [Ok_DONE, Ok_CLOSED, Ok_FLAGGED, Ok_BLOCKED, Ok_INTERRUPTED, Ok_CANCELLED, Ok_WONT_DO,
     Ok_DEFERRED, Ok_DUPLICATE]"

fun task_outcome_kind_value :: "task_outcome_kind \<Rightarrow> string" where
  "task_outcome_kind_value Ok_DONE = ''done''"
| "task_outcome_kind_value Ok_CLOSED = ''closed''"
| "task_outcome_kind_value Ok_FLAGGED = ''flagged''"
| "task_outcome_kind_value Ok_BLOCKED = ''blocked''"
| "task_outcome_kind_value Ok_INTERRUPTED = ''interrupted''"
| "task_outcome_kind_value Ok_CANCELLED = ''cancelled''"
| "task_outcome_kind_value Ok_WONT_DO = ''wont_do''"
| "task_outcome_kind_value Ok_DEFERRED = ''deferred''"
| "task_outcome_kind_value Ok_DUPLICATE = ''duplicate''"

datatype failed_reason =
    HOOK_REJECT_LOOP | REJECTION_LOOP_DETECTED | SEMANTIC_REJECT | RECOVERY_EXHAUSTED
  | RECOVERY_BUDGET_HIT | RECOVERY_CRASHED | RECOVERY_MISSING_TARGET_STAGE
  | PRE_EXEC_RECOVERY_FAILED | OPERATOR_ABANDONED | TIME_BUDGET_EXCEEDED | UNRECOVERABLE_ERROR

definition failed_reason_members :: "failed_reason list" where
  "failed_reason_members =
    [HOOK_REJECT_LOOP, REJECTION_LOOP_DETECTED, SEMANTIC_REJECT, RECOVERY_EXHAUSTED,
     RECOVERY_BUDGET_HIT, RECOVERY_CRASHED, RECOVERY_MISSING_TARGET_STAGE,
     PRE_EXEC_RECOVERY_FAILED, OPERATOR_ABANDONED, TIME_BUDGET_EXCEEDED, UNRECOVERABLE_ERROR]"

fun failed_reason_value :: "failed_reason \<Rightarrow> string" where
  "failed_reason_value HOOK_REJECT_LOOP = ''hook_reject_loop''"
| "failed_reason_value REJECTION_LOOP_DETECTED = ''rejection_loop_detected''"
| "failed_reason_value SEMANTIC_REJECT = ''semantic_reject''"
| "failed_reason_value RECOVERY_EXHAUSTED = ''recovery_exhausted''"
| "failed_reason_value RECOVERY_BUDGET_HIT = ''recovery_budget_hit''"
| "failed_reason_value RECOVERY_CRASHED = ''recovery_crashed''"
| "failed_reason_value RECOVERY_MISSING_TARGET_STAGE = ''recovery_missing_target_stage''"
| "failed_reason_value PRE_EXEC_RECOVERY_FAILED = ''pre_exec_recovery_failed''"
| "failed_reason_value OPERATOR_ABANDONED = ''operator_abandoned''"
| "failed_reason_value TIME_BUDGET_EXCEEDED = ''time_budget_exceeded''"
| "failed_reason_value UNRECOVERABLE_ERROR = ''unrecoverable_error''"

section \<open>Stage groups of \<open>lifecycle/types.py\<close>\<close>

datatype node_type = NT_AGENT | NT_HOOK | NT_SYSTEM | NT_TERMINAL

definition AGENT_STAGES :: "pipeline_state list" where
  "AGENT_STAGES = [GROOMING, IMPLEMENTING, TESTING, ACCEPTING]"

definition SYSTEM_STAGES :: "pipeline_state list" where
  "SYSTEM_STAGES = [COMMIT]"

definition STAGES :: "pipeline_state list" where
  "STAGES = AGENT_STAGES @ SYSTEM_STAGES"

definition before_phase :: "string \<Rightarrow> pipeline_state option" where
  "before_phase stage = canonical_pipeline_state (''before_'' @ stage)"

definition after_phase :: "string \<Rightarrow> pipeline_state option" where
  "after_phase stage = canonical_pipeline_state (''after_'' @ stage)"

definition STAGE_PHASES :: "pipeline_state list" where
  "STAGE_PHASES =
    [BEFORE_GROOMING, GROOMING, AFTER_GROOMING,
     BEFORE_IMPLEMENTING, IMPLEMENTING, AFTER_IMPLEMENTING,
     BEFORE_TESTING, TESTING, AFTER_TESTING,
     BEFORE_ACCEPTING, ACCEPTING, AFTER_ACCEPTING, COMMIT, AFTER_COMMIT]"

definition pipeline_stage_for_phase :: "pipeline_state \<Rightarrow> pipeline_state" where
  "pipeline_stage_for_phase s = primary_stage s"

definition TERMINAL_NODES :: "pipeline_state list" where
  "TERMINAL_NODES = [DONE, FAILED]"

section \<open>The enumerations satisfy the interface\<close>

interpretation pm: string_enum pipeline_mode_members pipeline_mode_value
proof unfold_locales
  show "x \<in> set pipeline_mode_members" for x
    by (cases x) (simp_all add: pipeline_mode_members_def)
qed code_simp

interpretation ps: string_enum pipeline_state_members pipeline_state_value
proof unfold_locales
  show "x \<in> set pipeline_state_members" for x
    by (cases x) (simp_all add: pipeline_state_members_def)
qed code_simp

interpretation stg: string_enum task_stage_members task_stage_value
proof unfold_locales
  show "x \<in> set task_stage_members" for x
    by (cases x) (simp_all add: task_stage_members_def)
qed code_simp

interpretation pst: string_enum pipeline_status_members pipeline_status_value
proof unfold_locales
  show "x \<in> set pipeline_status_members" for x
    by (cases x) (simp_all add: pipeline_status_members_def)
qed code_simp

interpretation tst: string_enum task_status_members task_status_value
proof unfold_locales
  show "x \<in> set task_status_members" for x
    by (cases x) (simp_all add: task_status_members_def)
qed code_simp

interpretation exe: string_enum execution_status_members execution_status_value
proof unfold_locales
  show "x \<in> set execution_status_members" for x
    by (cases x) (simp_all add: execution_status_members_def)
qed code_simp

interpretation rts: string_enum runtime_stage_status_members runtime_stage_status_value
proof unfold_locales
  show "x \<in> set runtime_stage_status_members" for x
    by (cases x) (simp_all add: runtime_stage_status_members_def)
qed code_simp

interpretation vd: string_enum verdict_members verdict_value
proof unfold_locales
  show "x \<in> set verdict_members" for x
    by (cases x) (simp_all add: verdict_members_def)
qed code_simp

interpretation ok: string_enum task_outcome_kind_members task_outcome_kind_value
proof unfold_locales
  show "x \<in> set task_outcome_kind_members" for x
    by (cases x) (simp_all add: task_outcome_kind_members_def)
qed code_simp

interpretation fr: string_enum failed_reason_members failed_reason_value
proof unfold_locales
  show "x \<in> set failed_reason_members" for x
    by (cases x) (simp_all add: failed_reason_members_def)
qed code_simp

section \<open>Facts about the vocabulary\<close>

lemma canonical_value [simp, vocab_simps]:
  "canonical_pipeline_state (pipeline_state_value s) = Some s"
  by (simp add: canonical_pipeline_state_def ps.parse_val)

lemma canonical_iff: "canonical_pipeline_state n = Some s \<longleftrightarrow> n = pipeline_state_value s"
  by (auto simp: canonical_pipeline_state_def ps.parse_iff)

lemma pipeline_state_value_nonempty [simp, vocab_simps]: "pipeline_state_value s \<noteq> []"
  by (cases s) simp_all

lemma pipeline_state_value_inject [simp, vocab_simps]:
  "pipeline_state_value s = pipeline_state_value t \<longleftrightarrow> s = t"
  by (rule ps.val_inj)

lemma pipeline_stage_key_value [simp, vocab_simps]:
  "pipeline_stage_key (Some (pipeline_state_value s)) =
     Some (case task_stage_of s of None \<Rightarrow> KLabel (pipeline_state_value s) | Some t \<Rightarrow> KStage t)"
  by (simp add: pipeline_stage_key_def split: option.splits)

text \<open>The two projections agree: the operator status of a state is the name of its task stage.\<close>

lemma status_of_stage:
  "task_stage_of s = Some t \<Longrightarrow> pipeline_status_value (pipeline_status_of s) = task_stage_value t"
  by (cases s) auto

lemma primary_stage_idem [simp, vocab_simps]: "primary_stage (primary_stage s) = primary_stage s"
  by (cases s) simp_all

lemma task_stage_primary: "s \<noteq> MERGE_RESOLVING \<Longrightarrow> task_stage_of (primary_stage s) = task_stage_of s"
  by (cases s) simp_all

lemma before_phase_simps [simp, vocab_simps]:
  "before_phase ''grooming'' = Some BEFORE_GROOMING"
  "before_phase ''implementing'' = Some BEFORE_IMPLEMENTING"
  "before_phase ''testing'' = Some BEFORE_TESTING"
  "before_phase ''accepting'' = Some BEFORE_ACCEPTING"
  by (simp_all add: before_phase_def canonical_iff)

lemma after_phase_simps [simp, vocab_simps]:
  "after_phase ''grooming'' = Some AFTER_GROOMING"
  "after_phase ''implementing'' = Some AFTER_IMPLEMENTING"
  "after_phase ''testing'' = Some AFTER_TESTING"
  "after_phase ''accepting'' = Some AFTER_ACCEPTING"
  "after_phase ''commit'' = Some AFTER_COMMIT"
  by (simp_all add: after_phase_def canonical_iff)

end
