(* ===== verification/Py_Values.thy ===== *)
theory Py_Values
  imports Prelude
begin

text \<open>
  The dynamically typed values that ride in \<open>metadata\<close>, \<open>diagnostics\<close> and persisted payloads
  (\<open>dict[str, Any]\<close>): the JSON values of Python, with what the source asks of them: truth
  value, \<open>isinstance\<close>, \<open>str()\<close> and the conversions \<open>int()\<close> and \<open>dict()\<close>. A float carries the text
  Python prints for it beside its value, since the model does not recompute that text.
\<close>

datatype pyval =
    PyNone
  | PyBool bool
  | PyInt int
  | PyFloat rat string
  | PyStr string
  | PyList "pyval list"
  | PyDict "(string \<times> pyval) list"

fun truthy :: "pyval \<Rightarrow> bool" where
  "truthy PyNone = False"
| "truthy (PyBool b) = b"
| "truthy (PyInt i) = (i \<noteq> 0)"
| "truthy (PyFloat x _) = (x \<noteq> 0)"
| "truthy (PyStr s) = (s \<noteq> [])"
| "truthy (PyList xs) = (xs \<noteq> [])"
| "truthy (PyDict d) = (d \<noteq> [])"

text \<open>\<open>isinstance(v, int)\<close>: a \<open>bool\<close> is an \<open>int\<close> in Python.\<close>

fun as_int :: "pyval \<Rightarrow> int option" where
  "as_int (PyInt i) = Some i"
| "as_int (PyBool b) = Some (if b then 1 else 0)"
| "as_int _ = None"

fun as_str :: "pyval \<Rightarrow> string option" where
  "as_str (PyStr s) = Some s"
| "as_str _ = None"

fun as_list :: "pyval \<Rightarrow> pyval list option" where
  "as_list (PyList xs) = Some xs"
| "as_list _ = None"

fun as_dict :: "pyval \<Rightarrow> (string \<times> pyval) list option" where
  "as_dict (PyDict d) = Some d"
| "as_dict _ = None"

text \<open>\<open>d.get(k)\<close> and \<open>v or w\<close>.\<close>

definition py_get :: "string \<Rightarrow> (string, pyval) dict \<Rightarrow> pyval" where
  "py_get k d = dict_get k PyNone d"

definition py_or :: "pyval \<Rightarrow> pyval \<Rightarrow> pyval" where
  "py_or v w = (if truthy v then v else w)"

text \<open>\<open>repr\<close> of a string and of nested values, and \<open>str\<close>.\<close>

definition hex_digit :: "nat \<Rightarrow> char" where
  "hex_digit n = (if n < 10 then char_of (48 + n) else char_of (87 + n))"

definition repr_char :: "char \<Rightarrow> char \<Rightarrow> string" where
  "repr_char q c = (let n = (of_char c :: nat) in
     if c = q \<or> n = 92 then [char_of (92 :: nat), c]
     else if n = 10 then [char_of (92 :: nat), CHR ''n'']
     else if n = 13 then [char_of (92 :: nat), CHR ''r'']
     else if n = 9 then [char_of (92 :: nat), CHR ''t'']
     else if n < 32 \<or> (127 \<le> n \<and> n \<le> 160) \<or> n = 173
       then [char_of (92 :: nat), CHR ''x'', hex_digit (n div 16), hex_digit (n mod 16)]
     else [c])"

definition repr_str :: "string \<Rightarrow> string" where
  "repr_str s =
     (let sq = char_of (39 :: nat); dq = char_of (34 :: nat);
          q = (if sq \<in> set s \<and> dq \<notin> set s then dq else sq)
      in [q] @ concat (map (repr_char q) s) @ [q])"

fun py_repr :: "pyval \<Rightarrow> string" where
  "py_repr PyNone = ''None''"
| "py_repr (PyBool b) = (if b then ''True'' else ''False'')"
| "py_repr (PyInt i) = int_str i"
| "py_repr (PyFloat _ t) = t"
| "py_repr (PyStr s) = repr_str s"
| "py_repr (PyList xs) = ''['' @ py_join '', '' (map py_repr xs) @ '']''"
| "py_repr (PyDict d) = ''{'' @ py_join '', '' (map (\<lambda>(k, v). repr_str k @ '': '' @ py_repr v) d) @ ''}''"

fun py_str :: "pyval \<Rightarrow> string" where
  "py_str (PyStr s) = s"
| "py_str v = py_repr v"

text \<open>\<open>int(v)\<close>: truncation of floats; a string or a container is outside the model (\<open>None\<close>).\<close>

fun py_int :: "pyval \<Rightarrow> int option" where
  "py_int (PyInt i) = Some i"
| "py_int (PyBool b) = Some (if b then 1 else 0)"
| "py_int (PyFloat x _) = Some (if x < 0 then - \<lfloor>- x\<rfloor> else \<lfloor>x\<rfloor>)"
| "py_int _ = None"

definition opt_str_val :: "string option \<Rightarrow> pyval" where
  "opt_str_val s = (case s of None \<Rightarrow> PyNone | Some u \<Rightarrow> PyStr u)"

lemma py_get_Cons [simp]: "py_get k ((k', v) # d) = (if k = k' then v else py_get k d)"
  by (simp add: py_get_def dict_get_def)

lemma py_get_Nil [simp]: "py_get k [] = PyNone"
  by (simp add: py_get_def)

lemma truthy_as_str: "as_str v = Some s \<Longrightarrow> truthy v \<longleftrightarrow> s \<noteq> []"
  by (cases v) auto

lemma truthy_opt_str_val: "truthy (opt_str_val s) \<longleftrightarrow> (\<exists>u. s = Some u \<and> u \<noteq> [])"
  by (auto simp: opt_str_val_def split: option.splits)

end
