(* ===== verification/Recovery_Domain.thy ===== *)
theory Recovery_Domain
  imports Vocabulary Py_Values
begin

text \<open>
  \<open>litehive/domain/recovery.py\<close>: what sends a task into recovery (\<open>RecoveryTrigger\<close> with its
  \<open>FailureFingerprint\<close>), what came of it (\<open>RecoveryOutcome\<close>), the key under which recovery
  attempts are budgeted, and the encoding of "blocked on a follow-up task".
\<close>

datatype trigger_event_kind =
    Tek_REJECT | Tek_SEMANTIC_REJECT | Tek_BLOCKED | Tek_CRASH | Tek_TIMEOUT
  | Tek_STAGE_RETRY_LIMIT | Tek_RETRY_LIMIT | Tek_FLAGGED_TASK | Tek_STALE_RUNNER_RECOVERY
  | Tek_UNKNOWN

definition trigger_event_kind_members :: "trigger_event_kind list" where
  "trigger_event_kind_members =
    [Tek_REJECT, Tek_SEMANTIC_REJECT, Tek_BLOCKED, Tek_CRASH, Tek_TIMEOUT,
     Tek_STAGE_RETRY_LIMIT, Tek_RETRY_LIMIT, Tek_FLAGGED_TASK, Tek_STALE_RUNNER_RECOVERY,
     Tek_UNKNOWN]"

fun trigger_event_kind_value :: "trigger_event_kind \<Rightarrow> string" where
  "trigger_event_kind_value Tek_REJECT = ''reject''"
| "trigger_event_kind_value Tek_SEMANTIC_REJECT = ''semantic_reject''"
| "trigger_event_kind_value Tek_BLOCKED = ''blocked''"
| "trigger_event_kind_value Tek_CRASH = ''crash''"
| "trigger_event_kind_value Tek_TIMEOUT = ''timeout''"
| "trigger_event_kind_value Tek_STAGE_RETRY_LIMIT = ''stage_retry_limit''"
| "trigger_event_kind_value Tek_RETRY_LIMIT = ''retry_limit''"
| "trigger_event_kind_value Tek_FLAGGED_TASK = ''flagged_task''"
| "trigger_event_kind_value Tek_STALE_RUNNER_RECOVERY = ''stale_runner_recovery''"
| "trigger_event_kind_value Tek_UNKNOWN = ''unknown''"

datatype recovery_disposition = Rd_RESUMED | Rd_ADVANCED | Rd_COMPLETED | Rd_TERMINATED

definition recovery_disposition_members :: "recovery_disposition list" where
  "recovery_disposition_members = [Rd_RESUMED, Rd_ADVANCED, Rd_COMPLETED, Rd_TERMINATED]"

fun recovery_disposition_value :: "recovery_disposition \<Rightarrow> string" where
  "recovery_disposition_value Rd_RESUMED = ''resumed''"
| "recovery_disposition_value Rd_ADVANCED = ''advanced''"
| "recovery_disposition_value Rd_COMPLETED = ''completed''"
| "recovery_disposition_value Rd_TERMINATED = ''terminated''"

interpretation tek: string_enum trigger_event_kind_members trigger_event_kind_value
proof unfold_locales
  show "x \<in> set trigger_event_kind_members" for x
    by (cases x) (simp_all add: trigger_event_kind_members_def)
qed code_simp

interpretation rd: string_enum recovery_disposition_members recovery_disposition_value
proof unfold_locales
  show "x \<in> set recovery_disposition_members" for x
    by (cases x) (simp_all add: recovery_disposition_members_def)
qed code_simp

record failure_fingerprint =
  fingerprint :: string
  ff_classification :: "string option"
  ff_diagnostics :: "(string, pyval) dict"

definition fingerprint_budget_key :: "failure_fingerprint \<Rightarrow> string" where
  "fingerprint_budget_key f = opt_str_or (ff_classification f) (fingerprint f)"

record recovery_trigger =
  origin_stage :: "string option"
  trigger_kind :: trigger_event_kind
  trigger_fingerprint :: failure_fingerprint
  trigger_source :: "string option"
  trigger_reason_code :: "string option"
  trigger_message :: string
  trigger_diagnostics :: "(string, pyval) dict"

definition budget_key :: "recovery_trigger \<Rightarrow> string" where
  "budget_key t =
     opt_str_or (origin_stage t) ''<unknown>'' @ '':'' @ fingerprint_budget_key (trigger_fingerprint t)"

record recovery_outcome =
  outcome_trigger :: recovery_trigger
  recovery_verdict :: string
  disposition :: recovery_disposition
  outcome_reason_code :: "string option"
  outcome_message :: string
  outcome_created_at :: string

definition BLOCKED_ON_FOLLOW_UP_REASON_PREFIX :: string where
  "BLOCKED_ON_FOLLOW_UP_REASON_PREFIX = ''blocked_on_follow_up:''"

definition blocked_on_follow_up_reason :: "string \<Rightarrow> string" where
  "blocked_on_follow_up_reason task_id = BLOCKED_ON_FOLLOW_UP_REASON_PREFIX @ py_strip task_id"

definition parse_blocked_on_follow_up_reason :: "string option \<Rightarrow> string option" where
  "parse_blocked_on_follow_up_reason reason =
     (case reason of None \<Rightarrow> None
      | Some r \<Rightarrow>
          (let normalized = py_strip r in
           if \<not> starts_with normalized BLOCKED_ON_FOLLOW_UP_REASON_PREFIX then None
           else (let t = py_strip (removeprefix normalized BLOCKED_ON_FOLLOW_UP_REASON_PREFIX) in
                 if t = [] then None else Some t)))"

section \<open>Lemmas\<close>

lemma py_lstrip_nonspace: "\<not> is_space c \<Longrightarrow> py_lstrip (c # s) = c # s"
  by (simp add: py_lstrip_def)

lemma py_rstrip_append_strip:
  "py_rstrip p = p \<Longrightarrow> py_rstrip (p @ py_strip s) = p @ py_strip s"
proof (cases "rev (py_strip s)")
  case Nil
  then show "py_rstrip p = p \<Longrightarrow> py_rstrip (p @ py_strip s) = p @ py_strip s" by simp
next
  case (Cons c cs)
  have "rev (py_strip s) = dropWhile is_space (rev (py_lstrip s))"
    by (simp add: py_strip_def py_rstrip_def)
  with Cons have "\<not> is_space c" using hd_dropWhile [of is_space "rev (py_lstrip s)"] by auto
  with Cons show "py_rstrip (p @ py_strip s) = p @ py_strip s"
    by (simp add: py_rstrip_def)
qed

text \<open>Encoding a follow-up task id and parsing the reason gives the stripped id back.\<close>

lemma blocked_on_follow_up_strip:
  "py_strip (blocked_on_follow_up_reason t) = blocked_on_follow_up_reason t"
proof -
  have p: "py_rstrip BLOCKED_ON_FOLLOW_UP_REASON_PREFIX = BLOCKED_ON_FOLLOW_UP_REASON_PREFIX"
    by code_simp
  have l: "py_lstrip (BLOCKED_ON_FOLLOW_UP_REASON_PREFIX @ s) = BLOCKED_ON_FOLLOW_UP_REASON_PREFIX @ s" for s
    by (simp add: BLOCKED_ON_FOLLOW_UP_REASON_PREFIX_def py_lstrip_def is_space_def)
  show ?thesis
    using py_rstrip_append_strip [OF p]
    by (simp add: blocked_on_follow_up_reason_def py_strip_def [of "BLOCKED_ON_FOLLOW_UP_REASON_PREFIX @ _"] l)
qed

lemma budget_key_stage_value:
  "origin_stage t = Some (pipeline_state_value s) \<Longrightarrow>
   budget_key t = pipeline_state_value s @ '':'' @ fingerprint_budget_key (trigger_fingerprint t)"
  by (simp add: budget_key_def opt_str_or_def str_or_def)

end
