(* ===== verification/Events.thy ===== *)
theory Events
  imports Recovery_Domain
begin

text \<open>
  \<open>litehive/lifecycle/events.py\<close>: the sealed hierarchy of events a node hands to the state
  machine, one constructor per class, and the five properties the base class declares and the
  failure events override. \<open>event_class\<close> is the class an event is an instance of, which is all
  the rule table matches on.
\<close>

datatype reject_source = Src_agent | Src_hook | Src_guard | Src_system

fun reject_source_value :: "reject_source \<Rightarrow> string" where
  "reject_source_value Src_agent = ''agent''"
| "reject_source_value Src_hook = ''hook''"
| "reject_source_value Src_guard = ''guard''"
| "reject_source_value Src_system = ''system''"

datatype disposition_hint = Hint_resume | Hint_advance | Hint_done

fun disposition_hint_value :: "disposition_hint \<Rightarrow> string" where
  "disposition_hint_value Hint_resume = ''resume''"
| "disposition_hint_value Hint_advance = ''advance''"
| "disposition_hint_value Hint_done = ''done''"

datatype event =
    Pass "(string, pyval) dict"
  | HookOk "string list"
  | CleanState
  | NeedsPreExecRecovery
  | Reject reject_source string "string option" "(string, pyval) dict"
  | MergeConflictDetected "string list"
  | Blocked string
  | Crash string string
  | Timeout
  | StageRetryLimitHit pipeline_state
  | OverallRetryLimitHit
  | TaskTimeBudgetExceeded rat rat
  | RecoverySucceeded string disposition_hint
  | RecoveryFailed string
  | RecoveryBudgetHit
  | PreExecRecoverySucceeded pipeline_state
  | PreExecRecoveryFailed string
  | PreExecRecoveryBudgetHit

datatype event_class =
    EPass | EHookOk | ECleanState | ENeedsPreExecRecovery | EReject | EMergeConflictDetected
  | EBlocked | ECrash | ETimeout | EStageRetryLimitHit | EOverallRetryLimitHit
  | ETaskTimeBudgetExceeded | ERecoverySucceeded | ERecoveryFailed | ERecoveryBudgetHit
  | EPreExecRecoverySucceeded | EPreExecRecoveryFailed | EPreExecRecoveryBudgetHit

fun class_of :: "event \<Rightarrow> event_class" where
  "class_of (Pass _) = EPass"
| "class_of (HookOk _) = EHookOk"
| "class_of CleanState = ECleanState"
| "class_of NeedsPreExecRecovery = ENeedsPreExecRecovery"
| "class_of (Reject _ _ _ _) = EReject"
| "class_of (MergeConflictDetected _) = EMergeConflictDetected"
| "class_of (Blocked _) = EBlocked"
| "class_of (Crash _ _) = ECrash"
| "class_of Timeout = ETimeout"
| "class_of (StageRetryLimitHit _) = EStageRetryLimitHit"
| "class_of OverallRetryLimitHit = EOverallRetryLimitHit"
| "class_of (TaskTimeBudgetExceeded _ _) = ETaskTimeBudgetExceeded"
| "class_of (RecoverySucceeded _ _) = ERecoverySucceeded"
| "class_of (RecoveryFailed _) = ERecoveryFailed"
| "class_of RecoveryBudgetHit = ERecoveryBudgetHit"
| "class_of (PreExecRecoverySucceeded _) = EPreExecRecoverySucceeded"
| "class_of (PreExecRecoveryFailed _) = EPreExecRecoveryFailed"
| "class_of PreExecRecoveryBudgetHit = EPreExecRecoveryBudgetHit"

text \<open>\<open>type(event).__name__\<close>\<close>

fun class_name :: "event_class \<Rightarrow> string" where
  "class_name EPass = ''Pass''"
| "class_name EHookOk = ''HookOk''"
| "class_name ECleanState = ''CleanState''"
| "class_name ENeedsPreExecRecovery = ''NeedsPreExecRecovery''"
| "class_name EReject = ''Reject''"
| "class_name EMergeConflictDetected = ''MergeConflictDetected''"
| "class_name EBlocked = ''Blocked''"
| "class_name ECrash = ''Crash''"
| "class_name ETimeout = ''Timeout''"
| "class_name EStageRetryLimitHit = ''StageRetryLimitHit''"
| "class_name EOverallRetryLimitHit = ''OverallRetryLimitHit''"
| "class_name ETaskTimeBudgetExceeded = ''TaskTimeBudgetExceeded''"
| "class_name ERecoverySucceeded = ''RecoverySucceeded''"
| "class_name ERecoveryFailed = ''RecoveryFailed''"
| "class_name ERecoveryBudgetHit = ''RecoveryBudgetHit''"
| "class_name EPreExecRecoverySucceeded = ''PreExecRecoverySucceeded''"
| "class_name EPreExecRecoveryFailed = ''PreExecRecoveryFailed''"
| "class_name EPreExecRecoveryBudgetHit = ''PreExecRecoveryBudgetHit''"

definition SEMANTIC_REJECT_CLASSIFICATION :: string where
  "SEMANTIC_REJECT_CLASSIFICATION = ''semantic_reject''"

fun trigger_event_kind :: "event \<Rightarrow> trigger_event_kind" where
  "trigger_event_kind (Reject _ _ cls _) =
     (if cls = Some SEMANTIC_REJECT_CLASSIFICATION then Tek_SEMANTIC_REJECT else Tek_REJECT)"
| "trigger_event_kind (Blocked _) = Tek_BLOCKED"
| "trigger_event_kind (Crash _ _) = Tek_CRASH"
| "trigger_event_kind Timeout = Tek_TIMEOUT"
| "trigger_event_kind (StageRetryLimitHit _) = Tek_STAGE_RETRY_LIMIT"
| "trigger_event_kind OverallRetryLimitHit = Tek_RETRY_LIMIT"
| "trigger_event_kind _ = Tek_UNKNOWN"

fun failure_message :: "event \<Rightarrow> string" where
  "failure_message (Reject _ reason _ _) = reason"
| "failure_message (Blocked reason) = reason"
| "failure_message (Crash _ message) = message"
| "failure_message (StageRetryLimitHit stage) =
     ''Stage retry limit exhausted for '' @ pipeline_state_value stage"
| "failure_message OverallRetryLimitHit = ''Overall retry limit exhausted''"
| "failure_message (TaskTimeBudgetExceeded elapsed budget) =
     ''Task time budget exceeded before commit: '' @ fmt1 elapsed @ ''s elapsed, budget '' @
     fmt1 budget @ ''s''"
| "failure_message (RecoveryFailed reason) = reason"
| "failure_message _ = []"

fun failure_source :: "event \<Rightarrow> string option" where
  "failure_source (Reject src _ _ _) = Some (reject_source_value src)"
| "failure_source _ = None"

fun failure_diagnostics :: "event \<Rightarrow> (string, pyval) dict" where
  "failure_diagnostics (Reject _ _ _ meta) = meta"
| "failure_diagnostics (Crash exc_type _) = [(''exc_type'', PyStr exc_type)]"
| "failure_diagnostics (StageRetryLimitHit stage) = [(''stage'', PyStr (pipeline_state_value stage))]"
| "failure_diagnostics _ = []"

fun terminal_recovery_verdict :: "event \<Rightarrow> string option" where
  "terminal_recovery_verdict (Crash _ _) = Some ''crash''"
| "terminal_recovery_verdict Timeout = Some ''timeout''"
| "terminal_recovery_verdict (RecoveryFailed _) = Some ''failed''"
| "terminal_recovery_verdict RecoveryBudgetHit = Some ''budget_hit''"
| "terminal_recovery_verdict _ = None"

fun is_reject :: "event \<Rightarrow> bool" where
  "is_reject (Reject _ _ _ _) = True"
| "is_reject _ = False"

lemma is_reject_iff: "is_reject e \<longleftrightarrow> class_of e = EReject"
  by (cases e) auto

lemma class_of_EReject: "class_of e = EReject \<Longrightarrow> \<exists>src reason cls meta. e = Reject src reason cls meta"
  by (cases e) auto

fun_cases failure_source_SomeE: "failure_source e = Some s"

end
