(* ===== verification/Task_State.thy ===== *)
theory Task_State
  imports Events
begin

text \<open>
  The state the machine reads and writes, \<open>litehive/lifecycle/persistence.py\<close>: retry limits,
  the last agent report, hook fingerprints, remembered rejections, merge context, the
  rejection-loop counter, failed-run records and \<open>TaskState\<close> itself, with the recovery-budget
  decision that its methods make.
\<close>

record limits =
  stage_retry_limit :: int
  same_hook_reject_limit :: int
  rejection_loop_limit :: int
  same_engine_retry_limit :: int
  overall_retry_limit :: int
  grace_period_seconds :: int

definition default_limits :: limits where
  "default_limits = \<lparr>stage_retry_limit = 3, same_hook_reject_limit = 3, rejection_loop_limit = 3,
     same_engine_retry_limit = 3, overall_retry_limit = 30, grace_period_seconds = 120\<rparr>"

record last_report =
  files_changed :: int
  tests_added :: int
  changed_files :: "string list"
  test_results :: "string list"
  hook_ok :: bool

definition empty_report :: last_report where
  "empty_report = \<lparr>files_changed = 0, tests_added = 0, changed_files = [], test_results = [],
     hook_ok = False\<rparr>"

text \<open>\<open>point\<close>, \<open>command\<close> and \<open>fingerprint\<close> are copied from event metadata as they come.\<close>

record hook_fingerprint =
  hf_point :: string
  hf_command :: string
  hf_description :: string
  hf_fingerprint :: string

record last_rejection =
  rej_source :: string
  rej_reason :: string
  rej_raised_at_phase :: pipeline_state
  rej_classification :: "string option"

record merge_context =
  conflict_files :: "string list"
  merge_attempt :: int

record commit_result =
  head_sha :: string
  commit_reason :: pyval

record rejection_loop =
  rl_rejection_stage :: pipeline_state
  rl_retry_target_stage :: pipeline_state
  rl_count :: int

record failed_run_record =
  fr_stage :: pipeline_state
  fr_failure_shape :: string
  fr_count :: int
  fr_first_at :: "string option"
  fr_latest_at :: "string option"
  fr_last_reason :: string
  fr_source :: "string option"
  fr_classification :: "string option"
  fr_retry_limit :: "int option"
  fr_failed_reason :: "string option"
  fr_operator_override_count :: int
  fr_last_operator_override_at :: "string option"

definition failed_run_key :: "string \<Rightarrow> string \<Rightarrow> string" where
  "failed_run_key stage failure_shape = stage @ '':'' @ failure_shape"

definition record_key :: "failed_run_record \<Rightarrow> string" where
  "record_key r = failed_run_key (pipeline_state_value (fr_stage r)) (fr_failure_shape r)"

record task_state =
  task_id :: string
  stage :: pipeline_state
  mode :: pipeline_mode
  entry_stage :: "pipeline_state option"
  stage_retry :: "(pipeline_state, int) dict"
  active_recovery_trigger :: "recovery_trigger option"
  recovery_history :: "recovery_outcome list"
  recovery_budget_history_start :: int
  pre_exec_recovery_attempt :: int
  agent_elapsed_seconds :: rat
  merge_ctx :: "merge_context option"
  commit_res :: "commit_result option"
  report :: last_report
  last_rejection_by_stage :: "(pipeline_state, last_rejection) dict"
  failed_run_history :: "(string, failed_run_record) dict"
  rej_loop :: "rejection_loop option"
  consecutive_same_hook_rejects :: int
  last_hook_reject_fingerprint :: "hook_fingerprint option"
  hook_reject_recovery_invoked :: bool
  failed_reason_of :: "failed_reason option"
  failed_message :: "string option"
  recovery_failure_explanation :: "string option"
  lims :: limits

text \<open>A \<open>TaskState\<close> built from its four leading arguments, every other field at its default.\<close>

definition fresh_state ::
  "string \<Rightarrow> pipeline_state \<Rightarrow> pipeline_mode \<Rightarrow> pipeline_state option \<Rightarrow> limits \<Rightarrow> task_state" where
  "fresh_state tid st m entry l =
     \<lparr>task_id = tid, stage = st, mode = m, entry_stage = entry, stage_retry = [],
      active_recovery_trigger = None, recovery_history = [], recovery_budget_history_start = 0,
      pre_exec_recovery_attempt = 0, agent_elapsed_seconds = 0, merge_ctx = None,
      commit_res = None, report = empty_report, last_rejection_by_stage = [],
      failed_run_history = [], rej_loop = None, consecutive_same_hook_rejects = 0,
      last_hook_reject_fingerprint = None, hook_reject_recovery_invoked = False,
      failed_reason_of = None, failed_message = None, recovery_failure_explanation = None,
      lims = l\<rparr>"

section \<open>The recovery budget\<close>

text \<open>\<open>recovery_history[max(0, start):]\<close>\<close>

definition budget_recovery_history :: "task_state \<Rightarrow> recovery_outcome list" where
  "budget_recovery_history s =
     drop (nat (max 0 (recovery_budget_history_start s))) (recovery_history s)"

definition budget_window_unconsumed_for :: "task_state \<Rightarrow> recovery_trigger \<Rightarrow> bool" where
  "budget_window_unconsumed_for s t =
     list_all (\<lambda>oc. budget_key (outcome_trigger oc) \<noteq> budget_key t) (budget_recovery_history s)"

definition state_recovery_budget_available :: "task_state \<Rightarrow> recovery_trigger \<Rightarrow> bool" where
  "state_recovery_budget_available s t =
     (if trigger_reason_code t = Some ''hook_reject_loop'' then \<not> hook_reject_recovery_invoked s
      else budget_window_unconsumed_for s t)"

definition window_keys :: "task_state \<Rightarrow> string list" where
  "window_keys s = map (\<lambda>oc. budget_key (outcome_trigger oc)) (budget_recovery_history s)"

lemma unconsumed_iff: "budget_window_unconsumed_for s t \<longleftrightarrow> budget_key t \<notin> set (window_keys s)"
  unfolding budget_window_unconsumed_for_def window_keys_def list_all_iff set_map image_iff
  by metis

end
