(* ===== verification/Deltas.thy ===== *)
theory Deltas
  imports Task_State
begin

text \<open>
  \<open>litehive/domain/lifecycle_deltas.py\<close>: the typed patch a transition applies (\<open>StateDelta\<close>) and
  every effect function that builds one, with the projections of a failure event they share:
  the hook identity, the failure shape, the reason code, the fingerprint and the recovery trigger.

  The wall clock is an argument: \<open>clk 0\<close> is what \<open>utcnow()\<close> returns when a \<open>RecoveryOutcome\<close> is
  built and \<open>clk 1\<close> when a \<open>FailedRunRecord\<close> is.
\<close>

record state_delta =
  inc_stage_retry :: "pipeline_state option"
  reset_stage_retry :: "pipeline_state option"
  set_active_recovery_trigger :: "recovery_trigger option"
  clear_active_recovery_trigger :: bool
  append_recovery_outcome :: "recovery_outcome option"
  inc_pre_exec_recovery_attempt :: bool
  set_merge_context :: "merge_context option"
  clear_merge_context :: bool
  set_last_rejection :: "(pipeline_state \<times> last_rejection) option"
  set_rejection_loop :: "rejection_loop option"
  clear_rejection_loop :: bool
  set_consecutive_same_hook_rejects :: "int option"
  set_last_hook_reject_fingerprint :: "hook_fingerprint option"
  clear_hook_reject_tracking :: bool
  set_hook_reject_recovery_invoked :: "bool option"
  delta_failed_reason :: "failed_reason option"
  delta_failed_message :: "string option"
  set_recovery_failure_explanation :: "string option"
  clear_recovery_failure_explanation :: bool
  delta_record_failed_run :: "failed_run_record option"

definition EMPTY_DELTA :: state_delta where
  "EMPTY_DELTA =
     \<lparr>inc_stage_retry = None, reset_stage_retry = None, set_active_recovery_trigger = None,
      clear_active_recovery_trigger = False, append_recovery_outcome = None,
      inc_pre_exec_recovery_attempt = False, set_merge_context = None, clear_merge_context = False,
      set_last_rejection = None, set_rejection_loop = None, clear_rejection_loop = False,
      set_consecutive_same_hook_rejects = None, set_last_hook_reject_fingerprint = None,
      clear_hook_reject_tracking = False, set_hook_reject_recovery_invoked = None,
      delta_failed_reason = None, delta_failed_message = None,
      set_recovery_failure_explanation = None, clear_recovery_failure_explanation = False,
      delta_record_failed_run = None\<rparr>"

section \<open>Projections of a failure event\<close>

fun rejection_from_event :: "task_state \<Rightarrow> event \<Rightarrow> last_rejection option" where
  "rejection_from_event s (Reject src reason cls _) =
     Some \<lparr>rej_source = reject_source_value src, rej_reason = reason,
           rej_raised_at_phase = stage s, rej_classification = cls\<rparr>"
| "rejection_from_event _ _ = None"

definition normalized_failure_text :: "string \<Rightarrow> string" where
  "normalized_failure_text value =
     (let text = py_join '' '' (py_split (py_lower value)) in str_or (take 160 text) ''unknown'')"

text \<open>
  A hook reject carries its identity in \<open>metadata["hook"]\<close>. Every producer writes strings there;
  a truthy value of another type is read through \<open>str()\<close>.
\<close>

fun hook_fingerprint_from_event :: "event \<Rightarrow> hook_fingerprint option" where
  "hook_fingerprint_from_event (Reject src _ _ meta) =
     (if src \<noteq> Src_hook then None
      else (case as_dict (py_get ''hook'' meta) of
              None \<Rightarrow> None
            | Some hook \<Rightarrow>
                (let pt = py_get ''point'' hook; cmd = py_get ''command'' hook;
                     fp = py_get ''fingerprint'' hook in
                 if \<not> truthy pt \<or> \<not> truthy cmd \<or> \<not> truthy fp then None
                 else Some \<lparr>hf_point = py_str pt, hf_command = py_str cmd,
                            hf_description = py_str (py_or (py_get ''description'' hook) (PyStr [])),
                            hf_fingerprint = py_str fp\<rparr>)))"
| "hook_fingerprint_from_event _ = None"

fun hook_reject_loop_detected :: "task_state \<Rightarrow> event \<Rightarrow> bool" where
  "hook_reject_loop_detected s (Reject src _ _ meta) =
     (src = Src_hook \<and>
      (case as_int (py_get ''consecutive_same_hook_rejects'' meta) of
         None \<Rightarrow> False | Some count \<Rightarrow> count \<ge> same_hook_reject_limit (lims s)))"
| "hook_reject_loop_detected _ _ = False"

definition nonblank_str :: "pyval \<Rightarrow> string option" where
  "nonblank_str v = (case as_str v of None \<Rightarrow> None
                     | Some u \<Rightarrow> if py_strip u = [] then None else Some u)"

fun event_failure_shape :: "event \<Rightarrow> string" where
  "event_failure_shape (Reject src reason cls meta) =
     (case hook_fingerprint_from_event (Reject src reason cls meta) of
        Some hook \<Rightarrow> ''hook:'' @ normalized_failure_text (hf_fingerprint hook)
      | None \<Rightarrow>
          reject_source_value src @ '':'' @ normalized_failure_text
            (case nonblank_str (py_or (opt_str_val cls) (py_get ''verdict_classification'' meta)) of
               Some c \<Rightarrow> c
             | None \<Rightarrow> (case nonblank_str (py_get ''reason_code'' meta) of
                          Some c \<Rightarrow> c | None \<Rightarrow> reason)))"
| "event_failure_shape (StageRetryLimitHit _) = ''system:stage_retry_limit''"
| "event_failure_shape e = normalized_failure_text (class_name (class_of e))"

fun reason_code_from_event :: "task_state \<Rightarrow> event \<Rightarrow> string option" where
  "reason_code_from_event s (Reject src reason cls meta) =
     (if hook_reject_loop_detected s (Reject src reason cls meta) then Some ''hook_reject_loop''
      else map_option py_strip (nonblank_str (py_or (py_get ''reason_code'' meta) (opt_str_val cls))))"
| "reason_code_from_event _ _ = None"

fun plain_fingerprint :: "task_state \<Rightarrow> event \<Rightarrow> failure_fingerprint" where
  "plain_fingerprint s (Reject src reason cls meta) =
     \<lparr>fingerprint = reject_source_value src @ '':'' @ reason,
      ff_classification =
        Some (opt_str_or cls (opt_str_or (reason_code_from_event s (Reject src reason cls meta))
                (reject_source_value src @ ''_reject''))),
      ff_diagnostics = [(''source'', PyStr (reject_source_value src))]\<rparr>"
| "plain_fingerprint s (Crash exc_type message) =
     \<lparr>fingerprint = exc_type @ '':'' @ message, ff_classification = Some exc_type,
      ff_diagnostics = [(''exc_type'', PyStr exc_type)]\<rparr>"
| "plain_fingerprint s (Blocked reason) =
     \<lparr>fingerprint = ''blocked:'' @ reason, ff_classification = Some ''blocked'',
      ff_diagnostics = []\<rparr>"
| "plain_fingerprint s Timeout =
     \<lparr>fingerprint = ''timeout'', ff_classification = Some ''timeout'', ff_diagnostics = []\<rparr>"
| "plain_fingerprint s (StageRetryLimitHit st) =
     \<lparr>fingerprint = ''stage_retry_limit:'' @ pipeline_state_value st,
      ff_classification = Some ''stage_retry_limit'',
      ff_diagnostics = [(''stage'', PyStr (pipeline_state_value st))]\<rparr>"
| "plain_fingerprint s OverallRetryLimitHit =
     \<lparr>fingerprint = ''retry_limit'', ff_classification = Some ''retry_limit'', ff_diagnostics = []\<rparr>"
| "plain_fingerprint s e =
     \<lparr>fingerprint = py_lower (class_name (class_of e)), ff_classification = None,
      ff_diagnostics = []\<rparr>"

definition fingerprint_from_event :: "task_state \<Rightarrow> event \<Rightarrow> failure_fingerprint" where
  "fingerprint_from_event s e =
     (case hook_fingerprint_from_event e of
        Some hook \<Rightarrow>
          \<lparr>fingerprint = hf_fingerprint hook, ff_classification = Some ''hook_reject'',
           ff_diagnostics = [(''point'', PyStr (hf_point hook)), (''command'', PyStr (hf_command hook)),
                             (''description'', PyStr (hf_description hook))]\<rparr>
      | None \<Rightarrow> plain_fingerprint s e)"

definition recovery_trigger_from_event :: "task_state \<Rightarrow> event \<Rightarrow> recovery_trigger" where
  "recovery_trigger_from_event s e =
     \<lparr>origin_stage = Some (pipeline_state_value (stage s)),
      trigger_kind = trigger_event_kind e,
      trigger_fingerprint = fingerprint_from_event s e,
      trigger_source = failure_source e,
      trigger_reason_code = reason_code_from_event s e,
      trigger_message = failure_message e,
      trigger_diagnostics = failure_diagnostics e\<rparr>"

section \<open>Stage keys and counters\<close>

definition delta_stage_key :: "string option \<Rightarrow> stage_key option" where
  "delta_stage_key name = (if name = Some [] then None else pipeline_stage_key name)"

definition retry_counter_stage :: "string option \<Rightarrow> pipeline_state option" where
  "retry_counter_stage origin =
     (case delta_stage_key origin of
        Some (KStage t) \<Rightarrow> Some (retry_counter_state t)
      | _ \<Rightarrow> (case origin of None \<Rightarrow> None | Some name \<Rightarrow> canonical_pipeline_state name))"

definition stage_key_of :: "pipeline_state \<Rightarrow> stage_key option" where
  "stage_key_of st = delta_stage_key (Some (pipeline_state_value st))"

section \<open>Loop counters\<close>

definition hook_reject_delta :: "task_state \<Rightarrow> event \<Rightarrow> bool option \<Rightarrow> state_delta" where
  "hook_reject_delta s e recovery_invoked =
     (case hook_fingerprint_from_event e of
        None \<Rightarrow>
          EMPTY_DELTA \<lparr>clear_hook_reject_tracking := True,
            set_hook_reject_recovery_invoked :=
              Some (case recovery_invoked of None \<Rightarrow> False | Some b \<Rightarrow> b)\<rparr>
      | Some fp \<Rightarrow>
          (let same_as_last = (case last_hook_reject_fingerprint s of None \<Rightarrow> False
                               | Some l \<Rightarrow> hf_fingerprint l = hf_fingerprint fp);
               count = (if same_as_last then consecutive_same_hook_rejects s + 1 else 1)
           in EMPTY_DELTA \<lparr>set_consecutive_same_hook_rejects := Some count,
                set_last_hook_reject_fingerprint := Some fp,
                set_hook_reject_recovery_invoked :=
                  Some (case recovery_invoked of Some b \<Rightarrow> b
                        | None \<Rightarrow> hook_reject_recovery_invoked s)\<rparr>))"

definition next_rejection_loop ::
  "task_state \<Rightarrow> event \<Rightarrow> pipeline_state option \<Rightarrow> rejection_loop option" where
  "next_rejection_loop s e retry_target =
     (case e of
        Reject src _ _ _ \<Rightarrow>
          (if src \<noteq> Src_agent then None
           else (case (stage_key_of (stage s), map_option stage_key_of retry_target) of
                   (Some (KStage r), Some (Some (KStage t))) \<Rightarrow>
                     (if r \<notin> {Stg_TESTING, Stg_ACCEPTING} \<or> t \<noteq> Stg_IMPLEMENTING then None
                      else (case (canonical_pipeline_state (task_stage_value r),
                                  canonical_pipeline_state (task_stage_value t)) of
                              (Some rs, Some ts) \<Rightarrow>
                                Some \<lparr>rl_rejection_stage = rs, rl_retry_target_stage = ts,
                                      rl_count =
                                        (case rej_loop s of None \<Rightarrow> 1
                                         | Some l \<Rightarrow>
                                             if rl_rejection_stage l = rs \<and> rl_retry_target_stage l = ts
                                             then rl_count l + 1 else 1)\<rparr>
                            | _ \<Rightarrow> None))
                 | _ \<Rightarrow> None))
      | _ \<Rightarrow> None)"

definition rejection_loop_detected :: "task_state \<Rightarrow> event \<Rightarrow> pipeline_state option \<Rightarrow> bool" where
  "rejection_loop_detected s e retry_target =
     (case next_rejection_loop s e retry_target of
        None \<Rightarrow> False | Some l \<Rightarrow> rl_count l \<ge> rejection_loop_limit (lims s))"

definition rejection_loop_delta :: "task_state \<Rightarrow> event \<Rightarrow> pipeline_state option \<Rightarrow> state_delta" where
  "rejection_loop_delta s e retry_target =
     (case next_rejection_loop s e retry_target of
        None \<Rightarrow> EMPTY_DELTA \<lparr>clear_rejection_loop := True\<rparr>
      | Some l \<Rightarrow> EMPTY_DELTA \<lparr>set_rejection_loop := Some l\<rparr>)"

end
