(* ===== verification/Effects.thy ===== *)
theory Effects
  imports Deltas
begin

text \<open>
  The effect functions of \<open>litehive/domain/lifecycle_deltas.py\<close>, each from a state and an event to
  the \<open>StateDelta\<close> that the runner applies. A row of the rule table holds its effect as a function.
\<close>

section \<open>Entering and leaving recovery\<close>

definition enter_recovery :: "task_state \<Rightarrow> event \<Rightarrow> state_delta" where
  "enter_recovery s e =
     (let hd = hook_reject_delta s e (if hook_reject_loop_detected s e then Some True else None)
      in EMPTY_DELTA
         \<lparr>set_active_recovery_trigger := Some (recovery_trigger_from_event s e),
          set_consecutive_same_hook_rejects := set_consecutive_same_hook_rejects hd,
          set_last_hook_reject_fingerprint := set_last_hook_reject_fingerprint hd,
          clear_hook_reject_tracking := clear_hook_reject_tracking hd,
          set_hook_reject_recovery_invoked := set_hook_reject_recovery_invoked hd,
          clear_rejection_loop := True,
          clear_recovery_failure_explanation := True\<rparr>)"

definition enter_pre_exec_recovery :: "task_state \<Rightarrow> event \<Rightarrow> state_delta" where
  "enter_pre_exec_recovery s e = EMPTY_DELTA \<lparr>inc_pre_exec_recovery_attempt := True\<rparr>"

text \<open>Optional keys are compared as the strings Python compares.\<close>

definition key_neq :: "stage_key option \<Rightarrow> stage_key option \<Rightarrow> bool" where
  "key_neq a b = (map_option key_str a \<noteq> map_option key_str b)"

fun hook_recovery_made_progress :: "recovery_trigger option \<Rightarrow> event \<Rightarrow> bool" where
  "hook_recovery_made_progress (Some t) (RecoverySucceeded resume _) =
     (trigger_reason_code t = Some ''hook_reject_loop'' \<and>
      (let target = delta_stage_key (Some resume); origin = delta_stage_key (origin_stage t) in
       resume = ''done'' \<or> (target \<noteq> None \<and> key_neq target origin)))"
| "hook_recovery_made_progress _ _ = False"

fun hint_disposition :: "disposition_hint \<Rightarrow> recovery_disposition" where
  "hint_disposition Hint_resume = Rd_RESUMED"
| "hint_disposition Hint_advance = Rd_ADVANCED"
| "hint_disposition Hint_done = Rd_COMPLETED"

fun recovery_success_outcome ::
  "(nat \<Rightarrow> string) \<Rightarrow> recovery_trigger option \<Rightarrow> event \<Rightarrow> recovery_outcome option" where
  "recovery_success_outcome clk (Some t) (RecoverySucceeded resume hint) =
     Some \<lparr>outcome_trigger = t, recovery_verdict = disposition_hint_value hint,
           disposition = hint_disposition hint, outcome_reason_code = None,
           outcome_message = ''Recovery '' @ disposition_hint_value hint @ ''d task via '' @ resume,
           outcome_created_at = clk 0\<rparr>"
| "recovery_success_outcome _ _ _ = None"

definition record_recovery_success ::
  "(nat \<Rightarrow> string) \<Rightarrow> task_state \<Rightarrow> event \<Rightarrow> state_delta" where
  "record_recovery_success clk s e =
     (let trigger = active_recovery_trigger s;
          hook_loop = (case trigger of None \<Rightarrow> False
                       | Some t \<Rightarrow> trigger_reason_code t = Some ''hook_reject_loop'');
          preserve = (hook_loop \<and> \<not> hook_recovery_made_progress trigger e);
          origin = (case trigger of None \<Rightarrow> None | Some t \<Rightarrow> origin_stage t)
      in EMPTY_DELTA
         \<lparr>reset_stage_retry := retry_counter_stage origin,
          clear_active_recovery_trigger := True,
          append_recovery_outcome := recovery_success_outcome clk trigger e,
          clear_hook_reject_tracking := \<not> preserve,
          set_hook_reject_recovery_invoked := Some preserve,
          clear_rejection_loop := True,
          clear_recovery_failure_explanation := True\<rparr>)"

section \<open>Rejections that retry or bounce\<close>

definition rejection_tracking_delta ::
  "task_state \<Rightarrow> event \<Rightarrow> pipeline_state \<Rightarrow> bool \<Rightarrow> pipeline_state option \<Rightarrow> state_delta" where
  "rejection_tracking_delta s e st increment_retry retry_target =
     (let hd = hook_reject_delta s e (Some False); ld = rejection_loop_delta s e retry_target
      in EMPTY_DELTA
         \<lparr>inc_stage_retry := (if increment_retry then Some st else None),
          set_last_rejection := map_option (Pair st) (rejection_from_event s e),
          set_rejection_loop := set_rejection_loop ld,
          clear_rejection_loop := clear_rejection_loop ld,
          set_consecutive_same_hook_rejects := set_consecutive_same_hook_rejects hd,
          set_last_hook_reject_fingerprint := set_last_hook_reject_fingerprint hd,
          clear_hook_reject_tracking := clear_hook_reject_tracking hd,
          set_hook_reject_recovery_invoked := set_hook_reject_recovery_invoked hd\<rparr>)"

definition IncStageRetry_call ::
  "pipeline_state \<Rightarrow> pipeline_state option \<Rightarrow> task_state \<Rightarrow> event \<Rightarrow> state_delta" where
  "IncStageRetry_call st retry_target s e = rejection_tracking_delta s e st True retry_target"

definition RememberRejection_call ::
  "pipeline_state \<Rightarrow> pipeline_state option \<Rightarrow> task_state \<Rightarrow> event \<Rightarrow> state_delta" where
  "RememberRejection_call st retry_target s e = rejection_tracking_delta s e st False retry_target"

definition FailRejectionLoop_call ::
  "pipeline_state \<Rightarrow> pipeline_state \<Rightarrow> task_state \<Rightarrow> event \<Rightarrow> state_delta" where
  "FailRejectionLoop_call st retry_target s e =
     (let ld = rejection_loop_delta s e (Some retry_target)
      in EMPTY_DELTA
         \<lparr>set_last_rejection := map_option (Pair st) (rejection_from_event s e),
          set_rejection_loop := set_rejection_loop ld,
          clear_rejection_loop := clear_rejection_loop ld,
          delta_failed_reason := Some REJECTION_LOOP_DETECTED,
          delta_failed_message := Some (case e of Reject _ reason _ _ \<Rightarrow> reason | _ \<Rightarrow> [])\<rparr>)"

definition clear_completed_rejection_loop :: "task_state \<Rightarrow> event \<Rightarrow> state_delta" where
  "clear_completed_rejection_loop s e =
     (case rej_loop s of None \<Rightarrow> EMPTY_DELTA
      | Some l \<Rightarrow>
          if map_option key_str (stage_key_of (stage s)) \<noteq>
             Some (pipeline_state_value (rl_rejection_stage l))
          then EMPTY_DELTA else EMPTY_DELTA \<lparr>clear_rejection_loop := True\<rparr>)"

definition stash_conflict_files :: "task_state \<Rightarrow> event \<Rightarrow> state_delta" where
  "stash_conflict_files s e =
     (case e of
        MergeConflictDetected files \<Rightarrow>
          EMPTY_DELTA \<lparr>set_merge_context :=
            Some \<lparr>conflict_files = files,
                  merge_attempt = (case merge_ctx s of None \<Rightarrow> 0 | Some c \<Rightarrow> merge_attempt c) + 1\<rparr>\<rparr>
      | _ \<Rightarrow> EMPTY_DELTA)"

section \<open>Terminal failures\<close>

definition stage_retry_exhausted_record ::
  "(nat \<Rightarrow> string) \<Rightarrow> task_state \<Rightarrow> event \<Rightarrow> failed_reason \<Rightarrow> string \<Rightarrow> failed_run_record option" where
  "stage_retry_exhausted_record clk s e reason message =
     (if reason \<noteq> SEMANTIC_REJECT then None
      else (case retry_counter_stage (Some (pipeline_state_value (stage s))) of
              None \<Rightarrow> None
            | Some counter \<Rightarrow>
                if dict_get counter 0 (stage_retry s) < stage_retry_limit (lims s) then None
                else Some
                  \<lparr>fr_stage = counter, fr_failure_shape = event_failure_shape e, fr_count = 1,
                   fr_first_at = Some (clk 1), fr_latest_at = Some (clk 1), fr_last_reason = message,
                   fr_source =
                     (case e of Reject src _ _ _ \<Rightarrow> Some (reject_source_value src) | _ \<Rightarrow> None),
                   fr_classification = (case e of Reject _ _ cls _ \<Rightarrow> cls | _ \<Rightarrow> None),
                   fr_retry_limit = Some (stage_retry_limit (lims s)),
                   fr_failed_reason = Some (failed_reason_value reason),
                   fr_operator_override_count = 0, fr_last_operator_override_at = None\<rparr>))"

definition recovery_verdict_for_terminal_event :: "event \<Rightarrow> failed_reason \<Rightarrow> string" where
  "recovery_verdict_for_terminal_event e reason =
     (case terminal_recovery_verdict e of Some v \<Rightarrow> v | None \<Rightarrow> failed_reason_value reason)"

definition bq :: string where
  "bq = [char_of (96 :: nat)]"

definition quoted :: "string \<Rightarrow> string" where
  "quoted s = bq @ s @ bq"

definition message_suffix :: "string \<Rightarrow> string" where
  "message_suffix message = (if message \<noteq> [] then '': '' @ message else ''.'')"

definition recovery_failure_explanation_for ::
  "recovery_trigger \<Rightarrow> failed_reason \<Rightarrow> string \<Rightarrow> string" where
  "recovery_failure_explanation_for t reason message =
     (let subject = opt_str_or (origin_stage t) ''unknown stage'' in
      case parse_blocked_on_follow_up_reason (Some message) of
        Some follow_up \<Rightarrow>
          ''Recovery attributed '' @ quoted subject @
          '' to unrelated breakage and blocked the current task on follow-up '' @
          quoted follow_up @ ''.''
      | None \<Rightarrow>
          if reason = RECOVERY_BUDGET_HIT then
            ''Recovery budget exhausted for '' @ quoted subject @ '' after repeated '' @
            quoted (trigger_event_kind_value (trigger_kind t)) @ '' failures with fingerprint '' @
            quoted (fingerprint_budget_key (trigger_fingerprint t)) @ ''.''
          else if reason = RECOVERY_CRASHED then
            ''Recovery agent crashed while handling '' @ quoted subject @ message_suffix message
          else
            ''Recovery could not restore a runnable path for '' @ quoted subject @
            message_suffix message)"

text \<open>The \<open>RecoveryOutcome\<close> and explanation of a failure inside \<open>RECOVERING\<close>.\<close>

definition terminated_outcome ::
  "(nat \<Rightarrow> string) \<Rightarrow> recovery_trigger \<Rightarrow> string \<Rightarrow> failed_reason \<Rightarrow> string \<Rightarrow> recovery_outcome" where
  "terminated_outcome clk t verdict reason message =
     \<lparr>outcome_trigger = t, recovery_verdict = verdict, disposition = Rd_TERMINATED,
      outcome_reason_code = Some (failed_reason_value reason), outcome_message = message,
      outcome_created_at = clk 0\<rparr>"

definition Fail_call ::
  "failed_reason \<Rightarrow> (nat \<Rightarrow> string) \<Rightarrow> task_state \<Rightarrow> event \<Rightarrow> state_delta" where
  "Fail_call reason clk s e =
     (let hd = (if is_reject e then hook_reject_delta s e None else EMPTY_DELTA);
          message = failure_message e;
          trigger = (if stage s = RECOVERING then active_recovery_trigger s else None)
      in EMPTY_DELTA
         \<lparr>set_last_rejection := map_option (Pair (stage s)) (rejection_from_event s e),
          set_consecutive_same_hook_rejects := set_consecutive_same_hook_rejects hd,
          set_last_hook_reject_fingerprint := set_last_hook_reject_fingerprint hd,
          clear_hook_reject_tracking := clear_hook_reject_tracking hd,
          set_hook_reject_recovery_invoked := set_hook_reject_recovery_invoked hd,
          delta_failed_reason := Some reason,
          delta_failed_message := Some message,
          delta_record_failed_run := stage_retry_exhausted_record clk s e reason message,
          append_recovery_outcome :=
            map_option (\<lambda>t. terminated_outcome clk t
                (recovery_verdict_for_terminal_event e reason) reason message) trigger,
          clear_active_recovery_trigger := (stage s = RECOVERING),
          clear_rejection_loop := True,
          set_recovery_failure_explanation :=
            map_option (\<lambda>t. recovery_failure_explanation_for t reason message) trigger\<rparr>)"

definition exhaust_recovery_budget ::
  "(nat \<Rightarrow> string) \<Rightarrow> task_state \<Rightarrow> event \<Rightarrow> state_delta" where
  "exhaust_recovery_budget clk s e =
     (let t = recovery_trigger_from_event s e in
      EMPTY_DELTA
        \<lparr>delta_failed_reason := Some RECOVERY_BUDGET_HIT,
         delta_failed_message := Some (trigger_message t),
         append_recovery_outcome :=
           Some (terminated_outcome clk t ''budget_hit'' RECOVERY_BUDGET_HIT (trigger_message t)),
         set_recovery_failure_explanation :=
           Some (recovery_failure_explanation_for t RECOVERY_BUDGET_HIT (trigger_message t)),
         clear_rejection_loop := True\<rparr>)"

end
