(* ===== verification/Guards.thy ===== *)
theory Guards
  imports Effects
begin

text \<open>
  \<open>litehive/lifecycle/guards.py\<close>: the composable predicates of the rule table. A \<open>Guard\<close> is a
  predicate on state and event with the description the rule listings print.
\<close>

record guard =
  guard_fn :: "task_state \<Rightarrow> event \<Rightarrow> bool"
  guard_description :: string

definition guard_call :: "guard \<Rightarrow> task_state \<Rightarrow> event \<Rightarrow> bool" where
  "guard_call g s e = guard_fn g s e"

definition guard_and :: "guard \<Rightarrow> guard \<Rightarrow> guard" where
  "guard_and g h =
     \<lparr>guard_fn = (\<lambda>s e. guard_fn g s e \<and> guard_fn h s e),
      guard_description = ''('' @ guard_description g @ '' AND '' @ guard_description h @ '')''\<rparr>"

definition guard_or :: "guard \<Rightarrow> guard \<Rightarrow> guard" where
  "guard_or g h =
     \<lparr>guard_fn = (\<lambda>s e. guard_fn g s e \<or> guard_fn h s e),
      guard_description = ''('' @ guard_description g @ '' OR '' @ guard_description h @ '')''\<rparr>"

definition guard_not :: "guard \<Rightarrow> guard" where
  "guard_not g =
     \<lparr>guard_fn = (\<lambda>s e. \<not> guard_fn g s e),
      guard_description = ''NOT ('' @ guard_description g @ '')''\<rparr>"

definition mode_guard :: "pipeline_mode \<Rightarrow> guard" where
  "mode_guard m =
     \<lparr>guard_fn = (\<lambda>s e. mode s = m), guard_description = ''mode='' @ pipeline_mode_value m\<rparr>"

definition stage_retries_remaining :: "pipeline_state \<Rightarrow> guard" where
  "stage_retries_remaining st =
     \<lparr>guard_fn = (\<lambda>s e. dict_get st 0 (stage_retry s) < stage_retry_limit (lims s)),
      guard_description = ''stage_retries_remaining('' @ pipeline_state_value st @ '')''\<rparr>"

definition stage_retries_exhausted :: "pipeline_state \<Rightarrow> guard" where
  "stage_retries_exhausted st =
     \<lparr>guard_fn = (\<lambda>s e. dict_get st 0 (stage_retry s) \<ge> stage_retry_limit (lims s)),
      guard_description = ''stage_retries_exhausted('' @ pipeline_state_value st @ '')''\<rparr>"

definition last_hook_ok :: guard where
  "last_hook_ok =
     \<lparr>guard_fn = (\<lambda>s e. hook_ok (report s)), guard_description = ''last_hook_ok''\<rparr>"

definition hook_reject_loop_guard :: guard where
  "hook_reject_loop_guard =
     \<lparr>guard_fn = (\<lambda>s e. case e of
          Reject src _ _ meta \<Rightarrow>
            (if src \<noteq> Src_hook then False
             else (case as_int (py_get ''consecutive_same_hook_rejects'' meta) of
                     None \<Rightarrow> False | Some count \<Rightarrow> count \<ge> same_hook_reject_limit (lims s)))
        | _ \<Rightarrow> False),
      guard_description = ''hook_reject_loop_detected''\<rparr>"

definition rejection_loop_guard :: "pipeline_state \<Rightarrow> guard" where
  "rejection_loop_guard target =
     \<lparr>guard_fn = (\<lambda>s e. rejection_loop_detected s e (Some target)),
      guard_description = ''rejection_loop_detected('' @ pipeline_state_value target @ '')''\<rparr>"

definition zero_change_shortcut :: guard where
  "zero_change_shortcut =
     \<lparr>guard_fn = (\<lambda>s e. files_changed (report s) = 0 \<and> tests_added (report s) = 0),
      guard_description = ''zero_change_shortcut''\<rparr>"

definition pre_exec_budget_remaining :: guard where
  "pre_exec_budget_remaining =
     \<lparr>guard_fn = (\<lambda>s e. pre_exec_recovery_attempt s < 1),
      guard_description = ''pre_exec_budget_remaining''\<rparr>"

definition recovery_budget_available :: guard where
  "recovery_budget_available =
     \<lparr>guard_fn = (\<lambda>s e. state_recovery_budget_available s (recovery_trigger_from_event s e)),
      guard_description = ''recovery_budget_available''\<rparr>"

definition recovery_budget_exhausted :: guard where
  "recovery_budget_exhausted = guard_not recovery_budget_available"

definition recovery_resume_is_concrete :: guard where
  "recovery_resume_is_concrete =
     \<lparr>guard_fn = (\<lambda>s e. case e of RecoverySucceeded resume _ \<Rightarrow> py_strip resume \<noteq> []
                              | _ \<Rightarrow> False),
      guard_description = ''recovery_resume_is_concrete''\<rparr>"

definition always_guard :: guard where
  "always_guard = \<lparr>guard_fn = (\<lambda>s e. True), guard_description = ''always''\<rparr>"

lemma guard_fn_simps [simp]:
  "guard_fn (guard_and g h) s e \<longleftrightarrow> guard_fn g s e \<and> guard_fn h s e"
  "guard_fn (guard_or g h) s e \<longleftrightarrow> guard_fn g s e \<or> guard_fn h s e"
  "guard_fn (guard_not g) s e \<longleftrightarrow> \<not> guard_fn g s e"
  "guard_fn (mode_guard m) s e \<longleftrightarrow> mode s = m"
  "guard_fn (stage_retries_remaining st) s e \<longleftrightarrow>
     dict_get st 0 (stage_retry s) < stage_retry_limit (lims s)"
  "guard_fn (stage_retries_exhausted st) s e \<longleftrightarrow>
     \<not> dict_get st 0 (stage_retry s) < stage_retry_limit (lims s)"
  "guard_fn last_hook_ok s e \<longleftrightarrow> hook_ok (report s)"
  "guard_fn (rejection_loop_guard target) s e \<longleftrightarrow> rejection_loop_detected s e (Some target)"
  "guard_fn zero_change_shortcut s e \<longleftrightarrow> files_changed (report s) = 0 \<and> tests_added (report s) = 0"
  "guard_fn recovery_budget_available s e \<longleftrightarrow>
     state_recovery_budget_available s (recovery_trigger_from_event s e)"
  "guard_fn recovery_budget_exhausted s e \<longleftrightarrow>
     \<not> state_recovery_budget_available s (recovery_trigger_from_event s e)"
  by (auto simp: guard_and_def guard_or_def guard_not_def mode_guard_def
      stage_retries_remaining_def stage_retries_exhausted_def last_hook_ok_def
      rejection_loop_guard_def zero_change_shortcut_def recovery_budget_available_def
      recovery_budget_exhausted_def)

text \<open>The guard and the effect decide a hook-reject loop the same way.\<close>

lemma guard_fn_hook_reject_loop [simp]:
  "guard_fn hook_reject_loop_guard s e \<longleftrightarrow> hook_reject_loop_detected s e"
  by (cases e) (auto simp: hook_reject_loop_guard_def split: option.splits)

lemma guard_fn_resume [simp]:
  "guard_fn recovery_resume_is_concrete s (RecoverySucceeded resume hint) \<longleftrightarrow> py_strip resume \<noteq> []"
  by (simp add: recovery_resume_is_concrete_def)

end
