(* ===== verification/Transitions.thy ===== *)
theory Transitions
  imports Guards
begin

text \<open>
  \<open>litehive/lifecycle/transitions.py\<close>: the row type of the rule table, first-match evaluation,
  the computed transition targets and the generator of retry rules. An exception is a value of
  \<open>lifecycle_error\<close> on the left of the sum; \<open>NodeRaised\<close> is any exception a node lets escape.
\<close>

datatype lifecycle_error =
    NoTransitionError pipeline_state event
  | ValueError string
  | TypeError string
  | KeyError string
  | NodeRaised string

type_synonym effect = "(nat \<Rightarrow> string) \<Rightarrow> task_state \<Rightarrow> event \<Rightarrow> state_delta"
type_synonym to_fn = "task_state \<Rightarrow> event \<Rightarrow> lifecycle_error + pipeline_state"

datatype from_pattern = FromSet "pipeline_state list" | FromStage pipeline_state | FromState pipeline_state
datatype to_spec = ToStage pipeline_state | ToState pipeline_state | ToFn to_fn

record rule =
  from_state :: from_pattern
  on_event :: event_class
  transition_to :: to_spec
  rule_when :: "guard option"
  with_effect :: "effect option"
  rule_description :: string

definition mk_rule ::
  "from_pattern \<Rightarrow> event_class \<Rightarrow> to_spec \<Rightarrow> guard option \<Rightarrow> effect option \<Rightarrow> rule" where
  "mk_rule f e t g eff =
     \<lparr>from_state = f, on_event = e, transition_to = t, rule_when = g, with_effect = eff,
      rule_description = []\<rparr>"

record transition =
  next_state :: pipeline_state
  transition_delta :: state_delta
  transition_rule :: rule

section \<open>Evaluation\<close>

fun matches_from :: "from_pattern \<Rightarrow> pipeline_state \<Rightarrow> bool" where
  "matches_from (FromSet S) current = (current \<in> set S)"
| "matches_from (FromStage st) current = (st = current)"
| "matches_from (FromState st) current = (st = current)"

definition matches_event :: "event_class \<Rightarrow> event \<Rightarrow> bool" where
  "matches_event c e = (class_of e = c)"

fun resolve_to :: "to_spec \<Rightarrow> task_state \<Rightarrow> event \<Rightarrow> lifecycle_error + pipeline_state" where
  "resolve_to (ToFn f) s e = f s e"
| "resolve_to (ToStage st) s e = Inr st"
| "resolve_to (ToState st) s e = Inr st"

definition rule_matches :: "rule \<Rightarrow> pipeline_state \<Rightarrow> event \<Rightarrow> task_state \<Rightarrow> bool" where
  "rule_matches r current e s =
     (matches_from (from_state r) current \<and> matches_event (on_event r) e \<and>
      (case rule_when r of None \<Rightarrow> True | Some g \<Rightarrow> guard_call g s e))"

fun evaluate ::
  "(nat \<Rightarrow> string) \<Rightarrow> rule list \<Rightarrow> pipeline_state \<Rightarrow> event \<Rightarrow> task_state \<Rightarrow>
   lifecycle_error + transition" where
  "evaluate clk [] current e s = Inl (NoTransitionError current e)"
| "evaluate clk (r # rules) current e s =
     (if \<not> rule_matches r current e s then evaluate clk rules current e s
      else (case resolve_to (transition_to r) s e of
              Inl err \<Rightarrow> Inl err
            | Inr target \<Rightarrow>
                Inr \<lparr>next_state = target,
                     transition_delta = (case with_effect r of None \<Rightarrow> EMPTY_DELTA
                                         | Some eff \<Rightarrow> eff clk s e),
                     transition_rule = r\<rparr>))"

section \<open>Computed targets\<close>

definition parse_state :: "string \<Rightarrow> lifecycle_error + pipeline_state" where
  "parse_state name =
     (case canonical_pipeline_state name of None \<Rightarrow> Inl (ValueError name) | Some st \<Rightarrow> Inr st)"

definition in_STAGES :: "string \<Rightarrow> bool" where
  "in_STAGES name = (name \<in> set (map pipeline_state_value STAGES))"

definition entry_phase :: "string option \<Rightarrow> lifecycle_error + pipeline_state" where
  "entry_phase name =
     (case name of None \<Rightarrow> Inr READY
      | Some n \<Rightarrow>
          (case parse_state n of
             Inl err \<Rightarrow> Inl err
           | Inr st \<Rightarrow> if st = COMMIT then Inr COMMIT
                       else parse_state (''before_'' @ pipeline_state_value st)))"

definition resume_from_origin :: to_fn where
  "resume_from_origin s e =
     (case e of
        RecoverySucceeded resume _ \<Rightarrow>
          (if resume = pipeline_state_value DONE then Inr DONE
           else if resume = [] then
             (case active_recovery_trigger s of
                None \<Rightarrow> Inl (ValueError ''RecoverySucceeded missing resume destination'')
              | Some t \<Rightarrow>
                  (case origin_stage t of
                     None \<Rightarrow> Inl (ValueError ''RecoverySucceeded missing resume destination'')
                   | Some origin \<Rightarrow>
                       if in_STAGES origin then entry_phase (Some origin)
                       else Inl (ValueError ''RecoverySucceeded missing resume destination'')))
           else if in_STAGES resume then entry_phase (Some resume)
           else parse_state resume)
      | _ \<Rightarrow> Inl (TypeError (''resume_from_origin expects RecoverySucceeded, got '' @
                             class_name (class_of e))))"

definition resume_from_pre_exec :: to_fn where
  "resume_from_pre_exec s e =
     (case e of
        PreExecRecoverySucceeded resume \<Rightarrow>
          (if in_STAGES (pipeline_state_value resume)
           then entry_phase (Some (pipeline_state_value resume)) else Inr resume)
      | _ \<Rightarrow> Inl (TypeError (''resume_from_pre_exec expects PreExecRecoverySucceeded, got '' @
                             class_name (class_of e))))"

definition entry_from_worktree_sync :: to_fn where
  "entry_from_worktree_sync s e =
     (case entry_stage s of
        Some st \<Rightarrow> if in_STAGES (pipeline_state_value st)
                   then entry_phase (Some (pipeline_state_value st)) else Inr st
      | None \<Rightarrow> Inr (if mode s = SINGLE then BEFORE_IMPLEMENTING else BEFORE_GROOMING))"

section \<open>Retry rules\<close>

definition retry_phase_rules ::
  "pipeline_state \<Rightarrow> pipeline_state \<Rightarrow> failed_reason \<Rightarrow> pipeline_state \<Rightarrow> rule list" where
  "retry_phase_rules counter retry_target reason phase =
     [mk_rule (FromStage phase) EReject (ToState FAILED)
        (Some (rejection_loop_guard retry_target))
        (Some (\<lambda>clk. FailRejectionLoop_call counter retry_target)),
      mk_rule (FromStage phase) EReject (ToState FAILED)
        (Some hook_reject_loop_guard) (Some (Fail_call HOOK_REJECT_LOOP)),
      mk_rule (FromStage phase) EReject (ToStage retry_target)
        (Some (stage_retries_remaining counter))
        (Some (\<lambda>clk. IncStageRetry_call counter (Some retry_target))),
      mk_rule (FromStage phase) EReject (ToState FAILED)
        (Some (stage_retries_exhausted counter)) (Some (Fail_call reason))]"

definition retry_epoch_rules ::
  "pipeline_state \<Rightarrow> pipeline_state list \<Rightarrow> pipeline_state \<Rightarrow> failed_reason \<Rightarrow> rule list" where
  "retry_epoch_rules counter phases retry_target reason =
     concat (map (retry_phase_rules counter retry_target reason) phases)"

end
