(* ===== verification/Rules.thy ===== *)
theory Rules
  imports Transitions
begin

text \<open>
  \<open>litehive/lifecycle/rules.py\<close>, row by row in the order of the table, with the epochs and the
  wildcard set of \<open>lifecycle/stages.py\<close>.
\<close>

definition ALL_STAGE_PHASES :: "pipeline_state list" where
  "ALL_STAGE_PHASES =
     [BEFORE_GROOMING, GROOMING, AFTER_GROOMING, BEFORE_IMPLEMENTING, IMPLEMENTING,
      AFTER_IMPLEMENTING, BEFORE_TESTING, TESTING, AFTER_TESTING, BEFORE_ACCEPTING, ACCEPTING,
      AFTER_ACCEPTING, COMMIT, AFTER_COMMIT]"

definition GROOMING_EPOCH :: "pipeline_state list" where
  "GROOMING_EPOCH = [BEFORE_GROOMING, GROOMING, AFTER_GROOMING]"

definition IMPLEMENTING_EPOCH :: "pipeline_state list" where
  "IMPLEMENTING_EPOCH = [BEFORE_IMPLEMENTING, IMPLEMENTING, AFTER_IMPLEMENTING]"

definition TESTING_EPOCH :: "pipeline_state list" where
  "TESTING_EPOCH = [BEFORE_TESTING, TESTING, AFTER_TESTING]"

definition ACCEPTING_EPOCH :: "pipeline_state list" where
  "ACCEPTING_EPOCH = [BEFORE_ACCEPTING, ACCEPTING, AFTER_ACCEPTING]"

definition COMMIT_EPOCH :: "pipeline_state list" where
  "COMMIT_EPOCH = [COMMIT, AFTER_COMMIT]"

section \<open>Row generators\<close>

definition recovery_rules :: "from_pattern \<Rightarrow> event_class \<Rightarrow> guard option \<Rightarrow> rule list" where
  "recovery_rules f e g =
     (let exhausted_when = (case g of None \<Rightarrow> recovery_budget_exhausted
                            | Some w \<Rightarrow> guard_and w recovery_budget_exhausted);
          available_when = (case g of None \<Rightarrow> recovery_budget_available
                            | Some w \<Rightarrow> guard_and w recovery_budget_available)
      in [mk_rule f e (ToStage FAILED) (Some exhausted_when) (Some exhaust_recovery_budget),
          mk_rule f e (ToStage RECOVERING) (Some available_when) (Some (\<lambda>clk. enter_recovery))])"

definition terminal_reject_rules ::
  "pipeline_state \<Rightarrow> guard option \<Rightarrow> failed_reason \<Rightarrow> rule list" where
  "terminal_reject_rules st g reason =
     [mk_rule (FromStage st) EReject (ToStage FAILED) g (Some (Fail_call reason))]"

definition epoch_terminal_reject_rules :: "pipeline_state list \<Rightarrow> rule list" where
  "epoch_terminal_reject_rules epoch =
     concat (map (\<lambda>st. terminal_reject_rules st None SEMANTIC_REJECT) epoch)"

definition go :: "pipeline_state \<Rightarrow> event_class \<Rightarrow> pipeline_state \<Rightarrow> rule" where
  "go f e t = mk_rule (FromStage f) e (ToStage t) None None"

definition go_with :: "pipeline_state \<Rightarrow> event_class \<Rightarrow> pipeline_state \<Rightarrow> effect \<Rightarrow> rule" where
  "go_with f e t eff = mk_rule (FromStage f) e (ToStage t) None (Some eff)"

definition go_when :: "pipeline_state \<Rightarrow> event_class \<Rightarrow> pipeline_state \<Rightarrow> guard \<Rightarrow> rule" where
  "go_when f e t g = mk_rule (FromStage f) e (ToStage t) (Some g) None"

definition go_fail :: "from_pattern \<Rightarrow> event_class \<Rightarrow> failed_reason \<Rightarrow> rule" where
  "go_fail f e reason = mk_rule f e (ToStage FAILED) None (Some (Fail_call reason))"

section \<open>The table\<close>

definition entry_rules :: "rule list" where
  "entry_rules =
     [go READY ECleanState WORKTREE_SYNC,
      go_with READY ENeedsPreExecRecovery RECOVERING_PRE_EXEC (\<lambda>clk. enter_pre_exec_recovery),
      mk_rule (FromStage WORKTREE_SYNC) EPass (ToFn entry_from_worktree_sync) None None]
     @ terminal_reject_rules WORKTREE_SYNC None SEMANTIC_REJECT
     @ recovery_rules (FromStage WORKTREE_SYNC) ECrash None
     @ recovery_rules (FromStage WORKTREE_SYNC) ETimeout None
     @ [mk_rule (FromStage RECOVERING_PRE_EXEC) EPreExecRecoverySucceeded
          (ToFn resume_from_pre_exec) None None,
        go_fail (FromStage RECOVERING_PRE_EXEC) EPreExecRecoveryFailed PRE_EXEC_RECOVERY_FAILED,
        go_fail (FromStage RECOVERING_PRE_EXEC) EPreExecRecoveryBudgetHit PRE_EXEC_RECOVERY_FAILED,
        go_fail (FromStage RECOVERING_PRE_EXEC) ECrash RECOVERY_CRASHED,
        go_fail (FromStage RECOVERING_PRE_EXEC) ETimeout RECOVERY_CRASHED]"

definition clear_loop :: effect where
  "clear_loop clk = clear_completed_rejection_loop"

definition forward_rules :: "rule list" where
  "forward_rules =
     [go BEFORE_GROOMING EHookOk GROOMING,
      go_with GROOMING EPass AFTER_GROOMING clear_loop,
      go AFTER_GROOMING EHookOk BEFORE_IMPLEMENTING,
      go BEFORE_IMPLEMENTING EHookOk IMPLEMENTING,
      go_with IMPLEMENTING EPass AFTER_IMPLEMENTING clear_loop,
      go_when AFTER_IMPLEMENTING EHookOk DONE (guard_and (mode_guard SINGLE) zero_change_shortcut),
      go_when AFTER_IMPLEMENTING EHookOk COMMIT (mode_guard SINGLE),
      go_when AFTER_IMPLEMENTING EHookOk BEFORE_TESTING (mode_guard FULL),
      go BEFORE_TESTING EHookOk TESTING,
      go_with TESTING EPass AFTER_TESTING clear_loop,
      go AFTER_TESTING EHookOk BEFORE_ACCEPTING,
      go BEFORE_ACCEPTING EHookOk ACCEPTING,
      go_with ACCEPTING EPass AFTER_ACCEPTING clear_loop,
      go AFTER_ACCEPTING EHookOk COMMIT,
      go COMMIT EPass AFTER_COMMIT,
      go AFTER_COMMIT EHookOk DONE,
      go_with COMMIT EMergeConflictDetected MERGE_RESOLVING (\<lambda>clk. stash_conflict_files),
      go MERGE_RESOLVING EPass AFTER_COMMIT]
     @ terminal_reject_rules MERGE_RESOLVING None SEMANTIC_REJECT
     @ recovery_rules (FromStage MERGE_RESOLVING) EBlocked None
     @ recovery_rules (FromStage MERGE_RESOLVING) ECrash None
     @ recovery_rules (FromStage MERGE_RESOLVING) ETimeout None"

definition reject_rules :: "rule list" where
  "reject_rules =
     epoch_terminal_reject_rules GROOMING_EPOCH
     @ retry_epoch_rules IMPLEMENTING IMPLEMENTING_EPOCH IMPLEMENTING SEMANTIC_REJECT
     @ [mk_rule (FromStage TESTING) EReject (ToStage ACCEPTING)
          (Some (guard_and (stage_retries_exhausted TESTING) last_hook_ok))
          (Some (\<lambda>clk. RememberRejection_call ACCEPTING None))]
     @ retry_epoch_rules TESTING TESTING_EPOCH IMPLEMENTING SEMANTIC_REJECT
     @ retry_epoch_rules ACCEPTING ACCEPTING_EPOCH IMPLEMENTING SEMANTIC_REJECT
     @ epoch_terminal_reject_rules COMMIT_EPOCH"

definition escalation_rules :: "rule list" where
  "escalation_rules =
     recovery_rules (FromStage GROOMING) EBlocked None
     @ recovery_rules (FromStage IMPLEMENTING) EBlocked None
     @ recovery_rules (FromStage TESTING) EBlocked None
     @ recovery_rules (FromStage ACCEPTING) EBlocked None
     @ [go_fail (FromSet ALL_STAGE_PHASES) EStageRetryLimitHit UNRECOVERABLE_ERROR,
        go_fail (FromSet ALL_STAGE_PHASES) EOverallRetryLimitHit UNRECOVERABLE_ERROR,
        go_fail (FromSet ALL_STAGE_PHASES) ETaskTimeBudgetExceeded TIME_BUDGET_EXCEEDED,
        go_fail (FromStage RECOVERING) ETaskTimeBudgetExceeded TIME_BUDGET_EXCEEDED]"

definition recovering_rules :: "rule list" where
  "recovering_rules =
     [mk_rule (FromStage RECOVERING) ERecoverySucceeded (ToFn resume_from_origin)
        (Some recovery_resume_is_concrete) (Some record_recovery_success),
      go_fail (FromStage RECOVERING) ERecoverySucceeded RECOVERY_MISSING_TARGET_STAGE,
      go_fail (FromStage RECOVERING) ERecoveryFailed RECOVERY_EXHAUSTED,
      go_fail (FromStage RECOVERING) ERecoveryBudgetHit RECOVERY_BUDGET_HIT,
      go_fail (FromStage RECOVERING) ECrash RECOVERY_CRASHED,
      go_fail (FromStage RECOVERING) ETimeout RECOVERY_CRASHED]
     @ recovery_rules (FromSet ALL_STAGE_PHASES) ECrash None
     @ recovery_rules (FromSet ALL_STAGE_PHASES) ETimeout None"

definition RULES :: "rule list" where
  "RULES = entry_rules @ forward_rules @ reject_rules @ escalation_rules @ recovering_rules"

end
