(* ===== verification/Routing.thy ===== *)
theory Routing
  imports Rules
begin

text \<open>
  What the rule table means: routing in closed form, organised by event where the table is
  organised by stage, and the proof that first-match evaluation of \<open>RULES\<close> is that function.
  Everything proved later about the machine reads the routing here instead of the table.
\<close>

type_synonym move = "pipeline_state \<times> state_delta"

fun hook_target :: "task_state \<Rightarrow> pipeline_state \<Rightarrow> pipeline_state option" where
  "hook_target s BEFORE_GROOMING = Some GROOMING"
| "hook_target s AFTER_GROOMING = Some BEFORE_IMPLEMENTING"
| "hook_target s BEFORE_IMPLEMENTING = Some IMPLEMENTING"
| "hook_target s AFTER_IMPLEMENTING =
     Some (case mode s of FULL \<Rightarrow> BEFORE_TESTING
           | SINGLE \<Rightarrow> if files_changed (report s) = 0 \<and> tests_added (report s) = 0
                       then DONE else COMMIT)"
| "hook_target s BEFORE_TESTING = Some TESTING"
| "hook_target s AFTER_TESTING = Some BEFORE_ACCEPTING"
| "hook_target s BEFORE_ACCEPTING = Some ACCEPTING"
| "hook_target s AFTER_ACCEPTING = Some COMMIT"
| "hook_target s AFTER_COMMIT = Some DONE"
| "hook_target s _ = None"

fun pass_target :: "pipeline_state \<Rightarrow> pipeline_state option" where
  "pass_target GROOMING = Some AFTER_GROOMING"
| "pass_target IMPLEMENTING = Some AFTER_IMPLEMENTING"
| "pass_target TESTING = Some AFTER_TESTING"
| "pass_target ACCEPTING = Some AFTER_ACCEPTING"
| "pass_target COMMIT = Some AFTER_COMMIT"
| "pass_target MERGE_RESOLVING = Some AFTER_COMMIT"
| "pass_target _ = None"

definition fail_move :: "failed_reason \<Rightarrow> (nat \<Rightarrow> string) \<Rightarrow> task_state \<Rightarrow> event \<Rightarrow> move" where
  "fail_move reason clk s e = (FAILED, Fail_call reason clk s e)"

definition recovery_move :: "(nat \<Rightarrow> string) \<Rightarrow> task_state \<Rightarrow> event \<Rightarrow> move" where
  "recovery_move clk s e =
     (if state_recovery_budget_available s (recovery_trigger_from_event s e)
      then (RECOVERING, enter_recovery s e) else (FAILED, exhaust_recovery_budget clk s e))"

text \<open>A reject in a retryable epoch: loop limits first, then the stage's own retries.\<close>

definition retry_move ::
  "pipeline_state \<Rightarrow> (nat \<Rightarrow> string) \<Rightarrow> task_state \<Rightarrow> event \<Rightarrow> move" where
  "retry_move counter clk s e =
     (if rejection_loop_detected s e (Some IMPLEMENTING)
      then (FAILED, FailRejectionLoop_call counter IMPLEMENTING s e)
      else if hook_reject_loop_detected s e then fail_move HOOK_REJECT_LOOP clk s e
      else if dict_get counter 0 (stage_retry s) < stage_retry_limit (lims s)
      then (IMPLEMENTING, IncStageRetry_call counter (Some IMPLEMENTING) s e)
      else fail_move SEMANTIC_REJECT clk s e)"

definition reject_route ::
  "(nat \<Rightarrow> string) \<Rightarrow> pipeline_state \<Rightarrow> event \<Rightarrow> task_state \<Rightarrow> move option" where
  "reject_route clk cur e s =
     (if cur \<in> {WORKTREE_SYNC, MERGE_RESOLVING} \<or> cur \<in> set (GROOMING_EPOCH @ COMMIT_EPOCH)
      then Some (fail_move SEMANTIC_REJECT clk s e)
      else if cur = TESTING \<and> \<not> dict_get TESTING 0 (stage_retry s) < stage_retry_limit (lims s) \<and>
              hook_ok (report s)
      then Some (ACCEPTING, RememberRejection_call ACCEPTING None s e)
      else if cur \<in> set (IMPLEMENTING_EPOCH @ TESTING_EPOCH @ ACCEPTING_EPOCH)
      then Some (retry_move (primary_stage cur) clk s e)
      else None)"

text \<open>Crashes and timeouts: recovery from a working phase, failure inside recovery itself.\<close>

definition fault_route ::
  "(nat \<Rightarrow> string) \<Rightarrow> pipeline_state \<Rightarrow> event \<Rightarrow> task_state \<Rightarrow> move option" where
  "fault_route clk cur e s =
     (if cur \<in> {RECOVERING, RECOVERING_PRE_EXEC} then Some (fail_move RECOVERY_CRASHED clk s e)
      else if cur \<in> {READY, DONE, FAILED} then None
      else Some (recovery_move clk s e))"

definition escalate ::
  "pipeline_state set \<Rightarrow> failed_reason \<Rightarrow> (nat \<Rightarrow> string) \<Rightarrow> pipeline_state \<Rightarrow> event \<Rightarrow> task_state \<Rightarrow>
   move option" where
  "escalate S reason clk cur e s = (if cur \<in> S then Some (fail_move reason clk s e) else None)"

definition pass_delta :: "pipeline_state \<Rightarrow> task_state \<Rightarrow> event \<Rightarrow> state_delta" where
  "pass_delta cur s e =
     (if cur \<in> set AGENT_STAGES then clear_completed_rejection_loop s e else EMPTY_DELTA)"

definition settle ::
  "pipeline_state \<Rightarrow> event \<Rightarrow> move option \<Rightarrow> lifecycle_error + move" where
  "settle cur e m = (case m of None \<Rightarrow> Inl (NoTransitionError cur e) | Some mv \<Rightarrow> Inr mv)"

definition computed :: "lifecycle_error + pipeline_state \<Rightarrow> state_delta \<Rightarrow> lifecycle_error + move" where
  "computed t d = (case t of Inl err \<Rightarrow> Inl err | Inr st \<Rightarrow> Inr (st, d))"

fun route ::
  "(nat \<Rightarrow> string) \<Rightarrow> pipeline_state \<Rightarrow> event \<Rightarrow> task_state \<Rightarrow> lifecycle_error + move" where
  "route clk cur CleanState s =
     settle cur CleanState (if cur = READY then Some (WORKTREE_SYNC, EMPTY_DELTA) else None)"
| "route clk cur NeedsPreExecRecovery s =
     settle cur NeedsPreExecRecovery
       (if cur = READY
        then Some (RECOVERING_PRE_EXEC, enter_pre_exec_recovery s NeedsPreExecRecovery) else None)"
| "route clk cur (HookOk hs) s =
     settle cur (HookOk hs) (map_option (\<lambda>t. (t, EMPTY_DELTA)) (hook_target s cur))"
| "route clk cur (Pass r) s =
     (if cur = WORKTREE_SYNC then computed (entry_from_worktree_sync s (Pass r)) EMPTY_DELTA
      else settle cur (Pass r)
             (map_option (\<lambda>t. (t, pass_delta cur s (Pass r))) (pass_target cur)))"
| "route clk cur (Reject src why cls meta) s =
     settle cur (Reject src why cls meta) (reject_route clk cur (Reject src why cls meta) s)"
| "route clk cur (MergeConflictDetected fs) s =
     settle cur (MergeConflictDetected fs)
       (if cur = COMMIT
        then Some (MERGE_RESOLVING, stash_conflict_files s (MergeConflictDetected fs)) else None)"
| "route clk cur (Blocked why) s =
     settle cur (Blocked why)
       (if cur = MERGE_RESOLVING \<or> cur \<in> set AGENT_STAGES
        then Some (recovery_move clk s (Blocked why)) else None)"
| "route clk cur (Crash t m) s = settle cur (Crash t m) (fault_route clk cur (Crash t m) s)"
| "route clk cur Timeout s = settle cur Timeout (fault_route clk cur Timeout s)"
| "route clk cur (StageRetryLimitHit st) s =
     settle cur (StageRetryLimitHit st)
       (escalate (set STAGE_PHASES) UNRECOVERABLE_ERROR clk cur (StageRetryLimitHit st) s)"
| "route clk cur OverallRetryLimitHit s =
     settle cur OverallRetryLimitHit
       (escalate (set STAGE_PHASES) UNRECOVERABLE_ERROR clk cur OverallRetryLimitHit s)"
| "route clk cur (TaskTimeBudgetExceeded a b) s =
     settle cur (TaskTimeBudgetExceeded a b)
       (escalate (insert RECOVERING (set STAGE_PHASES)) TIME_BUDGET_EXCEEDED clk cur
          (TaskTimeBudgetExceeded a b) s)"
| "route clk cur (RecoverySucceeded resume hint) s =
     (if cur = RECOVERING \<and> py_strip resume \<noteq> []
      then computed (resume_from_origin s (RecoverySucceeded resume hint))
             (record_recovery_success clk s (RecoverySucceeded resume hint))
      else settle cur (RecoverySucceeded resume hint)
             (escalate {RECOVERING} RECOVERY_MISSING_TARGET_STAGE clk cur
                (RecoverySucceeded resume hint) s))"
| "route clk cur (RecoveryFailed why) s =
     settle cur (RecoveryFailed why)
       (escalate {RECOVERING} RECOVERY_EXHAUSTED clk cur (RecoveryFailed why) s)"
| "route clk cur RecoveryBudgetHit s =
     settle cur RecoveryBudgetHit
       (escalate {RECOVERING} RECOVERY_BUDGET_HIT clk cur RecoveryBudgetHit s)"
| "route clk cur (PreExecRecoverySucceeded st) s =
     (if cur = RECOVERING_PRE_EXEC
      then computed (resume_from_pre_exec s (PreExecRecoverySucceeded st)) EMPTY_DELTA
      else settle cur (PreExecRecoverySucceeded st) None)"
| "route clk cur (PreExecRecoveryFailed why) s =
     settle cur (PreExecRecoveryFailed why)
       (escalate {RECOVERING_PRE_EXEC} PRE_EXEC_RECOVERY_FAILED clk cur (PreExecRecoveryFailed why) s)"
| "route clk cur PreExecRecoveryBudgetHit s =
     settle cur PreExecRecoveryBudgetHit
       (escalate {RECOVERING_PRE_EXEC} PRE_EXEC_RECOVERY_FAILED clk cur PreExecRecoveryBudgetHit s)"

section \<open>The table computes the routing\<close>

definition as_move :: "lifecycle_error + transition \<Rightarrow> lifecycle_error + move" where
  "as_move r = (case r of Inl err \<Rightarrow> Inl err | Inr t \<Rightarrow> Inr (next_state t, transition_delta t))"

lemma mk_rule_sel [simp]:
  "from_state (mk_rule f c t g eff) = f"
  "on_event (mk_rule f c t g eff) = c"
  "transition_to (mk_rule f c t g eff) = t"
  "rule_when (mk_rule f c t g eff) = g"
  "with_effect (mk_rule f c t g eff) = eff"
  by (simp_all add: mk_rule_def)

text \<open>Evaluation only sees the rows whose stage matches.\<close>

definition row_from :: "pipeline_state \<Rightarrow> rule \<Rightarrow> bool" where
  "row_from cur r = matches_from (from_state r) cur"

lemma evaluate_row_from:
  "evaluate clk rules cur e s = evaluate clk (filter (row_from cur) rules) cur e s"
  by (induction rules) (auto simp: row_from_def rule_matches_def)

lemma row_from_simps [simp]:
  "row_from cur (mk_rule f c t g eff) \<longleftrightarrow> matches_from f cur"
  "row_from cur (go st c t') \<longleftrightarrow> st = cur"
  "row_from cur (go_with st c t' eff') \<longleftrightarrow> st = cur"
  "row_from cur (go_when st c t' g') \<longleftrightarrow> st = cur"
  "row_from cur (go_fail f c reason) \<longleftrightarrow> matches_from f cur"
  by (simp_all add: row_from_def mk_rule_def go_def go_with_def go_when_def go_fail_def)

lemma evaluate_mk_rule [simp]:
  "evaluate clk (mk_rule f c t g eff # rules) cur e s =
     (if matches_from f cur \<and> c = class_of e \<and> (case g of None \<Rightarrow> True | Some w \<Rightarrow> guard_fn w s e)
      then (case resolve_to t s e of Inl err \<Rightarrow> Inl err
            | Inr target \<Rightarrow>
                Inr \<lparr>next_state = target,
                     transition_delta = (case eff of None \<Rightarrow> EMPTY_DELTA | Some f \<Rightarrow> f clk s e),
                     transition_rule = mk_rule f c t g eff\<rparr>)
      else evaluate clk rules cur e s)"
  by (auto simp: rule_matches_def matches_event_def guard_call_def split: option.splits)

declare evaluate.simps(2) [simp del]

text \<open>Rows of one generator share their stage, so a filter keeps all of them or none.\<close>

lemma filter_generators [simp]:
  "filter (row_from cur) (recovery_rules f c None) =
     (if matches_from f cur then recovery_rules f c None else [])"
  "filter (row_from cur) (terminal_reject_rules st None reason) =
     (if st = cur then terminal_reject_rules st None reason else [])"
  "filter (row_from cur) (retry_phase_rules counter target reason st) =
     (if st = cur then retry_phase_rules counter target reason st else [])"
  by (simp_all add: recovery_rules_def terminal_reject_rules_def retry_phase_rules_def)

lemmas table_defs = RULES_def entry_rules_def forward_rules_def reject_rules_def
  escalation_rules_def recovering_rules_def epoch_terminal_reject_rules_def retry_epoch_rules_def
  GROOMING_EPOCH_def IMPLEMENTING_EPOCH_def TESTING_EPOCH_def ACCEPTING_EPOCH_def COMMIT_EPOCH_def
  ALL_STAGE_PHASES_def

lemmas row_defs = go_def go_with_def go_when_def go_fail_def recovery_rules_def
  terminal_reject_rules_def retry_phase_rules_def clear_loop_def

lemmas route_defs = settle_def computed_def reject_route_def fault_route_def escalate_def
  fail_move_def recovery_move_def retry_move_def pass_delta_def as_move_def
  STAGE_PHASES_def AGENT_STAGES_def

lemma route_READY: "as_move (evaluate clk RULES READY e s) = route clk READY e s"
  by (subst evaluate_row_from, simp add: table_defs, cases e)
     (simp_all add: row_defs route_defs table_defs split: sum.splits)

lemma route_WORKTREE_SYNC: "as_move (evaluate clk RULES WORKTREE_SYNC e s) = route clk WORKTREE_SYNC e s"
  by (subst evaluate_row_from, simp add: table_defs, cases e)
     (simp_all add: row_defs route_defs table_defs split: sum.splits)

lemma route_RECOVERING_PRE_EXEC: "as_move (evaluate clk RULES RECOVERING_PRE_EXEC e s) = route clk RECOVERING_PRE_EXEC e s"
  by (subst evaluate_row_from, simp add: table_defs, cases e)
     (simp_all add: row_defs route_defs table_defs split: sum.splits)

lemma route_BEFORE_GROOMING: "as_move (evaluate clk RULES BEFORE_GROOMING e s) = route clk BEFORE_GROOMING e s"
  by (subst evaluate_row_from, simp add: table_defs, cases e)
     (simp_all add: row_defs route_defs table_defs split: sum.splits)

lemma route_GROOMING: "as_move (evaluate clk RULES GROOMING e s) = route clk GROOMING e s"
  by (subst evaluate_row_from, simp add: table_defs, cases e)
     (simp_all add: row_defs route_defs table_defs split: sum.splits)

lemma route_AFTER_GROOMING: "as_move (evaluate clk RULES AFTER_GROOMING e s) = route clk AFTER_GROOMING e s"
  by (subst evaluate_row_from, simp add: table_defs, cases e)
     (simp_all add: row_defs route_defs table_defs split: sum.splits)

lemma route_BEFORE_IMPLEMENTING: "as_move (evaluate clk RULES BEFORE_IMPLEMENTING e s) = route clk BEFORE_IMPLEMENTING e s"
  by (subst evaluate_row_from, simp add: table_defs, cases e)
     (simp_all add: row_defs route_defs table_defs split: sum.splits)

lemma route_IMPLEMENTING: "as_move (evaluate clk RULES IMPLEMENTING e s) = route clk IMPLEMENTING e s"
  by (subst evaluate_row_from, simp add: table_defs, cases e)
     (simp_all add: row_defs route_defs table_defs split: sum.splits)

lemma route_AFTER_IMPLEMENTING:
  "as_move (evaluate clk RULES AFTER_IMPLEMENTING e s) = route clk AFTER_IMPLEMENTING e s"
  by (subst evaluate_row_from, simp add: table_defs, cases e; cases "mode s")
     (simp_all add: row_defs route_defs table_defs split: sum.splits)

lemma route_BEFORE_TESTING: "as_move (evaluate clk RULES BEFORE_TESTING e s) = route clk BEFORE_TESTING e s"
  by (subst evaluate_row_from, simp add: table_defs, cases e)
     (simp_all add: row_defs route_defs table_defs split: sum.splits)

lemma route_TESTING: "as_move (evaluate clk RULES TESTING e s) = route clk TESTING e s"
  by (subst evaluate_row_from, simp add: table_defs, cases e)
     (simp_all add: row_defs route_defs table_defs split: sum.splits)

lemma route_AFTER_TESTING: "as_move (evaluate clk RULES AFTER_TESTING e s) = route clk AFTER_TESTING e s"
  by (subst evaluate_row_from, simp add: table_defs, cases e)
     (simp_all add: row_defs route_defs table_defs split: sum.splits)

lemma route_BEFORE_ACCEPTING: "as_move (evaluate clk RULES BEFORE_ACCEPTING e s) = route clk BEFORE_ACCEPTING e s"
  by (subst evaluate_row_from, simp add: table_defs, cases e)
     (simp_all add: row_defs route_defs table_defs split: sum.splits)

lemma route_ACCEPTING: "as_move (evaluate clk RULES ACCEPTING e s) = route clk ACCEPTING e s"
  by (subst evaluate_row_from, simp add: table_defs, cases e)
     (simp_all add: row_defs route_defs table_defs split: sum.splits)

lemma route_AFTER_ACCEPTING: "as_move (evaluate clk RULES AFTER_ACCEPTING e s) = route clk AFTER_ACCEPTING e s"
  by (subst evaluate_row_from, simp add: table_defs, cases e)
     (simp_all add: row_defs route_defs table_defs split: sum.splits)

lemma route_COMMIT: "as_move (evaluate clk RULES COMMIT e s) = route clk COMMIT e s"
  by (subst evaluate_row_from, simp add: table_defs, cases e)
     (simp_all add: row_defs route_defs table_defs split: sum.splits)

lemma route_AFTER_COMMIT: "as_move (evaluate clk RULES AFTER_COMMIT e s) = route clk AFTER_COMMIT e s"
  by (subst evaluate_row_from, simp add: table_defs, cases e)
     (simp_all add: row_defs route_defs table_defs split: sum.splits)

lemma route_MERGE_RESOLVING: "as_move (evaluate clk RULES MERGE_RESOLVING e s) = route clk MERGE_RESOLVING e s"
  by (subst evaluate_row_from, simp add: table_defs, cases e)
     (simp_all add: row_defs route_defs table_defs split: sum.splits)

lemma route_RECOVERING: "as_move (evaluate clk RULES RECOVERING e s) = route clk RECOVERING e s"
  by (subst evaluate_row_from, simp add: table_defs, cases e)
     (simp_all add: row_defs route_defs table_defs split: sum.splits)

lemma route_DONE: "as_move (evaluate clk RULES DONE e s) = route clk DONE e s"
  by (subst evaluate_row_from, simp add: table_defs, cases e)
     (simp_all add: row_defs route_defs table_defs split: sum.splits)

lemma route_FAILED: "as_move (evaluate clk RULES FAILED e s) = route clk FAILED e s"
  by (subst evaluate_row_from, simp add: table_defs, cases e)
     (simp_all add: row_defs route_defs table_defs split: sum.splits)

text \<open>First-match evaluation of the table is the routing function, for every stage and event.\<close>

lemma evaluate_RULES: "as_move (evaluate clk RULES cur e s) = route clk cur e s"
  by (cases cur)
     (simp_all only: route_READY route_WORKTREE_SYNC route_RECOVERING_PRE_EXEC
        route_BEFORE_GROOMING route_GROOMING route_AFTER_GROOMING
        route_BEFORE_IMPLEMENTING route_IMPLEMENTING route_AFTER_IMPLEMENTING
        route_BEFORE_TESTING route_TESTING route_AFTER_TESTING
        route_BEFORE_ACCEPTING route_ACCEPTING route_AFTER_ACCEPTING
        route_COMMIT route_AFTER_COMMIT route_MERGE_RESOLVING route_RECOVERING
        route_DONE route_FAILED)

end
