(* ===== verification/Runner.thy ===== *)
theory Runner
  imports Routing
begin

text \<open>
  \<open>litehive/lifecycle/runner.py\<close>: applying a delta and the side effects of an event, one iteration
  of the loop of \<open>run_task\<close>, and the loop. Nodes, clocks and the stop predicate act on a world
  \<open>'w\<close> that the model leaves open; what the runner hands to persistence, to the session store
  and to the journal is appended to a log in the order of the calls.
\<close>

section \<open>Applying a delta\<close>

definition clear_hook_tracking :: "bool \<Rightarrow> task_state \<Rightarrow> task_state" where
  "clear_hook_tracking clear_recovery_invoked s =
     (let s1 = s \<lparr>consecutive_same_hook_rejects := 0, last_hook_reject_fingerprint := None\<rparr>
      in if clear_recovery_invoked then s1 \<lparr>hook_reject_recovery_invoked := False\<rparr> else s1)"

definition merged_failed_run :: "failed_run_record \<Rightarrow> failed_run_record \<Rightarrow> failed_run_record" where
  "merged_failed_run existing r =
     \<lparr>fr_stage = fr_stage r, fr_failure_shape = fr_failure_shape r, fr_count = fr_count existing + 1,
      fr_first_at = (case fr_first_at existing of
                       None \<Rightarrow> fr_first_at r | Some t \<Rightarrow> if t = [] then fr_first_at r else Some t),
      fr_latest_at = fr_latest_at r, fr_last_reason = fr_last_reason r, fr_source = fr_source r,
      fr_classification = fr_classification r, fr_retry_limit = fr_retry_limit r,
      fr_failed_reason = fr_failed_reason r,
      fr_operator_override_count = fr_operator_override_count existing,
      fr_last_operator_override_at = fr_last_operator_override_at existing\<rparr>"

definition record_failed_run :: "task_state \<Rightarrow> failed_run_record \<Rightarrow> task_state" where
  "record_failed_run s r =
     s \<lparr>failed_run_history :=
         (case map_of (failed_run_history s) (record_key r) of
            None \<Rightarrow> AList.update (record_key r) r (failed_run_history s)
          | Some existing \<Rightarrow>
              AList.update (record_key r) (merged_failed_run existing r) (failed_run_history s))\<rparr>"

definition or_else :: "'a option \<Rightarrow> 'a \<Rightarrow> 'a" where
  "or_else v old = (case v of None \<Rightarrow> old | Some x \<Rightarrow> x)"

definition apply_counters :: "state_delta \<Rightarrow> task_state \<Rightarrow> task_state" where
  "apply_counters d s0 =
     (let s1 = s0 \<lparr>stage_retry :=
            (case inc_stage_retry d of None \<Rightarrow> stage_retry s0
             | Some st \<Rightarrow> AList.update st (dict_get st 0 (stage_retry s0) + 1) (stage_retry s0))\<rparr>
      in s1 \<lparr>stage_retry :=
            (case reset_stage_retry d of None \<Rightarrow> stage_retry s1
             | Some st \<Rightarrow> AList.delete st (stage_retry s1))\<rparr>)"

definition apply_recovery :: "state_delta \<Rightarrow> task_state \<Rightarrow> task_state" where
  "apply_recovery d s =
     s \<lparr>active_recovery_trigger :=
          (if clear_active_recovery_trigger d then None
           else case set_active_recovery_trigger d of None \<Rightarrow> active_recovery_trigger s
                | Some t \<Rightarrow> Some t),
        recovery_history :=
          recovery_history s @ (case append_recovery_outcome d of None \<Rightarrow> [] | Some oc \<Rightarrow> [oc]),
        pre_exec_recovery_attempt :=
          pre_exec_recovery_attempt s + (if inc_pre_exec_recovery_attempt d then 1 else 0)\<rparr>"

definition apply_tracking :: "state_delta \<Rightarrow> task_state \<Rightarrow> task_state" where
  "apply_tracking d s0 =
     (let s1 = s0 \<lparr>merge_ctx :=
            (if clear_merge_context d then None
             else case set_merge_context d of None \<Rightarrow> merge_ctx s0 | Some c \<Rightarrow> Some c),
          last_rejection_by_stage :=
            (case set_last_rejection d of None \<Rightarrow> last_rejection_by_stage s0
             | Some (st, r) \<Rightarrow> AList.update st r (last_rejection_by_stage s0)),
          rej_loop :=
            (case set_rejection_loop d of Some l \<Rightarrow> Some l
             | None \<Rightarrow> if clear_rejection_loop d then None else rej_loop s0)\<rparr>;
          s2 = (if clear_hook_reject_tracking d then clear_hook_tracking False s1 else s1)
      in s2 \<lparr>consecutive_same_hook_rejects :=
               or_else (set_consecutive_same_hook_rejects d) (consecutive_same_hook_rejects s2),
             last_hook_reject_fingerprint :=
               (case set_last_hook_reject_fingerprint d of None \<Rightarrow> last_hook_reject_fingerprint s2
                | Some f \<Rightarrow> Some f),
             hook_reject_recovery_invoked :=
               or_else (set_hook_reject_recovery_invoked d) (hook_reject_recovery_invoked s2)\<rparr>)"

definition apply_failure :: "state_delta \<Rightarrow> task_state \<Rightarrow> task_state" where
  "apply_failure d s0 =
     (let s1 = s0 \<lparr>failed_reason_of :=
            (case delta_failed_reason d of None \<Rightarrow> failed_reason_of s0 | Some r \<Rightarrow> Some r),
          failed_message :=
            (case delta_failed_message d of None \<Rightarrow> failed_message s0 | Some m \<Rightarrow> Some m),
          recovery_failure_explanation :=
            (case set_recovery_failure_explanation d of Some x \<Rightarrow> Some x
             | None \<Rightarrow> if clear_recovery_failure_explanation d then None
                       else recovery_failure_explanation s0)\<rparr>
      in (case delta_record_failed_run d of None \<Rightarrow> s1 | Some r \<Rightarrow> record_failed_run s1 r))"

definition apply_delta :: "state_delta \<Rightarrow> task_state \<Rightarrow> task_state" where
  "apply_delta d s = apply_failure d (apply_tracking d (apply_recovery d (apply_counters d s)))"

section \<open>Side effects of an event\<close>

definition normalize_report_string_list :: "pyval list \<Rightarrow> string list" where
  "normalize_report_string_list items =
     filter (\<lambda>t. t \<noteq> []) (map (\<lambda>v. py_strip (py_str v)) items)"

definition update_report :: "(string, pyval) dict \<Rightarrow> last_report \<Rightarrow> last_report" where
  "update_report meta r0 =
     (let fc = py_get ''files_changed'' meta;
          r1 = (case as_list fc of
                  Some xs \<Rightarrow> r0 \<lparr>files_changed := int (length xs),
                                 changed_files := normalize_report_string_list xs\<rparr>
                | None \<Rightarrow> (case as_int fc of Some n \<Rightarrow> r0 \<lparr>files_changed := n\<rparr> | None \<Rightarrow> r0));
          r2 = (case as_int (py_get ''tests_added'' meta) of
                  Some n \<Rightarrow> r1 \<lparr>tests_added := n\<rparr> | None \<Rightarrow> r1)
      in (case as_dict (py_get ''last_report'' meta) of
            None \<Rightarrow> r2
          | Some lr \<Rightarrow>
              (let r3 = (case as_list (py_get ''changed_files'' lr) of
                           Some xs \<Rightarrow> r2 \<lparr>changed_files := normalize_report_string_list xs\<rparr>
                         | None \<Rightarrow> r2)
               in (case as_list (py_get ''test_results'' lr) of
                     Some xs \<Rightarrow> r3 \<lparr>test_results := normalize_report_string_list xs\<rparr>
                   | None \<Rightarrow> r3))))"

definition update_commit_result ::
  "(string, pyval) dict \<Rightarrow> commit_result option \<Rightarrow> commit_result option" where
  "update_commit_result meta old =
     (case as_dict (py_get ''commit_result'' meta) of
        None \<Rightarrow> old
      | Some cr \<Rightarrow>
          (case as_str (py_get ''head_sha'' cr) of
             None \<Rightarrow> old
           | Some sha \<Rightarrow> if sha = [] then old
                         else Some \<lparr>head_sha = sha, commit_reason = py_get ''reason'' cr\<rparr>))"

fun apply_event_side_effects :: "event \<Rightarrow> task_state \<Rightarrow> task_state" where
  "apply_event_side_effects (HookOk _) s = s \<lparr>report := (report s) \<lparr>hook_ok := True\<rparr>\<rparr>"
| "apply_event_side_effects (Reject src _ _ _) s =
     (if src = Src_hook then s \<lparr>report := (report s) \<lparr>hook_ok := False\<rparr>\<rparr> else s)"
| "apply_event_side_effects (Pass meta) s =
     s \<lparr>report := update_report meta (report s), commit_res := update_commit_result meta (commit_res s)\<rparr>"
| "apply_event_side_effects _ s = s"

fun is_progress_event :: "event \<Rightarrow> bool" where
  "is_progress_event (Pass _) = True"
| "is_progress_event (HookOk _) = True"
| "is_progress_event _ = False"

definition reset_hook_reject_tracking_on_progress ::
  "pipeline_state \<Rightarrow> pipeline_state \<Rightarrow> event \<Rightarrow> task_state \<Rightarrow> task_state" where
  "reset_hook_reject_tracking_on_progress from_st to_st e s =
     (if \<not> is_progress_event e then s
      else if pipeline_stage_for_phase from_st = pipeline_stage_for_phase to_st \<and>
              from_st \<notin> {COMMIT, MERGE_RESOLVING} then s
      else clear_hook_tracking True s)"

text \<open>The stage whose saved sessions are dropped, when a reject crosses agents.\<close>

definition cross_agent_reset ::
  "bool \<Rightarrow> pipeline_state \<Rightarrow> pipeline_state \<Rightarrow> event \<Rightarrow> pipeline_state option" where
  "cross_agent_reset has_session_store from_st to_st e =
     (case e of
        Reject src _ _ _ \<Rightarrow>
          (let f = pipeline_stage_for_phase from_st; t = pipeline_stage_for_phase to_st in
           if \<not> has_session_store \<or> src \<noteq> Src_agent then None
           else if f = t then None
           else if f \<notin> set AGENT_STAGES \<or> t \<notin> set AGENT_STAGES then None
           else Some t)
      | _ \<Rightarrow> None)"

section \<open>One iteration\<close>

datatype log_entry =
    TaskStarted pipeline_state
  | SessionsCleared string pipeline_state
  | StateSaved task_state
  | StateSynced task_state
  | TransitionLogged pipeline_state event pipeline_state string
  | TransitionObserved task_state pipeline_state event
  | StopLogged pipeline_state
  | TaskFinished pipeline_state

text \<open>\<open>node_run\<close> is \<open>None\<close> when the node does not return.\<close>

record 'w node =
  the_node_type :: node_type
  node_run :: "task_state \<Rightarrow> 'w \<Rightarrow> ((lifecycle_error + event) \<times> 'w) option"

text \<open>
  A \<open>StateMachineRunner\<close> as constructed: the fields of \<open>__init__\<close>, with the callables acting on
  the world. \<open>utc\<close> gives the readings of the wall clock an effect makes.
\<close>

record 'w runner =
  registry :: "pipeline_state \<Rightarrow> 'w node option"
  run_rules :: "rule list"
  has_session_store :: bool
  has_state_sync :: bool
  has_observer :: bool
  stop_requested :: "'w \<Rightarrow> bool \<times> 'w"
  task_time_budget_seconds :: "rat option"
  monotonic :: "'w \<Rightarrow> rat \<times> 'w"
  utc :: "'w \<Rightarrow> nat \<Rightarrow> string"

record 'w machine =
  m_state :: task_state
  m_world :: 'w
  m_log :: "log_entry list"

definition COMMIT_REACHED_PHASES :: "pipeline_state list" where
  "COMMIT_REACHED_PHASES = [COMMIT, AFTER_COMMIT, MERGE_RESOLVING]"

definition task_time_budget_event :: "rat option \<Rightarrow> task_state \<Rightarrow> event option" where
  "task_time_budget_event budget_opt s =
     (case budget_opt of None \<Rightarrow> None
      | Some budget \<Rightarrow>
          if stage s \<in> set COMMIT_REACHED_PHASES then None
          else if agent_elapsed_seconds s < budget then None
          else Some (TaskTimeBudgetExceeded (agent_elapsed_seconds s) budget))"

text \<open>The state after a matched transition, as \<open>_apply_transition\<close> saves it.\<close>

definition after_transition ::
  "pipeline_state \<Rightarrow> event \<Rightarrow> move \<Rightarrow> task_state \<Rightarrow> task_state" where
  "after_transition from_st e mv s =
     reset_hook_reject_tracking_on_progress from_st (fst mv) e
       ((apply_event_side_effects e (apply_delta (snd mv) s)) \<lparr>stage := fst mv\<rparr>)"

definition transition_log ::
  "'w runner \<Rightarrow> pipeline_state \<Rightarrow> event \<Rightarrow> transition \<Rightarrow> task_state \<Rightarrow> log_entry list" where
  "transition_log r from_st e t s' =
     (case cross_agent_reset (has_session_store r) from_st (next_state t) e of
        None \<Rightarrow> [] | Some st \<Rightarrow> [SessionsCleared (task_id s') st])
     @ [StateSaved s']
     @ (if has_state_sync r then [StateSynced s'] else [])
     @ [TransitionLogged from_st e (next_state t) (rule_description (transition_rule t))]
     @ (if has_observer r then [TransitionObserved s' from_st e] else [])"

definition apply_transition ::
  "'w runner \<Rightarrow> pipeline_state \<Rightarrow> event \<Rightarrow> 'w machine \<Rightarrow> lifecycle_error + 'w machine" where
  "apply_transition r from_st e m =
     (case evaluate (utc r (m_world m)) (run_rules r) from_st e (m_state m) of
        Inl err \<Rightarrow> Inl err
      | Inr t \<Rightarrow>
          (let s' = after_transition from_st e (next_state t, transition_delta t) (m_state m)
           in Inr (m \<lparr>m_state := s', m_log := m_log m @ transition_log r from_st e t s'\<rparr>)))"

datatype 'w outcome = Continue "'w machine" | Returned "'w machine" | Raised lifecycle_error "'w machine"

definition advance :: "'w machine \<Rightarrow> lifecycle_error + 'w machine \<Rightarrow> 'w outcome" where
  "advance m res = (case res of Inl err \<Rightarrow> Raised err m | Inr m' \<Rightarrow> Continue m')"

text \<open>\<open>node.run(state)\<close>, with the agent's time charged to the task.\<close>

definition run_node ::
  "'w runner \<Rightarrow> 'w node \<Rightarrow> 'w machine \<Rightarrow> ((lifecycle_error + event) \<times> 'w machine) option" where
  "run_node r nd m =
     (if the_node_type nd = NT_AGENT then
        (let (started_at, w1) = monotonic r (m_world m) in
         case node_run nd (m_state m) w1 of
           None \<Rightarrow> None
         | Some (Inl err, w2) \<Rightarrow> Some (Inl err, m \<lparr>m_world := w2\<rparr>)
         | Some (Inr e, w2) \<Rightarrow>
             (let (now, w3) = monotonic r w2
              in Some (Inr e, m \<lparr>m_world := w3,
                   m_state := (m_state m) \<lparr>agent_elapsed_seconds :=
                     agent_elapsed_seconds (m_state m) + max 0 (now - started_at)\<rparr>\<rparr>)))
      else map_option (\<lambda>(res, w2). (res, m \<lparr>m_world := w2\<rparr>)) (node_run nd (m_state m) (m_world m)))"

definition log_to :: "'w machine \<Rightarrow> log_entry \<Rightarrow> 'w machine" where
  "log_to m entry = m \<lparr>m_log := m_log m @ [entry]\<rparr>"

definition check_stop :: "'w runner \<Rightarrow> 'w outcome \<Rightarrow> 'w outcome" where
  "check_stop r oc =
     (case oc of
        Continue m \<Rightarrow>
          (let (stop, w) = stop_requested r (m_world m); m' = m \<lparr>m_world := w\<rparr>
           in if stop then Returned (log_to m' (StopLogged (stage (m_state m')))) else Continue m')
      | _ \<Rightarrow> oc)"

definition step :: "'w runner \<Rightarrow> 'w machine \<Rightarrow> 'w outcome option" where
  "step r m =
     (let s = m_state m; from_st = stage s in
      if from_st \<in> set TERMINAL_NODES then Some (Returned (log_to m (TaskFinished from_st)))
      else case task_time_budget_event (task_time_budget_seconds r) s of
        Some e \<Rightarrow> Some (advance m (apply_transition r from_st e m))
      | None \<Rightarrow>
          (case registry r from_st of
             None \<Rightarrow> Some (Raised (KeyError (pipeline_state_value from_st)) m)
           | Some nd \<Rightarrow>
               (case run_node r nd m of
                  None \<Rightarrow> None
                | Some (Inl err, m1) \<Rightarrow> Some (Raised err m1)
                | Some (Inr e, m1) \<Rightarrow>
                    Some (check_stop r (advance m1 (apply_transition r from_st e m1))))))"

partial_function (option) run_loop :: "'w runner \<Rightarrow> 'w machine \<Rightarrow> 'w outcome option" where
  "run_loop r m =
     (case step r m of
        None \<Rightarrow> None
      | Some oc \<Rightarrow> (case oc of Continue m' \<Rightarrow> run_loop r m' | _ \<Rightarrow> Some oc))"

definition run_task ::
  "'w runner \<Rightarrow> (string \<Rightarrow> lifecycle_error + task_state) \<Rightarrow> string \<Rightarrow> 'w \<Rightarrow>
   (lifecycle_error + 'w outcome) option" where
  "run_task r load tid w =
     (case load tid of
        Inl err \<Rightarrow> Some (Inl err)
      | Inr s \<Rightarrow>
          map_option Inr (run_loop r \<lparr>m_state = s, m_world = w, m_log = [TaskStarted (stage s)]\<rparr>))"

section \<open>Frames\<close>

lemma record_failed_run_frame [simp, frame_simps]:
  "stage (record_failed_run s r) = stage s" "mode (record_failed_run s r) = mode s"
  "lims (record_failed_run s r) = lims s" "stage_retry (record_failed_run s r) = stage_retry s"
  "active_recovery_trigger (record_failed_run s r) = active_recovery_trigger s"
  "recovery_history (record_failed_run s r) = recovery_history s"
  "recovery_budget_history_start (record_failed_run s r) = recovery_budget_history_start s"
  "rej_loop (record_failed_run s r) = rej_loop s" "report (record_failed_run s r) = report s"
  "agent_elapsed_seconds (record_failed_run s r) = agent_elapsed_seconds s"
  "entry_stage (record_failed_run s r) = entry_stage s" "task_id (record_failed_run s r) = task_id s"
  "failed_reason_of (record_failed_run s r) = failed_reason_of s"
  "failed_message (record_failed_run s r) = failed_message s"
  "hook_reject_recovery_invoked (record_failed_run s r) = hook_reject_recovery_invoked s"
  "consecutive_same_hook_rejects (record_failed_run s r) = consecutive_same_hook_rejects s"
  "last_hook_reject_fingerprint (record_failed_run s r) = last_hook_reject_fingerprint s"
  "pre_exec_recovery_attempt (record_failed_run s r) = pre_exec_recovery_attempt s"
  "recovery_failure_explanation (record_failed_run s r) = recovery_failure_explanation s"
  "merge_ctx (record_failed_run s r) = merge_ctx s" "commit_res (record_failed_run s r) = commit_res s"
  "last_rejection_by_stage (record_failed_run s r) = last_rejection_by_stage s"
  by (simp_all add: record_failed_run_def)

lemma apply_counters_frame [simp]:
  "task_id (apply_counters d s) = task_id s" "stage (apply_counters d s) = stage s"
  "mode (apply_counters d s) = mode s" "entry_stage (apply_counters d s) = entry_stage s"
  "active_recovery_trigger (apply_counters d s) = active_recovery_trigger s"
  "recovery_history (apply_counters d s) = recovery_history s"
  "recovery_budget_history_start (apply_counters d s) = recovery_budget_history_start s"
  "pre_exec_recovery_attempt (apply_counters d s) = pre_exec_recovery_attempt s"
  "agent_elapsed_seconds (apply_counters d s) = agent_elapsed_seconds s"
  "merge_ctx (apply_counters d s) = merge_ctx s" "commit_res (apply_counters d s) = commit_res s"
  "report (apply_counters d s) = report s"
  "last_rejection_by_stage (apply_counters d s) = last_rejection_by_stage s"
  "failed_run_history (apply_counters d s) = failed_run_history s"
  "rej_loop (apply_counters d s) = rej_loop s"
  "consecutive_same_hook_rejects (apply_counters d s) = consecutive_same_hook_rejects s"
  "last_hook_reject_fingerprint (apply_counters d s) = last_hook_reject_fingerprint s"
  "hook_reject_recovery_invoked (apply_counters d s) = hook_reject_recovery_invoked s"
  "failed_reason_of (apply_counters d s) = failed_reason_of s"
  "failed_message (apply_counters d s) = failed_message s"
  "recovery_failure_explanation (apply_counters d s) = recovery_failure_explanation s"
  "lims (apply_counters d s) = lims s"
  by (simp_all add: apply_counters_def Let_def)

lemma apply_recovery_frame [simp]:
  "task_id (apply_recovery d s) = task_id s" "stage (apply_recovery d s) = stage s"
  "mode (apply_recovery d s) = mode s" "entry_stage (apply_recovery d s) = entry_stage s"
  "stage_retry (apply_recovery d s) = stage_retry s"
  "recovery_budget_history_start (apply_recovery d s) = recovery_budget_history_start s"
  "agent_elapsed_seconds (apply_recovery d s) = agent_elapsed_seconds s"
  "merge_ctx (apply_recovery d s) = merge_ctx s" "commit_res (apply_recovery d s) = commit_res s"
  "report (apply_recovery d s) = report s"
  "last_rejection_by_stage (apply_recovery d s) = last_rejection_by_stage s"
  "failed_run_history (apply_recovery d s) = failed_run_history s"
  "rej_loop (apply_recovery d s) = rej_loop s"
  "consecutive_same_hook_rejects (apply_recovery d s) = consecutive_same_hook_rejects s"
  "last_hook_reject_fingerprint (apply_recovery d s) = last_hook_reject_fingerprint s"
  "hook_reject_recovery_invoked (apply_recovery d s) = hook_reject_recovery_invoked s"
  "failed_reason_of (apply_recovery d s) = failed_reason_of s"
  "failed_message (apply_recovery d s) = failed_message s"
  "recovery_failure_explanation (apply_recovery d s) = recovery_failure_explanation s"
  "lims (apply_recovery d s) = lims s"
  by (simp_all add: apply_recovery_def)

lemma apply_tracking_frame [simp]:
  "task_id (apply_tracking d s) = task_id s" "stage (apply_tracking d s) = stage s"
  "mode (apply_tracking d s) = mode s" "entry_stage (apply_tracking d s) = entry_stage s"
  "stage_retry (apply_tracking d s) = stage_retry s"
  "active_recovery_trigger (apply_tracking d s) = active_recovery_trigger s"
  "recovery_history (apply_tracking d s) = recovery_history s"
  "recovery_budget_history_start (apply_tracking d s) = recovery_budget_history_start s"
  "pre_exec_recovery_attempt (apply_tracking d s) = pre_exec_recovery_attempt s"
  "agent_elapsed_seconds (apply_tracking d s) = agent_elapsed_seconds s"
  "commit_res (apply_tracking d s) = commit_res s" "report (apply_tracking d s) = report s"
  "failed_run_history (apply_tracking d s) = failed_run_history s"
  "failed_reason_of (apply_tracking d s) = failed_reason_of s"
  "failed_message (apply_tracking d s) = failed_message s"
  "recovery_failure_explanation (apply_tracking d s) = recovery_failure_explanation s"
  "lims (apply_tracking d s) = lims s"
  by (simp_all add: apply_tracking_def clear_hook_tracking_def Let_def)

lemma apply_failure_frame [simp]:
  "task_id (apply_failure d s) = task_id s" "stage (apply_failure d s) = stage s"
  "mode (apply_failure d s) = mode s" "entry_stage (apply_failure d s) = entry_stage s"
  "stage_retry (apply_failure d s) = stage_retry s"
  "active_recovery_trigger (apply_failure d s) = active_recovery_trigger s"
  "recovery_history (apply_failure d s) = recovery_history s"
  "recovery_budget_history_start (apply_failure d s) = recovery_budget_history_start s"
  "pre_exec_recovery_attempt (apply_failure d s) = pre_exec_recovery_attempt s"
  "agent_elapsed_seconds (apply_failure d s) = agent_elapsed_seconds s"
  "merge_ctx (apply_failure d s) = merge_ctx s" "commit_res (apply_failure d s) = commit_res s"
  "report (apply_failure d s) = report s"
  "last_rejection_by_stage (apply_failure d s) = last_rejection_by_stage s"
  "rej_loop (apply_failure d s) = rej_loop s"
  "consecutive_same_hook_rejects (apply_failure d s) = consecutive_same_hook_rejects s"
  "last_hook_reject_fingerprint (apply_failure d s) = last_hook_reject_fingerprint s"
  "hook_reject_recovery_invoked (apply_failure d s) = hook_reject_recovery_invoked s"
  "lims (apply_failure d s) = lims s"
  by (simp_all add: apply_failure_def Let_def split: option.split)

lemma apply_counters_sel [simp]:
  "stage_retry (apply_counters d s) =
     (let counts = (case inc_stage_retry d of None \<Rightarrow> stage_retry s
         | Some st \<Rightarrow> AList.update st (dict_get st 0 (stage_retry s) + 1) (stage_retry s))
      in case reset_stage_retry d of None \<Rightarrow> counts | Some st \<Rightarrow> AList.delete st counts)"
  by (simp add: apply_counters_def Let_def split: option.split)

lemma apply_recovery_sel [simp]:
  "active_recovery_trigger (apply_recovery d s) =
     (if clear_active_recovery_trigger d then None
      else case set_active_recovery_trigger d of None \<Rightarrow> active_recovery_trigger s | Some t \<Rightarrow> Some t)"
  "recovery_history (apply_recovery d s) =
     recovery_history s @ (case append_recovery_outcome d of None \<Rightarrow> [] | Some oc \<Rightarrow> [oc])"
  "pre_exec_recovery_attempt (apply_recovery d s) =
     pre_exec_recovery_attempt s + (if inc_pre_exec_recovery_attempt d then 1 else 0)"
  by (simp_all add: apply_recovery_def)

lemma apply_tracking_sel [simp]:
  "merge_ctx (apply_tracking d s) =
     (if clear_merge_context d then None
      else case set_merge_context d of None \<Rightarrow> merge_ctx s | Some c \<Rightarrow> Some c)"
  "last_rejection_by_stage (apply_tracking d s) =
     (case set_last_rejection d of None \<Rightarrow> last_rejection_by_stage s
      | Some (st, r) \<Rightarrow> AList.update st r (last_rejection_by_stage s))"
  "rej_loop (apply_tracking d s) =
     (case set_rejection_loop d of Some l \<Rightarrow> Some l
      | None \<Rightarrow> if clear_rejection_loop d then None else rej_loop s)"
  "consecutive_same_hook_rejects (apply_tracking d s) =
     (case set_consecutive_same_hook_rejects d of Some n \<Rightarrow> n
      | None \<Rightarrow> if clear_hook_reject_tracking d then 0 else consecutive_same_hook_rejects s)"
  "last_hook_reject_fingerprint (apply_tracking d s) =
     (case set_last_hook_reject_fingerprint d of Some f \<Rightarrow> Some f
      | None \<Rightarrow> if clear_hook_reject_tracking d then None else last_hook_reject_fingerprint s)"
  "hook_reject_recovery_invoked (apply_tracking d s) =
     (case set_hook_reject_recovery_invoked d of Some b \<Rightarrow> b
      | None \<Rightarrow> hook_reject_recovery_invoked s)"
  by (simp_all add: apply_tracking_def clear_hook_tracking_def Let_def or_else_def split: option.split)

lemma apply_failure_sel [simp]:
  "failed_reason_of (apply_failure d s) =
     (case delta_failed_reason d of None \<Rightarrow> failed_reason_of s | Some x \<Rightarrow> Some x)"
  "failed_message (apply_failure d s) =
     (case delta_failed_message d of None \<Rightarrow> failed_message s | Some x \<Rightarrow> Some x)"
  "recovery_failure_explanation (apply_failure d s) =
     (case set_recovery_failure_explanation d of Some x \<Rightarrow> Some x
      | None \<Rightarrow> if clear_recovery_failure_explanation d then None
                else recovery_failure_explanation s)"
  "failed_run_history (apply_failure d s) =
     (case delta_record_failed_run d of None \<Rightarrow> failed_run_history s
      | Some r \<Rightarrow> failed_run_history (record_failed_run s r))"
  by (simp_all add: apply_failure_def Let_def record_failed_run_def split: option.split)

text \<open>The simplifier reads a transition through these projections, one step at a time.\<close>

lemma apply_delta_frame [simp, frame_simps]:
  "stage (apply_delta d s) = stage s" "mode (apply_delta d s) = mode s"
  "lims (apply_delta d s) = lims s" "report (apply_delta d s) = report s"
  "agent_elapsed_seconds (apply_delta d s) = agent_elapsed_seconds s"
  "entry_stage (apply_delta d s) = entry_stage s" "task_id (apply_delta d s) = task_id s"
  "recovery_budget_history_start (apply_delta d s) = recovery_budget_history_start s"
  "commit_res (apply_delta d s) = commit_res s"
  by (simp_all add: apply_delta_def cong: option.case_cong)

lemma apply_delta_stage_retry [simp]:
  "stage_retry (apply_delta d s) =
     (let counts = (case inc_stage_retry d of None \<Rightarrow> stage_retry s
         | Some st \<Rightarrow> AList.update st (dict_get st 0 (stage_retry s) + 1) (stage_retry s))
      in case reset_stage_retry d of None \<Rightarrow> counts | Some st \<Rightarrow> AList.delete st counts)"
  by (simp_all add: apply_delta_def cong: option.case_cong)

lemma apply_delta_recovery [simp]:
  "active_recovery_trigger (apply_delta d s) =
     (if clear_active_recovery_trigger d then None
      else case set_active_recovery_trigger d of None \<Rightarrow> active_recovery_trigger s | Some t \<Rightarrow> Some t)"
  "recovery_history (apply_delta d s) =
     recovery_history s @ (case append_recovery_outcome d of None \<Rightarrow> [] | Some oc \<Rightarrow> [oc])"
  "pre_exec_recovery_attempt (apply_delta d s) =
     pre_exec_recovery_attempt s + (if inc_pre_exec_recovery_attempt d then 1 else 0)"
  by (simp_all add: apply_delta_def cong: option.case_cong)

lemma apply_delta_failure [simp]:
  "failed_reason_of (apply_delta d s) =
     (case delta_failed_reason d of None \<Rightarrow> failed_reason_of s | Some x \<Rightarrow> Some x)"
  "failed_message (apply_delta d s) =
     (case delta_failed_message d of None \<Rightarrow> failed_message s | Some x \<Rightarrow> Some x)"
  "recovery_failure_explanation (apply_delta d s) =
     (case set_recovery_failure_explanation d of Some x \<Rightarrow> Some x
      | None \<Rightarrow> if clear_recovery_failure_explanation d then None
                else recovery_failure_explanation s)"
  by (simp_all add: apply_delta_def cong: option.case_cong)

lemma apply_delta_tracking [simp]:
  "rej_loop (apply_delta d s) =
     (case set_rejection_loop d of Some l \<Rightarrow> Some l
      | None \<Rightarrow> if clear_rejection_loop d then None else rej_loop s)"
  "consecutive_same_hook_rejects (apply_delta d s) =
     (case set_consecutive_same_hook_rejects d of Some n \<Rightarrow> n
      | None \<Rightarrow> if clear_hook_reject_tracking d then 0 else consecutive_same_hook_rejects s)"
  "last_hook_reject_fingerprint (apply_delta d s) =
     (case set_last_hook_reject_fingerprint d of Some f \<Rightarrow> Some f
      | None \<Rightarrow> if clear_hook_reject_tracking d then None else last_hook_reject_fingerprint s)"
  "hook_reject_recovery_invoked (apply_delta d s) =
     (case set_hook_reject_recovery_invoked d of Some b \<Rightarrow> b
      | None \<Rightarrow> hook_reject_recovery_invoked s)"
  by (simp_all add: apply_delta_def cong: option.case_cong)

lemma apply_delta_memory [simp]:
  "merge_ctx (apply_delta d s) =
     (if clear_merge_context d then None
      else case set_merge_context d of None \<Rightarrow> merge_ctx s | Some c \<Rightarrow> Some c)"
  "last_rejection_by_stage (apply_delta d s) =
     (case set_last_rejection d of None \<Rightarrow> last_rejection_by_stage s
      | Some (st, r) \<Rightarrow> AList.update st r (last_rejection_by_stage s))"
  by (simp_all add: apply_delta_def cong: option.case_cong)

lemma side_effects_frame [simp, frame_simps]:
  "stage (apply_event_side_effects e s) = stage s" "mode (apply_event_side_effects e s) = mode s"
  "lims (apply_event_side_effects e s) = lims s"
  "stage_retry (apply_event_side_effects e s) = stage_retry s"
  "active_recovery_trigger (apply_event_side_effects e s) = active_recovery_trigger s"
  "recovery_history (apply_event_side_effects e s) = recovery_history s"
  "recovery_budget_history_start (apply_event_side_effects e s) = recovery_budget_history_start s"
  "agent_elapsed_seconds (apply_event_side_effects e s) = agent_elapsed_seconds s"
  "entry_stage (apply_event_side_effects e s) = entry_stage s"
  "failed_reason_of (apply_event_side_effects e s) = failed_reason_of s"
  "failed_message (apply_event_side_effects e s) = failed_message s"
  "rej_loop (apply_event_side_effects e s) = rej_loop s"
  "hook_reject_recovery_invoked (apply_event_side_effects e s) = hook_reject_recovery_invoked s"
  "consecutive_same_hook_rejects (apply_event_side_effects e s) = consecutive_same_hook_rejects s"
  "last_hook_reject_fingerprint (apply_event_side_effects e s) = last_hook_reject_fingerprint s"
  by (cases e; simp)+

lemma reset_progress_frame [simp, frame_simps]:
  "stage (reset_hook_reject_tracking_on_progress f t e s) = stage s"
  "mode (reset_hook_reject_tracking_on_progress f t e s) = mode s"
  "lims (reset_hook_reject_tracking_on_progress f t e s) = lims s"
  "report (reset_hook_reject_tracking_on_progress f t e s) = report s"
  "stage_retry (reset_hook_reject_tracking_on_progress f t e s) = stage_retry s"
  "active_recovery_trigger (reset_hook_reject_tracking_on_progress f t e s) = active_recovery_trigger s"
  "recovery_history (reset_hook_reject_tracking_on_progress f t e s) = recovery_history s"
  "recovery_budget_history_start (reset_hook_reject_tracking_on_progress f t e s) =
     recovery_budget_history_start s"
  "agent_elapsed_seconds (reset_hook_reject_tracking_on_progress f t e s) = agent_elapsed_seconds s"
  "entry_stage (reset_hook_reject_tracking_on_progress f t e s) = entry_stage s"
  "failed_reason_of (reset_hook_reject_tracking_on_progress f t e s) = failed_reason_of s"
  "failed_message (reset_hook_reject_tracking_on_progress f t e s) = failed_message s"
  "rej_loop (reset_hook_reject_tracking_on_progress f t e s) = rej_loop s"
  by (simp_all add: reset_hook_reject_tracking_on_progress_def clear_hook_tracking_def Let_def)

lemma after_transition_frame [simp, frame_simps]:
  "stage (after_transition f e mv s) = fst mv"
  "mode (after_transition f e mv s) = mode s" "lims (after_transition f e mv s) = lims s"
  "agent_elapsed_seconds (after_transition f e mv s) = agent_elapsed_seconds s"
  "entry_stage (after_transition f e mv s) = entry_stage s"
  "recovery_budget_history_start (after_transition f e mv s) = recovery_budget_history_start s"
  by (simp_all add: after_transition_def)

text \<open>What a transition leaves in the fields the safety and termination arguments read.\<close>

lemma after_transition_sel:
  "stage_retry (after_transition f e mv s) = stage_retry (apply_delta (snd mv) s)"
  "active_recovery_trigger (after_transition f e mv s) = active_recovery_trigger (apply_delta (snd mv) s)"
  "recovery_history (after_transition f e mv s) = recovery_history (apply_delta (snd mv) s)"
  "failed_reason_of (after_transition f e mv s) = failed_reason_of (apply_delta (snd mv) s)"
  "failed_message (after_transition f e mv s) = failed_message (apply_delta (snd mv) s)"
  "rej_loop (after_transition f e mv s) = rej_loop (apply_delta (snd mv) s)"
  by (simp_all add: after_transition_def del: apply_delta_stage_retry apply_delta_recovery
      apply_delta_failure apply_delta_tracking)

lemma EMPTY_DELTA_sel [simp]:
  "inc_stage_retry EMPTY_DELTA = None" "reset_stage_retry EMPTY_DELTA = None"
  "set_active_recovery_trigger EMPTY_DELTA = None" "\<not> clear_active_recovery_trigger EMPTY_DELTA"
  "append_recovery_outcome EMPTY_DELTA = None" "\<not> inc_pre_exec_recovery_attempt EMPTY_DELTA"
  "set_merge_context EMPTY_DELTA = None" "\<not> clear_merge_context EMPTY_DELTA"
  "set_last_rejection EMPTY_DELTA = None" "set_rejection_loop EMPTY_DELTA = None"
  "\<not> clear_rejection_loop EMPTY_DELTA" "set_consecutive_same_hook_rejects EMPTY_DELTA = None"
  "set_last_hook_reject_fingerprint EMPTY_DELTA = None" "\<not> clear_hook_reject_tracking EMPTY_DELTA"
  "set_hook_reject_recovery_invoked EMPTY_DELTA = None" "delta_failed_reason EMPTY_DELTA = None"
  "delta_failed_message EMPTY_DELTA = None" "set_recovery_failure_explanation EMPTY_DELTA = None"
  "\<not> clear_recovery_failure_explanation EMPTY_DELTA" "delta_record_failed_run EMPTY_DELTA = None"
  by (simp_all add: EMPTY_DELTA_def)

end
