(* ===== verification/Agent_Node.thy ===== *)
theory Agent_Node
  imports Runner
begin

text \<open>
  \<open>litehive/lifecycle/nodes/agent.py\<close> and the verdict translation of \<open>roles/recovery.py\<close>: the
  retry loop of one engine, the engine-switching loop, and what a verdict becomes as an event.
  Engines, sessions, the selector and the clock act on the open world \<open>'w\<close>; prompts and sessions
  have open types \<open>'p\<close> and \<open>'s\<close>.
\<close>

text \<open>What one \<open>run_turn\<close> call does: a verdict, or an exception of the error taxonomy.\<close>

record agent_verdict =
  verdict_outcome :: string
  verdict_reason :: string
  verdict_classification :: "string option"
  verdict_metadata :: "(string, pyval) dict"
  verdict_source :: reject_source

datatype turn_result =
    Turn_Verdict agent_verdict
  | Turn_Nudge string
  | Turn_Transient string "string option"
  | Turn_EngineBlocked string
  | Turn_Unrecoverable string string
  | Turn_Raised string

record ('p, 's, 'w) agent_node =
  agent_name :: pipeline_state
  select_engine :: "task_state \<Rightarrow> pipeline_state \<Rightarrow> string list \<Rightarrow> 'w \<Rightarrow> string option \<times> 'w"
  get_session :: "string \<Rightarrow> pipeline_state \<Rightarrow> string \<Rightarrow> 'w \<Rightarrow> 's \<times> 'w"
  persist_session :: "string \<Rightarrow> pipeline_state \<Rightarrow> string \<Rightarrow> 's \<Rightarrow> 'w \<Rightarrow> 'w"
  run_turn :: "string \<Rightarrow> 's \<Rightarrow> 'p \<Rightarrow> task_state \<Rightarrow> 'w \<Rightarrow> turn_result \<times> 'w"
  build_prompt :: "task_state \<Rightarrow> 'p"
  build_nudge_prompt :: "task_state \<Rightarrow> 'p \<Rightarrow> 'p"
  to_event :: "agent_verdict \<Rightarrow> lifecycle_error + event"
  retry_budget :: int
  retry_on :: "string list"
  retry_backoff_seconds :: rat
  retry_backoff_multiplier :: rat
  nudge_budget :: int
  sleep_fn :: "rat \<Rightarrow> 'w \<Rightarrow> 'w"

section \<open>Verdicts\<close>

text \<open>\<open>Verdict(str(outcome).lower())\<close>; \<open>None\<close> is the \<open>ValueError\<close>.\<close>

definition parse_verdict :: "string \<Rightarrow> verdict option" where
  "parse_verdict outcome = enum_parse verdict_value verdict_members (py_lower outcome)"

definition metadata_classification :: "(string, pyval) dict \<Rightarrow> string option" where
  "metadata_classification meta =
     (case nonblank_str (py_get ''verdict_classification'' meta) of
        Some c \<Rightarrow> Some (py_strip c)
      | None \<Rightarrow> map_option py_strip (nonblank_str (py_get ''classification'' meta)))"

definition opt_or :: "string option \<Rightarrow> string option \<Rightarrow> string option" where
  "opt_or a b = (case a of None \<Rightarrow> b | Some u \<Rightarrow> if u = [] then b else Some u)"

definition dict_setdefault :: "string \<Rightarrow> pyval \<Rightarrow> (string, pyval) dict \<Rightarrow> (string, pyval) dict" where
  "dict_setdefault k v d = (case map_of d k of None \<Rightarrow> AList.update k v d | Some _ \<Rightarrow> d)"

definition agent_verdict_to_event :: "agent_verdict \<Rightarrow> lifecycle_error + event" where
  "agent_verdict_to_event v =
     (case parse_verdict (verdict_outcome v) of
        None \<Rightarrow> Inr (Crash ''UnknownVerdict'' (verdict_outcome v))
      | Some Vd_PASS \<Rightarrow> Inr (Pass (verdict_metadata v))
      | Some Vd_REJECT \<Rightarrow>
          (let meta = verdict_metadata v;
               cls = opt_or (verdict_classification v) (metadata_classification meta);
               meta' = (case cls of None \<Rightarrow> meta
                        | Some c \<Rightarrow> dict_setdefault ''verdict_classification'' (PyStr c) meta)
           in Inr (Reject (verdict_source v) (verdict_reason v) cls meta'))
      | Some Vd_BLOCKED \<Rightarrow> Inr (Blocked (verdict_reason v))
      | Some other \<Rightarrow> Inr (Crash ''UnknownVerdict'' (verdict_value other)))"

text \<open>\<open>RecoveryAgent.verdict_to_event\<close>: an unknown target stage raises, it is not an event.\<close>

definition recovery_target :: "agent_verdict \<Rightarrow> string" where
  "recovery_target v = py_strip (py_str (py_or (py_get ''target_stage'' (verdict_metadata v)) (PyStr [])))"

definition recovery_resume ::
  "agent_verdict \<Rightarrow> disposition_hint \<Rightarrow> lifecycle_error + event" where
  "recovery_resume v hint =
     (let target = recovery_target v in
      if target = [] then
        Inr (RecoveryFailed (''recovery '' @ disposition_hint_value hint @
                             '' verdict missing target_stage''))
      else (case parse_state target of
              Inl err \<Rightarrow> Inl err
            | Inr st \<Rightarrow> Inr (RecoverySucceeded (pipeline_state_value st) hint)))"

definition recovery_verdict_to_event :: "agent_verdict \<Rightarrow> lifecycle_error + event" where
  "recovery_verdict_to_event v =
     (case parse_verdict (verdict_outcome v) of
        Some Vd_RESUME \<Rightarrow> recovery_resume v Hint_resume
      | Some Vd_ADVANCE \<Rightarrow> recovery_resume v Hint_advance
      | Some Vd_DONE \<Rightarrow> Inr (RecoverySucceeded (pipeline_state_value DONE) Hint_done)
      | Some Vd_BUDGET_HIT \<Rightarrow> Inr RecoveryBudgetHit
      | _ \<Rightarrow> Inr (RecoveryFailed (str_or (verdict_reason v) ''recovery_failed'')))"

section \<open>One engine\<close>

datatype retry_outcome = Resolved event | Engine_Out string | Escaped lifecycle_error

definition kind_retryable :: "('p, 's, 'w) agent_node \<Rightarrow> string option \<Rightarrow> bool" where
  "kind_retryable n kind = (case kind of None \<Rightarrow> False | Some k \<Rightarrow> k \<in> set (retry_on n))"

definition backoff :: "('p, 's, 'w) agent_node \<Rightarrow> int \<Rightarrow> 'w \<Rightarrow> 'w" where
  "backoff n attempts w =
     (if attempts > 0 \<and> retry_backoff_seconds n > 0
      then sleep_fn n (retry_backoff_seconds n * retry_backoff_multiplier n ^ nat (attempts - 1)) w
      else w)"

definition nudge_exhausted :: "string \<Rightarrow> event" where
  "nudge_exhausted msg =
     Crash ''NudgeBudgetExhausted''
       (''agent did not submit a verdict via '' @ quoted ''litehive agent report'' @
        '' after being nudged: '' @ msg)"

definition non_retryable :: "string \<Rightarrow> string option \<Rightarrow> string \<Rightarrow> string" where
  "non_retryable engine kind msg =
     engine @ '' failed with non-retryable execution kind '' @ opt_str_or kind ''unknown'' @
     '': '' @ msg"

definition budget_exhausted :: "('p, 's, 'w) agent_node \<Rightarrow> string \<Rightarrow> string option \<Rightarrow> string" where
  "budget_exhausted n engine last_exc =
     ''retry budget ('' @ int_str (retry_budget n) @ '') exhausted on '' @ engine @ '': '' @
     (case last_exc of None \<Rightarrow> ''None'' | Some m \<Rightarrow> m)"

text \<open>
  \<open>_run_with_retries\<close>: the arguments after the node are the engine, its session, the state, and
  the loop variables: attempts used, nudges used, current prompt, last transient error, world.
\<close>

function retry_loop ::
  "('p, 's, 'w) agent_node \<Rightarrow> string \<Rightarrow> 's \<Rightarrow> task_state \<Rightarrow> int \<Rightarrow> int \<Rightarrow> 'p \<Rightarrow> string option \<Rightarrow> 'w \<Rightarrow>
   retry_outcome \<times> 'w" where
  "retry_loop n engine session s attempts nudges prompt last_exc w =
     (if \<not> attempts < retry_budget n
      then (Engine_Out (budget_exhausted n engine last_exc), w)
      else
        (case run_turn n engine session prompt s (backoff n attempts w) of
           (Turn_Verdict v, w1) \<Rightarrow>
             (let w2 = persist_session n (task_id s) (agent_name n) engine session w1 in
              (case to_event n v of Inl err \<Rightarrow> Escaped err | Inr e \<Rightarrow> Resolved e, w2))
         | (Turn_Nudge msg, w1) \<Rightarrow>
             (if nudges \<ge> nudge_budget n then (Resolved (nudge_exhausted msg), w1)
              else retry_loop n engine session s attempts (nudges + 1)
                     (build_nudge_prompt n s prompt) last_exc w1)
         | (Turn_Transient msg kind, w1) \<Rightarrow>
             (if \<not> kind_retryable n kind then (Engine_Out (non_retryable engine kind msg), w1)
              else retry_loop n engine session s (attempts + 1) nudges prompt (Some msg) w1)
         | (Turn_EngineBlocked msg, w1) \<Rightarrow> (Engine_Out msg, w1)
         | (Turn_Unrecoverable exc_type msg, w1) \<Rightarrow> (Resolved (Crash exc_type msg), w1)
         | (Turn_Raised msg, w1) \<Rightarrow> (Escaped (NodeRaised msg), w1)))"
  by pat_completeness auto

termination
  by (relation "measure (\<lambda>(n, _, _, _, attempts, nudges, _).
        nat (retry_budget n - attempts) + nat (nudge_budget n - nudges))") auto

declare retry_loop.simps [simp del]

section \<open>Switching engines\<close>

partial_function (option) select_loop ::
  "('p, 's, 'w) agent_node \<Rightarrow> task_state \<Rightarrow> 'p \<Rightarrow> string list \<Rightarrow> string option \<Rightarrow> 'w \<Rightarrow>
   ((lifecycle_error + event) \<times> 'w) option" where
  "select_loop n s prompt excluded last_exc w =
     (case select_engine n s (agent_name n) excluded w of
        (None, w1) \<Rightarrow>
          Some (Inr (Crash ''AllEnginesExhausted''
                  (case last_exc of None \<Rightarrow> ''no engine eligible'' | Some m \<Rightarrow> m)), w1)
      | (Some engine, w1) \<Rightarrow>
          (case get_session n (task_id s) (agent_name n) engine w1 of
             (session, w2) \<Rightarrow>
               (case retry_loop n engine session s 0 0 prompt None w2 of
                  (Resolved e, w3) \<Rightarrow> Some (Inr e, w3)
                | (Escaped err, w3) \<Rightarrow> Some (Inl err, w3)
                | (Engine_Out msg, w3) \<Rightarrow> select_loop n s prompt (engine # excluded) (Some msg) w3)))"

definition agent_run ::
  "('p, 's, 'w) agent_node \<Rightarrow> task_state \<Rightarrow> 'w \<Rightarrow> ((lifecycle_error + event) \<times> 'w) option" where
  "agent_run n s w = select_loop n s (build_prompt n s) [] None w"

section \<open>What a node visit can return\<close>

definition agent_classes :: "event_class set" where
  "agent_classes = {EPass, EReject, EBlocked, ECrash}"

definition recovery_classes :: "event_class set" where
  "recovery_classes = {ERecoverySucceeded, ERecoveryFailed, ERecoveryBudgetHit, ECrash}"

lemma agent_verdict_class:
  "agent_verdict_to_event v = Inr e \<Longrightarrow> class_of e \<in> agent_classes"
  by (auto simp: agent_verdict_to_event_def agent_classes_def Let_def
      split: option.splits verdict.splits)

lemma agent_verdict_total: "\<exists>e. agent_verdict_to_event v = Inr e"
  by (auto simp: agent_verdict_to_event_def Let_def split: option.splits verdict.splits)

lemma recovery_resume_class: "recovery_resume v hint = Inr e \<Longrightarrow> class_of e \<in> recovery_classes"
  by (auto simp: recovery_resume_def recovery_classes_def Let_def split: if_splits sum.splits)

lemma recovery_verdict_class:
  "recovery_verdict_to_event v = Inr e \<Longrightarrow> class_of e \<in> recovery_classes"
  using recovery_resume_class [of v Hint_resume e] recovery_resume_class [of v Hint_advance e]
  by (auto simp: recovery_verdict_to_event_def recovery_classes_def
      split: option.splits verdict.splits)

lemma done_is_state: "\<exists>st. ''done'' = pipeline_state_value st"
  by (rule exI [of _ DONE]) simp

text \<open>A success names a state of the machine, so resolving it never fails on the name.\<close>

lemma recovery_success_target:
  "recovery_verdict_to_event v = Inr (RecoverySucceeded resume hint) \<Longrightarrow>
   \<exists>st. resume = pipeline_state_value st"
  by (auto simp: done_is_state recovery_verdict_to_event_def recovery_resume_def Let_def
      split: option.splits verdict.splits if_splits sum.splits)

section \<open>How many turns\<close>

text \<open>\<open>cnt\<close> reads from the world how many turns were run.\<close>

definition counts_turns :: "('p, 's, 'w) agent_node \<Rightarrow> ('w \<Rightarrow> nat) \<Rightarrow> bool" where
  "counts_turns n cnt \<longleftrightarrow>
     (\<forall>engine session prompt s w. cnt (snd (run_turn n engine session prompt s w)) = Suc (cnt w)) \<and>
     (\<forall>d w. cnt (sleep_fn n d w) = cnt w) \<and>
     (\<forall>t nm engine session w. cnt (persist_session n t nm engine session w) = cnt w)"

lemma counts_backoff: "counts_turns n cnt \<Longrightarrow> cnt (backoff n attempts w) = cnt w"
  by (simp add: counts_turns_def backoff_def)

lemma counts_turn:
  assumes "counts_turns n cnt" and "run_turn n engine session prompt s (backoff n attempts w) = (r, w1)"
  shows "cnt w1 = Suc (cnt w)"
proof -
  have "cnt (snd (run_turn n engine session prompt s (backoff n attempts w))) = Suc (cnt w)"
    using assms(1) counts_backoff [OF assms(1)] by (simp add: counts_turns_def)
  with assms(2) show ?thesis by simp
qed

lemma retry_loop_turns:
  "\<lbrakk>retry_loop n engine session s attempts nudges prompt last_exc w = (oc, w'); counts_turns n cnt\<rbrakk>
   \<Longrightarrow> cnt w' \<le> cnt w + nat (retry_budget n - attempts) + nat (nudge_budget n - nudges)"
proof (induction n engine session s attempts nudges prompt last_exc w
    rule: retry_loop.induct)
  case (1 n engine session s attempts nudges prompt last_exc w)
  show ?case
  proof (cases "attempts < retry_budget n")
    case False
    with "1.prems"(1) show ?thesis by (simp add: retry_loop.simps)
  next
    case True
    obtain r w1 where turn: "run_turn n engine session prompt s (backoff n attempts w) = (r, w1)"
      by (cases "run_turn n engine session prompt s (backoff n attempts w)")
    have c: "cnt w1 = Suc (cnt w)" using counts_turn [OF "1.prems"(2) turn] .
    have ends: "cnt w' = cnt w1 \<Longrightarrow> ?thesis" using c True by simp
    show ?thesis
    proof (cases r)
      case (Turn_Verdict v)
      with "1.prems" True turn show ?thesis
        by (intro ends) (auto simp: retry_loop.simps [of n] counts_turns_def Let_def split: sum.splits)
    next
      case (Turn_Nudge msg)
      show ?thesis
      proof (cases "nudges \<ge> nudge_budget n")
        case True2: True
        with "1.prems" True turn Turn_Nudge show ?thesis
          by (intro ends) (simp add: retry_loop.simps [of n])
      next
        case False
        have "retry_loop n engine session s attempts (nudges + 1) (build_nudge_prompt n s prompt)
                last_exc w1 = (oc, w')"
          using "1.prems"(1) True turn Turn_Nudge False by (simp add: retry_loop.simps [of n engine session s attempts nudges])
        from "1.IH"(1) [OF _ turn [symmetric] Turn_Nudge False this "1.prems"(2)] True
        have "cnt w' \<le> cnt w1 + nat (retry_budget n - attempts) + nat (nudge_budget n - (nudges + 1))"
          by simp
        with c False show ?thesis by simp
      qed
    next
      case (Turn_Transient msg kind)
      show ?thesis
      proof (cases "kind_retryable n kind")
        case False
        with "1.prems" True turn Turn_Transient show ?thesis
          by (intro ends) (simp add: retry_loop.simps [of n])
      next
        case retry: True
        have "retry_loop n engine session s (attempts + 1) nudges prompt (Some msg) w1 = (oc, w')"
          using "1.prems"(1) True turn Turn_Transient retry
          by (simp add: retry_loop.simps [of n engine session s attempts nudges])
        from "1.IH"(2) [OF _ turn [symmetric] Turn_Transient _ this "1.prems"(2)] True retry
        have "cnt w' \<le> cnt w1 + nat (retry_budget n - (attempts + 1)) + nat (nudge_budget n - nudges)"
          by simp
        with c True show ?thesis by simp
      qed
    qed (use "1.prems" True turn ends in \<open>auto simp: retry_loop.simps [of n]\<close>)
  qed
qed

section \<open>Switching engines ends\<close>

text \<open>
  The contract the loop needs of its selector (\<open>EngineSelector\<close>): within a visit it picks from a
  finite set of engines and never one that the node has ruled out.
\<close>

locale engine_selector =
  fixes select :: "task_state \<Rightarrow> pipeline_state \<Rightarrow> string list \<Rightarrow> 'w \<Rightarrow> string option \<times> 'w"
    and engines :: "task_state \<Rightarrow> pipeline_state \<Rightarrow> string set"
  assumes finite_engines: "finite (engines s st)"
    and picks_fresh:
      "select s st excluded w = (Some e, w') \<Longrightarrow> e \<in> engines s st \<and> e \<notin> set excluded"
begin

lemma select_loop_returns:
  "select_engine n = select \<Longrightarrow>
   \<exists>res. select_loop n s prompt excluded last_exc w = Some res"
proof (induction "card (engines s (agent_name n) - set excluded)" arbitrary: excluded last_exc w
    rule: less_induct)
  case less
  obtain pick w1 where pick: "select s (agent_name n) excluded w = (pick, w1)"
    by (cases "select s (agent_name n) excluded w")
  show ?case
  proof (cases pick)
    case None
    with pick less.prems show ?thesis by (simp add: select_loop.simps [of n])
  next
    case (Some engine)
    with pick have fresh: "engine \<in> engines s (agent_name n)" "engine \<notin> set excluded"
      using picks_fresh [of s "agent_name n" excluded w engine w1] by auto
    have "card (engines s (agent_name n) - set (engine # excluded)) <
          card (engines s (agent_name n) - set excluded)"
      using fresh finite_engines [of s "agent_name n"] by (intro psubset_card_mono) auto
    then have rest: "\<exists>res. select_loop n s prompt (engine # excluded) last_exc' w' = Some res"
      for last_exc' w' using less.hyps less.prems by blast
    show ?thesis
      using rest Some pick less.prems
      by (auto simp: select_loop.simps [of n s prompt excluded] split: prod.splits retry_outcome.splits)
  qed
qed

lemma agent_run_returns: "select_engine n = select \<Longrightarrow> \<exists>res. agent_run n s w = Some res"
  unfolding agent_run_def by (rule select_loop_returns)

end

text \<open>
  Whatever the selector does, a visit that returns gives an event its verdict translation can give,
  or a crash: a predicate on events carries through both loops.
\<close>

lemma retry_loop_events:
  "\<lbrakk>retry_loop n engine session s attempts nudges prompt last_exc w = (Resolved e, w');
    \<And>v e. to_event n v = Inr e \<Longrightarrow> P e; \<And>t m. P (Crash t m)\<rbrakk> \<Longrightarrow> P e"
proof (induction n engine session s attempts nudges prompt last_exc w
    rule: retry_loop.induct)
  case (1 n engine session s attempts nudges prompt last_exc w)
  from "1.prems"(1) show ?case
    by (subst (asm) retry_loop.simps)
       (use "1.IH" "1.prems"(2,3) in \<open>auto simp: nudge_exhausted_def Let_def
          split: if_splits prod.splits turn_result.splits sum.splits\<close>)
qed

lemma select_loop_events:
  "\<lbrakk>select_loop n s prompt excluded last_exc w = Some res; \<And>t m. P (Crash t m);
    \<And>v e. to_event n v = Inr e \<Longrightarrow> P e; fst res = Inr e\<rbrakk> \<Longrightarrow> P e"
proof (induction n s prompt excluded last_exc w res
    rule: select_loop.raw_induct [rotated, consumes 1, case_names 1])
  case (1 rec n s prompt excluded last_exc w res)
  obtain pick w1 where pick: "select_engine n s (agent_name n) excluded w = (pick, w1)"
    by (cases "select_engine n s (agent_name n) excluded w")
  show ?case
  proof (cases pick)
    case None
    with "1.hyps" "1.prems" pick show ?thesis by auto
  next
    case (Some engine)
    obtain session w2 where ses: "get_session n (task_id s) (agent_name n) engine w1 = (session, w2)"
      by (cases "get_session n (task_id s) (agent_name n) engine w1")
    obtain oc w3 where oc: "retry_loop n engine session s 0 0 prompt None w2 = (oc, w3)"
      by (cases "retry_loop n engine session s 0 0 prompt None w2")
    show ?thesis
    proof (cases oc)
      case (Resolved e')
      with "1.hyps" pick Some ses oc "1.prems"(3) have "e' = e" by auto
      with oc Resolved have "retry_loop n engine session s 0 0 prompt None w2 = (Resolved e, w3)" by simp
      from retry_loop_events [of n engine session s 0 0 prompt None w2 e w3 P, OF this] "1.prems"(1,2)
      show ?thesis by blast
    next
      case (Engine_Out msg)
      with "1.hyps" pick Some ses oc
      have "rec n s prompt (engine # excluded) (Some msg) w3 = Some res" by simp
      from "1.IH" [OF this "1.prems"(1,2,3)] show ?thesis .
    qed (use "1.hyps" pick Some ses oc "1.prems"(3) in auto)
  qed
qed

lemma agent_run_events:
  "\<lbrakk>agent_run n s w = Some (Inr e, w'); \<And>t m. P (Crash t m); \<And>v e. to_event n v = Inr e \<Longrightarrow> P e\<rbrakk>
   \<Longrightarrow> P e"
  unfolding agent_run_def by (rule select_loop_events [where res = "(Inr e, w')"]) auto

end
