(* ===== verification/Hook_Node.thy ===== *)
theory Hook_Node
  imports Runner
begin

text \<open>
  \<open>litehive/lifecycle/nodes/hook.py\<close> with \<open>litehive/feedback.py\<close>: running the hooks of a phase in
  order, the reject event of the first one that fails, and the subprocess runner. The process
  itself acts on the open world; the truncation marker and the printed form of a timeout, whose
  characters or digits are outside the model, are parameters.
\<close>

record hook_spec =
  hook_command :: string
  timeout_seconds :: rat
  spec_description :: "string option"
  instructions_on_failure :: "string option"

record completed_process =
  returncode :: int
  stdout :: string
  stderr :: string

definition FEEDBACK_CAP :: int where
  "FEEDBACK_CAP = 2000"

text \<open>\<open>text[: limit - len(marker)] + marker\<close>: a negative bound counts from the end.\<close>

definition py_prefix :: "string \<Rightarrow> int \<Rightarrow> string" where
  "py_prefix s n = (if n \<ge> 0 then take (nat n) s else take (length s - nat (- n)) s)"

definition cap_feedback :: "string \<Rightarrow> string \<Rightarrow> int \<Rightarrow> string" where
  "cap_feedback marker text limit =
     (if int (length text) \<le> limit then text
      else py_prefix text (limit - int (length marker)) @ marker)"

section \<open>The subprocess runner\<close>

datatype process_result =
    Process_Completed int "string option" "string option"
  | Process_TimedOut "string option" "string option"
  | Process_NotFound string

definition failed_process :: "int \<Rightarrow> string \<Rightarrow> string \<Rightarrow> completed_process" where
  "failed_process code out err = \<lparr>returncode = code, stdout = out, stderr = err\<rparr>"

text \<open>\<open>exc.stdout\<close> is text, bytes or \<open>None\<close>; only text is kept, the rest is \<open>None\<close> here.\<close>

definition hook_process_result ::
  "(rat \<Rightarrow> string) \<Rightarrow> hook_spec \<Rightarrow> process_result \<Rightarrow> completed_process option" where
  "hook_process_result float_repr spec p =
     (case p of
        Process_TimedOut out err \<Rightarrow>
          Some (failed_process 124 (py_strip (opt_str_or out []))
                 (py_strip (''[timeout after '' @ float_repr (timeout_seconds spec) @ ''s]'' @
                            [CHR 0x0A] @ py_strip (opt_str_or err []))))
      | Process_NotFound msg \<Rightarrow> Some (failed_process 127 [] (''[hook binary missing] '' @ msg))
      | Process_Completed code out err \<Rightarrow>
          if code = 0 then None
          else Some (failed_process code (py_strip (opt_str_or out [])) (py_strip (opt_str_or err []))))"

section \<open>The node\<close>

definition stripped_description :: "hook_spec \<Rightarrow> string" where
  "stripped_description spec = py_strip (opt_str_or (spec_description spec) [])"

definition hook_spec_fingerprint :: "pipeline_state \<Rightarrow> hook_spec \<Rightarrow> string" where
  "hook_spec_fingerprint point spec =
     pipeline_state_value point @ ''|'' @ hook_command spec @ ''|'' @ stripped_description spec"

definition hook_warning ::
  "string \<Rightarrow> pipeline_state \<Rightarrow> hook_spec \<Rightarrow> completed_process \<Rightarrow> string" where
  "hook_warning marker point spec result =
     (let nl = [CHR 0x0A] in
      py_join nl
        ([''Runner hook warning at '' @ quoted (pipeline_state_value point) @ '': '' @
          quoted (hook_command spec) @ '' exited with '' @ int_str (returncode result) @ ''.'']
         @ (if stripped_description spec \<noteq> []
            then [''Description: '' @ stripped_description spec] else [])
         @ (if stdout result \<noteq> []
            then [''stdout:'' @ nl @ cap_feedback marker (stdout result) FEEDBACK_CAP] else [])
         @ (if stderr result \<noteq> []
            then [''stderr:'' @ nl @ cap_feedback marker (stderr result) FEEDBACK_CAP] else [])
         @ (case instructions_on_failure spec of
              None \<Rightarrow> []
            | Some i \<Rightarrow> if i = [] then [] else [''Instructions on failure: '' @ i])))"

definition hook_reject ::
  "string \<Rightarrow> pipeline_state \<Rightarrow> hook_spec \<Rightarrow> completed_process \<Rightarrow> task_state \<Rightarrow> event" where
  "hook_reject marker point spec result s =
     (let description = stripped_description spec;
          fp = hook_spec_fingerprint point spec;
          hook = [(''point'', PyStr (pipeline_state_value point)),
                  (''command'', PyStr (hook_command spec)),
                  (''description'', PyStr description),
                  (''fingerprint'', PyStr fp)];
          same = (case last_hook_reject_fingerprint s of
                    None \<Rightarrow> 1
                  | Some previous \<Rightarrow>
                      if hf_fingerprint previous = fp then consecutive_same_hook_rejects s + 1 else 1);
          reason = ''Runner hook rejected at '' @ quoted (pipeline_state_value point) @ '': '' @
                   quoted (hook_command spec) @ ''.'' @
                   (if description \<noteq> [] then '' Description: '' @ description else [])
      in Reject Src_hook reason None
           [(''hook'', PyDict hook),
            (''warnings'', PyList [PyStr (hook_warning marker point spec result)]),
            (''consecutive_same_hook_rejects'', PyInt same)])"

type_synonym 'w hook_runner = "hook_spec \<Rightarrow> task_state \<Rightarrow> 'w \<Rightarrow> completed_process option \<times> 'w"

fun hook_node_run ::
  "string \<Rightarrow> 'w hook_runner \<Rightarrow> pipeline_state \<Rightarrow> hook_spec list \<Rightarrow> task_state \<Rightarrow> 'w \<Rightarrow> event \<times> 'w" where
  "hook_node_run marker run point [] s w = (HookOk [], w)"
| "hook_node_run marker run point (spec # specs) s w =
     (case run spec s w of
        (Some result, w1) \<Rightarrow> (hook_reject marker point spec result s, w1)
      | (None, w1) \<Rightarrow> hook_node_run marker run point specs s w1)"

definition subprocess_hook_runner ::
  "(rat \<Rightarrow> string) \<Rightarrow> (hook_spec \<Rightarrow> task_state \<Rightarrow> 'w \<Rightarrow> process_result \<times> 'w) \<Rightarrow> 'w hook_runner" where
  "subprocess_hook_runner float_repr execute spec s w =
     (case execute spec s w of (p, w1) \<Rightarrow> (hook_process_result float_repr spec p, w1))"

section \<open>Lemmas\<close>

text \<open>The node's own count and the count the delta stores are the same number.\<close>

lemma hook_reject_fingerprint:
  assumes "hook_command spec \<noteq> []"
  shows "hook_fingerprint_from_event (hook_reject marker point spec result s) =
           Some \<lparr>hf_point = pipeline_state_value point, hf_command = hook_command spec,
                 hf_description = stripped_description spec,
                 hf_fingerprint = hook_spec_fingerprint point spec\<rparr>"
  using assms by (simp add: hook_reject_def Let_def hook_spec_fingerprint_def py_or_def)

lemma hook_node_class:
  "hook_node_run marker run point specs s w = (e, w') \<Longrightarrow> class_of e \<in> {EHookOk, EReject}"
  by (induction specs arbitrary: w)
     (auto simp: hook_reject_def Let_def split: prod.splits option.splits)

lemma cap_feedback_length:
  assumes "int (length marker) \<le> limit"
  shows "int (length (cap_feedback marker text limit)) \<le> limit"
  using assms by (auto simp: cap_feedback_def py_prefix_def)

end
