(* ===== verification/System_Nodes.thy ===== *)
theory System_Nodes
  imports Runner
begin

text \<open>
  \<open>litehive/lifecycle/nodes/system.py\<close> and \<open>nodes/terminal.py\<close>: the nodes the runner drives without
  an agent. Probes, repairs, worktree synchronisation and the merge act on the open world; what
  the nodes make of their outcome is modelled here.
\<close>

section \<open>Entry probe and pre-execution repairs\<close>

datatype call_result = Call_Ok bool | Call_Raised string

type_synonym 'w probe = "task_state \<Rightarrow> 'w \<Rightarrow> call_result \<times> 'w"

fun ready_node_run :: "'w probe list \<Rightarrow> task_state \<Rightarrow> 'w \<Rightarrow> event \<times> 'w" where
  "ready_node_run [] s w = (CleanState, w)"
| "ready_node_run (probe # probes) s w =
     (case probe s w of
        (Call_Ok broken, w1) \<Rightarrow>
          if broken then (NeedsPreExecRecovery, w1) else ready_node_run probes s w1
      | (Call_Raised msg, w1) \<Rightarrow> (NeedsPreExecRecovery, w1))"

type_synonym 'w repair = "task_state \<Rightarrow> 'w \<Rightarrow> call_result \<times> 'w"

text \<open>A repair that raises is reported and skipped: the next one runs either way.\<close>

fun run_repairs :: "'w repair list \<Rightarrow> task_state \<Rightarrow> 'w \<Rightarrow> 'w" where
  "run_repairs [] s w = w"
| "run_repairs (repair # repairs) s w = run_repairs repairs s (snd (repair s w))"

definition pre_exec_resume_stage :: "task_state \<Rightarrow> pipeline_state" where
  "pre_exec_resume_stage s =
     (case entry_stage s of
        Some st \<Rightarrow> st
      | None \<Rightarrow> if mode s = SINGLE then IMPLEMENTING else GROOMING)"

definition pre_exec_node_run :: "'w repair list \<Rightarrow> task_state \<Rightarrow> 'w \<Rightarrow> event \<times> 'w" where
  "pre_exec_node_run repairs s w =
     (if pre_exec_recovery_attempt s > 1 then (PreExecRecoveryBudgetHit, w)
      else (PreExecRecoverySucceeded (pre_exec_resume_stage s), run_repairs repairs s w))"

section \<open>Git outcomes\<close>

datatype 'a git_outcome = Git_Ok 'a | Git_Conflict "string list" | Git_Error string | Git_Raised string

definition worktree_conflict_reason :: "string list \<Rightarrow> string" where
  "worktree_conflict_reason files =
     ''worktree_sync merge conflict on '' @ int_str (int (length files)) @ '' file(s): '' @
     py_join '', '' (take 5 files)"

definition worktree_sync_node_run ::
  "(task_state \<Rightarrow> 'w \<Rightarrow> bool git_outcome \<times> 'w) \<Rightarrow> task_state \<Rightarrow> 'w \<Rightarrow> (lifecycle_error + event) \<times> 'w" where
  "worktree_sync_node_run sync s w =
     (case sync s w of
        (Git_Ok _, w1) \<Rightarrow> (Inr (Pass []), w1)
      | (Git_Conflict files, w1) \<Rightarrow> (Inr (Reject Src_system (worktree_conflict_reason files) None []), w1)
      | (Git_Error msg, w1) \<Rightarrow> (Inr (Crash ''GitError'' msg), w1)
      | (Git_Raised msg, w1) \<Rightarrow> (Inl (NodeRaised msg), w1))"

definition noop_sync :: "task_state \<Rightarrow> 'w \<Rightarrow> bool git_outcome \<times> 'w" where
  "noop_sync s w = (Git_Ok False, w)"

text \<open>
  \<open>GitWorktreeSyncNode.sync\<close>: a worktree conflict stays a conflict, and every other exception of
  the sync service becomes a \<open>GitError\<close>.
\<close>

datatype sync_service_result = Sync_Done bool | Sync_Conflict "string list" | Sync_Raised string

definition git_worktree_sync ::
  "(task_state \<Rightarrow> 'w \<Rightarrow> sync_service_result \<times> 'w) \<Rightarrow> task_state \<Rightarrow> 'w \<Rightarrow> bool git_outcome \<times> 'w" where
  "git_worktree_sync service s w =
     (case service s w of
        (Sync_Done changed, w1) \<Rightarrow> (Git_Ok changed, w1)
      | (Sync_Conflict files, w1) \<Rightarrow> (Git_Conflict files, w1)
      | (Sync_Raised msg, w1) \<Rightarrow> (Git_Error msg, w1))"

type_synonym commit_metadata = "(string, pyval) dict"

definition commit_node_run ::
  "(task_state \<Rightarrow> 'w \<Rightarrow> commit_metadata option git_outcome \<times> 'w) \<Rightarrow> task_state \<Rightarrow> 'w \<Rightarrow>
   (lifecycle_error + event) \<times> 'w" where
  "commit_node_run merge s w =
     (case merge s w of
        (Git_Ok meta, w1) \<Rightarrow> (Inr (Pass (case meta of None \<Rightarrow> [] | Some d \<Rightarrow> d)), w1)
      | (Git_Conflict files, w1) \<Rightarrow> (Inr (MergeConflictDetected files), w1)
      | (Git_Error msg, w1) \<Rightarrow> (Inr (Crash ''GitError'' msg), w1)
      | (Git_Raised msg, w1) \<Rightarrow> (Inl (NodeRaised msg), w1))"

definition stub_merge :: "task_state \<Rightarrow> 'w \<Rightarrow> commit_metadata option git_outcome \<times> 'w" where
  "stub_merge s w = (Git_Ok None, w)"

definition terminal_node_run :: "task_state \<Rightarrow> 'w \<Rightarrow> event \<times> 'w" where
  "terminal_node_run s w = (Pass [], w)"

section \<open>Lemmas\<close>

text \<open>Any probe that fires or raises sends the task to pre-execution recovery.\<close>

lemma ready_node_class:
  "ready_node_run probes s w = (e, w') \<Longrightarrow> e = CleanState \<or> e = NeedsPreExecRecovery"
  by (induction probes arbitrary: w) (auto split: prod.splits call_result.splits if_splits)

lemma pre_exec_node_event:
  "pre_exec_node_run repairs s w = (e, w') \<Longrightarrow>
   e = PreExecRecoveryBudgetHit \<or> e = PreExecRecoverySucceeded (pre_exec_resume_stage s)"
  by (auto simp: pre_exec_node_run_def split: if_splits)

lemma worktree_sync_event:
  "worktree_sync_node_run sync s w = (Inr e, w') \<Longrightarrow>
   e = Pass [] \<or> class_of e = EReject \<or> (\<exists>msg. e = Crash ''GitError'' msg)"
  by (auto simp: worktree_sync_node_run_def split: prod.splits git_outcome.splits)

lemma commit_node_event:
  "commit_node_run merge s w = (Inr e, w') \<Longrightarrow>
   class_of e \<in> {EPass, EMergeConflictDetected} \<or> (\<exists>msg. e = Crash ''GitError'' msg)"
  by (auto simp: commit_node_run_def split: prod.splits git_outcome.splits option.splits)

end
