(* ===== verification/Node_Registry.thy ===== *)
theory Node_Registry
  imports Agent_Node Hook_Node System_Nodes
begin

text \<open>
  \<open>litehive/lifecycle/registry.py\<close> and \<open>nodes/base.py\<close>: the registry of nodes, what
  \<open>build_registry\<close> puts in it, and the contract every registered node keeps: it answers with an
  event its stage can answer with.
\<close>

section \<open>The registry\<close>

type_synonym 'w registry = "(pipeline_state, 'w node) dict"

text \<open>\<open>register\<close> refuses a second node of the same name; \<open>get\<close> raises \<open>KeyError\<close> (\<open>None\<close>).\<close>

definition register :: "pipeline_state \<Rightarrow> 'w node \<Rightarrow> 'w registry \<Rightarrow> lifecycle_error + 'w registry" where
  "register name nd reg =
     (case map_of reg name of
        Some _ \<Rightarrow> Inl (ValueError (''node '' @ pipeline_state_value name @ '' already registered''))
      | None \<Rightarrow> Inr (AList.update name nd reg))"

fun register_all :: "(pipeline_state \<times> 'w node) list \<Rightarrow> 'w registry \<Rightarrow> lifecycle_error + 'w registry" where
  "register_all [] reg = Inr reg"
| "register_all ((name, nd) # rest) reg =
     (case register name nd reg of Inl err \<Rightarrow> Inl err | Inr reg' \<Rightarrow> register_all rest reg')"

definition registry_get :: "'w registry \<Rightarrow> pipeline_state \<Rightarrow> 'w node option" where
  "registry_get reg name = map_of reg name"

definition HOOK_PHASES :: "pipeline_state list" where
  "HOOK_PHASES =
     [BEFORE_GROOMING, AFTER_GROOMING, BEFORE_IMPLEMENTING, AFTER_IMPLEMENTING, BEFORE_TESTING,
      AFTER_TESTING, BEFORE_ACCEPTING, AFTER_ACCEPTING, AFTER_COMMIT]"

section \<open>The dependencies of \<open>build_registry\<close>\<close>

record ('p, 's, 'w) deps =
  dep_agent :: "pipeline_state \<Rightarrow> ('p, 's, 'w) agent_node"
  dep_hook_runner :: "'w hook_runner"
  dep_hook_specs :: "(pipeline_state, hook_spec list) dict"
  dep_probes :: "'w probe list"
  dep_repairs :: "'w repair list"
  dep_sync :: "task_state \<Rightarrow> 'w \<Rightarrow> bool git_outcome \<times> 'w"
  dep_merge :: "task_state \<Rightarrow> 'w \<Rightarrow> commit_metadata option git_outcome \<times> 'w"
  dep_marker :: string
  dep_retry_budget :: int
  dep_retry_on :: "string list"

definition plain_node ::
  "node_type \<Rightarrow> (task_state \<Rightarrow> 'w \<Rightarrow> event \<times> 'w) \<Rightarrow> 'w node" where
  "plain_node ty run =
     \<lparr>the_node_type = ty, node_run = (\<lambda>s w. case run s w of (e, w1) \<Rightarrow> Some (Inr e, w1))\<rparr>"

definition fallible_node ::
  "node_type \<Rightarrow> (task_state \<Rightarrow> 'w \<Rightarrow> (lifecycle_error + event) \<times> 'w) \<Rightarrow> 'w node" where
  "fallible_node ty run = \<lparr>the_node_type = ty, node_run = (\<lambda>s w. Some (run s w))\<rparr>"

text \<open>
  A role agent: the base configuration with the retry settings of the registry, its own node name,
  one nudge, and the recovery agent's own translation of verdicts.
\<close>

definition role_agent :: "('p, 's, 'w) deps \<Rightarrow> pipeline_state \<Rightarrow> ('p, 's, 'w) agent_node" where
  "role_agent d st =
     (dep_agent d st)
       \<lparr>agent_name := st, retry_budget := dep_retry_budget d, retry_on := dep_retry_on d,
        retry_backoff_seconds := 0, retry_backoff_multiplier := 2, nudge_budget := 1,
        to_event := (if st = RECOVERING then recovery_verdict_to_event else agent_verdict_to_event)\<rparr>"

definition agent_entry :: "('p, 's, 'w) deps \<Rightarrow> pipeline_state \<Rightarrow> pipeline_state \<times> 'w node" where
  "agent_entry d st = (st, \<lparr>the_node_type = NT_AGENT, node_run = agent_run (role_agent d st)\<rparr>)"

definition hook_entry :: "('p, 's, 'w) deps \<Rightarrow> pipeline_state \<Rightarrow> pipeline_state \<times> 'w node" where
  "hook_entry d st =
     (st, plain_node NT_HOOK
            (hook_node_run (dep_marker d) (dep_hook_runner d) st (dict_get st [] (dep_hook_specs d))))"

definition registry_entries :: "('p, 's, 'w) deps \<Rightarrow> (pipeline_state \<times> 'w node) list" where
  "registry_entries d =
     [(READY, plain_node NT_SYSTEM (ready_node_run (dep_probes d))),
      (RECOVERING_PRE_EXEC, plain_node NT_SYSTEM (pre_exec_node_run (dep_repairs d))),
      (WORKTREE_SYNC, fallible_node NT_SYSTEM (worktree_sync_node_run (dep_sync d)))]
     @ map (hook_entry d) HOOK_PHASES
     @ map (agent_entry d) [GROOMING, IMPLEMENTING, TESTING, ACCEPTING]
     @ [(COMMIT, fallible_node NT_SYSTEM (commit_node_run (dep_merge d)))]
     @ map (agent_entry d) [MERGE_RESOLVING, RECOVERING]
     @ [(DONE, plain_node NT_TERMINAL terminal_node_run),
        (FAILED, plain_node NT_TERMINAL terminal_node_run)]"

definition build_registry :: "('p, 's, 'w) deps \<Rightarrow> lifecycle_error + 'w registry" where
  "build_registry d = register_all (registry_entries d) []"

section \<open>Building it succeeds and covers every state\<close>

lemma register_all_fresh:
  "\<lbrakk>distinct (map fst entries); fst ` set entries \<inter> fst ` set reg = {}\<rbrakk> \<Longrightarrow>
   register_all entries reg = Inr (reg @ entries)"
proof (induction entries arbitrary: reg)
  case Nil
  then show ?case by simp
next
  case (Cons p entries)
  obtain name nd where p: "p = (name, nd)" by (cases p)
  with Cons.prems have fresh: "name \<notin> fst ` set reg" by auto
  then have "register name nd reg = Inr (reg @ [(name, nd)])"
    by (simp add: register_def update_fresh map_of_eq_None_iff split: option.splits)
  with Cons.IH [of "reg @ [(name, nd)]"] Cons.prems p show ?case by auto
qed

lemma registry_names:
  "map fst (registry_entries d) =
     [READY, RECOVERING_PRE_EXEC, WORKTREE_SYNC] @ HOOK_PHASES @
     [GROOMING, IMPLEMENTING, TESTING, ACCEPTING, COMMIT, MERGE_RESOLVING, RECOVERING, DONE, FAILED]"
  by (simp add: registry_entries_def HOOK_PHASES_def hook_entry_def agent_entry_def)

lemma registry_names_distinct: "distinct (map fst (registry_entries d))"
  unfolding registry_names HOOK_PHASES_def by code_simp

lemma build_registry_ok: "build_registry d = Inr (registry_entries d)"
  unfolding build_registry_def using register_all_fresh [of "registry_entries d" "[]"]
  by (simp add: registry_names_distinct)

section \<open>The node contract\<close>

text \<open>The events a node of stage \<open>st\<close> may return for state \<open>s\<close>.\<close>

fun may_return :: "pipeline_state \<Rightarrow> task_state \<Rightarrow> event \<Rightarrow> bool" where
  "may_return READY s e = (e = CleanState \<or> e = NeedsPreExecRecovery)"
| "may_return RECOVERING_PRE_EXEC s e =
     (e = PreExecRecoveryBudgetHit \<or> e = PreExecRecoverySucceeded (pre_exec_resume_stage s))"
| "may_return WORKTREE_SYNC s e = (class_of e \<in> {EPass, EReject, ECrash})"
| "may_return COMMIT s e = (class_of e \<in> {EPass, EMergeConflictDetected, ECrash})"
| "may_return RECOVERING s e =
     ((\<exists>st hint. e = RecoverySucceeded (pipeline_state_value st) hint) \<or>
      class_of e \<in> {ERecoveryFailed, ERecoveryBudgetHit, ECrash})"
| "may_return DONE s e = False"
| "may_return FAILED s e = False"
| "may_return st s e =
     (class_of e \<in> (if st \<in> set HOOK_PHASES then {EHookOk, EReject} else agent_classes))"

text \<open>
  What the runner relies on when it asks the registry: there is a node for every state, the
  agents are exactly the agent-backed states, and a node that returns an event returns one of
  its stage's vocabulary.
\<close>

locale node_contract =
  fixes nodes :: "pipeline_state \<Rightarrow> 'w node option"
  assumes registered: "nodes st \<noteq> None"
    and vocabulary:
      "\<lbrakk>nodes st = Some nd; st \<notin> set TERMINAL_NODES; node_run nd s w = Some (Inr e, w')\<rbrakk> \<Longrightarrow>
       may_return st s e"

text \<open>The registry in closed form.\<close>

lemma registry_get_entry:
  "(st, nd) \<in> set (registry_entries d) \<Longrightarrow> registry_get (registry_entries d) st = Some nd"
  unfolding registry_get_def by (rule map_of_is_SomeI [OF registry_names_distinct])

lemma registry_get_agent:
  "st \<in> {GROOMING, IMPLEMENTING, TESTING, ACCEPTING, MERGE_RESOLVING, RECOVERING} \<Longrightarrow>
   registry_get (registry_entries d) st = Some (snd (agent_entry d st))"
  by (rule registry_get_entry) (auto simp: registry_entries_def agent_entry_def)

lemma registry_get_hook:
  "st \<in> set HOOK_PHASES \<Longrightarrow> registry_get (registry_entries d) st = Some (snd (hook_entry d st))"
  by (rule registry_get_entry) (auto simp: registry_entries_def hook_entry_def)

lemma registry_get_system:
  "registry_get (registry_entries d) READY = Some (plain_node NT_SYSTEM (ready_node_run (dep_probes d)))"
  "registry_get (registry_entries d) RECOVERING_PRE_EXEC =
     Some (plain_node NT_SYSTEM (pre_exec_node_run (dep_repairs d)))"
  "registry_get (registry_entries d) WORKTREE_SYNC =
     Some (fallible_node NT_SYSTEM (worktree_sync_node_run (dep_sync d)))"
  "registry_get (registry_entries d) COMMIT =
     Some (fallible_node NT_SYSTEM (commit_node_run (dep_merge d)))"
  "registry_get (registry_entries d) DONE = Some (plain_node NT_TERMINAL terminal_node_run)"
  "registry_get (registry_entries d) FAILED = Some (plain_node NT_TERMINAL terminal_node_run)"
  by (rule registry_get_entry, simp add: registry_entries_def)+

lemma role_agent_to_event:
  "to_event (role_agent d st) =
     (if st = RECOVERING then recovery_verdict_to_event else agent_verdict_to_event)"
  by (simp add: role_agent_def)

lemma stage_agent_class:
  "\<lbrakk>agent_run (role_agent d st) s w = Some (Inr e, w'); st \<noteq> RECOVERING\<rbrakk> \<Longrightarrow>
   class_of e \<in> agent_classes"
  by (erule agent_run_events [where P = "\<lambda>e. class_of e \<in> agent_classes"])
     (auto simp: role_agent_to_event agent_classes_def dest: agent_verdict_class)

lemma registry_nonempty: "registry_get (registry_entries d) st \<noteq> None"
  by (cases st) (simp_all add: registry_get_agent registry_get_hook registry_get_system HOOK_PHASES_def)

lemma recovery_verdict_may_return:
  assumes "recovery_verdict_to_event v = Inr e" shows "may_return RECOVERING s e"
proof (cases "\<exists>resume hint. e = RecoverySucceeded resume hint")
  case True
  then show ?thesis using assms recovery_success_target by fastforce
next
  case False
  have "class_of e \<in> recovery_classes" using assms by (rule recovery_verdict_class)
  with False show ?thesis by (cases e) (auto simp: recovery_classes_def)
qed

lemma agent_may_return:
  assumes run: "agent_run (role_agent d st) s w = Some (Inr e, w')"
    and st: "st \<in> {GROOMING, IMPLEMENTING, TESTING, ACCEPTING, MERGE_RESOLVING, RECOVERING}"
  shows "may_return st s e"
proof (cases "st = RECOVERING")
  case True
  from run have "may_return RECOVERING s e"
    by (rule agent_run_events)
       (simp, simp add: True role_agent_to_event recovery_verdict_may_return del: may_return.simps)
  with True show ?thesis by simp
next
  case False
  with stage_agent_class [OF run] st show ?thesis by (auto simp: HOOK_PHASES_def)
qed

lemma hook_may_return:
  "\<lbrakk>st \<in> set HOOK_PHASES; class_of e \<in> {EHookOk, EReject}\<rbrakk> \<Longrightarrow> may_return st s e"
  by (auto simp: HOOK_PHASES_def)

lemma state_cases:
  "st \<in> {GROOMING, IMPLEMENTING, TESTING, ACCEPTING, MERGE_RESOLVING, RECOVERING} \<or>
   st \<in> set HOOK_PHASES \<or>
   st \<in> {READY, RECOVERING_PRE_EXEC, WORKTREE_SYNC, COMMIT} \<or> st \<in> {DONE, FAILED}"
  by (cases st) (simp_all add: HOOK_PHASES_def)

lemma system_may_return:
  "ready_node_run probes s w = (e, w') \<Longrightarrow> may_return READY s e"
  "pre_exec_node_run repairs s w = (e, w') \<Longrightarrow> may_return RECOVERING_PRE_EXEC s e"
  "worktree_sync_node_run sync s w = (Inr e, w') \<Longrightarrow> may_return WORKTREE_SYNC s e"
  "commit_node_run merge s w = (Inr e, w') \<Longrightarrow> may_return COMMIT s e"
  using ready_node_class [of probes s w e w'] pre_exec_node_event [of repairs s w e w']
    worktree_sync_event [of sync s w e w'] commit_node_event [of merge s w e w'] by auto

lemma registry_vocabulary:
  assumes nd: "registry_get (registry_entries d) st = Some nd" and st: "st \<notin> set TERMINAL_NODES"
    and run: "node_run nd s w = Some (Inr e, w')"
  shows "may_return st s e"
  using state_cases [of st]
proof (elim disjE)
  assume st: "st \<in> {GROOMING, IMPLEMENTING, TESTING, ACCEPTING, MERGE_RESOLVING, RECOVERING}"
  with nd run have "agent_run (role_agent d st) s w = Some (Inr e, w')"
    by (simp only: registry_get_agent) (auto simp: agent_entry_def)
  then show ?thesis using st by (rule agent_may_return)
next
  assume st: "st \<in> set HOOK_PHASES"
  with nd run obtain w1 where
    "hook_node_run (dep_marker d) (dep_hook_runner d) st (dict_get st [] (dep_hook_specs d)) s w = (e, w1)"
    by (auto simp: registry_get_hook hook_entry_def plain_node_def split: prod.splits)
  from hook_node_class [OF this] st show ?thesis by (rule hook_may_return [rotated])
next
  assume "st \<in> {READY, RECOVERING_PRE_EXEC, WORKTREE_SYNC, COMMIT}"
  with nd run show ?thesis
    by (auto simp: registry_get_system plain_node_def fallible_node_def simp del: may_return.simps
        split: prod.splits) (erule system_may_return)+
next
  assume "st \<in> {DONE, FAILED}"
  with st show ?thesis by (auto simp: TERMINAL_NODES_def)
qed

interpretation reg: node_contract "registry_get (registry_entries d)" for d
proof unfold_locales
  show "registry_get (registry_entries d) st \<noteq> None" for st by (rule registry_nonempty)
qed (rule registry_vocabulary)

end
