(* ===== verification/Lifecycle.thy ===== *)
theory Lifecycle
  imports Node_Registry
begin

text \<open>
  Properties of the machine the runner drives: every event a registered node may return has a
  transition, the recovery budget is spent once per key, retries are bounded, and a run ends.
  The argument for termination is a potential that every transition lowers.
\<close>

section \<open>Computed targets are total on what nodes return\<close>

definition stage_entry :: "pipeline_state \<Rightarrow> pipeline_state" where
  "stage_entry st =
     (if st = GROOMING then BEFORE_GROOMING else if st = IMPLEMENTING then BEFORE_IMPLEMENTING
      else if st = TESTING then BEFORE_TESTING else if st = ACCEPTING then BEFORE_ACCEPTING else st)"

lemma in_STAGES_value: "in_STAGES (pipeline_state_value st) \<longleftrightarrow> st \<in> set STAGES"
  unfolding in_STAGES_def set_map by (rule inj_image_mem_iff) (simp add: inj_def)

lemma parse_state_value [simp]: "parse_state (pipeline_state_value st) = Inr st"
  by (simp add: parse_state_def)

lemma before_values:
  "canonical_pipeline_state (''before_'' @ ''grooming'') = Some BEFORE_GROOMING"
  "canonical_pipeline_state (''before_'' @ ''implementing'') = Some BEFORE_IMPLEMENTING"
  "canonical_pipeline_state (''before_'' @ ''testing'') = Some BEFORE_TESTING"
  "canonical_pipeline_state (''before_'' @ ''accepting'') = Some BEFORE_ACCEPTING"
  using before_phase_simps by (simp_all add: before_phase_def)

lemma entry_phase_stage: "st \<in> set STAGES \<Longrightarrow> entry_phase (Some (pipeline_state_value st)) = Inr (stage_entry st)"
  by (auto simp: entry_phase_def STAGES_def AGENT_STAGES_def SYSTEM_STAGES_def stage_entry_def
      parse_state_def before_values simp del: append.simps)

lemma stage_entry_outside: "st \<notin> set STAGES \<Longrightarrow> stage_entry st = st"
  by (auto simp: stage_entry_def STAGES_def AGENT_STAGES_def)

lemma resume_value:
  "resume_from_origin s (RecoverySucceeded (pipeline_state_value st) hint) = Inr (stage_entry st)"
proof (cases "st = DONE")
  case True
  then show ?thesis by (simp add: resume_from_origin_def stage_entry_def)
next
  case False
  then have "pipeline_state_value st \<noteq> pipeline_state_value DONE" by (subst pipeline_state_value_inject)
  then show ?thesis
    by (simp add: resume_from_origin_def in_STAGES_value entry_phase_stage stage_entry_outside
        del: pipeline_state_value.simps)
qed

lemma pre_exec_target:
  "resume_from_pre_exec s (PreExecRecoverySucceeded st) = Inr (stage_entry st)"
  by (simp add: resume_from_pre_exec_def in_STAGES_value entry_phase_stage stage_entry_outside)

lemma entry_target:
  "entry_from_worktree_sync s e =
     Inr (case entry_stage s of Some st \<Rightarrow> stage_entry st
          | None \<Rightarrow> if mode s = SINGLE then BEFORE_IMPLEMENTING else BEFORE_GROOMING)"
  by (simp add: entry_from_worktree_sync_def in_STAGES_value entry_phase_stage stage_entry_outside
      split: option.split)

lemmas targets = resume_value pre_exec_target entry_target

section \<open>Progress\<close>

lemma py_strip_state_value: "py_strip (pipeline_state_value st) = pipeline_state_value st"
  by (cases st) (simp_all, code_simp+)

lemma route_total:
  assumes "may_return st s e" shows "\<exists>mv. route clk st e s = Inr mv"
  using assms
  by (cases st; cases e)
     (auto simp: targets route_defs table_defs agent_classes_def HOOK_PHASES_def py_strip_state_value
       simp del: pipeline_state_value.simps)

text \<open>With the table in place of its closed form: no event a node may return is without a rule.\<close>

lemma evaluate_total:
  assumes "may_return st s e" shows "\<exists>t. evaluate clk RULES st e s = Inr t"
  using route_total [OF assms, of clk] evaluate_RULES [of clk st e s]
  by (cases "evaluate clk RULES st e s") (auto simp: as_move_def)

section \<open>What moves a transition can be\<close>

text \<open>A delta that touches neither retry counters nor the recovery bookkeeping.\<close>

definition quiet :: "state_delta \<Rightarrow> bool" where
  "quiet d \<longleftrightarrow> inc_stage_retry d = None \<and> reset_stage_retry d = None \<and>
     append_recovery_outcome d = None \<and> set_active_recovery_trigger d = None \<and>
     \<not> clear_active_recovery_trigger d"

lemma quiet_simps [simp]:
  "quiet EMPTY_DELTA" "quiet (enter_pre_exec_recovery s e)" "quiet (clear_completed_rejection_loop s e)"
  "quiet (stash_conflict_files s e)" "quiet (RememberRejection_call st target s e)"
  "quiet (pass_delta cur s e)"
  by (auto simp: quiet_def enter_pre_exec_recovery_def clear_completed_rejection_loop_def
      stash_conflict_files_def RememberRejection_call_def rejection_tracking_delta_def
      pass_delta_def Let_def split: option.split event.split)

fun rank :: "pipeline_state \<Rightarrow> nat" where
  "rank READY = 19"
| "rank RECOVERING_PRE_EXEC = 18"
| "rank WORKTREE_SYNC = 17"
| "rank BEFORE_GROOMING = 16"
| "rank GROOMING = 15"
| "rank AFTER_GROOMING = 14"
| "rank BEFORE_IMPLEMENTING = 13"
| "rank IMPLEMENTING = 12"
| "rank AFTER_IMPLEMENTING = 11"
| "rank BEFORE_TESTING = 10"
| "rank TESTING = 9"
| "rank AFTER_TESTING = 8"
| "rank BEFORE_ACCEPTING = 7"
| "rank ACCEPTING = 6"
| "rank AFTER_ACCEPTING = 5"
| "rank COMMIT = 4"
| "rank MERGE_RESOLVING = 3"
| "rank AFTER_COMMIT = 2"
| "rank RECOVERING = 1"
| "rank DONE = 0"
| "rank FAILED = 0"

lemma rank_less: "rank st < 20"
  by (cases st) simp_all

definition counters :: "pipeline_state list" where
  "counters = [IMPLEMENTING, TESTING, ACCEPTING]"

text \<open>An entry stage from which the pipeline goes forward.\<close>

definition entry_ok :: "task_state \<Rightarrow> bool" where
  "entry_ok s = (case entry_stage s of None \<Rightarrow> True
                 | Some st \<Rightarrow> st \<notin> {READY, WORKTREE_SYNC, RECOVERING_PRE_EXEC, RECOVERING})"

datatype move_kind = Forward | Into_recovery | Failing | Retrying pipeline_state | Recovered

fun of_kind :: "move_kind \<Rightarrow> (nat \<Rightarrow> string) \<Rightarrow> pipeline_state \<Rightarrow> event \<Rightarrow> task_state \<Rightarrow> move \<Rightarrow> bool" where
  "of_kind Forward clk cur e s mv \<longleftrightarrow>
     quiet (snd mv) \<and> rank (fst mv) < rank cur \<and> fst mv \<noteq> RECOVERING"
| "of_kind Into_recovery clk cur e s mv \<longleftrightarrow>
     mv = (RECOVERING, enter_recovery s e) \<and> rank cur > 1 \<and>
     class_of e \<in> {EBlocked, ECrash, ETimeout} \<and>
     state_recovery_budget_available s (recovery_trigger_from_event s e)"
| "of_kind Failing clk cur e s mv \<longleftrightarrow>
     fst mv = FAILED \<and> inc_stage_retry (snd mv) = None \<and> reset_stage_retry (snd mv) = None \<and>
     delta_failed_reason (snd mv) \<noteq> None \<and> rank cur > 0"
| "of_kind (Retrying c) clk cur e s mv \<longleftrightarrow>
     fst mv = IMPLEMENTING \<and> c \<in> set counters \<and> inc_stage_retry (snd mv) = Some c \<and>
     reset_stage_retry (snd mv) = None \<and> append_recovery_outcome (snd mv) = None \<and>
     dict_get c 0 (stage_retry s) < stage_retry_limit (lims s) \<and> rank cur > 0"
| "of_kind Recovered clk cur e s mv \<longleftrightarrow>
     cur = RECOVERING \<and> snd mv = record_recovery_success clk s e \<and>
     (\<exists>st hint. e = RecoverySucceeded (pipeline_state_value st) hint \<and> fst mv = stage_entry st)"

lemma failing_deltas [simp]:
  "inc_stage_retry (Fail_call reason clk s e) = None"
  "reset_stage_retry (Fail_call reason clk s e) = None"
  "delta_failed_reason (Fail_call reason clk s e) = Some reason"
  "inc_stage_retry (FailRejectionLoop_call st t s e) = None"
  "reset_stage_retry (FailRejectionLoop_call st t s e) = None"
  "delta_failed_reason (FailRejectionLoop_call st t s e) = Some REJECTION_LOOP_DETECTED"
  "inc_stage_retry (exhaust_recovery_budget clk s e) = None"
  "reset_stage_retry (exhaust_recovery_budget clk s e) = None"
  "delta_failed_reason (exhaust_recovery_budget clk s e) = Some RECOVERY_BUDGET_HIT"
  by (simp_all add: Fail_call_def FailRejectionLoop_call_def exhaust_recovery_budget_def Let_def)

lemma retry_delta [simp]:
  "inc_stage_retry (IncStageRetry_call c target s e) = Some c"
  "reset_stage_retry (IncStageRetry_call c target s e) = None"
  "append_recovery_outcome (IncStageRetry_call c target s e) = None"
  by (simp_all add: IncStageRetry_call_def rejection_tracking_delta_def Let_def)

lemma recovery_move_kind:
  "\<lbrakk>rank cur > 1; class_of e \<in> {EBlocked, ECrash, ETimeout}\<rbrakk> \<Longrightarrow>
   \<exists>k. of_kind k clk cur e s (recovery_move clk s e)"
  by (cases "state_recovery_budget_available s (recovery_trigger_from_event s e)")
     (rule exI [of _ Into_recovery], simp add: recovery_move_def,
      rule exI [of _ Failing], simp add: recovery_move_def)

lemma fail_move_kind: "rank cur > 0 \<Longrightarrow> \<exists>k. of_kind k clk cur e s (fail_move reason clk s e)"
  by (rule exI [of _ Failing]) (simp add: fail_move_def)

lemma retry_move_kind:
  assumes "c \<in> set counters" "rank cur > 0" shows "\<exists>k. of_kind k clk cur e s (retry_move c clk s e)"
proof (cases "\<not> rejection_loop_detected s e (Some IMPLEMENTING) \<and> \<not> hook_reject_loop_detected s e \<and>
              dict_get c 0 (stage_retry s) < stage_retry_limit (lims s)")
  case True
  with assms have "of_kind (Retrying c) clk cur e s (retry_move c clk s e)" by (simp add: retry_move_def)
  then show ?thesis ..
next
  case False
  with assms have "of_kind Failing clk cur e s (retry_move c clk s e)"
    by (auto simp: retry_move_def fail_move_def)
  then show ?thesis ..
qed

lemma forward_kind:
  "\<lbrakk>quiet d; rank st' < rank cur; st' \<noteq> RECOVERING\<rbrakk> \<Longrightarrow> \<exists>k. of_kind k clk cur e s (st', d)"
  by (rule exI [of _ Forward]) simp

lemma entry_stage_rank:
  "st \<notin> {READY, WORKTREE_SYNC, RECOVERING_PRE_EXEC, RECOVERING} \<Longrightarrow>
   rank (stage_entry st) < 17 \<and> stage_entry st \<noteq> RECOVERING"
  by (cases st) (simp_all add: stage_entry_def)

lemma worktree_entry_kind:
  assumes "entry_ok s" "route clk WORKTREE_SYNC (Pass r) s = Inr mv"
  shows "\<exists>k. of_kind k clk WORKTREE_SYNC (Pass r) s mv"
proof (cases "entry_stage s")
  case None
  with assms(2) have "mv = (if mode s = SINGLE then BEFORE_IMPLEMENTING else BEFORE_GROOMING, EMPTY_DELTA)"
    by (simp add: targets computed_def)
  then show ?thesis by (auto intro!: forward_kind)
next
  case (Some st)
  with assms have "mv = (stage_entry st, EMPTY_DELTA)"
    "st \<notin> {READY, WORKTREE_SYNC, RECOVERING_PRE_EXEC, RECOVERING}"
    by (simp_all add: targets computed_def entry_ok_def)
  with entry_stage_rank [of st] show ?thesis by (auto intro!: forward_kind)
qed

lemma pre_exec_kind:
  assumes "entry_ok s" "e = PreExecRecoverySucceeded (pre_exec_resume_stage s)"
    "route clk RECOVERING_PRE_EXEC e s = Inr mv"
  shows "\<exists>k. of_kind k clk RECOVERING_PRE_EXEC e s mv"
proof -
  have "pre_exec_resume_stage s \<notin> {READY, WORKTREE_SYNC, RECOVERING_PRE_EXEC, RECOVERING}"
    using assms(1) by (auto simp: entry_ok_def pre_exec_resume_stage_def split: option.splits if_splits)
  from entry_stage_rank [OF this] assms(2,3) show ?thesis
    by (auto simp: targets computed_def intro!: forward_kind)
qed

lemma recovered_kind:
  assumes "route clk RECOVERING (RecoverySucceeded (pipeline_state_value st) hint) s = Inr mv"
  shows "\<exists>k. of_kind k clk RECOVERING (RecoverySucceeded (pipeline_state_value st) hint) s mv"
  using assms
  by (intro exI [of _ Recovered])
     (auto simp: targets computed_def py_strip_state_value simp del: pipeline_state_value.simps)

lemmas route_shape = settle_def reject_route_def fault_route_def escalate_def STAGE_PHASES_def
  AGENT_STAGES_def HOOK_PHASES_def agent_classes_def table_defs counters_def

lemma route_kind:
  assumes may: "may_return cur s e" and entry: "entry_ok s" and mv: "route clk cur e s = Inr mv"
  shows "\<exists>k. of_kind k clk cur e s mv"
proof -
  consider (sync) r where "cur = WORKTREE_SYNC" "e = Pass r"
    | (pre) "cur = RECOVERING_PRE_EXEC" "e = PreExecRecoverySucceeded (pre_exec_resume_stage s)"
    | (rec) st hint where "cur = RECOVERING" "e = RecoverySucceeded (pipeline_state_value st) hint"
    | (other) "\<not> (cur = WORKTREE_SYNC \<and> class_of e = EPass)"
        "class_of e \<noteq> EPreExecRecoverySucceeded" "class_of e \<noteq> ERecoverySucceeded"
    using may by (cases cur; cases e) (auto simp: agent_classes_def HOOK_PHASES_def)
  then show ?thesis
  proof cases
    case sync
    then show ?thesis using worktree_entry_kind [OF entry] mv by blast
  next
    case pre
    then show ?thesis using pre_exec_kind [OF entry] mv by blast
  next
    case rec
    then show ?thesis using recovered_kind mv by blast
  next
    case other
    with may mv show ?thesis
      by (cases cur; cases e)
         (auto simp: route_shape simp del: of_kind.simps split: if_splits pipeline_mode.splits
           intro!: forward_kind recovery_move_kind fail_move_kind retry_move_kind)
  qed
qed

end
