(* ===== verification/Termination.thy ===== *)
theory Termination
  imports Lifecycle
begin

text \<open>
  A run of the machine ends. The potential of a state counts, in this order, the recovery keys
  that are still unspent in the budget window, the retries that are left, and how far the stage
  is from the end. Exceptions raised by engines are drawn from a finite set \<open>T\<close> of class names,
  so there are finitely many recovery keys.
\<close>

definition recovery_keys :: "string set \<Rightarrow> string set" where
  "recovery_keys T =
     (\<lambda>(st, c). pipeline_state_value st @ '':'' @ c) `
       (set pipeline_state_members \<times> insert ''blocked'' (insert ''timeout'' T))"

lemma finite_recovery_keys: "finite T \<Longrightarrow> finite (recovery_keys T)"
  by (simp add: recovery_keys_def)

fun event_ok :: "string set \<Rightarrow> event \<Rightarrow> bool" where
  "event_ok T (Crash t _) = (t \<in> T \<and> t \<noteq> [])"
| "event_ok T (RecoverySucceeded resume _) = (resume \<noteq> ''recovering'')"
| "event_ok T _ = True"

lemma trigger_key_in:
  assumes "class_of e \<in> {EBlocked, ECrash, ETimeout}" "event_ok T e"
  shows "budget_key (recovery_trigger_from_event s e) \<in> recovery_keys T"
proof -
  have "pipeline_state_value (stage s) @ '':'' @ c \<in> recovery_keys T"
    if "c \<in> insert ''blocked'' (insert ''timeout'' T)" for c
    using that ps.complete [of "stage s"] by (auto simp: recovery_keys_def)
  then show ?thesis
    using assms
    by (cases e) (simp_all add: recovery_trigger_from_event_def fingerprint_from_event_def
        budget_key_def fingerprint_budget_key_def opt_str_or_def str_or_def)
qed

definition keys_left :: "string set \<Rightarrow> task_state \<Rightarrow> nat" where
  "keys_left T s = card (recovery_keys T - set (window_keys s))"

definition retry_cap :: "task_state \<Rightarrow> nat" where
  "retry_cap s = nat (stage_retry_limit (lims s))"

definition slack :: "task_state \<Rightarrow> nat" where
  "slack s = sum_list (map (\<lambda>c. nat (stage_retry_limit (lims s) - dict_get c 0 (stage_retry s))) counters)"

definition potential :: "string set \<Rightarrow> task_state \<Rightarrow> nat" where
  "potential T s = (keys_left T s * (3 * retry_cap s + 1) + slack s) * 20 + rank (stage s)"

definition run_inv :: "string set \<Rightarrow> task_state \<Rightarrow> bool" where
  "run_inv T s \<longleftrightarrow>
     nat (max 0 (recovery_budget_history_start s)) \<le> length (recovery_history s) \<and>
     (\<forall>c\<in>set counters. 0 \<le> dict_get c 0 (stage_retry s)) \<and> entry_ok s \<and>
     (stage s = RECOVERING \<longrightarrow>
       (\<exists>t. active_recovery_trigger s = Some t \<and> budget_key t \<in> recovery_keys T \<and>
            budget_key t \<notin> set (window_keys s)))"

section \<open>Counting\<close>

lemma slack_cap: "run_inv T s \<Longrightarrow> slack s \<le> 3 * retry_cap s"
  by (auto simp: run_inv_def slack_def retry_cap_def counters_def)

lemma window_keys_append:
  assumes "recovery_history s' = recovery_history s @ xs"
    "recovery_budget_history_start s' = recovery_budget_history_start s"
    "nat (max 0 (recovery_budget_history_start s)) \<le> length (recovery_history s)"
  shows "window_keys s' = window_keys s @ map (\<lambda>oc. budget_key (outcome_trigger oc)) xs"
  using assms by (simp add: window_keys_def budget_recovery_history_def)

lemma mult_step: "(a :: nat) < b \<Longrightarrow> a * m + m \<le> b * m"
  by (metis add.commute mult_Suc mult_le_mono1 Suc_leI)

lemma potential_rank:
  assumes "keys_left T s' \<le> keys_left T s" "slack s' \<le> slack s" "lims s' = lims s"
    "rank (stage s') < rank (stage s)"
  shows "potential T s' < potential T s"
proof -
  have "keys_left T s' * (3 * retry_cap s + 1) + slack s' \<le> keys_left T s * (3 * retry_cap s + 1) + slack s"
    using assms(1,2) by (intro add_mono mult_le_mono1)
  then have "(keys_left T s' * (3 * retry_cap s + 1) + slack s') * 20
      \<le> (keys_left T s * (3 * retry_cap s + 1) + slack s) * 20" by (rule mult_le_mono1)
  with assms(3,4) show ?thesis by (simp add: potential_def retry_cap_def)
qed

lemma potential_slack:
  assumes "keys_left T s' \<le> keys_left T s" "slack s' < slack s" "lims s' = lims s"
  shows "potential T s' < potential T s"
proof -
  have "keys_left T s' * (3 * retry_cap s + 1) + slack s' < keys_left T s * (3 * retry_cap s + 1) + slack s"
    using assms(1,2) by (intro add_le_less_mono mult_le_mono1)
  from mult_step [OF this, of 20] rank_less [of "stage s'"] assms(3) show ?thesis
    by (simp add: potential_def retry_cap_def)
qed

lemma potential_key:
  assumes "keys_left T s' < keys_left T s" "slack s' \<le> 3 * retry_cap s" "lims s' = lims s"
  shows "potential T s' < potential T s"
proof -
  have "keys_left T s' * (3 * retry_cap s + 1) + slack s' < keys_left T s * (3 * retry_cap s + 1) + slack s"
    using mult_step [OF assms(1), of "3 * retry_cap s + 1"] assms(2) by simp
  from mult_step [OF this, of 20] rank_less [of "stage s'"] assms(3) show ?thesis
    by (simp add: potential_def retry_cap_def)
qed

section \<open>Every transition keeps the invariant and lowers the potential\<close>

lemma history_after [simp]:
  "recovery_history (after_transition f e mv s) =
     recovery_history s @ (case append_recovery_outcome (snd mv) of None \<Rightarrow> [] | Some oc \<Rightarrow> [oc])"
  by (simp add: after_transition_sel)

lemma window_after:
  assumes "run_inv T s"
  shows "window_keys (after_transition f e mv s) =
    window_keys s @ (case append_recovery_outcome (snd mv) of None \<Rightarrow> []
                     | Some oc \<Rightarrow> [budget_key (outcome_trigger oc)])"
  using assms window_keys_append [of "after_transition f e mv s" s]
  by (auto simp: run_inv_def split: option.split)

lemma keys_left_mono:
  assumes "finite T" "run_inv T s" shows "keys_left T (after_transition f e mv s) \<le> keys_left T s"
  unfolding keys_left_def
  by (rule card_mono) (auto simp: finite_recovery_keys assms window_after [OF assms(2)])

lemma slack_same:
  assumes "stage_retry s' = stage_retry s" "lims s' = lims s" shows "slack s' = slack s"
  by (simp add: slack_def assms)

lemma retry_same:
  assumes "inc_stage_retry (snd mv) = None" "reset_stage_retry (snd mv) = None"
  shows "stage_retry (after_transition f e mv s) = stage_retry s"
  using assms by (simp add: after_transition_sel)

text \<open>The part of the invariant that every transition keeps when it does not lower a counter.\<close>

lemma inv_outside_recovering:
  assumes "run_inv T s" "fst mv \<noteq> RECOVERING"
    "\<forall>c\<in>set counters. 0 \<le> dict_get c 0 (stage_retry (after_transition f e mv s))"
  shows "run_inv T (after_transition f e mv s)"
  using assms by (auto simp: run_inv_def entry_ok_def split: option.split)

lemma step_quiet:
  assumes fin: "finite T" and inv: "run_inv T s" and cur: "cur = stage s"
    and d: "inc_stage_retry (snd mv) = None" "reset_stage_retry (snd mv) = None"
    and mv: "rank (fst mv) < rank cur" "fst mv \<noteq> RECOVERING"
  shows "run_inv T (after_transition cur e mv s) \<and>
         potential T (after_transition cur e mv s) < potential T s"
proof
  have same: "stage_retry (after_transition cur e mv s) = stage_retry s" using d by (rule retry_same)
  show "run_inv T (after_transition cur e mv s)"
    using inv mv(2) by (rule inv_outside_recovering) (use inv in \<open>simp add: same run_inv_def\<close>)
  show "potential T (after_transition cur e mv s) < potential T s"
    using keys_left_mono [OF fin inv] slack_same [OF same] mv cur
    by (intro potential_rank) simp_all
qed

lemma step_into_recovery:
  assumes fin: "finite T" and inv: "run_inv T s" and cur: "cur = stage s"
    and e: "class_of e \<in> {EBlocked, ECrash, ETimeout}" "event_ok T e"
    and avail: "state_recovery_budget_available s (recovery_trigger_from_event s e)"
    and rank: "rank cur > 1"
  shows "run_inv T (after_transition cur e (RECOVERING, enter_recovery s e) s) \<and>
         potential T (after_transition cur e (RECOVERING, enter_recovery s e) s) < potential T s"
    (is "run_inv T ?s' \<and> _")
proof
  let ?t = "recovery_trigger_from_event s e"
  have reason: "trigger_reason_code ?t = None"
    using e(1) by (cases e) (simp_all add: recovery_trigger_from_event_def)
  have fresh: "budget_key ?t \<notin> set (window_keys s)"
    using avail by (simp add: state_recovery_budget_available_def reason unconsumed_iff)
  have d: "inc_stage_retry (enter_recovery s e) = None" "reset_stage_retry (enter_recovery s e) = None"
    "append_recovery_outcome (enter_recovery s e) = None"
    "set_active_recovery_trigger (enter_recovery s e) = Some ?t"
    "\<not> clear_active_recovery_trigger (enter_recovery s e)"
    by (simp_all add: enter_recovery_def Let_def)
  have same: "stage_retry ?s' = stage_retry s" by (rule retry_same) (simp_all add: d)
  have active: "active_recovery_trigger ?s' = Some ?t" by (simp add: after_transition_sel d)
  have window: "window_keys ?s' = window_keys s" by (simp add: window_after [OF inv] d)
  show "run_inv T ?s'"
    using inv trigger_key_in [OF e] fresh
    by (simp add: run_inv_def same active window d entry_ok_def split: option.split)
  show "potential T ?s' < potential T s"
    using keys_left_mono [OF fin inv] slack_same [OF same] rank cur by (intro potential_rank) simp_all
qed

lemma step_retry:
  assumes fin: "finite T" and inv: "run_inv T s"
    and c: "c \<in> set counters" "dict_get c 0 (stage_retry s) < stage_retry_limit (lims s)"
    and d: "inc_stage_retry (snd mv) = Some c" "reset_stage_retry (snd mv) = None"
    and to: "fst mv = IMPLEMENTING"
  shows "run_inv T (after_transition cur e mv s) \<and>
         potential T (after_transition cur e mv s) < potential T s"
    (is "run_inv T ?s' \<and> _")
proof
  have retry: "stage_retry ?s' = AList.update c (dict_get c 0 (stage_retry s) + 1) (stage_retry s)"
    using d by (simp add: after_transition_sel)
  have nonneg: "\<forall>c\<in>set counters. 0 \<le> dict_get c 0 (stage_retry s)" using inv by (simp add: run_inv_def)
  show "run_inv T ?s'"
    using inv by (rule inv_outside_recovering) (use to nonneg c in \<open>auto simp: retry\<close>)
  have "slack ?s' < slack s" using c by (auto simp: slack_def counters_def retry)
  then show "potential T ?s' < potential T s"
    using keys_left_mono [OF fin inv] by (intro potential_slack) simp_all
qed

lemma recovered_delta:
  assumes "active_recovery_trigger s = Some t" "e = RecoverySucceeded resume hint"
  shows "inc_stage_retry (record_recovery_success clk s e) = None"
    "\<exists>oc. append_recovery_outcome (record_recovery_success clk s e) = Some oc \<and> outcome_trigger oc = t"
  using assms by (simp_all add: record_recovery_success_def Let_def)

lemma step_recovered:
  assumes fin: "finite T" and inv: "run_inv T s" and cur: "RECOVERING = stage s"
    and e: "e = RecoverySucceeded (pipeline_state_value st) hint" "event_ok T e"
    and d: "snd mv = record_recovery_success clk s e" and to: "fst mv = stage_entry st"
  shows "run_inv T (after_transition RECOVERING e mv s) \<and>
         potential T (after_transition RECOVERING e mv s) < potential T s"
    (is "run_inv T ?s' \<and> _")
proof
  obtain t where t: "active_recovery_trigger s = Some t" "budget_key t \<in> recovery_keys T"
    "budget_key t \<notin> set (window_keys s)" using inv cur by (auto simp: run_inv_def)
  obtain oc where oc: "append_recovery_outcome (snd mv) = Some oc" "outcome_trigger oc = t"
    using recovered_delta(2) [OF t(1) e(1)] d by auto
  have inc: "inc_stage_retry (snd mv) = None" using recovered_delta(1) [OF t(1) e(1)] d by simp
  have "st \<noteq> RECOVERING" using e by auto
  then have target: "fst mv \<noteq> RECOVERING" using to by (auto simp: stage_entry_def split: if_splits)
  have nonneg: "\<forall>c\<in>set counters. 0 \<le> dict_get c 0 (stage_retry s)" using inv by (simp add: run_inv_def)
  show inv': "run_inv T ?s'"
    using inv target
    by (rule inv_outside_recovering)
       (use nonneg inc in \<open>auto simp: after_transition_sel Let_def split: option.split\<close>)
  have "recovery_keys T - set (window_keys ?s') \<subset> recovery_keys T - set (window_keys s)"
    using t by (auto simp: window_after [OF inv] oc)
  then have "keys_left T ?s' < keys_left T s"
    unfolding keys_left_def by (intro psubset_card_mono) (simp_all add: fin finite_recovery_keys)
  then show "potential T ?s' < potential T s"
    using slack_cap [OF inv'] by (intro potential_key) (simp_all add: retry_cap_def)
qed

lemma transition_decreases:
  assumes fin: "finite T" and inv: "run_inv T s" and may: "may_return (stage s) s e"
    and ok: "event_ok T e" and mv: "route clk (stage s) e s = Inr mv"
  shows "run_inv T (after_transition (stage s) e mv s) \<and>
         potential T (after_transition (stage s) e mv s) < potential T s"
proof -
  have "entry_ok s" using inv by (simp add: run_inv_def)
  from route_kind [OF may this mv] obtain k where k: "of_kind k clk (stage s) e s mv" ..
  show ?thesis
  proof (cases k)
    case Forward
    with k show ?thesis by (intro step_quiet [OF fin inv]) (simp_all add: quiet_def)
  next
    case Into_recovery
    with k step_into_recovery [OF fin inv refl _ ok] show ?thesis by simp
  next
    case Failing
    with k show ?thesis by (intro step_quiet [OF fin inv]) simp_all
  next
    case (Retrying c)
    with k show ?thesis by (intro step_retry [OF fin inv, of c]) simp_all
  next
    case Recovered
    with k have stage: "stage s = RECOVERING" and d: "snd mv = record_recovery_success clk s e" by simp_all
    from k Recovered obtain st hint where
      "e = RecoverySucceeded (pipeline_state_value st) hint" "fst mv = stage_entry st" by auto
    from step_recovered [OF fin inv stage [symmetric] this(1) ok d this(2)] show ?thesis
      by (simp only: stage)
  qed
qed

section \<open>Runs\<close>

text \<open>
  A runner whose nodes return: no node visit hangs, crash classes come from \<open>T\<close> and recovery never
  names \<open>recovering\<close> itself as the stage to resume at.
\<close>

definition returning :: "string set \<Rightarrow> 'w runner \<Rightarrow> bool" where
  "returning T r \<longleftrightarrow>
     run_rules r = RULES \<and>
     (\<forall>st nd s w. registry r st = Some nd \<and> st \<notin> set TERMINAL_NODES \<longrightarrow>
        node_run nd s w \<noteq> None \<and> (\<forall>e w'. node_run nd s w = Some (Inr e, w') \<longrightarrow> event_ok T e))"

lemma run_node_returns:
  assumes "\<And>w. node_run nd (m_state m) w \<noteq> None"
  shows "run_node r nd m \<noteq> None"
proof -
  obtain t w1 where t: "monotonic r (m_world m) = (t, w1)" by (cases "monotonic r (m_world m)")
  obtain res w2 where n1: "node_run nd (m_state m) w1 = Some (res, w2)" using assms [of w1] by auto
  obtain res' w2' where n2: "node_run nd (m_state m) (m_world m) = Some (res', w2')"
    using assms [of "m_world m"] by auto
  from t n1 n2 show ?thesis by (simp add: run_node_def Let_def split: sum.splits prod.splits)
qed

text \<open>A node visit changes nothing in the state but the agent time.\<close>

lemma run_node_state:
  assumes "run_node r nd m = Some (Inr e, m1)"
  shows "\<exists>w w1 x. node_run nd (m_state m) w = Some (Inr e, w1) \<and>
           m_state m1 = (m_state m) \<lparr>agent_elapsed_seconds := x\<rparr>"
proof (cases "the_node_type nd = NT_AGENT")
  case True
  obtain t w1 where t: "monotonic r (m_world m) = (t, w1)" by (cases "monotonic r (m_world m)")
  with True assms obtain w2 where "node_run nd (m_state m) w1 = Some (Inr e, w2)"
    by (auto simp: run_node_def Let_def split: option.splits sum.splits prod.splits)
  moreover from this t True assms have
    "\<exists>x. m_state m1 = (m_state m) \<lparr>agent_elapsed_seconds := x\<rparr>"
    by (auto simp: run_node_def Let_def split: prod.splits)
  ultimately show ?thesis by blast
next
  case False
  with assms obtain w1 where "node_run nd (m_state m) (m_world m) = Some (Inr e, w1)"
    "m1 = m \<lparr>m_world := w1\<rparr>" by (auto simp: run_node_def)
  moreover from this(2) have "m_state m1 = (m_state m) \<lparr>agent_elapsed_seconds := agent_elapsed_seconds (m_state m)\<rparr>"
    by simp
  ultimately show ?thesis by blast
qed

lemma elapsed_irrelevant [simp]:
  "run_inv T (s \<lparr>agent_elapsed_seconds := x\<rparr>) = run_inv T s"
  "potential T (s \<lparr>agent_elapsed_seconds := x\<rparr>) = potential T s"
  by (simp_all add: run_inv_def potential_def keys_left_def retry_cap_def slack_def window_keys_def
      budget_recovery_history_def entry_ok_def)

lemma may_return_elapsed [simp]: "may_return st (s \<lparr>agent_elapsed_seconds := x\<rparr>) e = may_return st s e"
  by (cases st) (simp_all add: pre_exec_resume_stage_def)

lemma apply_transition_route:
  assumes "apply_transition r st e m = Inr m'" "run_rules r = RULES"
  shows "\<exists>mv. route (utc r (m_world m)) st e (m_state m) = Inr mv \<and>
              m_state m' = after_transition st e mv (m_state m)"
proof -
  from assms obtain t where t: "evaluate (utc r (m_world m)) RULES st e (m_state m) = Inr t"
    and s': "m_state m' = after_transition st e (next_state t, transition_delta t) (m_state m)"
    by (auto simp: apply_transition_def Let_def split: sum.splits)
  have "route (utc r (m_world m)) st e (m_state m) = Inr (next_state t, transition_delta t)"
    using evaluate_RULES [of "utc r (m_world m)" st e "m_state m"] t by (simp add: as_move_def)
  with s' show ?thesis by blast
qed

lemma budget_transition:
  assumes fin: "finite T" and inv: "run_inv T s"
    and mv: "route clk (stage s) (TaskTimeBudgetExceeded a b) s = Inr mv"
  shows "run_inv T (after_transition (stage s) (TaskTimeBudgetExceeded a b) mv s) \<and>
         potential T (after_transition (stage s) (TaskTimeBudgetExceeded a b) mv s) < potential T s"
proof -
  have st: "stage s \<in> insert RECOVERING (set STAGE_PHASES)"
    and m: "mv = fail_move TIME_BUDGET_EXCEEDED clk s (TaskTimeBudgetExceeded a b)"
    using mv by (auto simp: settle_def escalate_def split: if_splits)
  have "0 < rank (stage s)" using st by (auto simp: STAGE_PHASES_def)
  then show ?thesis by (intro step_quiet [OF fin inv refl]) (simp_all add: m fail_move_def)
qed

lemma check_stop_continue:
  "check_stop r oc = Continue m' \<Longrightarrow> \<exists>m. oc = Continue m \<and> m_state m' = m_state m"
  by (auto simp: check_stop_def Let_def split: outcome.splits prod.splits if_splits)

lemma advance_continue: "advance m res = Continue m' \<longleftrightarrow> res = Inr m'"
  by (auto simp: advance_def split: sum.splits)

context node_contract
begin

lemma step_decreases:
  assumes reg: "registry r = nodes" and ret: "returning T r" and fin: "finite T"
    and inv: "run_inv T (m_state m)" and st: "step r m = Some (Continue m')"
  shows "run_inv T (m_state m') \<and> potential T (m_state m') < potential T (m_state m)"
proof -
  let ?s = "m_state m"
  have rules: "run_rules r = RULES" using ret by (simp add: returning_def)
  have live: "stage ?s \<notin> set TERMINAL_NODES" using st by (auto simp: step_def Let_def split: if_splits)
  show ?thesis
  proof (cases "task_time_budget_event (task_time_budget_seconds r) ?s")
    case (Some e)
    then obtain a b where e: "e = TaskTimeBudgetExceeded a b"
      by (auto simp: task_time_budget_event_def split: option.splits if_splits)
    from st live Some have "apply_transition r (stage ?s) e m = Inr m'"
      by (simp add: step_def Let_def advance_continue)
    from apply_transition_route [OF this rules] budget_transition [OF fin inv] e show ?thesis by fastforce
  next
    case None
    obtain nd where nd: "nodes (stage ?s) = Some nd" using registered [of "stage ?s"] by blast
    from st live None nd reg obtain e m1 where run: "run_node r nd m = Some (Inr e, m1)"
      and next_m: "check_stop r (advance m1 (apply_transition r (stage ?s) e m1)) = Continue m'"
      by (auto simp: step_def Let_def split: option.splits sum.splits prod.splits)
    from run_node_state [OF run] obtain w w1 x where
      nr: "node_run nd ?s w = Some (Inr e, w1)" and s1: "m_state m1 = ?s \<lparr>agent_elapsed_seconds := x\<rparr>"
      by blast
    have may: "may_return (stage ?s) ?s e" using vocabulary [OF nd live nr] .
    have ok: "event_ok T e" using ret nd live nr reg by (fastforce simp: returning_def)
    from next_m obtain m2 where "apply_transition r (stage ?s) e m1 = Inr m2" "m_state m' = m_state m2"
      by (auto dest!: check_stop_continue simp: advance_continue)
    with apply_transition_route [OF this(1) rules] obtain mv where
      mv: "route (utc r (m_world m1)) (stage ?s) e (m_state m1) = Inr mv"
      and s': "m_state m' = after_transition (stage ?s) e mv (m_state m1)" by auto
    have "run_inv T (m_state m1)" "may_return (stage (m_state m1)) (m_state m1) e"
      using inv may by (simp_all add: s1)
    from transition_decreases [OF fin this ok, of "utc r (m_world m1)" mv] mv s1 show ?thesis
      by (simp add: s')
  qed
qed

lemma step_returns:
  assumes "registry r = nodes" "returning T r" shows "step r m \<noteq> None"
proof -
  have "run_node r nd m \<noteq> None" if nd: "nodes (stage (m_state m)) = Some nd"
    "stage (m_state m) \<notin> set TERMINAL_NODES" for nd
  proof (rule run_node_returns)
    show "node_run nd (m_state m) w \<noteq> None" for w using assms nd unfolding returning_def by blast
  qed
  then show ?thesis
    using assms(1)
    by (cases "stage (m_state m) \<in> set TERMINAL_NODES")
       (auto simp: step_def Let_def split: option.splits sum.splits)
qed

end

text \<open>The loop with explicit fuel: \<open>None\<close> when the fuel runs out.\<close>

fun run_fuel :: "nat \<Rightarrow> 'w runner \<Rightarrow> 'w machine \<Rightarrow> 'w outcome option" where
  "run_fuel 0 r m = None"
| "run_fuel (Suc n) r m =
     (case step r m of
        None \<Rightarrow> None
      | Some oc \<Rightarrow> (case oc of Continue m' \<Rightarrow> run_fuel n r m' | _ \<Rightarrow> Some oc))"

lemma run_fuel_loop: "run_fuel n r m = Some oc \<Longrightarrow> run_loop r m = Some oc"
proof (induction n arbitrary: m)
  case (Suc n)
  then show ?case
    by (subst run_loop.simps) (auto split: option.splits outcome.splits)
qed simp

context node_contract
begin

lemma run_fuel_enough:
  assumes "registry r = nodes" "returning T r" "finite T"
  shows "\<lbrakk>run_inv T (m_state m); potential T (m_state m) < n\<rbrakk> \<Longrightarrow> \<exists>oc. run_fuel n r m = Some oc"
proof (induction n arbitrary: m)
  case (Suc n)
  obtain oc where oc: "step r m = Some oc" using step_returns [OF assms(1,2)] by blast
  show ?case
  proof (cases oc)
    case (Continue m')
    from step_decreases [OF assms Suc.prems(1)] oc Continue Suc.prems(2)
    have "run_inv T (m_state m')" "potential T (m_state m') < n" by auto
    with Suc.IH oc Continue show ?thesis by simp
  qed (simp_all add: oc)
qed simp

end

section \<open>The registry of the program\<close>

text \<open>
  What a run of the registered nodes needs of its agents: a visit returns, and the crash classes
  its engines raise are in \<open>T\<close>.
\<close>

definition agents_return :: "string set \<Rightarrow> ('p, 's, 'w) deps \<Rightarrow> bool" where
  "agents_return T d \<longleftrightarrow>
     (\<forall>st s w. agent_run (role_agent d st) s w \<noteq> None \<and>
        (\<forall>e w'. agent_run (role_agent d st) s w = Some (Inr e, w') \<longrightarrow> event_ok T e))"

lemma event_ok_class: "class_of e \<notin> {ECrash, ERecoverySucceeded} \<Longrightarrow> event_ok T e"
  by (cases e) simp_all

lemma system_event_ok:
  "ready_node_run probes s w = (e, w') \<Longrightarrow> event_ok T e"
  "pre_exec_node_run repairs s w = (e, w') \<Longrightarrow> event_ok T e"
  "''GitError'' \<in> T \<Longrightarrow> worktree_sync_node_run sync s w = (Inr e, w') \<Longrightarrow> event_ok T e"
  "''GitError'' \<in> T \<Longrightarrow> commit_node_run merge s w = (Inr e, w') \<Longrightarrow> event_ok T e"
  using ready_node_class [of probes s w e w'] pre_exec_node_event [of repairs s w e w']
    worktree_sync_event [of sync s w e w'] commit_node_event [of merge s w e w']
    event_ok_class [of e T] by auto

lemma registry_node_ok:
  assumes agents: "agents_return T d" and git: "''GitError'' \<in> T"
    and nd: "registry_get (registry_entries d) st = Some nd" and st: "st \<notin> set TERMINAL_NODES"
  shows "node_run nd s w \<noteq> None \<and> (\<forall>e w'. node_run nd s w = Some (Inr e, w') \<longrightarrow> event_ok T e)"
  using state_cases [of st]
proof (elim disjE)
  assume st: "st \<in> {GROOMING, IMPLEMENTING, TESTING, ACCEPTING, MERGE_RESOLVING, RECOVERING}"
  then have "nd = \<lparr>the_node_type = NT_AGENT, node_run = agent_run (role_agent d st)\<rparr>"
    using nd registry_get_agent [of st d] by (simp add: agent_entry_def)
  then show ?thesis using agents unfolding agents_return_def by simp
next
  assume st: "st \<in> set HOOK_PHASES"
  let ?run = "hook_node_run (dep_marker d) (dep_hook_runner d) st (dict_get st [] (dep_hook_specs d))"
  have "nd = plain_node NT_HOOK ?run"
    using nd registry_get_hook [OF st, of d] by (simp add: hook_entry_def)
  moreover have "event_ok T e" if "?run s w = (e, w')" for e w'
    using hook_node_class [OF that] by (intro event_ok_class) auto
  ultimately show ?thesis by (auto simp: plain_node_def split: prod.split)
next
  assume "st \<in> {READY, RECOVERING_PRE_EXEC, WORKTREE_SYNC, COMMIT}"
  with nd git show ?thesis
    by (auto simp: registry_get_system plain_node_def fallible_node_def split: prod.splits)
       (rule system_event_ok; assumption)+
next
  assume "st \<in> {DONE, FAILED}"
  with st show ?thesis by (auto simp: TERMINAL_NODES_def)
qed

lemma registry_returning:
  assumes "agents_return T d" "''GitError'' \<in> T"
    "registry r = registry_get (registry_entries d)" "run_rules r = RULES"
  shows "returning T r"
  unfolding returning_def assms(3,4) using registry_node_ok [OF assms(1,2)] by blast

text \<open>A bound on the potential that only mentions the limits.\<close>

definition run_bound :: "string set \<Rightarrow> task_state \<Rightarrow> nat" where
  "run_bound T s = (card (recovery_keys T) + 1) * (3 * retry_cap s + 1) * 20"

lemma potential_bound:
  assumes "finite T" "run_inv T s" shows "potential T s < run_bound T s"
proof -
  have "keys_left T s \<le> card (recovery_keys T)"
    unfolding keys_left_def by (rule card_mono) (auto simp: finite_recovery_keys assms)
  then have "keys_left T s * (3 * retry_cap s + 1) + slack s
      < (card (recovery_keys T) + 1) * (3 * retry_cap s + 1)"
    using slack_cap [OF assms(2)] mult_le_mono1 [of "keys_left T s" _ "3 * retry_cap s + 1"]
    by fastforce
  from mult_step [OF this, of 20] rank_less [of "stage s"] show ?thesis
    by (simp add: potential_def run_bound_def)
qed

end
