(* ===== verification/Safety.thy ===== *)
theory Safety
  imports Termination
begin

text \<open>
  The machine as a transition system on task states, and what holds along every run of it: where
  recovery and the terminal states are entered from, that a recovery key is spent once per
  budget window, and the bounds on the counters.
\<close>

text \<open>
  One step: the stage's node returns an event of its vocabulary, or the runner injects the
  time-budget event; the table is evaluated and the transition applied. \<open>x\<close> is the agent time
  after the visit.
\<close>

inductive lstep :: "task_state \<Rightarrow> task_state \<Rightarrow> bool" where
  lstep_node:
    "\<lbrakk>may_return (stage s) s e; s1 = s \<lparr>agent_elapsed_seconds := x\<rparr>;
      evaluate clk RULES (stage s) e s1 = Inr t\<rbrakk> \<Longrightarrow>
     lstep s (after_transition (stage s) e (next_state t, transition_delta t) s1)"
| lstep_budget:
    "\<lbrakk>task_time_budget_event (Some budget) s = Some e; stage s \<notin> set TERMINAL_NODES;
      evaluate clk RULES (stage s) e s = Inr t\<rbrakk> \<Longrightarrow>
     lstep s (after_transition (stage s) e (next_state t, transition_delta t) s)"

definition reachable_from :: "task_state \<Rightarrow> task_state \<Rightarrow> bool" where
  "reachable_from s0 s = lstep\<^sup>*\<^sup>* s0 s"

lemma reachable_induct [consumes 1, case_names start step]:
  assumes "reachable_from s0 s" "P s0" "\<And>s s'. \<lbrakk>reachable_from s0 s; P s; lstep s s'\<rbrakk> \<Longrightarrow> P s'"
  shows "P s"
proof -
  from assms(1) have "lstep\<^sup>*\<^sup>* s0 s" by (simp only: reachable_from_def)
  then show ?thesis
  proof (induction rule: rtranclp_induct)
    case base
    show ?case by (rule assms(2))
  next
    case (step y z)
    from step.hyps(1) have "reachable_from s0 y" by (simp only: reachable_from_def)
    from assms(3) [OF this step.IH step.hyps(2)] show ?case .
  qed
qed

text \<open>The rule for reasoning about a step: the closed-form route, and which event it was.\<close>

lemma lstep_route:
  assumes "lstep s s'"
  obtains e x clk mv where
    "may_return (stage s) s e \<or> (\<exists>a b. e = TaskTimeBudgetExceeded a b)"
    "route clk (stage s) e (s \<lparr>agent_elapsed_seconds := x\<rparr>) = Inr mv"
    "s' = after_transition (stage s) e mv (s \<lparr>agent_elapsed_seconds := x\<rparr>)"
  using assms
proof cases
  case (lstep_node e s1 x clk t)
  have "route clk (stage s) e s1 = Inr (next_state t, transition_delta t)"
    using evaluate_RULES [of clk "stage s" e s1] lstep_node(4) by (simp add: as_move_def)
  with lstep_node that show ?thesis by blast
next
  case (lstep_budget budget e clk t)
  have "route clk (stage s) e (s \<lparr>agent_elapsed_seconds := agent_elapsed_seconds s\<rparr>) =
          Inr (next_state t, transition_delta t)"
    using evaluate_RULES [of clk "stage s" e s] lstep_budget(4) by (simp add: as_move_def)
  moreover have "\<exists>a b. e = TaskTimeBudgetExceeded a b"
    using lstep_budget(2) by (auto simp: task_time_budget_event_def split: option.splits if_splits)
  ultimately show ?thesis
    using that [of e clk "agent_elapsed_seconds s"] lstep_budget(1) by simp
qed

section \<open>The runner takes exactly such steps\<close>

lemma apply_transition_eval:
  assumes "apply_transition r st e m = Inr m'"
  shows "\<exists>t. evaluate (utc r (m_world m)) (run_rules r) st e (m_state m) = Inr t \<and>
             m_state m' = after_transition st e (next_state t, transition_delta t) (m_state m)"
  using assms by (auto simp: apply_transition_def Let_def split: sum.splits)

lemma apply_transition_moves:
  assumes "apply_transition r st e m = Inr m'" and "run_rules r = RULES"
  shows "\<exists>clk mv. route clk st e (m_state m) = Inr mv \<and>
                  m_state m' = after_transition st e mv (m_state m)"
proof -
  obtain t where t: "evaluate (utc r (m_world m)) RULES st e (m_state m) = Inr t"
    "m_state m' = after_transition st e (next_state t, transition_delta t) (m_state m)"
    using apply_transition_eval [OF assms(1)] assms(2) by auto
  with evaluate_RULES [of "utc r (m_world m)" st e "m_state m"]
  have "route (utc r (m_world m)) st e (m_state m) = Inr (next_state t, transition_delta t)"
    by (simp add: as_move_def)
  with t(2) show ?thesis by blast
qed

context node_contract
begin

lemma runner_step:
  assumes reg: "registry r = nodes" and rules: "run_rules r = RULES"
    and st: "step r m = Some (Continue m')"
  shows "lstep (m_state m) (m_state m')"
proof -
  let ?s = "m_state m"
  have live: "stage ?s \<notin> set TERMINAL_NODES" using st by (auto simp: step_def Let_def split: if_splits)
  show ?thesis
  proof (cases "task_time_budget_event (task_time_budget_seconds r) ?s")
    case (Some e)
    then obtain b where b: "task_time_budget_event (Some b) ?s = Some e"
      by (cases "task_time_budget_seconds r") (auto simp: task_time_budget_event_def)
    from st live Some have "apply_transition r (stage ?s) e m = Inr m'"
      by (simp add: step_def Let_def advance_continue)
    from apply_transition_eval [OF this] lstep_budget [OF b live] rules show ?thesis by auto
  next
    case None
    obtain nd where nd: "nodes (stage ?s) = Some nd" using registered [of "stage ?s"] by blast
    from st live None nd reg obtain e m1 where run: "run_node r nd m = Some (Inr e, m1)"
      and next_m: "check_stop r (advance m1 (apply_transition r (stage ?s) e m1)) = Continue m'"
      by (auto simp: step_def Let_def split: option.splits sum.splits prod.splits)
    from run_node_state [OF run] obtain w w1 x where
      nr: "node_run nd ?s w = Some (Inr e, w1)" and s1: "m_state m1 = ?s \<lparr>agent_elapsed_seconds := x\<rparr>"
      by blast
    from next_m obtain m2 where "apply_transition r (stage ?s) e m1 = Inr m2" "m_state m' = m_state m2"
      by (auto dest!: check_stop_continue simp: advance_continue)
    with apply_transition_eval [OF this(1)] lstep_node [OF vocabulary [OF nd live nr] s1] rules
    show ?thesis by auto
  qed
qed

end

section \<open>Entering recovery, done and failed\<close>

lemma enter_recovery_active [simp]:
  "set_active_recovery_trigger (enter_recovery s e) = Some (recovery_trigger_from_event s e)"
  "\<not> clear_active_recovery_trigger (enter_recovery s e)"
  "append_recovery_outcome (enter_recovery s e) = None"
  "inc_stage_retry (enter_recovery s e) = None" "reset_stage_retry (enter_recovery s e) = None"
  "delta_failed_reason (enter_recovery s e) = None"
  by (simp_all add: enter_recovery_def Let_def)

lemma stage_entry_inv:
  "stage_entry st = RECOVERING \<longleftrightarrow> st = RECOVERING" "stage_entry st = DONE \<longleftrightarrow> st = DONE"
  "stage_entry st = FAILED \<longleftrightarrow> st = FAILED" "RECOVERING = stage_entry st \<longleftrightarrow> st = RECOVERING"
  "DONE = stage_entry st \<longleftrightarrow> st = DONE" "FAILED = stage_entry st \<longleftrightarrow> st = FAILED"
  by (cases st; simp add: stage_entry_def)+

text \<open>A computed target is the entry phase of a stage that the task or the agent named.\<close>

definition named_target :: "pipeline_state \<Rightarrow> task_state \<Rightarrow> event \<Rightarrow> pipeline_state \<Rightarrow> bool" where
  "named_target cur s e to \<longleftrightarrow>
     ((cur = WORKTREE_SYNC \<and> (\<exists>r. e = Pass r) \<or>
       cur = RECOVERING_PRE_EXEC \<and> (\<exists>st. e = PreExecRecoverySucceeded st)) \<and>
        (\<exists>st. entry_stage s = Some st \<and> to = stage_entry st)) \<or>
     (cur = RECOVERING \<and> (\<exists>st hint. e = RecoverySucceeded (pipeline_state_value st) hint \<and> to = stage_entry st))"

text \<open>Where a transition leads when it is not a computed target.\<close>

lemma sync_named:
  assumes "route clk WORKTREE_SYNC (Pass r) s = Inr mv"
  shows "named_target WORKTREE_SYNC s (Pass r) (fst mv) \<or>
         fst mv \<in> {BEFORE_IMPLEMENTING, BEFORE_GROOMING}"
  using assms by (auto simp: targets computed_def named_target_def split: option.splits if_splits)

lemma pre_exec_named:
  assumes "e = PreExecRecoverySucceeded (pre_exec_resume_stage s)"
    "route clk RECOVERING_PRE_EXEC e s = Inr mv"
  shows "named_target RECOVERING_PRE_EXEC s e (fst mv) \<or>
         fst mv \<in> {BEFORE_IMPLEMENTING, BEFORE_GROOMING}"
proof -
  have mv: "fst mv = stage_entry (pre_exec_resume_stage s)"
    using assms(2) unfolding assms(1) by (auto simp: pre_exec_target computed_def)
  show ?thesis
  proof (cases "entry_stage s")
    case None
    then show ?thesis by (simp add: mv pre_exec_resume_stage_def stage_entry_def)
  next
    case (Some st)
    then show ?thesis using assms(1) by (auto simp: mv named_target_def pre_exec_resume_stage_def)
  qed
qed

lemma recovered_named:
  assumes "route clk RECOVERING (RecoverySucceeded (pipeline_state_value st) hint) s = Inr mv"
  shows "named_target RECOVERING s (RecoverySucceeded (pipeline_state_value st) hint) (fst mv)"
  using assms
  by (auto simp: targets computed_def py_strip_state_value named_target_def
      simp del: pipeline_state_value.simps)

lemma fail_move_state [simp]:
  "fst (fail_move reason clk s e) = FAILED" "delta_failed_reason (snd (fail_move reason clk s e)) = Some reason"
  by (simp_all add: fail_move_def)

lemma retry_move_state:
  "retry_move c clk s e = (to, d) \<Longrightarrow> to = IMPLEMENTING \<or> (to = FAILED \<and> delta_failed_reason d \<noteq> None)"
  by (auto simp: retry_move_def fail_move_def split: if_splits)

lemma recovery_move_state:
  "recovery_move clk s e = (to, d) \<Longrightarrow>
   (to = RECOVERING \<and> d = enter_recovery s e \<and>
      state_recovery_budget_available s (recovery_trigger_from_event s e)) \<or>
   (to = FAILED \<and> delta_failed_reason d \<noteq> None)"
  by (auto simp: recovery_move_def split: if_splits)

definition finishes :: "pipeline_state \<Rightarrow> task_state \<Rightarrow> event \<Rightarrow> bool" where
  "finishes cur s e \<longleftrightarrow>
     (cur = AFTER_COMMIT \<and> class_of e = EHookOk) \<or>
     (cur = AFTER_IMPLEMENTING \<and> class_of e = EHookOk \<and> mode s = SINGLE \<and>
      files_changed (report s) = 0 \<and> tests_added (report s) = 0)"

definition proper_move :: "pipeline_state \<Rightarrow> event \<Rightarrow> task_state \<Rightarrow> move \<Rightarrow> bool" where
  "proper_move cur e s mv \<longleftrightarrow>
     (fst mv = RECOVERING \<longrightarrow> snd mv = enter_recovery s e \<and>
        class_of e \<in> {EBlocked, ECrash, ETimeout} \<and>
        state_recovery_budget_available s (recovery_trigger_from_event s e)) \<and>
     (fst mv = DONE \<longrightarrow> finishes cur s e) \<and>
     (fst mv = FAILED \<longrightarrow> delta_failed_reason (snd mv) \<noteq> None)"

lemma proper_fail: "proper_move cur e s (fail_move reason clk s e)"
  by (simp add: proper_move_def)

lemma proper_retry: "proper_move cur e s (retry_move c clk s e)"
  using retry_move_state [of c clk s e] by (cases "retry_move c clk s e") (auto simp: proper_move_def)

lemma proper_recovery:
  "class_of e \<in> {EBlocked, ECrash, ETimeout} \<Longrightarrow> proper_move cur e s (recovery_move clk s e)"
  using recovery_move_state [of clk s e] by (cases "recovery_move clk s e") (auto simp: proper_move_def)

lemma proper_other:
  "\<lbrakk>to \<notin> {RECOVERING, FAILED}; to = DONE \<Longrightarrow> finishes cur s e\<rbrakk> \<Longrightarrow> proper_move cur e s (to, d)"
  by (auto simp: proper_move_def)

lemma route_proper:
  assumes may: "may_return cur s e \<or> (\<exists>a b. e = TaskTimeBudgetExceeded a b)"
    and mv: "route clk cur e s = Inr mv"
  shows "named_target cur s e (fst mv) \<or> proper_move cur e s mv"
proof -
  consider (sync) r where "cur = WORKTREE_SYNC" "e = Pass r"
    | (pre) "cur = RECOVERING_PRE_EXEC" "e = PreExecRecoverySucceeded (pre_exec_resume_stage s)"
    | (rec) st hint where "cur = RECOVERING" "e = RecoverySucceeded (pipeline_state_value st) hint"
    | (other) "\<not> (cur = WORKTREE_SYNC \<and> class_of e = EPass)"
        "class_of e \<noteq> EPreExecRecoverySucceeded" "class_of e \<noteq> ERecoverySucceeded"
    using may by (cases cur; cases e) (auto simp: agent_classes_def HOOK_PHASES_def)
  then show ?thesis
  proof cases
    case sync
    with mv have "named_target cur s e (fst mv) \<or> fst mv \<in> {BEFORE_IMPLEMENTING, BEFORE_GROOMING}"
      using sync_named by blast
    then show ?thesis by (cases mv) (auto intro: proper_other)
  next
    case pre
    with mv have "named_target cur s e (fst mv) \<or> fst mv \<in> {BEFORE_IMPLEMENTING, BEFORE_GROOMING}"
      using pre_exec_named by blast
    then show ?thesis by (cases mv) (auto intro: proper_other)
  next
    case rec
    then show ?thesis using recovered_named mv by blast
  next
    case other
    have "proper_move cur e s mv"
      using mv other
      by (cases cur; cases e)
         (auto simp: route_shape finishes_def split: if_splits pipeline_mode.splits
           intro!: proper_fail proper_retry proper_recovery proper_other)
    then show ?thesis ..
  qed
qed

text \<open>
  The same for the runner itself: a step that moves the task was made by the time-budget event or
  by the answer of the node registered for its stage.
\<close>

context node_contract
begin

lemma runner_move:
  assumes reg: "registry r = nodes" and rules: "run_rules r = RULES"
    and st: "step r m \<in> {Some (Continue m'), Some (Returned m')}"
    and live: "stage (m_state m) \<notin> set TERMINAL_NODES"
  obtains (budget) e clk mv where
    "task_time_budget_event (task_time_budget_seconds r) (m_state m) = Some e"
    "route clk (stage (m_state m)) e (m_state m) = Inr mv"
    "m_state m' = after_transition (stage (m_state m)) e mv (m_state m)"
  | (node) nd e m1 x clk mv where
    "nodes (stage (m_state m)) = Some nd" "run_node r nd m = Some (Inr e, m1)"
    "may_return (stage (m_state m)) (m_state m) e"
    "route clk (stage (m_state m)) e (m_state m \<lparr>agent_elapsed_seconds := x\<rparr>) = Inr mv"
    "m_state m' = after_transition (stage (m_state m)) e mv (m_state m \<lparr>agent_elapsed_seconds := x\<rparr>)"
proof (cases "task_time_budget_event (task_time_budget_seconds r) (m_state m)")
  case (Some e)
  from st live Some have "apply_transition r (stage (m_state m)) e m = Inr m'"
    by (auto simp: step_def Let_def advance_def split: sum.splits)
  from apply_transition_moves [OF this rules] show ?thesis using Some budget by blast
next
  case None
  obtain nd where nd: "nodes (stage (m_state m)) = Some nd"
    using registered [of "stage (m_state m)"] by blast
  from st live None nd reg obtain e m1 where run: "run_node r nd m = Some (Inr e, m1)"
    and next_m: "check_stop r (advance m1 (apply_transition r (stage (m_state m)) e m1))
                   \<in> {Continue m', Returned m'}"
    by (auto simp: step_def Let_def split: option.splits sum.splits prod.splits)
  from run_node_state [OF run] obtain w w1 x where
    nr: "node_run nd (m_state m) w = Some (Inr e, w1)"
    and s1: "m_state m1 = m_state m \<lparr>agent_elapsed_seconds := x\<rparr>" by blast
  from next_m obtain m2 where m2: "apply_transition r (stage (m_state m)) e m1 = Inr m2"
    "m_state m' = m_state m2"
    by (auto simp: advance_def check_stop_def Let_def log_to_def split: sum.splits prod.splits if_splits)
  from apply_transition_moves [OF m2(1) rules] node [OF nd run vocabulary [OF nd live nr]] m2(2) s1
  show ?thesis by auto
qed

text \<open>Who may end a task, and on which answer.\<close>

lemma runner_terminal_move:
  assumes reg: "registry r = nodes" and rules: "run_rules r = RULES"
    and st: "step r m \<in> {Some (Continue m'), Some (Returned m')}"
    and live: "stage (m_state m) \<notin> set TERMINAL_NODES"
  obtains (budget)
    "stage (m_state m') \<noteq> DONE"
    "stage (m_state m') = FAILED \<Longrightarrow> failed_reason_of (m_state m') \<noteq> None"
  | (node) nd e m1 x clk mv where
    "nodes (stage (m_state m)) = Some nd" "run_node r nd m = Some (Inr e, m1)"
    "route clk (stage (m_state m)) e (m_state m \<lparr>agent_elapsed_seconds := x\<rparr>) = Inr mv"
    "m_state m' = after_transition (stage (m_state m)) e mv (m_state m \<lparr>agent_elapsed_seconds := x\<rparr>)"
    "named_target (stage (m_state m)) (m_state m) e (fst mv) \<or>
     ((fst mv = DONE \<longrightarrow> finishes (stage (m_state m)) (m_state m) e) \<and>
      (fst mv = FAILED \<longrightarrow> delta_failed_reason (snd mv) \<noteq> None))"
proof (cases rule: runner_move [OF assms])
  case (1 e clk mv)
  then obtain a b where e: "e = TaskTimeBudgetExceeded a b"
    by (auto simp: task_time_budget_event_def split: option.splits if_splits)
  with route_proper [of "stage (m_state m)" "m_state m" e clk mv] 1(2)
  have "proper_move (stage (m_state m)) e (m_state m) mv" by (auto simp: named_target_def)
  with 1(3) e budget show ?thesis by (auto simp: proper_move_def finishes_def after_transition_sel)
next
  case (2 nd e m1 x clk mv)
  have "named_target (stage (m_state m)) (m_state m) e (fst mv) \<or>
        proper_move (stage (m_state m)) e (m_state m \<lparr>agent_elapsed_seconds := x\<rparr>) mv"
    using route_proper [OF _ 2(4)] 2(3) by (auto simp: named_target_def)
  then show ?thesis by (intro node [OF 2(1,2,4,5)]) (auto simp: proper_move_def finishes_def)
qed

end

section \<open>Invariants of a run\<close>

lemma elapsed_stage: "stage (s \<lparr>agent_elapsed_seconds := x\<rparr>) = stage s"
  by simp

lemma elapsed_frame:
  "entry_stage (s \<lparr>agent_elapsed_seconds := x\<rparr>) = entry_stage s"
  "lims (s \<lparr>agent_elapsed_seconds := x\<rparr>) = lims s" "mode (s \<lparr>agent_elapsed_seconds := x\<rparr>) = mode s"
  "recovery_budget_history_start (s \<lparr>agent_elapsed_seconds := x\<rparr>) = recovery_budget_history_start s"
  by simp_all

lemma elapsed_window [simp]: "window_keys (s \<lparr>agent_elapsed_seconds := x\<rparr>) = window_keys s"
  by (simp add: window_keys_def budget_recovery_history_def)

lemma elapsed_entry [simp]: "entry_ok (s \<lparr>agent_elapsed_seconds := x\<rparr>) = entry_ok s"
  by (simp add: entry_ok_def)

lemma budget_event_kind:
  assumes "route clk cur (TaskTimeBudgetExceeded a b) s = Inr mv"
  shows "of_kind Failing clk cur (TaskTimeBudgetExceeded a b) s mv"
  using assms by (auto simp: settle_def escalate_def STAGE_PHASES_def fail_move_def split: if_splits)

lemma lstep_kind:
  assumes step: "lstep s s'" and entry: "entry_ok s"
  obtains e x clk mv k where
    "of_kind k clk (stage s) e (s \<lparr>agent_elapsed_seconds := x\<rparr>) mv"
    "s' = after_transition (stage s) e mv (s \<lparr>agent_elapsed_seconds := x\<rparr>)"
proof -
  from lstep_route [OF step] obtain e x clk mv where
    ev: "may_return (stage s) s e \<or> (\<exists>a b. e = TaskTimeBudgetExceeded a b)"
    and mv: "route clk (stage s) e (s \<lparr>agent_elapsed_seconds := x\<rparr>) = Inr mv"
    and s': "s' = after_transition (stage s) e mv (s \<lparr>agent_elapsed_seconds := x\<rparr>)" .
  from ev have "\<exists>k. of_kind k clk (stage s) e (s \<lparr>agent_elapsed_seconds := x\<rparr>) mv"
  proof
    assume "may_return (stage s) s e"
    then have "may_return (stage s) (s \<lparr>agent_elapsed_seconds := x\<rparr>) e" by simp
    from route_kind [OF this _ mv] entry show ?thesis by simp
  next
    assume "\<exists>a b. e = TaskTimeBudgetExceeded a b"
    with mv budget_event_kind show ?thesis by blast
  qed
  with s' that show ?thesis by blast
qed

lemma lstep_frame:
  assumes "lstep s s'"
  shows "entry_stage s' = entry_stage s" "lims s' = lims s" "mode s' = mode s"
    "recovery_budget_history_start s' = recovery_budget_history_start s"
  using lstep_route [OF assms] by (metis after_transition_frame elapsed_frame)+

lemma lstep_entry_ok: "lstep s s' \<Longrightarrow> entry_ok s' = entry_ok s"
  by (simp add: entry_ok_def lstep_frame)

text \<open>Within a budget window no recovery key is spent twice.\<close>

definition budget_inv :: "task_state \<Rightarrow> bool" where
  "budget_inv s \<longleftrightarrow>
     nat (max 0 (recovery_budget_history_start s)) \<le> length (recovery_history s) \<and>
     (stage s \<noteq> FAILED \<longrightarrow> distinct (window_keys s)) \<and>
     (stage s = RECOVERING \<longrightarrow>
        (\<forall>t. active_recovery_trigger s = Some t \<longrightarrow> budget_key t \<notin> set (window_keys s)))"

lemma window_after':
  assumes "nat (max 0 (recovery_budget_history_start s)) \<le> length (recovery_history s)"
  shows "window_keys (after_transition f e mv s) =
    window_keys s @ (case append_recovery_outcome (snd mv) of None \<Rightarrow> []
                     | Some oc \<Rightarrow> [budget_key (outcome_trigger oc)])"
  using assms window_keys_append [of "after_transition f e mv s" s] by (auto split: option.split)

lemma success_outcome:
  "append_recovery_outcome (record_recovery_success clk s e) = Some oc \<Longrightarrow>
   active_recovery_trigger s = Some (outcome_trigger oc)"
  by (cases "active_recovery_trigger s"; cases e) (auto simp: record_recovery_success_def Let_def)

lemma success_clears [simp]: "clear_active_recovery_trigger (record_recovery_success clk s e)"
  by (simp add: record_recovery_success_def Let_def)

lemma available_fresh:
  assumes "class_of e \<in> {EBlocked, ECrash, ETimeout}"
    "state_recovery_budget_available s (recovery_trigger_from_event s e)"
  shows "budget_key (recovery_trigger_from_event s e) \<notin> set (window_keys s)"
proof -
  have "trigger_reason_code (recovery_trigger_from_event s e) = None"
    using assms(1) by (cases e) (simp_all add: recovery_trigger_from_event_def)
  with assms(2) show ?thesis by (simp add: state_recovery_budget_available_def unconsumed_iff)
qed

lemma budget_inv_kind:
  assumes inv: "budget_inv s" and k: "of_kind k clk (stage s) e s mv"
  shows "budget_inv (after_transition (stage s) e mv s)"
proof -
  let ?s' = "after_transition (stage s) e mv s"
  note start = inv [unfolded budget_inv_def, THEN conjunct1]
  have len: "nat (max 0 (recovery_budget_history_start ?s')) \<le> length (recovery_history ?s')"
    using start by (simp split: option.split)
  show ?thesis
  proof (cases k)
    case Forward
    with k inv len show ?thesis
      by (auto simp: budget_inv_def quiet_def window_after' [OF start])
  next
    case Into_recovery
    with k available_fresh [of e s] inv len show ?thesis
      by (auto simp: budget_inv_def window_after' [OF start] after_transition_sel)
  next
    case Failing
    with k len show ?thesis by (simp add: budget_inv_def)
  next
    case (Retrying c)
    with k inv len show ?thesis by (auto simp: budget_inv_def window_after' [OF start])
  next
    case Recovered
    with k have stage: "stage s = RECOVERING" and d: "snd mv = record_recovery_success clk s e" by auto
    have "active_recovery_trigger ?s' = None" by (simp add: after_transition_sel d)
    moreover have "distinct (window_keys ?s')"
      using inv stage success_outcome [of clk s e]
      by (auto simp: budget_inv_def window_after' [OF start] d split: option.split)
    ultimately show ?thesis using len by (simp add: budget_inv_def)
  qed
qed

lemma budget_inv_elapsed [simp]: "budget_inv (s \<lparr>agent_elapsed_seconds := x\<rparr>) = budget_inv s"
  by (simp add: budget_inv_def)

lemma budget_inv_step:
  assumes "lstep s s'" "entry_ok s" "budget_inv s" shows "budget_inv s'"
  using lstep_kind [OF assms(1,2)] budget_inv_kind [of "s \<lparr>agent_elapsed_seconds := _\<rparr>"] assms(3)
  by (metis elapsed_stage budget_inv_elapsed)

lemma budget_inv_reachable:
  assumes "reachable_from s0 s" "entry_ok s0" "budget_inv s0" shows "budget_inv s"
proof -
  from assms have "entry_ok s \<and> budget_inv s"
  proof (induction rule: reachable_induct)
    case (step s s')
    then show ?case using budget_inv_step [of s s'] lstep_entry_ok [of s s'] by blast
  qed simp
  then show ?thesis ..
qed

lemma budget_inv_fresh: "stage s \<noteq> RECOVERING \<Longrightarrow> recovery_history s = [] \<Longrightarrow>
    recovery_budget_history_start s = 0 \<Longrightarrow> budget_inv s"
  by (simp add: budget_inv_def window_keys_def budget_recovery_history_def)

text \<open>A retry counter never leaves the range from zero to the limit.\<close>

definition counters_inv :: "task_state \<Rightarrow> bool" where
  "counters_inv s \<longleftrightarrow>
     (\<forall>c\<in>set counters. 0 \<le> dict_get c 0 (stage_retry s) \<and>
        dict_get c 0 (stage_retry s) \<le> max 0 (stage_retry_limit (lims s)))"

lemma counters_inv_kind:
  assumes inv: "counters_inv s" and k: "of_kind k clk (stage s) e s mv"
  shows "counters_inv (after_transition (stage s) e mv s)"
proof (cases k)
  case Recovered
  with k have d: "snd mv = record_recovery_success clk s e" by auto
  have "inc_stage_retry (snd mv) = None" by (simp add: d record_recovery_success_def Let_def)
  with inv show ?thesis
    by (auto simp: counters_inv_def after_transition_sel Let_def split: option.split)
next
  case (Retrying c)
  with inv k show ?thesis by (auto simp: counters_inv_def after_transition_sel)
qed (use inv k in \<open>auto simp: counters_inv_def after_transition_sel quiet_def\<close>)

lemma counters_inv_step:
  assumes "lstep s s'" "entry_ok s" "counters_inv s" shows "counters_inv s'"
proof -
  from lstep_kind [OF assms(1,2)] obtain e x clk mv k where
    k: "of_kind k clk (stage s) e (s \<lparr>agent_elapsed_seconds := x\<rparr>) mv"
    and s': "s' = after_transition (stage s) e mv (s \<lparr>agent_elapsed_seconds := x\<rparr>)" .
  have "counters_inv (s \<lparr>agent_elapsed_seconds := x\<rparr>)" using assms(3) by (simp add: counters_inv_def)
  from counters_inv_kind [OF this, of k clk e mv] k s' show ?thesis by simp
qed

lemma counters_inv_reachable:
  assumes "reachable_from s0 s" "entry_ok s0" "counters_inv s0" shows "counters_inv s"
proof -
  from assms have "entry_ok s \<and> counters_inv s"
  proof (induction rule: reachable_induct)
    case (step s s')
    then show ?case using counters_inv_step [of s s'] lstep_entry_ok [of s s'] by blast
  qed simp
  then show ?thesis ..
qed

section \<open>Terminal states and recovery, step by step\<close>

lemma lstep_target:
  assumes "lstep s s'"
  obtains e x clk mv where
    "named_target (stage s) s e (stage s') \<or>
     (proper_move (stage s) e (s \<lparr>agent_elapsed_seconds := x\<rparr>) mv \<and> fst mv = stage s')"
    "s' = after_transition (stage s) e mv (s \<lparr>agent_elapsed_seconds := x\<rparr>)"
    "route clk (stage s) e (s \<lparr>agent_elapsed_seconds := x\<rparr>) = Inr mv"
proof -
  from lstep_route [OF assms] obtain e x clk mv where
    ev: "may_return (stage s) s e \<or> (\<exists>a b. e = TaskTimeBudgetExceeded a b)"
    and mv: "route clk (stage s) e (s \<lparr>agent_elapsed_seconds := x\<rparr>) = Inr mv"
    and s': "s' = after_transition (stage s) e mv (s \<lparr>agent_elapsed_seconds := x\<rparr>)" .
  from ev have "may_return (stage s) (s \<lparr>agent_elapsed_seconds := x\<rparr>) e \<or>
      (\<exists>a b. e = TaskTimeBudgetExceeded a b)" by simp
  from route_proper [OF this mv] have
    "named_target (stage s) s e (fst mv) \<or> proper_move (stage s) e (s \<lparr>agent_elapsed_seconds := x\<rparr>) mv"
    by (simp add: named_target_def)
  moreover have "fst mv = stage s'" by (simp add: s')
  ultimately show ?thesis by (intro that [OF _ s' mv]) simp
qed

lemma recovered_route:
  "route clk RECOVERING (RecoverySucceeded (pipeline_state_value st) hint) s =
     Inr (stage_entry st, record_recovery_success clk s (RecoverySucceeded (pipeline_state_value st) hint))"
  by (simp add: targets computed_def py_strip_state_value del: pipeline_state_value.simps)

lemma success_reason [simp]: "delta_failed_reason (record_recovery_success clk s e) = None"
  by (simp add: record_recovery_success_def Let_def)

end
