(* ===== verification/Machine_Properties.thy ===== *)
theory Machine_Properties
  imports Safety
begin

text \<open>
  What the development shows of the pipeline machine as a whole: the rule table, the registered
  nodes and the runner together. Each property is a few steps over the lemmas of the theories
  below; its witness applies it to a concrete task and a concrete set of nodes.
\<close>

section \<open>A concrete configuration for the witnesses\<close>

text \<open>No engine is eligible, no hook is configured, git never fails: every agent visit crashes.\<close>

definition demo_agent :: "pipeline_state \<Rightarrow> (unit, unit, nat) agent_node" where
  "demo_agent st =
     \<lparr>agent_name = st, select_engine = (\<lambda>s nm ex w. (None, w)), get_session = (\<lambda>t nm e w. ((), w)),
      persist_session = (\<lambda>t nm e u w. w),
      run_turn = (\<lambda>e u p s w. (Turn_Transient ''flaky'' (Some ''timeout''), Suc w)),
      build_prompt = (\<lambda>s. ()), build_nudge_prompt = (\<lambda>s p. p), to_event = agent_verdict_to_event,
      retry_budget = 3, retry_on = [''execution_limit'', ''timeout''], retry_backoff_seconds = 0,
      retry_backoff_multiplier = 2, nudge_budget = 1, sleep_fn = (\<lambda>d w. w)\<rparr>"

definition demo_deps :: "(unit, unit, nat) deps" where
  "demo_deps =
     \<lparr>dep_agent = demo_agent, dep_hook_runner = (\<lambda>spec s w. (None, w)), dep_hook_specs = [],
      dep_probes = [], dep_repairs = [], dep_sync = noop_sync, dep_merge = stub_merge,
      dep_marker = ''...'', dep_retry_budget = 3, dep_retry_on = [''execution_limit'', ''timeout'']\<rparr>"

definition demo_runner :: "rat option \<Rightarrow> nat runner" where
  "demo_runner budget =
     \<lparr>registry = registry_get (registry_entries demo_deps), run_rules = RULES,
      has_session_store = False, has_state_sync = False, has_observer = False,
      stop_requested = Pair False, task_time_budget_seconds = budget, monotonic = Pair 0,
      utc = (\<lambda>w n. ''2026-01-01T00:00:00+00:00'')\<rparr>"

definition demo_task :: "pipeline_state \<Rightarrow> task_state" where
  "demo_task st = fresh_state ''T-1'' st FULL None default_limits"

definition demo_machine :: "pipeline_state \<Rightarrow> nat machine" where
  "demo_machine st = \<lparr>m_state = demo_task st, m_world = 0, m_log = []\<rparr>"

lemma demo_task_sel [simp]:
  "stage (demo_task st) = st" "entry_stage (demo_task st) = None" "mode (demo_task st) = FULL"
  "lims (demo_task st) = default_limits" "recovery_history (demo_task st) = []"
  "recovery_budget_history_start (demo_task st) = 0" "stage_retry (demo_task st) = []"
  "active_recovery_trigger (demo_task st) = None" "agent_elapsed_seconds (demo_task st) = 0"
  "last_hook_reject_fingerprint (demo_task st) = None" "report (demo_task st) = empty_report"
  "failed_reason_of (demo_task st) = None"
  by (simp_all add: demo_task_def fresh_state_def)

lemma demo_crash:
  "agent_run (role_agent demo_deps st) s w = Some (Inr (Crash ''AllEnginesExhausted'' ''no engine eligible''), w)"
  by (simp add: agent_run_def select_loop.simps role_agent_def demo_deps_def demo_agent_def)

lemma demo_agents_return: "agents_return {''GitError'', ''AllEnginesExhausted''} demo_deps"
  by (simp add: agents_return_def demo_crash)

lemma evaluate_by_route:
  assumes "route clk st e s = Inr mv"
  shows "\<exists>t. evaluate clk RULES st e s = Inr t \<and> next_state t = fst mv \<and> transition_delta t = snd mv"
  using evaluate_RULES [of clk st e s] assms
  by (cases "evaluate clk RULES st e s") (auto simp: as_move_def)

lemma lstep_by_route:
  assumes "may_return (stage s) s e" "route clk (stage s) e s = Inr mv"
  shows "lstep s (after_transition (stage s) e mv s)"
proof -
  obtain t where "evaluate clk RULES (stage s) e s = Inr t" "next_state t = fst mv"
    "transition_delta t = snd mv" using evaluate_by_route [OF assms(2)] by blast
  with lstep_node [of s e s "agent_elapsed_seconds s" clk t] assms(1) show ?thesis by simp
qed

text \<open>A grooming agent that crashes: the step into recovery, and the step out of it.\<close>

definition demo_crash_state :: task_state where
  "demo_crash_state =
     after_transition GROOMING (Crash ''Boom'' ''x'')
       (RECOVERING, enter_recovery (demo_task GROOMING) (Crash ''Boom'' ''x'')) (demo_task GROOMING)"

lemma demo_crash_step: "lstep (demo_task GROOMING) demo_crash_state"
  unfolding demo_crash_state_def
  using lstep_by_route [of "demo_task GROOMING" "Crash ''Boom'' ''x''" "\<lambda>n. []"
      "(RECOVERING, enter_recovery (demo_task GROOMING) (Crash ''Boom'' ''x''))"]
  by (simp add: agent_classes_def HOOK_PHASES_def settle_def fault_route_def recovery_move_def
      state_recovery_budget_available_def recovery_trigger_from_event_def unconsumed_iff
      window_keys_def budget_recovery_history_def)

lemma demo_crash_reachable: "reachable_from (demo_task GROOMING) demo_crash_state"
  unfolding reachable_from_def using demo_crash_step by blast

section \<open>Routing and progress\<close>

text \<open>C1: First-match evaluation of the whole rule table, for every stage, event and task state, is
  the routing function that is organised by event: same target, same delta, same error. In
  particular the wildcard rows shadow nothing, and the pairs of budget rows never disagree.\<close>

theorem rule_table_is_routing:
  "as_move (evaluate clk RULES cur e s) = route clk cur e s"
  by (rule evaluate_RULES)

text \<open>C2: Whatever a registered node returns at its stage, some row of the table applies and its
  target resolves: the runner never raises \<open>NoTransitionError\<close> or \<open>ValueError\<close> on a node's event.\<close>

theorem node_events_have_rules:
  assumes "registry_get (registry_entries d) st = Some nd" and "st \<notin> set TERMINAL_NODES"
    and "node_run nd s w = Some (Inr e, w')"
  shows "\<exists>t. evaluate clk RULES st e (s \<lparr>agent_elapsed_seconds := x\<rparr>) = Inr t"
proof -
  have "may_return st s e" by (rule reg.vocabulary [OF assms])
  then show ?thesis by (intro evaluate_total) simp
qed

lemma node_events_have_rules_witness:
  "\<exists>t. evaluate (\<lambda>n. ''now'') RULES GROOMING (Crash ''AllEnginesExhausted'' ''no engine eligible'')
      ((demo_task GROOMING) \<lparr>agent_elapsed_seconds := 5\<rparr>) = Inr t"
  by (rule node_events_have_rules [where d = demo_deps and nd = "snd (agent_entry demo_deps GROOMING)"
        and s = "demo_task GROOMING" and w = 0 and w' = 0])
     (simp_all add: registry_get_agent agent_entry_def TERMINAL_NODES_def demo_crash)

text \<open>C3: A run of the registered nodes ends. If every agent visit returns, crash classes come from a
  finite set and recovery never resumes at \<open>recovering\<close> itself, then from any state whose retry
  counters are not negative, whose entry stage lies ahead of the worktree sync and whose active
  recovery key is unspent, the loop returns within (keys + 1) * (3 * limit + 1) * 20 iterations.\<close>

theorem run_terminates:
  assumes "registry r = registry_get (registry_entries d)" and "run_rules r = RULES"
    and "agents_return T d" and "finite T" and "''GitError'' \<in> T" and "run_inv T (m_state m)"
  shows "\<exists>oc. run_fuel (run_bound T (m_state m)) r m = Some oc \<and> run_loop r m = Some oc"
proof -
  have "returning T r" by (rule registry_returning) (use assms in simp_all)
  then obtain oc where "run_fuel (run_bound T (m_state m)) r m = Some oc"
    using reg.run_fuel_enough [OF assms(1) _ assms(4,6)] potential_bound [OF assms(4,6)] by blast
  with run_fuel_loop show ?thesis by blast
qed

lemma run_terminates_witness:
  "\<exists>oc. run_fuel (run_bound {''GitError'', ''AllEnginesExhausted''} (demo_task READY))
          (demo_runner None) (demo_machine READY) = Some oc \<and>
        run_loop (demo_runner None) (demo_machine READY) = Some oc"
  using run_terminates [of "demo_runner None" demo_deps "{''GitError'', ''AllEnginesExhausted''}"
      "demo_machine READY"]
  by (simp add: demo_runner_def demo_machine_def demo_agents_return run_inv_def entry_ok_def)

text \<open>The runner refines the transition system of the safety properties: each iteration that
  continues is one step of \<open>lstep\<close> on the task state.\<close>

lemma runner_refines_steps:
  assumes "registry r = registry_get (registry_entries d)" and "run_rules r = RULES"
    and "step r m = Some (Continue m')"
  shows "lstep (m_state m) (m_state m')"
  using assms by (rule reg.runner_step)

lemma demo_ready_step: "\<exists>m'. step (demo_runner None) (demo_machine READY) = Some (Continue m')"
proof -
  obtain t where "evaluate (utc (demo_runner None) 0) RULES READY CleanState (demo_task READY) = Inr t"
    using evaluate_total [of READY "demo_task READY" CleanState] by auto
  then show ?thesis
    by (simp add: step_def Let_def demo_runner_def demo_machine_def demo_deps_def TERMINAL_NODES_def
        task_time_budget_event_def registry_get_system plain_node_def run_node_def
        apply_transition_def advance_def check_stop_def)
qed

lemma runner_refines_steps_witness:
  "\<exists>m'. step (demo_runner None) (demo_machine READY) = Some (Continue m') \<and>
        lstep (demo_task READY) (m_state m')"
  using demo_ready_step runner_refines_steps [of "demo_runner None" demo_deps "demo_machine READY"]
  by (auto simp: demo_runner_def demo_machine_def)

section \<open>Recovery\<close>

text \<open>C4: Along every run from a state with a consistent budget, the recovery keys spent in the budget
  window are pairwise different while the task is not failed, and the key of a recovery in
  progress is not among them: recovery is tried at most once per stage and failure class.\<close>

theorem recovery_spent_once:
  assumes "reachable_from s0 s" and "entry_ok s0" and "budget_inv s0"
  shows "(stage s \<noteq> FAILED \<longrightarrow> distinct (window_keys s)) \<and>
         (stage s = RECOVERING \<longrightarrow>
            (\<forall>t. active_recovery_trigger s = Some t \<longrightarrow> budget_key t \<notin> set (window_keys s)))"
  using budget_inv_reachable [OF assms] by (simp add: budget_inv_def)

text \<open>C7: Recovery is entered only from a crash, a timeout or a blocked report, for a cause whose key
  is unspent; the cause is recorded as the active trigger with the stage it came from. (The other
  way in is an entry stage or a resume target that names \<open>recovering\<close>.)\<close>

theorem recovery_entered_from_faults:
  assumes "lstep s s'" and "stage s' = RECOVERING" and "stage s \<noteq> RECOVERING"
    and "entry_stage s \<noteq> Some RECOVERING"
  shows "\<exists>t. active_recovery_trigger s' = Some t \<and>
             trigger_kind t \<in> {Tek_BLOCKED, Tek_CRASH, Tek_TIMEOUT} \<and>
             origin_stage t = Some (pipeline_state_value (stage s)) \<and>
             budget_key t \<notin> set (window_keys s)"
proof -
  from lstep_target [OF assms(1)] obtain e x clk mv where
    to: "named_target (stage s) s e (stage s') \<or>
     (proper_move (stage s) e (s \<lparr>agent_elapsed_seconds := x\<rparr>) mv \<and> fst mv = stage s')"
    and s': "s' = after_transition (stage s) e mv (s \<lparr>agent_elapsed_seconds := x\<rparr>)"
    and rt: "route clk (stage s) e (s \<lparr>agent_elapsed_seconds := x\<rparr>) = Inr mv" .
  let ?s1 = "s \<lparr>agent_elapsed_seconds := x\<rparr>"
  let ?t = "recovery_trigger_from_event ?s1 e"
  have "\<not> named_target (stage s) s e (stage s')"
    using assms(2,3,4) by (auto simp: named_target_def stage_entry_inv)
  with to assms(2) have mv: "snd mv = enter_recovery ?s1 e" "class_of e \<in> {EBlocked, ECrash, ETimeout}"
    "state_recovery_budget_available ?s1 ?t" by (auto simp: proper_move_def)
  have "active_recovery_trigger s' = Some ?t" by (simp add: s' after_transition_sel mv(1))
  moreover have "trigger_kind ?t \<in> {Tek_BLOCKED, Tek_CRASH, Tek_TIMEOUT}"
    using mv(2) by (cases e) (simp_all add: recovery_trigger_from_event_def)
  moreover have "origin_stage ?t = Some (pipeline_state_value (stage s))"
    by (simp add: recovery_trigger_from_event_def)
  moreover have "budget_key ?t \<notin> set (window_keys s)"
    using available_fresh [OF mv(2,3)] by simp
  ultimately show ?thesis by blast
qed

lemma recovery_spent_once_witness:
  "distinct (window_keys demo_crash_state) \<and> stage demo_crash_state = RECOVERING \<and>
   (\<exists>t. active_recovery_trigger demo_crash_state = Some t \<and>
        budget_key t \<notin> set (window_keys demo_crash_state))"
proof -
  have "stage demo_crash_state = RECOVERING" by (simp add: demo_crash_state_def)
  moreover obtain t where "active_recovery_trigger demo_crash_state = Some t"
    by (simp add: demo_crash_state_def after_transition_sel)
  ultimately show ?thesis
    using recovery_spent_once [OF demo_crash_reachable] by (simp add: entry_ok_def budget_inv_fresh)
qed

lemma recovery_entered_from_faults_witness:
  "\<exists>t. active_recovery_trigger demo_crash_state = Some t \<and>
       trigger_kind t \<in> {Tek_BLOCKED, Tek_CRASH, Tek_TIMEOUT} \<and>
       origin_stage t = Some ''grooming'' \<and> budget_key t \<notin> set (window_keys (demo_task GROOMING))"
  using recovery_entered_from_faults [OF demo_crash_step] by (simp add: demo_crash_state_def)

section \<open>Ends of a run\<close>

text \<open>C8: A step of the runner takes a task to \<open>done\<close> only on the answer of the node registered for its
  stage, and the answer is one of four: the hooks after the commit passed; the hooks after a
  single-mode implementation passed and it changed no file and added no test; the recovery agent
  answered that it succeeded with \<open>done\<close> as the stage to resume at; or the worktree sync passed (the
  pre-exec recovery succeeded) and the task's entry stage is \<open>done\<close>. A failed recovery, a rejecting
  hook, a crash or the time budget never end a task as done.\<close>

theorem done_only_when_finished:
  assumes "registry r = registry_get (registry_entries d)" and "run_rules r = RULES"
    and "step r m \<in> {Some (Continue m'), Some (Returned m')}"
    and "stage (m_state m) \<notin> {DONE, FAILED}" and "stage (m_state m') = DONE"
  shows "\<exists>nd e m1. registry_get (registry_entries d) (stage (m_state m)) = Some nd \<and>
     run_node r nd m = Some (Inr e, m1) \<and>
     ((stage (m_state m) = AFTER_COMMIT \<and> class_of e = EHookOk) \<or>
      (stage (m_state m) = AFTER_IMPLEMENTING \<and> class_of e = EHookOk \<and> mode (m_state m) = SINGLE \<and>
         files_changed (report (m_state m)) = 0 \<and> tests_added (report (m_state m)) = 0) \<or>
      (stage (m_state m) = RECOVERING \<and> (\<exists>hint. e = RecoverySucceeded ''done'' hint)) \<or>
      (entry_stage (m_state m) = Some DONE \<and>
         (stage (m_state m) = WORKTREE_SYNC \<and> class_of e = EPass \<or>
          stage (m_state m) = RECOVERING_PRE_EXEC \<and> class_of e = EPreExecRecoverySucceeded)))"
proof (cases rule: reg.runner_terminal_move [OF assms(1,2,3)])
  case 1
  show ?case using assms(4) by (simp add: TERMINAL_NODES_def)
next
  case 2
  with assms(5) show ?thesis by simp
next
  case (3 nd e m1 x clk mv)
  have "fst mv = DONE" using 3(4) assms(5) by simp
  with 3(5) have "named_target (stage (m_state m)) (m_state m) e DONE \<or>
    finishes (stage (m_state m)) (m_state m) e" by auto
  with 3(1,2) show ?thesis by (auto simp: named_target_def finishes_def stage_entry_inv)
qed

lemma demo_last_step:
  "\<exists>m'. step (demo_runner None) (demo_machine AFTER_COMMIT) = Some (Continue m') \<and> stage (m_state m') = DONE"
proof -
  have "route (utc (demo_runner None) 0) AFTER_COMMIT (HookOk []) (demo_task AFTER_COMMIT) =
          Inr (DONE, EMPTY_DELTA)" by (simp add: HOOK_PHASES_def settle_def)
  from evaluate_by_route [OF this] show ?thesis
    by (auto simp: step_def Let_def demo_runner_def demo_machine_def demo_deps_def TERMINAL_NODES_def
        task_time_budget_event_def registry_get_hook HOOK_PHASES_def hook_entry_def plain_node_def
        run_node_def apply_transition_def advance_def check_stop_def dict_get_def)
qed

lemma done_only_when_finished_witness:
  "\<exists>nd e m1. registry_get (registry_entries demo_deps) AFTER_COMMIT = Some nd \<and>
     run_node (demo_runner None) nd (demo_machine AFTER_COMMIT) = Some (Inr e, m1) \<and> class_of e = EHookOk"
proof -
  obtain m' where "step (demo_runner None) (demo_machine AFTER_COMMIT) = Some (Continue m')"
    "stage (m_state m') = DONE" using demo_last_step by blast
  then show ?thesis
    using done_only_when_finished [of "demo_runner None" demo_deps "demo_machine AFTER_COMMIT" m']
    by (auto simp: demo_runner_def demo_machine_def)
qed

text \<open>C9: A step of the runner that fails a task leaves it with a failure reason. There is one
  exception: the recovery agent itself answered that it succeeded with \<open>failed\<close> as the stage to
  resume at, and then the reason stays what was stored before. A recovery that fails, is out of
  budget or crashes stores its reason like every other failure. (An entry stage \<open>failed\<close> is excluded.)\<close>

theorem failed_has_reason:
  assumes "registry r = registry_get (registry_entries d)" and "run_rules r = RULES"
    and "step r m \<in> {Some (Continue m'), Some (Returned m')}"
    and "stage (m_state m) \<notin> {DONE, FAILED}" and "stage (m_state m') = FAILED"
    and "entry_stage (m_state m) \<noteq> Some FAILED"
  shows "failed_reason_of (m_state m') \<noteq> None \<or>
     (stage (m_state m) = RECOVERING \<and> failed_reason_of (m_state m') = failed_reason_of (m_state m) \<and>
      (\<exists>nd hint m1. registry_get (registry_entries d) RECOVERING = Some nd \<and>
         run_node r nd m = Some (Inr (RecoverySucceeded ''failed'' hint), m1)))"
proof (cases rule: reg.runner_terminal_move [OF assms(1,2,3)])
  case 1
  show ?case using assms(4) by (simp add: TERMINAL_NODES_def)
next
  case 2
  with assms(5) show ?thesis by simp
next
  case (3 nd e m1 x clk mv)
  have to: "fst mv = FAILED" using 3(4) assms(5) by simp
  show ?thesis
  proof (cases "delta_failed_reason (snd mv)")
    case None
    with to 3(5) have "named_target (stage (m_state m)) (m_state m) e FAILED" by auto
    with assms(6) obtain st hint where rec: "stage (m_state m) = RECOVERING"
      and e: "e = RecoverySucceeded (pipeline_state_value st) hint" and "stage_entry st = FAILED"
      by (auto simp: named_target_def stage_entry_inv simp del: pipeline_state_value.simps)
    then have "e = RecoverySucceeded ''failed'' hint" by (simp add: stage_entry_inv)
    with 3(1,2,4) rec None show ?thesis by (auto simp: after_transition_sel)
  qed (simp add: 3(4) after_transition_sel)
qed

text \<open>The exception is real: a recovery agent whose verdict names \<open>failed\<close>.\<close>

definition give_up_verdict :: agent_verdict where
  "give_up_verdict =
     \<lparr>verdict_outcome = ''resume'', verdict_reason = [], verdict_classification = None,
      verdict_metadata = [(''target_stage'', PyStr ''failed'')], verdict_source = Src_agent\<rparr>"

lemma give_up_event:
  "recovery_verdict_to_event give_up_verdict = Inr (RecoverySucceeded ''failed'' Hint_resume)"
  by code_simp

definition give_up_deps :: "(unit, unit, nat) deps" where
  "give_up_deps = demo_deps \<lparr>dep_agent := (\<lambda>st. (demo_agent st)
     \<lparr>select_engine := (\<lambda>s nm ex w. (Some ''codex'', w)),
      run_turn := (\<lambda>e u p s w.
        (Turn_Verdict give_up_verdict, Suc w))\<rparr>)\<rparr>"

definition give_up_runner :: "nat runner" where
  "give_up_runner = (demo_runner None) \<lparr>registry := registry_get (registry_entries give_up_deps)\<rparr>"

lemma give_up_answer:
  "agent_run (role_agent give_up_deps RECOVERING) s w = Some (Inr (RecoverySucceeded ''failed'' Hint_resume), Suc w)"
  by (simp add: agent_run_def select_loop.simps retry_loop.simps role_agent_def give_up_deps_def
      demo_deps_def demo_agent_def backoff_def give_up_event)

lemma demo_task_elapsed: "demo_task st \<lparr>agent_elapsed_seconds := 0\<rparr> = demo_task st"
  by (simp add: demo_task_def fresh_state_def)

lemma give_up_step:
  "\<exists>m'. step give_up_runner (demo_machine RECOVERING) = Some (Continue m') \<and>
        stage (m_state m') = FAILED \<and> failed_reason_of (m_state m') = None"
proof -
  let ?e = "RecoverySucceeded (pipeline_state_value FAILED) Hint_resume"
  have "route (utc (demo_runner None) 1) RECOVERING ?e (demo_task RECOVERING) =
      Inr (FAILED, record_recovery_success (utc (demo_runner None) 1) (demo_task RECOVERING) ?e)"
    unfolding recovered_route by (simp add: stage_entry_def)
  from evaluate_by_route [OF this] show ?thesis
    by (auto simp: step_def Let_def demo_runner_def give_up_runner_def demo_machine_def TERMINAL_NODES_def
        task_time_budget_event_def registry_get_agent agent_entry_def give_up_answer
        run_node_def apply_transition_def advance_def check_stop_def after_transition_sel
        record_recovery_success_def demo_task_elapsed)
qed

lemma failed_has_reason_witness:
  "\<exists>nd hint m1. registry_get (registry_entries give_up_deps) RECOVERING = Some nd \<and>
     run_node give_up_runner nd (demo_machine RECOVERING) = Some (Inr (RecoverySucceeded ''failed'' hint), m1)"
proof -
  obtain m' where "step give_up_runner (demo_machine RECOVERING) = Some (Continue m')"
    "stage (m_state m') = FAILED" "failed_reason_of (m_state m') = None" using give_up_step by blast
  then show ?thesis
    using failed_has_reason [of give_up_runner give_up_deps "demo_machine RECOVERING" m']
    by (auto simp: give_up_runner_def demo_runner_def demo_machine_def)
qed

text \<open>C10: Along every run the retry counters stay between zero and the stage retry limit.\<close>

theorem retry_counters_bounded:
  assumes "reachable_from s0 s" and "entry_ok s0" and "counters_inv s0"
    and "c \<in> {IMPLEMENTING, TESTING, ACCEPTING}"
  shows "0 \<le> dict_get c 0 (stage_retry s) \<and>
         dict_get c 0 (stage_retry s) \<le> max 0 (stage_retry_limit (lims s))"
proof -
  have "c \<in> set counters" using assms(4) by (simp add: counters_def)
  with counters_inv_reachable [OF assms(1,2,3)] show ?thesis unfolding counters_inv_def by blast
qed

lemma retry_counters_bounded_witness:
  "0 \<le> dict_get TESTING 0 (stage_retry demo_crash_state) \<and>
   dict_get TESTING 0 (stage_retry demo_crash_state) \<le> max 0 (stage_retry_limit (lims demo_crash_state))"
  using retry_counters_bounded [OF demo_crash_reachable, of TESTING]
  by (simp add: entry_ok_def counters_inv_def)

section \<open>The time budget\<close>

text \<open>C11: Once the agent time has reached the budget and the commit is not reached, the next iteration
  visits no node. From a working phase or from recovery it fails the task with
  \<open>TIME_BUDGET_EXCEEDED\<close>; from the entry states no row matches and the runner raises.\<close>

theorem time_budget_stops_the_task:
  assumes "run_rules r = RULES" and "task_time_budget_seconds r = Some b"
    and "b \<le> agent_elapsed_seconds (m_state m)"
    and "stage (m_state m) \<notin> set TERMINAL_NODES" and "stage (m_state m) \<notin> set COMMIT_REACHED_PHASES"
  shows "\<exists>oc. step r m = Some oc \<and>
    (if stage (m_state m) \<in> {READY, WORKTREE_SYNC, RECOVERING_PRE_EXEC}
     then \<exists>a. oc = Raised (NoTransitionError (stage (m_state m)) (TaskTimeBudgetExceeded a b)) m
     else \<exists>m'. oc = Continue m' \<and> m_world m' = m_world m \<and> stage (m_state m') = FAILED \<and>
               failed_reason_of (m_state m') = Some TIME_BUDGET_EXCEEDED)"
proof -
  let ?s = "m_state m" let ?clk = "utc r (m_world m)"
  let ?e = "TaskTimeBudgetExceeded (agent_elapsed_seconds ?s) b"
  have step: "step r m = Some (advance m (apply_transition r (stage ?s) ?e m))"
    using assms by (simp add: step_def Let_def task_time_budget_event_def)
  show ?thesis
  proof (cases "stage ?s \<in> {READY, WORKTREE_SYNC, RECOVERING_PRE_EXEC}")
    case True
    then have "route ?clk (stage ?s) ?e ?s = Inl (NoTransitionError (stage ?s) ?e)"
      by (auto simp: settle_def escalate_def STAGE_PHASES_def)
    then have "evaluate ?clk RULES (stage ?s) ?e ?s = Inl (NoTransitionError (stage ?s) ?e)"
      using evaluate_RULES [of ?clk "stage ?s" ?e ?s]
      by (cases "evaluate ?clk RULES (stage ?s) ?e ?s") (auto simp: as_move_def)
    with True step assms(1) show ?thesis by (simp add: apply_transition_def advance_def)
  next
    case False
    then have "stage ?s \<in> insert RECOVERING (set STAGE_PHASES)"
      using assms(4,5) by (cases "stage ?s") (simp_all add: TERMINAL_NODES_def COMMIT_REACHED_PHASES_def STAGE_PHASES_def)
    then have "route ?clk (stage ?s) ?e ?s = Inr (fail_move TIME_BUDGET_EXCEEDED ?clk ?s ?e)"
      by (simp add: settle_def escalate_def)
    from evaluate_by_route [OF this] False step assms(1) show ?thesis
      by (auto simp: apply_transition_def advance_def Let_def after_transition_sel fail_move_def)
  qed
qed

lemma time_budget_stops_the_task_witness:
  "\<exists>oc. step (demo_runner (Some 0)) (demo_machine GROOMING) = Some oc \<and>
     (\<exists>m'. oc = Continue m' \<and> m_world m' = 0 \<and> stage (m_state m') = FAILED \<and>
        failed_reason_of (m_state m') = Some TIME_BUDGET_EXCEEDED)"
  using time_budget_stops_the_task [of "demo_runner (Some 0)" 0 "demo_machine GROOMING"]
  by (simp add: demo_runner_def demo_machine_def TERMINAL_NODES_def COMMIT_REACHED_PHASES_def)

section \<open>Where a run need not end\<close>

lemma run_fuel_spins:
  assumes "P m" and "\<And>m. P m \<Longrightarrow> \<exists>m'. step r m = Some (Continue m') \<and> P m'"
  shows "run_fuel n r m = None"
  using assms(1)
proof (induction n arbitrary: m)
  case (Suc n)
  from assms(2) [OF Suc.prems] obtain m' where "step r m = Some (Continue m')" "P m'" by blast
  with Suc.IH show ?case by simp
qed simp

text \<open>One iteration that a node decides, when nothing stops it.\<close>

lemma step_continues:
  assumes "run_rules r = RULES" "task_time_budget_seconds r = None" "\<And>w. fst (stop_requested r w) = False"
    and "stage (m_state m) \<notin> set TERMINAL_NODES" "registry r (stage (m_state m)) = Some nd"
    and "run_node r nd m = Some (Inr e, m1)"
    and "route (utc r (m_world m1)) (stage (m_state m)) e (m_state m1) = Inr mv"
  shows "\<exists>m'. step r m = Some (Continue m') \<and>
              m_state m' = after_transition (stage (m_state m)) e mv (m_state m1)"
proof -
  from evaluate_by_route [OF assms(7)] obtain t where
    "evaluate (utc r (m_world m1)) RULES (stage (m_state m)) e (m_state m1) = Inr t"
    "next_state t = fst mv" "transition_delta t = snd mv" by blast
  moreover obtain stop w where "stop_requested r (m_world m1) = (stop, w)" "stop = False"
    using assms(3) [of "m_world m1"] by (cases "stop_requested r (m_world m1)") simp
  ultimately show ?thesis
    using assms by (simp add: step_def Let_def task_time_budget_event_def apply_transition_def
        advance_def check_stop_def)
qed

text \<open>C12: A task launched with entry stage \<open>worktree_sync\<close> (the runtime's current stage is used as it
  is) syncs its worktree forever: the target after the sync is the sync itself.\<close>

theorem sync_entry_never_returns:
  fixes d :: "('p, 's, 'w) deps" and r :: "'w runner"
  assumes "registry r = registry_get (registry_entries d)" and "run_rules r = RULES"
    and "task_time_budget_seconds r = None" and "\<And>w. fst (stop_requested r w) = False"
    and "\<And>s w. \<exists>changed w'. dep_sync d s w = (Git_Ok changed, w')"
    and "stage (m_state m) = WORKTREE_SYNC" and "entry_stage (m_state m) = Some WORKTREE_SYNC"
  shows "run_fuel n r m = None"
proof (rule run_fuel_spins [where P = "\<lambda>m. stage (m_state m) = WORKTREE_SYNC \<and>
         entry_stage (m_state m) = Some WORKTREE_SYNC"])
  fix m :: "'w machine"
  assume P: "stage (m_state m) = WORKTREE_SYNC \<and> entry_stage (m_state m) = Some WORKTREE_SYNC"
  obtain changed w' where "dep_sync d (m_state m) (m_world m) = (Git_Ok changed, w')" using assms(5) by blast
  then have "run_node r (fallible_node NT_SYSTEM (worktree_sync_node_run (dep_sync d))) m =
      Some (Inr (Pass []), m \<lparr>m_world := w'\<rparr>)"
    by (simp add: run_node_def fallible_node_def worktree_sync_node_run_def)
  from step_continues [OF assms(2,3,4) _ _ this, of "(WORKTREE_SYNC, EMPTY_DELTA)"] P assms(1)
  show "\<exists>m'. step r m = Some (Continue m') \<and> stage (m_state m') = WORKTREE_SYNC \<and>
         entry_stage (m_state m') = Some WORKTREE_SYNC"
    by (fastforce simp: TERMINAL_NODES_def registry_get_system targets computed_def stage_entry_def)
qed (use assms in simp)

lemma sync_entry_never_returns_witness:
  "run_fuel 1000 (demo_runner None)
     \<lparr>m_state = (demo_task WORKTREE_SYNC) \<lparr>entry_stage := Some WORKTREE_SYNC\<rparr>, m_world = 0, m_log = []\<rparr> = None"
  by (rule sync_entry_never_returns [of _ demo_deps])
     (auto simp: demo_runner_def demo_deps_def noop_sync_def)

end
