(* ===== verification/Engine_Policy.thy ===== *)
theory Engine_Policy
  imports Agent_Node
begin

text \<open>
  Engine routing: \<open>litehive/config/engine_models.py\<close> (\<open>EngineRoutingPolicy\<close>), with the freezes of
  \<open>config/engine_freezes.py\<close>, the quota translation of \<open>config/engine_quota.py\<close> and the selector of
  \<open>lifecycle/engines.py\<close> that hands the result to the agent node. The live configuration's freeze
  map and the audited freeze writes are state; the clock, the vendor probes (\<open>quse\<close>), the engine
  registry (\<open>heru\<close>) and ISO timestamps are the environment. Instants are whole seconds.
\<close>

section \<open>Configuration, tasks and environment\<close>

record engine_config =
  default_engine :: string
  engine_preference :: "string list"
  recovery_engine :: "string option"
  opencode_model :: "string option"
  goz_model :: "string option"
  gemini_model :: "string option"
  copilot_model :: "string option"
  claude_model :: "string option"
  default_retry_limit :: int
  default_stage_retry_limit :: int
  default_rejection_loop_limit :: int

definition model_for_engine :: "engine_config \<Rightarrow> string \<Rightarrow> string option" where
  "model_for_engine cfg engine =
     (if engine = ''opencode'' then opencode_model cfg
      else if engine = ''goz'' then goz_model cfg
      else if engine = ''gemini'' then gemini_model cfg
      else if engine = ''copilot'' then copilot_model cfg
      else if engine = ''claude'' then claude_model cfg
      else None)"

definition engine_attempt_order :: "engine_config \<Rightarrow> string list \<Rightarrow> string list" where
  "engine_attempt_order cfg initial = initial @ engine_preference cfg"

record engine_switch =
  switch_stage :: string
  to_engine :: string

text \<open>The part of a task record that selection reads.\<close>

record engine_task =
  et_pipeline_status :: string
  et_last_switch :: "engine_switch option"
  et_model :: "string option"
  et_max_retries :: "int option"
  et_stage_retry_limit :: "int option"
  et_rejection_loop_limit :: "int option"

record quota_status =
  quota_error :: "string option"
  limit_reached :: bool
  short_reset_at :: "string option"
  long_reset_at :: "string option"

datatype quota_vendor = Vendor_codex | Vendor_claude | Vendor_copilot | Vendor_zai

record 'x engine_env =
  now_utc :: "'x \<Rightarrow> int \<times> 'x"
  parse_iso :: "string \<Rightarrow> int option"
  format_iso :: "int \<Rightarrow> string"
  check_quota_of :: "quota_vendor \<Rightarrow> 'x \<Rightarrow> quota_status \<times> 'x"
  is_available :: "string \<Rightarrow> 'x \<Rightarrow> (string + bool) \<times> 'x"
  supports_model_override :: "string \<Rightarrow> bool"

text \<open>\<open>freeze_writes\<close> is the audited store: \<open>Some\<close> sets a freeze, \<open>None\<close> clears one.\<close>

record 'x engine_world =
  engine_freeze :: "(string, string) dict"
  freeze_writes :: "(string \<times> string option) list"
  outer :: 'x

section \<open>Freezes\<close>

definition parse_utc_datetime :: "'x engine_env \<Rightarrow> string option \<Rightarrow> int option" where
  "parse_utc_datetime env value =
     (case value of None \<Rightarrow> None
      | Some v \<Rightarrow> (if py_strip v = [] then None else parse_iso env (py_strip v)))"

definition read_clock :: "'x engine_env \<Rightarrow> 'x engine_world \<Rightarrow> int \<times> 'x engine_world" where
  "read_clock env w = (case now_utc env (outer w) of (t, x) \<Rightarrow> (t, w \<lparr>outer := x\<rparr>))"

definition is_engine_frozen ::
  "'x engine_env \<Rightarrow> string \<Rightarrow> 'x engine_world \<Rightarrow> bool \<times> 'x engine_world" where
  "is_engine_frozen env engine w =
     (case parse_utc_datetime env (map_of (engine_freeze w) engine) of
        None \<Rightarrow> (False, w)
      | Some until \<Rightarrow> (case read_clock env w of (now, w1) \<Rightarrow> (now < until, w1)))"

definition frozen_at ::
  "'x engine_env \<Rightarrow> int \<Rightarrow> string \<times> string \<Rightarrow> (string \<times> int) list" where
  "frozen_at env now entry =
     (case parse_utc_datetime env (Some (snd entry)) of None \<Rightarrow> []
      | Some until \<Rightarrow> if now < until then [(fst entry, until)] else [])"

definition active_engine_freezes ::
  "'x engine_env \<Rightarrow> 'x engine_world \<Rightarrow> (string, int) dict \<times> 'x engine_world" where
  "active_engine_freezes env w =
     (case read_clock env w of (now, w1) \<Rightarrow>
        (concat (map (frozen_at env now) (engine_freeze w)), w1))"

definition persist_engine_freeze ::
  "'x engine_env \<Rightarrow> string \<Rightarrow> int \<Rightarrow> 'x engine_world \<Rightarrow> 'x engine_world" where
  "persist_engine_freeze env engine until w =
     (let iso = format_iso env until in
      if map_of (engine_freeze w) engine = Some iso then w
      else w \<lparr>freeze_writes := freeze_writes w @ [(engine, Some iso)],
              engine_freeze := AList.update engine iso (engine_freeze w)\<rparr>)"

definition clear_engine_freeze :: "string \<Rightarrow> 'x engine_world \<Rightarrow> 'x engine_world" where
  "clear_engine_freeze engine w =
     w \<lparr>freeze_writes := freeze_writes w @ [(engine, None)],
        engine_freeze := AList.delete engine (engine_freeze w)\<rparr>"

fun clear_expired :: "'x engine_env \<Rightarrow> (string \<times> string) list \<Rightarrow> 'x engine_world \<Rightarrow> 'x engine_world" where
  "clear_expired env [] w = w"
| "clear_expired env ((engine, until) # entries) w =
     (if parse_utc_datetime env (Some until) = None then clear_expired env entries w
      else (case is_engine_frozen env engine w of
              (True, w1) \<Rightarrow> clear_expired env entries w1
            | (False, w1) \<Rightarrow> clear_expired env entries (clear_engine_freeze engine w1)))"

definition clear_expired_freezes :: "'x engine_env \<Rightarrow> 'x engine_world \<Rightarrow> 'x engine_world" where
  "clear_expired_freezes env w = clear_expired env (engine_freeze w) w"

section \<open>Quota\<close>

record quota_block =
  block_reason :: string
  freeze_until :: "int option"

definition quota_checker :: "string \<Rightarrow> quota_vendor option" where
  "quota_checker engine =
     (if engine = ''codex'' then Some Vendor_codex
      else if engine = ''claude'' then Some Vendor_claude
      else if engine = ''copilot'' then Some Vendor_copilot
      else if engine \<in> {''goz'', ''opencode''} then Some Vendor_zai
      else None)"

definition preferred_quota_reset_at :: "quota_status \<Rightarrow> string option" where
  "preferred_quota_reset_at q =
     (case long_reset_at q of Some (c # cs) \<Rightarrow> Some (c # cs) | _ \<Rightarrow> short_reset_at q)"

definition quota_block_reason ::
  "'x engine_env \<Rightarrow> string \<Rightarrow> quota_status \<Rightarrow> quota_block option" where
  "quota_block_reason env engine q =
     (if quota_error q \<noteq> None \<or> \<not> limit_reached q then None
      else (let reset = preferred_quota_reset_at q;
                suffix = (case reset of Some (c # cs) \<Rightarrow> '', resets '' @ c # cs | _ \<Rightarrow> [])
            in Some \<lparr>block_reason = engine @ '' usage limit reached'' @ suffix,
                     freeze_until = parse_utc_datetime env reset\<rparr>))"

definition engine_quota_block ::
  "'x engine_env \<Rightarrow> string \<Rightarrow> 'x engine_world \<Rightarrow> quota_block option \<times> 'x engine_world" where
  "engine_quota_block env engine w =
     (case quota_checker engine of None \<Rightarrow> (None, w)
      | Some vendor \<Rightarrow>
          (case check_quota_of env vendor (outer w) of (q, x) \<Rightarrow>
             (quota_block_reason env engine q, w \<lparr>outer := x\<rparr>)))"

section \<open>Candidates\<close>

record selection_request =
  engine_override :: "string option"
  requested_model_name :: "string option"
  engine_names :: "string list option"
  excluded_engine_names :: "string list"
  require_available :: bool
  check_quota :: bool

definition default_request :: selection_request where
  "default_request = \<lparr>engine_override = None, requested_model_name = None, engine_names = None,
     excluded_engine_names = [], require_available = False, check_quota = True\<rparr>"

definition resolve_engine_plan ::
  "engine_task \<Rightarrow> engine_config \<Rightarrow> string option \<Rightarrow> string list" where
  "resolve_engine_plan t cfg override =
     (case override of Some e \<Rightarrow> [e]
      | None \<Rightarrow>
          (case et_last_switch t of
             Some sw \<Rightarrow> if switch_stage sw = et_pipeline_status t then [to_engine sw]
                        else [default_engine cfg]
           | None \<Rightarrow> [default_engine cfg]))"

definition candidate_engine_order ::
  "engine_task \<Rightarrow> engine_config \<Rightarrow> selection_request \<Rightarrow> string list" where
  "candidate_engine_order t cfg req =
     filter (\<lambda>e. e \<notin> set (excluded_engine_names req))
       (case engine_names req of Some names \<Rightarrow> names
        | None \<Rightarrow> engine_attempt_order cfg (resolve_engine_plan t cfg (engine_override req)))"

fun drop_frozen ::
  "'x engine_env \<Rightarrow> string list \<Rightarrow> 'x engine_world \<Rightarrow> string list \<times> 'x engine_world" where
  "drop_frozen env [] w = ([], w)"
| "drop_frozen env (e # es) w =
     (case is_engine_frozen env e w of (frozen, w1) \<Rightarrow>
        (case drop_frozen env es w1 of (rest, w2) \<Rightarrow> (if frozen then rest else e # rest, w2)))"

definition unfrozen_engine_attempt_order ::
  "'x engine_env \<Rightarrow> string list \<Rightarrow> 'x engine_world \<Rightarrow> string list \<times> 'x engine_world" where
  "unfrozen_engine_attempt_order env names w =
     (if engine_freeze w = [] then (names, w) else drop_frozen env names w)"

definition resolve_engine_attempt_order ::
  "'x engine_env \<Rightarrow> engine_task \<Rightarrow> engine_config \<Rightarrow> string option \<Rightarrow> 'x engine_world \<Rightarrow>
   string list \<times> 'x engine_world" where
  "resolve_engine_attempt_order env t cfg override w =
     unfrozen_engine_attempt_order env
       (engine_attempt_order cfg (resolve_engine_plan t cfg override)) w"

definition resolve_engine_name ::
  "'x engine_env \<Rightarrow> engine_task \<Rightarrow> engine_config \<Rightarrow> string option \<Rightarrow> 'x engine_world \<Rightarrow>
   string \<times> 'x engine_world" where
  "resolve_engine_name env t cfg override w =
     (case resolve_engine_attempt_order env t cfg override w of
        (e # _, w1) \<Rightarrow> (e, w1)
      | ([], w1) \<Rightarrow> (hd (resolve_engine_plan t cfg override), w1))"

definition resolve_model ::
  "'x engine_env \<Rightarrow> engine_task \<Rightarrow> engine_config \<Rightarrow> string \<Rightarrow> string option \<Rightarrow> string option" where
  "resolve_model env t cfg engine requested =
     (if \<not> supports_model_override env engine then None
      else if requested \<noteq> None then requested
      else if et_model t \<noteq> None then et_model t
      else model_for_engine cfg engine)"

definition resolve_task_retry_policy :: "engine_task \<Rightarrow> engine_config \<Rightarrow> int" where
  "resolve_task_retry_policy t cfg =
     (case et_max_retries t of Some n \<Rightarrow> n | None \<Rightarrow> default_retry_limit cfg)"

definition resolve_stage_retry_limit :: "engine_task \<Rightarrow> engine_config \<Rightarrow> int" where
  "resolve_stage_retry_limit t cfg =
     (case et_stage_retry_limit t of Some n \<Rightarrow> n | None \<Rightarrow> default_stage_retry_limit cfg)"

definition resolve_task_rejection_loop_limit :: "engine_task \<Rightarrow> engine_config \<Rightarrow> int" where
  "resolve_task_rejection_loop_limit t cfg =
     (case et_rejection_loop_limit t of Some n \<Rightarrow> n | None \<Rightarrow> default_rejection_loop_limit cfg)"

section \<open>Selection\<close>

record engine_selection =
  sel_engine :: "string option"
  sel_model :: "string option"
  engine_attempts :: "string list"
  skipped :: "(string \<times> string) list"
  blocked_reason :: string

text \<open>\<open>require_available\<close>: the reason to skip an engine the registry cannot run.\<close>

definition availability_skip ::
  "'x engine_env \<Rightarrow> selection_request \<Rightarrow> string \<Rightarrow> 'x engine_world \<Rightarrow>
   string option \<times> 'x engine_world" where
  "availability_skip env req engine w =
     (if \<not> require_available req then (None, w)
      else (case is_available env engine (outer w) of
              (Inl exc, x) \<Rightarrow> (Some (engine @ '' availability check failed ('' @ exc @ '')''), w \<lparr>outer := x\<rparr>)
            | (Inr ok, x) \<Rightarrow> (if ok then None else Some (engine @ '' unavailable''), w \<lparr>outer := x\<rparr>)))"

definition expired_freeze ::
  "'x engine_env \<Rightarrow> string list \<Rightarrow> string \<Rightarrow> 'x engine_world \<Rightarrow> bool" where
  "expired_freeze env frozen engine w =
     (engine \<notin> set frozen \<and> parse_utc_datetime env (map_of (engine_freeze w) engine) \<noteq> None)"

text \<open>One candidate: the reason it is skipped, or \<open>None\<close> when it is selected.\<close>

definition try_engine ::
  "'x engine_env \<Rightarrow> selection_request \<Rightarrow> string list \<Rightarrow> string \<Rightarrow> 'x engine_world \<Rightarrow>
   string option \<times> 'x engine_world" where
  "try_engine env req frozen engine w =
     (case availability_skip env req engine w of
        (Some reason, w1) \<Rightarrow> (Some reason, w1)
      | (None, w1) \<Rightarrow>
          (let expired = expired_freeze env frozen engine w1 in
           case (if check_quota req then engine_quota_block env engine w1 else (None, w1)) of
             (Some b, w2) \<Rightarrow>
               (Some (block_reason b),
                (case freeze_until b of
                   Some until \<Rightarrow> persist_engine_freeze env engine until w2
                 | None \<Rightarrow> if expired then clear_engine_freeze engine w2 else w2))
           | (None, w2) \<Rightarrow> (None, if expired then clear_engine_freeze engine w2 else w2)))"

fun first_engine ::
  "'x engine_env \<Rightarrow> selection_request \<Rightarrow> string list \<Rightarrow> string list \<Rightarrow> (string \<times> string) list \<Rightarrow>
   'x engine_world \<Rightarrow> string option \<times> (string \<times> string) list \<times> 'x engine_world" where
  "first_engine env req frozen [] skips w = (None, skips, w)"
| "first_engine env req frozen (e # es) skips w =
     (case try_engine env req frozen e w of
        (Some reason, w1) \<Rightarrow> first_engine env req frozen es (skips @ [(e, reason)]) w1
      | (None, w1) \<Rightarrow> (Some e, skips, w1))"

definition select_engine_for ::
  "'x engine_env \<Rightarrow> engine_config \<Rightarrow> engine_task \<Rightarrow> selection_request \<Rightarrow> 'x engine_world \<Rightarrow>
   engine_selection \<times> 'x engine_world" where
  "select_engine_for env cfg t req w =
     (let order = candidate_engine_order t cfg req in
      case active_engine_freezes env w of (active, w1) \<Rightarrow>
        (let frozen = map fst active; attempts = filter (\<lambda>e. e \<notin> set frozen) order in
         if attempts = [] \<and> order \<noteq> [] then
           (\<lparr>sel_engine = None, sel_model = None, engine_attempts = [], skipped = [],
             blocked_reason = ''all candidate engines are frozen''\<rparr>, w1)
         else
           (case first_engine env req frozen attempts [] w1 of
              (Some e, skips, w2) \<Rightarrow>
                (\<lparr>sel_engine = Some e, sel_model = resolve_model env t cfg e (requested_model_name req),
                  engine_attempts = attempts, skipped = skips, blocked_reason = []\<rparr>, w2)
            | (None, skips, w2) \<Rightarrow>
                (\<lparr>sel_engine = None, sel_model = None, engine_attempts = attempts, skipped = skips,
                  blocked_reason = (if skips = [] then ''no eligible engine available''
                                    else snd (last skips))\<rparr>, w2))))"

text \<open>\<open>resolve_recovery_engine\<close>: the recovery agent insists on an available engine.\<close>

definition resolve_recovery_engine ::
  "'x engine_env \<Rightarrow> engine_config \<Rightarrow> engine_task \<Rightarrow> 'x engine_world \<Rightarrow>
   (string + string \<times> string option) \<times> 'x engine_world" where
  "resolve_recovery_engine env cfg t w =
     (let override = (case recovery_engine cfg of
                        Some (c # cs) \<Rightarrow> if c # cs = ''auto'' then None else Some (c # cs)
                      | _ \<Rightarrow> None) in
      case select_engine_for env cfg t
             (default_request \<lparr>engine_override := override, require_available := True\<rparr>) w of
        (sel, w1) \<Rightarrow>
          (case sel_engine sel of None \<Rightarrow> (Inl (blocked_reason sel), w1)
           | Some e \<Rightarrow> (Inr (e, sel_model sel), w1)))"

section \<open>The selector of the agent nodes\<close>

text \<open>
  \<open>ConfigBackedEngineSelector\<close>: \<open>rows\<close> are the persisted tasks, as they stand during the visit; a
  task that has no row is replaced by a synthetic one at the node's stage.
\<close>

record selector =
  selector_override :: "string option"
  selector_model :: "string option"
  selector_check_quota :: bool

definition selection_task ::
  "(string \<Rightarrow> engine_task option) \<Rightarrow> task_state \<Rightarrow> pipeline_state \<Rightarrow> engine_task" where
  "selection_task rows s node =
     (case (if task_id s = [] then None else rows (task_id s)) of
        Some t \<Rightarrow> t
      | None \<Rightarrow> \<lparr>et_pipeline_status = pipeline_state_value node, et_last_switch = None, et_model = None,
                 et_max_retries = None, et_stage_retry_limit = None, et_rejection_loop_limit = None\<rparr>)"

definition selector_request :: "selector \<Rightarrow> string list \<Rightarrow> selection_request" where
  "selector_request sel excluded =
     default_request \<lparr>engine_override := selector_override sel,
       requested_model_name := selector_model sel, excluded_engine_names := excluded,
       check_quota := selector_check_quota sel\<rparr>"

definition config_select ::
  "'x engine_env \<Rightarrow> engine_config \<Rightarrow> selector \<Rightarrow> (string \<Rightarrow> engine_task option) \<Rightarrow>
   task_state \<Rightarrow> pipeline_state \<Rightarrow> string list \<Rightarrow> 'x engine_world \<Rightarrow>
   string option \<times> 'x engine_world" where
  "config_select env cfg sel rows s node excluded w =
     (case select_engine_for env cfg (selection_task rows s node) (selector_request sel excluded) w of
        (res, w1) \<Rightarrow> (sel_engine res, w1))"

section \<open>What selection gives\<close>

text \<open>The engines passed over are exactly those before the one selected, each with its reason.\<close>

lemma first_engine_split:
  "first_engine env req frozen es skips w = (res, skips', w') \<Longrightarrow>
   \<exists>more. skips' = skips @ more \<and>
     (case res of Some e \<Rightarrow> \<exists>post. es = map fst more @ e # post | None \<Rightarrow> es = map fst more)"
proof (induction es arbitrary: skips w)
  case (Cons e es)
  obtain r w1 where t: "try_engine env req frozen e w = (r, w1)" by (cases "try_engine env req frozen e w")
  show ?case
  proof (cases r)
    case None
    with Cons.prems t show ?thesis by auto
  next
    case (Some reason)
    with Cons.prems t have "first_engine env req frozen es (skips @ [(e, reason)]) w1 = (res, skips', w')"
      by simp
    from Cons.IH [OF this] obtain more where m: "skips' = (skips @ [(e, reason)]) @ more"
      "case res of Some e \<Rightarrow> \<exists>post. es = map fst more @ e # post | None \<Rightarrow> es = map fst more" by blast
    then show ?thesis by (intro exI [of _ "(e, reason) # more"]) (auto split: option.splits)
  qed
qed auto

lemma first_engine_in: "first_engine env req frozen es skips w = (Some e, skips', w') \<Longrightarrow> e \<in> set es"
  by (drule first_engine_split) auto

lemma candidate_names:
  "e \<in> set (candidate_engine_order t cfg req) \<Longrightarrow> e \<notin> set (excluded_engine_names req)"
  by (simp add: candidate_engine_order_def)

lemma config_select_candidate:
  assumes "config_select env cfg sel rows s node excluded w = (Some e, w')"
  shows "e \<in> set (engine_attempt_order cfg
           (resolve_engine_plan (selection_task rows s node) cfg (selector_override sel))) \<and>
         e \<notin> set excluded"
proof -
  let ?req = "selector_request sel excluded" and ?t = "selection_task rows s node"
  obtain active w1 where a: "active_engine_freezes env w = (active, w1)"
    by (cases "active_engine_freezes env w")
  let ?att = "filter (\<lambda>e. e \<notin> set (map fst active)) (candidate_engine_order ?t cfg ?req)"
  obtain r skips w2 where f: "first_engine env ?req (map fst active) ?att [] w1 = (r, skips, w2)"
    by (cases "first_engine env ?req (map fst active) ?att [] w1")
  have "r = Some e" using assms a f
    by (auto simp: config_select_def select_engine_for_def Let_def split: if_splits option.splits)
  with f have "first_engine env ?req (map fst active) ?att [] w1 = (Some e, skips, w2)" by simp
  from first_engine_in [OF this] have "e \<in> set ?att" .
  then show ?thesis
    by (simp add: candidate_engine_order_def selector_request_def default_request_def)
qed

interpretation config_selector: engine_selector "config_select env cfg sel rows"
  "\<lambda>s node. set (engine_attempt_order cfg
      (resolve_engine_plan (selection_task rows s node) cfg (selector_override sel)))"
  for env cfg sel rows
  by unfold_locales (simp, rule config_select_candidate)

lemma try_engine_reason: "try_engine env req frozen e w = (Some reason, w') \<Longrightarrow> reason \<noteq> []"
  by (auto simp: try_engine_def availability_skip_def engine_quota_block_def quota_block_reason_def Let_def
      split: if_splits prod.splits sum.splits option.splits list.splits)

lemma first_engine_reasons:
  "\<lbrakk>first_engine env req frozen es skips w = (res, skips', w'); \<forall>r \<in> set skips. snd r \<noteq> []\<rbrakk> \<Longrightarrow>
   \<forall>r \<in> set skips'. snd r \<noteq> []"
proof (induction es arbitrary: skips w)
  case (Cons e es)
  obtain r w1 where t: "try_engine env req frozen e w = (r, w1)" by (cases "try_engine env req frozen e w")
  show ?case
  proof (cases r)
    case None
    with Cons.prems t show ?thesis by auto
  next
    case (Some reason)
    with t have "reason \<noteq> []" using try_engine_reason by blast
    with Cons.prems t Some show ?thesis by (intro Cons.IH [of "skips @ [(e, reason)]" w1]) auto
  qed
qed simp

text \<open>
  What the environment must have answered about a candidate. \<open>x\<close> is the outside world before the
  question and \<open>y\<close> after it. An engine is available when none is asked to be or the registry says so,
  and within its quota when quotas are not checked, nobody keeps its quota, or its vendor's answer is
  unreadable or below the limit.
\<close>

definition available :: "'x engine_env \<Rightarrow> selection_request \<Rightarrow> string \<Rightarrow> 'x \<Rightarrow> 'x \<Rightarrow> bool" where
  "available env req e x y \<longleftrightarrow>
     (if require_available req then is_available env e x = (Inr True, y) else y = x)"

definition unavailable :: "'x engine_env \<Rightarrow> selection_request \<Rightarrow> string \<Rightarrow> 'x \<Rightarrow> string \<Rightarrow> 'x \<Rightarrow> bool" where
  "unavailable env req e x reason y \<longleftrightarrow> require_available req \<and>
     (is_available env e x = (Inr False, y) \<and> reason = e @ '' unavailable'' \<or>
      (\<exists>exc. is_available env e x = (Inl exc, y) \<and>
         reason = e @ '' availability check failed ('' @ exc @ '')''))"

definition within_quota :: "'x engine_env \<Rightarrow> selection_request \<Rightarrow> string \<Rightarrow> 'x \<Rightarrow> 'x \<Rightarrow> bool" where
  "within_quota env req e x y \<longleftrightarrow>
     (if check_quota req \<and> quota_checker e \<noteq> None
      then \<exists>q. check_quota_of env (the (quota_checker e)) x = (q, y) \<and> (quota_error q \<noteq> None \<or> \<not> limit_reached q)
      else y = x)"

definition over_quota :: "'x engine_env \<Rightarrow> selection_request \<Rightarrow> string \<Rightarrow> 'x \<Rightarrow> string \<Rightarrow> 'x \<Rightarrow> bool" where
  "over_quota env req e x reason y \<longleftrightarrow> check_quota req \<and>
     (\<exists>v q. quota_checker e = Some v \<and> check_quota_of env v x = (q, y) \<and> quota_error q = None \<and> limit_reached q \<and>
        (\<exists>resets. reason = e @ '' usage limit reached'' @ resets))"

text \<open>The candidates passed over, one after the other, each for the reason the environment gave.\<close>

fun passed_over ::
  "'x engine_env \<Rightarrow> selection_request \<Rightarrow> 'x \<Rightarrow> (string \<times> string) list \<Rightarrow> 'x \<Rightarrow> bool" where
  "passed_over env req x [] z \<longleftrightarrow> z = x"
| "passed_over env req x ((e, reason) # skips) z \<longleftrightarrow>
     (\<exists>y. (unavailable env req e x reason y \<or> (\<exists>a. available env req e x a \<and> over_quota env req e a reason y)) \<and>
          passed_over env req y skips z)"

lemma passed_over_append:
  "passed_over env req x (ps @ qs) z \<longleftrightarrow> (\<exists>y. passed_over env req x ps y \<and> passed_over env req y qs z)"
proof (induction ps arbitrary: x)
  case (Cons p ps)
  then show ?case by (cases p) (simp, blast)
qed simp

lemma persist_outer [simp]: "outer (persist_engine_freeze env e until w) = outer w"
  and clear_outer [simp]: "outer (clear_engine_freeze e w) = outer w"
  by (simp_all add: persist_engine_freeze_def clear_engine_freeze_def Let_def)

lemma availability_answer:
  assumes "availability_skip env req e w = (r, w1)"
  shows "case r of None \<Rightarrow> available env req e (outer w) (outer w1)
    | Some reason \<Rightarrow> unavailable env req e (outer w) reason (outer w1)"
  using assms
  by (auto simp: availability_skip_def available_def unavailable_def split: if_splits prod.splits sum.splits)

lemma quota_answer:
  assumes "(if check_quota req then engine_quota_block env e w else (None, w)) = (b, w1)"
  shows "case b of None \<Rightarrow> within_quota env req e (outer w) (outer w1)
    | Some qb \<Rightarrow> over_quota env req e (outer w) (block_reason qb) (outer w1)"
proof (cases "check_quota req \<and> quota_checker e \<noteq> None")
  case False
  with assms have "b = None" "w1 = w" by (auto simp: engine_quota_block_def split: if_splits option.splits)
  with False show ?thesis by (auto simp: within_quota_def)
next
  case True
  then obtain v where v: "quota_checker e = Some v" by blast
  obtain q y where q: "check_quota_of env v (outer w) = (q, y)" by (cases "check_quota_of env v (outer w)")
  with assms True v have "b = quota_block_reason env e q" "outer w1 = y" by (auto simp: engine_quota_block_def)
  with True v q show ?thesis
    by (auto simp: quota_block_reason_def within_quota_def over_quota_def Let_def split: if_splits)
qed

lemma try_engine_answer:
  assumes "try_engine env req frozen e w = (r, w')"
  shows "case r of
      None \<Rightarrow> \<exists>a. available env req e (outer w) a \<and> within_quota env req e a (outer w')
    | Some reason \<Rightarrow> passed_over env req (outer w) [(e, reason)] (outer w')"
proof -
  obtain u w1 where u: "availability_skip env req e w = (u, w1)" by (cases "availability_skip env req e w")
  note a = availability_answer [OF u]
  show ?thesis
  proof (cases u)
    case (Some reason)
    with assms u a show ?thesis by (auto simp: try_engine_def)
  next
    case None
    obtain b w2 where b: "(if check_quota req then engine_quota_block env e w1 else (None, w1)) = (b, w2)"
      by (cases "if check_quota req then engine_quota_block env e w1 else (None, w1)")
    have "r = map_option block_reason b" "outer w' = outer w2"
      using assms u None b by (auto simp: try_engine_def Let_def split: option.splits if_splits)
    with quota_answer [OF b] a None show ?thesis by (cases b) auto
  qed
qed

lemma first_engine_answers:
  assumes "first_engine env req frozen es skips w = (res, skips', w')" "passed_over env req x skips (outer w)"
  shows "\<exists>y. passed_over env req x skips' y \<and>
    (case res of None \<Rightarrow> outer w' = y
     | Some e \<Rightarrow> \<exists>a. available env req e y a \<and> within_quota env req e a (outer w'))"
  using assms
proof (induction es arbitrary: skips w)
  case (Cons e es)
  obtain r w1 where t: "try_engine env req frozen e w = (r, w1)" by (cases "try_engine env req frozen e w")
  note answer = try_engine_answer [OF t]
  show ?case
  proof (cases r)
    case None
    with Cons.prems(1) t have "skips' = skips" "res = Some e" "w' = w1" by auto
    with Cons.prems(2) answer None show ?thesis by (intro exI [of _ "outer w"]) simp
  next
    case (Some reason)
    with answer Cons.prems(2) have "passed_over env req x (skips @ [(e, reason)]) (outer w1)"
      by (auto simp: passed_over_append)
    with Cons.prems(1) t Some Cons.IH show ?thesis by simp
  qed
qed auto

lemma frozen_names:
  assumes "active_engine_freezes env w = (active, w1)" "now_utc env (outer w) = (now, x)"
  shows "e \<in> set (map fst active) \<longleftrightarrow> (\<exists>u until. (e, u) \<in> set (engine_freeze w) \<and>
      parse_utc_datetime env (Some u) = Some until \<and> now < until)" and "outer w1 = x"
proof -
  have active: "active = concat (map (frozen_at env now) (engine_freeze w))" and w1: "w1 = w \<lparr>outer := x\<rparr>"
    using assms by (simp_all add: active_engine_freezes_def read_clock_def)
  have "e \<in> fst ` set (frozen_at env now entry) \<longleftrightarrow> e = fst entry \<and>
      (\<exists>until. parse_utc_datetime env (Some (snd entry)) = Some until \<and> now < until)" for entry
    by (cases "parse_utc_datetime env (Some (snd entry))") (auto simp: frozen_at_def)
  then show "e \<in> set (map fst active) \<longleftrightarrow> (\<exists>u until. (e, u) \<in> set (engine_freeze w) \<and>
      parse_utc_datetime env (Some u) = Some until \<and> now < until)"
    unfolding active by (simp add: image_UN) force
  show "outer w1 = x" by (simp add: w1)
qed

text \<open>C16: Engine selection takes the first candidate that nothing rules out. The candidates are the attempt
  order (override, recorded switch or default, then the workspace preference) less the excluded engines
  and those with a freeze that lies in the future. The candidates passed over are exactly those before
  the selected one; each of them was asked for, in order, and was either reported unavailable or was
  over its vendor's usage limit, and the recorded reason says which. The selected engine was asked after
  them and passed both checks. When nothing is selected every candidate was passed over this way, and a
  reason is reported.\<close>

theorem selection_is_first_eligible:
  assumes "select_engine_for env cfg t req w = (res, w')" and "now_utc env (outer w) = (now, x)"
  shows "engine_attempts res =
      filter (\<lambda>e. \<not> (\<exists>u until. (e, u) \<in> set (engine_freeze w) \<and> parse_utc_datetime env (Some u) = Some until \<and> now < until))
        (candidate_engine_order t cfg req) \<and>
    (\<exists>y. passed_over env req x (skipped res) y \<and>
      (case sel_engine res of
         Some e \<Rightarrow> (\<exists>a. available env req e y a \<and> within_quota env req e a (outer w')) \<and>
           (\<exists>post. engine_attempts res = map fst (skipped res) @ e # post)
       | None \<Rightarrow> engine_attempts res = map fst (skipped res) \<and> blocked_reason res \<noteq> []))"
proof -
  obtain active w1 where act: "active_engine_freezes env w = (active, w1)" by (cases "active_engine_freezes env w")
  note frozen = frozen_names [OF act assms(2)]
  let ?att = "filter (\<lambda>e. e \<notin> set (map fst active)) (candidate_engine_order t cfg req)"
  have att: "?att = filter (\<lambda>e. \<not> (\<exists>u until. (e, u) \<in> set (engine_freeze w) \<and>
      parse_utc_datetime env (Some u) = Some until \<and> now < until)) (candidate_engine_order t cfg req)"
    by (simp only: frozen(1))
  obtain r skips w2 where f: "first_engine env req (map fst active) ?att [] w1 = (r, skips, w2)"
    by (cases "first_engine env req (map fst active) ?att [] w1")
  have rs: "\<forall>r \<in> set skips. snd r \<noteq> []" using first_engine_reasons [OF f] by simp
  have "engine_attempts res = ?att \<and> (\<exists>y. passed_over env req x (skipped res) y \<and>
      (case sel_engine res of
         Some e \<Rightarrow> (\<exists>a. available env req e y a \<and> within_quota env req e a (outer w')) \<and>
           (\<exists>post. engine_attempts res = map fst (skipped res) @ e # post)
       | None \<Rightarrow> engine_attempts res = map fst (skipped res) \<and> blocked_reason res \<noteq> []))"
  proof (cases "?att = [] \<and> candidate_engine_order t cfg req \<noteq> []")
    case True
    with assms act show ?thesis by (auto simp: select_engine_for_def Let_def)
  next
    case False
    from first_engine_split [OF f] have split:
      "case r of Some e \<Rightarrow> \<exists>post. ?att = map fst skips @ e # post | None \<Rightarrow> ?att = map fst skips"
      by simp
    from first_engine_answers [OF f, of x] frozen(2) obtain y where y: "passed_over env req x skips y"
      "case r of None \<Rightarrow> outer w2 = y
       | Some e \<Rightarrow> \<exists>a. available env req e y a \<and> within_quota env req e a (outer w2)" by auto
    show ?thesis
    proof (cases r)
      case None
      have res: "res = \<lparr>sel_engine = None, sel_model = None, engine_attempts = ?att, skipped = skips,
                  blocked_reason = (if skips = [] then ''no eligible engine available'' else snd (last skips))\<rparr>"
        using assms act False f None by (auto simp: select_engine_for_def Let_def)
      have "blocked_reason res \<noteq> []" using rs last_in_set [of skips] by (simp add: res)
      with split None y show ?thesis by (auto simp add: res)
    next
      case (Some e)
      have res: "res = \<lparr>sel_engine = Some e, sel_model = resolve_model env t cfg e (requested_model_name req),
                  engine_attempts = ?att, skipped = skips, blocked_reason = []\<rparr>" and "w' = w2"
        using assms act False f Some by (auto simp: select_engine_for_def Let_def)
      with split Some y show ?thesis by auto
    qed
  qed
  then show ?thesis unfolding att .
qed

text \<open>Two engines, the first of them rate limited.\<close>

definition demo_env :: "unit engine_env" where
  "demo_env = \<lparr>now_utc = Pair 100, parse_iso = (\<lambda>v. Some (int (length v))), format_iso = (\<lambda>n. ''iso''),
     check_quota_of = (\<lambda>v x. (\<lparr>quota_error = None, limit_reached = (v = Vendor_codex),
        short_reset_at = None, long_reset_at = None\<rparr>, x)),
     is_available = (\<lambda>e x. (Inr True, x)), supports_model_override = (\<lambda>e. False)\<rparr>"

definition demo_engines :: engine_config where
  "demo_engines = \<lparr>default_engine = ''codex'', engine_preference = [''gemini''], recovery_engine = None,
     opencode_model = None, goz_model = None, gemini_model = None, copilot_model = None,
     claude_model = None, default_retry_limit = 3, default_stage_retry_limit = 3,
     default_rejection_loop_limit = 3\<rparr>"

definition demo_engine_task :: engine_task where
  "demo_engine_task = \<lparr>et_pipeline_status = ''grooming'', et_last_switch = None, et_model = None,
     et_max_retries = None, et_stage_retry_limit = None, et_rejection_loop_limit = None\<rparr>"

definition demo_engine_world :: "unit engine_world" where
  "demo_engine_world = \<lparr>engine_freeze = [(''goz'', ''expired'')], freeze_writes = [], outer = ()\<rparr>"

lemma selection_is_first_eligible_witness:
  "\<exists>res w'. select_engine_for demo_env demo_engines demo_engine_task default_request demo_engine_world = (res, w') \<and>
     sel_engine res = Some ''gemini'' \<and> (\<exists>post. map fst (skipped res) @ ''gemini'' # post = [''codex'', ''gemini'']) \<and>
     passed_over demo_env default_request () (skipped res) ()"
proof -
  have c: "now_utc demo_env (outer demo_engine_world) = (100, ())" by code_simp
  obtain res w' where r: "select_engine_for demo_env demo_engines demo_engine_task default_request
      demo_engine_world = (res, w')" by (cases "select_engine_for demo_env demo_engines demo_engine_task
      default_request demo_engine_world")
  have e: "sel_engine (fst (select_engine_for demo_env demo_engines demo_engine_task default_request
      demo_engine_world)) = Some ''gemini''"
    "engine_attempts (fst (select_engine_for demo_env demo_engines demo_engine_task default_request
      demo_engine_world)) = [''codex'', ''gemini'']" by code_simp+
  from selection_is_first_eligible [OF r c] e r
  have "passed_over demo_env default_request () (skipped res) ()"
    "\<exists>post. map fst (skipped res) @ ''gemini'' # post = [''codex'', ''gemini'']" by auto
  with e r show ?thesis by auto
qed

text \<open>C17: With the configured selector every agent visit returns, however the engines behave: each engine
  it gives up on is excluded from the next pick, and the attempt order is finite.\<close>

theorem agent_visit_returns:
  assumes "select_engine n = config_select env cfg sel rows"
  shows "\<exists>res. agent_run n s w = Some res"
  using assms by (rule config_selector.agent_run_returns)

text \<open>An agent whose engines always answer with a retryable failure.\<close>

definition demo_flaky_agent :: "(unit, unit, unit engine_world) agent_node" where
  "demo_flaky_agent =
     \<lparr>agent_name = GROOMING,
      select_engine = config_select demo_env demo_engines
        \<lparr>selector_override = None, selector_model = None, selector_check_quota = True\<rparr> (\<lambda>tid. None),
      get_session = (\<lambda>t nm e w. ((), w)), persist_session = (\<lambda>t nm e u w. w),
      run_turn = (\<lambda>e u p s w. (Turn_Transient ''flaky'' (Some ''timeout''), w)),
      build_prompt = (\<lambda>s. ()), build_nudge_prompt = (\<lambda>s p. p), to_event = agent_verdict_to_event,
      retry_budget = 3, retry_on = [''timeout''], retry_backoff_seconds = 0,
      retry_backoff_multiplier = 2, nudge_budget = 1, sleep_fn = (\<lambda>d w. w)\<rparr>"

lemma agent_visit_returns_witness: "\<exists>res. agent_run demo_flaky_agent (fresh_state ''T-1'' GROOMING FULL None default_limits) demo_engine_world = Some res"
  by (rule agent_visit_returns) (simp add: demo_flaky_agent_def)

section \<open>Expired freezes\<close>

definition live_freeze :: "'x engine_env \<Rightarrow> int \<Rightarrow> string \<times> string \<Rightarrow> bool" where
  "live_freeze env now entry =
     (case parse_utc_datetime env (Some (snd entry)) of None \<Rightarrow> True | Some until \<Rightarrow> now < until)"

lemma delete_fresh: "k \<notin> fst ` set d \<Longrightarrow> AList.delete k d = d"
  by (induction d) auto

lemma delete_middle:
  "\<lbrakk>k \<notin> fst ` set xs; k \<notin> fst ` set ys\<rbrakk> \<Longrightarrow> AList.delete k (xs @ (k, v) # ys) = xs @ ys"
  by (induction xs) (auto simp: delete_fresh)

lemma clear_expired_filter:
  assumes clock: "\<And>x. now_utc env x = (now, x)"
  shows "\<lbrakk>engine_freeze w = filter (live_freeze env now) pre @ entries; distinct (map fst (pre @ entries))\<rbrakk> \<Longrightarrow>
    engine_freeze (clear_expired env entries w) = filter (live_freeze env now) (pre @ entries)"
proof (induction entries arbitrary: pre w)
  case (Cons entry entries)
  obtain e u where entry: "entry = (e, u)" by (cases entry)
  have np: "e \<notin> fst ` set (filter (live_freeze env now) pre)" using Cons.prems(2) by (auto simp: entry)
  then have "map_of (filter (live_freeze env now) pre) e = None" by (simp only: map_of_eq_None_iff not_False_eq_True)
  then have lk: "map_of (engine_freeze w) e = Some u"
    using Cons.prems(1) by (simp add: entry map_add_def)
  have same: "is_engine_frozen env e w =
      (case parse_utc_datetime env (Some u) of None \<Rightarrow> (False, w) | Some until \<Rightarrow> (now < until, w))"
    by (simp add: is_engine_frozen_def lk read_clock_def clock split: option.split)
  show ?case
  proof (cases "live_freeze env now entry")
    case True
    then have "clear_expired env (entry # entries) w = clear_expired env entries w"
      by (auto simp: entry same live_freeze_def split: option.splits)
    moreover have "engine_freeze (clear_expired env entries w) =
        filter (live_freeze env now) ((pre @ [entry]) @ entries)"
      using Cons.prems True by (intro Cons.IH) auto
    ultimately show ?thesis by simp
  next
    case False
    then have "clear_expired env (entry # entries) w = clear_expired env entries (clear_engine_freeze e w)"
      by (auto simp: entry same live_freeze_def split: option.splits)
    moreover have "engine_freeze (clear_engine_freeze e w) =
        filter (live_freeze env now) (pre @ [entry]) @ entries"
    proof -
      have "e \<notin> fst ` set entries" using Cons.prems(2) by (auto simp: entry)
      from delete_middle [OF np this] have "AList.delete e (filter (live_freeze env now) pre @ (e, u) # entries) =
          filter (live_freeze env now) pre @ entries" .
      with False Cons.prems(1) show ?thesis by (simp add: clear_engine_freeze_def entry)
    qed
    ultimately show ?thesis using Cons.IH [of "clear_engine_freeze e w" "pre @ [entry]"] Cons.prems(2)
      by simp
  qed
qed simp

text \<open>Clearing expired freezes removes exactly the entries whose instant has passed and keeps the rest,
  the unparseable ones included, in order.\<close>

lemma clear_expired_keeps_live:
  assumes "\<And>x. now_utc env x = (now, x)" and "distinct (map fst (engine_freeze w))"
  shows "engine_freeze (clear_expired_freezes env w) = filter (live_freeze env now) (engine_freeze w)"
  using clear_expired_filter [OF assms(1), of w "[]" "engine_freeze w"] assms(2)
  by (simp add: clear_expired_freezes_def)

lemma clear_expired_keeps_live_witness:
  "engine_freeze (clear_expired_freezes demo_env demo_engine_world) = []"
  using clear_expired_keeps_live [of demo_env 100 demo_engine_world]
  by (simp add: demo_env_def demo_engine_world_def live_freeze_def parse_utc_datetime_def py_strip_def
      py_rstrip_def py_lstrip_def is_space_def)

end
