(* ===== verification/Codec.thy ===== *)
theory Codec
  imports Task_State "HOL-Library.List_Lexorder" "HOL-Library.Char_ord"
begin

text \<open>
  How a \<open>TaskState\<close> is written to and read from the payload column: the \<open>to_payload\<close> and
  \<open>from_payload\<close> methods of \<open>litehive/domain/recovery.py\<close> and \<open>lifecycle/persistence.py\<close>, with
  \<open>_state_payload\<close> and \<open>_state_from_row\<close>. A payload is a JSON value. Decoding may fail: the missing
  key, the bad enumeration value and the bad conversion are errors of the source, \<open>Untyped\<close> is a
  value of another JSON type where the code stores what it finds in a typed field.
\<close>

datatype codec_error =
    Missing_key string
  | Bad_value string
  | Bad_type string
  | Untyped string

fun and_then :: "codec_error + 'a \<Rightarrow> ('a \<Rightarrow> codec_error + 'b) \<Rightarrow> codec_error + 'b" where
  "and_then (Inl err) f = Inl err"
| "and_then (Inr x) f = f x"

fun each :: "('a \<Rightarrow> codec_error + 'b) \<Rightarrow> 'a list \<Rightarrow> codec_error + 'b list" where
  "each f [] = Inr []"
| "each f (x # xs) = and_then (f x) (\<lambda>y. and_then (each f xs) (\<lambda>ys. Inr (y # ys)))"

type_synonym payload = "(string, pyval) dict"

section \<open>Reading fields\<close>

definition req_field :: "string \<Rightarrow> payload \<Rightarrow> codec_error + pyval" where
  "req_field k p = (case map_of p k of None \<Rightarrow> Inl (Missing_key k) | Some v \<Rightarrow> Inr v)"

definition req_str :: "string \<Rightarrow> payload \<Rightarrow> codec_error + string" where
  "req_str k p =
     and_then (req_field k p) (\<lambda>v. case as_str v of None \<Rightarrow> Inl (Untyped k) | Some s \<Rightarrow> Inr s)"

text \<open>\<open>payload.get(k)\<close> for a field of type \<open>str | None\<close>.\<close>

definition opt_str :: "string \<Rightarrow> payload \<Rightarrow> codec_error + string option" where
  "opt_str k p =
     (case py_get k p of PyNone \<Rightarrow> Inr None | PyStr s \<Rightarrow> Inr (Some s) | _ \<Rightarrow> Inl (Untyped k))"

text \<open>\<open>str(payload.get(k) or default)\<close>.\<close>

definition str_or_default :: "string \<Rightarrow> string \<Rightarrow> payload \<Rightarrow> string" where
  "str_or_default k d p = py_str (py_or (py_get k p) (PyStr d))"

text \<open>\<open>int(v)\<close>: a container is a \<open>TypeError\<close>; parsing a decimal text is not modelled.\<close>

definition to_int :: "string \<Rightarrow> pyval \<Rightarrow> codec_error + int" where
  "to_int k v =
     (case v of PyList _ \<Rightarrow> Inl (Bad_type k) | PyDict _ \<Rightarrow> Inl (Bad_type k) | PyNone \<Rightarrow> Inl (Bad_type k)
      | PyStr _ \<Rightarrow> Inl (Untyped k)
      | _ \<Rightarrow> (case py_int v of None \<Rightarrow> Inl (Bad_type k) | Some n \<Rightarrow> Inr n))"

definition int_or :: "string \<Rightarrow> int \<Rightarrow> payload \<Rightarrow> codec_error + int" where
  "int_or k d p = to_int k (py_or (py_get k p) (PyInt d))"

definition to_rat :: "string \<Rightarrow> pyval \<Rightarrow> codec_error + rat" where
  "to_rat k v =
     (case v of PyFloat x _ \<Rightarrow> Inr x | PyInt n \<Rightarrow> Inr (of_int n) | PyBool b \<Rightarrow> Inr (if b then 1 else 0)
      | PyStr _ \<Rightarrow> Inl (Untyped k) | _ \<Rightarrow> Inl (Bad_type k))"

text \<open>\<open>dict(payload.get(k) or {})\<close>.\<close>

definition dict_or_empty :: "string \<Rightarrow> payload \<Rightarrow> codec_error + payload" where
  "dict_or_empty k p =
     (case py_or (py_get k p) (PyDict []) of PyDict d \<Rightarrow> Inr d | _ \<Rightarrow> Inl (Bad_type k))"

definition to_state :: "pyval \<Rightarrow> codec_error + pipeline_state" where
  "to_state v =
     (case canonical_pipeline_state (py_str v) of
        None \<Rightarrow> Inl (Bad_value (py_str v)) | Some st \<Rightarrow> Inr st)"

definition parse_enum :: "('a \<Rightarrow> string) \<Rightarrow> 'a list \<Rightarrow> pyval \<Rightarrow> codec_error + 'a" where
  "parse_enum val members v =
     (case as_str v of None \<Rightarrow> Inl (Bad_value (py_str v))
      | Some s \<Rightarrow> (case enum_parse val members s of None \<Rightarrow> Inl (Bad_value s) | Some m \<Rightarrow> Inr m))"

definition when_dict :: "(payload \<Rightarrow> codec_error + 'a) \<Rightarrow> pyval \<Rightarrow> codec_error + 'a option" where
  "when_dict f v =
     (case as_dict v of None \<Rightarrow> Inr None | Some d \<Rightarrow> and_then (f d) (\<lambda>x. Inr (Some x)))"

section \<open>Recovery objects\<close>

definition fingerprint_to_payload :: "failure_fingerprint \<Rightarrow> payload" where
  "fingerprint_to_payload f =
     [(''fingerprint'', PyStr (fingerprint f)), (''classification'', opt_str_val (ff_classification f)),
      (''diagnostics'', PyDict (ff_diagnostics f))]"

definition fingerprint_from_payload :: "payload \<Rightarrow> codec_error + failure_fingerprint" where
  "fingerprint_from_payload p =
     and_then (opt_str ''classification'' p) (\<lambda>c.
     and_then (dict_or_empty ''diagnostics'' p) (\<lambda>d.
       Inr \<lparr>fingerprint = str_or_default ''fingerprint'' ''unknown'' p, ff_classification = c,
            ff_diagnostics = d\<rparr>))"

definition trigger_to_payload :: "recovery_trigger \<Rightarrow> payload" where
  "trigger_to_payload t =
     [(''origin_stage'', opt_str_val (origin_stage t)),
      (''trigger_event_kind'', PyStr (trigger_event_kind_value (trigger_kind t))),
      (''failure_fingerprint'', PyDict (fingerprint_to_payload (trigger_fingerprint t))),
      (''source'', opt_str_val (trigger_source t)), (''reason_code'', opt_str_val (trigger_reason_code t)),
      (''message'', PyStr (trigger_message t)), (''diagnostics'', PyDict (trigger_diagnostics t))]"

definition trigger_from_payload :: "payload \<Rightarrow> codec_error + recovery_trigger" where
  "trigger_from_payload p =
     and_then (opt_str ''origin_stage'' p) (\<lambda>origin.
     and_then (parse_enum trigger_event_kind_value trigger_event_kind_members
         (py_or (py_get ''trigger_event_kind'' p) (PyStr ''unknown''))) (\<lambda>kind.
     and_then (dict_or_empty ''failure_fingerprint'' p) (\<lambda>fp.
     and_then (fingerprint_from_payload fp) (\<lambda>f.
     and_then (opt_str ''source'' p) (\<lambda>src.
     and_then (opt_str ''reason_code'' p) (\<lambda>rc.
     and_then (dict_or_empty ''diagnostics'' p) (\<lambda>d.
       Inr \<lparr>origin_stage = origin, trigger_kind = kind, trigger_fingerprint = f, trigger_source = src,
            trigger_reason_code = rc, trigger_message = str_or_default ''message'' [] p,
            trigger_diagnostics = d\<rparr>)))))))"

definition outcome_to_payload :: "recovery_outcome \<Rightarrow> payload" where
  "outcome_to_payload oc =
     [(''trigger'', PyDict (trigger_to_payload (outcome_trigger oc))),
      (''recovery_verdict'', PyStr (recovery_verdict oc)),
      (''disposition'', PyStr (recovery_disposition_value (disposition oc))),
      (''reason_code'', opt_str_val (outcome_reason_code oc)), (''message'', PyStr (outcome_message oc)),
      (''created_at'', PyStr (outcome_created_at oc))]"

definition outcome_from_payload :: "string \<Rightarrow> payload \<Rightarrow> codec_error + recovery_outcome" where
  "outcome_from_payload now p =
     and_then (dict_or_empty ''trigger'' p) (\<lambda>tp.
     and_then (trigger_from_payload tp) (\<lambda>t.
     and_then (parse_enum recovery_disposition_value recovery_disposition_members
         (py_or (py_get ''disposition'' p) (PyStr ''terminated''))) (\<lambda>disp.
     and_then (opt_str ''reason_code'' p) (\<lambda>rc.
       Inr \<lparr>outcome_trigger = t, recovery_verdict = str_or_default ''recovery_verdict'' [] p,
            disposition = disp, outcome_reason_code = rc,
            outcome_message = str_or_default ''message'' [] p,
            outcome_created_at = str_or_default ''created_at'' now p\<rparr>))))"

section \<open>Parts of the task state\<close>

definition string_list :: "pyval \<Rightarrow> string list" where
  "string_list value =
     (case as_list value of None \<Rightarrow> []
      | Some items \<Rightarrow>
          foldl (\<lambda>normalized item.
             (let text = py_strip (py_str item) in
              if text = [] \<or> text \<in> set normalized then normalized else normalized @ [text]))
            [] items)"

definition report_to_payload :: "last_report \<Rightarrow> payload" where
  "report_to_payload r =
     [(''files_changed'', PyInt (files_changed r)), (''tests_added'', PyInt (tests_added r)),
      (''changed_files'', PyList (map PyStr (changed_files r))),
      (''test_results'', PyList (map PyStr (test_results r))), (''hook_ok'', PyBool (hook_ok r))]"

definition report_from_payload :: "payload \<Rightarrow> codec_error + last_report" where
  "report_from_payload p =
     and_then (case dict_get ''files_changed'' (PyInt 0) p of
                 PyList xs \<Rightarrow> Inr (int (length xs)) | v \<Rightarrow> to_int ''files_changed'' v) (\<lambda>fc.
     and_then (to_int ''tests_added'' (dict_get ''tests_added'' (PyInt 0) p)) (\<lambda>ta.
       Inr \<lparr>files_changed = fc, tests_added = ta,
            changed_files = string_list (py_get ''changed_files'' p),
            test_results = string_list (py_get ''test_results'' p),
            hook_ok = truthy (dict_get ''hook_ok'' (PyBool False) p)\<rparr>))"

definition hook_fingerprint_to_payload :: "hook_fingerprint \<Rightarrow> payload" where
  "hook_fingerprint_to_payload h =
     [(''point'', PyStr (hf_point h)), (''command'', PyStr (hf_command h)),
      (''description'', PyStr (hf_description h)), (''fingerprint'', PyStr (hf_fingerprint h))]"

definition hook_fingerprint_from_payload :: "payload \<Rightarrow> codec_error + hook_fingerprint" where
  "hook_fingerprint_from_payload p =
     and_then (and_then (req_field ''point'' p) to_state) (\<lambda>point.
     and_then (req_str ''command'' p) (\<lambda>cmd.
     and_then (if map_of p ''description'' = None then Inr [] else req_str ''description'' p) (\<lambda>desc.
     and_then (req_str ''fingerprint'' p) (\<lambda>fp.
       Inr \<lparr>hf_point = pipeline_state_value point, hf_command = cmd, hf_description = desc,
            hf_fingerprint = fp\<rparr>))))"

definition rejection_to_payload :: "last_rejection \<Rightarrow> payload" where
  "rejection_to_payload r =
     [(''source'', PyStr (rej_source r)), (''reason'', PyStr (rej_reason r)),
      (''raised_at_phase'', PyStr (pipeline_state_value (rej_raised_at_phase r)))]
     @ (case rej_classification r of None \<Rightarrow> [] | Some c \<Rightarrow> [(''classification'', PyStr c)])"

definition rejection_from_payload :: "payload \<Rightarrow> codec_error + last_rejection" where
  "rejection_from_payload p =
     and_then (req_str ''source'' p) (\<lambda>src.
     and_then (req_str ''reason'' p) (\<lambda>reason.
     and_then (and_then (req_field ''raised_at_phase'' p) to_state) (\<lambda>phase.
     and_then (opt_str ''classification'' p) (\<lambda>c.
       Inr \<lparr>rej_source = src, rej_reason = reason, rej_raised_at_phase = phase,
            rej_classification = c\<rparr>))))"

definition merge_to_payload :: "merge_context \<Rightarrow> payload" where
  "merge_to_payload c =
     [(''conflict_files'', PyList (map PyStr (conflict_files c))),
      (''merge_attempt'', PyInt (merge_attempt c))]"

definition merge_from_payload :: "payload \<Rightarrow> codec_error + merge_context" where
  "merge_from_payload p =
     and_then (case py_or (py_get ''conflict_files'' p) (PyList []) of
                 PyList xs \<Rightarrow> Inr (map py_str xs) | _ \<Rightarrow> Inl (Untyped ''conflict_files'')) (\<lambda>files.
     and_then (int_or ''merge_attempt'' 1 p) (\<lambda>n.
       Inr \<lparr>conflict_files = files, merge_attempt = n\<rparr>))"

definition commit_to_payload :: "commit_result \<Rightarrow> payload" where
  "commit_to_payload c = [(''head_sha'', PyStr (head_sha c)), (''reason'', commit_reason c)]"

definition commit_from_payload :: "payload \<Rightarrow> codec_error + commit_result" where
  "commit_from_payload p =
     and_then (req_field ''head_sha'' p) (\<lambda>sha.
       Inr \<lparr>head_sha = py_str sha, commit_reason = py_get ''reason'' p\<rparr>)"

definition loop_to_payload :: "rejection_loop \<Rightarrow> payload" where
  "loop_to_payload l =
     [(''rejection_stage'', PyStr (pipeline_state_value (rl_rejection_stage l))),
      (''retry_target_stage'', PyStr (pipeline_state_value (rl_retry_target_stage l))),
      (''count'', PyInt (rl_count l))]"

text \<open>
  The two stages are read as they are, without a check: a text that names no stage would be kept
  and is \<open>Untyped\<close> here; a stage name compares equal to its member.
\<close>

definition req_stage :: "string \<Rightarrow> payload \<Rightarrow> codec_error + pipeline_state" where
  "req_stage k p =
     and_then (req_str k p) (\<lambda>s. case canonical_pipeline_state s of
        None \<Rightarrow> Inl (Untyped k) | Some st \<Rightarrow> Inr st)"

definition loop_from_payload :: "payload \<Rightarrow> codec_error + rejection_loop" where
  "loop_from_payload p =
     and_then (req_stage ''rejection_stage'' p) (\<lambda>a.
     and_then (req_stage ''retry_target_stage'' p) (\<lambda>b.
     and_then (int_or ''count'' 0 p) (\<lambda>n.
       Inr \<lparr>rl_rejection_stage = a, rl_retry_target_stage = b, rl_count = n\<rparr>)))"

definition failed_run_to_payload :: "failed_run_record \<Rightarrow> payload" where
  "failed_run_to_payload r =
     [(''stage'', PyStr (pipeline_state_value (fr_stage r))),
      (''failure_shape'', PyStr (fr_failure_shape r)), (''count'', PyInt (fr_count r)),
      (''first_at'', opt_str_val (fr_first_at r)), (''latest_at'', opt_str_val (fr_latest_at r)),
      (''last_reason'', PyStr (fr_last_reason r)), (''source'', opt_str_val (fr_source r)),
      (''classification'', opt_str_val (fr_classification r)),
      (''retry_limit'', (case fr_retry_limit r of None \<Rightarrow> PyNone | Some n \<Rightarrow> PyInt n)),
      (''failed_reason'', opt_str_val (fr_failed_reason r)),
      (''operator_override_count'', PyInt (fr_operator_override_count r)),
      (''last_operator_override_at'', opt_str_val (fr_last_operator_override_at r))]"

definition failed_run_from_payload :: "payload \<Rightarrow> codec_error + failed_run_record" where
  "failed_run_from_payload p =
     and_then (case py_get ''retry_limit'' p of
                 PyNone \<Rightarrow> Inr None | PyStr [] \<Rightarrow> Inr None
               | v \<Rightarrow> and_then (to_int ''retry_limit'' v) (\<lambda>n. Inr (Some n))) (\<lambda>limit.
     and_then (to_state (PyStr (str_or_default ''stage'' [] p))) (\<lambda>st.
     and_then (int_or ''count'' 0 p) (\<lambda>n.
     and_then (opt_str ''first_at'' p) (\<lambda>first.
     and_then (opt_str ''latest_at'' p) (\<lambda>latest.
     and_then (opt_str ''source'' p) (\<lambda>src.
     and_then (opt_str ''classification'' p) (\<lambda>c.
     and_then (opt_str ''failed_reason'' p) (\<lambda>fr.
     and_then (int_or ''operator_override_count'' 0 p) (\<lambda>ov.
     and_then (opt_str ''last_operator_override_at'' p) (\<lambda>override_at.
       Inr \<lparr>fr_stage = st, fr_failure_shape = str_or_default ''failure_shape'' [] p, fr_count = n,
            fr_first_at = first, fr_latest_at = latest,
            fr_last_reason = str_or_default ''last_reason'' [] p, fr_source = src,
            fr_classification = c, fr_retry_limit = limit, fr_failed_reason = fr,
            fr_operator_override_count = ov, fr_last_operator_override_at = override_at\<rparr>))))))))))"

section \<open>The task state\<close>

definition opt_payload :: "('a \<Rightarrow> payload) \<Rightarrow> 'a option \<Rightarrow> pyval" where
  "opt_payload f x = (case x of None \<Rightarrow> PyNone | Some y \<Rightarrow> PyDict (f y))"

text \<open>\<open>float_text\<close> is the text Python writes for the elapsed seconds.\<close>

definition state_payload :: "(rat \<Rightarrow> string) \<Rightarrow> task_state \<Rightarrow> payload" where
  "state_payload float_text s =
     [(''entry_stage'', opt_str_val (map_option pipeline_state_value (entry_stage s))),
      (''stage_retry'', PyDict (map (\<lambda>(st, n). (pipeline_state_value st, PyInt n)) (stage_retry s))),
      (''active_recovery_trigger'', opt_payload trigger_to_payload (active_recovery_trigger s)),
      (''recovery_history'', PyList (map (\<lambda>oc. PyDict (outcome_to_payload oc)) (recovery_history s))),
      (''recovery_budget_history_start'', PyInt (recovery_budget_history_start s)),
      (''pre_exec_recovery_attempt'', PyInt (pre_exec_recovery_attempt s)),
      (''agent_elapsed_seconds'', PyFloat (agent_elapsed_seconds s) (float_text (agent_elapsed_seconds s))),
      (''merge_context'', opt_payload merge_to_payload (merge_ctx s)),
      (''commit_result'', opt_payload commit_to_payload (commit_res s)),
      (''last_report'', PyDict (report_to_payload (report s))),
      (''last_rejection_by_stage'', PyDict (map (\<lambda>(st, r). (pipeline_state_value st,
          PyDict (rejection_to_payload r))) (last_rejection_by_stage s))),
      (''failed_run_history'', PyDict (map (\<lambda>(k, r). (k, PyDict (failed_run_to_payload r)))
          (failed_run_history s))),
      (''rejection_loop'', opt_payload loop_to_payload (rej_loop s)),
      (''consecutive_same_hook_rejects'', PyInt (consecutive_same_hook_rejects s)),
      (''last_hook_reject_fingerprint'',
          opt_payload hook_fingerprint_to_payload (last_hook_reject_fingerprint s)),
      (''hook_reject_recovery_invoked'', PyBool (hook_reject_recovery_invoked s)),
      (''failed_reason'', opt_str_val (map_option failed_reason_value (failed_reason_of s))),
      (''failed_message'', opt_str_val (failed_message s)),
      (''recovery_failure_explanation'', opt_str_val (recovery_failure_explanation s))]"

text \<open>Decoding a map: the entries in order, each assigned to its decoded key.\<close>

definition decode_map ::
  "(string \<Rightarrow> codec_error + 'k) \<Rightarrow> (pyval \<Rightarrow> codec_error + 'v) \<Rightarrow> payload \<Rightarrow>
   codec_error + ('k, 'v) dict" where
  "decode_map key val raw =
     and_then (each (\<lambda>(k, v). and_then (key k) (\<lambda>k'. and_then (val v) (\<lambda>v'. Inr (k', v')))) raw)
       (\<lambda>entries. Inr (foldl (\<lambda>decoded (k, v). AList.update k v decoded) [] entries))"

definition decode_stage_retry_map :: "pyval \<Rightarrow> codec_error + (pipeline_state, int) dict" where
  "decode_stage_retry_map raw =
     (case as_dict raw of None \<Rightarrow> Inr []
      | Some d \<Rightarrow> decode_map (\<lambda>k. to_state (PyStr k)) (to_int ''stage_retry'') d)"

text \<open>Entries that are no dicts are skipped; so are the keys of a dict and the characters of a text.\<close>

definition decode_recovery_history :: "string \<Rightarrow> pyval \<Rightarrow> codec_error + recovery_outcome list" where
  "decode_recovery_history now raw =
     (case py_or raw (PyList []) of
        PyList items \<Rightarrow> each (outcome_from_payload now) (List.map_filter as_dict items)
      | PyDict _ \<Rightarrow> Inr []
      | PyStr _ \<Rightarrow> Inr []
      | _ \<Rightarrow> Inl (Bad_type ''recovery_history''))"

definition decode_last_rejection_by_stage ::
  "pyval \<Rightarrow> codec_error + (pipeline_state, last_rejection) dict" where
  "decode_last_rejection_by_stage raw =
     (case raw of
        PyDict d \<Rightarrow> decode_map (\<lambda>k. to_state (PyStr k))
          (\<lambda>v. case as_dict v of None \<Rightarrow> Inl (Bad_type ''last_rejection_by_stage'')
               | Some r \<Rightarrow> rejection_from_payload r) d
      | _ \<Rightarrow> Inl (Bad_type ''last_rejection_by_stage''))"

definition decode_failed_run_history ::
  "pyval \<Rightarrow> codec_error + (string, failed_run_record) dict" where
  "decode_failed_run_history raw =
     (case raw of
        PyDict d \<Rightarrow> decode_map Inr
          (\<lambda>v. case as_dict v of None \<Rightarrow> Inl (Bad_type ''failed_run_history'')
               | Some r \<Rightarrow> failed_run_from_payload r)
          (filter (\<lambda>(k, v). as_dict v \<noteq> None) d)
      | _ \<Rightarrow> Inl (Bad_type ''failed_run_history''))"

definition dict_value_or_empty :: "string \<Rightarrow> payload \<Rightarrow> pyval" where
  "dict_value_or_empty k p = py_or (py_get k p) (PyDict [])"

definition state_from_row ::
  "string \<Rightarrow> string \<Rightarrow> string \<Rightarrow> string \<Rightarrow> payload \<Rightarrow> limits \<Rightarrow> codec_error + task_state" where
  "state_from_row now tid st md p l =
     and_then (if py_get ''entry_stage'' p = PyNone then Inr None
               else and_then (to_state (py_get ''entry_stage'' p)) (\<lambda>x. Inr (Some x))) (\<lambda>entry.
     and_then (when_dict trigger_from_payload (py_get ''active_recovery_trigger'' p)) (\<lambda>trig.
     and_then (when_dict merge_from_payload (py_get ''merge_context'' p)) (\<lambda>mc.
     and_then (when_dict commit_from_payload (py_get ''commit_result'' p)) (\<lambda>cr.
     and_then (when_dict loop_from_payload (py_get ''rejection_loop'' p)) (\<lambda>rl.
     and_then (if \<not> truthy (py_get ''last_hook_reject_fingerprint'' p) then Inr None
               else (case as_dict (py_get ''last_hook_reject_fingerprint'' p) of
                       None \<Rightarrow> Inl (Bad_type ''last_hook_reject_fingerprint'')
                     | Some d \<Rightarrow> and_then (hook_fingerprint_from_payload d) (\<lambda>x. Inr (Some x)))) (\<lambda>hf.
     and_then (if \<not> truthy (py_get ''failed_reason'' p) then Inr None
               else and_then (parse_enum failed_reason_value failed_reason_members
                      (py_get ''failed_reason'' p)) (\<lambda>x. Inr (Some x))) (\<lambda>fr.
     and_then (to_state (PyStr st)) (\<lambda>st'.
     and_then (parse_enum pipeline_mode_value pipeline_mode_members (PyStr md)) (\<lambda>md'.
     and_then (decode_stage_retry_map (py_get ''stage_retry'' p)) (\<lambda>retry.
     and_then (decode_recovery_history now (py_get ''recovery_history'' p)) (\<lambda>hist.
     and_then (int_or ''recovery_budget_history_start'' 0 p) (\<lambda>start.
     and_then (int_or ''pre_exec_recovery_attempt'' 0 p) (\<lambda>pre.
     and_then (to_rat ''agent_elapsed_seconds''
         (py_or (py_get ''agent_elapsed_seconds'' p) (PyFloat 0 ''0.0''))) (\<lambda>secs.
     and_then (case dict_value_or_empty ''last_report'' p of
                 PyDict d \<Rightarrow> report_from_payload d | _ \<Rightarrow> Inl (Bad_type ''last_report'')) (\<lambda>rep.
     and_then (decode_last_rejection_by_stage (dict_value_or_empty ''last_rejection_by_stage'' p)) (\<lambda>rejs.
     and_then (decode_failed_run_history (dict_value_or_empty ''failed_run_history'' p)) (\<lambda>runs.
     and_then (int_or ''consecutive_same_hook_rejects'' 0 p) (\<lambda>same.
     and_then (opt_str ''failed_message'' p) (\<lambda>msg.
     and_then (opt_str ''recovery_failure_explanation'' p) (\<lambda>expl.
       Inr \<lparr>task_id = tid, stage = st', mode = md', entry_stage = entry, stage_retry = retry,
            active_recovery_trigger = trig, recovery_history = hist,
            recovery_budget_history_start = start, pre_exec_recovery_attempt = pre,
            agent_elapsed_seconds = secs, merge_ctx = mc, commit_res = cr, report = rep,
            last_rejection_by_stage = rejs, failed_run_history = runs, rej_loop = rl,
            consecutive_same_hook_rejects = same, last_hook_reject_fingerprint = hf,
            hook_reject_recovery_invoked =
              truthy (dict_get ''hook_reject_recovery_invoked'' (PyBool False) p),
            failed_reason_of = fr, failed_message = msg, recovery_failure_explanation = expl,
            lims = l\<rparr>))))))))))))))))))))"

section \<open>JSON text\<close>

text \<open>
  \<open>json.loads(json.dumps(v, sort_keys=True))\<close> gives the same value with the keys of every dict in
  order of their code points.
\<close>

fun key_sorted :: "pyval \<Rightarrow> pyval" where
  "key_sorted (PyList xs) = PyList (map key_sorted xs)"
| "key_sorted (PyDict d) = PyDict (sort_key fst (map (\<lambda>(k, v). (k, key_sorted v)) d))"
| "key_sorted v = v"

definition stored_payload :: "payload \<Rightarrow> payload" where
  "stored_payload p = sort_key fst (map (\<lambda>(k, v). (k, key_sorted v)) p)"

end
