(* ===== verification/Codec_Roundtrip.thy ===== *)
theory Codec_Roundtrip
  imports Codec "HOL-Library.Multiset"
begin

text \<open>
  What a reload changes: nothing but the order of dict entries, and the duplicates of the report
  lists. \<open>reloaded\<close> says so, \<open>storable\<close> is what a state needs for it.
\<close>

section \<open>Stored dicts\<close>

lemma key_sorted_dict: "key_sorted (PyDict d) = PyDict (stored_payload d)"
  by (simp add: stored_payload_def)

declare key_sorted.simps(2) [simp del]
declare key_sorted_dict [simp]

lemma insort_key_map: "insort_key f (g x) (map g xs) = map g (insort_key (\<lambda>x. f (g x)) x xs)"
  by (induction xs) auto

lemma sort_key_map: "sort_key f (map g xs) = map g (sort_key (\<lambda>x. f (g x)) xs)"
  by (induction xs) (simp_all add: insort_key_map)

lemma mset_sort_map: "mset (map g (sort_key f xs)) = mset (map g xs)"
  by (simp only: mset_map mset_sort)

lemma map_of_stored:
  assumes "dict_ok d"
  shows "map_of (stored_payload d) k = map_option key_sorted (map_of d k)"
proof -
  let ?e = "map (\<lambda>(k, v). (k, key_sorted v)) d"
  have f: "map fst ?e = map fst d" by (induction d) auto
  have d: "distinct (map fst ?e)" using assms unfolding f dict_ok_def .
  have "mset (map fst (sort_key fst ?e)) = mset (map fst ?e)" by (rule mset_sort_map)
  then have "distinct (map fst (sort_key fst ?e))" using d mset_eq_imp_distinct_iff by blast
  moreover have "set (sort_key fst ?e) = set ?e" by simp
  ultimately have "map_of (sort_key fst ?e) = map_of ?e" using map_of_inject_set d by blast
  then show ?thesis by (simp add: stored_payload_def map_of_map)
qed

lemma get_stored: "dict_ok d \<Longrightarrow> py_get k (stored_payload d) = key_sorted (py_get k d)"
  by (simp add: py_get_def dict_get_def map_of_stored split: option.split)

lemma dict_get_stored:
  "dict_ok d \<Longrightarrow> dict_get k x (stored_payload d) = (case map_of d k of None \<Rightarrow> x | Some v \<Rightarrow> key_sorted v)"
  by (simp add: dict_get_def map_of_stored split: option.split)

lemma stored_empty [simp]: "stored_payload d = [] \<longleftrightarrow> d = []"
  using set_sort [of fst "map (\<lambda>(k, v). (k, key_sorted v)) d"] unfolding stored_payload_def
  by (metis list.set(1) map_is_Nil_conv set_empty)

lemma truthy_sorted [simp]: "truthy (key_sorted v) = truthy v"
  by (cases v) simp_all

lemmas stored_simps = get_stored dict_get_stored map_of_stored dict_ok_def req_field_def req_str_def
  opt_str_def str_or_default_def int_or_def dict_or_empty_def py_or_def to_int_def opt_str_val_def

lemma key_sorted_opt_str [simp]: "key_sorted (opt_str_val x) = opt_str_val x"
  by (simp add: opt_str_val_def split: option.split)

text \<open>Reading an optional text or number back.\<close>

lemma opt_str_of_val: "py_get k p = opt_str_val x \<Longrightarrow> opt_str k p = Inr x"
  by (simp add: opt_str_def opt_str_val_def split: option.split)

lemma int_or_of_val: "py_get k p = PyInt n \<Longrightarrow> n \<noteq> 0 \<or> d = 0 \<Longrightarrow> int_or k d p = Inr n"
  by (auto simp: int_or_def py_or_def to_int_def)

lemma str_or_of_val: "py_get k p = PyStr s \<Longrightarrow> s \<noteq> [] \<or> d = [] \<Longrightarrow> str_or_default k d p = s"
  by (auto simp: str_or_default_def py_or_def)

lemma dict_or_of_val: "py_get k p = PyDict d \<Longrightarrow> dict_or_empty k p = Inr d"
  by (simp add: dict_or_empty_def py_or_def)

lemma to_state_value [simp]: "to_state (PyStr (pipeline_state_value st)) = Inr st"
  by (simp add: to_state_def)

lemma parse_enum_value:
  "enum_parse val members (val m) = Some m \<Longrightarrow> parse_enum val members (PyStr (val m)) = Inr m"
  by (simp add: parse_enum_def)

lemmas reading = opt_str_of_val int_or_of_val str_or_of_val dict_or_of_val parse_enum_value
  get_stored dict_ok_def

section \<open>What a reload gives\<close>

definition reloaded_fingerprint :: "failure_fingerprint \<Rightarrow> failure_fingerprint" where
  "reloaded_fingerprint f = f \<lparr>ff_diagnostics := stored_payload (ff_diagnostics f)\<rparr>"

definition reloaded_trigger :: "recovery_trigger \<Rightarrow> recovery_trigger" where
  "reloaded_trigger t =
     t \<lparr>trigger_fingerprint := reloaded_fingerprint (trigger_fingerprint t),
        trigger_diagnostics := stored_payload (trigger_diagnostics t)\<rparr>"

definition reloaded_outcome :: "recovery_outcome \<Rightarrow> recovery_outcome" where
  "reloaded_outcome oc = oc \<lparr>outcome_trigger := reloaded_trigger (outcome_trigger oc)\<rparr>"

definition reloaded_report :: "last_report \<Rightarrow> last_report" where
  "reloaded_report r =
     r \<lparr>changed_files := string_list (PyList (map PyStr (changed_files r))),
        test_results := string_list (PyList (map PyStr (test_results r)))\<rparr>"

definition reloaded :: "task_state \<Rightarrow> task_state" where
  "reloaded s =
     s \<lparr>stage_retry := sort_key (pipeline_state_value \<circ> fst) (stage_retry s),
        active_recovery_trigger := map_option reloaded_trigger (active_recovery_trigger s),
        recovery_history := map reloaded_outcome (recovery_history s),
        commit_res := map_option (\<lambda>c. c \<lparr>commit_reason := key_sorted (commit_reason c)\<rparr>) (commit_res s),
        report := reloaded_report (report s),
        last_rejection_by_stage := sort_key (pipeline_state_value \<circ> fst) (last_rejection_by_stage s),
        failed_run_history := sort_key fst (failed_run_history s)\<rparr>"

definition trigger_storable :: "recovery_trigger \<Rightarrow> bool" where
  "trigger_storable t = (fingerprint (trigger_fingerprint t) \<noteq> [])"

definition storable :: "task_state \<Rightarrow> bool" where
  "storable s =
     (dict_ok (stage_retry s) \<and> dict_ok (last_rejection_by_stage s) \<and> dict_ok (failed_run_history s) \<and>
      pred_option trigger_storable (active_recovery_trigger s) \<and>
      list_all (\<lambda>oc. trigger_storable (outcome_trigger oc) \<and> outcome_created_at oc \<noteq> [])
        (recovery_history s) \<and>
      pred_option (\<lambda>c. merge_attempt c \<noteq> 0) (merge_ctx s) \<and>
      pred_option (\<lambda>h. canonical_pipeline_state (hf_point h) \<noteq> None) (last_hook_reject_fingerprint s))"

section \<open>Round trips of the parts\<close>

lemma fingerprint_roundtrip:
  "fingerprint f \<noteq> [] \<Longrightarrow>
   fingerprint_from_payload (stored_payload (fingerprint_to_payload f)) = Inr (reloaded_fingerprint f)"
  by (simp add: fingerprint_from_payload_def fingerprint_to_payload_def reading
      reloaded_fingerprint_def)

lemma trigger_kind_nonempty: "trigger_event_kind_value k \<noteq> []"
  by (cases k) simp_all

lemma trigger_roundtrip:
  "trigger_storable t \<Longrightarrow>
   trigger_from_payload (stored_payload (trigger_to_payload t)) = Inr (reloaded_trigger t)"
  by (simp add: tek.parse_val trigger_kind_nonempty trigger_from_payload_def trigger_to_payload_def reading py_or_def
      fingerprint_roundtrip trigger_storable_def reloaded_trigger_def)

lemma outcome_roundtrip:
  "trigger_storable (outcome_trigger oc) \<Longrightarrow> outcome_created_at oc \<noteq> [] \<Longrightarrow>
   outcome_from_payload now (stored_payload (outcome_to_payload oc)) = Inr (reloaded_outcome oc)"
proof -
  have "recovery_disposition_value d \<noteq> []" for d by (cases d) simp_all
  then show "trigger_storable (outcome_trigger oc) \<Longrightarrow> outcome_created_at oc \<noteq> [] \<Longrightarrow>
     outcome_from_payload now (stored_payload (outcome_to_payload oc)) = Inr (reloaded_outcome oc)"
    by (simp add: outcome_from_payload_def outcome_to_payload_def reading py_or_def rd.parse_val
        trigger_roundtrip reloaded_outcome_def)
qed

lemma sorted_strs [simp]: "map (key_sorted \<circ> PyStr) xs = map PyStr xs"
  by simp

lemma report_roundtrip:
  "report_from_payload (stored_payload (report_to_payload r)) = Inr (reloaded_report r)"
  by (simp add: report_from_payload_def report_to_payload_def get_stored dict_get_stored dict_ok_def
      to_int_def reloaded_report_def)

lemma hook_fingerprint_roundtrip:
  assumes "canonical_pipeline_state (hf_point h) \<noteq> None"
  shows "hook_fingerprint_from_payload (stored_payload (hook_fingerprint_to_payload h)) = Inr h"
proof -
  obtain st where "hf_point h = pipeline_state_value st" using assms by (auto simp: canonical_iff)
  then show ?thesis
    by (simp add: hook_fingerprint_from_payload_def hook_fingerprint_to_payload_def req_str_def
        req_field_def map_of_stored dict_ok_def)
qed

lemma rejection_roundtrip:
  "rejection_from_payload (stored_payload (rejection_to_payload r)) = Inr r"
  by (cases "rej_classification r")
     (simp_all add: rejection_from_payload_def rejection_to_payload_def req_str_def req_field_def
        map_of_stored dict_ok_def opt_str_def get_stored)

lemma merge_roundtrip:
  "merge_attempt c \<noteq> 0 \<Longrightarrow> merge_from_payload (stored_payload (merge_to_payload c)) = Inr c"
  by (auto simp: merge_from_payload_def merge_to_payload_def reading py_or_def comp_def)

lemma commit_roundtrip:
  "commit_from_payload (stored_payload (commit_to_payload c)) =
   Inr (c \<lparr>commit_reason := key_sorted (commit_reason c)\<rparr>)"
  by (simp add: commit_from_payload_def commit_to_payload_def req_field_def map_of_stored get_stored
      dict_ok_def)

lemma loop_roundtrip: "loop_from_payload (stored_payload (loop_to_payload l)) = Inr l"
  by (simp add: loop_from_payload_def loop_to_payload_def req_stage_def req_str_def req_field_def
      map_of_stored reading)

lemma failed_run_roundtrip:
  "failed_run_from_payload (stored_payload (failed_run_to_payload r)) = Inr r"
  by (cases "fr_retry_limit r")
     (simp_all add: failed_run_from_payload_def failed_run_to_payload_def reading to_int_def)

section \<open>Round trips of maps\<close>

lemma each_Inr: "(\<And>x. x \<in> set xs \<Longrightarrow> f (g x) = Inr (h x)) \<Longrightarrow> each f (map g xs) = Inr (map h xs)"
  by (induction xs) simp_all

lemma decode_map_Inr:
  assumes "\<And>k v. (k, v) \<in> set d \<Longrightarrow> key (kf k) = Inr k \<and> val (vf v) = Inr (rf v)" and "dict_ok d"
  shows "decode_map key val (map (\<lambda>(k, v). (kf k, vf v)) d) = Inr (map (\<lambda>(k, v). (k, rf v)) d)"
proof -
  have "each (\<lambda>(k, v). and_then (key k) (\<lambda>k'. and_then (val v) (\<lambda>v'. Inr (k', v'))))
      (map (\<lambda>(k, v). (kf k, vf v)) d) = Inr (map (\<lambda>(k, v). (k, rf v)) d)"
    using assms(1) by (intro each_Inr) auto
  moreover have "distinct (map fst ([] @ map (\<lambda>(k, v). (k, rf v)) d))"
    using assms(2) by (simp add: dict_ok_def comp_def case_prod_beta)
  ultimately show ?thesis
    unfolding decode_map_def by (simp only: and_then.simps foldl_update_rebuild append_Nil)
qed

lemma dict_ok_sort: "dict_ok d \<Longrightarrow> dict_ok (sort_key f d)"
proof -
  assume "dict_ok d"
  moreover have "mset (map fst (sort_key f d)) = mset (map fst d)" by (rule mset_sort_map)
  ultimately show "dict_ok (sort_key f d)"
    unfolding dict_ok_def by (metis distinct_count_atmost_1 mset_eq_setD)
qed

lemma stored_map:
  "(\<And>v. key_sorted (vf v) = vf' v) \<Longrightarrow>
   stored_payload (map (\<lambda>(k, v). (kf k, vf v)) d) =
   map (\<lambda>(k, v). (kf k, vf' v)) (sort_key (kf \<circ> fst) d)"
  by (simp add: stored_payload_def comp_def case_prod_beta sort_key_map [of fst "\<lambda>x. (kf (fst x), vf' (snd x))"])

lemma map_id_pairs: "map (\<lambda>(k, v). (k, v)) d = d"
  by (induction d) auto

lemma retry_map_roundtrip:
  "dict_ok d \<Longrightarrow> decode_stage_retry_map (key_sorted
     (PyDict (map (\<lambda>(st, n). (pipeline_state_value st, PyInt n)) d))) =
   Inr (sort_key (pipeline_state_value \<circ> fst) d)"
  by (simp add: decode_stage_retry_map_def stored_map [of PyInt PyInt] dict_ok_sort map_id_pairs
      decode_map_Inr [of _ _ pipeline_state_value _ PyInt "\<lambda>n. n"] to_int_def)

lemma rejection_map_roundtrip:
  "dict_ok d \<Longrightarrow> decode_last_rejection_by_stage (key_sorted
     (PyDict (map (\<lambda>(st, r). (pipeline_state_value st, PyDict (rejection_to_payload r))) d))) =
   Inr (sort_key (pipeline_state_value \<circ> fst) d)"
  by (simp add: decode_last_rejection_by_stage_def dict_ok_sort map_id_pairs rejection_roundtrip
      stored_map [of "\<lambda>r. PyDict (rejection_to_payload r)" "\<lambda>r. PyDict (stored_payload (rejection_to_payload r))"]
      decode_map_Inr [of _ _ pipeline_state_value _ "\<lambda>r. PyDict (stored_payload (rejection_to_payload r))" "\<lambda>r. r"])

lemma failed_run_map_roundtrip:
  "dict_ok d \<Longrightarrow> decode_failed_run_history (key_sorted
     (PyDict (map (\<lambda>(k, r). (k, PyDict (failed_run_to_payload r))) d))) =
   Inr (sort_key fst d)"
proof -
  assume d: "dict_ok d"
  let ?vf = "\<lambda>r. PyDict (stored_payload (failed_run_to_payload r))"
  have "stored_payload (map (\<lambda>(k, r). (k, PyDict (failed_run_to_payload r))) d) =
      map (\<lambda>(k, v). (k, ?vf v)) (sort_key fst d)"
    using stored_map [of "\<lambda>r. PyDict (failed_run_to_payload r)" ?vf "\<lambda>k. k" d] by (simp add: comp_def)
  moreover have "filter (\<lambda>(k, v). as_dict v \<noteq> None) (map (\<lambda>(k, v). (k, ?vf v)) (sort_key fst d)) =
      map (\<lambda>(k, v). (k, ?vf v)) (sort_key fst d)" by (auto simp: filter_id_conv)
  ultimately show ?thesis
    using decode_map_Inr [of "sort_key fst d" Inr "\<lambda>k. k" _ ?vf "\<lambda>r. r"] d
    by (simp add: decode_failed_run_history_def failed_run_roundtrip dict_ok_sort map_id_pairs)
qed

lemma history_roundtrip:
  "list_all (\<lambda>oc. trigger_storable (outcome_trigger oc) \<and> outcome_created_at oc \<noteq> []) h \<Longrightarrow>
   decode_recovery_history now (key_sorted (PyList (map (\<lambda>oc. PyDict (outcome_to_payload oc)) h))) =
   Inr (map reloaded_outcome h)"
proof -
  assume h: "list_all (\<lambda>oc. trigger_storable (outcome_trigger oc) \<and> outcome_created_at oc \<noteq> []) h"
  have "List.map_filter as_dict (map (\<lambda>oc. PyDict (stored_payload (outcome_to_payload oc))) h) =
      map (\<lambda>oc. stored_payload (outcome_to_payload oc)) h"
    by (induction h) (simp_all add: map_filter_simps)
  moreover have "each (outcome_from_payload now) (map (\<lambda>oc. stored_payload (outcome_to_payload oc)) h) =
      Inr (map reloaded_outcome h)"
    using h by (intro each_Inr) (simp add: list_all_iff outcome_roundtrip)
  ultimately show ?thesis
    by (cases h) (simp_all add: decode_recovery_history_def py_or_def comp_def map_filter_simps)
qed

section \<open>The round trip\<close>

lemma stored_field:
  "map_of (state_payload ft s) k = Some v \<Longrightarrow>
   py_get k (stored_payload (state_payload ft s)) = key_sorted v"
proof -
  have ok: "dict_ok (state_payload ft s)" by (simp add: state_payload_def dict_ok_def)
  then show "map_of (state_payload ft s) k = Some v \<Longrightarrow> ?thesis"
    by (simp add: py_get_def dict_get_stored)
qed

lemma stored_fields:
  "py_get ''entry_stage'' (stored_payload (state_payload ft s)) =
     key_sorted (opt_str_val (map_option pipeline_state_value (entry_stage s)))"
  "py_get ''stage_retry'' (stored_payload (state_payload ft s)) =
     key_sorted (PyDict (map (\<lambda>(st, n). (pipeline_state_value st, PyInt n)) (stage_retry s)))"
  "py_get ''active_recovery_trigger'' (stored_payload (state_payload ft s)) =
     key_sorted (opt_payload trigger_to_payload (active_recovery_trigger s))"
  "py_get ''recovery_history'' (stored_payload (state_payload ft s)) =
     key_sorted (PyList (map (\<lambda>oc. PyDict (outcome_to_payload oc)) (recovery_history s)))"
  "py_get ''recovery_budget_history_start'' (stored_payload (state_payload ft s)) =
     key_sorted (PyInt (recovery_budget_history_start s))"
  "py_get ''pre_exec_recovery_attempt'' (stored_payload (state_payload ft s)) =
     key_sorted (PyInt (pre_exec_recovery_attempt s))"
  "py_get ''agent_elapsed_seconds'' (stored_payload (state_payload ft s)) =
     key_sorted (PyFloat (agent_elapsed_seconds s) (ft (agent_elapsed_seconds s)))"
  "py_get ''merge_context'' (stored_payload (state_payload ft s)) =
     key_sorted (opt_payload merge_to_payload (merge_ctx s))"
  "py_get ''commit_result'' (stored_payload (state_payload ft s)) =
     key_sorted (opt_payload commit_to_payload (commit_res s))"
  "py_get ''last_report'' (stored_payload (state_payload ft s)) =
     key_sorted (PyDict (report_to_payload (report s)))"
  "py_get ''last_rejection_by_stage'' (stored_payload (state_payload ft s)) =
     key_sorted (PyDict (map (\<lambda>(st, r). (pipeline_state_value st, PyDict (rejection_to_payload r))) (last_rejection_by_stage s)))"
  "py_get ''failed_run_history'' (stored_payload (state_payload ft s)) =
     key_sorted (PyDict (map (\<lambda>(k, r). (k, PyDict (failed_run_to_payload r))) (failed_run_history s)))"
  "py_get ''rejection_loop'' (stored_payload (state_payload ft s)) =
     key_sorted (opt_payload loop_to_payload (rej_loop s))"
  "py_get ''consecutive_same_hook_rejects'' (stored_payload (state_payload ft s)) =
     key_sorted (PyInt (consecutive_same_hook_rejects s))"
  "py_get ''last_hook_reject_fingerprint'' (stored_payload (state_payload ft s)) =
     key_sorted (opt_payload hook_fingerprint_to_payload (last_hook_reject_fingerprint s))"
  "py_get ''hook_reject_recovery_invoked'' (stored_payload (state_payload ft s)) =
     key_sorted (PyBool (hook_reject_recovery_invoked s))"
  "py_get ''failed_reason'' (stored_payload (state_payload ft s)) =
     key_sorted (opt_str_val (map_option failed_reason_value (failed_reason_of s)))"
  "py_get ''failed_message'' (stored_payload (state_payload ft s)) =
     key_sorted (opt_str_val (failed_message s))"
  "py_get ''recovery_failure_explanation'' (stored_payload (state_payload ft s)) =
     key_sorted (opt_str_val (recovery_failure_explanation s))"
  by (rule stored_field, simp add: state_payload_def)+

lemma stored_flag:
  "dict_get ''hook_reject_recovery_invoked'' x (stored_payload (state_payload ft s)) =
     PyBool (hook_reject_recovery_invoked s)"
proof -
  have "dict_ok (state_payload ft s)" by (simp add: state_payload_def dict_ok_def)
  moreover have "map_of (state_payload ft s) ''hook_reject_recovery_invoked'' =
      Some (PyBool (hook_reject_recovery_invoked s))" by (simp add: state_payload_def)
  ultimately show ?thesis by (simp add: dict_get_stored)
qed

lemma hook_field:
  "pred_option (\<lambda>h. canonical_pipeline_state (hf_point h) \<noteq> None) x \<Longrightarrow>
   (if \<not> truthy (key_sorted (opt_payload hook_fingerprint_to_payload x)) then Inr None
    else (case as_dict (key_sorted (opt_payload hook_fingerprint_to_payload x)) of
            None \<Rightarrow> Inl (Bad_type ''last_hook_reject_fingerprint'')
          | Some d \<Rightarrow> and_then (hook_fingerprint_from_payload d) (\<lambda>y. Inr (Some y)))) = Inr x"
proof (cases x)
  case (Some h)
  assume "pred_option (\<lambda>h. canonical_pipeline_state (hf_point h) \<noteq> None) x"
  with Some have "canonical_pipeline_state (hf_point h) \<noteq> None" by simp
  from hook_fingerprint_roundtrip [OF this] show ?thesis
    by (simp add: Some opt_payload_def hook_fingerprint_to_payload_def)
qed (simp add: opt_payload_def)

lemma failed_field:
  "(if \<not> truthy (key_sorted (opt_str_val (map_option failed_reason_value x))) then Inr None
    else and_then (parse_enum failed_reason_value failed_reason_members
           (key_sorted (opt_str_val (map_option failed_reason_value x)))) (\<lambda>y. Inr (Some y))) = Inr x"
proof (cases x)
  case (Some r)
  have "failed_reason_value r \<noteq> []" by (cases r) simp_all
  with Some show ?thesis by (simp add: opt_str_val_def parse_enum_value fr.parse_val)
qed (simp add: opt_str_val_def)

lemma report_nonempty [simp]: "report_to_payload r \<noteq> []"
  by (simp add: report_to_payload_def)

lemma py_or_sorted_dict: "py_or (key_sorted (PyDict d)) (PyDict []) = key_sorted (PyDict d)"
  by (cases "d = []") (simp_all add: py_or_def stored_payload_def)

lemma state_row_roundtrip_row:
  assumes "storable s"
  shows "state_from_row now (task_id s) (pipeline_state_value (stage s)) (pipeline_mode_value (mode s))
           (stored_payload (state_payload float_text s)) (lims s) = Inr (reloaded s)"
proof -
  let ?q = "stored_payload (state_payload float_text s)"
  note st = storable_def opt_payload_def when_dict_def
  have trig: "when_dict trigger_from_payload (py_get ''active_recovery_trigger'' ?q) =
      Inr (map_option reloaded_trigger (active_recovery_trigger s))"
    using assms unfolding stored_fields
    by (cases "active_recovery_trigger s") (simp_all add: st trigger_roundtrip)
  have mc: "when_dict merge_from_payload (py_get ''merge_context'' ?q) = Inr (merge_ctx s)"
    using assms unfolding stored_fields
    by (cases "merge_ctx s") (simp_all add: st merge_roundtrip)
  have cr: "when_dict commit_from_payload (py_get ''commit_result'' ?q) =
      Inr (map_option (\<lambda>c. c \<lparr>commit_reason := key_sorted (commit_reason c)\<rparr>) (commit_res s))"
    unfolding stored_fields by (cases "commit_res s") (simp_all add: st commit_roundtrip)
  have rl: "when_dict loop_from_payload (py_get ''rejection_loop'' ?q) = Inr (rej_loop s)"
    unfolding stored_fields by (cases "rej_loop s") (simp_all add: st loop_roundtrip)
  have hf: "(if \<not> truthy (py_get ''last_hook_reject_fingerprint'' ?q) then Inr None
       else (case as_dict (py_get ''last_hook_reject_fingerprint'' ?q) of
               None \<Rightarrow> Inl (Bad_type ''last_hook_reject_fingerprint'')
             | Some d \<Rightarrow> and_then (hook_fingerprint_from_payload d) (\<lambda>x. Inr (Some x)))) =
      Inr (last_hook_reject_fingerprint s)"
    unfolding stored_fields by (rule hook_field) (use assms in \<open>simp add: storable_def\<close>)
  have fr: "(if \<not> truthy (py_get ''failed_reason'' ?q) then Inr None
       else and_then (parse_enum failed_reason_value failed_reason_members (py_get ''failed_reason'' ?q))
              (\<lambda>x. Inr (Some x))) = Inr (failed_reason_of s)"
    unfolding stored_fields by (rule failed_field)
  have entry: "(if py_get ''entry_stage'' ?q = PyNone then Inr None
       else and_then (to_state (py_get ''entry_stage'' ?q)) (\<lambda>x. Inr (Some x))) = Inr (entry_stage s)"
    unfolding stored_fields by (cases "entry_stage s") (simp_all add: opt_str_val_def)
  have md: "parse_enum pipeline_mode_value pipeline_mode_members (PyStr (pipeline_mode_value (mode s))) =
      Inr (mode s)" by (simp add: parse_enum_value pm.parse_val)
  have retry: "decode_stage_retry_map (py_get ''stage_retry'' ?q) =
      Inr (sort_key (pipeline_state_value \<circ> fst) (stage_retry s))"
    unfolding stored_fields by (rule retry_map_roundtrip) (use assms in \<open>simp add: storable_def\<close>)
  have hist: "decode_recovery_history now (py_get ''recovery_history'' ?q) =
      Inr (map reloaded_outcome (recovery_history s))"
    unfolding stored_fields by (rule history_roundtrip) (use assms in \<open>simp add: storable_def\<close>)
  have rep: "(case dict_value_or_empty ''last_report'' ?q of
        PyDict d \<Rightarrow> report_from_payload d | _ \<Rightarrow> Inl (Bad_type ''last_report'')) =
      Inr (reloaded_report (report s))"
    unfolding dict_value_or_empty_def stored_fields
    by (simp add: py_or_def report_roundtrip report_nonempty)
  have rejs: "decode_last_rejection_by_stage (dict_value_or_empty ''last_rejection_by_stage'' ?q) =
      Inr (sort_key (pipeline_state_value \<circ> fst) (last_rejection_by_stage s))"
    unfolding dict_value_or_empty_def stored_fields py_or_sorted_dict
    by (rule rejection_map_roundtrip) (use assms in \<open>simp add: storable_def\<close>)
  have runs: "decode_failed_run_history (dict_value_or_empty ''failed_run_history'' ?q) =
      Inr (sort_key fst (failed_run_history s))"
    unfolding dict_value_or_empty_def stored_fields py_or_sorted_dict
    by (rule failed_run_map_roundtrip) (use assms in \<open>simp add: storable_def\<close>)
  have secs: "to_rat ''agent_elapsed_seconds'' (py_or (py_get ''agent_elapsed_seconds'' ?q) (PyFloat 0 ''0.0'')) =
      Inr (agent_elapsed_seconds s)" unfolding stored_fields by (simp add: py_or_def to_rat_def)
  have ints: "int_or ''recovery_budget_history_start'' 0 ?q = Inr (recovery_budget_history_start s)"
    "int_or ''pre_exec_recovery_attempt'' 0 ?q = Inr (pre_exec_recovery_attempt s)"
    "int_or ''consecutive_same_hook_rejects'' 0 ?q = Inr (consecutive_same_hook_rejects s)"
    by (rule int_or_of_val; simp add: stored_fields)+
  have strs: "opt_str ''failed_message'' ?q = Inr (failed_message s)"
    "opt_str ''recovery_failure_explanation'' ?q = Inr (recovery_failure_explanation s)"
    by (rule opt_str_of_val; simp add: stored_fields)+
  show ?thesis
    unfolding state_from_row_def entry trig mc cr rl hf fr to_state_value md retry hist ints secs rep
      rejs runs strs stored_flag and_then.simps
    by (simp add: reloaded_def)
qed

end
