(* ===== verification/Persistence.thy ===== *)
theory Persistence
  imports Codec_Roundtrip
begin

text \<open>
  \<open>SqlitePersistence\<close> of \<open>litehive/lifecycle/persistence.py\<close>: the row of the current state per task,
  the three append-only lifecycle tables that a full reset clears with it, and the audit events. A
  database is a value, an operation returns the new one. The clock is the text of each call.
\<close>

record state_row =
  row_stage :: string
  row_mode :: string
  row_payload :: payload
  row_updated_at :: string

record lifecycle_db =
  pipeline_task_state :: "(string, state_row) dict"
  pipeline_sessions :: "(string \<times> pyval) list"
  pipeline_transitions :: "(string \<times> pyval) list"
  pipeline_journal :: "(string \<times> pyval) list"
  event_log :: "(string \<times> string) list"

datatype load_error = TaskNotFound string | Undecodable codec_error

definition append_event :: "string \<Rightarrow> string \<Rightarrow> lifecycle_db \<Rightarrow> lifecycle_db" where
  "append_event kind tid db = db \<lparr>event_log := event_log db @ [(kind, tid)]\<rparr>"

definition row_of :: "(rat \<Rightarrow> string) \<Rightarrow> string \<Rightarrow> task_state \<Rightarrow> state_row" where
  "row_of float_text now s =
     \<lparr>row_stage = pipeline_state_value (stage s), row_mode = pipeline_mode_value (mode s),
      row_payload = stored_payload (state_payload float_text s), row_updated_at = now\<rparr>"

definition save :: "(rat \<Rightarrow> string) \<Rightarrow> string \<Rightarrow> task_state \<Rightarrow> lifecycle_db \<Rightarrow> lifecycle_db" where
  "save float_text now s db =
     append_event ''pipeline_task_state_saved'' (task_id s)
       (db \<lparr>pipeline_task_state :=
              AList.update (task_id s) (row_of float_text now s) (pipeline_task_state db)\<rparr>)"

definition load :: "string \<Rightarrow> limits \<Rightarrow> string \<Rightarrow> lifecycle_db \<Rightarrow> load_error + task_state" where
  "load now l tid db =
     (case map_of (pipeline_task_state db) tid of
        None \<Rightarrow> Inl (TaskNotFound tid)
      | Some row \<Rightarrow>
          (case state_from_row now tid (row_stage row) (row_mode row) (row_payload row) l of
             Inl err \<Rightarrow> Inl (Undecodable err)
           | Inr s \<Rightarrow> Inr s))"

text \<open>The state that a reset with preserved memory writes.\<close>

definition reset_state :: "limits \<Rightarrow> string \<Rightarrow> task_state \<Rightarrow> task_state" where
  "reset_state l tid previous =
     (fresh_state tid READY (mode previous) None l)
       \<lparr>recovery_history := recovery_history previous,
        recovery_budget_history_start := int (length (recovery_history previous)),
        failed_run_history := failed_run_history previous\<rparr>"

definition delete_row :: "string \<Rightarrow> lifecycle_db \<Rightarrow> lifecycle_db" where
  "delete_row tid db = db \<lparr>pipeline_task_state := AList.delete tid (pipeline_task_state db)\<rparr>"

definition reset_current_lifecycle_state ::
  "(rat \<Rightarrow> string) \<Rightarrow> string \<Rightarrow> limits \<Rightarrow> string \<Rightarrow> bool \<Rightarrow> lifecycle_db \<Rightarrow>
   load_error + lifecycle_db" where
  "reset_current_lifecycle_state float_text now l tid preserve db =
     (let written = append_event ''pipeline_task_state_reset'' tid in
      case load now l tid db of
        Inl (TaskNotFound _) \<Rightarrow> Inr (written (delete_row tid db))
      | Inl err \<Rightarrow> Inl err
      | Inr previous \<Rightarrow>
          (if \<not> preserve \<or> (failed_run_history previous = [] \<and> recovery_history previous = [])
           then Inr (written (delete_row tid db))
           else Inr (written (db \<lparr>pipeline_task_state :=
                  AList.update tid (row_of float_text now (reset_state l tid previous))
                    (pipeline_task_state db)\<rparr>))))"

definition reset_all :: "string \<Rightarrow> lifecycle_db \<Rightarrow> lifecycle_db" where
  "reset_all tid db =
     append_event ''pipeline_task_state_reset'' tid
       (db \<lparr>pipeline_task_state := AList.delete tid (pipeline_task_state db),
            pipeline_sessions := filter (\<lambda>r. fst r \<noteq> tid) (pipeline_sessions db),
            pipeline_transitions := filter (\<lambda>r. fst r \<noteq> tid) (pipeline_transitions db),
            pipeline_journal := filter (\<lambda>r. fst r \<noteq> tid) (pipeline_journal db)\<rparr>)"

definition initialize ::
  "(rat \<Rightarrow> string) \<Rightarrow> string \<Rightarrow> limits \<Rightarrow> string \<Rightarrow> pipeline_mode \<Rightarrow> pipeline_state \<Rightarrow>
   pipeline_state option \<Rightarrow> lifecycle_db \<Rightarrow> (load_error + task_state) \<times> lifecycle_db" where
  "initialize float_text now l tid md st entry db =
     (case load now l tid db of
        Inl (TaskNotFound _) \<Rightarrow>
          (let s = fresh_state tid st md entry l in (Inr s, save float_text now s db))
      | res \<Rightarrow> (res, db))"

section \<open>The contract of a persistence\<close>

text \<open>
  What the runner and the readers rely on: a saved state is what the next load of that task sees
  (as \<open>view\<close> shows it), and saving one task leaves the others alone.
\<close>

locale persistence =
  fixes put :: "task_state \<Rightarrow> 'db \<Rightarrow> 'db"
    and get :: "string \<Rightarrow> 'db \<Rightarrow> load_error + task_state"
    and ok :: "task_state \<Rightarrow> bool"
    and view :: "task_state \<Rightarrow> task_state"
  assumes get_put: "ok s \<Longrightarrow> get (task_id s) (put s db) = Inr (view s)"
    and get_put_other: "tid \<noteq> task_id s \<Longrightarrow> get tid (put s db) = get tid db"
begin

lemma get_put_id: "ok s \<Longrightarrow> task_id s = tid \<Longrightarrow> get tid (put s db) = Inr (view s)"
  using get_put by blast

text \<open>Of a sequence of saves, the last one of the task counts.\<close>

lemma get_puts:
  assumes "\<forall>s \<in> set ss. ok s"
  shows "get tid (fold put ss db) =
    (case filter (\<lambda>s. task_id s = tid) ss of [] \<Rightarrow> get tid db | own \<Rightarrow> Inr (view (last own)))"
  using assms
proof (induction ss rule: rev_induct)
  case (snoc s ss)
  show ?case
  proof (cases "task_id s = tid")
    case True
    with snoc.prems have "get tid (fold put (ss @ [s]) db) = Inr (view s)" by (auto simp: get_put_id)
    with True show ?thesis by (cases "filter (\<lambda>s. task_id s = tid) ss") simp_all
  next
    case False
    with snoc show ?thesis by (simp add: get_put_other)
  qed
qed simp

end

lemma reloaded_id [simp]:
  "task_id (reloaded s) = task_id s" "stage (reloaded s) = stage s" "mode (reloaded s) = mode s"
  "lims (reloaded s) = lims s"
  by (simp_all add: reloaded_def)

lemma load_row:
  assumes "map_of (pipeline_task_state db) (task_id s) = Some (row_of float_text t s)"
    and "storable s" "lims s = l"
  shows "load now l (task_id s) db = Inr (reloaded s)"
  using assms state_row_roundtrip_row [of s now float_text] by (simp add: load_def row_of_def)

lemma load_saved:
  "storable s \<Longrightarrow> load now (lims s) (task_id s) (save float_text t s db) = Inr (reloaded s)"
  by (rule load_row [of _ _ float_text t]) (simp_all add: save_def append_event_def update_conv')

interpretation sqlite: persistence "save float_text t" "load now l" "\<lambda>s. storable s \<and> lims s = l" reloaded
  for float_text t now l
proof unfold_locales
  show "load now l (task_id s) (save float_text t s db) = Inr (reloaded s)"
    if "storable s \<and> lims s = l" for s db
    using that load_saved by blast
  show "load now l tid (save float_text t s db) = load now l tid db" if "tid \<noteq> task_id s" for tid s db
    using that by (simp add: load_def save_def append_event_def update_conv')
qed

section \<open>Resets\<close>

lemma fresh_storable [simp]: "storable (fresh_state tid st md entry l)"
  by (simp add: storable_def fresh_state_def)

lemma reset_storable:
  "storable s \<Longrightarrow> storable (reset_state l tid s)"
  by (simp add: storable_def reset_state_def fresh_state_def)

lemma reset_sel [simp]:
  "stage (reset_state l tid s) = READY" "mode (reset_state l tid s) = mode s"
  "task_id (reset_state l tid s) = tid" "lims (reset_state l tid s) = l"
  "stage_retry (reset_state l tid s) = []" "active_recovery_trigger (reset_state l tid s) = None"
  "recovery_history (reset_state l tid s) = recovery_history s"
  "failed_run_history (reset_state l tid s) = failed_run_history s"
  "recovery_budget_history_start (reset_state l tid s) = int (length (recovery_history s))"
  "hook_reject_recovery_invoked (reset_state l tid s) = False"
  by (simp_all add: reset_state_def fresh_state_def)

end
