(* ===== verification/Resume_Properties.thy ===== *)
theory Resume_Properties
  imports Machine_Properties Persistence
begin

text \<open>
  What persistence means for the machine: a run that is resumed from the stored row decides as the
  run that never stopped, a reset keeps the memory of failed runs and reopens the recovery budget.
\<close>

section \<open>Decisions read the same after a reload\<close>

lemma map_of_sort:
  assumes "dict_ok d"
  shows "map_of (sort_key f d) = map_of d"
proof -
  have "distinct (map fst (sort_key f d))" using dict_ok_sort [OF assms, of f] by (simp add: dict_ok_def)
  moreover have "set (sort_key f d) = set d" by simp
  ultimately show ?thesis using map_of_inject_set assms unfolding dict_ok_def by blast
qed

lemma dict_get_sort: "dict_ok d \<Longrightarrow> dict_get k x (sort_key f d) = dict_get k x d"
  by (simp add: dict_get_def map_of_sort)

lemma reloaded_sel [simp]:
  "entry_stage (reloaded s) = entry_stage s" "rej_loop (reloaded s) = rej_loop s"
  "merge_ctx (reloaded s) = merge_ctx s"
  "consecutive_same_hook_rejects (reloaded s) = consecutive_same_hook_rejects s"
  "last_hook_reject_fingerprint (reloaded s) = last_hook_reject_fingerprint s"
  "hook_reject_recovery_invoked (reloaded s) = hook_reject_recovery_invoked s"
  "failed_reason_of (reloaded s) = failed_reason_of s"
  "agent_elapsed_seconds (reloaded s) = agent_elapsed_seconds s"
  "pre_exec_recovery_attempt (reloaded s) = pre_exec_recovery_attempt s"
  "recovery_budget_history_start (reloaded s) = recovery_budget_history_start s"
  "active_recovery_trigger (reloaded s) = map_option reloaded_trigger (active_recovery_trigger s)"
  "recovery_history (reloaded s) = map reloaded_outcome (recovery_history s)"
  "files_changed (report (reloaded s)) = files_changed (report s)"
  "tests_added (report (reloaded s)) = tests_added (report s)"
  "hook_ok (report (reloaded s)) = hook_ok (report s)"
  "stage_retry (reloaded s) = sort_key (pipeline_state_value \<circ> fst) (stage_retry s)"
  "failed_run_history (reloaded s) = sort_key fst (failed_run_history s)"
  "last_rejection_by_stage (reloaded s) = sort_key (pipeline_state_value \<circ> fst) (last_rejection_by_stage s)"
  by (simp_all add: reloaded_def reloaded_report_def)

lemma reloaded_trigger_sel [simp]:
  "origin_stage (reloaded_trigger t) = origin_stage t" "budget_key (reloaded_trigger t) = budget_key t"
  "trigger_reason_code (reloaded_trigger t) = trigger_reason_code t"
  by (simp_all add: reloaded_trigger_def budget_key_def reloaded_fingerprint_def fingerprint_budget_key_def)

lemma window_keys_reloaded [simp]: "window_keys (reloaded s) = window_keys s"
  by (simp add: window_keys_def budget_recovery_history_def drop_map comp_def reloaded_outcome_def)

lemma hook_loop_reloaded [simp]: "hook_reject_loop_detected (reloaded s) e = hook_reject_loop_detected s e"
  by (cases e; simp cong: option.case_cong)

lemma next_loop_reloaded [simp]: "next_rejection_loop (reloaded s) e t = next_rejection_loop s e t"
  unfolding next_rejection_loop_def reloaded_id reloaded_sel by (rule refl)

lemma loop_detected_reloaded [simp]: "rejection_loop_detected (reloaded s) e t = rejection_loop_detected s e t"
  unfolding rejection_loop_detected_def next_loop_reloaded reloaded_id by (rule refl)

lemma trigger_reloaded [simp]: "recovery_trigger_from_event (reloaded s) e = recovery_trigger_from_event s e"
proof -
  have rc: "reason_code_from_event (reloaded s) e = reason_code_from_event s e"
    by (cases e) (simp_all del: hook_reject_loop_detected.simps)
  then have "plain_fingerprint (reloaded s) e = plain_fingerprint s e"
    by (cases e) (simp_all del: hook_reject_loop_detected.simps reason_code_from_event.simps)
  with rc show ?thesis
    by (simp add: recovery_trigger_from_event_def fingerprint_from_event_def cong: option.case_cong)
qed

lemma budget_reloaded [simp]:
  "state_recovery_budget_available (reloaded s) t = state_recovery_budget_available s t"
  by (simp add: state_recovery_budget_available_def unconsumed_iff)

lemma counters_reloaded:
  "storable s \<Longrightarrow> dict_get c 0 (stage_retry (reloaded s)) = dict_get c 0 (stage_retry s)"
  by (simp add: dict_get_sort storable_def)

lemma hook_target_reloaded [simp]: "hook_target (reloaded s) cur = hook_target s cur"
  by (cases cur; simp cong: pipeline_mode.case_cong)

text \<open>The decision of the routing: the target or the error, without the delta.\<close>

definition decision :: "lifecycle_error + move \<Rightarrow> lifecycle_error + pipeline_state" where
  "decision = map_sum id fst"

lemma decision_settle:
  "map_option fst m = map_option fst m' \<Longrightarrow> decision (settle cur e m) = decision (settle cur e m')"
  by (cases m; cases m') (simp_all add: decision_def settle_def)

lemma decision_computed: "decision (computed t d) = t"
  by (cases t) (simp_all add: decision_def computed_def)

lemma moves_reloaded:
  assumes "storable s"
  shows "fst (recovery_move clk (reloaded s) e) = fst (recovery_move clk s e)"
    and "fst (retry_move c clk (reloaded s) e) = fst (retry_move c clk s e)"
    and "map_option fst (reject_route clk cur e (reloaded s)) = map_option fst (reject_route clk cur e s)"
    and "map_option fst (fault_route clk cur e (reloaded s)) = map_option fst (fault_route clk cur e s)"
    and "map_option fst (escalate S r clk cur e (reloaded s)) = map_option fst (escalate S r clk cur e s)"
proof -
  show r: "fst (recovery_move clk (reloaded s) e) = fst (recovery_move clk s e)"
    by (simp add: recovery_move_def)
  show t: "fst (retry_move c clk (reloaded s) e) = fst (retry_move c clk s e)" for c
    by (simp add: retry_move_def fail_move_def counters_reloaded [OF assms] del: reloaded_sel(16))
  show "map_option fst (reject_route clk cur e (reloaded s)) = map_option fst (reject_route clk cur e s)"
    by (simp add: reject_route_def t counters_reloaded [OF assms] fail_move_def
        if_distrib [of "map_option fst"] del: reloaded_sel(16) cong: if_cong)
  show "map_option fst (fault_route clk cur e (reloaded s)) = map_option fst (fault_route clk cur e s)"
    by (simp add: fault_route_def fail_move_def r)
  show "map_option fst (escalate S r clk cur e (reloaded s)) = map_option fst (escalate S r clk cur e s)" for r
    by (simp add: escalate_def fail_move_def)
qed

lemma targets_reloaded [simp]:
  "resume_from_origin (reloaded s) e = resume_from_origin s e"
  "resume_from_pre_exec (reloaded s) e = resume_from_pre_exec s e"
  "entry_from_worktree_sync (reloaded s) e = entry_from_worktree_sync s e"
  by (cases e; cases "active_recovery_trigger s";
      simp add: resume_from_origin_def resume_from_pre_exec_def entry_from_worktree_sync_def)+

lemma route_reloaded:
  assumes "storable s"
  shows "decision (route clk cur e (reloaded s)) = decision (route clk cur e s)"
proof -
  note mv = moves_reloaded [OF assms]
  have b: "map_option fst (if c then Some (recovery_move clk (reloaded s) e) else None) =
      map_option fst (if c then Some (recovery_move clk s e) else None)" for c e using mv(1) by simp
  show ?thesis
  proof (cases e)
    case (RecoverySucceeded resume hint)
    then show ?thesis
      by (auto simp: decision_computed intro!: decision_settle mv)
  qed (auto simp: decision_computed comp_def option.map_comp intro!: decision_settle mv b)
qed

text \<open>C14: Resuming from the stored row changes no decision: at every stage and for every event the rule
  table selects the same target, or the same error, on the reloaded state as on the saved one.\<close>

theorem resume_decides_alike:
  assumes "storable s" and "lims s = l"
    and "load now l (task_id s) (save float_text t s db) = Inr s'"
  shows "map_sum id next_state (evaluate clk RULES cur e s') =
         map_sum id next_state (evaluate clk RULES cur e s)"
proof -
  have s': "s' = reloaded s" using assms load_saved by auto
  have "map_sum id next_state (evaluate clk RULES cur e x) = decision (route clk cur e x)" for x
    unfolding evaluate_RULES [of clk cur e x, symmetric]
    by (cases "evaluate clk RULES cur e x") (simp_all add: as_move_def decision_def)
  with route_reloaded [OF assms(1)] show ?thesis unfolding s' by simp
qed

text \<open>A saved state with a retry count, a recovery in progress and a report with a duplicate.\<close>

definition demo_saved :: task_state where
  "demo_saved = (demo_task TESTING)
     \<lparr>stage_retry := [(TESTING, 2), (IMPLEMENTING, 1)],
      active_recovery_trigger := Some (recovery_trigger_from_event (demo_task TESTING) (Crash ''Boom'' ''x'')),
      report := empty_report \<lparr>changed_files := [''a.py'', ''a.py'']\<rparr>\<rparr>"

definition empty_db :: lifecycle_db where
  "empty_db = \<lparr>pipeline_task_state = [], pipeline_sessions = [], pipeline_transitions = [],
     pipeline_journal = [], event_log = []\<rparr>"

lemma demo_saved_storable: "storable demo_saved"
  by (simp add: demo_saved_def storable_def dict_ok_def trigger_storable_def demo_task_def fresh_state_def
      recovery_trigger_from_event_def fingerprint_from_event_def)

lemma resume_decides_alike_witness:
  "\<exists>s'. load ''now'' default_limits ''T-1'' (save (\<lambda>x. ''0.0'') ''now'' demo_saved empty_db) = Inr s' \<and>
     map_sum id next_state (evaluate (\<lambda>n. ''now'') RULES TESTING Timeout s') =
     map_sum id next_state (evaluate (\<lambda>n. ''now'') RULES TESTING Timeout demo_saved)"
proof -
  have l: "lims demo_saved = default_limits" and i: "task_id demo_saved = ''T-1''"
    by (simp_all add: demo_saved_def demo_task_def fresh_state_def)
  from load_saved [OF demo_saved_storable, of "''now''" "\<lambda>x. ''0.0''" "''now''" empty_db]
  have "load ''now'' default_limits (task_id demo_saved) (save (\<lambda>x. ''0.0'') ''now'' demo_saved empty_db) =
      Inr (reloaded demo_saved)" unfolding l .
  from resume_decides_alike [OF demo_saved_storable l this] this show ?thesis unfolding i by blast
qed

section \<open>Saving, resetting, initializing\<close>

text \<open>C13: A task state saved to its row and loaded again is the state itself, up to the order of dict
  entries and duplicate entries of the report lists: position, counters, recovery trigger, recovery
  history, budget start, merge and commit data, rejection memory and failure are all restored.\<close>

theorem stored_state_roundtrip:
  assumes "storable s"
  shows "load now (lims s) (task_id s) (save float_text t s db) = Inr (reloaded s)"
  by (rule load_saved [OF assms])

lemma stored_state_roundtrip_witness:
  "\<exists>s'. load ''now'' (lims demo_saved) (task_id demo_saved) (save (\<lambda>x. ''0.0'') ''then'' demo_saved empty_db) = Inr s' \<and>
     stage_retry s' = [(IMPLEMENTING, 1), (TESTING, 2)] \<and> changed_files (report s') = [''a.py'']"
  unfolding stored_state_roundtrip [OF demo_saved_storable]
  by (simp add: demo_saved_def reloaded_report_def string_list_def py_strip_def py_rstrip_def py_lstrip_def
      is_space_def reloaded_def)

text \<open>A stored recovery trigger whose event kind is not a known one makes the load of the task raise:
  no such row decodes, whatever the rest of the trigger is.\<close>

lemma unknown_trigger_kind_raises:
  assumes "py_get ''trigger_event_kind'' p = PyStr kind" and "kind \<noteq> []"
    and "kind \<notin> range trigger_event_kind_value" and "opt_str ''origin_stage'' p = Inr origin"
  shows "trigger_from_payload p = Inl (Bad_value kind)"
proof -
  have "enum_parse trigger_event_kind_value trigger_event_kind_members kind = None"
    using assms(3) tek.parse_None by blast
  with assms show ?thesis by (simp add: trigger_from_payload_def py_or_def parse_enum_def)
qed

lemma unknown_trigger_kind_raises_witness:
  "trigger_from_payload [(''trigger_event_kind'', PyStr ''novel'')] = Inl (Bad_value ''novel'')"
proof -
  have "''novel'' \<noteq> trigger_event_kind_value k" for k by (cases k) simp_all
  then have "''novel'' \<notin> range trigger_event_kind_value" by auto
  from unknown_trigger_kind_raises [OF _ _ this, of "[(''trigger_event_kind'', PyStr ''novel'')]" None]
  show ?thesis by (simp add: opt_str_def)
qed

lemma reloaded_storable:
  assumes "storable s"
  shows "storable (reloaded s)"
proof -
  have t: "trigger_storable (reloaded_trigger t) = trigger_storable t" for t
    by (simp add: trigger_storable_def reloaded_trigger_def reloaded_fingerprint_def)
  show ?thesis
    using assms by (cases "active_recovery_trigger s")
      (simp_all add: storable_def dict_ok_sort t list_all_iff reloaded_outcome_def)
qed

text \<open>A sequence of saves of any tasks leaves, for each task, the last state saved for it, and nothing
  else changes what a task's load returns.\<close>

lemma last_save_counts:
  assumes "\<forall>s \<in> set ss. storable s \<and> lims s = l"
  shows "load now l tid (fold (save float_text t) ss db) =
    (case filter (\<lambda>s. task_id s = tid) ss of
       [] \<Rightarrow> load now l tid db | own \<Rightarrow> Inr (reloaded (last own)))"
  by (rule sqlite.get_puts [OF assms])

lemma last_save_counts_witness:
  "load ''now'' default_limits ''T-1'' (fold (save (\<lambda>x. ''0.0'') ''now'') [demo_task READY, demo_saved] empty_db) =
   Inr (reloaded demo_saved)"
proof -
  have l: "lims demo_saved = default_limits" "task_id demo_saved = ''T-1''" "task_id (demo_task READY) = ''T-1''"
    by (simp_all add: demo_saved_def demo_task_def fresh_state_def)
  have "storable (demo_task READY)" by (simp add: demo_task_def)
  with demo_saved_storable l show ?thesis
    by (subst last_save_counts) simp_all
qed

text \<open>Resetting a stored task with its memory preserved starts it over: it is ready, no counter, no
  active trigger and no hook streak is left, yet the failed runs and the recovery history are kept.
  The recovery budget is open again for every cause.\<close>

lemma reset_keeps_memory:
  assumes "storable s" and "lims s = l" and "failed_run_history s \<noteq> [] \<or> recovery_history s \<noteq> []"
    and "reset_current_lifecycle_state ft now l (task_id s) True (save ft t s db) = Inr db'"
  shows "\<exists>s'. load now l (task_id s) db' = Inr s' \<and>
     stage s' = READY \<and> mode s' = mode s \<and> stage_retry s' = [] \<and> active_recovery_trigger s' = None \<and>
     map_of (failed_run_history s') = map_of (failed_run_history s) \<and>
     map (budget_key \<circ> outcome_trigger) (recovery_history s') =
       map (budget_key \<circ> outcome_trigger) (recovery_history s) \<and>
     (\<forall>trigger. state_recovery_budget_available s' trigger)"
proof -
  let ?r = "reset_state l (task_id s) (reloaded s)"
  have ne: "\<not> (failed_run_history (reloaded s) = [] \<and> recovery_history (reloaded s) = [])"
    using assms(3) set_sort [of fst "failed_run_history s"] by (auto simp del: set_sort)
  have "load now l (task_id s) (save ft t s db) = Inr (reloaded s)"
    using load_saved [OF assms(1)] assms(2) by blast
  with assms(4) ne have db': "map_of (pipeline_task_state db') (task_id s) = Some (row_of ft now ?r)"
    by (auto simp: reset_current_lifecycle_state_def append_event_def update_conv')
  have st: "storable ?r" by (rule reset_storable [OF reloaded_storable [OF assms(1)]])
  have "load now l (task_id s) db' = Inr (reloaded ?r)"
    using load_row [of db' ?r ft now l now] db' st by simp
  moreover have "state_recovery_budget_available (reloaded ?r) trigger" for trigger
    by (simp add: state_recovery_budget_available_def unconsumed_iff window_keys_def budget_recovery_history_def)
  moreover have "map_of (failed_run_history (reloaded ?r)) = map_of (failed_run_history s)"
    using assms(1) by (simp add: map_of_sort storable_def dict_ok_sort)
  ultimately show ?thesis
    by (intro exI [of _ "reloaded ?r"]) (simp add: reloaded_outcome_def comp_def del: budget_reloaded)
qed

definition demo_failed_run :: failed_run_record where
  "demo_failed_run = \<lparr>fr_stage = TESTING, fr_failure_shape = ''agent:flaky'', fr_count = 2,
     fr_first_at = None, fr_latest_at = None, fr_last_reason = ''flaky'', fr_source = None,
     fr_classification = None, fr_retry_limit = Some 3, fr_failed_reason = None,
     fr_operator_override_count = 0, fr_last_operator_override_at = None\<rparr>"

definition demo_failed :: task_state where
  "demo_failed = (demo_task FAILED)
     \<lparr>failed_run_history := [(record_key demo_failed_run, demo_failed_run)], stage_retry := [(TESTING, 3)]\<rparr>"

lemma reset_keeps_memory_witness:
  "\<exists>db' s'. reset_current_lifecycle_state (\<lambda>x. ''0.0'') ''now'' default_limits ''T-1'' True
       (save (\<lambda>x. ''0.0'') ''now'' demo_failed empty_db) = Inr db' \<and>
     load ''now'' default_limits ''T-1'' db' = Inr s' \<and> stage s' = READY \<and>
     map_of (failed_run_history s') (record_key demo_failed_run) = Some demo_failed_run"
proof -
  have st: "storable demo_failed"
    by (simp add: demo_failed_def storable_def dict_ok_def demo_task_def fresh_state_def)
  have l: "lims demo_failed = default_limits" "task_id demo_failed = ''T-1''"
    "failed_run_history demo_failed = [(record_key demo_failed_run, demo_failed_run)]"
    by (simp_all add: demo_failed_def demo_task_def fresh_state_def)
  have "load ''now'' default_limits ''T-1'' (save (\<lambda>x. ''0.0'') ''now'' demo_failed empty_db) =
      Inr (reloaded demo_failed)" using load_saved [OF st] l by metis
  then obtain db' where r: "reset_current_lifecycle_state (\<lambda>x. ''0.0'') ''now'' default_limits ''T-1'' True
       (save (\<lambda>x. ''0.0'') ''now'' demo_failed empty_db) = Inr db'"
    by (simp add: reset_current_lifecycle_state_def Let_def l(3))
  from reset_keeps_memory [OF st l(1), of "\<lambda>x. ''0.0''" "''now''" "''now''" empty_db db'] r l
  show ?thesis by auto
qed

text \<open>Initializing a task that has no row stores a fresh state, and initializing it again, with whatever
  arguments, returns that state and writes nothing.\<close>

lemma initialize_once:
  assumes "map_of (pipeline_task_state db) tid = None"
    and "initialize ft now l tid md st entry db = (res, db')"
  shows "res = Inr (fresh_state tid st md entry l) \<and>
         initialize ft' now' l tid md' st' entry' db' = (res, db')"
proof -
  let ?s = "fresh_state tid st md entry l"
  have id: "task_id ?s = tid" "lims ?s = l" by (simp_all add: fresh_state_def)
  have new: "res = Inr ?s" "db' = save ft now ?s db"
    using assms by (simp_all add: initialize_def load_def Let_def)
  have "reloaded ?s = ?s"
    by (simp add: reloaded_def fresh_state_def reloaded_report_def empty_report_def string_list_def)
  then have "load now' l tid db' = Inr ?s"
    using load_saved [of ?s now' ft now db] id new(2) by simp
  with new show ?thesis by (simp add: initialize_def)
qed

lemma initialize_once_witness:
  "initialize (\<lambda>x. ''0.0'') ''now'' default_limits ''T-1'' SINGLE TESTING None
     (snd (initialize (\<lambda>x. ''0.0'') ''now'' default_limits ''T-1'' FULL READY None empty_db)) =
   initialize (\<lambda>x. ''0.0'') ''now'' default_limits ''T-1'' FULL READY None empty_db"
proof -
  obtain res db' where i: "initialize (\<lambda>x. ''0.0'') ''now'' default_limits ''T-1'' FULL READY None empty_db = (res, db')"
    by (cases "initialize (\<lambda>x. ''0.0'') ''now'' default_limits ''T-1'' FULL READY None empty_db")
  have "map_of (pipeline_task_state empty_db) ''T-1'' = None" by (simp add: empty_db_def)
  from initialize_once [OF this i] show ?thesis unfolding i snd_conv by blast
qed

end
