(* ===== verification/Task_Record.thy ===== *)
theory Task_Record
  imports Task_State "HOL-Library.List_Lexorder" "HOL-Library.Char_ord" "HOL-Library.Product_Lexorder"
begin

text \<open>
  Task records as the queue sees them: \<open>litehive/domain/task.py\<close> and the slices of
  \<open>domain/runtime.py\<close> on them, the text normalization of \<open>tasks/normalization.py\<close>, the
  failed-run gate of \<open>tasks/failed_runs.py\<close> and the clean-up of run activity in
  \<open>tasks/runtime.py\<close>. Fields that none of the modelled operations reads or writes (slug, the
  subagent history, creation provenance, git bookkeeping beyond the commit and the worktree) are
  left out. A field typed as an enumeration or a string is its string.
\<close>

section \<open>Records\<close>

record stage_marker =
  ss_stage :: "string option"
  ss_status :: string
  ss_started_at :: "string option"
  ss_updated_at :: "string option"

record runtime_failed_run =
  rf_stage :: string
  rf_failure_shape :: string
  rf_count :: int
  rf_first_at :: "string option"
  rf_latest_at :: "string option"
  rf_last_reason :: string
  rf_source :: "string option"
  rf_classification :: "string option"
  rf_retry_limit :: "int option"
  rf_failed_reason :: "string option"
  rf_override_count :: int
  rf_override_at :: "string option"

record outcome_state =
  os_kind :: "task_outcome_kind option"
  os_stage :: "string option"
  os_reason_code :: "string option"
  os_reason :: string
  os_retry_count :: int
  os_retry_limit :: int
  os_recorded_at :: "string option"
  os_follow_up_task_id :: "string option"
  os_failure_classification :: "string option"
  os_failure_diagnostics :: "(string, string option) dict"

definition empty_outcome :: outcome_state where
  "empty_outcome = \<lparr>os_kind = None, os_stage = None, os_reason_code = None, os_reason = [],
     os_retry_count = 0, os_retry_limit = 0, os_recorded_at = None,
     os_follow_up_task_id = None, os_failure_classification = None, os_failure_diagnostics = []\<rparr>"

text \<open>A subagent as the running task, and later its interruption, records it.\<close>

record subagent_state =
  sa_id :: string
  sa_role :: string
  sa_engine :: string
  sa_status :: string
  sa_path :: string
  sa_pid :: "int option"
  sa_updated_at :: string
  sa_completed_at :: "string option"
  sa_snippet :: string
  sa_interruption_reason :: string

record interruption =
  in_stage :: "string option"
  in_pipeline_status :: "string option"
  in_resume_stage :: "string option"
  in_source :: string
  in_reason :: string
  in_summary :: string
  in_interrupted_at :: "string option"
  in_detected_at :: "string option"
  in_run_started_at :: "string option"
  in_stage_started_at :: "string option"
  in_subagent :: "subagent_state option"

text \<open>The flat copy of a recovery outcome that status and prompts read.\<close>

record runtime_recovery =
  rr_origin_stage :: "string option"
  rr_trigger_event_kind :: string
  rr_fingerprint :: string
  rr_classification :: "string option"
  rr_budget_key :: string
  rr_recovery_verdict :: string
  rr_disposition :: string
  rr_reason_code :: "string option"
  rr_message :: string
  rr_created_at :: "string option"

record pipeline_runtime =
  pr_commit_sha :: "string option"
  pr_worktree_path :: "string option"
  pr_execution_status :: string
  pr_run_started_at :: "string option"
  pr_updated_at :: "string option"
  pr_retry_count :: int
  pr_retry_limit :: int
  pr_current_stage :: stage_marker
  pr_consecutive_same_hook_rejects :: int
  pr_last_hook_reject_fingerprint :: "hook_fingerprint option"
  pr_hook_reject_recovery_invoked :: bool
  pr_recovery_history :: "runtime_recovery list"
  pr_failed_run_history :: "(string, runtime_failed_run) dict"
  pr_last_outcome :: outcome_state

record execution_runtime =
  xr_active_subagent :: "subagent_state option"
  xr_interruption :: "interruption option"

record task_record =
  t_id :: string
  t_title :: string
  t_depends_on :: "string list"
  t_mode :: pipeline_mode
  t_status :: task_status
  t_close_reason :: "string option"
  t_flag_reason :: "string option"
  t_flag_count :: int
  t_pipeline_status :: pipeline_status
  t_priority :: string
  t_goal :: string
  t_acceptance_criteria :: "string list"
  t_constraints :: "string list"
  t_plan :: "string list"
  t_model :: "string option"
  t_max_retries :: "int option"
  t_auto_commit :: bool
  t_commit_sha :: "string option"
  t_worktree_path :: "string option"
  t_pipeline :: pipeline_runtime
  t_execution :: execution_runtime

section \<open>Terminal state and pool views\<close>

definition canonicalize_task_terminal_state :: "task_record \<Rightarrow> task_record" where
  "canonicalize_task_terminal_state t =
     (let reason_code = os_reason_code (pr_last_outcome (t_pipeline t));
          close = (case t_status t of
                     Tst_CLOSED \<Rightarrow> Some (opt_str_or (t_close_reason t) (opt_str_or reason_code ''unknown''))
                   | Tst_DONE \<Rightarrow> Some (opt_str_or (t_close_reason t) ''done'')
                   | _ \<Rightarrow> None)
      in t \<lparr>t_close_reason := close,
            t_flag_reason := (if t_status t \<in> {Tst_CLOSED, Tst_DONE} then None else t_flag_reason t)\<rparr>)"

definition is_pool_pending :: "task_record \<Rightarrow> bool" where
  "is_pool_pending t =
     (t_pipeline_status t \<noteq> Pst_DONE \<and> t_status t \<in> {Tst_QUEUED, Tst_IN_PROGRESS})"

definition task_is_resumable :: "task_record \<Rightarrow> bool" where
  "task_is_resumable t =
     (t_pipeline_status t \<noteq> Pst_DONE \<and> t_status t \<in> {Tst_INTERRUPTED, Tst_PARKED})"

section \<open>Acceptance criteria\<close>

definition normalize_acceptance_criteria :: "string list option \<Rightarrow> string list" where
  "normalize_acceptance_criteria items =
     (case items of None \<Rightarrow> [] | Some xs \<Rightarrow> filter (\<lambda>c. c \<noteq> []) (map py_strip xs))"

definition acceptance_criteria_requirement_signals :: "task_record \<Rightarrow> string list" where
  "acceptance_criteria_requirement_signals t =
     (if t_depends_on t \<noteq> [] then [''dependencies''] else [])
     @ (if py_strip (t_goal t) \<noteq> [] \<and> py_strip (t_goal t) \<noteq> py_strip (t_title t)
        then [''an explicit goal''] else [])
     @ (if t_priority t = ''high'' then [''high priority''] else [])
     @ (if length (t_plan t) \<ge> 2 then [''a multi-step plan''] else [])"

definition missing_acceptance_criteria_reason :: "task_record \<Rightarrow> string option" where
  "missing_acceptance_criteria_reason t =
     (if t_acceptance_criteria t \<noteq> [] then None
      else (let signals = acceptance_criteria_requirement_signals t in
            if signals = [] then None
            else Some (''Structured acceptance criteria are required before implementation for larger tasks. ''
                       @ ''Add at least one criterion because this task has: '' @ py_join '', '' signals @ ''.'')))"

definition implementation_entry_stage :: "task_record \<Rightarrow> pipeline_status" where
  "implementation_entry_stage t =
     (if t_mode t = SINGLE then Pst_IMPLEMENTING
      else if missing_acceptance_criteria_reason t \<noteq> None then Pst_GROOMING
      else Pst_IMPLEMENTING)"

definition needs_normalization :: "task_record \<Rightarrow> string option" where
  "needs_normalization t =
     (if t_mode t = SINGLE \<or> t_pipeline_status t \<in> {Pst_BACKLOG, Pst_GROOMING} \<or> t_acceptance_criteria t \<noteq> []
      then None
      else Some (''Task is underspecified ('' @
                 py_join '', '' (''missing acceptance criteria'' #
                   (if py_strip (t_goal t) = [] then [''missing goal''] else [])) @
                 '') and needs planner normalization before retry.''))"

definition reroute_stage_for_acceptance_criteria :: "task_record \<Rightarrow> pipeline_status" where
  "reroute_stage_for_acceptance_criteria t =
     (if t_mode t \<noteq> SINGLE \<and>
         t_pipeline_status t \<in> {Pst_IMPLEMENTING, Pst_TESTING, Pst_ACCEPTING, Pst_COMMIT_TO_GIT} \<and>
         missing_acceptance_criteria_reason t \<noteq> None
      then Pst_GROOMING else t_pipeline_status t)"

section \<open>Failed runs\<close>

definition FAILED_RUN_REQUEUE_BUDGET :: int where
  "FAILED_RUN_REQUEUE_BUDGET = 1"

definition blocks :: "runtime_failed_run \<Rightarrow> bool" where
  "blocks r = (\<not> rf_count r \<le> FAILED_RUN_REQUEUE_BUDGET \<and> \<not> rf_override_count r \<ge> rf_count r)"

definition blocking_failed_run_records :: "task_record \<Rightarrow> runtime_failed_run list" where
  "blocking_failed_run_records t =
     sort_key (\<lambda>r. (rf_stage r, rf_failure_shape r))
       (filter blocks (map snd (pr_failed_run_history (t_pipeline t))))"

definition has_blocking_failed_run_history :: "task_record \<Rightarrow> bool" where
  "has_blocking_failed_run_history t = (blocking_failed_run_records t \<noteq> [])"

definition failed_run_record_details :: "runtime_failed_run list \<Rightarrow> string" where
  "failed_run_record_details records =
     py_join ''; '' (map (\<lambda>r. rf_stage r @ '' shape='' @ rf_failure_shape r @ '' count='' @
        int_str (rf_count r) @ '' latest_at='' @ opt_str_or (rf_latest_at r) ''-'') records)"

definition failed_run_block_message :: "task_record \<Rightarrow> runtime_failed_run list \<Rightarrow> string" where
  "failed_run_block_message t records =
     ''Task '' @ t_id t @ '' repeatedly exhausted the same stage retry budget: '' @
     failed_run_record_details records @
     ''. Use --force to record an operator override and requeue anyway.''"

text \<open>
  \<open>mark_failed_run_operator_override\<close>: each record is acknowledged on the lifecycle state, where
  it is created when missing, and on the runtime copy.
\<close>

definition state_record_of :: "runtime_failed_run \<Rightarrow> pipeline_state \<Rightarrow> failed_run_record" where
  "state_record_of r st =
     \<lparr>fr_stage = st, fr_failure_shape = rf_failure_shape r, fr_count = rf_count r,
      fr_first_at = rf_first_at r, fr_latest_at = rf_latest_at r, fr_last_reason = rf_last_reason r,
      fr_source = rf_source r, fr_classification = rf_classification r,
      fr_retry_limit = rf_retry_limit r, fr_failed_reason = rf_failed_reason r,
      fr_operator_override_count = 0, fr_last_operator_override_at = None\<rparr>"

definition acknowledge_state_record :: "string \<Rightarrow> failed_run_record \<Rightarrow> failed_run_record" where
  "acknowledge_state_record now r =
     r \<lparr>fr_operator_override_count := max (fr_operator_override_count r) (fr_count r),
        fr_last_operator_override_at := Some now\<rparr>"

definition acknowledge_runtime_record :: "string \<Rightarrow> runtime_failed_run \<Rightarrow> runtime_failed_run" where
  "acknowledge_runtime_record now r =
     r \<lparr>rf_override_count := max (rf_override_count r) (rf_count r), rf_override_at := Some now\<rparr>"

definition runtime_key :: "runtime_failed_run \<Rightarrow> string" where
  "runtime_key r = rf_stage r @ '':'' @ rf_failure_shape r"

text \<open>\<open>None\<close> is the \<open>ValueError\<close> of a stage text that is no stage, when the record must be created.\<close>

definition acknowledge_on_state ::
  "string \<Rightarrow> runtime_failed_run \<Rightarrow> task_state option \<Rightarrow> task_state option option" where
  "acknowledge_on_state now r st =
     (case st of None \<Rightarrow> Some None
      | Some s \<Rightarrow>
          (case map_of (failed_run_history s) (runtime_key r) of
             Some x \<Rightarrow> Some (Some (s \<lparr>failed_run_history :=
                 AList.update (runtime_key r) (acknowledge_state_record now x) (failed_run_history s)\<rparr>))
           | None \<Rightarrow>
               (case canonical_pipeline_state (rf_stage r) of None \<Rightarrow> None
                | Some ps \<Rightarrow>
                    (let x = state_record_of r ps in
                     Some (Some (s \<lparr>failed_run_history :=
                       AList.update (record_key x) (acknowledge_state_record now x)
                         (failed_run_history s)\<rparr>))))))"

definition acknowledge_on_runtime :: "string \<Rightarrow> runtime_failed_run \<Rightarrow> task_record \<Rightarrow> task_record" where
  "acknowledge_on_runtime now r t =
     (let p = t_pipeline t in
      case map_of (pr_failed_run_history p) (runtime_key r) of
        None \<Rightarrow> t
      | Some x \<Rightarrow> t \<lparr>t_pipeline := p \<lparr>pr_failed_run_history :=
            AList.update (runtime_key r) (acknowledge_runtime_record now x) (pr_failed_run_history p)\<rparr>\<rparr>)"

fun acknowledge_all ::
  "string \<Rightarrow> runtime_failed_run list \<Rightarrow> task_record \<times> task_state option \<Rightarrow>
   (task_record \<times> task_state option) option" where
  "acknowledge_all now [] ts = Some ts"
| "acknowledge_all now (r # rs) (t, st) =
     (case acknowledge_on_state now r st of None \<Rightarrow> None
      | Some st' \<Rightarrow> acknowledge_all now rs (acknowledge_on_runtime now r t, st'))"

definition mark_failed_run_operator_override ::
  "string \<Rightarrow> runtime_failed_run list option \<Rightarrow> task_record \<times> task_state option \<Rightarrow>
   (task_record \<times> task_state option) option" where
  "mark_failed_run_operator_override now records ts =
     acknowledge_all now
       (case records of Some (r # rs) \<Rightarrow> r # rs | _ \<Rightarrow> blocking_failed_run_records (fst ts)) ts"

section \<open>Run activity\<close>

definition idle_stage_state :: "string \<Rightarrow> string option \<Rightarrow> stage_marker" where
  "idle_stage_state now st =
     \<lparr>ss_stage = st, ss_status = runtime_stage_status_value Rts_IDLE, ss_started_at = None,
      ss_updated_at = Some now\<rparr>"

definition clear_task_run_activity :: "execution_status \<Rightarrow> string \<Rightarrow> bool \<Rightarrow> task_record \<Rightarrow> task_record" where
  "clear_task_run_activity st now clear_interruption t =
     t \<lparr>t_pipeline := (t_pipeline t) \<lparr>pr_execution_status := execution_status_value st,
          pr_run_started_at := None, pr_updated_at := Some now\<rparr>,
        t_execution := (t_execution t) \<lparr>xr_active_subagent := None,
          xr_interruption := (if clear_interruption then None else xr_interruption (t_execution t))\<rparr>\<rparr>"

definition set_task_commit_sha :: "string option \<Rightarrow> task_record \<Rightarrow> task_record" where
  "set_task_commit_sha sha t =
     t \<lparr>t_commit_sha := sha, t_pipeline := (t_pipeline t) \<lparr>pr_commit_sha := sha\<rparr>\<rparr>"

text \<open>\<open>last_outcome.model_copy(update={"stage": ...})\<close> of an interrupted outcome.\<close>

definition repoint_interrupted :: "string \<Rightarrow> outcome_state \<Rightarrow> outcome_state" where
  "repoint_interrupted st oc = (if os_kind oc = Some Ok_INTERRUPTED then oc \<lparr>os_stage := Some st\<rparr> else oc)"

end
