(* ===== verification/Queue_Eligibility.thy ===== *)
theory Queue_Eligibility
  imports Task_Record
begin

text \<open>
  \<open>litehive/tasks/queue_eligibility.py\<close>: which tasks may run, where an interrupted task resumes,
  what blocks a task, and the validation of dependency edges with its cycle check.
\<close>

section \<open>Resume stages\<close>

definition TERMINAL_EXECUTION_STATUSES :: "string list" where
  "TERMINAL_EXECUTION_STATUSES =
     map execution_status_value [Exe_DONE, Exe_CANCELLED, Exe_FAILED, Exe_BLOCKED, Exe_INTERRUPTED]"

definition TERMINAL_OUTCOME_KINDS :: "task_outcome_kind list" where
  "TERMINAL_OUTCOME_KINDS = [Ok_CLOSED, Ok_DUPLICATE, Ok_DEFERRED, Ok_WONT_DO]"

definition TRUSTED_STAGE_MARKER_STATUSES :: "string list" where
  "TRUSTED_STAGE_MARKER_STATUSES =
     [runtime_stage_status_value Rts_IDLE, ''paused'', runtime_stage_status_value Rts_INTERRUPTED,
      runtime_stage_status_value Rts_RUNNING]"

definition RESUMABLE_PIPELINE_STAGES :: "string list" where
  "RESUMABLE_PIPELINE_STAGES =
     map task_stage_value [Stg_GROOMING, Stg_IMPLEMENTING, Stg_TESTING, Stg_ACCEPTING, Stg_COMMIT_TO_GIT]"

definition normalize_resumable_stage_name :: "string option \<Rightarrow> string option" where
  "normalize_resumable_stage_name st =
     (case st of Some s \<Rightarrow> if s \<in> set RESUMABLE_PIPELINE_STAGES then Some s else None | None \<Rightarrow> None)"

fun first_resumable :: "string option list \<Rightarrow> string option" where
  "first_resumable [] = None"
| "first_resumable (c # cs) =
     (case normalize_resumable_stage_name c of None \<Rightarrow> first_resumable cs | Some s \<Rightarrow> Some s)"

definition resumable_queue_stage :: "task_record \<Rightarrow> string option" where
  "resumable_queue_stage t =
     (let i = xr_interruption (t_execution t); marker = pr_current_stage (t_pipeline t) in
      first_resumable
        ([Some (pipeline_status_value (t_pipeline_status t)),
          Option.bind i in_resume_stage, Option.bind i in_pipeline_status]
         @ (if ss_status marker \<in> set TRUSTED_STAGE_MARKER_STATUSES then [ss_stage marker] else [])))"

definition resumable_running_stage :: "task_record \<Rightarrow> string option" where
  "resumable_running_stage t =
     (let marker = pr_current_stage (t_pipeline t) in
      if ss_status marker = runtime_stage_status_value Rts_RUNNING \<and>
         normalize_resumable_stage_name (ss_stage marker) \<noteq> None
      then normalize_resumable_stage_name (ss_stage marker) else resumable_queue_stage t)"

definition task_has_resume_marker :: "task_record \<Rightarrow> bool" where
  "task_has_resume_marker t =
     (let st = Some (pipeline_status_value (t_pipeline_status t));
          marker = pr_current_stage (t_pipeline t) in
      (ss_stage marker = st \<and> ss_status marker \<in> set TRUSTED_STAGE_MARKER_STATUSES) \<or>
      (case xr_interruption (t_execution t) of None \<Rightarrow> False
       | Some i \<Rightarrow> in_resume_stage i = st \<or> in_pipeline_status i = st))"

section \<open>Eligibility\<close>

definition needs_manual_intervention :: "task_record \<Rightarrow> bool" where
  "needs_manual_intervention t =
     (has_blocking_failed_run_history t \<or>
      (t_status t = Tst_FLAGGED \<and>
       (t_flag_count t \<ge> 3 \<or>
        t_flag_reason t \<in> Some ` {''hook_reject_loop'', ''merge_failed'', ''rejection_loop_detected'',
                                  ''semantic_reject'', ''time_budget_exceeded''})))"

definition is_recovery_budget_exhausted :: "task_record \<Rightarrow> bool" where
  "is_recovery_budget_exhausted t =
     (t_status t = Tst_FLAGGED \<and>
      t_flag_reason t \<in> Some ` {''crash_budget_exhausted'', ''recovery_budget_exhausted'', ''recovery_failed''})"

definition should_requeue_commit_stage_task :: "task_record \<Rightarrow> bool" where
  "should_requeue_commit_stage_task t =
     (t_pipeline_status t = Pst_COMMIT_TO_GIT \<and>
      t_status t \<in> {Tst_QUEUED, Tst_IN_PROGRESS, Tst_INTERRUPTED})"

definition has_terminal_execution_status :: "task_record \<Rightarrow> bool" where
  "has_terminal_execution_status t =
     (pr_execution_status (t_pipeline t) \<in> set TERMINAL_EXECUTION_STATUSES)"

definition has_terminal_outcome_kind :: "task_record \<Rightarrow> bool" where
  "has_terminal_outcome_kind t =
     (case os_kind (pr_last_outcome (t_pipeline t)) of None \<Rightarrow> False
      | Some k \<Rightarrow> k \<in> set TERMINAL_OUTCOME_KINDS)"

definition is_parked_task :: "task_record \<Rightarrow> bool" where
  "is_parked_task t = (t_status t = Tst_PARKED)"

definition is_task_eligible_for_execution :: "task_record \<Rightarrow> bool" where
  "is_task_eligible_for_execution t =
     (if has_blocking_failed_run_history t then False
      else if has_terminal_execution_status t then False
      else if has_terminal_outcome_kind t then False
      else if t_pipeline_status t = Pst_DONE then False
      else if needs_manual_intervention t then False
      else if is_recovery_budget_exhausted t then False
      else if t_status t \<in> {Tst_QUEUED, Tst_IN_PROGRESS, Tst_FLAGGED} then True
      else t_status t = Tst_INTERRUPTED)"

definition auto_recovery_stage_for_flagged_task :: "task_record \<Rightarrow> pipeline_status" where
  "auto_recovery_stage_for_flagged_task t =
     (if t_pipeline_status t = Pst_COMMIT_TO_GIT then Pst_COMMIT_TO_GIT
      else implementation_entry_stage t)"

definition is_task_completed :: "task_record \<Rightarrow> bool" where
  "is_task_completed t = (t_status t = Tst_DONE \<and> t_pipeline_status t = Pst_DONE)"

definition is_interrupted_task :: "task_record \<Rightarrow> bool" where
  "is_interrupted_task t =
     (is_task_eligible_for_execution t \<and>
      (t_status t = Tst_IN_PROGRESS \<or> t_pipeline_status t \<noteq> Pst_BACKLOG))"

section \<open>Dependencies\<close>

type_synonym tasks = "(string, task_record) dict"

fun blockers_go :: "tasks \<Rightarrow> string list \<Rightarrow> string list \<Rightarrow> string list" where
  "blockers_go tasks seen [] = []"
| "blockers_go tasks seen (d # ds) =
     (if d \<in> set seen then blockers_go tasks seen ds
      else (case map_of tasks d of
              None \<Rightarrow> (d @ '' (missing)'') # blockers_go tasks (d # seen) ds
            | Some dep \<Rightarrow>
                (if is_task_completed dep then []
                 else [t_id dep @ '' ('' @ task_status_value (t_status dep) @ ''/'' @
                       pipeline_status_value (t_pipeline_status dep) @ '')''])
                @ blockers_go tasks (d # seen) ds))"

definition task_blockers :: "task_record \<Rightarrow> tasks \<Rightarrow> string list" where
  "task_blockers t tasks = blockers_go tasks [] (t_depends_on t)"

text \<open>The stack of the walk, its top first.\<close>

function dependency_walk :: "string \<Rightarrow> tasks \<Rightarrow> string list \<Rightarrow> string list \<Rightarrow> bool" where
  "dependency_walk tid tasks [] seen = False"
| "dependency_walk tid tasks (current # stack) seen =
     (if current = tid then True
      else if current \<in> set seen then dependency_walk tid tasks stack seen
      else (case map_of tasks current of
              None \<Rightarrow> dependency_walk tid tasks stack (current # seen)
            | Some t \<Rightarrow> dependency_walk tid tasks (rev (t_depends_on t) @ stack) (current # seen)))"
  by pat_completeness auto

termination
proof (relation "measures [\<lambda>(tid, tasks, stack, seen). card (fst ` set tasks - set seen),
                          \<lambda>(tid, tasks, stack, seen). length stack]", goal_cases)
  case (4 tid tasks current stack seen t)
  then have "current \<in> fst ` set tasks" by (force dest: map_of_SomeD)
  with 4(2) have "fst ` set tasks - set (current # seen) \<subset> fst ` set tasks - set seen" by auto
  then have "card (fst ` set tasks - set (current # seen)) < card (fst ` set tasks - set seen)"
    by (rule psubset_card_mono [rotated]) simp
  then show ?case by simp
next
  case (3 tid tasks current stack seen)
  have "card (fst ` set tasks - set (current # seen)) \<le> card (fst ` set tasks - set seen)"
    by (rule card_mono) auto
  then show ?case by auto
qed auto

definition dependency_reaches_task :: "string \<Rightarrow> string \<Rightarrow> tasks \<Rightarrow> bool" where
  "dependency_reaches_task tid dep tasks = dependency_walk tid tasks [dep] []"

datatype queue_error =
    Queue_ValueError string | Workspace_conflict string | Task_not_found string
  | Launch_failure string

fun validate_go ::
  "string \<Rightarrow> tasks \<Rightarrow> string list \<Rightarrow> string list \<Rightarrow> queue_error + unit" where
  "validate_go tid tasks seen [] = Inr ()"
| "validate_go tid tasks seen (d # ds) =
     (if d \<in> set seen then validate_go tid tasks seen ds
      else if d = tid then Inl (Queue_ValueError (''Task '' @ tid @ '' cannot depend on itself''))
      else if map_of tasks d = None then Inl (Queue_ValueError (''Task '' @ d @ '' not found''))
      else if dependency_reaches_task tid d tasks
      then Inl (Queue_ValueError (''Task '' @ tid @ '' dependency cycle detected via '' @ d))
      else validate_go tid tasks (d # seen) ds)"

definition validate_dependencies :: "string \<Rightarrow> string list \<Rightarrow> tasks \<Rightarrow> queue_error + unit" where
  "validate_dependencies tid deps tasks = validate_go tid tasks [] deps"

section \<open>What the cycle check decides\<close>

definition depends :: "tasks \<Rightarrow> (string \<times> string) set" where
  "depends tasks = {(x, y). \<exists>t. map_of tasks x = Some t \<and> y \<in> set (t_depends_on t)}"

lemma walk_sound:
  "dependency_walk tid tasks stack seen \<Longrightarrow> \<exists>c \<in> set stack. (c, tid) \<in> (depends tasks)\<^sup>*"
proof (induction tid tasks stack seen rule: dependency_walk.induct)
  case (2 tid tasks current stack seen)
  show ?case
  proof (cases "current = tid \<or> current \<in> set seen \<or> map_of tasks current = None")
    case True
    with 2 show ?thesis by (auto split: if_splits option.splits)
  next
    case False
    then obtain t where t: "map_of tasks current = Some t" by auto
    with False 2 obtain c where c: "c \<in> set (rev (t_depends_on t) @ stack)" "(c, tid) \<in> (depends tasks)\<^sup>*"
      by auto
    have "c \<in> set (t_depends_on t) \<Longrightarrow> (current, c) \<in> depends tasks" using t by (simp add: depends_def)
    with c show ?thesis by (auto intro: converse_rtrancl_into_rtrancl)
  qed
qed simp

lemma walk_complete:
  assumes "\<not> dependency_walk tid tasks stack seen" "tid \<notin> set seen"
    and "\<And>x y. x \<in> set seen \<Longrightarrow> (x, y) \<in> depends tasks \<Longrightarrow> y \<in> set seen \<union> set stack"
    and "c \<in> set seen \<union> set stack"
  shows "(c, tid) \<notin> (depends tasks)\<^sup>*"
  using assms
proof (induction tid tasks stack seen rule: dependency_walk.induct)
  case (1 tid tasks seen)
  have "(c, x) \<in> (depends tasks)\<^sup>* \<Longrightarrow> x \<in> set seen" for x
    by (induction rule: rtrancl_induct) (use 1 in auto)
  with 1 show ?case by auto
next
  case (2 tid tasks current stack seen)
  note out = 2(6)
  show ?case
  proof (cases "current \<in> set seen")
    case True
    show ?thesis
    proof (rule "2.IH"(1))
      show "current \<noteq> tid" "\<not> dependency_walk tid tasks stack seen" using 2(4) True by (auto split: if_splits)
      show "y \<in> set seen \<union> set stack" if "x \<in> set seen" "(x, y) \<in> depends tasks" for x y
        using out [OF that] True by auto
      show "c \<in> set seen \<union> set stack" using 2(7) True by auto
    qed (use 2 True in auto)
  next
    case False
    have ne: "current \<noteq> tid" using 2(4) by auto
    show ?thesis
    proof (cases "map_of tasks current")
      case None
      then have nodep: "(current, y) \<notin> depends tasks" for y by (simp add: depends_def)
      show ?thesis
      proof (rule "2.IH"(2))
        show "\<not> dependency_walk tid tasks stack (current # seen)" using 2(4) False None ne by simp
        show "y \<in> set (current # seen) \<union> set stack" if "x \<in> set (current # seen)" "(x, y) \<in> depends tasks" for x y
          using out [of x y] that nodep by auto
      qed (use 2 False None ne in auto)
    next
      case (Some t)
      have dep: "(current, y) \<in> depends tasks \<longleftrightarrow> y \<in> set (t_depends_on t)" for y
        using Some by (simp add: depends_def)
      show ?thesis
      proof (rule "2.IH"(3))
        show "\<not> dependency_walk tid tasks (rev (t_depends_on t) @ stack) (current # seen)"
          using 2(4) False Some ne by simp
        show "y \<in> set (current # seen) \<union> set (rev (t_depends_on t) @ stack)"
          if "x \<in> set (current # seen)" "(x, y) \<in> depends tasks" for x y
          using out [of x y] that dep by auto
      qed (use 2 False Some ne in auto)
    qed
  qed
qed

lemma reaches_iff: "dependency_reaches_task tid dep tasks \<longleftrightarrow> (dep, tid) \<in> (depends tasks)\<^sup>*"
  using walk_sound [of tid tasks "[dep]" "[]"] walk_complete [of tid tasks "[dep]" "[]" dep]
  by (auto simp: dependency_reaches_task_def simp del: dependency_walk.simps)

lemma validated:
  "validate_go tid tasks seen deps = Inr () \<Longrightarrow> d \<in> set deps \<Longrightarrow> d \<in> set seen \<or>
   (d \<noteq> tid \<and> map_of tasks d \<noteq> None \<and> (d, tid) \<notin> (depends tasks)\<^sup>*)"
  by (induction tid tasks seen deps rule: validate_go.induct) (auto simp: reaches_iff split: if_splits)

text \<open>Edges out of one node cannot close a cycle when none of their ends reaches that node.\<close>

lemma reach_without:
  "(x, v) \<in> (E \<union> {v} \<times> B)\<^sup>* \<Longrightarrow> (x, v) \<in> E\<^sup>*"
proof (induction rule: converse_rtrancl_induct)
  case (step y z)
  then show ?case by (cases "y = v") (auto intro: converse_rtrancl_into_rtrancl)
qed simp

lemma acyclic_fan:
  assumes "finite B" "acyclic E" "\<And>b. b \<in> B \<Longrightarrow> (b, v) \<notin> E\<^sup>*"
  shows "acyclic (E \<union> {v} \<times> B)"
  using assms(1,3)
proof (induction B rule: finite_induct)
  case (insert b B)
  have "(b, v) \<notin> (E \<union> {v} \<times> B)\<^sup>*" using reach_without [of b v E B] insert.prems by blast
  moreover have "E \<union> {v} \<times> insert b B = insert (v, b) (E \<union> {v} \<times> B)" by auto
  ultimately show ?case using insert by (simp add: acyclic_insert)
qed (simp add: assms(2))

section \<open>What blocks a task\<close>

lemma blockers_go_Nil:
  "blockers_go tasks seen ds = [] \<longleftrightarrow>
   (\<forall>d \<in> set ds. d \<in> set seen \<or> (\<exists>t. map_of tasks d = Some t \<and> is_task_completed t))"
proof (induction tasks seen ds rule: blockers_go.induct)
  case (2 tasks seen d ds)
  show ?case
  proof (cases "d \<in> set seen")
    case True
    with 2 show ?thesis by simp
  next
    case False
    with 2 show ?thesis by (cases "map_of tasks d") auto
  qed
qed simp

lemma task_blockers_Nil:
  "task_blockers t tasks = [] \<longleftrightarrow>
   (\<forall>d \<in> set (t_depends_on t). \<exists>x. map_of tasks d = Some x \<and> is_task_completed x)"
  by (simp add: task_blockers_def blockers_go_Nil)

lemma eligible_status:
  "is_task_eligible_for_execution t \<Longrightarrow>
   t_status t \<in> {Tst_QUEUED, Tst_IN_PROGRESS, Tst_FLAGGED, Tst_INTERRUPTED} \<and>
   t_pipeline_status t \<noteq> Pst_DONE \<and> \<not> needs_manual_intervention t \<and> \<not> is_recovery_budget_exhausted t"
  by (auto simp: is_task_eligible_for_execution_def split: if_splits)

text \<open>C18: The dependency validation keeps the graph acyclic: if no task of the store depends on itself
  through others and the new dependencies of a task are accepted, none does with them in place.\<close>

theorem accepted_dependencies_acyclic:
  assumes "acyclic (depends tasks)" and "validate_dependencies tid deps tasks = Inr ()"
  shows "acyclic (depends (AList.update tid (t \<lparr>t_depends_on := deps\<rparr>) tasks))"
proof (rule acyclic_subset)
  have ok: "d \<noteq> tid \<and> (d, tid) \<notin> (depends tasks)\<^sup>*" if "d \<in> set deps" for d
    using validated [OF assms(2) [unfolded validate_dependencies_def] that] by simp
  then show "acyclic (depends tasks \<union> {tid} \<times> set deps)"
    by (intro acyclic_fan assms(1)) auto
  show "depends (AList.update tid (t \<lparr>t_depends_on := deps\<rparr>) tasks) \<subseteq> depends tasks \<union> {tid} \<times> set deps"
    by (auto simp: depends_def update_conv' split: if_splits)
qed

definition idle_pipeline :: pipeline_runtime where
  "idle_pipeline =
     \<lparr>pr_commit_sha = None, pr_worktree_path = None, pr_execution_status = ''idle'', pr_run_started_at = None,
      pr_updated_at = None, pr_retry_count = 0, pr_retry_limit = 0,
      pr_current_stage = \<lparr>ss_stage = None, ss_status = ''idle'', ss_started_at = None, ss_updated_at = None\<rparr>,
      pr_consecutive_same_hook_rejects = 0, pr_last_hook_reject_fingerprint = None,
      pr_hook_reject_recovery_invoked = False, pr_recovery_history = [],
      pr_failed_run_history = [], pr_last_outcome = empty_outcome\<rparr>"

definition demo_record :: "string \<Rightarrow> string list \<Rightarrow> task_status \<Rightarrow> pipeline_status \<Rightarrow> task_record" where
  "demo_record tid deps st ps =
     \<lparr>t_id = tid, t_title = tid, t_depends_on = deps, t_mode = FULL, t_status = st,
      t_close_reason = None, t_flag_reason = None, t_flag_count = 0, t_pipeline_status = ps,
      t_priority = ''medium'', t_goal = [], t_acceptance_criteria = [], t_constraints = [], t_plan = [],
      t_model = None, t_max_retries = None, t_auto_commit = True,
      t_commit_sha = None, t_worktree_path = None, t_pipeline = idle_pipeline,
      t_execution = \<lparr>xr_active_subagent = None, xr_interruption = None\<rparr>\<rparr>"

definition demo_tasks :: tasks where
  "demo_tasks = [(''T1'', demo_record ''T1'' [] Tst_QUEUED Pst_BACKLOG),
                 (''T2'', demo_record ''T2'' [''T1''] Tst_QUEUED Pst_BACKLOG)]"

lemma demo_depends: "depends demo_tasks = {(''T2'', ''T1'')}"
  by (auto simp: depends_def demo_tasks_def demo_record_def split: if_splits)

lemma accepted_dependencies_acyclic_witness:
  "acyclic (depends (AList.update ''T3'' (demo_record ''T3'' [''T2'', ''T1''] Tst_QUEUED Pst_BACKLOG) demo_tasks)) \<and>
   validate_dependencies ''T1'' [''T2''] demo_tasks =
     Inl (Queue_ValueError ''Task T1 dependency cycle detected via T2'')"
proof
  have "acyclic (depends demo_tasks)" unfolding demo_depends by (auto simp: acyclic_insert acyclic_def [of "{}"])
  moreover have "validate_dependencies ''T3'' [''T2'', ''T1''] demo_tasks = Inr ()" by code_simp
  ultimately have "acyclic (depends (AList.update ''T3''
      (demo_record ''T3'' [] Tst_QUEUED Pst_BACKLOG \<lparr>t_depends_on := [''T2'', ''T1'']\<rparr>) demo_tasks))"
    by (rule accepted_dependencies_acyclic)
  then show "acyclic (depends (AList.update ''T3''
      (demo_record ''T3'' [''T2'', ''T1''] Tst_QUEUED Pst_BACKLOG) demo_tasks))"
    by (simp add: demo_record_def)
qed code_simp

end
