(* ===== verification/Queue_Ops.thy ===== *)
theory Queue_Ops
  imports Queue_Eligibility
begin

text \<open>
  Changes of the workspace queue: the operations of \<open>TaskQueueService\<close> in \<open>litehive/tasks/queue.py\<close>,
  the mutations of \<open>tasks/queue_mutations.py\<close>, the active-task markers and the guards built on
  them (\<open>tasks/queue_selection.py\<close>, \<open>state/locking.py\<close>), and the merge of a runner's queue with
  concurrent edits in \<open>state/persist.py\<close>. Locks, files and audit rows are not modelled: an operation
  maps the loaded state to the state it saves, or to the error it raises.
\<close>

record workspace_state =
  ws_active_task_id :: "string option"
  ws_queue :: "string list"
  ws_pool_stop_reason :: "string option"
  ws_consecutive_task_failures :: int
  ws_next_task_number :: int
  ws_unmerged_worktrees :: "string list"

section \<open>Active-task markers\<close>

definition add_marker :: "string \<Rightarrow> string \<Rightarrow> (string, string list) dict \<Rightarrow> (string, string list) dict" where
  "add_marker tid m markers = AList.update tid (dict_get tid [] markers @ [m]) markers"

definition running :: "task_record \<Rightarrow> bool" where
  "running t = (pr_execution_status (t_pipeline t) = execution_status_value Exe_RUNNING)"

definition mark_task :: "task_record \<Rightarrow> (string, string list) dict \<Rightarrow> (string, string list) dict" where
  "mark_task t markers =
     (let m1 = (if t_status t = Tst_IN_PROGRESS \<and> t_pipeline_status t \<noteq> Pst_DONE \<and>
                   is_task_eligible_for_execution t
                then add_marker (t_id t) ''task.status=in_progress'' markers else markers)
      in if running t then add_marker (t_id t) ''runtime.pipeline.execution_status=running'' m1 else m1)"

definition active_task_markers :: "tasks \<Rightarrow> workspace_state \<Rightarrow> (string, string list) dict" where
  "active_task_markers tasks ws =
     fold (\<lambda>(i, t). mark_task t) tasks
       (case ws_active_task_id ws of None \<Rightarrow> []
        | Some a \<Rightarrow>
            (case map_of tasks a of None \<Rightarrow> []
             | Some t \<Rightarrow> if is_task_eligible_for_execution t \<or> running t
                         then [(a, [''workspace.active_task_id''])] else []))"

definition format_active_task_markers :: "(string, string list) dict \<Rightarrow> string" where
  "format_active_task_markers markers =
     py_join ''; '' (map (\<lambda>(i, ms). i @ '' ('' @ py_join '', '' ms @ '')'') (sort_key fst markers))"

definition validate_single_active_task :: "tasks \<Rightarrow> workspace_state \<Rightarrow> queue_error + unit" where
  "validate_single_active_task tasks ws =
     (let markers = active_task_markers tasks ws in
      if length markers \<le> 1 then Inr ()
      else Inl (Workspace_conflict (''workspace has multiple active tasks: '' @
             format_active_task_markers markers @
             ''. Clear the stale active task state before running again.'')))"

definition future_mutation_conflict ::
  "tasks \<Rightarrow> (string, string list) dict \<Rightarrow> string \<Rightarrow> string list" where
  "future_mutation_conflict tasks markers tid =
     (case map_of markers tid of None \<Rightarrow> []
      | Some ms \<Rightarrow>
          (let harmless = (case map_of tasks tid of None \<Rightarrow> False
             | Some t \<Rightarrow> \<not> running t \<and>
                 ((set ms = {''workspace.active_task_id''} \<and> \<not> is_task_eligible_for_execution t) \<or>
                  set ms = {''task.status=in_progress''}))
           in if harmless then [] else [tid @ '' ('' @ py_join '', '' ms @ '')'']))"

definition ensure_future_task_mutation_allowed ::
  "string list \<Rightarrow> tasks \<Rightarrow> workspace_state \<Rightarrow> queue_error + unit" where
  "ensure_future_task_mutation_allowed ids tasks ws =
     (let conflicts = concat (map (future_mutation_conflict tasks (active_task_markers tasks ws)) ids) in
      if conflicts = [] then Inr ()
      else Inl (Workspace_conflict
        (''runner is actively using task state that cannot be changed concurrently: '' @
         py_join ''; '' conflicts)))"

section \<open>Reordering the queue\<close>

definition guarded ::
  "string list \<Rightarrow> tasks \<Rightarrow> workspace_state \<Rightarrow> queue_error + workspace_state \<Rightarrow>
   queue_error + workspace_state" where
  "guarded ids tasks ws result =
     (case ensure_future_task_mutation_allowed ids tasks ws of Inl err \<Rightarrow> Inl err | Inr _ \<Rightarrow> result)"

definition without :: "string \<Rightarrow> string list \<Rightarrow> string list" where
  "without tid queue = filter (\<lambda>i. i \<noteq> tid) queue"

definition enqueue :: "tasks \<Rightarrow> string \<Rightarrow> bool \<Rightarrow> workspace_state \<Rightarrow> queue_error + workspace_state" where
  "enqueue tasks tid front ws =
     guarded [tid] tasks ws
       (if map_of tasks tid = None then Inl (Task_not_found tid)
        else Inr (ws \<lparr>ws_queue := (if front then tid # without tid (ws_queue ws)
                                   else without tid (ws_queue ws) @ [tid])\<rparr>))"

definition insert_at :: "nat \<Rightarrow> 'a \<Rightarrow> 'a list \<Rightarrow> 'a list" where
  "insert_at i x xs = take i xs @ x # drop i xs"

definition move :: "tasks \<Rightarrow> string \<Rightarrow> int \<Rightarrow> workspace_state \<Rightarrow> queue_error + workspace_state" where
  "move tasks tid position ws =
     (if position < 1 then Inl (Queue_ValueError ''Queue position must be 1 or greater'')
      else guarded [tid] tasks ws
        (if map_of tasks tid = None then Inl (Task_not_found tid)
         else if tid \<notin> set (ws_queue ws)
         then Inl (Queue_ValueError (''Task '' @ tid @ '' is not queued''))
         else (let queue = without tid (ws_queue ws);
                   target = min (position - 1) (int (length queue))
               in Inr (ws \<lparr>ws_queue := insert_at (nat target) tid queue\<rparr>))))"

fun duplicates_of :: "string list \<Rightarrow> string list \<Rightarrow> string list" where
  "duplicates_of seen [] = []"
| "duplicates_of seen (x # xs) =
     (if x \<in> set seen then x # duplicates_of seen xs else duplicates_of (x # seen) xs)"

definition prioritize :: "tasks \<Rightarrow> string list \<Rightarrow> workspace_state \<Rightarrow> queue_error + workspace_state" where
  "prioritize tasks ids ws =
     (if ids = [] then Inl (Queue_ValueError ''At least one task id is required'')
      else if duplicates_of [] ids \<noteq> []
      then Inl (Queue_ValueError (''Task ids must be unique: '' @
             py_join '', '' (sort (remdups (duplicates_of [] ids)))))
      else guarded ids tasks ws
        (let missing = filter (\<lambda>i. i \<notin> set (ws_queue ws)) ids in
         if missing \<noteq> [] then Inl (Queue_ValueError (''Tasks are not queued: '' @ py_join '', '' missing))
         else (case find (\<lambda>i. map_of tasks i = None) ids of
                 Some i \<Rightarrow> Inl (Task_not_found i)
               | None \<Rightarrow> Inr (ws \<lparr>ws_queue := ids @ filter (\<lambda>i. i \<notin> set ids) (ws_queue ws)\<rparr>))))"

definition enqueue_recovered_task :: "string \<Rightarrow> workspace_state \<Rightarrow> workspace_state" where
  "enqueue_recovered_task tid ws = ws \<lparr>ws_queue := without tid (ws_queue ws) @ [tid]\<rparr>"

definition drop_task_from_workspace_state :: "string \<Rightarrow> workspace_state \<Rightarrow> bool \<times> workspace_state" where
  "drop_task_from_workspace_state tid ws =
     (let ws' = ws \<lparr>ws_active_task_id := (if ws_active_task_id ws = Some tid then None else ws_active_task_id ws),
                    ws_queue := without tid (ws_queue ws),
                    ws_unmerged_worktrees := without tid (ws_unmerged_worktrees ws)\<rparr>
      in (ws_active_task_id ws = Some tid \<or> tid \<in> set (ws_queue ws) \<or>
          length (ws_unmerged_worktrees ws') \<noteq> length (ws_unmerged_worktrees ws), ws'))"

section \<open>Merging with concurrent edits\<close>

definition unprotected_before :: "string list \<Rightarrow> string list \<Rightarrow> nat \<Rightarrow> nat" where
  "unprotected_before protected desired i = length (filter (\<lambda>t. t \<notin> set protected) (take i desired))"

definition protected_positions :: "string list \<Rightarrow> string list \<Rightarrow> (nat \<times> string) list" where
  "protected_positions protected desired =
     map (\<lambda>(i, t). (unprotected_before protected desired i, t))
       (filter (\<lambda>(i, t). t \<in> set protected) (enumerate 0 desired))"

fun splice ::
  "(nat \<times> string) list \<Rightarrow> nat \<Rightarrow> string list \<Rightarrow> string list \<Rightarrow> string list" where
  "splice [] inserted ids merged = merged"
| "splice ((before, t) # ps) inserted ids merged =
     (if t \<in> set ids then splice ps inserted ids merged
      else splice ps (inserted + 1) (t # ids)
             (insert_at (min (before + inserted) (length merged)) t merged))"

definition merge_queue_preserving_future_changes ::
  "string list \<Rightarrow> string list \<Rightarrow> string list \<Rightarrow> string list" where
  "merge_queue_preserving_future_changes desired latest protected =
     (if protected = [] then desired
      else splice (protected_positions protected desired) 0 []
             (filter (\<lambda>t. t \<notin> set protected) latest))"

definition merged_state_for_runner_owned_write ::
  "workspace_state \<Rightarrow> workspace_state \<Rightarrow> string list \<Rightarrow> workspace_state" where
  "merged_state_for_runner_owned_write ws latest protected =
     ws \<lparr>ws_queue := merge_queue_preserving_future_changes (ws_queue ws) (ws_queue latest) protected,
         ws_next_task_number := max (ws_next_task_number ws) (ws_next_task_number latest)\<rparr>"

section \<open>Pool counters\<close>

definition CONSECUTIVE_TASK_FAILURE_LIMIT :: int where
  "CONSECUTIVE_TASK_FAILURE_LIMIT = 3"

definition CONSECUTIVE_TASK_FAILURE_STOP_REASON :: string where
  "CONSECUTIVE_TASK_FAILURE_STOP_REASON = ''consecutive_task_failures''"

definition set_pool_stop_reason :: "string option \<Rightarrow> workspace_state \<Rightarrow> workspace_state" where
  "set_pool_stop_reason reason ws =
     ws \<lparr>ws_consecutive_task_failures :=
           (if reason = None \<and> ws_pool_stop_reason ws = Some CONSECUTIVE_TASK_FAILURE_STOP_REASON
            then 0 else ws_consecutive_task_failures ws),
         ws_pool_stop_reason := reason\<rparr>"

definition record_task_completion :: "pipeline_state option \<Rightarrow> workspace_state \<Rightarrow> workspace_state" where
  "record_task_completion final_stage ws =
     (if final_stage = Some DONE then ws \<lparr>ws_consecutive_task_failures := 0\<rparr>
      else (let n = max 0 (ws_consecutive_task_failures ws) + 1 in
            ws \<lparr>ws_consecutive_task_failures := n,
                ws_pool_stop_reason := (if n \<ge> CONSECUTIVE_TASK_FAILURE_LIMIT
                  then Some CONSECUTIVE_TASK_FAILURE_STOP_REASON else ws_pool_stop_reason ws)\<rparr>))"

section \<open>Rewinding a task\<close>

definition reset_task_for_recovery ::
  "string \<Rightarrow> task_status \<Rightarrow> pipeline_status \<Rightarrow> bool \<Rightarrow> task_record \<Rightarrow> task_record" where
  "reset_task_for_recovery now st ps clear_last_outcome t =
     (let t1 = clear_task_run_activity Exe_IDLE now True
                 (t \<lparr>t_status := st, t_close_reason := None, t_flag_reason := None, t_pipeline_status := ps\<rparr>);
          p = t_pipeline t1
      in t1 \<lparr>t_pipeline := p \<lparr>pr_retry_count := 0, pr_retry_limit := 0,
               pr_current_stage := idle_stage_state now (Some (pipeline_status_value ps)),
               pr_last_outcome := (if clear_last_outcome then empty_outcome
                 else repoint_interrupted (pipeline_status_value ps) (pr_last_outcome p))\<rparr>\<rparr>)"

definition prepare_completed_task_for_recovery :: "string \<Rightarrow> pipeline_status \<Rightarrow> task_record \<Rightarrow> task_record" where
  "prepare_completed_task_for_recovery now ps t =
     set_task_commit_sha None (reset_task_for_recovery now Tst_QUEUED ps True t)"

definition canonicalize_resumable_queue_task ::
  "string \<Rightarrow> string option \<Rightarrow> task_record \<Rightarrow> (string option \<times> task_record)" where
  "canonicalize_resumable_queue_task now st t =
     (case (if st \<noteq> None then normalize_resumable_stage_name st else resumable_queue_stage t) of
        None \<Rightarrow> (None, t)
      | Some target \<Rightarrow>
          (let t1 = clear_task_run_activity Exe_IDLE now False t; p = t_pipeline t1
           in (Some target,
               t1 \<lparr>t_status := Tst_QUEUED, t_close_reason := None, t_flag_reason := None,
                   t_pipeline_status :=
                     the (enum_parse pipeline_status_value pipeline_status_members target),
                   t_pipeline := p \<lparr>pr_current_stage := idle_stage_state now (Some target),
                     pr_last_outcome := repoint_interrupted target (pr_last_outcome p)\<rparr>\<rparr>)))"

section \<open>Where tasks end up\<close>

lemma filter_insert_at: "\<not> Q x \<Longrightarrow> filter Q (insert_at i x xs) = filter Q xs"
  unfolding insert_at_def by simp (metis append_take_drop_id filter_append)

lemma set_insert_at: "set (insert_at i x xs) = insert x (set xs)"
  unfolding insert_at_def by simp (metis append_take_drop_id set_append)

lemma distinct_insert_at: "distinct (insert_at i x xs) \<longleftrightarrow> x \<notin> set xs \<and> distinct xs"
proof -
  have "distinct (insert_at i x xs) \<longleftrightarrow> x \<notin> set (take i xs @ drop i xs) \<and> distinct (take i xs @ drop i xs)"
    by (auto simp: insert_at_def simp del: append_take_drop_id)
  then show ?thesis by simp
qed

lemma nth_insert_at: "i \<le> length xs \<Longrightarrow> insert_at i x xs ! i = x"
  by (simp add: insert_at_def nth_append)

lemma length_without: "distinct q \<Longrightarrow> tid \<in> set q \<Longrightarrow> length (without tid q) = length q - 1"
proof -
  have [simp]: "tid \<notin> set q \<Longrightarrow> filter (\<lambda>i. i \<noteq> tid) q = q" for q by (induction q) auto
  have "distinct q \<Longrightarrow> tid \<in> set q \<Longrightarrow> Suc (length (without tid q)) = length q"
    unfolding without_def by (induction q) auto
  then show "distinct q \<Longrightarrow> tid \<in> set q \<Longrightarrow> length (without tid q) = length q - 1" by simp
qed

lemma guarded_Inr: "guarded ids tasks ws r = Inr ws' \<Longrightarrow> r = Inr ws'"
  by (simp add: guarded_def split: sum.splits)

text \<open>Moving a queued task puts it at the requested position, or last when the position lies past the
  end, and changes nothing else of the queue: the other tasks keep their order.\<close>

lemma move_places_task:
  assumes "move tasks tid position ws = Inr ws'" and "distinct (ws_queue ws)"
  shows "ws_queue ws' ! nat (min (position - 1) (int (length (ws_queue ws)) - 1)) = tid \<and>
         without tid (ws_queue ws') = without tid (ws_queue ws) \<and>
         distinct (ws_queue ws') \<and> set (ws_queue ws') = set (ws_queue ws)"
proof -
  let ?q = "without tid (ws_queue ws)" let ?i = "nat (min (position - 1) (int (length ?q)))"
  from assms(1) have q: "tid \<in> set (ws_queue ws)" "ws' = ws \<lparr>ws_queue := insert_at ?i tid ?q\<rparr>" "position \<ge> 1"
    by (auto simp: move_def Let_def split: if_splits dest!: guarded_Inr)
  have len: "length ?q = length (ws_queue ws) - 1" using length_without assms(2) q(1) by blast
  moreover have "length (ws_queue ws) \<ge> 1" using q(1) by (cases "ws_queue ws") auto
  ultimately have i: "?i = nat (min (position - 1) (int (length (ws_queue ws)) - 1))" by simp
  have "insert_at ?i tid ?q ! ?i = tid" by (rule nth_insert_at) simp
  moreover have "without tid (insert_at ?i tid ?q) = ?q"
    unfolding without_def by (subst filter_insert_at) simp_all
  moreover have "distinct (insert_at ?i tid ?q)" using assms(2) by (simp add: distinct_insert_at without_def)
  moreover have "set (insert_at ?i tid ?q) = set (ws_queue ws)"
    using q(1) by (auto simp: set_insert_at without_def)
  ultimately show ?thesis unfolding i [symmetric] q(2) by simp
qed

definition demo_ws :: "string list \<Rightarrow> workspace_state" where
  "demo_ws q = \<lparr>ws_active_task_id = None, ws_queue = q, ws_pool_stop_reason = None,
     ws_consecutive_task_failures = 0, ws_next_task_number = 3, ws_unmerged_worktrees = []\<rparr>"

lemma move_places_task_witness:
  "\<exists>ws'. move demo_tasks ''T2'' 1 (demo_ws [''T1'', ''T2'']) = Inr ws' \<and> ws_queue ws' ! 0 = ''T2'' \<and>
     set (ws_queue ws') = {''T1'', ''T2''}"
proof -
  have m: "move demo_tasks ''T2'' 1 (demo_ws [''T1'', ''T2'']) = Inr (demo_ws [''T2'', ''T1''])" by code_simp
  from move_places_task [OF m] m show ?thesis by (simp add: demo_ws_def)
qed

lemma duplicates_distinct: "duplicates_of seen xs = [] \<Longrightarrow> distinct xs \<and> set xs \<inter> set seen = {}"
  by (induction seen xs rule: duplicates_of.induct) (auto split: if_splits)

text \<open>Prioritizing puts the given tasks, in the given order, at the front; every other queued task
  keeps its relative order, and no task enters, leaves or is doubled.\<close>

lemma prioritize_fronts_tasks:
  assumes "prioritize tasks ids ws = Inr ws'" and "distinct (ws_queue ws)"
  shows "take (length ids) (ws_queue ws') = ids \<and>
         drop (length ids) (ws_queue ws') = filter (\<lambda>i. i \<notin> set ids) (ws_queue ws) \<and>
         distinct (ws_queue ws') \<and> set (ws_queue ws') = set (ws_queue ws)"
proof -
  from assms(1) have dup: "duplicates_of [] ids = []" by (auto simp: prioritize_def split: if_splits)
  from assms(1) have "filter (\<lambda>i. i \<notin> set (ws_queue ws)) ids = [] \<and>
      ws_queue ws' = ids @ filter (\<lambda>i. i \<notin> set ids) (ws_queue ws)"
    by (auto simp: prioritize_def Let_def split: if_splits option.splits dest!: guarded_Inr)
  with assms(2) duplicates_distinct [OF dup] show ?thesis by (auto simp: filter_empty_conv)
qed

lemma prioritize_fronts_tasks_witness:
  "\<exists>ws'. prioritize demo_tasks [''T2''] (demo_ws [''T1'', ''T2'']) = Inr ws' \<and> ws_queue ws' = [''T2'', ''T1'']"
proof -
  have m: "prioritize demo_tasks [''T2''] (demo_ws [''T1'', ''T2'']) = Inr (demo_ws [''T2'', ''T1''])"
    by code_simp
  from prioritize_fronts_tasks [OF m] m show ?thesis by (simp add: demo_ws_def)
qed

section \<open>The merge\<close>

lemma splice_unprotected:
  "(\<forall>p \<in> set ps. snd p \<in> set prot) \<Longrightarrow>
   filter (\<lambda>t. t \<notin> set prot) (splice ps n ids merged) = filter (\<lambda>t. t \<notin> set prot) merged"
  by (induction ps n ids merged rule: splice.induct) (auto simp: filter_insert_at)

lemma splice_set: "set (splice ps n ids merged) = set merged \<union> (snd ` set ps - set ids)"
  by (induction ps n ids merged rule: splice.induct) (auto simp: set_insert_at)

lemma splice_distinct:
  "\<lbrakk>distinct merged; set merged \<inter> snd ` set ps \<subseteq> set ids\<rbrakk> \<Longrightarrow> distinct (splice ps n ids merged)"
proof (induction ps n ids merged rule: splice.induct)
  case (2 before t ps inserted ids merged)
  then show ?case by (auto simp: distinct_insert_at set_insert_at)
qed simp

lemma protected_positions_snd: "snd ` set (protected_positions prot desired) = set desired \<inter> set prot"
proof -
  have "snd ` set (enumerate 0 desired) = set desired"
    by (metis map_snd_enumerate set_map)
  moreover have "snd ` set (map (\<lambda>(i, t). (f i, t)) (filter (\<lambda>(i, t). t \<in> set prot) xs)) =
      snd ` set xs \<inter> set prot" for f :: "nat \<Rightarrow> nat" and xs :: "(nat \<times> string) list"
    by (induction xs) auto
  ultimately show ?thesis by (simp add: protected_positions_def)
qed

lemma splice_self:
  assumes "distinct (pre @ suf)" "set ids \<inter> set suf = {}"
  shows "splice (map (\<lambda>(i, t). (unprotected_before prot (pre @ suf) i, t))
             (filter (\<lambda>(i, t). t \<in> set prot) (enumerate (length pre) suf)))
           (length (filter (\<lambda>t. t \<in> set prot) pre)) ids (pre @ filter (\<lambda>t. t \<notin> set prot) suf) = pre @ suf"
  using assms
proof (induction suf arbitrary: pre ids)
  case (Cons t suf)
  have d: "distinct ((pre @ [t]) @ suf)" using Cons.prems(1) by simp
  show ?case
  proof (cases "t \<in> set prot")
    case False
    with Cons.IH [OF d, of ids] Cons.prems(2) show ?thesis by simp
  next
    case True
    have "length (filter (\<lambda>t. t \<notin> set prot) pre) + length (filter (\<lambda>t. t \<in> set prot) pre) = length pre"
      using sum_length_filter_compl [of "\<lambda>t. t \<in> set prot" pre] by simp
    then have i: "unprotected_before prot (pre @ t # suf) (length pre) +
        length (filter (\<lambda>t. t \<in> set prot) pre) = length pre" by (simp add: unprotected_before_def)
    have "set (t # ids) \<inter> set suf = {}" using Cons.prems by auto
    from Cons.IH [OF d this] True Cons.prems(2) i show ?thesis by (simp add: insert_at_def)
  qed
qed simp

text \<open>C21: When a runner saves its queue, everyone else's edits win for the tasks it did not touch: those are
  exactly the ones in the latest saved queue, in that order. The runner decides only which of its
  protected tasks are queued. Without concurrent edits the runner's own queue is written.\<close>

theorem merge_preserves_edits:
  assumes "protected \<noteq> []"
  shows "filter (\<lambda>t. t \<notin> set protected) (merge_queue_preserving_future_changes desired latest protected) =
           filter (\<lambda>t. t \<notin> set protected) latest \<and>
         set (merge_queue_preserving_future_changes desired latest protected) \<inter> set protected =
           set desired \<inter> set protected \<and>
         (distinct latest \<longrightarrow> distinct (merge_queue_preserving_future_changes desired latest protected)) \<and>
         (distinct desired \<longrightarrow> merge_queue_preserving_future_changes desired desired protected = desired)"
proof -
  let ?ps = "protected_positions protected desired" let ?l = "filter (\<lambda>t. t \<notin> set protected) latest"
  have in_prot: "\<forall>p \<in> set ?ps. snd p \<in> set protected" using protected_positions_snd [of protected desired] by auto
  have "distinct latest \<Longrightarrow> distinct (splice ?ps 0 [] ?l)"
    by (rule splice_distinct) (auto simp: protected_positions_snd)
  moreover have "distinct desired \<Longrightarrow>
      splice ?ps 0 [] (filter (\<lambda>t. t \<notin> set protected) desired) = desired"
    using splice_self [of "[]" desired "[]" protected] by (simp add: protected_positions_def)
  ultimately show ?thesis
    using assms splice_unprotected [OF in_prot] splice_set [of ?ps 0 "[]" ?l]
    by (auto simp: merge_queue_preserving_future_changes_def protected_positions_snd)
qed

lemma merge_preserves_edits_witness:
  "filter (\<lambda>t. t \<notin> {''A''}) (merge_queue_preserving_future_changes [''A'', ''B''] [''C'', ''B''] [''A'']) = [''C'', ''B''] \<and>
   merge_queue_preserving_future_changes [''A'', ''B''] [''C'', ''B''] [''A''] = [''A'', ''C'', ''B'']"
proof
  show "filter (\<lambda>t. t \<notin> {''A''}) (merge_queue_preserving_future_changes [''A'', ''B''] [''C'', ''B''] [''A'']) = [''C'', ''B'']"
    using merge_preserves_edits [of "[''A'']" "[''A'', ''B'']" "[''C'', ''B'']"] by simp
qed code_simp

end
