(* ===== verification/Queue_Selection.thy ===== *)
theory Queue_Selection
  imports Queue_Ops
begin

text \<open>
  \<open>litehive/tasks/queue_selection.py\<close>: how the next task is picked. Stale pipeline stages are
  normalized, resumable tasks that fell off the queue are put back, the active task goes first, and
  among the ready candidates the smallest selection key wins. \<open>dequeue\<close> is the runner's pickup with
  the state it writes. Tasks are a dict from id to record in store order.
\<close>

section \<open>Normalizing stale stages\<close>

definition live_active_pipeline_stage :: "workspace_state \<Rightarrow> tasks \<Rightarrow> string option" where
  "live_active_pipeline_stage ws tasks =
     (case ws_active_task_id ws of None \<Rightarrow> None
      | Some a \<Rightarrow>
          (case map_of tasks a of None \<Rightarrow> None
           | Some t \<Rightarrow>
               (let marker = pr_current_stage (t_pipeline t) in
                if running t \<or> ss_status marker = runtime_stage_status_value Rts_RUNNING
                then Some (opt_str_or (ss_stage marker) (pipeline_status_value (t_pipeline_status t)))
                else None)))"

definition is_stale :: "workspace_state \<Rightarrow> string option \<Rightarrow> task_record \<Rightarrow> bool" where
  "is_stale ws active_stage t =
     (Some (t_id t) \<noteq> ws_active_task_id ws \<and> t_pipeline_status t \<noteq> Pst_BACKLOG \<and>
      \<not> (active_stage = Some (pipeline_status_value (t_pipeline_status t))) \<and>
      t_status t = Tst_QUEUED \<and> \<not> task_has_resume_marker t)"

definition normalize_stale :: "string \<Rightarrow> task_record \<Rightarrow> task_record" where
  "normalize_stale now t =
     (let p = t_pipeline t in
      t \<lparr>t_pipeline_status := Pst_BACKLOG,
         t_pipeline := p \<lparr>pr_current_stage := idle_stage_state now (Some ''backlog''),
           pr_updated_at := Some now,
           pr_last_outcome := repoint_interrupted ''backlog'' (pr_last_outcome p)\<rparr>\<rparr>)"

definition normalize_stale_pipeline_statuses ::
  "string \<Rightarrow> workspace_state \<Rightarrow> tasks \<Rightarrow> tasks \<times> string list" where
  "normalize_stale_pipeline_statuses now ws tasks =
     (let active_stage = live_active_pipeline_stage ws tasks in
      (map (\<lambda>(i, t). (i, if is_stale ws active_stage t then normalize_stale now t else t)) tasks,
       map (\<lambda>(i, t). t_id t) (filter (\<lambda>(i, t). is_stale ws active_stage t) tasks)))"

section \<open>Restoring tasks that fell off the queue\<close>

definition restored_front :: "workspace_state \<Rightarrow> tasks \<Rightarrow> string list" where
  "restored_front ws tasks =
     map fst (filter (\<lambda>(i, t). is_task_eligible_for_execution t \<and> Some i \<noteq> ws_active_task_id ws \<and>
        i \<notin> set (ws_queue ws) \<and> (t_status t = Tst_IN_PROGRESS \<or> resumable_queue_stage t \<noteq> None)) tasks)"

definition restore_missing_queued_tasks :: "workspace_state \<Rightarrow> tasks \<Rightarrow> workspace_state" where
  "restore_missing_queued_tasks ws tasks = ws \<lparr>ws_queue := restored_front ws tasks @ ws_queue ws\<rparr>"

section \<open>The selection key\<close>

definition eligible_ids :: "string list \<Rightarrow> tasks \<Rightarrow> string list" where
  "eligible_ids queue tasks =
     remdups (filter (\<lambda>i. case map_of tasks i of None \<Rightarrow> False
                          | Some t \<Rightarrow> is_task_eligible_for_execution t) queue)"

definition dependents :: "string list \<Rightarrow> tasks \<Rightarrow> string \<Rightarrow> string list" where
  "dependents queue tasks i =
     (if i \<notin> set (eligible_ids queue tasks) then []
      else filter (\<lambda>q. case map_of tasks q of None \<Rightarrow> False | Some t \<Rightarrow> i \<in> set (t_depends_on t))
             (eligible_ids queue tasks))"

lemma dependents_subset: "set (dependents queue tasks i) \<subseteq> set queue"
  by (auto simp: dependents_def eligible_ids_def)

function count_walk :: "string list \<Rightarrow> tasks \<Rightarrow> string list \<Rightarrow> string list \<Rightarrow> int" where
  "count_walk queue tasks [] seen = 0"
| "count_walk queue tasks (d # stack) seen =
     (if d \<in> set seen then count_walk queue tasks stack seen
      else 1 + count_walk queue tasks (rev (dependents queue tasks d) @ stack) (d # seen))"
  by pat_completeness auto

termination
proof (relation "measures [\<lambda>(queue, tasks, stack, seen). card ((set queue \<union> set stack) - set seen),
                          \<lambda>(queue, tasks, stack, seen). length stack]", goal_cases)
  case (2 queue tasks d stack seen)
  then have "(set queue \<union> set (d # stack)) - set seen = (set queue \<union> set stack) - set seen" by auto
  then show ?case by simp
next
  case (3 queue tasks d stack seen)
  have "(set queue \<union> set (rev (dependents queue tasks d) @ stack)) - set (d # seen)
      \<subset> (set queue \<union> set (d # stack)) - set seen"
    using 3 dependents_subset [of queue tasks d] by auto
  then have "card ((set queue \<union> set (rev (dependents queue tasks d) @ stack)) - set (d # seen))
      < card ((set queue \<union> set (d # stack)) - set seen)" by (rule psubset_card_mono [rotated]) simp
  then show ?case by simp
qed simp

definition dependent_task_count :: "string \<Rightarrow> string list \<Rightarrow> tasks \<Rightarrow> int" where
  "dependent_task_count tid queue tasks = count_walk queue tasks (rev (dependents queue tasks tid)) []"

type_synonym selection_key = "int \<times> int \<times> int \<times> string"

definition task_selection_key :: "task_record \<Rightarrow> int \<Rightarrow> string list \<Rightarrow> tasks \<Rightarrow> selection_key" where
  "task_selection_key t queue_index queue tasks =
     (queue_index, - dependent_task_count (t_id t) queue tasks,
      if is_interrupted_task t then 0 else 1, t_id t)"

section \<open>Resolving the next task\<close>

record blocked_task =
  bt_task_id :: string
  bt_title :: string
  bt_queue_position :: int
  bt_blocked_by :: "string list"

record scan =
  sc_queue :: "string list"
  sc_blocked :: "blocked_task list"
  sc_blocked_ids :: "string list"
  sc_mutated :: bool
  sc_ready :: "(selection_key \<times> task_record) list"

definition scan_step :: "tasks \<Rightarrow> int \<Rightarrow> string \<Rightarrow> scan \<Rightarrow> scan" where
  "scan_step tasks index next_id sc =
     (case map_of tasks next_id of
        None \<Rightarrow> sc \<lparr>sc_queue := remove1 next_id (sc_queue sc), sc_mutated := True\<rparr>
      | Some t \<Rightarrow>
          if \<not> is_task_eligible_for_execution t
          then sc \<lparr>sc_queue := remove1 next_id (sc_queue sc), sc_mutated := True\<rparr>
          else (let blockers = task_blockers t tasks in
                if blockers \<noteq> [] then
                  (if t_id t \<in> set (sc_blocked_ids sc) then sc
                   else sc \<lparr>sc_blocked := sc_blocked sc @ [\<lparr>bt_task_id = t_id t, bt_title = t_title t,
                              bt_queue_position = index, bt_blocked_by = blockers\<rparr>],
                            sc_blocked_ids := t_id t # sc_blocked_ids sc\<rparr>)
                else sc \<lparr>sc_ready := sc_ready sc @
                           [(task_selection_key t index (sc_queue sc) tasks, t)]\<rparr>))"

fun scan_queue :: "tasks \<Rightarrow> int \<Rightarrow> string list \<Rightarrow> scan \<Rightarrow> scan" where
  "scan_queue tasks index [] sc = sc"
| "scan_queue tasks index (i # is) sc = scan_queue tasks (index + 1) is (scan_step tasks index i sc)"

text \<open>The active task first: picked, or put back to the queue as blocked, or forgotten.\<close>

definition active_choice ::
  "tasks \<Rightarrow> workspace_state \<Rightarrow> task_record option \<times> blocked_task list \<times> workspace_state" where
  "active_choice tasks ws =
     (case ws_active_task_id ws of None \<Rightarrow> (None, [], ws)
      | Some a \<Rightarrow>
          (case map_of tasks a of
             Some t \<Rightarrow>
               (if \<not> is_task_eligible_for_execution t then (None, [], ws \<lparr>ws_active_task_id := None\<rparr>)
                else (let blockers = task_blockers t tasks in
                      if blockers = [] then (Some t, [], ws)
                      else (None, [\<lparr>bt_task_id = t_id t, bt_title = t_title t, bt_queue_position = 1,
                                   bt_blocked_by = blockers\<rparr>],
                            ws \<lparr>ws_active_task_id := None,
                                ws_queue := (if t_id t \<in> set (ws_queue ws) then ws_queue ws
                                             else t_id t # ws_queue ws)\<rparr>)))
           | None \<Rightarrow> (None, [], ws \<lparr>ws_active_task_id := None\<rparr>)))"

record resolution =
  rs_task :: "task_record option"
  rs_blocked :: "blocked_task list"
  rs_mutated :: bool
  rs_state :: workspace_state

definition resolve_next_task_from_snapshot :: "tasks \<Rightarrow> workspace_state \<Rightarrow> resolution" where
  "resolve_next_task_from_snapshot tasks ws0 =
     (let ws = restore_missing_queued_tasks ws0 tasks; restored = (restored_front ws0 tasks \<noteq> []) in
      case active_choice tasks ws of
        (Some t, blocked, ws1) \<Rightarrow>
          \<lparr>rs_task = Some t, rs_blocked = blocked, rs_mutated = restored, rs_state = ws1\<rparr>
      | (None, blocked, ws1) \<Rightarrow>
          (let sc = scan_queue tasks 1 (ws_queue ws1)
                 \<lparr>sc_queue = ws_queue ws1, sc_blocked = blocked, sc_blocked_ids = map bt_task_id blocked,
                  sc_mutated = (restored \<or> ws_active_task_id ws \<noteq> None), sc_ready = []\<rparr>
           in \<lparr>rs_task = (case sort_key fst (sc_ready sc) of [] \<Rightarrow> None | c # _ \<Rightarrow> Some (snd c)),
               rs_blocked = sc_blocked sc, rs_mutated = sc_mutated sc,
               rs_state = ws1 \<lparr>ws_queue := sc_queue sc\<rparr>\<rparr>))"

section \<open>Dequeuing\<close>

text \<open>
  \<open>dq_saved\<close> is the workspace state written, \<open>None\<close> when nothing is; \<open>dq_reset_lifecycle\<close> says that
  the lifecycle cursor of the task is reset with its run memory preserved.
\<close>

record pickup =
  dq_task :: "task_record option"
  dq_blocked :: "blocked_task list"
  dq_tasks :: tasks
  dq_state :: workspace_state
  dq_saved :: "workspace_state option"
  dq_reset_lifecycle :: bool

definition missing_intent :: "(string \<Rightarrow> bool) \<Rightarrow> tasks \<Rightarrow> workspace_state \<Rightarrow> string option" where
  "missing_intent has_intent tasks ws =
     find (\<lambda>i. map_of tasks i = None \<and> \<not> has_intent i) (ws_queue ws)"

definition promote :: "string \<Rightarrow> task_record \<Rightarrow> task_record \<times> bool" where
  "promote now t =
     (let flagged = (t_status t = Tst_FLAGGED);
          t1 = (if flagged
                then reset_task_for_recovery now Tst_QUEUED (auto_recovery_stage_for_flagged_task t) False t
                else t)
      in (if t_status t1 \<in> {Tst_QUEUED, Tst_INTERRUPTED} then t1 \<lparr>t_status := Tst_IN_PROGRESS\<rparr> else t1,
          flagged))"

definition dequeue ::
  "string \<Rightarrow> (string \<Rightarrow> bool) \<Rightarrow> tasks \<Rightarrow> workspace_state \<Rightarrow> queue_error + pickup" where
  "dequeue now has_intent tasks0 ws0 =
     (case validate_single_active_task tasks0 ws0 of Inl err \<Rightarrow> Inl err
      | Inr _ \<Rightarrow>
      (case missing_intent has_intent tasks0 ws0 of
         Some i \<Rightarrow> Inl (Launch_failure (''queued task '' @ i @ '' is missing from SQLite task_intent''))
       | None \<Rightarrow>
      (case normalize_stale_pipeline_statuses now ws0 tasks0 of
         (tasks, normalized) \<Rightarrow>
      (let res = resolve_next_task_from_snapshot tasks ws0; ws = rs_state res;
           mutated = (rs_mutated res \<or> normalized \<noteq> []) in
       case rs_task res of
         None \<Rightarrow>
           Inr \<lparr>dq_task = None, dq_blocked = rs_blocked res, dq_tasks = tasks, dq_state = ws,
                dq_saved = (if \<not> mutated then None
                            else if normalized = [] then Some ws
                            else Some (merged_state_for_runner_owned_write ws ws0 normalized)),
                dq_reset_lifecycle = False\<rparr>
       | Some t \<Rightarrow>
           (let fresh = (ws_active_task_id ws \<noteq> Some (t_id t));
                ws1 = (if fresh then ws \<lparr>ws_active_task_id := Some (t_id t),
                                       ws_queue := without (t_id t) (ws_queue ws)\<rparr> else ws) in
            if \<not> (mutated \<or> fresh) then
              Inr \<lparr>dq_task = Some t, dq_blocked = rs_blocked res, dq_tasks = tasks, dq_state = ws1,
                   dq_saved = None, dq_reset_lifecycle = False\<rparr>
            else if t_status t = Tst_FLAGGED \<and> (needs_manual_intervention t \<or> is_recovery_budget_exhausted t)
            then (let ws2 = ws1 \<lparr>ws_active_task_id := None\<rparr> in
              Inr \<lparr>dq_task = None, dq_blocked = rs_blocked res, dq_tasks = tasks, dq_state = ws2,
                   dq_saved = Some ws2, dq_reset_lifecycle = False\<rparr>)
            else
              (case promote now t of (t1, reset) \<Rightarrow>
                (let additions = filter (\<lambda>i. i \<notin> set (ws_queue ws0)) (ws_queue ws1) in
                 Inr \<lparr>dq_task = Some t1, dq_blocked = rs_blocked res,
                      dq_tasks = AList.update (t_id t) t1 tasks, dq_state = ws1,
                      dq_saved = Some (merged_state_for_runner_owned_write ws1 ws0
                        (additions @ remdups (normalized @ [t_id t]))),
                      dq_reset_lifecycle = reset\<rparr>)))))))"

definition set_active_task ::
  "string option \<Rightarrow> tasks \<Rightarrow> workspace_state \<Rightarrow> queue_error + (tasks \<times> workspace_state)" where
  "set_active_task tid tasks ws =
     (let ws1 = ws \<lparr>ws_active_task_id := tid,
                    ws_queue := (case tid of None \<Rightarrow> ws_queue ws | Some i \<Rightarrow> without i (ws_queue ws))\<rparr> in
      case validate_single_active_task tasks ws1 of Inl err \<Rightarrow> Inl err
      | Inr _ \<Rightarrow>
          (case tid of None \<Rightarrow> Inr (tasks, ws1)
           | Some i \<Rightarrow>
               (case map_of tasks i of None \<Rightarrow> Inl (Task_not_found i)
                | Some t \<Rightarrow>
                    Inr (AList.update i (if t_status t = Tst_QUEUED then t \<lparr>t_status := Tst_IN_PROGRESS\<rparr> else t) tasks,
                         merged_state_for_runner_owned_write ws1 ws [i]))))"

end
