(* ===== verification/Queue_Properties.thy ===== *)
theory Queue_Properties
  imports Queue_Selection
begin

text \<open>
  What the queue promises: which task is picked, that no unfinished work is stranded, what a pickup
  writes, and that an acknowledged or rewound task may run again.
\<close>

section \<open>The scan\<close>

definition ready :: "tasks \<Rightarrow> string \<Rightarrow> bool" where
  "ready tasks i =
     (case map_of tasks i of None \<Rightarrow> False
      | Some t \<Rightarrow> is_task_eligible_for_execution t \<and> task_blockers t tasks = [])"

definition keeps :: "tasks \<Rightarrow> string \<Rightarrow> bool" where
  "keeps tasks i =
     (case map_of tasks i of None \<Rightarrow> False | Some t \<Rightarrow> is_task_eligible_for_execution t)"

lemma scan_step_ready:
  "sc_ready (scan_step tasks n i sc) =
     sc_ready sc @ (if ready tasks i
       then [(task_selection_key (the (map_of tasks i)) n (sc_queue sc) tasks, the (map_of tasks i))] else [])"
  by (cases "map_of tasks i") (simp_all add: scan_step_def ready_def Let_def)

lemma scan_step_queue:
  "sc_queue (scan_step tasks n i sc) = (if keeps tasks i then sc_queue sc else remove1 i (sc_queue sc))"
  by (cases "map_of tasks i") (simp_all add: scan_step_def keeps_def Let_def)

lemma key_index: "fst (task_selection_key t n q tasks) = n"
  by (simp add: task_selection_key_def)

lemma scan_ready:
  "\<exists>R. sc_ready (scan_queue tasks n q sc) = sc_ready sc @ R \<and>
       map snd R = map (\<lambda>i. the (map_of tasks i)) (filter (ready tasks) q) \<and>
       sorted_wrt (<) (map (\<lambda>r. fst (fst r)) R) \<and> (\<forall>r \<in> set R. n \<le> fst (fst r))"
proof (induction q arbitrary: n sc)
  case (Cons i q)
  from Cons.IH [of "n + 1" "scan_step tasks n i sc"] obtain R where
    R: "sc_ready (scan_queue tasks (n + 1) q (scan_step tasks n i sc)) = sc_ready (scan_step tasks n i sc) @ R"
      "map snd R = map (\<lambda>i. the (map_of tasks i)) (filter (ready tasks) q)"
      "sorted_wrt (<) (map (\<lambda>r. fst (fst r)) R)" "\<forall>r \<in> set R. n + 1 \<le> fst (fst r)" by blast
  show ?case
  proof (cases "ready tasks i")
    case True
    have "\<forall>r \<in> set R. n < fst (fst r)" "\<forall>r \<in> set R. n \<le> fst (fst r)" using R(4) by force+
    with True R(1,2,3) show ?thesis
      by (intro exI [of _ "(task_selection_key (the (map_of tasks i)) n (sc_queue sc) tasks,
            the (map_of tasks i)) # R"]) (simp add: scan_step_ready key_index)
  next
    case False
    have "\<forall>r \<in> set R. n \<le> fst (fst r)" using R(4) by force
    with False R(1,2,3) show ?thesis by (intro exI [of _ R]) (simp add: scan_step_ready)
  qed
qed simp

lemma sorted_by_index:
  fixes R :: "(selection_key \<times> task_record) list"
  assumes "sorted_wrt (<) (map (\<lambda>r. fst (fst r)) R)"
  shows "sort_key fst R = R"
proof (rule sort_key_id_if_sorted)
  show "sorted (map fst R)"
    using assms by (induction R) (auto simp: less_eq_prod_def)
qed

lemma scan_pick:
  "sc_ready sc = [] \<Longrightarrow>
   (case sort_key fst (sc_ready (scan_queue tasks n q sc)) of [] \<Rightarrow> None | c # _ \<Rightarrow> Some (snd c)) =
   Option.bind (find (ready tasks) q) (map_of tasks)"
proof -
  assume "sc_ready sc = []"
  then obtain R where R: "sc_ready (scan_queue tasks n q sc) = R"
    "map snd R = map (\<lambda>i. the (map_of tasks i)) (filter (ready tasks) q)" "sort_key fst R = R"
    using scan_ready [of tasks n q sc] sorted_by_index by auto
  show ?thesis
  proof (cases "filter (ready tasks) q")
    case Nil
    then have "find (ready tasks) q = None" by (auto simp: find_None_iff filter_empty_conv)
    with R Nil show ?thesis by simp
  next
    case (Cons i js)
    then have f: "find (ready tasks) q = Some i" by (induction q) (auto split: if_splits)
    have "i \<in> set (filter (ready tasks) q)" using Cons by simp
    then have "ready tasks i" by simp
    then have "map_of tasks i = Some (the (map_of tasks i))" by (auto simp: ready_def split: option.splits)
    with R Cons f show ?thesis by (cases R) auto
  qed
qed

lemma scan_keeps:
  "keeps tasks j \<Longrightarrow> j \<in> set (sc_queue sc) \<Longrightarrow> j \<in> set (sc_queue (scan_queue tasks n q sc))"
proof (induction tasks n q sc rule: scan_queue.induct)
  case (2 tasks n i q sc)
  then have "j \<in> set (sc_queue (scan_step tasks n i sc))" by (cases "i = j") (simp_all add: scan_step_queue)
  with 2 show ?case by simp
qed simp

section \<open>Which task is picked\<close>

lemma active_choice_some:
  "active_choice tasks ws = (Some t, blocked, ws1) \<Longrightarrow>
   \<exists>a. ws_active_task_id ws = Some a \<and> map_of tasks a = Some t \<and> ready tasks a \<and> ws1 = ws \<and> blocked = []"
  by (auto simp: active_choice_def ready_def Let_def split: option.splits if_splits)

lemma restore_sel [simp]:
  "ws_active_task_id (restore_missing_queued_tasks ws tasks) = ws_active_task_id ws"
  "ws_queue (restore_missing_queued_tasks ws tasks) = restored_front ws tasks @ ws_queue ws"
  by (simp_all add: restore_missing_queued_tasks_def)

text \<open>C19: With no active task the one picked is the first of the queue, restored tasks first, that is
  eligible and has every dependency completed. The other parts of the selection key (dependents,
  interruption) never decide: the queue index is its first component and no two candidates share it.\<close>

theorem first_ready_task_is_picked:
  assumes "ws_active_task_id ws = None"
  shows "rs_task (resolve_next_task_from_snapshot tasks ws) =
         Option.bind (find (ready tasks) (restored_front ws tasks @ ws_queue ws)) (map_of tasks)"
  using assms by (simp add: resolve_next_task_from_snapshot_def active_choice_def Let_def scan_pick)

lemma first_ready_task_is_picked_witness:
  "map_option t_id (rs_task (resolve_next_task_from_snapshot demo_tasks (demo_ws [''T2'', ''T1'']))) = Some ''T1''"
proof -
  have f: "Option.bind (find (ready demo_tasks) (restored_front (demo_ws [''T2'', ''T1'']) demo_tasks @
      ws_queue (demo_ws [''T2'', ''T1'']))) (map_of demo_tasks) = Some (demo_record ''T1'' [] Tst_QUEUED Pst_BACKLOG)"
    by code_simp
  have "ws_active_task_id (demo_ws [''T2'', ''T1'']) = None" by (simp add: demo_ws_def)
  from first_ready_task_is_picked [OF this, of demo_tasks] show ?thesis unfolding f by (simp add: demo_record_def)
qed

lemma resolved_ready:
  assumes "rs_task (resolve_next_task_from_snapshot tasks ws) = Some t"
  shows "\<exists>i. map_of tasks i = Some t \<and> ready tasks i"
proof -
  obtain c blocked ws1 where a: "active_choice tasks (restore_missing_queued_tasks ws tasks) = (c, blocked, ws1)"
    by (metis prod_cases3)
  show ?thesis
  proof (cases c)
    case (Some t')
    with a have "active_choice tasks (restore_missing_queued_tasks ws tasks) = (Some t', blocked, ws1)" by simp
    moreover have "t' = t" using assms a Some by (simp add: resolve_next_task_from_snapshot_def)
    ultimately show ?thesis using active_choice_some by blast
  next
    case None
    then have "Option.bind (find (ready tasks) (ws_queue ws1)) (map_of tasks) = Some t"
      using assms a by (simp add: resolve_next_task_from_snapshot_def Let_def scan_pick)
    then show ?thesis by (auto simp: bind_eq_Some_conv find_Some_iff)
  qed
qed

text \<open>A picked task is one of the store that is eligible, and every task it depends on is there and
  done, both in its status and in its pipeline.\<close>

lemma picked_task_is_unblocked:
  assumes "rs_task (resolve_next_task_from_snapshot tasks ws) = Some t"
  shows "is_task_eligible_for_execution t \<and> t \<in> snd ` set tasks \<and>
         (\<forall>d \<in> set (t_depends_on t). \<exists>x. map_of tasks d = Some x \<and> is_task_completed x)"
proof -
  obtain i where "map_of tasks i = Some t" "ready tasks i" using resolved_ready [OF assms] by blast
  then show ?thesis
    by (auto simp: ready_def task_blockers_Nil image_iff dest: map_of_SomeD intro: bexI [of _ "(i, t)"])
qed

lemma picked_task_is_unblocked_witness:
  "\<exists>t. rs_task (resolve_next_task_from_snapshot demo_tasks (demo_ws [''T2'', ''T1''])) = Some t \<and>
       is_task_eligible_for_execution t"
proof -
  have "rs_task (resolve_next_task_from_snapshot demo_tasks (demo_ws [''T2'', ''T1''])) =
      Some (demo_record ''T1'' [] Tst_QUEUED Pst_BACKLOG)" by code_simp
  from picked_task_is_unblocked [OF this] this show ?thesis by blast
qed

section \<open>No work is stranded\<close>

definition consistent :: "tasks \<Rightarrow> bool" where
  "consistent tasks = (dict_ok tasks \<and> (\<forall>(i, t) \<in> set tasks. t_id t = i))"

lemma restored_covers:
  assumes "dict_ok tasks" "map_of tasks i = Some t" "is_task_eligible_for_execution t"
    "t_status t = Tst_IN_PROGRESS \<or> resumable_queue_stage t \<noteq> None"
  shows "ws_active_task_id ws = Some i \<or> i \<in> set (restored_front ws tasks @ ws_queue ws)"
  using assms map_of_SomeD [OF assms(2)] by (force simp: restored_front_def)

text \<open>Selecting a task never strands unfinished work: afterwards every eligible task that is in progress
  or can resume in the middle of the pipeline is the active task or in the queue.\<close>

lemma unfinished_work_stays_visible:
  assumes "consistent tasks" and "map_of tasks i = Some t" and "is_task_eligible_for_execution t"
    and "t_status t = Tst_IN_PROGRESS \<or> resumable_queue_stage t \<noteq> None"
  shows "ws_active_task_id (rs_state (resolve_next_task_from_snapshot tasks ws)) = Some i \<or>
         i \<in> set (ws_queue (rs_state (resolve_next_task_from_snapshot tasks ws)))"
proof -
  let ?r = "restore_missing_queued_tasks ws tasks"
  have id: "t_id t = i" using assms(1) map_of_SomeD [OF assms(2)] by (auto simp: consistent_def)
  have k: "keeps tasks i" using assms(2,3) by (simp add: keeps_def)
  have vis: "ws_active_task_id ws = Some i \<or> i \<in> set (ws_queue ?r)"
    using restored_covers [of tasks i t ws] assms by (simp add: consistent_def)
  obtain c blocked ws1 where a: "active_choice tasks ?r = (c, blocked, ws1)" by (metis prod_cases3)
  show ?thesis
  proof (cases c)
    case (Some t')
    with a active_choice_some [of tasks ?r t' blocked ws1] vis show ?thesis
      by (auto simp: resolve_next_task_from_snapshot_def Let_def)
  next
    case None
    have "i \<in> set (ws_queue ws1)"
      using vis a None assms(2,3) id
      by (auto simp: active_choice_def Let_def split: option.splits if_splits)
    then show ?thesis using a None scan_keeps [OF k]
      by (simp add: resolve_next_task_from_snapshot_def Let_def)
  qed
qed

definition demo_unfinished :: tasks where
  "demo_unfinished = [(''T1'', demo_record ''T1'' [] Tst_QUEUED Pst_BACKLOG),
                      (''T2'', demo_record ''T2'' [] Tst_INTERRUPTED Pst_TESTING)]"

lemma unfinished_work_stays_visible_witness:
  "''T2'' \<in> set (ws_queue (rs_state (resolve_next_task_from_snapshot demo_unfinished (demo_ws [''T1'']))))"
proof -
  have con: "consistent demo_unfinished"
    by (simp add: consistent_def dict_ok_def demo_unfinished_def demo_record_def)
  have t2: "map_of demo_unfinished ''T2'' = Some (demo_record ''T2'' [] Tst_INTERRUPTED Pst_TESTING)"
    by (simp add: demo_unfinished_def)
  have el: "is_task_eligible_for_execution (demo_record ''T2'' [] Tst_INTERRUPTED Pst_TESTING)" by code_simp
  have "resumable_queue_stage (demo_record ''T2'' [] Tst_INTERRUPTED Pst_TESTING) \<noteq> None" by code_simp
  from unfinished_work_stays_visible [OF con t2 el disjI2, OF this]
  have "ws_active_task_id (rs_state (resolve_next_task_from_snapshot demo_unfinished (demo_ws [''T1'']))) =
      Some ''T2'' \<or> ?thesis" .
  moreover have "ws_active_task_id (rs_state (resolve_next_task_from_snapshot demo_unfinished (demo_ws [''T1'']))) = None"
    by code_simp
  ultimately show ?thesis by simp
qed

section \<open>The pickup\<close>

lemma promote_sel:
  assumes "promote now t = (t1, reset)" and "is_task_eligible_for_execution t"
  shows "t_id t1 = t_id t" "t_status t1 = Tst_IN_PROGRESS"
  using assms eligible_status [OF assms(2)]
  by (auto simp: promote_def reset_task_for_recovery_def clear_task_run_activity_def Let_def split: if_splits)

lemma normalized_consistent:
  assumes "consistent tasks" "normalize_stale_pipeline_statuses now ws tasks = (tasks', ids)"
  shows "consistent tasks'"
proof -
  have "tasks' = map (\<lambda>(i, t). (i, if is_stale ws (live_active_pipeline_stage ws tasks) t
      then normalize_stale now t else t)) tasks"
    using assms(2) by (simp add: normalize_stale_pipeline_statuses_def Let_def)
  with assms(1) show ?thesis
    by (force simp: consistent_def dict_ok_def comp_def case_prod_beta normalize_stale_def Let_def)
qed

lemma merged_without:
  assumes "i \<notin> set (ws_queue ws)" "i \<in> set prot"
  shows "i \<notin> set (ws_queue (merged_state_for_runner_owned_write ws latest prot))"
proof -
  have "set (splice (protected_positions prot (ws_queue ws)) 0 [] (filter (\<lambda>t. t \<notin> set prot) (ws_queue latest)))
      \<inter> set prot = set (ws_queue ws) \<inter> set prot"
    by (auto simp: splice_set protected_positions_snd)
  with assms show ?thesis
    by (auto simp: merged_state_for_runner_owned_write_def merge_queue_preserving_future_changes_def)
qed

lemma resolved_queue:
  assumes "rs_task (resolve_next_task_from_snapshot tasks ws) = Some t" "consistent tasks"
    and "ws_active_task_id (rs_state (resolve_next_task_from_snapshot tasks ws)) = Some (t_id t)"
    and "\<And>a. ws_active_task_id ws = Some a \<Longrightarrow> a \<notin> set (ws_queue ws)"
  shows "t_id t \<notin> set (ws_queue (rs_state (resolve_next_task_from_snapshot tasks ws)))"
proof -
  let ?r = "restore_missing_queued_tasks ws tasks"
  obtain c blocked ws1 where a: "active_choice tasks ?r = (c, blocked, ws1)" by (metis prod_cases3)
  show ?thesis
  proof (cases c)
    case (Some t')
    with a assms(1) have t: "t' = t" by (simp add: resolve_next_task_from_snapshot_def)
    from a Some t obtain i where i: "ws_active_task_id ws = Some i" "map_of tasks i = Some t" "ws1 = ?r"
      using active_choice_some [of tasks ?r t blocked ws1] by auto
    then have "t_id t = i" using assms(2) map_of_SomeD [OF i(2)] by (auto simp: consistent_def)
    with i a Some assms(4) show ?thesis
      by (auto simp: resolve_next_task_from_snapshot_def Let_def restored_front_def)
  next
    case None
    with a have "ws_active_task_id ws1 = None"
      by (auto simp: active_choice_def Let_def split: option.splits if_splits)
    with a None assms(3) show ?thesis by (simp add: resolve_next_task_from_snapshot_def Let_def)
  qed
qed

text \<open>A pickup that writes leaves the picked task in progress, pins it as the active task and takes it
  out of the queue, whatever the queue, the stale tasks and the concurrent state were.\<close>

lemma pickup_pins_task:
  assumes "dequeue now has_intent tasks ws = Inr p" and "dq_task p = Some t" and "dq_saved p = Some s"
    and "consistent tasks" and "\<And>a. ws_active_task_id ws = Some a \<Longrightarrow> a \<notin> set (ws_queue ws)"
  shows "t_status t = Tst_IN_PROGRESS \<and> ws_active_task_id s = Some (t_id t) \<and>
         t_id t \<notin> set (ws_queue s) \<and> map_of (dq_tasks p) (t_id t) = Some t"
proof -
  obtain tasks1 normalized where n: "normalize_stale_pipeline_statuses now ws tasks = (tasks1, normalized)"
    by (cases "normalize_stale_pipeline_statuses now ws tasks")
  let ?res = "resolve_next_task_from_snapshot tasks1 ws" let ?ws = "rs_state ?res"
  have con: "consistent tasks1" using normalized_consistent [OF assms(4) n] .
  have some: "rs_task ?res \<noteq> None"
    using assms(1,2) n by (auto simp: dequeue_def Let_def split: sum.splits option.splits)
  then obtain t0 where t0: "rs_task ?res = Some t0" by blast
  have el: "is_task_eligible_for_execution t0" using resolved_ready [OF t0] by (auto simp: ready_def)
  obtain t1 reset where pr: "promote now t0 = (t1, reset)" by (cases "promote now t0")
  note p1 = promote_sel [OF pr el]
  let ?ws1 = "if ws_active_task_id ?ws \<noteq> Some (t_id t0)
    then ?ws \<lparr>ws_active_task_id := Some (t_id t0), ws_queue := without (t_id t0) (ws_queue ?ws)\<rparr> else ?ws"
  have out: "t_id t0 \<notin> set (ws_queue ?ws1)"
    using resolved_queue [OF t0 con _ assms(5)] by (simp add: without_def)
  have t: "t = t1" "dq_tasks p = AList.update (t_id t0) t1 tasks1"
    "s = merged_state_for_runner_owned_write ?ws1 ws
      (filter (\<lambda>i. i \<notin> set (ws_queue ws)) (ws_queue ?ws1) @ remdups (normalized @ [t_id t0]))"
    using assms(1-3) n t0 pr el eligible_status [OF el]
    by (auto simp: dequeue_def Let_def split: sum.splits option.splits if_splits)
  have "t_id t0 \<notin> set (ws_queue s)" unfolding t(3) by (rule merged_without [OF out]) simp
  with t p1 show ?thesis by (simp add: merged_state_for_runner_owned_write_def update_conv')
qed

lemma pickup_pins_task_witness:
  "\<exists>p s t. dequeue ''now'' (\<lambda>i. True) demo_tasks (demo_ws [''T2'', ''T1'']) = Inr p \<and> dq_task p = Some t \<and>
     dq_saved p = Some s \<and> t_status t = Tst_IN_PROGRESS \<and> ws_active_task_id s = Some (t_id t) \<and>
     t_id t \<notin> set (ws_queue s)"
proof -
  have con: "consistent demo_tasks" by (simp add: consistent_def dict_ok_def demo_tasks_def demo_record_def)
  have act: "ws_active_task_id (demo_ws [''T2'', ''T1'']) = None" by (simp add: demo_ws_def)
  have "case dequeue ''now'' (\<lambda>i. True) demo_tasks (demo_ws [''T2'', ''T1'']) of Inl _ \<Rightarrow> False
      | Inr p \<Rightarrow> dq_task p \<noteq> None \<and> dq_saved p \<noteq> None" by code_simp
  then obtain p t s where p: "dequeue ''now'' (\<lambda>i. True) demo_tasks (demo_ws [''T2'', ''T1'']) = Inr p"
    "dq_task p = Some t" "dq_saved p = Some s" by (auto split: sum.splits)
  from pickup_pins_task [OF p con] act p show ?thesis by auto
qed



lemma add_marker_keys [simp]: "fst ` set (add_marker i k m) = insert i (fst ` set m)"
  by (auto simp: add_marker_def dom_update [unfolded dom_map_of_conv_image_fst])














section \<open>Tasks that may run again\<close>

lemma blocking_iff:
  "has_blocking_failed_run_history t \<longleftrightarrow> (\<exists>(k, r) \<in> set (pr_failed_run_history (t_pipeline t)). blocks r)"
proof -
  have "set (blocking_failed_run_records t) = {r \<in> snd ` set (pr_failed_run_history (t_pipeline t)). blocks r}"
    by (auto simp: blocking_failed_run_records_def)
  then show ?thesis unfolding has_blocking_failed_run_history_def
    by (metis (mono_tags, lifting) Collect_empty_eq case_prod_unfold image_iff set_empty)
qed

definition history_ok :: "(string, runtime_failed_run) dict \<Rightarrow> bool" where
  "history_ok h = (dict_ok h \<and> (\<forall>(k, r) \<in> set h. k = runtime_key r))"

lemma acknowledged_not_blocking: "\<not> blocks (acknowledge_runtime_record now r)"
  by (auto simp: blocks_def acknowledge_runtime_record_def)

lemma acknowledge_history:
  assumes "history_ok (pr_failed_run_history (t_pipeline t))"
  shows "history_ok (pr_failed_run_history (t_pipeline (acknowledge_on_runtime now r t))) \<and>
    (\<forall>(k, x) \<in> set (pr_failed_run_history (t_pipeline (acknowledge_on_runtime now r t))).
       blocks x \<longrightarrow> k \<noteq> runtime_key r \<and> (k, x) \<in> set (pr_failed_run_history (t_pipeline t)))"
proof (cases "map_of (pr_failed_run_history (t_pipeline t)) (runtime_key r)")
  case None
  then have "runtime_key r \<notin> fst ` set (pr_failed_run_history (t_pipeline t))" by (simp add: map_of_eq_None_iff)
  with None assms show ?thesis by (force simp: acknowledge_on_runtime_def)
next
  case (Some x)
  let ?h = "pr_failed_run_history (t_pipeline t)" let ?x = "acknowledge_runtime_record now x"
  have k: "runtime_key ?x = runtime_key r"
    using assms map_of_SomeD [OF Some] by (auto simp: history_ok_def runtime_key_def acknowledge_runtime_record_def)
  have new: "pr_failed_run_history (t_pipeline (acknowledge_on_runtime now r t)) = AList.update (runtime_key r) ?x ?h"
    using Some by (simp add: acknowledge_on_runtime_def Let_def)
  have ok: "dict_ok (AList.update (runtime_key r) ?x ?h)" using assms by (simp add: history_ok_def)
  have entry: "(a, b) \<in> set (AList.update (runtime_key r) ?x ?h) \<Longrightarrow>
      (a = runtime_key r \<and> b = ?x) \<or> (a \<noteq> runtime_key r \<and> (a, b) \<in> set ?h)" for a b
  proof -
    assume "(a, b) \<in> set (AList.update (runtime_key r) ?x ?h)"
    then have "map_of (AList.update (runtime_key r) ?x ?h) a = Some b"
      using ok by (simp add: dict_ok_def)
    then show ?thesis by (auto simp: update_conv' split: if_splits dest: map_of_SomeD)
  qed
  show ?thesis unfolding new history_ok_def
    using ok entry k acknowledged_not_blocking [of now x] assms by (fastforce simp: history_ok_def)
qed

lemma acknowledge_all_clears:
  "\<lbrakk>acknowledge_all now rs (t, st) = Some (t', st'); history_ok (pr_failed_run_history (t_pipeline t));
    \<forall>(k, x) \<in> set (pr_failed_run_history (t_pipeline t)). blocks x \<longrightarrow> k \<in> runtime_key ` set rs\<rbrakk>
   \<Longrightarrow> \<not> has_blocking_failed_run_history t'"
proof (induction rs arbitrary: t st)
  case Nil
  then show ?case by (auto simp: blocking_iff)
next
  case (Cons r rs)
  then obtain st1 where st1: "acknowledge_on_state now r st = Some st1"
    "acknowledge_all now rs (acknowledge_on_runtime now r t, st1) = Some (t', st')" by (auto split: option.splits)
  from acknowledge_history [OF Cons.prems(2), of now r] Cons.prems(3)
  have "history_ok (pr_failed_run_history (t_pipeline (acknowledge_on_runtime now r t)))"
    "\<forall>(k, x) \<in> set (pr_failed_run_history (t_pipeline (acknowledge_on_runtime now r t))).
       blocks x \<longrightarrow> k \<in> runtime_key ` set rs" by fastforce+
  with Cons.IH [OF st1(2)] show ?case by blast
qed

text \<open>An operator override acknowledges everything that blocks: afterwards no failed-run record keeps the
  task out of the queue, until one of them counts another failure.\<close>

lemma override_unblocks_task:
  assumes "mark_failed_run_operator_override now None (t, st) = Some (t', st')"
    and "history_ok (pr_failed_run_history (t_pipeline t))"
  shows "\<not> has_blocking_failed_run_history t'"
proof -
  have "\<forall>(k, x) \<in> set (pr_failed_run_history (t_pipeline t)). blocks x \<longrightarrow>
      k \<in> runtime_key ` set (blocking_failed_run_records t)"
    using assms(2) by (force simp: history_ok_def blocking_failed_run_records_def)
  moreover have "acknowledge_all now (blocking_failed_run_records t) (t, st) = Some (t', st')"
    using assms(1) by (simp add: mark_failed_run_operator_override_def)
  ultimately show ?thesis using acknowledge_all_clears assms(2) by blast
qed

definition demo_exhausted :: task_record where
  "demo_exhausted = (demo_record ''T1'' [] Tst_FLAGGED Pst_TESTING)
     \<lparr>t_pipeline := idle_pipeline \<lparr>pr_failed_run_history := [(''testing:flaky'',
        \<lparr>rf_stage = ''testing'', rf_failure_shape = ''flaky'', rf_count = 2, rf_first_at = None,
         rf_latest_at = None, rf_last_reason = ''flaky'', rf_source = None, rf_classification = None,
         rf_retry_limit = Some 3, rf_failed_reason = None, rf_override_count = 0, rf_override_at = None\<rparr>)]\<rparr>\<rparr>"

lemma override_unblocks_task_witness:
  "\<exists>t'. mark_failed_run_operator_override ''now'' None (demo_exhausted, None) = Some (t', None) \<and>
     has_blocking_failed_run_history demo_exhausted \<and> \<not> has_blocking_failed_run_history t'"
proof -
  have b: "has_blocking_failed_run_history demo_exhausted" by code_simp
  obtain t' where m: "mark_failed_run_operator_override ''now'' None (demo_exhausted, None) = Some (t', None)"
    by (simp add: mark_failed_run_operator_override_def blocking_failed_run_records_def demo_exhausted_def
        blocks_def FAILED_RUN_REQUEUE_BUDGET_def acknowledge_on_state_def)
  have "history_ok (pr_failed_run_history (t_pipeline demo_exhausted))"
    by (simp add: demo_exhausted_def history_ok_def dict_ok_def runtime_key_def)
  from override_unblocks_task [OF m this] m b show ?thesis by blast
qed

text \<open>A task that is rewound for recovery to a stage before done, with its last outcome cleared, may run
  again, whatever its status, flags, outcome and execution status were, unless a failed-run record
  still blocks it.\<close>

lemma rewound_task_is_eligible:
  assumes "\<not> has_blocking_failed_run_history t" and "ps \<noteq> Pst_DONE"
  shows "is_task_eligible_for_execution (reset_task_for_recovery now Tst_QUEUED ps True t)"
proof -
  let ?t = "reset_task_for_recovery now Tst_QUEUED ps True t"
  have f: "t_status ?t = Tst_QUEUED" "t_pipeline_status ?t = ps"
    "pr_execution_status (t_pipeline ?t) = execution_status_value Exe_IDLE"
    "pr_last_outcome (t_pipeline ?t) = empty_outcome"
    "pr_failed_run_history (t_pipeline ?t) = pr_failed_run_history (t_pipeline t)"
    by (simp_all add: reset_task_for_recovery_def clear_task_run_activity_def Let_def)
  have "\<not> has_blocking_failed_run_history ?t" using assms(1) by (simp add: blocking_iff f(5))
  then show ?thesis using assms(2)
    by (simp add: is_task_eligible_for_execution_def f has_terminal_execution_status_def
        TERMINAL_EXECUTION_STATUSES_def has_terminal_outcome_kind_def empty_outcome_def
        needs_manual_intervention_def is_recovery_budget_exhausted_def)
qed

lemma rewound_task_is_eligible_witness:
  "\<not> is_task_eligible_for_execution (demo_record ''T1'' [] Tst_CLOSED Pst_TESTING) \<and>
   is_task_eligible_for_execution (reset_task_for_recovery ''now'' Tst_QUEUED Pst_TESTING True
     (demo_record ''T1'' [] Tst_CLOSED Pst_TESTING))"
proof
  have "\<not> has_blocking_failed_run_history (demo_record ''T1'' [] Tst_CLOSED Pst_TESTING)" by code_simp
  then show "is_task_eligible_for_execution (reset_task_for_recovery ''now'' Tst_QUEUED Pst_TESTING True
     (demo_record ''T1'' [] Tst_CLOSED Pst_TESTING))" by (rule rewound_task_is_eligible) simp
qed code_simp

end
