(* ===== verification/Runtime_Sync.thy ===== *)
theory Runtime_Sync
  imports Queue_Ops
begin

text \<open>
  The mirror of a lifecycle state on its task record, \<open>litehive/lifecycle/runtime_sync.py\<close>, with the
  normalization every stored record passes (\<open>state/records.py\<close>) and \<open>apply_task_outcome\<close> of
  \<open>tasks/runtime.py\<close>. The clock is an argument, so is the latest rejecting recovery entry of the
  activity log. Audit rows are reduced to the action they record.
\<close>

section \<open>Outcomes\<close>

definition apply_task_outcome ::
  "string \<Rightarrow> task_outcome_kind \<Rightarrow> string \<Rightarrow> string \<Rightarrow> string \<Rightarrow> int \<Rightarrow> int \<Rightarrow> string option \<Rightarrow>
   string option \<Rightarrow> (string, string option) dict \<Rightarrow> task_record \<Rightarrow> task_record" where
  "apply_task_outcome now kind st reason_code reason retries limit follow_up classification diagnostics t =
     t \<lparr>t_pipeline := (t_pipeline t) \<lparr>pr_updated_at := Some now,
          pr_last_outcome := \<lparr>os_kind = Some kind, os_stage = Some st, os_reason_code = Some reason_code,
            os_reason = reason, os_retry_count = retries, os_retry_limit = limit,
            os_recorded_at = Some now, os_follow_up_task_id = follow_up,
            os_failure_classification = classification, os_failure_diagnostics = diagnostics\<rparr>\<rparr>\<rparr>"

section \<open>Normalization on the way to storage\<close>

definition opt_truthy :: "string option \<Rightarrow> bool" where
  "opt_truthy x = (x \<noteq> None \<and> x \<noteq> Some [])"

definition normalize_task_commit_sha_state :: "task_record \<Rightarrow> task_record" where
  "normalize_task_commit_sha_state t =
     (if opt_truthy (t_commit_sha t)
      then t \<lparr>t_pipeline := (t_pipeline t) \<lparr>pr_commit_sha := t_commit_sha t\<rparr>\<rparr>
      else if opt_truthy (pr_commit_sha (t_pipeline t)) then t \<lparr>t_commit_sha := pr_commit_sha (t_pipeline t)\<rparr>
      else t)"

definition set_task_worktree_path :: "string option \<Rightarrow> task_record \<Rightarrow> task_record" where
  "set_task_worktree_path path t =
     t \<lparr>t_pipeline := (t_pipeline t) \<lparr>pr_worktree_path := path\<rparr>, t_worktree_path := None\<rparr>"

definition normalize_task_worktree_state :: "task_record \<Rightarrow> task_record" where
  "normalize_task_worktree_state t =
     (if opt_truthy (pr_worktree_path (t_pipeline t)) then t \<lparr>t_worktree_path := None\<rparr>
      else if opt_truthy (t_worktree_path t) then set_task_worktree_path (t_worktree_path t) t
      else t)"

definition normalize_task_flag_reason :: "task_record \<Rightarrow> task_record" where
  "normalize_task_flag_reason t =
     (let c = canonicalize_task_terminal_state t in
      if t_status c = Tst_FLAGGED
      then c \<lparr>t_flag_reason := Some (opt_str_or (t_flag_reason c)
             (opt_str_or (os_reason_code (pr_last_outcome (t_pipeline c))) ''unknown''))\<rparr>
      else c \<lparr>t_flag_reason := None\<rparr>)"

text \<open>\<open>to_storage_state_record\<close> stamps the two git slots of the stored runtime.\<close>

definition to_storage_state_record :: "task_record \<Rightarrow> task_record" where
  "to_storage_state_record t =
     t \<lparr>t_pipeline := (t_pipeline t) \<lparr>pr_commit_sha := t_commit_sha t\<rparr>,
       t_worktree_path := pr_worktree_path (t_pipeline t)\<rparr>"

definition task_state_for_storage :: "task_record \<Rightarrow> task_record" where
  "task_state_for_storage t =
     to_storage_state_record
       (normalize_task_flag_reason (normalize_task_worktree_state (normalize_task_commit_sha_state t)))"

section \<open>Projections\<close>

definition runtime_recovery_outcome :: "recovery_outcome \<Rightarrow> runtime_recovery" where
  "runtime_recovery_outcome oc =
     (let t = outcome_trigger oc in
      \<lparr>rr_origin_stage = origin_stage t,
       rr_trigger_event_kind = trigger_event_kind_value (trigger_kind t),
       rr_fingerprint = fingerprint (trigger_fingerprint t),
       rr_classification = ff_classification (trigger_fingerprint t),
       rr_budget_key = budget_key t, rr_recovery_verdict = recovery_verdict oc,
       rr_disposition = recovery_disposition_value (disposition oc),
       rr_reason_code = outcome_reason_code oc, rr_message = outcome_message oc,
       rr_created_at = Some (outcome_created_at oc)\<rparr>)"

type_synonym recovery_identity = "string option \<times> string \<times> string \<times> string \<times> string option"

definition runtime_recovery_key :: "runtime_recovery \<Rightarrow> recovery_identity" where
  "runtime_recovery_key r =
     (rr_origin_stage r, rr_fingerprint r, rr_budget_key r, rr_recovery_verdict r, rr_created_at r)"

fun first_by_key :: "recovery_identity list \<Rightarrow> runtime_recovery list \<Rightarrow> runtime_recovery list" where
  "first_by_key seen [] = []"
| "first_by_key seen (r # rs) =
     (if runtime_recovery_key r \<in> set seen then first_by_key seen rs
      else r # first_by_key (runtime_recovery_key r # seen) rs)"

definition runtime_recovery_history_projection :: "task_state \<Rightarrow> runtime_recovery list" where
  "runtime_recovery_history_projection s =
     first_by_key [] (map runtime_recovery_outcome (recovery_history s))"

definition runtime_failed_run_record :: "failed_run_record \<Rightarrow> runtime_failed_run" where
  "runtime_failed_run_record r =
     \<lparr>rf_stage = pipeline_state_value (fr_stage r), rf_failure_shape = fr_failure_shape r,
      rf_count = fr_count r, rf_first_at = fr_first_at r, rf_latest_at = fr_latest_at r,
      rf_last_reason = fr_last_reason r, rf_source = fr_source r,
      rf_classification = fr_classification r, rf_retry_limit = fr_retry_limit r,
      rf_failed_reason = fr_failed_reason r, rf_override_count = fr_operator_override_count r,
      rf_override_at = fr_last_operator_override_at r\<rparr>"

definition runtime_failed_run_history_projection :: "task_state \<Rightarrow> (string, runtime_failed_run) dict" where
  "runtime_failed_run_history_projection s =
     map (\<lambda>(k, r). (k, runtime_failed_run_record r)) (failed_run_history s)"

section \<open>Runtime fields\<close>

definition mirrored :: "task_state \<Rightarrow> pipeline_runtime \<Rightarrow> pipeline_runtime" where
  "mirrored s p =
     p \<lparr>pr_consecutive_same_hook_rejects := consecutive_same_hook_rejects s,
       pr_last_hook_reject_fingerprint := last_hook_reject_fingerprint s,
       pr_hook_reject_recovery_invoked := hook_reject_recovery_invoked s,
       pr_recovery_history := runtime_recovery_history_projection s,
       pr_failed_run_history := runtime_failed_run_history_projection s\<rparr>"

definition terminal_marker :: "string \<Rightarrow> stage_marker \<Rightarrow> stage_marker" where
  "terminal_marker now m =
     m \<lparr>ss_stage := None, ss_status := runtime_stage_status_value Rts_IDLE, ss_started_at := None,
       ss_updated_at := Some now\<rparr>"

definition running_marker :: "string \<Rightarrow> pipeline_state \<Rightarrow> stage_marker \<Rightarrow> stage_marker" where
  "running_marker now st m =
     m \<lparr>ss_stage := Some (pipeline_state_value st),
       ss_status := runtime_stage_status_value Rts_RUNNING,
       ss_started_at := (if ss_stage m = Some (pipeline_state_value st) then ss_started_at m else Some now),
       ss_updated_at := Some now\<rparr>"

definition sync_runtime_fields :: "string \<Rightarrow> task_state \<Rightarrow> task_record \<Rightarrow> task_record" where
  "sync_runtime_fields now s t =
     (let p = mirrored s (t_pipeline t); m = pr_current_stage p in
      t \<lparr>t_pipeline :=
        (if stage s = DONE then
           p \<lparr>pr_execution_status := execution_status_value Exe_DONE, pr_current_stage := terminal_marker now m\<rparr>
         else if stage s = FAILED then
           p \<lparr>pr_execution_status := execution_status_value Exe_FAILED, pr_current_stage := terminal_marker now m\<rparr>
         else
           p \<lparr>pr_execution_status := execution_status_value Exe_RUNNING,
             pr_current_stage := running_marker now (stage s) m\<rparr>)\<rparr>)"

section \<open>Status\<close>

definition latest_recovery_trigger :: "task_state \<Rightarrow> recovery_trigger option" where
  "latest_recovery_trigger s =
     (case active_recovery_trigger s of
        Some t \<Rightarrow> Some t
      | None \<Rightarrow> (if recovery_history s = [] then None else Some (outcome_trigger (last (recovery_history s)))))"

definition failed_flag_reason ::
  "recovery_trigger option \<Rightarrow> failed_reason option \<Rightarrow> string option \<Rightarrow> string option" where
  "failed_flag_reason trigger reason previous =
     (if reason = Some HOOK_REJECT_LOOP \<or>
         Option.bind trigger trigger_reason_code = Some ''hook_reject_loop'' then Some ''hook_reject_loop''
      else if reason = Some REJECTION_LOOP_DETECTED then Some ''rejection_loop_detected''
      else if reason = Some SEMANTIC_REJECT then Some ''semantic_reject''
      else if reason = Some TIME_BUDGET_EXCEEDED then Some ''time_budget_exceeded''
      else if reason = Some RECOVERY_EXHAUSTED then Some ''recovery_failed''
      else if reason = Some RECOVERY_BUDGET_HIT then
        (if map_option trigger_kind trigger \<in> {Some Tek_CRASH, Some Tek_TIMEOUT}
         then Some ''crash_budget_exhausted'' else Some ''recovery_budget_exhausted'')
      else previous)"

definition merge_failed :: "task_state \<Rightarrow> bool" where
  "merge_failed s =
     (Option.bind (latest_recovery_trigger s) origin_stage = Some (pipeline_state_value MERGE_RESOLVING) \<or>
      map_of (last_rejection_by_stage s) MERGE_RESOLVING \<noteq> None)"

definition commit_note :: "commit_result \<Rightarrow> string" where
  "commit_note c =
     (if commit_reason c = PyStr ''already_landed''
      then ''commit_to_git reconciled: worktree patch already landed on main at '' @ head_sha c @ ''.''
      else ''commit_to_git reconciled as a no-op on main at '' @ head_sha c @
           ''; no new integration commit was needed.'')"

definition sync_terminal_status :: "task_state \<Rightarrow> task_record \<Rightarrow> string option \<times> task_record" where
  "sync_terminal_status s t =
     (if stage s = DONE then
        (let t1 = t \<lparr>t_status := Tst_DONE, t_pipeline_status := Pst_DONE, t_close_reason := Some ''done'',
                     t_flag_reason := None\<rparr>
         in (case commit_res s of
               None \<Rightarrow> (None, t1)
             | Some c \<Rightarrow> (Some (commit_note c), set_task_commit_sha (Some (head_sha c)) t1)))
      else if stage s = FAILED then
        (let t1 = t \<lparr>t_status := Tst_FLAGGED, t_pipeline_status := Pst_FLAGGED, t_close_reason := None\<rparr> in
         if merge_failed s
         then ((if opt_truthy (failed_message s)
                then Some (''commit_to_git failed during merge reconciliation: '' @ the (failed_message s))
                else None),
               t1 \<lparr>t_flag_reason := Some ''merge_failed''\<rparr>)
         else (None, t1 \<lparr>t_flag_reason := failed_flag_reason (latest_recovery_trigger s)
                 (failed_reason_of s) (t_flag_reason t)\<rparr>))
      else (None, t \<lparr>t_status := Tst_IN_PROGRESS, t_close_reason := None, t_flag_reason := None,
                    t_pipeline_status := pipeline_status_of (stage s)\<rparr>))"

text \<open>The rejecting entry of the recovery agent that escalated to a follow-up task.\<close>

record escalation =
  esc_follow_up :: "string option"
  esc_message :: string

definition recovery_diagnostics :: "recovery_trigger option \<Rightarrow> (string, string option) dict" where
  "recovery_diagnostics trigger =
     [(''origin_stage'', Option.bind trigger origin_stage),
      (''trigger_event_kind'', map_option (\<lambda>t. trigger_event_kind_value (trigger_kind t)) trigger),
      (''fingerprint'', map_option (\<lambda>t. fingerprint (trigger_fingerprint t)) trigger),
      (''budget_key'', map_option budget_key trigger)]"

definition sync_recovery_follow_up ::
  "string \<Rightarrow> escalation option \<Rightarrow> task_state \<Rightarrow> task_record \<Rightarrow> task_record" where
  "sync_recovery_follow_up now latest s t =
     (if stage s \<noteq> FAILED \<or> failed_reason_of s \<noteq> Some RECOVERY_EXHAUSTED then t
      else (case latest of None \<Rightarrow> t
        | Some entry \<Rightarrow>
            if \<not> opt_truthy (esc_follow_up entry) then t
            else (let trigger = latest_recovery_trigger s in
              apply_task_outcome now Ok_FLAGGED
                (case trigger of None \<Rightarrow> pipeline_state_value RECOVERING
                 | Some tr \<Rightarrow> opt_str_or (origin_stage tr) (pipeline_state_value RECOVERING))
                ''stage_exception''
                (opt_str_or (failed_message s)
                  (str_or (esc_message entry) ''Recovery escalated to a follow-up task.''))
                (pr_retry_count (t_pipeline t)) (pr_retry_limit (t_pipeline t)) (esc_follow_up entry)
                (map_option (\<lambda>tr. fingerprint_budget_key (trigger_fingerprint tr)) trigger)
                (recovery_diagnostics trigger) t)))"

definition sync_action :: "task_state \<Rightarrow> task_record \<Rightarrow> task_record \<Rightarrow> string option" where
  "sync_action s before t =
     (if t_status before \<noteq> t_status t \<or> t_pipeline_status before \<noteq> t_pipeline_status t \<or>
         pr_last_outcome (t_pipeline before) \<noteq> pr_last_outcome (t_pipeline t)
      then Some (if stage s = FAILED then ''failed''
                 else if stage s = DONE \<and> t_status t = Tst_DONE then ''completed'' else ''status_changed'')
      else None)"

definition synced :: "string \<Rightarrow> escalation option \<Rightarrow> task_state \<Rightarrow> task_record \<Rightarrow> task_record" where
  "synced now latest s t =
     sync_recovery_follow_up now latest s (snd (sync_terminal_status s (sync_runtime_fields now s t)))"

text \<open>The stored record, the journal note and the audit action; \<open>None\<close> when the task is gone.\<close>

definition sync_back ::
  "string \<Rightarrow> escalation option \<Rightarrow> task_state \<Rightarrow> tasks \<Rightarrow> (string option \<times> string option \<times> tasks) option" where
  "sync_back now latest s tasks =
     (case map_of tasks (task_id s) of
        None \<Rightarrow> None
      | Some t \<Rightarrow>
          (let t' = synced now latest s t in
           Some (fst (sync_terminal_status s (sync_runtime_fields now s t)), sync_action s t t',
                 AList.update (task_id s) (task_state_for_storage t') tasks)))"

definition clear_terminal_task_from_workspace_state :: "string \<Rightarrow> workspace_state \<Rightarrow> workspace_state" where
  "clear_terminal_task_from_workspace_state tid ws =
     merged_state_for_runner_owned_write
       (ws \<lparr>ws_active_task_id := (if ws_active_task_id ws = Some tid then None else ws_active_task_id ws),
            ws_queue := without tid (ws_queue ws)\<rparr>) ws [tid]"

section \<open>What storage and mirroring leave alone\<close>

lemma storage_frame [simp]:
  "t_id (task_state_for_storage t) = t_id t" "t_status (task_state_for_storage t) = t_status t"
  "t_pipeline_status (task_state_for_storage t) = t_pipeline_status t"
  "t_flag_count (task_state_for_storage t) = t_flag_count t" "t_mode (task_state_for_storage t) = t_mode t"
  "t_depends_on (task_state_for_storage t) = t_depends_on t"
  "t_execution (task_state_for_storage t) = t_execution t"
  "pr_execution_status (t_pipeline (task_state_for_storage t)) = pr_execution_status (t_pipeline t)"
  "pr_current_stage (t_pipeline (task_state_for_storage t)) = pr_current_stage (t_pipeline t)"
  "pr_failed_run_history (t_pipeline (task_state_for_storage t)) = pr_failed_run_history (t_pipeline t)"
  "pr_last_outcome (t_pipeline (task_state_for_storage t)) = pr_last_outcome (t_pipeline t)"
  "pr_recovery_history (t_pipeline (task_state_for_storage t)) = pr_recovery_history (t_pipeline t)"
  by (simp_all add: task_state_for_storage_def to_storage_state_record_def normalize_task_flag_reason_def
      canonicalize_task_terminal_state_def normalize_task_worktree_state_def set_task_worktree_path_def
      normalize_task_commit_sha_state_def Let_def)

lemma str_or_nonempty: "t \<noteq> [] \<Longrightarrow> str_or s t \<noteq> []"
  by (simp add: str_or_def)

lemma opt_str_or_nonempty: "t \<noteq> [] \<Longrightarrow> opt_str_or s t \<noteq> []"
  by (simp add: opt_str_or_def str_or_nonempty split: option.splits)

lemma storage_flag_reason:
  "t_flag_reason (task_state_for_storage t) =
     (if t_status t = Tst_FLAGGED
      then Some (opt_str_or (t_flag_reason t) (opt_str_or (os_reason_code (pr_last_outcome (t_pipeline t))) ''unknown''))
      else None)"
  by (simp add: task_state_for_storage_def to_storage_state_record_def normalize_task_flag_reason_def
      canonicalize_task_terminal_state_def normalize_task_worktree_state_def set_task_worktree_path_def
      normalize_task_commit_sha_state_def Let_def)

lemma storage_close_reason:
  "t_close_reason (task_state_for_storage t) \<noteq> None \<longleftrightarrow> t_status t \<in> {Tst_CLOSED, Tst_DONE}"
  by (cases "t_status t") (simp_all add: task_state_for_storage_def to_storage_state_record_def
      normalize_task_flag_reason_def canonicalize_task_terminal_state_def normalize_task_worktree_state_def
      set_task_worktree_path_def normalize_task_commit_sha_state_def Let_def)

lemmas eligibility_defs = is_task_eligible_for_execution_def has_blocking_failed_run_history_def
  blocking_failed_run_records_def has_terminal_execution_status_def has_terminal_outcome_kind_def
  needs_manual_intervention_def is_recovery_budget_exhausted_def

text \<open>Storage changes the flag reason of a flagged task only, so it changes nobody else's eligibility.\<close>

lemma storage_eligible:
  "t_status t \<noteq> Tst_FLAGGED \<Longrightarrow>
   is_task_eligible_for_execution (task_state_for_storage t) = is_task_eligible_for_execution t"
  by (simp add: eligibility_defs)

lemma follow_up_frame [simp]:
  "t_id (sync_recovery_follow_up now l s t) = t_id t"
  "t_status (sync_recovery_follow_up now l s t) = t_status t"
  "t_pipeline_status (sync_recovery_follow_up now l s t) = t_pipeline_status t"
  "t_flag_reason (sync_recovery_follow_up now l s t) = t_flag_reason t"
  "pr_execution_status (t_pipeline (sync_recovery_follow_up now l s t)) = pr_execution_status (t_pipeline t)"
  "pr_current_stage (t_pipeline (sync_recovery_follow_up now l s t)) = pr_current_stage (t_pipeline t)"
  "pr_failed_run_history (t_pipeline (sync_recovery_follow_up now l s t)) = pr_failed_run_history (t_pipeline t)"
  "pr_recovery_history (t_pipeline (sync_recovery_follow_up now l s t)) = pr_recovery_history (t_pipeline t)"
  unfolding sync_recovery_follow_up_def apply_task_outcome_def Let_def
  by (cases l; simp)+

end
