(* ===== verification/Crash_Recovery.thy ===== *)
theory Crash_Recovery
  imports Runtime_Sync Queue_Selection
begin

text \<open>
  What happens to a task whose runner died. A runner that dies by an exception first marks its task
  (\<open>mark_task_interrupted_on_crash\<close> of \<open>lifecycle/worktree_setup.py\<close>); a killed one leaves everything
  as it was. The next runner, holding the lock, repairs both kinds: \<open>recovery/execution_recovery.py\<close>
  with \<open>running_task_recovery.py\<close>, \<open>interruption_state.py\<close>, \<open>interrupted_subagent.py\<close> and
  \<open>nonrunning_resumable_repair.py\<close>. What the repair asks of the world is an argument: the clock, the
  transcript snippet of a subagent, the lock probes, the liveness of a subagent process. Recovery
  reports and subagent artifacts are not modelled, nor is the repair of finished tasks from stage
  reports.
\<close>

section \<open>A runner that dies by an exception\<close>

definition mark_task_interrupted_on_crash ::
  "string \<Rightarrow> tasks \<times> workspace_state \<Rightarrow> tasks \<times> workspace_state" where
  "mark_task_interrupted_on_crash tid =
     (\<lambda>(tasks, ws).
       ((case map_of tasks tid of
           Some t \<Rightarrow>
             if running t
             then AList.update tid (task_state_for_storage
                    (t \<lparr>t_status := Tst_QUEUED,
                       t_pipeline := (t_pipeline t)
                         \<lparr>pr_execution_status := execution_status_value Exe_INTERRUPTED\<rparr>\<rparr>)) tasks
             else tasks
         | None \<Rightarrow> tasks),
        if ws_active_task_id ws = Some tid
        then ws \<lparr>ws_active_task_id := None,
                ws_queue := (if tid \<in> set (ws_queue ws) then ws_queue ws else tid # ws_queue ws)\<rparr>
        else ws))"

section \<open>Interruption records\<close>

definition SUBAGENT_INTERRUPTED :: string where
  "SUBAGENT_INTERRUPTED = ''interrupted''"

definition interrupted_subagent_reason :: "task_record \<Rightarrow> string \<Rightarrow> string" where
  "interrupted_subagent_reason t reason =
     (let active = xr_active_subagent (t_execution t);
          last = Option.bind (xr_interruption (t_execution t)) in_subagent
      in case last of None \<Rightarrow> reason
         | Some l \<Rightarrow>
             if sa_interruption_reason l \<noteq> [] \<and>
                (case active of None \<Rightarrow> True | Some a \<Rightarrow> sa_id l = sa_id a)
             then sa_interruption_reason l else reason)"

definition mark_interrupted_subagent ::
  "string \<Rightarrow> (subagent_state \<Rightarrow> string) \<Rightarrow> string \<Rightarrow> task_record \<Rightarrow> subagent_state option \<times> task_record" where
  "mark_interrupted_subagent now snippet_of reason t =
     (let active = xr_active_subagent (t_execution t);
          existing = Option.bind (xr_interruption (t_execution t)) in_subagent
      in if active = None \<and> map_option sa_status existing \<noteq> Some SUBAGENT_INTERRUPTED then (None, t)
         else (let source = (case active of Some a \<Rightarrow> a | None \<Rightarrow> the existing) in
           (Some (source \<lparr>sa_status := SUBAGENT_INTERRUPTED, sa_updated_at := now,
                    sa_completed_at := (if opt_truthy (sa_completed_at source) then sa_completed_at source
                                        else Some now),
                    sa_snippet := (if active \<noteq> None \<or> sa_snippet source = [] then snippet_of source
                                   else sa_snippet source),
                    sa_interruption_reason := interrupted_subagent_reason t reason\<rparr>),
            t \<lparr>t_execution := (t_execution t) \<lparr>xr_active_subagent := None\<rparr>\<rparr>)))"

definition stale_interruption_reason :: "task_record \<Rightarrow> string \<Rightarrow> bool \<Rightarrow> string" where
  "stale_interruption_reason t st stale_pid =
     (case xr_active_subagent (t_execution t) of
        None \<Rightarrow> ''Stale runner detected while `'' @ st @ ''` was still marked running.''
      | Some a \<Rightarrow>
          ''Stale runner detected while subagent `'' @ sa_id a @ ''` ('' @ sa_role a @ ''/'' @ sa_engine a @
          (case sa_pid a of Some p \<Rightarrow>
             if stale_pid \<and> p \<noteq> 0 then '', pid '' @ int_str p @ '' no longer alive'' else []
           | None \<Rightarrow> []) @
          '') was still marked running in `'' @ st @ ''`.'')"

definition opt_first :: "string option \<Rightarrow> string option \<Rightarrow> string option" where
  "opt_first x y = (if opt_truthy x then x else y)"

definition prepare_interrupted_task ::
  "string \<Rightarrow> (subagent_state \<Rightarrow> string) \<Rightarrow> string \<Rightarrow> string \<Rightarrow> string \<Rightarrow> task_record \<Rightarrow> task_record" where
  "prepare_interrupted_task now snippet_of st summary reason0 t0 =
     (let reason = str_or reason0 summary;
          p0 = t_pipeline t0; marker = pr_current_stage p0;
          stage_started = ss_started_at marker; run_started = pr_run_started_at p0;
          started = opt_first stage_started run_started;
          interrupted_at = (case xr_active_subagent (t_execution t0) of
            Some a \<Rightarrow> Some (sa_updated_at a)
          | None \<Rightarrow> opt_first (opt_first (ss_updated_at marker) started) (Some now));
          t1 = t0 \<lparr>t_status := Tst_INTERRUPTED,
                  t_pipeline_status := the (enum_parse pipeline_status_value pipeline_status_members st),
                  t_pipeline := p0 \<lparr>pr_execution_status := execution_status_value Exe_INTERRUPTED,
                    pr_run_started_at := None, pr_updated_at := Some now\<rparr>\<rparr>
      in case mark_interrupted_subagent now snippet_of reason t1 of
        (sub, t2) \<Rightarrow>
          (let t3 = apply_task_outcome now Ok_INTERRUPTED st ''execution_interrupted'' summary
                      (pr_retry_count (t_pipeline t2)) (pr_retry_limit (t_pipeline t2)) None None [] t2
           in t3 \<lparr>t_execution := (t_execution t3) \<lparr>xr_interruption := Some
                     \<lparr>in_stage = Some st, in_pipeline_status = Some st, in_resume_stage = Some st,
                      in_source = (if sub = None then ''runner'' else ''subagent''), in_reason = reason,
                      in_summary = summary, in_interrupted_at = interrupted_at, in_detected_at = Some now,
                      in_run_started_at = run_started, in_stage_started_at = stage_started,
                      in_subagent = sub\<rparr>\<rparr>,
                   t_pipeline := (t_pipeline t3) \<lparr>pr_current_stage := (pr_current_stage (t_pipeline t3))
                     \<lparr>ss_stage := Some st, ss_status := runtime_stage_status_value Rts_INTERRUPTED,
                      ss_started_at := started, ss_updated_at := Some now\<rparr>\<rparr>\<rparr>))"

definition interruption_journal_message :: "task_record \<Rightarrow> string" where
  "interruption_journal_message t =
     (let ps = pipeline_status_value (t_pipeline_status t) in
      case xr_interruption (t_execution t) of
        None \<Rightarrow> ''Interrupted run recorded. Resume from `'' @ ps @ ''`.''
      | Some i \<Rightarrow>
          py_join '' ''
            ([''Interrupted '' @ in_source i @ '' execution while `'' @ opt_str_or (in_stage i) ps @ ''` was running.'',
              ''Reason: '' @ str_or (str_or (in_reason i) (in_summary i)) ''unknown'' @ ''.'']
             @ (case in_subagent i of None \<Rightarrow> []
                | Some a \<Rightarrow>
                    [''Subagent `'' @ sa_id a @ ''` ('' @ sa_role a @ ''/'' @ sa_engine a @ '', pid='' @
                     (case sa_pid a of None \<Rightarrow> ''-'' | Some p \<Rightarrow> int_str p) @ '', path `'' @ sa_path a @
                     ''`) stopped with status `'' @ sa_status a @ ''`.'']
                    @ (if sa_snippet a \<noteq> [] then [''Last snippet: '' @ sa_snippet a @ ''.''] else []))
             @ [''Resume from `'' @ opt_str_or (in_resume_stage i) ps @ ''`.'']))"

section \<open>Tasks left running\<close>

definition running_task_ids :: "tasks \<Rightarrow> string list" where
  "running_task_ids tasks = sort (map fst (filter (\<lambda>(i, t). running t) tasks))"

text \<open>What the repair sees of the world beside the stored records.\<close>

record recovery_world =
  rw_now :: string
  rw_snippet :: "subagent_state \<Rightarrow> string"
  rw_subagent_stale :: "task_record \<Rightarrow> bool"
  rw_owns_thread :: bool
  rw_lock_held :: bool
  rw_pid_stale :: bool
  rw_inactivity_timeout :: "rat option"
  rw_inactive_running :: "rat \<Rightarrow> tasks \<Rightarrow> bool"
  rw_metadata_present :: bool
  rw_row_exists :: "string \<Rightarrow> bool"

definition can_attempt_stale_runner_recovery :: "recovery_world \<Rightarrow> tasks \<Rightarrow> string list \<Rightarrow> bool" where
  "can_attempt_stale_runner_recovery w tasks ids =
     (if length ids > 1 then False
      else if \<not> rw_owns_thread w \<and> rw_lock_held w \<and> \<not> rw_pid_stale w
      then (case rw_inactivity_timeout w of None \<Rightarrow> False
            | Some timeout \<Rightarrow> rw_inactive_running w timeout tasks)
      else True)"

definition recover_stale_running_task ::
  "recovery_world \<Rightarrow> task_record \<Rightarrow> (task_record \<times> string) option" where
  "recover_stale_running_task w t =
     (if \<not> is_task_eligible_for_execution t then None
      else (case resumable_running_stage t of None \<Rightarrow> None
        | Some st \<Rightarrow>
            (let t1 = prepare_interrupted_task (rw_now w) (rw_snippet w) st
                   (''Interrupted run recovered after stale runner detection. Resume from `'' @ st @ ''`.'')
                   (stale_interruption_reason t st (rw_subagent_stale w t)) t;
                 t2 = snd (canonicalize_resumable_queue_task (rw_now w) (Some st) t1)
             in Some (t2, interruption_journal_message t2))))"

text \<open>Repaired records by id, journal lines, and the ids to put in front.\<close>

record running_repair =
  rp_tasks :: tasks
  rp_transitioned :: "string list"
  rp_messages :: "(string, string) dict"

definition skips_running_task :: "recovery_world \<Rightarrow> workspace_state \<Rightarrow> task_record \<Rightarrow> bool" where
  "skips_running_task w ws t =
     (Some (t_id t) \<noteq> ws_active_task_id ws \<and> \<not> should_requeue_commit_stage_task t \<and>
      ws_active_task_id ws \<noteq> None \<and> \<not> rw_metadata_present w)"

definition recover_running_step ::
  "recovery_world \<Rightarrow> workspace_state \<Rightarrow> string \<Rightarrow> running_repair \<Rightarrow> running_repair" where
  "recover_running_step w ws tid r =
     (case map_of (rp_tasks r) tid of None \<Rightarrow> r
      | Some t \<Rightarrow>
          if skips_running_task w ws t then r
          else (case recover_stale_running_task w t of None \<Rightarrow> r
            | Some (t', msg) \<Rightarrow>
                r \<lparr>rp_tasks := AList.update tid t' (rp_tasks r),
                  rp_transitioned := rp_transitioned r @ [tid],
                  rp_messages := AList.update tid msg (rp_messages r)\<rparr>))"

definition recover_running_tasks ::
  "recovery_world \<Rightarrow> workspace_state \<Rightarrow> string list \<Rightarrow> tasks \<Rightarrow> running_repair" where
  "recover_running_tasks w ws ids tasks =
     fold (recover_running_step w ws) ids \<lparr>rp_tasks = tasks, rp_transitioned = [], rp_messages = []\<rparr>"

section \<open>Tasks left queued or interrupted\<close>

record resumable_repair =
  rn_tasks :: tasks
  rn_queue :: "string list"
  rn_front :: nat
  rn_transitioned :: "string list"
  rn_messages :: "(string, string) dict"

definition wants_resumable_repair :: "workspace_state \<Rightarrow> string list \<Rightarrow> task_record \<Rightarrow> string option" where
  "wants_resumable_repair ws queue t =
     (if running t then None
      else if t_status t \<notin> {Tst_QUEUED, Tst_IN_PROGRESS, Tst_INTERRUPTED} then None
      else if t_status t \<noteq> Tst_INTERRUPTED \<and> \<not> is_task_eligible_for_execution t \<and> \<not> task_has_resume_marker t
      then None
      else if t_status t = Tst_QUEUED \<and> Some (t_id t) \<noteq> ws_active_task_id ws \<and> \<not> task_has_resume_marker t
      then None
      else (case resumable_queue_stage t of None \<Rightarrow> None
        | Some st \<Rightarrow>
            (let p = t_pipeline t; marker = pr_current_stage p in
             if t_status t \<noteq> Tst_QUEUED \<or> pr_execution_status p \<noteq> execution_status_value Exe_IDLE \<or>
                pipeline_status_value (t_pipeline_status t) \<noteq> st \<or> ss_stage marker \<noteq> Some st \<or>
                ss_status marker \<noteq> runtime_stage_status_value Rts_IDLE \<or>
                Some (t_id t) = ws_active_task_id ws \<or> t_id t \<notin> set queue
             then Some st else None)))"

definition queue_index :: "string \<Rightarrow> string list \<Rightarrow> nat" where
  "queue_index tid queue = length (takeWhile (\<lambda>i. i \<noteq> tid) queue)"

definition normalize_nonrunning_step ::
  "string \<Rightarrow> workspace_state \<Rightarrow> task_record \<Rightarrow> resumable_repair \<Rightarrow> resumable_repair" where
  "normalize_nonrunning_step now ws t r =
     (case wants_resumable_repair ws (rn_queue r) t of None \<Rightarrow> r
      | Some st \<Rightarrow>
          (let queued = (t_id t \<in> set (rn_queue r)); index = queue_index (t_id t) (rn_queue r);
               t' = snd (canonicalize_resumable_queue_task now (Some st) t);
               rest = without (t_id t) (rn_queue r);
               to_front = (Some (t_id t) = ws_active_task_id ws \<or> t_status t = Tst_IN_PROGRESS \<or> \<not> queued)
           in r \<lparr>rn_tasks := AList.update (t_id t) t' (rn_tasks r),
                rn_queue := (if to_front then insert_at (rn_front r) (t_id t) rest
                             else insert_at (min index (length rest)) (t_id t) rest),
                rn_front := (if to_front then rn_front r + 1 else rn_front r),
                rn_transitioned := rn_transitioned r @ [t_id t],
                rn_messages := AList.update (t_id t)
                  (''Recovered stale resumable state and returned the task to `'' @ st @ ''`.'') (rn_messages r)\<rparr>))"

definition normalize_nonrunning_resumable_tasks ::
  "string \<Rightarrow> workspace_state \<Rightarrow> tasks \<Rightarrow> resumable_repair" where
  "normalize_nonrunning_resumable_tasks now ws tasks =
     fold (\<lambda>(i, t). normalize_nonrunning_step now ws t) tasks
       \<lparr>rn_tasks = tasks, rn_queue = ws_queue ws, rn_front = 0, rn_transitioned = [], rn_messages = []\<rparr>"

text \<open>The query that lets the repair be skipped, on the stored payload of each task.\<close>

definition PROBE_STATUSES :: "string list" where
  "PROBE_STATUSES = [''grooming'', ''implementing'', ''testing'', ''accepting'', ''commit_to_git'', ''flagged'']"

definition PROBE_STAGES :: "string list" where
  "PROBE_STAGES = [''grooming'', ''implementing'', ''testing'', ''accepting'', ''commit_to_git'', ''failed'']"

definition among :: "string option \<Rightarrow> string list \<Rightarrow> bool" where
  "among x xs = (case x of None \<Rightarrow> False | Some s \<Rightarrow> s \<in> set xs)"

definition repair_candidate :: "task_record \<Rightarrow> bool" where
  "repair_candidate t =
     (let p = t_pipeline t; marker = pr_current_stage p; i = xr_interruption (t_execution t);
          by_status = (pipeline_status_value (t_pipeline_status t) \<in> set PROBE_STATUSES);
          by_stage = among (ss_stage marker) PROBE_STAGES;
          by_interruption = (among (Option.bind i in_resume_stage) PROBE_STAGES \<or>
                             among (Option.bind i in_pipeline_status) PROBE_STATUSES)
      in (t_status t = Tst_IN_PROGRESS \<and> \<not> running t \<and> (by_status \<or> by_stage \<or> by_interruption)) \<or>
         (t_status t = Tst_INTERRUPTED \<and> (by_status \<or> by_interruption)) \<or>
         (t_status t = Tst_QUEUED \<and>
          ((by_stage \<and> ss_status marker \<in> {''idle'', ''paused'', ''interrupted'', ''running''}) \<or>
           by_interruption)))"

definition has_nonrunning_resumable_repair_candidates :: "tasks \<Rightarrow> bool" where
  "has_nonrunning_resumable_repair_candidates tasks = (\<exists>(i, t) \<in> set tasks. repair_candidate t)"

section \<open>The whole repair\<close>

definition clears_active_task ::
  "recovery_world \<Rightarrow> tasks \<Rightarrow> string list \<Rightarrow> string list \<Rightarrow> string \<Rightarrow> bool" where
  "clears_active_task w tasks prioritized ids active =
     ((map_of tasks active = None \<and> \<not> rw_row_exists w active) \<or> active \<in> set prioritized \<or>
      (case map_of tasks active of None \<Rightarrow> False
       | Some t \<Rightarrow> \<not> running t \<and> t_id t \<notin> set ids \<and> \<not> should_requeue_commit_stage_task t))"

definition update_active_task_after_recovery ::
  "recovery_world \<Rightarrow> tasks \<Rightarrow> string list \<Rightarrow> string list \<Rightarrow> workspace_state \<Rightarrow> bool \<times> workspace_state" where
  "update_active_task_after_recovery w tasks prioritized ids ws =
     (let ws1 = (if prioritized = [] then ws
                 else ws \<lparr>ws_queue := prioritized @ filter (\<lambda>i. i \<notin> set ids) (ws_queue ws)\<rparr>)
      in case ws_active_task_id ws1 of
           None \<Rightarrow> (prioritized \<noteq> [], ws1)
         | Some a \<Rightarrow>
             if clears_active_task w tasks prioritized ids a then (True, ws1 \<lparr>ws_active_task_id := None\<rparr>)
             else (prioritized \<noteq> [], ws1))"

definition can_skip_recovery_scan :: "recovery_world \<Rightarrow> tasks \<Rightarrow> workspace_state \<Rightarrow> bool" where
  "can_skip_recovery_scan w tasks ws =
     (running_task_ids tasks = [] \<and> ws_active_task_id ws = None \<and> \<not> rw_owns_thread w \<and>
      \<not> rw_lock_held w \<and> \<not> has_nonrunning_resumable_repair_candidates tasks)"

text \<open>The stored records and workspace after the repair, and whether anything was written.\<close>

definition recover_stale_runner_state ::
  "recovery_world \<Rightarrow> tasks \<times> workspace_state \<Rightarrow> bool \<times> (tasks \<times> workspace_state)" where
  "recover_stale_runner_state w =
     (\<lambda>(tasks, ws).
       let ids = running_task_ids tasks in
       if can_skip_recovery_scan w tasks ws \<or> \<not> can_attempt_stale_runner_recovery w tasks ids
       then (False, (tasks, ws))
       else
         (let r = recover_running_tasks w ws ids tasks;
              n = normalize_nonrunning_resumable_tasks (rw_now w) ws (rp_tasks r);
              ws1 = ws \<lparr>ws_queue := rn_queue n\<rparr>;
              changed = remdups (rp_transitioned r @ rn_transitioned n)
          in case update_active_task_after_recovery w (rn_tasks n) (rp_transitioned r) ids ws1 of
            (moved, ws2) \<Rightarrow>
              (if changed \<noteq> [] then
                 (True, (fold (\<lambda>i ts. case map_of ts i of None \<Rightarrow> ts
                                  | Some t \<Rightarrow> AList.update i (task_state_for_storage t) ts) changed (rn_tasks n),
                         merged_state_for_runner_owned_write ws2 ws changed))
               else if moved then (True, (tasks, ws2))
               else (False, (tasks, ws)))))"

end
