(* ===== verification/Launch_State.thy ===== *)
theory Launch_State
  imports Persistence Task_Record
begin

text \<open>
  The start of a run, \<open>litehive/lifecycle/launch_state.py\<close>: the stage at which a task record asks to
  be resumed, and the choice between a fresh lifecycle row, the stored one, and a reset that keeps
  the run memory. \<open>clock\<close> and \<open>float_text\<close> are those of the persistence.
\<close>

datatype launch_error =
    No_task_record string | Unknown_stage string | Load_failed load_error

section \<open>The stage to re-enter\<close>

definition first_truthy :: "string option list \<Rightarrow> string option" where
  "first_truthy xs = (case filter (\<lambda>x. x \<noteq> None \<and> x \<noteq> Some []) xs of [] \<Rightarrow> None | x # _ \<Rightarrow> x)"

definition launch_label :: "task_record \<Rightarrow> string" where
  "launch_label t =
     (case first_truthy [ss_stage (pr_current_stage (t_pipeline t)),
                         Option.bind (xr_interruption (t_execution t)) in_resume_stage] of
        Some s \<Rightarrow> s
      | None \<Rightarrow> pipeline_status_value (t_pipeline_status t))"

definition entry_stage_for_task :: "task_record \<Rightarrow> launch_error + pipeline_state option" where
  "entry_stage_for_task t =
     (let label = launch_label t in
      if label \<in> set (map pipeline_status_value [Pst_BACKLOG, Pst_DONE, Pst_FLAGGED]) then Inr None
      else if label = task_stage_value Stg_COMMIT_TO_GIT then Inr (Some COMMIT)
      else (case canonical_pipeline_state label of
              None \<Rightarrow> Inl (Unknown_stage label) | Some st \<Rightarrow> Inr (Some st)))"

definition launch_requires_fresh_pipeline_state :: "task_record \<Rightarrow> pipeline_state option \<Rightarrow> bool" where
  "launch_requires_fresh_pipeline_state t entry =
     (entry \<noteq> None \<and> pr_execution_status (t_pipeline t) \<noteq> execution_status_value Exe_RUNNING)"

definition stale_launch_state_requires_reset ::
  "task_record \<Rightarrow> task_state \<Rightarrow> pipeline_mode \<Rightarrow> pipeline_state \<Rightarrow> bool" where
  "stale_launch_state_requires_reset t s md entry =
     (if \<not> launch_requires_fresh_pipeline_state t (Some entry) then False
      else if mode s \<noteq> md then True
      else stage s \<noteq> READY \<or> entry_stage s \<noteq> Some entry)"

section \<open>Loading or initializing\<close>

definition launch_state ::
  "string \<Rightarrow> pipeline_mode \<Rightarrow> pipeline_state option \<Rightarrow> limits \<Rightarrow> task_state option \<Rightarrow> task_state" where
  "launch_state tid md entry l previous =
     (let fresh = fresh_state tid READY md entry l in
      case previous of None \<Rightarrow> fresh
      | Some p \<Rightarrow> fresh \<lparr>recovery_history := recovery_history p,
           recovery_budget_history_start := int (length (recovery_history p)),
           failed_run_history := failed_run_history p\<rparr>)"

definition initialize_fresh_state ::
  "(rat \<Rightarrow> string) \<Rightarrow> string \<Rightarrow> limits \<Rightarrow> string \<Rightarrow> pipeline_mode \<Rightarrow> pipeline_state option \<Rightarrow>
   lifecycle_db \<Rightarrow> (launch_error + task_state) \<times> lifecycle_db" where
  "initialize_fresh_state float_text now l tid md entry db =
     (case (case load now l tid db of
              Inr p \<Rightarrow> Inr (Some p) | Inl (TaskNotFound _) \<Rightarrow> Inr None | Inl err \<Rightarrow> Inl (Load_failed err)) of
        Inl err \<Rightarrow> (Inl err, db)
      | Inr previous \<Rightarrow>
          (case reset_current_lifecycle_state float_text now l tid True db of
             Inl err \<Rightarrow> (Inl (Load_failed err), db)
           | Inr db1 \<Rightarrow>
               (let s = launch_state tid md entry l previous in (Inr s, save float_text now s db1))))"

definition load_or_initialize ::
  "(rat \<Rightarrow> string) \<Rightarrow> string \<Rightarrow> limits \<Rightarrow> string \<Rightarrow> task_record option \<Rightarrow> lifecycle_db \<Rightarrow>
   (launch_error + task_state) \<times> lifecycle_db" where
  "load_or_initialize float_text now l tid record db =
     (case record of None \<Rightarrow> (Inl (No_task_record tid), db)
      | Some t \<Rightarrow>
          (case entry_stage_for_task t of
             Inl err \<Rightarrow> (Inl err, db)
           | Inr entry \<Rightarrow>
               (let fresh = launch_state tid (t_mode t) entry l None;
                    start = (Inr fresh, save float_text now fresh db)
                in case load now l tid db of
                  Inl (TaskNotFound _) \<Rightarrow> start
                | Inl err \<Rightarrow> (Inl (Load_failed err), db)
                | Inr s \<Rightarrow>
                    (case entry of None \<Rightarrow> (Inr s, db)
                     | Some st \<Rightarrow>
                         if stale_launch_state_requires_reset t s (t_mode t) st
                         then initialize_fresh_state float_text now l tid (t_mode t) entry db
                         else (Inr s, db)))))"

section \<open>Facts\<close>

lemma launch_state_sel [simp]:
  "stage (launch_state tid md entry l p) = READY" "mode (launch_state tid md entry l p) = md"
  "entry_stage (launch_state tid md entry l p) = entry" "task_id (launch_state tid md entry l p) = tid"
  "lims (launch_state tid md entry l p) = l" "stage_retry (launch_state tid md entry l p) = []"
  by (cases p; simp add: launch_state_def fresh_state_def Let_def)+

lemma launch_memory:
  "recovery_history (launch_state tid md entry l (Some p)) = recovery_history p"
  "failed_run_history (launch_state tid md entry l (Some p)) = failed_run_history p"
  "recovery_budget_history_start (launch_state tid md entry l (Some p)) = int (length (recovery_history p))"
  by (simp_all add: launch_state_def Let_def)

text \<open>A launch that asks for a stage and finds a loadable row or none ends ready for that stage, or
  on the stored row of the same request.\<close>

lemma launch_on_request:
  assumes "entry_stage_for_task t = Inr (Some st)"
    and "load now l tid db = Inr p" and "pr_execution_status (t_pipeline t) \<noteq> ''running''"
  shows "\<exists>s. fst (load_or_initialize float_text now l tid (Some t) db) = Inr s \<and>
             stage s = READY \<and> entry_stage s = Some st \<and> mode s = t_mode t \<and>
             recovery_history s = recovery_history p \<and> failed_run_history s = failed_run_history p"
proof (cases "stale_launch_state_requires_reset t p (t_mode t) st")
  case True
  obtain db1 where "reset_current_lifecycle_state float_text now l tid True db = Inr db1"
    using assms(2)
    by (cases "failed_run_history p = [] \<and> recovery_history p = []")
      (auto simp: reset_current_lifecycle_state_def Let_def)
  with True assms show ?thesis
    by (simp add: load_or_initialize_def initialize_fresh_state_def Let_def launch_memory)
next
  case False
  with assms show ?thesis
    by (auto simp: load_or_initialize_def stale_launch_state_requires_reset_def
        launch_requires_fresh_pipeline_state_def split: if_splits)
qed

end
