(* ===== verification/Crash_Properties.thy ===== *)
theory Crash_Properties
  imports Crash_Recovery Launch_State Transitions
begin

text \<open>
  The record of a task follows its lifecycle state, and what the repair after a dead runner makes of
  it: a killed run comes back at its stage, a run that died by an exception only when it was inside
  one of the four agent stages.
\<close>

section \<open>The view operators get\<close>

text \<open>Task status, pipeline status, run marker, and label and status of the stage marker.\<close>

type_synonym operator_view = "task_status \<times> pipeline_status \<times> string \<times> string option \<times> string"

definition record_view :: "task_record \<Rightarrow> operator_view" where
  "record_view t =
     (t_status t, t_pipeline_status t, pr_execution_status (t_pipeline t),
      ss_stage (pr_current_stage (t_pipeline t)), ss_status (pr_current_stage (t_pipeline t)))"

definition state_view :: "task_state \<Rightarrow> operator_view" where
  "state_view s =
     (if stage s = DONE then (Tst_DONE, Pst_DONE, ''done'', None, ''idle'')
      else if stage s = FAILED then (Tst_FLAGGED, Pst_FLAGGED, ''failed'', None, ''idle'')
      else (Tst_IN_PROGRESS, pipeline_status_of (stage s), ''running'',
           Some (pipeline_state_value (stage s)), ''running''))"

lemma terminal_status_view:
  "t_status (snd (sync_terminal_status s t)) = fst (state_view s)"
  "t_pipeline_status (snd (sync_terminal_status s t)) = fst (snd (state_view s))"
  "t_execution (snd (sync_terminal_status s t)) = t_execution t"
  "t_id (snd (sync_terminal_status s t)) = t_id t"
  by (simp_all add: sync_terminal_status_def state_view_def set_task_commit_sha_def Let_def split: option.splits)

lemma terminal_status_runtime [simp]:
  "pr_execution_status (t_pipeline (snd (sync_terminal_status s t))) = pr_execution_status (t_pipeline t)"
  "pr_current_stage (t_pipeline (snd (sync_terminal_status s t))) = pr_current_stage (t_pipeline t)"
  "pr_failed_run_history (t_pipeline (snd (sync_terminal_status s t))) = pr_failed_run_history (t_pipeline t)"
  "pr_recovery_history (t_pipeline (snd (sync_terminal_status s t))) = pr_recovery_history (t_pipeline t)"
  by (simp_all add: sync_terminal_status_def set_task_commit_sha_def Let_def split: option.splits)

lemma runtime_fields_view:
  "pr_execution_status (t_pipeline (sync_runtime_fields now s t)) = fst (snd (snd (state_view s)))"
  "ss_stage (pr_current_stage (t_pipeline (sync_runtime_fields now s t))) = fst (snd (snd (snd (state_view s))))"
  "ss_status (pr_current_stage (t_pipeline (sync_runtime_fields now s t))) = snd (snd (snd (snd (state_view s))))"
  "pr_failed_run_history (t_pipeline (sync_runtime_fields now s t)) = runtime_failed_run_history_projection s"
  "pr_recovery_history (t_pipeline (sync_runtime_fields now s t)) = runtime_recovery_history_projection s"
  by (simp_all add: sync_runtime_fields_def state_view_def mirrored_def terminal_marker_def
      running_marker_def Let_def)

lemma synced_view: "record_view (synced now l s t) = state_view s"
  by (simp add: record_view_def synced_def terminal_status_view runtime_fields_view)

lemma stored_view [simp]: "record_view (task_state_for_storage t) = record_view t"
  by (simp add: record_view_def)

lemma stored_failed_flag:
  "t_status t = Tst_FLAGGED \<Longrightarrow> \<exists>r. t_flag_reason (task_state_for_storage t) = Some r \<and> r \<noteq> []"
  by (simp add: storage_flag_reason opt_str_or_nonempty)

lemma view_DONE: "state_view s = (Tst_DONE, ps, x, m) \<Longrightarrow> stage s = DONE"
  by (auto simp: state_view_def split: if_splits)

text \<open>C22: After every step the stored task record shows operators exactly the lifecycle state, whatever it
  showed before: task status, pipeline status, run marker, stage marker, failed runs and recovery
  history are functions of the state. A finished or failed task is not eligible to run, a failed one
  carries a flag reason, a finished one a close reason, and no other task changes.\<close>

theorem synced_record_mirrors_state:
  assumes "sync_back now latest s tasks = Some (note, action, tasks')"
  shows "\<exists>t. map_of tasks' (task_id s) = Some t \<and> record_view t = state_view s \<and>
    pr_failed_run_history (t_pipeline t) = runtime_failed_run_history_projection s \<and>
    pr_recovery_history (t_pipeline t) = runtime_recovery_history_projection s \<and>
    (stage s \<in> {DONE, FAILED} \<longrightarrow> \<not> is_task_eligible_for_execution t) \<and>
    (is_task_completed t \<longleftrightarrow> stage s = DONE) \<and>
    (stage s = FAILED \<longrightarrow> (\<exists>r. t_flag_reason t = Some r \<and> r \<noteq> [])) \<and>
    (t_close_reason t \<noteq> None \<longleftrightarrow> stage s = DONE) \<and>
    (\<forall>i. i \<noteq> task_id s \<longrightarrow> map_of tasks' i = map_of tasks i)"
proof -
  obtain t0 where t0: "map_of tasks (task_id s) = Some t0"
    "tasks' = AList.update (task_id s) (task_state_for_storage (synced now latest s t0)) tasks"
    using assms by (auto simp: sync_back_def Let_def split: option.splits)
  let ?y = "synced now latest s t0" and ?t = "task_state_for_storage (synced now latest s t0)"
  have view: "record_view ?t = state_view s" by (simp add: synced_view)
  have status: "t_status ?y = fst (state_view s)" using synced_view [of now latest s t0]
    by (metis fst_conv record_view_def)
  have exec: "pr_execution_status (t_pipeline ?t) = fst (snd (snd (state_view s)))"
    "t_pipeline_status ?t = fst (snd (state_view s))" using view
    by (metis fst_conv snd_conv record_view_def)+
  have "\<not> is_task_eligible_for_execution ?t" if "stage s \<in> {DONE, FAILED}"
    using that exec
    by (auto simp: is_task_eligible_for_execution_def has_terminal_execution_status_def
        TERMINAL_EXECUTION_STATUSES_def state_view_def)
  moreover have "is_task_completed ?t \<longleftrightarrow> stage s = DONE"
    using status exec(2) by (auto simp: is_task_completed_def state_view_def split: if_splits)
  moreover have "\<exists>r. t_flag_reason ?t = Some r \<and> r \<noteq> []" if "stage s = FAILED"
    using that status stored_failed_flag [of ?y] by (simp add: state_view_def)
  moreover have "t_close_reason ?t \<noteq> None \<longleftrightarrow> stage s = DONE"
    unfolding storage_close_reason status by (auto simp: state_view_def)
  ultimately show ?thesis
    using view by (simp add: t0(2) update_conv' synced_def runtime_fields_view)
qed

text \<open>A record as the runner shows it at a stage, and its store.\<close>

definition demo_live :: "pipeline_state \<Rightarrow> task_record" where
  "demo_live st =
     (demo_record ''T1'' [] Tst_IN_PROGRESS (pipeline_status_of st))
       \<lparr>t_pipeline := idle_pipeline \<lparr>pr_execution_status := ''running'',
          pr_current_stage := \<lparr>ss_stage = Some (pipeline_state_value st), ss_status = ''running'',
            ss_started_at = None, ss_updated_at = None\<rparr>\<rparr>\<rparr>"

definition demo_store :: "pipeline_state \<Rightarrow> tasks" where
  "demo_store st = [(''T1'', demo_live st), (''T2'', demo_record ''T2'' [''T1''] Tst_QUEUED Pst_BACKLOG)]"

definition demo_run_state :: "pipeline_state \<Rightarrow> task_state" where
  "demo_run_state st = fresh_state ''T1'' st FULL None default_limits"

lemma demo_run_state_sel [simp]: "stage (demo_run_state st) = st" "task_id (demo_run_state st) = ''T1''"
  by (simp_all add: demo_run_state_def fresh_state_def)

lemma demo_live_view: "st \<notin> {DONE, FAILED} \<Longrightarrow> record_view (demo_live st) = state_view (demo_run_state st)"
  by (simp add: record_view_def state_view_def demo_live_def demo_record_def)

lemma synced_record_mirrors_state_witness:
  "\<exists>note action tasks' t.
     sync_back ''now'' None (demo_run_state DONE) (demo_store AFTER_COMMIT) = Some (note, action, tasks') \<and>
     map_of tasks' ''T1'' = Some t \<and> is_task_completed t \<and>
     map_of tasks' ''T2'' = Some (demo_record ''T2'' [''T1''] Tst_QUEUED Pst_BACKLOG)"
proof -
  obtain msg action tasks' where
    r: "sync_back ''now'' None (demo_run_state DONE) (demo_store AFTER_COMMIT) = Some (msg, action, tasks')"
    by (auto simp: sync_back_def demo_store_def Let_def)
  from synced_record_mirrors_state [OF r] obtain t where "map_of tasks' ''T1'' = Some t" "is_task_completed t"
    "map_of tasks' ''T2'' = map_of (demo_store AFTER_COMMIT) ''T2''" by auto
  with r show ?thesis by (simp add: demo_store_def)
qed

section \<open>What repair makes of one record\<close>

definition wf_tasks :: "tasks \<Rightarrow> bool" where
  "wf_tasks tasks = (distinct (map fst tasks) \<and> (\<forall>(i, t) \<in> set tasks. t_id t = i))"

lemma wf_id: "wf_tasks tasks \<Longrightarrow> map_of tasks i = Some t \<Longrightarrow> t_id t = i"
  by (auto simp: wf_tasks_def dest!: map_of_SomeD)

lemma wf_iff:
  "wf_tasks tasks \<longleftrightarrow> distinct (map fst tasks) \<and> (\<forall>i t. map_of tasks i = Some t \<longrightarrow> t_id t = i)"
  by (auto simp: wf_tasks_def map_of_eq_Some_iff dest!: map_of_SomeD)

lemma wf_update: "wf_tasks tasks \<Longrightarrow> t_id u = i \<Longrightarrow> wf_tasks (AList.update i u tasks)"
  by (simp add: wf_iff distinct_update update_conv')

text \<open>The record \<open>canonicalize_resumable_queue_task\<close> makes for a stage.\<close>

abbreviation requeued :: "string \<Rightarrow> string \<Rightarrow> task_record \<Rightarrow> task_record" where
  "requeued now st t \<equiv> snd (canonicalize_resumable_queue_task now (Some st) t)"

lemma stage_resumable [simp]: "task_stage_value ts \<in> set RESUMABLE_PIPELINE_STAGES"
  by (cases ts) (simp_all add: RESUMABLE_PIPELINE_STAGES_def)

lemma normalize_stage [simp]: "normalize_resumable_stage_name (Some (task_stage_value ts)) = Some (task_stage_value ts)"
  by (simp add: normalize_resumable_stage_name_def)

lemma resumable_by_status:
  "pipeline_status_value (t_pipeline_status t) \<in> set RESUMABLE_PIPELINE_STAGES \<Longrightarrow>
   resumable_queue_stage t = Some (pipeline_status_value (t_pipeline_status t))"
  by (simp add: resumable_queue_stage_def normalize_resumable_stage_name_def Let_def)

definition status_of_task_stage :: "task_stage \<Rightarrow> pipeline_status" where
  "status_of_task_stage ts = the (enum_parse pipeline_status_value pipeline_status_members (task_stage_value ts))"

lemma status_of_task_stage [simp]:
  "status_of_task_stage Stg_GROOMING = Pst_GROOMING"
  "status_of_task_stage Stg_IMPLEMENTING = Pst_IMPLEMENTING"
  "status_of_task_stage Stg_TESTING = Pst_TESTING"
  "status_of_task_stage Stg_ACCEPTING = Pst_ACCEPTING"
  "status_of_task_stage Stg_COMMIT_TO_GIT = Pst_COMMIT_TO_GIT"
  by (simp_all add: status_of_task_stage_def enum_parse_def pipeline_status_members_def)

lemma status_value_of_task_stage [simp]:
  "pipeline_status_value (status_of_task_stage ts) = task_stage_value ts"
  by (cases ts) simp_all

lemma status_of_state: "task_stage_of st = Some ts \<Longrightarrow> pipeline_status_of st = status_of_task_stage ts"
  by (cases st) auto

lemma requeued_eq:
  "requeued now (task_stage_value ts) t =
     t \<lparr>t_execution := (t_execution t) \<lparr>xr_active_subagent := None\<rparr>,
       t_status := Tst_QUEUED, t_close_reason := None, t_flag_reason := None,
       t_pipeline_status := status_of_task_stage ts,
       t_pipeline := (t_pipeline t) \<lparr>pr_execution_status := ''idle'', pr_run_started_at := None,
         pr_updated_at := Some now,
         pr_current_stage := idle_stage_state now (Some (task_stage_value ts)),
         pr_last_outcome := repoint_interrupted (task_stage_value ts) (pr_last_outcome (t_pipeline t))\<rparr>\<rparr>"
  unfolding canonicalize_resumable_queue_task_def status_of_task_stage_def [symmetric]
  by (simp add: Let_def clear_task_run_activity_def status_of_task_stage_def)

lemma requeued_fields:
  "t_id (requeued now (task_stage_value ts) t) = t_id t"
  "t_mode (requeued now (task_stage_value ts) t) = t_mode t"
  "t_status (requeued now (task_stage_value ts) t) = Tst_QUEUED"
  "t_pipeline_status (requeued now (task_stage_value ts) t) = status_of_task_stage ts"
  "t_execution (requeued now (task_stage_value ts) t) = (t_execution t) \<lparr>xr_active_subagent := None\<rparr>"
  "pr_execution_status (t_pipeline (requeued now (task_stage_value ts) t)) = ''idle''"
  "pr_current_stage (t_pipeline (requeued now (task_stage_value ts) t)) =
     idle_stage_state now (Some (task_stage_value ts))"
  "pr_failed_run_history (t_pipeline (requeued now (task_stage_value ts) t)) = pr_failed_run_history (t_pipeline t)"
  "os_kind (pr_last_outcome (t_pipeline (requeued now (task_stage_value ts) t))) =
     os_kind (pr_last_outcome (t_pipeline t))"
  by (simp_all add: requeued_eq repoint_interrupted_def)

text \<open>What makes a queued task with an idle marker eligible.\<close>

definition gate_open :: "task_record \<Rightarrow> bool" where
  "gate_open t = (\<not> has_blocking_failed_run_history t \<and> \<not> has_terminal_outcome_kind t)"

lemma idle_not_terminal [simp]: "''idle'' \<notin> set TERMINAL_EXECUTION_STATUSES"
  by (simp add: TERMINAL_EXECUTION_STATUSES_def)

lemma idle_eligible:
  assumes "t_status t \<in> {Tst_QUEUED, Tst_IN_PROGRESS}" "pr_execution_status (t_pipeline t) = ''idle''"
    and "t_pipeline_status t \<noteq> Pst_DONE"
  shows "is_task_eligible_for_execution t = gate_open t"
proof -
  from assms(1) have "t_status t \<noteq> Tst_FLAGGED" by auto
  with assms show ?thesis
    by (simp add: is_task_eligible_for_execution_def gate_open_def has_terminal_execution_status_def
        needs_manual_intervention_def is_recovery_budget_exhausted_def)
qed

lemma gate_requeued [simp]: "gate_open (requeued now (task_stage_value ts) t) = gate_open t"
  by (simp add: gate_open_def has_blocking_failed_run_history_def blocking_failed_run_records_def
      has_terminal_outcome_kind_def requeued_fields)

lemma stage_status_not_done [simp]: "status_of_task_stage ts \<noteq> Pst_DONE"
  by (cases ts) simp_all

lemma requeued_eligible:
  "is_task_eligible_for_execution (requeued now (task_stage_value ts) t) = gate_open t"
  using idle_eligible [of "requeued now (task_stage_value ts) t"] by (simp add: requeued_fields)

lemma requeued_idem:
  "requeued now (task_stage_value ts) (requeued now (task_stage_value ts) t) = requeued now (task_stage_value ts) t"
  by (simp add: requeued_eq repoint_interrupted_def)

lemma requeued_stage: "resumable_queue_stage (requeued now (task_stage_value ts) t) = Some (task_stage_value ts)"
  using resumable_by_status [of "requeued now (task_stage_value ts) t"] by (simp add: requeued_fields)

section \<open>What repair makes of the store\<close>

lemma normalize_step_tasks:
  "map_of (rn_tasks (normalize_nonrunning_step now ws t r)) i =
     (case wants_resumable_repair ws (rn_queue r) t of None \<Rightarrow> map_of (rn_tasks r) i
      | Some st \<Rightarrow> if i = t_id t then Some (requeued now st t) else map_of (rn_tasks r) i)"
  by (auto simp: normalize_nonrunning_step_def Let_def update_conv' split: option.splits)

lemma normalize_step_transitioned:
  "set (rn_transitioned (normalize_nonrunning_step now ws t r)) =
     set (rn_transitioned r) \<union> (if wants_resumable_repair ws (rn_queue r) t = None then {} else {t_id t})"
  by (auto simp: normalize_nonrunning_step_def Let_def split: option.splits)

text \<open>Each record is judged once, against the queue as the repair has left it so far.\<close>

lemma normalize_fold:
  assumes "wf_tasks ts"
  shows "\<exists>q. let r' = fold (\<lambda>(i, t). normalize_nonrunning_step now ws t) ts r in
    map_of (rn_tasks r') i = (case map_of ts i of None \<Rightarrow> map_of (rn_tasks r) i
      | Some t \<Rightarrow> (case wants_resumable_repair ws q t of None \<Rightarrow> map_of (rn_tasks r) i
                  | Some st \<Rightarrow> Some (requeued now st t))) \<and>
    (i \<in> set (rn_transitioned r') \<longleftrightarrow> i \<in> set (rn_transitioned r) \<or>
       (\<exists>t. map_of ts i = Some t \<and> wants_resumable_repair ws q t \<noteq> None))"
  using assms
proof (induction ts arbitrary: r)
  case Nil
  then show ?case by simp
next
  case (Cons x ts)
  obtain k u where x: "x = (k, u)" by (cases x)
  have wf: "wf_tasks ts" and u: "t_id u = k" and new: "k \<notin> fst ` set ts"
    using Cons.prems by (auto simp: wf_tasks_def x)
  let ?r = "normalize_nonrunning_step now ws u r"
  from Cons.IH [OF wf, of ?r] obtain q where q:
    "let r' = fold (\<lambda>(i, t). normalize_nonrunning_step now ws t) ts ?r in
     map_of (rn_tasks r') i = (case map_of ts i of None \<Rightarrow> map_of (rn_tasks ?r) i
      | Some t \<Rightarrow> (case wants_resumable_repair ws q t of None \<Rightarrow> map_of (rn_tasks ?r) i
                  | Some st \<Rightarrow> Some (requeued now st t))) \<and>
     (i \<in> set (rn_transitioned r') \<longleftrightarrow> i \<in> set (rn_transitioned ?r) \<or>
       (\<exists>t. map_of ts i = Some t \<and> wants_resumable_repair ws q t \<noteq> None))" by blast
  show ?case
  proof (cases "i = k")
    case True
    with new have "map_of ts i = None" by (simp add: map_of_eq_None_iff)
    with q True u show ?thesis
      by (intro exI [of _ "rn_queue r"])
        (auto simp: x Let_def normalize_step_tasks normalize_step_transitioned split: option.splits)
  next
    case False
    then have "k \<noteq> i" by simp
    with q u False show ?thesis
      by (intro exI [of _ q])
        (auto simp: x Let_def normalize_step_tasks normalize_step_transitioned split: option.splits)
  qed
qed

lemma normalized_record:
  assumes "wf_tasks ts" "map_of ts i = Some t"
  shows "\<exists>q. map_of (rn_tasks (normalize_nonrunning_resumable_tasks now ws ts)) i =
      Some (case wants_resumable_repair ws q t of None \<Rightarrow> t | Some st \<Rightarrow> requeued now st t) \<and>
    (i \<in> set (rn_transitioned (normalize_nonrunning_resumable_tasks now ws ts)) \<longleftrightarrow>
       wants_resumable_repair ws q t \<noteq> None)"
  using normalize_fold [OF assms(1), of now ws "\<lparr>rn_tasks = ts, rn_queue = ws_queue ws, rn_front = 0,
      rn_transitioned = [], rn_messages = []\<rparr>" i] assms(2)
  unfolding normalize_nonrunning_resumable_tasks_def Let_def
  by (elim ex_forward) (simp split: option.splits)

lemma store_fold:
  assumes "distinct ids"
  shows "map_of (fold (\<lambda>i ts. case map_of ts i of None \<Rightarrow> ts
      | Some t \<Rightarrow> AList.update i (task_state_for_storage t) ts) ids ts) i =
    (if i \<in> set ids then map_option task_state_for_storage (map_of ts i) else map_of ts i)"
  using assms by (induction ids arbitrary: ts) (auto simp: update_conv' split: option.splits)

section \<open>A killed run\<close>

lemma prepared_fields:
  "t_id (prepare_interrupted_task now f st sm r t) = t_id t"
  "t_mode (prepare_interrupted_task now f st sm r t) = t_mode t"
  "pr_failed_run_history (t_pipeline (prepare_interrupted_task now f st sm r t)) = pr_failed_run_history (t_pipeline t)"
  "os_kind (pr_last_outcome (t_pipeline (prepare_interrupted_task now f st sm r t))) = Some Ok_INTERRUPTED"
  by (simp_all add: prepare_interrupted_task_def mark_interrupted_subagent_def apply_task_outcome_def Let_def
      split: prod.splits)

lemma prepared_gate:
  "gate_open (prepare_interrupted_task now f st sm r t) \<longleftrightarrow> \<not> has_blocking_failed_run_history t"
  by (simp add: gate_open_def has_blocking_failed_run_history_def blocking_failed_run_records_def
      has_terminal_outcome_kind_def prepared_fields TERMINAL_OUTCOME_KINDS_def)

lemma stage_label: "task_stage_of st = Some ts \<Longrightarrow>
    pipeline_state_value st \<in> set RESUMABLE_PIPELINE_STAGES \<Longrightarrow> pipeline_state_value st = task_stage_value ts"
  by (cases st) (auto simp: RESUMABLE_PIPELINE_STAGES_def)

lemma running_stage:
  assumes "record_view t = state_view s" and "task_stage_of (stage s) = Some ts"
  shows "resumable_running_stage t = Some (task_stage_value ts)"
proof -
  have "stage s \<notin> {DONE, FAILED}" using assms(2) by auto
  then have v: "t_pipeline_status t = status_of_task_stage ts"
    "ss_stage (pr_current_stage (t_pipeline t)) = Some (pipeline_state_value (stage s))"
    using assms status_of_state [OF assms(2)] by (auto simp: record_view_def state_view_def)
  have "resumable_queue_stage t = Some (task_stage_value ts)" using resumable_by_status [of t] v(1) by simp
  then show ?thesis
    using v(2) stage_label [OF assms(2)]
    by (auto simp: resumable_running_stage_def normalize_resumable_stage_name_def Let_def)
qed

lemma recovered_running_task:
  assumes "record_view t = state_view s" and "task_stage_of (stage s) = Some ts"
    and "is_task_eligible_for_execution t"
  shows "\<exists>u msg. recover_stale_running_task w t = Some (requeued (rw_now w) (task_stage_value ts) u, msg) \<and>
    t_id u = t_id t \<and> t_mode u = t_mode t \<and> gate_open u"
proof -
  have "\<not> has_blocking_failed_run_history t"
    using assms(3) by (auto simp: is_task_eligible_for_execution_def split: if_splits)
  then show ?thesis
    using assms(3) running_stage [OF assms(1,2)]
    by (simp add: recover_stale_running_task_def Let_def)
      (metis prepared_fields(1,2) prepared_gate)
qed

lemma splice_head: "0 < n \<Longrightarrow> \<exists>q. splice ps n ids (x # m) = x # q"
proof (induction ps n ids "x # m" arbitrary: m rule: splice.induct)
  case (2 before t ps inserted ids m)
  then obtain i where "min (before + inserted) (length (x # m)) = Suc i"
    by (cases "min (before + inserted) (length (x # m))") auto
  then have "insert_at (min (before + inserted) (length (x # m))) t (x # m) = x # insert_at i t m"
    by (simp add: insert_at_def)
  with 2 show ?case by (metis splice.simps(2) zero_less_Suc add_gr_0)
qed simp

lemma merge_head:
  "x \<in> set prot \<Longrightarrow> \<exists>q. merge_queue_preserving_future_changes (x # desired) latest prot = x # q"
  using splice_head [of 1 _ "[x]" x]
  by (auto simp: merge_queue_preserving_future_changes_def protected_positions_def unprotected_before_def insert_at_def)

lemma marker_entry:
  assumes "ss_stage (pr_current_stage (t_pipeline t)) = Some (task_stage_value ts)"
  shows "entry_stage_for_task t = Inr (Some (retry_counter_state ts))"
proof -
  have "launch_label t = task_stage_value ts" using assms by (cases ts) (simp_all add: launch_label_def first_truthy_def)
  moreover have "canonical_pipeline_state ''grooming'' = Some GROOMING"
    "canonical_pipeline_state ''implementing'' = Some IMPLEMENTING"
    "canonical_pipeline_state ''testing'' = Some TESTING" "canonical_pipeline_state ''accepting'' = Some ACCEPTING"
    by (simp_all add: canonical_iff)
  ultimately show ?thesis by (cases ts) (simp_all add: entry_stage_for_task_def Let_def)
qed

lemma stage_entry_target:
  "entry_stage s = Some (retry_counter_state ts) \<Longrightarrow>
   entry_from_worktree_sync s e = entry_phase (Some (pipeline_state_value (retry_counter_state ts)))"
  by (cases ts) (simp_all add: entry_from_worktree_sync_def in_STAGES_def STAGES_def AGENT_STAGES_def SYSTEM_STAGES_def)

lemma killed_run_repaired:
  assumes wf: "wf_tasks tasks" and t: "map_of tasks tid = Some t" "is_task_eligible_for_execution t"
    and view: "record_view t = state_view s" "task_stage_of (stage s) = Some ts"
    and run: "running_task_ids tasks = [tid]" "ws_active_task_id ws = Some tid" "rw_owns_thread w"
    and res: "recover_stale_runner_state w (tasks, ws) = (b, (tasks', ws'))"
  shows "\<exists>u. map_of tasks' tid = Some (task_state_for_storage (requeued (rw_now w) (task_stage_value ts) u)) \<and>
    t_id u = tid \<and> t_mode u = t_mode t \<and> gate_open u \<and>
    ws_active_task_id ws' = None \<and> (\<exists>q. ws_queue ws' = tid # q)"
proof -
  let ?now = "rw_now w" and ?ts = "task_stage_value ts"
  obtain u msg where u: "recover_stale_running_task w t = Some (requeued ?now ?ts u, msg)"
    "t_id u = t_id t" "t_mode u = t_mode t" "gate_open u"
    using recovered_running_task [OF view t(2)] by blast
  let ?t2 = "requeued ?now ?ts u"
  have tid: "t_id t = tid" by (rule wf_id [OF wf t(1)])
  define r where "r = recover_running_tasks w ws [tid] tasks"
  have r: "rp_tasks r = AList.update tid ?t2 tasks" "rp_transitioned r = [tid]"
    using t(1) u run(2) tid by (simp_all add: r_def recover_running_tasks_def recover_running_step_def skips_running_task_def)
  have wf2: "wf_tasks (rp_tasks r)" using wf u(2) tid by (simp add: r wf_update requeued_fields)
  define n where "n = normalize_nonrunning_resumable_tasks ?now ws (rp_tasks r)"
  have "map_of (rp_tasks r) tid = Some ?t2" by (simp add: r update_conv')
  from normalized_record [OF wf2 this, of ?now ws] obtain q where "map_of (rn_tasks n) tid =
      Some (case wants_resumable_repair ws q ?t2 of None \<Rightarrow> ?t2 | Some st \<Rightarrow> requeued ?now st ?t2)"
    unfolding n_def by blast
  moreover have "wants_resumable_repair ws q ?t2 \<in> {None, Some ?ts}"
    by (auto simp: wants_resumable_repair_def requeued_stage Let_def)
  ultimately have n: "map_of (rn_tasks n) tid = Some ?t2" by (auto simp: requeued_idem)
  define changed where "changed = remdups (rp_transitioned r @ rn_transitioned n)"
  have changed: "tid \<in> set changed" "distinct changed" by (simp_all add: changed_def r)
  define ws2 where "ws2 = snd (update_active_task_after_recovery w (rn_tasks n) (rp_transitioned r) [tid]
      (ws \<lparr>ws_queue := rn_queue n\<rparr>))"
  have ws2: "ws_active_task_id ws2 = None" "\<exists>q. ws_queue ws2 = tid # q"
    using run(2) by (simp_all add: ws2_def r update_active_task_after_recovery_def clears_active_task_def)
  have "can_attempt_stale_runner_recovery w tasks [tid]" "\<not> can_skip_recovery_scan w tasks ws"
    using run by (simp_all add: can_attempt_stale_runner_recovery_def can_skip_recovery_scan_def)
  moreover have "changed \<noteq> []" using changed(1) by auto
  ultimately have "recover_stale_runner_state w (tasks, ws) = (True,
      (fold (\<lambda>i ts. case map_of ts i of None \<Rightarrow> ts
         | Some t \<Rightarrow> AList.update i (task_state_for_storage t) ts) changed (rn_tasks n),
       merged_state_for_runner_owned_write ws2 ws changed))"
    using run(1) unfolding recover_stale_runner_state_def Let_def ws2_def
    by (simp add: prod.case_eq_if flip: r_def n_def changed_def)
  with res have
    "tasks' = fold (\<lambda>i ts. case map_of ts i of None \<Rightarrow> ts
        | Some t \<Rightarrow> AList.update i (task_state_for_storage t) ts) changed (rn_tasks n)"
    "ws' = merged_state_for_runner_owned_write ws2 ws changed" by simp_all
  then show ?thesis
    using store_fold [OF changed(2), of "rn_tasks n" tid] changed(1) n ws2 merge_head [OF changed(1)] u tid
    by (auto simp: merged_state_for_runner_owned_write_def)
qed

text \<open>C26: A run killed at a stage that belongs to a task stage is resumed there: the next runner's repair
  leaves the task eligible at the front of the queue with no task active, and its launch starts a
  fresh lifecycle row that keeps the run memory and goes, after the worktree sync, to the entry phase
  of that task stage.\<close>

theorem killed_run_resumes:
  assumes "wf_tasks tasks" and "map_of tasks tid = Some t" and "is_task_eligible_for_execution t"
    and "record_view t = state_view s" and "task_stage_of (stage s) = Some ts"
    and "running_task_ids tasks = [tid]" and "ws_active_task_id ws = Some tid" and "rw_owns_thread w"
    and "recover_stale_runner_state w (tasks, ws) = (b, (tasks', ws'))" and "load now l tid db = Inr p"
  shows "\<exists>t' s0. map_of tasks' tid = Some t' \<and> is_task_eligible_for_execution t' \<and>
    ws_active_task_id ws' = None \<and> (\<exists>q. ws_queue ws' = tid # q) \<and>
    fst (load_or_initialize float_text now l tid (Some (fst (promote now2 t'))) db) = Inr s0 \<and>
    stage s0 = READY \<and> mode s0 = t_mode t \<and> recovery_history s0 = recovery_history p \<and>
    failed_run_history s0 = failed_run_history p \<and>
    entry_from_worktree_sync s0 e = entry_phase (Some (pipeline_state_value (retry_counter_state ts)))"
proof -
  let ?rec = "\<lambda>u. task_state_for_storage (requeued (rw_now w) (task_stage_value ts) u)"
  obtain u where u: "map_of tasks' tid = Some (?rec u)" "t_mode u = t_mode t" "gate_open u"
    "ws_active_task_id ws' = None" "\<exists>q. ws_queue ws' = tid # q"
    using killed_run_repaired [OF assms(1-9)] by blast
  let ?v = "fst (promote now2 (?rec u))"
  have v: "?v = (?rec u) \<lparr>t_status := Tst_IN_PROGRESS\<rparr>" by (simp add: promote_def requeued_fields)
  have "entry_stage_for_task ?v = Inr (Some (retry_counter_state ts))"
    by (rule marker_entry) (simp add: v requeued_fields idle_stage_state_def)
  moreover have "pr_execution_status (t_pipeline ?v) \<noteq> ''running''" by (simp add: v requeued_fields)
  moreover have "t_mode ?v = t_mode t" by (simp add: v requeued_fields u(2))
  ultimately obtain s0 where "fst (load_or_initialize float_text now l tid (Some ?v) db) = Inr s0"
    "stage s0 = READY" "entry_stage s0 = Some (retry_counter_state ts)" "mode s0 = t_mode t"
    "recovery_history s0 = recovery_history p" "failed_run_history s0 = failed_run_history p"
    using launch_on_request [of ?v _ now l tid db p float_text] assms(10) by auto
  moreover have "is_task_eligible_for_execution (?rec u)"
    by (subst storage_eligible) (simp_all add: requeued_fields requeued_eligible u(3))
  ultimately show ?thesis using u(1,4,5) stage_entry_target by blast
qed

text \<open>The world of a runner that holds the lock.\<close>

definition demo_owner :: recovery_world where
  "demo_owner =
     \<lparr>rw_now = ''now'', rw_snippet = (\<lambda>a. []), rw_subagent_stale = (\<lambda>t. False), rw_owns_thread = True,
      rw_lock_held = True, rw_pid_stale = False, rw_inactivity_timeout = None,
      rw_inactive_running = (\<lambda>n ts. False), rw_metadata_present = True, rw_row_exists = (\<lambda>i. True)\<rparr>"

definition demo_pinned :: workspace_state where
  "demo_pinned = (demo_ws [''T2'']) \<lparr>ws_active_task_id := Some ''T1''\<rparr>"

lemma demo_store_facts:
  "wf_tasks (demo_store st)" "map_of (demo_store st) ''T1'' = Some (demo_live st)"
  "running_task_ids (demo_store st) = [''T1'']" "ws_active_task_id demo_pinned = Some ''T1''"
  "rw_owns_thread demo_owner"
  by (simp_all add: wf_tasks_def demo_store_def demo_live_def demo_record_def running_task_ids_def running_def
      idle_pipeline_def demo_pinned_def demo_owner_def)

lemma demo_live_gate: "xr_interruption (t_execution (demo_live st)) = None" "gate_open (demo_live st)"
  by (simp_all add: demo_live_def demo_record_def gate_open_def idle_pipeline_def has_terminal_outcome_kind_def
      has_blocking_failed_run_history_def blocking_failed_run_records_def empty_outcome_def)

lemma demo_live_eligible: "is_task_eligible_for_execution (demo_live BEFORE_TESTING)" by code_simp

lemma killed_run_resumes_witness:
  "\<exists>b tasks' ws' t'. recover_stale_runner_state demo_owner (demo_store BEFORE_TESTING, demo_pinned) = (b, (tasks', ws')) \<and>
     map_of tasks' ''T1'' = Some t' \<and> is_task_eligible_for_execution t' \<and> ws_active_task_id ws' = None"
proof -
  obtain b tasks' ws' where
    r: "recover_stale_runner_state demo_owner (demo_store BEFORE_TESTING, demo_pinned) = (b, (tasks', ws'))"
    by (metis surj_pair)
  have l: "load ''now'' default_limits ''T1'' (save (\<lambda>n. ''0'') ''now'' (demo_run_state BEFORE_TESTING) \<lparr>pipeline_task_state = [],
      pipeline_sessions = [], pipeline_transitions = [], pipeline_journal = [], event_log = []\<rparr>) =
      Inr (reloaded (demo_run_state BEFORE_TESTING))"
  proof -
    have "lims (demo_run_state BEFORE_TESTING) = default_limits" "storable (demo_run_state BEFORE_TESTING)"
      by (simp add: demo_run_state_def fresh_state_def) (simp add: demo_run_state_def)
    with load_saved [of "demo_run_state BEFORE_TESTING"] show ?thesis by simp
  qed
  have v: "record_view (demo_live BEFORE_TESTING) = state_view (demo_run_state BEFORE_TESTING)"
    by (rule demo_live_view) simp
  have ts: "task_stage_of (stage (demo_run_state BEFORE_TESTING)) = Some Stg_TESTING" by simp
  from killed_run_resumes [OF demo_store_facts(1,2) demo_live_eligible v ts demo_store_facts(3-5) r l, of undefined]
  show ?thesis using r by blast
qed

section \<open>A run that died by an exception\<close>

lemma marked_ineligible: "pr_execution_status (t_pipeline t) = ''interrupted'' \<Longrightarrow> \<not> is_task_eligible_for_execution t"
  by (simp add: is_task_eligible_for_execution_def has_terminal_execution_status_def TERMINAL_EXECUTION_STATUSES_def)

text \<open>The stages whose label is also the name of a pipeline status.\<close>

lemma label_is_status:
  "st \<notin> {DONE, FAILED} \<Longrightarrow>
   pipeline_state_value st = pipeline_status_value (pipeline_status_of st) \<longleftrightarrow>
   st \<in> {GROOMING, IMPLEMENTING, TESTING, ACCEPTING}"
  by (cases st) auto

lemma crash_verdict:
  assumes "t_status t = Tst_QUEUED" and "pr_execution_status (t_pipeline t) = ''interrupted''"
    and "st \<notin> {DONE, FAILED}" and "t_pipeline_status t = pipeline_status_of st"
    and "pr_current_stage (t_pipeline t) = m" "ss_stage m = Some (pipeline_state_value st)" "ss_status m = ''running''"
    and "xr_interruption (t_execution t) = None" and "ws_active_task_id ws = None"
  shows "wants_resumable_repair ws q t =
    (if st \<in> {GROOMING, IMPLEMENTING, TESTING, ACCEPTING} then Some (pipeline_state_value st) else None)"
proof -
  have mark: "task_has_resume_marker t \<longleftrightarrow> st \<in> {GROOMING, IMPLEMENTING, TESTING, ACCEPTING}"
    unfolding label_is_status [OF assms(3), symmetric]
    using assms(4-8) by (auto simp: task_has_resume_marker_def TRUSTED_STAGE_MARKER_STATUSES_def Let_def)
  have "resumable_queue_stage t = Some (pipeline_state_value st)"
    if "st \<in> {GROOMING, IMPLEMENTING, TESTING, ACCEPTING}"
    using that assms(4) resumable_by_status [of t] by (auto simp: RESUMABLE_PIPELINE_STAGES_def)
  then show ?thesis
    using assms(1,2,9) mark marked_ineligible [OF assms(2)]
    by (auto simp: wants_resumable_repair_def running_def Let_def)
qed

lemma without_running:
  assumes "wf_tasks tasks" and "running_task_ids tasks = [tid]" and "\<not> running u"
  shows "running_task_ids (AList.update tid u tasks) = []"
proof -
  have "set (map fst (filter (\<lambda>(i, t). running t) tasks)) = {tid}"
    using assms(2) unfolding running_task_ids_def by (metis list.simps(15) list.set(1) set_sort)
  then have old: "\<not> running t" if "(i, t) \<in> set tasks" "i \<noteq> tid" for i t using that by force
  have d: "distinct (map fst tasks)" using assms(1) by (simp add: wf_tasks_def)
  have "\<not> running t" if "(i, t) \<in> set (AList.update tid u tasks)" for i t
  proof -
    have "map_of (AList.update tid u tasks) i = Some t" using that d by (simp add: distinct_update)
    then show ?thesis using assms(3) old by (auto simp: update_conv' split: if_splits dest!: map_of_SomeD)
  qed
  then have "filter (\<lambda>(i, t). running t) (AList.update tid u tasks) = []" by (auto simp: filter_empty_conv)
  then show ?thesis by (simp add: running_task_ids_def)
qed

lemma label_is_task_stage:
  "pipeline_state_value GROOMING = task_stage_value Stg_GROOMING"
  "pipeline_state_value IMPLEMENTING = task_stage_value Stg_IMPLEMENTING"
  "pipeline_state_value TESTING = task_stage_value Stg_TESTING"
  "pipeline_state_value ACCEPTING = task_stage_value Stg_ACCEPTING"
  by simp_all

text \<open>With nothing running and no active task the repair is the repair of the waiting tasks.\<close>

lemma repair_waiting:
  assumes "running_task_ids tasks = []" "ws_active_task_id ws = None" "rw_owns_thread w \<or> \<not> rw_lock_held w"
    and wf: "wf_tasks tasks" and t: "map_of tasks tid = Some t"
    and res: "recover_stale_runner_state w (tasks, ws) = (b, (tasks', ws'))"
  shows "ws_active_task_id ws' = None \<and>
    (tasks' = tasks \<and> \<not> has_nonrunning_resumable_repair_candidates tasks \<or>
     (\<exists>q. map_of tasks' tid = Some (case wants_resumable_repair ws q t of None \<Rightarrow> t
       | Some st \<Rightarrow> task_state_for_storage (requeued (rw_now w) st t))))"
proof (cases "can_skip_recovery_scan w tasks ws")
  case True
  with res assms(2) show ?thesis
    by (auto simp: recover_stale_runner_state_def can_skip_recovery_scan_def)
next
  case False
  define n where "n = normalize_nonrunning_resumable_tasks (rw_now w) ws tasks"
  define changed where "changed = remdups (rn_transitioned n)"
  have "recover_running_tasks w ws [] tasks = \<lparr>rp_tasks = tasks, rp_transitioned = [], rp_messages = []\<rparr>"
    by (simp add: recover_running_tasks_def)
  then have r: "(tasks', ws') = (if changed = [] then (tasks, ws) else
      (fold (\<lambda>i ts. case map_of ts i of None \<Rightarrow> ts
         | Some t \<Rightarrow> AList.update i (task_state_for_storage t) ts) changed (rn_tasks n),
       merged_state_for_runner_owned_write (ws \<lparr>ws_queue := rn_queue n\<rparr>) ws changed))"
    using res assms(1-3) False
    by (auto simp: recover_stale_runner_state_def Let_def can_attempt_stale_runner_recovery_def
        update_active_task_after_recovery_def changed_def
        simp flip: n_def split: if_splits)
  obtain q where q: "map_of (rn_tasks n) tid =
      Some (case wants_resumable_repair ws q t of None \<Rightarrow> t | Some st \<Rightarrow> requeued (rw_now w) st t)"
    "tid \<in> set changed \<longleftrightarrow> wants_resumable_repair ws q t \<noteq> None"
    using normalized_record [OF wf t, of "rw_now w" ws] unfolding changed_def n_def by auto
  have "map_of tasks' tid = Some (case wants_resumable_repair ws q t of None \<Rightarrow> t
       | Some st \<Rightarrow> task_state_for_storage (requeued (rw_now w) st t))"
    using r q t store_fold [of changed "rn_tasks n" tid]
    by (cases "changed = []") (auto simp: changed_def split: option.splits)
  moreover have "ws_active_task_id ws' = None"
    using r assms(2) by (cases "changed = []") (auto simp: merged_state_for_runner_owned_write_def)
  ultimately show ?thesis by blast
qed

text \<open>Any later repair, by the lock's owner or while nobody holds it, leaves the crashed task the same way.\<close>

lemma crashed_task:
  assumes "wf_tasks tasks" and "map_of tasks tid = Some t" and "record_view t = state_view s"
    and "stage s \<notin> {DONE, FAILED}" and "xr_interruption (t_execution t) = None" and "gate_open t"
    and "ws_active_task_id ws = Some tid" and "running_task_ids tasks = [tid]"
    and "rw_owns_thread w \<or> \<not> rw_lock_held w"
    and "recover_stale_runner_state w (mark_task_interrupted_on_crash tid (tasks, ws)) = (b, (tasks', ws'))"
  shows "\<exists>t'. map_of tasks' tid = Some t' \<and> t_status t' = Tst_QUEUED \<and> \<not> running t' \<and> ws_active_task_id ws' = None \<and>
    (is_task_eligible_for_execution t' \<longleftrightarrow> stage s \<in> {GROOMING, IMPLEMENTING, TESTING, ACCEPTING})"
proof -
  have tid: "t_id t = tid" by (rule wf_id [OF assms(1,2)])
  have v: "t_pipeline_status t = pipeline_status_of (stage s)" "pr_execution_status (t_pipeline t) = ''running''"
    "ss_stage (pr_current_stage (t_pipeline t)) = Some (pipeline_state_value (stage s))"
    "ss_status (pr_current_stage (t_pipeline t)) = ''running''"
    using assms(3,4) by (auto simp: record_view_def state_view_def)
  let ?c = "t \<lparr>t_status := Tst_QUEUED,
     t_pipeline := (t_pipeline t) \<lparr>pr_execution_status := ''interrupted''\<rparr>\<rparr>"
  let ?u = "task_state_for_storage ?c" let ?tasks = "AList.update tid ?u tasks"
  define ws1 where "ws1 = snd (mark_task_interrupted_on_crash tid (tasks, ws))"
  have m: "mark_task_interrupted_on_crash tid (tasks, ws) = (?tasks, ws1)" "ws_active_task_id ws1 = None"
    using assms(2,7) v(2) by (simp_all add: ws1_def mark_task_interrupted_on_crash_def running_def)
  have u: "\<not> running ?u" "map_of ?tasks tid = Some ?u" "wf_tasks ?tasks"
    using tid by (simp_all add: running_def update_conv' wf_update assms(1))
  from repair_waiting [OF without_running [OF assms(1,8) u(1)] m(2) assms(9) u(3,2)] assms(10) m(1)
  have active: "ws_active_task_id ws' = None" and
    alt: "tasks' = ?tasks \<and> \<not> has_nonrunning_resumable_repair_candidates ?tasks \<or>
      (\<exists>q. map_of tasks' tid = Some (case wants_resumable_repair ws1 q ?u of None \<Rightarrow> ?u
            | Some st \<Rightarrow> task_state_for_storage (requeued (rw_now w) st ?u)))" by metis+
  have verdict: "wants_resumable_repair ws1 q ?u =
      (if stage s \<in> {GROOMING, IMPLEMENTING, TESTING, ACCEPTING} then Some (pipeline_state_value (stage s)) else None)" for q
    by (rule crash_verdict [OF _ _ assms(4) _ refl]) (simp_all add: v assms(5) m(2))
  show ?thesis
  proof (cases "stage s \<in> {GROOMING, IMPLEMENTING, TESTING, ACCEPTING}")
    case True
    then obtain ts where ts: "pipeline_state_value (stage s) = task_stage_value ts"
      by (metis insertE empty_iff label_is_task_stage)
    have "gate_open ?u"
      using assms(6) by (simp add: gate_open_def has_blocking_failed_run_history_def
          blocking_failed_run_records_def has_terminal_outcome_kind_def)
    moreover have "has_nonrunning_resumable_repair_candidates ?tasks"
    proof -
      have "repair_candidate ?u" using True
        by (auto simp: repair_candidate_def Let_def v among_def PROBE_STAGES_def)
      then show ?thesis using map_of_SomeD [OF u(2)] by (auto simp: has_nonrunning_resumable_repair_candidates_def)
    qed
    ultimately show ?thesis
      using True alt active verdict
      by (auto simp: ts requeued_fields storage_eligible requeued_eligible running_def)
  next
    case False
    have "map_of tasks' tid = Some ?u" using alt u(2) False by (auto simp: verdict)
    then show ?thesis using False active u(1) marked_ineligible [of ?u] by simp
  qed
qed

text \<open>C27: A run that died by an exception is stranded unless it died in one of the four agent stages: in
  every other phase (hooks, commit, sync, recovery) the next runner's repair leaves the task queued,
  not eligible, with no task active.\<close>

theorem crashed_run_is_stranded:
  assumes "wf_tasks tasks" and "map_of tasks tid = Some t" and "record_view t = state_view s"
    and "stage s \<notin> {DONE, FAILED}" and "xr_interruption (t_execution t) = None" and "gate_open t"
    and "ws_active_task_id ws = Some tid" and "running_task_ids tasks = [tid]" and "rw_owns_thread w"
    and "recover_stale_runner_state w (mark_task_interrupted_on_crash tid (tasks, ws)) = (b, (tasks', ws'))"
  shows "\<exists>t'. map_of tasks' tid = Some t' \<and> t_status t' = Tst_QUEUED \<and> ws_active_task_id ws' = None \<and>
    (is_task_eligible_for_execution t' \<longleftrightarrow> stage s \<in> {GROOMING, IMPLEMENTING, TESTING, ACCEPTING})"
  using crashed_task [OF assms(1-8) _ assms(10)] assms(9) by blast

lemma crashed_run_is_stranded_witness:
  "\<exists>b tasks' ws' t'. recover_stale_runner_state demo_owner
       (mark_task_interrupted_on_crash ''T1'' (demo_store COMMIT, demo_pinned)) = (b, (tasks', ws')) \<and>
     map_of tasks' ''T1'' = Some t' \<and> t_status t' = Tst_QUEUED \<and> \<not> is_task_eligible_for_execution t'"
proof -
  obtain b tasks' ws' where r: "recover_stale_runner_state demo_owner
      (mark_task_interrupted_on_crash ''T1'' (demo_store COMMIT, demo_pinned)) = (b, (tasks', ws'))"
    by (metis surj_pair)
  have v: "record_view (demo_live COMMIT) = state_view (demo_run_state COMMIT)"
    by (rule demo_live_view) simp
  have st: "stage (demo_run_state COMMIT) \<notin> {DONE, FAILED}" by simp
  from crashed_run_is_stranded [OF demo_store_facts(1,2) v st demo_live_gate demo_store_facts(4,3,5) r]
  show ?thesis using r by auto
qed

end
