(* ===== verification/Task_Status.thy ===== *)
theory Task_Status
  imports Crash_Recovery Persistence
begin

text \<open>
  The operator's status transitions: \<open>litehive/tasks/status_close.py\<close> (abandon, close, park),
  \<open>status_resume.py\<close> (requeue, resume), \<open>status_update.py\<close>, \<open>completed_task_recovery.py\<close>, with
  \<open>_status_helpers.py\<close>, \<open>activity_rendering.py\<close> and \<open>_process_signals.py\<close>. An operation maps the
  store to the task it returns or the error it raises, and to the store it leaves, which an error can
  have changed. The clock, git, the liveness of processes and the runner guard are arguments.
\<close>

section \<open>Close reasons\<close>

datatype task_close_reason = Cr_DONE | Cr_WONT_DO | Cr_DEFERRED | Cr_DUPLICATE

definition task_close_reason_members :: "task_close_reason list" where
  "task_close_reason_members = [Cr_DONE, Cr_WONT_DO, Cr_DEFERRED, Cr_DUPLICATE]"

fun task_close_reason_value :: "task_close_reason \<Rightarrow> string" where
  "task_close_reason_value Cr_DONE = ''done''"
| "task_close_reason_value Cr_WONT_DO = ''wont_do''"
| "task_close_reason_value Cr_DEFERRED = ''deferred''"
| "task_close_reason_value Cr_DUPLICATE = ''duplicate''"

fun outcome_reason_code :: "task_close_reason \<Rightarrow> string" where
  "outcome_reason_code Cr_DONE = ''task_done''"
| "outcome_reason_code _ = ''task_closed''"

fun task_close_label :: "task_close_reason \<Rightarrow> string" where
  "task_close_label Cr_DONE = ''Task already satisfied.''"
| "task_close_label Cr_WONT_DO = ''Task closed as won''@[CHR 0x27]@''t do.''"
| "task_close_label Cr_DEFERRED = ''Task deferred.''"
| "task_close_label Cr_DUPLICATE = ''Task closed as duplicate.''"

section \<open>Activity entries\<close>

record activity_entry =
  ac_role :: string
  ac_stage :: string
  ac_verdict :: verdict
  ac_verdict_classification :: "string option"
  ac_message :: string
  ac_files_changed :: "string list"
  ac_created_at :: string

definition RETRACTED_FILESYSTEM_MARKER :: string where
  "RETRACTED_FILESYSTEM_MARKER = ''[retracted - filesystem check shows no changes landed]''"

definition RETRACTABLE_STEPS :: "string list" where
  "RETRACTABLE_STEPS = map task_stage_value [Stg_IMPLEMENTING, Stg_TESTING, Stg_ACCEPTING]"

definition strip_slash :: "string \<Rightarrow> string" where
  "strip_slash s = rev (dropWhile (\<lambda>c. c = CHR ''/'') (rev (dropWhile (\<lambda>c. c = CHR ''/'') s)))"

fun normalized_files_changed_go :: "string list \<Rightarrow> string list \<Rightarrow> string list" where
  "normalized_files_changed_go seen [] = []"
| "normalized_files_changed_go seen (raw # paths) =
     (let p = strip_slash (py_strip raw) in
      if py_lower p \<in> {''none'', ''n/a'', ''-'', []} \<or> p \<in> set seen then normalized_files_changed_go seen paths
      else p # normalized_files_changed_go (p # seen) paths)"

definition normalized_files_changed :: "string list \<Rightarrow> string list" where
  "normalized_files_changed paths = normalized_files_changed_go [] paths"

fun py_contains :: "string \<Rightarrow> string \<Rightarrow> bool" where
  "py_contains [] p = (p = [])"
| "py_contains (c # cs) p = (starts_with (c # cs) p \<or> py_contains cs p)"

definition is_retracted_activity_entry :: "activity_entry \<Rightarrow> bool" where
  "is_retracted_activity_entry e = py_contains (ac_message e) RETRACTED_FILESYSTEM_MARKER"

definition is_retractable_pass_entry :: "activity_entry \<Rightarrow> bool" where
  "is_retractable_pass_entry e =
     (ac_verdict e = Vd_PASS \<and> ac_stage e \<in> set RETRACTABLE_STEPS \<and>
      normalized_files_changed (ac_files_changed e) \<noteq> [])"

definition retract_activity_entry :: "activity_entry \<Rightarrow> bool \<times> activity_entry" where
  "retract_activity_entry e =
     (if is_retracted_activity_entry e then (False, e)
      else (True, e \<lparr>ac_message := py_rstrip (ac_message e) @ [CHR 0x0A] @ RETRACTED_FILESYSTEM_MARKER\<rparr>))"

section \<open>The store and the world\<close>

record task_store =
  tw_tasks :: tasks
  tw_ws :: workspace_state
  tw_lifecycle :: lifecycle_db
  tw_activity :: "(string, activity_entry list) dict"
  tw_journal :: "(string \<times> string) list"

datatype status_error =
    Refused queue_error | Status_GitError string | Lifecycle_error load_error | Invalid_stage string

type_synonym 'a status_op = "task_store \<Rightarrow> (status_error + 'a) \<times> task_store"

text \<open>How a process answers the two signals of \<open>terminate_subagent_pid\<close>.\<close>

record process_fate =
  pf_dead :: bool
  pf_term_found :: bool
  pf_dead_after_term :: bool
  pf_kill_found :: bool
  pf_dead_after_kill :: bool

record status_env =
  se_now :: string
  se_float_text :: "rat \<Rightarrow> string"
  se_main_head :: "string option"
  se_path_differs :: "task_record \<Rightarrow> string \<Rightarrow> string \<Rightarrow> string + bool"
  se_fate :: "int \<Rightarrow> process_fate"
  se_guard_conflict :: "string option"

definition terminate_subagent_pid :: "status_env \<Rightarrow> string \<Rightarrow> int option \<Rightarrow> queue_error + bool" where
  "terminate_subagent_pid env tid pid =
     (case pid of None \<Rightarrow> Inr False
      | Some p \<Rightarrow>
          (let f = se_fate env p in
           if pf_dead f then Inr False
           else if \<not> pf_term_found f then Inr False
           else if pf_dead_after_term f then Inr True
           else if \<not> pf_kill_found f then Inr True
           else if pf_dead_after_kill f then Inr True
           else Inl (Workspace_conflict (''subagent pid '' @ int_str p @ '' for task '' @ tid @
                  '' did not exit after SIGTERM/SIGKILL''))))"

definition active_subagent_pid :: "task_record \<Rightarrow> int option" where
  "active_subagent_pid t = Option.bind (xr_active_subagent (t_execution t)) sa_pid"

definition refuse :: "string \<Rightarrow> 'a status_op" where
  "refuse msg w = (Inl (Refused (Queue_ValueError msg)), w)"

definition not_found :: "string \<Rightarrow> 'a status_op" where
  "not_found tid = refuse (''Task '' @ tid @ '' not found'')"

section \<open>Shared steps\<close>

definition persist_transition ::
  "task_record \<Rightarrow> workspace_state \<Rightarrow> string \<Rightarrow> task_store \<Rightarrow> task_store" where
  "persist_transition t ws msg w =
     w \<lparr>tw_tasks := AList.update (t_id t) (task_state_for_storage t) (tw_tasks w),
       tw_ws := merged_state_for_runner_owned_write ws (tw_ws w) [t_id t],
       tw_journal := tw_journal w @ [(t_id t, msg)]\<rparr>"

definition reset_pipeline_state ::
  "status_env \<Rightarrow> string \<Rightarrow> bool \<Rightarrow> task_store \<Rightarrow> status_error + task_store" where
  "reset_pipeline_state env tid preserve w =
     (case reset_current_lifecycle_state (se_float_text env) (se_now env) default_limits tid preserve
             (tw_lifecycle w) of
        Inl err \<Rightarrow> Inl (Lifecycle_error err) | Inr db \<Rightarrow> Inr (w \<lparr>tw_lifecycle := db\<rparr>))"

definition queue_task :: "string \<Rightarrow> bool \<Rightarrow> workspace_state \<Rightarrow> workspace_state" where
  "queue_task tid front ws =
     ws \<lparr>ws_queue := (if front then tid # without tid (ws_queue ws) else without tid (ws_queue ws) @ [tid])\<rparr>"

definition stage_text :: "task_record \<Rightarrow> string" where
  "stage_text t = pipeline_status_value (t_pipeline_status t)"

definition apply_cancelled_task_state :: "string \<Rightarrow> string \<Rightarrow> task_record \<Rightarrow> task_record" where
  "apply_cancelled_task_state now reason t =
     (let t1 = (clear_task_run_activity Exe_CANCELLED now False t)
                 \<lparr>t_status := Tst_CLOSED, t_close_reason := Some ''execution_cancelled'', t_flag_reason := None\<rparr>
      in apply_task_outcome now Ok_CLOSED (stage_text t1) ''execution_cancelled'' reason 0 0 None None [] t1)"

definition apply_close_task_state ::
  "string \<Rightarrow> task_close_reason \<Rightarrow> string option \<Rightarrow> string option \<Rightarrow> task_record \<Rightarrow> string \<times> task_record" where
  "apply_close_task_state now close reason follow_up t =
     (let t1 = clear_task_run_activity (if close = Cr_DONE then Exe_DONE else Exe_CANCELLED) now False t;
          t2 = t1 \<lparr>t_status := (if close = Cr_DONE then Tst_DONE else Tst_CLOSED),
                  t_close_reason := Some (task_close_reason_value close), t_flag_reason := None,
                  t_pipeline_status := (if close = Cr_DONE then Pst_DONE else t_pipeline_status t1)\<rparr>;
          kind = (if close = Cr_DONE then Ok_DONE else Ok_CLOSED)
      in (''Task closed: '' @ task_close_reason_value close @ ''.'' @
          (case reason of None \<Rightarrow> [] | Some r \<Rightarrow> if r = [] then [] else '' '' @ r) @
          (case follow_up of None \<Rightarrow> [] | Some f \<Rightarrow> '' Follow-up task: '' @ f @ ''.''),
          apply_task_outcome now kind (stage_text t2) (outcome_reason_code close)
            (opt_str_or reason (task_close_label close)) 0 0 follow_up None [] t2))"

definition apply_parked_task_state :: "string \<Rightarrow> task_record \<Rightarrow> task_record" where
  "apply_parked_task_state now t = (clear_task_run_activity Exe_PAUSED now False t) \<lparr>t_status := Tst_PARKED\<rparr>"

definition strip_dots :: "string \<Rightarrow> string" where
  "strip_dots s = rev (dropWhile (\<lambda>c. c = CHR ''.'') (rev s))"

text \<open>The gate every transition of a loaded task passes.\<close>

definition mutation_gate ::
  "string \<Rightarrow> workspace_state \<Rightarrow> (task_store \<Rightarrow> (status_error + 'a) \<times> task_store) \<Rightarrow> 'a status_op" where
  "mutation_gate tid ws rest w =
     (case ensure_future_task_mutation_allowed [tid] (tw_tasks w) ws of
        Inl err \<Rightarrow> (Inl (Refused err), w) | Inr _ \<Rightarrow> rest w)"

definition remove_from_state :: "string \<Rightarrow> workspace_state \<Rightarrow> workspace_state" where
  "remove_from_state tid ws = snd (drop_task_from_workspace_state tid ws)"

section \<open>Leaving the queue\<close>

definition abandon_task :: "status_env \<Rightarrow> string \<Rightarrow> string \<Rightarrow> task_record status_op" where
  "abandon_task env tid reason w =
     (case map_of (tw_tasks w) tid of None \<Rightarrow> not_found tid w
      | Some t \<Rightarrow> mutation_gate tid (tw_ws w) (\<lambda>w.
          if t_status t \<notin> {Tst_FLAGGED, Tst_CLOSED, Tst_INTERRUPTED, Tst_PARKED}
          then refuse (''Task '' @ tid @ '' is not interrupted, parked, flagged, or closed'') w
          else (case terminate_subagent_pid env tid (active_subagent_pid t) of
             Inl err \<Rightarrow> (Inl (Refused err), w)
           | Inr _ \<Rightarrow>
               (let t' = apply_cancelled_task_state (se_now env) reason t;
                    w1 = persist_transition t' (remove_from_state tid (tw_ws w))
                           (strip_dots reason @ '' at stage `'' @ stage_text t' @ ''`.'') w
                in case reset_pipeline_state env tid False w1 of
                     Inl err \<Rightarrow> (Inl err, w1) | Inr w2 \<Rightarrow> (Inr t', w2)))) w)"

text \<open>The follow-up reference of a close, stripped, or why it is refused.\<close>

definition check_follow_up :: "string \<Rightarrow> string option \<Rightarrow> tasks \<Rightarrow> string + string option" where
  "check_follow_up tid follow_up tasks =
     (case follow_up of None \<Rightarrow> Inr None
      | Some raw \<Rightarrow>
          (let f = py_strip raw in
           if f = [] then Inl ''Follow-up task id must not be empty''
           else if f = tid then Inl (''Task '' @ tid @ '' cannot reference itself as a follow-up task'')
           else if map_of tasks f = None then Inl (''Task '' @ f @ '' not found'')
           else Inr (Some f)))"

text \<open>The close once the runner and the subagent are stopped.\<close>

definition close_under_lock ::
  "status_env \<Rightarrow> string \<Rightarrow> task_close_reason \<Rightarrow> string option \<Rightarrow> string option \<Rightarrow> task_record status_op" where
  "close_under_lock env tid close reason follow_up w =
     (case map_of (tw_tasks w) tid of None \<Rightarrow> not_found tid w
      | Some t \<Rightarrow>
          (case check_follow_up tid follow_up (tw_tasks w) of Inl msg \<Rightarrow> refuse msg w
           | Inr f \<Rightarrow> mutation_gate tid (tw_ws w) (\<lambda>w.
               if t_status t = Tst_DONE then refuse (''Task '' @ tid @ '' is already done and cannot be closed'') w
               else (case apply_close_task_state (se_now env) close reason f t of
                 (msg, t') \<Rightarrow>
                   (let w1 = persist_transition t' (remove_from_state tid (tw_ws w)) msg w
                    in case reset_pipeline_state env tid False w1 of
                         Inl err \<Rightarrow> (Inl err, w1) | Inr w2 \<Rightarrow> (Inr t', w2)))) w))"

definition park_task :: "status_env \<Rightarrow> string \<Rightarrow> string \<Rightarrow> task_record status_op" where
  "park_task env tid reason w =
     (case map_of (tw_tasks w) tid of None \<Rightarrow> not_found tid w
      | Some t \<Rightarrow> mutation_gate tid (tw_ws w) (\<lambda>w.
          if t_status t = Tst_DONE then refuse (''Task '' @ tid @ '' is already done and cannot be parked'') w
          else (let t' = apply_parked_task_state (se_now env) t in
            (Inr t', persist_transition t' (remove_from_state tid (tw_ws w))
               (strip_dots reason @ '' at stage `'' @ stage_text t' @ ''`.'') w))) w)"

section \<open>Coming back\<close>

fun any_path_differs :: "(string \<Rightarrow> string + bool) \<Rightarrow> string list \<Rightarrow> string + bool" where
  "any_path_differs differs [] = Inr False"
| "any_path_differs differs (p # ps) =
     (case differs p of Inl err \<Rightarrow> Inl err | Inr True \<Rightarrow> Inr True | Inr False \<Rightarrow> any_path_differs differs ps)"

fun retract_passes :: "(string \<Rightarrow> string + bool) \<Rightarrow> activity_entry list \<Rightarrow> string + (bool \<times> activity_entry list)" where
  "retract_passes differs [] = Inr (False, [])"
| "retract_passes differs (e # es) =
     (let (changed, e') = retract_activity_entry e in
      case (if is_retractable_pass_entry e
            then any_path_differs differs (normalized_files_changed (ac_files_changed e)) else Inr True) of
        Inl err \<Rightarrow> Inl err
      | Inr keep \<Rightarrow>
          (case retract_passes differs es of Inl err \<Rightarrow> Inl err
           | Inr (c, es') \<Rightarrow> Inr (if keep then (c, e # es') else (changed \<or> c, e' # es'))))"

definition retract_unlanded_passes :: "status_env \<Rightarrow> task_record \<Rightarrow> task_store \<Rightarrow> string + task_store" where
  "retract_unlanded_passes env t w =
     (case se_main_head env of None \<Rightarrow> Inr w
      | Some head \<Rightarrow>
          (case retract_passes (se_path_differs env t head) (dict_get (t_id t) [] (tw_activity w)) of
             Inl err \<Rightarrow> Inl err
           | Inr (changed, es) \<Rightarrow>
               Inr (if changed then w \<lparr>tw_activity := AList.update (t_id t) es (tw_activity w)\<rparr> else w)))"

text \<open>A forced requeue acknowledges the blocking failed runs on the lifecycle row and in memory.\<close>

definition acknowledge_blocking_runs ::
  "status_env \<Rightarrow> task_record \<Rightarrow> task_store \<Rightarrow> status_error + task_record \<times> task_store" where
  "acknowledge_blocking_runs env t w =
     (let blocked = blocking_failed_run_records t in
      if blocked = [] then Inr (t, w)
      else (case load (se_now env) default_limits (t_id t) (tw_lifecycle w) of
         Inl (Undecodable err) \<Rightarrow> Inl (Lifecycle_error (Undecodable err))
       | loaded \<Rightarrow>
           (case mark_failed_run_operator_override (se_now env) (Some blocked)
                   (t, case loaded of Inr s \<Rightarrow> Some s | Inl _ \<Rightarrow> None) of
              None \<Rightarrow> Inl (Invalid_stage (t_id t))
            | Some (t', None) \<Rightarrow> Inr (t', w)
            | Some (t', Some s) \<Rightarrow>
                Inr (t', w \<lparr>tw_lifecycle := save (se_float_text env) (se_now env) s (tw_lifecycle w)\<rparr>))))"

definition requeued_task :: "string \<Rightarrow> task_record \<Rightarrow> task_record" where
  "requeued_task now t =
     reset_task_for_recovery now Tst_QUEUED (implementation_entry_stage t)
       (t_status t \<notin> {Tst_FLAGGED, Tst_PARKED}) t"

definition requeue_task :: "status_env \<Rightarrow> string \<Rightarrow> bool \<Rightarrow> bool \<Rightarrow> task_record status_op" where
  "requeue_task env tid front force w =
     (case map_of (tw_tasks w) tid of None \<Rightarrow> not_found tid w
      | Some t \<Rightarrow>
          if t_flag_count t \<ge> 3 \<and> \<not> force
          then refuse (''Task '' @ tid @ '' has been flagged '' @ int_str (t_flag_count t) @
                       '' times. Use --force to requeue anyway.'') w
          else if blocking_failed_run_records t \<noteq> [] \<and> \<not> force
          then refuse (failed_run_block_message t (blocking_failed_run_records t)) w
          else (case acknowledge_blocking_runs env t w of Inl err \<Rightarrow> (Inl err, w)
            | Inr (t1, w1) \<Rightarrow> mutation_gate tid (tw_ws w1) (\<lambda>w1.
                if t_status t1 \<notin> {Tst_FLAGGED, Tst_PARKED, Tst_CLOSED}
                then refuse (''Task '' @ tid @ '' is not flagged, parked, or closed'') w1
                else (case retract_unlanded_passes env t1 w1 of Inl msg \<Rightarrow> refuse msg w1
                  | Inr w2 \<Rightarrow>
                      (case reset_pipeline_state env tid True w2 of Inl err \<Rightarrow> (Inl err, w2)
                       | Inr w3 \<Rightarrow>
                           (let t' = requeued_task (se_now env) t1 in
                            (Inr t', persist_transition t' (queue_task tid front (tw_ws w3))
                               ''Task requeued for another implementation pass.'' w3))))) w1))"

definition stranded_in_progress :: "task_record \<Rightarrow> bool" where
  "stranded_in_progress t =
     (t_status t = Tst_IN_PROGRESS \<and>
      pr_execution_status (t_pipeline t) \<in> {execution_status_value Exe_INTERRUPTED, execution_status_value Exe_IDLE} \<and>
      resumable_queue_stage t \<noteq> None)"

definition already_queued_resumable :: "task_record \<Rightarrow> bool" where
  "already_queued_resumable t = (t_status t = Tst_QUEUED \<and> resumable_queue_stage t \<noteq> None)"

definition resume_status :: "task_record \<Rightarrow> string \<Rightarrow> pipeline_status" where
  "resume_status t st =
     (let ps = the (enum_parse pipeline_status_value pipeline_status_members st) in
      if st \<in> set (map task_stage_value [Stg_IMPLEMENTING, Stg_TESTING, Stg_ACCEPTING])
      then reroute_stage_for_acceptance_criteria (t \<lparr>t_pipeline_status := ps\<rparr>) else ps)"

definition resumed_task :: "string \<Rightarrow> string \<Rightarrow> task_record \<Rightarrow> task_record" where
  "resumed_task now st t =
     reset_task_for_recovery now Tst_QUEUED (resume_status t st)
       (t_status t \<notin> {Tst_INTERRUPTED, Tst_PARKED, Tst_FLAGGED} \<and> \<not> stranded_in_progress t \<and>
        \<not> already_queued_resumable t) t"

definition resume_task :: "status_env \<Rightarrow> string \<Rightarrow> bool \<Rightarrow> task_record status_op" where
  "resume_task env tid front w =
     (case map_of (tw_tasks w) tid of None \<Rightarrow> not_found tid w
      | Some t \<Rightarrow>
          (let ws = (if ws_active_task_id (tw_ws w) = Some tid \<and> \<not> running t
                     then (tw_ws w) \<lparr>ws_active_task_id := None\<rparr> else tw_ws w)
           in mutation_gate tid ws (\<lambda>w.
             if t_status t \<notin> {Tst_FLAGGED, Tst_CLOSED, Tst_INTERRUPTED, Tst_PARKED} \<and>
                \<not> stranded_in_progress t \<and> \<not> already_queued_resumable t
             then refuse (''Task '' @ tid @ '' is not interrupted, parked, flagged, or closed'') w
             else (case resumable_queue_stage t of
                None \<Rightarrow> refuse (''Task '' @ tid @ '' has no resumable stage'') w
              | Some st \<Rightarrow>
                  (case reset_pipeline_state env tid False w of Inl err \<Rightarrow> (Inl err, w)
                   | Inr w1 \<Rightarrow>
                       (let t' = resumed_task (se_now env) st t in
                        (Inr t', persist_transition t' (queue_task tid front ws)
                           (''Task resumed from `'' @ pipeline_status_value (resume_status t st) @ ''`.'') w1))))) w))"

definition recover_completed_task :: "status_env \<Rightarrow> string \<Rightarrow> task_record status_op" where
  "recover_completed_task env tid w =
     (case se_guard_conflict env of Some msg \<Rightarrow> (Inl (Refused (Workspace_conflict msg)), w)
      | None \<Rightarrow>
          (case map_of (tw_tasks w) tid of
             None \<Rightarrow> (Inl (Status_GitError (''Task '' @ tid @ '' not found'')), w)
           | Some t \<Rightarrow>
               if t_status t \<noteq> Tst_DONE \<or> t_pipeline_status t \<noteq> Pst_DONE
               then (Inl (Status_GitError (''Task '' @ tid @ '' is not completed; cannot recover'')), w)
               else (let t' = prepare_completed_task_for_recovery (se_now env) (implementation_entry_stage t) t;
                         ws = remove_from_state tid (tw_ws w)
                     in (Inr t', persist_transition t' (ws \<lparr>ws_queue := ws_queue ws @ [tid]\<rparr>)
                          ''Task recovered for another implementation pass.'' w))))"

section \<open>Editing\<close>

text \<open>The edit of a task: a field that the caller left out is \<open>None\<close>.\<close>

record task_patch =
  tp_title :: "string option"
  tp_depends_on :: "string list option"
  tp_model :: "string option option"
  tp_retry_limit :: "int option option"
  tp_priority :: "string option"
  tp_goal :: "string option"
  tp_acceptance_criteria :: "string list option"
  tp_constraints :: "string list option"
  tp_plan :: "string list option"
  tp_auto_commit :: "bool option"

definition VALID_TASK_PRIORITIES :: "string list" where
  "VALID_TASK_PRIORITIES = [''low'', ''medium'', ''high'', ''critical'']"

definition or_keep :: "'a option \<Rightarrow> 'a \<Rightarrow> 'a" where
  "or_keep x y = (case x of None \<Rightarrow> y | Some v \<Rightarrow> v)"

definition patch_error :: "task_patch \<Rightarrow> string \<Rightarrow> tasks \<Rightarrow> queue_error option" where
  "patch_error p tid tasks =
     (case (case tp_depends_on p of None \<Rightarrow> Inr () | Some ds \<Rightarrow> validate_dependencies tid ds tasks) of
        Inl err \<Rightarrow> Some err
      | Inr _ \<Rightarrow>
          (case tp_retry_limit p of
             Some (Some n) \<Rightarrow> if n < 0 then Some (Queue_ValueError ''Retry limit must be 0 or greater'') else None
           | _ \<Rightarrow> None))"

definition priority_error :: "task_patch \<Rightarrow> queue_error option" where
  "priority_error p =
     (case tp_priority p of None \<Rightarrow> None
      | Some v \<Rightarrow> if v \<in> set VALID_TASK_PRIORITIES then None
                 else Some (Queue_ValueError (''Unsupported priority '' @ [CHR 0x27] @ v @ [CHR 0x27])))"

definition patched :: "task_patch \<Rightarrow> task_record \<Rightarrow> task_record" where
  "patched p t =
     (let t1 = t \<lparr>t_title := or_keep (tp_title p) (t_title t),
          t_depends_on := or_keep (tp_depends_on p) (t_depends_on t),
          t_priority := or_keep (tp_priority p) (t_priority t),
          t_goal := or_keep (tp_goal p) (t_goal t),
          t_acceptance_criteria := (case tp_acceptance_criteria p of None \<Rightarrow> t_acceptance_criteria t
            | Some xs \<Rightarrow> normalize_acceptance_criteria (Some xs)),
          t_constraints := (case tp_constraints p of None \<Rightarrow> t_constraints t
            | Some xs \<Rightarrow> normalize_acceptance_criteria (Some xs)),
          t_plan := (case tp_plan p of None \<Rightarrow> t_plan t | Some xs \<Rightarrow> normalize_acceptance_criteria (Some xs)),
          t_model := or_keep (tp_model p) (t_model t),
          t_max_retries := or_keep (tp_retry_limit p) (t_max_retries t),
          t_auto_commit := or_keep (tp_auto_commit p) (t_auto_commit t)\<rparr>
      in t1 \<lparr>t_pipeline_status := reroute_stage_for_acceptance_criteria t1\<rparr>)"

text \<open>A metadata edit; the runner's own thread, or an agent on the active task, skips the gate.\<close>

definition update_metadata ::
  "string \<Rightarrow> task_patch \<Rightarrow> bool \<Rightarrow> bool \<Rightarrow> string option \<Rightarrow> task_record status_op" where
  "update_metadata tid p runner_thread allow_active journal w =
     (case map_of (tw_tasks w) tid of None \<Rightarrow> not_found tid w
      | Some t \<Rightarrow>
          (let edit = (\<lambda>w.
             case patch_error p tid (tw_tasks w) of Some err \<Rightarrow> (Inl (Refused err), w)
             | None \<Rightarrow>
                 (case priority_error p of Some err \<Rightarrow> (Inl (Refused err), w)
                  | None \<Rightarrow>
                      (let t' = patched p t;
                           msg = (case journal of None \<Rightarrow> ''Task metadata updated via CLI.'' | Some m \<Rightarrow> m) @
                             (if t_pipeline_status t' = Pst_GROOMING \<and> missing_acceptance_criteria_reason t' \<noteq> None
                              then '' Rerouted to `grooming` until structured acceptance criteria are added.'' else [])
                       in (Inr t', w \<lparr>tw_tasks := AList.update tid (task_state_for_storage t') (tw_tasks w),
                                     tw_journal := tw_journal w @ [(tid, msg)]\<rparr>))))
           in if runner_thread \<or> (allow_active \<and> ws_active_task_id (tw_ws w) = Some tid) then edit w
              else mutation_gate tid (tw_ws w) edit w))"

end
