(* ===== verification/Task_Stop.thy ===== *)
theory Task_Stop
  imports Task_Status
begin

text \<open>
  Stopping the active task (\<open>litehive/tasks/stop.py\<close>), and the two operations that build on it: closing
  a task (\<open>tasks/status_close.py\<close>) and the edit that an outcome or an action routes to a transition
  (\<open>tasks/status_update.py\<close>). The waits are reduced to what they find: whether the lock was held,
  whether its owner was alive, whether it let go of the lock, and what it wrote on its way out.
\<close>

record stop_world =
  so_held :: bool
  so_live_pid :: "int option"
  so_metadata_active :: "string option"
  so_runner_exit :: "task_store \<Rightarrow> task_store"
  so_released :: bool
  so_survives :: bool
  so_recovery :: recovery_world

record stop_summary =
  su_task :: task_record
  su_runner_pid :: "int option"
  su_signal_sent :: bool

definition active_task_id_for_stop :: "tasks \<Rightarrow> workspace_state \<Rightarrow> queue_error + string" where
  "active_task_id_for_stop tasks ws =
     (let markers = active_task_markers tasks ws in
      if markers = [] then Inl (Queue_ValueError ''No active task to stop'')
      else (case (if length markers > 1 then validate_single_active_task tasks ws else Inr ()) of
              Inl err \<Rightarrow> Inl err
            | Inr _ \<Rightarrow> Inr (hd (sort (map fst markers)))))"

text \<open>The stage a stop records, and the record it parks.\<close>

definition stop_stage :: "task_record \<Rightarrow> string" where
  "stop_stage t = opt_str_or (ss_stage (pr_current_stage (t_pipeline t))) (stage_text t)"

definition stopped_task :: "string \<Rightarrow> task_record \<Rightarrow> task_record" where
  "stopped_task now t =
     (let st = stop_stage t in
      t \<lparr>t_status := (if st = task_stage_value Stg_COMMIT_TO_GIT then Tst_QUEUED else Tst_PARKED),
         t_pipeline := (t_pipeline t) \<lparr>pr_execution_status := execution_status_value Exe_IDLE,
           pr_run_started_at := None, pr_updated_at := Some now\<rparr>,
         t_execution := (t_execution t) \<lparr>xr_active_subagent := None,
           xr_interruption := Some
             \<lparr>in_stage = Some st, in_pipeline_status = Some (stage_text t), in_resume_stage = Some st,
              in_source = ''runner'', in_reason = ''Task parked via CLI command from '' @ st @ '' stage'',
              in_summary = ''Task execution parked via `litehive queue stop`. Resume from `'' @ st @ ''`.'',
              in_interrupted_at = Some now, in_detected_at = None, in_run_started_at = None,
              in_stage_started_at = None, in_subagent = None\<rparr>\<rparr>\<rparr>)"

definition stop_active_task :: "status_env \<Rightarrow> string \<Rightarrow> task_record status_op" where
  "stop_active_task env tid w =
     (case active_task_id_for_stop (tw_tasks w) (tw_ws w) of Inl err \<Rightarrow> (Inl (Refused err), w)
      | Inr active \<Rightarrow>
          if active \<noteq> tid
          then (Inl (Refused (Workspace_conflict (''task '' @ tid @ '' is no longer the active task in this workspace''))), w)
          else (case map_of (tw_tasks w) tid of None \<Rightarrow> not_found tid w
            | Some t \<Rightarrow>
                if t_pipeline_status t = Pst_DONE then refuse (''Task '' @ tid @ '' is already done'') w
                else (let t' = stopped_task (se_now env) t;
                          rest = without tid (ws_queue (tw_ws w));
                          ws = (tw_ws w) \<lparr>ws_active_task_id := None,
                            ws_queue := (if t_status t' = Tst_QUEUED then tid # rest else rest)\<rparr>
                      in (Inr t', persist_transition t' ws
                           (''Task execution stopped via CLI from `'' @ stop_stage t @ ''` stage. Status: '' @
                            task_status_value (t_status t') @ ''.'') w))))"

text \<open>What the signalled runner leaves, repaired; and the task if that leaves it active no more.\<close>

definition repaired_store :: "recovery_world \<Rightarrow> task_store \<Rightarrow> task_store" where
  "repaired_store r w =
     (case recover_stale_runner_state r (tw_tasks w, tw_ws w) of
        (_, (tasks, ws)) \<Rightarrow> w \<lparr>tw_tasks := tasks, tw_ws := ws\<rparr>)"

definition stop_live_runner ::
  "status_env \<Rightarrow> stop_world \<Rightarrow> string \<Rightarrow> int \<Rightarrow> stop_summary status_op" where
  "stop_live_runner env so tid pid w =
     (let w1 = so_runner_exit so w in
      if \<not> so_released so
      then (Inl (Refused (Workspace_conflict (''runner for task '' @ tid @
              '' did not stop cleanly after SIGINT (pid='' @ int_str pid @ '')''))), w1)
      else (case (if so_survives so then terminate_subagent_pid env tid (Some pid) else Inr False) of
        Inl err \<Rightarrow> (Inl (Refused err), w1)
      | Inr _ \<Rightarrow>
          (let w2 = repaired_store (so_recovery so) w1 in
           if tid \<notin> fst ` set (active_task_markers (tw_tasks w2) (tw_ws w2))
           then (case map_of (tw_tasks w2) tid of None \<Rightarrow> not_found tid w2
                 | Some t \<Rightarrow> (Inr \<lparr>su_task = t, su_runner_pid = Some pid, su_signal_sent = True\<rparr>, w2))
           else (case stop_active_task env tid w2 of
                   (Inl err, w3) \<Rightarrow> (Inl err, w3)
                 | (Inr t, w3) \<Rightarrow> (Inr \<lparr>su_task = t, su_runner_pid = Some pid, su_signal_sent = True\<rparr>, w3)))))"

definition stop_current_task :: "status_env \<Rightarrow> stop_world \<Rightarrow> stop_summary status_op" where
  "stop_current_task env so w =
     (case (case active_task_id_for_stop (tw_tasks w) (tw_ws w) of
              Inr a \<Rightarrow> Inr a
            | Inl err \<Rightarrow>
                (if so_held so \<and> opt_truthy (so_metadata_active so) then Inr (the (so_metadata_active so))
                 else Inl err)) of
        Inl err \<Rightarrow> (Inl (Refused err), w)
      | Inr tid \<Rightarrow>
          if so_held so
          then (case so_live_pid so of
                  None \<Rightarrow> (Inl (Refused (Workspace_conflict (''runner for task '' @ tid @
                            '' is active but has no live PID to signal cleanly''))), w)
                | Some pid \<Rightarrow> stop_live_runner env so tid pid w)
          else (case stop_active_task env tid w of
                  (Inl err, w1) \<Rightarrow> (Inl err, w1)
                | (Inr t, w1) \<Rightarrow> (Inr \<lparr>su_task = t, su_runner_pid = None, su_signal_sent = False\<rparr>, w1)))"

section \<open>Closing\<close>

definition close_task ::
  "status_env \<Rightarrow> stop_world \<Rightarrow> string \<Rightarrow> string \<Rightarrow> string option \<Rightarrow> string option \<Rightarrow> task_record status_op" where
  "close_task env so tid outcome reason follow_up w =
     (case enum_parse task_close_reason_value task_close_reason_members outcome of
        None \<Rightarrow> refuse (''Unsupported close outcome '' @ [CHR 0x27] @ outcome @ [CHR 0x27] @
          ''. Expected one of: '' @
          py_join '', '' (sort (map task_close_reason_value task_close_reason_members))) w
      | Some close \<Rightarrow>
          (let pid = Option.bind (map_of (tw_tasks w) tid) active_subagent_pid in
           case (if ws_active_task_id (tw_ws w) = Some tid \<or> (so_held so \<and> so_metadata_active so = Some tid)
                 then (case stop_current_task env so w of
                         (Inl err, w1) \<Rightarrow> (Inl err, w1) | (Inr su, w1) \<Rightarrow> (Inr (su_runner_pid su), w1))
                 else (Inr None, w)) of
             (Inl err, w1) \<Rightarrow> (Inl err, w1)
           | (Inr runner_pid, w1) \<Rightarrow>
               (case terminate_subagent_pid env tid pid of Inl err \<Rightarrow> (Inl (Refused err), w1)
                | Inr _ \<Rightarrow>
                    (case terminate_subagent_pid env tid runner_pid of Inl err \<Rightarrow> (Inl (Refused err), w1)
                     | Inr _ \<Rightarrow> close_under_lock env tid close reason follow_up w1))))"

section \<open>The edit entry point\<close>

datatype edit_request =
    Edit_outcome string "string option"
  | Edit_action string
  | Edit_metadata task_patch

definition update_task ::
  "status_env \<Rightarrow> stop_world \<Rightarrow> string \<Rightarrow> edit_request \<Rightarrow> bool \<Rightarrow> bool \<Rightarrow> string option \<Rightarrow> task_record status_op" where
  "update_task env so tid req runner_thread allow_active journal w =
     (case req of
        Edit_outcome outcome reason \<Rightarrow> close_task env so tid outcome reason None w
      | Edit_action action \<Rightarrow>
          if action = ''park'' then park_task env tid ''Task parked via structured report.'' w
          else if action = ''requeue'' then requeue_task env tid False False w
          else if action = ''abandon'' then abandon_task env tid ''Task abandoned via structured report.'' w
          else refuse (''Unsupported action '' @ [CHR 0x27] @ action @ [CHR 0x27]) w
      | Edit_metadata p \<Rightarrow> update_metadata tid p runner_thread allow_active journal w)"

end
