(* ===== verification/Status_Properties.thy ===== *)
theory Status_Properties
  imports Task_Stop Crash_Properties Queue_Properties
begin

text \<open>
  What the operator's transitions promise: the store stays consistent whatever is done in whatever
  order, a requeued task runs again unless its last outcome was kept, and a stop of a live runner does
  not park its task.
\<close>

section \<open>A consistent store\<close>

definition canonical_record :: "task_record \<Rightarrow> bool" where
  "canonical_record t =
     ((t_close_reason t \<noteq> None \<longleftrightarrow> t_status t \<in> {Tst_CLOSED, Tst_DONE}) \<and>
      (t_flag_reason t \<noteq> None \<longleftrightarrow> t_status t = Tst_FLAGGED))"

definition shelved :: "task_record \<Rightarrow> bool" where
  "shelved t = (t_status t \<in> {Tst_CLOSED, Tst_DONE, Tst_PARKED})"

definition store_ok :: "tasks \<Rightarrow> workspace_state \<Rightarrow> bool" where
  "store_ok tasks ws =
     (wf_tasks tasks \<and> distinct (ws_queue ws) \<and>
      (\<forall>i t. map_of tasks i = Some t \<longrightarrow> canonical_record t \<and>
         (shelved t \<longrightarrow> i \<notin> set (ws_queue ws) \<and> ws_active_task_id ws \<noteq> Some i)))"

abbreviation tw_ok :: "task_store \<Rightarrow> bool" where
  "tw_ok w \<equiv> store_ok (tw_tasks w) (tw_ws w)"

lemma stored_canonical: "canonical_record (task_state_for_storage t)"
  unfolding canonical_record_def storage_close_reason by (simp add: storage_flag_reason)

lemma merge_set:
  "p \<noteq> [] \<Longrightarrow> set (merge_queue_preserving_future_changes desired latest p) =
     (set latest - set p) \<union> (set desired \<inter> set p)"
  by (auto simp: merge_queue_preserving_future_changes_def splice_set protected_positions_snd)

lemma merge_distinct:
  "distinct latest \<Longrightarrow> p \<noteq> [] \<Longrightarrow> distinct (merge_queue_preserving_future_changes desired latest p)"
  by (simp add: merge_queue_preserving_future_changes_def, rule splice_distinct)
    (auto simp: protected_positions_snd)

text \<open>What one persisted transition keeps.\<close>

lemma persist_ok:
  assumes "tw_ok w" and "shelved t \<Longrightarrow> t_id t \<notin> set (ws_queue ws) \<and> ws_active_task_id ws \<noteq> Some (t_id t)"
    and "ws_active_task_id ws \<in> {None, ws_active_task_id (tw_ws w)}"
  shows "tw_ok (persist_transition t ws msg w)"
proof -
  have "shelved (task_state_for_storage t) = shelved t" by (simp add: shelved_def)
  with assms show ?thesis
    by (auto simp: store_ok_def persist_transition_def wf_update update_conv' stored_canonical
        merged_state_for_runner_owned_write_def merge_set merge_distinct split: if_splits)
qed

lemma reset_store_ok: "reset_pipeline_state env tid b w = Inr w' \<Longrightarrow> tw_tasks w' = tw_tasks w \<and> tw_ws w' = tw_ws w"
  by (auto simp: reset_pipeline_state_def split: sum.splits)

lemma removed [simp]:
  "ws_queue (remove_from_state tid ws) = without tid (ws_queue ws)"
  "ws_active_task_id (remove_from_state tid ws) = (if ws_active_task_id ws = Some tid then None else ws_active_task_id ws)"
  by (simp_all add: remove_from_state_def drop_task_from_workspace_state_def Let_def)

lemma queued [simp]:
  "ws_active_task_id (queue_task tid front ws) = ws_active_task_id ws"
  by (simp add: queue_task_def)

lemma transition_id [simp]:
  "t_id (apply_cancelled_task_state now r t) = t_id t" "t_id (snd (apply_close_task_state now c r' f t)) = t_id t"
  "t_id (apply_parked_task_state now t) = t_id t" "t_id (reset_task_for_recovery now st ps b t) = t_id t"
  "t_id (prepare_completed_task_for_recovery now ps t) = t_id t" "t_id (stopped_task now t) = t_id t"
  "t_id (patched p t) = t_id t"
  by (simp_all add: apply_cancelled_task_state_def apply_close_task_state_def apply_parked_task_state_def
      reset_task_for_recovery_def prepare_completed_task_for_recovery_def stopped_task_def patched_def
      clear_task_run_activity_def apply_task_outcome_def set_task_commit_sha_def Let_def)

lemma transition_status [simp]:
  "t_status (apply_cancelled_task_state now r t) = Tst_CLOSED" "t_status (apply_parked_task_state now t) = Tst_PARKED"
  "t_status (reset_task_for_recovery now st ps b t) = st"
  "t_status (prepare_completed_task_for_recovery now ps t) = Tst_QUEUED" "t_status (patched p t) = t_status t"
  by (simp_all add: apply_cancelled_task_state_def apply_parked_task_state_def
      reset_task_for_recovery_def prepare_completed_task_for_recovery_def patched_def
      clear_task_run_activity_def apply_task_outcome_def set_task_commit_sha_def Let_def)

lemma not_in_without [simp]: "tid \<notin> set (without tid q)"
  by (simp add: without_def)

lemma gate_passed:
  "mutation_gate tid ws rest w = (Inr x, w') \<Longrightarrow> rest w = (Inr x, w')"
  by (simp add: mutation_gate_def split: sum.splits)

text \<open>A gate keeps what its continuation keeps.\<close>

lemma gate_ok: "P w \<Longrightarrow> P (snd (rest w)) \<Longrightarrow> P (snd (mutation_gate tid ws rest w))"
  by (simp add: mutation_gate_def split: sum.splits)

section \<open>Every transition keeps it\<close>

lemma removal_ok:
  "tw_ok w \<Longrightarrow> t_id t = tid \<Longrightarrow> tw_ok (persist_transition t (remove_from_state tid (tw_ws w)) msg w)"
  by (rule persist_ok) auto

lemma abandon_ok:
  assumes "tw_ok w"
  shows "tw_ok (snd (abandon_task env tid reason w))"
proof (cases "map_of (tw_tasks w) tid")
  case (Some t)
  then have id: "t_id t = tid" using assms by (auto simp: store_ok_def intro: wf_id)
  show ?thesis
    using assms removal_ok [OF assms, of "apply_cancelled_task_state (se_now env) reason t" tid] id
    by (auto simp: abandon_task_def Some refuse_def Let_def split: sum.splits intro!: gate_ok [where P = tw_ok]
        dest!: reset_store_ok)
qed (use assms in \<open>simp add: abandon_task_def not_found_def refuse_def\<close>)

lemma close_under_lock_ok:
  assumes "tw_ok w"
  shows "tw_ok (snd (close_under_lock env tid close reason f w))"
proof (cases "map_of (tw_tasks w) tid")
  case (Some t)
  then have id: "t_id t = tid" using assms by (auto simp: store_ok_def intro: wf_id)
  show ?thesis
    using assms removal_ok [OF assms, of "snd (apply_close_task_state (se_now env) close reason _ t)" tid] id
    by (auto simp: close_under_lock_def Some refuse_def Let_def split: sum.splits prod.splits
        intro!: gate_ok [where P = tw_ok] dest!: reset_store_ok) (metis snd_conv)+
qed (use assms in \<open>simp add: close_under_lock_def not_found_def refuse_def\<close>)

lemma park_ok:
  assumes "tw_ok w"
  shows "tw_ok (snd (park_task env tid reason w))"
proof (cases "map_of (tw_tasks w) tid")
  case (Some t)
  then have id: "t_id t = tid" using assms by (auto simp: store_ok_def intro: wf_id)
  show ?thesis
    using assms removal_ok [OF assms, of "apply_parked_task_state (se_now env) t" tid] id
    by (auto simp: park_task_def Some refuse_def Let_def intro!: gate_ok [where P = tw_ok])
qed (use assms in \<open>simp add: park_task_def not_found_def refuse_def\<close>)

lemma acknowledged_fields:
  "t_id (acknowledge_on_runtime now r t) = t_id t \<and> t_status (acknowledge_on_runtime now r t) = t_status t \<and>
   pr_last_outcome (t_pipeline (acknowledge_on_runtime now r t)) = pr_last_outcome (t_pipeline t)"
  by (simp add: acknowledge_on_runtime_def Let_def split: option.splits)

lemma acknowledge_all_fields:
  "acknowledge_all now rs (t, st) = Some (t', st') \<Longrightarrow>
   t_id t' = t_id t \<and> t_status t' = t_status t \<and>
   pr_last_outcome (t_pipeline t') = pr_last_outcome (t_pipeline t)"
  by (induction rs arbitrary: t st) (auto simp: acknowledged_fields split: option.splits)

lemma override_fields:
  "mark_failed_run_operator_override now rs (t, st) = Some (t', st') \<Longrightarrow>
   t_id t' = t_id t \<and> t_status t' = t_status t \<and>
   pr_last_outcome (t_pipeline t') = pr_last_outcome (t_pipeline t)"
  unfolding mark_failed_run_operator_override_def by (rule acknowledge_all_fields)

text \<open>The acknowledgement touches the lifecycle row and the loaded record only.\<close>

lemma acknowledged:
  assumes "acknowledge_blocking_runs env t w = Inr (t', w')"
  shows "tw_tasks w' = tw_tasks w \<and> tw_ws w' = tw_ws w \<and> t_id t' = t_id t \<and> t_status t' = t_status t \<and>
    pr_last_outcome (t_pipeline t') = pr_last_outcome (t_pipeline t)"
  using assms
  by (auto simp: acknowledge_blocking_runs_def Let_def split: if_splits sum.splits load_error.splits option.splits
      dest!: override_fields)

lemma retracted: "retract_unlanded_passes env t w = Inr w' \<Longrightarrow> tw_tasks w' = tw_tasks w \<and> tw_ws w' = tw_ws w"
  by (auto simp: retract_unlanded_passes_def split: option.splits sum.splits if_splits)

lemma requeueing_ok:
  "tw_ok w \<Longrightarrow> t_status t = Tst_QUEUED \<Longrightarrow> ws_active_task_id ws \<in> {None, ws_active_task_id (tw_ws w)} \<Longrightarrow>
   tw_ok (persist_transition t (queue_task tid front ws) msg w)"
  by (rule persist_ok) (simp_all add: shelved_def)

lemma requeue_ok:
  assumes "tw_ok w"
  shows "tw_ok (snd (requeue_task env tid front force w))"
proof (cases "map_of (tw_tasks w) tid")
  case (Some t)
  have "tw_ok (persist_transition (requeued_task (se_now env) t1) (queue_task tid front ws) msg w3)"
    if "tw_ok w3" "tw_ws w3 = ws" for t1 w3 ws msg
    using that by (intro requeueing_ok) (simp_all add: requeued_task_def)
  then show ?thesis
    using assms
    by (auto simp: requeue_task_def Some refuse_def Let_def split: sum.splits intro!: gate_ok [where P = tw_ok]
        dest!: acknowledged retracted reset_store_ok)
qed (use assms in \<open>simp add: requeue_task_def not_found_def refuse_def\<close>)

lemma resume_ok:
  assumes "tw_ok w"
  shows "tw_ok (snd (resume_task env tid front w))"
proof (cases "map_of (tw_tasks w) tid")
  case (Some t)
  have "tw_ok (persist_transition (resumed_task (se_now env) st t) (queue_task tid front ws) msg w1)"
    if "tw_ok w1" "ws_active_task_id ws \<in> {None, ws_active_task_id (tw_ws w1)}" for ws st w1 msg
    using that by (intro requeueing_ok) (simp_all add: resumed_task_def)
  then show ?thesis
    using assms
    by (auto simp: resume_task_def Some refuse_def Let_def split: sum.splits option.splits
        intro!: gate_ok [where P = tw_ok] dest!: reset_store_ok)
qed (use assms in \<open>simp add: resume_task_def not_found_def refuse_def\<close>)

lemma recover_ok:
  assumes "tw_ok w"
  shows "tw_ok (snd (recover_completed_task env tid w))"
proof -
  have "tw_ok (persist_transition (prepare_completed_task_for_recovery now ps t) (ws \<lparr>ws_queue := q\<rparr>) msg w)"
    if "ws = remove_from_state tid (tw_ws w)" for now ps t ws q msg
    using assms that by (intro persist_ok) (auto simp: shelved_def)
  then show ?thesis using assms by (auto simp: recover_completed_task_def Let_def split: option.splits)
qed

lemma update_ok:
  assumes "tw_ok w"
  shows "tw_ok (snd (update_metadata tid p rt act j w))"
proof (cases "map_of (tw_tasks w) tid")
  case (Some t)
  then have id: "t_id t = tid" using assms by (auto simp: store_ok_def intro: wf_id)
  have "shelved t \<Longrightarrow> tid \<notin> set (ws_queue (tw_ws w)) \<and> ws_active_task_id (tw_ws w) \<noteq> Some tid"
    using assms Some by (auto simp: store_ok_def)
  then have "tw_ok (w \<lparr>tw_tasks := AList.update tid (task_state_for_storage (patched p t)) (tw_tasks w), tw_journal := j\<rparr>)"
    for j using assms id
    by (auto simp: store_ok_def wf_update update_conv' stored_canonical shelved_def split: if_splits)
  with assms show ?thesis
    by (auto simp: update_metadata_def Some Let_def split: option.splits intro!: gate_ok [where P = tw_ok])
qed (use assms in \<open>simp add: update_metadata_def not_found_def refuse_def\<close>)

lemma stop_active_ok:
  assumes "tw_ok w"
  shows "tw_ok (snd (stop_active_task env tid w))"
proof (cases "map_of (tw_tasks w) tid")
  case (Some t)
  then have id: "t_id t = tid" using assms by (auto simp: store_ok_def intro: wf_id)
  let ?t = "stopped_task (se_now env) t"
  have "shelved ?t \<Longrightarrow> t_status ?t \<noteq> Tst_QUEUED" by (auto simp: shelved_def)
  then have "tw_ok (persist_transition ?t ((tw_ws w) \<lparr>ws_active_task_id := None,
      ws_queue := (if t_status ?t = Tst_QUEUED then tid # without tid (ws_queue (tw_ws w))
                   else without tid (ws_queue (tw_ws w)))\<rparr>) msg w)" for msg
    using assms id by (intro persist_ok) auto
  with assms show ?thesis
    by (auto simp: stop_active_task_def Some refuse_def Let_def split: sum.splits)
qed (use assms in \<open>simp add: stop_active_task_def not_found_def refuse_def split: sum.splits\<close>)

section \<open>The repair keeps it\<close>

lemma resumable_stage: "st \<in> set RESUMABLE_PIPELINE_STAGES \<Longrightarrow> \<exists>ts. st = task_stage_value ts"
  by (auto simp: RESUMABLE_PIPELINE_STAGES_def intro: exI [of _ Stg_GROOMING] exI [of _ Stg_IMPLEMENTING]
      exI [of _ Stg_TESTING] exI [of _ Stg_ACCEPTING] exI [of _ Stg_COMMIT_TO_GIT])

lemma normalized_stage: "normalize_resumable_stage_name x = Some st \<Longrightarrow> st \<in> set RESUMABLE_PIPELINE_STAGES"
  by (auto simp: normalize_resumable_stage_name_def split: option.splits if_splits)

lemma first_stage: "first_resumable cs = Some st \<Longrightarrow> \<exists>ts. st = task_stage_value ts"
  by (induction cs) (auto split: option.splits dest: normalized_stage resumable_stage)

lemma queue_stage: "resumable_queue_stage t = Some st \<Longrightarrow> \<exists>ts. st = task_stage_value ts"
  unfolding resumable_queue_stage_def Let_def by (rule first_stage)

lemma running_stage_name: "resumable_running_stage t = Some st \<Longrightarrow> \<exists>ts. st = task_stage_value ts"
  by (auto simp: resumable_running_stage_def Let_def split: if_splits
      dest: queue_stage normalized_stage resumable_stage)

text \<open>A repair changes the records of the ids it reports, and queues those only.\<close>

definition repairs :: "tasks \<Rightarrow> string list \<Rightarrow> tasks \<Rightarrow> bool" where
  "repairs tasks ids tasks' =
     (wf_tasks tasks' \<and> (\<forall>i t. map_of tasks' i = Some t \<longrightarrow>
        (if i \<in> set ids then t_status t = Tst_QUEUED else map_of tasks i = Some t)))"

lemma repairs_update:
  "repairs tasks ids tasks' \<Longrightarrow> t_id t = i \<Longrightarrow> t_status t = Tst_QUEUED \<Longrightarrow>
   repairs tasks (ids @ [i]) (AList.update i t tasks')"
  by (auto simp: repairs_def wf_update update_conv' split: if_splits)

lemma recover_running_repairs:
  assumes "wf_tasks tasks" and "distinct ids"
  shows "repairs tasks (rp_transitioned (recover_running_tasks w ws ids tasks)) (rp_tasks (recover_running_tasks w ws ids tasks)) \<and>
    distinct (rp_transitioned (recover_running_tasks w ws ids tasks)) \<and>
    set (rp_transitioned (recover_running_tasks w ws ids tasks)) \<subseteq> set ids"
proof -
  have "repairs tasks (rp_transitioned (fold (recover_running_step w ws) ids r)) (rp_tasks (fold (recover_running_step w ws) ids r)) \<and>
      distinct (rp_transitioned (fold (recover_running_step w ws) ids r)) \<and>
      set (rp_transitioned (fold (recover_running_step w ws) ids r)) \<subseteq> set (rp_transitioned r) \<union> set ids"
    if "repairs tasks (rp_transitioned r) (rp_tasks r)" "distinct (rp_transitioned r @ ids)" for r
    using that \<open>distinct ids\<close>
  proof (induction ids arbitrary: r)
    case (Cons i ids)
    let ?r = "recover_running_step w ws i r"
    have "?r = r \<or> (\<exists>t' msg. ?r = r \<lparr>rp_tasks := AList.update i t' (rp_tasks r),
        rp_transitioned := rp_transitioned r @ [i], rp_messages := AList.update i msg (rp_messages r)\<rparr> \<and>
        t_id t' = i \<and> t_status t' = Tst_QUEUED)"
    proof (cases "\<exists>t. map_of (rp_tasks r) i = Some t \<and> \<not> skips_running_task w ws t \<and>
        recover_stale_running_task w t \<noteq> None")
      case True
      then obtain t u msg where t: "map_of (rp_tasks r) i = Some t" "\<not> skips_running_task w ws t"
        "recover_stale_running_task w t = Some (u, msg)" by auto
      have "t_id t = i" using Cons.prems(1) t(1) by (auto simp: repairs_def intro: wf_id)
      then have "t_id u = i \<and> t_status u = Tst_QUEUED"
        using t(3) by (auto simp: recover_stale_running_task_def Let_def requeued_fields prepared_fields
            split: if_splits option.splits dest!: running_stage_name)
      with t show ?thesis by (auto simp: recover_running_step_def)
    qed (auto simp: recover_running_step_def split: option.splits)
    then have "repairs tasks (rp_transitioned ?r) (rp_tasks ?r)" "distinct (rp_transitioned ?r @ ids)"
      "set (rp_transitioned ?r) \<subseteq> insert i (set (rp_transitioned r))"
      using Cons.prems repairs_update [OF Cons.prems(1)] by auto
    with Cons.IH [of ?r] Cons.prems(3) show ?case by fastforce
  qed simp
  from this [of "\<lparr>rp_tasks = tasks, rp_transitioned = [], rp_messages = []\<rparr>"] assms show ?thesis
    by (simp add: recover_running_tasks_def repairs_def)
qed

lemma wants_stage: "wants_resumable_repair ws q t = Some st \<Longrightarrow> \<exists>ts. st = task_stage_value ts"
  by (auto simp: wants_resumable_repair_def Let_def split: if_splits option.splits dest: queue_stage)

lemma normalize_step_cases:
  "normalize_nonrunning_step now ws t r = r \<or>
   (\<exists>t'. rn_tasks (normalize_nonrunning_step now ws t r) = AList.update (t_id t) t' (rn_tasks r) \<and>
      rn_transitioned (normalize_nonrunning_step now ws t r) = rn_transitioned r @ [t_id t] \<and>
      t_id t' = t_id t \<and> t_status t' = Tst_QUEUED)"
  by (auto simp: normalize_nonrunning_step_def Let_def requeued_fields split: option.splits dest!: wants_stage)

lemma normalize_repairs:
  fixes now :: string and ws :: workspace_state
  assumes "wf_tasks tasks"
  defines "n \<equiv> normalize_nonrunning_resumable_tasks now ws tasks"
  shows "repairs tasks (rn_transitioned n) (rn_tasks n) \<and> (rn_transitioned n = [] \<longrightarrow> rn_queue n = ws_queue ws)"
proof -
  have "repairs tasks (rn_transitioned (fold (\<lambda>(i, t). normalize_nonrunning_step now ws t) ts r))
        (rn_tasks (fold (\<lambda>(i, t). normalize_nonrunning_step now ws t) ts r)) \<and>
      (rn_transitioned (fold (\<lambda>(i, t). normalize_nonrunning_step now ws t) ts r) = [] \<longrightarrow>
         rn_queue (fold (\<lambda>(i, t). normalize_nonrunning_step now ws t) ts r) = ws_queue ws)"
    if "repairs tasks (rn_transitioned r) (rn_tasks r)" "rn_transitioned r = [] \<longrightarrow> rn_queue r = ws_queue ws" for ts r
    using that
  proof (induction ts arbitrary: r)
    case (Cons x ts)
    obtain i t where x: "x = (i, t)" by (cases x)
    let ?r = "normalize_nonrunning_step now ws t r"
    have "repairs tasks (rn_transitioned ?r) (rn_tasks ?r)" "rn_transitioned ?r = [] \<longrightarrow> rn_queue ?r = ws_queue ws"
      using normalize_step_cases [of now ws t r] Cons.prems by (auto intro: repairs_update)
    with Cons.IH [of ?r] show ?case by (simp add: x)
  qed simp
  from this [of "\<lparr>rn_tasks = tasks, rn_queue = ws_queue ws, rn_front = 0, rn_transitioned = [], rn_messages = []\<rparr>" tasks]
  show ?thesis using assms(1) by (simp add: n_def normalize_nonrunning_resumable_tasks_def repairs_def)
qed

lemma repairs_trans:
  "repairs a xs b \<Longrightarrow> repairs b ys c \<Longrightarrow> repairs a (xs @ ys) c"
  unfolding repairs_def by (auto split: if_splits)

lemma fold_store_wf:
  "wf_tasks ts \<Longrightarrow> wf_tasks (fold (\<lambda>i ts. case map_of ts i of None \<Rightarrow> ts
      | Some t \<Rightarrow> AList.update i (task_state_for_storage t) ts) ids ts)"
  by (induction ids arbitrary: ts) (simp_all add: wf_update wf_id split: option.split)

lemma update_active_cases:
  assumes "update_active_task_after_recovery w tasks pr ids ws = (moved, ws')"
  shows "ws_active_task_id ws' \<in> {None, ws_active_task_id ws} \<and> (pr = [] \<longrightarrow> ws_queue ws' = ws_queue ws)"
  using assms by (auto simp: update_active_task_after_recovery_def Let_def split: if_splits option.splits)

lemma repair_ok:
  assumes ok: "store_ok tasks ws" and res: "recover_stale_runner_state w (tasks, ws) = (b, (tasks', ws'))"
  shows "store_ok tasks' ws'"
proof -
  define ids where "ids = running_task_ids tasks"
  define r where "r = recover_running_tasks w ws ids tasks"
  define n where "n = normalize_nonrunning_resumable_tasks (rw_now w) ws (rp_tasks r)"
  define changed where "changed = remdups (rp_transitioned r @ rn_transitioned n)"
  obtain moved ws2 where u: "update_active_task_after_recovery w (rn_tasks n) (rp_transitioned r) ids
      (ws \<lparr>ws_queue := rn_queue n\<rparr>) = (moved, ws2)" by (metis surj_pair)
  have wf: "wf_tasks tasks" using ok by (simp add: store_ok_def)
  then have "distinct ids" by (simp add: ids_def running_task_ids_def wf_tasks_def distinct_map_filter)
  from recover_running_repairs [OF wf this] have r: "repairs tasks (rp_transitioned r) (rp_tasks r)"
    by (simp add: r_def)
  then have wfr: "wf_tasks (rp_tasks r)" by (simp add: repairs_def)
  from normalize_repairs [OF wfr, of "rw_now w" ws] have
    n: "repairs (rp_tasks r) (rn_transitioned n) (rn_tasks n)" "rn_transitioned n = [] \<longrightarrow> rn_queue n = ws_queue ws"
    by (simp_all add: n_def)
  have all: "repairs tasks changed (rn_tasks n)"
    using repairs_trans [OF r n(1)] by (simp add: repairs_def changed_def)
  have act: "ws_active_task_id ws2 \<in> {None, ws_active_task_id ws}"
    "rp_transitioned r = [] \<longrightarrow> ws_queue ws2 = rn_queue n" using update_active_cases [OF u] by auto
  let ?store = "fold (\<lambda>i ts. case map_of ts i of None \<Rightarrow> ts
      | Some t \<Rightarrow> AList.update i (task_state_for_storage t) ts) changed (rn_tasks n)"
  have "(tasks', ws') = (tasks, ws) \<or> (tasks', ws') = (tasks, ws2) \<and> changed = [] \<or>
      (tasks', ws') = (?store, merged_state_for_runner_owned_write ws2 ws changed) \<and> changed \<noteq> []"
    using res u
    by (auto simp: recover_stale_runner_state_def Let_def prod.case_eq_if changed_def
        simp flip: ids_def r_def n_def split: if_splits)
  moreover have "store_ok tasks ws2" if "changed = []"
    using that ok act n(2) by (auto simp: changed_def store_ok_def)
  moreover have "store_ok ?store (merged_state_for_runner_owned_write ws2 ws changed)" if ne: "changed \<noteq> []"
  proof -
    have "wf_tasks ?store" by (rule fold_store_wf) (use all in \<open>simp add: repairs_def\<close>)
    moreover have "canonical_record t \<and> (shelved t \<longrightarrow> i \<notin> set (ws_queue (merged_state_for_runner_owned_write ws2 ws changed)) \<and>
        ws_active_task_id (merged_state_for_runner_owned_write ws2 ws changed) \<noteq> Some i)"
      if t: "map_of ?store i = Some t" for i t
    proof (cases "i \<in> set changed")
      case True
      then obtain u where u: "map_of (rn_tasks n) i = Some u" "t = task_state_for_storage u"
        using t store_fold [of changed "rn_tasks n" i] by (cases "map_of (rn_tasks n) i") (auto simp: changed_def)
      then have "t_status u = Tst_QUEUED" using all True by (auto simp: repairs_def)
      with u(2) show ?thesis by (simp add: stored_canonical shelved_def)
    next
      case False
      then have "map_of (rn_tasks n) i = Some t"
        using t store_fold [of changed "rn_tasks n" i] by (simp add: changed_def)
      with all False have "map_of tasks i = Some t" by (simp add: repairs_def)
      with ok False act(1) ne show ?thesis
        by (auto simp: store_ok_def merged_state_for_runner_owned_write_def merge_set)
    qed
    ultimately show ?thesis
      using ok ne by (auto simp: store_ok_def merged_state_for_runner_owned_write_def merge_distinct)
  qed
  ultimately show ?thesis using ok by auto
qed

section \<open>Stops, closes and edits keep it\<close>

definition exit_ok :: "stop_world \<Rightarrow> bool" where
  "exit_ok so = (\<forall>w. tw_ok w \<longrightarrow> tw_ok (so_runner_exit so w))"

lemma repaired_ok: "tw_ok w \<Longrightarrow> tw_ok (repaired_store r w)"
  by (auto simp: repaired_store_def split: prod.splits dest: repair_ok)

lemma stop_live_ok:
  assumes "tw_ok w" "exit_ok so"
  shows "tw_ok (snd (stop_live_runner env so tid pid w))"
proof -
  let ?w1 = "so_runner_exit so w" let ?w2 = "repaired_store (so_recovery so) ?w1"
  have w: "tw_ok ?w1" "tw_ok ?w2" "tw_ok (snd (stop_active_task env tid ?w2))"
    using assms repaired_ok stop_active_ok by (auto simp: exit_ok_def)
  then show ?thesis
    by (cases "stop_active_task env tid ?w2")
      (auto simp: stop_live_runner_def Let_def not_found_def refuse_def split: sum.splits option.splits)
qed

lemma stop_current_ok:
  assumes "tw_ok w" "exit_ok so"
  shows "tw_ok (snd (stop_current_task env so w))"
proof -
  have "tw_ok (snd (stop_active_task env tid w))" "tw_ok (snd (stop_live_runner env so tid pid w))" for tid pid
    using assms stop_active_ok stop_live_ok by blast+
  with assms(1) show ?thesis
    by (auto simp: stop_current_task_def split: sum.splits option.splits prod.splits) (metis snd_conv)+
qed

lemma close_ok:
  assumes "tw_ok w" "exit_ok so"
  shows "tw_ok (snd (close_task env so tid outcome reason f w))"
proof -
  have s: "tw_ok (snd (stop_current_task env so w))" by (rule stop_current_ok [OF assms])
  have "stop_current_task env so w = (x, w1) \<Longrightarrow> tw_ok w1" for x w1 using s by simp
  with assms(1) close_under_lock_ok show ?thesis
    by (auto simp: close_task_def refuse_def split: option.splits sum.splits prod.splits if_splits)
qed

text \<open>The commands of the operator, as one step each of the store.\<close>

datatype status_command =
    Abandon string string | Park string string | Close string string "string option" "string option"
  | Requeue string bool bool | Resume string bool | Recover_completed string | Stop
  | Update string edit_request bool bool "string option" | Repair recovery_world

fun run_command :: "status_env \<Rightarrow> stop_world \<Rightarrow> status_command \<Rightarrow> task_store \<Rightarrow> task_store" where
  "run_command env so (Abandon tid reason) w = snd (abandon_task env tid reason w)"
| "run_command env so (Park tid reason) w = snd (park_task env tid reason w)"
| "run_command env so (Close tid outcome reason f) w = snd (close_task env so tid outcome reason f w)"
| "run_command env so (Requeue tid front force) w = snd (requeue_task env tid front force w)"
| "run_command env so (Resume tid front) w = snd (resume_task env tid front w)"
| "run_command env so (Recover_completed tid) w = snd (recover_completed_task env tid w)"
| "run_command env so Stop w = snd (stop_current_task env so w)"
| "run_command env so (Update tid req rt act j) w = snd (update_task env so tid req rt act j w)"
| "run_command env so (Repair r) w = repaired_store r w"

inductive operated :: "task_store \<Rightarrow> task_store \<Rightarrow> bool" for w0 where
  operated_start: "operated w0 w0"
| operated_step: "operated w0 w \<Longrightarrow> exit_ok so \<Longrightarrow> operated w0 (run_command env so cmd w)"

lemma command_ok: "tw_ok w \<Longrightarrow> exit_ok so \<Longrightarrow> tw_ok (run_command env so cmd w)"
  by (cases cmd) (auto simp: abandon_ok park_ok close_ok requeue_ok resume_ok recover_ok stop_current_ok repaired_ok
      update_task_def update_ok refuse_def split: edit_request.split)

text \<open>C29: Whatever the operator does in whatever order, and whatever is refused or repaired on the way, no task
  is queued twice, no closed, done or parked task is queued or active, and every record has a close
  reason exactly when it is closed or done, and a flag reason exactly when it is flagged.\<close>

theorem operated_store_consistent:
  assumes "operated w0 w" and "store_ok (tw_tasks w0) (tw_ws w0)"
  shows "distinct (ws_queue (tw_ws w)) \<and>
    (\<forall>tid t. map_of (tw_tasks w) tid = Some t \<longrightarrow> t_id t = tid \<and>
       (t_close_reason t \<noteq> None \<longleftrightarrow> t_status t \<in> {Tst_CLOSED, Tst_DONE}) \<and>
       (t_flag_reason t \<noteq> None \<longleftrightarrow> t_status t = Tst_FLAGGED) \<and>
       (t_status t \<in> {Tst_CLOSED, Tst_DONE, Tst_PARKED} \<longrightarrow>
          tid \<notin> set (ws_queue (tw_ws w)) \<and> ws_active_task_id (tw_ws w) \<noteq> Some tid))"
proof -
  have "tw_ok w" using assms by induction (simp_all add: command_ok)
  then show ?thesis by (auto simp: store_ok_def shelved_def canonical_record_def intro: wf_id)
qed

text \<open>The mark a runner makes when it dies by an exception is such an exit.\<close>

lemma crash_mark_ok:
  assumes "store_ok tasks ws"
  shows "case mark_task_interrupted_on_crash tid (tasks, ws) of (tasks', ws') \<Rightarrow> store_ok tasks' ws'"
proof -
  define ws' where "ws' = snd (mark_task_interrupted_on_crash tid (tasks, ws))"
  have "\<not> shelved t" if "map_of tasks tid = Some t" "ws_active_task_id ws = Some tid" for t
    using assms that by (auto simp: store_ok_def)
  then have ok: "store_ok tasks ws'"
    using assms by (auto simp: ws'_def mark_task_interrupted_on_crash_def store_ok_def)
  have "store_ok (AList.update tid (task_state_for_storage u) tasks) ws'" if "t_id u = tid" "t_status u = Tst_QUEUED" for u
    using ok that by (auto simp: store_ok_def wf_update update_conv' stored_canonical shelved_def)
  moreover have "t_id t = tid" if "map_of tasks tid = Some t" for t using assms that by (auto simp: store_ok_def intro: wf_id)
  moreover have "mark_task_interrupted_on_crash tid (tasks, ws) = (case map_of tasks tid of None \<Rightarrow> tasks
      | Some t \<Rightarrow> if running t then AList.update tid (task_state_for_storage (t \<lparr>t_status := Tst_QUEUED,
          t_pipeline := (t_pipeline t) \<lparr>pr_execution_status := execution_status_value Exe_INTERRUPTED\<rparr>\<rparr>)) tasks
        else tasks, ws')" by (simp add: ws'_def mark_task_interrupted_on_crash_def split: option.split)
  ultimately show ?thesis using ok by (simp split: option.split)
qed

section \<open>A requeued task\<close>

lemma reset_fields:
  "pr_execution_status (t_pipeline (reset_task_for_recovery now st ps b t)) = ''idle''"
  "t_pipeline_status (reset_task_for_recovery now st ps b t) = ps"
  "pr_failed_run_history (t_pipeline (reset_task_for_recovery now st ps b t)) = pr_failed_run_history (t_pipeline t)"
  "os_kind (pr_last_outcome (t_pipeline (reset_task_for_recovery now st ps b t))) =
     (if b then None else os_kind (pr_last_outcome (t_pipeline t)))"
  by (simp_all add: reset_task_for_recovery_def clear_task_run_activity_def Let_def repoint_interrupted_def
      empty_outcome_def)

lemma reset_gate:
  "gate_open (reset_task_for_recovery now st ps b t) \<longleftrightarrow>
   \<not> has_blocking_failed_run_history t \<and> \<not> (\<not> b \<and> has_terminal_outcome_kind t)"
  by (simp add: gate_open_def has_blocking_failed_run_history_def blocking_failed_run_records_def
      has_terminal_outcome_kind_def reset_fields)

lemma reset_eligible:
  "ps \<noteq> Pst_DONE \<Longrightarrow>
   is_task_eligible_for_execution (task_state_for_storage (reset_task_for_recovery now Tst_QUEUED ps b t)) \<longleftrightarrow>
   \<not> has_blocking_failed_run_history t \<and> \<not> (\<not> b \<and> has_terminal_outcome_kind t)"
  using idle_eligible [of "reset_task_for_recovery now Tst_QUEUED ps b t"]
  by (simp add: storage_eligible reset_fields reset_gate)

lemma entry_stage_not_done [simp]: "implementation_entry_stage t \<noteq> Pst_DONE"
  by (simp add: implementation_entry_stage_def)

text \<open>An acknowledged record is free of blocking runs.\<close>

lemma acknowledged_unblocked:
  assumes "acknowledge_blocking_runs env t w = Inr (t', w')" and "history_ok (pr_failed_run_history (t_pipeline t))"
  shows "\<not> has_blocking_failed_run_history t'"
proof (cases "blocking_failed_run_records t")
  case Nil
  with assms(1) show ?thesis by (simp add: acknowledge_blocking_runs_def has_blocking_failed_run_history_def)
next
  case (Cons r rs)
  then obtain st st' where "acknowledge_all (se_now env) (blocking_failed_run_records t) (t, st) = Some (t', st')"
    using assms(1)
    by (auto simp: acknowledge_blocking_runs_def mark_failed_run_operator_override_def Let_def
        simp del: acknowledge_all.simps split: if_splits sum.splits load_error.splits option.splits)
  moreover have "\<forall>(k, x) \<in> set (pr_failed_run_history (t_pipeline t)). blocks x \<longrightarrow>
      k \<in> runtime_key ` set (blocking_failed_run_records t)"
    using assms(2) by (force simp: history_ok_def blocking_failed_run_records_def)
  ultimately show ?thesis using acknowledge_all_clears assms(2) by blast
qed

lemma queued_front: "ws_queue (queue_task tid front ws) = (if front then tid # without tid (ws_queue ws)
    else without tid (ws_queue ws) @ [tid])"
  by (simp add: queue_task_def)

lemma persisted_queue:
  "ws_queue (tw_ws (persist_transition t (queue_task (t_id t) front ws) msg w)) =
     merge_queue_preserving_future_changes (ws_queue (queue_task (t_id t) front ws)) (ws_queue (tw_ws w)) [t_id t]"
  by (simp add: persist_transition_def merged_state_for_runner_owned_write_def)

lemma persisted_task:
  "map_of (tw_tasks (persist_transition t ws msg w)) (t_id t) = Some (task_state_for_storage t)"
  by (simp add: persist_transition_def update_conv')

lemma requeue_result:
  assumes "requeue_task env tid front force w = (Inr t', w')" and "tw_ok w" and "map_of (tw_tasks w) tid = Some t"
  shows "\<exists>t1 w1 w3. acknowledge_blocking_runs env t w = Inr (t1, w1) \<and> t_id t1 = tid \<and> t_status t1 = t_status t \<and>
    pr_last_outcome (t_pipeline t1) = pr_last_outcome (t_pipeline t) \<and>
    tw_ws w3 = tw_ws w \<and> t' = requeued_task (se_now env) t1 \<and>
    w' = persist_transition t' (queue_task tid front (tw_ws w3)) ''Task requeued for another implementation pass.'' w3"
proof -
  have id: "t_id t = tid" using assms(2,3) by (auto simp: store_ok_def intro: wf_id)
  obtain t1 w1 where a: "acknowledge_blocking_runs env t w = Inr (t1, w1)"
    using assms(1,3) by (cases "acknowledge_blocking_runs env t w") (auto simp: requeue_task_def refuse_def split: if_splits)
  from assms(1,3) a obtain w2 w3 where "retract_unlanded_passes env t1 w1 = Inr w2"
    "reset_pipeline_state env tid True w2 = Inr w3" "t' = requeued_task (se_now env) t1"
    "w' = persist_transition t' (queue_task tid front (tw_ws w3)) ''Task requeued for another implementation pass.'' w3"
    by (auto simp: requeue_task_def refuse_def Let_def split: if_splits sum.splits dest!: gate_passed)
  with a id show ?thesis using acknowledged [OF a] retracted reset_store_ok by metis
qed

text \<open>C28: A requeue that is accepted queues the task once, in front on request, idle at its implementation entry,
  with the order of the others kept; and the task may then run, unless it was parked or flagged and its
  last outcome was a closing one: that outcome is kept and bars it from every pick.\<close>

theorem requeued_task_runs:
  assumes "requeue_task env tid front force w = (Inr t', w')" and "store_ok (tw_tasks w) (tw_ws w)"
    and "map_of (tw_tasks w) tid = Some t" and "history_ok (pr_failed_run_history (t_pipeline t))"
  shows "\<exists>u. map_of (tw_tasks w') tid = Some u \<and> t_status u = Tst_QUEUED \<and>
    t_pipeline_status u \<in> {Pst_GROOMING, Pst_IMPLEMENTING} \<and>
    distinct (ws_queue (tw_ws w')) \<and> tid \<in> set (ws_queue (tw_ws w')) \<and>
    (front \<longrightarrow> (\<exists>q. ws_queue (tw_ws w') = tid # q)) \<and>
    without tid (ws_queue (tw_ws w')) = without tid (ws_queue (tw_ws w)) \<and>
    (is_task_eligible_for_execution u \<longleftrightarrow>
       \<not> (t_status t \<in> {Tst_FLAGGED, Tst_PARKED} \<and> has_terminal_outcome_kind t))"
proof -
  obtain t1 w1 w3 where r: "acknowledge_blocking_runs env t w = Inr (t1, w1)" "t_id t1 = tid" "t_status t1 = t_status t"
    "pr_last_outcome (t_pipeline t1) = pr_last_outcome (t_pipeline t)" "tw_ws w3 = tw_ws w"
    "t' = requeued_task (se_now env) t1"
    "w' = persist_transition t' (queue_task tid front (tw_ws w3)) ''Task requeued for another implementation pass.'' w3"
    using requeue_result [OF assms(1-3)] by blast
  have id: "t_id t' = tid" by (simp add: r(2,6) requeued_task_def)
  have q: "ws_queue (tw_ws w') = merge_queue_preserving_future_changes (ws_queue (queue_task tid front (tw_ws w)))
      (ws_queue (tw_ws w)) [tid]" using persisted_queue [of t'] id r(5,7) by simp
  have keep: "without tid (ws_queue (tw_ws w')) = without tid (ws_queue (tw_ws w))"
  proof -
    let ?ps = "protected_positions [tid] (ws_queue (queue_task tid front (tw_ws w)))"
    have "\<forall>p \<in> set ?ps. snd p \<in> set [tid]" using protected_positions_snd [of "[tid]"] by blast
    from splice_unprotected [OF this] show ?thesis
      by (simp add: q merge_queue_preserving_future_changes_def without_def)
  qed
  have "tid \<in> set (ws_queue (tw_ws w'))" unfolding q by (simp add: merge_set queued_front)
  moreover have "front \<longrightarrow> (\<exists>q. ws_queue (tw_ws w') = tid # q)" unfolding q by (simp add: queued_front merge_head)
  moreover have "distinct (ws_queue (tw_ws w'))" unfolding q using assms(2) by (simp add: store_ok_def merge_distinct)
  moreover have "is_task_eligible_for_execution (task_state_for_storage t') \<longleftrightarrow>
      \<not> (t_status t \<in> {Tst_FLAGGED, Tst_PARKED} \<and> has_terminal_outcome_kind t)"
    using acknowledged_unblocked [OF r(1) assms(4)] r(3,4)
    by (simp add: r(6) requeued_task_def reset_eligible has_terminal_outcome_kind_def)
  moreover have "map_of (tw_tasks w') tid = Some (task_state_for_storage t')" using persisted_task [of t'] id r(7) by simp
  moreover have "t_pipeline_status (task_state_for_storage t') \<in> {Pst_GROOMING, Pst_IMPLEMENTING}"
    by (simp add: r(6) requeued_task_def reset_fields implementation_entry_stage_def)
  ultimately show ?thesis using keep by (simp add: r(6) requeued_task_def)
qed

text \<open>A forced requeue that is refused has already overridden the failed runs on the lifecycle row.\<close>

lemma refused_requeue_overrides:
  assumes "map_of (tw_tasks w) tid = Some t" and "tw_ok w"
    and "t_status t \<notin> {Tst_FLAGGED, Tst_PARKED, Tst_CLOSED}"
    and "ensure_future_task_mutation_allowed [tid] (tw_tasks w) (tw_ws w) = Inr ()"
    and "acknowledge_blocking_runs env t w = Inr (t1, w1)"
  shows "requeue_task env tid front True w =
    (Inl (Refused (Queue_ValueError (''Task '' @ tid @ '' is not flagged, parked, or closed''))), w1)"
  using assms acknowledged [OF assms(5)] by (simp add: requeue_task_def mutation_gate_def refuse_def)

definition demo_status_env :: status_env where
  "demo_status_env =
     \<lparr>se_now = ''now'', se_float_text = (\<lambda>n. ''0''), se_main_head = None, se_path_differs = (\<lambda>t h p. Inr False),
      se_fate = (\<lambda>p. \<lparr>pf_dead = True, pf_term_found = False, pf_dead_after_term = False, pf_kill_found = False,
        pf_dead_after_kill = False\<rparr>), se_guard_conflict = None\<rparr>"

definition demo_idle_world :: stop_world where
  "demo_idle_world =
     \<lparr>so_held = False, so_live_pid = None, so_metadata_active = None, so_runner_exit = (\<lambda>w. w), so_released = True,
      so_survives = False, so_recovery = demo_owner\<rparr>"

definition demo_lifecycle :: lifecycle_db where
  "demo_lifecycle = \<lparr>pipeline_task_state = [], pipeline_sessions = [], pipeline_transitions = [],
     pipeline_journal = [], event_log = []\<rparr>"

definition demo_status_store :: "task_store" where
  "demo_status_store = \<lparr>tw_tasks = demo_tasks, tw_ws = demo_ws [''T1'', ''T2''], tw_lifecycle = demo_lifecycle,
     tw_activity = [], tw_journal = []\<rparr>"

text \<open>A task that was closed, then parked: parking keeps the closing outcome.\<close>

definition demo_parked :: task_record where
  "demo_parked = apply_parked_task_state ''now''
     (snd (apply_close_task_state ''now'' Cr_DEFERRED None None (demo_record ''T1'' [] Tst_QUEUED Pst_BACKLOG)))"

definition demo_shelved_store :: "task_store" where
  "demo_shelved_store = demo_status_store
     \<lparr>tw_tasks := [(''T1'', task_state_for_storage demo_parked)], tw_ws := demo_ws [''T2'']\<rparr>"

lemma demo_parked:
  "t_id demo_parked = ''T1''" "t_status demo_parked = Tst_PARKED" "has_terminal_outcome_kind demo_parked"
  "pr_failed_run_history (t_pipeline demo_parked) = []"
  by (simp_all add: demo_parked_def apply_parked_task_state_def apply_close_task_state_def clear_task_run_activity_def
      apply_task_outcome_def has_terminal_outcome_kind_def TERMINAL_OUTCOME_KINDS_def demo_record_def
      idle_pipeline_def Let_def)

lemma demo_status_ok: "store_ok (tw_tasks demo_status_store) (tw_ws demo_status_store)"
  by (auto simp: store_ok_def wf_tasks_def demo_status_store_def demo_tasks_def demo_record_def demo_ws_def
      canonical_record_def shelved_def split: if_splits)

lemma requeued_task_runs_witness:
  "\<exists>t' w' u. requeue_task demo_status_env ''T1'' True False demo_shelved_store = (Inr t', w') \<and>
     map_of (tw_tasks w') ''T1'' = Some u \<and> t_status u = Tst_QUEUED \<and> (\<exists>q. ws_queue (tw_ws w') = ''T1'' # q) \<and>
     \<not> is_task_eligible_for_execution u"
proof -
  have "case requeue_task demo_status_env ''T1'' True False demo_shelved_store of (Inr t', w') \<Rightarrow> True | _ \<Rightarrow> False"
    by code_simp
  then obtain t' w' where r: "requeue_task demo_status_env ''T1'' True False demo_shelved_store = (Inr t', w')"
    by (auto split: sum.splits prod.splits)
  let ?t = "task_state_for_storage demo_parked"
  have ok: "store_ok (tw_tasks demo_shelved_store) (tw_ws demo_shelved_store)"
    by (simp add: store_ok_def wf_tasks_def demo_shelved_store_def stored_canonical demo_parked demo_ws_def)
  have t: "map_of (tw_tasks demo_shelved_store) ''T1'' = Some ?t" "t_status ?t = Tst_PARKED"
    "has_terminal_outcome_kind ?t" "pr_failed_run_history (t_pipeline ?t) = []"
    using demo_parked by (simp_all add: demo_shelved_store_def has_terminal_outcome_kind_def)
  have h: "history_ok (pr_failed_run_history (t_pipeline ?t))" by (simp add: demo_parked(4) history_ok_def)
  from requeued_task_runs [OF r ok t(1) h] t(2,3) r show ?thesis by auto
qed

section \<open>Stopping a live runner\<close>

text \<open>The exit of a runner that is interrupted inside a task.\<close>

definition crash_exit :: "string \<Rightarrow> task_store \<Rightarrow> task_store" where
  "crash_exit tid w =
     (case mark_task_interrupted_on_crash tid (tw_tasks w, tw_ws w) of
        (tasks, ws) \<Rightarrow> w \<lparr>tw_tasks := tasks, tw_ws := ws\<rparr>)"

lemma crash_exit_ok: "tw_ok w \<Longrightarrow> tw_ok (crash_exit tid w)"
  using crash_mark_ok [of "tw_tasks w" "tw_ws w" tid] by (simp add: crash_exit_def split: prod.splits)

lemma mark_step:
  "j \<in> fst ` set (mark_task t m) \<Longrightarrow> j \<in> fst ` set m \<or> j = t_id t \<and> (t_status t = Tst_IN_PROGRESS \<or> running t)"
  by (simp add: mark_task_def add_marker_def Let_def dom_update [unfolded dom_map_of_conv_image_fst] split: if_splits)
    blast+

lemma marked_ids:
  "j \<in> fst ` set (fold (\<lambda>(i, t). mark_task t) ts m) \<Longrightarrow>
   j \<in> fst ` set m \<or> (\<exists>i t. (i, t) \<in> set ts \<and> j = t_id t \<and> (t_status t = Tst_IN_PROGRESS \<or> running t))"
proof (induction ts arbitrary: m)
  case (Cons x ts)
  obtain i t where x: "x = (i, t)" by (cases x)
  from Cons.prems have "j \<in> fst ` set (fold (\<lambda>(i, t). mark_task t) ts (mark_task t m))" by (simp add: x)
  from Cons.IH [OF this] mark_step [of j t m] show ?case by (auto simp: x)
qed simp

lemma not_marked:
  assumes "wf_tasks tasks" "map_of tasks tid = Some t" "t_status t = Tst_QUEUED" "\<not> running t"
    and "ws_active_task_id ws = None"
  shows "tid \<notin> fst ` set (active_task_markers tasks ws)"
proof
  assume "tid \<in> fst ` set (active_task_markers tasks ws)"
  then have "tid \<in> fst ` set (fold (\<lambda>(i, t). mark_task t) tasks [])"
    by (simp add: active_task_markers_def assms(5))
  from marked_ids [OF this] obtain i u where
    u: "(i, u) \<in> set tasks" "t_status u = Tst_IN_PROGRESS \<or> running u" "tid = t_id u" by auto
  then have "map_of tasks tid = Some u" using assms(1) by (auto simp: wf_tasks_def)
  with assms(2-4) u(2) show False by auto
qed

text \<open>Stopping a task whose runner obeys the signal does not park it. The interrupted runner has already put
  the task back, so the stop returns it queued; after an agent stage it is even eligible, and the next
  pickup can take it up again.\<close>

lemma stop_does_not_park:
  assumes "store_ok (tw_tasks w) (tw_ws w)" and "map_of (tw_tasks w) tid = Some t"
    and "record_view t = state_view s" and "stage s \<notin> {DONE, FAILED}"
    and "xr_interruption (t_execution t) = None" and "gate_open t"
    and "ws_active_task_id (tw_ws w) = Some tid" and "running_task_ids (tw_tasks w) = [tid]"
    and "active_task_id_for_stop (tw_tasks w) (tw_ws w) = Inr tid"
    and "so_held so" "so_live_pid so = Some pid" "so_released so" "\<not> so_survives so"
    and "so_runner_exit so = crash_exit tid" and "\<not> rw_lock_held (so_recovery so)"
  shows "\<exists>t' w'. stop_current_task env so w =
      (Inr \<lparr>su_task = t', su_runner_pid = Some pid, su_signal_sent = True\<rparr>, w') \<and>
    map_of (tw_tasks w') tid = Some t' \<and> t_status t' = Tst_QUEUED \<and>
    (is_task_eligible_for_execution t' \<longleftrightarrow> stage s \<in> {GROOMING, IMPLEMENTING, TESTING, ACCEPTING})"
proof -
  obtain tasks1 ws1 where m: "mark_task_interrupted_on_crash tid (tw_tasks w, tw_ws w) = (tasks1, ws1)" by (metis surj_pair)
  obtain b tasks2 ws2 where r: "recover_stale_runner_state (so_recovery so) (tasks1, ws1) = (b, (tasks2, ws2))"
    by (metis surj_pair)
  have wf: "wf_tasks (tw_tasks w)" using assms(1) by (simp add: store_ok_def)
  obtain t' where t': "map_of tasks2 tid = Some t'" "t_status t' = Tst_QUEUED" "\<not> running t'"
    "ws_active_task_id ws2 = None"
    "is_task_eligible_for_execution t' \<longleftrightarrow> stage s \<in> {GROOMING, IMPLEMENTING, TESTING, ACCEPTING}"
    using crashed_task [OF wf assms(2-8) disjI2 [OF assms(15)] r [folded m]] by blast
  have "store_ok tasks1 ws1" using crash_mark_ok [OF assms(1), of tid] m by simp
  then have "wf_tasks tasks2" using repair_ok [OF _ r] by (simp add: store_ok_def)
  then have "tid \<notin> fst ` set (active_task_markers tasks2 ws2)" by (rule not_marked [OF _ t'(1-4)])
  moreover have "so_runner_exit so w = w \<lparr>tw_tasks := tasks1, tw_ws := ws1\<rparr>"
    by (simp add: assms(14) crash_exit_def m)
  moreover have "repaired_store (so_recovery so) (w \<lparr>tw_tasks := tasks1, tw_ws := ws1\<rparr>) =
      w \<lparr>tw_tasks := tasks2, tw_ws := ws2\<rparr>" by (simp add: repaired_store_def r)
  ultimately have live: "stop_live_runner env so tid pid w =
      (Inr \<lparr>su_task = t', su_runner_pid = Some pid, su_signal_sent = True\<rparr>, w \<lparr>tw_tasks := tasks2, tw_ws := ws2\<rparr>)"
    by (simp add: stop_live_runner_def assms(12,13) t'(1))
  have "stop_current_task env so w = stop_live_runner env so tid pid w"
    unfolding stop_current_task_def assms(9) using assms(10,11) by simp
  with live t' show ?thesis by (intro exI [of _ t'] exI [of _ "w \<lparr>tw_tasks := tasks2, tw_ws := ws2\<rparr>"]) simp
qed

lemma operated_store_consistent_witness:
  "\<exists>w. operated demo_status_store w \<and> \<not> (\<exists>t. map_of (tw_tasks w) ''T1'' = Some t \<and> t_status t = Tst_CLOSED \<and>
     ''T1'' \<in> set (ws_queue (tw_ws w)))"
proof -
  have "exit_ok demo_idle_world" by (simp add: exit_ok_def demo_idle_world_def)
  then have "operated demo_status_store
      (run_command demo_status_env demo_idle_world (Close ''T1'' ''deferred'' None None) demo_status_store)"
    by (intro operated_step operated_start)
  from operated_store_consistent [OF this demo_status_ok] this show ?thesis by blast
qed

definition demo_busy_store :: "task_store" where
  "demo_busy_store = demo_status_store \<lparr>tw_tasks := demo_store TESTING, tw_ws := demo_pinned\<rparr>"

definition demo_signalled_world :: stop_world where
  "demo_signalled_world = demo_idle_world \<lparr>so_held := True, so_live_pid := Some 4711, so_runner_exit := crash_exit ''T1'',
     so_recovery := demo_owner \<lparr>rw_owns_thread := False, rw_lock_held := False\<rparr>\<rparr>"

lemma stop_does_not_park_witness:
  "\<exists>t' w'. stop_current_task demo_status_env demo_signalled_world demo_busy_store =
      (Inr \<lparr>su_task = t', su_runner_pid = Some 4711, su_signal_sent = True\<rparr>, w') \<and>
    t_status t' = Tst_QUEUED \<and> is_task_eligible_for_execution t'"
proof -
  have ok: "store_ok (tw_tasks demo_busy_store) (tw_ws demo_busy_store)"
    by (auto simp: store_ok_def wf_tasks_def demo_busy_store_def demo_status_store_def demo_store_def demo_live_def
        demo_record_def demo_pinned_def demo_ws_def canonical_record_def shelved_def split: if_splits)
  have v: "record_view (demo_live TESTING) = state_view (demo_run_state TESTING)" by (rule demo_live_view) simp
  have st: "stage (demo_run_state TESTING) \<notin> {DONE, FAILED}" by simp
  have a: "active_task_id_for_stop (tw_tasks demo_busy_store) (tw_ws demo_busy_store) = Inr ''T1''" by code_simp
  have d: "map_of (tw_tasks demo_busy_store) ''T1'' = Some (demo_live TESTING)"
    "ws_active_task_id (tw_ws demo_busy_store) = Some ''T1''" "running_task_ids (tw_tasks demo_busy_store) = [''T1'']"
    by (simp_all add: demo_busy_store_def demo_store_facts)
  have so: "so_held demo_signalled_world" "so_live_pid demo_signalled_world = Some 4711"
    "so_released demo_signalled_world" "\<not> so_survives demo_signalled_world"
    "so_runner_exit demo_signalled_world = crash_exit ''T1''" "\<not> rw_lock_held (so_recovery demo_signalled_world)"
    by (simp_all add: demo_signalled_world_def demo_idle_world_def)
  from stop_does_not_park [OF ok d(1) v st demo_live_gate d(2,3) a so, of demo_status_env] show ?thesis by auto
qed

end
