(* ===== verification/Lock_Manager.thy ===== *)
theory Lock_Manager
  imports Py_Values
begin

text \<open>
  The lock files of \<open>litehive/state/lock_manager.py\<close> and \<open>process_lock.py\<close>: a path that names an inode
  or nothing, the text of each inode, the open handles and the exclusive flock of each inode. A handle
  keeps the inode it opened when the path is unlinked, and closing it drops its flock. Each operation
  is one function; what another process does between two of its steps is the business of the theories
  that build on this one. The liveness of a pid is an argument.
\<close>

section \<open>Files, handles and flocks\<close>

datatype lock_text = Blank | Json pyval | Broken_json

record lock_fs =
  lf_path :: "nat option"
  lf_next_inode :: nat
  lf_text :: "nat \<Rightarrow> lock_text"
  lf_flock :: "nat \<Rightarrow> nat option"
  lf_inode :: "nat \<Rightarrow> nat option"
  lf_next_handle :: nat

definition open_lock :: "lock_fs \<Rightarrow> nat \<times> lock_fs" where
  "open_lock f =
     (let h = lf_next_handle f;
          (i, f1) = (case lf_path f of Some i \<Rightarrow> (i, f)
            | None \<Rightarrow> (lf_next_inode f, f \<lparr>lf_path := Some (lf_next_inode f), lf_next_inode := lf_next_inode f + 1,
                        lf_text := (lf_text f)(lf_next_inode f := Blank),
                        lf_flock := (lf_flock f)(lf_next_inode f := None)\<rparr>))
      in (h, f1 \<lparr>lf_inode := (lf_inode f1)(h := Some i), lf_next_handle := h + 1\<rparr>))"

text \<open>The nonblocking exclusive flock; \<open>False\<close> is \<open>BlockingIOError\<close>.\<close>

definition try_lock :: "nat \<Rightarrow> lock_fs \<Rightarrow> bool \<times> lock_fs" where
  "try_lock h f =
     (case lf_inode f h of None \<Rightarrow> (False, f)
      | Some i \<Rightarrow> if lf_flock f i \<in> {None, Some h}
                  then (True, f \<lparr>lf_flock := (lf_flock f)(i := Some h)\<rparr>) else (False, f))"

definition unlock :: "nat \<Rightarrow> lock_fs \<Rightarrow> lock_fs" where
  "unlock h f =
     (case lf_inode f h of None \<Rightarrow> f
      | Some i \<Rightarrow> if lf_flock f i = Some h then f \<lparr>lf_flock := (lf_flock f)(i := None)\<rparr> else f)"

definition close_handle :: "nat \<Rightarrow> lock_fs \<Rightarrow> lock_fs" where
  "close_handle h f = (let f1 = unlock h f in f1 \<lparr>lf_inode := (lf_inode f1)(h := None)\<rparr>)"

definition handle_text :: "nat \<Rightarrow> lock_fs \<Rightarrow> lock_text" where
  "handle_text h f = (case lf_inode f h of None \<Rightarrow> Blank | Some i \<Rightarrow> lf_text f i)"

definition write_text :: "nat \<Rightarrow> lock_text \<Rightarrow> lock_fs \<Rightarrow> lock_fs" where
  "write_text h x f = (case lf_inode f h of None \<Rightarrow> f | Some i \<Rightarrow> f \<lparr>lf_text := (lf_text f)(i := x)\<rparr>)"

section \<open>Metadata\<close>

type_synonym lock_meta = "(string \<times> pyval) list"

text \<open>\<open>Inl\<close> is the \<open>JSONDecodeError\<close> of a strict read.\<close>

fun parse_metadata_text :: "lock_text \<Rightarrow> bool \<Rightarrow> unit + lock_meta option" where
  "parse_metadata_text Blank strict = Inr (Some [])"
| "parse_metadata_text Broken_json strict = (if strict then Inl () else Inr None)"
| "parse_metadata_text (Json PyNone) strict = Inr (Some [])"
| "parse_metadata_text (Json v) strict = Inr (as_dict v)"

definition read_metadata :: "bool \<Rightarrow> lock_fs \<Rightarrow> unit + lock_meta option" where
  "read_metadata strict f =
     (case lf_path f of None \<Rightarrow> Inr None | Some i \<Rightarrow> parse_metadata_text (lf_text f i) strict)"

definition lenient_metadata :: "lock_fs \<Rightarrow> lock_meta" where
  "lenient_metadata f = (case read_metadata False f of Inr (Some m) \<Rightarrow> m | _ \<Rightarrow> [])"

definition read_locked_metadata :: "nat \<Rightarrow> lock_fs \<Rightarrow> lock_meta" where
  "read_locked_metadata h f = (case parse_metadata_text (handle_text h f) False of Inr (Some m) \<Rightarrow> m | _ \<Rightarrow> [])"

definition write_locked_metadata :: "nat \<Rightarrow> lock_meta \<Rightarrow> lock_fs \<Rightarrow> lock_fs" where
  "write_locked_metadata h m f = write_text h (Json (PyDict m)) f"

definition clear_locked_metadata :: "nat \<Rightarrow> lock_fs \<Rightarrow> lock_fs" where
  "clear_locked_metadata h f = write_text h Blank f"

definition meta_pid :: "lock_meta \<Rightarrow> pyval option" where
  "meta_pid m = map_of m ''pid''"

definition pid_is_live :: "(pyval \<Rightarrow> bool) \<Rightarrow> lock_meta \<Rightarrow> bool" where
  "pid_is_live alive m = (case meta_pid m of None \<Rightarrow> False | Some p \<Rightarrow> as_int p \<noteq> None \<and> alive p)"

definition pid_is_stale :: "(pyval \<Rightarrow> bool) \<Rightarrow> lock_fs \<Rightarrow> bool" where
  "pid_is_stale alive f =
     (case meta_pid (lenient_metadata f) of None \<Rightarrow> False
      | Some PyNone \<Rightarrow> False | Some p \<Rightarrow> \<not> alive p)"

section \<open>The compound operations\<close>

definition release :: "nat \<Rightarrow> bool \<Rightarrow> lock_fs \<Rightarrow> lock_fs" where
  "release h clear_metadata f = close_handle h (if clear_metadata then clear_locked_metadata h f else f)"

text \<open>Whether \<open>remove_stale_lockfile\<close> finds a dead owner, and the unlink that follows.\<close>

definition names_dead_owner :: "(pyval \<Rightarrow> bool) \<Rightarrow> lock_fs \<Rightarrow> bool" where
  "names_dead_owner alive f =
     (case meta_pid (lenient_metadata f) of None \<Rightarrow> False | Some p \<Rightarrow> as_int p \<noteq> None \<and> \<not> alive p)"

definition unlink_lock :: "lock_fs \<Rightarrow> lock_fs" where
  "unlink_lock f = f \<lparr>lf_path := None\<rparr>"

definition remove_stale_lockfile :: "(pyval \<Rightarrow> bool) \<Rightarrow> lock_fs \<Rightarrow> bool \<times> lock_fs" where
  "remove_stale_lockfile alive f = (if names_dead_owner alive f then (True, unlink_lock f) else (False, f))"

definition acquire :: "(pyval \<Rightarrow> bool) \<Rightarrow> bool \<Rightarrow> lock_fs \<Rightarrow> nat option \<times> lock_fs" where
  "acquire alive cleanup f =
     (let f1 = (if cleanup then snd (remove_stale_lockfile alive f) else f); (h, f2) = open_lock f1;
          (ok, f3) = try_lock h f2
      in if ok then (Some h, f3) else (None, close_handle h f3))"

definition is_active :: "bool \<Rightarrow> lock_fs \<Rightarrow> bool \<times> lock_fs" where
  "is_active held f =
     (if held then (True, f)
      else (let (h, f1) = open_lock f; (ok, f2) = try_lock h f1
            in (\<not> ok, close_handle h (if ok then unlock h f2 else f2))))"

definition clear_metadata_if_unlocked ::
  "(pyval \<Rightarrow> bool) \<Rightarrow> bool \<Rightarrow> int option \<Rightarrow> bool \<Rightarrow> lock_fs \<Rightarrow> bool \<times> lock_fs" where
  "clear_metadata_if_unlocked alive held expected require_stale f =
     (if held \<or> lf_path f = None then (False, f)
      else (let (h, f1) = open_lock f; (ok, f2) = try_lock h f1 in
        if \<not> ok then (False, close_handle h f2)
        else (let m = read_locked_metadata h f2 in
          if (case expected of None \<Rightarrow> False | Some p \<Rightarrow> meta_pid m \<noteq> Some (PyInt p)) \<or>
             (require_stale \<and> pid_is_live alive m)
          then (False, close_handle h (unlock h f2))
          else (True, close_handle h (unlock h (clear_locked_metadata h f2))))))"

text \<open>\<open>ProcessLockManager\<close>: the identity payload, its heartbeat and the acquisition that writes it.\<close>

definition create_base_metadata :: "string \<Rightarrow> int \<Rightarrow> lock_meta \<Rightarrow> lock_meta" where
  "create_base_metadata now pid extra =
     fold (\<lambda>(k, v). AList.update k v) extra
       [(''pid'', PyInt pid), (''started_at'', PyStr now), (''heartbeat_at'', PyStr now)]"

definition update_heartbeat :: "string \<Rightarrow> nat \<Rightarrow> lock_meta \<Rightarrow> lock_fs \<Rightarrow> lock_fs" where
  "update_heartbeat now h extra f =
     write_locked_metadata h
       (fold (\<lambda>(k, v). AList.update k v) extra
          (AList.update ''heartbeat_at'' (PyStr now) (read_locked_metadata h f))) f"

definition acquire_with_metadata :: "(pyval \<Rightarrow> bool) \<Rightarrow> lock_meta \<Rightarrow> lock_fs \<Rightarrow> nat option \<times> lock_fs" where
  "acquire_with_metadata alive m f =
     (case acquire alive False f of (None, f1) \<Rightarrow> (None, f1)
      | (Some h, f1) \<Rightarrow> (Some h, write_locked_metadata h m f1))"

section \<open>What an exclusive lock promises\<close>

text \<open>
  The contract its clients use: who holds the lock of a key, an attempt that succeeds only for a free
  or own lock, and a release by the holder only.
\<close>

locale exclusive_lock =
  fixes holder :: "'s \<Rightarrow> 'k \<Rightarrow> 'h option"
    and key :: "'s \<Rightarrow> 'h \<Rightarrow> 'k option"
    and attempt :: "'h \<Rightarrow> 's \<Rightarrow> bool \<times> 's"
    and drop_lock :: "'h \<Rightarrow> 's \<Rightarrow> 's"
  assumes attempt_holds: "key s h = Some k \<Longrightarrow> fst (attempt h s) \<Longrightarrow> holder (snd (attempt h s)) k = Some h"
    and attempt_free: "key s h = Some k \<Longrightarrow> fst (attempt h s) \<longleftrightarrow> holder s k \<in> {None, Some h}"
    and attempt_other: "key s h \<noteq> Some k \<Longrightarrow> holder (snd (attempt h s)) k = holder s k"
    and attempt_fails: "\<not> fst (attempt h s) \<Longrightarrow> snd (attempt h s) = s"
    and drop_own: "key s h = Some k \<Longrightarrow> holder (drop_lock h s) k \<noteq> Some h"
    and drop_others: "holder s k \<noteq> Some h \<Longrightarrow> holder (drop_lock h s) k = holder s k"
begin

text \<open>Nobody takes a held lock, and nobody loses one to another's release.\<close>

lemma held_stays_held:
  assumes "holder s k = Some h" "h' \<noteq> h"
  shows "holder (snd (attempt h' s)) k = Some h"
proof (cases "key s h' = Some k")
  case True
  with assms attempt_free [OF True] have "\<not> fst (attempt h' s)" by simp
  with assms(1) show ?thesis by (simp add: attempt_fails)
qed (simp add: assms(1) attempt_other)

lemma excluded: "holder s k = Some h \<Longrightarrow> h' \<noteq> h \<Longrightarrow> key s h' = Some k \<Longrightarrow> \<not> fst (attempt h' s)"
  by (simp add: attempt_free)

lemma drop_keeps: "holder s k = Some h \<Longrightarrow> h' \<noteq> h \<Longrightarrow> holder (drop_lock h' s) k = Some h"
  by (simp add: drop_others)

end

interpretation flock: exclusive_lock lf_flock lf_inode try_lock unlock
  by unfold_locales (auto simp: try_lock_def unlock_def split: option.splits if_splits)

interpretation closing: exclusive_lock lf_flock lf_inode try_lock close_handle
  by unfold_locales
    (auto simp: try_lock_def unlock_def close_handle_def Let_def split: option.splits if_splits)

section \<open>Frames\<close>

lemma text_frame [simp]:
  "lf_flock (write_text h x f) = lf_flock f" "lf_inode (write_text h x f) = lf_inode f"
  "lf_path (write_text h x f) = lf_path f" "lf_next_inode (write_text h x f) = lf_next_inode f"
  "lf_next_handle (write_text h x f) = lf_next_handle f"
  by (simp_all add: write_text_def split: option.split)

lemma lock_frame [simp]:
  "lf_inode (snd (try_lock h f)) = lf_inode f" "lf_path (snd (try_lock h f)) = lf_path f"
  "lf_next_inode (snd (try_lock h f)) = lf_next_inode f" "lf_next_handle (snd (try_lock h f)) = lf_next_handle f"
  "lf_text (snd (try_lock h f)) = lf_text f"
  by (simp_all add: try_lock_def split: option.split)

lemma close_frame [simp]:
  "lf_path (close_handle h f) = lf_path f" "lf_next_inode (close_handle h f) = lf_next_inode f"
  "lf_next_handle (close_handle h f) = lf_next_handle f" "lf_text (close_handle h f) = lf_text f"
  "lf_inode (close_handle h f) = (lf_inode f)(h := None)"
  by (simp_all add: close_handle_def unlock_def Let_def split: option.split)

lemma release_frame [simp]:
  "lf_path (release h b f) = lf_path f" "lf_next_inode (release h b f) = lf_next_inode f"
  "lf_next_handle (release h b f) = lf_next_handle f" "lf_inode (release h b f) = (lf_inode f)(h := None)"
  by (simp_all add: release_def clear_locked_metadata_def)

lemma release_flock: "lf_flock (release h b f) = lf_flock (close_handle h f)"
  by (simp add: release_def clear_locked_metadata_def close_handle_def unlock_def Let_def split: option.split)

text \<open>A probe leaves no trace beyond a file that now exists.\<close>

lemma probe_keeps_locks:
  assumes "\<And>i h. lf_flock f i = Some h \<Longrightarrow> h < lf_next_handle f" and "lf_path f = Some i"
  shows "lf_flock (snd (is_active held f)) = lf_flock f \<and> fst (is_active held f) = (held \<or> lf_flock f i \<noteq> None)"
proof -
  have "lf_flock f i \<noteq> Some (lf_next_handle f)" using assms(1) by fastforce
  with assms(2) show ?thesis
    by (cases "lf_flock f i") (auto simp: is_active_def open_lock_def try_lock_def unlock_def close_handle_def Let_def)
qed

end
