(* ===== verification/Runner_Guard.thy ===== *)
theory Runner_Guard
  imports Lock_Manager
begin

text \<open>
  The runner guard of \<open>litehive/state/locking.py\<close>, \<open>WorkspaceRunnerLock.guard\<close>, as every thread of every
  process runs it against one lock file: the registry of the process under its mutex, the open, the
  flock, the identity payload, the SQLite mirror, and the way back. One step is what the code does
  without another thread being able to come between, so the order of steps is any interleaving.
  Status probes and the scrub of leftover metadata take the same flock and run as steps too. A process
  can die at any point: its handles close, its registry is gone, file and mirror stay. The repair of
  stale tasks that a fresh owner runs between lock and stamp is the matter of \<open>Crash_Recovery\<close>. A
  heartbeat is one step: the runner stops and joins its heartbeat thread before it leaves the guard.
\<close>

section \<open>The system\<close>

type_synonym thread = "int \<times> nat"

datatype frame = Outer nat | Nested

datatype guard_pc =
    Resting | Checked | Opened nat | Locked nat | Stamped nat | Mirrored nat | Popped nat | Released
  | Probe_opened nat | Probing nat

record registry_entry =
  re_handle :: nat
  re_depth :: nat
  re_owner :: nat

record thread_state =
  ts_pc :: guard_pc
  ts_frames :: "frame list"

record guard_sys =
  gs_fs :: lock_fs
  gs_opener :: "nat \<Rightarrow> int"
  gs_registry :: "int \<Rightarrow> registry_entry option"
  gs_mirror :: "int option"
  gs_thread :: "thread \<Rightarrow> thread_state"

definition set_pc :: "thread \<Rightarrow> guard_pc \<Rightarrow> guard_sys \<Rightarrow> guard_sys" where
  "set_pc x c g = g \<lparr>gs_thread := (gs_thread g)(x := (gs_thread g x) \<lparr>ts_pc := c\<rparr>)\<rparr>"

definition set_frames :: "thread \<Rightarrow> frame list \<Rightarrow> guard_sys \<Rightarrow> guard_sys" where
  "set_frames x fs g = g \<lparr>gs_thread := (gs_thread g)(x := (gs_thread g x) \<lparr>ts_frames := fs\<rparr>)\<rparr>"

definition set_registry :: "int \<Rightarrow> registry_entry option \<Rightarrow> guard_sys \<Rightarrow> guard_sys" where
  "set_registry p e g = g \<lparr>gs_registry := (gs_registry g)(p := e)\<rparr>"

abbreviation pc_of :: "guard_sys \<Rightarrow> thread \<Rightarrow> guard_pc" where
  "pc_of g x \<equiv> ts_pc (gs_thread g x)"

abbreviation frames_of :: "guard_sys \<Rightarrow> thread \<Rightarrow> frame list" where
  "frames_of g x \<equiv> ts_frames (gs_thread g x)"

text \<open>The payload of a fresh guard: \<open>RunnerStatusState\<close> as JSON.\<close>

definition runner_payload :: "string \<Rightarrow> string \<Rightarrow> string \<Rightarrow> int \<Rightarrow> lock_meta" where
  "runner_payload now workspace command pid =
     [(''active_task_id'', PyNone), (''command'', PyStr command), (''heartbeat_at'', PyStr now),
      (''pid'', PyInt pid), (''started_at'', PyStr now), (''status'', PyStr ''running''),
      (''workspace'', PyStr workspace)]"

text \<open>A heartbeat: \<open>touch\<close> rewrites the payload on the registered handle, and the mirror.\<close>

definition touched_payload :: "string \<Rightarrow> pyval option \<Rightarrow> lock_meta \<Rightarrow> lock_meta" where
  "touched_payload now active m =
     (let m1 = AList.update ''status'' (PyStr ''running'') (AList.update ''heartbeat_at'' (PyStr now) m)
      in case active of None \<Rightarrow> m1 | Some v \<Rightarrow> AList.update ''active_task_id'' v m1)"

text \<open>The kernel's part of a process death.\<close>

definition kill_process :: "int \<Rightarrow> guard_sys \<Rightarrow> guard_sys" where
  "kill_process p g =
     g \<lparr>gs_fs := (gs_fs g)
          \<lparr>lf_flock := (\<lambda>i. case lf_flock (gs_fs g) i of None \<Rightarrow> None
             | Some h \<Rightarrow> if gs_opener g h = p then None else Some h),
           lf_inode := (\<lambda>h. if gs_opener g h = p then None else lf_inode (gs_fs g) h)\<rparr>,
        gs_registry := (gs_registry g)(p := None),
        gs_thread := (\<lambda>x. if fst x = p then \<lparr>ts_pc = Resting, ts_frames = []\<rparr> else gs_thread g x)\<rparr>"

definition guard_open :: "thread \<Rightarrow> (nat \<Rightarrow> guard_pc) \<Rightarrow> guard_sys \<Rightarrow> guard_sys" where
  "guard_open x c g =
     (let (h, f) = open_lock (gs_fs g)
      in set_pc x (c h) (g \<lparr>gs_fs := f, gs_opener := (gs_opener g)(h := fst x)\<rparr>))"

inductive guard_step :: "guard_sys \<Rightarrow> guard_sys \<Rightarrow> bool" where
  reenter: "\<lbrakk>pc_of g (p, i) = Resting; gs_registry g p = Some e; re_owner e = i\<rbrakk> \<Longrightarrow>
    guard_step g (set_frames (p, i) (Nested # frames_of g (p, i))
      (set_registry p (Some (e \<lparr>re_depth := re_depth e + 1\<rparr>)) g))"
| check: "\<lbrakk>pc_of g (p, i) = Resting; gs_registry g p = None\<rbrakk> \<Longrightarrow> guard_step g (set_pc (p, i) Checked g)"
| open_file: "pc_of g x = Checked \<Longrightarrow> guard_step g (guard_open x Opened g)"
| lock_taken: "\<lbrakk>pc_of g x = Opened h; fst (try_lock h (gs_fs g))\<rbrakk> \<Longrightarrow>
    guard_step g (set_pc x (Locked h) (g \<lparr>gs_fs := snd (try_lock h (gs_fs g))\<rparr>))"
| lock_busy: "\<lbrakk>pc_of g x = Opened h; \<not> fst (try_lock h (gs_fs g))\<rbrakk> \<Longrightarrow>
    guard_step g (set_pc x Resting (g \<lparr>gs_fs := close_handle h (gs_fs g)\<rparr>))"
| stamp: "pc_of g (p, i) = Locked h \<Longrightarrow>
    guard_step g (set_pc (p, i) (Stamped h)
      (g \<lparr>gs_fs := write_locked_metadata h (runner_payload now workspace command p) (gs_fs g)\<rparr>))"
| mirror: "pc_of g (p, i) = Stamped h \<Longrightarrow> guard_step g (set_pc (p, i) (Mirrored h) (g \<lparr>gs_mirror := Some p\<rparr>))"
| enter: "pc_of g (p, i) = Mirrored h \<Longrightarrow>
    guard_step g (set_pc (p, i) Resting (set_frames (p, i) [Outer h]
      (set_registry p (Some \<lparr>re_handle = h, re_depth = 1, re_owner = i\<rparr>) g)))"
| give_up: "pc_of g x \<in> {Locked h, Stamped h, Mirrored h} \<Longrightarrow>
    guard_step g (set_pc x Resting (g \<lparr>gs_fs := close_handle h (gs_fs g)\<rparr>))"
| leave_nested: "\<lbrakk>pc_of g (p, i) = Resting; frames_of g (p, i) = Nested # fs; gs_registry g p = Some e; re_depth e > 1\<rbrakk> \<Longrightarrow>
    guard_step g (set_frames (p, i) fs (set_registry p (Some (e \<lparr>re_depth := re_depth e - 1\<rparr>)) g))"
| leave_nested_last: "\<lbrakk>pc_of g (p, i) = Resting; frames_of g (p, i) = Nested # fs; gs_registry g p = Some e; re_depth e \<le> 1\<rbrakk> \<Longrightarrow>
    guard_step g (set_pc (p, i) (Popped (re_handle e)) (set_frames (p, i) fs (set_registry p None g)))"
| leave_outer: "\<lbrakk>pc_of g (p, i) = Resting; frames_of g (p, i) = Outer h # fs\<rbrakk> \<Longrightarrow>
    guard_step g (set_pc (p, i) (Popped h) (set_frames (p, i) fs (set_registry p None g)))"
| let_go: "pc_of g x = Popped h \<Longrightarrow>
    guard_step g (set_pc x Released (g \<lparr>gs_fs := release h True (gs_fs g)\<rparr>))"
| clear_mirror: "pc_of g x = Released \<Longrightarrow> guard_step g (set_pc x Resting (g \<lparr>gs_mirror := None\<rparr>))"
| heartbeat: "gs_registry g p = Some e \<Longrightarrow>
    guard_step g (g \<lparr>gs_mirror := Some p, gs_fs := write_locked_metadata (re_handle e)
      (touched_payload now active (read_locked_metadata (re_handle e) (gs_fs g))) (gs_fs g)\<rparr>)"
| probe: "\<lbrakk>pc_of g x = Resting; frames_of g x = []\<rbrakk> \<Longrightarrow> guard_step g (guard_open x Probe_opened g)"
| probe_free: "\<lbrakk>pc_of g x = Probe_opened h; fst (try_lock h (gs_fs g))\<rbrakk> \<Longrightarrow>
    guard_step g (set_pc x (Probing h) (g \<lparr>gs_fs := snd (try_lock h (gs_fs g))\<rparr>))"
| probe_busy: "\<lbrakk>pc_of g x = Probe_opened h; \<not> fst (try_lock h (gs_fs g))\<rbrakk> \<Longrightarrow>
    guard_step g (set_pc x Resting (g \<lparr>gs_fs := close_handle h (gs_fs g)\<rparr>))"
| probe_done: "pc_of g x = Probing h \<Longrightarrow>
    guard_step g (set_pc x Resting (g \<lparr>gs_fs := close_handle h (gs_fs g)\<rparr>))"
| scrub: "pc_of g x = Probing h \<Longrightarrow>
    guard_step g (set_pc x Released (g \<lparr>gs_fs := close_handle h (clear_locked_metadata h (gs_fs g))\<rparr>))"
| die: "guard_step g (kill_process p g)"

inductive guard_runs :: "guard_sys \<Rightarrow> guard_sys \<Rightarrow> bool" for g0 where
  start: "guard_runs g0 g0"
| run: "guard_runs g0 g \<Longrightarrow> guard_step g g' \<Longrightarrow> guard_runs g0 g'"

text \<open>Nobody has the file open yet; its text and the mirror may be leftovers.\<close>

definition unlocked :: "guard_sys \<Rightarrow> bool" where
  "unlocked g = ((\<forall>i. lf_flock (gs_fs g) i = None) \<and> (\<forall>h. lf_inode (gs_fs g) h = None) \<and>
     (\<forall>p. gs_registry g p = None) \<and> (\<forall>x. gs_thread g x = \<lparr>ts_pc = Resting, ts_frames = []\<rparr>))"

definition inside :: "guard_sys \<Rightarrow> thread \<Rightarrow> bool" where
  "inside g x = (frames_of g x \<noteq> [])"

section \<open>The invariant\<close>

fun pc_handle :: "guard_pc \<Rightarrow> nat option" where
  "pc_handle (Opened h) = Some h" | "pc_handle (Locked h) = Some h" | "pc_handle (Stamped h) = Some h"
| "pc_handle (Mirrored h) = Some h" | "pc_handle (Popped h) = Some h" | "pc_handle (Probing h) = Some h"
| "pc_handle (Probe_opened h) = Some h"
| "pc_handle _ = None"

definition owns :: "thread_state \<Rightarrow> nat \<Rightarrow> bool" where
  "owns t h = (pc_handle (ts_pc t) = Some h \<or> Outer h \<in> set (ts_frames t))"

definition locks :: "thread_state \<Rightarrow> nat \<Rightarrow> bool" where
  "locks t h = (owns t h \<and> ts_pc t \<noteq> Opened h \<and> ts_pc t \<noteq> Probe_opened h)"

definition stamped :: "thread_state \<Rightarrow> nat \<Rightarrow> bool" where
  "stamped t h = (ts_pc t = Stamped h \<or> ts_pc t = Mirrored h \<or> Outer h \<in> set (ts_frames t))"

definition files_ok :: "lock_fs \<Rightarrow> bool" where
  "files_ok f = ((\<forall>h i. lf_inode f h = Some i \<longrightarrow> lf_path f = Some i \<and> h < lf_next_handle f) \<and>
     (\<forall>i h. lf_flock f i = Some h \<longrightarrow> lf_inode f h = Some i))"

definition handles_ok :: "guard_sys \<Rightarrow> bool" where
  "handles_ok g =
     ((\<forall>x h. owns (gs_thread g x) h \<longrightarrow> lf_inode (gs_fs g) h \<noteq> None \<and> gs_opener g h = fst x) \<and>
      (\<forall>x y h. owns (gs_thread g x) h \<longrightarrow> owns (gs_thread g y) h \<longrightarrow> x = y) \<and>
      (\<forall>x h. locks (gs_thread g x) h \<longrightarrow> (\<exists>i. lf_flock (gs_fs g) i = Some h)))"

definition registry_ok :: "guard_sys \<Rightarrow> bool" where
  "registry_ok g =
     ((\<forall>p e. gs_registry g p = Some e \<longrightarrow> re_depth e \<ge> 1 \<and>
         frames_of g (p, re_owner e) = replicate (re_depth e - 1) Nested @ [Outer (re_handle e)]) \<and>
      (\<forall>x. frames_of g x \<noteq> [] \<longrightarrow> pc_of g x = Resting \<and>
         (\<exists>e. gs_registry g (fst x) = Some e \<and> re_owner e = snd x)))"

definition payload_ok :: "guard_sys \<Rightarrow> bool" where
  "payload_ok g = (\<forall>x h i. stamped (gs_thread g x) h \<longrightarrow> lf_inode (gs_fs g) h = Some i \<longrightarrow>
     (\<exists>m. lf_text (gs_fs g) i = Json (PyDict m) \<and> meta_pid m = Some (PyInt (fst x))))"

lemmas guard_moves = set_pc_def set_frames_def set_registry_def guard_open_def kill_process_def

lemma files_path: "files_ok f \<Longrightarrow> lf_inode f h = Some i \<Longrightarrow> lf_path f = Some i"
  and files_new: "files_ok f \<Longrightarrow> lf_inode f h = Some i \<Longrightarrow> h < lf_next_handle f"
  and files_flock: "files_ok f \<Longrightarrow> lf_flock f i = Some h \<Longrightarrow> lf_inode f h = Some i"
  by (simp_all add: files_ok_def)

lemma owned_open: "handles_ok g \<Longrightarrow> owns (gs_thread g x) h \<Longrightarrow> \<exists>i. lf_inode (gs_fs g) h = Some i"
  and owned_by: "handles_ok g \<Longrightarrow> owns (gs_thread g x) h \<Longrightarrow> gs_opener g h = fst x"
  and owned_once: "handles_ok g \<Longrightarrow> owns (gs_thread g x) h \<Longrightarrow> owns (gs_thread g y) h \<Longrightarrow> x = y"
  and locked_file: "handles_ok g \<Longrightarrow> locks (gs_thread g x) h \<Longrightarrow> \<exists>i. lf_flock (gs_fs g) i = Some h"
  unfolding handles_ok_def by (cases x; blast)+

lemma open_files_ok: "files_ok f \<Longrightarrow> files_ok (snd (open_lock f))"
  by (fastforce simp: files_ok_def open_lock_def Let_def split: option.splits if_splits)

lemma try_files_ok: "files_ok f \<Longrightarrow> files_ok (snd (try_lock h f))"
  by (auto simp: files_ok_def try_lock_def split: option.splits)

lemma close_files_ok:
  assumes "files_ok f"
  shows "files_ok (close_handle h f)"
proof -
  have "lf_flock (close_handle h f) i = (if lf_flock f i = Some h then None else lf_flock f i)" for i
    using files_flock [OF assms, of i h] by (auto simp: close_handle_def unlock_def Let_def split: option.split)
  then show ?thesis using assms by (auto simp: files_ok_def split: if_splits)
qed

lemma write_files_ok: "files_ok (write_text h x f) = files_ok f"
  by (simp add: files_ok_def)

lemma release_files_ok: "files_ok f \<Longrightarrow> files_ok (release h b f)"
  by (simp add: release_def close_files_ok clear_locked_metadata_def write_files_ok)

lemma step_files_ok: "guard_step g g' \<Longrightarrow> files_ok (gs_fs g) \<Longrightarrow> files_ok (gs_fs g')"
proof (induction rule: guard_step.induct)
  case (die g p)
  then show ?case by (auto simp: kill_process_def files_ok_def split: option.splits if_splits)
qed (auto simp: guard_moves Let_def write_locked_metadata_def clear_locked_metadata_def write_files_ok
    split: prod.splits intro: close_files_ok release_files_ok dest: open_files_ok try_files_ok)

text \<open>Two threads never hold the flock together.\<close>

lemma exclusion:
  assumes "files_ok (gs_fs g)" "handles_ok g" "locks (gs_thread g x) h" "locks (gs_thread g y) h'"
  shows "x = y \<and> h = h'"
proof -
  from assms locked_file obtain i j where l: "lf_flock (gs_fs g) i = Some h" "lf_flock (gs_fs g) j = Some h'"
    by blast
  then have "lf_path (gs_fs g) = Some i" "lf_path (gs_fs g) = Some j"
    using files_path files_flock assms(1) by blast+
  with l have "h = h'" by simp
  with assms(2-4) owned_once show ?thesis unfolding locks_def by blast
qed

lemma busy_no_frames: "registry_ok g \<Longrightarrow> pc_of g x \<noteq> Resting \<Longrightarrow> frames_of g x = []"
  unfolding registry_ok_def by (cases x) blast

lemma framed:
  assumes "registry_ok g" "frames_of g (p, i) \<noteq> []"
  obtains e where "gs_registry g p = Some e" "re_owner e = i" "re_depth e \<ge> 1"
    "frames_of g (p, i) = replicate (re_depth e - 1) Nested @ [Outer (re_handle e)]"
proof -
  from assms obtain e where e: "gs_registry g p = Some e" "re_owner e = i"
    unfolding registry_ok_def by (metis fst_conv snd_conv)
  with assms(1) have "re_depth e \<ge> 1 \<and> frames_of g (p, re_owner e) = replicate (re_depth e - 1) Nested @ [Outer (re_handle e)]"
    unfolding registry_ok_def by blast
  with e that show thesis by blast
qed

lemma registered:
  assumes "registry_ok g" "gs_registry g p = Some e"
  shows "re_depth e \<ge> 1" "pc_of g (p, re_owner e) = Resting"
    "frames_of g (p, re_owner e) = replicate (re_depth e - 1) Nested @ [Outer (re_handle e)]"
proof -
  show f: "re_depth e \<ge> 1" "frames_of g (p, re_owner e) = replicate (re_depth e - 1) Nested @ [Outer (re_handle e)]"
    using assms unfolding registry_ok_def by blast+
  then have "frames_of g (p, re_owner e) \<noteq> []" by simp
  then show "pc_of g (p, re_owner e) = Resting" using assms(1) busy_no_frames by blast
qed

lemma one_framed:
  "registry_ok g \<Longrightarrow> gs_registry g p = Some e \<Longrightarrow> j \<noteq> re_owner e \<Longrightarrow> frames_of g (p, j) = []"
  by (rule ccontr) (auto elim: framed)

lemma unregistered_no_frames: "registry_ok g \<Longrightarrow> gs_registry g p = None \<Longrightarrow> frames_of g (p, j) = []"
  by (rule ccontr) (auto elim: framed)

text \<open>A step that changes the registry of one process and one of its threads.\<close>

lemma registry_change:
  assumes "registry_ok g" and "\<And>j. j \<noteq> i \<Longrightarrow> frames_of g (p, j) = []"
    and "gs_registry g' = (gs_registry g)(p := E)" and "\<And>y. y \<noteq> (p, i) \<Longrightarrow> gs_thread g' y = gs_thread g y"
    and "case E of None \<Rightarrow> frames_of g' (p, i) = []
      | Some e \<Rightarrow> re_owner e = i \<and> re_depth e \<ge> 1 \<and> pc_of g' (p, i) = Resting \<and>
          frames_of g' (p, i) = replicate (re_depth e - 1) Nested @ [Outer (re_handle e)]"
  shows "registry_ok g'"
  unfolding registry_ok_def
proof (intro conjI allI impI)
  fix q e assume e: "gs_registry g' q = Some e"
  show "re_depth e \<ge> 1" "frames_of g' (q, re_owner e) = replicate (re_depth e - 1) Nested @ [Outer (re_handle e)]"
    using e assms(3-5) registered [OF assms(1), of q e] by (cases "q = p"; force)+
next
  fix y assume f: "frames_of g' y \<noteq> []"
  obtain q j where y: "y = (q, j)" by (cases y)
  have "pc_of g' (q, j) = Resting \<and> (\<exists>e. gs_registry g' q = Some e \<and> re_owner e = j)"
  proof (cases "q = p \<and> j = i")
    case True
    with f assms(3,5) show ?thesis by (cases E) (auto simp: y)
  next
    case False
    then have same: "gs_thread g' (q, j) = gs_thread g (q, j)" using assms(4) by simp
    with f have "frames_of g (q, j) \<noteq> []" by (simp add: y)
    moreover from this assms(2) False have "q \<noteq> p" by auto
    ultimately show ?thesis
      using same assms(3) busy_no_frames [OF assms(1), of "(q, j)"] framed [OF assms(1), of q j] by (metis fun_upd_other)
  qed
  then show "pc_of g' y = Resting" "\<exists>e. gs_registry g' (fst y) = Some e \<and> re_owner e = snd y" by (simp_all add: y)
qed

text \<open>A step of a thread outside the guard that leaves the registry alone.\<close>

lemma registry_same:
  assumes "registry_ok g" "frames_of g (p, i) = []" "gs_registry g' = gs_registry g"
    and "gs_thread g' = (gs_thread g)((p, i) := (gs_thread g (p, i)) \<lparr>ts_pc := c\<rparr>)"
  shows "registry_ok g'"
proof -
  have fr: "frames_of g' y = frames_of g y" for y using assms(4) by simp
  have pc: "frames_of g y \<noteq> [] \<Longrightarrow> pc_of g' y = pc_of g y" for y using assms(2,4) by auto
  show ?thesis
    unfolding registry_ok_def fr assms(3)
  proof (intro conjI allI impI)
    fix y assume f: "frames_of g y \<noteq> []"
    then show "pc_of g' y = Resting" using pc busy_no_frames [OF assms(1)] by metis
    show "\<exists>e. gs_registry g (fst y) = Some e \<and> re_owner e = snd y"
      using f framed [OF assms(1), of "fst y" "snd y"] by auto
  qed (use registered [OF assms(1)] in blast)+
qed

lemma set_pc_ok:
  assumes "registry_ok g" "frames_of g x = []" "gs_registry g1 = gs_registry g" "gs_thread g1 = gs_thread g"
  shows "registry_ok (set_pc x c g1)"
  using registry_same [OF assms(1), of "fst x" "snd x" "set_pc x c g1"] assms(2-4) by (simp add: set_pc_def)

lemma guard_open_ok: "registry_ok g \<Longrightarrow> frames_of g x = [] \<Longrightarrow> registry_ok (guard_open x c g)"
  by (simp add: guard_open_def set_pc_ok split: prod.split)

lemma step_registry_ok:
  assumes "guard_step g g'" and ok: "registry_ok g" "handles_ok g" "files_ok (gs_fs g)"
  shows "registry_ok g'"
  using assms(1)
proof cases
  case (enter p i h)
  have "gs_registry g p = None"
  proof (rule ccontr)
    assume "gs_registry g p \<noteq> None"
    then obtain e where e: "gs_registry g p = Some e" by auto
    have "locks (gs_thread g (p, re_owner e)) (re_handle e)"
      using registered [OF ok(1) e] by (simp add: locks_def owns_def)
    moreover have "locks (gs_thread g (p, i)) h" using enter(2) by (simp add: locks_def owns_def)
    ultimately have "re_owner e = i" using exclusion ok(2,3) by blast
    with registered(2) [OF ok(1) e] enter(2) show False by simp
  qed
  then show ?thesis
    by (intro registry_change [OF ok(1), of i p g' "Some \<lparr>re_handle = h, re_depth = 1, re_owner = i\<rparr>"])
      (simp_all add: enter guard_moves unregistered_no_frames [OF ok(1)])
next
  case (reenter p i e)
  have d: "re_depth e = Suc (re_depth e - 1)" using registered(1) [OF ok(1) reenter(3)] by simp
  show ?thesis
    using reenter registered [OF ok(1) reenter(3)] d
    by (intro registry_change [OF ok(1), of i p g' "Some (e \<lparr>re_depth := re_depth e + 1\<rparr>)"])
      (simp_all add: guard_moves one_framed [OF ok(1) reenter(3)], metis replicate_Suc append_Cons)
next
  case (leave_nested p i fs e)
  from leave_nested(3) have "frames_of g (p, i) \<noteq> []" by simp
  then have o: "re_owner e = i" using one_framed [OF ok(1) leave_nested(4), of i] by blast
  have d: "re_depth e = Suc (Suc (re_depth e - 2))" using leave_nested(5) by simp
  define n where "n = re_depth e - 2"
  note d = d [folded n_def]
  have "fs = replicate n Nested @ [Outer (re_handle e)]"
    using registered(3) [OF ok(1) leave_nested(4)] leave_nested(3) by (simp add: o d)
  note n = o d this
  show ?thesis
    using leave_nested n one_framed [OF ok(1) leave_nested(4)]
    by (intro registry_change [OF ok(1), of i p g' "Some (e \<lparr>re_depth := re_depth e - 1\<rparr>)"]) (simp_all add: guard_moves)
next
  case (leave_nested_last p i fs e)
  then have False using framed [OF ok(1), of p i] by auto
  then show ?thesis ..
next
  case (leave_outer p i h fs)
  then obtain e where e: "gs_registry g p = Some e" "re_owner e = i"
    "frames_of g (p, i) = replicate (re_depth e - 1) Nested @ [Outer (re_handle e)]"
    using framed [OF ok(1), of p i] by auto
  then have "fs = []" using leave_outer(3) by (cases "re_depth e - 1") auto
  then show ?thesis using leave_outer e(2) one_framed [OF ok(1) e(1)]
    by (intro registry_change [OF ok(1), of i p g' None]) (simp_all add: guard_moves)
next
  case (die p)
  with ok(1) show ?thesis by (auto simp: kill_process_def registry_ok_def)
next
  case (check p i)
  then show ?thesis using unregistered_no_frames [OF ok(1)] by (simp add: set_pc_ok [OF ok(1)])
next
  case (heartbeat p e)
  with ok(1) show ?thesis by (simp add: registry_ok_def)
qed (auto intro!: set_pc_ok [OF ok(1)] guard_open_ok [OF ok(1)] simp: busy_no_frames [OF ok(1)])

text \<open>A step of one thread: what it still owns and locks must be backed, and the others must not notice.\<close>

lemma handles_change:
  assumes ok: "handles_ok g" and others: "\<And>y. y \<noteq> x \<Longrightarrow> gs_thread g' y = gs_thread g y"
    and own: "\<And>h. owns (gs_thread g' x) h \<Longrightarrow> lf_inode (gs_fs g') h \<noteq> None \<and> gs_opener g' h = fst x"
    and alone: "\<And>y h. owns (gs_thread g' x) h \<Longrightarrow> y \<noteq> x \<Longrightarrow> \<not> owns (gs_thread g y) h"
    and lock: "\<And>h. locks (gs_thread g' x) h \<Longrightarrow> \<exists>i. lf_flock (gs_fs g') i = Some h"
    and rest: "\<And>y h. y \<noteq> x \<Longrightarrow> owns (gs_thread g y) h \<Longrightarrow> lf_inode (gs_fs g') h \<noteq> None \<and> gs_opener g' h = fst y"
    and rest_lock: "\<And>y h i. y \<noteq> x \<Longrightarrow> locks (gs_thread g y) h \<Longrightarrow> lf_flock (gs_fs g) i = Some h \<Longrightarrow>
      lf_flock (gs_fs g') i = Some h"
  shows "handles_ok g'"
  unfolding handles_ok_def
proof (intro conjI allI impI)
  fix y h assume o: "owns (gs_thread g' y) h"
  show "lf_inode (gs_fs g') h \<noteq> None" "gs_opener g' h = fst y"
    using o own [of h] rest [of y h] others [of y] by (cases "y = x"; simp)+
next
  fix y z h assume o: "owns (gs_thread g' y) h" "owns (gs_thread g' z) h"
  have once: "owns (gs_thread g' x) h \<Longrightarrow> w \<noteq> x \<Longrightarrow> \<not> owns (gs_thread g' w) h" for w
    using alone [of h w] others [of w] by simp
  show "y = z"
  proof (cases "y = x \<or> z = x")
    case False
    with o show ?thesis using owned_once [OF ok, of y h z] by (simp add: others)
  next
    case True
    then show ?thesis
    proof
      assume "y = x" then show ?thesis using o once [of z] by (cases "z = x") simp_all
    next
      assume "z = x" then show ?thesis using o once [of y] by (cases "y = x") simp_all
    qed
  qed
next
  fix y h assume l: "locks (gs_thread g' y) h"
  show "\<exists>i. lf_flock (gs_fs g') i = Some h"
  proof (cases "y = x")
    case False
    with l have "locks (gs_thread g y) h" by (simp add: others)
    with False locked_file [OF ok] rest_lock show ?thesis by blast
  qed (use l lock in simp)
qed

lemma closed_flock: "lf_flock f i = Some h \<Longrightarrow> h \<noteq> h' \<Longrightarrow> lf_flock (close_handle h' f) i = Some h"
  by (rule closing.drop_keeps) auto

lemma locks_owns: "locks t h \<Longrightarrow> owns t h"
  by (simp add: locks_def)

text \<open>A handle of one thread is not another's.\<close>

lemma not_others:
  "handles_ok g \<Longrightarrow> owns (gs_thread g x) h \<Longrightarrow> y \<noteq> x \<Longrightarrow> owns (gs_thread g y) h' \<Longrightarrow> h' \<noteq> h"
  using owned_once by blast

text \<open>A step that gives up a handle.\<close>

lemma handles_close:
  assumes ok: "handles_ok g" and own: "owns (gs_thread g x) h" and "\<And>y. y \<noteq> x \<Longrightarrow> gs_thread g' y = gs_thread g y"
    and gone: "\<And>h'. \<not> owns (gs_thread g' x) h'" and "gs_opener g' = gs_opener g"
    and "lf_inode (gs_fs g') = (lf_inode (gs_fs g))(h := None)" and "lf_flock (gs_fs g') = lf_flock (close_handle h (gs_fs g))"
  shows "handles_ok g'"
proof (rule handles_change [OF ok, of x])
  fix y h' assume y: "y \<noteq> x" "owns (gs_thread g y) h'"
  note d = not_others [OF ok own y]
  show "lf_inode (gs_fs g') h' \<noteq> None \<and> gs_opener g' h' = fst y"
    using owned_open [OF ok y(2)] owned_by [OF ok y(2)] d by (simp add: assms(5,6))
next
  fix y h' i assume y: "y \<noteq> x" "locks (gs_thread g y) h'" "lf_flock (gs_fs g) i = Some h'"
  with not_others [OF ok own y(1) locks_owns [OF y(2)]] show "lf_flock (gs_fs g') i = Some h'"
    by (simp add: assms(7) closed_flock)
qed (use gone locks_owns in \<open>blast | simp add: assms(3)\<close>)+

text \<open>A step that keeps the files and acquires nothing.\<close>

lemma handles_keep:
  assumes ok: "handles_ok g" and "\<And>y. y \<noteq> x \<Longrightarrow> gs_thread g' y = gs_thread g y"
    and "\<And>h. owns (gs_thread g' x) h \<Longrightarrow> owns (gs_thread g x) h"
    and "\<And>h. locks (gs_thread g' x) h \<Longrightarrow> locks (gs_thread g x) h" and "gs_opener g' = gs_opener g"
    and "lf_inode (gs_fs g') = lf_inode (gs_fs g)" and "lf_flock (gs_fs g') = lf_flock (gs_fs g)"
  shows "handles_ok g'"
proof (rule handles_change [OF ok, of x])
  fix h assume "owns (gs_thread g' x) h"
  then have o: "owns (gs_thread g x) h" by (rule assms(3))
  from owned_open [OF ok o] owned_by [OF ok o]
  show "lf_inode (gs_fs g') h \<noteq> None \<and> gs_opener g' h = fst x" by (simp add: assms(5,6))
  fix y assume "y \<noteq> x"
  from not_others [OF ok o this] show "\<not> owns (gs_thread g y) h" by blast
next
  fix h assume "locks (gs_thread g' x) h"
  then have "locks (gs_thread g x) h" by (rule assms(4))
  from locked_file [OF ok this] show "\<exists>i. lf_flock (gs_fs g') i = Some h" by (simp add: assms(7))
next
  fix y h assume "owns (gs_thread g y) h"
  from owned_open [OF ok this] owned_by [OF ok this]
  show "lf_inode (gs_fs g') h \<noteq> None \<and> gs_opener g' h = fst y" by (simp add: assms(5,6))
qed (simp_all add: assms(2,7))

text \<open>A successful attempt.\<close>

lemma handles_lock:
  assumes ok: "handles_ok g" and h: "owns (gs_thread g x) h" "fst (try_lock h (gs_fs g))"
    and others: "\<And>y. y \<noteq> x \<Longrightarrow> gs_thread g' y = gs_thread g y"
    and only: "\<And>h'. owns (gs_thread g' x) h' \<Longrightarrow> h' = h"
    and op: "gs_opener g' = gs_opener g" and fs: "gs_fs g' = snd (try_lock h (gs_fs g))"
  shows "handles_ok g'"
proof (rule handles_change [OF ok, of x])
  fix h' assume "owns (gs_thread g' x) h'"
  then have e: "h' = h" by (rule only)
  from owned_open [OF ok h(1)] owned_by [OF ok h(1)] e
  show "lf_inode (gs_fs g') h' \<noteq> None \<and> gs_opener g' h' = fst x" by (simp add: fs op)
  fix y assume "y \<noteq> x"
  from not_others [OF ok h(1) this] e show "\<not> owns (gs_thread g y) h'" by blast
next
  fix h' assume "locks (gs_thread g' x) h'"
  then have e: "h' = h" by (intro only locks_owns)
  obtain i where "lf_inode (gs_fs g) h = Some i" using owned_open [OF ok h(1)] by blast
  from flock.attempt_holds [OF this h(2)] e show "\<exists>i. lf_flock (gs_fs g') i = Some h'" by (auto simp: fs)
next
  fix y h' i assume y: "y \<noteq> x" "locks (gs_thread g y) h'" "lf_flock (gs_fs g) i = Some h'"
  with not_others [OF ok h(1) y(1) locks_owns [OF y(2)]] show "lf_flock (gs_fs g') i = Some h'"
    by (simp add: fs flock.held_stays_held)
next
  fix y h' assume "owns (gs_thread g y) h'"
  from owned_open [OF ok this] owned_by [OF ok this]
  show "lf_inode (gs_fs g') h' \<noteq> None \<and> gs_opener g' h' = fst y" by (simp add: fs op)
qed (simp add: others)

text \<open>A fresh handle.\<close>

lemma opened:
  assumes "files_ok f" "open_lock f = (h, f1)"
  shows "h = lf_next_handle f" "\<exists>i. lf_inode f1 = (lf_inode f)(h := Some i)" "lf_flock f1 = lf_flock f"
    "lf_path f = Some i \<Longrightarrow> lf_text f1 = lf_text f"
proof -
  have "lf_flock f i = None" if "lf_path f = None" for i
    using that files_path [OF assms(1)] files_flock [OF assms(1)] by (cases "lf_flock f i") fastforce+
  then have "lf_path f = None \<Longrightarrow> (lf_flock f)(i := None) = lf_flock f" for i by auto
  then show "h = lf_next_handle f" "\<exists>i. lf_inode f1 = (lf_inode f)(h := Some i)" "lf_flock f1 = lf_flock f"
    "lf_path f = Some i \<Longrightarrow> lf_text f1 = lf_text f"
    using assms(2) by (auto simp: open_lock_def Let_def split: option.splits)
qed

lemma handles_open:
  assumes ok: "handles_ok g" "files_ok (gs_fs g)" and nf: "frames_of g x = []"
    and c: "\<And>h. c h = Opened h \<or> c h = Probe_opened h"
  shows "handles_ok (guard_open x c g)"
proof -
  obtain h f where o: "open_lock (gs_fs g) = (h, f)" by (cases "open_lock (gs_fs g)")
  note f = opened [OF ok(2) o]
  obtain i where i: "lf_inode f = (lf_inode (gs_fs g))(h := Some i)" using f(2) by blast
  let ?g = "set_pc x (c h) (g \<lparr>gs_fs := f, gs_opener := (gs_opener g)(h := fst x)\<rparr>)"
  have fresh: "h' \<noteq> h" if "owns (gs_thread g y) h'" for y h'
    using owned_open [OF ok(1) that] files_new [OF ok(2), of h'] f(1) by auto
  have own: "owns (gs_thread ?g x) h' \<Longrightarrow> h' = h" for h'
    using nf c [of h] by (auto simp: owns_def set_pc_def)
  have none: "\<not> locks (gs_thread ?g x) h'" for h'
    using own [OF locks_owns, of h'] c [of h] by (auto simp: locks_def set_pc_def)
  have "handles_ok ?g"
  proof (rule handles_change [OF ok(1), of x])
    fix h' assume "owns (gs_thread ?g x) h'"
    then have e: "h' = h" by (rule own)
    then show "lf_inode (gs_fs ?g) h' \<noteq> None \<and> gs_opener ?g h' = fst x" by (simp add: set_pc_def i)
    fix y show "\<not> owns (gs_thread g y) h'" using fresh e by blast
  next
    fix h' assume "locks (gs_thread ?g x) h'"
    with none show "\<exists>i. lf_flock (gs_fs ?g) i = Some h'" by blast
  next
    fix y h' assume y: "owns (gs_thread g y) h'"
    from owned_open [OF ok(1) y] owned_by [OF ok(1) y] fresh [OF y]
    show "lf_inode (gs_fs ?g) h' \<noteq> None \<and> gs_opener ?g h' = fst y" by (simp add: set_pc_def i)
  qed (simp_all add: set_pc_def f(3))
  then show ?thesis by (simp add: guard_open_def o)
qed

text \<open>The same, for a step that only moves the program counter.\<close>

lemma pc_owns: "pc_handle (ts_pc t) = Some h \<Longrightarrow> owns t h"
  by (simp add: owns_def)

lemma close_step:
  assumes "handles_ok g" "frames_of g x = []" "pc_handle (pc_of g x) = Some h" "pc_handle c = None"
    and "gs_thread g1 = gs_thread g" "gs_opener g1 = gs_opener g"
    and "lf_inode (gs_fs g1) = (lf_inode (gs_fs g))(h := None)" "lf_flock (gs_fs g1) = lf_flock (close_handle h (gs_fs g))"
  shows "handles_ok (set_pc x c g1)"
  by (rule handles_close [OF assms(1) pc_owns [OF assms(3)]]) (simp_all add: set_pc_def owns_def assms)

lemma lock_step:
  assumes "handles_ok g" "frames_of g x = []" "pc_handle (pc_of g x) = Some h" "pc_handle c = Some h"
    and "fst (try_lock h (gs_fs g))"
  shows "handles_ok (set_pc x c (g \<lparr>gs_fs := snd (try_lock h (gs_fs g))\<rparr>))"
  by (rule handles_lock [OF assms(1) pc_owns [OF assms(3)] assms(5)]) (auto simp: set_pc_def owns_def assms)

lemma busy_step:
  assumes "handles_ok g" "frames_of g x = []" "pc_handle (pc_of g x) = Some h" "pc_handle c = Some h"
    and "pc_of g x \<noteq> Opened h" "pc_of g x \<noteq> Probe_opened h"
    and "gs_thread g1 = gs_thread g" "gs_opener g1 = gs_opener g"
    and "lf_inode (gs_fs g1) = lf_inode (gs_fs g)" "lf_flock (gs_fs g1) = lf_flock (gs_fs g)"
  shows "handles_ok (set_pc x c g1)"
  by (rule handles_keep [OF assms(1), of x]) (auto simp: set_pc_def owns_def locks_def assms)

lemma kill_handles_ok:
  assumes "handles_ok g"
  shows "handles_ok (kill_process p g)"
proof -
  have o: "owns (gs_thread (kill_process p g) x) h \<longleftrightarrow> fst x \<noteq> p \<and> owns (gs_thread g x) h" for x h
    by (simp add: kill_process_def owns_def)
  have l: "locks (gs_thread (kill_process p g) x) h \<longleftrightarrow> fst x \<noteq> p \<and> locks (gs_thread g x) h" for x h
    by (auto simp: locks_def o) (simp_all add: kill_process_def)
  show ?thesis
    unfolding handles_ok_def
  proof (intro conjI allI impI)
    fix x h assume a: "owns (gs_thread (kill_process p g) x) h"
    then have w: "owns (gs_thread g x) h" and q: "fst x \<noteq> p" by (simp_all add: o)
    from owned_open [OF assms w] owned_by [OF assms w] q
    show "lf_inode (gs_fs (kill_process p g)) h \<noteq> None" "gs_opener (kill_process p g) h = fst x"
      by (simp_all add: kill_process_def)
    fix y assume "owns (gs_thread (kill_process p g) y) h"
    then have "owns (gs_thread g y) h" by (simp add: o)
    with owned_once [OF assms w] show "x = y" by blast
  next
    fix x h assume "locks (gs_thread (kill_process p g) x) h"
    then have w: "locks (gs_thread g x) h" and q: "fst x \<noteq> p" by (simp_all add: l)
    obtain i where "lf_flock (gs_fs g) i = Some h" using locked_file [OF assms w] by blast
    with owned_by [OF assms locks_owns [OF w]] q have "lf_flock (gs_fs (kill_process p g)) i = Some h"
      by (simp add: kill_process_def)
    then show "\<exists>i. lf_flock (gs_fs (kill_process p g)) i = Some h" ..
  qed
qed

lemma step_handles_ok:
  assumes "guard_step g g'" and ok: "registry_ok g" "handles_ok g" "files_ok (gs_fs g)"
  shows "handles_ok g'"
proof -
  note nf = busy_no_frames [OF ok(1)]
  show ?thesis
    using assms(1)
  proof cases
    case (reenter p i e)
    show ?thesis
      by (rule handles_keep [OF ok(2), of "(p, i)"]) (auto simp: reenter guard_moves owns_def locks_def)
  next
    case (check p i)
    show ?thesis
      by (rule handles_keep [OF ok(2), of "(p, i)"]) (auto simp: check guard_moves owns_def locks_def)
  next
    case (open_file x)
    then show ?thesis by (simp add: handles_open [OF ok(2,3)] nf)
  next
    case (lock_taken x h)
    then show ?thesis by (simp add: lock_step [OF ok(2)] nf)
  next
    case (stamp p i h)
    then show ?thesis by (simp add: busy_step [OF ok(2)] nf write_locked_metadata_def)
  next
    case (mirror p i h)
    then show ?thesis by (simp add: busy_step [OF ok(2)] nf)
  next
    case (enter p i h)
    show ?thesis
      by (rule handles_keep [OF ok(2), of "(p, i)"]) (auto simp: enter guard_moves owns_def locks_def)
  next
    case (leave_nested p i fs e)
    show ?thesis
      by (rule handles_keep [OF ok(2), of "(p, i)"]) (auto simp: leave_nested guard_moves owns_def locks_def)
  next
    case (leave_nested_last p i fs e)
    then have False using framed [OF ok(1), of p i] by auto
    then show ?thesis ..
  next
    case (leave_outer p i h fs)
    from framed [OF ok(1), of p i] leave_outer(3) have "fs = []" by (metis list.distinct(1) append_Cons
      append_Nil frame.distinct(1) list.inject replicate_0 replicate_Suc not0_implies_Suc)
    then show ?thesis
      by (intro handles_keep [OF ok(2), of "(p, i)"]) (auto simp: leave_outer guard_moves owns_def locks_def)
  next
    case (let_go x h)
    then show ?thesis by (simp add: close_step [OF ok(2)] nf release_flock)
  next
    case (clear_mirror x)
    show ?thesis
      by (rule handles_keep [OF ok(2), of x]) (auto simp: clear_mirror guard_moves owns_def locks_def)
  next
    case (heartbeat p e)
    show ?thesis
      by (rule handles_keep [OF ok(2)]) (simp_all add: heartbeat write_locked_metadata_def)
  next
    case (probe x)
    then show ?thesis by (simp add: handles_open [OF ok(2,3)])
  next
    case (probe_free x h)
    then show ?thesis by (simp add: lock_step [OF ok(2)] nf)
  next
    case (scrub x h)
    then show ?thesis
      by (simp add: close_step [OF ok(2)] nf clear_locked_metadata_def close_handle_def unlock_def Let_def split: option.split)
  next
    case (die p)
    then show ?thesis by (simp add: kill_handles_ok [OF ok(2)])
  next
    case (give_up x h)
    then have "pc_handle (pc_of g x) = Some h" "pc_of g x \<noteq> Resting" by auto
    then show ?thesis by (simp add: give_up(1) close_step [OF ok(2)] nf)
  qed (simp_all add: close_step [OF ok(2)] nf)
qed

text \<open>The text of the file names its owner from the stamp to the release.\<close>

lemma stamped_locks: "registry_ok g \<Longrightarrow> stamped (gs_thread g x) h \<Longrightarrow> locks (gs_thread g x) h"
  using busy_no_frames [of g x] by (cases "frames_of g x = []") (auto simp: stamped_def locks_def owns_def)

lemma payloadD:
  "payload_ok g \<Longrightarrow> stamped (gs_thread g x) h \<Longrightarrow> lf_inode (gs_fs g) h = Some i \<Longrightarrow>
    \<exists>m. lf_text (gs_fs g) i = Json (PyDict m) \<and> meta_pid m = Some (PyInt (fst x))"
  unfolding payload_ok_def by (cases x) blast

lemma payload_keep:
  assumes "payload_ok g" and "\<And>x h. stamped (gs_thread g' x) h \<Longrightarrow> stamped (gs_thread g x) h"
    and "\<And>h i. lf_inode (gs_fs g') h = Some i \<Longrightarrow> lf_inode (gs_fs g) h = Some i" and "lf_text (gs_fs g') = lf_text (gs_fs g)"
  shows "payload_ok g'"
  unfolding payload_ok_def assms(4) by (intro allI impI payloadD [OF assms(1)] assms(2,3))

text \<open>Nobody else is between stamp and release while a thread has the lock.\<close>

lemma nobody_stamped:
  assumes ok: "registry_ok g" "handles_ok g" "files_ok (gs_fs g)" and "locks (gs_thread g x) h" "\<not> stamped (gs_thread g x) h"
  shows "\<not> stamped (gs_thread g y) h'"
proof
  assume s: "stamped (gs_thread g y) h'"
  from exclusion [OF ok(3,2) assms(4) stamped_locks [OF ok(1) s]] s assms(5) show False by simp
qed

lemma payload_none:
  assumes "\<And>x h. \<not> stamped (gs_thread g x) h"
  shows "payload_ok g"
  using assms unfolding payload_ok_def by blast

lemma touched_pid: "meta_pid (touched_payload now active m) = meta_pid m"
  by (simp add: touched_payload_def meta_pid_def Let_def update_conv' split: option.split)

lemma open_payload:
  assumes "payload_ok g" "files_ok (gs_fs g)" "frames_of g x = []" and c: "\<And>h. c h = Opened h \<or> c h = Probe_opened h"
    and ok: "handles_ok g" "registry_ok g"
  shows "payload_ok (guard_open x c g)"
proof -
  obtain h f where o: "open_lock (gs_fs g) = (h, f)" by (cases "open_lock (gs_fs g)")
  note f = opened [OF assms(2) o]
  have st: "stamped (gs_thread (guard_open x c g) y) h' \<Longrightarrow> stamped (gs_thread g y) h'" for y h'
    using c [of h] assms(3) by (cases "y = x") (auto simp: guard_open_def o set_pc_def stamped_def)
  show ?thesis
    unfolding payload_ok_def
  proof (intro allI impI)
    fix y h' i assume a: "stamped (gs_thread (guard_open x c g) y) h'" "lf_inode (gs_fs (guard_open x c g)) h' = Some i"
    from st [OF a(1)] have s: "stamped (gs_thread g y) h'" .
    from owned_open [OF ok(1) locks_owns [OF stamped_locks [OF ok(2) s]]] obtain j where j: "lf_inode (gs_fs g) h' = Some j" by blast
    from files_path [OF assms(2) j] have t: "lf_text f = lf_text (gs_fs g)" by (rule f(4))
    from f(1,2) files_new [OF assms(2) j] a(2) j have "i = j" by (auto simp: guard_open_def o set_pc_def)
    with payloadD [OF assms(1) s j] show "\<exists>m. lf_text (gs_fs (guard_open x c g)) i = Json (PyDict m) \<and> meta_pid m = Some (PyInt (fst y))"
      by (simp add: guard_open_def o set_pc_def t)
  qed
qed

lemma heartbeat_payload:
  assumes ok: "payload_ok g" "registry_ok g" "handles_ok g" "files_ok (gs_fs g)" and e: "gs_registry g p = Some e"
  shows "payload_ok (g \<lparr>gs_mirror := Some p, gs_fs := write_locked_metadata (re_handle e)
      (touched_payload now active (read_locked_metadata (re_handle e) (gs_fs g))) (gs_fs g)\<rparr>)"
proof -
  have s: "stamped (gs_thread g (p, re_owner e)) (re_handle e)"
    using registered [OF ok(2) e] by (simp add: stamped_def)
  note l = stamped_locks [OF ok(2) s]
  from owned_open [OF ok(3) locks_owns [OF l]] obtain i where i: "lf_inode (gs_fs g) (re_handle e) = Some i" by blast
  from payloadD [OF ok(1) s i] obtain m where m: "lf_text (gs_fs g) i = Json (PyDict m)" "meta_pid m = Some (PyInt p)" by auto
  have r: "read_locked_metadata (re_handle e) (gs_fs g) = m"
    by (simp add: read_locked_metadata_def handle_text_def i m(1))
  show ?thesis
    unfolding payload_ok_def
  proof (intro allI impI)
    fix y h j assume a: "stamped (gs_thread (g \<lparr>gs_mirror := Some p, gs_fs := write_locked_metadata (re_handle e)
        (touched_payload now active (read_locked_metadata (re_handle e) (gs_fs g))) (gs_fs g)\<rparr>) y) h"
      "lf_inode (gs_fs (g \<lparr>gs_mirror := Some p, gs_fs := write_locked_metadata (re_handle e)
        (touched_payload now active (read_locked_metadata (re_handle e) (gs_fs g))) (gs_fs g)\<rparr>)) h = Some j"
    then have y: "stamped (gs_thread g y) h" "lf_inode (gs_fs g) h = Some j" by (simp_all add: write_locked_metadata_def)
    from exclusion [OF ok(4,3) stamped_locks [OF ok(2) y(1)] l] have "y = (p, re_owner e)" "h = re_handle e" by simp_all
    with y(2) i m(2) show "\<exists>m. lf_text (gs_fs (g \<lparr>gs_mirror := Some p, gs_fs := write_locked_metadata (re_handle e)
        (touched_payload now active (read_locked_metadata (re_handle e) (gs_fs g))) (gs_fs g)\<rparr>)) j = Json (PyDict m) \<and>
        meta_pid m = Some (PyInt (fst y))"
      by (simp add: write_locked_metadata_def write_text_def r touched_pid)
  qed
qed

lemma step_payload_ok:
  assumes "guard_step g g'" and ok: "payload_ok g" "registry_ok g" "handles_ok g" "files_ok (gs_fs g)"
  shows "payload_ok g'"
proof -
  note nf = busy_no_frames [OF ok(2)] and none = nobody_stamped [OF ok(2-4)] and keep = payload_keep [OF ok(1)]
  show ?thesis
    using assms(1)
  proof cases
    case (open_file x)
    then show ?thesis by (simp add: open_payload [OF ok(1,4) _ _ ok(3,2)] nf)
  next
    case (probe x)
    then show ?thesis by (simp add: open_payload [OF ok(1,4) _ _ ok(3,2)])
  next
    case (heartbeat p e)
    then show ?thesis by (simp add: heartbeat_payload [OF ok])
  next
    case (stamp p i h)
    have l: "locks (gs_thread g (p, i)) h" using stamp(2) by (simp add: locks_def owns_def)
    have n: "\<not> stamped (gs_thread g y) h'" for y h'
      by (rule none [OF l]) (use stamp(2) nf [of "(p, i)"] in \<open>simp add: stamped_def\<close>)
    obtain j where j: "lf_inode (gs_fs g) h = Some j" using owned_open [OF ok(3) locks_owns [OF l]] by blast
    show ?thesis
      unfolding payload_ok_def
    proof (intro allI impI)
      fix y h' k assume a: "stamped (gs_thread g' y) h'" "lf_inode (gs_fs g') h' = Some k"
      then have y: "y = (p, i)" using n by (auto simp: stamp set_pc_def split: if_splits)
      with a(1) have "h' = h" using nf [of "(p, i)"] stamp(2) by (auto simp: stamp(1) set_pc_def stamped_def)
      with y j a(2) show "\<exists>m. lf_text (gs_fs g') k = Json (PyDict m) \<and> meta_pid m = Some (PyInt (fst y))"
        by (simp add: stamp(1) set_pc_def write_locked_metadata_def write_text_def runner_payload_def meta_pid_def)
    qed
  next
    case (let_go x h)
    have n: "\<not> stamped (gs_thread g y) h'" for y h'
      by (rule none [of x h]) (use let_go(2) nf [of x] in \<open>simp_all add: stamped_def locks_def owns_def\<close>)
    have "\<not> stamped (gs_thread g' y) h'" for y h'
      using n [of y h'] by (cases "y = x") (simp_all add: let_go set_pc_def stamped_def)
    then show ?thesis by (rule payload_none)
  next
    case (scrub x h)
    have n: "\<not> stamped (gs_thread g y) h'" for y h'
      by (rule none [of x h]) (use scrub(2) nf [of x] in \<open>simp_all add: stamped_def locks_def owns_def\<close>)
    have "\<not> stamped (gs_thread g' y) h'" for y h'
      using n [of y h'] by (cases "y = x") (simp_all add: scrub set_pc_def stamped_def)
    then show ?thesis by (rule payload_none)
  next
    case (die p)
    show ?thesis
      by (rule keep) (auto simp: die kill_process_def stamped_def split: if_splits)
  next
    case (reenter p i e)
    show ?thesis by (rule keep) (auto simp: reenter guard_moves stamped_def split: if_splits)
  next
    case (enter p i h)
    show ?thesis by (rule keep) (auto simp: enter guard_moves stamped_def split: if_splits)
  next
    case (leave_nested p i fs e)
    show ?thesis by (rule keep) (auto simp: leave_nested guard_moves stamped_def split: if_splits)
  next
    case (leave_nested_last p i fs e)
    show ?thesis by (rule keep) (auto simp: leave_nested_last guard_moves stamped_def split: if_splits)
  next
    case (leave_outer p i h fs)
    show ?thesis by (rule keep) (auto simp: leave_outer guard_moves stamped_def split: if_splits)
  next
    case (mirror p i h)
    show ?thesis by (rule keep) (auto simp: mirror guard_moves stamped_def split: if_splits)
  qed (rule keep; auto simp: guard_moves stamped_def split: if_splits)+
qed

end
