(* ===== verification/Lock_Properties.thy ===== *)
theory Lock_Properties
  imports Runner_Guard
begin

text \<open>
  Mutual exclusion of the runner guard under every interleaving of threads, processes, probes and
  crashes, and what the release of one owner does to the mirror of the next.
\<close>

section \<open>The invariant holds in every run\<close>

definition guard_ok :: "guard_sys \<Rightarrow> bool" where
  "guard_ok g = (files_ok (gs_fs g) \<and> handles_ok g \<and> registry_ok g \<and> payload_ok g)"

lemma unlocked_ok: "unlocked g \<Longrightarrow> guard_ok g"
  by (simp add: unlocked_def guard_ok_def files_ok_def handles_ok_def registry_ok_def payload_ok_def owns_def
      locks_def stamped_def)

lemma guard_runs_ok: "guard_runs g0 g \<Longrightarrow> unlocked g0 \<Longrightarrow> guard_ok g"
proof (induction rule: guard_runs.induct)
  case (run g g')
  then show ?case
    unfolding guard_ok_def by (blast intro: step_files_ok step_handles_ok step_registry_ok step_payload_ok)
qed (rule unlocked_ok)

text \<open>What an owner sees.\<close>

lemma owner_facts:
  assumes "guard_ok g" "inside g x"
  obtains e i m where "gs_registry g (fst x) = Some e" "re_owner e = snd x" "re_depth e = length (frames_of g x)"
    "lf_path (gs_fs g) = Some i" "lf_flock (gs_fs g) i = Some (re_handle e)"
    "lf_text (gs_fs g) i = Json (PyDict m)" "meta_pid m = Some (PyInt (fst x))"
proof -
  from assms have ok: "registry_ok g" "handles_ok g" "files_ok (gs_fs g)" "payload_ok g" and f: "frames_of g (fst x, snd x) \<noteq> []"
    by (simp_all add: guard_ok_def inside_def)
  from framed [OF ok(1) f] obtain e where e: "gs_registry g (fst x) = Some e" "re_owner e = snd x" "re_depth e \<ge> 1"
    "frames_of g x = replicate (re_depth e - 1) Nested @ [Outer (re_handle e)]" by auto
  have s: "stamped (gs_thread g x) (re_handle e)" by (simp add: stamped_def e(4))
  from locked_file [OF ok(2) stamped_locks [OF ok(1) s]] obtain i where i: "lf_flock (gs_fs g) i = Some (re_handle e)" by blast
  note n = files_flock [OF ok(3) i]
  obtain m where "lf_text (gs_fs g) i = Json (PyDict m)" "meta_pid m = Some (PyInt (fst x))"
    using payloadD [OF ok(4) s n] by blast
  moreover have "re_depth e = length (frames_of g x)" using e(3) by (simp add: e(4))
  ultimately show thesis using that [OF e(1,2) _ files_path [OF ok(3) n] i] by blast
qed

lemma inside_once: "guard_ok g \<Longrightarrow> inside g x \<Longrightarrow> inside g y \<Longrightarrow> y = x"
proof -
  assume ok: "guard_ok g" and x: "inside g x" and y: "inside g y"
  have l: "\<exists>h. locks (gs_thread g z) h" if z: "inside g z" for z
  proof -
    have r: "registry_ok g" using ok by (simp add: guard_ok_def)
    from z have "frames_of g (fst z, snd z) \<noteq> []" by (simp add: inside_def)
    then obtain e :: registry_entry where "frames_of g (fst z, snd z) = replicate (re_depth e - 1) Nested @ [Outer (re_handle e)]"
      by (rule framed [OF r]) blast
    then have "stamped (gs_thread g z) (re_handle e)" by (simp add: stamped_def)
    from stamped_locks [OF r this] show ?thesis by blast
  qed
  from l [OF x] l [OF y] obtain h h' where "locks (gs_thread g x) h" "locks (gs_thread g y) h'" by blast
  with ok show ?thesis using exclusion [of g x h y h'] by (simp add: guard_ok_def)
qed

section \<open>Runs that take and leave the guard\<close>

lemma thread_rebuilt: "(t :: thread_state) \<lparr>ts_frames := fs, ts_pc := c\<rparr> = \<lparr>ts_pc = c, ts_frames = fs\<rparr>"
  by (cases t) simp

lemma guard_runs_trans: "guard_runs b c \<Longrightarrow> guard_runs a b \<Longrightarrow> guard_runs a c"
  by (induction rule: guard_runs.induct) (auto intro: guard_runs.run)

text \<open>A guard nobody has can be taken.\<close>

lemma take_guard:
  assumes "pc_of g (p, i) = Resting" "gs_registry g p = None" "lf_path (gs_fs g) = Some k" "lf_flock (gs_fs g) k = None"
  obtains g' h where "guard_runs g g'"
    "gs_thread g' = (gs_thread g)((p, i) := \<lparr>ts_pc = Resting, ts_frames = [Outer h]\<rparr>)"
    "gs_registry g' = (gs_registry g)(p := Some \<lparr>re_handle = h, re_depth = 1, re_owner = i\<rparr>)"
    "gs_mirror g' = Some p" "lf_path (gs_fs g') = Some k" "lf_flock (gs_fs g') k = Some h" "lf_inode (gs_fs g') h = Some k"
proof -
  let ?x = "(p, i)" and ?h = "lf_next_handle (gs_fs g)"
  note defs = guard_moves open_lock_def try_lock_def Let_def write_locked_metadata_def write_text_def assms
  define g1 where "g1 = set_pc ?x Checked g"
  define g2 where "g2 = guard_open ?x Opened g1"
  define g3 where "g3 = set_pc ?x (Locked ?h) (g2 \<lparr>gs_fs := snd (try_lock ?h (gs_fs g2))\<rparr>)"
  define g4 where "g4 = set_pc ?x (Stamped ?h)
    (g3 \<lparr>gs_fs := write_locked_metadata ?h (runner_payload [] [] [] p) (gs_fs g3)\<rparr>)"
  define g5 where "g5 = set_pc ?x (Mirrored ?h) (g4 \<lparr>gs_mirror := Some p\<rparr>)"
  define g6 where "g6 = set_pc ?x Resting (set_frames ?x [Outer ?h]
    (set_registry p (Some \<lparr>re_handle = ?h, re_depth = 1, re_owner = i\<rparr>) g5))"
  have "guard_step g g1" unfolding g1_def by (rule guard_step.check) (simp_all add: assms)
  moreover have "guard_step g1 g2" unfolding g2_def by (rule guard_step.open_file) (simp add: g1_def set_pc_def)
  moreover have "guard_step g2 g3" unfolding g3_def
    by (rule guard_step.lock_taken) (simp_all add: g2_def g1_def defs)
  moreover have "guard_step g3 g4" unfolding g4_def by (rule guard_step.stamp) (simp add: g3_def set_pc_def)
  moreover have "guard_step g4 g5" unfolding g5_def by (rule guard_step.mirror) (simp add: g4_def set_pc_def)
  moreover have "guard_step g5 g6" unfolding g6_def by (rule guard_step.enter) (simp add: g5_def set_pc_def)
  ultimately have "guard_runs g g6" by (meson guard_runs.intros)
  moreover have "gs_thread g6 = (gs_thread g)(?x := \<lparr>ts_pc = Resting, ts_frames = [Outer ?h]\<rparr>)"
    "gs_registry g6 = (gs_registry g)(p := Some \<lparr>re_handle = ?h, re_depth = 1, re_owner = i\<rparr>)"
    "gs_mirror g6 = Some p" "lf_path (gs_fs g6) = Some k" "lf_flock (gs_fs g6) k = Some ?h" "lf_inode (gs_fs g6) ?h = Some k"
    by (simp_all add: g6_def g5_def g4_def g3_def g2_def g1_def defs thread_rebuilt)
  ultimately show thesis by (rule that)
qed

text \<open>Leaving it, up to the point where the flock is free and the mirror not yet cleared.\<close>

lemma leave_guard:
  assumes "pc_of g (p, i) = Resting" "frames_of g (p, i) = [Outer h]" "lf_inode (gs_fs g) h = Some k"
    and "lf_path (gs_fs g) = Some k" "lf_flock (gs_fs g) k = Some h"
  obtains g' where "guard_runs g g'"
    "gs_thread g' = (gs_thread g)((p, i) := \<lparr>ts_pc = Released, ts_frames = []\<rparr>)"
    "gs_registry g' = (gs_registry g)(p := None)" "lf_path (gs_fs g') = Some k" "lf_flock (gs_fs g') k = None"
proof -
  let ?x = "(p, i)"
  define g1 where "g1 = set_pc ?x (Popped h) (set_frames ?x [] (set_registry p None g))"
  define g2 where "g2 = set_pc ?x Released (g1 \<lparr>gs_fs := release h True (gs_fs g1)\<rparr>)"
  have "guard_step g g1" unfolding g1_def by (rule guard_step.leave_outer) (simp_all add: assms)
  moreover have "guard_step g1 g2" unfolding g2_def by (rule guard_step.let_go) (simp add: g1_def guard_moves)
  ultimately have "guard_runs g g2" by (meson guard_runs.intros)
  moreover have "gs_thread g2 = (gs_thread g)((p, i) := \<lparr>ts_pc = Released, ts_frames = []\<rparr>)"
    "gs_registry g2 = (gs_registry g)(p := None)" "lf_path (gs_fs g2) = Some k" "lf_flock (gs_fs g2) k = None"
    using assms by (simp_all add: g2_def g1_def guard_moves release_def clear_locked_metadata_def write_text_def
        close_handle_def unlock_def Let_def thread_rebuilt)
  ultimately show thesis by (rule that)
qed

text \<open>A workspace whose lock file is left from a process that is gone.\<close>

definition idle_guard :: guard_sys where
  "idle_guard = \<lparr>gs_fs = \<lparr>lf_path = Some 0, lf_next_inode = 1, lf_text = (\<lambda>_. Json (PyDict [(''pid'', PyInt 9)])),
      lf_flock = (\<lambda>_. None), lf_inode = (\<lambda>_. None), lf_next_handle = 0\<rparr>, gs_opener = (\<lambda>_. 0),
    gs_registry = (\<lambda>_. None), gs_mirror = Some 9, gs_thread = (\<lambda>_. \<lparr>ts_pc = Resting, ts_frames = []\<rparr>)\<rparr>"

lemma idle_unlocked: "unlocked idle_guard"
  by (simp add: unlocked_def idle_guard_def)

lemma idle_taken:
  obtains g h where "guard_runs idle_guard g" "gs_mirror g = Some 1"
    "gs_thread g = (gs_thread idle_guard)((1, 0) := \<lparr>ts_pc = Resting, ts_frames = [Outer h]\<rparr>)"
    "gs_registry g = (gs_registry idle_guard)(1 := Some \<lparr>re_handle = h, re_depth = 1, re_owner = 0\<rparr>)"
    "lf_path (gs_fs g) = Some 0" "lf_flock (gs_fs g) 0 = Some h" "lf_inode (gs_fs g) h = Some 0"
  by (rule take_guard [of idle_guard 1 0 0]) (auto simp: idle_guard_def)

section \<open>Properties\<close>

text \<open>C37: At every moment of every run at most one thread of all processes is inside the runner guard;
  its process has the guard registered for that thread with a depth that counts its nested entries, the
  registered handle holds the flock of the file the path names, and the file's text names its pid.\<close>

theorem runner_guard_excludes:
  assumes "guard_runs g0 g" "unlocked g0" "inside g x"
  shows "(\<forall>y. inside g y \<longrightarrow> y = x) \<and>
    (\<exists>e i m. gs_registry g (fst x) = Some e \<and> re_owner e = snd x \<and> re_depth e = length (frames_of g x) \<and>
      lf_path (gs_fs g) = Some i \<and> lf_flock (gs_fs g) i = Some (re_handle e) \<and>
      lf_text (gs_fs g) i = Json (PyDict m) \<and> meta_pid m = Some (PyInt (fst x)))"
proof -
  note ok = guard_runs_ok [OF assms(1,2)]
  show ?thesis using inside_once [OF ok assms(3)] by (blast intro: owner_facts [OF ok assms(3)])
qed

theorem runner_guard_excludes_witness:
  "\<exists>g. guard_runs idle_guard g \<and> inside g (1, 0) \<and> (\<forall>y. inside g y \<longrightarrow> y = (1, 0)) \<and>
    (\<exists>i. lf_path (gs_fs g) = Some i \<and> lf_flock (gs_fs g) i \<noteq> None)"
proof -
  obtain g h where g: "guard_runs idle_guard g"
    "gs_thread g = (gs_thread idle_guard)((1, 0) := \<lparr>ts_pc = Resting, ts_frames = [Outer h]\<rparr>)"
    by (rule idle_taken) blast
  then have i: "inside g (1, 0)" by (simp add: inside_def)
  from runner_guard_excludes [OF g(1) idle_unlocked i] g(1) i show ?thesis by (metis option.distinct(1))
qed

text \<open>The release clears the mirror after the flock is free: the row of the next owner, while that owner is inside.\<close>

lemma release_clears_next_mirror:
  "\<exists>g. guard_runs idle_guard g \<and> inside g (2, 0) \<and> gs_mirror g = None"
proof -
  obtain a h where a: "guard_runs idle_guard a"
    "gs_thread a = (gs_thread idle_guard)((1, 0) := \<lparr>ts_pc = Resting, ts_frames = [Outer h]\<rparr>)"
    "gs_registry a = (gs_registry idle_guard)(1 := Some \<lparr>re_handle = h, re_depth = 1, re_owner = 0\<rparr>)"
    "lf_path (gs_fs a) = Some 0" "lf_flock (gs_fs a) 0 = Some h" "lf_inode (gs_fs a) h = Some 0"
    by (rule idle_taken) blast
  obtain b where b: "guard_runs a b" "gs_thread b = (gs_thread a)((1, 0) := \<lparr>ts_pc = Released, ts_frames = []\<rparr>)"
    "gs_registry b = (gs_registry a)(1 := None)" "lf_path (gs_fs b) = Some 0" "lf_flock (gs_fs b) 0 = None"
    by (rule leave_guard [of a 1 0 h 0]) (simp_all add: a)
  have rest: "pc_of b (2, 0) = Resting" "gs_registry b 2 = None" by (simp_all add: b a idle_guard_def)
  obtain c k where c: "guard_runs b c" "gs_thread c = (gs_thread b)((2, 0) := \<lparr>ts_pc = Resting, ts_frames = [Outer k]\<rparr>)"
    by (rule take_guard [OF rest b(4,5)]) blast
  define d where "d = set_pc (1, 0) Resting (c \<lparr>gs_mirror := None\<rparr>)"
  have "guard_step c d" unfolding d_def by (rule guard_step.clear_mirror) (simp add: c b)
  then have "guard_runs idle_guard d"
    using guard_runs_trans [OF c(1) guard_runs_trans [OF b(1) a(1)]] by (meson guard_runs.run)
  moreover have "inside d (2, 0)" "gs_mirror d = None" by (simp_all add: d_def set_pc_def inside_def c)
  ultimately show ?thesis by blast
qed

end
