(* ===== verification/Daemon_Registry.thy ===== *)
theory Daemon_Registry
  imports Lock_Properties
begin

text \<open>
  The daemon's registration, \<open>litehive/daemon/registry.py\<close>: the lock file whose flock a daemon keeps
  for its life, the handle each process remembers, the SQLite mirror, and register, unregister, touch
  and the lookups over them. The operations are sequential here except that \<open>register\<close> is also given
  in its two parts, the scan for a dead owner and the claim, between which another process can run.
\<close>

section \<open>State and entries\<close>

record daemon_sys =
  dd_fs :: lock_fs
  dd_handles :: "int \<Rightarrow> nat option"
  dd_mirror :: "lock_meta option"

datatype entry_status = Entry_running | Entry_stale

record registry_row =
  rr_status :: entry_status
  rr_pid :: "int option"
  rr_workspace :: "string option"
  rr_started_at :: "string option"
  rr_heartbeat_at :: "pyval option"
  rr_log_dir :: "string option"

datatype daemon_error = Already_running "pyval option" | Already_registered

definition optional_text_field :: "lock_meta \<Rightarrow> string \<Rightarrow> string option" where
  "optional_text_field m k = Option.bind (map_of m k) as_str"

definition entry_from_metadata :: "lock_meta \<Rightarrow> entry_status \<Rightarrow> registry_row" where
  "entry_from_metadata m st =
     \<lparr>rr_status = st, rr_pid = Option.bind (map_of m ''pid'') as_int,
      rr_workspace = optional_text_field m ''workspace'', rr_started_at = optional_text_field m ''started_at'',
      rr_heartbeat_at = map_of m ''heartbeat_at'', rr_log_dir = optional_text_field m ''log_dir''\<rparr>"

section \<open>Operations\<close>

definition daemon_lock_is_held_in_process :: "int \<Rightarrow> daemon_sys \<Rightarrow> bool" where
  "daemon_lock_is_held_in_process p s = (dd_handles s p \<noteq> None)"

definition daemon_lock_is_active :: "int \<Rightarrow> daemon_sys \<Rightarrow> bool \<times> daemon_sys" where
  "daemon_lock_is_active p s =
     (let (b, f) = is_active (daemon_lock_is_held_in_process p s) (dd_fs s) in (b, s \<lparr>dd_fs := f\<rparr>))"

definition clear_stale_daemon :: "(pyval \<Rightarrow> bool) \<Rightarrow> int \<Rightarrow> int option \<Rightarrow> daemon_sys \<Rightarrow> daemon_sys" where
  "clear_stale_daemon alive p expected s =
     (let (cleared, f) = clear_metadata_if_unlocked alive (daemon_lock_is_held_in_process p s) expected True (dd_fs s);
          s1 = s \<lparr>dd_fs := f\<rparr>
      in if cleared then s1 \<lparr>dd_mirror := None\<rparr> else s1)"

definition daemon_metadata :: "int \<Rightarrow> daemon_sys \<Rightarrow> registry_row option \<times> daemon_sys" where
  "daemon_metadata p s =
     (let m = lenient_metadata (dd_fs s) in
      if m = [] then (None, s)
      else (let (b, s1) = daemon_lock_is_active p s
            in (Some (entry_from_metadata m (if b then Entry_running else Entry_stale)), s1)))"

definition live_entry :: "int \<Rightarrow> daemon_sys \<Rightarrow> registry_row option \<times> daemon_sys" where
  "live_entry p s =
     (case daemon_metadata p s of (None, s1) \<Rightarrow> (None, s1)
      | (Some e, s1) \<Rightarrow> (if rr_status e = Entry_running then Some e else None, s1))"

text \<open>Everything of \<open>register\<close> after \<open>remove_stale_lockfile\<close>.\<close>

definition register_claim ::
  "string \<Rightarrow> string \<Rightarrow> string \<Rightarrow> int \<Rightarrow> int \<Rightarrow> daemon_sys \<Rightarrow> (daemon_error + unit) \<times> daemon_sys" where
  "register_claim now workspace log_dir p pid s =
     (let (h, f1) = open_lock (dd_fs s); (ok, f2) = try_lock h f1 in
      if \<not> ok
      then (Inl (Already_running (meta_pid (read_locked_metadata h f2))), s \<lparr>dd_fs := close_handle h (unlock h f2)\<rparr>)
      else (let m = create_base_metadata now pid [(''workspace'', PyStr workspace), (''log_dir'', PyStr log_dir)];
                f3 = write_locked_metadata h m f2
            in if dd_handles s p \<noteq> None then (Inl Already_registered, s \<lparr>dd_fs := close_handle h (unlock h f3)\<rparr>)
               else (Inr (), s \<lparr>dd_fs := f3, dd_handles := (dd_handles s)(p := Some h), dd_mirror := Some m\<rparr>)))"

definition register_daemon ::
  "(pyval \<Rightarrow> bool) \<Rightarrow> string \<Rightarrow> string \<Rightarrow> string \<Rightarrow> int \<Rightarrow> int \<Rightarrow> daemon_sys \<Rightarrow> (daemon_error + unit) \<times> daemon_sys" where
  "register_daemon alive now workspace log_dir p pid s =
     register_claim now workspace log_dir p pid (s \<lparr>dd_fs := snd (remove_stale_lockfile alive (dd_fs s))\<rparr>)"

definition other_pid :: "int option \<Rightarrow> lock_meta \<Rightarrow> bool" where
  "other_pid pid m = (case pid of None \<Rightarrow> False | Some k \<Rightarrow> meta_pid m \<noteq> Some (PyInt k))"

definition unregister_daemon :: "(pyval \<Rightarrow> bool) \<Rightarrow> int \<Rightarrow> int option \<Rightarrow> daemon_sys \<Rightarrow> daemon_sys" where
  "unregister_daemon alive p pid s =
     (let s1 = s \<lparr>dd_handles := (dd_handles s)(p := None)\<rparr> in
      case dd_handles s p of None \<Rightarrow> clear_stale_daemon alive p pid s1
      | Some h \<Rightarrow>
          (let s2 = s1 \<lparr>dd_fs := release h True (dd_fs s)\<rparr>
           in if other_pid pid (read_locked_metadata h (dd_fs s)) then s2 else s2 \<lparr>dd_mirror := None\<rparr>))"

definition touch_daemon :: "string \<Rightarrow> int \<Rightarrow> int option \<Rightarrow> daemon_sys \<Rightarrow> bool \<times> daemon_sys" where
  "touch_daemon now p pid s =
     (case dd_handles s p of None \<Rightarrow> (False, s)
      | Some h \<Rightarrow>
          if other_pid pid (read_locked_metadata h (dd_fs s)) then (False, s)
          else (let f = update_heartbeat now h [] (dd_fs s)
                in (True, s \<lparr>dd_fs := f, dd_mirror := Some (read_locked_metadata h f)\<rparr>)))"

section \<open>A consistent registration\<close>

text \<open>Whoever is registered holds the flock of the file at the path, nobody else has it open, and the file
  names a live process.\<close>

definition registered_file :: "lock_fs \<Rightarrow> nat \<Rightarrow> nat \<Rightarrow> int \<Rightarrow> bool" where
  "registered_file f h i k = (lf_path f = Some i \<and> lf_inode f h = Some i \<and> lf_flock f i = Some h \<and>
     (\<exists>m. lf_text f i = Json (PyDict m) \<and> meta_pid m = Some (PyInt k)))"

definition daemon_ok :: "(pyval \<Rightarrow> bool) \<Rightarrow> daemon_sys \<Rightarrow> bool" where
  "daemon_ok alive s =
     (files_ok (dd_fs s) \<and>
      (\<forall>p h. dd_handles s p = Some h \<longrightarrow> (\<exists>i k. registered_file (dd_fs s) h i k \<and> alive (PyInt k))) \<and>
      (\<forall>i h. lf_inode (dd_fs s) h = Some i \<longrightarrow> (\<exists>p. dd_handles s p = Some h)) \<and>
      (\<forall>p q h. dd_handles s p = Some h \<longrightarrow> dd_handles s q = Some h \<longrightarrow> p = q))"

lemma registeredE:
  assumes "daemon_ok alive s" "dd_handles s p = Some h"
  obtains i k m where "lf_path (dd_fs s) = Some i" "lf_inode (dd_fs s) h = Some i" "lf_flock (dd_fs s) i = Some h"
    "lf_text (dd_fs s) i = Json (PyDict m)" "meta_pid m = Some (PyInt k)" "alive (PyInt k)"
  using assms unfolding daemon_ok_def registered_file_def by blast

lemma one_registered:
  assumes "daemon_ok alive s" "dd_handles s p = Some h" "dd_handles s q = Some h'"
  shows "q = p \<and> h' = h"
proof -
  from registeredE [OF assms(1,2)] obtain i where i: "lf_path (dd_fs s) = Some i" "lf_flock (dd_fs s) i = Some h" by metis
  from registeredE [OF assms(1,3)] obtain j where j: "lf_path (dd_fs s) = Some j" "lf_flock (dd_fs s) j = Some h'" by metis
  from i j have "h' = h" by simp
  with assms show ?thesis unfolding daemon_ok_def by blast
qed

lemma nobody_open:
  assumes "daemon_ok alive s" "\<And>q. dd_handles s q = None"
  shows "lf_inode (dd_fs s) h = None" "lf_flock (dd_fs s) i = None"
proof -
  have n: "lf_inode (dd_fs s) h' = None" for h'
    using assms unfolding daemon_ok_def by (cases "lf_inode (dd_fs s) h'") auto
  then show "lf_inode (dd_fs s) h = None" .
  have "files_ok (dd_fs s)" using assms(1) by (simp add: daemon_ok_def)
  from files_flock [OF this, of i] n show "lf_flock (dd_fs s) i = None" by (cases "lf_flock (dd_fs s) i") auto
qed

text \<open>A live owner's file is not unlinked.\<close>

lemma live_not_removed:
  assumes "lf_path f = Some i" "lf_text f i = Json (PyDict m)" "meta_pid m = Some (PyInt k)" "alive (PyInt k)"
  shows "remove_stale_lockfile alive f = (False, f)"
  using assms by (simp add: remove_stale_lockfile_def names_dead_owner_def lenient_metadata_def read_metadata_def)

text \<open>The claim against a held flock, and against a free one.\<close>

lemma claim_busy:
  assumes "lf_path (dd_fs s) = Some i" "lf_flock (dd_fs s) i = Some h" "h < lf_next_handle (dd_fs s)"
    and "lf_text (dd_fs s) i = Json (PyDict m)" and "\<And>j. lf_inode (dd_fs s) j \<noteq> None \<Longrightarrow> j < lf_next_handle (dd_fs s)"
  shows "register_claim now ws ldir p pid s =
    (Inl (Already_running (meta_pid m)), s \<lparr>dd_fs := (dd_fs s) \<lparr>lf_next_handle := lf_next_handle (dd_fs s) + 1\<rparr>\<rparr>)"
proof -
  have "lf_inode (dd_fs s) (lf_next_handle (dd_fs s)) = None" using assms(5) by fastforce
  then have u: "(lf_inode (dd_fs s))(lf_next_handle (dd_fs s) := None) = lf_inode (dd_fs s)" by auto
  show ?thesis using assms(1-4)
    by (simp add: register_claim_def open_lock_def try_lock_def unlock_def close_handle_def Let_def
        read_locked_metadata_def handle_text_def u)
qed

text \<open>What a claim of a free file leaves behind.\<close>

definition claimed :: "daemon_sys \<Rightarrow> int \<Rightarrow> nat \<Rightarrow> nat \<Rightarrow> lock_meta \<Rightarrow> daemon_sys \<Rightarrow> bool" where
  "claimed s p h i m t =
     (dd_handles t = (dd_handles s)(p := Some h) \<and> dd_mirror t = Some m \<and> lf_path (dd_fs t) = Some i \<and>
      (\<forall>j. lf_path (dd_fs s) = Some j \<longrightarrow> j = i) \<and>
      lf_inode (dd_fs t) = (lf_inode (dd_fs s))(h := Some i) \<and>
      lf_flock (dd_fs t) = (lf_flock (dd_fs s))(i := Some h) \<and> lf_text (dd_fs t) i = Json (PyDict m) \<and>
      lf_next_handle (dd_fs t) = h + 1)"

definition daemon_payload :: "string \<Rightarrow> string \<Rightarrow> string \<Rightarrow> int \<Rightarrow> lock_meta" where
  "daemon_payload now ws ldir pid =
     create_base_metadata now pid [(''workspace'', PyStr ws), (''log_dir'', PyStr ldir)]"

lemma claim_free:
  assumes "\<And>i. lf_flock (dd_fs s) i = None" "dd_handles s p = None"
  shows "\<exists>i t. register_claim now ws ldir p pid s = (Inr (), t) \<and>
    claimed s p (lf_next_handle (dd_fs s)) i (daemon_payload now ws ldir pid) t"
  using assms
  by (cases "lf_path (dd_fs s)") (simp_all add: register_claim_def open_lock_def try_lock_def Let_def
      write_locked_metadata_def write_text_def daemon_payload_def claimed_def fun_eq_iff)

text \<open>A registration that succeeds leaves a consistent state.\<close>

lemma claimed_ok:
  assumes ok: "daemon_ok alive s" and none: "\<And>q. dd_handles s q = None" and al: "alive (PyInt pid)"
    and c: "claimed s p (lf_next_handle (dd_fs s)) i m t" and pid: "meta_pid m = Some (PyInt pid)"
  shows "daemon_ok alive t"
proof -
  let ?h = "lf_next_handle (dd_fs s)"
  note t = c [unfolded claimed_def]
  have f: "files_ok (dd_fs s)" using ok by (simp add: daemon_ok_def)
  note fl = nobody_open(2) [OF ok none] and op = nobody_open(1) [OF ok none]
  have "lf_path (dd_fs t) = Some j \<and> h' < lf_next_handle (dd_fs t)" if "lf_inode (dd_fs t) h' = Some j" for h' j
    using that t files_path [OF f, of h' j] files_new [OF f, of h' j] by (cases "h' = ?h") auto
  moreover have "lf_inode (dd_fs t) h' = Some j" if "lf_flock (dd_fs t) j = Some h'" for h' j
    using that t fl by (cases "j = i") simp_all
  ultimately have "files_ok (dd_fs t)" unfolding files_ok_def by blast
  moreover have "q = p \<and> h' = ?h" if "dd_handles t q = Some h'" for q h'
    using that t none by (simp split: if_splits)
  moreover have "registered_file (dd_fs t) ?h i pid" using t pid by (simp add: registered_file_def)
  moreover have "\<exists>q. dd_handles t q = Some h'" if "lf_inode (dd_fs t) h' = Some j" for h' j
    using that t op by (cases "h' = ?h") auto
  ultimately show ?thesis unfolding daemon_ok_def using al by blast
qed

text \<open>What every process then reads.\<close>

lemma registered_entry:
  assumes ok: "daemon_ok alive t" and h: "dd_handles t p = Some h" and i: "lf_path (dd_fs t) = Some i"
    and m: "lf_text (dd_fs t) i = Json (PyDict m)" "m \<noteq> []"
  shows "fst (live_entry q t) = Some (entry_from_metadata m Entry_running)"
proof -
  from registeredE [OF ok h] obtain j where j: "lf_path (dd_fs t) = Some j" "lf_flock (dd_fs t) j = Some h" by metis
  with i have fl: "lf_flock (dd_fs t) i \<noteq> None" by simp
  have f: "files_ok (dd_fs t)" using ok by (simp add: daemon_ok_def)
  have "fst (is_active b (dd_fs t))" for b
    using probe_keeps_locks [OF files_new [OF f files_flock [OF f]] i, where held = b] fl by simp
  then have "fst (daemon_lock_is_active q t)" by (simp add: daemon_lock_is_active_def split: prod.split) (metis fst_conv)
  then obtain u where "daemon_lock_is_active q t = (True, u)" by (cases "daemon_lock_is_active q t") simp
  then show ?thesis using i m
    by (simp add: live_entry_def daemon_metadata_def lenient_metadata_def read_metadata_def entry_from_metadata_def)
qed

text \<open>A refused one changes no lock, and nobody else's view.\<close>

lemma files_okI:
  assumes "\<And>h i. lf_inode f h = Some i \<Longrightarrow> lf_path f = Some i \<and> h < lf_next_handle f"
    and "\<And>i h. lf_flock f i = Some h \<Longrightarrow> lf_inode f h = Some i"
  shows "files_ok f"
  unfolding files_ok_def using assms by blast

lemma files_next: "files_ok f \<Longrightarrow> files_ok (f \<lparr>lf_next_handle := lf_next_handle f + 1\<rparr>)"
  by (rule files_okI) (simp_all add: files_path files_new files_flock less_SucI)

lemma busy_ok: "daemon_ok alive s \<Longrightarrow> daemon_ok alive (s \<lparr>dd_fs := (dd_fs s) \<lparr>lf_next_handle := lf_next_handle (dd_fs s) + 1\<rparr>\<rparr>)"
proof -
  assume ok: "daemon_ok alive s"
  then have "files_ok (dd_fs s)" by (simp add: daemon_ok_def)
  note files_next [OF this]
  moreover have "registered_file ((dd_fs s) \<lparr>lf_next_handle := n\<rparr>) = registered_file (dd_fs s)" for n
    by (simp add: registered_file_def fun_eq_iff)
  ultimately show "daemon_ok alive (s \<lparr>dd_fs := (dd_fs s) \<lparr>lf_next_handle := lf_next_handle (dd_fs s) + 1\<rparr>\<rparr>)"
    using ok unfolding daemon_ok_def by simp
qed

lemma register_busy:
  assumes ok: "daemon_ok alive s" and h: "dd_handles s q = Some h"
  obtains k where "alive (PyInt k)"
    "register_daemon alive now ws ldir p pid s = (Inl (Already_running (Some (PyInt k))),
       s \<lparr>dd_fs := (dd_fs s) \<lparr>lf_next_handle := lf_next_handle (dd_fs s) + 1\<rparr>\<rparr>)"
proof -
  from ok have f: "files_ok (dd_fs s)" by (simp add: daemon_ok_def)
  obtain i k m where i: "lf_path (dd_fs s) = Some i" "lf_inode (dd_fs s) h = Some i" "lf_flock (dd_fs s) i = Some h"
    "lf_text (dd_fs s) i = Json (PyDict m)" "meta_pid m = Some (PyInt k)" "alive (PyInt k)"
    by (rule registeredE [OF ok h])
  have n: "j < lf_next_handle (dd_fs s)" if "lf_inode (dd_fs s) j \<noteq> None" for j using that files_new [OF f] by blast
  have "register_daemon alive now ws ldir p pid s = (Inl (Already_running (meta_pid m)),
       s \<lparr>dd_fs := (dd_fs s) \<lparr>lf_next_handle := lf_next_handle (dd_fs s) + 1\<rparr>\<rparr>)"
    using claim_busy [OF i(1,3) files_new [OF f i(2)] i(4) n] live_not_removed [where alive = alive, OF i(1,4-6)]
    by (simp add: register_daemon_def)
  with that i(5,6) show thesis by simp
qed

lemma unlinked_ok: "daemon_ok alive s \<Longrightarrow> (\<And>q. dd_handles s q = None) \<Longrightarrow>
  daemon_ok alive (s \<lparr>dd_fs := snd (remove_stale_lockfile alive (dd_fs s))\<rparr>)"
proof -
  assume ok: "daemon_ok alive s" and none: "\<And>q. dd_handles s q = None"
  let ?s = "s \<lparr>dd_fs := snd (remove_stale_lockfile alive (dd_fs s))\<rparr>"
  have "lf_inode (dd_fs ?s) h = None" "lf_flock (dd_fs ?s) i = None" for h i
    using nobody_open [OF ok none] by (simp_all add: remove_stale_lockfile_def unlink_lock_def)
  moreover from this have "files_ok (dd_fs ?s)" by (intro files_okI) simp_all
  ultimately show "daemon_ok alive ?s" using none by (simp add: daemon_ok_def)
qed

section \<open>Properties\<close>

definition daemon_row :: "string \<Rightarrow> string \<Rightarrow> string \<Rightarrow> int \<Rightarrow> registry_row" where
  "daemon_row now ws ldir pid =
     \<lparr>rr_status = Entry_running, rr_pid = Some pid, rr_workspace = Some ws, rr_started_at = Some now,
      rr_heartbeat_at = Some (PyStr now), rr_log_dir = Some ldir\<rparr>"

lemma payload_row:
  "entry_from_metadata (daemon_payload now ws ldir pid) Entry_running = daemon_row now ws ldir pid"
  "meta_pid (daemon_payload now ws ldir pid) = Some (PyInt pid)" "daemon_payload now ws ldir pid \<noteq> []"
  by (simp_all add: daemon_payload_def create_base_metadata_def entry_from_metadata_def optional_text_field_def
      daemon_row_def meta_pid_def)

text \<open>C38: From a consistent registration, \<open>register\<close> refuses with the live owner's pid and keeps every lock,
  handle and the mirror when a daemon is registered; otherwise it succeeds, and then every process reads a
  running entry with exactly this pid, workspace, start time and log directory. Either way the
  registration stays consistent: one daemon at most, holding the flock of the file that names it.\<close>

theorem daemon_registers_once:
  assumes "daemon_ok alive s" "alive (PyInt pid)"
  shows "daemon_ok alive (snd (register_daemon alive now ws ldir p pid s)) \<and>
    (if \<exists>q. dd_handles s q \<noteq> None
     then \<exists>k. fst (register_daemon alive now ws ldir p pid s) = Inl (Already_running (Some (PyInt k))) \<and> alive (PyInt k) \<and>
        dd_handles (snd (register_daemon alive now ws ldir p pid s)) = dd_handles s \<and>
        lf_flock (dd_fs (snd (register_daemon alive now ws ldir p pid s))) = lf_flock (dd_fs s) \<and>
        dd_mirror (snd (register_daemon alive now ws ldir p pid s)) = dd_mirror s
     else fst (register_daemon alive now ws ldir p pid s) = Inr () \<and>
        (\<forall>q. fst (live_entry q (snd (register_daemon alive now ws ldir p pid s))) = Some (daemon_row now ws ldir pid)))"
proof (cases "\<exists>q. dd_handles s q \<noteq> None")
  case True
  then obtain q h where "dd_handles s q = Some h" by blast
  then obtain k where k: "alive (PyInt k)" and r: "register_daemon alive now ws ldir p pid s = (Inl (Already_running (Some (PyInt k))),
       s \<lparr>dd_fs := (dd_fs s) \<lparr>lf_next_handle := lf_next_handle (dd_fs s) + 1\<rparr>\<rparr>)"
    by (rule register_busy [OF assms(1)])
  from True k busy_ok [OF assms(1)] show ?thesis by (simp add: r)
next
  case False
  then have none: "dd_handles s q = None" for q by simp
  note ok = unlinked_ok [OF assms(1) none]
  let ?s = "s \<lparr>dd_fs := snd (remove_stale_lockfile alive (dd_fs s))\<rparr>"
  have none': "dd_handles ?s q = None" for q by (simp add: none)
  note fl = nobody_open(2) [OF ok none']
  obtain i t where r: "register_daemon alive now ws ldir p pid s = (Inr (), t)"
    and c: "claimed ?s p (lf_next_handle (dd_fs ?s)) i (daemon_payload now ws ldir pid) t"
    using claim_free [OF fl none'] unfolding register_daemon_def by blast
  note t = claimed_ok [OF ok none' assms(2) c payload_row(2)]
  have "fst (live_entry q t) = Some (entry_from_metadata (daemon_payload now ws ldir pid) Entry_running)" for q
    by (rule registered_entry [OF t, of p _ i]) (use c payload_row(3) in \<open>simp_all add: claimed_def\<close>)
  with t False show ?thesis by (simp add: r payload_row(1))
qed

text \<open>A workspace whose lock file names a process that died.\<close>

definition daemon_leftover :: daemon_sys where
  "daemon_leftover = \<lparr>dd_fs = gs_fs idle_guard, dd_handles = (\<lambda>_. None), dd_mirror = None\<rparr>"

definition alive_but_9 :: "pyval \<Rightarrow> bool" where
  "alive_but_9 p = (p \<noteq> PyInt 9)"

lemma daemon_leftover_ok: "daemon_ok alive_but_9 daemon_leftover"
  by (simp add: daemon_leftover_def daemon_ok_def files_ok_def idle_guard_def)

theorem daemon_registers_once_witness:
  "fst (register_daemon alive_but_9 ''now'' ''/w'' ''/l'' 1 4 daemon_leftover) = Inr () \<and>
   fst (live_entry 2 (snd (register_daemon alive_but_9 ''now'' ''/w'' ''/l'' 1 4 daemon_leftover))) =
     Some (daemon_row ''now'' ''/w'' ''/l'' 4)"
  using daemon_registers_once [OF daemon_leftover_ok, of 4 "''now''" "''/w''" "''/l''" 1]
  by (simp add: alive_but_9_def daemon_leftover_def)

text \<open>Unregistering frees the slot for everyone.\<close>

lemma unregister_frees:
  assumes ok: "daemon_ok alive s" and h: "dd_handles s p = Some h"
  shows "daemon_ok alive (unregister_daemon alive p None s)" "dd_handles (unregister_daemon alive p None s) q = None"
    "dd_mirror (unregister_daemon alive p None s) = None" "fst (daemon_metadata q (unregister_daemon alive p None s)) = None"
proof -
  obtain i k m where i: "lf_path (dd_fs s) = Some i" "lf_inode (dd_fs s) h = Some i" "lf_flock (dd_fs s) i = Some h"
    "lf_text (dd_fs s) i = Json (PyDict m)" "meta_pid m = Some (PyInt k)" "alive (PyInt k)"
    by (rule registeredE [OF ok h])
  have f: "files_ok (dd_fs s)" using ok by (simp add: daemon_ok_def)
  have others: "dd_handles s r = None" if "r \<noteq> p" for r
    using one_registered [OF ok h, of r] that by (cases "dd_handles s r") auto
  let ?t = "unregister_daemon alive p None s"
  have t: "?t = s \<lparr>dd_handles := (dd_handles s)(p := None), dd_fs := release h True (dd_fs s), dd_mirror := None\<rparr>"
    by (simp add: unregister_daemon_def h Let_def other_pid_def)
  have none: "dd_handles ?t r = None" for r using others by (simp add: t)
  have "lf_inode (dd_fs ?t) h' = None" for h'
  proof (cases "lf_inode (dd_fs s) h'")
    case (Some j)
    then obtain r where "dd_handles s r = Some h'" using ok unfolding daemon_ok_def by blast
    with one_registered [OF ok h this] show ?thesis by (simp add: t)
  qed (simp add: t)
  moreover have "files_ok (dd_fs ?t)" using f by (simp add: t release_files_ok)
  ultimately show "daemon_ok alive ?t" using none by (simp add: daemon_ok_def)
  show "dd_handles ?t q = None" by (rule none)
  show "dd_mirror ?t = None" by (simp add: t)
  have "lf_text (dd_fs ?t) i = Blank" by (simp add: t release_def clear_locked_metadata_def write_text_def i)
  then show "fst (daemon_metadata q ?t) = None"
    by (simp add: daemon_metadata_def lenient_metadata_def read_metadata_def t i)
qed

text \<open>The scan and the unlink of \<open>remove_stale_lockfile\<close> are not one step. Two processes that both read the
  dead owner's file: the second unlinks the file the first has just locked, and both are registered.\<close>

definition scan_and_unlink :: "daemon_sys \<Rightarrow> daemon_sys" where
  "scan_and_unlink s = s \<lparr>dd_fs := unlink_lock (dd_fs s)\<rparr>"

lemma stale_unlink_race:
  defines "s \<equiv> daemon_leftover"
  defines "a \<equiv> register_claim ''now'' ''/w'' ''/l'' 1 4 (scan_and_unlink s)"
  defines "b \<equiv> register_claim ''now'' ''/w'' ''/l'' 2 5 (scan_and_unlink (snd a))"
  shows "names_dead_owner alive_but_9 (dd_fs s)" "fst a = Inr ()" "fst b = Inr ()"
    "dd_handles (snd b) 1 = Some 0" "dd_handles (snd b) 2 = Some 1"
    "rr_pid (the (fst (live_entry 1 (snd b)))) = Some 5"
  by (simp_all add: s_def a_def b_def daemon_leftover_def idle_guard_def alive_but_9_def scan_and_unlink_def
      names_dead_owner_def lenient_metadata_def read_metadata_def meta_pid_def register_claim_def open_lock_def
      try_lock_def Let_def unlink_lock_def write_locked_metadata_def write_text_def live_entry_def daemon_metadata_def
      daemon_lock_is_active_def is_active_def daemon_lock_is_held_in_process_def create_base_metadata_def
      entry_from_metadata_def)

end
