(* ===== verification/Git_Ops.thy ===== *)
theory Git_Ops
  imports Prelude
begin

text \<open>
  \<open>litehive/git/ops.py\<close>, the only module that runs git. Git itself and the file system are the world
  a program acts on: the record \<open>world_env\<close> holds what running a command, looking at a path or copying
  a file does to it, as functions nothing is known about. A computation takes the world and the list of
  git commands run so far with their exit codes, and returns a result or the exception it raised. The
  list is history that only the theorems read. Each wrapper is one definition with the arguments, the
  exit codes and the error texts of the source.
\<close>

section \<open>Computations that run git\<close>

record git_proc =
  gp_code :: int
  gp_out :: string
  gp_err :: string

record git_call =
  gc_cwd :: string
  gc_args :: "string list"
  gc_code :: int
  gc_out :: string

record 'w world_env =
  we_git :: "string \<Rightarrow> string list \<Rightarrow> string option \<Rightarrow> 'w \<Rightarrow> git_proc \<times> 'w"
  we_exists :: "string \<Rightarrow> 'w \<Rightarrow> bool"
  we_is_symlink :: "string \<Rightarrow> 'w \<Rightarrow> bool"
  we_is_dir :: "string \<Rightarrow> 'w \<Rightarrow> bool"
  we_is_file :: "string \<Rightarrow> 'w \<Rightarrow> bool"
  we_resolve :: "string \<Rightarrow> 'w \<Rightarrow> string"
  we_expanduser :: "string \<Rightarrow> 'w \<Rightarrow> string"
  we_mkdir :: "string \<Rightarrow> 'w \<Rightarrow> string option \<times> 'w"
  we_copytree :: "string \<Rightarrow> string \<Rightarrow> 'w \<Rightarrow> string option \<times> 'w"
  we_copy2 :: "string \<Rightarrow> string \<Rightarrow> 'w \<Rightarrow> string option \<times> 'w"

datatype git_exn = GitError string | Conflict_exn "string list" | Other_exn string

record 'w gw =
  gw_world :: 'w
  gw_calls :: "git_call list"

type_synonym ('w, 'a) git_m = "'w gw \<Rightarrow> (git_exn + 'a) \<times> 'w gw"

definition g_ret :: "'a \<Rightarrow> ('w, 'a) git_m" where
  "g_ret x s = (Inr x, s)"

definition g_raise :: "git_exn \<Rightarrow> ('w, 'a) git_m" where
  "g_raise e s = (Inl e, s)"

definition g_bind :: "('w, 'a) git_m \<Rightarrow> ('a \<Rightarrow> ('w, 'b) git_m) \<Rightarrow> ('w, 'b) git_m" where
  "g_bind m k s = (case m s of (Inl e, s1) \<Rightarrow> (Inl e, s1) | (Inr x, s1) \<Rightarrow> k x s1)"

definition g_catch :: "('w, 'a) git_m \<Rightarrow> (git_exn \<Rightarrow> ('w, 'a) git_m) \<Rightarrow> ('w, 'a) git_m" where
  "g_catch m h s = (case m s of (Inl e, s1) \<Rightarrow> h e s1 | (Inr x, s1) \<Rightarrow> (Inr x, s1))"

text \<open>A look at the world, and an action of the file system that may raise.\<close>

definition g_look :: "('w \<Rightarrow> 'a) \<Rightarrow> ('w, 'a) git_m" where
  "g_look f s = (Inr (f (gw_world s)), s)"

definition g_act :: "('w \<Rightarrow> string option \<times> 'w) \<Rightarrow> ('w, unit) git_m" where
  "g_act f s =
     (case f (gw_world s) of (None, w) \<Rightarrow> (Inr (), s \<lparr>gw_world := w\<rparr>)
      | (Some msg, w) \<Rightarrow> (Inl (Other_exn msg), s \<lparr>gw_world := w\<rparr>))"

fun g_map :: "('a \<Rightarrow> ('w, 'b) git_m) \<Rightarrow> 'a list \<Rightarrow> ('w, 'b list) git_m" where
  "g_map f [] = g_ret []"
| "g_map f (x # xs) = g_bind (f x) (\<lambda>y. g_bind (g_map f xs) (\<lambda>ys. g_ret (y # ys)))"

definition g_filter :: "('a \<Rightarrow> ('w, bool) git_m) \<Rightarrow> 'a list \<Rightarrow> ('w, 'a list) git_m" where
  "g_filter p xs =
     g_bind (g_map (\<lambda>x. g_bind (p x) (\<lambda>b. g_ret (b, x))) xs) (\<lambda>ys. g_ret (map snd (List.filter fst ys)))"

section \<open>Output text\<close>

definition is_newline :: "char \<Rightarrow> bool" where
  "is_newline c = ((of_char c :: nat) \<in> {10, 11, 12, 13, 28, 29, 30, 133})"

definition nl :: char where "nl = char_of (10 :: nat)"

definition cr :: char where "cr = char_of (13 :: nat)"

definition tab :: char where "tab = char_of (9 :: nat)"

fun unify_crlf :: "string \<Rightarrow> string" where
  "unify_crlf [] = []"
| "unify_crlf [c] = [c]"
| "unify_crlf (c # d # s) = (if c = cr \<and> d = nl then nl # unify_crlf s else c # unify_crlf (d # s))"

fun splitlines_go :: "string \<Rightarrow> string \<Rightarrow> string list" where
  "splitlines_go acc [] = (if acc = [] then [] else [rev acc])"
| "splitlines_go acc (c # s) = (if is_newline c then rev acc # splitlines_go [] s else splitlines_go (c # acc) s)"

definition splitlines :: "string \<Rightarrow> string list" where
  "splitlines s = splitlines_go [] (unify_crlf s)"

definition nonblank_lines :: "string \<Rightarrow> string list" where
  "nonblank_lines s = List.filter (\<lambda>l. py_strip l \<noteq> []) (splitlines s)"

definition stripped_lines :: "string \<Rightarrow> string list" where
  "stripped_lines s = map py_strip (nonblank_lines s)"

definition opt_text :: "string \<Rightarrow> string option" where
  "opt_text s = (if s = [] then None else Some s)"

text \<open>\<open>s.partition(c)\<close> on one character: before, found, after.\<close>

definition py_partition :: "char \<Rightarrow> string \<Rightarrow> string \<times> bool \<times> string" where
  "py_partition c s = (takeWhile (\<lambda>d. d \<noteq> c) s, c \<in> set s, drop 1 (dropWhile (\<lambda>d. d \<noteq> c) s))"

text \<open>\<open>proc.stderr.strip() or proc.stdout.strip()\<close>.\<close>

definition proc_text :: "git_proc \<Rightarrow> string" where
  "proc_text p = str_or (py_strip (gp_err p)) (py_strip (gp_out p))"

section \<open>Running git\<close>

definition run_git_input :: "'w world_env \<Rightarrow> string \<Rightarrow> string list \<Rightarrow> string option \<Rightarrow> ('w, git_proc) git_m" where
  "run_git_input env cwd args input s =
     (let (p, w) = we_git env cwd args input (gw_world s)
      in (Inr p, s \<lparr>gw_world := w, gw_calls := gw_calls s @ [\<lparr>gc_cwd = cwd, gc_args = args, gc_code = gp_code p, gc_out = gp_out p\<rparr>]\<rparr>))"

definition run_git :: "'w world_env \<Rightarrow> string \<Rightarrow> string list \<Rightarrow> ('w, git_proc) git_m" where
  "run_git env cwd args = run_git_input env cwd args None"

text \<open>\<open>(True, stdout)\<close> on success, \<open>(False, stderr or stdout)\<close> on failure.\<close>

definition git_try :: "'w world_env \<Rightarrow> string \<Rightarrow> string list \<Rightarrow> ('w, bool \<times> string) git_m" where
  "git_try env cwd args =
     g_bind (run_git env cwd args) (\<lambda>p. g_ret (if gp_code p = 0 then (True, gp_out p) else (False, proc_text p)))"

text \<open>Best effort: the result is ignored.\<close>

definition git_quiet :: "'w world_env \<Rightarrow> string \<Rightarrow> string list \<Rightarrow> ('w, unit) git_m" where
  "git_quiet env cwd args = g_bind (run_git env cwd args) (\<lambda>_. g_ret ())"

section \<open>Probes\<close>

definition is_git_repo :: "'w world_env \<Rightarrow> string \<Rightarrow> ('w, bool) git_m" where
  "is_git_repo env repo =
     g_bind (run_git env repo [''rev-parse'', ''--is-inside-work-tree''])
       (\<lambda>p. g_ret (gp_code p = 0 \<and> py_strip (gp_out p) = ''true''))"

definition has_changes :: "'w world_env \<Rightarrow> string \<Rightarrow> ('w, bool) git_m" where
  "has_changes env repo =
     g_bind (run_git env repo [''status'', ''--porcelain'']) (\<lambda>p. g_ret (gp_code p = 0 \<and> py_strip (gp_out p) \<noteq> []))"

definition status_porcelain :: "'w world_env \<Rightarrow> string \<Rightarrow> ('w, string list) git_m" where
  "status_porcelain env repo =
     g_bind (run_git env repo [''status'', ''--porcelain'', ''--untracked-files=all''])
       (\<lambda>p. if gp_code p \<noteq> 0 then g_raise (GitError (str_or (py_strip (gp_err p)) ''git status failed''))
            else g_ret (nonblank_lines (gp_out p)))"

definition has_non_litehive_changes :: "'w world_env \<Rightarrow> string \<Rightarrow> ('w, bool) git_m" where
  "has_non_litehive_changes env repo =
     g_bind (status_porcelain env repo)
       (\<lambda>ls. g_ret (\<exists>l \<in> set ls. drop 3 l \<noteq> [] \<and> \<not> starts_with (drop 3 l) ''.litehive/''))"

definition current_head :: "'w world_env \<Rightarrow> string \<Rightarrow> ('w, string option) git_m" where
  "current_head env repo =
     g_bind (run_git env repo [''rev-parse'', ''--verify'', ''HEAD''])
       (\<lambda>p. g_ret (if gp_code p \<noteq> 0 then None else opt_text (py_strip (gp_out p))))"

definition rev_parse_verify :: "'w world_env \<Rightarrow> string \<Rightarrow> string \<Rightarrow> ('w, string option) git_m" where
  "rev_parse_verify env cwd ref =
     g_bind (run_git env cwd [''rev-parse'', ''--verify'', ref])
       (\<lambda>p. g_ret (if gp_code p \<noteq> 0 then None else opt_text (py_strip (gp_out p))))"

definition list_remote_names :: "'w world_env \<Rightarrow> string \<Rightarrow> ('w, string list) git_m" where
  "list_remote_names env cwd =
     g_bind (run_git env cwd [''remote'']) (\<lambda>p. g_ret (if gp_code p \<noteq> 0 then [] else py_split (gp_out p)))"

definition git_fetch :: "'w world_env \<Rightarrow> string \<Rightarrow> string \<Rightarrow> string list \<Rightarrow> ('w, bool \<times> string) git_m" where
  "git_fetch env cwd remote refs =
     g_bind (run_git env cwd ([''fetch'', remote] @ refs)) (\<lambda>p. g_ret (gp_code p = 0, py_strip (gp_err p)))"

definition remote_url :: "'w world_env \<Rightarrow> string \<Rightarrow> string \<Rightarrow> ('w, string option) git_m" where
  "remote_url env cwd remote =
     g_bind (run_git env cwd [''remote'', ''get-url'', remote])
       (\<lambda>p. g_ret (if gp_code p \<noteq> 0 then None else opt_text (py_strip (gp_out p))))"

definition head_sha_strict :: "'w world_env \<Rightarrow> string \<Rightarrow> ('w, string) git_m" where
  "head_sha_strict env cwd =
     g_bind (run_git env cwd [''rev-parse'', ''HEAD''])
       (\<lambda>p. if gp_code p \<noteq> 0 then g_raise (GitError (''cannot read HEAD at '' @ cwd @ '': '' @ py_strip (gp_err p)))
            else g_ret (py_strip (gp_out p)))"

definition current_branch :: "'w world_env \<Rightarrow> string \<Rightarrow> ('w, string option) git_m" where
  "current_branch env cwd =
     g_bind (run_git env cwd [''symbolic-ref'', ''--quiet'', ''--short'', ''HEAD''])
       (\<lambda>p. g_ret (if gp_code p \<noteq> 0 then None else opt_text (py_strip (gp_out p))))"

definition index_has_staged_changes :: "'w world_env \<Rightarrow> string \<Rightarrow> ('w, bool) git_m" where
  "index_has_staged_changes env cwd =
     g_bind (run_git env cwd [''diff'', ''--cached'', ''--quiet'', ''--exit-code''])
       (\<lambda>p. if gp_code p = 0 then g_ret False else if gp_code p = 1 then g_ret True
            else g_raise (GitError (''git diff --cached failed in '' @ cwd @ '': '' @ proc_text p)))"

definition cherry_check :: "'w world_env \<Rightarrow> string \<Rightarrow> string \<Rightarrow> string \<Rightarrow> ('w, string list option) git_m" where
  "cherry_check env cwd upstream head =
     g_bind (run_git env cwd [''cherry'', upstream, head])
       (\<lambda>p. g_ret (if gp_code p \<noteq> 0 then None else Some (stripped_lines (gp_out p))))"

definition status_porcelain_with_options :: "'w world_env \<Rightarrow> string \<Rightarrow> bool \<Rightarrow> ('w, string list) git_m" where
  "status_porcelain_with_options env cwd include_ignored =
     g_bind (run_git env cwd
         ([''status'', ''--porcelain''] @ (if include_ignored then [''--ignored'', ''--untracked-files=all''] else [])))
       (\<lambda>p. if gp_code p \<noteq> 0 then g_raise (GitError (''git status failed in '' @ cwd @ '': '' @ proc_text p))
            else g_ret (nonblank_lines (gp_out p)))"

definition is_path_tracked :: "'w world_env \<Rightarrow> string \<Rightarrow> string \<Rightarrow> ('w, bool) git_m" where
  "is_path_tracked env cwd path =
     g_bind (run_git env cwd [''ls-files'', ''--error-unmatch'', ''--'', path]) (\<lambda>p. g_ret (gp_code p = 0))"

definition check_ignore :: "'w world_env \<Rightarrow> string \<Rightarrow> string \<Rightarrow> ('w, bool) git_m" where
  "check_ignore env cwd path =
     g_bind (run_git env cwd [''check-ignore'', ''--quiet'', ''--no-index'', ''--'', path])
       (\<lambda>p. if gp_code p = 0 then g_ret True else if gp_code p = 1 then g_ret False
            else g_raise (GitError (''git check-ignore failed in '' @ cwd @ '': '' @ proc_text p)))"

definition stdout_or_none :: "'w world_env \<Rightarrow> string \<Rightarrow> string list \<Rightarrow> ('w, string option) git_m" where
  "stdout_or_none env cwd args =
     g_bind (run_git env cwd args) (\<lambda>p. g_ret (if gp_code p \<noteq> 0 then None else opt_text (py_strip (gp_out p))))"

definition stdout_lines :: "'w world_env \<Rightarrow> string \<Rightarrow> string list \<Rightarrow> ('w, string list) git_m" where
  "stdout_lines env cwd args =
     g_bind (stdout_or_none env cwd args) (\<lambda>v. g_ret (case v of None \<Rightarrow> [] | Some t \<Rightarrow> stripped_lines t))"

definition path_differs_at_ref :: "'w world_env \<Rightarrow> string \<Rightarrow> string \<Rightarrow> string \<Rightarrow> ('w, bool) git_m" where
  "path_differs_at_ref env cwd ref path =
     g_bind (run_git env cwd [''diff'', ''--quiet'', ref, ''--'', path])
       (\<lambda>p. if gp_code p = 0 then g_ret False else if gp_code p = 1 then g_ret True
            else g_raise (GitError (str_or (py_strip (gp_err p)) (''git diff --quiet failed for '' @ path))))"

definition list_worktrees_porcelain :: "'w world_env \<Rightarrow> string \<Rightarrow> ('w, string) git_m" where
  "list_worktrees_porcelain env repo =
     g_bind (run_git env repo [''worktree'', ''list'', ''--porcelain''])
       (\<lambda>p. if gp_code p \<noteq> 0 then g_raise (GitError (''git worktree list failed: '' @ proc_text p))
            else g_ret (gp_out p))"

definition name_status_line :: "string \<Rightarrow> (string \<times> string) list" where
  "name_status_line l =
     (let (status, _, path) = py_partition tab l in if py_strip l = [] \<or> path = [] then [] else [(status, path)])"

definition diff_name_status :: "'w world_env \<Rightarrow> string \<Rightarrow> string list \<Rightarrow> ('w, (string \<times> string) list) git_m" where
  "diff_name_status env cwd args =
     g_bind (run_git env cwd ([''diff'', ''--name-status''] @ args))
       (\<lambda>p. if gp_code p \<noteq> 0 then g_raise (GitError (str_or (py_strip (gp_err p)) ''git diff --name-status failed''))
            else g_ret (concat (map name_status_line (splitlines (gp_out p)))))"

definition path_exists_in_ref :: "'w world_env \<Rightarrow> string \<Rightarrow> string \<Rightarrow> string \<Rightarrow> ('w, bool) git_m" where
  "path_exists_in_ref env cwd ref path =
     g_bind (run_git env cwd [''cat-file'', ''-e'', ref @ '':'' @ path]) (\<lambda>p. g_ret (gp_code p = 0))"

definition show_at_ref :: "'w world_env \<Rightarrow> string \<Rightarrow> string \<Rightarrow> string \<Rightarrow> ('w, string) git_m" where
  "show_at_ref env cwd ref path =
     g_bind (run_git env cwd [''show'', ref @ '':'' @ path])
       (\<lambda>p. if gp_code p \<noteq> 0
            then g_raise (GitError (str_or (py_strip (gp_err p)) (''git show '' @ ref @ '':'' @ path @ '' failed'')))
            else g_ret (gp_out p))"

definition unmerged_files :: "'w world_env \<Rightarrow> string \<Rightarrow> ('w, string list) git_m" where
  "unmerged_files env cwd =
     g_bind (run_git env cwd [''diff'', ''--name-only'', ''--diff-filter=U'']) (\<lambda>p. g_ret (stripped_lines (gp_out p)))"

definition is_ancestor :: "'w world_env \<Rightarrow> string \<Rightarrow> string \<Rightarrow> string \<Rightarrow> ('w, bool) git_m" where
  "is_ancestor env repo ancestor descendant =
     g_bind (run_git env repo [''merge-base'', ''--is-ancestor'', ancestor, descendant])
       (\<lambda>p. if gp_code p = 0 then g_ret True else if gp_code p = 1 then g_ret False
            else g_raise (GitError (str_or (py_strip (gp_err p)) ''git merge-base --is-ancestor failed'')))"

section \<open>Mutations\<close>

definition delete_branch :: "'w world_env \<Rightarrow> string \<Rightarrow> string \<Rightarrow> ('w, unit) git_m" where
  "delete_branch env cwd branch = git_quiet env cwd [''branch'', ''-D'', branch]"

definition cherry_pick_no_commit :: "'w world_env \<Rightarrow> string \<Rightarrow> string \<Rightarrow> ('w, bool \<times> string) git_m" where
  "cherry_pick_no_commit env cwd sha = git_try env cwd [''cherry-pick'', ''--no-commit'', sha]"

definition cherry_pick_abort :: "'w world_env \<Rightarrow> string \<Rightarrow> ('w, unit) git_m" where
  "cherry_pick_abort env cwd = git_quiet env cwd [''cherry-pick'', ''--abort'']"

definition commit_reuse_message :: "'w world_env \<Rightarrow> string \<Rightarrow> string \<Rightarrow> ('w, bool \<times> string) git_m" where
  "commit_reuse_message env cwd sha = git_try env cwd [''commit'', ''--reuse-message'', sha]"

definition add_paths :: "'w world_env \<Rightarrow> string \<Rightarrow> string list \<Rightarrow> bool \<Rightarrow> ('w, unit) git_m" where
  "add_paths env cwd paths all_flag =
     g_bind (run_git env cwd ([''add''] @ (if all_flag then [''--all''] else []) @ [''--''] @ paths))
       (\<lambda>p. if gp_code p \<noteq> 0 then g_raise (GitError (''git add failed in '' @ cwd @ '': '' @ proc_text p)) else g_ret ())"

definition commit_with_message_stdin :: "'w world_env \<Rightarrow> string \<Rightarrow> string \<Rightarrow> ('w, unit) git_m" where
  "commit_with_message_stdin env cwd message =
     g_bind (run_git_input env cwd [''commit'', ''-F'', ''-''] (Some message))
       (\<lambda>p. if gp_code p \<noteq> 0 then g_raise (GitError (''git commit failed in '' @ cwd @ '': '' @ proc_text p)) else g_ret ())"

definition commit_no_edit :: "'w world_env \<Rightarrow> string \<Rightarrow> ('w, unit) git_m" where
  "commit_no_edit env cwd =
     g_bind (run_git env cwd [''commit'', ''--no-edit''])
       (\<lambda>p. if gp_code p \<noteq> 0
            then g_raise (GitError (''git commit --no-edit failed in '' @ cwd @ '': '' @ proc_text p)) else g_ret ())"

definition add_worktree :: "'w world_env \<Rightarrow> string \<Rightarrow> string \<Rightarrow> string \<Rightarrow> ('w, unit) git_m" where
  "add_worktree env repo path ref =
     g_bind (run_git env repo [''worktree'', ''add'', ''--detach'', path, ref])
       (\<lambda>p. if gp_code p \<noteq> 0 then g_raise (GitError (str_or (py_strip (gp_err p)) ''git worktree add failed'')) else g_ret ())"

definition prune_worktrees :: "'w world_env \<Rightarrow> string \<Rightarrow> bool \<Rightarrow> ('w, unit) git_m" where
  "prune_worktrees env repo expire_now =
     g_bind (run_git env repo ([''worktree'', ''prune''] @ (if expire_now then [''--expire'', ''now''] else [])))
       (\<lambda>p. if gp_code p \<noteq> 0 then g_raise (GitError (str_or (py_strip (gp_err p)) ''git worktree prune failed'')) else g_ret ())"

definition add_worktree_branch ::
  "'w world_env \<Rightarrow> string \<Rightarrow> string \<Rightarrow> string \<Rightarrow> string \<Rightarrow> bool \<Rightarrow> ('w, unit) git_m" where
  "add_worktree_branch env repo branch path ref force =
     g_bind (run_git env repo ([''worktree'', ''add''] @ (if force then [''--force''] else []) @ [''-B'', branch, path, ref]))
       (\<lambda>p. if gp_code p \<noteq> 0 then g_raise (GitError (''git worktree add failed: '' @ proc_text p)) else g_ret ())"

definition checkout_ref :: "'w world_env \<Rightarrow> string \<Rightarrow> string \<Rightarrow> ('w, bool) git_m" where
  "checkout_ref env cwd ref = g_bind (run_git env cwd [''checkout'', ref]) (\<lambda>p. g_ret (gp_code p = 0))"

definition stash_push ::
  "'w world_env \<Rightarrow> string \<Rightarrow> string \<Rightarrow> bool \<Rightarrow> string list \<Rightarrow> ('w, bool \<times> string) git_m" where
  "stash_push env cwd message include_untracked paths =
     git_try env cwd ([''stash'', ''push''] @ (if include_untracked then [''-u''] else []) @ [''-m'', message] @
       (if paths = [] then [] else ''--'' # paths))"

definition stash_apply :: "'w world_env \<Rightarrow> string \<Rightarrow> string \<Rightarrow> ('w, bool \<times> string) git_m" where
  "stash_apply env cwd ref = git_try env cwd [''stash'', ''apply'', ref]"

definition stash_drop :: "'w world_env \<Rightarrow> string \<Rightarrow> string \<Rightarrow> ('w, unit) git_m" where
  "stash_drop env cwd ref = git_quiet env cwd [''stash'', ''drop'', ref]"

definition checkout_ours :: "'w world_env \<Rightarrow> string \<Rightarrow> string list \<Rightarrow> ('w, unit) git_m" where
  "checkout_ours env cwd paths =
     (if paths = [] then g_ret () else git_quiet env cwd ([''checkout'', ''--ours'', ''--''] @ paths))"

definition restore_paths ::
  "'w world_env \<Rightarrow> string \<Rightarrow> string list \<Rightarrow> string \<Rightarrow> bool \<Rightarrow> bool \<Rightarrow> ('w, unit) git_m" where
  "restore_paths env cwd paths source staged worktree =
     (if paths = [] then g_ret ()
      else git_quiet env cwd ([''restore'', ''--source='' @ source] @ (if staged then [''--staged''] else []) @
        (if worktree then [''--worktree''] else []) @ [''--''] @ paths))"

definition stash_pop :: "'w world_env \<Rightarrow> string \<Rightarrow> string option \<Rightarrow> bool \<Rightarrow> ('w, bool \<times> string) git_m" where
  "stash_pop env cwd ref with_index =
     git_try env cwd ([''stash'', ''pop''] @ (if with_index then [''--index''] else []) @
       (case ref of None \<Rightarrow> [] | Some r \<Rightarrow> [r]))"

definition merge_no_edit :: "'w world_env \<Rightarrow> string \<Rightarrow> string \<Rightarrow> ('w, bool \<times> string) git_m" where
  "merge_no_edit env cwd ref = git_try env cwd [''merge'', ref, ''--no-edit'']"

definition merge_abort :: "'w world_env \<Rightarrow> string \<Rightarrow> ('w, unit) git_m" where
  "merge_abort env cwd = git_quiet env cwd [''merge'', ''--abort'']"

definition remove_worktree :: "'w world_env \<Rightarrow> string \<Rightarrow> string \<Rightarrow> bool \<Rightarrow> ('w, unit) git_m" where
  "remove_worktree env repo path force =
     g_bind (run_git env repo ([''worktree'', ''remove''] @ (if force then [''--force''] else []) @ [path]))
       (\<lambda>p. if gp_code p \<noteq> 0 then g_raise (GitError (str_or (py_strip (gp_err p)) ''git worktree remove failed'')) else g_ret ())"

section \<open>Compound operations\<close>

text \<open>\<open>rebase_worktree_onto\<close>: stash, rebase, pop. When the pop fails after a rebase that went through, the
  abort has nothing to undo.\<close>

definition rebase_worktree_onto :: "'w world_env \<Rightarrow> string \<Rightarrow> string \<Rightarrow> ('w, bool) git_m" where
  "rebase_worktree_onto env worktree target_ref =
     g_bind (has_changes env worktree) (\<lambda>had_changes.
     g_bind (if had_changes
             then g_bind (run_git env worktree [''stash'', ''push'', ''-u'', ''-m'', ''litehive-rebase-temp''])
               (\<lambda>p. g_ret (gp_code p = 0))
             else g_ret True) (\<lambda>stashed.
     if \<not> stashed then g_ret False
     else g_bind (run_git env worktree [''rebase'', target_ref]) (\<lambda>rebase.
       if gp_code rebase \<noteq> 0
       then g_bind (git_quiet env worktree [''rebase'', ''--abort'']) (\<lambda>_.
            g_bind (if had_changes then git_quiet env worktree [''stash'', ''pop''] else g_ret ()) (\<lambda>_. g_ret False))
       else if had_changes
       then g_bind (run_git env worktree [''stash'', ''pop'']) (\<lambda>pop.
            if gp_code pop \<noteq> 0
            then g_bind (git_quiet env worktree [''rebase'', ''--abort'']) (\<lambda>_. g_ret False)
            else g_ret True)
       else g_ret True)))"

definition divergence_message :: "string \<Rightarrow> string \<Rightarrow> string" where
  "divergence_message local_sha remote_sha =
     ''local main ('' @ take 8 local_sha @ '') and origin/main ('' @ take 8 remote_sha @ '') have diverged. '' @
     ''Manual reconciliation required: run `git fetch origin main`, inspect '' @
     ''`git log --oneline --left-right main...origin/main`, then rebase, reset, or merge '' @
     ''before restarting the pool.''"

definition check_origin_divergence :: "'w world_env \<Rightarrow> string \<Rightarrow> ('w, string option) git_m" where
  "check_origin_divergence env workspace =
     g_bind (g_look (we_exists env (workspace @ ''/.git''))) (\<lambda>is_repo.
     if \<not> is_repo then g_ret None else
     g_bind (list_remote_names env workspace) (\<lambda>remotes.
     if ''origin'' \<notin> set remotes then g_ret None else
     g_bind (git_fetch env workspace ''origin'' [''main'']) (\<lambda>(ok, _).
     if \<not> ok then g_ret None else
     g_bind (rev_parse_verify env workspace ''main'') (\<lambda>local_sha.
     g_bind (rev_parse_verify env workspace ''origin/main'') (\<lambda>remote_sha.
     case (local_sha, remote_sha) of
       (Some l, Some r) \<Rightarrow>
         if l = r then g_ret None else
         g_bind (is_ancestor env workspace l r) (\<lambda>behind.
         if behind then g_ret None else
         g_bind (is_ancestor env workspace r l) (\<lambda>ahead.
         g_ret (if ahead then None else Some (divergence_message l r))))
     | _ \<Rightarrow> g_ret None)))))"

section \<open>Commit messages\<close>

text \<open>The fields of a task record the messages quote.\<close>

record commit_task =
  ct_id :: string
  ct_title :: string
  ct_slug :: string
  ct_goal :: string
  ct_acceptance :: "string list"
  ct_commit_message :: "string option"
  ct_checkpoint_attempts :: int

definition default_commit_message :: "string \<Rightarrow> string \<Rightarrow> string" where
  "default_commit_message task_id slug = ''litehive: complete '' @ task_id @ '' '' @ slug"

definition clean_commit_text :: "string \<Rightarrow> string" where
  "clean_commit_text v = py_strip (py_join [nl] (map py_rstrip (splitlines (py_strip v))))"

definition acceptance_criteria_bullets :: "string list \<Rightarrow> string list" where
  "acceptance_criteria_bullets cs =
     map (\<lambda>c. ''- '' @ c) (List.filter (\<lambda>c. c \<noteq> []) (map clean_commit_text cs))"

definition metadata_body :: "commit_task \<Rightarrow> string list" where
  "metadata_body t =
     (let goal = clean_commit_text (ct_goal t) in
      [''Task: '' @ ct_id t, ''Title: '' @ ct_title t] @
      (if goal = [] then [] else [[], ''Goal:'', goal]) @
      (if ct_acceptance t = [] then []
       else [[], ''Acceptance criteria:''] @ acceptance_criteria_bullets (ct_acceptance t)))"

definition generated_completion_commit_message :: "commit_task \<Rightarrow> string option \<Rightarrow> string" where
  "generated_completion_commit_message t detail =
     py_join [nl] ([''litehive '' @ ct_id t @ '': '' @ ct_title t, []] @ metadata_body t @
       (case detail of None \<Rightarrow> [] | Some d \<Rightarrow> if d = [] then [] else [[], ''Commit detail: '' @ d]))"

definition with_attempt_suffix :: "string \<Rightarrow> int \<Rightarrow> string" where
  "with_attempt_suffix message attempt =
     (let (subject, found, body) = py_partition nl message
      in subject @ '' (attempt '' @ int_str attempt @ '')'' @ (if found then [nl] else []) @ body)"

definition uses_generated_commit_message :: "commit_task \<Rightarrow> bool" where
  "uses_generated_commit_message t =
     (case ct_commit_message t of None \<Rightarrow> True | Some m \<Rightarrow> m = default_commit_message (ct_id t) (ct_slug t))"

definition checkpoint_message :: "commit_task \<Rightarrow> int option \<Rightarrow> string" where
  "checkpoint_message t attempt =
     (let base = (if uses_generated_commit_message t then generated_completion_commit_message t None
                  else opt_str_or (ct_commit_message t) (default_commit_message (ct_id t) (ct_slug t)));
          n = (case attempt of None \<Rightarrow> ct_checkpoint_attempts t + 1
               | Some a \<Rightarrow> if a = 0 then ct_checkpoint_attempts t + 1 else a)
      in if n > 1 \<and> uses_generated_commit_message t then with_attempt_suffix base n else base)"

section \<open>Reasoning about computations\<close>

text \<open>A computation that returns has made only calls that satisfy \<open>P\<close>, and kept the history before them.\<close>

definition g_calls :: "(git_call \<Rightarrow> bool) \<Rightarrow> ('w, 'a) git_m \<Rightarrow> bool" where
  "g_calls P m = (\<forall>s x s'. m s = (Inr x, s') \<longrightarrow> (\<exists>cs. gw_calls s' = gw_calls s @ cs \<and> (\<forall>c \<in> set cs. P c)))"

named_theorems git_calls \<open>what the calls of a computation satisfy\<close>

lemma bind_Inr:
  "g_bind m k s = (Inr y, s') \<longleftrightarrow> (\<exists>x s1. m s = (Inr x, s1) \<and> k x s1 = (Inr y, s'))"
  by (auto simp: g_bind_def split: prod.splits sum.splits)

lemma ret_Inr: "g_ret x s = (Inr y, s') \<longleftrightarrow> y = x \<and> s' = s"
  and raise_Inr: "g_raise e s = (Inr y, s') \<longleftrightarrow> False"
  and look_Inr: "g_look f s = (Inr z, s') \<longleftrightarrow> z = f (gw_world s) \<and> s' = s"
  by (auto simp: g_ret_def g_raise_def g_look_def)

lemma run_Inr:
  "run_git_input env cwd args input s = (Inr p, s') \<longleftrightarrow>
    (\<exists>w. we_git env cwd args input (gw_world s) = (p, w) \<and>
      s' = s \<lparr>gw_world := w, gw_calls := gw_calls s @ [\<lparr>gc_cwd = cwd, gc_args = args, gc_code = gp_code p, gc_out = gp_out p\<rparr>]\<rparr>)"
  by (auto simp: run_git_input_def split: prod.splits)

lemmas git_results = bind_Inr ret_Inr raise_Inr look_Inr

lemma calls_ret [git_calls]: "g_calls P (g_ret x)"
  and calls_raise [git_calls]: "g_calls P (g_raise e)"
  and calls_look [git_calls]: "g_calls P (g_look f)"
  by (simp_all add: g_calls_def git_results)

lemma calls_act [git_calls]: "g_calls P (g_act f)"
  by (simp add: g_calls_def g_act_def split: prod.split option.split)

lemma calls_run_input: "(\<And>n t. P \<lparr>gc_cwd = cwd, gc_args = args, gc_code = n, gc_out = t\<rparr>) \<Longrightarrow> g_calls P (run_git_input env cwd args input)"
  by (auto simp: g_calls_def run_Inr)

lemma calls_run [git_calls]: "(\<And>n t. P \<lparr>gc_cwd = cwd, gc_args = args, gc_code = n, gc_out = t\<rparr>) \<Longrightarrow> g_calls P (run_git env cwd args)"
  unfolding run_git_def by (rule calls_run_input)

lemma calls_bind [git_calls]:
  assumes "g_calls P m" "\<And>x. g_calls P (k x)"
  shows "g_calls P (g_bind m k)"
  unfolding g_calls_def
proof (intro allI impI)
  fix s y s' assume "g_bind m k s = (Inr y, s')"
  then obtain x s1 where "m s = (Inr x, s1)" "k x s1 = (Inr y, s')" by (auto simp: bind_Inr)
  with assms obtain cs ds where "gw_calls s1 = gw_calls s @ cs" "\<forall>c \<in> set cs. P c"
    "gw_calls s' = gw_calls s1 @ ds" "\<forall>c \<in> set ds. P c"
    unfolding g_calls_def by meson
  then show "\<exists>cs. gw_calls s' = gw_calls s @ cs \<and> (\<forall>c \<in> set cs. P c)" by (intro exI [of _ "cs @ ds"]) auto
qed

lemma calls_if [git_calls]: "(c \<Longrightarrow> g_calls P a) \<Longrightarrow> (\<not> c \<Longrightarrow> g_calls P b) \<Longrightarrow> g_calls P (if c then a else b)"
  by simp

lemma calls_map [git_calls]: "(\<And>x. g_calls P (f x)) \<Longrightarrow> g_calls P (g_map f xs)"
  by (induction xs) (simp_all add: git_calls)

lemma calls_filter [git_calls]: "(\<And>x. g_calls P (p x)) \<Longrightarrow> g_calls P (g_filter p xs)"
  by (simp add: g_filter_def git_calls)

lemma callsD:
  "g_calls P m \<Longrightarrow> m s = (Inr x, s') \<Longrightarrow> \<exists>cs. gw_calls s' = gw_calls s @ cs \<and> (\<forall>c \<in> set cs. P c)"
  unfolding g_calls_def by blast

text \<open>The call a wrapper that returned has left in the history.\<close>

lemma current_head_Inr:
  "current_head env cwd s = (Inr h, s') \<Longrightarrow>
    \<exists>n t. gw_calls s' = gw_calls s @ [\<lparr>gc_cwd = cwd, gc_args = [''rev-parse'', ''--verify'', ''HEAD''],
      gc_code = n, gc_out = t\<rparr>] \<and> h = (if n \<noteq> 0 then None else opt_text (py_strip t))"
  by (auto simp: current_head_def git_results run_git_def run_Inr)

lemma rev_parse_verify_Inr:
  "rev_parse_verify env cwd ref s = (Inr h, s') \<Longrightarrow>
    \<exists>n t. gw_calls s' = gw_calls s @ [\<lparr>gc_cwd = cwd, gc_args = [''rev-parse'', ''--verify'', ref],
      gc_code = n, gc_out = t\<rparr>] \<and> h = (if n \<noteq> 0 then None else opt_text (py_strip t))"
  by (auto simp: rev_parse_verify_def git_results run_git_def run_Inr)

lemma current_branch_Inr:
  "current_branch env cwd s = (Inr (Some b), s') \<Longrightarrow>
    \<exists>t. gw_calls s' = gw_calls s @ [\<lparr>gc_cwd = cwd, gc_args = [''symbolic-ref'', ''--quiet'', ''--short'', ''HEAD''],
      gc_code = 0, gc_out = t\<rparr>] \<and> py_strip t = b"
  by (auto simp: current_branch_def git_results run_git_def run_Inr opt_text_def split: if_splits)

lemma head_sha_Inr:
  "head_sha_strict env cwd s = (Inr h, s') \<Longrightarrow>
    \<exists>t. gw_calls s' = gw_calls s @ [\<lparr>gc_cwd = cwd, gc_args = [''rev-parse'', ''HEAD''], gc_code = 0, gc_out = t\<rparr>] \<and>
      py_strip t = h"
  by (auto simp: head_sha_strict_def git_results run_git_def run_Inr split: if_splits)

lemma merge_no_edit_Inr:
  "merge_no_edit env cwd ref s = (Inr (True, m), s') \<Longrightarrow>
    gw_calls s' = gw_calls s @ [\<lparr>gc_cwd = cwd, gc_args = [''merge'', ref, ''--no-edit''], gc_code = 0, gc_out = m\<rparr>]"
  by (auto simp: merge_no_edit_def git_try_def git_results run_git_def run_Inr split: if_splits)

lemma commit_no_edit_Inr:
  "commit_no_edit env cwd s = (Inr u, s') \<Longrightarrow>
    \<exists>t. gw_calls s' = gw_calls s @ [\<lparr>gc_cwd = cwd, gc_args = [''commit'', ''--no-edit''], gc_code = 0, gc_out = t\<rparr>]"
  by (auto simp: commit_no_edit_def git_results run_git_def run_Inr split: if_splits)

lemma unmerged_files_Inr:
  "unmerged_files env cwd s = (Inr fs, s') \<Longrightarrow>
    \<exists>n t. gw_calls s' = gw_calls s @ [\<lparr>gc_cwd = cwd, gc_args = [''diff'', ''--name-only'', ''--diff-filter=U''],
      gc_code = n, gc_out = t\<rparr>] \<and> fs = stripped_lines t"
  by (auto simp: unmerged_files_def git_results run_git_def run_Inr)

end
