(* ===== verification/Git_Commit.thy ===== *)
theory Git_Commit
  imports Git_Ops System_Nodes
begin

text \<open>
  The commit node with real git behind it: \<open>GitCommitNode\<close> of \<open>litehive/lifecycle/nodes/system.py\<close>.
  It checkpoints what the task left uncommitted in its worktree, recognises work that is already on
  main, resumes a merge in progress, merges, and cleans up the main checkout. The resolvers of the
  task's worktree and record are arguments. Paths are strings, joined the way \<open>Path\<close> joins them.
\<close>

section \<open>Paths and status lines\<close>

definition slash :: string where "slash = ''/''"

definition strip_slashes :: "string \<Rightarrow> string" where
  "strip_slashes p = rev (dropWhile (\<lambda>c. [c] = slash) (rev p))"

definition path_join :: "string \<Rightarrow> string \<Rightarrow> string" where
  "path_join a b = (if starts_with b slash then strip_slashes b else strip_slashes a @ slash @ strip_slashes b)"

definition path_parent :: "string \<Rightarrow> string" where
  "path_parent p = strip_slashes (rev (dropWhile (\<lambda>c. [c] \<noteq> slash) (rev p)))"

fun split_once :: "string \<Rightarrow> string \<Rightarrow> (string \<times> string) option" where
  "split_once sep [] = (if sep = [] then Some ([], []) else None)"
| "split_once sep (c # s) =
     (if starts_with (c # s) sep then Some ([], drop (length sep) (c # s))
      else map_option (\<lambda>(a, b). (c # a, b)) (split_once sep s))"

definition contains_text :: "string \<Rightarrow> string \<Rightarrow> bool" where
  "contains_text s sub = (split_once sub s \<noteq> None)"

definition is_runner_owned_metadata :: "string \<Rightarrow> string \<Rightarrow> bool" where
  "is_runner_owned_metadata relpath tid =
     (starts_with relpath (''.litehive/tasks/'' @ tid @ ''-'') \<or> relpath = ''uv.lock'')"

definition is_main_checkout_cleanup_excluded :: "string \<Rightarrow> bool" where
  "is_main_checkout_cleanup_excluded relpath =
     (starts_with relpath ''.litehive/'' \<and> length (List.filter (\<lambda>c. [c] = slash) relpath) = 1 \<and>
      ends_with relpath ''.db'')"

definition status_entry_needs_git_add :: "string \<Rightarrow> bool" where
  "status_entry_needs_git_add code =
     (let index_state = (if length code \<ge> 1 then code ! 0 else CHR '' '');
          worktree_state = (if length code \<ge> 2 then code ! 1 else CHR '' '')
      in worktree_state \<noteq> CHR '' '' \<or> index_state \<in> {CHR ''?'', CHR ''U''})"

definition parse_git_status_line :: "string \<Rightarrow> string \<times> string" where
  "parse_git_status_line line =
     (let code = take 2 line; path = drop 3 line
      in (code, if \<exists>c \<in> set code. c \<in> {CHR ''R'', CHR ''C''}
                then (case split_once '' -> '' path of None \<Rightarrow> path | Some (_, dest) \<Rightarrow> dest) else path))"

fun dirty_lines :: "bool \<Rightarrow> string list \<Rightarrow> string list" where
  "dirty_lines capture [] = []"
| "dirty_lines capture (line # ls) =
     (let t = py_strip line in
      if contains_text t ''would be overwritten by merge'' then dirty_lines True ls
      else if capture then
        if starts_with t ''Please '' \<or> starts_with t ''error:'' \<or> t = [] then dirty_lines False ls
        else t # dirty_lines True ls
      else dirty_lines False ls)"

definition parse_dirty_checkout_files :: "string \<Rightarrow> string list" where
  "parse_dirty_checkout_files err =
     (if contains_text err ''would be overwritten by merge'' then dirty_lines False (splitlines err) else [])"

section \<open>The node\<close>

record 'w commit_env =
  ce_world :: "'w world_env"
  ce_root :: string
  ce_worktree :: "task_state \<Rightarrow> ('w, string) git_m"
  ce_task :: "(task_state \<Rightarrow> ('w, commit_task option) git_m) option"

definition git_status_entries :: "'w world_env \<Rightarrow> string \<Rightarrow> bool \<Rightarrow> ('w, (string \<times> string) list) git_m" where
  "git_status_entries env cwd include_ignored =
     g_bind (status_porcelain_with_options env cwd include_ignored) (\<lambda>ls. g_ret (map parse_git_status_line ls))"

definition is_untracked_embedded_git_repo :: "'w world_env \<Rightarrow> string \<Rightarrow> string \<Rightarrow> string \<Rightarrow> ('w, bool) git_m" where
  "is_untracked_embedded_git_repo env worktree code relpath =
     (let candidate = path_join worktree relpath; marker = path_join candidate ''.git'' in
      if code \<noteq> ''??'' then g_ret False
      else g_look (\<lambda>w. we_is_dir env candidate w \<and> (we_is_dir env marker w \<or> we_is_file env marker w)))"

definition generated_commit_message :: "'w commit_env \<Rightarrow> task_state \<Rightarrow> string \<Rightarrow> ('w, string) git_m" where
  "generated_commit_message c s detail =
     (let plain = ''litehive '' @ task_id s @ '': '' @ detail in
      case ce_task c of None \<Rightarrow> g_ret plain
      | Some resolver \<Rightarrow>
          g_bind (resolver s) (\<lambda>t. g_ret (case t of None \<Rightarrow> plain
            | Some task \<Rightarrow> generated_completion_commit_message task (Some detail))))"

definition autocommit_worktree_changes :: "'w commit_env \<Rightarrow> string \<Rightarrow> task_state \<Rightarrow> ('w, unit) git_m" where
  "autocommit_worktree_changes c worktree s =
     (let env = ce_world c in
      if worktree = ce_root c then g_ret () else
      g_bind (git_status_entries env worktree False) (\<lambda>entries.
      if entries = [] then g_ret () else
      g_bind (g_filter (\<lambda>(code, path).
          if is_runner_owned_metadata path (task_id s) \<or> is_main_checkout_cleanup_excluded path then g_ret False
          else g_bind (is_untracked_embedded_git_repo env worktree code path) (\<lambda>b. g_ret (\<not> b))) entries)
        (\<lambda>committable.
      if committable = [] then g_ret () else
      (let needs_add = map snd (List.filter (\<lambda>(code, _). status_entry_needs_git_add code) committable) in
      g_bind (if needs_add = [] then g_ret () else add_paths env worktree needs_add False) (\<lambda>_.
      g_bind (generated_commit_message c s ''auto-commit worktree changes'') (\<lambda>message.
      commit_with_message_stdin env worktree message))))))"

definition filter_stageable_paths :: "'w commit_env \<Rightarrow> string list \<Rightarrow> ('w, string list) git_m" where
  "filter_stageable_paths c paths =
     (let env = ce_world c in
      g_filter (\<lambda>relpath.
        g_bind (g_look (\<lambda>w. we_exists env (path_join (ce_root c) relpath) w \<or>
            we_is_symlink env (path_join (ce_root c) relpath) w))
          (\<lambda>there. if there then g_ret True else is_path_tracked env (ce_root c) relpath)) paths)"

definition autocommit_main_checkout_changes :: "'w commit_env \<Rightarrow> task_state \<Rightarrow> ('w, string option) git_m" where
  "autocommit_main_checkout_changes c s =
     (let env = ce_world c; main = ce_root c in
      g_bind (git_status_entries env main False) (\<lambda>entries.
      g_bind (g_filter (\<lambda>(code, path).
          if code = ''!!'' \<or> is_main_checkout_cleanup_excluded path then g_ret False
          else g_bind (check_ignore env main path) (\<lambda>ignored. g_ret (\<not> ignored))) entries) (\<lambda>committable.
      if committable = [] then g_ret None else
      g_bind (filter_stageable_paths c
          (map snd (List.filter (\<lambda>(code, _). status_entry_needs_git_add code) committable))) (\<lambda>needs_add.
      g_bind (if needs_add = [] then g_ret () else add_paths env main needs_add True) (\<lambda>_.
      g_bind (generated_commit_message c s ''auto-commit dirty main checkout'') (\<lambda>message.
      g_bind (commit_with_message_stdin env main message) (\<lambda>_.
      g_bind (current_head env main) (\<lambda>head.
      case head of None \<Rightarrow> g_raise (GitError ''main cleanup commit completed but main HEAD could not be resolved'')
      | Some h \<Rightarrow> g_ret (Some h)))))))))"

definition worktree_local_only_paths :: "'w commit_env \<Rightarrow> string \<Rightarrow> ('w, string list) git_m" where
  "worktree_local_only_paths c worktree =
     g_bind (git_status_entries (ce_world c) worktree True) (\<lambda>entries.
     g_ret (map snd (List.filter (\<lambda>(code, path). code = ''!!'' \<or> is_main_checkout_cleanup_excluded path) entries)))"

definition restore_local_only_paths :: "'w commit_env \<Rightarrow> string \<Rightarrow> string list \<Rightarrow> ('w, unit) git_m" where
  "restore_local_only_paths c worktree relpaths =
     (let env = ce_world c in
      g_bind (g_map (\<lambda>relpath.
        (let src = path_join worktree relpath; dest = path_join (ce_root c) relpath in
         g_bind (g_look (we_exists env src)) (\<lambda>there.
         if \<not> there then g_ret () else
         g_bind (g_act (we_mkdir env (path_parent dest))) (\<lambda>_.
         g_bind (g_look (we_is_dir env src)) (\<lambda>is_dir.
         if is_dir then g_act (we_copytree env src dest) else g_act (we_copy2 env src dest)))))) relpaths)
        (\<lambda>_. g_ret ()))"

definition worktree_patch_already_on_main :: "'w commit_env \<Rightarrow> string \<Rightarrow> string option \<Rightarrow> ('w, bool) git_m" where
  "worktree_patch_already_on_main c worktree_head main_head =
     (case main_head of None \<Rightarrow> g_ret False
      | Some m \<Rightarrow> if m = [] then g_ret False else
          g_bind (cherry_check (ce_world c) (ce_root c) m worktree_head) (\<lambda>ls.
          g_ret (case ls of None \<Rightarrow> False
            | Some lines \<Rightarrow> lines \<noteq> [] \<and> (\<forall>l \<in> set lines. starts_with l ''-''))))"

definition merge_in_progress :: "'w commit_env \<Rightarrow> ('w, bool) git_m" where
  "merge_in_progress c =
     g_bind (rev_parse_verify (ce_world c) (ce_root c) ''MERGE_HEAD'') (\<lambda>h. g_ret (h \<noteq> None))"

definition opt_str_pyval :: "string option \<Rightarrow> pyval" where
  "opt_str_pyval s = (case s of None \<Rightarrow> PyNone | Some t \<Rightarrow> PyStr t)"

definition reconciled_noop :: "string \<Rightarrow> string option \<Rightarrow> commit_metadata" where
  "reconciled_noop reason head =
     [(''commit_result'', PyDict [(''status'', PyStr ''reconciled_noop''), (''reason'', PyStr reason),
        (''head_sha'', opt_str_pyval head)])]"

definition head_or :: "string option \<Rightarrow> string option \<Rightarrow> string option" where
  "head_or a b = (case a of None \<Rightarrow> b | Some h \<Rightarrow> if h = [] then b else a)"

text \<open>The clean merge's tail: restore the local files, clean up main, and say whether anything moved.\<close>

definition merge_landed ::
  "'w commit_env \<Rightarrow> task_state \<Rightarrow> string \<Rightarrow> string list \<Rightarrow> string option \<Rightarrow> string \<Rightarrow>
   ('w, commit_metadata option) git_m" where
  "merge_landed c s worktree local_only main_before worktree_head =
     (let env = ce_world c; main = ce_root c in
      g_bind (current_head env main) (\<lambda>after.
      case after of None \<Rightarrow> g_raise (GitError ''git merge completed but main HEAD could not be resolved'')
      | Some merge_head_after \<Rightarrow>
        g_bind (restore_local_only_paths c worktree local_only) (\<lambda>_.
        g_bind (autocommit_main_checkout_changes c s) (\<lambda>cleanup.
        if main_before = Some merge_head_after
        then g_bind (if Some worktree_head \<noteq> main_before
                     then worktree_patch_already_on_main c worktree_head main_before else g_ret False)
               (\<lambda>landed. g_ret (Some (reconciled_noop (if landed then ''already_landed'' else ''no_op'')
                  (head_or cleanup (Some merge_head_after)))))
        else g_ret None))))"

definition merge_worktree :: "'w commit_env \<Rightarrow> task_state \<Rightarrow> ('w, commit_metadata option) git_m" where
  "merge_worktree c s =
     (let env = ce_world c; main = ce_root c in
      g_bind (ce_worktree c s) (\<lambda>worktree.
      g_bind (autocommit_worktree_changes c worktree s) (\<lambda>_.
      g_bind (worktree_local_only_paths c worktree) (\<lambda>local_only.
      g_bind (current_head env main) (\<lambda>main_before.
      g_bind (current_branch env worktree) (\<lambda>branch.
      g_bind (case branch of Some b \<Rightarrow> g_ret b | None \<Rightarrow> head_sha_strict env worktree) (\<lambda>branch_ref.
      g_bind (head_sha_strict env worktree) (\<lambda>worktree_head.
      g_bind (if Some worktree_head \<noteq> main_before
              then worktree_patch_already_on_main c worktree_head main_before else g_ret False) (\<lambda>landed.
      if landed
      then g_bind (restore_local_only_paths c worktree local_only) (\<lambda>_.
           g_bind (autocommit_main_checkout_changes c s) (\<lambda>cleanup.
           g_ret (Some (reconciled_noop ''already_landed'' (head_or cleanup main_before)))))
      else g_bind (merge_in_progress c) (\<lambda>busy.
      if busy
      then g_bind (unmerged_files env main) (\<lambda>unresolved.
           if unresolved \<noteq> [] then g_raise (Conflict_exn unresolved)
           else g_bind (commit_no_edit env main) (\<lambda>_. g_ret None))
      else g_bind (merge_no_edit env main branch_ref) (\<lambda>(ok, message).
      if ok then merge_landed c s worktree local_only main_before worktree_head
      else g_bind (unmerged_files env main) (\<lambda>unresolved.
           if unresolved \<noteq> [] then g_raise (Conflict_exn unresolved)
           else if parse_dirty_checkout_files message \<noteq> []
           then g_raise (Conflict_exn (parse_dirty_checkout_files message))
           else g_bind (merge_abort env main) (\<lambda>_.
             g_raise (GitError (''git merge failed with no conflict files: '' @ message)))))))))))))))"

text \<open>The node: the exceptions of the merge as the base class sees them.\<close>

fun git_outcome_of :: "(git_exn + 'a) \<times> 'w gw \<Rightarrow> 'a git_outcome \<times> 'w gw" where
  "git_outcome_of (Inr x, s) = (Git_Ok x, s)"
| "git_outcome_of (Inl (Conflict_exn files), s) = (Git_Conflict files, s)"
| "git_outcome_of (Inl (GitError msg), s) = (Git_Error msg, s)"
| "git_outcome_of (Inl (Other_exn msg), s) = (Git_Raised msg, s)"

definition git_commit_node_run :: "'w commit_env \<Rightarrow> task_state \<Rightarrow> 'w gw \<Rightarrow> (lifecycle_error + event) \<times> 'w gw" where
  "git_commit_node_run c = commit_node_run (\<lambda>s w. git_outcome_of (merge_worktree c s w))"

section \<open>What a normal return of each part has run\<close>

text \<open>No add or commit that failed is passed over.\<close>

definition tidy_call :: "git_call \<Rightarrow> bool" where
  "tidy_call c = (gc_args c \<noteq> [] \<and> hd (gc_args c) \<in> {''add'', ''commit''} \<longrightarrow> gc_code c = 0)"

definition quiet_resolvers :: "'w commit_env \<Rightarrow> bool" where
  "quiet_resolvers c = ((\<forall>s. g_calls (\<lambda>_. False) (ce_worktree c s)) \<and>
     (\<forall>r s. ce_task c = Some r \<longrightarrow> g_calls (\<lambda>_. False) (r s)))"

lemma calls_weaken: "g_calls P m \<Longrightarrow> (\<And>c. P c \<Longrightarrow> Q c) \<Longrightarrow> g_calls Q m"
  unfolding g_calls_def by meson

lemma add_paths_tidy [git_calls]: "g_calls tidy_call (add_paths env cwd ps b)"
  and commit_stdin_tidy [git_calls]: "g_calls tidy_call (commit_with_message_stdin env cwd m)"
  and commit_no_edit_tidy [git_calls]: "g_calls tidy_call (commit_no_edit env cwd)"
  unfolding g_calls_def add_paths_def commit_with_message_stdin_def commit_no_edit_def
  by (auto simp: git_results run_git_def run_Inr tidy_call_def split: if_splits)

lemma resolvers_tidy:
  assumes "quiet_resolvers c"
  shows "g_calls P (ce_worktree c s)" "ce_task c = Some r \<Longrightarrow> g_calls P (r s)"
  using assms unfolding quiet_resolvers_def by (blast intro: calls_weaken)+

lemma calls_option [git_calls]:
  "g_calls P a \<Longrightarrow> (\<And>x. g_calls P (f x)) \<Longrightarrow> g_calls P (case v of None \<Rightarrow> a | Some x \<Rightarrow> f x)"
  by (cases v) simp_all

lemma calls_prod [git_calls]: "(\<And>x y. g_calls P (f x y)) \<Longrightarrow> g_calls P (case v of (x, y) \<Rightarrow> f x y)"
  by (cases v) simp

lemma probes_tidy [git_calls]:
  "g_calls tidy_call (git_status_entries env cwd i)" "g_calls tidy_call (check_ignore env cwd p)"
  "g_calls tidy_call (is_path_tracked env cwd p)" "g_calls tidy_call (current_head env cwd)"
  "g_calls tidy_call (current_branch env cwd)" "g_calls tidy_call (head_sha_strict env cwd)"
  "g_calls tidy_call (cherry_check env cwd u h)" "g_calls tidy_call (rev_parse_verify env cwd ref)"
  "g_calls tidy_call (unmerged_files env cwd)" "g_calls tidy_call (merge_no_edit env cwd ref)"
  "g_calls tidy_call (merge_abort env cwd)" "g_calls tidy_call (is_untracked_embedded_git_repo env cwd code p)"
  by (simp_all add: git_status_entries_def status_porcelain_with_options_def check_ignore_def is_path_tracked_def
      current_head_def current_branch_def head_sha_strict_def cherry_check_def rev_parse_verify_def
      unmerged_files_def merge_no_edit_def git_try_def merge_abort_def git_quiet_def
      is_untracked_embedded_git_repo_def Let_def git_calls tidy_call_def)

lemma message_tidy: "quiet_resolvers c \<Longrightarrow> g_calls P (generated_commit_message c s d)"
  by (cases "ce_task c") (simp_all add: generated_commit_message_def Let_def git_calls resolvers_tidy)

lemma parts_tidy [git_calls]:
  assumes "quiet_resolvers c"
  shows "g_calls tidy_call (autocommit_worktree_changes c w s)" "g_calls tidy_call (autocommit_main_checkout_changes c s)"
  unfolding autocommit_worktree_changes_def autocommit_main_checkout_changes_def filter_stageable_paths_def Let_def
  by (intro git_calls message_tidy assms)+

lemma local_paths_tidy [git_calls]:
  "g_calls tidy_call (worktree_local_only_paths c w)" "g_calls tidy_call (restore_local_only_paths c w ps)"
  "g_calls tidy_call (worktree_patch_already_on_main c h m)" "g_calls tidy_call (merge_in_progress c)"
  unfolding worktree_local_only_paths_def restore_local_only_paths_def worktree_patch_already_on_main_def
    merge_in_progress_def Let_def
  by (intro git_calls)+

lemma merge_landed_tidy [git_calls]: "quiet_resolvers c \<Longrightarrow> g_calls tidy_call (merge_landed c s w ps m h)"
  unfolding merge_landed_def Let_def by (intro git_calls)

lemma merge_tidy: "quiet_resolvers c \<Longrightarrow> g_calls tidy_call (merge_worktree c s)"
  unfolding merge_worktree_def Let_def by (intro git_calls resolvers_tidy)

section \<open>When the node passes\<close>

text \<open>A git call of \<open>cwd\<close> that succeeded and printed \<open>out\<close>, and a call that only reads the repository.\<close>

definition answered :: "string \<Rightarrow> string list \<Rightarrow> string \<Rightarrow> git_call \<Rightarrow> bool" where
  "answered cwd args out c = (gc_cwd c = cwd \<and> gc_args c = args \<and> gc_code c = 0 \<and> py_strip (gc_out c) = out)"

definition reads_only :: "git_call \<Rightarrow> bool" where
  "reads_only c = (gc_args c \<noteq> [] \<and> hd (gc_args c) \<in> {''rev-parse'', ''symbolic-ref'', ''cherry''})"

text \<open>\<open>git cherry m h\<close> in main listed commits, all of them with a minus: those of \<open>h\<close> are all in \<open>m\<close>.\<close>

definition cherry_all_landed :: "string \<Rightarrow> string \<Rightarrow> string \<Rightarrow> git_call \<Rightarrow> bool" where
  "cherry_all_landed main m h c =
     (gc_cwd c = main \<and> gc_args c = [''cherry'', m, h] \<and> gc_code c = 0 \<and> stripped_lines (gc_out c) \<noteq> [] \<and>
      (\<forall>l \<in> set (stripped_lines (gc_out c)). starts_with l ''-''))"

text \<open>The branch, or the head, that the worktree has checked out.\<close>

definition names_ref :: "string \<Rightarrow> string \<Rightarrow> git_call \<Rightarrow> bool" where
  "names_ref worktree ref c =
     (answered worktree [''symbolic-ref'', ''--quiet'', ''--short'', ''HEAD''] ref c \<or>
      answered worktree [''rev-parse'', ''HEAD''] ref c)"

definition merged_ref :: "string \<Rightarrow> string \<Rightarrow> git_call \<Rightarrow> bool" where
  "merged_ref main ref c = (gc_cwd c = main \<and> gc_args c = [''merge'', ref, ''--no-edit''] \<and> gc_code c = 0)"

text \<open>
  Each way of landing, as a stretch of the history. Main's head \<open>m\<close> and the worktree's head \<open>h\<close> were
  read, nothing was changed since, and \<open>git cherry m h\<close> found every commit of the worktree on main; or
  the worktree named what it has checked out, nothing was changed since, and merging that into main
  succeeded; or main had a merge head, listed no unmerged file, and the merge was committed.
\<close>

definition already_landed :: "string \<Rightarrow> string \<Rightarrow> git_call list \<Rightarrow> bool" where
  "already_landed main worktree cs =
     (\<exists>pre a mid b c post m h. cs = pre @ [a] @ mid @ [b, c] @ post \<and> list_all reads_only mid \<and>
        answered main [''rev-parse'', ''--verify'', ''HEAD''] m a \<and>
        answered worktree [''rev-parse'', ''HEAD''] h b \<and> cherry_all_landed main m h c)"

definition merged_now :: "string \<Rightarrow> string \<Rightarrow> git_call list \<Rightarrow> bool" where
  "merged_now main worktree cs =
     (\<exists>pre n mid c post ref. cs = pre @ [n] @ mid @ [c] @ post \<and> list_all reads_only mid \<and>
        names_ref worktree ref n \<and> merged_ref main ref c)"

definition merge_concluded :: "string \<Rightarrow> git_call list \<Rightarrow> bool" where
  "merge_concluded main cs =
     (\<exists>pre a u c post m. cs = pre @ [a, u, c] @ post \<and>
        answered main [''rev-parse'', ''--verify'', ''MERGE_HEAD''] m a \<and> m \<noteq> [] \<and>
        gc_cwd u = main \<and> gc_args u = [''diff'', ''--name-only'', ''--diff-filter=U''] \<and>
        stripped_lines (gc_out u) = [] \<and>
        gc_cwd c = main \<and> gc_args c = [''commit'', ''--no-edit''] \<and> gc_code c = 0)"

definition landed_by :: "string \<Rightarrow> string \<Rightarrow> git_call list \<Rightarrow> bool" where
  "landed_by main worktree cs =
     (already_landed main worktree cs \<or> merged_now main worktree cs \<or> merge_concluded main cs)"

lemma already_landed_append:
  assumes "already_landed main wt cs" shows "already_landed main wt (cs @ ds)"
proof -
  from assms obtain pre a mid b c post m h where cs: "cs = pre @ [a] @ mid @ [b, c] @ post"
    and rest: "list_all reads_only mid" "answered main [''rev-parse'', ''--verify'', ''HEAD''] m a"
      "answered wt [''rev-parse'', ''HEAD''] h b" "cherry_all_landed main m h c"
    unfolding already_landed_def by blast
  have "cs @ ds = pre @ [a] @ mid @ [b, c] @ (post @ ds)" by (simp add: cs)
  with rest show ?thesis unfolding already_landed_def by blast
qed

lemma merged_now_append:
  assumes "merged_now main wt cs" shows "merged_now main wt (cs @ ds)"
proof -
  from assms obtain pre n mid c post ref where cs: "cs = pre @ [n] @ mid @ [c] @ post"
    and rest: "list_all reads_only mid" "names_ref wt ref n" "merged_ref main ref c"
    unfolding merged_now_def by blast
  have "cs @ ds = pre @ [n] @ mid @ [c] @ (post @ ds)" by (simp add: cs)
  with rest show ?thesis unfolding merged_now_def by blast
qed

lemma merge_concluded_append:
  assumes "merge_concluded main cs" shows "merge_concluded main (cs @ ds)"
proof -
  from assms obtain pre a u c post m where cs: "cs = pre @ [a, u, c] @ post"
    and rest: "answered main [''rev-parse'', ''--verify'', ''MERGE_HEAD''] m a" "m \<noteq> []"
      "gc_cwd u = main" "gc_args u = [''diff'', ''--name-only'', ''--diff-filter=U'']"
      "stripped_lines (gc_out u) = []" "gc_cwd c = main" "gc_args c = [''commit'', ''--no-edit'']" "gc_code c = 0"
    unfolding merge_concluded_def by blast
  have "cs @ ds = pre @ [a, u, c] @ (post @ ds)" by (simp add: cs)
  with rest show ?thesis unfolding merge_concluded_def by blast
qed

lemma landed_append: "landed_by main wt cs \<Longrightarrow> landed_by main wt (cs @ ds)"
  unfolding landed_by_def
  using already_landed_append merged_now_append merge_concluded_append by blast

lemma landed_keeps:
  "landed_by main wt (gw_calls s) \<Longrightarrow> g_calls P m \<Longrightarrow> m s = (Inr x, s') \<Longrightarrow> landed_by main wt (gw_calls s')"
  using callsD landed_append by metis

lemma patch_Inr:
  assumes "worktree_patch_already_on_main c h before s = (Inr landed, s')"
  shows "\<exists>qs. gw_calls s' = gw_calls s @ qs \<and> list_all reads_only qs \<and>
    (landed \<longrightarrow> (\<exists>m q. before = Some m \<and> qs = [q] \<and> cherry_all_landed (ce_root c) m h q))"
proof (cases "before = None \<or> before = Some []")
  case True
  with assms show ?thesis by (auto simp: worktree_patch_already_on_main_def git_results)
next
  case False
  then obtain m where m: "before = Some m" "m \<noteq> []" by auto
  with assms obtain ls where ls: "cherry_check (ce_world c) (ce_root c) m h s = (Inr ls, s')"
    and l: "landed = (case ls of None \<Rightarrow> False | Some lines \<Rightarrow> lines \<noteq> [] \<and> (\<forall>l \<in> set lines. starts_with l ''-''))"
    by (auto simp: worktree_patch_already_on_main_def git_results)
  then obtain n t where q: "gw_calls s' = gw_calls s @ [\<lparr>gc_cwd = ce_root c, gc_args = [''cherry'', m, h], gc_code = n, gc_out = t\<rparr>]"
    and "ls = (if n \<noteq> 0 then None else Some (stripped_lines t))"
    by (auto simp: cherry_check_def git_results run_git_def run_Inr)
  then show ?thesis using l m
    by (auto simp: reads_only_def cherry_all_landed_def split: option.splits if_splits)
qed

lemma branch_named:
  assumes "current_branch env wt s1 = (Inr branch, s2)"
    and "(case branch of Some b \<Rightarrow> g_ret b | None \<Rightarrow> head_sha_strict env wt) s2 = (Inr ref, s3)"
  shows "\<exists>qs n. gw_calls s3 = gw_calls s1 @ qs @ [n] \<and> list_all reads_only (qs @ [n]) \<and> names_ref wt ref n"
proof -
  obtain k t where q: "gw_calls s2 = gw_calls s1 @ [\<lparr>gc_cwd = wt,
      gc_args = [''symbolic-ref'', ''--quiet'', ''--short'', ''HEAD''], gc_code = k, gc_out = t\<rparr>]"
    and b: "branch = (if k \<noteq> 0 then None else opt_text (py_strip t))"
    using assms(1) by (auto simp: current_branch_def git_results run_git_def run_Inr)
  show ?thesis
  proof (cases branch)
    case None
    with assms(2) have "head_sha_strict env wt s2 = (Inr ref, s3)" by simp
    from head_sha_Inr [OF this] q show ?thesis by (auto simp: names_ref_def answered_def reads_only_def)
  next
    case (Some u)
    with assms(2) b q show ?thesis
      by (auto simp: names_ref_def answered_def reads_only_def ret_Inr opt_text_def split: if_splits)
  qed
qed

lemma merge_worktree_landed:
  assumes q: "quiet_resolvers c" and m: "merge_worktree c s w = (Inr meta, w')"
  obtains wt w1 where "ce_worktree c s w = (Inr wt, w1)" "landed_by (ce_root c) wt (gw_calls w')"
proof -
  let ?env = "ce_world c" and ?main = "ce_root c"
  from m obtain wt w1 lo w3 w4 before branch w5 ref w6 wh w7 landed w8
    where wt: "ce_worktree c s w = (Inr wt, w1)"
      and cur: "current_head ?env ?main w3 = (Inr before, w4)"
      and br: "current_branch ?env wt w4 = (Inr branch, w5)"
        "(case branch of Some b \<Rightarrow> g_ret b | None \<Rightarrow> head_sha_strict ?env wt) w5 = (Inr ref, w6)"
      and wh: "head_sha_strict ?env wt w6 = (Inr wh, w7)"
      and l: "(if Some wh \<noteq> before then worktree_patch_already_on_main c wh before else g_ret False) w7 = (Inr landed, w8)"
      and rest: "(if landed
        then g_bind (restore_local_only_paths c wt lo) (\<lambda>_.
             g_bind (autocommit_main_checkout_changes c s) (\<lambda>cleanup.
             g_ret (Some (reconciled_noop ''already_landed'' (head_or cleanup before)))))
        else g_bind (merge_in_progress c) (\<lambda>busy.
        if busy
        then g_bind (unmerged_files ?env ?main) (\<lambda>unresolved.
             if unresolved \<noteq> [] then g_raise (Conflict_exn unresolved)
             else g_bind (commit_no_edit ?env ?main) (\<lambda>_. g_ret None))
        else g_bind (merge_no_edit ?env ?main ref) (\<lambda>(ok, message).
        if ok then merge_landed c s wt lo before wh
        else g_bind (unmerged_files ?env ?main) (\<lambda>unresolved.
             if unresolved \<noteq> [] then g_raise (Conflict_exn unresolved)
             else if parse_dirty_checkout_files message \<noteq> []
             then g_raise (Conflict_exn (parse_dirty_checkout_files message))
             else g_bind (merge_abort ?env ?main) (\<lambda>_.
               g_raise (GitError (''git merge failed with no conflict files: '' @ message))))))) w8 = (Inr meta, w')"
    unfolding merge_worktree_def Let_def bind_Inr by blast
  from current_head_Inr [OF cur] obtain a where a: "gw_calls w4 = gw_calls w3 @ [a]"
    "\<And>m. before = Some m \<Longrightarrow> answered ?main [''rev-parse'', ''--verify'', ''HEAD''] m a"
    by (auto simp: answered_def opt_text_def split: if_splits)
  from branch_named [OF br] obtain qs n where n: "gw_calls w6 = gw_calls w4 @ qs @ [n]"
    "list_all reads_only (qs @ [n])" "names_ref wt ref n" by blast
  from head_sha_Inr [OF wh] obtain b where b: "gw_calls w7 = gw_calls w6 @ [b]"
    "answered wt [''rev-parse'', ''HEAD''] wh b" "reads_only b" by (auto simp: answered_def reads_only_def)
  have "\<exists>ps. gw_calls w8 = gw_calls w7 @ ps \<and> list_all reads_only ps \<and>
    (landed \<longrightarrow> (\<exists>m q. before = Some m \<and> ps = [q] \<and> cherry_all_landed ?main m wh q))"
    using l by (auto simp: ret_Inr dest: patch_Inr split: if_splits)
  then obtain ps where ps: "gw_calls w8 = gw_calls w7 @ ps" "list_all reads_only ps"
    "landed \<longrightarrow> (\<exists>m q. before = Some m \<and> ps = [q] \<and> cherry_all_landed ?main m wh q)" by blast
  have "landed_by ?main wt (gw_calls w')"
  proof (cases landed)
    case True
    with ps a(2) obtain m k where k: "ps = [k]" "cherry_all_landed ?main m wh k"
      "answered ?main [''rev-parse'', ''--verify'', ''HEAD''] m a" by blast
    then have "gw_calls w8 = gw_calls w3 @ [a] @ (qs @ [n]) @ [b, k] @ []" using ps a n b by simp
    with k b n have "landed_by ?main wt (gw_calls w8)" unfolding landed_by_def already_landed_def by blast
    then show ?thesis using rest True
      by (auto simp: git_results intro: landed_keeps local_paths_tidy parts_tidy [OF q])
  next
    case False
    with rest obtain busy w9 where mip: "merge_in_progress c w8 = (Inr busy, w9)"
      and r: "(if busy
        then g_bind (unmerged_files ?env ?main) (\<lambda>unresolved.
             if unresolved \<noteq> [] then g_raise (Conflict_exn unresolved)
             else g_bind (commit_no_edit ?env ?main) (\<lambda>_. g_ret None))
        else g_bind (merge_no_edit ?env ?main ref) (\<lambda>(ok, message).
        if ok then merge_landed c s wt lo before wh
        else g_bind (unmerged_files ?env ?main) (\<lambda>unresolved.
             if unresolved \<noteq> [] then g_raise (Conflict_exn unresolved)
             else if parse_dirty_checkout_files message \<noteq> []
             then g_raise (Conflict_exn (parse_dirty_checkout_files message))
             else g_bind (merge_abort ?env ?main) (\<lambda>_.
               g_raise (GitError (''git merge failed with no conflict files: '' @ message)))))) w9 = (Inr meta, w')"
      by (auto simp: bind_Inr)
    from mip obtain h where "rev_parse_verify ?env ?main ''MERGE_HEAD'' w8 = (Inr h, w9)" "busy = (h \<noteq> None)"
      by (auto simp: merge_in_progress_def git_results)
    then obtain g where g: "gw_calls w9 = gw_calls w8 @ [g]" "reads_only g"
      "busy \<longrightarrow> (\<exists>m. answered ?main [''rev-parse'', ''--verify'', ''MERGE_HEAD''] m g \<and> m \<noteq> [])"
      by (auto dest!: rev_parse_verify_Inr simp: answered_def reads_only_def opt_text_def split: if_splits)
    show ?thesis
    proof (cases busy)
      case True
      with r obtain w10 where "unmerged_files ?env ?main w9 = (Inr [], w10)"
        "commit_no_edit ?env ?main w10 = (Inr (), w')" by (auto simp: git_results split: if_splits)
      then have "\<exists>u k. gw_calls w' = gw_calls w8 @ [g, u, k] @ [] \<and> gc_cwd u = ?main \<and>
          gc_args u = [''diff'', ''--name-only'', ''--diff-filter=U''] \<and> stripped_lines (gc_out u) = [] \<and>
          gc_cwd k = ?main \<and> gc_args k = [''commit'', ''--no-edit''] \<and> gc_code k = 0"
        using g(1) by (fastforce dest!: unmerged_files_Inr commit_no_edit_Inr)
      with g(3) True show ?thesis unfolding landed_by_def merge_concluded_def by blast
    next
      case False
      with r obtain message w10 where mm: "merge_no_edit ?env ?main ref w9 = (Inr (True, message), w10)"
        and ml: "merge_landed c s wt lo before wh w10 = (Inr meta, w')"
        by (auto simp: git_results split: if_splits prod.splits)
      from merge_no_edit_Inr [OF mm] obtain k where k: "gw_calls w10 = gw_calls w9 @ [k]" "merged_ref ?main ref k"
        by (auto simp: merged_ref_def)
      have "gw_calls w10 = (gw_calls w4 @ qs) @ [n] @ ([b] @ ps @ [g]) @ [k] @ []" using k g ps b n by simp
      moreover have "list_all reads_only ([b] @ ps @ [g])" using b g ps by simp
      ultimately have "landed_by ?main wt (gw_calls w10)"
        using k n unfolding landed_by_def merged_now_def by blast
      then show ?thesis by (rule landed_keeps [OF _ merge_landed_tidy [OF q] ml])
    qed
  qed
  with wt show thesis by (rule that)
qed

lemma git_commit_pass:
  assumes "git_commit_node_run c s w = (Inr (Pass meta), w')"
  obtains m where "merge_worktree c s w = (Inr m, w')" "meta = (case m of None \<Rightarrow> [] | Some d \<Rightarrow> d)"
proof -
  obtain r w1 where m: "merge_worktree c s w = (r, w1)" by (cases "merge_worktree c s w")
  show thesis
  proof (cases r)
    case (Inr x)
    with assms m show thesis by (intro that) (auto simp: git_commit_node_run_def commit_node_run_def)
  next
    case (Inl e)
    with assms m show thesis by (cases e) (simp_all add: git_commit_node_run_def commit_node_run_def)
  qed
qed

text \<open>A world of one merge: the branch \<open>task\<close> is one commit ahead of main, and merging it moves main.
  The flag is whether it has been merged; \<open>busy\<close> is whether a merge of something else is in progress.\<close>

definition demo_git :: "bool \<Rightarrow> string \<Rightarrow> string list \<Rightarrow> string option \<Rightarrow> bool \<Rightarrow> git_proc \<times> bool" where
  "demo_git busy cwd args input merged =
     (let say = (\<lambda>n t. \<lparr>gp_code = n, gp_out = t, gp_err = []\<rparr>) in
      if args = [''rev-parse'', ''--verify'', ''MERGE_HEAD'']
      then (if busy then say 0 ''ddd'' else say 128 [], merged)
      else if args = [''rev-parse'', ''--verify'', ''HEAD''] then (say 0 (if merged then ''ccc'' else ''aaa''), merged)
      else if args = [''symbolic-ref'', ''--quiet'', ''--short'', ''HEAD''] then (say 0 ''task'', merged)
      else if args = [''rev-parse'', ''HEAD''] then (say 0 ''bbb'', merged)
      else if args = [''cherry'', ''aaa'', ''bbb''] then (say 0 ''+ bbb'', merged)
      else if args = [''merge'', ''task'', ''--no-edit''] then (say 0 ''Merge made'', True)
      else (say 0 [], merged))"

definition demo_commit_env :: "bool \<Rightarrow> bool commit_env" where
  "demo_commit_env busy =
     \<lparr>ce_world = \<lparr>we_git = demo_git busy, we_exists = (\<lambda>_ _. False), we_is_symlink = (\<lambda>_ _. False),
        we_is_dir = (\<lambda>_ _. False), we_is_file = (\<lambda>_ _. False), we_resolve = (\<lambda>p _. p), we_expanduser = (\<lambda>p _. p),
        we_mkdir = (\<lambda>_ w. (None, w)), we_copytree = (\<lambda>_ _ w. (None, w)), we_copy2 = (\<lambda>_ _ w. (None, w))\<rparr>,
      ce_root = ''/w'', ce_worktree = (\<lambda>_. g_ret ''/w/t''), ce_task = None\<rparr>"

lemma demo_quiet: "quiet_resolvers (demo_commit_env busy)"
  by (simp add: quiet_resolvers_def demo_commit_env_def calls_ret)

definition demo_gw :: "bool gw" where
  "demo_gw = \<lparr>gw_world = False, gw_calls = []\<rparr>"

definition demo_commit_state :: task_state where
  "demo_commit_state = fresh_state ''T-1'' COMMIT FULL None default_limits"

text \<open>Whether a run passes without metadata, whether main moved, and whether some branch was merged.\<close>

definition demo_outcome :: "bool \<Rightarrow> bool \<times> bool \<times> bool" where
  "demo_outcome busy =
     (let (r, w) = git_commit_node_run (demo_commit_env busy) demo_commit_state demo_gw
      in (case r of Inr (Pass []) \<Rightarrow> True | _ \<Rightarrow> False, gw_world w,
          \<exists>call \<in> set (gw_calls w). gc_code call = 0 \<and> take 1 (gc_args call) = [''merge'']))"

lemma demo_outcomes: "demo_outcome False = (True, True, True)" "demo_outcome True = (True, False, False)"
  by code_simp+

lemma demo_passes:
  obtains w where "git_commit_node_run (demo_commit_env busy) demo_commit_state demo_gw = (Inr (Pass []), w)"
    "gw_world w = (\<not> busy)" "busy \<longrightarrow> (\<forall>call \<in> set (gw_calls w). \<not> merged_ref main ref call)"
proof -
  obtain r w where r: "git_commit_node_run (demo_commit_env busy) demo_commit_state demo_gw = (r, w)"
    by (cases "git_commit_node_run (demo_commit_env busy) demo_commit_state demo_gw")
  from demo_outcomes have o: "demo_outcome busy = (True, \<not> busy, \<not> busy)" by (cases busy) simp_all
  then have "(case r of Inr (Pass []) \<Rightarrow> True | _ \<Rightarrow> False) = True" "gw_world w = (\<not> busy)"
    and m: "(\<exists>call \<in> set (gw_calls w). gc_code call = 0 \<and> take 1 (gc_args call) = [''merge'']) = (\<not> busy)"
    by (simp_all add: demo_outcome_def r)
  moreover from this(1) have "r = Inr (Pass [])" by (simp split: sum.splits event.splits list.splits)
  moreover from m have "busy \<longrightarrow> (\<forall>call \<in> set (gw_calls w). \<not> merged_ref main ref call)"
    by (auto simp: merged_ref_def)
  ultimately show thesis using that r by blast
qed

section \<open>Properties\<close>

text \<open>C39: When the commit node passes a task, no staging or committing command of the run failed, and the
  work is on main in one of three ways. Either the heads of main and of the task's worktree were read
  and, with nothing changed since, \<open>git cherry <main's head> <the worktree's head>\<close> listed commits and
  every one of them as already on main; or the branch (the head, when detached) that the task's worktree
  has checked out was merged into main with exit code 0; or main had a merge in progress, git listed no
  unmerged file there, and the merge was concluded by a commit that succeeded.\<close>

theorem commit_passes_when_landed:
  assumes "quiet_resolvers c" "gw_calls w = []" "git_commit_node_run c s w = (Inr (Pass meta), w')"
  shows "(\<forall>call \<in> set (gw_calls w'). tidy_call call) \<and>
    (\<exists>wt w1. ce_worktree c s w = (Inr wt, w1) \<and> landed_by (ce_root c) wt (gw_calls w'))"
proof -
  from assms(3) obtain m where m: "merge_worktree c s w = (Inr m, w')" by (rule git_commit_pass)
  from callsD [OF merge_tidy [OF assms(1)] m] assms(2) have "\<forall>call \<in> set (gw_calls w'). tidy_call call" by auto
  moreover from assms(1) m obtain wt w1 where "ce_worktree c s w = (Inr wt, w1)" "landed_by (ce_root c) wt (gw_calls w')"
    by (rule merge_worktree_landed)
  ultimately show ?thesis by blast
qed

theorem commit_passes_when_landed_witness:
  "\<exists>w'. git_commit_node_run (demo_commit_env False) demo_commit_state demo_gw = (Inr (Pass []), w') \<and>
    landed_by ''/w'' ''/w/t'' (gw_calls w')"
proof -
  obtain w' where w: "git_commit_node_run (demo_commit_env False) demo_commit_state demo_gw = (Inr (Pass []), w')"
    by (rule demo_passes) blast
  from commit_passes_when_landed [OF demo_quiet _ w] w show ?thesis
    by (auto simp: demo_gw_def demo_commit_env_def g_ret_def)
qed

text \<open>The third case does not look at whose merge it is: with any merge in progress in the main checkout,
  the node passes the task without merging its branch.\<close>

lemma foreign_merge_passes:
  "\<exists>w'. git_commit_node_run (demo_commit_env True) demo_commit_state demo_gw = (Inr (Pass []), w') \<and>
    gw_world w' = False \<and> (\<forall>call \<in> set (gw_calls w'). \<not> merged_ref ''/w'' ''task'' call)"
  by (rule demo_passes [of True]) blast

end
