(* ===== verification/Task_Tables.thy ===== *)
theory Task_Tables
  imports Persistence Task_Record
begin

text \<open>
  The tables of the workspace database that the task event log rebuilds
  (\<open>litehive/db/migrations\<close>), as \<open>state/store.py\<close>, \<open>tasks/audit.py\<close>, \<open>tasks/report_storage.py\<close> and
  \<open>lifecycle/journal.py\<close> write them. A table with a primary key is an association list; the tables
  with a counting id are lists in insertion order. A JSON column is the JSON value of its text: what
  \<open>json.loads\<close> returns after \<open>json.dumps(v, sort_keys=True)\<close>, i.e. \<^const>\<open>stored_payload\<close>.

  A pydantic record (\<open>WorkspaceState\<close>, \<open>TaskIntentRecord\<close>, \<open>TaskStateRecord\<close>, the reports) is
  represented by its \<open>model_dump(mode="json")\<close>: a dict whose keys are the fields.
\<close>

type_synonym jdict = "(string, pyval) dict"

section \<open>Rows\<close>

record intent_row =
  ir_payload :: jdict
  ir_updated_at :: string
  ir_columns :: jdict
  ir_lifecycle_status :: string
  ir_pipeline_status :: string

record task_state_row =
  ts_payload :: jdict
  ts_updated_at :: string

record journal_row =
  jo_created_at :: string
  jo_message :: string
  jo_metadata :: jdict

record activity_row =
  av_created_at :: string
  av_payload :: jdict

record stage_report_row =
  sp_task_id :: string
  sp_pipeline_state :: string
  sp_created_at :: string
  sp_payload :: jdict

record recovery_report_row =
  rv_task_id :: string
  rv_origin_stage :: "string option"
  rv_trigger :: string
  rv_created_at :: string
  rv_payload :: jdict

record audit_entry =
  ae_task_id :: string
  ae_created_at :: string
  ae_action :: string
  ae_actor :: string
  ae_source :: string
  ae_task_status_before :: "string option"
  ae_task_status_after :: "string option"
  ae_pipeline_status_before :: "string option"
  ae_pipeline_status_after :: "string option"
  ae_queue_position_before :: "int option"
  ae_queue_position_after :: "int option"
  ae_context :: jdict

record transition_row =
  xn_task_id :: string
  xn_seq :: int
  xn_created_at :: string
  xn_from_stage :: string
  xn_event_type :: string
  xn_event_payload :: jdict
  xn_to_stage :: string
  xn_rule :: string
  xn_delta :: jdict

record lifecycle_row =
  lf_task_id :: string
  lf_seq :: int
  lf_created_at :: string
  lf_kind :: string
  lf_payload :: jdict

record process_row =
  pc_status :: string
  pc_pid :: "int option"
  pc_columns :: "(string, string option) dict"
  pc_payload :: jdict
  pc_updated_at :: string

record task_db =
  tb_pool_state :: "(jdict \<times> string) option"
  tb_queue :: "(pyval \<times> string) option"
  tb_task_intent :: "(string, intent_row) dict"
  tb_task_state :: "(string, task_state_row) dict"
  tb_task_journal :: "(string \<times> int, journal_row) dict"
  tb_task_activity :: "(string \<times> int, activity_row) dict"
  tb_stage_reports :: "stage_report_row list"
  tb_recovery_reports :: "recovery_report_row list"
  tb_transitions :: "transition_row list"
  tb_lifecycle :: "lifecycle_row list"
  tb_pipeline :: "(string, state_row) dict"
  tb_audit :: "audit_entry list"
  tb_process :: "(string, process_row) dict"

definition blank_db :: task_db where
  "blank_db = \<lparr>tb_pool_state = None, tb_queue = None, tb_task_intent = [], tb_task_state = [],
     tb_task_journal = [], tb_task_activity = [], tb_stage_reports = [], tb_recovery_reports = [],
     tb_transitions = [], tb_lifecycle = [], tb_pipeline = [], tb_audit = [], tb_process = []\<rparr>"

section \<open>Reading dumps\<close>

text \<open>\<open>str(d.get(k) or "")\<close>, \<open>_optional_str\<close> and the status and column projections of a dump.\<close>

definition text_field :: "string \<Rightarrow> jdict \<Rightarrow> string" where
  "text_field k d = py_str (py_or (py_get k d) (PyStr []))"

definition text_field_or :: "string \<Rightarrow> string \<Rightarrow> jdict \<Rightarrow> string" where
  "text_field_or x k d = py_str (py_or (py_get k d) (PyStr x))"

definition optional_str :: "pyval \<Rightarrow> string option" where
  "optional_str v = (if v = PyNone then None else Some (py_str v))"

definition dict_field :: "string \<Rightarrow> jdict \<Rightarrow> jdict" where
  "dict_field k d = (case as_dict (py_get k d) of None \<Rightarrow> [] | Some p \<Rightarrow> p)"

definition status_columns :: "jdict \<Rightarrow> string \<times> string" where
  "status_columns st = (py_str (py_get ''status'' st), py_str (py_get ''pipeline_status'' st))"

text \<open>
  \<open>_task_intent_column_values\<close>: the columns copied from the intent, JSON columns as their values,
  and the two status columns, which are those of the live state row when there is one.
\<close>

definition intent_columns :: "jdict \<Rightarrow> jdict" where
  "intent_columns d =
     [(''slug'', py_get ''slug'' d), (''title'', py_get ''title'' d),
      (''created_at'', py_get ''created_at'' d), (''priority'', py_get ''priority'' d),
      (''goal'', py_get ''goal'' d),
      (''acceptance_criteria_json'', key_sorted (py_get ''acceptance_criteria'' d)),
      (''constraints_json'', key_sorted (py_get ''constraints'' d)),
      (''plan_json'', key_sorted (py_get ''plan'' d)),
      (''dependencies_json'', key_sorted (py_get ''depends_on'' d)),
      (''provenance_json'',
         (if py_get ''created_from'' d = PyNone then PyDict []
          else key_sorted (py_get ''created_from'' d)))]"

definition intent_status_columns :: "jdict option \<Rightarrow> string \<times> string" where
  "intent_status_columns st =
     (case st of None \<Rightarrow> (task_status_value Tst_QUEUED, pipeline_status_value Pst_BACKLOG)
      | Some d \<Rightarrow> status_columns d)"

section \<open>Writing rows\<close>

text \<open>
  The upsert of an intent: on a conflict every column but the two status columns is replaced. And
  the \<open>UPDATE task_intent SET lifecycle_status, pipeline_status\<close> that follows each state write.
\<close>

definition upsert_intent :: "string \<Rightarrow> intent_row \<Rightarrow> task_db \<Rightarrow> task_db" where
  "upsert_intent tid row db =
     db \<lparr>tb_task_intent := AList.update tid
          (case map_of (tb_task_intent db) tid of
             None \<Rightarrow> row
           | Some old \<Rightarrow> row \<lparr>ir_lifecycle_status := ir_lifecycle_status old,
                              ir_pipeline_status := ir_pipeline_status old\<rparr>)
          (tb_task_intent db)\<rparr>"

definition mirror_status :: "string \<Rightarrow> string \<times> string \<Rightarrow> task_db \<Rightarrow> task_db" where
  "mirror_status tid cols db =
     (case map_of (tb_task_intent db) tid of
        None \<Rightarrow> db
      | Some old \<Rightarrow> db \<lparr>tb_task_intent := AList.update tid
          (old \<lparr>ir_lifecycle_status := fst cols, ir_pipeline_status := snd cols\<rparr>)
          (tb_task_intent db)\<rparr>)"

definition upsert_state :: "string \<Rightarrow> task_state_row \<Rightarrow> string \<times> string \<Rightarrow> task_db \<Rightarrow> task_db" where
  "upsert_state tid row cols db =
     mirror_status tid cols (db \<lparr>tb_task_state := AList.update tid row (tb_task_state db)\<rparr>)"

definition put_workspace :: "string \<Rightarrow> jdict \<Rightarrow> task_db \<Rightarrow> task_db" where
  "put_workspace now ws db =
     db \<lparr>tb_pool_state := Some (stored_payload (AList.delete ''queue'' ws), now),
         tb_queue := Some (key_sorted (py_get ''queue'' ws), now)\<rparr>"

definition put_journal :: "string \<Rightarrow> int \<Rightarrow> journal_row \<Rightarrow> task_db \<Rightarrow> task_db" where
  "put_journal tid i row db =
     db \<lparr>tb_task_journal := AList.update (tid, i) row (tb_task_journal db)\<rparr>"

definition put_pipeline :: "string \<Rightarrow> state_row \<Rightarrow> task_db \<Rightarrow> task_db" where
  "put_pipeline tid row db = db \<lparr>tb_pipeline := AList.update tid row (tb_pipeline db)\<rparr>"

definition insert_task_audit_entries :: "audit_entry list \<Rightarrow> task_db \<Rightarrow> task_db" where
  "insert_task_audit_entries entries db =
     db \<lparr>tb_audit := tb_audit db @
           map (\<lambda>a. a \<lparr>ae_context := stored_payload (ae_context a)\<rparr>) entries\<rparr>"

section \<open>The last row that matches\<close>

fun replace_first :: "('a \<Rightarrow> bool) \<Rightarrow> ('a \<Rightarrow> 'a) \<Rightarrow> 'a list \<Rightarrow> 'a list option" where
  "replace_first P f [] = None"
| "replace_first P f (x # xs) =
     (if P x then Some (f x # xs) else map_option ((#) x) (replace_first P f xs))"

definition replace_last :: "('a \<Rightarrow> bool) \<Rightarrow> ('a \<Rightarrow> 'a) \<Rightarrow> 'a list \<Rightarrow> 'a list option" where
  "replace_last P f xs = map_option rev (replace_first P f (rev xs))"

lemma replace_first_None: "replace_first P f xs = None \<longleftrightarrow> (\<forall>x\<in>set xs. \<not> P x)"
  by (induction xs) auto

lemma replace_last_None: "replace_last P f xs = None \<longleftrightarrow> (\<forall>x\<in>set xs. \<not> P x)"
  by (simp add: replace_last_def replace_first_None)

text \<open>Both sides of a one-to-one rendering of rows rewrite the same position.\<close>

lemma replace_first_map:
  assumes "\<And>x. x \<in> set xs \<Longrightarrow> Q (g x) \<longleftrightarrow> P x" "\<And>x. x \<in> set xs \<Longrightarrow> P x \<Longrightarrow> h (g x) = g (f x)"
  shows "replace_first Q h (map g xs) = map_option (map g) (replace_first P f xs)"
  using assms by (induction xs) (auto simp: option.map_comp comp_def)

lemma replace_last_map:
  assumes "\<And>x. x \<in> set xs \<Longrightarrow> Q (g x) \<longleftrightarrow> P x" "\<And>x. x \<in> set xs \<Longrightarrow> P x \<Longrightarrow> h (g x) = g (f x)"
  shows "replace_last Q h (map g xs) = map_option (map g) (replace_last P f xs)"
  using replace_first_map [of "rev xs" Q g P h f] assms
  by (simp add: replace_last_def rev_map option.map_comp comp_def)

end
