(* ===== verification/Event_Log.thy ===== *)
theory Event_Log
  imports Task_Tables
begin

text \<open>
  The append-only task event log and its replay (\<open>litehive/tasks/event_log.py\<close>), with the safety
  check of a rebuild (\<open>litehive/state/rebuild_safety.py\<close>). The log file is the list of its lines:
  blank, not JSON, or the JSON value of the line. \<open>pydantic\<close> is a parameter: \<open>V k d\<close> is the dump of
  \<open>M.model_validate(d)\<close> for the model \<open>M\<close> named by \<open>k\<close>, and \<open>None\<close> when it raises
  \<open>ValidationError\<close>. \<open>now\<close> is what \<open>utcnow()\<close> returns.
\<close>

datatype model_kind =
    Workspace_State | Task_Intent | Task_State_Record | Stage_Report | Recovery_Report | Activity_Entry

type_synonym validator = "model_kind \<Rightarrow> jdict \<Rightarrow> jdict option"

section \<open>Event records\<close>

definition TASK_EVENT_LOG_SCHEMA_VERSION :: int where
  "TASK_EVENT_LOG_SCHEMA_VERSION = 1"

definition ACTION_EVENT_TYPES :: "(string, string) dict" where
  "ACTION_EVENT_TYPES =
     [(''created'', ''task_created''), (''metadata_updated'', ''task_updated''),
      (''closed'', ''task_closed''), (''requeued'', ''task_requeued''),
      (''resumed'', ''task_resumed''), (''abandoned'', ''task_abandoned''),
      (''parked'', ''task_parked''), (''stopped'', ''task_stopped''),
      (''removed'', ''task_removed''), (''deleted'', ''task_deleted''),
      (''engine_switched'', ''task_engine_switched''), (''queue_enqueued'', ''task_queued''),
      (''queue_moved'', ''queue_reordered''), (''queue_prioritized'', ''queue_reordered'')]"

definition task_event_type_for_audit_action :: "string \<Rightarrow> string" where
  "task_event_type_for_audit_action action = dict_get action (''task_'' @ action) ACTION_EVENT_TYPES"

datatype log_line = Blank_line | Bad_line | Json_line pyval

definition event_record :: "string \<Rightarrow> string option \<Rightarrow> jdict \<Rightarrow> string \<Rightarrow> jdict" where
  "event_record ty tid p timestamp =
     [(''schema_version'', PyInt TASK_EVENT_LOG_SCHEMA_VERSION), (''timestamp'', PyStr timestamp),
      (''task_id'', opt_str_val tid), (''event_type'', PyStr ty), (''payload'', PyDict p)]"

definition log_append ::
  "bool \<Rightarrow> string \<Rightarrow> string option \<Rightarrow> jdict \<Rightarrow> string \<Rightarrow> log_line list \<Rightarrow> log_line list" where
  "log_append suppressed ty tid p now lines =
     (if suppressed then lines
      else lines @ [Json_line (key_sorted (PyDict (event_record ty tid p now)))])"

text \<open>\<open>read\<close>: the events and the number of lines that are no event.\<close>

definition line_event :: "log_line \<Rightarrow> jdict option" where
  "line_event l =
     (case l of
        Json_line v \<Rightarrow>
          (case as_dict v of None \<Rightarrow> None
           | Some e \<Rightarrow> if as_dict (py_get ''payload'' e) = None then None else Some e)
      | _ \<Rightarrow> None)"

fun read_events :: "log_line list \<Rightarrow> jdict list \<times> nat" where
  "read_events [] = ([], 0)"
| "read_events (l # ls) =
     (let (es, invalid) = read_events ls in
      if l = Blank_line then (es, invalid)
      else case line_event l of None \<Rightarrow> (es, Suc invalid) | Some e \<Rightarrow> (e # es, invalid))"

fun has_events :: "log_line list \<Rightarrow> bool" where
  "has_events [] = False"
| "has_events (l # ls) = (line_event l \<noteq> None \<or> has_events ls)"

lemma has_events_iff: "has_events ls \<longleftrightarrow> fst (read_events ls) \<noteq> []"
  by (induction ls) (auto simp: split_beta Let_def line_event_def split: option.splits log_line.splits)

section \<open>Folding events\<close>

record replay_state =
  re_workspace_state :: "jdict option"
  re_task_intents :: "(string, jdict) dict"
  re_task_states :: "(string, jdict) dict"
  re_task_journal :: "(string, jdict list) dict"
  re_task_activity :: "(string, jdict list) dict"
  re_audit :: "jdict list"
  re_stage_reports :: "jdict list"
  re_recovery_reports :: "jdict list"
  re_pipeline :: "(string, jdict) dict"
  re_transitions :: "jdict list"
  re_lifecycle :: "jdict list"

definition empty_replay :: replay_state where
  "empty_replay =
     \<lparr>re_workspace_state = None, re_task_intents = [], re_task_states = [], re_task_journal = [],
      re_task_activity = [], re_audit = [], re_stage_reports = [], re_recovery_reports = [],
      re_pipeline = [], re_transitions = [], re_lifecycle = []\<rparr>"

definition keep_other :: "string \<Rightarrow> jdict list \<Rightarrow> jdict list" where
  "keep_other tid rows = filter (\<lambda>r. py_str (py_get ''task_id'' r) \<noteq> tid) rows"

definition delete_task_scoped_replay_state :: "string \<Rightarrow> replay_state \<Rightarrow> replay_state" where
  "delete_task_scoped_replay_state tid rs =
     rs \<lparr>re_task_intents := AList.delete tid (re_task_intents rs),
         re_task_states := AList.delete tid (re_task_states rs),
         re_task_journal := AList.delete tid (re_task_journal rs),
         re_task_activity := AList.delete tid (re_task_activity rs),
         re_stage_reports := keep_other tid (re_stage_reports rs),
         re_recovery_reports := keep_other tid (re_recovery_reports rs),
         re_pipeline := AList.delete tid (re_pipeline rs),
         re_transitions := keep_other tid (re_transitions rs),
         re_lifecycle := keep_other tid (re_lifecycle rs)\<rparr>"

definition report_state :: "jdict \<Rightarrow> string" where
  "report_state r = py_str (py_or (py_or (py_get ''pipeline_state'' r) (py_get ''stage'' r)) (PyStr []))"

definition rewrite_stage_reports :: "jdict \<Rightarrow> jdict list \<Rightarrow> jdict list" where
  "rewrite_stage_reports rep rows =
     (case replace_last (\<lambda>x. text_field ''task_id'' x = text_field ''task_id'' rep \<and>
                             report_state x = report_state rep) (\<lambda>_. rep) rows of
        Some rows' \<Rightarrow> rows'
      | None \<Rightarrow> rows @ [rep])"

text \<open>One slot of a payload: nothing when the value has not the expected shape.\<close>

definition on_dict :: "string \<Rightarrow> (jdict \<Rightarrow> replay_state \<Rightarrow> replay_state) \<Rightarrow> jdict \<Rightarrow> replay_state \<Rightarrow> replay_state" where
  "on_dict k f p rs = (case as_dict (py_get k p) of None \<Rightarrow> rs | Some d \<Rightarrow> f d rs)"

definition on_list :: "string \<Rightarrow> (jdict list \<Rightarrow> replay_state \<Rightarrow> replay_state) \<Rightarrow> jdict \<Rightarrow> replay_state \<Rightarrow> replay_state" where
  "on_list k f p rs =
     (case as_list (py_get k p) of None \<Rightarrow> rs | Some xs \<Rightarrow> f (List.map_filter as_dict xs) rs)"

definition task_slots :: "string \<Rightarrow> jdict \<Rightarrow> replay_state \<Rightarrow> replay_state" where
  "task_slots tid p rs =
     on_dict ''pipeline_task_state'' (\<lambda>d rs. rs \<lparr>re_pipeline := AList.update tid d (re_pipeline rs)\<rparr>) p
     (on_list ''task_journal'' (\<lambda>xs rs. rs \<lparr>re_task_journal :=
          AList.update tid (dict_get tid [] (re_task_journal rs) @ xs) (re_task_journal rs)\<rparr>) p
     (on_list ''activity'' (\<lambda>xs rs. rs \<lparr>re_task_activity := AList.update tid xs (re_task_activity rs)\<rparr>) p
     (on_dict ''task_state'' (\<lambda>d rs. rs \<lparr>re_task_states := AList.update tid d (re_task_states rs)\<rparr>) p
     (on_dict ''task_intent'' (\<lambda>d rs. rs \<lparr>re_task_intents := AList.update tid d (re_task_intents rs)\<rparr>) p
        rs))))"

definition log_slots :: "jdict \<Rightarrow> replay_state \<Rightarrow> replay_state" where
  "log_slots p rs =
     on_dict ''pipeline_journal'' (\<lambda>d rs. rs \<lparr>re_lifecycle := re_lifecycle rs @ [d]\<rparr>) p
     (on_dict ''pipeline_transition'' (\<lambda>d rs. rs \<lparr>re_transitions := re_transitions rs @ [d]\<rparr>) p
     (on_dict ''recovery_report'' (\<lambda>d rs. rs \<lparr>re_recovery_reports := re_recovery_reports rs @ [d]\<rparr>) p
     (on_dict ''rewritten_stage_report'' (\<lambda>d rs. rs \<lparr>re_stage_reports := rewrite_stage_reports d (re_stage_reports rs)\<rparr>) p
     (on_dict ''stage_report'' (\<lambda>d rs. rs \<lparr>re_stage_reports := re_stage_reports rs @ [d]\<rparr>) p
     (on_dict ''audit_entry'' (\<lambda>d rs. rs \<lparr>re_audit := re_audit rs @ [d]\<rparr>) p
     (on_dict ''workspace_state'' (\<lambda>d rs. rs \<lparr>re_workspace_state := Some d\<rparr>) p rs))))))"

text \<open>
  \<open>_apply_event\<close>. The slots write disjoint collections, so the order of the slots that name a task
  and of the others does not matter; the tombstone comes first and the reset after the slot it
  undoes, as in the code.
\<close>

definition apply_event :: "jdict \<Rightarrow> replay_state \<Rightarrow> replay_state" where
  "apply_event event rs =
     (let ty = text_field ''event_type'' event;
          tid = optional_str (py_get ''task_id'' event);
          p = dict_field ''payload'' event in
      case tid of
        None \<Rightarrow> log_slots p rs
      | Some t \<Rightarrow>
          if t = [] then log_slots p rs
          else
            (let rs1 = (if ty = ''task_deleted'' \<or> ty = ''task_removed''
                        then delete_task_scoped_replay_state t rs else rs);
                 rs2 = log_slots p (task_slots t p rs1) in
             if ty = ''pipeline_task_state_reset''
             then rs2 \<lparr>re_pipeline := AList.delete t (re_pipeline rs2)\<rparr> else rs2))"

definition replay :: "jdict list \<Rightarrow> replay_state" where
  "replay events = fold apply_event events empty_replay"

section \<open>Numbers\<close>

text \<open>\<open>int(text)\<close>: spaces around, a sign, decimal digits with single underscores between them.\<close>

definition is_digit :: "char \<Rightarrow> bool" where
  "is_digit c = (let n = (of_char c :: nat) in 48 \<le> n \<and> n \<le> 57)"

fun digit_run :: "int \<Rightarrow> string \<Rightarrow> int option" where
  "digit_run acc [] = Some acc"
| "digit_run acc [c] = (if is_digit c then Some (acc * 10 + (of_char c - 48)) else None)"
| "digit_run acc (c # d # cs) =
     (if is_digit c then digit_run (acc * 10 + (of_char c - 48)) (d # cs)
      else if c = CHR ''_'' \<and> is_digit d then digit_run (acc * 10 + (of_char d - 48)) cs
      else None)"

definition int_of_text :: "string \<Rightarrow> int option" where
  "int_of_text s =
     (let t = py_strip s;
          u = (case t of c # cs \<Rightarrow> if c = CHR ''-'' \<or> c = CHR ''+'' then cs else t | [] \<Rightarrow> t)
      in if u = [] \<or> \<not> is_digit (hd u) then None
         else map_option (\<lambda>n. if hd t = CHR ''-'' then - n else n) (digit_run 0 u))"

definition int_of :: "pyval \<Rightarrow> int option" where
  "int_of v = (case v of PyStr s \<Rightarrow> int_of_text s | _ \<Rightarrow> py_int v)"

section \<open>The workspace counter\<close>

definition default_workspace :: jdict where
  "default_workspace =
     [(''active_task_id'', PyNone), (''queue'', PyList []), (''pool_stop_reason'', PyNone),
      (''consecutive_task_failures'', PyInt 0), (''next_task_number'', PyInt 0),
      (''unmerged_worktrees'', PyList [])]"

definition replayed_task_ids :: "replay_state \<Rightarrow> string list" where
  "replayed_task_ids rs = map fst (re_task_intents rs) @ map fst (re_task_states rs)"

definition highest_replayed_number :: "replay_state \<Rightarrow> int" where
  "highest_replayed_number rs =
     fold (\<lambda>tid n. case int_of_text (removeprefix tid ''T-'') of None \<Rightarrow> n | Some i \<Rightarrow> max n i)
       (replayed_task_ids rs) 0"

definition replayed_workspace :: "replay_state \<Rightarrow> jdict" where
  "replayed_workspace rs =
     (case re_workspace_state rs of
        None \<Rightarrow> default_workspace
      | Some d \<Rightarrow> if d = [] then default_workspace else d)"

datatype rebuild_error = Rebuild_unsafe "string list" | Rebuild_failed string

definition workspace_state_payload :: "replay_state \<Rightarrow> rebuild_error + jdict" where
  "workspace_state_payload rs =
     (case int_of (py_or (py_get ''next_task_number'' (replayed_workspace rs)) (PyInt 0)) of
        None \<Rightarrow> Inl (Rebuild_failed ''ValueError'')
      | Some n \<Rightarrow> Inr (AList.update ''next_task_number'' (PyInt (max n (highest_replayed_number rs)))
                        (replayed_workspace rs)))"

section \<open>Writing the tables\<close>

fun then_do :: "rebuild_error + 'a \<Rightarrow> ('a \<Rightarrow> rebuild_error + 'b) \<Rightarrow> rebuild_error + 'b" where
  "then_do (Inl err) f = Inl err"
| "then_do (Inr x) f = f x"

fun for_each :: "('x \<Rightarrow> 's \<Rightarrow> rebuild_error + 's) \<Rightarrow> 'x list \<Rightarrow> 's \<Rightarrow> rebuild_error + 's" where
  "for_each f [] s = Inr s"
| "for_each f (x # xs) s = then_do (f x s) (for_each f xs)"

definition insert_workspace_state :: "validator \<Rightarrow> string \<Rightarrow> jdict \<Rightarrow> task_db \<Rightarrow> rebuild_error + task_db" where
  "insert_workspace_state V now p db =
     (case V Workspace_State p of
        None \<Rightarrow> Inl (Rebuild_failed ''ValidationError'')
      | Some d \<Rightarrow> Inr (put_workspace now d db))"

definition insert_task_intent :: "validator \<Rightarrow> string \<Rightarrow> string \<times> jdict \<Rightarrow> task_db \<Rightarrow> rebuild_error + task_db" where
  "insert_task_intent V now item db =
     (case V Task_Intent (snd item) of
        None \<Rightarrow> Inl (Rebuild_failed ''ValidationError'')
      | Some d \<Rightarrow>
          Inr (upsert_intent (fst item)
            \<lparr>ir_payload = stored_payload d,
             ir_updated_at = py_str (py_or (py_get ''updated_at'' (snd item))
                                (py_or (py_get ''created_at'' d) (PyStr now))),
             ir_columns = intent_columns d,
             ir_lifecycle_status = fst (intent_status_columns None),
             ir_pipeline_status = snd (intent_status_columns None)\<rparr> db))"

definition insert_task_state :: "validator \<Rightarrow> string \<Rightarrow> string \<times> jdict \<Rightarrow> task_db \<Rightarrow> rebuild_error + task_db" where
  "insert_task_state V now item db =
     (case V Task_State_Record (snd item) of
        None \<Rightarrow> Inl (Rebuild_failed ''ValidationError'')
      | Some d \<Rightarrow>
          Inr (upsert_state (fst item)
            \<lparr>ts_payload = stored_payload d, ts_updated_at = text_field_or now ''updated_at'' d\<rparr>
            (status_columns d) db))"

text \<open>A journal entry goes to its own index, or to its place in the log when it carries none.\<close>

definition journal_row_of :: "string \<Rightarrow> nat \<times> jdict \<Rightarrow> rebuild_error + int \<times> journal_row" where
  "journal_row_of now ientry =
     (let entry = snd ientry; raw = py_get ''entry_index'' entry in
      case (if raw = PyNone then Some (int (fst ientry)) else int_of raw) of
        None \<Rightarrow> Inl (Rebuild_failed ''ValueError'')
      | Some i \<Rightarrow>
          Inr (i, \<lparr>jo_created_at = text_field_or now ''created_at'' entry,
                   jo_message = text_field ''message'' entry,
                   jo_metadata = stored_payload (dict_field ''metadata'' entry)\<rparr>))"

definition insert_journal_entry ::
  "string \<Rightarrow> string \<Rightarrow> nat \<times> jdict \<Rightarrow> task_db \<Rightarrow> rebuild_error + task_db" where
  "insert_journal_entry now tid ientry db =
     then_do (journal_row_of now ientry) (\<lambda>r. Inr (put_journal tid (fst r) (snd r) db))"

definition insert_task_journal ::
  "string \<Rightarrow> string \<times> jdict list \<Rightarrow> task_db \<Rightarrow> rebuild_error + task_db" where
  "insert_task_journal now item = for_each (insert_journal_entry now (fst item)) (enumerate 0 (snd item))"

definition insert_activity_entry ::
  "string \<Rightarrow> string \<Rightarrow> nat \<times> jdict \<Rightarrow> task_db \<Rightarrow> rebuild_error + task_db" where
  "insert_activity_entry now tid ientry db =
     (let key = (tid, int (fst ientry)); entry = snd ientry in
      if map_of (tb_task_activity db) key \<noteq> None then Inl (Rebuild_failed ''IntegrityError'')
      else Inr (db \<lparr>tb_task_activity := AList.update key
             \<lparr>av_created_at = text_field_or now ''created_at'' entry, av_payload = stored_payload entry\<rparr>
             (tb_task_activity db)\<rparr>))"

definition insert_task_activity ::
  "string \<Rightarrow> string \<times> jdict list \<Rightarrow> task_db \<Rightarrow> rebuild_error + task_db" where
  "insert_task_activity now item = for_each (insert_activity_entry now (fst item)) (enumerate 0 (snd item))"

definition stage_report_row_of :: "string \<Rightarrow> jdict \<Rightarrow> stage_report_row" where
  "stage_report_row_of now r =
     \<lparr>sp_task_id = text_field ''task_id'' r, sp_pipeline_state = report_state r,
      sp_created_at = text_field_or now ''created_at'' r, sp_payload = stored_payload r\<rparr>"

definition insert_stage_report :: "string \<Rightarrow> jdict \<Rightarrow> task_db \<Rightarrow> task_db" where
  "insert_stage_report now r db =
     db \<lparr>tb_stage_reports := tb_stage_reports db @ [stage_report_row_of now r]\<rparr>"

definition recovery_report_row_of :: "string \<Rightarrow> jdict \<Rightarrow> recovery_report_row" where
  "recovery_report_row_of now r =
     \<lparr>rv_task_id = text_field ''task_id'' r, rv_origin_stage = optional_str (py_get ''origin_stage'' r),
      rv_trigger = text_field ''trigger_event_kind'' r,
      rv_created_at = text_field_or now ''created_at'' r, rv_payload = stored_payload r\<rparr>"

definition insert_recovery_report :: "string \<Rightarrow> jdict \<Rightarrow> task_db \<Rightarrow> task_db" where
  "insert_recovery_report now r db =
     db \<lparr>tb_recovery_reports := tb_recovery_reports db @ [recovery_report_row_of now r]\<rparr>"

text \<open>\<open>dict(d.get(k) or {})\<close> of a dict, \<open>_optional_int\<close> and \<open>int(d.get(k) or 0)\<close>.\<close>

definition dict_or_blank :: "string \<Rightarrow> jdict \<Rightarrow> rebuild_error + jdict" where
  "dict_or_blank k d =
     (case as_dict (py_or (py_get k d) (PyDict [])) of
        None \<Rightarrow> Inl (Rebuild_failed ''TypeError'') | Some p \<Rightarrow> Inr p)"

definition optional_int :: "pyval \<Rightarrow> rebuild_error + int option" where
  "optional_int v =
     (if v = PyNone then Inr None
      else case int_of v of None \<Rightarrow> Inl (Rebuild_failed ''TypeError'') | Some i \<Rightarrow> Inr (Some i))"

definition int_or_zero :: "string \<Rightarrow> jdict \<Rightarrow> rebuild_error + int" where
  "int_or_zero k d =
     (case int_of (py_or (py_get k d) (PyInt 0)) of
        None \<Rightarrow> Inl (Rebuild_failed ''TypeError'') | Some i \<Rightarrow> Inr i)"

definition audit_row_of :: "string \<Rightarrow> jdict \<Rightarrow> rebuild_error + audit_entry" where
  "audit_row_of now e =
     then_do (optional_int (py_get ''queue_position_before'' e)) (\<lambda>before.
     then_do (optional_int (py_get ''queue_position_after'' e)) (\<lambda>after.
     then_do (dict_or_blank ''context'' e) (\<lambda>ctx.
       Inr \<lparr>ae_task_id = text_field ''task_id'' e, ae_created_at = text_field_or now ''created_at'' e,
            ae_action = text_field ''action'' e, ae_actor = text_field ''actor'' e,
            ae_source = text_field ''source'' e,
            ae_task_status_before = optional_str (py_get ''task_status_before'' e),
            ae_task_status_after = optional_str (py_get ''task_status_after'' e),
            ae_pipeline_status_before = optional_str (py_get ''pipeline_status_before'' e),
            ae_pipeline_status_after = optional_str (py_get ''pipeline_status_after'' e),
            ae_queue_position_before = before, ae_queue_position_after = after,
            ae_context = stored_payload ctx\<rparr>)))"

definition insert_task_audit_entry :: "string \<Rightarrow> jdict \<Rightarrow> task_db \<Rightarrow> rebuild_error + task_db" where
  "insert_task_audit_entry now e db =
     then_do (audit_row_of now e) (\<lambda>a. Inr (db \<lparr>tb_audit := tb_audit db @ [a]\<rparr>))"

definition pipeline_row_of :: "string \<Rightarrow> jdict \<Rightarrow> rebuild_error + state_row" where
  "pipeline_row_of now r =
     then_do (dict_or_blank ''payload'' r) (\<lambda>p.
       Inr \<lparr>row_stage = text_field ''stage'' r, row_mode = text_field_or ''full'' ''pipeline_mode'' r,
            row_payload = stored_payload p, row_updated_at = text_field_or now ''updated_at'' r\<rparr>)"

definition insert_pipeline_task_state ::
  "string \<Rightarrow> string \<times> jdict \<Rightarrow> task_db \<Rightarrow> rebuild_error + task_db" where
  "insert_pipeline_task_state now item db =
     then_do (pipeline_row_of now (snd item)) (\<lambda>row. Inr (put_pipeline (fst item) row db))"

definition transition_row_of :: "string \<Rightarrow> jdict \<Rightarrow> rebuild_error + transition_row" where
  "transition_row_of now r =
     then_do (int_or_zero ''seq'' r) (\<lambda>n.
     then_do (dict_or_blank ''event_payload'' r) (\<lambda>ep.
     then_do (dict_or_blank ''delta'' r) (\<lambda>dl.
       Inr \<lparr>xn_task_id = text_field ''task_id'' r, xn_seq = n,
            xn_created_at = text_field_or now ''created_at'' r,
            xn_from_stage = text_field ''from_stage'' r, xn_event_type = text_field ''event_type'' r,
            xn_event_payload = stored_payload ep, xn_to_stage = text_field ''to_stage'' r,
            xn_rule = text_field ''rule_description'' r, xn_delta = stored_payload dl\<rparr>)))"

definition insert_pipeline_transition :: "string \<Rightarrow> jdict \<Rightarrow> task_db \<Rightarrow> rebuild_error + task_db" where
  "insert_pipeline_transition now r db =
     then_do (transition_row_of now r) (\<lambda>row. Inr (db \<lparr>tb_transitions := tb_transitions db @ [row]\<rparr>))"

definition lifecycle_row_of :: "string \<Rightarrow> jdict \<Rightarrow> rebuild_error + lifecycle_row" where
  "lifecycle_row_of now r =
     then_do (int_or_zero ''seq'' r) (\<lambda>n.
     then_do (dict_or_blank ''payload'' r) (\<lambda>p.
       Inr \<lparr>lf_task_id = text_field ''task_id'' r, lf_seq = n,
            lf_created_at = text_field_or now ''created_at'' r, lf_kind = text_field ''kind'' r,
            lf_payload = stored_payload p\<rparr>))"

definition insert_pipeline_journal :: "string \<Rightarrow> jdict \<Rightarrow> task_db \<Rightarrow> rebuild_error + task_db" where
  "insert_pipeline_journal now r db =
     then_do (lifecycle_row_of now r) (\<lambda>row. Inr (db \<lparr>tb_lifecycle := tb_lifecycle db @ [row]\<rparr>))"

text \<open>\<open>sorted(d.items())\<close>, \<open>_clear_replay_tables\<close> and \<open>_write_replay_state\<close>.\<close>

definition sorted_items :: "(string, 'v) dict \<Rightarrow> (string \<times> 'v) list" where
  "sorted_items d = sort_key fst d"

definition clear_replay_tables :: "task_db \<Rightarrow> task_db" where
  "clear_replay_tables db = blank_db \<lparr>tb_process := tb_process db\<rparr>"

definition write_replay_state ::
  "validator \<Rightarrow> string \<Rightarrow> replay_state \<Rightarrow> task_db \<Rightarrow> rebuild_error + task_db" where
  "write_replay_state V now rs db =
     then_do (workspace_state_payload rs) (\<lambda>ws.
     then_do (insert_workspace_state V now ws db) (\<lambda>db.
     then_do (for_each (insert_task_intent V now) (sorted_items (re_task_intents rs)) db) (\<lambda>db.
     then_do (for_each (insert_task_state V now) (sorted_items (re_task_states rs)) db) (\<lambda>db.
     then_do (for_each (insert_task_journal now) (sorted_items (re_task_journal rs)) db) (\<lambda>db.
     then_do (for_each (insert_task_activity now) (sorted_items (re_task_activity rs)) db) (\<lambda>db.
     then_do (Inr (fold (insert_stage_report now) (re_stage_reports rs) db)) (\<lambda>db.
     then_do (Inr (fold (insert_recovery_report now) (re_recovery_reports rs) db)) (\<lambda>db.
     then_do (for_each (insert_task_audit_entry now) (re_audit rs) db) (\<lambda>db.
     then_do (for_each (insert_pipeline_task_state now) (sorted_items (re_pipeline rs)) db) (\<lambda>db.
     then_do (for_each (insert_pipeline_transition now) (re_transitions rs) db) (\<lambda>db.
       for_each (insert_pipeline_journal now) (re_lifecycle rs) db)))))))))))"

section \<open>Rebuild safety\<close>

text \<open>
  \<open>sqlite_task_ids\<close>: \<open>None\<close> is a database file that is missing or cannot be read. The file itself
  is \<open>db_path\<close>; \<open>dirs\<close> are the names of the artifact directories under \<open>tasks/\<close>.
\<close>

definition sqlite_task_ids :: "task_db option \<Rightarrow> string set" where
  "sqlite_task_ids db =
     (case db of None \<Rightarrow> {}
      | Some d \<Rightarrow> set (map fst (tb_task_state d)) \<union> set (map fst (tb_task_intent d)))"

definition task_dir_id :: "string \<Rightarrow> string option" where
  "task_dir_id name =
     (let tid = take 6 name; rest = drop 6 name in
      if starts_with tid ''T-'' \<and> length tid = 6 \<and> list_all is_digit (drop 2 tid) \<and>
         (rest = [] \<or> rest = [CHR 0x0A] \<or> hd rest = CHR ''-'')
      then Some tid else None)"

definition task_artifact_dir_ids :: "string list \<Rightarrow> string set" where
  "task_artifact_dir_ids dirs = set (List.map_filter task_dir_id dirs)"

definition log_task_ids_step :: "log_line \<Rightarrow> string set \<Rightarrow> string set" where
  "log_task_ids_step l ids =
     (case l of
        Json_line v \<Rightarrow>
          (case as_dict v of None \<Rightarrow> ids
           | Some e \<Rightarrow>
               (case as_str (py_get ''task_id'' e) of None \<Rightarrow> ids
                | Some t \<Rightarrow>
                    if t = [] then ids
                    else if text_field ''event_type'' e \<in> {''task_deleted'', ''task_removed''} then ids - {t}
                    else (case as_dict (py_get ''payload'' e) of None \<Rightarrow> ids
                          | Some p \<Rightarrow> if ''task_intent'' \<in> fst ` set p \<or> ''task_state'' \<in> fst ` set p
                                      then insert t ids else ids)))
      | _ \<Rightarrow> ids)"

definition event_log_replay_task_ids :: "log_line list \<Rightarrow> string set" where
  "event_log_replay_task_ids lines = fold log_task_ids_step lines {}"

record safety_report =
  sy_sqlite_task_ids :: "string set"
  sy_task_dir_ids :: "string set"
  sy_replay_task_ids :: "string set"
  sy_missing_task_ids :: "string list"

definition assert_safe ::
  "task_db option \<Rightarrow> string list \<Rightarrow> log_line list \<Rightarrow> string set option \<Rightarrow> rebuild_error + safety_report" where
  "assert_safe db dirs lines replay_ids =
     (let expected = sqlite_task_ids db;
          covered = (case replay_ids of None \<Rightarrow> event_log_replay_task_ids lines | Some ids \<Rightarrow> ids);
          missing = sorted_list_of_set (expected - covered) in
      if missing \<noteq> [] then Inl (Rebuild_unsafe missing)
      else Inr \<lparr>sy_sqlite_task_ids = expected, sy_task_dir_ids = task_artifact_dir_ids dirs,
                sy_replay_task_ids = covered, sy_missing_task_ids = missing\<rparr>)"

section \<open>Rebuilding\<close>

record replay_summary =
  sm_events_seen :: nat
  sm_events_replayed :: nat
  sm_invalid_events :: nat
  sm_tasks_rebuilt :: nat
  sm_queue_length :: nat
  sm_audit_entries :: nat
  sm_activity_entries :: nat
  sm_stage_reports :: nat
  sm_recovery_reports :: nat

definition summary_of :: "jdict list \<Rightarrow> nat \<Rightarrow> replay_state \<Rightarrow> jdict \<Rightarrow> replay_summary" where
  "summary_of events invalid rs ws =
     \<lparr>sm_events_seen = length events + invalid, sm_events_replayed = length events,
      sm_invalid_events = invalid, sm_tasks_rebuilt = length (re_task_intents rs),
      sm_queue_length = (case as_list (py_get ''queue'' ws) of None \<Rightarrow> 0 | Some q \<Rightarrow> length q),
      sm_audit_entries = length (re_audit rs),
      sm_activity_entries = sum_list (map (length \<circ> snd) (re_task_activity rs)),
      sm_stage_reports = length (re_stage_reports rs),
      sm_recovery_reports = length (re_recovery_reports rs)\<rparr>"

definition rebuild_sqlite ::
  "validator \<Rightarrow> string \<Rightarrow> string list \<Rightarrow> bool \<Rightarrow> log_line list \<Rightarrow> task_db \<Rightarrow>
   rebuild_error + task_db \<times> replay_summary" where
  "rebuild_sqlite V now dirs clear_existing lines db =
     (let (events, invalid) = read_events lines;
          rs = replay events in
      then_do (if clear_existing
               then then_do (assert_safe (Some db) dirs lines (Some (set (replayed_task_ids rs))))
                      (\<lambda>_. Inr (clear_replay_tables db))
               else Inr db) (\<lambda>db.
      then_do (write_replay_state V now rs db) (\<lambda>db.
      then_do (workspace_state_payload rs) (\<lambda>ws.
        Inr (db, summary_of events invalid rs ws)))))"

definition sqlite_task_tables_empty :: "task_db \<Rightarrow> bool" where
  "sqlite_task_tables_empty db = (length (tb_task_intent db) = 0 \<and> length (tb_task_state db) = 0)"

end
