(* ===== verification/Task_Store.thy ===== *)
theory Task_Store
  imports Event_Log
begin

text \<open>
  The writers of the workspace database and of its event log: the stores of
  \<open>litehive/state/store.py\<close> and the audit rows of \<open>litehive/tasks/audit.py\<close>. A store is the database
  and the lines of the log. A transaction is one function: the rows are committed together. The
  clock of a call is one text.
\<close>

record store_state =
  st_db :: task_db
  st_log :: "log_line list"

definition log_event :: "string \<Rightarrow> string \<Rightarrow> string option \<Rightarrow> jdict \<Rightarrow> store_state \<Rightarrow> store_state" where
  "log_event now ty tid p s = s \<lparr>st_log := log_append False ty tid p now (st_log s)\<rparr>"

definition on_db :: "(task_db \<Rightarrow> task_db) \<Rightarrow> store_state \<Rightarrow> store_state" where
  "on_db f s = s \<lparr>st_db := f (st_db s)\<rparr>"

section \<open>Workspace state\<close>

definition create_workspace_state_rows :: "string \<Rightarrow> task_db \<Rightarrow> task_db" where
  "create_workspace_state_rows now db =
     db \<lparr>tb_pool_state := (case tb_pool_state db of
            None \<Rightarrow> Some (stored_payload (AList.delete ''queue'' default_workspace), now)
          | Some r \<Rightarrow> Some r),
         tb_queue := (case tb_queue db of None \<Rightarrow> Some (PyList [], now) | Some r \<Rightarrow> Some r)\<rparr>"

text \<open>\<open>Inl\<close> is a \<open>ValidationError\<close>.\<close>

definition workspace_state_from_rows ::
  "validator \<Rightarrow> (jdict \<times> string) option \<Rightarrow> (pyval \<times> string) option \<Rightarrow> string + jdict option" where
  "workspace_state_from_rows V pool queue =
     (case (pool, queue) of
        (Some (p, _), Some (q, _)) \<Rightarrow>
          (case V Workspace_State (AList.update ''queue'' q p) of
             None \<Rightarrow> Inl ''ValidationError'' | Some d \<Rightarrow> Inr (Some d))
      | _ \<Rightarrow> Inr None)"

definition load_workspace_state ::
  "validator \<Rightarrow> string \<Rightarrow> task_db \<Rightarrow> (string + jdict option) \<times> task_db" where
  "load_workspace_state V now db =
     (let db' = create_workspace_state_rows now db in
      (workspace_state_from_rows V (tb_pool_state db') (tb_queue db'), db'))"

text \<open>\<open>None\<close> for the database is a file that does not exist.\<close>

definition load_workspace_state_read_only :: "validator \<Rightarrow> task_db option \<Rightarrow> string + jdict option" where
  "load_workspace_state_read_only V db =
     (case db of None \<Rightarrow> Inr None
      | Some d \<Rightarrow> workspace_state_from_rows V (tb_pool_state d) (tb_queue d))"

definition append_workspace_state_event :: "string \<Rightarrow> jdict \<Rightarrow> store_state \<Rightarrow> store_state" where
  "append_workspace_state_event now ws =
     log_event now ''workspace_state_saved'' None [(''workspace_state'', PyDict ws)]"

definition save_workspace_state :: "string \<Rightarrow> jdict \<Rightarrow> store_state \<Rightarrow> store_state" where
  "save_workspace_state now ws s =
     append_workspace_state_event now ws (on_db (put_workspace now ws) s)"

section \<open>Task state\<close>

definition load_task_state :: "validator \<Rightarrow> string \<Rightarrow> task_db \<Rightarrow> string + jdict option" where
  "load_task_state V tid db =
     (case map_of (tb_task_state db) tid of
        None \<Rightarrow> Inr None
      | Some row \<Rightarrow>
          (case V Task_State_Record (ts_payload row) of
             None \<Rightarrow> Inl ''ValidationError'' | Some d \<Rightarrow> Inr (Some d)))"

definition pipeline_block :: "jdict \<Rightarrow> jdict" where
  "pipeline_block st = dict_field ''pipeline'' (dict_field ''runtime'' st)"

definition pipeline_updated_at :: "jdict \<Rightarrow> pyval" where
  "pipeline_updated_at st = py_get ''updated_at'' (pipeline_block st)"

definition set_pipeline_updated_at :: "pyval \<Rightarrow> jdict \<Rightarrow> jdict" where
  "set_pipeline_updated_at v st =
     AList.update ''runtime'' (PyDict (AList.update ''pipeline''
       (PyDict (AList.update ''updated_at'' v (pipeline_block st))) (dict_field ''runtime'' st))) st"

definition stamp_time :: "string \<Rightarrow> jdict \<Rightarrow> string" where
  "stamp_time now st =
     py_str (py_or (py_get ''updated_at'' st) (py_or (pipeline_updated_at st) (PyStr now)))"

definition stamped_record :: "string \<Rightarrow> jdict \<Rightarrow> jdict" where
  "stamped_record now st =
     (let t = PyStr (stamp_time now st); st1 = AList.update ''updated_at'' t st in
      if pipeline_updated_at st1 = PyNone then set_pipeline_updated_at t st1 else st1)"

definition save_task_state_in_transaction :: "string \<Rightarrow> string \<Rightarrow> jdict \<Rightarrow> task_db \<Rightarrow> task_db" where
  "save_task_state_in_transaction now tid st =
     upsert_state tid
       \<lparr>ts_payload = stored_payload (stamped_record now st), ts_updated_at = stamp_time now st\<rparr>
       (status_columns st)"

definition save_task_state :: "string \<Rightarrow> string \<Rightarrow> jdict \<Rightarrow> store_state \<Rightarrow> store_state" where
  "save_task_state now tid st s =
     log_event now ''task_state_saved'' (Some tid) [(''task_state'', PyDict st)]
       (on_db (save_task_state_in_transaction now tid st) s)"

text \<open>
  \<open>save_task_runtime\<close>: the runtime block replaces that of the stored record, or of a fresh
  \<open>TaskStateRecord()\<close>, which is what validation makes of the empty dict.
\<close>

definition save_task_runtime ::
  "validator \<Rightarrow> string \<Rightarrow> string \<Rightarrow> jdict \<Rightarrow> store_state \<Rightarrow> string + store_state" where
  "save_task_runtime V now tid runtime s =
     (case load_task_state V tid (st_db s) of
        Inl err \<Rightarrow> Inl err
      | Inr found \<Rightarrow>
          (case (case found of Some d \<Rightarrow> Some d | None \<Rightarrow> V Task_State_Record []) of
             None \<Rightarrow> Inl ''ValidationError''
           | Some st \<Rightarrow>
               Inr (save_task_state now tid
                 (AList.update ''updated_at''
                   (PyStr (py_str (py_or (py_get ''updated_at'' (dict_field ''pipeline'' runtime))
                                    (py_or (py_get ''updated_at'' st) (PyStr now)))))
                   (AList.update ''runtime'' (PyDict runtime) st)) s)))"

section \<open>Task intent\<close>

definition load_task_intent :: "validator \<Rightarrow> string \<Rightarrow> task_db \<Rightarrow> string + jdict option" where
  "load_task_intent V tid db =
     (case map_of (tb_task_intent db) tid of
        None \<Rightarrow> Inr None
      | Some row \<Rightarrow>
          (case V Task_Intent (ir_payload row) of
             None \<Rightarrow> Inl ''ValidationError'' | Some d \<Rightarrow> Inr (Some d)))"

fun all_valid :: "jdict option list \<Rightarrow> string + jdict list" where
  "all_valid [] = Inr []"
| "all_valid (None # _) = Inl ''ValidationError''"
| "all_valid (Some d # ds) = (case all_valid ds of Inl err \<Rightarrow> Inl err | Inr xs \<Rightarrow> Inr (d # xs))"

definition list_task_intents :: "validator \<Rightarrow> task_db \<Rightarrow> string + jdict list" where
  "list_task_intents V db =
     all_valid (map (\<lambda>(_, row). V Task_Intent (ir_payload row)) (sorted_items (tb_task_intent db)))"

definition load_task_state_for_intent_columns :: "validator \<Rightarrow> string \<Rightarrow> task_db \<Rightarrow> jdict option" where
  "load_task_state_for_intent_columns V tid db =
     (case map_of (tb_task_state db) tid of None \<Rightarrow> None
      | Some row \<Rightarrow> V Task_State_Record (ts_payload row))"

definition save_task_intent_in_transaction ::
  "validator \<Rightarrow> string \<Rightarrow> string \<Rightarrow> jdict \<Rightarrow> task_db \<Rightarrow> task_db" where
  "save_task_intent_in_transaction V now tid d db =
     (let cols = intent_status_columns (load_task_state_for_intent_columns V tid db) in
      upsert_intent tid
        \<lparr>ir_payload = stored_payload d, ir_updated_at = now, ir_columns = intent_columns d,
         ir_lifecycle_status = fst cols, ir_pipeline_status = snd cols\<rparr> db)"

definition save_task_intent :: "validator \<Rightarrow> string \<Rightarrow> string \<Rightarrow> jdict \<Rightarrow> store_state \<Rightarrow> store_state" where
  "save_task_intent V now tid d s =
     log_event now ''task_intent_saved'' (Some tid) [(''task_intent'', PyDict d)]
       (on_db (save_task_intent_in_transaction V now tid d) s)"

section \<open>Process registry\<close>

definition process_int :: "pyval \<Rightarrow> int option" where
  "process_int v = (if v = PyNone then None else int_of v)"

definition process_columns :: "string list" where
  "process_columns =
     [''workspace'', ''command'', ''active_task_id'', ''log_dir'', ''started_at'', ''heartbeat_at'']"

definition save_process_state :: "string \<Rightarrow> string \<Rightarrow> string \<Rightarrow> jdict \<Rightarrow> task_db \<Rightarrow> task_db" where
  "save_process_state now key status p db =
     db \<lparr>tb_process := AList.update key
          \<lparr>pc_status = status, pc_pid = process_int (py_get ''pid'' p),
           pc_columns = map (\<lambda>k. (k, optional_str (py_get k p))) process_columns,
           pc_payload = stored_payload p, pc_updated_at = now\<rparr> (tb_process db)\<rparr>"

definition clear_process_state :: "string \<Rightarrow> task_db \<Rightarrow> task_db" where
  "clear_process_state key db = db \<lparr>tb_process := AList.delete key (tb_process db)\<rparr>"

definition process_row_values :: "string \<Rightarrow> process_row \<Rightarrow> jdict" where
  "process_row_values key row =
     [(''process_key'', PyStr key), (''status'', PyStr (pc_status row)),
      (''pid'', (case pc_pid row of None \<Rightarrow> PyNone | Some i \<Rightarrow> PyInt i))]
     @ map (\<lambda>(k, v). (k, opt_str_val v)) (pc_columns row)"

definition fill_missing :: "string \<times> pyval \<Rightarrow> jdict \<Rightarrow> jdict" where
  "fill_missing kv p =
     (if py_get (fst kv) p = PyNone \<and> snd kv \<noteq> PyNone then AList.update (fst kv) (snd kv) p else p)"

definition load_process_state :: "string \<Rightarrow> task_db \<Rightarrow> jdict option" where
  "load_process_state key db =
     (case map_of (tb_process db) key of None \<Rightarrow> None
      | Some row \<Rightarrow> Some (fold fill_missing (process_row_values key row) (pc_payload row)))"

section \<open>Journal\<close>

definition next_entry_index :: "string \<Rightarrow> task_db \<Rightarrow> int" where
  "next_entry_index tid db =
     (let used = map (\<lambda>r. snd (fst r)) (filter (\<lambda>r. fst (fst r) = tid) (tb_task_journal db)) in
      if used = [] then 0 else Max (set used) + 1)"

definition journal_event_entry :: "string \<Rightarrow> string \<Rightarrow> int \<Rightarrow> string \<Rightarrow> jdict" where
  "journal_event_entry now tid i message =
     [(''task_id'', PyStr tid), (''entry_index'', PyInt i), (''created_at'', PyStr now),
      (''message'', PyStr message), (''metadata'', PyDict [])]"

text \<open>The private helper of both paths: the new table and the entry for the event.\<close>

definition append_journal_row :: "string \<Rightarrow> string \<Rightarrow> string \<Rightarrow> task_db \<Rightarrow> jdict \<times> task_db" where
  "append_journal_row now tid message db =
     (let i = next_entry_index tid db in
      (journal_event_entry now tid i message,
       put_journal tid i \<lparr>jo_created_at = now, jo_message = message, jo_metadata = []\<rparr> db))"

definition append_task_journal :: "string \<Rightarrow> string \<Rightarrow> string \<Rightarrow> store_state \<Rightarrow> store_state" where
  "append_task_journal now tid message s =
     (let (entry, db) = append_journal_row now tid message (st_db s) in
      log_event now ''task_journal_recorded'' (Some tid) [(''task_journal'', PyList [PyDict entry])]
        (s \<lparr>st_db := db\<rparr>))"

section \<open>Audit rows\<close>

definition audit_dump :: "audit_entry \<Rightarrow> jdict" where
  "audit_dump a =
     [(''id'', PyNone), (''task_id'', PyStr (ae_task_id a)), (''created_at'', PyStr (ae_created_at a)),
      (''action'', PyStr (ae_action a)), (''actor'', PyStr (ae_actor a)),
      (''source'', PyStr (ae_source a)),
      (''task_status_before'', opt_str_val (ae_task_status_before a)),
      (''task_status_after'', opt_str_val (ae_task_status_after a)),
      (''pipeline_status_before'', opt_str_val (ae_pipeline_status_before a)),
      (''pipeline_status_after'', opt_str_val (ae_pipeline_status_after a)),
      (''queue_position_before'',
         (case ae_queue_position_before a of None \<Rightarrow> PyNone | Some i \<Rightarrow> PyInt i)),
      (''queue_position_after'',
         (case ae_queue_position_after a of None \<Rightarrow> PyNone | Some i \<Rightarrow> PyInt i)),
      (''context'', PyDict (ae_context a))]"

definition audit_payload :: "audit_entry \<Rightarrow> jdict" where
  "audit_payload a = [(''audit_entry'', PyDict (audit_dump a))]"

definition log_audit :: "string \<Rightarrow> (audit_entry \<Rightarrow> jdict) \<Rightarrow> audit_entry \<Rightarrow> store_state \<Rightarrow> store_state" where
  "log_audit now p a s =
     log_event now (task_event_type_for_audit_action (ae_action a)) (Some (ae_task_id a)) (p a) s"

definition append_task_audit_entries :: "string \<Rightarrow> audit_entry list \<Rightarrow> store_state \<Rightarrow> store_state" where
  "append_task_audit_entries now entries s =
     (if entries = [] then s
      else fold (log_audit now audit_payload) entries (on_db (insert_task_audit_entries entries) s))"

record audit_state =
  au_status :: task_status
  au_pipeline_status :: pipeline_status

definition snapshot_task_audit_state :: "task_record option \<Rightarrow> audit_state option" where
  "snapshot_task_audit_state t =
     map_option (\<lambda>t. \<lparr>au_status = t_status t, au_pipeline_status = t_pipeline_status t\<rparr>) t"

fun queue_position :: "string list \<Rightarrow> string \<Rightarrow> int option" where
  "queue_position [] tid = None"
| "queue_position (x # xs) tid =
     (if x = tid then Some 1 else map_option (\<lambda>n. n + 1) (queue_position xs tid))"

definition build_task_audit_entry ::
  "string \<Rightarrow> string \<Rightarrow> string \<Rightarrow> string \<Rightarrow> string \<Rightarrow> audit_state option \<Rightarrow> audit_state option \<Rightarrow>
   string list option \<Rightarrow> string list option \<Rightarrow> jdict \<Rightarrow> string option \<Rightarrow> audit_entry" where
  "build_task_audit_entry now tid action actor source before after before_queue after_queue ctx created =
     \<lparr>ae_task_id = tid, ae_created_at = opt_str_or created now, ae_action = action, ae_actor = actor,
      ae_source = source,
      ae_task_status_before = map_option (task_status_value \<circ> au_status) before,
      ae_task_status_after = map_option (task_status_value \<circ> au_status) after,
      ae_pipeline_status_before = map_option (pipeline_status_value \<circ> au_pipeline_status) before,
      ae_pipeline_status_after = map_option (pipeline_status_value \<circ> au_pipeline_status) after,
      ae_queue_position_before =
        (case before_queue of None \<Rightarrow> None | Some q \<Rightarrow> queue_position q tid),
      ae_queue_position_after =
        (case after_queue of None \<Rightarrow> None | Some q \<Rightarrow> queue_position q tid),
      ae_context = ctx\<rparr>"

text \<open>Most recent first; the row id is the place in the table.\<close>

definition load_task_audit_entries ::
  "string option \<Rightarrow> string option \<Rightarrow> nat \<Rightarrow> task_db \<Rightarrow> (nat \<times> audit_entry) list" where
  "load_task_audit_entries tid action limit db =
     take limit (filter (\<lambda>(_, a). (tid = None \<or> tid = Some (ae_task_id a)) \<and>
                                  (action = None \<or> action = Some (ae_action a)))
       (rev (enumerate 1 (tb_audit db))))"

section \<open>Transactions\<close>

definition payload_for_task ::
  "(string, jdict) dict \<Rightarrow> (string, jdict) dict \<Rightarrow> jdict option \<Rightarrow> (string, jdict list) dict \<Rightarrow>
   string \<Rightarrow> jdict" where
  "payload_for_task intents states ws entries tid =
     (case map_of intents tid of None \<Rightarrow> [] | Some d \<Rightarrow> [(''task_intent'', PyDict d)])
     @ (case map_of states tid of None \<Rightarrow> [] | Some d \<Rightarrow> [(''task_state'', PyDict d)])
     @ (case map_of entries tid of None \<Rightarrow> [] | Some es \<Rightarrow> [(''task_journal'', PyList (map PyDict es))])
     @ (case ws of None \<Rightarrow> [] | Some d \<Rightarrow> [(''workspace_state'', PyDict d)])"

definition append_runtime_transaction_events ::
  "string \<Rightarrow> (string, jdict) dict \<Rightarrow> (string, jdict) dict \<Rightarrow> jdict option \<Rightarrow>
   (string, jdict list) dict \<Rightarrow> audit_entry list \<Rightarrow> store_state \<Rightarrow> store_state" where
  "append_runtime_transaction_events now intents states ws entries audits s =
     (let body = payload_for_task intents states ws entries;
          logged1 = set (map ae_task_id audits);
          ids1 = sorted_list_of_set (set (map fst intents @ map fst states) - logged1);
          logged2 = logged1 \<union> set ids1;
          ids2 = sorted_list_of_set (set (map fst entries) - logged2);
          s1 = fold (log_audit now (\<lambda>a. body (ae_task_id a) @ audit_payload a)) audits s;
          s2 = fold (\<lambda>tid. log_event now ''task_state_saved'' (Some tid) (body tid)) ids1 s1;
          s3 = fold (\<lambda>tid. log_event now ''task_journal_recorded'' (Some tid) (body tid)) ids2 s2
      in case ws of None \<Rightarrow> s3
         | Some d \<Rightarrow> if audits = [] \<and> ids1 = [] \<and> ids2 = [] then append_workspace_state_event now d s3
                     else s3)"

text \<open>The journal messages of a transaction, one row each; the entries are collected for the events.\<close>

definition journal_message ::
  "string \<Rightarrow> string \<times> string \<Rightarrow> (string, jdict list) dict \<times> task_db \<Rightarrow> (string, jdict list) dict \<times> task_db" where
  "journal_message now m acc =
     (let (entry, db) = append_journal_row now (fst m) (snd m) (snd acc) in
      (AList.update (fst m) (dict_get (fst m) [] (fst acc) @ [entry]) (fst acc), db))"

definition save_runtime_transaction ::
  "validator \<Rightarrow> string \<Rightarrow> (string, jdict) dict \<Rightarrow> (string, jdict) dict \<Rightarrow> jdict option \<Rightarrow>
   (string, string) dict \<Rightarrow> audit_entry list \<Rightarrow> store_state \<Rightarrow> store_state" where
  "save_runtime_transaction V now intents states ws messages audits s =
     (let db0 = (case ws of None \<Rightarrow> st_db s | Some d \<Rightarrow> put_workspace now d (st_db s));
          db1 = fold (\<lambda>(tid, d). save_task_intent_in_transaction V now tid d) intents db0;
          db2 = fold (\<lambda>(tid, d). save_task_state_in_transaction now tid d) states db1;
          (entries, db3) = fold (journal_message now) messages ([], db2);
          db4 = insert_task_audit_entries audits db3
      in append_runtime_transaction_events now intents states ws entries audits (s \<lparr>st_db := db4\<rparr>))"

section \<open>Deletion, bootstrap and numbering\<close>

text \<open>
  The deleted tables that the model has; the others (sessions, artifacts, worktrees, events) are
  not rebuilt by a replay.
\<close>

definition delete_task_rows :: "string \<Rightarrow> task_db \<Rightarrow> task_db" where
  "delete_task_rows tid db =
     db \<lparr>tb_task_intent := AList.delete tid (tb_task_intent db),
         tb_task_state := AList.delete tid (tb_task_state db),
         tb_task_journal := filter (\<lambda>r. fst (fst r) \<noteq> tid) (tb_task_journal db),
         tb_task_activity := filter (\<lambda>r. fst (fst r) \<noteq> tid) (tb_task_activity db),
         tb_stage_reports := filter (\<lambda>r. sp_task_id r \<noteq> tid) (tb_stage_reports db),
         tb_recovery_reports := filter (\<lambda>r. rv_task_id r \<noteq> tid) (tb_recovery_reports db),
         tb_transitions := filter (\<lambda>r. xn_task_id r \<noteq> tid) (tb_transitions db),
         tb_lifecycle := filter (\<lambda>r. lf_task_id r \<noteq> tid) (tb_lifecycle db),
         tb_pipeline := AList.delete tid (tb_pipeline db)\<rparr>"

definition delete_task_records :: "string \<Rightarrow> string \<Rightarrow> audit_entry list \<Rightarrow> store_state \<Rightarrow> store_state" where
  "delete_task_records now tid audits s =
     (let s1 = on_db (insert_task_audit_entries audits \<circ> delete_task_rows tid) s in
      if audits = [] then log_event now ''task_deleted'' (Some tid) [] s1
      else fold (log_audit now audit_payload) audits s1)"

definition should_rebuild_from_task_event_log :: "store_state \<Rightarrow> bool" where
  "should_rebuild_from_task_event_log s =
     (has_events (st_log s) \<and> sqlite_task_tables_empty (st_db s))"

definition bootstrap :: "validator \<Rightarrow> string \<Rightarrow> string list \<Rightarrow> store_state \<Rightarrow> rebuild_error + store_state" where
  "bootstrap V now dirs s =
     (let s1 = on_db (create_workspace_state_rows now) s in
      if should_rebuild_from_task_event_log s1
      then then_do (rebuild_sqlite V now dirs True (st_log s1) (st_db s1))
             (\<lambda>r. Inr (s1 \<lparr>st_db := fst r\<rparr>))
      else Inr s1)"

definition task_number :: "string \<Rightarrow> int option" where
  "task_number tid =
     (let t = tid @ ''-'' in
      if starts_with t ''T-'' \<and> length t \<ge> 7 \<and> list_all is_digit (take 4 (drop 2 t)) \<and>
         t ! 6 = CHR ''-''
      then digit_run 0 (take 4 (drop 2 t)) else None)"

definition highest_task_number :: "task_db \<Rightarrow> int" where
  "highest_task_number db =
     fold (\<lambda>tid n. case task_number tid of None \<Rightarrow> n | Some i \<Rightarrow> max n i)
       (map fst (tb_task_intent db) @ map fst (tb_task_state db)) 0"

end
