(* ===== verification/Task_History.thy ===== *)
theory Task_History
  imports Task_Store
begin

text \<open>
  The writers and readers of a task's history: stage and recovery reports
  (\<open>litehive/tasks/report_storage.py\<close>), the activity feed (\<open>tasks/activity.py\<close>), the runner's journal
  (\<open>lifecycle/journal.py\<close>) and the rows of \<open>lifecycle/persistence.py\<close> with their events. Reports and
  activity entries are their dumps.
\<close>

section \<open>Reports\<close>

definition display_reference :: "string \<Rightarrow> nat \<Rightarrow> string" where
  "display_reference table row_id = ''sqlite:'' @ table @ ''/'' @ nat_str row_id"

definition dump_text :: "string \<Rightarrow> jdict \<Rightarrow> string" where
  "dump_text k d = py_str (py_get k d)"

definition store_recovery_report :: "string \<Rightarrow> string \<Rightarrow> jdict \<Rightarrow> store_state \<Rightarrow> store_state" where
  "store_recovery_report now tid r s =
     log_event now ''recovery_report_recorded'' (Some tid) [(''recovery_report'', PyDict r)]
       (on_db (\<lambda>db. db \<lparr>tb_recovery_reports := tb_recovery_reports db @
          [\<lparr>rv_task_id = tid, rv_origin_stage = optional_str (py_get ''origin_stage'' r),
            rv_trigger = dump_text ''trigger_event_kind'' r,
            rv_created_at = dump_text ''created_at'' r, rv_payload = stored_payload r\<rparr>]\<rparr>) s)"

definition record_stage_report :: "string \<Rightarrow> string \<Rightarrow> jdict \<Rightarrow> store_state \<Rightarrow> store_state" where
  "record_stage_report now tid r s =
     log_event now ''stage_report_recorded'' (Some tid) [(''stage_report'', PyDict r)]
       (on_db (\<lambda>db. db \<lparr>tb_stage_reports := tb_stage_reports db @
          [\<lparr>sp_task_id = tid, sp_pipeline_state = dump_text ''pipeline_state'' r,
            sp_created_at = dump_text ''created_at'' r, sp_payload = stored_payload r\<rparr>]\<rparr>) s)"

definition rewrite_latest_stage_report :: "string \<Rightarrow> string \<Rightarrow> jdict \<Rightarrow> store_state \<Rightarrow> store_state" where
  "rewrite_latest_stage_report now tid r s =
     (case replace_last
             (\<lambda>row. sp_task_id row = tid \<and> sp_pipeline_state row = dump_text ''pipeline_state'' r)
             (\<lambda>row. row \<lparr>sp_created_at := dump_text ''created_at'' r, sp_payload := stored_payload r\<rparr>)
             (tb_stage_reports (st_db s)) of
        None \<Rightarrow> record_stage_report now tid r s
      | Some rows \<Rightarrow>
          log_event now ''stage_report_rewritten'' (Some tid) [(''rewritten_stage_report'', PyDict r)]
            (on_db (\<lambda>db. db \<lparr>tb_stage_reports := rows\<rparr>) s))"

definition canonical_stage_report_verdict :: "string \<Rightarrow> string option" where
  "canonical_stage_report_verdict v =
     (case enum_parse verdict_value verdict_members (py_lower (py_strip v)) of
        None \<Rightarrow> None | Some x \<Rightarrow> stage_report_verdict x)"

definition deserialize_stage_report_payload :: "validator \<Rightarrow> jdict \<Rightarrow> jdict option" where
  "deserialize_stage_report_payload V p =
     (let p1 = (if ''pipeline_state'' \<notin> fst ` set p \<and> ''stage'' \<in> fst ` set p
                then AList.update ''pipeline_state'' (py_get ''stage'' p) p else p);
          p2 = AList.delete ''files_changed'' (AList.delete ''stage'' p1);
          p3 = (case as_str (py_get ''verdict'' p2) of None \<Rightarrow> p2
                | Some v \<Rightarrow> (case canonical_stage_report_verdict v of None \<Rightarrow> p2
                             | Some w \<Rightarrow> AList.update ''verdict'' (PyStr w) p2))
      in V Stage_Report p3)"

definition load_stage_reports ::
  "validator \<Rightarrow> string option \<Rightarrow> string option \<Rightarrow> task_db \<Rightarrow> jdict list" where
  "load_stage_reports V tid state db =
     List.map_filter (\<lambda>row. deserialize_stage_report_payload V (sp_payload row))
       (filter (\<lambda>row. (tid = None \<or> tid = Some (sp_task_id row)) \<and>
                      (state = None \<or> state = Some (sp_pipeline_state row)))
         (tb_stage_reports db))"

definition latest_stage_report :: "validator \<Rightarrow> string \<Rightarrow> string option \<Rightarrow> task_db \<Rightarrow> jdict option" where
  "latest_stage_report V tid source db =
     List.find (\<lambda>r. source = None \<or> source = as_str (py_get ''source'' r))
       (rev (load_stage_reports V (Some tid) None db))"

definition load_recovery_reports :: "validator \<Rightarrow> string \<Rightarrow> task_db \<Rightarrow> jdict list" where
  "load_recovery_reports V tid db =
     List.map_filter (\<lambda>row. V Recovery_Report (rv_payload row))
       (filter (\<lambda>row. rv_task_id row = tid) (tb_recovery_reports db))"

definition latest_recovery_report :: "validator \<Rightarrow> string \<Rightarrow> task_db \<Rightarrow> jdict option" where
  "latest_recovery_report V tid db =
     (case rev (load_recovery_reports V tid db) of [] \<Rightarrow> None | r # _ \<Rightarrow> Some r)"

section \<open>Activity\<close>

definition activity_rows :: "string \<Rightarrow> jdict list \<Rightarrow> (string \<times> int, activity_row) dict" where
  "activity_rows tid entries =
     map (\<lambda>(i, e). ((tid, int i), \<lparr>av_created_at = dump_text ''created_at'' e, av_payload = e\<rparr>))
       (enumerate 0 entries)"

definition save_activity :: "string \<Rightarrow> string \<Rightarrow> jdict list \<Rightarrow> store_state \<Rightarrow> store_state" where
  "save_activity now tid entries s =
     log_event now ''task_reported'' (Some tid) [(''activity'', PyList (map PyDict entries))]
       (on_db (\<lambda>db. db \<lparr>tb_task_activity :=
          filter (\<lambda>r. fst (fst r) \<noteq> tid) (tb_task_activity db) @ activity_rows tid entries\<rparr>) s)"

definition load_activity :: "validator \<Rightarrow> string \<Rightarrow> task_db \<Rightarrow> jdict list" where
  "load_activity V tid db =
     List.map_filter (\<lambda>(_, row). V Activity_Entry (av_payload row))
       (sort_key (\<lambda>r. snd (fst r)) (filter (\<lambda>r. fst (fst r) = tid) (tb_task_activity db)))"

definition append_activity :: "validator \<Rightarrow> string \<Rightarrow> string \<Rightarrow> jdict \<Rightarrow> store_state \<Rightarrow> store_state" where
  "append_activity V now tid entry s =
     save_activity now tid (load_activity V tid (st_db s) @ [entry]) s"

text \<open>\<open>instant\<close> is \<open>_parse_created_at\<close>, the instant a timestamp text names.\<close>

definition latest_activity ::
  "validator \<Rightarrow> (string \<Rightarrow> rat) \<Rightarrow> string option \<Rightarrow> string option \<Rightarrow> string option \<Rightarrow> string list option \<Rightarrow>
   rat option \<Rightarrow> string \<Rightarrow> task_db \<Rightarrow> jdict option" where
  "latest_activity V instant role st subagent verdicts after tid db =
     List.find (\<lambda>e.
         (role = None \<or> role = as_str (py_get ''role'' e)) \<and>
         (st = None \<or> st = as_str (py_get ''stage'' e)) \<and>
         (subagent = None \<or> subagent = as_str (py_get ''source_subagent_id'' e)) \<and>
         (case verdicts of None \<Rightarrow> True | Some vs \<Rightarrow> dump_text ''verdict'' e \<in> set vs) \<and>
         (case after of None \<Rightarrow> True | Some t \<Rightarrow> t < instant (dump_text ''created_at'' e)))
       (rev (load_activity V tid db))"

section \<open>The runner's journal\<close>

datatype journal_item =
    Transition_item string string jdict string string jdict
  | Lifecycle_item string jdict

definition task_started_item :: "pipeline_state \<Rightarrow> journal_item" where
  "task_started_item st = Lifecycle_item ''task_started'' [(''stage'', PyStr (pipeline_state_value st))]"

definition stop_requested_item :: "pipeline_state \<Rightarrow> journal_item" where
  "stop_requested_item st = Lifecycle_item ''stop_requested'' [(''stage'', PyStr (pipeline_state_value st))]"

definition task_finished_item :: "pipeline_state \<Rightarrow> journal_item" where
  "task_finished_item st = Lifecycle_item ''task_finished'' [(''stage'', PyStr (pipeline_state_value st))]"

definition insert_transition ::
  "string \<Rightarrow> int \<Rightarrow> string \<Rightarrow> string \<Rightarrow> string \<Rightarrow> jdict \<Rightarrow> string \<Rightarrow> string \<Rightarrow> jdict \<Rightarrow>
   store_state \<Rightarrow> store_state" where
  "insert_transition tid n now from ty ep to_st rule dl s =
     log_event now ''pipeline_transition_recorded'' (Some tid)
       [(''pipeline_transition'', PyDict
          [(''task_id'', PyStr tid), (''seq'', PyInt n), (''created_at'', PyStr now),
           (''from_stage'', PyStr from), (''event_type'', PyStr ty), (''event_payload'', PyDict ep),
           (''to_stage'', PyStr to_st), (''rule_description'', PyStr rule), (''delta'', PyDict dl)])]
       (on_db (\<lambda>db. db \<lparr>tb_transitions := tb_transitions db @
          [\<lparr>xn_task_id = tid, xn_seq = n, xn_created_at = now, xn_from_stage = from,
            xn_event_type = ty, xn_event_payload = stored_payload ep, xn_to_stage = to_st,
            xn_rule = rule, xn_delta = stored_payload dl\<rparr>]\<rparr>) s)"

definition insert_lifecycle ::
  "string \<Rightarrow> int \<Rightarrow> string \<Rightarrow> string \<Rightarrow> jdict \<Rightarrow> store_state \<Rightarrow> store_state" where
  "insert_lifecycle tid n now kind p s =
     log_event now ''pipeline_journal_recorded'' (Some tid)
       [(''pipeline_journal'', PyDict
          [(''task_id'', PyStr tid), (''seq'', PyInt n), (''created_at'', PyStr now),
           (''kind'', PyStr kind), (''payload'', PyDict p)])]
       (on_db (\<lambda>db. db \<lparr>tb_lifecycle := tb_lifecycle db @
          [\<lparr>lf_task_id = tid, lf_seq = n, lf_created_at = now, lf_kind = kind,
            lf_payload = stored_payload p\<rparr>]\<rparr>) s)"

definition store_journal_item :: "string \<Rightarrow> int \<Rightarrow> string \<Rightarrow> journal_item \<Rightarrow> store_state \<Rightarrow> store_state" where
  "store_journal_item tid n now item s =
     (case item of
        Transition_item from ty ep to_st rule dl \<Rightarrow> insert_transition tid n now from ty ep to_st rule dl s
      | Lifecycle_item kind p \<Rightarrow> insert_lifecycle tid n now kind p s)"

definition task_seqs :: "string \<Rightarrow> task_db \<Rightarrow> int list" where
  "task_seqs tid db =
     map xn_seq (filter (\<lambda>r. xn_task_id r = tid) (tb_transitions db)) @
     map lf_seq (filter (\<lambda>r. lf_task_id r = tid) (tb_lifecycle db))"

definition load_starting_seq :: "string \<Rightarrow> task_db \<Rightarrow> int" where
  "load_starting_seq tid db =
     (let used = task_seqs tid db in if used = [] then 0 else Max (set used) + 1)"

text \<open>\<open>PipelineJournal._append\<close>: the per-task counters are the state of the journal object.\<close>

definition append_journal_item ::
  "string \<Rightarrow> string \<Rightarrow> journal_item \<Rightarrow> (string, int) dict \<times> store_state \<Rightarrow> (string, int) dict \<times> store_state" where
  "append_journal_item now tid item js =
     (let (next, s) = js;
          n = (case map_of next tid of Some n \<Rightarrow> n | None \<Rightarrow> load_starting_seq tid (st_db s))
      in (AList.update tid (n + 1) next, store_journal_item tid n now item s))"

definition load_transitions :: "string \<Rightarrow> task_db \<Rightarrow> transition_row list" where
  "load_transitions tid db = sort_key xn_seq (filter (\<lambda>r. xn_task_id r = tid) (tb_transitions db))"

definition load_lifecycle :: "string \<Rightarrow> task_db \<Rightarrow> lifecycle_row list" where
  "load_lifecycle tid db = sort_key lf_seq (filter (\<lambda>r. lf_task_id r = tid) (tb_lifecycle db))"

section \<open>The lifecycle row and its events\<close>

text \<open>
  \<open>SqlitePersistence\<close> again, now with the payload of its events, which the lifecycle model of the
  row leaves out.
\<close>

definition pipeline_payload :: "string \<Rightarrow> string \<Rightarrow> jdict \<Rightarrow> string \<Rightarrow> string \<Rightarrow> jdict" where
  "pipeline_payload st md p now tid =
     [(''pipeline_task_state'', PyDict
        [(''task_id'', PyStr tid), (''stage'', PyStr st), (''pipeline_mode'', PyStr md),
         (''payload'', PyDict p), (''updated_at'', PyStr now)])]"

definition save_pipeline :: "(rat \<Rightarrow> string) \<Rightarrow> string \<Rightarrow> task_state \<Rightarrow> store_state \<Rightarrow> store_state" where
  "save_pipeline ft now x s =
     log_event now ''pipeline_task_state_saved'' (Some (task_id x))
       (pipeline_payload (pipeline_state_value (stage x)) (pipeline_mode_value (mode x))
          (state_payload ft x) now (task_id x))
       (on_db (put_pipeline (task_id x) (row_of ft now x)) s)"

definition lifecycle_view :: "task_db \<Rightarrow> lifecycle_db" where
  "lifecycle_view db =
     \<lparr>pipeline_task_state = tb_pipeline db, pipeline_sessions = [],
      pipeline_transitions = map (\<lambda>r. (xn_task_id r, PyInt (xn_seq r))) (tb_transitions db),
      pipeline_journal = map (\<lambda>r. (lf_task_id r, PyInt (lf_seq r))) (tb_lifecycle db),
      event_log = []\<rparr>"

text \<open>The lifecycle states the runner would load.\<close>

definition load_pipeline :: "string \<Rightarrow> limits \<Rightarrow> string \<Rightarrow> task_db \<Rightarrow> load_error + task_state" where
  "load_pipeline now l tid db = load now l tid (lifecycle_view db)"

definition reset_pipeline ::
  "(rat \<Rightarrow> string) \<Rightarrow> string \<Rightarrow> limits \<Rightarrow> string \<Rightarrow> bool \<Rightarrow> store_state \<Rightarrow> load_error + store_state" where
  "reset_pipeline ft now l tid preserve s =
     (case reset_current_lifecycle_state ft now l tid preserve (lifecycle_view (st_db s)) of
        Inl err \<Rightarrow> Inl err
      | Inr db' \<Rightarrow>
          Inr (log_event now ''pipeline_task_state_reset'' (Some tid) []
                 (on_db (\<lambda>db. db \<lparr>tb_pipeline := pipeline_task_state db'\<rparr>) s)))"

definition reset_all_lifecycle :: "string \<Rightarrow> string \<Rightarrow> store_state \<Rightarrow> store_state" where
  "reset_all_lifecycle now tid s =
     log_event now ''pipeline_task_state_reset'' (Some tid) []
       (on_db (\<lambda>db. db \<lparr>tb_pipeline := AList.delete tid (tb_pipeline db),
          tb_transitions := filter (\<lambda>r. xn_task_id r \<noteq> tid) (tb_transitions db),
          tb_lifecycle := filter (\<lambda>r. lf_task_id r \<noteq> tid) (tb_lifecycle db)\<rparr>) s)"

end
