(* ===== verification/Store_Sync.thy ===== *)
theory Store_Sync
  imports Task_History
begin

text \<open>
  The relation between what the event log says and what the database holds, table by table, and the
  lemmas that a replayed event keeps it. \<open>now\<close> is universal in each table: the fallbacks of the
  replay (\<open>or utcnow()\<close>) are never taken for the rows the program writes.
\<close>

section \<open>Stored dicts\<close>

lemma map_of_filter: "map_of xs k = (case filter (\<lambda>p. fst p = k) xs of [] \<Rightarrow> None | p # _ \<Rightarrow> Some (snd p))"
  by (induction xs) auto

lemma stored_alt: "stored_payload d = sort_key fst (map (\<lambda>p. (fst p, key_sorted (snd p))) d)"
  unfolding stored_payload_def by (rule arg_cong [where f = "sort_key fst"]) auto

lemma map_of_stored_any: "map_of (stored_payload d) k = map_option key_sorted (map_of d k)"
proof -
  let ?f = "\<lambda>p. (fst p, key_sorted (snd p))"
  have "filter (\<lambda>p. fst p = k) (stored_payload d) = map ?f (filter (\<lambda>p. fst p = k) d)"
    by (simp add: stored_alt sort_key_stable [where f = fst and k = k] filter_map comp_def)
  then show ?thesis
    unfolding map_of_filter [of "stored_payload d"] map_of_filter [of d] by (simp split: list.split)
qed

lemma py_get_stored [simp]: "py_get k (stored_payload d) = key_sorted (py_get k d)"
  by (simp add: py_get_def dict_get_def map_of_stored_any split: option.split)

lemma as_dict_sorted [simp]: "as_dict (key_sorted v) = map_option stored_payload (as_dict v)"
  by (cases v) simp_all

lemma as_list_sorted [simp]: "as_list (key_sorted v) = map_option (map key_sorted) (as_list v)"
  by (cases v) simp_all

lemma as_dict_filter_sorted:
  "List.map_filter as_dict (map key_sorted xs) = map stored_payload (List.map_filter as_dict xs)"
  by (induction xs) (simp_all add: List.map_filter_simps split: option.split)

lemma key_sorted_scalar:
  "key_sorted v = PyNone \<longleftrightarrow> v = PyNone" "key_sorted v = PyInt i \<longleftrightarrow> v = PyInt i"
  "key_sorted v = PyStr t \<longleftrightarrow> v = PyStr t"
  by (cases v; simp)+

lemma keys_stored: "set (map fst (stored_payload d)) = set (map fst d)"
  by (force simp: stored_payload_def)

lemma mset_keys_stored: "mset (map fst (stored_payload d)) = mset (map fst d)"
  unfolding stored_alt mset_sort_map by (simp add: comp_def)

lemma dict_ok_stored [simp]: "dict_ok (stored_payload d) \<longleftrightarrow> dict_ok d"
  using mset_keys_stored [of d] unfolding dict_ok_def by (metis mset_eq_imp_distinct_iff)

lemma sorted_fst_stored: "sorted (map fst (stored_payload d))"
  by (simp add: stored_payload_def)

text \<open>Two dicts with the same values under the same keys have the same text.\<close>

lemma stored_cong:
  assumes "dict_ok d" "dict_ok e" "\<And>k. map_option key_sorted (map_of d k) = map_option key_sorted (map_of e k)"
  shows "stored_payload d = stored_payload e"
proof -
  have d: "distinct (map fst (stored_payload d))" and e: "distinct (map fst (stored_payload e))"
    using assms(1, 2) by (simp_all flip: dict_ok_def)
  have "map_of (stored_payload d) = map_of (stored_payload e)"
    by (rule ext) (simp only: map_of_stored_any assms(3))
  then have s: "set (stored_payload d) = set (stored_payload e)" using d e map_of_inject_set by blast
  have "inj_on fst (set (stored_payload d) \<union> set (stored_payload e))"
    using e by (simp add: s distinct_map)
  then show ?thesis using map_sorted_distinct_set_unique sorted_fst_stored d e s by blast
qed

lemma key_sorted_idem [simp]: "key_sorted (key_sorted v) = key_sorted v"
proof (induction v rule: key_sorted.induct)
  case (2 d)
  let ?f = "\<lambda>p. (fst p, key_sorted (snd p))"
  have "map ?f (stored_payload d) = stored_payload d"
    by (rule map_idI) (use 2 in \<open>auto simp: stored_alt\<close>)
  then have "stored_payload (stored_payload d) = stored_payload d"
    unfolding stored_alt [of "stored_payload d"]
    by (simp add: sort_key_id_if_sorted sorted_fst_stored)
  then show ?case by simp
qed simp_all

lemma stored_idem [simp]: "stored_payload (stored_payload d) = stored_payload d"
  using key_sorted_idem [of "PyDict d"] by simp

lemma stored_delete: "AList.delete k (stored_payload d) = stored_payload (AList.delete k d)"
proof -
  have "filter (\<lambda>(k', v :: pyval). k \<noteq> k') xs = filter (\<lambda>p. k \<noteq> fst p) xs" for xs
    by (rule filter_cong) auto
  then show ?thesis by (simp add: stored_alt AList.delete_eq filter_sort filter_map comp_def)
qed

lemma stored_Nil: "stored_payload [] = []"
  by simp

section \<open>Reading the log back\<close>

lemma read_events_append: "fst (read_events (xs @ ys)) = fst (read_events xs) @ fst (read_events ys)"
  by (induction xs) (auto simp: split_beta Let_def split: option.split)

definition log_state :: "log_line list \<Rightarrow> replay_state" where
  "log_state lines = replay (fst (read_events lines))"

lemma log_state_append:
  "log_state (xs @ ys) = fold apply_event (fst (read_events ys)) (log_state xs)"
  by (simp add: log_state_def replay_def read_events_append)

lemma log_state_Nil [simp]: "log_state [] = empty_replay"
  by (simp add: log_state_def replay_def)

lemma log_state_noise: "line_event l = None \<Longrightarrow> log_state (ls @ [l]) = log_state ls"
  by (simp add: log_state_append split: prod.split)

lemma event_record_get [simp]:
  "py_get ''payload'' (event_record ty tid p now) = PyDict p"
  "py_get ''task_id'' (event_record ty tid p now) = opt_str_val tid"
  "py_get ''event_type'' (event_record ty tid p now) = PyStr ty"
  by (simp_all add: event_record_def)

lemma line_event_record [simp]:
  "line_event (Json_line (PyDict (stored_payload (event_record ty tid p now)))) =
     Some (stored_payload (event_record ty tid p now))"
  by (simp add: line_event_def)

lemma log_state_event:
  "log_state (log_append False ty tid p now ls) =
     apply_event (stored_payload (event_record ty tid p now)) (log_state ls)"
  by (simp add: log_append_def log_state_append)

lemma st_log_event [simp]:
  "st_db (log_event now ty tid p s) = st_db s"
  "log_state (st_log (log_event now ty tid p s)) =
     apply_event (stored_payload (event_record ty tid p now)) (log_state (st_log s))"
  by (simp_all add: log_event_def log_state_event)

lemma st_on_db [simp]: "st_db (on_db f s) = f (st_db s)" "st_log (on_db f s) = st_log s"
  by (simp_all add: on_db_def)

lemma optional_str_val [simp]: "optional_str (opt_str_val x) = x"
  by (simp add: optional_str_def opt_str_val_def split: option.split)

lemma event_fields [simp]:
  "text_field ''event_type'' (stored_payload (event_record ty tid p now)) = ty"
  "dict_field ''payload'' (stored_payload (event_record ty tid p now)) = stored_payload p"
  by (auto simp: text_field_def py_or_def dict_field_def)

lemma on_dict_stored:
  "on_dict k f (stored_payload p) rs =
     (case as_dict (py_get k p) of None \<Rightarrow> rs | Some d \<Rightarrow> f (stored_payload d) rs)"
  by (simp add: on_dict_def split: option.split)

lemma on_list_stored:
  "on_list k f (stored_payload p) rs =
     (case as_list (py_get k p) of None \<Rightarrow> rs
      | Some xs \<Rightarrow> f (map stored_payload (List.map_filter as_dict xs)) rs)"
  by (simp add: on_list_def as_dict_filter_sorted split: option.split)

lemmas slot_simps = on_dict_stored on_list_stored task_slots_def log_slots_def

text \<open>An event of a task, by the kind of its type.\<close>

lemma apply_workspace_event:
  "apply_event (stored_payload (event_record ty None p now)) rs = log_slots (stored_payload p) rs"
  by (simp add: apply_event_def)

lemma apply_task_event:
  assumes "tid \<noteq> []" "ty \<notin> {''task_deleted'', ''task_removed'', ''pipeline_task_state_reset''}"
  shows "apply_event (stored_payload (event_record ty (Some tid) p now)) rs =
           log_slots (stored_payload p) (task_slots tid (stored_payload p) rs)"
  using assms by (simp add: apply_event_def Let_def)

lemma apply_tombstone_event:
  assumes "tid \<noteq> []" "ty \<in> {''task_deleted'', ''task_removed''}"
  shows "apply_event (stored_payload (event_record ty (Some tid) p now)) rs =
           log_slots (stored_payload p) (task_slots tid (stored_payload p)
             (delete_task_scoped_replay_state tid rs))"
  using assms by (auto simp: apply_event_def Let_def)

lemma apply_reset_event:
  assumes "tid \<noteq> []"
  shows "apply_event (stored_payload (event_record ''pipeline_task_state_reset'' (Some tid) [] now)) rs =
           rs \<lparr>re_pipeline := AList.delete tid (re_pipeline rs)\<rparr>"
  using assms by (simp add: apply_event_def Let_def slot_simps)

section \<open>The relation, table by table\<close>

text \<open>What the development relies on in pydantic: objects that differ in the order of their keys validate
  to records that differ at most in the order of keys (a field of type \<open>dict\<close> keeps the order of its
  input); an \<open>int\<close> field takes any int and a text field any text; a model of defaults is valid.\<close>

definition pydantic_laws :: "validator \<Rightarrow> bool" where
  "pydantic_laws V \<longleftrightarrow>
     (\<forall>k d e. stored_payload d = stored_payload e \<longrightarrow>
        map_option stored_payload (V k d) = map_option stored_payload (V k e)) \<and>
     (\<forall>d n. V Workspace_State d = Some d \<longrightarrow>
        V Workspace_State (AList.update ''next_task_number'' (PyInt n) d) =
          Some (AList.update ''next_task_number'' (PyInt n) d)) \<and>
     (\<forall>d t. V Task_State_Record d = Some d \<longrightarrow>
        V Task_State_Record (stamped_record t d) = Some (stamped_record t d)) \<and>
     V Workspace_State default_workspace = Some default_workspace"

lemma pydantic_lawsD:
  assumes "pydantic_laws V"
  shows "V k d = Some d \<Longrightarrow> \<exists>d'. V k (stored_payload d) = Some d' \<and> stored_payload d' = stored_payload d"
    and "V Workspace_State d = Some d \<Longrightarrow>
      V Workspace_State (AList.update ''next_task_number'' (PyInt n) d) =
        Some (AList.update ''next_task_number'' (PyInt n) d)"
    and "V Task_State_Record d = Some d \<Longrightarrow> V Task_State_Record (stamped_record t d) = Some (stamped_record t d)"
    and "V Workspace_State default_workspace = Some default_workspace"
    and "stored_payload e = stored_payload d \<Longrightarrow> V k d = Some d \<Longrightarrow>
      \<exists>d'. V k e = Some d' \<and> stored_payload d' = stored_payload d"
proof -
  note laws = assms [unfolded pydantic_laws_def]
  show cong: "\<exists>d'. V k e = Some d' \<and> stored_payload d' = stored_payload d"
    if "stored_payload e = stored_payload d" "V k d = Some d" for d e k
  proof -
    have "map_option stored_payload (V k e) = map_option stored_payload (V k d)"
      by (rule conjunct1 [OF laws, rule_format]) (rule that(1))
    then show ?thesis using that(2) by auto
  qed
  show "V k d = Some d \<Longrightarrow> \<exists>d'. V k (stored_payload d) = Some d' \<and> stored_payload d' = stored_payload d"
    by (rule cong) simp_all
qed (use conjunct2 [OF assms [unfolded pydantic_laws_def]] in \<open>blast+\<close>)

text \<open>Records a program can hold: valid dumps, with the text fields the store reads.\<close>

definition workspace_ok :: "validator \<Rightarrow> jdict \<Rightarrow> bool" where
  "workspace_ok V d \<longleftrightarrow> V Workspace_State d = Some d \<and> dict_ok d \<and>
     (\<exists>i. py_get ''next_task_number'' d = PyInt i)"

definition intent_ok :: "validator \<Rightarrow> jdict \<Rightarrow> bool" where
  "intent_ok V d \<longleftrightarrow> V Task_Intent d = Some d \<and>
     (\<forall>k\<in>{''slug'', ''title'', ''created_at'', ''priority'', ''goal''}. \<exists>t. py_get k d = PyStr t)"

definition state_ok :: "validator \<Rightarrow> jdict \<Rightarrow> bool" where
  "state_ok V d \<longleftrightarrow> V Task_State_Record d = Some d \<and> dict_ok d \<and>
     (\<exists>t. py_get ''status'' d = PyStr t) \<and> (\<exists>t. py_get ''pipeline_status'' d = PyStr t) \<and>
     (\<exists>t. py_get ''updated_at'' d = PyStr t \<and> t \<noteq> [])"

definition named :: "jdict \<Rightarrow> bool" where
  "named r \<longleftrightarrow> (\<exists>t. py_get ''task_id'' r = PyStr t)"

definition sync_workspace ::
  "validator \<Rightarrow> jdict option \<Rightarrow> (jdict \<times> string) option \<Rightarrow> (pyval \<times> string) option \<Rightarrow> bool" where
  "sync_workspace V ws pool queue \<longleftrightarrow>
     (\<exists>d p q t u. workspace_ok V d \<and>
        (ws = None \<and> d = default_workspace \<or> ws = Some (stored_payload d) \<and> d \<noteq> []) \<and>
        pool = Some (p, t) \<and> queue = Some (q, u) \<and> q = key_sorted (py_get ''queue'' d) \<and>
        AList.delete ''next_task_number'' p =
          stored_payload (AList.delete ''next_task_number'' (AList.delete ''queue'' d)))"

definition sync_intents :: "validator \<Rightarrow> (string, jdict) dict \<Rightarrow> (string, intent_row) dict \<Rightarrow> bool" where
  "sync_intents V re tb \<longleftrightarrow> dict_ok re \<and>
     (\<forall>x. map_of re x = map_option ir_payload (map_of tb x)) \<and>
     (\<forall>x row. map_of tb x = Some row \<longrightarrow>
        (\<exists>d. intent_ok V d \<and> ir_payload row = stored_payload d \<and> ir_columns row = intent_columns d))"

definition sync_state_row :: "validator \<Rightarrow> jdict \<Rightarrow> task_state_row \<Rightarrow> bool" where
  "sync_state_row V e row \<longleftrightarrow>
     (\<exists>d t. state_ok V d \<and> e = stored_payload d \<and> ts_updated_at row = text_field ''updated_at'' d \<and>
        (ts_payload row = stored_payload d \<or> ts_payload row = stored_payload (stamped_record t d)))"

definition sync_states :: "validator \<Rightarrow> (string, jdict) dict \<Rightarrow> (string, task_state_row) dict \<Rightarrow> bool" where
  "sync_states V re tb \<longleftrightarrow> dict_ok re \<and>
     (\<forall>x. rel_option (sync_state_row V) (map_of re x) (map_of tb x))"

definition sync_status :: "(string, intent_row) dict \<Rightarrow> (string, task_state_row) dict \<Rightarrow> bool" where
  "sync_status ti ts \<longleftrightarrow>
     (\<forall>x row. map_of ti x = Some row \<longrightarrow>
        (ir_lifecycle_status row, ir_pipeline_status row) =
          intent_status_columns (map_option ts_payload (map_of ts x)))"

definition sync_journal :: "(string, jdict list) dict \<Rightarrow> (string \<times> int, journal_row) dict \<Rightarrow> bool" where
  "sync_journal re tb \<longleftrightarrow> dict_ok re \<and>
     (\<forall>now x. \<exists>rows. map (journal_row_of now) (enumerate 0 (dict_get x [] re)) = map Inr rows \<and>
        (\<forall>i. map_of (rev rows) i = map_of tb (x, i)))"

definition activity_core :: "activity_row \<Rightarrow> activity_row" where
  "activity_core row = row \<lparr>av_payload := stored_payload (av_payload row)\<rparr>"

definition replayed_activity :: "string \<Rightarrow> jdict list \<Rightarrow> int \<Rightarrow> activity_row option" where
  "replayed_activity now es i =
     (if 0 \<le> i \<and> nat i < length es
      then Some \<lparr>av_created_at = text_field_or now ''created_at'' (es ! nat i),
                 av_payload = stored_payload (es ! nat i)\<rparr>
      else None)"

definition sync_activity :: "(string, jdict list) dict \<Rightarrow> (string \<times> int, activity_row) dict \<Rightarrow> bool" where
  "sync_activity re tb \<longleftrightarrow> dict_ok re \<and>
     (\<forall>now x i. replayed_activity now (dict_get x [] re) i = map_option activity_core (map_of tb (x, i)))"

definition sync_stage_reports :: "jdict list \<Rightarrow> stage_report_row list \<Rightarrow> bool" where
  "sync_stage_reports re tb \<longleftrightarrow>
     list_all named re \<and> (\<forall>now. map (stage_report_row_of now) re = tb)"

definition sync_recovery_reports :: "jdict list \<Rightarrow> recovery_report_row list \<Rightarrow> bool" where
  "sync_recovery_reports re tb \<longleftrightarrow>
     list_all named re \<and> (\<forall>now. map (recovery_report_row_of now) re = tb)"

text \<open>
  Two writers of the lifecycle tables log less than they do: a reset that keeps a task's memory leaves
  a state row the log says is gone, and a wipe deletes history the log keeps. A \<open>gap\<close> names the tasks
  of which this may be so: a task of its first set has its row as the log says or no row in the log, a
  task of its second set has in the table the tail of the history the log has.
\<close>

type_synonym gap = "string set \<times> string set"

definition row_gap :: "string set \<Rightarrow> (string, state_row) dict \<Rightarrow> (string, state_row) dict \<Rightarrow> bool" where
  "row_gap P rows tb \<longleftrightarrow> (\<forall>x. map_of rows x = map_of tb x \<or> x \<in> P \<and> map_of rows x = None)"

definition history_gap :: "('r \<Rightarrow> string) \<Rightarrow> string set \<Rightarrow> 'r list \<Rightarrow> 'r list \<Rightarrow> bool" where
  "history_gap f H rows tb \<longleftrightarrow>
     filter (\<lambda>r. f r \<notin> H) rows = filter (\<lambda>r. f r \<notin> H) tb \<and>
     (\<forall>x. \<exists>wiped. filter (\<lambda>r. f r = x) rows = wiped @ filter (\<lambda>r. f r = x) tb)"

definition sync_transitions :: "string set \<Rightarrow> jdict list \<Rightarrow> transition_row list \<Rightarrow> bool" where
  "sync_transitions H re tb \<longleftrightarrow> list_all named re \<and>
     (\<exists>rows. (\<forall>now. map (transition_row_of now) re = map Inr rows) \<and> history_gap xn_task_id H rows tb)"

definition sync_lifecycle :: "string set \<Rightarrow> jdict list \<Rightarrow> lifecycle_row list \<Rightarrow> bool" where
  "sync_lifecycle H re tb \<longleftrightarrow> list_all named re \<and>
     (\<exists>rows. (\<forall>now. map (lifecycle_row_of now) re = map Inr rows) \<and> history_gap lf_task_id H rows tb)"

definition sync_pipeline :: "string set \<Rightarrow> (string, jdict) dict \<Rightarrow> (string, state_row) dict \<Rightarrow> bool" where
  "sync_pipeline P re tb \<longleftrightarrow> dict_ok re \<and>
     (\<exists>rows. (\<forall>now x. map_option (pipeline_row_of now) (map_of re x) = map_option Inr (map_of rows x)) \<and>
        row_gap P rows tb)"

definition sync_audit :: "jdict list \<Rightarrow> audit_entry list \<Rightarrow> bool" where
  "sync_audit re tb \<longleftrightarrow> (\<forall>now. map (audit_row_of now) re = map Inr tb)"

definition in_sync :: "validator \<Rightarrow> gap \<Rightarrow> replay_state \<Rightarrow> task_db \<Rightarrow> bool" where
  "in_sync V W rs db \<longleftrightarrow>
     sync_workspace V (re_workspace_state rs) (tb_pool_state db) (tb_queue db) \<and>
     sync_intents V (re_task_intents rs) (tb_task_intent db) \<and>
     sync_states V (re_task_states rs) (tb_task_state db) \<and>
     sync_status (tb_task_intent db) (tb_task_state db) \<and>
     sync_journal (re_task_journal rs) (tb_task_journal db) \<and>
     sync_activity (re_task_activity rs) (tb_task_activity db) \<and>
     sync_stage_reports (re_stage_reports rs) (tb_stage_reports db) \<and>
     sync_recovery_reports (re_recovery_reports rs) (tb_recovery_reports db) \<and>
     sync_transitions (snd W) (re_transitions rs) (tb_transitions db) \<and>
     sync_lifecycle (snd W) (re_lifecycle rs) (tb_lifecycle db) \<and>
     sync_pipeline (fst W) (re_pipeline rs) (tb_pipeline db) \<and>
     sync_audit (re_audit rs) (tb_audit db)"

lemma in_syncI:
  assumes "sync_workspace V (re_workspace_state rs) (tb_pool_state db) (tb_queue db)"
    "sync_intents V (re_task_intents rs) (tb_task_intent db)"
    "sync_states V (re_task_states rs) (tb_task_state db)"
    "sync_status (tb_task_intent db) (tb_task_state db)"
    "sync_journal (re_task_journal rs) (tb_task_journal db)"
    "sync_activity (re_task_activity rs) (tb_task_activity db)"
    "sync_stage_reports (re_stage_reports rs) (tb_stage_reports db)"
    "sync_recovery_reports (re_recovery_reports rs) (tb_recovery_reports db)"
    "sync_transitions (snd W) (re_transitions rs) (tb_transitions db)"
    "sync_lifecycle (snd W) (re_lifecycle rs) (tb_lifecycle db)"
    "sync_pipeline (fst W) (re_pipeline rs) (tb_pipeline db)"
    "sync_audit (re_audit rs) (tb_audit db)"
  shows "in_sync V W rs db"
  using assms by (simp add: in_sync_def)

lemma in_syncD:
  assumes "in_sync V W rs db"
  shows "sync_workspace V (re_workspace_state rs) (tb_pool_state db) (tb_queue db)"
    "sync_intents V (re_task_intents rs) (tb_task_intent db)"
    "sync_states V (re_task_states rs) (tb_task_state db)"
    "sync_status (tb_task_intent db) (tb_task_state db)"
    "sync_journal (re_task_journal rs) (tb_task_journal db)"
    "sync_activity (re_task_activity rs) (tb_task_activity db)"
    "sync_stage_reports (re_stage_reports rs) (tb_stage_reports db)"
    "sync_recovery_reports (re_recovery_reports rs) (tb_recovery_reports db)"
    "sync_transitions (snd W) (re_transitions rs) (tb_transitions db)"
    "sync_lifecycle (snd W) (re_lifecycle rs) (tb_lifecycle db)"
    "sync_pipeline (fst W) (re_pipeline rs) (tb_pipeline db)"
    "sync_audit (re_audit rs) (tb_audit db)"
  using assms by (simp_all add: in_sync_def)

end
