(* ===== verification/Store_Steps.thy ===== *)
theory Store_Steps
  imports Store_Sync
begin

text \<open>
  Each table stays in sync under the writes of the stores: one lemma per table and kind of write.
\<close>

section \<open>Keyed tables\<close>

lemma dict_ok_updates [simp]:
  "dict_ok d \<Longrightarrow> dict_ok (AList.update k v d)" "dict_ok d \<Longrightarrow> dict_ok (AList.delete k d)"
  by (simp_all add: dict_ok_def distinct_update distinct_delete)

lemma sync_intents_cong:
  "sync_intents V re tb \<Longrightarrow> dict_ok re' \<Longrightarrow> map_of re' = map_of re \<Longrightarrow> sync_intents V re' tb"
  by (simp add: sync_intents_def)

lemma sync_intents_put:
  assumes "sync_intents V re tb" "intent_ok V d" "ir_payload row = stored_payload d"
    "ir_columns row = intent_columns d"
  shows "sync_intents V (AList.update tid (stored_payload d) re) (AList.update tid row tb)"
  using assms by (auto simp: sync_intents_def update_conv')

lemma sync_intents_mirror:
  assumes "sync_intents V re tb" "map_of tb tid = Some old" "ir_payload row = ir_payload old"
    "ir_columns row = ir_columns old"
  shows "sync_intents V re (AList.update tid row tb)"
  using assms by (auto simp: sync_intents_def update_conv')

lemma sync_intents_delete:
  "sync_intents V re tb \<Longrightarrow> sync_intents V (AList.delete tid re) (AList.delete tid tb)"
  by (auto simp: sync_intents_def delete_conv')

lemma sync_states_cong:
  "sync_states V re tb \<Longrightarrow> dict_ok re' \<Longrightarrow> map_of re' = map_of re \<Longrightarrow> sync_states V re' tb"
  by (simp add: sync_states_def)

lemma sync_states_put:
  assumes "sync_states V re tb" "sync_state_row V e row"
  shows "sync_states V (AList.update tid e re) (AList.update tid row tb)"
  using assms by (auto simp: sync_states_def update_conv')

lemma sync_states_delete:
  "sync_states V re tb \<Longrightarrow> sync_states V (AList.delete tid re) (AList.delete tid tb)"
  by (auto simp: sync_states_def delete_conv')

lemma row_gap_simps:
  "row_gap P rows tb \<Longrightarrow> row_gap (P - {tid}) (AList.update tid row rows) (AList.update tid row tb)"
  "row_gap P rows tb \<Longrightarrow> row_gap (P - {tid}) (AList.delete tid rows) (AList.delete tid tb)"
  "row_gap P rows tb \<Longrightarrow> \<forall>x. x \<noteq> tid \<longrightarrow> map_of tb' x = map_of tb x \<Longrightarrow>
     row_gap (insert tid P) (AList.delete tid rows) tb'"
  "row_gap P rows tb \<Longrightarrow> P \<subseteq> Q \<Longrightarrow> row_gap Q rows tb"
  by (auto simp: row_gap_def update_conv' delete_conv')

lemma sync_pipeline_put:
  assumes "sync_pipeline P re tb" "\<And>now. pipeline_row_of now e = Inr row"
  shows "sync_pipeline (P - {tid}) (AList.update tid e re) (AList.update tid row tb)"
proof -
  obtain rows where "dict_ok re" "row_gap P rows tb"
      "\<forall>now x. map_option (pipeline_row_of now) (map_of re x) = map_option Inr (map_of rows x)"
    using assms(1) unfolding sync_pipeline_def by blast
  then show ?thesis using assms(2) row_gap_simps(1) [of P rows tb tid row]
    unfolding sync_pipeline_def by (intro conjI exI [of _ "AList.update tid row rows"]) (auto simp: update_conv')
qed

lemma sync_pipeline_delete:
  assumes "sync_pipeline P re tb"
  shows "sync_pipeline (P - {tid}) (AList.delete tid re) (AList.delete tid tb)"
proof -
  obtain rows where "dict_ok re" "row_gap P rows tb"
      "\<forall>now x. map_option (pipeline_row_of now) (map_of re x) = map_option Inr (map_of rows x)"
    using assms unfolding sync_pipeline_def by blast
  then show ?thesis using row_gap_simps(2) [of P rows tb tid]
    unfolding sync_pipeline_def by (intro conjI exI [of _ "AList.delete tid rows"]) (auto simp: delete_conv')
qed

text \<open>A writer that logs a deletion and touches only that task's row, however, opens a gap at most there.\<close>

lemma sync_pipeline_gap:
  assumes "sync_pipeline P re tb" "\<forall>x. x \<noteq> tid \<longrightarrow> map_of tb' x = map_of tb x"
  shows "sync_pipeline (insert tid P) (AList.delete tid re) tb'"
proof -
  obtain rows where "dict_ok re" "row_gap P rows tb"
      "\<forall>now x. map_option (pipeline_row_of now) (map_of re x) = map_option Inr (map_of rows x)"
    using assms(1) unfolding sync_pipeline_def by blast
  then show ?thesis using row_gap_simps(3) [of P rows tb tid tb'] assms(2)
    unfolding sync_pipeline_def by (intro conjI exI [of _ "AList.delete tid rows"]) (auto simp: delete_conv')
qed

lemma sync_pipeline_mono: "sync_pipeline P re tb \<Longrightarrow> P \<subseteq> Q \<Longrightarrow> sync_pipeline Q re tb"
  unfolding sync_pipeline_def using row_gap_simps(4) by blast

lemma in_sync_mono:
  assumes "in_sync V W rs db"
  shows "in_sync V (insert tid (fst W), snd W) rs db"
  using in_syncD [OF assms] sync_pipeline_mono [OF in_syncD(11) [OF assms] subset_insertI]
  by (intro in_syncI) simp_all

section \<open>States and their mirrored status\<close>

lemma stamped_get:
  "k \<noteq> ''updated_at'' \<Longrightarrow> k \<noteq> ''runtime'' \<Longrightarrow> py_get k (stamped_record t d) = py_get k d"
  by (simp add: stamped_record_def Let_def set_pipeline_updated_at_def py_get_def dict_get_def update_conv')

lemma status_columns_stored:
  assumes "state_ok V d"
  shows "status_columns (stored_payload d) = status_columns d"
    and "status_columns (stamped_record t d) = status_columns d"
    and "status_columns (stored_payload (stamped_record t d)) = status_columns d"
  using assms by (auto simp: state_ok_def status_columns_def stamped_get)

lemma status_columns_cong:
  assumes "stored_payload d = stored_payload e" "py_get ''status'' e = PyStr s" "py_get ''pipeline_status'' e = PyStr p"
  shows "status_columns d = status_columns (stored_payload e)"
proof -
  have "key_sorted (py_get k d) = key_sorted (py_get k e)" for k using assms(1) by (metis py_get_stored)
  from this [of "''status''"] this [of "''pipeline_status''"] show ?thesis
    using assms(2, 3) by (simp add: status_columns_def key_sorted_scalar)
qed

lemma sync_state_row_status:
  assumes "sync_state_row V e row" "pydantic_laws V"
  shows "\<exists>d. V Task_State_Record (ts_payload row) = Some d \<and> status_columns d = status_columns (ts_payload row)"
proof -
  obtain d t where d: "state_ok V d" "ts_payload row = stored_payload d \<or> ts_payload row = stored_payload (stamped_record t d)"
    using assms(1) unfolding sync_state_row_def by blast
  have V: "V Task_State_Record d = Some d" using d(1) by (simp add: state_ok_def)
  obtain s p where status: "py_get ''status'' d = PyStr s" "py_get ''pipeline_status'' d = PyStr p"
    using d(1) by (auto simp: state_ok_def)
  have loaded: "\<exists>d'. V Task_State_Record (stored_payload r) = Some d' \<and> status_columns d' = status_columns (stored_payload r)"
    if "V Task_State_Record r = Some r" "py_get ''status'' r = PyStr s" "py_get ''pipeline_status'' r = PyStr p" for r
    using pydantic_lawsD(1) [OF assms(2) that(1)] status_columns_cong [OF _ that(2, 3)] by blast
  from d(2) show ?thesis
    using loaded [OF V status] loaded [OF pydantic_lawsD(3) [OF assms(2) V]] status by (auto simp: stamped_get)
qed

lemma loaded_status_columns:
  assumes "sync_states V re (tb_task_state db)" "pydantic_laws V"
  shows "intent_status_columns (load_task_state_for_intent_columns V tid db) =
           intent_status_columns (map_option ts_payload (map_of (tb_task_state db) tid))"
proof (cases "map_of (tb_task_state db) tid")
  case (Some row)
  have "rel_option (sync_state_row V) (map_of re tid) (map_of (tb_task_state db) tid)"
    using assms(1) by (simp add: sync_states_def)
  then obtain e where "sync_state_row V e row" using Some by (auto simp: option_rel_Some2)
  then show ?thesis using sync_state_row_status [OF _ assms(2)] Some
    by (fastforce simp: load_task_state_for_intent_columns_def intent_status_columns_def)
qed (simp add: load_task_state_for_intent_columns_def)

lemma stamped_row:
  assumes "state_ok V st"
  shows "sync_state_row V (stored_payload st)
           \<lparr>ts_payload = stored_payload (stamped_record now st), ts_updated_at = stamp_time now st\<rparr>"
  using assms unfolding sync_state_row_def
  by (auto simp: state_ok_def stamp_time_def text_field_def py_or_def intro!: exI [of _ st])

section \<open>Writes of the database\<close>

lemma mirror_status_sel [simp]:
  "tb_pool_state (mirror_status tid c db) = tb_pool_state db" "tb_queue (mirror_status tid c db) = tb_queue db"
  "tb_task_state (mirror_status tid c db) = tb_task_state db"
  "tb_task_journal (mirror_status tid c db) = tb_task_journal db"
  "tb_task_activity (mirror_status tid c db) = tb_task_activity db"
  "tb_stage_reports (mirror_status tid c db) = tb_stage_reports db"
  "tb_recovery_reports (mirror_status tid c db) = tb_recovery_reports db"
  "tb_transitions (mirror_status tid c db) = tb_transitions db"
  "tb_lifecycle (mirror_status tid c db) = tb_lifecycle db"
  "tb_pipeline (mirror_status tid c db) = tb_pipeline db"
  "tb_audit (mirror_status tid c db) = tb_audit db" "tb_process (mirror_status tid c db) = tb_process db"
  by (simp_all add: mirror_status_def split: option.split)

lemma upsert_state_sync:
  assumes "in_sync V W rs db" "state_ok V d" "sync_state_row V (stored_payload d) row"
    "status_columns (ts_payload row) = status_columns d"
  shows "in_sync V W (rs \<lparr>re_task_states := AList.update tid (stored_payload d) (re_task_states rs)\<rparr>)
           (upsert_state tid row (status_columns d) db)"
proof -
  note D = in_syncD [OF assms(1)]
  let ?db = "upsert_state tid row (status_columns d) db"
  have st: "tb_task_state ?db = AList.update tid row (tb_task_state db)" by (simp add: upsert_state_def)
  have "sync_intents V (re_task_intents rs) (tb_task_intent ?db)"
    using D(2) by (auto simp: upsert_state_def mirror_status_def intro: sync_intents_mirror split: option.split)
  moreover have "sync_states V (AList.update tid (stored_payload d) (re_task_states rs)) (tb_task_state ?db)"
    unfolding st by (rule sync_states_put [OF D(3) assms(3)])
  moreover have "sync_status (tb_task_intent ?db) (tb_task_state ?db)"
    using D(4) assms(4) unfolding st sync_status_def
    by (auto simp: upsert_state_def mirror_status_def update_conv' intent_status_columns_def
        split: option.splits if_splits)
  ultimately show ?thesis by (intro in_syncI) (simp_all add: D upsert_state_def)
qed

lemma save_state_sync:
  assumes "in_sync V W rs db" "state_ok V d"
  shows "in_sync V W (rs \<lparr>re_task_states := AList.update tid (stored_payload d) (re_task_states rs)\<rparr>)
           (save_task_state_in_transaction now tid d db)"
  unfolding save_task_state_in_transaction_def
  by (rule upsert_state_sync [OF assms stamped_row [OF assms(2)]])
     (simp add: status_columns_stored [OF assms(2)])

lemma upsert_intent_sync:
  assumes "in_sync V W rs db" "intent_ok V d" "ir_payload row = stored_payload d"
    "ir_columns row = intent_columns d"
    "map_of (tb_task_intent db) tid = None \<Longrightarrow> (ir_lifecycle_status row, ir_pipeline_status row) =
       intent_status_columns (map_option ts_payload (map_of (tb_task_state db) tid))"
  shows "in_sync V W (rs \<lparr>re_task_intents := AList.update tid (stored_payload d) (re_task_intents rs)\<rparr>)
           (upsert_intent tid row db)"
proof -
  note D = in_syncD [OF assms(1)]
  let ?db = "upsert_intent tid row db"
  obtain r where r: "tb_task_intent ?db = AList.update tid r (tb_task_intent db)"
      "ir_payload r = stored_payload d" "ir_columns r = intent_columns d"
      "(ir_lifecycle_status r, ir_pipeline_status r) =
         intent_status_columns (map_option ts_payload (map_of (tb_task_state db) tid))"
  proof (cases "map_of (tb_task_intent db) tid")
    case None
    then show ?thesis using that assms by (simp add: upsert_intent_def)
  next
    case (Some old)
    then have "(ir_lifecycle_status old, ir_pipeline_status old) =
        intent_status_columns (map_option ts_payload (map_of (tb_task_state db) tid))"
      using D(4) by (simp add: sync_status_def)
    then show ?thesis using that Some assms(3, 4) by (simp add: upsert_intent_def)
  qed
  have "sync_intents V (AList.update tid (stored_payload d) (re_task_intents rs)) (tb_task_intent ?db)"
    unfolding r(1) by (rule sync_intents_put [OF D(2) assms(2) r(2, 3)])
  moreover have "sync_status (tb_task_intent ?db) (tb_task_state db)"
    using D(4) r(4) unfolding r(1) sync_status_def by (auto simp: update_conv')
  ultimately show ?thesis by (intro in_syncI) (simp_all add: D upsert_intent_def)
qed

lemma save_intent_sync:
  assumes "in_sync V W rs db" "intent_ok V d" "pydantic_laws V"
  shows "in_sync V W (rs \<lparr>re_task_intents := AList.update tid (stored_payload d) (re_task_intents rs)\<rparr>)
           (save_task_intent_in_transaction V now tid d db)"
  unfolding save_task_intent_in_transaction_def Let_def
  by (rule upsert_intent_sync [OF assms(1, 2)])
     (simp_all add: loaded_status_columns [OF in_syncD(3) [OF assms(1)] assms(3)])

lemma delete_commute: "AList.delete k (AList.delete j d) = AList.delete j (AList.delete k d)"
  by (simp add: AList.delete_eq conj_commute split_beta cong: filter_cong)

lemma put_workspace_sync:
  assumes "in_sync V W rs db" "workspace_ok V d"
  shows "in_sync V W (rs \<lparr>re_workspace_state := Some (stored_payload d)\<rparr>) (put_workspace now d db)"
proof -
  note D = in_syncD [OF assms(1)]
  have "d \<noteq> []" using assms(2) by (auto simp: workspace_ok_def)
  then have "sync_workspace V (Some (stored_payload d)) (tb_pool_state (put_workspace now d db))
      (tb_queue (put_workspace now d db))"
    using assms(2) by (auto simp: sync_workspace_def put_workspace_def stored_delete intro!: exI [of _ d])
  then show ?thesis by (intro in_syncI) (simp_all add: D put_workspace_def)
qed

section \<open>Logs of rows\<close>

lemma map_Inr_append: "map f xs = map Inr ys \<Longrightarrow> f x = Inr y \<Longrightarrow> map f (xs @ [x]) = map Inr (ys @ [y])"
  by simp

lemma sync_stage_reports_add:
  "sync_stage_reports re tb \<Longrightarrow> named r \<Longrightarrow> (\<And>now. stage_report_row_of now r = row) \<Longrightarrow>
   sync_stage_reports (re @ [r]) (tb @ [row])"
  by (simp add: sync_stage_reports_def)

lemma sync_recovery_reports_add:
  "sync_recovery_reports re tb \<Longrightarrow> named r \<Longrightarrow> (\<And>now. recovery_report_row_of now r = row) \<Longrightarrow>
   sync_recovery_reports (re @ [r]) (tb @ [row])"
  by (simp add: sync_recovery_reports_def)

text \<open>A history with a gap grows, loses a task, and is wiped of one of which the log keeps every entry.\<close>

lemma history_gap_add: "history_gap f H rows tb \<Longrightarrow> history_gap f H (rows @ [r]) (tb @ [r])"
  by (auto simp: history_gap_def)

lemma filter_other:
  "filter (\<lambda>r. f r \<notin> H - {tid}) (filter (\<lambda>r. f r \<noteq> tid) xs) = filter (\<lambda>r. f r \<noteq> tid) (filter (\<lambda>r. f r \<notin> H) xs)"
  "filter (\<lambda>r. f r \<notin> insert tid H) xs = filter (\<lambda>r. f r \<noteq> tid) (filter (\<lambda>r. f r \<notin> H) xs)"
  "filter (\<lambda>r. f r = x) (filter (\<lambda>r. f r \<noteq> tid) xs) = (if x = tid then [] else filter (\<lambda>r. f r = x) xs)"
  by (induction xs) auto

lemma history_gap_keep:
  assumes "history_gap f H rows tb"
  shows "history_gap f (H - {tid}) (filter (\<lambda>r. f r \<noteq> tid) rows) (filter (\<lambda>r. f r \<noteq> tid) tb)"
  using assms unfolding history_gap_def filter_other by simp

lemma history_gap_open:
  assumes "history_gap f H rows tb"
  shows "history_gap f (insert tid H) rows (filter (\<lambda>r. f r \<noteq> tid) tb)"
  using assms unfolding history_gap_def filter_other(2, 3) by (simp add: conj_commute cong: conj_cong)

lemma sync_transitions_add:
  assumes "sync_transitions H re tb" "named r" "\<And>now. transition_row_of now r = Inr row"
  shows "sync_transitions H (re @ [r]) (tb @ [row])"
proof -
  obtain rows where "list_all named re" "\<forall>now. map (transition_row_of now) re = map Inr rows"
      "history_gap xn_task_id H rows tb"
    using assms(1) unfolding sync_transitions_def by blast
  then show ?thesis using assms(2, 3)
    unfolding sync_transitions_def by (intro conjI exI [of _ "rows @ [row]"]) (simp_all add: history_gap_add)
qed

lemma sync_transitions_gap:
  "sync_transitions H re tb \<Longrightarrow> sync_transitions (insert tid H) re (filter (\<lambda>r. xn_task_id r \<noteq> tid) tb)"
  unfolding sync_transitions_def using history_gap_open [where f = xn_task_id] by blast

lemma sync_lifecycle_add:
  assumes "sync_lifecycle H re tb" "named r" "\<And>now. lifecycle_row_of now r = Inr row"
  shows "sync_lifecycle H (re @ [r]) (tb @ [row])"
proof -
  obtain rows where "list_all named re" "\<forall>now. map (lifecycle_row_of now) re = map Inr rows"
      "history_gap lf_task_id H rows tb"
    using assms(1) unfolding sync_lifecycle_def by blast
  then show ?thesis using assms(2, 3)
    unfolding sync_lifecycle_def by (intro conjI exI [of _ "rows @ [row]"]) (simp_all add: history_gap_add)
qed

lemma sync_lifecycle_gap:
  "sync_lifecycle H re tb \<Longrightarrow> sync_lifecycle (insert tid H) re (filter (\<lambda>r. lf_task_id r \<noteq> tid) tb)"
  unfolding sync_lifecycle_def using history_gap_open [where f = lf_task_id] by blast

lemma sync_audit_add:
  "sync_audit re tb \<Longrightarrow> (\<And>now. audit_row_of now r = Inr row) \<Longrightarrow> sync_audit (re @ [r]) (tb @ [row])"
  by (simp add: sync_audit_def)

lemma map_Inr_filter:
  assumes "map f re = map Inr tb" "\<And>r row. r \<in> set re \<Longrightarrow> f r = Inr row \<Longrightarrow> P r \<longleftrightarrow> Q row"
  shows "map f (filter P re) = map Inr (filter Q tb)"
  using assms by (induction re arbitrary: tb) (auto simp: Cons_eq_map_conv)

lemma keep_other_named:
  "named r \<Longrightarrow> py_str (py_get ''task_id'' r) = text_field ''task_id'' r"
  by (auto simp: named_def text_field_def py_or_def)

lemma named_keep_other: "list_all named re \<Longrightarrow> list_all named (keep_other tid re)"
  by (simp add: keep_other_def list_all_iff)

lemma sync_stage_reports_keep:
  assumes "sync_stage_reports re tb"
  shows "sync_stage_reports (keep_other tid re) (filter (\<lambda>r. sp_task_id r \<noteq> tid) tb)"
proof -
  have "map (stage_report_row_of now) (keep_other tid re) =
      filter (\<lambda>r. sp_task_id r \<noteq> tid) (map (stage_report_row_of now) re)" if "list_all named re" for now
    using that by (induction re) (simp_all add: keep_other_def stage_report_row_of_def keep_other_named)
  then show ?thesis using assms by (simp add: sync_stage_reports_def named_keep_other)
qed

lemma sync_recovery_reports_keep:
  assumes "sync_recovery_reports re tb"
  shows "sync_recovery_reports (keep_other tid re) (filter (\<lambda>r. rv_task_id r \<noteq> tid) tb)"
proof -
  have "map (recovery_report_row_of now) (keep_other tid re) =
      filter (\<lambda>r. rv_task_id r \<noteq> tid) (map (recovery_report_row_of now) re)" if "list_all named re" for now
    using that by (induction re) (simp_all add: keep_other_def recovery_report_row_of_def keep_other_named)
  then show ?thesis using assms by (simp add: sync_recovery_reports_def named_keep_other)
qed

lemma then_do_Inr: "then_do x f = Inr y \<longleftrightarrow> (\<exists>z. x = Inr z \<and> f z = Inr y)"
  by (cases x) auto

lemma transition_row_task: "transition_row_of now r = Inr row \<Longrightarrow> xn_task_id row = text_field ''task_id'' r"
  by (auto simp: transition_row_of_def then_do_Inr)

lemma lifecycle_row_task: "lifecycle_row_of now r = Inr row \<Longrightarrow> lf_task_id row = text_field ''task_id'' r"
  by (auto simp: lifecycle_row_of_def then_do_Inr)

lemma sync_transitions_keep:
  assumes "sync_transitions H re tb"
  shows "sync_transitions (H - {tid}) (keep_other tid re) (filter (\<lambda>r. xn_task_id r \<noteq> tid) tb)"
proof -
  obtain rows where rows: "list_all named re" "\<forall>now. map (transition_row_of now) re = map Inr rows"
      "history_gap xn_task_id H rows tb"
    using assms unfolding sync_transitions_def by blast
  have "map (transition_row_of now) (keep_other tid re) = map Inr (filter (\<lambda>r. xn_task_id r \<noteq> tid) rows)" for now
    unfolding keep_other_def by (rule map_Inr_filter [OF rows(2) [rule_format]])
      (use rows(1) in \<open>auto simp: list_all_iff keep_other_named transition_row_task\<close>)
  then show ?thesis unfolding sync_transitions_def
    by (intro conjI exI [of _ "filter (\<lambda>r. xn_task_id r \<noteq> tid) rows"] allI)
       (simp_all only: named_keep_other [OF rows(1)] history_gap_keep [OF rows(3)])
qed

lemma sync_lifecycle_keep:
  assumes "sync_lifecycle H re tb"
  shows "sync_lifecycle (H - {tid}) (keep_other tid re) (filter (\<lambda>r. lf_task_id r \<noteq> tid) tb)"
proof -
  obtain rows where rows: "list_all named re" "\<forall>now. map (lifecycle_row_of now) re = map Inr rows"
      "history_gap lf_task_id H rows tb"
    using assms unfolding sync_lifecycle_def by blast
  have "map (lifecycle_row_of now) (keep_other tid re) = map Inr (filter (\<lambda>r. lf_task_id r \<noteq> tid) rows)" for now
    unfolding keep_other_def by (rule map_Inr_filter [OF rows(2) [rule_format]])
      (use rows(1) in \<open>auto simp: list_all_iff keep_other_named lifecycle_row_task\<close>)
  then show ?thesis unfolding sync_lifecycle_def
    by (intro conjI exI [of _ "filter (\<lambda>r. lf_task_id r \<noteq> tid) rows"] allI)
       (simp_all only: named_keep_other [OF rows(1)] history_gap_keep [OF rows(3)])
qed

section \<open>Journal and activity\<close>

lemma map_of_filter_key:
  "map_of (filter (\<lambda>r. fst (fst r) \<noteq> tid) tb) (x, i) = (if x = tid then None else map_of tb (x, i))"
  by (induction tb) auto

lemma sync_journal_delete:
  "sync_journal re tb \<Longrightarrow> sync_journal (AList.delete tid re) (filter (\<lambda>r. fst (fst r) \<noteq> tid) tb)"
  unfolding sync_journal_def by (simp add: map_of_filter_key dict_get_delete)

lemma enumerate_append: "enumerate n (xs @ ys) = enumerate n xs @ enumerate (n + length xs) ys"
  by (induction xs arbitrary: n) simp_all

text \<open>
  An entry that carries its index may be recorded any number of times: replay puts it in the same
  row.
\<close>

lemma map_of_rev_replicate:
  "map_of (rev (rows @ replicate n (i, row))) j = (if 0 < n \<and> j = i then Some row else map_of (rev rows) j)"
proof -
  have "map_of (replicate n (i, row) @ ys) j = (if 0 < n \<and> j = i then Some row else map_of ys j)" for ys
    by (induction n) auto
  then show ?thesis by simp
qed

lemma rows_replicate:
  assumes "\<And>k. journal_row_of now (k, e) = Inr (i, row)"
  shows "map (journal_row_of now) (enumerate k (replicate n e)) = map Inr (replicate n (i, row))"
  by (induction n arbitrary: k) (simp_all add: assms)

lemma sync_journal_replicate:
  assumes "sync_journal re tb" "dict_ok re'"
    "\<And>x. dict_get x [] re' = dict_get x [] re @ replicate (n x) (e x)"
    "\<And>now x k. 0 < n x \<Longrightarrow> journal_row_of now (k, e x) = Inr (ix x, row x)"
    "\<And>x i. map_of tb' (x, i) = (if 0 < n x \<and> i = ix x then Some (row x) else map_of tb (x, i))"
  shows "sync_journal re' tb'"
  unfolding sync_journal_def
proof (intro conjI allI)
  fix now x
  obtain rows where rows: "map (journal_row_of now) (enumerate 0 (dict_get x [] re)) = map Inr rows"
      "\<And>i. map_of (rev rows) i = map_of tb (x, i)"
    using assms(1) unfolding sync_journal_def by blast
  show "\<exists>rows. map (journal_row_of now) (enumerate 0 (dict_get x [] re')) = map Inr rows \<and>
      (\<forall>i. map_of (rev rows) i = map_of tb' (x, i))"
  proof (cases "0 < n x")
    case True
    then have "map (journal_row_of now) (enumerate 0 (dict_get x [] re')) =
        map Inr (rows @ replicate (n x) (ix x, row x))"
      by (simp add: assms(3) enumerate_append rows(1) rows_replicate [OF assms(4)])
    moreover have "map_of (rev (rows @ replicate (n x) (ix x, row x))) i = map_of tb' (x, i)" for i
      unfolding map_of_rev_replicate by (simp add: True assms(5) rows(2))
    ultimately show ?thesis by blast
  next
    case False
    then show ?thesis using rows by (simp add: assms(3, 5))
  qed
qed (rule assms(2))

lemma journal_entry_row:
  assumes "now \<noteq> []"
  shows "journal_row_of t (k, stored_payload (journal_event_entry now tid i m)) =
           Inr (i, \<lparr>jo_created_at = now, jo_message = m, jo_metadata = []\<rparr>)"
  using assms by (simp add: journal_row_of_def journal_event_entry_def Let_def int_of_def
      text_field_or_def text_field_def py_or_def dict_field_def)

lemma sync_journal_append:
  assumes "sync_journal re tb" "now \<noteq> []"
  shows "sync_journal
      (AList.update tid (dict_get tid [] re @ [stored_payload (journal_event_entry now tid i m)]) re)
      (AList.update (tid, i) \<lparr>jo_created_at = now, jo_message = m, jo_metadata = []\<rparr> tb)"
  by (rule sync_journal_replicate [OF assms(1), where n = "\<lambda>x. if x = tid then 1 else 0"
        and e = "\<lambda>_. stored_payload (journal_event_entry now tid i m)" and ix = "\<lambda>_. i"
        and row = "\<lambda>_. \<lparr>jo_created_at = now, jo_message = m, jo_metadata = []\<rparr>"])
     (use assms(1) in \<open>auto simp: sync_journal_def dict_get_update update_conv' journal_entry_row [OF assms(2)]\<close>)

lemma sync_activity_delete:
  "sync_activity re tb \<Longrightarrow> sync_activity (AList.delete tid re) (filter (\<lambda>r. fst (fst r) \<noteq> tid) tb)"
  by (auto simp: sync_activity_def map_of_filter_key dict_get_delete replayed_activity_def)

lemma map_of_activity_rows:
  "map_of (map (\<lambda>(i, e). ((tid, int i), f e)) (enumerate n es)) (x, i) =
     (if x = tid \<and> int n \<le> i \<and> nat (i - int n) < length es then Some (f (es ! nat (i - int n))) else None)"
proof (induction es arbitrary: n)
  case (Cons e es)
  consider "x \<noteq> tid \<or> i < int n" | "x = tid" "i = int n" | "x = tid" "int n < i" by linarith
  then show ?case
  proof cases
    case 3
    then have "nat (i - int n) = Suc (nat (i - int (Suc n)))" by linarith
    then show ?thesis using 3 Cons.IH [of "Suc n"] by auto
  qed (use Cons.IH [of "Suc n"] in auto)
qed simp

lemma sync_activity_save:
  assumes "sync_activity re tb"
    "\<And>now e. e \<in> set es \<Longrightarrow> text_field_or now ''created_at'' (stored_payload e) = dump_text ''created_at'' e"
  shows "sync_activity (AList.update tid (map stored_payload es) re)
           (filter (\<lambda>r. fst (fst r) \<noteq> tid) tb @ activity_rows tid es)"
proof -
  have "map_of (filter (\<lambda>r. fst (fst r) \<noteq> tid) tb @ activity_rows tid es) (x, i) =
      (if x = tid then if 0 \<le> i \<and> nat i < length es
         then Some \<lparr>av_created_at = dump_text ''created_at'' (es ! nat i), av_payload = es ! nat i\<rparr> else None
       else map_of tb (x, i))" for x i
    unfolding activity_rows_def map_of_append map_add_def map_of_activity_rows map_of_filter_key
    by (simp split: option.split)
  then show ?thesis using assms
    by (auto simp: sync_activity_def dict_get_update replayed_activity_def activity_core_def)
qed

end
