(* ===== verification/Store_Runs.thy ===== *)
theory Store_Runs
  imports Store_Steps
begin

text \<open>
  Runs of the stores: every writer of the database as an operation, what a program hands it, and
  the proof that each operation keeps the log and the database in sync.
\<close>

section \<open>Operations\<close>

datatype store_op =
    Op_workspace jdict
  | Op_state string jdict
  | Op_intent string jdict
  | Op_transaction "(string, jdict) dict" "(string, jdict) dict" "jdict option" "(string, string) dict" "audit_entry list"
  | Op_journal string string
  | Op_audits "audit_entry list"
  | Op_delete string "audit_entry list"
  | Op_stage_report string jdict
  | Op_rewrite_report string jdict
  | Op_recovery_report string jdict
  | Op_activity string "jdict list"
  | Op_journal_item string int journal_item
  | Op_pipeline task_state
  | Op_reset_pipeline limits string bool
  | Op_process string string jdict
  | Op_clear_process string
  | Op_reset_all string

definition run_op :: "validator \<Rightarrow> (rat \<Rightarrow> string) \<Rightarrow> string \<times> store_op \<Rightarrow> store_state \<Rightarrow> store_state" where
  "run_op V ft nop s =
     (let now = fst nop in
      case snd nop of
        Op_workspace d \<Rightarrow> save_workspace_state now d s
      | Op_state tid d \<Rightarrow> save_task_state now tid d s
      | Op_intent tid d \<Rightarrow> save_task_intent V now tid d s
      | Op_transaction intents states ws messages audits \<Rightarrow>
          save_runtime_transaction V now intents states ws messages audits s
      | Op_journal tid m \<Rightarrow> append_task_journal now tid m s
      | Op_audits audits \<Rightarrow> append_task_audit_entries now audits s
      | Op_delete tid audits \<Rightarrow> delete_task_records now tid audits s
      | Op_stage_report tid r \<Rightarrow> record_stage_report now tid r s
      | Op_rewrite_report tid r \<Rightarrow> rewrite_latest_stage_report now tid r s
      | Op_recovery_report tid r \<Rightarrow> store_recovery_report now tid r s
      | Op_activity tid es \<Rightarrow> save_activity now tid es s
      | Op_journal_item tid n item \<Rightarrow> store_journal_item tid n now item s
      | Op_pipeline x \<Rightarrow> save_pipeline ft now x s
      | Op_reset_pipeline l tid preserve \<Rightarrow>
          (case reset_pipeline ft now l tid preserve s of Inl _ \<Rightarrow> s | Inr s' \<Rightarrow> s')
      | Op_process key status p \<Rightarrow> on_db (save_process_state now key status p) s
      | Op_clear_process key \<Rightarrow> on_db (clear_process_state key) s
      | Op_reset_all tid \<Rightarrow> reset_all_lifecycle now tid s)"

text \<open>What the program hands the stores: valid records under their own non-empty task id, with their time.\<close>

definition stamped_text :: "string \<Rightarrow> jdict \<Rightarrow> bool" where
  "stamped_text k d \<longleftrightarrow> (\<exists>t. py_get k d = PyStr t \<and> t \<noteq> [])"

definition stage_report_ok :: "string \<Rightarrow> jdict \<Rightarrow> bool" where
  "stage_report_ok tid r \<longleftrightarrow>
     py_get ''task_id'' r = PyStr tid \<and> stamped_text ''pipeline_state'' r \<and> stamped_text ''created_at'' r"

definition recovery_report_ok :: "string \<Rightarrow> jdict \<Rightarrow> bool" where
  "recovery_report_ok tid r \<longleftrightarrow>
     py_get ''task_id'' r = PyStr tid \<and> stamped_text ''created_at'' r \<and>
     (\<exists>t. py_get ''trigger_event_kind'' r = PyStr t) \<and>
     (\<exists>st. py_get ''origin_stage'' r = opt_str_val st)"

definition audit_ok :: "audit_entry \<Rightarrow> bool" where
  "audit_ok a \<longleftrightarrow> ae_task_id a \<noteq> [] \<and> ae_created_at a \<noteq> []"

definition tombstone :: "audit_entry \<Rightarrow> bool" where
  "tombstone a \<longleftrightarrow> ae_action a = ''removed'' \<or> ae_action a = ''deleted''"

text \<open>An action that no entry of the map names becomes \<open>task_<action>\<close>, which may collide with a tombstone or
  the reset event only through these two names.\<close>

definition plain_audit :: "audit_entry \<Rightarrow> bool" where
  "plain_audit a \<longleftrightarrow> audit_ok a \<and> \<not> tombstone a"

definition op_ok :: "validator \<Rightarrow> string \<times> store_op \<Rightarrow> bool" where
  "op_ok V nop \<longleftrightarrow> fst nop \<noteq> [] \<and>
     (case snd nop of
        Op_workspace d \<Rightarrow> workspace_ok V d
      | Op_state tid d \<Rightarrow> tid \<noteq> [] \<and> state_ok V d
      | Op_intent tid d \<Rightarrow> tid \<noteq> [] \<and> intent_ok V d
      | Op_transaction intents states ws messages audits \<Rightarrow>
          dict_ok intents \<and> dict_ok states \<and> dict_ok messages \<and>
          [] \<notin> fst ` set intents \<and> [] \<notin> fst ` set states \<and> [] \<notin> fst ` set messages \<and>
          (\<forall>d\<in>snd ` set intents. intent_ok V d) \<and> (\<forall>d\<in>snd ` set states. state_ok V d) \<and>
          (\<forall>d\<in>set_option ws. workspace_ok V d) \<and> (\<forall>a\<in>set audits. plain_audit a)
      | Op_journal tid m \<Rightarrow> tid \<noteq> []
      | Op_audits audits \<Rightarrow> (\<forall>a\<in>set audits. plain_audit a)
      | Op_delete tid audits \<Rightarrow>
          tid \<noteq> [] \<and> (\<forall>a\<in>set audits. audit_ok a \<and> tombstone a \<and> ae_task_id a = tid)
      | Op_stage_report tid r \<Rightarrow> tid \<noteq> [] \<and> stage_report_ok tid r
      | Op_rewrite_report tid r \<Rightarrow> tid \<noteq> [] \<and> stage_report_ok tid r
      | Op_recovery_report tid r \<Rightarrow> tid \<noteq> [] \<and> recovery_report_ok tid r
      | Op_activity tid es \<Rightarrow> tid \<noteq> [] \<and> (\<forall>e\<in>set es. stamped_text ''created_at'' e)
      | Op_journal_item tid n item \<Rightarrow> tid \<noteq> []
      | Op_pipeline x \<Rightarrow> task_id x \<noteq> []
      | Op_reset_pipeline l tid preserve \<Rightarrow> tid \<noteq> []
      | Op_process key status p \<Rightarrow> True
      | Op_clear_process key \<Rightarrow> True
      | Op_reset_all tid \<Rightarrow> tid \<noteq> [])"

text \<open>
  What an operation does to the gap between log and tables. A reset that keeps the run memory opens one
  at the task's state row, the wipe of a task one at its history; the next save of the task's state
  closes the first, its deletion both.
\<close>

fun mark_gap :: "store_op \<Rightarrow> gap \<Rightarrow> gap" where
  "mark_gap (Op_reset_pipeline l tid preserve) W = (if preserve then (insert tid (fst W), snd W) else W)"
| "mark_gap (Op_reset_all tid) W = (fst W - {tid}, insert tid (snd W))"
| "mark_gap (Op_pipeline x) W = (fst W - {task_id x}, snd W)"
| "mark_gap (Op_delete tid audits) W = (fst W - {tid}, snd W - {tid})"
| "mark_gap p W = W"

section \<open>Single events\<close>

abbreviation log_synced :: "validator \<Rightarrow> gap \<Rightarrow> store_state \<Rightarrow> bool" where
  "log_synced V W s \<equiv> in_sync V W (log_state (st_log s)) (st_db s)"

lemma map_filter_dicts [simp]: "List.map_filter as_dict (map PyDict xs) = xs"
  by (induction xs) (simp_all add: List.map_filter_simps)

lemma save_workspace_sync:
  assumes "log_synced V W s" "workspace_ok V d"
  shows "log_synced V W (save_workspace_state now d s)"
  using put_workspace_sync [OF assms, of now]
  by (simp add: save_workspace_state_def append_workspace_state_event_def apply_workspace_event slot_simps)

lemma save_task_state_sync:
  assumes "log_synced V W s" "tid \<noteq> []" "state_ok V d"
  shows "log_synced V W (save_task_state now tid d s)"
  using save_state_sync [OF assms(1, 3), of tid now] assms(2)
  by (simp add: save_task_state_def apply_task_event slot_simps)

lemma save_task_intent_sync:
  assumes "log_synced V W s" "tid \<noteq> []" "intent_ok V d" "pydantic_laws V"
  shows "log_synced V W (save_task_intent V now tid d s)"
  using save_intent_sync [OF assms(1, 3, 4), of tid now] assms(2)
  by (simp add: save_task_intent_def apply_task_event slot_simps)

lemma append_task_journal_sync:
  assumes "log_synced V W s" "now \<noteq> []" "tid \<noteq> []"
  shows "log_synced V W (append_task_journal now tid m s)"
proof -
  note D = in_syncD [OF assms(1)]
  have *: "List.map_filter as_dict [PyDict e] = [e]" for e by (simp add: List.map_filter_simps)
  show ?thesis using assms(3)
    by (intro in_syncI)
       (simp_all add: append_task_journal_def append_journal_row_def Let_def apply_task_event slot_simps *
         put_journal_def D sync_journal_append [OF D(5) assms(2)])
qed

lemma stage_row_stored:
  assumes "stage_report_ok tid r"
  shows "stage_report_row_of now (stored_payload r) =
           \<lparr>sp_task_id = tid, sp_pipeline_state = dump_text ''pipeline_state'' r,
            sp_created_at = dump_text ''created_at'' r, sp_payload = stored_payload r\<rparr>"
    and "named (stored_payload r)" and "text_field ''task_id'' (stored_payload r) = tid"
    and "report_state (stored_payload r) = dump_text ''pipeline_state'' r"
  using assms by (auto simp: stage_report_ok_def stamped_text_def stage_report_row_of_def text_field_def
      text_field_or_def py_or_def dump_text_def report_state_def named_def)

lemma record_stage_report_sync:
  assumes "log_synced V W s" "tid \<noteq> []" "stage_report_ok tid r"
  shows "log_synced V W (record_stage_report now tid r s)"
proof -
  note D = in_syncD [OF assms(1)]
  show ?thesis using assms(2)
    by (intro in_syncI)
       (simp_all add: record_stage_report_def apply_task_event slot_simps D
         sync_stage_reports_add [OF D(7) stage_row_stored(2, 1) [OF assms(3)]])
qed

lemma rewrite_rows:
  assumes "sync_stage_reports re tb" "stage_report_ok tid r"
  shows "sync_stage_reports (rewrite_stage_reports (stored_payload r) re)
     (case replace_last (\<lambda>row. sp_task_id row = tid \<and> sp_pipeline_state row = dump_text ''pipeline_state'' r)
        (\<lambda>row. row \<lparr>sp_created_at := dump_text ''created_at'' r, sp_payload := stored_payload r\<rparr>) tb of
        Some rows \<Rightarrow> rows
      | None \<Rightarrow> tb @ [stage_report_row_of now (stored_payload r)])"
proof -
  let ?P = "\<lambda>x. text_field ''task_id'' x = tid \<and> report_state x = dump_text ''pipeline_state'' r"
  let ?Q = "\<lambda>row. sp_task_id row = tid \<and> sp_pipeline_state row = dump_text ''pipeline_state'' r"
  let ?h = "\<lambda>row. row \<lparr>sp_created_at := dump_text ''created_at'' r, sp_payload := stored_payload r\<rparr>"
  have re: "rewrite_stage_reports (stored_payload r) re =
      (case replace_last ?P (\<lambda>_. stored_payload r) re of Some ys \<Rightarrow> ys | None \<Rightarrow> re @ [stored_payload r])"
    by (simp add: rewrite_stage_reports_def stage_row_stored [OF assms(2)])
  have tb: "replace_last ?Q ?h tb =
      map_option (map (stage_report_row_of t)) (replace_last ?P (\<lambda>_. stored_payload r) re)" for t
  proof -
    have "tb = map (stage_report_row_of t) re" using assms(1) by (simp add: sync_stage_reports_def)
    then show ?thesis
      by (simp only:) (rule replace_last_map,
        auto simp: stage_row_stored(1) [OF assms(2)] stage_report_row_of_def [of t x for x])
  qed
  have named: "replace_first ?P (\<lambda>_. stored_payload r) xs = Some ys \<Longrightarrow> list_all named xs \<Longrightarrow> list_all named ys"
    for xs ys
    by (induction xs arbitrary: ys) (auto simp: stage_row_stored [OF assms(2)] split: if_splits)
  show ?thesis
  proof (cases "replace_last ?P (\<lambda>_. stored_payload r) re")
    case None
    then show ?thesis using assms(1) stage_row_stored(1) [OF assms(2)] stage_row_stored(2) [OF assms(2)]
      unfolding re tb [of now] by (simp add: sync_stage_reports_add)
  next
    case (Some ys)
    then have "list_all named ys" using named [of "rev re"] assms(1)
      by (auto simp: replace_last_def sync_stage_reports_def)
    moreover have "map (stage_report_row_of t) ys = map (stage_report_row_of now) ys" for t
      using tb [of t] tb [of now] Some by simp
    ultimately show ?thesis
      unfolding re tb [of now] Some option.map option.case sync_stage_reports_def by blast
  qed
qed

lemma rewrite_latest_stage_report_sync:
  assumes "log_synced V W s" "tid \<noteq> []" "stage_report_ok tid r"
  shows "log_synced V W (rewrite_latest_stage_report now tid r s)"
proof (cases "replace_last
      (\<lambda>row. sp_task_id row = tid \<and> sp_pipeline_state row = dump_text ''pipeline_state'' r)
      (\<lambda>row. row \<lparr>sp_created_at := dump_text ''created_at'' r, sp_payload := stored_payload r\<rparr>)
      (tb_stage_reports (st_db s))")
  case None
  then show ?thesis using record_stage_report_sync [OF assms] by (simp add: rewrite_latest_stage_report_def)
next
  case (Some rows)
  note D = in_syncD [OF assms(1)]
  show ?thesis using assms(2) rewrite_rows [OF D(7) assms(3), of now]
    by (intro in_syncI)
       (simp_all add: rewrite_latest_stage_report_def Some apply_task_event slot_simps D)
qed

lemma recovery_row_stored:
  assumes "recovery_report_ok tid r"
  shows "recovery_report_row_of now (stored_payload r) =
           \<lparr>rv_task_id = tid, rv_origin_stage = optional_str (py_get ''origin_stage'' r),
            rv_trigger = dump_text ''trigger_event_kind'' r,
            rv_created_at = dump_text ''created_at'' r, rv_payload = stored_payload r\<rparr>"
    and "named (stored_payload r)"
  using assms by (auto simp: recovery_report_ok_def stamped_text_def recovery_report_row_of_def text_field_def
      text_field_or_def py_or_def dump_text_def named_def)

lemma store_recovery_report_sync:
  assumes "log_synced V W s" "tid \<noteq> []" "recovery_report_ok tid r"
  shows "log_synced V W (store_recovery_report now tid r s)"
proof -
  note D = in_syncD [OF assms(1)]
  show ?thesis using assms(2)
    by (intro in_syncI)
       (simp_all add: store_recovery_report_def apply_task_event slot_simps D
         sync_recovery_reports_add [OF D(8) recovery_row_stored(2, 1) [OF assms(3)]])
qed

lemma save_activity_sync:
  assumes "log_synced V W s" "tid \<noteq> []" "\<forall>e\<in>set es. stamped_text ''created_at'' e"
  shows "log_synced V W (save_activity now tid es s)"
proof -
  note D = in_syncD [OF assms(1)]
  have "text_field_or t ''created_at'' (stored_payload e) = dump_text ''created_at'' e" if "e \<in> set es" for e t
    using assms(3) that by (auto simp: stamped_text_def text_field_or_def dump_text_def py_or_def)
  note act = sync_activity_save [OF D(6) this, where tid = tid]
  show ?thesis using assms(2)
    by (intro in_syncI)
       (simp_all add: save_activity_def apply_task_event slot_simps D act)
qed

lemma store_journal_item_sync:
  assumes "log_synced V W s" "now \<noteq> []" "tid \<noteq> []"
  shows "log_synced V W (store_journal_item tid n now item s)"
proof (cases item)
  case (Transition_item st0 ty ep to_st rl dl)
  note D = in_syncD [OF assms(1)]
  let ?r = "stored_payload
          [(''task_id'', PyStr tid), (''seq'', PyInt n), (''created_at'', PyStr now),
           (''from_stage'', PyStr st0), (''event_type'', PyStr ty), (''event_payload'', PyDict ep),
           (''to_stage'', PyStr to_st), (''rule_description'', PyStr rl), (''delta'', PyDict dl)]"
  have "transition_row_of t ?r = Inr
      \<lparr>xn_task_id = tid, xn_seq = n, xn_created_at = now, xn_from_stage = st0, xn_event_type = ty,
       xn_event_payload = stored_payload ep, xn_to_stage = to_st, xn_rule = rl,
       xn_delta = stored_payload dl\<rparr>" for t
    using assms(2) by (simp add: transition_row_of_def int_or_zero_def dict_or_blank_def text_field_def
        text_field_or_def py_or_def int_of_def)
  moreover have "named ?r" by (simp add: named_def)
  ultimately show ?thesis using assms(3) Transition_item
    by (intro in_syncI)
       (simp_all add: store_journal_item_def insert_transition_def apply_task_event slot_simps D
         sync_transitions_add [OF D(9)])
next
  case (Lifecycle_item kind p)
  note D = in_syncD [OF assms(1)]
  let ?r = "stored_payload
          [(''task_id'', PyStr tid), (''seq'', PyInt n), (''created_at'', PyStr now),
           (''kind'', PyStr kind), (''payload'', PyDict p)]"
  have "lifecycle_row_of t ?r = Inr
      \<lparr>lf_task_id = tid, lf_seq = n, lf_created_at = now, lf_kind = kind, lf_payload = stored_payload p\<rparr>" for t
    using assms(2) by (simp add: lifecycle_row_of_def int_or_zero_def dict_or_blank_def text_field_def
        text_field_or_def py_or_def int_of_def)
  moreover have "named ?r" by (simp add: named_def)
  ultimately show ?thesis using assms(3) Lifecycle_item
    by (intro in_syncI)
       (simp_all add: store_journal_item_def insert_lifecycle_def apply_task_event slot_simps D
         sync_lifecycle_add [OF D(10)])
qed

lemma save_pipeline_sync:
  assumes "log_synced V W s" "now \<noteq> []" "task_id x \<noteq> []"
  shows "log_synced V (fst W - {task_id x}, snd W) (save_pipeline ft now x s)"
proof -
  note D = in_syncD [OF assms(1)]
  let ?r = "stored_payload
        [(''task_id'', PyStr (task_id x)), (''stage'', PyStr (pipeline_state_value (stage x))),
         (''pipeline_mode'', PyStr (pipeline_mode_value (mode x))),
         (''payload'', PyDict (state_payload ft x)), (''updated_at'', PyStr now)]"
  have "pipeline_mode_value (mode x) \<noteq> []" by (cases "mode x") simp_all
  then have "pipeline_row_of t ?r = Inr (row_of ft now x)" for t
    using assms(2) by (simp add: pipeline_row_of_def dict_or_blank_def text_field_def
        text_field_or_def py_or_def row_of_def)
  then show ?thesis using assms(3)
    by (intro in_syncI)
       (simp_all add: save_pipeline_def pipeline_payload_def put_pipeline_def apply_task_event slot_simps D
         sync_pipeline_put [OF D(11)])
qed

lemma reset_pipeline_cases:
  assumes "reset_pipeline ft now l tid preserve s = Inr s'"
  obtains (rows) rows where
    "s' = log_event now ''pipeline_task_state_reset'' (Some tid) [] (on_db (\<lambda>db. db \<lparr>tb_pipeline := rows\<rparr>) s)"
    "\<forall>x. x \<noteq> tid \<longrightarrow> map_of rows x = map_of (tb_pipeline (st_db s)) x"
    "\<not> preserve \<Longrightarrow> rows = AList.delete tid (tb_pipeline (st_db s))"
proof -
  obtain db' where db': "reset_current_lifecycle_state ft now l tid preserve (lifecycle_view (st_db s)) = Inr db'"
      "s' = log_event now ''pipeline_task_state_reset'' (Some tid) []
        (on_db (\<lambda>db. db \<lparr>tb_pipeline := pipeline_task_state db'\<rparr>) s)"
    using assms by (auto simp: reset_pipeline_def split: sum.splits)
  show ?thesis using db'(1)
    by (intro rows [OF db'(2)])
       (auto simp: reset_current_lifecycle_state_def Let_def delete_row_def append_event_def lifecycle_view_def
         delete_conv' update_conv' split: sum.splits load_error.splits if_splits)
qed

lemma reset_pipeline_sync:
  assumes "log_synced V W s" "tid \<noteq> []" "reset_pipeline ft now l tid preserve s = Inr s'"
  shows "log_synced V (if preserve then (insert tid (fst W), snd W) else W) s'"
  using assms(3)
proof (cases rule: reset_pipeline_cases)
  case (rows rows)
  note D = in_syncD [OF assms(1)]
  have rows_sync: "sync_pipeline (if preserve then insert tid (fst W) else fst W)
      (AList.delete tid (re_pipeline (log_state (st_log s)))) rows"
  proof (cases preserve)
    case True
    then show ?thesis using sync_pipeline_gap [OF D(11), of tid rows] rows(2) by simp
  next
    case False
    then show ?thesis using sync_pipeline_mono [OF sync_pipeline_delete [OF D(11), of tid], of "fst W"] rows(3)
      by auto
  qed
  then show ?thesis using assms(2) D
    by (intro in_syncI) (simp_all add: rows(1) apply_reset_event split: if_splits)
qed

lemma reset_all_sync:
  assumes "log_synced V W s" "tid \<noteq> []"
  shows "log_synced V (fst W - {tid}, insert tid (snd W)) (reset_all_lifecycle now tid s)"
  using in_syncD [OF assms(1)] assms(2)
  by (intro in_syncI) (simp_all add: reset_all_lifecycle_def apply_reset_event sync_pipeline_delete
      sync_transitions_gap sync_lifecycle_gap)

section \<open>Audit entries\<close>

definition stored_audit :: "audit_entry \<Rightarrow> jdict" where
  "stored_audit a = stored_payload (audit_dump a)"

lemma audit_row_stored:
  assumes "audit_ok a"
  shows "audit_row_of now (stored_audit a) = Inr (a \<lparr>ae_context := stored_payload (ae_context a)\<rparr>)"
proof -
  have int: "optional_int (case i of None \<Rightarrow> PyNone | Some n \<Rightarrow> PyInt n) = Inr i"
      "key_sorted (case i of None \<Rightarrow> PyNone | Some n \<Rightarrow> PyInt n) = (case i of None \<Rightarrow> PyNone | Some n \<Rightarrow> PyInt n)" for i
    by (simp_all add: optional_int_def int_of_def split: option.split)
  have ctx: "dict_or_blank ''context'' (stored_audit a) = Inr (stored_payload (ae_context a))"
    by (simp add: dict_or_blank_def stored_audit_def audit_dump_def py_or_def stored_Nil)
  have get:
    "py_get ''task_id'' (stored_audit a) = PyStr (ae_task_id a)"
    "py_get ''created_at'' (stored_audit a) = PyStr (ae_created_at a)"
    "py_get ''action'' (stored_audit a) = PyStr (ae_action a)"
    "py_get ''actor'' (stored_audit a) = PyStr (ae_actor a)"
    "py_get ''source'' (stored_audit a) = PyStr (ae_source a)"
    "py_get ''task_status_before'' (stored_audit a) = opt_str_val (ae_task_status_before a)"
    "py_get ''task_status_after'' (stored_audit a) = opt_str_val (ae_task_status_after a)"
    "py_get ''pipeline_status_before'' (stored_audit a) = opt_str_val (ae_pipeline_status_before a)"
    "py_get ''pipeline_status_after'' (stored_audit a) = opt_str_val (ae_pipeline_status_after a)"
    "py_get ''queue_position_before'' (stored_audit a) =
       (case ae_queue_position_before a of None \<Rightarrow> PyNone | Some n \<Rightarrow> PyInt n)"
    "py_get ''queue_position_after'' (stored_audit a) =
       (case ae_queue_position_after a of None \<Rightarrow> PyNone | Some n \<Rightarrow> PyInt n)"
    by (simp_all add: stored_audit_def audit_dump_def int)
  show ?thesis using assms
    unfolding audit_row_of_def ctx get int then_do.simps optional_str_val
    by (simp add: audit_ok_def text_field_def text_field_or_def py_or_def get)
qed

lemma plain_event_type:
  assumes "\<not> tombstone a"
  shows "task_event_type_for_audit_action (ae_action a) \<notin>
           {''task_deleted'', ''task_removed'', ''pipeline_task_state_reset''}"
  using assms by (auto simp: task_event_type_for_audit_action_def ACTION_EVENT_TYPES_def dict_get_def
      tombstone_def split: if_splits option.splits)

lemma tombstone_event_type:
  "tombstone a \<Longrightarrow> task_event_type_for_audit_action (ae_action a) \<in> {''task_deleted'', ''task_removed''}"
  by (auto simp: task_event_type_for_audit_action_def ACTION_EVENT_TYPES_def dict_get_def tombstone_def)

lemma sync_audit_entries:
  assumes "sync_audit re tb" "\<forall>a\<in>set audits. audit_ok a"
  shows "sync_audit (re @ map stored_audit audits)
           (tb @ map (\<lambda>a. a \<lparr>ae_context := stored_payload (ae_context a)\<rparr>) audits)"
  using assms by (auto simp: sync_audit_def audit_row_stored)

lemma log_audit_db: "st_db (fold (log_audit now p) audits s) = st_db s"
  by (induction audits arbitrary: s) (simp_all add: log_audit_def)

lemma log_audit_plain:
  assumes "\<forall>a\<in>set audits. plain_audit a"
  shows "log_state (st_log (fold (log_audit now audit_payload) audits s)) =
           log_state (st_log s) \<lparr>re_audit := re_audit (log_state (st_log s)) @ map stored_audit audits\<rparr>"
  using assms
proof (induction audits arbitrary: s)
  case (Cons a audits)
  have a: "ae_task_id a \<noteq> []" "\<not> tombstone a" using Cons.prems by (simp_all add: plain_audit_def audit_ok_def)
  have "log_state (st_log (log_audit now audit_payload a s)) =
      log_state (st_log s) \<lparr>re_audit := re_audit (log_state (st_log s)) @ [stored_audit a]\<rparr>"
    by (simp add: log_audit_def apply_task_event [OF a(1) plain_event_type [OF a(2)]]
        audit_payload_def slot_simps stored_audit_def)
  then show ?case using Cons by simp
qed simp

lemma append_task_audit_entries_sync:
  assumes "log_synced V W s" "\<forall>a\<in>set audits. plain_audit a"
  shows "log_synced V W (append_task_audit_entries now audits s)"
proof (cases "audits = []")
  case False
  note D = in_syncD [OF assms(1)]
  have ok: "\<forall>a\<in>set audits. audit_ok a" using assms(2) by (simp add: plain_audit_def)
  show ?thesis using False
    by (intro in_syncI)
       (simp_all add: append_task_audit_entries_def log_audit_db log_audit_plain [OF assms(2)] D
         insert_task_audit_entries_def sync_audit_entries [OF D(12) ok])
qed (simp add: append_task_audit_entries_def assms(1))

section \<open>Deletion\<close>

lemma deleted_idem:
  "delete_task_scoped_replay_state tid (delete_task_scoped_replay_state tid rs \<lparr>re_audit := xs\<rparr>) =
     delete_task_scoped_replay_state tid rs \<lparr>re_audit := xs\<rparr>"
  by (simp add: delete_task_scoped_replay_state_def keep_other_def delete_idem)

lemma re_audit_deleted [simp]: "re_audit (delete_task_scoped_replay_state tid rs) = re_audit rs"
  by (simp add: delete_task_scoped_replay_state_def)

lemma same_audit:
  "delete_task_scoped_replay_state tid rs \<lparr>re_audit := re_audit rs\<rparr> = delete_task_scoped_replay_state tid rs"
  by (simp add: delete_task_scoped_replay_state_def)

lemma tombstone_state:
  assumes "audit_ok a" "tombstone a" "ae_task_id a = tid"
  shows "log_state (st_log (log_audit now audit_payload a s)) =
      delete_task_scoped_replay_state tid (log_state (st_log s))
        \<lparr>re_audit := re_audit (log_state (st_log s)) @ [stored_audit a]\<rparr>"
proof -
  have "tid \<noteq> []" using assms by (auto simp: audit_ok_def)
  then show ?thesis
    by (simp add: log_audit_def assms(3) apply_tombstone_event [OF _ tombstone_event_type [OF assms(2)]]
        audit_payload_def slot_simps stored_audit_def)
qed

lemma tombstones_state:
  assumes "\<forall>a\<in>set audits. audit_ok a \<and> tombstone a \<and> ae_task_id a = tid"
  shows "audits \<noteq> [] \<Longrightarrow> log_state (st_log (fold (log_audit now audit_payload) audits s)) =
      delete_task_scoped_replay_state tid (log_state (st_log s))
        \<lparr>re_audit := re_audit (log_state (st_log s)) @ map stored_audit audits\<rparr>"
  using assms
proof (induction audits arbitrary: s)
  case (Cons a audits)
  have a: "audit_ok a" "tombstone a" "ae_task_id a = tid" using Cons.prems by simp_all
  show ?case
  proof (cases "audits = []")
    case False
    then show ?thesis using Cons.IH [OF False, of "log_audit now audit_payload a s"] Cons.prems
      by (simp add: tombstone_state [OF a] deleted_idem)
  qed (simp add: tombstone_state [OF a])
qed simp

lemma deleted_sync:
  assumes "in_sync V W rs db" "\<forall>a\<in>set audits. audit_ok a"
  shows "in_sync V (fst W - {tid}, snd W - {tid}) (delete_task_scoped_replay_state tid rs \<lparr>re_audit := re_audit rs @ map stored_audit audits\<rparr>)
           (insert_task_audit_entries audits (delete_task_rows tid db))"
proof -
  note D = in_syncD [OF assms(1)]
  have "sync_status (AList.delete tid (tb_task_intent db)) (AList.delete tid (tb_task_state db))"
    using D(4) by (auto simp: sync_status_def delete_conv' split: if_splits)
  then show ?thesis
    by (intro in_syncI)
       (simp_all add: delete_task_rows_def insert_task_audit_entries_def delete_task_scoped_replay_state_def D
         sync_intents_delete sync_states_delete sync_journal_delete sync_activity_delete
         sync_stage_reports_keep sync_recovery_reports_keep sync_transitions_keep sync_lifecycle_keep
         sync_pipeline_delete sync_audit_entries [OF D(12) assms(2)])
qed

lemma delete_task_records_sync:
  assumes "log_synced V W s" "tid \<noteq> []" "\<forall>a\<in>set audits. audit_ok a \<and> tombstone a \<and> ae_task_id a = tid"
  shows "log_synced V (fst W - {tid}, snd W - {tid}) (delete_task_records now tid audits s)"
proof -
  have ok: "\<forall>a\<in>set audits. audit_ok a" using assms(3) by simp
  note sync = deleted_sync [OF assms(1) ok, of tid]
  show ?thesis
  proof (cases "audits = []")
    case True
    have "log_state (st_log (delete_task_records now tid audits s)) =
        delete_task_scoped_replay_state tid (log_state (st_log s))"
      using assms(2) by (simp add: True delete_task_records_def apply_tombstone_event slot_simps)
    moreover have "st_db (delete_task_records now tid audits s) =
        insert_task_audit_entries audits (delete_task_rows tid (st_db s))"
      by (simp add: True delete_task_records_def)
    ultimately show ?thesis using sync by (simp only: True list.map append_Nil2 same_audit)
  next
    case False
    have log: "log_state (st_log (delete_task_records now tid audits s)) =
        delete_task_scoped_replay_state tid (log_state (st_log s))
          \<lparr>re_audit := re_audit (log_state (st_log s)) @ map stored_audit audits\<rparr>"
      using False by (simp add: delete_task_records_def Let_def tombstones_state [OF assms(3) False])
    have "st_db (delete_task_records now tid audits s) =
        insert_task_audit_entries audits (delete_task_rows tid (st_db s))"
      using False by (simp add: delete_task_records_def Let_def log_audit_db)
    then show ?thesis unfolding log using sync by simp
  qed
qed

end
