(* ===== verification/Store_Transaction.thy ===== *)
theory Store_Transaction
  imports Store_Runs
begin

text \<open>
  \<open>save_runtime_transaction\<close> keeps log and database in sync: its rows are written once, its events
  may name a task several times (one per audit entry), and replaying them all has the same effect.
\<close>

section \<open>Rows\<close>

definition put_dumps :: "(string, jdict) dict \<Rightarrow> (string, jdict) dict \<Rightarrow> (string, jdict) dict" where
  "put_dumps kvs m = fold (\<lambda>(k, d). AList.update k (stored_payload d)) kvs m"

lemma put_dumps_simps [simp]:
  "put_dumps [] m = m"
  "put_dumps ((k, d) # kvs) m = put_dumps kvs (AList.update k (stored_payload d) m)"
  by (simp_all add: put_dumps_def)

lemma put_dumps_ok [simp]: "dict_ok m \<Longrightarrow> dict_ok (put_dumps kvs m)"
  by (induction kvs arbitrary: m) auto

lemma map_of_put_dumps:
  "dict_ok kvs \<Longrightarrow> map_of (put_dumps kvs m) x =
     (case map_of kvs x of None \<Rightarrow> map_of m x | Some d \<Rightarrow> Some (stored_payload d))"
proof (induction kvs arbitrary: m)
  case (Cons kv kvs)
  obtain k d where kv: "kv = (k, d)" by (cases kv)
  have "map_of kvs k = None" "dict_ok kvs" using Cons.prems by (simp_all add: kv dict_ok_def map_of_eq_None_iff)
  then show ?case using Cons.IH [of "AList.update k (stored_payload d) m"]
    by (auto simp: kv update_conv' split: option.split)
qed simp

lemma save_intents_sync:
  assumes "pydantic_laws V" "in_sync V W rs db" "\<forall>d\<in>snd ` set intents. intent_ok V d"
  shows "in_sync V W (rs \<lparr>re_task_intents := put_dumps intents (re_task_intents rs)\<rparr>)
           (fold (\<lambda>(tid, d). save_task_intent_in_transaction V now tid d) intents db)"
  using assms(2, 3)
proof (induction intents arbitrary: rs db)
  case (Cons kv kvs)
  obtain k d where kv: "kv = (k, d)" by (cases kv)
  have "in_sync V W (rs \<lparr>re_task_intents := AList.update k (stored_payload d) (re_task_intents rs)\<rparr>)
      (save_task_intent_in_transaction V now k d db)"
    by (rule save_intent_sync) (use Cons.prems assms(1) in \<open>simp_all add: kv\<close>)
  from Cons.IH [OF this] show ?case using Cons.prems by (simp add: kv)
qed simp

lemma save_states_sync:
  assumes "in_sync V W rs db" "\<forall>d\<in>snd ` set states. state_ok V d"
  shows "in_sync V W (rs \<lparr>re_task_states := put_dumps states (re_task_states rs)\<rparr>)
           (fold (\<lambda>(tid, d). save_task_state_in_transaction now tid d) states db)"
  using assms
proof (induction states arbitrary: rs db)
  case (Cons kv kvs)
  obtain k d where kv: "kv = (k, d)" by (cases kv)
  have "in_sync V W (rs \<lparr>re_task_states := AList.update k (stored_payload d) (re_task_states rs)\<rparr>)
      (save_task_state_in_transaction now k d db)"
    by (rule save_state_sync) (use Cons.prems in \<open>simp_all add: kv\<close>)
  from Cons.IH [OF this] show ?case using Cons.prems by (simp add: kv)
qed simp

section \<open>Journal messages\<close>

lemma filter_update_other:
  "x \<noteq> y \<Longrightarrow> filter (\<lambda>r. fst (fst r) = x) (AList.update (y, i) v tb) = filter (\<lambda>r. fst (fst r) = x) tb"
  by (induction tb) auto

lemma next_entry_index_put:
  "x \<noteq> y \<Longrightarrow> next_entry_index x (put_journal y i row db) = next_entry_index x db"
  by (simp add: next_entry_index_def put_journal_def filter_update_other)

lemma tb_journal_put: "tb_task_journal (put_journal k i row db) = AList.update (k, i) row (tb_task_journal db)"
  by (simp add: put_journal_def)

abbreviation note_row :: "string \<Rightarrow> string \<Rightarrow> journal_row" where
  "note_row now m \<equiv> \<lparr>jo_created_at = now, jo_message = m, jo_metadata = []\<rparr>"

definition notes_written ::
  "string \<Rightarrow> (string, string) dict \<Rightarrow> (string, jdict list) dict \<Rightarrow> task_db \<Rightarrow>
   (string, jdict list) dict \<times> task_db \<Rightarrow> bool" where
  "notes_written now messages es db r \<longleftrightarrow>
     dict_ok (fst r) \<and>
     (\<forall>x. map_of (fst r) x =
        (case map_of messages x of None \<Rightarrow> map_of es x
         | Some m \<Rightarrow> Some [journal_event_entry now x (next_entry_index x db) m])) \<and>
     (\<forall>x i. map_of (tb_task_journal (snd r)) (x, i) =
        (case map_of messages x of None \<Rightarrow> map_of (tb_task_journal db) (x, i)
         | Some m \<Rightarrow> if i = next_entry_index x db then Some (note_row now m)
                     else map_of (tb_task_journal db) (x, i))) \<and>
     (\<exists>j. snd r = db \<lparr>tb_task_journal := j\<rparr>)"

lemma journal_messages:
  assumes "dict_ok messages" "dict_ok es" "\<forall>x\<in>fst ` set messages. map_of es x = None"
  shows "notes_written now messages es db (fold (journal_message now) messages (es, db))"
  using assms
proof (induction messages arbitrary: es db)
  case Nil
  then show ?case by (auto simp: notes_written_def intro: exI [of _ "tb_task_journal db"])
next
  case (Cons km messages)
  obtain k m where km: "km = (k, m)" by (cases km)
  let ?i = "next_entry_index k db"
  let ?es = "AList.update k [journal_event_entry now k ?i m] es"
  let ?db = "put_journal k ?i (note_row now m) db"
  have fresh: "map_of es k = None" and tail: "dict_ok messages" "map_of messages k = None"
    using Cons.prems by (simp_all add: km dict_ok_def map_of_eq_None_iff)
  have step: "journal_message now km (es, db) = (?es, ?db)"
    using fresh by (simp add: km journal_message_def append_journal_row_def Let_def dict_get_def)
  have "\<forall>x\<in>fst ` set messages. map_of ?es x = None"
    using Cons.prems by (auto simp: km update_conv' dict_ok_def)
  then have IH: "notes_written now messages ?es ?db (fold (journal_message now) messages (?es, ?db))"
    using Cons.IH [of ?es ?db] tail Cons.prems by simp
  have "notes_written now (km # messages) es db r" if "notes_written now messages ?es ?db r" for r
    unfolding notes_written_def
  proof (intro conjI allI)
    show "dict_ok (fst r)" using that by (simp add: notes_written_def)
    show "map_of (fst r) x =
        (case map_of (km # messages) x of None \<Rightarrow> map_of es x
         | Some m \<Rightarrow> Some [journal_event_entry now x (next_entry_index x db) m])" for x
      using that tail(2) by (cases "x = k") (simp_all add: notes_written_def km update_conv' next_entry_index_put
          split: option.split)
    show "map_of (tb_task_journal (snd r)) (x, i) =
        (case map_of (km # messages) x of None \<Rightarrow> map_of (tb_task_journal db) (x, i)
         | Some m \<Rightarrow> if i = next_entry_index x db then Some (note_row now m)
                     else map_of (tb_task_journal db) (x, i))" for x i
      using that tail(2) by (cases "x = k")
        (simp_all add: notes_written_def km update_conv' next_entry_index_put tb_journal_put
          split: option.split)
    show "\<exists>j. snd r = db \<lparr>tb_task_journal := j\<rparr>"
      using that by (auto simp: notes_written_def put_journal_def)
  qed
  then show ?case using IH step by simp
qed

section \<open>Events\<close>

text \<open>What one event of the transaction does: the records it carries for its task, and its audit entry.\<close>

definition take_dump :: "(string, jdict) dict \<Rightarrow> string \<Rightarrow> (string, jdict) dict \<Rightarrow> (string, jdict) dict" where
  "take_dump kvs tid m = (case map_of kvs tid of None \<Rightarrow> m | Some d \<Rightarrow> AList.update tid (stored_payload d) m)"

definition take_notes :: "(string, jdict list) dict \<Rightarrow> string \<Rightarrow> (string, jdict list) dict \<Rightarrow> (string, jdict list) dict" where
  "take_notes entries tid m =
     (case map_of entries tid of None \<Rightarrow> m
      | Some es \<Rightarrow> AList.update tid (dict_get tid [] m @ map stored_payload es) m)"

definition take_workspace :: "jdict option \<Rightarrow> jdict option \<Rightarrow> jdict option" where
  "take_workspace ws old = (case ws of None \<Rightarrow> old | Some d \<Rightarrow> Some (stored_payload d))"

definition tx_step ::
  "(string, jdict) dict \<Rightarrow> (string, jdict) dict \<Rightarrow> jdict option \<Rightarrow> (string, jdict list) dict \<Rightarrow>
   string \<times> jdict list \<Rightarrow> replay_state \<Rightarrow> replay_state" where
  "tx_step intents states ws entries item rs =
     rs \<lparr>re_workspace_state := take_workspace ws (re_workspace_state rs),
         re_task_intents := take_dump intents (fst item) (re_task_intents rs),
         re_task_states := take_dump states (fst item) (re_task_states rs),
         re_task_journal := take_notes entries (fst item) (re_task_journal rs),
         re_audit := re_audit rs @ snd item\<rparr>"

lemma get_payload:
  "py_get ''task_intent'' (payload_for_task intents states ws entries tid @ ex) =
     (case map_of intents tid of None \<Rightarrow> py_get ''task_intent'' ex | Some d \<Rightarrow> PyDict d)"
  "py_get ''task_state'' (payload_for_task intents states ws entries tid @ ex) =
     (case map_of states tid of None \<Rightarrow> py_get ''task_state'' ex | Some d \<Rightarrow> PyDict d)"
  "py_get ''task_journal'' (payload_for_task intents states ws entries tid @ ex) =
     (case map_of entries tid of None \<Rightarrow> py_get ''task_journal'' ex | Some es \<Rightarrow> PyList (map PyDict es))"
  "py_get ''workspace_state'' (payload_for_task intents states ws entries tid @ ex) =
     (case ws of None \<Rightarrow> py_get ''workspace_state'' ex | Some d \<Rightarrow> PyDict d)"
  "k \<notin> {''task_intent'', ''task_state'', ''task_journal'', ''workspace_state''} \<Longrightarrow>
   py_get k (payload_for_task intents states ws entries tid @ ex) = py_get k ex"
  by (auto simp: payload_for_task_def split: option.split)

lemma apply_transaction_event:
  assumes "tid \<noteq> []" "ty \<notin> {''task_deleted'', ''task_removed'', ''pipeline_task_state_reset''}"
    "ex = [] \<and> audit = [] \<or> (\<exists>a. ex = audit_payload a \<and> audit = [stored_audit a])"
  shows "apply_event (stored_payload (event_record ty (Some tid)
           (payload_for_task intents states ws entries tid @ ex) now)) rs =
         tx_step intents states ws entries (tid, audit) rs"
proof -
  have other: "k \<noteq> ''audit_entry'' \<Longrightarrow> py_get k ex = PyNone" for k
    using assms(3) by (auto simp: audit_payload_def)
  have audit: "on_dict ''audit_entry'' (\<lambda>d rs. rs \<lparr>re_audit := re_audit rs @ [d]\<rparr>) (stored_payload
      (payload_for_task intents states ws entries tid @ ex)) r = r \<lparr>re_audit := re_audit r @ audit\<rparr>" for r
    using assms(3) by (auto simp: on_dict_stored get_payload(5) audit_payload_def stored_audit_def)
  have none: "on_dict k f (stored_payload (payload_for_task intents states ws entries tid @ ex)) r = r"
    if "k \<notin> {''task_intent'', ''task_state'', ''task_journal'', ''workspace_state'', ''audit_entry''}" for k f r
    using that by (simp add: on_dict_stored get_payload(5) other)
  have none_list: "on_list ''activity'' f (stored_payload (payload_for_task intents states ws entries tid @ ex)) r = r" for f r
    by (simp add: on_list_stored get_payload(5) other)
  show ?thesis
    unfolding apply_task_event [OF assms(1, 2)] log_slots_def task_slots_def
    by (simp add: audit none none_list, cases rs,
        simp add: on_dict_stored on_list_stored get_payload other tx_step_def take_dump_def take_notes_def
          take_workspace_def split: option.split)
qed

definition take_dumps :: "(string, jdict) dict \<Rightarrow> string list \<Rightarrow> (string, jdict) dict \<Rightarrow> (string, jdict) dict" where
  "take_dumps kvs ks m = fold (take_dump kvs) ks m"

lemma take_dump_ok [simp]: "dict_ok m \<Longrightarrow> dict_ok (take_dump kvs k m)"
  by (simp add: take_dump_def split: option.split)

lemma take_dumps_ok [simp]: "dict_ok m \<Longrightarrow> dict_ok (take_dumps kvs ks m)"
  unfolding take_dumps_def by (induction ks arbitrary: m) auto

lemma map_of_take_dumps:
  "map_of (take_dumps kvs ks m) x =
     (case map_of kvs x of None \<Rightarrow> map_of m x
      | Some d \<Rightarrow> if x \<in> set ks then Some (stored_payload d) else map_of m x)"
  unfolding take_dumps_def
  by (induction ks arbitrary: m) (auto simp: take_dump_def update_conv' split: option.split)

text \<open>Naming every task of the transaction at least once has the effect of naming each once.\<close>

lemma take_dumps_all:
  assumes "dict_ok kvs" "fst ` set kvs \<subseteq> set ks"
  shows "map_of (take_dumps kvs ks m) = map_of (put_dumps kvs m)"
proof
  fix x
  have "map_of kvs x = Some d \<Longrightarrow> x \<in> set ks" for d
    using assms(2) by (force dest: map_of_SomeD)
  then show "map_of (take_dumps kvs ks m) x = map_of (put_dumps kvs m) x"
    by (auto simp: map_of_take_dumps map_of_put_dumps [OF assms(1)] split: option.split)
qed

lemma take_notes_ok [simp]: "dict_ok m \<Longrightarrow> dict_ok (fold (take_notes entries) ks m)"
  by (induction ks arbitrary: m) (auto simp: take_notes_def split: option.split)

lemma dict_get_take_notes:
  assumes "\<And>x es. map_of entries x = Some es \<Longrightarrow> es = [e x]"
  shows "dict_get x [] (fold (take_notes entries) ks m) =
     dict_get x [] m @ replicate (if map_of entries x = None then 0 else count_list ks x) (stored_payload (e x))"
proof (induction ks arbitrary: m)
  case (Cons k ks)
  have "dict_get x [] (take_notes entries k m) =
      dict_get x [] m @ (if k = x \<and> map_of entries x \<noteq> None then [stored_payload (e x)] else [])"
    by (cases "map_of entries k") (auto simp: take_notes_def dict_get_update dest: assms)
  then show ?case by (simp add: Cons.IH)
qed simp

lemma take_workspace_twice: "take_workspace ws (take_workspace ws old) = take_workspace ws old"
  by (simp add: take_workspace_def split: option.split)

lemma fold_tx_step:
  "fold (tx_step intents states ws entries) items rs =
     rs \<lparr>re_workspace_state := (if items = [] then re_workspace_state rs
                                else take_workspace ws (re_workspace_state rs)),
         re_task_intents := take_dumps intents (map fst items) (re_task_intents rs),
         re_task_states := take_dumps states (map fst items) (re_task_states rs),
         re_task_journal := fold (take_notes entries) (map fst items) (re_task_journal rs),
         re_audit := re_audit rs @ concat (map snd items)\<rparr>"
  by (induction items arbitrary: rs)
     (simp_all add: tx_step_def take_dumps_def take_workspace_twice)

lemma log_audits_tx:
  assumes "\<forall>a\<in>set audits. plain_audit a"
  shows "log_state (st_log (fold (log_audit now
             (\<lambda>a. payload_for_task intents states ws entries (ae_task_id a) @ audit_payload a)) audits s)) =
         fold (tx_step intents states ws entries) (map (\<lambda>a. (ae_task_id a, [stored_audit a])) audits)
           (log_state (st_log s))"
  using assms
proof (induction audits arbitrary: s)
  case (Cons a audits)
  have a: "ae_task_id a \<noteq> []" "\<not> tombstone a" using Cons.prems by (simp_all add: plain_audit_def audit_ok_def)
  have "log_state (st_log (log_audit now (\<lambda>a. payload_for_task intents states ws entries (ae_task_id a) @
        audit_payload a) a s)) =
      tx_step intents states ws entries (ae_task_id a, [stored_audit a]) (log_state (st_log s))"
    by (simp add: log_audit_def)
       (rule apply_transaction_event [OF a(1) plain_event_type [OF a(2)]], auto)
  then show ?case using Cons by simp
qed simp

lemma log_ids_tx:
  assumes "[] \<notin> set ids" "ty \<notin> {''task_deleted'', ''task_removed'', ''pipeline_task_state_reset''}"
  shows "log_state (st_log (fold (\<lambda>tid. log_event now ty (Some tid)
             (payload_for_task intents states ws entries tid)) ids s)) =
         fold (tx_step intents states ws entries) (map (\<lambda>tid. (tid, [])) ids) (log_state (st_log s))"
  using assms(1)
proof (induction ids arbitrary: s)
  case (Cons tid ids)
  have "tid \<noteq> []" using Cons.prems by auto
  then have "log_state (st_log (log_event now ty (Some tid) (payload_for_task intents states ws entries tid) s)) =
      tx_step intents states ws entries (tid, []) (log_state (st_log s))"
    using apply_transaction_event [OF _ assms(2), of tid "[]" "[]"] by simp
  then show ?case using Cons by simp
qed simp

lemma log_ids_db: "st_db (fold (\<lambda>tid. log_event now ty (Some tid) (p tid)) ids s) = st_db s"
  by (induction ids arbitrary: s) simp_all

text \<open>The events of a transaction, as one update.\<close>

definition tx_ids ::
  "(string, jdict) dict \<Rightarrow> (string, jdict) dict \<Rightarrow> (string, jdict list) dict \<Rightarrow> audit_entry list \<Rightarrow> string list" where
  "tx_ids intents states entries audits =
     (let logged1 = set (map ae_task_id audits);
          ids1 = sorted_list_of_set (set (map fst intents @ map fst states) - logged1)
      in map ae_task_id audits @ ids1 @ sorted_list_of_set (set (map fst entries) - (logged1 \<union> set ids1)))"

lemma tx_ids_cover:
  "fst ` set intents \<subseteq> set (tx_ids intents states entries audits)"
  "fst ` set states \<subseteq> set (tx_ids intents states entries audits)"
  "fst ` set entries \<subseteq> set (tx_ids intents states entries audits)"
  by (auto simp: tx_ids_def Let_def)

lemma transaction_events:
  assumes "\<forall>a\<in>set audits. plain_audit a"
    "[] \<notin> fst ` set intents" "[] \<notin> fst ` set states" "[] \<notin> fst ` set entries"
  shows "st_db (append_runtime_transaction_events now intents states ws entries audits s) = st_db s"
    and "log_state (st_log (append_runtime_transaction_events now intents states ws entries audits s)) =
      (let rs = log_state (st_log s); ids = tx_ids intents states entries audits in
       rs \<lparr>re_workspace_state := take_workspace ws (re_workspace_state rs),
           re_task_intents := take_dumps intents ids (re_task_intents rs),
           re_task_states := take_dumps states ids (re_task_states rs),
           re_task_journal := fold (take_notes entries) ids (re_task_journal rs),
           re_audit := re_audit rs @ map stored_audit audits\<rparr>)"
proof -
  let ?logged1 = "set (map ae_task_id audits)"
  let ?ids1 = "sorted_list_of_set (set (map fst intents @ map fst states) - ?logged1)"
  let ?ids2 = "sorted_list_of_set (set (map fst entries) - (?logged1 \<union> set ?ids1))"
  let ?body = "payload_for_task intents states ws entries"
  let ?s3 = "fold (\<lambda>tid. log_event now ''task_journal_recorded'' (Some tid) (?body tid)) ?ids2
       (fold (\<lambda>tid. log_event now ''task_state_saved'' (Some tid) (?body tid)) ?ids1
       (fold (log_audit now (\<lambda>a. ?body (ae_task_id a) @ audit_payload a)) audits s))"
  let ?items = "map (\<lambda>a. (ae_task_id a, [stored_audit a])) audits @ map (\<lambda>tid. (tid, [])) ?ids1 @ map (\<lambda>tid. (tid, [])) ?ids2"
  have ne: "[] \<notin> set ?ids1" "[] \<notin> set ?ids2" using assms(2-4) by (auto simp: image_iff)
  have s3: "log_state (st_log ?s3) = fold (tx_step intents states ws entries) ?items (log_state (st_log s))"
    unfolding fold_append comp_def
    by (subst log_ids_tx [OF ne(2)], simp, subst log_ids_tx [OF ne(1)], simp, subst log_audits_tx [OF assms(1)], rule refl)
  have ids: "map fst ?items = tx_ids intents states entries audits"
    by (simp add: tx_ids_def Let_def comp_def)
  have audit: "concat (map snd ?items) = map stored_audit audits"
    by (induction audits) (simp_all add: comp_def)
  have db3: "st_db ?s3 = st_db s" by (simp only: log_ids_db log_audit_db)
  have res: "append_runtime_transaction_events now intents states ws entries audits s =
      (case ws of None \<Rightarrow> ?s3 | Some d \<Rightarrow>
         if audits = [] \<and> ?ids1 = [] \<and> ?ids2 = [] then append_workspace_state_event now d ?s3 else ?s3)"
    by (simp only: append_runtime_transaction_events_def Let_def)
  show "st_db (append_runtime_transaction_events now intents states ws entries audits s) = st_db s"
    unfolding res append_workspace_state_event_def
    by (cases ws) (simp_all only: option.case st_log_event log_ids_db log_audit_db split: if_split, simp)
  have empty: "(?items = []) = (audits = [] \<and> ?ids1 = [] \<and> ?ids2 = [])" by simp
  show "log_state (st_log (append_runtime_transaction_events now intents states ws entries audits s)) =
      (let rs = log_state (st_log s); ids = tx_ids intents states entries audits in
       rs \<lparr>re_workspace_state := take_workspace ws (re_workspace_state rs),
           re_task_intents := take_dumps intents ids (re_task_intents rs),
           re_task_states := take_dumps states ids (re_task_states rs),
           re_task_journal := fold (take_notes entries) ids (re_task_journal rs),
           re_audit := re_audit rs @ map stored_audit audits\<rparr>)"
  proof (cases "?items = []")
    case False
    then have "\<not> (audits = [] \<and> ?ids1 = [] \<and> ?ids2 = [])" by (simp only: empty simp_thms)
    then have "append_runtime_transaction_events now intents states ws entries audits s = ?s3"
      unfolding res by (cases ws) (simp_all only: option.case if_False)
    then show ?thesis
      using False by (simp only: s3 fold_tx_step ids audit Let_def if_False)
  next
    case True
    then have a: "audits = []" and e1: "?ids1 = []" and e2: "?ids2 = []" unfolding empty by blast+
    have s: "?s3 = s" unfolding e2 unfolding e1 unfolding a by simp
    have i: "tx_ids intents states entries audits = []"
      unfolding tx_ids_def Let_def e2 unfolding e1 unfolding a by simp
    have r: "append_runtime_transaction_events now intents states ws entries audits s =
        (case ws of None \<Rightarrow> s | Some d \<Rightarrow> append_workspace_state_event now d s)"
      unfolding res s using a e1 e2 by (simp only: simp_thms if_True)
    show ?thesis unfolding r i Let_def
      by (cases ws) (simp_all add: take_workspace_def take_dumps_def a append_workspace_state_event_def
        apply_workspace_event slot_simps)
  qed
qed

section \<open>The transaction\<close>

lemma notes_sync:
  assumes "sync_journal re (tb_task_journal db)" "notes_written now messages [] db (entries, db')" "now \<noteq> []"
    "fst ` set entries \<subseteq> set ks"
  shows "sync_journal (fold (take_notes entries) ks re) (tb_task_journal db')"
proof -
  let ?m = "\<lambda>x. the (map_of messages x)"
  let ?ix = "\<lambda>x. next_entry_index x db"
  let ?e = "\<lambda>x. journal_event_entry now x (?ix x) (?m x)"
  have es: "map_of entries x = (case map_of messages x of None \<Rightarrow> None | Some m \<Rightarrow> Some [?e x])" for x
    using assms(2) by (simp add: notes_written_def split: option.split)
  have tb: "map_of (tb_task_journal db') (x, i) =
      (if map_of messages x \<noteq> None \<and> i = ?ix x then Some (note_row now (?m x))
       else map_of (tb_task_journal db) (x, i))" for x i
    using assms(2) by (auto simp: notes_written_def split: option.split)
  have in_ks: "0 < count_list ks x" if "map_of messages x \<noteq> None" for x
  proof -
    have "map_of entries x \<noteq> None" using that es [of x] by (auto split: option.splits)
    then have "x \<in> fst ` set entries" by (simp add: map_of_eq_None_iff)
    then show ?thesis using assms(4) by (metis count_list_0_iff gr0I subsetD)
  qed
  show ?thesis
  proof (rule sync_journal_replicate [OF assms(1), where e = "\<lambda>x. stored_payload (?e x)" and ix = ?ix
        and row = "\<lambda>x. note_row now (?m x)" and n = "\<lambda>x. if map_of entries x = None then 0 else count_list ks x"])
    show "dict_ok (fold (take_notes entries) ks re)" using assms(1) by (simp add: sync_journal_def)
    show "dict_get x [] (fold (take_notes entries) ks re) = dict_get x [] re @
        replicate (if map_of entries x = None then 0 else count_list ks x) (stored_payload (?e x))" for x
      by (rule dict_get_take_notes) (auto simp: es split: option.splits)
    show "journal_row_of t (k, stored_payload (?e x)) = Inr (?ix x, note_row now (?m x))" for t x k
      by (rule journal_entry_row [OF assms(3)])
    show "map_of (tb_task_journal db') (x, i) =
        (if 0 < (if map_of entries x = None then 0 else count_list ks x) \<and> i = ?ix x
         then Some (note_row now (?m x)) else map_of (tb_task_journal db) (x, i))" for x i
      using in_ks [of x] by (auto simp: tb es split: option.splits)
  qed
qed

lemma save_runtime_transaction_sync:
  assumes "log_synced V W s" "pydantic_laws V"
    "op_ok V (now, Op_transaction intents states ws messages audits)"
  shows "log_synced V W (save_runtime_transaction V now intents states ws messages audits s)"
proof -
  have now: "now \<noteq> []"
    and ok: "dict_ok intents" "dict_ok states" "dict_ok messages"
    and ne: "[] \<notin> fst ` set intents" "[] \<notin> fst ` set states" "[] \<notin> fst ` set messages"
    and recs: "\<forall>d\<in>snd ` set intents. intent_ok V d" "\<forall>d\<in>snd ` set states. state_ok V d"
      "\<forall>d\<in>set_option ws. workspace_ok V d"
    and plain: "\<forall>a\<in>set audits. plain_audit a"
    using assms(3) by (simp_all add: op_ok_def)
  let ?rs = "log_state (st_log s)"
  define db0 where "db0 = (case ws of None \<Rightarrow> st_db s | Some d \<Rightarrow> put_workspace now d (st_db s))"
  define db1 where "db1 = fold (\<lambda>(tid, d). save_task_intent_in_transaction V now tid d) intents db0"
  define db2 where "db2 = fold (\<lambda>(tid, d). save_task_state_in_transaction now tid d) states db1"
  obtain entries db3 where msgs: "fold (journal_message now) messages ([], db2) = (entries, db3)"
    by (cases "fold (journal_message now) messages ([], db2)")
  let ?db4 = "insert_task_audit_entries audits db3"
  let ?ids = "tx_ids intents states entries audits"
  have save: "save_runtime_transaction V now intents states ws messages audits s =
      append_runtime_transaction_events now intents states ws entries audits (s \<lparr>st_db := ?db4\<rparr>)"
    by (simp add: save_runtime_transaction_def db0_def [symmetric] db1_def [symmetric] db2_def [symmetric] msgs)
  have "in_sync V W (?rs \<lparr>re_workspace_state := take_workspace ws (re_workspace_state ?rs)\<rparr>) db0"
    using assms(1) put_workspace_sync [OF assms(1)] recs(3)
    by (cases ws) (simp_all add: db0_def take_workspace_def)
  from save_states_sync [OF save_intents_sync [OF assms(2) this recs(1)] recs(2)]
  have sync2: "in_sync V W (?rs \<lparr>re_workspace_state := take_workspace ws (re_workspace_state ?rs),
      re_task_intents := put_dumps intents (re_task_intents ?rs),
      re_task_states := put_dumps states (re_task_states ?rs)\<rparr>) db2"
    by (simp add: db1_def db2_def)
  note D = in_syncD [OF sync2, simplified]
  have nw: "notes_written now messages [] db2 (entries, db3)"
    using journal_messages [OF ok(3), of "[]" now db2] by (simp add: msgs)
  then obtain j where j: "db3 = db2 \<lparr>tb_task_journal := j\<rparr>" by (auto simp: notes_written_def)
  have "map_of messages [] = None" using ne(3) by (simp add: map_of_eq_None_iff)
  then have "map_of entries [] = None" using nw by (simp add: notes_written_def)
  then have ne': "[] \<notin> fst ` set entries" by (simp add: map_of_eq_None_iff)
  note ev = transaction_events [OF plain ne(1, 2) ne', of now ws "s \<lparr>st_db := ?db4\<rparr>"]
  have intents: "sync_intents V (take_dumps intents ?ids (re_task_intents ?rs)) (tb_task_intent db2)"
    by (rule sync_intents_cong [OF D(2)])
       (use in_syncD(2) [OF assms(1)] in \<open>simp_all add: take_dumps_all [OF ok(1) tx_ids_cover(1)] sync_intents_def\<close>)
  have states: "sync_states V (take_dumps states ?ids (re_task_states ?rs)) (tb_task_state db2)"
    by (rule sync_states_cong [OF D(3)])
       (use in_syncD(3) [OF assms(1)] in \<open>simp_all add: take_dumps_all [OF ok(2) tx_ids_cover(2)] sync_states_def\<close>)
  have journal: "sync_journal (fold (take_notes entries) ?ids (re_task_journal ?rs)) (tb_task_journal db3)"
    by (rule notes_sync [OF D(5) nw now tx_ids_cover(3)])
  have audit: "sync_audit (re_audit ?rs @ map stored_audit audits) (tb_audit ?db4)"
    using sync_audit_entries [OF D(12)] plain by (simp add: insert_task_audit_entries_def j plain_audit_def)
  show ?thesis unfolding save ev Let_def
    using intents states journal audit D unfolding insert_task_audit_entries_def j
    by (intro in_syncI) simp_all
qed

end
