(* ===== verification/Store_Rebuild.thy ===== *)
theory Store_Rebuild
  imports Store_Transaction
begin

text \<open>
  A rebuild of a database that is in sync with the log succeeds and is again in sync; two databases
  in sync with one log agree table by table.
\<close>

section \<open>What the log says of the lifecycle tables\<close>

abbreviation no_gap :: gap where
  "no_gap \<equiv> ({}, {})"

lemma gap_none:
  "row_gap {} rows tb \<longleftrightarrow> (\<forall>x. map_of rows x = map_of tb x)"
  "history_gap g {} hs hs' \<longleftrightarrow> hs = hs'"
  by (auto simp: row_gap_def history_gap_def)

lemma sync_exact:
  "sync_transitions {} re tx \<longleftrightarrow> list_all named re \<and> (\<forall>now. map (transition_row_of now) re = map Inr tx)"
  "sync_lifecycle {} re hs \<longleftrightarrow> list_all named re \<and> (\<forall>now. map (lifecycle_row_of now) re = map Inr hs)"
  "sync_pipeline {} rp tp \<longleftrightarrow> dict_ok rp \<and>
     (\<forall>now x. map_option (pipeline_row_of now) (map_of rp x) = map_option Inr (map_of tp x))"
  by (auto simp: sync_transitions_def sync_lifecycle_def sync_pipeline_def gap_none)

text \<open>The lifecycle tables of \<open>a\<close>, as the log has them, differ from the database's by a gap.\<close>

definition differ_by :: "gap \<Rightarrow> task_db \<Rightarrow> task_db \<Rightarrow> bool" where
  "differ_by W db a \<longleftrightarrow>
     row_gap (fst W) (tb_pipeline a) (tb_pipeline db) \<and>
     history_gap xn_task_id (snd W) (tb_transitions a) (tb_transitions db) \<and>
     history_gap lf_task_id (snd W) (tb_lifecycle a) (tb_lifecycle db)"

definition with_lifecycle :: "task_db \<Rightarrow> task_db \<Rightarrow> task_db" where
  "with_lifecycle a db =
     db \<lparr>tb_pipeline := tb_pipeline a, tb_transitions := tb_transitions a, tb_lifecycle := tb_lifecycle a\<rparr>"

lemma sync_logged_rows:
  "sync_pipeline P rp tp \<Longrightarrow> \<exists>rows. sync_pipeline {} rp rows \<and> row_gap P rows tp"
  "sync_transitions H rt tt \<Longrightarrow> \<exists>rows. sync_transitions {} rt rows \<and> history_gap xn_task_id H rows tt"
  "sync_lifecycle H rl th \<Longrightarrow> \<exists>rows. sync_lifecycle {} rl rows \<and> history_gap lf_task_id H rows th"
  unfolding sync_exact by (auto simp: sync_pipeline_def sync_transitions_def sync_lifecycle_def)

lemma close_gap:
  assumes "in_sync V W rs db"
  shows "\<exists>a. in_sync V no_gap rs (with_lifecycle a db) \<and> differ_by W db a"
proof -
  note D = in_syncD [OF assms]
  obtain tp where tp: "sync_pipeline {} (re_pipeline rs) tp" "row_gap (fst W) tp (tb_pipeline db)"
    using sync_logged_rows(1) [OF D(11)] by blast
  obtain tx where tx: "sync_transitions {} (re_transitions rs) tx" "history_gap xn_task_id (snd W) tx (tb_transitions db)"
    using sync_logged_rows(2) [OF D(9)] by blast
  obtain hs where hs: "sync_lifecycle {} (re_lifecycle rs) hs" "history_gap lf_task_id (snd W) hs (tb_lifecycle db)"
    using sync_logged_rows(3) [OF D(10)] by blast
  let ?a = "db \<lparr>tb_pipeline := tp, tb_transitions := tx, tb_lifecycle := hs\<rparr>"
  have "in_sync V no_gap rs (with_lifecycle ?a db)"
    using D tp(1) tx(1) hs(1) by (intro in_syncI) (simp_all add: with_lifecycle_def)
  moreover have "differ_by W db ?a" using tp(2) tx(2) hs(2) by (simp add: differ_by_def)
  ultimately show ?thesis by blast
qed

section \<open>Loops\<close>

lemma for_each_rel:
  assumes "\<And>x s t. x \<in> set xs \<Longrightarrow> R s t \<Longrightarrow> \<exists>s'. f x s = Inr s' \<and> R s' (g x t)" "R s t"
  shows "\<exists>s'. for_each f xs s = Inr s' \<and> R s' (fold g xs t)"
  using assms
proof (induction xs arbitrary: s t)
  case (Cons x xs)
  obtain s1 where s1: "f x s = Inr s1" "R s1 (g x t)" using Cons.prems(1) [of x s t] Cons.prems(2) by auto
  then show ?case using Cons.IH [of s1 "g x t"] Cons.prems(1) by simp
qed simp

lemma sorted_items_facts:
  assumes "dict_ok d"
  shows "dict_ok (sorted_items d)" "set (sorted_items d) = set d" "map_of (sorted_items d) = map_of d"
proof -
  show s: "set (sorted_items d) = set d" by (simp add: sorted_items_def)
  have "mset (map fst (sorted_items d)) = mset (map fst d)" unfolding sorted_items_def by (rule mset_sort_map)
  then show ok: "dict_ok (sorted_items d)" using assms mset_eq_imp_distinct_iff unfolding dict_ok_def by blast
  show "map_of (sorted_items d) = map_of d"
    using ok assms s map_of_inject_set unfolding dict_ok_def by blast
qed

definition update_all :: "(string \<times> 'v) list \<Rightarrow> (string, 'v) dict \<Rightarrow> (string, 'v) dict" where
  "update_all items m = fold (\<lambda>p. AList.update (fst p) (snd p)) items m"

lemma update_all_ok: "dict_ok m \<Longrightarrow> dict_ok (update_all items m)"
  unfolding update_all_def by (induction items arbitrary: m) auto

lemma map_of_update_all:
  "dict_ok items \<Longrightarrow> map_of (update_all items m) x =
     (case map_of items x of None \<Rightarrow> map_of m x | Some e \<Rightarrow> Some e)"
proof (induction items arbitrary: m)
  case (Cons p items)
  have "map_of items (fst p) = None" "dict_ok items"
    using Cons.prems by (simp_all add: dict_ok_def map_of_eq_None_iff)
  then show ?case using Cons.IH [of "AList.update (fst p) (snd p) m"]
    by (auto simp: update_all_def update_conv' split: option.split)
qed (simp add: update_all_def)

lemma update_all_sorted:
  "dict_ok d \<Longrightarrow> map_of (update_all (sorted_items d) []) = map_of d"
  by (rule ext) (simp add: map_of_update_all sorted_items_facts split: option.split)

section \<open>Workspace row\<close>

lemma stored_update_cong:
  assumes "stored_payload d = stored_payload e" "dict_ok d" "dict_ok e"
  shows "stored_payload (AList.update k v d) = stored_payload (AList.update k v e)"
proof (rule stored_cong)
  fix x
  have "map_option key_sorted (map_of d x) = map_option key_sorted (map_of e x)"
    using assms(1) by (metis map_of_stored_any)
  then show "map_option key_sorted (map_of (AList.update k v d) x) =
      map_option key_sorted (map_of (AList.update k v e) x)"
    by (simp add: update_conv')
qed (use assms in simp_all)

lemma delete_same_update: "AList.delete k (AList.update k v d) = AList.delete k d"
  by (induction d) auto

lemma py_get_update: "py_get k (AList.update j v d) = (if k = j then v else py_get k d)"
  by (simp add: py_get_def dict_get_update)

lemma put_workspace_cong:
  assumes "stored_payload d = stored_payload e"
  shows "put_workspace now d db = put_workspace now e db"
proof -
  have "stored_payload (AList.delete ''queue'' d) = stored_payload (AList.delete ''queue'' e)"
    unfolding stored_delete [symmetric] assms ..
  moreover have "key_sorted (py_get ''queue'' d) = key_sorted (py_get ''queue'' e)"
    using assms by (metis py_get_stored)
  ultimately show ?thesis by (simp add: put_workspace_def)
qed

lemma rebuild_workspace:
  assumes "sync_workspace V (re_workspace_state rs) pool queue" "pydantic_laws V"
  shows "\<exists>p d. workspace_state_payload rs = Inr p \<and> insert_workspace_state V now p db = Inr (put_workspace now d db) \<and>
           sync_workspace V (re_workspace_state rs) (tb_pool_state (put_workspace now d db))
             (tb_queue (put_workspace now d db)) \<and>
           (\<exists>i. py_get ''next_task_number'' d = PyInt (max i (highest_replayed_number rs)))"
proof -
  obtain d where d: "workspace_ok V d"
    and ws: "re_workspace_state rs = None \<and> d = default_workspace \<or>
      re_workspace_state rs = Some (stored_payload d) \<and> d \<noteq> []"
    using assms(1) unfolding sync_workspace_def by blast
  let ?d0 = "replayed_workspace rs"
  have d0: "stored_payload ?d0 = stored_payload d" "dict_ok ?d0"
    using ws d by (auto simp: replayed_workspace_def workspace_ok_def)
  obtain i where i: "py_get ''next_task_number'' d = PyInt i" using d by (auto simp: workspace_ok_def)
  have "key_sorted (py_get ''next_task_number'' ?d0) = PyInt i"
    using arg_cong [OF d0(1), of "py_get ''next_task_number''"] i by simp
  then have i0: "py_get ''next_task_number'' ?d0 = PyInt i" by (simp add: key_sorted_scalar)
  let ?v = "PyInt (max i (highest_replayed_number rs))"
  let ?d1 = "AList.update ''next_task_number'' ?v d"
  have p: "workspace_state_payload rs = Inr (AList.update ''next_task_number'' ?v ?d0)"
    by (simp add: workspace_state_payload_def i0 int_of_def py_or_def)
  have "stored_payload (AList.update ''next_task_number'' ?v ?d0) = stored_payload ?d1"
    by (rule stored_update_cong) (use d0 d in \<open>simp_all add: workspace_ok_def\<close>)
  moreover have "V Workspace_State ?d1 = Some ?d1"
    by (rule pydantic_lawsD(2) [OF assms(2)]) (use d in \<open>simp add: workspace_ok_def\<close>)
  ultimately obtain d2 where d2: "V Workspace_State (AList.update ''next_task_number'' ?v ?d0) = Some d2"
      "stored_payload d2 = stored_payload ?d1"
    using pydantic_lawsD(5) [OF assms(2)] by blast
  have ins: "insert_workspace_state V now (AList.update ''next_task_number'' ?v ?d0) db =
      Inr (put_workspace now ?d1 db)"
    using put_workspace_cong [OF d2(2), of now db] by (simp add: insert_workspace_state_def d2(1))
  have "AList.delete ''next_task_number'' (stored_payload (AList.delete ''queue'' ?d1)) =
      stored_payload (AList.delete ''next_task_number'' (AList.delete ''queue'' d))"
    unfolding stored_delete delete_commute [of "''next_task_number''" "''queue''"] delete_same_update ..
  then have "sync_workspace V (re_workspace_state rs) (tb_pool_state (put_workspace now ?d1 db))
      (tb_queue (put_workspace now ?d1 db))"
    unfolding sync_workspace_def put_workspace_def using d ws
    by - (rule exI [of _ d], simp add: py_get_update)
  then show ?thesis using p ins by (intro exI [of _ ?d1] exI conjI) (assumption | simp add: py_get_update)+
qed

section \<open>Intents and states\<close>

text \<open>The columns of a row depend on the record only up to the order of its keys.\<close>

lemma text_cong:
  assumes "stored_payload d = stored_payload e" "py_get k e = PyStr t"
  shows "py_get k d = PyStr t"
  using arg_cong [OF assms(1), of "py_get k"] assms(2) by (simp add: key_sorted_scalar)

lemma intent_columns_cong:
  assumes "stored_payload d = stored_payload e" "intent_ok V e"
  shows "intent_columns d = intent_columns e" "py_get ''created_at'' d = py_get ''created_at'' e"
proof -
  have same: "key_sorted (py_get k d) = key_sorted (py_get k e)" for k using assms(1) by (metis py_get_stored)
  have cols: "py_get k d = py_get k e" if "k \<in> {''slug'', ''title'', ''created_at'', ''priority'', ''goal''}" for k
    using assms(2) that text_cong [OF assms(1), of k] unfolding intent_ok_def by metis
  then show "py_get ''created_at'' d = py_get ''created_at'' e" by simp
  have "(py_get ''created_from'' d = PyNone) = (py_get ''created_from'' e = PyNone)"
    using same [of "''created_from''"] by (metis key_sorted_scalar(1))
  then show "intent_columns d = intent_columns e"
    using cols by (simp add: intent_columns_def same)
qed

definition filling ::
  "validator \<Rightarrow> (string, process_row) dict \<times> (jdict \<times> string) option \<Rightarrow> task_db \<Rightarrow> replay_state \<Rightarrow> bool" where
  "filling V pr db rs \<longleftrightarrow> in_sync V no_gap rs db \<and> tb_process db = fst pr \<and> tb_pool_state db = snd pr"

lemma rebuild_intents:
  assumes "sync_intents V re tb" "pydantic_laws V" "filling V pr db rs" "re_task_states rs = []"
  shows "\<exists>db'. for_each (insert_task_intent V now) (sorted_items re) db = Inr db' \<and>
           filling V pr db' (rs \<lparr>re_task_intents := update_all (sorted_items re) (re_task_intents rs)\<rparr>)"
proof -
  have dumps: "\<exists>d. intent_ok V d \<and> e = stored_payload d" if "(x, e) \<in> set (sorted_items re)" for x e
  proof -
    have re: "dict_ok re" using assms(1) by (simp add: sync_intents_def)
    then have "map_of re x = Some e" using that by (simp add: sorted_items_facts dict_ok_def)
    then obtain row where "map_of tb x = Some row" "ir_payload row = e"
      using assms(1) by (auto simp: sync_intents_def)
    then show ?thesis using assms(1) unfolding sync_intents_def by blast
  qed
  let ?g = "\<lambda>p rs. rs \<lparr>re_task_intents := AList.update (fst p) (snd p) (re_task_intents rs)\<rparr>"
  have "\<exists>s'. for_each (insert_task_intent V now) (sorted_items re) db = Inr s' \<and>
      (filling V pr s' (fold ?g (sorted_items re) rs) \<and> re_task_states (fold ?g (sorted_items re) rs) = [])"
  proof (rule for_each_rel [where R = "\<lambda>s t. filling V pr s t \<and> re_task_states t = []"])
    fix p s t
    assume p: "p \<in> set (sorted_items re)" and st: "filling V pr s t \<and> re_task_states t = []"
    obtain x e where xe: "p = (x, e)" by (cases p)
    obtain d where d: "intent_ok V d" "e = stored_payload d" using dumps [of x e] p xe by blast
    obtain d' where V: "V Task_Intent e = Some d'" "stored_payload d' = stored_payload d"
      using d pydantic_lawsD(1) [OF assms(2)] unfolding intent_ok_def by blast
    note same = V(2) intent_columns_cong [OF V(2) d(1)]
    have "map_of (tb_task_state s) x = None"
      using in_syncD(3) [of V no_gap t s] st by (auto simp: filling_def sync_states_def)
    then have "in_sync V no_gap (?g p t) (upsert_intent x
        \<lparr>ir_payload = stored_payload d,
         ir_updated_at = py_str (py_or (py_get ''updated_at'' e) (py_or (py_get ''created_at'' d) (PyStr now))),
         ir_columns = intent_columns d,
         ir_lifecycle_status = fst (intent_status_columns None),
         ir_pipeline_status = snd (intent_status_columns None)\<rparr> s)"
      using upsert_intent_sync [OF _ d(1), of no_gap t s _ x] st by (simp add: filling_def xe d(2))
    then show "\<exists>s'. insert_task_intent V now p s = Inr s' \<and>
        (filling V pr s' (?g p t) \<and> re_task_states (?g p t) = [])"
      using st by (simp add: insert_task_intent_def xe V(1) same filling_def upsert_intent_def)
  qed (use assms in simp)
  moreover have "fold ?g items rs = rs \<lparr>re_task_intents := update_all items (re_task_intents rs)\<rparr>" for items
    unfolding update_all_def by (induction items arbitrary: rs) simp_all
  ultimately show ?thesis by auto
qed

lemma rebuild_states:
  assumes "sync_states V re tb" "pydantic_laws V" "filling V pr db rs"
  shows "\<exists>db'. for_each (insert_task_state V now) (sorted_items re) db = Inr db' \<and>
           filling V pr db' (rs \<lparr>re_task_states := update_all (sorted_items re) (re_task_states rs)\<rparr>)"
proof -
  have dumps: "\<exists>d. state_ok V d \<and> e = stored_payload d" if "(x, e) \<in> set (sorted_items re)" for x e
  proof -
    have re: "dict_ok re" using assms(1) by (simp add: sync_states_def)
    then have "map_of re x = Some e" using that by (simp add: sorted_items_facts dict_ok_def)
    moreover have "rel_option (sync_state_row V) (map_of re x) (map_of tb x)" using assms(1) by (simp add: sync_states_def)
    ultimately show ?thesis by (auto simp: option_rel_Some1 sync_state_row_def)
  qed
  let ?g = "\<lambda>p rs. rs \<lparr>re_task_states := AList.update (fst p) (snd p) (re_task_states rs)\<rparr>"
  have "\<exists>s'. for_each (insert_task_state V now) (sorted_items re) db = Inr s' \<and>
      filling V pr s' (fold ?g (sorted_items re) rs)"
  proof (rule for_each_rel [where R = "filling V pr"])
    fix p s t
    assume p: "p \<in> set (sorted_items re)" and st: "filling V pr s t"
    obtain x e where xe: "p = (x, e)" by (cases p)
    obtain d where d: "state_ok V d" "e = stored_payload d" using dumps [of x e] p xe by blast
    obtain d' where V: "V Task_State_Record e = Some d'" "stored_payload d' = stored_payload d"
      using d pydantic_lawsD(1) [OF assms(2)] unfolding state_ok_def by blast
    obtain a b u where texts: "py_get ''status'' d = PyStr a" "py_get ''pipeline_status'' d = PyStr b"
        "py_get ''updated_at'' d = PyStr u"
      using d(1) by (auto simp: state_ok_def)
    have same: "stored_payload d' = stored_payload d" "status_columns d' = status_columns d"
        "text_field_or now ''updated_at'' d' = text_field_or now ''updated_at'' d"
      using V(2) text_cong [OF V(2) texts(1)] text_cong [OF V(2) texts(2)] text_cong [OF V(2) texts(3)] texts
      by (simp_all add: status_columns_def text_field_or_def)
    let ?row = "\<lparr>ts_payload = stored_payload d, ts_updated_at = text_field_or now ''updated_at'' d\<rparr>"
    have "sync_state_row V (stored_payload d) ?row"
      unfolding sync_state_row_def using d(1)
      by (intro exI [of _ d]) (auto simp: state_ok_def text_field_or_def text_field_def py_or_def)
    then have "in_sync V no_gap (?g p t) (upsert_state x ?row (status_columns d) s)"
      using upsert_state_sync [OF _ d(1), of no_gap t s ?row x] st status_columns_stored(1) [OF d(1)]
      by (simp add: filling_def xe d(2))
    then show "\<exists>s'. insert_task_state V now p s = Inr s' \<and> filling V pr s' (?g p t)"
      using st by (simp add: insert_task_state_def xe V(1) same filling_def upsert_state_def)
  qed (rule assms(3))
  moreover have "fold ?g items rs = rs \<lparr>re_task_states := update_all items (re_task_states rs)\<rparr>" for items
    unfolding update_all_def by (induction items arbitrary: rs) simp_all
  ultimately show ?thesis by auto
qed

section \<open>The other tables\<close>

lemma rebuild_rows:
  assumes "map (row_of_entry now) es = map Inr rows"
  shows "for_each (\<lambda>e db. then_do (row_of_entry now e) (\<lambda>r. Inr (put r db))) es db = Inr (fold put rows db)"
  using assms by (induction es arbitrary: rows db) (auto simp: Cons_eq_map_conv)

lemma rebuild_journal_item:
  assumes "map (journal_row_of now) (enumerate 0 es) = map Inr rows"
  shows "insert_task_journal now (x, es) db = Inr (db \<lparr>tb_task_journal :=
           fold (\<lambda>r. AList.update (x, fst r) (snd r)) rows (tb_task_journal db)\<rparr>)"
proof -
  have "insert_journal_entry now x =
      (\<lambda>e db. then_do (journal_row_of now e) (\<lambda>r. Inr (put_journal x (fst r) (snd r) db)))"
    by (intro ext) (simp add: insert_journal_entry_def)
  then have "for_each (insert_journal_entry now x) (enumerate 0 es) db =
      Inr (fold (\<lambda>r. put_journal x (fst r) (snd r)) rows db)"
    using rebuild_rows [where row_of_entry = journal_row_of, OF assms, of "\<lambda>r. put_journal x (fst r) (snd r)" db]
    by simp
  moreover have "fold (\<lambda>r. put_journal x (fst r) (snd r)) rows db =
      db \<lparr>tb_task_journal := fold (\<lambda>r. AList.update (x, fst r) (snd r)) rows (tb_task_journal db)\<rparr>"
    by (induction rows arbitrary: db) (simp_all add: put_journal_def)
  ultimately show ?thesis by (simp add: insert_task_journal_def)
qed

lemma map_of_rows:
  "map_of (fold (\<lambda>r. AList.update (x, fst r) (snd r)) rows m) (y, i) =
     (if x = y then case map_of (rev rows) i of None \<Rightarrow> map_of m (y, i) | Some r \<Rightarrow> Some r
      else map_of m (y, i))"
  by (induction rows arbitrary: m) (auto simp: update_conv' map_add_def split: option.split)

text \<open>A table filled task by task: each task of \<open>re\<close> gets the rows of \<open>tb\<close>.\<close>

lemma rebuild_keyed:
  assumes "dict_ok re" "get (upd t db) = t" "\<And>s t u. upd u (upd t s) = upd u s" "\<And>s. upd (get s) s = s"
    "\<And>s u. get (upd u s) = u"
    "\<And>x es s. (x, es) \<in> set re \<Longrightarrow> (\<forall>i. map_of (get s) (x, i) = None) \<Longrightarrow>
       \<exists>t. f (x, es) s = Inr (upd t s) \<and>
         (\<forall>y i. map_of t (y, i) = (if y = x then want x i else map_of (get s) (y, i)))"
    "get db = []"
  shows "\<exists>t. for_each f (sorted_items re) db = Inr (upd t db) \<and>
           (\<forall>y i. map_of t (y, i) = (if y \<in> fst ` set re then want y i else None))"
proof -
  have "\<exists>t. for_each f items s = Inr (upd t s) \<and>
      (\<forall>y i. map_of t (y, i) = (if y \<in> fst ` set items then want y i else map_of (get s) (y, i)))"
    if "dict_ok items" "set items \<subseteq> set re" "\<forall>y\<in>fst ` set items. \<forall>i. map_of (get s) (y, i) = None"
    for items s
    using that
  proof (induction items arbitrary: s)
    case Nil
    show ?case using assms(4) by (intro exI [of _ "get s"]) simp
  next
    case (Cons p items)
    obtain x es where p: "p = (x, es)" by (cases p)
    obtain t where t: "f (x, es) s = Inr (upd t s)"
        "\<forall>y i. map_of t (y, i) = (if y = x then want x i else map_of (get s) (y, i))"
      using assms(6) [of x es s] Cons.prems by (auto simp: p)
    have x: "x \<notin> fst ` set items" using Cons.prems(1) by (simp add: p dict_ok_def)
    have "\<forall>y\<in>fst ` set items. \<forall>i. map_of (get (upd t s)) (y, i) = None"
      using Cons.prems(3) t(2) x by (auto simp: assms(5) p)
    then obtain u where u: "for_each f items (upd t s) = Inr (upd u (upd t s))"
        "\<forall>y i. map_of u (y, i) = (if y \<in> fst ` set items then want y i else map_of (get (upd t s)) (y, i))"
      using Cons.IH [of "upd t s"] Cons.prems(1, 2) by (auto simp: dict_ok_def p)
    show ?case using t u x by (intro exI [of _ u]) (auto simp: p assms(3, 5))
  qed
  from this [of "sorted_items re" db] show ?thesis
    using assms(1) by (simp add: sorted_items_facts assms(7) cong: if_cong)
qed

lemma rebuild_journal:
  assumes "sync_journal re tb" "tb_task_journal db = []"
  shows "\<exists>t. for_each (insert_task_journal now) (sorted_items re) db = Inr (db \<lparr>tb_task_journal := t\<rparr>) \<and>
           sync_journal re t"
proof -
  have ok: "dict_ok re" using assms(1) by (simp add: sync_journal_def)
  have item: "\<exists>t. insert_task_journal now (x, es) s = Inr (s \<lparr>tb_task_journal := t\<rparr>) \<and>
      (\<forall>y i. map_of t (y, i) = (if y = x then map_of tb (x, i) else map_of (tb_task_journal s) (y, i)))"
    if "(x, es) \<in> set re" "\<forall>i. map_of (tb_task_journal s) (x, i) = None" for x es s
  proof -
    have es: "dict_get x [] re = es" using ok that(1) by (simp add: dict_get_def dict_ok_def)
    obtain rows where rows: "map (journal_row_of now) (enumerate 0 es) = map Inr rows"
        "\<forall>i. map_of (rev rows) i = map_of tb (x, i)"
      using assms(1) es unfolding sync_journal_def by blast
    show ?thesis
      using that(2) rows(2)
      by (intro exI [of _ "fold (\<lambda>r. AList.update (x, fst r) (snd r)) rows (tb_task_journal s)"])
         (auto simp: rebuild_journal_item [OF rows(1)] map_of_rows split: option.split)
  qed
  have "\<exists>t. for_each (insert_task_journal now) (sorted_items re) db = Inr (db \<lparr>tb_task_journal := t\<rparr>) \<and>
      (\<forall>y i. map_of t (y, i) = (if y \<in> fst ` set re then map_of tb (y, i) else None))"
    by (rule rebuild_keyed [where upd = "\<lambda>t s. s \<lparr>tb_task_journal := t\<rparr>" and get = tb_task_journal])
       (use ok item assms(2) in simp_all)
  then obtain t where t: "for_each (insert_task_journal now) (sorted_items re) db = Inr (db \<lparr>tb_task_journal := t\<rparr>)"
      "\<forall>y i. map_of t (y, i) = (if y \<in> fst ` set re then map_of tb (y, i) else None)" by blast
  have "map_of tb (y, i) = None" if "y \<notin> fst ` set re" for y i
  proof -
    have "map_of re y = None" using that by (simp add: map_of_eq_None_iff)
    then have "dict_get y [] re = []" by (simp add: dict_get_def)
    then show ?thesis using assms(1) unfolding sync_journal_def by (metis (no_types, lifting) enumerate_simps(1)
        list.simps(8) map_is_Nil_conv map_of.simps(1) rev.simps(1))
  qed
  then have "map_of t (y, i) = map_of tb (y, i)" for y i using t(2) by simp
  then have "sync_journal re t" using assms(1) by (simp add: sync_journal_def)
  then show ?thesis using t(1) by blast
qed

lemma rebuild_activity_entries:
  assumes "\<forall>i. int n \<le> i \<longrightarrow> map_of (tb_task_activity s) (x, i) = None"
  shows "\<exists>t. for_each (insert_activity_entry now x) (enumerate n es) s = Inr (s \<lparr>tb_task_activity := t\<rparr>) \<and>
           (\<forall>y i. map_of t (y, i) =
              (if y = x \<and> int n \<le> i then replayed_activity now es (i - int n)
               else map_of (tb_task_activity s) (y, i)))"
  using assms
proof (induction es arbitrary: n s)
  case Nil
  then show ?case by (intro exI [of _ "tb_task_activity s"]) (simp add: replayed_activity_def)
next
  case (Cons e es)
  let ?row = "\<lparr>av_created_at = text_field_or now ''created_at'' e, av_payload = stored_payload e\<rparr>"
  let ?s1 = "s \<lparr>tb_task_activity := AList.update (x, int n) ?row (tb_task_activity s)\<rparr>"
  have step: "insert_activity_entry now x (n, e) s = Inr ?s1"
    using Cons.prems by (simp add: insert_activity_entry_def)
  obtain t where t: "for_each (insert_activity_entry now x) (enumerate (Suc n) es) ?s1 = Inr (?s1 \<lparr>tb_task_activity := t\<rparr>)"
      "\<forall>y i. map_of t (y, i) = (if y = x \<and> int (Suc n) \<le> i then replayed_activity now es (i - int (Suc n))
         else map_of (tb_task_activity ?s1) (y, i))"
    using Cons.IH [of "Suc n" ?s1] Cons.prems by (auto simp: update_conv')
  have "replayed_activity now (e # es) (i - int n) =
      (if i = int n then Some ?row else replayed_activity now es (i - int (Suc n)))" if "int n \<le> i" for i
  proof (cases "i = int n")
    case False
    then have "nat (i - int n) = Suc (nat (i - int (Suc n)))" using that by linarith
    then show ?thesis using False that by (auto simp: replayed_activity_def)
  qed (simp add: replayed_activity_def)
  then show ?case using t by (intro exI [of _ t]) (auto simp: step update_conv')
qed

lemma rebuild_activity:
  assumes "sync_activity re tb" "tb_task_activity db = []"
  shows "\<exists>t. for_each (insert_task_activity now) (sorted_items re) db = Inr (db \<lparr>tb_task_activity := t\<rparr>) \<and>
           sync_activity re t"
proof -
  have ok: "dict_ok re" using assms(1) by (simp add: sync_activity_def)
  have item: "\<exists>t. insert_task_activity now (x, es) s = Inr (s \<lparr>tb_task_activity := t\<rparr>) \<and>
      (\<forall>y i. map_of t (y, i) = (if y = x then map_option activity_core (map_of tb (x, i))
         else map_of (tb_task_activity s) (y, i)))"
    if "(x, es) \<in> set re" "\<forall>i. map_of (tb_task_activity s) (x, i) = None" for x es s
  proof -
    have "dict_get x [] re = es" using ok that(1) by (simp add: dict_get_def dict_ok_def)
    then have want: "map_option activity_core (map_of tb (x, i)) = replayed_activity now es i" for i
      using assms(1) unfolding sync_activity_def by metis
    note free = that(2)
    obtain t where t: "for_each (insert_activity_entry now x) (enumerate 0 es) s = Inr (s \<lparr>tb_task_activity := t\<rparr>)"
        "\<forall>y i. map_of t (y, i) = (if y = x \<and> 0 \<le> i then replayed_activity now es i
           else map_of (tb_task_activity s) (y, i))"
      using rebuild_activity_entries [of 0 s x now es] free by auto
    have "replayed_activity now es i = None" if "\<not> 0 \<le> i" for i :: int
      using that by (simp add: replayed_activity_def)
    then have "\<forall>y i. map_of t (y, i) = (if y = x then map_option activity_core (map_of tb (x, i))
        else map_of (tb_task_activity s) (y, i))"
      using t(2) free by (auto simp: want)
    then show ?thesis using t(1) by (intro exI [of _ t]) (simp add: insert_task_activity_def)
  qed
  have "\<exists>t. for_each (insert_task_activity now) (sorted_items re) db = Inr (db \<lparr>tb_task_activity := t\<rparr>) \<and>
      (\<forall>y i. map_of t (y, i) = (if y \<in> fst ` set re then map_option activity_core (map_of tb (y, i)) else None))"
    by (rule rebuild_keyed [where upd = "\<lambda>t s. s \<lparr>tb_task_activity := t\<rparr>" and get = tb_task_activity])
       (use ok item assms(2) in simp_all)
  then obtain t where t: "for_each (insert_task_activity now) (sorted_items re) db = Inr (db \<lparr>tb_task_activity := t\<rparr>)"
      "\<forall>y i. map_of t (y, i) = (if y \<in> fst ` set re then map_option activity_core (map_of tb (y, i)) else None)"
    by blast
  have "map_of tb (y, i) = None" if "y \<notin> fst ` set re" for y i
  proof -
    have "map_of re y = None" using that by (simp add: map_of_eq_None_iff)
    then have "replayed_activity now (dict_get y [] re) i = None" by (simp add: dict_get_def replayed_activity_def)
    then show ?thesis using assms(1) by (simp add: sync_activity_def)
  qed
  then have "map_of t (y, i) = map_option activity_core (map_of tb (y, i))" for y i using t(2) by simp
  moreover have "map_option activity_core (map_option activity_core r) = map_option activity_core r" for r
    by (cases r) (simp_all add: activity_core_def)
  ultimately have "sync_activity re t" using assms(1) by (simp add: sync_activity_def)
  then show ?thesis using t(1) by blast
qed

lemma rebuild_stage_reports:
  "fold (insert_stage_report now) re db =
     db \<lparr>tb_stage_reports := tb_stage_reports db @ map (stage_report_row_of now) re\<rparr>"
  by (induction re arbitrary: db) (simp_all add: insert_stage_report_def)

lemma rebuild_recovery_reports:
  "fold (insert_recovery_report now) re db =
     db \<lparr>tb_recovery_reports := tb_recovery_reports db @ map (recovery_report_row_of now) re\<rparr>"
  by (induction re arbitrary: db) (simp_all add: insert_recovery_report_def)

lemma rebuild_audit:
  "map (audit_row_of now) re = map Inr rows \<Longrightarrow>
   for_each (insert_task_audit_entry now) re db = Inr (db \<lparr>tb_audit := tb_audit db @ rows\<rparr>)"
  by (induction re arbitrary: rows db) (auto simp: insert_task_audit_entry_def Cons_eq_map_conv)

lemma rebuild_transitions:
  "map (transition_row_of now) re = map Inr rows \<Longrightarrow>
   for_each (insert_pipeline_transition now) re db = Inr (db \<lparr>tb_transitions := tb_transitions db @ rows\<rparr>)"
  by (induction re arbitrary: rows db) (auto simp: insert_pipeline_transition_def Cons_eq_map_conv)

lemma rebuild_lifecycle:
  "map (lifecycle_row_of now) re = map Inr rows \<Longrightarrow>
   for_each (insert_pipeline_journal now) re db = Inr (db \<lparr>tb_lifecycle := tb_lifecycle db @ rows\<rparr>)"
  by (induction re arbitrary: rows db) (auto simp: insert_pipeline_journal_def Cons_eq_map_conv)

lemma rebuild_pipeline:
  assumes "sync_pipeline {} re tb" "tb_pipeline db = []"
  shows "\<exists>t. for_each (insert_pipeline_task_state now) (sorted_items re) db = Inr (db \<lparr>tb_pipeline := t\<rparr>) \<and>
           map_of t = map_of tb"
proof -
  have ok: "dict_ok re" using assms(1) by (simp add: sync_exact)
  let ?row = "\<lambda>x. the (map_of tb x)"
  let ?g = "\<lambda>p. AList.update (fst p) (?row (fst p))"
  have rows: "map_option (pipeline_row_of now) (map_of re x) = map_option Inr (map_of tb x)" for x
    using assms(1) by (simp add: sync_exact)
  have run: "\<exists>s'. for_each (insert_pipeline_task_state now) (sorted_items re) db = Inr s' \<and>
      s' = db \<lparr>tb_pipeline := fold ?g (sorted_items re) []\<rparr>"
  proof (rule for_each_rel [where R = "\<lambda>s t. s = db \<lparr>tb_pipeline := t\<rparr>"])
    fix p s t
    assume p: "p \<in> set (sorted_items re)" and s: "s = db \<lparr>tb_pipeline := t\<rparr>"
    have "map_of re (fst p) = Some (snd p)"
      using p ok by (simp add: sorted_items_facts dict_ok_def)
    then have "pipeline_row_of now (snd p) = Inr (?row (fst p))" using rows [of "fst p"]
      by (cases "map_of tb (fst p)") simp_all
    then show "\<exists>s'. insert_pipeline_task_state now p s = Inr s' \<and> s' = db \<lparr>tb_pipeline := ?g p t\<rparr>"
      by (simp add: insert_pipeline_task_state_def put_pipeline_def s)
  qed (simp add: assms(2) [symmetric])
  have filled: "map_of (fold ?g items m) x = (if x \<in> fst ` set items then Some (?row x) else map_of m x)" for items m x
    by (induction items arbitrary: m) (auto simp: update_conv')
  have whole: "map_of tb x = (if x \<in> fst ` set re then Some (?row x) else None)" for x
  proof (cases "map_of re x")
    case None
    then have "map_of tb x = None" using rows [of x] by simp
    moreover have "x \<notin> fst ` set re" using None by (simp add: map_of_eq_None_iff)
    ultimately show ?thesis by simp
  next
    case (Some d)
    then have "x \<in> fst ` set re" by (force dest: map_of_SomeD)
    then show ?thesis using rows [of x] Some by (cases "map_of tb x") simp_all
  qed
  have "map_of (fold ?g (sorted_items re) []) x = map_of tb x" for x
    unfolding filled sorted_items_facts(2) [OF ok] map_of.simps(1) by (rule whole [symmetric])
  then have "map_of (fold ?g (sorted_items re) []) = map_of tb" by (rule ext)
  then show ?thesis using run by auto
qed

section \<open>The rebuild\<close>

lemma sync_pipeline_cong: "sync_pipeline P re tb \<Longrightarrow> map_of t = map_of tb \<Longrightarrow> sync_pipeline P re t"
  by (simp add: sync_pipeline_def row_gap_def)

lemma in_sync_blank:
  assumes "sync_workspace V ws (tb_pool_state db) (tb_queue db)"
    "db = put_workspace now d (clear_replay_tables db0)"
  shows "filling V (tb_process db0, tb_pool_state db) db (empty_replay \<lparr>re_workspace_state := ws\<rparr>)"
  using assms(1) unfolding filling_def assms(2)
  by (intro conjI in_syncI) (simp_all add: put_workspace_def clear_replay_tables_def blank_db_def empty_replay_def
      sync_intents_def sync_states_def sync_status_def sync_journal_def sync_activity_def
      sync_stage_reports_def sync_recovery_reports_def sync_exact sync_audit_def dict_get_def
      replayed_activity_def)

lemma map_of_all_None: "(\<And>k. map_of tb k = None) \<Longrightarrow> tb = []"
  by (metis list.exhaust map_of_Cons_code(2) option.distinct(1) prod.exhaust)

lemma filling_blank:
  assumes "filling V pr db rs" "re_task_journal rs = []" "re_task_activity rs = []" "re_stage_reports rs = []"
    "re_recovery_reports rs = []" "re_transitions rs = []" "re_lifecycle rs = []" "re_pipeline rs = []"
    "re_audit rs = []"
  shows "tb_task_journal db = []" "tb_task_activity db = []" "tb_stage_reports db = []"
    "tb_recovery_reports db = []" "tb_transitions db = []" "tb_lifecycle db = []" "tb_pipeline db = []"
    "tb_audit db = []"
proof -
  note D = in_syncD [OF conjunct1 [OF assms(1) [unfolded filling_def]]]
  show "tb_task_journal db = []"
  proof (rule map_of_all_None)
    fix k :: "string \<times> int"
    show "map_of (tb_task_journal db) k = None"
      using D(5) by (cases k) (simp add: sync_journal_def assms dict_get_def)
  qed
  show "tb_task_activity db = []"
  proof (rule map_of_all_None)
    fix k :: "string \<times> int"
    show "map_of (tb_task_activity db) k = None"
      using D(6) by (cases k) (simp add: sync_activity_def assms dict_get_def replayed_activity_def)
  qed
  show "tb_pipeline db = []"
    by (rule map_of_all_None) (use D(11) in \<open>simp add: sync_exact assms\<close>)
qed (use in_syncD [OF conjunct1 [OF assms(1) [unfolded filling_def]]] in
    \<open>simp_all add: assms sync_stage_reports_def sync_recovery_reports_def sync_exact sync_audit_def\<close>)

lemma write_replay_sync:
  assumes "in_sync V no_gap rs db" "pydantic_laws V"
  shows "\<exists>db'. write_replay_state V now rs (clear_replay_tables db0) = Inr db' \<and> in_sync V no_gap rs db' \<and>
           tb_process db' = tb_process db0 \<and>
           (\<exists>d i. tb_pool_state db' = Some (stored_payload (AList.delete ''queue'' d), now) \<and>
              py_get ''next_task_number'' d = PyInt i \<and> highest_replayed_number rs \<le> i)"
proof -
  note D = in_syncD [OF assms(1), unfolded fst_conv snd_conv]
  let ?blank = "clear_replay_tables db0"
  obtain p d i where ws: "workspace_state_payload rs = Inr p"
      "insert_workspace_state V now p ?blank = Inr (put_workspace now d ?blank)"
      "sync_workspace V (re_workspace_state rs) (tb_pool_state (put_workspace now d ?blank))
         (tb_queue (put_workspace now d ?blank))"
      "py_get ''next_task_number'' d = PyInt (max i (highest_replayed_number rs))"
    using rebuild_workspace [OF D(1) assms(2), of now ?blank] by blast
  let ?pr = "(tb_process db0, Some (stored_payload (AList.delete ''queue'' d), now))"
  have f1: "filling V ?pr (put_workspace now d ?blank)
      (empty_replay \<lparr>re_workspace_state := re_workspace_state rs\<rparr>)"
    using in_sync_blank [OF ws(3) refl] by (simp add: put_workspace_def)
  obtain db2 where db2: "for_each (insert_task_intent V now) (sorted_items (re_task_intents rs))
        (put_workspace now d ?blank) = Inr db2"
      "filling V ?pr db2 (empty_replay \<lparr>re_workspace_state := re_workspace_state rs,
         re_task_intents := update_all (sorted_items (re_task_intents rs)) []\<rparr>)"
    using rebuild_intents [OF D(2) assms(2) f1, of now] by (auto simp: empty_replay_def)
  obtain db3 where db3: "for_each (insert_task_state V now) (sorted_items (re_task_states rs)) db2 = Inr db3"
      "filling V ?pr db3 (empty_replay \<lparr>re_workspace_state := re_workspace_state rs,
         re_task_intents := update_all (sorted_items (re_task_intents rs)) [],
         re_task_states := update_all (sorted_items (re_task_states rs)) []\<rparr>)"
    using rebuild_states [OF D(3) assms(2) db2(2), of now] by (auto simp: empty_replay_def)
  note blank = filling_blank [OF db3(2), simplified empty_replay_def replay_state.simps, simplified]
  note E = in_syncD [OF conjunct1 [OF db3(2) [unfolded filling_def]], simplified empty_replay_def
      replay_state.simps, simplified]
  have intents: "sync_intents V (re_task_intents rs) (tb_task_intent db3)"
    by (rule sync_intents_cong [OF E(2)])
       (use D(2) in \<open>simp_all add: sync_intents_def update_all_sorted\<close>)
  have states: "sync_states V (re_task_states rs) (tb_task_state db3)"
    by (rule sync_states_cong [OF E(3)])
       (use D(3) in \<open>simp_all add: sync_states_def update_all_sorted\<close>)
  obtain j where j: "for_each (insert_task_journal now) (sorted_items (re_task_journal rs)) db3 =
        Inr (db3 \<lparr>tb_task_journal := j\<rparr>)" "sync_journal (re_task_journal rs) j"
    using rebuild_journal [OF D(5) blank(1), of now] by blast
  let ?db4 = "db3 \<lparr>tb_task_journal := j\<rparr>"
  obtain a where a: "for_each (insert_task_activity now) (sorted_items (re_task_activity rs)) ?db4 =
        Inr (?db4 \<lparr>tb_task_activity := a\<rparr>)" "sync_activity (re_task_activity rs) a"
    using rebuild_activity [OF D(6), of ?db4 now] blank(2) by auto
  let ?db5 = "?db4 \<lparr>tb_task_activity := a\<rparr>"
  have reports: "map (stage_report_row_of now) (re_stage_reports rs) = tb_stage_reports db"
      "map (recovery_report_row_of now) (re_recovery_reports rs) = tb_recovery_reports db"
      "map (audit_row_of now) (re_audit rs) = map Inr (tb_audit db)"
      "map (transition_row_of now) (re_transitions rs) = map Inr (tb_transitions db)"
      "map (lifecycle_row_of now) (re_lifecycle rs) = map Inr (tb_lifecycle db)"
    using D by (simp_all add: sync_stage_reports_def sync_recovery_reports_def sync_audit_def
        sync_exact)
  let ?db6 = "?db5 \<lparr>tb_stage_reports := tb_stage_reports db, tb_recovery_reports := tb_recovery_reports db,
      tb_audit := tb_audit db\<rparr>"
  obtain q where q: "for_each (insert_pipeline_task_state now) (sorted_items (re_pipeline rs)) ?db6 =
        Inr (?db6 \<lparr>tb_pipeline := q\<rparr>)" "map_of q = map_of (tb_pipeline db)"
    using rebuild_pipeline [OF D(11), of ?db6 now] blank(7) by auto
  let ?db7 = "?db6 \<lparr>tb_pipeline := q, tb_transitions := tb_transitions db, tb_lifecycle := tb_lifecycle db\<rparr>"
  have "write_replay_state V now rs ?blank = Inr ?db7"
    by (simp add: write_replay_state_def ws(1, 2) db2(1) db3(1) j(1) a(1) q(1) reports blank
        rebuild_stage_reports rebuild_recovery_reports rebuild_audit [OF reports(3)]
        rebuild_transitions [OF reports(4)] rebuild_lifecycle [OF reports(5)])
  moreover have "in_sync V no_gap rs ?db7"
    using E intents states j(2) a(2) D sync_pipeline_cong [OF D(11) q(2)] by (intro in_syncI) simp_all
  moreover have "tb_process ?db7 = tb_process db0"
      "tb_pool_state ?db7 = Some (stored_payload (AList.delete ''queue'' d), now)"
    using db3(2) by (simp_all add: filling_def)
  ultimately show ?thesis using ws(4) by (intro exI [of _ ?db7]) auto
qed

lemma sync_ids:
  assumes "in_sync V W rs db"
  shows "sqlite_task_ids (Some db) = set (replayed_task_ids rs)"
proof -
  note D = in_syncD [OF assms]
  have "(x \<in> fst ` set (tb_task_intent db)) = (x \<in> fst ` set (re_task_intents rs))" for x
    using D(2) unfolding sync_intents_def by (metis map_of_eq_None_iff map_option_is_None)
  moreover have "(x \<in> fst ` set (tb_task_state db)) = (x \<in> fst ` set (re_task_states rs))" for x
  proof -
    have "rel_option (sync_state_row V) (map_of (re_task_states rs) x) (map_of (tb_task_state db) x)"
      using D(3) by (simp add: sync_states_def)
    then have "(map_of (re_task_states rs) x = None) = (map_of (tb_task_state db) x = None)"
      by (cases rule: option.rel_cases) auto
    then show ?thesis by (simp add: map_of_eq_None_iff)
  qed
  ultimately have "fst ` set (tb_task_intent db) = fst ` set (re_task_intents rs)"
      "fst ` set (tb_task_state db) = fst ` set (re_task_states rs)" by blast+
  then show ?thesis by (simp add: sqlite_task_ids_def replayed_task_ids_def Un_commute)
qed

definition counter_above :: "task_db \<Rightarrow> string \<Rightarrow> replay_state \<Rightarrow> bool" where
  "counter_above db now rs \<longleftrightarrow>
     (\<exists>d i. tb_pool_state db = Some (stored_payload (AList.delete ''queue'' d), now) \<and>
        py_get ''next_task_number'' d = PyInt i \<and> highest_replayed_number rs \<le> i)"

lemma rebuild_sync:
  assumes "in_sync V W (log_state lines) db" "pydantic_laws V"
    "sqlite_task_ids (Some db0) \<subseteq> sqlite_task_ids (Some db)"
  shows "\<exists>r. rebuild_sqlite V now dirs True lines db0 = Inr r \<and> in_sync V no_gap (log_state lines) (fst r) \<and>
           tb_process (fst r) = tb_process db0 \<and> counter_above (fst r) now (log_state lines)"
proof -
  obtain events invalid where ev: "read_events lines = (events, invalid)" by (cases "read_events lines")
  have rs: "replay events = log_state lines" by (simp add: log_state_def ev)
  obtain db' where db': "write_replay_state V now (log_state lines) (clear_replay_tables db0) = Inr db'"
      "in_sync V no_gap (log_state lines) db'" "tb_process db' = tb_process db0"
      "counter_above db' now (log_state lines)"
    using close_gap [OF assms(1)] write_replay_sync [OF _ assms(2), of _ _ now db0]
    unfolding counter_above_def by blast
  obtain p where p: "workspace_state_payload (log_state lines) = Inr p"
    using rebuild_workspace [OF in_syncD(1) [OF assms(1)] assms(2)] by blast
  have none: "sqlite_task_ids (Some db0) - set (replayed_task_ids (log_state lines)) = {}"
    using assms(3) sync_ids [OF assms(1)] by blast
  then have "assert_safe (Some db0) dirs lines (Some (set (replayed_task_ids (log_state lines)))) =
      Inr \<lparr>sy_sqlite_task_ids = sqlite_task_ids (Some db0), sy_task_dir_ids = task_artifact_dir_ids dirs,
           sy_replay_task_ids = set (replayed_task_ids (log_state lines)), sy_missing_task_ids = []\<rparr>"
    unfolding assert_safe_def Let_def option.case none by simp
  then show ?thesis using db' by (simp add: rebuild_sqlite_def ev rs p)
qed

lemma rebuild_refused:
  assumes "\<not> sqlite_task_ids (Some db0) \<subseteq> set (replayed_task_ids (log_state lines))"
  shows "rebuild_sqlite V now dirs True lines db0 = Inl (Rebuild_unsafe
           (sorted_list_of_set (sqlite_task_ids (Some db0) - set (replayed_task_ids (log_state lines)))))"
proof -
  obtain events invalid where ev: "read_events lines = (events, invalid)" by (cases "read_events lines")
  have rs: "replay events = log_state lines" by (simp add: log_state_def ev)
  have "finite (sqlite_task_ids (Some db0))" by (simp add: sqlite_task_ids_def)
  then have ne: "sorted_list_of_set (sqlite_task_ids (Some db0) - set (replayed_task_ids (log_state lines))) \<noteq> []"
    using assms by simp
  have "assert_safe (Some db0) dirs lines (Some (set (replayed_task_ids (log_state lines)))) =
      Inl (Rebuild_unsafe (sorted_list_of_set
        (sqlite_task_ids (Some db0) - set (replayed_task_ids (log_state lines)))))"
    unfolding assert_safe_def Let_def option.case by (simp only: ne not_False_eq_True if_True)
  then show ?thesis by (simp add: rebuild_sqlite_def ev rs)
qed

section \<open>Agreement\<close>

text \<open>
  Two databases agree when every rebuilt table holds the same rows, up to what the log does not
  carry: the times at which the workspace and intent rows were written, the workspace counter (a
  replay raises it past every task number), the key order of an activity entry, and the time a save
  stamped_record into \<open>runtime.pipeline.updated_at\<close> when the record had none.
\<close>

definition agree_but_stamp :: "jdict \<Rightarrow> jdict \<Rightarrow> bool" where
  "agree_but_stamp p q \<longleftrightarrow>
     (\<forall>k. k \<noteq> ''runtime'' \<longrightarrow> py_get k p = py_get k q) \<and>
     (\<forall>k. k \<noteq> ''pipeline'' \<longrightarrow> py_get k (dict_field ''runtime'' p) = py_get k (dict_field ''runtime'' q)) \<and>
     (\<forall>k. k \<noteq> ''updated_at'' \<longrightarrow> py_get k (pipeline_block p) = py_get k (pipeline_block q))"

definition same_state_row :: "task_state_row \<Rightarrow> task_state_row \<Rightarrow> bool" where
  "same_state_row r r' \<longleftrightarrow> ts_updated_at r = ts_updated_at r' \<and> agree_but_stamp (ts_payload r) (ts_payload r')"

definition same_tables :: "task_db \<Rightarrow> task_db \<Rightarrow> bool" where
  "same_tables db db' \<longleftrightarrow>
     map_option (\<lambda>r. AList.delete ''next_task_number'' (fst r)) (tb_pool_state db) =
       map_option (\<lambda>r. AList.delete ''next_task_number'' (fst r)) (tb_pool_state db') \<and>
     map_option fst (tb_queue db) = map_option fst (tb_queue db') \<and>
     (\<forall>x. map_option (\<lambda>r. r \<lparr>ir_updated_at := []\<rparr>) (map_of (tb_task_intent db) x) =
          map_option (\<lambda>r. r \<lparr>ir_updated_at := []\<rparr>) (map_of (tb_task_intent db') x)) \<and>
     (\<forall>x. rel_option same_state_row (map_of (tb_task_state db) x) (map_of (tb_task_state db') x)) \<and>
     (\<forall>k. map_of (tb_task_journal db) k = map_of (tb_task_journal db') k) \<and>
     (\<forall>k. map_option activity_core (map_of (tb_task_activity db) k) =
          map_option activity_core (map_of (tb_task_activity db') k)) \<and>
     tb_stage_reports db = tb_stage_reports db' \<and> tb_recovery_reports db = tb_recovery_reports db' \<and>
     tb_transitions db = tb_transitions db' \<and> tb_lifecycle db = tb_lifecycle db' \<and>
     (\<forall>x. map_of (tb_pipeline db) x = map_of (tb_pipeline db') x) \<and> tb_audit db = tb_audit db'"

text \<open>
  And up to a gap: every table but the three of the lifecycle agrees; a state row agrees or is missing in
  the second database, which only a task of the gap's first set allows; the histories agree but for the
  tasks of its second set, whose history in the second database ends with the one in the first.
\<close>

definition same_tables_but :: "gap \<Rightarrow> task_db \<Rightarrow> task_db \<Rightarrow> bool" where
  "same_tables_but W db db' \<longleftrightarrow> same_tables (with_lifecycle db' db) db' \<and> differ_by W db db'"

lemma same_tables_no_gap: "same_tables_but no_gap db db' \<longleftrightarrow> same_tables db db'"
  by (auto simp: same_tables_but_def same_tables_def with_lifecycle_def differ_by_def gap_none)

end
