(* ===== verification/Store_Properties.thy ===== *)
theory Store_Properties
  imports Store_Rebuild
begin

text \<open>
  What the event log is for: databases in sync with one log agree, every operation of the stores keeps
  log and tables in sync up to the gap the two memory-keeping and wiping resets leave, and a rebuild
  closes the gap. Each append is one whole line; the processes table is not in the log.
\<close>

section \<open>Databases in sync with one log agree\<close>

lemma dict_field_stored: "dict_field k (stored_payload d) = stored_payload (dict_field k d)"
  by (simp add: dict_field_def stored_Nil split: option.split)

lemma pipeline_block_stored: "pipeline_block (stored_payload d) = stored_payload (pipeline_block d)"
  by (simp add: pipeline_block_def dict_field_stored)

lemma dict_field_update:
  "dict_field k (AList.update j v d) = (if k = j then (case as_dict v of None \<Rightarrow> [] | Some p \<Rightarrow> p) else dict_field k d)"
  by (simp add: dict_field_def py_get_update)

lemma agree_set_stamp:
  "agree_but_stamp (set_pipeline_updated_at v d) d"
  by (simp add: agree_but_stamp_def set_pipeline_updated_at_def py_get_update dict_field_update pipeline_block_def)

lemma agree_stored: "agree_but_stamp p q \<Longrightarrow> agree_but_stamp (stored_payload p) (stored_payload q)"
  by (simp add: agree_but_stamp_def dict_field_stored pipeline_block_stored)

lemma agree_common: "agree_but_stamp p r \<Longrightarrow> agree_but_stamp q r \<Longrightarrow> agree_but_stamp p q"
  by (simp add: agree_but_stamp_def)

lemma agree_stamped:
  assumes "state_ok V d"
  shows "agree_but_stamp (stamped_record t d) d"
proof -
  obtain u where u: "py_get ''updated_at'' d = PyStr u" "u \<noteq> []" using assms by (auto simp: state_ok_def)
  let ?d1 = "AList.update ''updated_at'' (PyStr u) d"
  have "stamp_time t d = u" using u by (simp add: stamp_time_def py_or_def)
  moreover have "agree_but_stamp ?d1 d"
    using u by (auto simp: agree_but_stamp_def py_get_update dict_field_update pipeline_block_def)
  moreover have "agree_but_stamp (set_pipeline_updated_at v ?d1) d" for v
    using agree_set_stamp [of v ?d1] \<open>agree_but_stamp ?d1 d\<close> by (simp add: agree_but_stamp_def)
  ultimately show ?thesis by (simp add: stamped_record_def Let_def)
qed

lemma sync_state_rows_agree:
  assumes "sync_state_row V e r" "sync_state_row V e r'"
  shows "same_state_row r r'"
proof -
  have row: "ts_updated_at x = text_field ''updated_at'' e \<and> agree_but_stamp (ts_payload x) e"
    if "sync_state_row V e x" for x
  proof -
    from that obtain d t where d: "state_ok V d" "e = stored_payload d" "ts_updated_at x = text_field ''updated_at'' d"
        "ts_payload x = stored_payload d \<or> ts_payload x = stored_payload (stamped_record t d)"
      unfolding sync_state_row_def by blast
    moreover have "text_field ''updated_at'' (stored_payload d) = text_field ''updated_at'' d"
      using d(1) by (auto simp: state_ok_def text_field_def py_or_def)
    moreover have "agree_but_stamp (stored_payload d) (stored_payload d)" by (simp add: agree_but_stamp_def)
    ultimately show ?thesis using agree_stored [OF agree_stamped [OF d(1)]] by auto
  qed
  show ?thesis using row [OF assms(1)] row [OF assms(2)] agree_common by (auto simp: same_state_row_def)
qed

lemma same_status: "same_state_row r r' \<Longrightarrow> status_columns (ts_payload r) = status_columns (ts_payload r')"
  by (simp add: same_state_row_def agree_but_stamp_def status_columns_def)

lemma sync_agree:
  assumes "in_sync V no_gap rs db" "in_sync V no_gap rs db'"
  shows "same_tables db db'"
proof -
  note D = in_syncD [OF assms(1), unfolded fst_conv snd_conv]
    and D' = in_syncD [OF assms(2), unfolded fst_conv snd_conv]
  have pool: "map_option (\<lambda>r. AList.delete ''next_task_number'' (fst r)) (tb_pool_state db) =
      map_option (\<lambda>r. AList.delete ''next_task_number'' (fst r)) (tb_pool_state db') \<and>
      map_option fst (tb_queue db) = map_option fst (tb_queue db')"
  proof -
    obtain d where d: "workspace_ok V d"
        "re_workspace_state rs = None \<and> d = default_workspace \<or> re_workspace_state rs = Some (stored_payload d) \<and> d \<noteq> []"
        "map_option (\<lambda>r. AList.delete ''next_task_number'' (fst r)) (tb_pool_state db) =
           Some (stored_payload (AList.delete ''next_task_number'' (AList.delete ''queue'' d)))"
        "map_option fst (tb_queue db) = Some (key_sorted (py_get ''queue'' d))"
      using D(1) unfolding sync_workspace_def by auto
    obtain d' where d': "workspace_ok V d'"
        "re_workspace_state rs = None \<and> d' = default_workspace \<or> re_workspace_state rs = Some (stored_payload d') \<and> d' \<noteq> []"
        "map_option (\<lambda>r. AList.delete ''next_task_number'' (fst r)) (tb_pool_state db') =
           Some (stored_payload (AList.delete ''next_task_number'' (AList.delete ''queue'' d')))"
        "map_option fst (tb_queue db') = Some (key_sorted (py_get ''queue'' d'))"
      using D'(1) unfolding sync_workspace_def by auto
    have same: "stored_payload d = stored_payload d'" using d(2) d'(2) by auto
    then have "key_sorted (py_get ''queue'' d) = key_sorted (py_get ''queue'' d')" by (metis py_get_stored)
    then show ?thesis unfolding d(3, 4) d'(3, 4) using same by (simp flip: stored_delete)
  qed
  have states: "rel_option same_state_row (map_of (tb_task_state db) x) (map_of (tb_task_state db') x)" for x
  proof -
    have "rel_option (sync_state_row V) (map_of (re_task_states rs) x) (map_of (tb_task_state db) x)"
        "rel_option (sync_state_row V) (map_of (re_task_states rs) x) (map_of (tb_task_state db') x)"
      using D(3) D'(3) by (simp_all add: sync_states_def)
    then show ?thesis using sync_state_rows_agree
      by (cases "map_of (re_task_states rs) x") (auto simp: option_rel_Some1)
  qed
  have intents: "map_option (\<lambda>r. r \<lparr>ir_updated_at := []\<rparr>) (map_of (tb_task_intent db) x) =
      map_option (\<lambda>r. r \<lparr>ir_updated_at := []\<rparr>) (map_of (tb_task_intent db') x)" for x
  proof (cases "map_of (tb_task_intent db) x")
    case None
    then have "map_of (re_task_intents rs) x = None" using D(2) by (simp add: sync_intents_def)
    then show ?thesis using D'(2) None by (simp add: sync_intents_def)
  next
    case (Some r)
    then have "map_of (re_task_intents rs) x = Some (ir_payload r)" using D(2) by (simp add: sync_intents_def)
    then obtain r' where r': "map_of (tb_task_intent db') x = Some r'" "ir_payload r' = ir_payload r"
      using D'(2) by (auto simp: sync_intents_def)
    obtain d where d: "intent_ok V d" "ir_payload r = stored_payload d" "ir_columns r = intent_columns d"
      using D(2) Some unfolding sync_intents_def by blast
    obtain d' where d': "intent_ok V d'" "ir_payload r' = stored_payload d'" "ir_columns r' = intent_columns d'"
      using D'(2) r' unfolding sync_intents_def by blast
    have cols: "ir_columns r' = ir_columns r"
      using d d' r'(2) intent_columns_cong(1) [of d' d] by simp
    have "(ir_lifecycle_status r, ir_pipeline_status r) =
        intent_status_columns (map_option ts_payload (map_of (tb_task_state db) x))"
      using D(4) Some by (simp add: sync_status_def)
    also have "\<dots> = intent_status_columns (map_option ts_payload (map_of (tb_task_state db') x))"
      using states [of x] same_status
      by (cases "map_of (tb_task_state db) x") (auto simp: option_rel_Some1 intent_status_columns_def)
    also have "\<dots> = (ir_lifecycle_status r', ir_pipeline_status r')"
      using D'(4) r'(1) by (simp add: sync_status_def)
    finally show ?thesis using Some r' cols by (cases r, cases r') simp
  qed
  have journal: "map_of (tb_task_journal db) k = map_of (tb_task_journal db') k" for k
  proof -
    obtain x i where k: "k = (x, i)" by (cases k)
    let ?es = "map (journal_row_of []) (enumerate 0 (dict_get x [] (re_task_journal rs)))"
    obtain rows where rows: "?es = map Inr rows" "\<forall>i. map_of (rev rows) i = map_of (tb_task_journal db) (x, i)"
      using D(5) unfolding sync_journal_def by blast
    obtain rows' where rows': "?es = map Inr rows'" "\<forall>i. map_of (rev rows') i = map_of (tb_task_journal db') (x, i)"
      using D'(5) unfolding sync_journal_def by blast
    have "rows = rows'" using rows(1) rows'(1) by (simp add: inj_map_eq_map inj_def)
    then show ?thesis using rows(2) rows'(2) by (simp add: k)
  qed
  have activity: "map_option activity_core (map_of (tb_task_activity db) k) =
      map_option activity_core (map_of (tb_task_activity db') k)" for k
    using D(6) D'(6) unfolding sync_activity_def by (cases k) metis
  have pipeline: "map_of (tb_pipeline db) x = map_of (tb_pipeline db') x" for x
  proof -
    have "map_option Inr (map_of (tb_pipeline db) x) = map_option (Inr :: _ \<Rightarrow> rebuild_error + _) (map_of (tb_pipeline db') x)"
      using D(11) D'(11) unfolding sync_exact by metis
    then show ?thesis by (cases "map_of (tb_pipeline db) x"; cases "map_of (tb_pipeline db') x") simp_all
  qed
  have lists: "tb_stage_reports db = tb_stage_reports db'" "tb_recovery_reports db = tb_recovery_reports db'"
    using D(7, 8) D'(7, 8) by (auto simp: sync_stage_reports_def sync_recovery_reports_def)
  have "map (Inr :: _ \<Rightarrow> rebuild_error + _) (tb_transitions db) = map Inr (tb_transitions db')"
      "map (Inr :: _ \<Rightarrow> rebuild_error + _) (tb_lifecycle db) = map Inr (tb_lifecycle db')"
      "map (Inr :: _ \<Rightarrow> rebuild_error + _) (tb_audit db) = map Inr (tb_audit db')"
    using D(9, 10, 12) D'(9, 10, 12) unfolding sync_exact sync_audit_def by metis+
  then have "tb_transitions db = tb_transitions db'" "tb_lifecycle db = tb_lifecycle db'" "tb_audit db = tb_audit db'"
    by (simp_all add: inj_map_eq_map inj_def)
  then show ?thesis using pool states intents journal activity pipeline lists by (simp add: same_tables_def)
qed

lemma sync_agree_but:
  assumes "in_sync V W rs db" "in_sync V no_gap rs d"
  shows "same_tables_but W db d"
proof -
  obtain a where a: "in_sync V no_gap rs (with_lifecycle a db)" "differ_by W db a"
    using close_gap [OF assms(1)] by blast
  have "same_tables (with_lifecycle a db) d" by (rule sync_agree [OF a(1) assms(2)])
  then show ?thesis using a(2) by (simp add: same_tables_but_def same_tables_def with_lifecycle_def differ_by_def row_gap_def)
qed

section \<open>Runs\<close>

definition fresh_store :: "string \<Rightarrow> store_state" where
  "fresh_store now = \<lparr>st_db = create_workspace_state_rows now blank_db, st_log = []\<rparr>"

definition run_store :: "validator \<Rightarrow> (rat \<Rightarrow> string) \<Rightarrow> (string \<times> store_op) list \<Rightarrow> store_state \<Rightarrow> store_state" where
  "run_store V ft ops s = fold (run_op V ft) ops s"

lemma blank_sync:
  assumes "pydantic_laws V"
  shows "in_sync V no_gap empty_replay (create_workspace_state_rows now blank_db)"
proof -
  have "workspace_ok V default_workspace"
    using pydantic_lawsD(4) [OF assms] by (simp add: workspace_ok_def default_workspace_def dict_ok_def)
  then have "sync_workspace V None (Some (stored_payload (AList.delete ''queue'' default_workspace), now))
      (Some (PyList [], now))"
    by (auto simp: sync_workspace_def stored_delete default_workspace_def)
  then show ?thesis
    by (intro in_syncI) (simp_all add: create_workspace_state_rows_def blank_db_def empty_replay_def
      sync_intents_def sync_states_def sync_status_def sync_journal_def sync_activity_def
      sync_stage_reports_def sync_recovery_reports_def sync_exact sync_audit_def dict_get_def
      replayed_activity_def)
qed

lemma fresh_sync: "pydantic_laws V \<Longrightarrow> log_synced V no_gap (fresh_store now)"
  by (simp add: fresh_store_def blank_sync)

lemma run_op_sync:
  assumes "pydantic_laws V" "op_ok V nop" "log_synced V W s"
  shows "log_synced V (mark_gap (snd nop) W) (run_op V ft nop s)"
proof -
  obtain now p where nop: "nop = (now, p)" by (cases nop)
  have now: "now \<noteq> []" using assms(2) by (simp add: nop op_ok_def)
  show ?thesis
  proof (cases p)
    case (Op_transaction intents states ws messages audits)
    then show ?thesis using save_runtime_transaction_sync [OF assms(3, 1)] assms(2)
      by (simp add: nop run_op_def)
  next
    case (Op_reset_pipeline l tid preserve)
    have tid: "tid \<noteq> []" using assms(2) by (simp add: nop Op_reset_pipeline op_ok_def)
    show ?thesis
    proof (cases "reset_pipeline ft now l tid preserve s")
      case (Inl err)
      then show ?thesis using assms(3) in_sync_mono [OF assms(3), of tid]
        by (simp add: nop Op_reset_pipeline run_op_def)
    next
      case (Inr s')
      then show ?thesis using reset_pipeline_sync [OF assms(3) tid Inr]
        by (simp add: nop Op_reset_pipeline run_op_def)
    qed
  next
    case (Op_process key status d)
    then show ?thesis using assms(3) by (simp add: nop run_op_def in_sync_def save_process_state_def)
  next
    case (Op_clear_process key)
    then show ?thesis using assms(3) by (simp add: nop run_op_def in_sync_def clear_process_state_def)
  qed (use assms now in \<open>simp_all add: nop run_op_def op_ok_def save_workspace_sync save_task_state_sync
      save_task_intent_sync append_task_journal_sync append_task_audit_entries_sync delete_task_records_sync
      record_stage_report_sync rewrite_latest_stage_report_sync store_recovery_report_sync save_activity_sync
      store_journal_item_sync save_pipeline_sync reset_all_sync\<close>)
qed

text \<open>The gap a run of operations leaves.\<close>

definition unlogged :: "(string \<times> store_op) list \<Rightarrow> gap" where
  "unlogged ops = fold (\<lambda>nop. mark_gap (snd nop)) ops no_gap"

definition logs_all :: "store_op \<Rightarrow> bool" where
  "logs_all p = (case p of Op_reset_pipeline l tid preserve \<Rightarrow> \<not> preserve | Op_reset_all tid \<Rightarrow> False | _ \<Rightarrow> True)"

lemma mark_logged: "logs_all p \<Longrightarrow> mark_gap p no_gap = no_gap"
  by (cases p) (simp_all add: logs_all_def)

lemma unlogged_snoc: "unlogged (ops @ [nop]) = mark_gap (snd nop) (unlogged ops)"
  by (simp add: unlogged_def)

lemma unlogged_none: "\<forall>p\<in>set ops. logs_all (snd p) \<Longrightarrow> unlogged ops = no_gap"
  by (induction ops rule: rev_induct) (simp_all add: unlogged_snoc mark_logged, simp add: unlogged_def)

text \<open>
  The contract of an event-sourced store: every allowed operation keeps the log faithful to the
  tables up to the gap it leaves, and a faithful log rebuilds them up to that gap.
\<close>

locale event_sourced =
  fixes exec :: "'o \<Rightarrow> 's \<Rightarrow> 's" and allowed :: "'o \<Rightarrow> bool" and mark :: "'o \<Rightarrow> 'w \<Rightarrow> 'w"
    and faithful :: "'w \<Rightarrow> 's \<Rightarrow> bool" and tables :: "'s \<Rightarrow> 'd" and rebuilt :: "'s \<Rightarrow> 'd \<Rightarrow> bool"
    and same :: "'w \<Rightarrow> 'd \<Rightarrow> 'd \<Rightarrow> bool"
  assumes step: "allowed p \<Longrightarrow> faithful w s \<Longrightarrow> faithful (mark p w) (exec p s)"
    and rebuild: "faithful w s \<Longrightarrow> \<exists>d. rebuilt s d \<and> same w (tables s) d"
begin

lemma run_faithful:
  "\<forall>p\<in>set ps. allowed p \<Longrightarrow> faithful w s \<Longrightarrow> faithful (fold mark ps w) (fold exec ps s)"
  by (induction ps arbitrary: s w) (simp_all add: step)

lemma run_rebuild:
  "\<forall>p\<in>set ps. allowed p \<Longrightarrow> faithful w s \<Longrightarrow>
   \<exists>d. rebuilt (fold exec ps s) d \<and> same (fold mark ps w) (tables (fold exec ps s)) d"
  by (rule rebuild) (rule run_faithful)

end

definition rebuilds_to :: "validator \<Rightarrow> string \<Rightarrow> string list \<Rightarrow> store_state \<Rightarrow> task_db \<Rightarrow> bool" where
  "rebuilds_to V now dirs s d \<longleftrightarrow>
     (\<exists>sm. rebuild_sqlite V now dirs True (st_log s) (st_db s) = Inr (d, sm)) \<and>
     tb_process d = tb_process (st_db s)"

lemma synced_rebuilds_in_sync:
  assumes "pydantic_laws V" "log_synced V W s"
  shows "\<exists>d. rebuilds_to V now dirs s d \<and> in_sync V no_gap (log_state (st_log s)) d"
proof -
  obtain r where "rebuild_sqlite V now dirs True (st_log s) (st_db s) = Inr r"
      "in_sync V no_gap (log_state (st_log s)) (fst r)" "tb_process (fst r) = tb_process (st_db s)"
    using rebuild_sync [OF assms(2, 1) order.refl, of now dirs] by blast
  then show ?thesis by (cases r) (auto simp: rebuilds_to_def)
qed

lemma synced_rebuilds:
  assumes "pydantic_laws V" "log_synced V W s"
  shows "\<exists>d. rebuilds_to V now dirs s d \<and> same_tables_but W (st_db s) d"
  using synced_rebuilds_in_sync [OF assms] sync_agree_but [OF assms(2)] by blast

interpretation task_log: event_sourced "run_op V ft" "\<lambda>p. pydantic_laws V \<and> op_ok V p"
  "\<lambda>nop. mark_gap (snd nop)" "\<lambda>W s. pydantic_laws V \<and> log_synced V W s" st_db "rebuilds_to V now dirs"
  same_tables_but for V ft now dirs
  by unfold_locales (simp_all add: run_op_sync synced_rebuilds)

lemma run_store_sync:
  assumes "pydantic_laws V" "\<forall>p\<in>set ops. op_ok V p"
  shows "log_synced V (unlogged ops) (run_store V ft ops (fresh_store t0))"
  using task_log.run_faithful [where V = V and ft = ft and ps = ops and s = "fresh_store t0" and w = no_gap] assms
  by (simp add: run_store_def unlogged_def fresh_sync)

section \<open>Demonstration data\<close>

definition demo_validator :: validator where
  "demo_validator k d =
     (let s = stored_payload d in
      case k of
        Workspace_State \<Rightarrow> Some (map (\<lambda>f. (f, py_get f s)) (map fst default_workspace))
      | Task_State_Record \<Rightarrow>
          (if as_str (py_get ''status'' s) = None then None
           else Some [(''status'', py_get ''status'' s), (''pipeline_status'', py_get ''pipeline_status'' s),
                  (''updated_at'', py_get ''updated_at'' s),
                  (''runtime'', PyDict [(''pipeline'',
                     PyDict [(''updated_at'', py_get ''updated_at'' (pipeline_block s))])])])
      | _ \<Rightarrow> Some s)"

lemma demo_validator_laws: "pydantic_laws demo_validator"
  unfolding pydantic_laws_def
proof (intro conjI allI impI)
  show "map_option stored_payload (demo_validator k d) = map_option stored_payload (demo_validator k e)"
    if "stored_payload d = stored_payload e" for k d e
    unfolding demo_validator_def that ..
  show "demo_validator Workspace_State default_workspace = Some default_workspace"
    by (simp add: demo_validator_def default_workspace_def)
next
  fix d n
  assume "demo_validator Workspace_State d = Some d"
  then have "map (\<lambda>f. (f, py_get f (stored_payload d))) (map fst default_workspace) = d"
    by (simp add: demo_validator_def Let_def)
  then have form: "[(''active_task_id'', key_sorted (py_get ''active_task_id'' d)), (''queue'', key_sorted (py_get ''queue'' d)),
      (''pool_stop_reason'', key_sorted (py_get ''pool_stop_reason'' d)),
      (''consecutive_task_failures'', key_sorted (py_get ''consecutive_task_failures'' d)),
      (''next_task_number'', key_sorted (py_get ''next_task_number'' d)),
      (''unmerged_worktrees'', key_sorted (py_get ''unmerged_worktrees'' d))] = d"
    by (simp add: default_workspace_def)
  obtain a b c e f g where d: "d = [(''active_task_id'', a), (''queue'', b), (''pool_stop_reason'', c),
      (''consecutive_task_failures'', e), (''next_task_number'', f), (''unmerged_worktrees'', g)]"
    using form [symmetric] by blast
  have "key_sorted a = a" "key_sorted b = b" "key_sorted c = c" "key_sorted e = e" "key_sorted g = g"
    using form by (simp_all add: d)
  then show "demo_validator Workspace_State (AList.update ''next_task_number'' (PyInt n) d) =
      Some (AList.update ''next_task_number'' (PyInt n) d)"
    by (simp add: demo_validator_def default_workspace_def d)
next
  fix d t
  assume valid: "demo_validator Task_State_Record d = Some d"
  then have form: "[(''status'', py_get ''status'' (stored_payload d)),
      (''pipeline_status'', py_get ''pipeline_status'' (stored_payload d)),
      (''updated_at'', py_get ''updated_at'' (stored_payload d)),
      (''runtime'', PyDict [(''pipeline'',
         PyDict [(''updated_at'', py_get ''updated_at'' (pipeline_block (stored_payload d)))])])] = d"
    and str: "as_str (py_get ''status'' (stored_payload d)) \<noteq> None"
    by (simp_all add: demo_validator_def Let_def split: if_splits)
  obtain a b c e where d: "d = [(''status'', a), (''pipeline_status'', b), (''updated_at'', c),
      (''runtime'', PyDict [(''pipeline'', PyDict [(''updated_at'', e)])])]"
    using form [symmetric] by blast
  have "key_sorted a = a" "key_sorted b = b" "key_sorted c = c" "key_sorted e = e" "as_str (key_sorted a) \<noteq> None"
    using form str by (simp_all add: d pipeline_block_def dict_field_def)
  then show "demo_validator Task_State_Record (stamped_record t d) = Some (stamped_record t d)"
    by (simp add: demo_validator_def Let_def d stamped_record_def set_pipeline_updated_at_def pipeline_updated_at_def
        pipeline_block_def dict_field_def split: option.split)
qed

end
