(* ===== verification/Rebuild_Properties.thy ===== *)
theory Rebuild_Properties
  imports Store_Properties Resume_Properties
begin

text \<open>
  The properties of the event log as the second copy of the database: runs of the stores, a lost
  database, a crash between the log and the commit, the counter of new tasks, and the two resets
  whose log says something else than the tables.
\<close>

section \<open>A run for the witnesses\<close>

definition demo_state_dict :: jdict where
  "demo_state_dict =
     [(''status'', PyStr ''queued''), (''pipeline_status'', PyStr ''backlog''),
      (''updated_at'', PyStr ''t1''),
      (''runtime'', PyDict [(''pipeline'', PyDict [(''updated_at'', PyNone)])])]"

definition demo_ops :: "(string \<times> store_op) list" where
  "demo_ops =
     [(''t1'', Op_state ''T-0007'' demo_state_dict),
      (''t2'', Op_journal ''T-0007'' ''queued''),
      (''t3'', Op_journal_item ''T-0007'' 0 (task_started_item READY))]"

definition demo_reset_ops :: "(string \<times> store_op) list" where
  "demo_reset_ops =
     demo_ops @ [(''t4'', Op_reset_pipeline default_limits ''T-0007'' True), (''t5'', Op_reset_all ''T-0007'')]"

lemma demo_ops_ok: "\<forall>p\<in>set demo_ops. op_ok demo_validator p"
  by (simp add: demo_ops_def op_ok_def state_ok_def demo_state_dict_def demo_validator_def dict_ok_def
      pipeline_block_def dict_field_def)

lemma demo_reset_ops_ok: "\<forall>p\<in>set demo_reset_ops. op_ok demo_validator p"
  using demo_ops_ok by (simp add: demo_reset_ops_def op_ok_def)

section \<open>Replaying, healing\<close>

text \<open>C5: whatever the stores did - saves, transactions, journal and audit rows, reports, deletions,
  lifecycle rows and resets of every kind, in any order, each event appended whole - a rebuild from the
  event log succeeds, keeps the processes table, and gives back every table the program wrote but for
  the gap of the resets: a task whose last reset kept its memory and was not saved since may have lost
  its state row, and a task wiped and not deleted since has its old history back before the new. A run
  without these two kinds of operation leaves no gap.\<close>

theorem replayed_log_rebuilds_store:
  assumes "pydantic_laws V" "\<forall>p\<in>set ops. op_ok V p"
  shows "\<exists>d. rebuilds_to V now dirs (run_store V ft ops (fresh_store t0)) d \<and>
           same_tables_but (unlogged ops) (st_db (run_store V ft ops (fresh_store t0))) d"
  unfolding run_store_def unlogged_def by (rule task_log.run_rebuild) (simp_all add: assms fresh_sync)

lemma logged_run_rebuilds:
  assumes "pydantic_laws V" "\<forall>p\<in>set ops. op_ok V p" "\<forall>p\<in>set ops. logs_all (snd p)"
  shows "\<exists>d. rebuilds_to V now dirs (run_store V ft ops (fresh_store t0)) d \<and>
           same_tables (st_db (run_store V ft ops (fresh_store t0))) d"
  using synced_rebuilds [OF assms(1) run_store_sync [OF assms(1, 2)]] unlogged_none [OF assms(3)]
  by (simp add: same_tables_no_gap)

theorem replayed_log_rebuilds_store_witness:
  "\<exists>d. rebuilds_to demo_validator ''now'' [] (run_store demo_validator (\<lambda>_. ''0.0'') demo_reset_ops (fresh_store ''t0'')) d \<and>
     same_tables_but (unlogged demo_reset_ops) (st_db (run_store demo_validator (\<lambda>_. ''0.0'') demo_reset_ops (fresh_store ''t0''))) d"
  by (rule replayed_log_rebuilds_store [OF demo_validator_laws demo_reset_ops_ok])

lemma bootstrap_heals:
  assumes "pydantic_laws V" "log_synced V W s"
  shows "\<exists>s'. bootstrap V now dirs (s \<lparr>st_db := blank_db\<rparr>) = Inr s' \<and> st_log s' = st_log s \<and>
           log_synced V no_gap s' \<and> tb_process (st_db s') = []"
proof (cases "has_events (st_log s)")
  case True
  let ?db0 = "create_workspace_state_rows now blank_db"
  have "sqlite_task_ids (Some ?db0) \<subseteq> sqlite_task_ids (Some (st_db s))"
    by (simp add: create_workspace_state_rows_def blank_db_def sqlite_task_ids_def)
  then obtain r where "rebuild_sqlite V now dirs True (st_log s) ?db0 = Inr r"
      "in_sync V no_gap (log_state (st_log s)) (fst r)" "tb_process (fst r) = tb_process ?db0"
    using rebuild_sync [OF assms(2, 1), of ?db0 now dirs] by blast
  moreover have "should_rebuild_from_task_event_log (on_db (create_workspace_state_rows now) (s \<lparr>st_db := blank_db\<rparr>))"
    using True by (simp add: should_rebuild_from_task_event_log_def sqlite_task_tables_empty_def
        create_workspace_state_rows_def blank_db_def)
  moreover have "tb_process ?db0 = []" by (simp add: create_workspace_state_rows_def blank_db_def)
  ultimately show ?thesis by (simp add: bootstrap_def)
next
  case False
  then have "log_state (st_log s) = empty_replay" by (simp add: has_events_iff log_state_def replay_def)
  moreover have "\<not> should_rebuild_from_task_event_log (on_db (create_workspace_state_rows now) (s \<lparr>st_db := blank_db\<rparr>))"
    using False by (simp add: should_rebuild_from_task_event_log_def)
  moreover have "tb_process (create_workspace_state_rows now blank_db) = []"
    by (simp add: create_workspace_state_rows_def blank_db_def)
  ultimately show ?thesis using blank_sync [OF assms(1), of now] by (simp add: bootstrap_def)
qed

text \<open>C6: a workspace whose database file was lost opens again: bootstrap creates the tables and replays
  the log, every table the log covers is as before but for the gap of the resets, and the processes
  table, which no event records, is empty.\<close>

theorem lost_database_heals:
  assumes "pydantic_laws V" "\<forall>p\<in>set ops. op_ok V p"
  shows "\<exists>s'. bootstrap V now dirs (run_store V ft ops (fresh_store t0) \<lparr>st_db := blank_db\<rparr>) = Inr s' \<and>
           same_tables_but (unlogged ops) (st_db (run_store V ft ops (fresh_store t0))) (st_db s') \<and>
           tb_process (st_db s') = []"
proof -
  note s = run_store_sync [OF assms, of ft t0]
  show ?thesis using bootstrap_heals [OF assms(1) s, of now dirs] sync_agree_but [OF s] by metis
qed

theorem lost_database_heals_witness:
  "\<exists>s'. bootstrap demo_validator ''now'' [] (run_store demo_validator (\<lambda>_. ''0.0'') demo_reset_ops (fresh_store ''t0'') \<lparr>st_db := blank_db\<rparr>) = Inr s' \<and>
     same_tables_but (unlogged demo_reset_ops) (st_db (run_store demo_validator (\<lambda>_. ''0.0'') demo_reset_ops (fresh_store ''t0''))) (st_db s') \<and>
     tb_process (st_db s') = []"
  by (rule lost_database_heals [OF demo_validator_laws demo_reset_ops_ok])

section \<open>The log is ahead of the commit\<close>

definition killed_before_commit :: "store_state \<Rightarrow> store_state \<Rightarrow> store_state" where
  "killed_before_commit s s' = s' \<lparr>st_db := st_db s\<rparr>"

text \<open>C15: each writer appends to the log before it commits, so a process killed in between leaves an
  operation in the log that the tables never saw. A rebuild redoes the operation (up to the gap of the
  resets), except a deletion, which it refuses by naming the task whose rows the log has dropped.\<close>

theorem uncommitted_operation:
  assumes "pydantic_laws V" "\<forall>p\<in>set ops. op_ok V p" "op_ok V nop"
  shows "let s = run_store V ft ops (fresh_store t0);
             after = run_op V ft nop s;
             crashed = killed_before_commit s after;
             lost = sqlite_task_ids (Some (st_db s)) - sqlite_task_ids (Some (st_db after))
         in if lost = {}
            then \<exists>d. rebuilds_to V now dirs crashed d \<and> same_tables_but (unlogged (ops @ [nop])) (st_db after) d
            else rebuild_sqlite V now dirs True (st_log crashed) (st_db crashed) =
                 Inl (Rebuild_unsafe (sorted_list_of_set lost))"
proof -
  define s where "s = run_store V ft ops (fresh_store t0)"
  define s' where "s' = run_op V ft nop s"
  have s': "log_synced V (unlogged (ops @ [nop])) s'"
    unfolding s_def s'_def unlogged_snoc by (rule run_op_sync [OF assms(1, 3) run_store_sync [OF assms(1, 2)]])
  have "if sqlite_task_ids (Some (st_db s)) - sqlite_task_ids (Some (st_db s')) = {}
        then \<exists>d. rebuilds_to V now dirs (killed_before_commit s s') d \<and>
          same_tables_but (unlogged (ops @ [nop])) (st_db s') d
        else rebuild_sqlite V now dirs True (st_log (killed_before_commit s s'))
            (st_db (killed_before_commit s s')) = Inl (Rebuild_unsafe (sorted_list_of_set
              (sqlite_task_ids (Some (st_db s)) - sqlite_task_ids (Some (st_db s')))))"
  proof (cases "sqlite_task_ids (Some (st_db s)) \<subseteq> sqlite_task_ids (Some (st_db s'))")
    case True
    then obtain r where r: "rebuild_sqlite V now dirs True (st_log s') (st_db s) = Inr r"
        "in_sync V no_gap (log_state (st_log s')) (fst r)" "tb_process (fst r) = tb_process (st_db s)"
      using rebuild_sync [OF s' assms(1)] by blast
    have "rebuilds_to V now dirs (killed_before_commit s s') (fst r)"
      using r by (cases r) (simp add: rebuilds_to_def killed_before_commit_def)
    then show ?thesis using True sync_agree_but [OF s' r(2)] by auto
  next
    case False
    have refused: "rebuild_sqlite V now dirs True (st_log s') (st_db s) = Inl (Rebuild_unsafe (sorted_list_of_set
        (sqlite_task_ids (Some (st_db s)) - sqlite_task_ids (Some (st_db s')))))"
      unfolding sync_ids [OF s'] by (rule rebuild_refused) (use False sync_ids [OF s'] in simp)
    show ?thesis using False refused by (simp add: killed_before_commit_def)
  qed
  then show ?thesis unfolding s_def s'_def Let_def .
qed

definition demo_removal :: "string \<times> store_op" where
  "demo_removal = (''t5'', Op_delete ''T-0007'' [])"

theorem uncommitted_operation_witness:
  "let s = run_store demo_validator (\<lambda>_. ''0.0'') demo_ops (fresh_store ''t0'');
       after = run_op demo_validator (\<lambda>_. ''0.0'') demo_removal s;
       crashed = killed_before_commit s after;
       lost = sqlite_task_ids (Some (st_db s)) - sqlite_task_ids (Some (st_db after))
   in if lost = {}
      then \<exists>d. rebuilds_to demo_validator ''now'' [] crashed d \<and>
           same_tables_but (unlogged (demo_ops @ [demo_removal])) (st_db after) d
      else rebuild_sqlite demo_validator ''now'' [] True (st_log crashed) (st_db crashed) =
           Inl (Rebuild_unsafe (sorted_list_of_set lost))"
  by (rule uncommitted_operation [OF demo_validator_laws demo_ops_ok])
     (simp add: demo_removal_def op_ok_def)

section \<open>The counter\<close>

lemma fold_max_low: "n \<le> fold (\<lambda>x n. case g x of None \<Rightarrow> n | Some i \<Rightarrow> max n i) xs (n :: int)"
proof (induction xs arbitrary: n)
  case (Cons x xs)
  show ?case
  proof (cases "g x")
    case (Some i)
    then show ?thesis using Cons [of "max n i"] by simp
  qed (simp add: Cons)
qed simp

lemma fold_max_bound:
  "x \<in> set xs \<Longrightarrow> g x = Some i \<Longrightarrow> i \<le> fold (\<lambda>x n. case g x of None \<Rightarrow> n | Some i \<Rightarrow> max n i) xs (n :: int)"
proof (induction xs arbitrary: n)
  case (Cons y ys)
  show ?case
  proof (cases "x = y")
    case True
    then show ?thesis using fold_max_low [of "max n i" g ys] Cons.prems by simp
  next
    case False
    then show ?thesis using Cons by simp
  qed
qed simp

text \<open>After a rebuild the workspace counter is at least the number of every task in the tables, so
  the next task gets a new id.\<close>

lemma rebuilt_counter_is_fresh:
  assumes "pydantic_laws V" "\<forall>p\<in>set ops. op_ok V p"
  shows "let s = run_store V ft ops (fresh_store t0)
         in \<exists>d sm p n. rebuild_sqlite V now dirs True (st_log s) (st_db s) = Inr (d, sm) \<and>
              tb_pool_state d = Some (p, now) \<and> py_get ''next_task_number'' p = PyInt n \<and> 0 \<le> n \<and>
              (\<forall>tid\<in>sqlite_task_ids (Some d). \<forall>i. int_of_text (removeprefix tid ''T-'') = Some i \<longrightarrow> i \<le> n)"
proof -
  define s where "s = run_store V ft ops (fresh_store t0)"
  let ?rs = "log_state (st_log s)" and ?num = "\<lambda>tid. int_of_text (removeprefix tid ''T-'')"
  have s: "log_synced V (unlogged ops) s" unfolding s_def by (rule run_store_sync [OF assms])
  obtain r where r: "rebuild_sqlite V now dirs True (st_log s) (st_db s) = Inr r" "in_sync V no_gap ?rs (fst r)"
      "counter_above (fst r) now ?rs"
    using rebuild_sync [OF s assms(1) order.refl, of now dirs] by blast
  obtain d n where d: "tb_pool_state (fst r) = Some (stored_payload (AList.delete ''queue'' d), now)"
      "py_get ''next_task_number'' d = PyInt n" "highest_replayed_number ?rs \<le> n"
    using r(3) unfolding counter_above_def by blast
  have "py_get ''next_task_number'' (stored_payload (AList.delete ''queue'' d)) = PyInt n"
    using d(2) by (simp add: py_get_def dict_get_def map_of_stored_any delete_conv' split: option.splits)
  moreover have "0 \<le> n"
    using fold_max_low [of 0 ?num "replayed_task_ids ?rs"] d(3) by (simp add: highest_replayed_number_def)
  moreover have "i \<le> n" if "tid \<in> sqlite_task_ids (Some (fst r))" "?num tid = Some i" for tid i
    using fold_max_bound [of tid "replayed_task_ids ?rs" ?num i 0]
      that sync_ids [OF r(2)] d(3) by (simp add: highest_replayed_number_def)
  ultimately show ?thesis using r(1) d(1) unfolding s_def [symmetric] Let_def by (cases r) auto
qed

lemma rebuilt_counter_is_fresh_witness:
  "let s = run_store demo_validator (\<lambda>_. ''0.0'') demo_ops (fresh_store ''t0'')
   in \<exists>d sm p n. rebuild_sqlite demo_validator ''now'' [] True (st_log s) (st_db s) = Inr (d, sm) \<and>
        tb_pool_state d = Some (p, ''now'') \<and> py_get ''next_task_number'' p = PyInt n \<and> 0 \<le> n \<and>
        (\<forall>tid\<in>sqlite_task_ids (Some d). \<forall>i. int_of_text (removeprefix tid ''T-'') = Some i \<longrightarrow> i \<le> n)"
  by (rule rebuilt_counter_is_fresh [OF demo_validator_laws demo_ops_ok])

section \<open>Resets\<close>

lemma reset_pipeline_kept:
  assumes "load_pipeline now l tid (st_db s) = Inr previous"
    "recovery_history previous \<noteq> [] \<or> failed_run_history previous \<noteq> []"
  shows "reset_pipeline ft now l tid True s =
           Inr (log_event now ''pipeline_task_state_reset'' (Some tid) []
             (on_db (put_pipeline tid (row_of ft now (reset_state l tid previous))) s))"
  using assms by (auto simp: reset_pipeline_def reset_current_lifecycle_state_def load_pipeline_def
      append_event_def lifecycle_view_def on_db_def put_pipeline_def)

text \<open>A reset that keeps the recovery and failed-run memory writes the row with the memory into the
  database and an event without it: after a rebuild the row is gone and the memory with it.\<close>

lemma logged_reset:
  assumes "tid \<noteq> []"
    "in_sync V no_gap (log_state (st_log (log_event now ''pipeline_task_state_reset'' (Some tid) [] s))) d"
  shows "map_of (tb_pipeline d) tid = None"
  using in_syncD(11) [OF assms(2), unfolded fst_conv sync_exact] assms(1)
  by (simp add: apply_reset_event delete_conv') (metis option.map_disc_iff)

lemma reset_with_memory_is_lost:
  assumes "pydantic_laws V" "\<forall>p\<in>set ops. op_ok V p" "tid \<noteq> []"
    "load_pipeline now l tid (st_db (run_store V ft ops (fresh_store t0))) = Inr previous"
    "recovery_history previous \<noteq> [] \<or> failed_run_history previous \<noteq> []"
  shows "\<exists>s' d. reset_pipeline ft now l tid True (run_store V ft ops (fresh_store t0)) = Inr s' \<and>
           map_of (tb_pipeline (st_db s')) tid = Some (row_of ft now (reset_state l tid previous)) \<and>
           rebuilds_to V now' dirs s' d \<and> map_of (tb_pipeline d) tid = None"
proof -
  let ?s = "run_store V ft ops (fresh_store t0)"
  let ?s' = "log_event now ''pipeline_task_state_reset'' (Some tid) []
      (on_db (put_pipeline tid (row_of ft now (reset_state l tid previous))) ?s)"
  note kept = reset_pipeline_kept [OF assms(4, 5), of ft]
  have "log_synced V (insert tid (fst (unlogged ops)), snd (unlogged ops)) ?s'"
    using reset_pipeline_sync [OF run_store_sync [OF assms(1, 2)] assms(3) kept] by simp
  then obtain d where d: "rebuilds_to V now' dirs ?s' d" "in_sync V no_gap (log_state (st_log ?s')) d"
    using synced_rebuilds_in_sync [OF assms(1)] by blast
  have "map_of (tb_pipeline d) tid = None" by (rule logged_reset [OF assms(3) d(2)])
  moreover have "map_of (tb_pipeline (st_db ?s')) tid = Some (row_of ft now (reset_state l tid previous))"
    by (simp add: put_pipeline_def update_conv')
  ultimately show ?thesis using kept d(1) by blast
qed

definition demo_failed_ops :: "(string \<times> store_op) list" where
  "demo_failed_ops = demo_ops @ [(''t5'', Op_pipeline demo_failed)]"

lemma demo_failed_ops_ok: "\<forall>p\<in>set demo_failed_ops. op_ok demo_validator p"
  using demo_ops_ok by (simp add: demo_failed_ops_def op_ok_def demo_failed_def demo_task_def fresh_state_def)

lemma reset_with_memory_is_lost_witness:
  "\<exists>s' d. reset_pipeline (\<lambda>_. ''0.0'') ''now'' default_limits ''T-1'' True
       (run_store demo_validator (\<lambda>_. ''0.0'') demo_failed_ops (fresh_store ''t0'')) = Inr s' \<and>
     map_of (tb_pipeline (st_db s')) ''T-1'' =
       Some (row_of (\<lambda>_. ''0.0'') ''now'' (reset_state default_limits ''T-1'' (reloaded demo_failed))) \<and>
     rebuilds_to demo_validator ''now'' [] s' d \<and> map_of (tb_pipeline d) ''T-1'' = None"
proof (rule reset_with_memory_is_lost [OF demo_validator_laws demo_failed_ops_ok])
  have st: "storable demo_failed" "lims demo_failed = default_limits" "task_id demo_failed = ''T-1''"
    by (simp_all add: demo_failed_def storable_def dict_ok_def demo_task_def fresh_state_def)
  have "map_of (tb_pipeline (st_db (run_store demo_validator (\<lambda>_. ''0.0'') demo_failed_ops (fresh_store ''t0'')))) ''T-1'' =
      Some (row_of (\<lambda>_. ''0.0'') ''t5'' demo_failed)"
    by (simp add: run_store_def demo_failed_ops_def run_op_def save_pipeline_def put_pipeline_def
        update_conv' st(3) Let_def)
  then show "load_pipeline ''now'' default_limits ''T-1''
      (st_db (run_store demo_validator (\<lambda>_. ''0.0'') demo_failed_ops (fresh_store ''t0''))) = Inr (reloaded demo_failed)"
    using load_row [OF _ st(1, 2)] st(3) by (simp add: load_pipeline_def lifecycle_view_def)
  show "recovery_history (reloaded demo_failed) \<noteq> [] \<or> failed_run_history (reloaded demo_failed) \<noteq> []"
    by (simp add: reloaded_def demo_failed_def)
qed simp

lemma history_gap_outside:
  assumes "history_gap f H rows tb" "x \<notin> H"
  shows "filter (\<lambda>r. f r = x) rows = filter (\<lambda>r. f r = x) tb"
proof -
  have "filter (\<lambda>r. f r = x) ys = filter (\<lambda>r. f r = x) (filter (\<lambda>r. f r \<notin> H) ys)" for ys
    using assms(2) by (induction ys) auto
  then show ?thesis using assms(1) unfolding history_gap_def by metis
qed

text \<open>The command that wipes a task's pipeline deletes its transitions and lifecycle rows, but logs
  only the reset of the row: the next rebuild brings every wiped row back.\<close>

lemma reset_all_is_undone_by_replay:
  assumes "pydantic_laws V" "\<forall>p\<in>set ops. op_ok V p" "tid \<noteq> []" "tid \<notin> snd (unlogged ops)"
  shows "let s = run_store V ft ops (fresh_store t0); s' = reset_all_lifecycle now tid s
         in load_transitions tid (st_db s') = [] \<and> load_lifecycle tid (st_db s') = [] \<and>
            (\<exists>d. rebuilds_to V now' dirs s' d \<and> map_of (tb_pipeline d) tid = None \<and>
               load_transitions tid d = load_transitions tid (st_db s) \<and>
               load_lifecycle tid d = load_lifecycle tid (st_db s))"
proof -
  let ?s = "run_store V ft ops (fresh_store t0)"
  let ?s' = "reset_all_lifecycle now tid ?s"
  let ?W = "unlogged ops"
  note s = run_store_sync [OF assms(1, 2), of ft t0]
  obtain d where d: "rebuilds_to V now' dirs ?s' d" "in_sync V no_gap (log_state (st_log ?s')) d"
    using synced_rebuilds_in_sync [OF assms(1) reset_all_sync [OF s assms(3), of now]] by blast
  have row: "map_of (tb_pipeline d) tid = None"
    by (rule logged_reset [OF assms(3)]) (use d(2) in \<open>simp add: reset_all_lifecycle_def\<close>)
  have "in_sync V (fst ?W - {tid}, snd ?W) (log_state (st_log ?s'))
      (st_db ?s \<lparr>tb_pipeline := AList.delete tid (tb_pipeline (st_db ?s))\<rparr>)"
    using in_syncD [OF s] assms(3)
    by (intro in_syncI) (simp_all add: reset_all_lifecycle_def apply_reset_event sync_pipeline_delete)
  from sync_agree_but [OF this d(2)]
  have "history_gap xn_task_id (snd ?W) (tb_transitions d) (tb_transitions (st_db ?s))"
      "history_gap lf_task_id (snd ?W) (tb_lifecycle d) (tb_lifecycle (st_db ?s))"
    by (simp_all add: same_tables_but_def differ_by_def)
  then have "load_transitions tid d = load_transitions tid (st_db ?s)" "load_lifecycle tid d = load_lifecycle tid (st_db ?s)"
    using assms(4) history_gap_outside unfolding load_transitions_def load_lifecycle_def by metis+
  moreover have "load_transitions tid (st_db ?s') = []" "load_lifecycle tid (st_db ?s') = []"
    by (simp_all add: reset_all_lifecycle_def load_transitions_def load_lifecycle_def)
  ultimately show ?thesis using d(1) row by (auto simp: Let_def)
qed

lemma reset_all_is_undone_by_replay_witness:
  "let s = run_store demo_validator (\<lambda>_. ''0.0'') demo_ops (fresh_store ''t0''); s' = reset_all_lifecycle ''now'' ''T-0007'' s
   in load_transitions ''T-0007'' (st_db s') = [] \<and> load_lifecycle ''T-0007'' (st_db s') = [] \<and>
      (\<exists>d. rebuilds_to demo_validator ''now'' [] s' d \<and> map_of (tb_pipeline d) ''T-0007'' = None \<and>
         load_transitions ''T-0007'' d = load_transitions ''T-0007'' (st_db s) \<and>
         load_lifecycle ''T-0007'' d = load_lifecycle ''T-0007'' (st_db s))"
  by (rule reset_all_is_undone_by_replay [OF demo_validator_laws demo_ops_ok])
     (simp_all add: demo_ops_def unlogged_def)

end
