(* ===== verification/Pool_Domain.thy ===== *)
theory Pool_Domain
  imports Task_History
begin

text \<open>
  What a pool run reports: \<open>litehive/domain/pool.py\<close> (stop reasons, the summary and its legacy mappings,
  the findings of the dirty-worktree gate) and the report half of \<open>litehive/cli/pool.py\<close>.
\<close>

section \<open>Stop reasons\<close>

datatype pool_stop_reason =
    Psr_SINGLE_TASK_COMPLETE | Psr_QUEUE_EXHAUSTED | Psr_TASK_REQUEUED
  | Psr_TASK_INTERRUPTED | Psr_CONTINUE_OR_ROLLBACK_REQUIRED | Psr_BLOCKED_TASKS_REMAINING
  | Psr_STOP_CONDITION_REACHED | Psr_MAX_TASKS_REACHED | Psr_FAILURE_DETECTED
  | Psr_CONSECUTIVE_TASK_FAILURES | Psr_DIRTY_GIT_STATE | Psr_DIVERGED_FROM_ORIGIN
  | Psr_ATTENTION_REQUIRED | Psr_HUMAN_CHECKPOINT_BEFORE_ACCEPTANCE | Psr_HUMAN_CHECKPOINT_BEFORE_COMMIT
  | Psr_HUMAN_CHECKPOINT_REACHED

definition pool_stop_reason_members :: "pool_stop_reason list" where
  "pool_stop_reason_members =
    [Psr_SINGLE_TASK_COMPLETE, Psr_QUEUE_EXHAUSTED, Psr_TASK_REQUEUED,
     Psr_TASK_INTERRUPTED, Psr_CONTINUE_OR_ROLLBACK_REQUIRED, Psr_BLOCKED_TASKS_REMAINING,
     Psr_STOP_CONDITION_REACHED, Psr_MAX_TASKS_REACHED, Psr_FAILURE_DETECTED,
     Psr_CONSECUTIVE_TASK_FAILURES, Psr_DIRTY_GIT_STATE, Psr_DIVERGED_FROM_ORIGIN,
     Psr_ATTENTION_REQUIRED, Psr_HUMAN_CHECKPOINT_BEFORE_ACCEPTANCE, Psr_HUMAN_CHECKPOINT_BEFORE_COMMIT,
     Psr_HUMAN_CHECKPOINT_REACHED]"

fun pool_stop_reason_value :: "pool_stop_reason \<Rightarrow> string" where
  "pool_stop_reason_value Psr_SINGLE_TASK_COMPLETE = ''single_task_complete''"
| "pool_stop_reason_value Psr_QUEUE_EXHAUSTED = ''queue_exhausted''"
| "pool_stop_reason_value Psr_TASK_REQUEUED = ''task_requeued''"
| "pool_stop_reason_value Psr_TASK_INTERRUPTED = ''task_interrupted''"
| "pool_stop_reason_value Psr_CONTINUE_OR_ROLLBACK_REQUIRED = ''continue_or_rollback_required''"
| "pool_stop_reason_value Psr_BLOCKED_TASKS_REMAINING = ''blocked_tasks_remaining''"
| "pool_stop_reason_value Psr_STOP_CONDITION_REACHED = ''stop_condition_reached''"
| "pool_stop_reason_value Psr_MAX_TASKS_REACHED = ''max_tasks_reached''"
| "pool_stop_reason_value Psr_FAILURE_DETECTED = ''failure_detected''"
| "pool_stop_reason_value Psr_CONSECUTIVE_TASK_FAILURES = ''consecutive_task_failures''"
| "pool_stop_reason_value Psr_DIRTY_GIT_STATE = ''dirty_git_state''"
| "pool_stop_reason_value Psr_DIVERGED_FROM_ORIGIN = ''diverged_from_origin''"
| "pool_stop_reason_value Psr_ATTENTION_REQUIRED = ''attention_required''"
| "pool_stop_reason_value Psr_HUMAN_CHECKPOINT_BEFORE_ACCEPTANCE = ''human_checkpoint_before_acceptance''"
| "pool_stop_reason_value Psr_HUMAN_CHECKPOINT_BEFORE_COMMIT = ''human_checkpoint_before_commit''"
| "pool_stop_reason_value Psr_HUMAN_CHECKPOINT_REACHED = ''human_checkpoint_reached''"

interpretation psr: string_enum pool_stop_reason_members pool_stop_reason_value
proof unfold_locales
  show "x \<in> set pool_stop_reason_members" for x
    by (cases x) (simp_all add: pool_stop_reason_members_def)
qed code_simp

definition stop_reason_from_value :: "string \<Rightarrow> pool_stop_reason option" where
  "stop_reason_from_value v = enum_parse pool_stop_reason_value pool_stop_reason_members v"

fun operator_label :: "pool_stop_reason \<Rightarrow> string" where
  "operator_label Psr_SINGLE_TASK_COMPLETE = ''single task complete''"
| "operator_label Psr_QUEUE_EXHAUSTED = ''queue exhausted''"
| "operator_label Psr_TASK_REQUEUED = ''task requeued for another pass''"
| "operator_label Psr_TASK_INTERRUPTED = ''task interrupted and awaiting resume''"
| "operator_label Psr_CONTINUE_OR_ROLLBACK_REQUIRED = ''continue or rollback required''"
| "operator_label Psr_BLOCKED_TASKS_REMAINING = ''blocked tasks remaining''"
| "operator_label Psr_STOP_CONDITION_REACHED = ''custom stop condition reached''"
| "operator_label Psr_MAX_TASKS_REACHED = ''max tasks reached''"
| "operator_label Psr_FAILURE_DETECTED = ''failure detected''"
| "operator_label Psr_CONSECUTIVE_TASK_FAILURES = ''consecutive task failures''"
| "operator_label Psr_DIRTY_GIT_STATE = ''dirty git state''"
| "operator_label Psr_DIVERGED_FROM_ORIGIN = ''local main diverged from origin/main''"
| "operator_label Psr_ATTENTION_REQUIRED = ''attention required''"
| "operator_label Psr_HUMAN_CHECKPOINT_BEFORE_ACCEPTANCE = ''human checkpoint before acceptance''"
| "operator_label Psr_HUMAN_CHECKPOINT_BEFORE_COMMIT = ''human checkpoint before commit''"
| "operator_label Psr_HUMAN_CHECKPOINT_REACHED = ''human checkpoint reached''"

record pool_progress_report =
  pp_status :: string
  pp_summary :: string

fun progress_report :: "pool_stop_reason \<Rightarrow> pool_progress_report option" where
  "progress_report Psr_BLOCKED_TASKS_REMAINING =
     Some \<lparr>pp_status = ''no_useful_progress'',
       pp_summary = ''Pool stopped with no useful progress because no runnable task remained.''\<rparr>"
| "progress_report Psr_TASK_REQUEUED =
     Some \<lparr>pp_status = ''no_useful_progress'',
       pp_summary = ''Pool stopped with no useful progress because the active task was requeued for another pass.''\<rparr>"
| "progress_report Psr_TASK_INTERRUPTED =
     Some \<lparr>pp_status = ''no_useful_progress'',
       pp_summary = ''Pool stopped with no useful progress because the active task was interrupted and must be resumed.''\<rparr>"
| "progress_report Psr_CONTINUE_OR_ROLLBACK_REQUIRED =
     Some \<lparr>pp_status = ''operator_action_required'',
       pp_summary = ''Pool stopped after a checkpoint commit. Continue with a new run or roll back the checkpoint '' @
         ''before unrelated queued work proceeds.''\<rparr>"
| "progress_report Psr_ATTENTION_REQUIRED =
     Some \<lparr>pp_status = ''operator_action_required'',
       pp_summary = ''Pool stopped because operator intervention is required before more work starts.''\<rparr>"
| "progress_report Psr_CONSECUTIVE_TASK_FAILURES =
     Some \<lparr>pp_status = ''operator_action_required'',
       pp_summary = ''Pool stopped after three consecutive task failures. Inspect the latest failed tasks before restarting.''\<rparr>"
| "progress_report _ = None"

section \<open>Summaries\<close>

record pool_entry =
  pe_task_id :: string
  pe_title :: string
  pe_status :: string
  pe_pipeline_status :: string
  pe_stage_outcomes :: "string list"
  pe_reason_code :: "string option"
  pe_reason :: "string option"
  pe_follow_up_task_id :: "string option"
  pe_close_reason :: "string option"
  pe_flag_reason :: "string option"

record pool_summary =
  ps_created_at :: string
  ps_stop_reason :: string
  ps_tasks_run :: int
  ps_completed :: "pool_entry list"
  ps_flagged :: "pool_entry list"
  ps_resumable :: "pool_entry list"
  ps_closed :: "pool_entry list"
  ps_skipped :: "pool_entry list"
  ps_remaining :: "pool_entry list"
  ps_progress_status :: "string option"
  ps_summary :: "string option"

text \<open>\<open>str(data.get(k, ""))\<close>: an absent key is blank, a present \<open>None\<close> the text \<open>None\<close>.\<close>

definition report_text :: "string \<Rightarrow> jdict \<Rightarrow> string" where
  "report_text k d = py_str (dict_get k (PyStr []) d)"

definition entry_from_mapping :: "jdict \<Rightarrow> pool_entry" where
  "entry_from_mapping d =
     \<lparr>pe_task_id = report_text ''task_id'' d, pe_title = report_text ''title'' d,
      pe_status = report_text ''final_task_status'' d, pe_pipeline_status = report_text ''pipeline_status'' d,
      pe_stage_outcomes = (case as_list (py_get ''stage_outcomes'' d) of None \<Rightarrow> [] | Some xs \<Rightarrow> map py_str xs),
      pe_reason_code = optional_str (py_get ''reason_code'' d), pe_reason = optional_str (py_get ''reason'' d),
      pe_follow_up_task_id = optional_str (py_get ''follow_up_task_id'' d),
      pe_close_reason = optional_str (py_get ''close_reason'' d),
      pe_flag_reason = optional_str (py_get ''flag_reason'' d)\<rparr>"

text \<open>\<open>None\<close> is a \<open>ValueError\<close>; a value that is no int is read from its text.\<close>

definition int_report_value :: "pyval \<Rightarrow> int option" where
  "int_report_value v =
     (case v of PyInt i \<Rightarrow> Some i | PyBool b \<Rightarrow> Some (if b then 1 else 0) | PyNone \<Rightarrow> Some 0
      | _ \<Rightarrow> int_of_text (py_str v))"

definition report_entries_from_value :: "pyval \<Rightarrow> pool_entry list" where
  "report_entries_from_value v =
     (case as_list v of None \<Rightarrow> [] | Some xs \<Rightarrow> map entry_from_mapping (List.map_filter as_dict xs))"

definition with_derived_progress_report :: "pool_summary \<Rightarrow> pool_summary" where
  "with_derived_progress_report r =
     (if ps_progress_status r \<noteq> None \<or> ps_summary r \<noteq> None then r
      else case Option.bind (stop_reason_from_value (ps_stop_reason r)) progress_report of
        None \<Rightarrow> r
      | Some p \<Rightarrow> r \<lparr>ps_progress_status := Some (pp_status p), ps_summary := Some (pp_summary p)\<rparr>)"

definition summary_from_mapping :: "jdict \<Rightarrow> pool_summary option" where
  "summary_from_mapping d =
     (case int_report_value (py_get ''tasks_run'' d) of None \<Rightarrow> None
      | Some n \<Rightarrow> Some (with_derived_progress_report
          \<lparr>ps_created_at = report_text ''created_at'' d, ps_stop_reason = report_text ''stop_reason'' d,
           ps_tasks_run = n, ps_completed = report_entries_from_value (py_get ''completed'' d),
           ps_flagged = report_entries_from_value (py_get ''flagged'' d),
           ps_resumable = report_entries_from_value (py_get ''resumable'' d),
           ps_closed = report_entries_from_value (py_get ''closed'' d),
           ps_skipped = report_entries_from_value (py_get ''skipped'' d),
           ps_remaining = report_entries_from_value (py_get ''remaining'' d),
           ps_progress_status = optional_str (py_get ''progress_status'' d),
           ps_summary = optional_str (py_get ''summary'' d)\<rparr>))"

definition stop_condition :: "string \<Rightarrow> string" where
  "stop_condition reason =
     (case stop_reason_from_value reason of
        Some r \<Rightarrow> operator_label r
      | None \<Rightarrow> map (\<lambda>c. if c = CHR ''_'' then CHR '' '' else c) reason)"

section \<open>The report of a run\<close>

definition stage_outcomes :: "jdict list \<Rightarrow> string list" where
  "stage_outcomes reports =
     map (\<lambda>r. dump_text ''pipeline_state'' r @ ''='' @ dump_text ''verdict'' r) reports"

text \<open>\<open>outcomes\<close> are the stage outcomes stored for a task.\<close>

definition pending_entry :: "(string \<Rightarrow> string list) \<Rightarrow> task_record \<Rightarrow> pool_entry" where
  "pending_entry outcomes t =
     \<lparr>pe_task_id = t_id t, pe_title = t_title t, pe_status = task_status_value (t_status t),
      pe_pipeline_status = pipeline_status_value (t_pipeline_status t),
      pe_stage_outcomes = outcomes (t_id t), pe_reason_code = None, pe_reason = None,
      pe_follow_up_task_id = None, pe_close_reason = None, pe_flag_reason = None\<rparr>"

definition outcome_entry :: "(string \<Rightarrow> string list) \<Rightarrow> task_record \<Rightarrow> pool_entry" where
  "outcome_entry outcomes t =
     (let oc = pr_last_outcome (t_pipeline t) in
      (pending_entry outcomes t) \<lparr>pe_reason_code := os_reason_code oc, pe_reason := Some (os_reason oc),
        pe_follow_up_task_id := os_follow_up_task_id oc\<rparr>)"

definition collect_pending :: "(string \<Rightarrow> string list) \<Rightarrow> task_record list \<Rightarrow> pool_entry list" where
  "collect_pending outcomes tasks = map (pending_entry outcomes) (filter is_pool_pending tasks)"

definition collect_resumable :: "(string \<Rightarrow> string list) \<Rightarrow> task_record list \<Rightarrow> pool_entry list" where
  "collect_resumable outcomes tasks = map (outcome_entry outcomes) (filter task_is_resumable tasks)"

definition collect_closed :: "(string \<Rightarrow> string list) \<Rightarrow> task_record list \<Rightarrow> pool_entry list" where
  "collect_closed outcomes tasks =
     map (\<lambda>t. (outcome_entry outcomes t) \<lparr>pe_close_reason := t_close_reason t\<rparr>)
       (filter (\<lambda>t. t_status t = Tst_CLOSED) tasks)"

definition pool_summarize ::
  "string \<Rightarrow> (string \<Rightarrow> string list) \<Rightarrow> task_record list \<Rightarrow> pool_entry list \<Rightarrow> pool_entry list \<Rightarrow> string \<Rightarrow>
   int option \<Rightarrow> pool_summary" where
  "pool_summarize now outcomes tasks completed flagged reason tasks_run =
     (let remaining = collect_pending outcomes tasks in
      with_derived_progress_report
        \<lparr>ps_created_at = now, ps_stop_reason = reason,
         ps_tasks_run = (case tasks_run of Some n \<Rightarrow> n | None \<Rightarrow> int (length completed + length flagged)),
         ps_completed = completed, ps_flagged = flagged,
         ps_resumable = collect_resumable outcomes tasks, ps_closed = collect_closed outcomes tasks,
         ps_skipped = remaining, ps_remaining = remaining,
         ps_progress_status = None, ps_summary = None\<rparr>)"

definition labelled :: "string \<Rightarrow> string option \<Rightarrow> string" where
  "labelled label v = (case v of Some x \<Rightarrow> if x = [] then [] else '' '' @ label @ ''='' @ x | None \<Rightarrow> [])"

definition format_pool_task_report_line :: "string \<Rightarrow> pool_entry \<Rightarrow> string" where
  "format_pool_task_report_line label e =
     label @ '': '' @ pe_task_id e @ '' '' @ pe_title e @ '' status='' @ pe_status e @
     '' pipeline_status='' @ pe_pipeline_status e @ '' stage_outcomes='' @
     (if pe_stage_outcomes e = [] then ''-'' else py_join '', '' (pe_stage_outcomes e)) @
     labelled ''reason_code'' (pe_reason_code e) @ labelled ''close_reason'' (pe_close_reason e) @
     labelled ''flag_reason'' (pe_flag_reason e) @ labelled ''reason'' (pe_reason e) @
     labelled ''follow_up_task'' (pe_follow_up_task_id e)"

definition bucket_lines :: "string \<Rightarrow> pool_entry list \<Rightarrow> string list" where
  "bucket_lines label es =
     (label @ ''_tasks: '' @ int_str (int (length es))) # map (format_pool_task_report_line label) es"

definition pool_summary_report_lines :: "pool_summary \<Rightarrow> string list" where
  "pool_summary_report_lines r =
     (let d = with_derived_progress_report r in
      bucket_lines ''completed'' (ps_completed d) @ bucket_lines ''flagged'' (ps_flagged d) @
      bucket_lines ''resumable'' (ps_resumable d) @ bucket_lines ''closed'' (ps_closed d) @
      bucket_lines ''skipped'' (ps_skipped d) @ bucket_lines ''remaining'' (ps_remaining d) @
      [''tasks_run: '' @ int_str (ps_tasks_run d)] @
      (case ps_progress_status d of None \<Rightarrow> [] | Some x \<Rightarrow> [''progress_status: '' @ x]) @
      (case ps_summary d of None \<Rightarrow> [] | Some x \<Rightarrow> [''summary: '' @ x]) @
      [''stop_condition: '' @ stop_condition (ps_stop_reason d), ''stop_reason: '' @ ps_stop_reason d])"

section \<open>The dirty-worktree gate\<close>

datatype dirty_location = Main_checkout_location | Task_worktree_location

fun dirty_location_value :: "dirty_location \<Rightarrow> string" where
  "dirty_location_value Main_checkout_location = ''main-checkout''"
| "dirty_location_value Task_worktree_location = ''task-worktree''"

datatype dirty_ownership =
    Owned_main_checkout | Task_owned | Ambiguous_ownership | Missing_recorded_worktree | Task_owned_worktree

fun dirty_ownership_value :: "dirty_ownership \<Rightarrow> string" where
  "dirty_ownership_value Owned_main_checkout = ''main-checkout''"
| "dirty_ownership_value Task_owned = ''task-owned''"
| "dirty_ownership_value Ambiguous_ownership = ''ambiguous-ownership''"
| "dirty_ownership_value Missing_recorded_worktree = ''missing-recorded-worktree''"
| "dirty_ownership_value Task_owned_worktree = ''task-owned-worktree''"

definition ownership_blocks_pool :: "dirty_ownership \<Rightarrow> bool" where
  "ownership_blocks_pool o' =
     (o' \<in> {Owned_main_checkout, Ambiguous_ownership, Missing_recorded_worktree})"

record dirty_finding =
  df_location :: dirty_location
  df_ownership :: dirty_ownership
  df_paths :: "string list"
  df_task_id :: "string option"
  df_worktree_path :: "string option"

definition gate_is_clean :: "dirty_finding list \<Rightarrow> bool" where
  "gate_is_clean findings = (findings = [])"

definition gate_blocks_pool :: "dirty_finding list \<Rightarrow> bool" where
  "gate_blocks_pool findings = (\<exists>f\<in>set findings. ownership_blocks_pool (df_ownership f))"

end
