(* ===== verification/Pool_Loop.thy ===== *)
theory Pool_Loop
  imports Pool_Domain Queue_Ops
begin

text \<open>
  The loops that run tasks: one \<open>litehive run\<close> (\<open>litehive/daemon/task_execution.py\<close>), the drain of a pool
  (\<open>PoolService.run\<close> of \<open>litehive/cli/pool.py\<close>) and the daemon that spawns runs
  (\<open>litehive/daemon/execution.py\<close>). Picking and running a task act on the workspace state and the rest of
  the world; the printed lines, the attention log and two histories only the theorems read are kept
  beside them.
\<close>

section \<open>The world of a loop\<close>

record 'w pool_world =
  pw_core :: "workspace_state \<times> 'w"
  pw_out :: "string list"
  pw_attention :: "string list"
  pw_finished :: "pipeline_state list"
  pw_spawned :: nat

abbreviation pw_ws :: "'w pool_world \<Rightarrow> workspace_state" where
  "pw_ws w \<equiv> fst (pw_core w)"

definition emit :: "string \<Rightarrow> 'w pool_world \<Rightarrow> 'w pool_world" where
  "emit line w = w \<lparr>pw_out := pw_out w @ [line]\<rparr>"

definition on_core :: "(workspace_state \<times> 'w \<Rightarrow> 'r \<times> workspace_state \<times> 'w) \<Rightarrow> 'w pool_world \<Rightarrow> 'r \<times> 'w pool_world" where
  "on_core f w = (let (r, core) = f (pw_core w) in (r, w \<lparr>pw_core := core\<rparr>))"

definition on_ws :: "(workspace_state \<Rightarrow> workspace_state) \<Rightarrow> 'w pool_world \<Rightarrow> 'w pool_world" where
  "on_ws f w = w \<lparr>pw_core := (f (pw_ws w), snd (pw_core w))\<rparr>"

section \<open>One run\<close>

record execution_result =
  eo_task :: "task_record option"
  eo_final_stage :: pipeline_state
  eo_failed_reason :: "string option"
  eo_failed_message :: "string option"

record run_iteration =
  ri_exit_code :: int
  ri_ran_task :: bool
  ri_final_stage :: "pipeline_state option"
  ri_failures :: int
  ri_stop_reason :: "string option"

text \<open>\<open>Inl\<close> is the text of an exception.\<close>

record 'w run_env =
  rn_pick :: "workspace_state \<times> 'w \<Rightarrow> (string + task_record option) \<times> workspace_state \<times> 'w"
  rn_run :: "task_record \<Rightarrow> workspace_state \<times> 'w \<Rightarrow> (string + execution_result) \<times> workspace_state \<times> 'w"
  rn_dirty :: "workspace_state \<times> 'w \<Rightarrow> string + bool"

definition emit_consecutive_task_failure_stop :: "int \<Rightarrow> 'w pool_world \<Rightarrow> 'w pool_world" where
  "emit_consecutive_task_failure_stop n =
     emit (''critical_status: stopped after '' @ int_str (max 3 n) @ '' consecutive task failures'')"

definition failed_iteration :: run_iteration where
  "failed_iteration =
     \<lparr>ri_exit_code = 1, ri_ran_task = False, ri_final_stage = None, ri_failures = 0, ri_stop_reason = None\<rparr>"

definition record_cycle_start :: "'w pool_world \<Rightarrow> run_iteration option \<times> 'w pool_world" where
  "record_cycle_start w =
     (if ws_pool_stop_reason (pw_ws w) \<noteq> Some CONSECUTIVE_TASK_FAILURE_STOP_REASON then (None, w)
      else (Some \<lparr>ri_exit_code = 0, ri_ran_task = False, ri_final_stage = None,
              ri_failures = ws_consecutive_task_failures (pw_ws w),
              ri_stop_reason = ws_pool_stop_reason (pw_ws w)\<rparr>,
            emit_consecutive_task_failure_stop (ws_consecutive_task_failures (pw_ws w)) w))"

definition record_cycle_finish :: "execution_result option \<Rightarrow> 'w pool_world \<Rightarrow> run_iteration \<times> 'w pool_world" where
  "record_cycle_finish result w =
     (case result of
        None \<Rightarrow>
          (\<lparr>ri_exit_code = 0, ri_ran_task = False, ri_final_stage = None,
            ri_failures = ws_consecutive_task_failures (pw_ws w),
            ri_stop_reason = ws_pool_stop_reason (pw_ws w)\<rparr>, w)
      | Some r \<Rightarrow>
          (let w1 = on_ws (record_task_completion (Some (eo_final_stage r)))
                      (w \<lparr>pw_finished := pw_finished w @ [eo_final_stage r]\<rparr>);
               n = ws_consecutive_task_failures (pw_ws w1);
               reason = ws_pool_stop_reason (pw_ws w1);
               w2 = (if reason = Some CONSECUTIVE_TASK_FAILURE_STOP_REASON
                     then emit_consecutive_task_failure_stop n w1 else w1)
           in (\<lparr>ri_exit_code = 0, ri_ran_task = True, ri_final_stage = Some (eo_final_stage r),
                ri_failures = n, ri_stop_reason = reason\<rparr>, w2)))"

definition emit_some :: "string \<Rightarrow> string option \<Rightarrow> 'w pool_world \<Rightarrow> 'w pool_world" where
  "emit_some label v w = (case v of Some x \<Rightarrow> if x = [] then w else emit (label @ x) w | None \<Rightarrow> w)"

definition handle_result :: "execution_result \<Rightarrow> 'w pool_world \<Rightarrow> run_iteration \<times> 'w pool_world" where
  "handle_result r w =
     (let w1 = (case eo_task r of None \<Rightarrow> w
                | Some t \<Rightarrow> emit (''task: '' @ t_id t @ '' '' @ t_title t) w);
          w2 = emit (''final_stage: '' @ pipeline_state_value (eo_final_stage r)) w1;
          w3 = emit_some ''failed_reason: '' (eo_failed_reason r) w2;
          w4 = emit_some ''failed_message: '' (eo_failed_message r) w3
      in record_cycle_finish (Some r) w4)"

definition run_failed :: "string \<Rightarrow> 'w pool_world \<Rightarrow> run_iteration \<times> 'w pool_world" where
  "run_failed msg w = (failed_iteration, emit (''run failed: '' @ msg) w)"

definition run_once :: "'w run_env \<Rightarrow> 'w pool_world \<Rightarrow> run_iteration \<times> 'w pool_world" where
  "run_once env w =
     (case record_cycle_start w of
        (Some it, w1) \<Rightarrow> (it, w1)
      | (None, w1) \<Rightarrow>
          (case on_core (rn_pick env) w1 of
             (Inl msg, w2) \<Rightarrow> run_failed msg w2
           | (Inr None, w2) \<Rightarrow> record_cycle_finish None w2
           | (Inr (Some t), w2) \<Rightarrow>
               (case on_core (rn_run env t) w2 of
                  (Inl msg, w3) \<Rightarrow> run_failed msg w3
                | (Inr r, w3) \<Rightarrow> handle_result r w3)))"

text \<open>\<open>_run_single\<close>: the exit code of \<open>litehive run\<close>.\<close>

definition run_single :: "'w run_env \<Rightarrow> 'w pool_world \<Rightarrow> int \<times> 'w pool_world" where
  "run_single env w =
     (let (it, w1) = run_once env w in
      if ri_stop_reason it = Some CONSECUTIVE_TASK_FAILURE_STOP_REASON
      then (ri_exit_code it, emit (''Pool stopped: '' @ CONSECUTIVE_TASK_FAILURE_STOP_REASON) w1)
      else (ri_exit_code it, if ri_ran_task it then w1 else emit ''No queued task.'' w1))"

section \<open>Draining a pool\<close>

datatype drain_result = Drain_exit int | Drain_raised string

definition stop_for :: "string \<Rightarrow> 'w pool_world \<Rightarrow> 'w pool_world" where
  "stop_for reason = on_ws (set_pool_stop_reason (Some reason))"

definition pool_stopped :: "string \<Rightarrow> 'w pool_world \<Rightarrow> drain_result \<times> 'w pool_world" where
  "pool_stopped reason w = (Drain_exit 0, emit (''Pool stopped: '' @ reason) (stop_for reason w))"

definition drain_stop ::
  "bool \<Rightarrow> int option \<Rightarrow> int \<Rightarrow> run_iteration \<Rightarrow> 'w pool_world \<Rightarrow> (drain_result \<times> 'w pool_world) option" where
  "drain_stop stop_on_failure limit tasks_run it w =
     (if ri_exit_code it \<noteq> 0 then Some (Drain_exit (ri_exit_code it), w)
      else if ri_stop_reason it = Some CONSECUTIVE_TASK_FAILURE_STOP_REASON
      then Some (Drain_exit 0, emit (''Pool stopped: '' @ CONSECUTIVE_TASK_FAILURE_STOP_REASON) w)
      else if \<not> ri_ran_task it
      then Some (Drain_exit 0,
             if tasks_run \<noteq> 0 then w
             else emit (if ws_queue (pw_ws w) = [] then ''No queued task.'' else ''No runnable task.'') w)
      else if stop_on_failure \<and> ri_final_stage it \<noteq> Some DONE then Some (pool_stopped ''failure_detected'' w)
      else (case limit of
              Some m \<Rightarrow> if tasks_run + 1 \<ge> m then Some (pool_stopped ''max_tasks_reached'' w) else None
            | None \<Rightarrow> None))"

partial_function (option) pool_run ::
  "'w run_env \<Rightarrow> bool \<Rightarrow> int option \<Rightarrow> bool \<Rightarrow> int \<Rightarrow> 'w pool_world \<Rightarrow> (drain_result \<times> 'w pool_world) option" where
  "pool_run env stop_on_failure limit stop_on_dirty tasks_run w =
     (case (if stop_on_dirty then rn_dirty env (pw_core w) else Inr False) of
        Inl msg \<Rightarrow> Some (Drain_raised msg, w)
      | Inr dirty \<Rightarrow>
          if dirty then Some (pool_stopped ''dirty_git_state'' w)
          else (case drain_stop stop_on_failure limit tasks_run (fst (run_once env w)) (snd (run_once env w)) of
                  Some r \<Rightarrow> Some r
                | None \<Rightarrow> pool_run env stop_on_failure limit stop_on_dirty (tasks_run + 1) (snd (run_once env w))))"

section \<open>The daemon\<close>

text \<open>What a cycle asks of its surroundings. A live runner is answered with the line that describes it.\<close>

record 'w daemon_env =
  de_live_runner :: "'w pool_world \<Rightarrow> string option"
  de_divergence :: "'w pool_world \<Rightarrow> string option"
  de_backup :: "'w pool_world \<Rightarrow> string + string option"
  de_snapshot :: "'w pool_world \<Rightarrow> string + string"
  de_child :: "'w pool_world \<Rightarrow> (string + int) \<times> 'w pool_world"

definition has_work :: "workspace_state \<Rightarrow> bool" where
  "has_work ws = (ws_active_task_id ws \<noteq> None \<or> ws_queue ws \<noteq> [])"

definition transient_stop_reasons :: "pool_stop_reason set" where
  "transient_stop_reasons = {Psr_QUEUE_EXHAUSTED, Psr_TASK_REQUEUED}"

definition should_continue_for_stop_reason :: "pool_stop_reason option \<Rightarrow> bool" where
  "should_continue_for_stop_reason reason = (case reason of None \<Rightarrow> True | Some r \<Rightarrow> r \<in> transient_stop_reasons)"

definition snapshot_exit_code :: "string \<Rightarrow> 'w pool_world \<Rightarrow> int option \<times> 'w pool_world" where
  "snapshot_exit_code text w =
     (let w1 = emit text w; ws = pw_ws w; raw = ws_pool_stop_reason ws;
          reason = Option.bind raw stop_reason_from_value in
      if \<not> has_work ws then (Some 0, emit ''No active or queued tasks remain. Stopping.'' w1)
      else if raw \<noteq> None \<and> reason = None then (Some 0, emit (''Runner stopped: '' @ opt_str_or raw []) w1)
      else if \<not> should_continue_for_stop_reason reason
      then (Some 0, emit (''Runner stopped: '' @ opt_str_or raw []) w1)
      else (None, w1))"

definition halt_for_origin_divergence :: "'w daemon_env \<Rightarrow> 'w pool_world \<Rightarrow> string option \<times> 'w pool_world" where
  "halt_for_origin_divergence env w =
     (case de_divergence env w of None \<Rightarrow> (None, w)
      | Some msg \<Rightarrow>
          (Some msg, (on_ws (set_pool_stop_reason (Some ''diverged_from_origin'')) w)
             \<lparr>pw_attention := pw_attention w @ [msg]\<rparr>))"

definition backup_step :: "'w daemon_env \<Rightarrow> 'w pool_world \<Rightarrow> 'w pool_world" where
  "backup_step env w =
     (case de_backup env w of
        Inl msg \<Rightarrow> emit (''backup_failed: '' @ msg)
          (w \<lparr>pw_attention := pw_attention w @ [''scheduled backup failed: '' @ msg]\<rparr>)
      | Inr None \<Rightarrow> w
      | Inr (Some t) \<Rightarrow> emit (''backup_created: '' @ t) w)"

definition snapshot_step ::
  "'w daemon_env \<Rightarrow> string \<Rightarrow> 'w pool_world \<Rightarrow> int option \<times> 'w pool_world" where
  "snapshot_step env label w =
     (case de_snapshot env w of
        Inl msg \<Rightarrow> (Some 1, emit (label @ '' raised: '' @ msg) w)
      | Inr text \<Rightarrow> snapshot_exit_code text w)"

definition child_step :: "'w daemon_env \<Rightarrow> string \<Rightarrow> 'w pool_world \<Rightarrow> int option \<times> 'w pool_world" where
  "child_step env run_file w =
     (case de_child env (w \<lparr>pw_spawned := Suc (pw_spawned w)\<rparr>) of
        (Inl msg, w1) \<Rightarrow> (Some 1, emit (''run raised: '' @ msg) w1)
      | (Inr rc, w1) \<Rightarrow>
          if rc \<noteq> 0
          then (Some rc, emit (''litehive run failed (rc='' @ int_str rc @ ''); see '' @ run_file) w1)
          else snapshot_step env ''post-status'' w1)"

definition iteration_prefix :: "int \<Rightarrow> string" where
  "iteration_prefix i = (let s = int_str i in replicate (4 - length s) (CHR ''0'') @ s)"

definition run_cycle :: "'w daemon_env \<Rightarrow> string \<Rightarrow> int \<Rightarrow> 'w pool_world \<Rightarrow> int option \<times> 'w pool_world" where
  "run_cycle env log_root i w0 =
     (let w = emit (''== iteration '' @ int_str i @ '' =='') (emit [] w0) in
      case de_live_runner env w of
        Some line \<Rightarrow> (None, emit line w)
      | None \<Rightarrow>
          (case halt_for_origin_divergence env w of
             (Some msg, w1) \<Rightarrow>
               (Some 0, emit msg (emit (''!!! ATTENTION REQUIRED !!! Local main has diverged from origin/main. '' @
                  ''Halting pool: diverged_from_origin'') w1))
           | (None, w1) \<Rightarrow>
               (let w2 = backup_step env w1 in
                case snapshot_step env ''status'' w2 of
                  (Some code, w3) \<Rightarrow> (Some code, w3)
                | (None, w3) \<Rightarrow>
                    child_step env (log_root @ ''/'' @ iteration_prefix i @ ''-run.log'') w3)))"

text \<open>\<open>stop i\<close>: a signal has set the stop flag before iteration \<open>i\<close>.\<close>

partial_function (option) daemon_loop ::
  "'w daemon_env \<Rightarrow> string \<Rightarrow> (int \<Rightarrow> bool) \<Rightarrow> int \<Rightarrow> 'w pool_world \<Rightarrow> (int \<times> 'w pool_world) option" where
  "daemon_loop env log_root stop i w =
     (if stop i then Some (0, emit ''Runner stop requested. Stopping.'' w)
      else (case fst (run_cycle env log_root (i + 1) w) of
              Some code \<Rightarrow> Some (code, snd (run_cycle env log_root (i + 1) w))
            | None \<Rightarrow> daemon_loop env log_root stop (i + 1) (snd (run_cycle env log_root (i + 1) w))))"

text \<open>The daemon whose child process is one \<open>litehive run\<close>.\<close>

definition child_run :: "'w run_env \<Rightarrow> 'w pool_world \<Rightarrow> (string + int) \<times> 'w pool_world" where
  "child_run env w = (let (rc, w1) = run_single env w in (Inr rc, w1))"

end
