(* ===== verification/Pool_Properties.thy ===== *)
theory Pool_Properties
  imports Pool_Loop
begin

text \<open>
  Properties of the loops: a bounded drain ends within its limit, three failures in a row stop the
  runs, a stop reason written over them lifts that stop, a daemon explains why it ends, and one whose
  queue holds only tasks that cannot run spawns processes forever.
\<close>

section \<open>What one run leaves behind\<close>

lemma emit_sel [simp]:
  "pw_core (emit l w) = pw_core w" "pw_finished (emit l w) = pw_finished w"
  "pw_spawned (emit l w) = pw_spawned w" "pw_attention (emit l w) = pw_attention w"
  by (simp_all add: emit_def)

lemma emit_some_sel [simp]:
  "pw_core (emit_some l v w) = pw_core w" "pw_finished (emit_some l v w) = pw_finished w"
  "pw_spawned (emit_some l v w) = pw_spawned w"
  by (simp_all add: emit_some_def split: option.split)

lemma stop_banner_sel [simp]:
  "pw_core (emit_consecutive_task_failure_stop n w) = pw_core w"
  "pw_finished (emit_consecutive_task_failure_stop n w) = pw_finished w"
  "pw_spawned (emit_consecutive_task_failure_stop n w) = pw_spawned w"
  by (simp_all add: emit_consecutive_task_failure_stop_def)

lemma on_ws_sel [simp]:
  "pw_core (on_ws f w) = (f (pw_ws w), snd (pw_core w))" "pw_finished (on_ws f w) = pw_finished w"
  "pw_spawned (on_ws f w) = pw_spawned w"
  by (simp_all add: on_ws_def)

lemma on_core_sel:
  "on_core f w = (fst (f (pw_core w)), w \<lparr>pw_core := snd (f (pw_core w))\<rparr>)"
  by (simp add: on_core_def split: prod.split)

lemma handle_result_sel:
  "ri_exit_code (fst (handle_result r w)) = 0" "ri_ran_task (fst (handle_result r w))"
  "ri_final_stage (fst (handle_result r w)) = Some (eo_final_stage r)"
  "pw_core (snd (handle_result r w)) =
     (record_task_completion (Some (eo_final_stage r)) (pw_ws w), snd (pw_core w))"
  "pw_finished (snd (handle_result r w)) = pw_finished w @ [eo_final_stage r]"
  "pw_spawned (snd (handle_result r w)) = pw_spawned w"
  by (simp_all add: handle_result_def record_cycle_finish_def Let_def split: option.split)

text \<open>The three ways a run ends: halted before it started, nothing to do or an exception, a task run.\<close>

lemma run_once_cases [case_names halted idle ran]:
  assumes "ws_pool_stop_reason (pw_ws w) = Some CONSECUTIVE_TASK_FAILURE_STOP_REASON \<Longrightarrow>
      pw_core (snd (run_once env w)) = pw_core w \<Longrightarrow> pw_finished (snd (run_once env w)) = pw_finished w \<Longrightarrow>
      \<not> ri_ran_task (fst (run_once env w)) \<Longrightarrow> thesis"
    and "ws_pool_stop_reason (pw_ws w) \<noteq> Some CONSECUTIVE_TASK_FAILURE_STOP_REASON \<Longrightarrow>
      pw_finished (snd (run_once env w)) = pw_finished w \<Longrightarrow> \<not> ri_ran_task (fst (run_once env w)) \<Longrightarrow>
      pw_core (snd (run_once env w)) = snd (rn_pick env (pw_core w)) \<or>
      (\<exists>t. pw_core (snd (run_once env w)) = snd (rn_run env t (snd (rn_pick env (pw_core w))))) \<Longrightarrow> thesis"
    and "\<And>t r. ws_pool_stop_reason (pw_ws w) \<noteq> Some CONSECUTIVE_TASK_FAILURE_STOP_REASON \<Longrightarrow>
      run_once env w = handle_result r
        (w \<lparr>pw_core := snd (rn_run env t (snd (rn_pick env (pw_core w))))\<rparr>) \<Longrightarrow> thesis"
  shows thesis
proof (cases "ws_pool_stop_reason (pw_ws w) = Some CONSECUTIVE_TASK_FAILURE_STOP_REASON")
  case True
  then show ?thesis using assms(1) by (simp add: run_once_def record_cycle_start_def)
next
  case False
  note start = False
  let ?p = "rn_pick env (pw_core w)"
  consider (fail) msg where "fst ?p = Inl msg" | (none) "fst ?p = Inr None" | (task) t where "fst ?p = Inr (Some t)"
    by (metis not_Some_eq sum.exhaust)
  then show ?thesis
  proof cases
    case task
    let ?r = "rn_run env t (snd ?p)"
    show ?thesis
    proof (cases "fst ?r")
      case (Inl msg)
      then show ?thesis using assms(2) start task
        by (auto simp: run_once_def record_cycle_start_def on_core_sel run_failed_def failed_iteration_def)
    next
      case (Inr r)
      then show ?thesis using assms(3) [of r t] start task
        by (simp add: run_once_def record_cycle_start_def on_core_sel)
    qed
  qed (use assms(2) start in \<open>auto simp: run_once_def record_cycle_start_def on_core_sel run_failed_def
      failed_iteration_def record_cycle_finish_def\<close>)
qed

lemma run_once_finished:
  "pw_finished (snd (run_once env w)) = pw_finished w @
     (if ri_ran_task (fst (run_once env w)) then [the (ri_final_stage (fst (run_once env w)))] else [])"
  by (cases rule: run_once_cases [of w env]) (simp_all add: handle_result_sel)

section \<open>Draining\<close>

lemma drain_stop_sel:
  "drain_stop sf limit n it w = Some (r, w') \<Longrightarrow> pw_finished w' = pw_finished w"
  by (auto simp: drain_stop_def pool_stopped_def stop_for_def split: if_splits option.splits)

text \<open>One round of the drain, by the two tests that decide it.\<close>

lemma pool_run_step:
  "(if sd then rn_dirty env (pw_core w) else Inr False) = Inl msg \<Longrightarrow>
     pool_run env sf limit sd n w = Some (Drain_raised msg, w)"
  "(if sd then rn_dirty env (pw_core w) else Inr False) = Inr True \<Longrightarrow>
     pool_run env sf limit sd n w = Some (pool_stopped ''dirty_git_state'' w)"
  "(if sd then rn_dirty env (pw_core w) else Inr False) = Inr False \<Longrightarrow>
     drain_stop sf limit n (fst (run_once env w)) (snd (run_once env w)) = Some r \<Longrightarrow>
     pool_run env sf limit sd n w = Some r"
  "(if sd then rn_dirty env (pw_core w) else Inr False) = Inr False \<Longrightarrow>
     drain_stop sf limit n (fst (run_once env w)) (snd (run_once env w)) = None \<Longrightarrow>
     pool_run env sf limit sd n w = pool_run env sf limit sd (n + 1) (snd (run_once env w))"
  by (subst pool_run.simps, simp)+

text \<open>C35: a drain with a limit returns, after at most as many tasks as the limit says, or one.\<close>

theorem drain_runs_at_most_limit:
  "\<exists>r w'. pool_run env stop_on_failure (Some m) stop_on_dirty 0 w = Some (r, w') \<and>
     length (pw_finished w') \<le> length (pw_finished w) + max 1 (nat m)"
proof -
  have "\<exists>r w'. pool_run env stop_on_failure (Some m) stop_on_dirty n w = Some (r, w') \<and>
     length (pw_finished w') \<le> length (pw_finished w) + max 1 (nat (m - n))" for n w
  proof (induction "nat (m - n)" arbitrary: n w rule: less_induct)
    case less
    let ?it = "fst (run_once env w)" and ?w = "snd (run_once env w)"
    have len: "length (pw_finished ?w) \<le> Suc (length (pw_finished w))" by (simp add: run_once_finished)
    show ?case
    proof (cases "if stop_on_dirty then rn_dirty env (pw_core w) else Inr False")
      case (Inl msg)
      then show ?thesis by (simp add: pool_run_step(1) [OF Inl])
    next
      case (Inr dirty)
      show ?thesis
      proof (cases dirty)
        case True
        have "pool_run env stop_on_failure (Some m) stop_on_dirty n w = Some (pool_stopped ''dirty_git_state'' w)"
          by (rule pool_run_step(2)) (use Inr True in simp)
        then show ?thesis by (simp add: pool_stopped_def stop_for_def)
      next
        case clean: False
        show ?thesis
        proof (cases "drain_stop stop_on_failure (Some m) n ?it ?w")
          case (Some rw)
          have "pool_run env stop_on_failure (Some m) stop_on_dirty n w = Some rw"
            by (rule pool_run_step(3) [OF _ Some]) (use Inr clean in simp)
          moreover have "pw_finished (snd rw) = pw_finished ?w"
            using drain_stop_sel [of stop_on_failure "Some m" n ?it ?w "fst rw" "snd rw"] Some by simp
          ultimately show ?thesis using len by (intro exI [of _ "fst rw"] exI [of _ "snd rw"]) simp
        next
          case None
          then have n: "n + 1 < m" by (auto simp: drain_stop_def split: if_splits)
          then obtain r w' where r: "pool_run env stop_on_failure (Some m) stop_on_dirty (n + 1) ?w = Some (r, w')"
              "length (pw_finished w') \<le> length (pw_finished ?w) + max 1 (nat (m - (n + 1)))"
            using less.hyps [of "n + 1" ?w] by auto
          have "pool_run env stop_on_failure (Some m) stop_on_dirty n w = Some (r, w')"
            unfolding r(1) [symmetric] by (rule pool_run_step(4) [OF _ None]) (use Inr clean in simp)
          moreover have "length (pw_finished w') \<le> length (pw_finished w) + max 1 (nat (m - n))"
            using r(2) len n by linarith
          ultimately show ?thesis by blast
        qed
      qed
    qed
  qed
  from this [of 0 w] show ?thesis by simp
qed

section \<open>Three failures in a row\<close>

definition failure_streak :: "pipeline_state list \<Rightarrow> nat" where
  "failure_streak stages = length (takeWhile (\<lambda>st. st \<noteq> DONE) (rev stages))"

text \<open>Picking and running tasks never lower the failure counter; only a completed task does.\<close>

definition counter_kept :: "'w run_env \<Rightarrow> bool" where
  "counter_kept env \<longleftrightarrow>
     (\<forall>c. ws_consecutive_task_failures (fst c) \<le> ws_consecutive_task_failures (fst (snd (rn_pick env c)))) \<and>
     (\<forall>t c. ws_consecutive_task_failures (fst c) \<le> ws_consecutive_task_failures (fst (snd (rn_run env t c))))"

lemma counter_keptD:
  assumes "counter_kept env"
  shows "ws_consecutive_task_failures (fst c) \<le> ws_consecutive_task_failures (fst (snd (rn_pick env c)))"
    "ws_consecutive_task_failures (fst c) \<le> ws_consecutive_task_failures (fst (snd (rn_run env t c)))"
  using assms unfolding counter_kept_def by blast+

definition streak_counted :: "'w pool_world \<Rightarrow> bool" where
  "streak_counted w \<longleftrightarrow>
     int (failure_streak (pw_finished w)) \<le> max 0 (ws_consecutive_task_failures (pw_ws w)) \<and>
     (3 \<le> failure_streak (pw_finished w) \<longrightarrow>
        ws_pool_stop_reason (pw_ws w) = Some CONSECUTIVE_TASK_FAILURE_STOP_REASON) \<and>
     (\<forall>k. failure_streak (take k (pw_finished w)) \<le> 3)"

lemma streak_snoc: "failure_streak (xs @ [x]) = (if x = DONE then 0 else Suc (failure_streak xs))"
  by (simp add: failure_streak_def)

lemma streak_counted_step:
  assumes "counter_kept env" "streak_counted w"
  shows "streak_counted (snd (run_once env w))"
proof (cases rule: run_once_cases [of w env])
  case halted
  then show ?thesis using assms(2) by (simp add: streak_counted_def)
next
  case idle
  have "ws_consecutive_task_failures (pw_ws w) \<le> ws_consecutive_task_failures (pw_ws (snd (run_once env w)))"
    using idle(4) by (elim disjE exE, simp_all only:)
      (rule counter_keptD(1) [OF assms(1)], rule order_trans [OF counter_keptD [OF assms(1)]])
  moreover have "failure_streak (pw_finished w) < 3" using assms(2) idle(1) by (auto simp: streak_counted_def)
  ultimately show ?thesis using assms(2) idle(2) by (auto simp: streak_counted_def)
next
  case (ran t r)
  let ?c = "snd (rn_run env t (snd (rn_pick env (pw_core w))))"
  have up: "ws_consecutive_task_failures (pw_ws w) \<le> ws_consecutive_task_failures (fst ?c)"
    by (rule order_trans [OF counter_keptD [OF assms(1)]])
  have streak: "failure_streak (pw_finished w) < 3"
      "int (failure_streak (pw_finished w)) \<le> max 0 (ws_consecutive_task_failures (pw_ws w))"
      "\<forall>k. failure_streak (take k (pw_finished w)) \<le> 3"
    using assms(2) ran(1) by (auto simp: streak_counted_def)
  have fin: "pw_finished (snd (run_once env w)) = pw_finished w @ [eo_final_stage r]"
      "pw_ws (snd (run_once env w)) = record_task_completion (Some (eo_final_stage r)) (fst ?c)"
    by (simp_all add: ran(2) handle_result_sel)
  have "failure_streak (take k (pw_finished w @ [eo_final_stage r])) \<le> 3" for k
    using streak by (cases "k \<le> length (pw_finished w)") (simp_all add: streak_snoc)
  then show ?thesis unfolding streak_counted_def fin
    using streak(1, 2) up
    by (auto simp: streak_snoc record_task_completion_def Let_def CONSECUTIVE_TASK_FAILURE_LIMIT_def)
qed

text \<open>C34: however often \<open>litehive run\<close> is started, no four tasks in a row end short of done: after the
  third failure every further run returns without picking a task.\<close>

theorem no_fourth_failure:
  assumes "counter_kept env" "pw_finished w = []"
  shows "failure_streak (take k (pw_finished (((\<lambda>w. snd (run_once env w)) ^^ n) w))) \<le> 3"
proof -
  have "streak_counted (((\<lambda>w. snd (run_once env w)) ^^ n) w)"
  proof (induction n)
    case 0
    show ?case using assms(2) by (simp add: streak_counted_def failure_streak_def)
  next
    case (Suc n)
    then show ?case using streak_counted_step [OF assms(1)] by simp
  qed
  then show ?thesis by (simp add: streak_counted_def)
qed

text \<open>A run of tasks that always fail, for the witnesses.\<close>

definition demo_pool_ws :: workspace_state where
  "demo_pool_ws = \<lparr>ws_active_task_id = None, ws_queue = [''T1''], ws_pool_stop_reason = None,
     ws_consecutive_task_failures = 0, ws_next_task_number = 1, ws_unmerged_worktrees = []\<rparr>"

definition demo_pool_world :: "unit pool_world" where
  "demo_pool_world =
     \<lparr>pw_core = (demo_pool_ws, ()), pw_out = [], pw_attention = [], pw_finished = [], pw_spawned = 0\<rparr>"

definition demo_failing :: "unit run_env" where
  "demo_failing =
     \<lparr>rn_pick = (\<lambda>c. (Inr (Some (demo_record ''T1'' [] Tst_QUEUED Pst_BACKLOG)), c)),
      rn_run = (\<lambda>t c. (Inr \<lparr>eo_task = Some t, eo_final_stage = FAILED, eo_failed_reason = None,
                            eo_failed_message = None\<rparr>, c)),
      rn_dirty = (\<lambda>_. Inr True)\<rparr>"

lemma demo_counter_kept: "counter_kept demo_failing"
  by (simp add: counter_kept_def demo_failing_def)

theorem no_fourth_failure_witness:
  "failure_streak (take 9 (pw_finished (((\<lambda>w. snd (run_once demo_failing w)) ^^ 5) demo_pool_world))) \<le> 3"
  by (rule no_fourth_failure [OF demo_counter_kept]) (simp add: demo_pool_world_def)

text \<open>The stop is one slot. A drain that stops for a dirty checkout writes its own reason over the
  failure stop: the next run dispatches a task again, and clearing the reason leaves the failure counter
  where it was.\<close>

lemma overwritten_stop_runs_again:
  assumes "ws_pool_stop_reason (pw_ws w) = Some CONSECUTIVE_TASK_FAILURE_STOP_REASON"
    "rn_dirty env (pw_core w) = Inr True"
    "rn_pick env (set_pool_stop_reason (Some ''dirty_git_state'') (pw_ws w), snd (pw_core w)) = (Inr (Some t), c1)"
    "rn_run env t c1 = (Inr r, c2)"
  shows "\<exists>w1. pool_run env stop_on_failure limit True 0 w = Some (Drain_exit 0, w1) \<and>
           pw_finished (snd (run_once env w1)) = pw_finished w @ [eo_final_stage r] \<and>
           ws_consecutive_task_failures (set_pool_stop_reason None (pw_ws w1)) =
             ws_consecutive_task_failures (pw_ws w)"
proof -
  let ?w1 = "emit ''Pool stopped: dirty_git_state'' (stop_for ''dirty_git_state'' w)"
  have core: "pw_core ?w1 = (set_pool_stop_reason (Some ''dirty_git_state'') (pw_ws w), snd (pw_core w))"
    "pw_finished ?w1 = pw_finished w" by (simp_all add: stop_for_def)
  have "pool_run env stop_on_failure limit True 0 w = Some (Drain_exit 0, ?w1)"
    by (subst pool_run.simps) (simp add: assms(2) pool_stopped_def)
  moreover have "pw_finished (snd (run_once env ?w1)) = pw_finished w @ [eo_final_stage r]"
    using assms(3, 4) core
    by (simp add: run_once_def record_cycle_start_def on_core_sel handle_result_sel
        set_pool_stop_reason_def CONSECUTIVE_TASK_FAILURE_STOP_REASON_def)
  moreover have "ws_consecutive_task_failures (set_pool_stop_reason None (pw_ws ?w1)) =
      ws_consecutive_task_failures (pw_ws w)"
    using core by (simp add: set_pool_stop_reason_def CONSECUTIVE_TASK_FAILURE_STOP_REASON_def)
  ultimately show ?thesis by blast
qed

definition demo_stopped_world :: "unit pool_world" where
  "demo_stopped_world = on_ws (\<lambda>ws. ws \<lparr>ws_pool_stop_reason := Some CONSECUTIVE_TASK_FAILURE_STOP_REASON,
     ws_consecutive_task_failures := 3\<rparr>) demo_pool_world"

lemma overwritten_stop_runs_again_witness:
  "\<exists>w1. pool_run demo_failing False None True 0 demo_stopped_world = Some (Drain_exit 0, w1) \<and>
     pw_finished (snd (run_once demo_failing w1)) = [FAILED] \<and>
     ws_consecutive_task_failures (set_pool_stop_reason None (pw_ws w1)) = 3"
proof -
  let ?t = "demo_record ''T1'' [] Tst_QUEUED Pst_BACKLOG"
  let ?c = "(set_pool_stop_reason (Some ''dirty_git_state'') (pw_ws demo_stopped_world), ())"
  let ?r = "\<lparr>eo_task = Some ?t, eo_final_stage = FAILED, eo_failed_reason = None, eo_failed_message = None\<rparr>"
  have "\<exists>w1. pool_run demo_failing False None True 0 demo_stopped_world = Some (Drain_exit 0, w1) \<and>
     pw_finished (snd (run_once demo_failing w1)) = pw_finished demo_stopped_world @ [eo_final_stage ?r] \<and>
     ws_consecutive_task_failures (set_pool_stop_reason None (pw_ws w1)) =
       ws_consecutive_task_failures (pw_ws demo_stopped_world)"
    by (rule overwritten_stop_runs_again [where t = ?t and ?c1.0 = ?c and ?c2.0 = ?c])
       (simp_all add: demo_stopped_world_def demo_failing_def)
  then show ?thesis by (simp add: demo_stopped_world_def demo_pool_world_def)
qed

section \<open>The daemon\<close>

definition stop_explained :: "'w daemon_env \<Rightarrow> (int \<Rightarrow> bool) \<Rightarrow> 'w pool_world \<Rightarrow> bool" where
  "stop_explained env stop w \<longleftrightarrow>
     (\<exists>i. stop i) \<or> (\<exists>v. de_divergence env v \<noteq> None) \<or> \<not> has_work (pw_ws w) \<or>
     (\<exists>raw. ws_pool_stop_reason (pw_ws w) = Some raw \<and>
        (case stop_reason_from_value raw of None \<Rightarrow> True | Some r \<Rightarrow> r \<notin> transient_stop_reasons))"

lemma snapshot_exit_explained:
  assumes "snapshot_exit_code text w = (Some code, w')"
  shows "code = 0 \<and> pw_core w' = pw_core w \<and> stop_explained env stop w'"
  using assms by (cases "ws_pool_stop_reason (pw_ws w)")
    (auto simp: snapshot_exit_code_def stop_explained_def should_continue_for_stop_reason_def Let_def
      split: if_splits option.splits)

lemma snapshot_step_explained:
  "snapshot_step env label w = (Some code, w') \<Longrightarrow> code = 1 \<or> code = 0 \<and> stop_explained env stop w'"
  using snapshot_exit_explained by (fastforce simp: snapshot_step_def split: sum.splits)

lemma cycle_exit_explained:
  assumes "run_cycle env lr i w = (Some 0, w')"
  shows "stop_explained env stop w'"
proof -
  let ?w = "emit (''== iteration '' @ int_str i @ '' =='') (emit [] w)"
  have live: "de_live_runner env ?w = None" using assms by (auto simp: run_cycle_def Let_def split: option.splits)
  show ?thesis
  proof (cases "de_divergence env ?w")
    case None
    then have "(case snapshot_step env ''status'' (backup_step env ?w) of
        (Some code, w3) \<Rightarrow> (Some code, w3)
      | (None, w3) \<Rightarrow> child_step env (lr @ ''/'' @ iteration_prefix i @ ''-run.log'') w3) = (Some 0, w')"
      using assms live by (simp add: run_cycle_def Let_def halt_for_origin_divergence_def)
    then show ?thesis using snapshot_step_explained [where code = 0]
      by (auto simp: child_step_def split: prod.splits option.splits sum.splits if_splits)
  qed (auto simp: stop_explained_def)
qed

lemma daemon_loop_explained:
  assumes "daemon_loop env log_root stop i w = Some y"
  shows "fst y = 0 \<longrightarrow> stop_explained env stop (snd y)"
  using assms
proof (induction rule: daemon_loop.raw_induct [rotated, consumes 1, case_names 1])
  case (1 loop env log_root stop i w y)
  show ?case
  proof (cases "stop i")
    case False
    show ?thesis
    proof (cases "fst (run_cycle env log_root (i + 1) w)")
      case None
      then show ?thesis using 1 False by simp
    next
      case (Some code)
      then have y: "y = (code, snd (run_cycle env log_root (i + 1) w))" using 1(2) False by simp
      show ?thesis
        using cycle_exit_explained [of env log_root "i + 1" w "snd y"] Some unfolding y by (cases "run_cycle env log_root (i + 1) w") auto
    qed
  qed (auto simp: stop_explained_def)
qed

text \<open>A daemon that ends with exit code 0 was asked to stop, found main diverged from its origin, has
  no work left, or was stopped for a reason that does not pass by itself.\<close>

lemma daemon_exit_explained:
  assumes "daemon_loop env log_root stop i w = Some (0, w')"
  shows "stop_explained env stop w'"
  using daemon_loop_explained [OF assms] by simp

definition demo_idle_env :: "unit daemon_env" where
  "demo_idle_env =
     \<lparr>de_live_runner = (\<lambda>_. None), de_divergence = (\<lambda>_. None), de_backup = (\<lambda>_. Inr None),
      de_snapshot = (\<lambda>_. Inr ''status''), de_child = child_run demo_failing\<rparr>"

lemma daemon_exit_explained_witness:
  "\<exists>w'. daemon_loop demo_idle_env ''logs'' (\<lambda>_. False) 0 demo_pool_world = Some (0, w') \<and>
     pw_finished w' = [FAILED, FAILED, FAILED] \<and> stop_explained demo_idle_env (\<lambda>_. False) w'"
proof -
  let ?run = "\<lambda>i w. run_cycle demo_idle_env ''logs'' i w"
  let ?w1 = "snd (?run 1 demo_pool_world)" and ?w2 = "snd (?run 2 (snd (?run 1 demo_pool_world)))"
  have "fst (?run 1 demo_pool_world) = None" "fst (?run 2 ?w1) = None" "fst (?run 3 ?w2) = Some 0"
    "pw_finished (snd (?run 3 ?w2)) = [FAILED, FAILED, FAILED]" by code_simp+
  moreover from this have "daemon_loop demo_idle_env ''logs'' (\<lambda>_. False) 0 demo_pool_world = Some (0, snd (?run 3 ?w2))"
    by (subst daemon_loop.simps, simp)+
  ultimately show ?thesis
    using daemon_exit_explained [of demo_idle_env "''logs''" "\<lambda>_. False" 0 demo_pool_world "snd (?run 3 ?w2)"]
    by blast
qed

text \<open>A queue whose tasks all wait: a run finds nothing to pick and changes nothing.\<close>

definition queue_blocked :: "'w run_env \<Rightarrow> workspace_state \<times> 'w \<Rightarrow> bool" where
  "queue_blocked env c \<longleftrightarrow> rn_pick env c = (Inr None, c) \<and> ws_queue (fst c) \<noteq> [] \<and> ws_pool_stop_reason (fst c) = None"

definition quiet_daemon :: "'w run_env \<Rightarrow> 'w daemon_env \<Rightarrow> bool" where
  "quiet_daemon renv env \<longleftrightarrow>
     (\<forall>w. de_live_runner env w = None \<and> de_divergence env w = None \<and> de_backup env w = Inr None \<and>
          (\<exists>t. de_snapshot env w = Inr t) \<and> de_child env w = child_run renv w)"

lemma quiet_snapshot:
  assumes "quiet_daemon renv env" "queue_blocked renv (pw_core w)"
  shows "\<exists>out. snapshot_step env label w = (None, w \<lparr>pw_out := out\<rparr>)"
proof -
  obtain t where "de_snapshot env w = Inr t" using assms(1) unfolding quiet_daemon_def by blast
  then show ?thesis using assms(2)
    by (intro exI [of _ "pw_out w @ [t]"])
       (simp add: snapshot_step_def snapshot_exit_code_def queue_blocked_def has_work_def
          should_continue_for_stop_reason_def emit_def Let_def)
qed

lemma blocked_run_single:
  assumes "queue_blocked renv (pw_core w)"
  shows "\<exists>out. child_run renv w = (Inr 0, w \<lparr>pw_out := out\<rparr>)"
  using assms
  by (intro exI [of _ "pw_out w @ [''No queued task.'']"])
     (simp add: child_run_def run_single_def run_once_def record_cycle_start_def on_core_sel queue_blocked_def
        record_cycle_finish_def emit_def)

lemma blocked_cycle:
  assumes "quiet_daemon renv env" "queue_blocked renv (pw_core w)"
  shows "\<exists>out. run_cycle env log_root i w = (None, w \<lparr>pw_out := out, pw_spawned := Suc (pw_spawned w)\<rparr>)"
proof -
  note q = assms(1) [unfolded quiet_daemon_def, rule_format]
  let ?w = "emit (''== iteration '' @ int_str i @ '' =='') (emit [] w)"
  obtain o1 where 1: "snapshot_step env ''status'' ?w = (None, ?w \<lparr>pw_out := o1\<rparr>)"
    using quiet_snapshot [OF assms(1), of ?w] assms(2) by auto
  let ?v = "?w \<lparr>pw_out := o1, pw_spawned := Suc (pw_spawned w)\<rparr>"
  obtain o2 where 2: "child_run renv ?v = (Inr 0, ?v \<lparr>pw_out := o2\<rparr>)"
    using blocked_run_single [of renv ?v] assms(2) by auto
  obtain o3 where 3: "snapshot_step env ''post-status'' (?v \<lparr>pw_out := o2\<rparr>) = (None, ?v \<lparr>pw_out := o2\<rparr> \<lparr>pw_out := o3\<rparr>)"
    using quiet_snapshot [OF assms(1), of "?v \<lparr>pw_out := o2\<rparr>"] assms(2) by auto
  show ?thesis using 1 2 3 q
    by (intro exI [of _ o3]) (simp add: run_cycle_def halt_for_origin_divergence_def backup_step_def child_step_def emit_def)
qed

text \<open>The world before iteration \<open>k\<close>.\<close>

definition daemon_world :: "'w daemon_env \<Rightarrow> string \<Rightarrow> nat \<Rightarrow> 'w pool_world \<Rightarrow> 'w pool_world" where
  "daemon_world env log_root k w = fold (\<lambda>i w. snd (run_cycle env log_root (int i) w)) [1..<Suc k] w"

lemma blocked_daemon_world:
  assumes "quiet_daemon renv env" "queue_blocked renv (pw_core w)"
  shows "pw_core (daemon_world env log_root k w) = pw_core w \<and> pw_spawned (daemon_world env log_root k w) = pw_spawned w + k"
proof (induction k)
  case (Suc k)
  let ?v = "daemon_world env log_root k w"
  have step: "daemon_world env log_root (Suc k) w = snd (run_cycle env log_root (int (Suc k)) ?v)"
    by (simp add: daemon_world_def)
  from blocked_cycle [OF assms(1), of ?v log_root "int (Suc k)"] Suc assms(2)
  show ?case unfolding step by auto
qed (simp add: daemon_world_def)

lemma blocked_daemon_runs_on:
  assumes "daemon_loop env log_root stop i w = Some y"
  shows "(\<forall>j. \<not> stop j) \<longrightarrow> quiet_daemon renv env \<longrightarrow> \<not> queue_blocked renv (pw_core w)"
  using assms
proof (induction rule: daemon_loop.raw_induct [rotated, consumes 1, case_names 1])
  case (1 loop env log_root stop i w y)
  show ?case
  proof (intro impI notI)
    assume never: "\<forall>j. \<not> stop j" and quiet: "quiet_daemon renv env" and blocked: "queue_blocked renv (pw_core w)"
    obtain out where c: "run_cycle env log_root (i + 1) w = (None, w \<lparr>pw_out := out, pw_spawned := Suc (pw_spawned w)\<rparr>)"
      using blocked_cycle [OF quiet blocked] by blast
    let ?w = "w \<lparr>pw_out := out, pw_spawned := Suc (pw_spawned w)\<rparr>"
    have "loop env log_root stop (i + 1) ?w = Some y" using 1(2) never c by simp
    from 1(1) [OF this] never quiet blocked show False by simp
  qed
qed

text \<open>C36: a daemon whose queue holds only tasks that cannot be picked never ends and never rests: each
  iteration spawns another \<open>litehive run\<close> that finds nothing to do and leaves the workspace as it was.\<close>

theorem daemon_spins_on_blocked_queue:
  assumes "quiet_daemon renv env" "queue_blocked renv (pw_core w)"
  shows "daemon_loop env log_root (\<lambda>_. False) 0 w = None \<and>
         pw_spawned (daemon_world env log_root k w) = pw_spawned w + k \<and>
         pw_core (daemon_world env log_root k w) = pw_core w"
proof -
  have "daemon_loop env log_root (\<lambda>_. False) 0 w = None"
    using blocked_daemon_runs_on [of env log_root "\<lambda>_. False" 0 w _ renv] assms
    by (cases "daemon_loop env log_root (\<lambda>_. False) 0 w") auto
  then show ?thesis using blocked_daemon_world [OF assms] by blast
qed

definition demo_blocked :: "unit run_env" where
  "demo_blocked = demo_failing \<lparr>rn_pick := \<lambda>c. (Inr None, c)\<rparr>"

theorem daemon_spins_on_blocked_queue_witness:
  "daemon_loop (demo_idle_env \<lparr>de_child := child_run demo_blocked\<rparr>) ''logs'' (\<lambda>_. False) 0 demo_pool_world = None \<and>
   pw_spawned (daemon_world (demo_idle_env \<lparr>de_child := child_run demo_blocked\<rparr>) ''logs'' 1000 demo_pool_world) = 1000"
proof -
  let ?env = "demo_idle_env \<lparr>de_child := child_run demo_blocked\<rparr>"
  have "quiet_daemon demo_blocked ?env" by (simp add: quiet_daemon_def demo_idle_env_def)
  moreover have "queue_blocked demo_blocked (pw_core demo_pool_world)"
    by (simp add: queue_blocked_def demo_blocked_def demo_pool_world_def demo_pool_ws_def)
  ultimately show ?thesis
    using daemon_spins_on_blocked_queue [of demo_blocked ?env demo_pool_world "''logs''" 1000]
    by (simp add: demo_pool_world_def)
qed

end
