(* ===== verification/Worktree_Sync.thy ===== *)
theory Worktree_Sync
  imports Git_Commit Task_Status
begin

text \<open>
  Task worktrees: their paths (\<open>litehive/worktree/paths.py\<close>, \<open>litehive/domain/worktree.py\<close>) and the
  service that provisions and synchronises them before a run (\<open>litehive/worktree/sync.py\<close>), behind the
  sync node of the pipeline. The world is the file system with its repositories, on which the commands
  of \<open>Git_Ops\<close> act, and the stored tasks. \<open>task_record\<close> has no slug, which nothing here writes: it is a
  function of the task id.
\<close>

section \<open>The world\<close>

record 'g wt_world =
  ww_fs :: 'g
  ww_store :: task_store

record 'g wt_env =
  wt_files :: "'g world_env"
  wt_root :: string
  wt_area :: string
  wt_slug :: "string \<Rightarrow> string"
  wt_remove_tree :: "string \<Rightarrow> 'g \<Rightarrow> string option \<times> 'g"
  wt_unlink :: "string \<Rightarrow> 'g \<Rightarrow> string option \<times> 'g"
  wt_symlink :: "string \<Rightarrow> string \<Rightarrow> bool \<Rightarrow> 'g \<Rightarrow> string option \<times> 'g"
  wt_guard_conflict :: "'g \<Rightarrow> string option"

text \<open>The operations on files, seen from the world with the stored tasks.\<close>

definition on_fs :: "('g \<Rightarrow> 'r \<times> 'g) \<Rightarrow> 'g wt_world \<Rightarrow> 'r \<times> 'g wt_world" where
  "on_fs f w = (let (r, g) = f (ww_fs w) in (r, w \<lparr>ww_fs := g\<rparr>))"

definition lift_env :: "'g world_env \<Rightarrow> 'g wt_world world_env" where
  "lift_env e =
     \<lparr>we_git = (\<lambda>cwd args input. on_fs (we_git e cwd args input)),
      we_exists = (\<lambda>p w. we_exists e p (ww_fs w)), we_is_symlink = (\<lambda>p w. we_is_symlink e p (ww_fs w)),
      we_is_dir = (\<lambda>p w. we_is_dir e p (ww_fs w)), we_is_file = (\<lambda>p w. we_is_file e p (ww_fs w)),
      we_resolve = (\<lambda>p w. we_resolve e p (ww_fs w)), we_expanduser = (\<lambda>p w. we_expanduser e p (ww_fs w)),
      we_mkdir = (\<lambda>p. on_fs (we_mkdir e p)), we_copytree = (\<lambda>p q. on_fs (we_copytree e p q)),
      we_copy2 = (\<lambda>p q. on_fs (we_copy2 e p q))\<rparr>"

abbreviation wt_git :: "'g wt_env \<Rightarrow> 'g wt_world world_env" where
  "wt_git c \<equiv> lift_env (wt_files c)"

type_synonym ('g, 'a) wt_m = "('g wt_world, 'a) git_m"

definition fs_act :: "('g \<Rightarrow> string option \<times> 'g) \<Rightarrow> ('g, unit) wt_m" where
  "fs_act f = g_act (on_fs f)"

definition stored_task :: "string \<Rightarrow> ('g, task_record option) wt_m" where
  "stored_task tid = g_look (\<lambda>w. map_of (tw_tasks (ww_store w)) tid)"

definition update_store :: "(task_store \<Rightarrow> task_store) \<Rightarrow> ('g, unit) wt_m" where
  "update_store f = g_act (\<lambda>w. (None, w \<lparr>ww_store := f (ww_store w)\<rparr>))"

text \<open>\<open>WorkspaceTasks.save\<close>: the conflict it may raise when a runner holds the workspace is a value.\<close>

definition put_task :: "task_record \<Rightarrow> task_store \<Rightarrow> task_store" where
  "put_task t st = st \<lparr>tw_tasks := AList.update (t_id t) (task_state_for_storage t) (tw_tasks st)\<rparr>"

definition try_save_task :: "'g wt_env \<Rightarrow> task_record \<Rightarrow> ('g, string option) wt_m" where
  "try_save_task c t =
     g_bind (g_look (\<lambda>w. wt_guard_conflict c (ww_fs w))) (\<lambda>conflict.
     case conflict of Some msg \<Rightarrow> g_ret (Some msg)
     | None \<Rightarrow> g_bind (update_store (put_task t)) (\<lambda>_. g_ret None))"

definition save_task :: "'g wt_env \<Rightarrow> task_record \<Rightarrow> ('g, unit) wt_m" where
  "save_task c t =
     g_bind (try_save_task c t) (\<lambda>conflict.
     case conflict of Some msg \<Rightarrow> g_raise (Other_exn msg) | None \<Rightarrow> g_ret ())"

section \<open>The worktree a task records\<close>

definition get_task_worktree_path :: "task_record \<Rightarrow> string option" where
  "get_task_worktree_path t =
     (case pr_worktree_path (t_pipeline t) of Some p \<Rightarrow> if p \<noteq> [] then Some p else t_worktree_path t
      | None \<Rightarrow> t_worktree_path t)"

section \<open>Paths\<close>

definition task_dir_name :: "'g wt_env \<Rightarrow> string \<Rightarrow> string" where
  "task_dir_name c tid = tid @ ''-'' @ wt_slug c tid"

definition task_worktree_branch :: "'g wt_env \<Rightarrow> string \<Rightarrow> string" where
  "task_worktree_branch c tid = ''litehive/'' @ task_dir_name c tid"

definition task_worktree_path :: "'g wt_env \<Rightarrow> string \<Rightarrow> string" where
  "task_worktree_path c tid = path_join (wt_area c) (task_dir_name c tid)"

definition is_absolute :: "string \<Rightarrow> bool" where
  "is_absolute p = starts_with p slash"

definition is_relative_to :: "string \<Rightarrow> string \<Rightarrow> bool" where
  "is_relative_to p base = (p = base \<or> starts_with p (strip_slashes base @ slash))"

definition expanded :: "'g wt_env \<Rightarrow> string \<Rightarrow> ('g, string) wt_m" where
  "expanded c p = g_look (we_expanduser (wt_git c) p)"

definition resolved :: "'g wt_env \<Rightarrow> string \<Rightarrow> ('g, string) wt_m" where
  "resolved c p = g_look (we_resolve (wt_git c) p)"

definition path_there :: "'g wt_env \<Rightarrow> string \<Rightarrow> ('g, bool) wt_m" where
  "path_there c p = g_look (we_exists (wt_git c) p)"

definition is_managed_worktree_path :: "'g wt_env \<Rightarrow> string option \<Rightarrow> ('g, bool) wt_m" where
  "is_managed_worktree_path c rel =
     (case rel of None \<Rightarrow> g_ret False
      | Some p \<Rightarrow>
          if p = [] then g_ret False
          else g_bind (expanded c p) (\<lambda>q.
               if \<not> is_absolute q then g_ret False
               else g_bind (resolved c q) (\<lambda>r.
                    g_bind (resolved c (wt_area c)) (\<lambda>area. g_ret (is_relative_to r area)))))"

definition resolve_recorded_worktree_path :: "'g wt_env \<Rightarrow> string option \<Rightarrow> ('g, string option) wt_m" where
  "resolve_recorded_worktree_path c rel =
     (case rel of None \<Rightarrow> g_ret None
      | Some p \<Rightarrow>
          if p = [] then g_ret None
          else g_bind (expanded c p) (\<lambda>q.
               g_bind (resolved c (if is_absolute q then q else path_join (wt_root c) q)) (\<lambda>r.
               g_ret (Some r))))"

definition serialize_worktree_path :: "'g wt_env \<Rightarrow> string \<Rightarrow> ('g, string) wt_m" where
  "serialize_worktree_path c p = g_bind (expanded c p) (resolved c)"

text \<open>\<open>ensure_venv_link\<close>: the link of a new worktree to the virtual environment of the main checkout.\<close>

definition ensure_venv_link :: "'g wt_env \<Rightarrow> string \<Rightarrow> ('g, string option) wt_m" where
  "ensure_venv_link c worktree =
     (let env = wt_git c in
      g_bind (expanded c (path_join (wt_root c) ''.venv'')) (\<lambda>main_venv.
      g_bind (g_look (\<lambda>w. we_exists env main_venv w \<or> we_is_symlink env main_venv w)) (\<lambda>has_venv.
      if \<not> has_venv then g_ret None else
      let venv = path_join worktree ''.venv'' in
      g_bind (g_look (\<lambda>w. we_is_symlink env venv w \<and> we_resolve env venv w = we_resolve env main_venv w)) (\<lambda>linked.
      if linked then g_ret (Some venv) else
      g_bind (g_look (\<lambda>w. (we_is_symlink env venv w, we_exists env venv w, we_is_dir env venv w))) (\<lambda>(link, there, dir).
      g_bind (if link \<or> there
              then (if dir \<and> \<not> link then fs_act (wt_remove_tree c venv) else fs_act (wt_unlink c venv))
              else g_ret ()) (\<lambda>_.
      g_bind (g_look (we_is_dir env main_venv)) (\<lambda>main_is_dir.
      g_bind (fs_act (wt_symlink c venv main_venv main_is_dir)) (\<lambda>_. g_ret (Some venv)))))))))"

section \<open>Finding the worktree of a branch\<close>

definition tracked_here :: "'g wt_env \<Rightarrow> string \<Rightarrow> string option \<Rightarrow> string option \<Rightarrow> ('g, string option) wt_m" where
  "tracked_here c branch path current =
     (case path of None \<Rightarrow> g_ret None
      | Some p \<Rightarrow>
          if current \<noteq> Some branch then g_ret None
          else g_bind (path_there c p) (\<lambda>there.
               if there then g_bind (resolved c p) (\<lambda>r. g_ret (Some r)) else g_ret None))"

fun scan_worktrees ::
  "'g wt_env \<Rightarrow> string \<Rightarrow> string option \<Rightarrow> string option \<Rightarrow> string list \<Rightarrow> ('g, string option) wt_m" where
  "scan_worktrees c branch path current [] = tracked_here c branch path current"
| "scan_worktrees c branch path current (raw # ls) =
     (let line = py_strip raw in
      if line = []
      then g_bind (tracked_here c branch path current) (\<lambda>found.
           case found of Some p \<Rightarrow> g_ret (Some p) | None \<Rightarrow> scan_worktrees c branch None None ls)
      else if starts_with line ''worktree ''
      then g_bind (expanded c (py_strip (removeprefix line ''worktree ''))) (\<lambda>p.
           scan_worktrees c branch (Some p) current ls)
      else if starts_with line ''branch refs/heads/''
      then scan_worktrees c branch path (Some (py_strip (removeprefix line ''branch refs/heads/''))) ls
      else scan_worktrees c branch path current ls)"

definition registered_worktree_for_branch :: "'g wt_env \<Rightarrow> string \<Rightarrow> ('g, string option) wt_m" where
  "registered_worktree_for_branch c branch =
     g_bind (list_worktrees_porcelain (wt_git c) (wt_root c)) (\<lambda>text.
     scan_worktrees c branch None None (splitlines text))"

section \<open>Local work and the upstream\<close>

definition stash_local_changes :: "'g wt_env \<Rightarrow> string \<Rightarrow> ('g, string option) wt_m" where
  "stash_local_changes c wt =
     (let env = wt_git c in
      g_bind (status_porcelain_with_options env wt False) (\<lambda>dirty.
      if dirty = [] then g_ret None else
      g_bind (rev_parse_verify env wt ''refs/stash'') (\<lambda>before.
      g_bind (stash_push env wt ''litehive-worktree-sync'' True []) (\<lambda>(ok, message).
      if \<not> ok then g_raise (GitError (''git stash push failed: '' @ message)) else
      g_bind (rev_parse_verify env wt ''refs/stash'') (\<lambda>after.
      g_ret (if after = None \<or> after = before then None else after))))))"

definition restore_local_changes :: "'g wt_env \<Rightarrow> string \<Rightarrow> string option \<Rightarrow> ('g, unit) wt_m" where
  "restore_local_changes c wt stash_ref =
     (case stash_ref of None \<Rightarrow> g_ret ()
      | Some r \<Rightarrow>
          g_bind (stash_pop (wt_git c) wt (Some r) True) (\<lambda>(ok, message).
          if ok then g_ret () else
          g_bind (unmerged_files (wt_git c) wt) (\<lambda>unresolved.
          if unresolved \<noteq> [] then g_raise (Conflict_exn unresolved)
          else g_raise (GitError (''git stash pop failed: '' @ message)))))"

text \<open>
  \<open>_merge_origin_main\<close>. The handler restores the stash for the exceptions raised before it was
  restored; an exception of the restoring itself leaves \<open>restored_stash\<close> false, so it is tried again.
\<close>

definition after_failure :: "'g wt_env \<Rightarrow> string \<Rightarrow> string option \<Rightarrow> git_exn \<Rightarrow> ('g, 'a) wt_m" where
  "after_failure c wt stash_ref e =
     g_bind (if stash_ref = None then g_ret False
             else g_bind (unmerged_files (wt_git c) wt) (\<lambda>unresolved. g_ret (unresolved = []))) (\<lambda>restore.
     g_bind (if restore then restore_local_changes c wt stash_ref else g_ret ()) (\<lambda>_. g_raise e))"

definition merge_origin_main :: "'g wt_env \<Rightarrow> string \<Rightarrow> string \<Rightarrow> ('g, bool) wt_m" where
  "merge_origin_main c wt main_ref =
     (let env = wt_git c in
      g_bind (stash_local_changes c wt) (\<lambda>stash_ref.
      g_bind (g_catch
        (g_bind (git_fetch env wt ''origin'' []) (\<lambda>(ok, fetch_message).
         if \<not> ok then g_raise (GitError (''git fetch failed: '' @ fetch_message)) else
         g_bind (merge_no_edit env wt main_ref) (\<lambda>(merged, merge_message).
         if merged
         then g_bind (restore_local_changes c wt stash_ref) (\<lambda>_.
              g_ret (Inr (\<not> contains_text merge_message ''Already up to date'')))
         else g_bind (unmerged_files env wt) (\<lambda>unresolved.
              if unresolved \<noteq> [] then g_raise (Conflict_exn unresolved) else
              g_bind (merge_abort env wt) (\<lambda>_.
              g_bind (restore_local_changes c wt stash_ref) (\<lambda>_.
              g_ret (Inl (''worktree_sync merge failed: '' @ merge_message))))))))
        (after_failure c wt stash_ref)) (\<lambda>r.
      case r of Inr changed \<Rightarrow> g_ret changed | Inl msg \<Rightarrow> g_raise (GitError msg))))"

definition rebase_existing_worktree_onto_local_main :: "'g wt_env \<Rightarrow> string \<Rightarrow> ('g, bool) wt_m" where
  "rebase_existing_worktree_onto_local_main c wt =
     (let env = wt_git c in
      g_bind (resolved c wt) (\<lambda>here.
      g_bind (resolved c (wt_root c)) (\<lambda>main.
      if here = main then g_ret False else
      g_bind (current_head env (wt_root c)) (\<lambda>main_head.
      case main_head of None \<Rightarrow> g_ret False
      | Some m \<Rightarrow>
          g_bind (current_head env wt) (\<lambda>before.
          g_bind (rebase_worktree_onto env wt m) (\<lambda>rebased.
          if rebased
          then g_bind (current_head env wt) (\<lambda>after. g_ret (after \<noteq> None \<and> after \<noteq> before))
          else g_bind (unmerged_files env wt) (\<lambda>unresolved.
               if unresolved \<noteq> [] then g_raise (Conflict_exn unresolved)
               else g_raise (GitError (''worktree_sync rebase onto local main '' @ take 8 m @ '' failed'')))))))))"

section \<open>Synchronising\<close>

record wt_sync_result =
  sr_changed :: bool
  sr_worktree_path :: "string option"

definition provision_worktree :: "'g wt_env \<Rightarrow> task_record \<Rightarrow> string \<Rightarrow> ('g, wt_sync_result) wt_m" where
  "provision_worktree c t branch =
     (let env = wt_git c; wt = task_worktree_path c (t_id t) in
      g_bind (g_act (we_mkdir env (path_parent wt))) (\<lambda>_.
      g_bind (prune_worktrees env (wt_root c) True) (\<lambda>_.
      g_bind (add_worktree_branch env (wt_root c) branch wt ''HEAD'' True) (\<lambda>_.
      g_bind (ensure_venv_link c wt) (\<lambda>_.
      g_bind (serialize_worktree_path c wt) (\<lambda>text.
      g_bind (save_task c (set_task_worktree_path (Some text) t)) (\<lambda>_.
      g_ret \<lparr>sr_changed = True, sr_worktree_path = Some wt\<rparr>)))))))"

definition sync_existing_worktree ::
  "'g wt_env \<Rightarrow> string option \<Rightarrow> ('g, string) wt_m option \<Rightarrow> string \<Rightarrow> string \<Rightarrow> ('g, wt_sync_result) wt_m" where
  "sync_existing_worktree c entry resolver main_ref recorded =
     (let env = wt_git c in
      g_bind (case resolver of None \<Rightarrow> g_ret recorded | Some r \<Rightarrow> r) (\<lambda>wt.
      g_bind (path_there c wt) (\<lambda>there.
      if \<not> there then g_ret \<lparr>sr_changed = False, sr_worktree_path = Some wt\<rparr> else
      g_bind (if entry = None then g_ret False else rebase_existing_worktree_onto_local_main c wt) (\<lambda>main_changed.
      g_bind (has_changes env wt) (\<lambda>dirty.
      if dirty then g_ret \<lparr>sr_changed = main_changed, sr_worktree_path = Some wt\<rparr> else
      g_bind (remote_url env wt ''origin'') (\<lambda>url.
      if url = None then g_ret \<lparr>sr_changed = main_changed, sr_worktree_path = Some wt\<rparr> else
      g_bind (merge_origin_main c wt main_ref) (\<lambda>changed.
      g_ret \<lparr>sr_changed = (main_changed \<or> changed), sr_worktree_path = Some wt\<rparr>)))))))"

definition sync_task_worktree ::
  "'g wt_env \<Rightarrow> string \<Rightarrow> string option \<Rightarrow> ('g, string) wt_m option \<Rightarrow> string \<Rightarrow> ('g, wt_sync_result) wt_m" where
  "sync_task_worktree c tid entry resolver main_ref =
     g_bind (is_git_repo (wt_git c) (wt_root c)) (\<lambda>is_repo.
     if \<not> is_repo then g_ret \<lparr>sr_changed = False, sr_worktree_path = None\<rparr> else
     g_bind (stored_task tid) (\<lambda>found.
     case found of
       None \<Rightarrow> g_raise (GitError (''task '' @ tid @ '' not found while creating worktree''))
     | Some t \<Rightarrow>
         g_bind (resolve_recorded_worktree_path c (get_task_worktree_path t)) (\<lambda>recorded.
         g_bind (case recorded of None \<Rightarrow> g_ret None
                 | Some p \<Rightarrow> g_bind (path_there c p) (\<lambda>there. g_ret (if there then Some p else None))) (\<lambda>usable.
         case usable of
           Some p \<Rightarrow> sync_existing_worktree c entry resolver main_ref p
         | None \<Rightarrow>
             g_bind (registered_worktree_for_branch c (task_worktree_branch c tid)) (\<lambda>existing.
             case existing of
               None \<Rightarrow> provision_worktree c t (task_worktree_branch c tid)
             | Some p \<Rightarrow>
                 g_bind (serialize_worktree_path c p) (\<lambda>text.
                 g_bind (save_task c (set_task_worktree_path (Some text) t)) (\<lambda>_.
                 sync_existing_worktree c entry resolver main_ref p)))))))"

text \<open>The service behind \<open>GitWorktreeSyncNode\<close>.\<close>

definition sync_service ::
  "'g wt_env \<Rightarrow> (task_state \<Rightarrow> ('g, string) wt_m) \<Rightarrow> string \<Rightarrow> task_state \<Rightarrow> 'g wt_world gw \<Rightarrow>
   sync_service_result \<times> 'g wt_world gw" where
  "sync_service c resolver main_ref s w =
     (case sync_task_worktree c (task_id s) (map_option pipeline_state_value (entry_stage s))
             (Some (resolver s)) main_ref w of
        (Inr r, w1) \<Rightarrow> (Sync_Done (sr_changed r), w1)
      | (Inl (Conflict_exn files), w1) \<Rightarrow> (Sync_Conflict files, w1)
      | (Inl (GitError msg), w1) \<Rightarrow> (Sync_Raised msg, w1)
      | (Inl (Other_exn msg), w1) \<Rightarrow> (Sync_Raised msg, w1))"

definition git_worktree_sync_node_run ::
  "'g wt_env \<Rightarrow> (task_state \<Rightarrow> ('g, string) wt_m) \<Rightarrow> string \<Rightarrow> task_state \<Rightarrow> 'g wt_world gw \<Rightarrow>
   (lifecycle_error + event) \<times> 'g wt_world gw" where
  "git_worktree_sync_node_run c resolver main_ref =
     worktree_sync_node_run (git_worktree_sync (sync_service c resolver main_ref))"

end
