(* ===== verification/Worktree_Rescue.thy ===== *)
theory Worktree_Rescue
  imports Worktree_Sync
begin

text \<open>
  The rescue of commits that never landed (\<open>litehive/worktree/rescue.py\<close>). The workspace state lists the
  tasks with an unmerged worktree by id.
\<close>

section \<open>Records\<close>

record rescue_candidate =
  rc_task_id :: string
  rc_worktree_rel :: string
  rc_worktree_path :: string
  rc_commit_shas :: "string list"

record rescue_result =
  rq_task_id :: string
  rq_worktree_rel :: string
  rq_status :: string
  rq_commit_shas :: "string list"
  rq_head_sha :: "string option"
  rq_message :: "string option"

definition rescue_result_of ::
  "rescue_candidate \<Rightarrow> string \<Rightarrow> string list \<Rightarrow> string option \<Rightarrow> string \<Rightarrow> rescue_result" where
  "rescue_result_of cand status shas head message =
     \<lparr>rq_task_id = rc_task_id cand, rq_worktree_rel = rc_worktree_rel cand, rq_status = status,
      rq_commit_shas = shas, rq_head_sha = head, rq_message = Some message\<rparr>"

text \<open>\<open>WorkspaceTasks.list(strict=False)\<close>: by id.\<close>

definition listed_tasks :: "('g, task_record list) wt_m" where
  "listed_tasks = g_look (\<lambda>w. map snd (sort_key fst (tw_tasks (ww_store w))))"

definition workspace_now :: "('g, workspace_state) wt_m" where
  "workspace_now = g_look (\<lambda>w. tw_ws (ww_store w))"

section \<open>Questions to git\<close>

definition fork_point :: "'g wt_env \<Rightarrow> string \<Rightarrow> ('g, string option) wt_m" where
  "fork_point c wt =
     g_bind (current_head (wt_git c) (wt_root c)) (\<lambda>main_head.
     stdout_or_none (wt_git c) wt [''merge-base'', opt_str_or main_head ''HEAD'', ''HEAD''])"

definition worktree_commits_ahead_of_main :: "'g wt_env \<Rightarrow> string \<Rightarrow> ('g, string list) wt_m" where
  "worktree_commits_ahead_of_main c wt =
     g_bind (fork_point c wt) (\<lambda>fork.
     case fork of None \<Rightarrow> g_ret []
     | Some f \<Rightarrow> stdout_lines (wt_git c) wt [''rev-list'', ''--reverse'', f @ ''..HEAD''])"

definition patch_already_on_main :: "'g wt_env \<Rightarrow> string \<Rightarrow> string \<Rightarrow> ('g, bool) wt_m" where
  "patch_already_on_main c wt_head main_head =
     g_bind (cherry_check (wt_git c) (wt_root c) main_head wt_head) (\<lambda>ls.
     g_ret (case ls of None \<Rightarrow> False | Some ls \<Rightarrow> ls = [] \<or> (\<forall>l\<in>set ls. starts_with l ''-'')))"

definition is_task_metadata_path :: "string \<Rightarrow> string \<Rightarrow> bool" where
  "is_task_metadata_path tid path = starts_with path (''.litehive/tasks/'' @ tid @ ''-'')"

definition worktree_has_non_metadata_changes :: "'g wt_env \<Rightarrow> string \<Rightarrow> string \<Rightarrow> ('g, bool) wt_m" where
  "worktree_has_non_metadata_changes c wt tid =
     g_bind (fork_point c wt) (\<lambda>fork.
     case fork of None \<Rightarrow> g_ret False
     | Some f \<Rightarrow>
         g_bind (stdout_lines (wt_git c) wt [''diff'', ''--name-only'', f, ''HEAD'']) (\<lambda>paths.
         g_ret (\<exists>p\<in>set paths. \<not> is_task_metadata_path tid p)))"

section \<open>Candidates\<close>

definition rescue_candidate_of :: "'g wt_env \<Rightarrow> task_record \<Rightarrow> ('g, rescue_candidate option) wt_m" where
  "rescue_candidate_of c t =
     (if t_status t \<noteq> Tst_FLAGGED \<or> t_flag_reason t \<noteq> Some ''merge_failed'' then g_ret None else
      let rel = get_task_worktree_path t in
      g_bind (is_managed_worktree_path c rel) (\<lambda>managed.
      if \<not> managed then g_ret None else
      g_bind (resolve_recorded_worktree_path c rel) (\<lambda>path.
      case (path, rel) of
        (Some p, Some r) \<Rightarrow>
          g_bind (path_there c p) (\<lambda>there.
          g_bind (if there then worktree_commits_ahead_of_main c p else g_ret []) (\<lambda>shas.
          g_ret (Some \<lparr>rc_task_id = t_id t, rc_worktree_rel = r, rc_worktree_path = p, rc_commit_shas = shas\<rparr>)))
      | _ \<Rightarrow> g_ret None)))"

definition collect_rescue_candidates :: "'g wt_env \<Rightarrow> ('g, rescue_candidate list) wt_m" where
  "collect_rescue_candidates c =
     g_bind listed_tasks (\<lambda>ts.
     g_bind (g_map (rescue_candidate_of c) ts) (\<lambda>cs.
     g_ret (sort_key rc_task_id (List.map_filter (\<lambda>x. x) cs))))"

definition require_clean_main_checkout :: "'g wt_env \<Rightarrow> ('g, unit) wt_m" where
  "require_clean_main_checkout c =
     (let refused = g_raise (GitError (''worktree rescue --apply requires a clean checkout on branch '' @
            [CHR 0x27] @ ''main'' @ [CHR 0x27])) in
      g_bind (stdout_or_none (wt_git c) (wt_root c) [''branch'', ''--show-current'']) (\<lambda>branch.
      if branch \<notin> {Some ''main'', Some ''master''} then refused else
      g_bind (has_non_litehive_changes (wt_git c) (wt_root c)) (\<lambda>dirty.
      if dirty then refused else g_ret ())))"

section \<open>The workspace's own files\<close>

definition stash_litehive_changes :: "'g wt_env \<Rightarrow> ('g, string option) wt_m" where
  "stash_litehive_changes c =
     (let env = wt_git c; root = wt_root c in
      g_bind (stdout_lines env root
        [''status'', ''--porcelain'', ''--untracked-files=all'', ''--'', ''.litehive'']) (\<lambda>pending.
      if pending = [] then g_ret None else
      g_bind (rev_parse_verify env root ''refs/stash'') (\<lambda>before.
      g_bind (stash_push env root ''litehive-worktree-rescue'' True [''.litehive'']) (\<lambda>_.
      g_bind (rev_parse_verify env root ''refs/stash'') (\<lambda>after.
      g_ret (if after \<noteq> None \<and> after \<noteq> before then after else None))))))"

definition restore_litehive_changes :: "'g wt_env \<Rightarrow> string option \<Rightarrow> ('g, unit) wt_m" where
  "restore_litehive_changes c stash_ref =
     (case stash_ref of None \<Rightarrow> g_ret ()
      | Some r \<Rightarrow>
          g_bind (stash_pop (wt_git c) (wt_root c) (Some r) True) (\<lambda>(ok, _).
          if ok then g_ret () else
          g_bind (stash_apply (wt_git c) (wt_root c) r) (\<lambda>_. stash_drop (wt_git c) (wt_root c) r)))"

definition resolve_metadata_conflicts :: "'g wt_env \<Rightarrow> string list \<Rightarrow> ('g, unit) wt_m" where
  "resolve_metadata_conflicts c paths =
     (if paths = [] then g_ret () else
      g_bind (checkout_ours (wt_git c) (wt_root c) paths) (\<lambda>_.
      g_catch (add_paths (wt_git c) (wt_root c) paths False)
        (\<lambda>e. case e of GitError _ \<Rightarrow> g_ret () | _ \<Rightarrow> g_raise e)))"

definition drop_task_metadata_changes :: "'g wt_env \<Rightarrow> string \<Rightarrow> ('g, unit) wt_m" where
  "drop_task_metadata_changes c tid =
     g_bind (stdout_lines (wt_git c) (wt_root c) [''diff'', ''--cached'', ''--name-only'']) (\<lambda>changed.
     restore_paths (wt_git c) (wt_root c) (List.filter (is_task_metadata_path tid) changed) ''HEAD'' True True)"

section \<open>The records of a rescue\<close>

definition finalize_message :: "string \<Rightarrow> string option \<Rightarrow> string" where
  "finalize_message outcome sha =
     (case sha of
        Some h \<Rightarrow>
          if outcome = ''rescued'' then ''Worktree rescue applied onto main at '' @ h @ ''.''
          else if outcome = ''already-landed''
          then ''Worktree rescue reconciled: patch already landed on main at '' @ h @ ''.''
          else ''Worktree rescue found no commits ahead of main; cleared pending rescue state.''
      | None \<Rightarrow> ''Worktree rescue found no commits ahead of main; cleared pending rescue state.'')"

definition rescued_task :: "string \<Rightarrow> string option \<Rightarrow> task_record \<Rightarrow> task_record" where
  "rescued_task outcome sha t =
     (let t1 = set_task_worktree_path None t in
      if outcome \<in> {''rescued'', ''already-landed'', ''no-op''}
      then set_task_commit_sha sha (t1 \<lparr>t_status := Tst_DONE, t_pipeline_status := Pst_DONE\<rparr>)
      else t1)"

fun error_text :: "queue_error \<Rightarrow> string" where
  "error_text (Queue_ValueError msg) = msg"
| "error_text (Workspace_conflict msg) = msg"
| "error_text (Task_not_found msg) = msg"
| "error_text (Launch_failure msg) = msg"

text \<open>\<open>_finalize_rescue_impl\<close>; \<open>Inl\<close> is the \<open>WorkspaceConflictError\<close> its callers catch.\<close>

definition finalize_rescue_store ::
  "task_record \<Rightarrow> string \<Rightarrow> string option \<Rightarrow> task_store \<Rightarrow> string + task_store" where
  "finalize_rescue_store t outcome sha st =
     (let ws = tw_ws st in
      if ws_active_task_id ws = Some (t_id t)
      then Inl (''task '' @ t_id t @ '' is still state.active_task_id; worktree rescue refuses to race with the runner'')
      else case ensure_future_task_mutation_allowed [t_id t] (tw_tasks st) ws of
        Inl err \<Rightarrow> Inl (error_text err)
      | Inr _ \<Rightarrow>
          Inr (persist_transition (rescued_task outcome sha t)
            (ws \<lparr>ws_unmerged_worktrees := List.filter (\<lambda>i. i \<noteq> t_id t) (ws_unmerged_worktrees ws)\<rparr>)
            (finalize_message outcome sha) st))"

definition finalize_rescue ::
  "task_record \<Rightarrow> string \<Rightarrow> string option \<Rightarrow> ('g, string option) wt_m" where
  "finalize_rescue t outcome sha =
     g_bind (g_look (\<lambda>w. finalize_rescue_store t outcome sha (ww_store w))) (\<lambda>r.
     case r of Inl msg \<Rightarrow> g_ret (Some msg) | Inr st \<Rightarrow> g_bind (update_store (\<lambda>_. st)) (\<lambda>_. g_ret None))"

definition ensure_unmerged_worktree_state :: "'g wt_env \<Rightarrow> string \<Rightarrow> ('g, unit) wt_m" where
  "ensure_unmerged_worktree_state c tid =
     g_bind workspace_now (\<lambda>ws.
     if tid \<in> set (ws_unmerged_worktrees ws) then g_ret () else
     g_bind (g_look (\<lambda>w. wt_guard_conflict c (ww_fs w))) (\<lambda>conflict.
     case conflict of Some msg \<Rightarrow> g_raise (Other_exn msg)
     | None \<Rightarrow> update_store (\<lambda>st. st \<lparr>tw_ws := ws \<lparr>ws_unmerged_worktrees := ws_unmerged_worktrees ws @ [tid]\<rparr>\<rparr>)))"

section \<open>Applying a candidate\<close>

definition finish_rescue ::
  "task_record \<Rightarrow> rescue_candidate \<Rightarrow> string \<Rightarrow> string option \<Rightarrow> string option \<Rightarrow> string \<Rightarrow> string \<Rightarrow>
   ('g, rescue_result) wt_m" where
  "finish_rescue t cand outcome head conflict_head status message =
     g_bind (finalize_rescue t outcome head) (\<lambda>conflict.
     case conflict of
       Some msg \<Rightarrow> g_ret (rescue_result_of cand ''active_task'' (rc_commit_shas cand) conflict_head msg)
     | None \<Rightarrow> g_ret (rescue_result_of cand status (rc_commit_shas cand) head message))"

definition manual_conflict ::
  "'g wt_env \<Rightarrow> task_record \<Rightarrow> rescue_candidate \<Rightarrow> string option \<Rightarrow> string \<Rightarrow> ('g, rescue_result) wt_m" where
  "manual_conflict c t cand stashed message =
     g_bind (cherry_pick_abort (wt_git c) (wt_root c)) (\<lambda>_.
     g_bind (restore_litehive_changes c stashed) (\<lambda>_.
     g_bind (save_task c t) (\<lambda>_.
     g_bind (ensure_unmerged_worktree_state c (t_id t)) (\<lambda>_.
     g_ret (rescue_result_of cand ''manual_conflict'' (rc_commit_shas cand) None message)))))"

text \<open>One commit: \<open>Some message\<close> when it needs a person.\<close>

definition rescue_commit :: "'g wt_env \<Rightarrow> string \<Rightarrow> string \<Rightarrow> ('g, string option) wt_m" where
  "rescue_commit c tid sha =
     (let env = wt_git c; root = wt_root c in
      g_bind (cherry_pick_no_commit env root sha) (\<lambda>(ok, pick_message).
      g_bind (if ok then g_ret None
              else g_bind (unmerged_files env root) (\<lambda>conflicts.
                   let metadata = List.filter (is_task_metadata_path tid) conflicts in
                   if conflicts \<noteq> [] \<and> length metadata = length conflicts
                   then g_bind (resolve_metadata_conflicts c metadata) (\<lambda>_. g_ret None)
                   else g_ret (Some (str_or pick_message ''git cherry-pick failed'')))) (\<lambda>stuck.
      case stuck of Some message \<Rightarrow> g_ret (Some message)
      | None \<Rightarrow>
          g_bind (drop_task_metadata_changes c tid) (\<lambda>_.
          g_bind (g_catch (g_bind (index_has_staged_changes env root) (\<lambda>b. g_ret (Some b)))
                    (\<lambda>e. case e of GitError _ \<Rightarrow> g_ret None | _ \<Rightarrow> g_raise e)) (\<lambda>staged.
          case staged of
            None \<Rightarrow> g_ret (Some ''unable to inspect staged rescue changes'')
          | Some False \<Rightarrow> g_ret None
          | Some True \<Rightarrow>
              g_bind (commit_reuse_message env root sha) (\<lambda>(committed, commit_message).
              g_ret (if committed then None
                     else Some (str_or commit_message ''git commit failed after rescue cherry-pick''))))))))"

fun rescue_commits ::
  "'g wt_env \<Rightarrow> task_record \<Rightarrow> rescue_candidate \<Rightarrow> string option \<Rightarrow> string list \<Rightarrow> ('g, rescue_result) wt_m" where
  "rescue_commits c t cand stashed [] =
     g_bind (restore_litehive_changes c stashed) (\<lambda>_.
     g_bind (current_head (wt_git c) (wt_root c)) (\<lambda>head.
     finish_rescue t cand ''rescued'' head head ''clean'' ''rescued onto main''))"
| "rescue_commits c t cand stashed (sha # shas) =
     g_bind (rescue_commit c (t_id t) sha) (\<lambda>stuck.
     case stuck of
       Some message \<Rightarrow> manual_conflict c t cand stashed message
     | None \<Rightarrow> rescue_commits c t cand stashed shas)"

definition rescue_task :: "'g wt_env \<Rightarrow> rescue_candidate \<Rightarrow> task_record \<Rightarrow> ('g, rescue_result) wt_m" where
  "rescue_task c cand t =
     (let env = wt_git c; root = wt_root c; shas = rc_commit_shas cand in
      g_bind (path_there c (rc_worktree_path cand)) (\<lambda>there.
      if \<not> there then g_ret (rescue_result_of cand ''missing_worktree'' shas None ''recorded worktree is missing'') else
      g_bind workspace_now (\<lambda>ws.
      if ws_active_task_id ws = Some (t_id t)
      then g_ret (rescue_result_of cand ''active_task'' shas None
             (''task '' @ t_id t @ '' is still state.active_task_id; worktree rescue refuses to race with the runner''))
      else
      g_bind (stdout_or_none env (rc_worktree_path cand) [''rev-parse'', ''HEAD'']) (\<lambda>wt_head.
      g_bind (current_head env root) (\<lambda>main_head.
      g_bind (case (wt_head, main_head) of
                (Some h, Some m) \<Rightarrow> if shas = [] \<and> h = m then g_ret False else patch_already_on_main c h m
              | _ \<Rightarrow> g_ret False) (\<lambda>landed.
      if landed
      then finish_rescue t cand ''already-landed'' main_head None ''already_landed'' ''worktree patch already landed on main''
      else if shas = []
      then g_bind (if wt_head \<noteq> None \<and> main_head \<noteq> None \<and> wt_head \<noteq> main_head
                   then worktree_has_non_metadata_changes c (rc_worktree_path cand) (t_id t)
                   else g_ret False) (\<lambda>changed.
           if changed
           then finish_rescue t cand ''already-landed'' main_head None ''already_landed'' ''worktree patch already landed on main''
           else finish_rescue t cand ''no-op'' main_head None ''no_commits'' ''no worktree commits ahead of main'')
      else g_bind (stash_litehive_changes c) (\<lambda>stashed. rescue_commits c t cand stashed shas)))))))"

definition apply_rescue_candidate :: "'g wt_env \<Rightarrow> rescue_candidate \<Rightarrow> ('g, rescue_result) wt_m" where
  "apply_rescue_candidate c cand =
     g_bind (stored_task (rc_task_id cand)) (\<lambda>found.
     case found of
       None \<Rightarrow> g_ret (rescue_result_of cand ''missing_worktree'' (rc_commit_shas cand) None ''task record is missing'')
     | Some t \<Rightarrow> rescue_task c cand t)"

end
