(* ===== verification/Worktree_Cleanup.thy ===== *)
theory Worktree_Cleanup
  imports Worktree_Rescue Pool_Domain
begin

text \<open>
  Listing and removal of task worktrees (\<open>litehive/worktree/cleanup.py\<close>) and the inspection behind the
  dirty-worktree gate (\<open>litehive/worktree/inspection.py\<close>). The line a deferred removal leaves in the
  attention log is a field of the result.
\<close>

section \<open>Managed worktrees\<close>

record managed_worktree =
  mw_task_id :: string
  mw_status :: task_status
  mw_worktree_rel :: string
  mw_worktree_path :: string
  mw_change_count :: nat
  mw_active :: bool

definition mw_cleanable :: "managed_worktree \<Rightarrow> bool" where
  "mw_cleanable m = (mw_status m \<in> {Tst_CLOSED, Tst_DONE} \<and> \<not> mw_active m)"

text \<open>The exceptions of git are caught; others pass.\<close>

definition catch_git :: "('g, 'a) wt_m \<Rightarrow> (string \<Rightarrow> ('g, 'a) wt_m) \<Rightarrow> ('g, 'a) wt_m" where
  "catch_git m h = g_catch m (\<lambda>e. case e of GitError msg \<Rightarrow> h msg | _ \<Rightarrow> g_raise e)"

definition cleanup_terminal_task_worktree :: "'g wt_env \<Rightarrow> task_record \<Rightarrow> ('g, unit) wt_m" where
  "cleanup_terminal_task_worktree c t =
     (let rel = get_task_worktree_path t; env = wt_git c in
      if rel = None \<or> rel = Some [] then g_ret () else
      g_bind (resolve_recorded_worktree_path c rel) (\<lambda>path.
      g_bind (case path of None \<Rightarrow> g_ret ()
              | Some p \<Rightarrow> g_bind (path_there c p) (\<lambda>there.
                  if there then remove_worktree env (wt_root c) p True else g_ret ())) (\<lambda>_.
      g_bind (save_task c (set_task_worktree_path None t)) (\<lambda>_.
      delete_branch env (wt_root c) (task_worktree_branch c (t_id t))))))"

definition managed_worktree_of ::
  "'g wt_env \<Rightarrow> string option \<Rightarrow> string option \<Rightarrow> task_record \<Rightarrow> ('g, managed_worktree option) wt_m" where
  "managed_worktree_of c active_id active_path t =
     (let rel = get_task_worktree_path t in
      g_bind (is_managed_worktree_path c rel) (\<lambda>managed.
      if \<not> managed then g_ret None else
      g_bind (resolve_recorded_worktree_path c rel) (\<lambda>path.
      case (path, rel) of
        (Some p, Some r) \<Rightarrow>
          g_bind (path_there c p) (\<lambda>there.
          if \<not> there then g_ret None else
          g_bind (catch_git (g_bind (status_porcelain (wt_git c) p) (\<lambda>ls. g_ret (length ls))) (\<lambda>_. g_ret 0)) (\<lambda>n.
          g_ret (Some \<lparr>mw_task_id = t_id t, mw_status = t_status t, mw_worktree_rel = r, mw_worktree_path = p,
                       mw_change_count = n,
                       mw_active = (Some (t_id t) = active_id \<or> Some r = active_path)\<rparr>)))
      | _ \<Rightarrow> g_ret None)))"

definition collect_managed_worktrees :: "'g wt_env \<Rightarrow> ('g, managed_worktree list) wt_m" where
  "collect_managed_worktrees c =
     g_bind workspace_now (\<lambda>ws.
     g_bind (case ws_active_task_id ws of
               Some i \<Rightarrow> if i = [] then g_ret None else stored_task i
             | None \<Rightarrow> g_ret None) (\<lambda>active.
     g_bind listed_tasks (\<lambda>ts.
     g_bind (g_map (managed_worktree_of c (ws_active_task_id ws) (Option.bind active get_task_worktree_path)) ts) (\<lambda>ms.
     g_ret (sort_key mw_task_id (List.map_filter (\<lambda>x. x) ms))))))"

section \<open>Bulk removal\<close>

record cleanup_result =
  cr_candidates :: "managed_worktree list"
  cr_skipped_active :: "managed_worktree list"
  cr_removed :: "managed_worktree list"
  cr_deferred :: "managed_worktree list"
  cr_failures :: "(managed_worktree \<times> string) list"
  cr_attention :: "string list"

datatype removal = Removed | Deferred | Not_removed string

definition remove_one_worktree :: "'g wt_env \<Rightarrow> managed_worktree \<Rightarrow> ('g, removal) wt_m" where
  "remove_one_worktree c m =
     catch_git
       (g_bind (remove_worktree (wt_git c) (wt_root c) (mw_worktree_path m) True) (\<lambda>_.
        g_bind (stored_task (mw_task_id m)) (\<lambda>found.
        case found of None \<Rightarrow> g_ret Removed
        | Some t \<Rightarrow>
            g_bind (try_save_task c (set_task_worktree_path None t)) (\<lambda>conflict.
            g_ret (if conflict = None then Removed else Deferred)))))
       (\<lambda>msg. g_ret (Not_removed msg))"

definition note_removal :: "cleanup_result \<Rightarrow> managed_worktree \<times> removal \<Rightarrow> cleanup_result" where
  "note_removal r = (\<lambda>(m, o').
     case o' of
       Removed \<Rightarrow> r \<lparr>cr_removed := cr_removed r @ [m]\<rparr>
     | Deferred \<Rightarrow> r \<lparr>cr_deferred := cr_deferred r @ [m],
         cr_attention := cr_attention r @ [''deferred worktree metadata clearing for '' @ mw_task_id m @
           '': workspace locked by active runner'']\<rparr>
     | Not_removed msg \<Rightarrow> r \<lparr>cr_failures := cr_failures r @ [(m, msg)]\<rparr>)"

definition remove_cleanable_worktrees :: "'g wt_env \<Rightarrow> bool \<Rightarrow> ('g, cleanup_result) wt_m" where
  "remove_cleanable_worktrees c dry_run =
     g_bind (collect_managed_worktrees c) (\<lambda>worktrees.
     let candidates = List.filter mw_cleanable worktrees;
         none = \<lparr>cr_candidates = candidates, cr_skipped_active = List.filter mw_active worktrees, cr_removed = [],
                 cr_deferred = [], cr_failures = [], cr_attention = []\<rparr>
     in if dry_run then g_ret none
        else g_bind (g_map (remove_one_worktree c) candidates) (\<lambda>os.
             g_ret (foldl note_removal none (zip candidates os))))"

section \<open>Paths of status entries\<close>

fun unescape_quotes :: "string \<Rightarrow> string" where
  "unescape_quotes (a # b # s) =
     (if [a, b] = [CHR 0x5C, CHR 0x22] then CHR 0x22 # unescape_quotes s else a # unescape_quotes (b # s))"
| "unescape_quotes s = s"

definition unquoted :: "string \<Rightarrow> string" where
  "unquoted raw =
     (if starts_with raw [CHR 0x22] \<and> ends_with raw [CHR 0x22]
      then unescape_quotes (butlast (drop 1 raw)) else raw)"

definition dirty_entry_path :: "string \<Rightarrow> string list" where
  "dirty_entry_path entry =
     (if length entry < 3 then []
      else let raw = unquoted (py_strip (drop 3 entry));
               path = (case split_once '' -> '' raw of None \<Rightarrow> raw | Some (_, dest) \<Rightarrow> py_strip dest)
           in if path = [] then [] else [path])"

definition dirty_entry_paths :: "string list \<Rightarrow> string list" where
  "dirty_entry_paths entries = concat (map dirty_entry_path entries)"

section \<open>One task's worktree\<close>

definition worktree_uncommitted_changes :: "'g wt_env \<Rightarrow> string \<Rightarrow> ('g, string list) wt_m" where
  "worktree_uncommitted_changes c wt =
     catch_git (g_bind (status_porcelain (wt_git c) wt) (\<lambda>ls. g_ret (sort (remdups (dirty_entry_paths ls)))))
       (\<lambda>_. g_ret [])"

definition committed_changes :: "'g wt_env \<Rightarrow> string \<Rightarrow> ('g, string list) wt_m" where
  "committed_changes c wt =
     g_bind (fork_point c wt) (\<lambda>fork.
     case fork of None \<Rightarrow> g_ret []
     | Some f \<Rightarrow>
         g_bind (stdout_lines (wt_git c) wt [''diff'', ''--name-only'', f, ''HEAD'']) (\<lambda>ps.
         g_ret (sort (remdups ps))))"

record worktree_inspection =
  wi_task_id :: string
  wi_worktree_rel :: "string option"
  wi_worktree_path :: "string option"
  wi_exists :: bool
  wi_uncommitted :: "string list"
  wi_committed_ahead :: "string list"

definition inspect_task_worktree :: "'g wt_env \<Rightarrow> task_record \<Rightarrow> ('g, worktree_inspection) wt_m" where
  "inspect_task_worktree c t =
     (let rel = get_task_worktree_path t in
      g_bind (resolve_recorded_worktree_path c rel) (\<lambda>path.
      g_bind (case path of None \<Rightarrow> g_ret False | Some p \<Rightarrow> path_there c p) (\<lambda>there.
      case (rel, path, there) of
        (Some _, Some p, True) \<Rightarrow>
          g_bind (worktree_uncommitted_changes c p) (\<lambda>dirty.
          g_bind (committed_changes c p) (\<lambda>ahead.
          g_ret \<lparr>wi_task_id = t_id t, wi_worktree_rel = rel, wi_worktree_path = path, wi_exists = True,
                 wi_uncommitted = dirty, wi_committed_ahead = ahead\<rparr>))
      | _ \<Rightarrow>
          g_ret \<lparr>wi_task_id = t_id t, wi_worktree_rel = rel, wi_worktree_path = path, wi_exists = False,
                 wi_uncommitted = [], wi_committed_ahead = []\<rparr>)))"

section \<open>What a task may leave dirty\<close>

text \<open>The text of a \<open>PurePosixPath\<close>.\<close>

fun path_parts :: "string \<Rightarrow> string \<Rightarrow> string list" where
  "path_parts acc [] = [rev acc]"
| "path_parts acc (ch # s) = (if [ch] = slash then rev acc # path_parts [] s else path_parts (ch # acc) s)"

definition posix_text :: "string \<Rightarrow> string" where
  "posix_text p =
     (let parts = List.filter (\<lambda>q. q \<noteq> [] \<and> q \<noteq> ''.'') (path_parts [] p);
          lead = (if starts_with p ''//'' \<and> \<not> starts_with p ''///'' then ''//''
                  else if starts_with p slash then slash else [])
      in if parts = [] \<and> lead = [] then ''.'' else lead @ py_join slash parts)"

definition allowed_commit_paths :: "'g wt_env \<Rightarrow> activity_entry list \<Rightarrow> task_record \<Rightarrow> string list" where
  "allowed_commit_paths c entries t =
     posix_text (''.litehive/tasks/'' @ task_dir_name c (t_id t)) #
       map posix_text (concat (map (\<lambda>e. normalized_files_changed (ac_files_changed e)) entries))"

definition path_is_within_allowed_paths :: "string \<Rightarrow> string list \<Rightarrow> bool" where
  "path_is_within_allowed_paths raw allowed = (\<exists>p\<in>set allowed. raw = p \<or> starts_with raw (p @ slash))"

definition unexpected_dirty_path :: "string list \<Rightarrow> string \<Rightarrow> string list" where
  "unexpected_dirty_path allowed entry =
     (if length entry < 3 then []
      else let raw = unquoted (py_strip (drop 3 entry)) in
           if raw = [] then []
           else if contains_text raw ''$tmpdir'' \<or> starts_with raw ''/tmp/'' then []
           else if starts_with raw ''.litehive/'' \<and> \<not> path_is_within_allowed_paths raw allowed then []
           else if path_is_within_allowed_paths raw allowed then [] else [raw])"

definition unexpected_dirty_paths :: "string list \<Rightarrow> string list \<Rightarrow> string list" where
  "unexpected_dirty_paths entries allowed = concat (map (unexpected_dirty_path allowed) entries)"

definition can_resume_with_owned_dirty_paths ::
  "'g wt_env \<Rightarrow> (string, activity_entry list) dict \<Rightarrow> string list \<Rightarrow> task_record \<Rightarrow> bool" where
  "can_resume_with_owned_dirty_paths c activity entries t =
     (t_status t = Tst_INTERRUPTED \<and> t_pipeline_status t \<notin> {Pst_BACKLOG, Pst_DONE} \<and>
      unexpected_dirty_paths entries (allowed_commit_paths c (dict_get (t_id t) [] activity) t) = [])"

section \<open>The gate\<close>

definition main_checkout_finding :: "string list \<Rightarrow> task_record list \<Rightarrow> dirty_finding" where
  "main_checkout_finding entries owners =
     (let f = \<lparr>df_location = Main_checkout_location, df_ownership = Owned_main_checkout,
               df_paths = dirty_entry_paths entries, df_task_id = None, df_worktree_path = None\<rparr> in
      case owners of
        [] \<Rightarrow> f
      | [t] \<Rightarrow> f \<lparr>df_ownership := Task_owned, df_task_id := Some (t_id t), df_worktree_path := get_task_worktree_path t\<rparr>
      | _ \<Rightarrow> f \<lparr>df_ownership := Ambiguous_ownership, df_task_id := Some (py_join '','' (map t_id owners))\<rparr>)"

definition worktree_finding :: "dirty_ownership \<Rightarrow> task_record \<Rightarrow> string list \<Rightarrow> dirty_finding" where
  "worktree_finding ownership t paths =
     \<lparr>df_location = Task_worktree_location, df_ownership = ownership, df_paths = paths,
      df_task_id = Some (t_id t), df_worktree_path = get_task_worktree_path t\<rparr>"

definition task_worktree_findings :: "'g wt_env \<Rightarrow> task_record \<Rightarrow> ('g, dirty_finding list) wt_m" where
  "task_worktree_findings c t =
     g_bind (resolve_recorded_worktree_path c (get_task_worktree_path t)) (\<lambda>path.
     case path of None \<Rightarrow> g_ret []
     | Some p \<Rightarrow>
         g_bind (path_there c p) (\<lambda>there.
         if \<not> there then g_ret [worktree_finding Missing_recorded_worktree t []]
         else catch_git
           (g_bind (status_porcelain (wt_git c) p) (\<lambda>entries.
            g_ret (if entries = [] then []
                   else [worktree_finding Task_owned_worktree t (dirty_entry_paths entries)])))
           (\<lambda>_. g_ret [worktree_finding Missing_recorded_worktree t []])))"

definition inspect_dirty_gate :: "'g wt_env \<Rightarrow> ('g, dirty_finding list) wt_m" where
  "inspect_dirty_gate c =
     g_bind (is_git_repo (wt_git c) (wt_root c)) (\<lambda>is_repo.
     if \<not> is_repo then g_ret [] else
     g_bind (catch_git (g_bind (status_porcelain (wt_git c) (wt_root c)) (\<lambda>ls. g_ret (Some ls))) (\<lambda>_. g_ret None)) (\<lambda>status.
     case status of None \<Rightarrow> g_ret []
     | Some entries \<Rightarrow>
         g_bind listed_tasks (\<lambda>ts.
         g_bind (g_look (\<lambda>w. tw_activity (ww_store w))) (\<lambda>activity.
         g_bind (g_map (task_worktree_findings c) ts) (\<lambda>fss.
         let owners = List.filter (can_resume_with_owned_dirty_paths c activity entries) ts in
         g_ret ((if entries = [] then [] else [main_checkout_finding entries owners]) @ concat fss))))))"

end
