(* ===== verification/Git_Hoare.thy ===== *)
theory Git_Hoare
  imports Git_Ops
begin

text \<open>
  Pre- and postconditions for computations that run git: one postcondition for a value, one for an
  exception. The rules are collected in \<open>git_spec\<close>, so that a proof follows the shape of the definition.
\<close>

definition g_spec ::
  "('w gw \<Rightarrow> bool) \<Rightarrow> ('w, 'a) git_m \<Rightarrow> ('a \<Rightarrow> 'w gw \<Rightarrow> bool) \<Rightarrow> (git_exn \<Rightarrow> 'w gw \<Rightarrow> bool) \<Rightarrow> bool" where
  "g_spec P m Q E =
     (\<forall>s. P s \<longrightarrow> (case m s of (Inr x, s') \<Rightarrow> Q x s' | (Inl e, s') \<Rightarrow> E e s'))"

named_theorems git_spec \<open>rules of the logic\<close>

lemma specD_Inr: "g_spec P m Q E \<Longrightarrow> P s \<Longrightarrow> m s = (Inr x, s') \<Longrightarrow> Q x s'"
  and specD_Inl: "g_spec P m Q E \<Longrightarrow> P s \<Longrightarrow> m s = (Inl e, s') \<Longrightarrow> E e s'"
  unfolding g_spec_def by (drule spec [of _ s], simp)+

lemma specI:
  assumes "\<And>s x s'. P s \<Longrightarrow> m s = (Inr x, s') \<Longrightarrow> Q x s'" "\<And>s e s'. P s \<Longrightarrow> m s = (Inl e, s') \<Longrightarrow> E e s'"
  shows "g_spec P m Q E"
  unfolding g_spec_def using assms by (auto split: prod.split sum.split)

lemma spec_conseq:
  assumes "g_spec P m Q E" "\<And>s. P' s \<Longrightarrow> P s" "\<And>x s. Q x s \<Longrightarrow> Q' x s" "\<And>e s. E e s \<Longrightarrow> E' e s"
  shows "g_spec P' m Q' E'"
  by (rule specI) (blast intro: assms specD_Inr [OF assms(1)] specD_Inl [OF assms(1)])+

lemma spec_bind:
  assumes "g_spec P m R E" "\<And>x. g_spec (R x) (k x) Q E"
  shows "g_spec P (g_bind m k) Q E"
  unfolding g_spec_def
proof (intro allI impI)
  fix s assume P: "P s"
  show "case g_bind m k s of (Inr y, s') \<Rightarrow> Q y s' | (Inl e, s') \<Rightarrow> E e s'"
  proof (cases "m s")
    case (Pair r s1)
    then show ?thesis
      using specD_Inl [OF assms(1) P] specD_Inr [OF assms(1) P] assms(2) unfolding g_spec_def
      by (cases r) (auto simp: g_bind_def)
  qed
qed

lemma spec_catch:
  assumes "g_spec P m Q R" "\<And>e. g_spec (R e) (h e) Q E"
  shows "g_spec P (g_catch m h) Q E"
  unfolding g_spec_def
proof (intro allI impI)
  fix s assume P: "P s"
  show "case g_catch m h s of (Inr y, s') \<Rightarrow> Q y s' | (Inl e, s') \<Rightarrow> E e s'"
  proof (cases "m s")
    case (Pair r s1)
    then show ?thesis
      using specD_Inl [OF assms(1) P] specD_Inr [OF assms(1) P] assms(2) unfolding g_spec_def
      by (cases r) (auto simp: g_catch_def)
  qed
qed

lemma spec_ret: "(\<And>s. P s \<Longrightarrow> Q x s) \<Longrightarrow> g_spec P (g_ret x) Q E"
  and spec_raise: "(\<And>s. P s \<Longrightarrow> E e s) \<Longrightarrow> g_spec P (g_raise e) Q E"
  and spec_look: "(\<And>s. P s \<Longrightarrow> Q (f (gw_world s)) s) \<Longrightarrow> g_spec P (g_look f) Q E"
  by (simp_all add: g_spec_def g_ret_def g_raise_def g_look_def)

lemma spec_act:
  assumes "\<And>s w. P s \<Longrightarrow> f (gw_world s) = (None, w) \<Longrightarrow> Q () (s \<lparr>gw_world := w\<rparr>)"
    and "\<And>s msg w. P s \<Longrightarrow> f (gw_world s) = (Some msg, w) \<Longrightarrow> E (Other_exn msg) (s \<lparr>gw_world := w\<rparr>)"
  shows "g_spec P (g_act f) Q E"
  using assms by (auto simp: g_spec_def g_act_def split: prod.splits option.splits)

abbreviation gc_call :: "string \<Rightarrow> string list \<Rightarrow> git_proc \<Rightarrow> git_call" where
  "gc_call cwd args p \<equiv> \<lparr>gc_cwd = cwd, gc_args = args, gc_code = gp_code p, gc_out = gp_out p\<rparr>"

lemma spec_run:
  assumes "\<And>s p w. P s \<Longrightarrow> we_git env cwd args None (gw_world s) = (p, w) \<Longrightarrow>
    Q p (s \<lparr>gw_world := w, gw_calls := gw_calls s @ [gc_call cwd args p]\<rparr>)"
  shows "g_spec P (run_git env cwd args) Q E"
  using assms by (auto simp: g_spec_def run_git_def run_git_input_def split: prod.splits)

lemma spec_if: "(c \<Longrightarrow> g_spec P a Q E) \<Longrightarrow> (\<not> c \<Longrightarrow> g_spec P b Q E) \<Longrightarrow> g_spec P (if c then a else b) Q E"
  and spec_prod: "(\<And>x y. v = (x, y) \<Longrightarrow> g_spec P (f x y) Q E) \<Longrightarrow> g_spec P (case v of (x, y) \<Rightarrow> f x y) Q E"
  and spec_option: "(o' = None \<Longrightarrow> g_spec P n Q E) \<Longrightarrow> (\<And>x. o' = Some x \<Longrightarrow> g_spec P (g x) Q E) \<Longrightarrow>
    g_spec P (case o' of None \<Rightarrow> n | Some x \<Rightarrow> g x) Q E"
  and spec_sum: "(\<And>x. r = Inl x \<Longrightarrow> g_spec P (h x) Q E) \<Longrightarrow> (\<And>y. r = Inr y \<Longrightarrow> g_spec P (k y) Q E) \<Longrightarrow>
    g_spec P (case r of Inl x \<Rightarrow> h x | Inr y \<Rightarrow> k y) Q E"
  by (simp_all split: prod.split option.split sum.split)

lemma spec_map:
  assumes "\<And>x. x \<in> set xs \<Longrightarrow> g_spec I (f x) (\<lambda>_. I) E"
  shows "g_spec I (g_map f xs) (\<lambda>_. I) E"
  using assms by (induction xs) (auto intro!: spec_ret spec_bind)

lemmas spec_rules = spec_bind spec_ret spec_raise spec_look spec_if spec_prod spec_option spec_sum

section \<open>Invariants\<close>

text \<open>
  A predicate of the history and the world that every step of a computation keeps, whether it returns or
  raises.
\<close>

definition g_keeps :: "('w gw \<Rightarrow> bool) \<Rightarrow> ('w, 'a) git_m \<Rightarrow> bool" where
  "g_keeps I m = g_spec I m (\<lambda>_. I) (\<lambda>_. I)"

named_theorems git_keeps \<open>what keeps an invariant\<close>

lemma keepsD: "g_keeps I m \<Longrightarrow> I s \<Longrightarrow> I (snd (m s))"
  unfolding g_keeps_def g_spec_def by (cases "m s") (auto split: sum.splits dest: spec [of _ s])

lemma keepsI: "(\<And>s. I s \<Longrightarrow> I (snd (m s))) \<Longrightarrow> g_keeps I m"
  unfolding g_keeps_def g_spec_def by (auto split: sum.splits prod.splits) (metis snd_conv)+

lemma keeps_spec: "g_keeps I m \<Longrightarrow> g_spec I m (\<lambda>_. I) (\<lambda>_. I)"
  by (simp add: g_keeps_def)

lemma keeps_bind [git_keeps]: "g_keeps I m \<Longrightarrow> (\<And>x. g_keeps I (k x)) \<Longrightarrow> g_keeps I (g_bind m k)"
  unfolding g_keeps_def by (rule spec_bind)

lemma keeps_catch [git_keeps]: "g_keeps I m \<Longrightarrow> (\<And>e. g_keeps I (h e)) \<Longrightarrow> g_keeps I (g_catch m h)"
  unfolding g_keeps_def by (rule spec_catch)

lemma keeps_pure [git_keeps]: "g_keeps I (g_ret x)" "g_keeps I (g_raise e)" "g_keeps I (g_look f)"
  unfolding g_keeps_def by (rule spec_ret spec_raise spec_look, assumption)+

lemma keeps_if [git_keeps]: "(c \<Longrightarrow> g_keeps I a) \<Longrightarrow> (\<not> c \<Longrightarrow> g_keeps I b) \<Longrightarrow> g_keeps I (if c then a else b)"
  and keeps_prod [git_keeps]: "(\<And>x y. g_keeps I (f x y)) \<Longrightarrow> g_keeps I (case v of (x, y) \<Rightarrow> f x y)"
  and keeps_option [git_keeps]: "g_keeps I n \<Longrightarrow> (\<And>x. g_keeps I (g x)) \<Longrightarrow> g_keeps I (case o' of None \<Rightarrow> n | Some x \<Rightarrow> g x)"
  and keeps_sum [git_keeps]: "(\<And>x. g_keeps I (h x)) \<Longrightarrow> (\<And>y. g_keeps I (k y)) \<Longrightarrow>
    g_keeps I (case r of Inl x \<Rightarrow> h x | Inr y \<Rightarrow> k y)"
  and keeps_exn [git_keeps]: "(\<And>t. g_keeps I (ge t)) \<Longrightarrow> (\<And>fs. g_keeps I (gc fs)) \<Longrightarrow> (\<And>t. g_keeps I (go t)) \<Longrightarrow>
    g_keeps I (case e of GitError t \<Rightarrow> ge t | Conflict_exn fs \<Rightarrow> gc fs | Other_exn t \<Rightarrow> go t)"
  by (simp_all split: prod.split option.split sum.split git_exn.split)

lemma keeps_map [git_keeps]: "(\<And>x. g_keeps I (f x)) \<Longrightarrow> g_keeps I (g_map f xs)"
  unfolding g_keeps_def by (rule spec_map)

text \<open>
  Invariants of the history alone: every call so far satisfies \<open>P\<close>. A wrapper keeps it when \<open>P\<close> holds of
  its own call.
\<close>

definition all_calls :: "(git_call \<Rightarrow> bool) \<Rightarrow> 'w gw \<Rightarrow> bool" where
  "all_calls P s = (\<forall>call\<in>set (gw_calls s). P call)"

lemma keeps_act [git_keeps]: "g_keeps (all_calls P) (g_act f)"
  unfolding g_keeps_def by (rule spec_act) (simp_all add: all_calls_def)

lemma keeps_run [git_keeps]:
  "(\<And>p. P (gc_call cwd args p)) \<Longrightarrow> g_keeps (all_calls P) (run_git env cwd args)"
  unfolding g_keeps_def by (rule spec_run) (auto simp: all_calls_def)

lemma all_calls_snoc [simp]:
  "all_calls P (s \<lparr>gw_world := w, gw_calls := gw_calls s @ [call]\<rparr>) \<longleftrightarrow> all_calls P s \<and> P call"
  by (auto simp: all_calls_def)

end
