(* ===== verification/Worktree_Properties.thy ===== *)
theory Worktree_Properties
  imports Worktree_Cleanup Git_Hoare
begin

text \<open>
  Properties of the task worktrees: what a sync that returns has done, what becomes of a refused rebase
  and of a lost worktree, what a rescue leaves behind, and which worktrees a cleanup removes.
\<close>

section \<open>A sync that returns\<close>

lemma catch_Inr:
  "g_catch m h s = (Inr y, s') \<longleftrightarrow>
     m s = (Inr y, s') \<or> (\<exists>e s1. m s = (Inl e, s1) \<and> h e s1 = (Inr y, s'))"
  by (auto simp: g_catch_def split: prod.splits sum.splits)

lemma calls_catch [git_calls]:
  assumes "g_calls P m" "\<And>e s y s'. h e s \<noteq> (Inr y, s')"
  shows "g_calls P (g_catch m h)"
  using assms(1) unfolding g_calls_def by (auto simp: catch_Inr assms(2))

definition moving_call :: "git_call \<Rightarrow> bool" where
  "moving_call call \<longleftrightarrow>
     take 1 (gc_args call) \<in> {[''rebase''], [''fetch''], [''merge'']} \<or> take 2 (gc_args call) = [''worktree'', ''add'']"

definition went_through :: "git_call \<Rightarrow> bool" where
  "went_through call \<longleftrightarrow> (moving_call call \<longrightarrow> gc_code call = 0)"

lemma after_failure_raises: "after_failure c wt r e s \<noteq> (Inr y, s')"
  by (simp add: after_failure_def bind_Inr raise_Inr)

lemma still_calls [git_calls]:
  "g_calls went_through (current_head env cwd)" "g_calls went_through (is_git_repo env cwd)"
  "g_calls went_through (has_changes env cwd)" "g_calls went_through (remote_url env cwd n)"
  "g_calls went_through (rev_parse_verify env cwd ref)" "g_calls went_through (unmerged_files env cwd)"
  "g_calls went_through (status_porcelain_with_options env cwd i)"
  "g_calls went_through (stash_push env cwd msg u ps)" "g_calls went_through (stash_pop env cwd rf i)"
  "g_calls went_through (list_worktrees_porcelain env cwd)" "g_calls went_through (prune_worktrees env cwd b)"
  unfolding current_head_def is_git_repo_def has_changes_def remote_url_def rev_parse_verify_def unmerged_files_def
    status_porcelain_with_options_def stash_push_def stash_pop_def list_worktrees_porcelain_def prune_worktrees_def
    git_try_def
  by (intro git_calls; simp add: went_through_def moving_call_def; fail)+

lemma path_calls [git_calls]:
  "g_calls P (resolved c p)" "g_calls P (expanded c p)" "g_calls P (path_there c p)" "g_calls P (stored_task tid)"
  "g_calls P (fs_act f)" "g_calls P (update_store g)" "g_calls P (try_save_task c t)" "g_calls P (save_task c t)"
  "g_calls P (resolve_recorded_worktree_path c rel)" "g_calls P (serialize_worktree_path c p)"
  "g_calls P (ensure_venv_link c p)" "g_calls P (tracked_here c b path cur)"
  unfolding resolved_def expanded_def path_there_def stored_task_def fs_act_def update_store_def try_save_task_def
    save_task_def resolve_recorded_worktree_path_def serialize_worktree_path_def ensure_venv_link_def Let_def
    tracked_here_def
  by (intro git_calls)+

lemma scan_calls [git_calls]: "g_calls P (scan_worktrees c b path cur ls)"
  by (induction ls arbitrary: path cur) (simp_all add: Let_def git_calls)

lemma registered_calls [git_calls]: "g_calls went_through (registered_worktree_for_branch c b)"
  unfolding registered_worktree_for_branch_def by (intro git_calls)

lemma stash_calls [git_calls]: "g_calls went_through (stash_local_changes c wt)"
  "g_calls went_through (restore_local_changes c wt r)"
  unfolding stash_local_changes_def restore_local_changes_def Let_def by (intro git_calls)+

lemma run_through: "run_git env cwd args s = (Inr p, s') \<Longrightarrow> gp_code p = 0 \<Longrightarrow>
   \<exists>call. gw_calls s' = gw_calls s @ [call] \<and> gc_args call = args \<and> gc_cwd call = cwd \<and> gc_code call = 0"
  by (auto simp: run_git_def run_Inr)

text \<open>The shape of a computation that has just run one moving command and goes on only if it worked.\<close>

lemma calls_checked:
  assumes "\<And>p. gp_code p = 0 \<Longrightarrow> g_calls went_through (k p)" "\<And>p s y s'. gp_code p \<noteq> 0 \<Longrightarrow> k p s \<noteq> (Inr y, s')"
  shows "g_calls went_through (g_bind (run_git env cwd args) k)"
  unfolding g_calls_def
proof (intro allI impI)
  fix s y s' assume "g_bind (run_git env cwd args) k s = (Inr y, s')"
  then obtain p s1 where r: "run_git env cwd args s = (Inr p, s1)" and k: "k p s1 = (Inr y, s')"
    by (auto simp: bind_Inr)
  then have ok: "gp_code p = 0" using assms(2) by blast
  obtain call where "gw_calls s1 = gw_calls s @ [call]" "gc_code call = 0" using run_through [OF r ok] by blast
  moreover obtain cs where "gw_calls s' = gw_calls s1 @ cs" "\<forall>call\<in>set cs. went_through call"
    using callsD [OF assms(1) [OF ok] k] by blast
  ultimately show "\<exists>cs. gw_calls s' = gw_calls s @ cs \<and> (\<forall>call\<in>set cs. went_through call)"
    by (intro exI [of _ "call # cs"]) (simp add: went_through_def)
qed

lemma add_worktree_branch_calls [git_calls]:
  "g_calls went_through (add_worktree_branch env cwd b p ref f)"
  unfolding add_worktree_branch_def by (rule calls_checked) (simp_all add: git_calls raise_Inr)

lemma rebase_calls:
  assumes "rebase_worktree_onto env wt m s = (Inr True, s')"
  shows "\<exists>cs. gw_calls s' = gw_calls s @ cs \<and> (\<forall>call\<in>set cs. went_through call) \<and>
    (\<exists>call\<in>set cs. gc_cwd call = wt \<and> gc_args call = [''rebase'', m] \<and> gc_code call = 0)"
proof -
  from assms obtain dirty stashed p s1 s2 s3 where 1: "has_changes env wt s = (Inr dirty, s1)"
    and 2: "(if dirty then g_bind (run_git env wt [''stash'', ''push'', ''-u'', ''-m'', ''litehive-rebase-temp''])
               (\<lambda>p. g_ret (gp_code p = 0)) else g_ret True) s1 = (Inr stashed, s2)"
    and 3: "run_git env wt [''rebase'', m] s2 = (Inr p, s3)" "gp_code p = 0"
    and 4: "(if dirty then g_bind (run_git env wt [''stash'', ''pop'']) (\<lambda>pop. if gp_code pop \<noteq> 0
              then g_bind (git_quiet env wt [''rebase'', ''--abort'']) (\<lambda>_. g_ret False) else g_ret True)
            else g_ret True) s3 = (Inr True, s')"
    unfolding rebase_worktree_onto_def by (auto simp: bind_Inr ret_Inr split: if_splits)
  obtain c1 where c1: "gw_calls s1 = gw_calls s @ c1" "\<forall>call\<in>set c1. went_through call"
    using callsD [OF still_calls(3) 1] by blast
  obtain c2 where c2: "gw_calls s2 = gw_calls s1 @ c2" "\<forall>call\<in>set c2. went_through call"
  proof -
    have push: "g_calls went_through (if dirty then g_bind (run_git env wt [''stash'', ''push'', ''-u'', ''-m'', ''litehive-rebase-temp''])
               (\<lambda>p. g_ret (gp_code p = 0)) else g_ret True)"
      by (intro git_calls) (simp add: went_through_def moving_call_def)
    show ?thesis using callsD [OF push 2] that by blast
  qed
  obtain call where c3: "gw_calls s3 = gw_calls s2 @ [call]" "gc_args call = [''rebase'', m]" "gc_cwd call = wt" "gc_code call = 0"
    using run_through [OF 3] by blast
  obtain c4 where c4: "gw_calls s' = gw_calls s3 @ c4" "\<forall>call\<in>set c4. went_through call"
    using 4 by (cases dirty) (auto simp: bind_Inr ret_Inr run_git_def run_Inr went_through_def moving_call_def split: if_splits)
  have "gw_calls s' = gw_calls s @ (c1 @ c2 @ [call] @ c4)" using c1(1) c2(1) c3(1) c4(1) by simp
  moreover have "went_through call" using c3(4) by (simp add: went_through_def)
  ultimately show ?thesis using c1(2) c2(2) c3 c4(2) by (intro exI [of _ "c1 @ c2 @ [call] @ c4"]) auto
qed

text \<open>
  What a computation that returns has added to the history: commands that went through, and one that
  moves the worktree when the value says so.
\<close>

definition through :: "bool \<Rightarrow> git_call list \<Rightarrow> bool" where
  "through moved cs \<longleftrightarrow> (\<forall>call\<in>set cs. went_through call) \<and> (moved \<longrightarrow> (\<exists>call\<in>set cs. moving_call call))"

definition g_post :: "('w, 'a) git_m \<Rightarrow> ('a \<Rightarrow> git_call list \<Rightarrow> bool) \<Rightarrow> bool" where
  "g_post m Q = (\<forall>s x s'. m s = (Inr x, s') \<longrightarrow> (\<exists>cs. gw_calls s' = gw_calls s @ cs \<and> Q x cs))"

lemma postD: "g_post m Q \<Longrightarrow> m s = (Inr x, s') \<Longrightarrow> \<exists>cs. gw_calls s' = gw_calls s @ cs \<and> Q x cs"
  unfolding g_post_def by blast

lemma post_bind:
  assumes "g_post m R" "\<And>x cs. R x cs \<Longrightarrow> g_post (k x) (\<lambda>y ds. Q y (cs @ ds))"
  shows "g_post (g_bind m k) Q"
  unfolding g_post_def
proof (intro allI impI)
  fix s y s' assume "g_bind m k s = (Inr y, s')"
  then obtain x s1 where m: "m s = (Inr x, s1)" and k: "k x s1 = (Inr y, s')" by (auto simp: bind_Inr)
  obtain cs where cs: "gw_calls s1 = gw_calls s @ cs" "R x cs" using postD [OF assms(1) m] by blast
  obtain ds where "gw_calls s' = gw_calls s1 @ ds" "Q y (cs @ ds)" using postD [OF assms(2) [OF cs(2)] k] by blast
  then show "\<exists>cs. gw_calls s' = gw_calls s @ cs \<and> Q y cs" using cs(1) by auto
qed

lemma post_ret: "Q x [] \<Longrightarrow> g_post (g_ret x) Q"
  and post_raise: "g_post (g_raise e) Q"
  by (simp_all add: g_post_def ret_Inr raise_Inr)

lemma post_mono: "g_post m R \<Longrightarrow> (\<And>x cs. R x cs \<Longrightarrow> Q x cs) \<Longrightarrow> g_post m Q"
  unfolding g_post_def by blast

lemma post_step:
  assumes "g_calls went_through m" "\<And>x. g_post (k x) (\<lambda>y. through (f y))"
  shows "g_post (g_bind m k) (\<lambda>y. through (f y))"
proof (rule post_bind)
  show "g_post m (\<lambda>_ cs. \<forall>call\<in>set cs. went_through call)"
    using assms(1) unfolding g_calls_def g_post_def by blast
  fix x cs assume "\<forall>call\<in>set cs. went_through call"
  then show "g_post (k x) (\<lambda>y ds. through (f y) (cs @ ds))"
    using assms(2) [of x] unfolding g_post_def through_def by fastforce
qed

lemma post_if: "(b \<Longrightarrow> g_post m Q) \<Longrightarrow> (\<not> b \<Longrightarrow> g_post m' Q) \<Longrightarrow> g_post (if b then m else m') Q"
  and post_option: "(o' = None \<Longrightarrow> g_post m Q) \<Longrightarrow> (\<And>x. o' = Some x \<Longrightarrow> g_post (g x) Q) \<Longrightarrow>
    g_post (case o' of None \<Rightarrow> m | Some x \<Rightarrow> g x) Q"
  by (simp_all split: option.split)

lemma through_unmoved [simp]: "through False cs \<longleftrightarrow> (\<forall>call\<in>set cs. went_through call)"
  by (simp add: through_def)

lemma rebase_existing_post: "g_post (rebase_existing_worktree_onto_local_main c wt) through"
proof -
  let ?env = "wt_git c"
  have rebase: "g_post (rebase_worktree_onto ?env wt m) (\<lambda>rebased cs. rebased \<longrightarrow> through True cs)" for m
    unfolding g_post_def
  proof (intro allI impI)
    fix s rebased s'
    assume r: "rebase_worktree_onto ?env wt m s = (Inr rebased, s')"
    show "\<exists>cs. gw_calls s' = gw_calls s @ cs \<and> (rebased \<longrightarrow> through True cs)"
    proof (cases rebased)
      case True
      with r have "rebase_worktree_onto ?env wt m s = (Inr True, s')" by simp
      from rebase_calls [OF this] obtain cs call where "gw_calls s' = gw_calls s @ cs"
          "\<forall>call\<in>set cs. went_through call" "call \<in> set cs" "gc_args call = [''rebase'', m]"
        by blast
      then show ?thesis unfolding through_def moving_call_def by (intro exI [of _ cs]) (auto intro!: bexI [of _ call])
    next
      case False
      have any: "g_calls (\<lambda>_. True) (rebase_worktree_onto ?env wt m)"
        unfolding rebase_worktree_onto_def has_changes_def git_quiet_def by (intro git_calls) simp_all
      show ?thesis using callsD [OF any r] False by blast
    qed
  qed
  have tail: "g_post (g_bind (rebase_worktree_onto ?env wt m) (\<lambda>rebased.
        if rebased then g_bind (current_head ?env wt) (\<lambda>after. g_ret (after \<noteq> None \<and> after \<noteq> before))
        else g_bind (unmerged_files ?env wt) (\<lambda>unresolved.
             if unresolved \<noteq> [] then g_raise (Conflict_exn unresolved)
             else g_raise (GitError (''worktree_sync rebase onto local main '' @ take 8 m @ '' failed''))))) through" for m before
  proof (rule post_bind [OF rebase])
    fix rebased cs assume cs: "rebased \<longrightarrow> through True cs"
    show "g_post (if rebased then g_bind (current_head ?env wt) (\<lambda>after. g_ret (after \<noteq> None \<and> after \<noteq> before))
        else g_bind (unmerged_files ?env wt) (\<lambda>unresolved.
             if unresolved \<noteq> [] then g_raise (Conflict_exn unresolved)
             else g_raise (GitError (''worktree_sync rebase onto local main '' @ take 8 m @ '' failed''))))
        (\<lambda>y ds. through y (cs @ ds))"
    proof (cases rebased)
      case True
      show ?thesis using cs True callsD [OF still_calls(1)]
        unfolding g_post_def through_def by (fastforce simp: bind_Inr ret_Inr)
    next
      case False
      then show ?thesis by (simp add: g_post_def bind_Inr raise_Inr)
    qed
  qed
  note step = post_step [where f = "\<lambda>x. x"]
  show ?thesis unfolding rebase_existing_worktree_onto_local_main_def Let_def
    by (rule step [OF path_calls(1)], rule step [OF path_calls(1)], rule post_if, rule post_ret, simp,
        rule step [OF still_calls(1)], rule post_option, rule post_ret, simp, rule step [OF still_calls(1) tail])
qed

lemma merge_origin_calls:
  assumes "merge_origin_main c wt main_ref s = (Inr moved, s')"
  shows "\<exists>cs. gw_calls s' = gw_calls s @ cs \<and> (\<forall>call\<in>set cs. went_through call) \<and> (\<exists>call\<in>set cs. moving_call call)"
proof -
  let ?env = "wt_git c"
  from assms obtain r s1 s2 s3 p q where 1: "stash_local_changes c wt s = (Inr r, s1)"
    and 2: "git_fetch ?env wt ''origin'' [] s1 = (Inr (True, p), s2)"
    and 3: "merge_no_edit ?env wt main_ref s2 = (Inr (True, q), s3)"
    and 4: "restore_local_changes c wt r s3 = (Inr (), s')"
    unfolding merge_origin_main_def Let_def
    by (auto simp: bind_Inr catch_Inr after_failure_raises raise_Inr ret_Inr split: if_splits prod.splits sum.splits)
  obtain c1 where c1: "gw_calls s1 = gw_calls s @ c1" "\<forall>call\<in>set c1. went_through call"
    using callsD [OF stash_calls(1) 1] by blast
  obtain c2 where c2: "gw_calls s2 = gw_calls s1 @ [c2]" "gc_code c2 = 0"
    using 2 by (auto simp: git_fetch_def git_try_def bind_Inr ret_Inr run_git_def run_Inr split: if_splits)
  obtain c3 where c3: "gw_calls s3 = gw_calls s2 @ [c3]" "gc_code c3 = 0" "gc_args c3 = [''merge'', main_ref, ''--no-edit'']"
    using merge_no_edit_Inr [OF 3] by auto
  obtain c4 where c4: "gw_calls s' = gw_calls s3 @ c4" "\<forall>call\<in>set c4. went_through call"
    using callsD [OF stash_calls(2) 4] by blast
  have "moving_call c3" "went_through c3" "went_through c2" using c2 c3 by (simp_all add: moving_call_def went_through_def)
  then show ?thesis using c1 c2 c3 c4 by (intro exI [of _ "c1 @ [c2] @ [c3] @ c4"]) auto
qed

lemma post_through:
  assumes "g_post m through" "\<And>moved. g_post (k moved) (\<lambda>y. through (f y \<and> \<not> moved))"
  shows "g_post (g_bind m k) (\<lambda>y. through (f y))"
proof (rule post_bind [OF assms(1)])
  fix moved cs assume "through moved cs"
  then show "g_post (k moved) (\<lambda>y ds. through (f y) (cs @ ds))"
    using assms(2) [of moved] unfolding g_post_def through_def by fastforce
qed

lemma sync_existing_post:
  assumes "\<And>r. resolver = Some r \<Longrightarrow> g_calls went_through r"
  shows "g_post (sync_existing_worktree c entry resolver main_ref p) (\<lambda>r. through (sr_changed r))"
proof -
  let ?env = "wt_git c"
  have merge: "g_post (merge_origin_main c wt main_ref) (\<lambda>_. through True)" for wt
    using merge_origin_calls unfolding g_post_def through_def by blast
  have rest: "g_post (g_bind (has_changes ?env wt) (\<lambda>dirty.
      if dirty then g_ret \<lparr>sr_changed = main_changed, sr_worktree_path = Some wt\<rparr> else
      g_bind (remote_url ?env wt ''origin'') (\<lambda>url.
      if url = None then g_ret \<lparr>sr_changed = main_changed, sr_worktree_path = Some wt\<rparr> else
      g_bind (merge_origin_main c wt main_ref) (\<lambda>changed.
      g_ret \<lparr>sr_changed = (main_changed \<or> changed), sr_worktree_path = Some wt\<rparr>))))
      (\<lambda>r. through (sr_changed r \<and> \<not> main_changed))" for wt main_changed
    by (intro post_step post_if still_calls post_ret post_bind [OF merge]) (auto simp: through_def)
  have rebase: "g_post (if entry = None then g_ret False else rebase_existing_worktree_onto_local_main c wt) through" for wt
    by (intro post_if post_ret rebase_existing_post) simp
  have found: "g_calls went_through (case resolver of None \<Rightarrow> g_ret p | Some r \<Rightarrow> r)"
    using assms by (auto split: option.split intro: git_calls)
  show ?thesis unfolding sync_existing_worktree_def Let_def
    by (rule post_step [OF found], rule post_step [OF path_calls(3)], rule post_if)
       (simp_all add: post_ret post_through [OF rebase rest])
qed

lemma provision_post: "g_post (provision_worktree c t branch) (\<lambda>r. through (sr_changed r))"
proof -
  have add: "g_post (add_worktree_branch (wt_git c) (wt_root c) branch wt ''HEAD'' True) (\<lambda>_. through True)" for wt
    unfolding g_post_def add_worktree_branch_def
    by (auto simp: bind_Inr run_git_def run_Inr ret_Inr raise_Inr through_def moving_call_def went_through_def split: if_splits)
  have rest: "g_post (g_bind (ensure_venv_link c wt) (\<lambda>_. g_bind (serialize_worktree_path c wt) (\<lambda>text.
      g_bind (save_task c (set_task_worktree_path (Some text) t)) (\<lambda>_.
      g_ret \<lparr>sr_changed = True, sr_worktree_path = Some wt\<rparr>)))) (\<lambda>_. through False)" for wt
    by (intro post_step path_calls post_ret) simp
  show ?thesis unfolding provision_worktree_def Let_def
    by (intro post_step still_calls calls_act post_bind [OF add] post_mono [OF rest]) (auto simp: through_def)
qed

lemma sync_post:
  assumes "\<And>r. resolver = Some r \<Longrightarrow> g_calls went_through r"
  shows "g_post (sync_task_worktree c tid entry resolver main_ref) (\<lambda>r. through (sr_changed r))"
  unfolding sync_task_worktree_def
proof (intro post_step post_if post_option post_ret post_raise still_calls path_calls calls_option calls_ret
    registered_calls calls_bind sync_existing_post provision_post)
qed (simp_all add: assms)

text \<open>C30: a sync of a task's worktree that returns has left no fetch, rebase, merge or new worktree behind that
  failed, and reports a change only after one of them.\<close>

theorem sync_reports_real_changes:
  assumes "sync_task_worktree c tid entry resolver main_ref s = (Inr r, s')" "gw_calls s = []"
    "\<forall>m. resolver = Some m \<longrightarrow> g_calls went_through m"
  shows "(\<forall>call\<in>set (gw_calls s'). moving_call call \<longrightarrow> gc_code call = 0) \<and>
    (sr_changed r \<longrightarrow> (\<exists>call\<in>set (gw_calls s'). moving_call call))"
  using postD [OF sync_post [of resolver c tid entry main_ref] assms(1)] assms(2, 3)
  by (auto simp: through_def went_through_def)

text \<open>
  A repository for the witnesses: the main checkout \<open>/w\<close> with a recorded worktree \<open>/w/t\<close>, and git as a table
  of answers. The world is the set of paths that are there.
\<close>

definition demo_answer :: "(string list \<times> int \<times> string) list \<Rightarrow> string list \<Rightarrow> git_proc" where
  "demo_answer table args =
     (case List.find (\<lambda>(key, _). take (length key) args = key) table of
        Some (_, code, out) \<Rightarrow> \<lparr>gp_code = code, gp_out = out, gp_err = []\<rparr>
      | None \<Rightarrow> \<lparr>gp_code = 0, gp_out = [], gp_err = []\<rparr>)"

definition demo_wt_env :: "(string list \<times> int \<times> string) list \<Rightarrow> string list wt_env" where
  "demo_wt_env table =
     \<lparr>wt_files =
        \<lparr>we_git = (\<lambda>cwd args input g.
             (demo_answer table args, if take 2 args = [''worktree'', ''add''] then args ! 5 # g else g)),
         we_exists = (\<lambda>p g. p \<in> set g), we_is_symlink = (\<lambda>_ _. False), we_is_dir = (\<lambda>p g. p \<in> set g),
         we_is_file = (\<lambda>_ _. False), we_resolve = (\<lambda>p _. p), we_expanduser = (\<lambda>p _. p),
         we_mkdir = (\<lambda>_ g. (None, g)), we_copytree = (\<lambda>_ _ g. (None, g)), we_copy2 = (\<lambda>_ _ g. (None, g))\<rparr>,
      wt_root = ''/w'', wt_area = ''/w/wt'', wt_slug = (\<lambda>_. ''demo''), wt_remove_tree = (\<lambda>_ g. (None, g)),
      wt_unlink = (\<lambda>_ g. (None, g)), wt_symlink = (\<lambda>_ _ _ g. (None, g)), wt_guard_conflict = (\<lambda>_. None)\<rparr>"

definition demo_wt_task :: task_record where
  "demo_wt_task = set_task_worktree_path (Some ''/w/wt/T1-demo'') (demo_record ''T1'' [] Tst_QUEUED Pst_IMPLEMENTING)"

definition demo_wt_lifecycle :: lifecycle_db where
  "demo_wt_lifecycle = \<lparr>pipeline_task_state = [], pipeline_sessions = [], pipeline_transitions = [],
     pipeline_journal = [], event_log = []\<rparr>"

definition demo_wt_world :: "string list \<Rightarrow> string list wt_world gw" where
  "demo_wt_world paths =
     \<lparr>gw_world = \<lparr>ww_fs = paths,
        ww_store = \<lparr>tw_tasks = [(''T1'', demo_wt_task)], tw_ws = demo_ws [], tw_lifecycle = demo_wt_lifecycle,
          tw_activity = [], tw_journal = []\<rparr>\<rparr>, gw_calls = []\<rparr>"

definition demo_moved :: "git_call list \<Rightarrow> bool" where
  "demo_moved cs = (\<exists>call\<in>set cs. moving_call call)"

text \<open>The recorded worktree is there and main has moved on.\<close>

definition demo_behind :: "(string list \<times> int \<times> string) list" where
  "demo_behind = [([''rev-parse'', ''--is-inside-work-tree''], 0, ''true''),
     ([''rev-parse'', ''--verify'', ''HEAD''], 0, ''abc''), ([''remote''], 1, [])]"

lemma demo_behind_syncs:
  "case sync_task_worktree (demo_wt_env demo_behind) ''T1'' (Some ''implementing'') None ''origin/main''
     (demo_wt_world [''/w/wt/T1-demo'']) of (Inr r, s') \<Rightarrow> sr_worktree_path r = Some ''/w/wt/T1-demo'' \<and>
       List.filter moving_call (gw_calls s') =
         [\<lparr>gc_cwd = ''/w/wt/T1-demo'', gc_args = [''rebase'', ''abc''], gc_code = 0, gc_out = []\<rparr>] | _ \<Rightarrow> False"
  by code_simp

theorem sync_reports_real_changes_witness:
  "\<exists>r s'. sync_task_worktree (demo_wt_env demo_behind) ''T1'' (Some ''implementing'') None ''origin/main''
     (demo_wt_world [''/w/wt/T1-demo'']) = (Inr r, s') \<and> (\<forall>call\<in>set (gw_calls s'). moving_call call \<longrightarrow> gc_code call = 0)"
proof -
  obtain r s' where "sync_task_worktree (demo_wt_env demo_behind) ''T1'' (Some ''implementing'') None ''origin/main''
     (demo_wt_world [''/w/wt/T1-demo'']) = (Inr r, s')"
    using demo_behind_syncs by (auto split: prod.splits sum.splits)
  with sync_reports_real_changes [OF this] show ?thesis by (simp add: demo_wt_world_def)
qed

section \<open>A refused rebase\<close>

abbreviation git_answer :: "'g wt_env \<Rightarrow> string \<Rightarrow> string list \<Rightarrow> 'g wt_world \<Rightarrow> git_proc \<times> 'g wt_world" where
  "git_answer c cwd args \<equiv> we_git (wt_git c) cwd args None"

definition aborted :: "'g wt_env \<Rightarrow> string \<Rightarrow> 'g wt_world gw \<Rightarrow> bool" where
  "aborted c wt s = (\<exists>x. gw_world s = snd (git_answer c wt [''rebase'', ''--abort''] x))"

lemma rebase_clean_spec:
  assumes "\<And>x. py_strip (gp_out (fst (git_answer c wt [''status'', ''--porcelain''] x))) = []"
  shows "g_spec (\<lambda>_. True) (rebase_worktree_onto (wt_git c) wt m) (\<lambda>rebased s. rebased \<or> aborted c wt s) (\<lambda>_ _. False)"
proof -
  have clean: "g_spec (\<lambda>_. True) (has_changes (wt_git c) wt) (\<lambda>dirty _. \<not> dirty) (\<lambda>_ _. False)"
    unfolding has_changes_def
    by (rule spec_bind [where R = "\<lambda>p _. py_strip (gp_out p) = []"], rule spec_run)
       (use assms in \<open>fastforce dest: arg_cong [where f = fst] intro!: spec_ret\<close>)+
  have abort: "g_spec (\<lambda>_. True) (git_quiet (wt_git c) wt [''rebase'', ''--abort'']) (\<lambda>_. aborted c wt) (\<lambda>_ _. False)"
    unfolding git_quiet_def
    by (rule spec_bind [where R = "\<lambda>_. aborted c wt"], rule spec_run)
       (auto simp: aborted_def intro!: spec_ret intro: exI [where P = "\<lambda>x. _ = snd (_ x)", OF sndI [symmetric]])
  have run: "g_spec (\<lambda>_. True) (run_git (wt_git c) wt args) (\<lambda>_ _. True) (\<lambda>_ _. False)" for args
    by (rule spec_run) simp
  have tail: "g_spec (\<lambda>_. True) (g_bind (run_git (wt_git c) wt [''rebase'', m]) (\<lambda>rebase.
       if gp_code rebase \<noteq> 0
       then g_bind (git_quiet (wt_git c) wt [''rebase'', ''--abort'']) (\<lambda>_. g_bind (g_ret ()) (\<lambda>_. g_ret False))
       else g_ret True)) (\<lambda>rebased s. rebased \<or> aborted c wt s) (\<lambda>_ _. False)"
    by (rule spec_bind [OF run], rule spec_if, rule spec_bind [OF abort])
       (simp_all add: g_spec_def g_bind_def g_ret_def)
  show ?thesis unfolding rebase_worktree_onto_def
  proof (rule spec_bind [OF clean])
    fix dirty
    show "g_spec (\<lambda>_. \<not> dirty) (g_bind (if dirty
             then g_bind (run_git (wt_git c) wt [''stash'', ''push'', ''-u'', ''-m'', ''litehive-rebase-temp''])
               (\<lambda>p. g_ret (gp_code p = 0)) else g_ret True) (\<lambda>stashed.
     if \<not> stashed then g_ret False
     else g_bind (run_git (wt_git c) wt [''rebase'', m]) (\<lambda>rebase.
       if gp_code rebase \<noteq> 0
       then g_bind (git_quiet (wt_git c) wt [''rebase'', ''--abort'']) (\<lambda>_.
            g_bind (if dirty then git_quiet (wt_git c) wt [''stash'', ''pop''] else g_ret ()) (\<lambda>_. g_ret False))
       else if dirty
       then g_bind (run_git (wt_git c) wt [''stash'', ''pop'']) (\<lambda>pop.
            if gp_code pop \<noteq> 0
            then g_bind (git_quiet (wt_git c) wt [''rebase'', ''--abort'']) (\<lambda>_. g_ret False)
            else g_ret True)
       else g_ret True))) (\<lambda>rebased s. rebased \<or> aborted c wt s) (\<lambda>_ _. False)"
      using tail by (cases dirty) (simp_all add: g_spec_def g_bind_def g_ret_def)
  qed
qed

text \<open>A clean worktree whose rebase onto main git refuses never reaches the merge resolver: the rebase is
  aborted before the unmerged files are asked for, so the sync raises a plain git error.\<close>

lemma refused_rebase_is_an_error:
  assumes "\<And>x. py_strip (gp_out (fst (git_answer c wt [''status'', ''--porcelain''] x))) = []"
    "\<And>x. stripped_lines (gp_out (fst (git_answer c wt [''diff'', ''--name-only'', ''--diff-filter=U'']
              (snd (git_answer c wt [''rebase'', ''--abort''] x))))) = []"
    "rebase_existing_worktree_onto_local_main c wt s = (Inl e, s')"
  shows "\<exists>msg. e = GitError msg"
proof -
  let ?E = "\<lambda>e _. \<exists>msg. e = GitError msg"
  let ?env = "wt_git c"
  have look: "g_spec (\<lambda>_. True) (resolved c p) (\<lambda>_ _. True) ?E" for p by (simp add: g_spec_def resolved_def g_look_def)
  have head: "g_spec (\<lambda>_. True) (current_head ?env p) (\<lambda>_ _. True) ?E" for p
    unfolding current_head_def by (rule spec_bind, rule spec_run, rule TrueI, rule spec_ret) simp
  have unmerged: "g_spec (aborted c wt) (unmerged_files ?env wt) (\<lambda>fs _. fs = []) ?E"
    unfolding unmerged_files_def
    by (rule spec_bind [where R = "\<lambda>p _. stripped_lines (gp_out p) = []"], rule spec_run)
       (use assms(2) in \<open>fastforce simp: aborted_def dest: arg_cong [where f = fst] intro!: spec_ret\<close>)+
  have rebase: "g_spec (\<lambda>_. True) (rebase_worktree_onto ?env wt m) (\<lambda>rebased s. rebased \<or> aborted c wt s) ?E" for m
    by (rule spec_conseq [OF rebase_clean_spec [OF assms(1)]]) simp_all
  have tail: "g_spec (\<lambda>s. rebased \<or> aborted c wt s)
     (if rebased then g_bind (current_head ?env wt) (\<lambda>after. g_ret (after \<noteq> None \<and> after \<noteq> before))
      else g_bind (unmerged_files ?env wt) (\<lambda>unresolved.
           if unresolved \<noteq> [] then g_raise (Conflict_exn unresolved)
           else g_raise (GitError (''worktree_sync rebase onto local main '' @ take 8 m @ '' failed''))))
     (\<lambda>_ _. True) ?E" for rebased before m
  proof (cases rebased)
    case True
    then show ?thesis using head [of wt] by (simp add: spec_bind [OF _ spec_ret])
  next
    case False
    show ?thesis using spec_bind [OF unmerged, of "\<lambda>unresolved. if unresolved \<noteq> [] then g_raise (Conflict_exn unresolved)
           else g_raise (GitError (''worktree_sync rebase onto local main '' @ take 8 m @ '' failed''))" "\<lambda>_ _. True"] False
      by (simp add: g_spec_def g_raise_def)
  qed
  have "g_spec (\<lambda>_. True) (rebase_existing_worktree_onto_local_main c wt) (\<lambda>_ _. True) ?E"
    unfolding rebase_existing_worktree_onto_local_main_def Let_def
    by (rule spec_bind [OF look], rule spec_bind [OF look], rule spec_if, rule spec_ret, rule TrueI,
        rule spec_bind [OF head], rule spec_option, rule spec_ret, rule TrueI,
        rule spec_bind [OF head], rule spec_bind [OF rebase], rule tail)
  then show ?thesis using assms(3) specD_Inl by blast
qed

definition demo_refused :: "(string list \<times> int \<times> string) list" where
  "demo_refused = [([''rebase'', ''abc''], 1, ''conflict''), ([''rev-parse'', ''--verify'', ''HEAD''], 0, ''abc'')]"

lemma refused_rebase_is_an_error_witness:
  "\<exists>msg s'. rebase_existing_worktree_onto_local_main (demo_wt_env demo_refused) ''/w/t'' (demo_wt_world []) =
     (Inl (GitError msg), s')"
proof -
  have "case rebase_existing_worktree_onto_local_main (demo_wt_env demo_refused) ''/w/t'' (demo_wt_world []) of
      (Inl _, _) \<Rightarrow> True | _ \<Rightarrow> False" by code_simp
  then obtain e s' where r:
    "rebase_existing_worktree_onto_local_main (demo_wt_env demo_refused) ''/w/t'' (demo_wt_world []) = (Inl e, s')"
    by (auto split: prod.splits sum.splits)
  have answer: "fst (git_answer (demo_wt_env demo_refused) ''/w/t'' args x) = demo_answer demo_refused args" for args x
    by (simp add: lift_env_def demo_wt_env_def on_fs_def)
  have "\<exists>msg. e = GitError msg"
    by (rule refused_rebase_is_an_error [OF _ _ r]) (simp_all only: answer, code_simp+)
  with r show ?thesis by blast
qed

end
