(* ===== verification/Rescue_Properties.thy ===== *)
theory Rescue_Properties
  imports Worktree_Properties "HOL-Library.Multiset"
begin

text \<open>
  Properties of the rescue and the cleanup of worktrees: which commits a rescue has landed, what becomes of
  the task, and which worktrees a cleanup may remove.
\<close>

section \<open>Landing commits\<close>

text \<open>
  What the history of one rescued commit shows. It was cherry-picked into main; the pick succeeded, or it
  stopped at conflicts all of which are in the task's own metadata directory (git listed at least one).
  The last call is the commit that reuses its message, with exit code 0, or the answer of git that nothing
  is staged: all the commit had to bring was metadata, or it was there already.
\<close>

definition picks :: "string \<Rightarrow> string \<Rightarrow> string \<Rightarrow> git_call \<Rightarrow> git_call list \<Rightarrow> bool" where
  "picks main tid sha pick mid \<longleftrightarrow>
     gc_cwd pick = main \<and> gc_args pick = [''cherry-pick'', ''--no-commit'', sha] \<and>
     (gc_code pick = 0 \<or>
      (\<exists>q qs. mid = q # qs \<and> gc_cwd q = main \<and> gc_args q = [''diff'', ''--name-only'', ''--diff-filter=U''] \<and>
         stripped_lines (gc_out q) \<noteq> [] \<and> list_all (is_task_metadata_path tid) (stripped_lines (gc_out q))))"

definition settles :: "string \<Rightarrow> string \<Rightarrow> git_call \<Rightarrow> bool" where
  "settles main sha call \<longleftrightarrow>
     gc_cwd call = main \<and> gc_code call = 0 \<and>
     gc_args call \<in> {[''commit'', ''--reuse-message'', sha], [''diff'', ''--cached'', ''--quiet'', ''--exit-code'']}"

definition lands :: "string \<Rightarrow> string \<Rightarrow> string \<Rightarrow> git_call list \<Rightarrow> bool" where
  "lands main tid sha cs \<longleftrightarrow>
     (\<exists>pick mid call rest. cs = pick # mid @ call # rest \<and> picks main tid sha pick mid \<and> settles main sha call)"

lemma landsI: "picks main tid sha pick mid \<Longrightarrow> settles main sha call \<Longrightarrow> lands main tid sha (pick # mid @ [call])"
  unfolding lands_def by blast

definition lands_in_order :: "string \<Rightarrow> string \<Rightarrow> string list \<Rightarrow> git_call list \<Rightarrow> bool" where
  "lands_in_order main tid shas cs \<longleftrightarrow>
     (\<exists>pre css rest. cs = pre @ concat css @ rest \<and> list_all2 (lands main tid) shas css)"

lemma lands_in_order_Nil [simp]: "lands_in_order main tid [] cs"
  unfolding lands_in_order_def by (rule exI [of _ cs], rule exI [of _ "[]"]) simp

lemma lands_prefix: "lands main tid sha cs \<Longrightarrow> lands main tid sha (cs @ ds)"
  unfolding lands_def by (elim exE conjE) (simp, blast)

lemma lands_in_order_Cons:
  assumes "lands main tid sha cs" "lands_in_order main tid shas ds"
  shows "lands_in_order main tid (sha # shas) (cs @ ds)"
proof -
  from assms(2) obtain pre css rest where "ds = pre @ concat css @ rest" "list_all2 (lands main tid) shas css"
    unfolding lands_in_order_def by blast
  then show ?thesis unfolding lands_in_order_def using lands_prefix [OF assms(1), of pre]
    by (intro exI [of _ "[]"] exI [of _ "(cs @ pre) # css"] exI [of _ rest]) simp
qed

lemma lands_in_order_append: "lands_in_order main tid shas ds \<Longrightarrow> lands_in_order main tid shas (cs @ ds)"
  unfolding lands_in_order_def by (metis append_assoc)

lemma calls_post: "g_calls (\<lambda>_. True) m \<Longrightarrow> g_post m (\<lambda>_ _. True)"
  unfolding g_calls_def g_post_def by blast

lemma any_calls [git_calls]:
  "g_calls (\<lambda>_. True) (run_git env cwd args)" "g_calls (\<lambda>_. True) (unmerged_files env cwd)"
  "g_calls (\<lambda>_. True) (current_head env cwd)" "g_calls (\<lambda>_. True) (stdout_or_none env cwd args)"
  "g_calls (\<lambda>_. True) (stdout_lines env cwd args)" "g_calls (\<lambda>_. True) (git_quiet env cwd args)"
  "g_calls (\<lambda>_. True) (checkout_ours env cwd ps)" "g_calls (\<lambda>_. True) (add_paths env cwd ps b)"
  "g_calls (\<lambda>_. True) (restore_paths env cwd ps src b b')" "g_calls (\<lambda>_. True) (git_try env cwd args)"
  unfolding unmerged_files_def current_head_def stdout_lines_def stdout_or_none_def git_quiet_def checkout_ours_def
    add_paths_def restore_paths_def git_try_def
  by (intro git_calls; simp)+

lemma handled_calls:
  assumes "\<And>s x s'. m s = (Inr x, s') \<Longrightarrow> \<exists>cs. gw_calls s' = gw_calls s @ cs"
    "\<And>s e s'. m s = (Inl e, s') \<Longrightarrow> \<exists>cs. gw_calls s' = gw_calls s @ cs" "\<And>e. g_calls (\<lambda>_. True) (h e)"
  shows "g_calls (\<lambda>_. True) (g_catch m h)"
  unfolding g_calls_def
proof (intro allI impI)
  fix s x s' assume "g_catch m h s = (Inr x, s')"
  then consider "m s = (Inr x, s')" | e s1 where "m s = (Inl e, s1)" "h e s1 = (Inr x, s')" by (auto simp: catch_Inr)
  then show "\<exists>cs. gw_calls s' = gw_calls s @ cs \<and> (\<forall>c\<in>set cs. True)"
  proof cases
    case 1
    then show ?thesis using assms(1) by auto
  next
    case 2
    obtain cs where "gw_calls s1 = gw_calls s @ cs" using assms(2) [OF 2(1)] by blast
    moreover obtain ds where "gw_calls s' = gw_calls s1 @ ds" using callsD [OF assms(3) 2(2)] by blast
    ultimately show ?thesis by auto
  qed
qed

lemma add_paths_grows: "add_paths env cwd ps b s = (r, s') \<Longrightarrow> \<exists>cs. gw_calls s' = gw_calls s @ cs"
  by (auto simp: add_paths_def g_bind_def run_git_def run_git_input_def g_ret_def g_raise_def
      split: prod.splits sum.splits if_splits)

lemma staged_grows: "index_has_staged_changes env cwd s = (r, s') \<Longrightarrow> \<exists>cs. gw_calls s' = gw_calls s @ cs"
  by (auto simp: index_has_staged_changes_def g_bind_def run_git_def run_git_input_def g_ret_def g_raise_def
      split: prod.splits sum.splits if_splits)

lemma metadata_calls [git_calls]:
  "g_calls (\<lambda>_. True) (resolve_metadata_conflicts c ps)" "g_calls (\<lambda>_. True) (drop_task_metadata_changes c tid)"
proof -
  show "g_calls (\<lambda>_. True) (resolve_metadata_conflicts c ps)"
    unfolding resolve_metadata_conflicts_def
    by (intro git_calls handled_calls) (auto dest: add_paths_grows split: git_exn.split intro: git_calls)
  show "g_calls (\<lambda>_. True) (drop_task_metadata_changes c tid)"
    unfolding drop_task_metadata_changes_def by (intro git_calls)
qed

lemma conflicts_metadata:
  assumes "(if ok then g_ret None
     else g_bind (unmerged_files env main) (\<lambda>conflicts.
          let metadata = List.filter (is_task_metadata_path tid) conflicts in
          if conflicts \<noteq> [] \<and> length metadata = length conflicts
          then g_bind (resolve_metadata_conflicts c metadata) (\<lambda>_. g_ret None)
          else g_ret (Some (str_or msg ''git cherry-pick failed'')))) s = (Inr stuck, s')"
    and "gc_cwd pick = main" "gc_args pick = [''cherry-pick'', ''--no-commit'', sha]" "ok = (gc_code pick = 0)"
  shows "\<exists>cs. gw_calls s' = gw_calls s @ cs \<and> (stuck = None \<longrightarrow> (\<forall>ds. picks main tid sha pick (cs @ ds)))"
proof (cases ok)
  case True
  with assms show ?thesis by (auto simp: ret_Inr picks_def)
next
  case False
  with assms(1) obtain conflicts s1 where u: "unmerged_files env main s = (Inr conflicts, s1)"
    and r: "(let metadata = List.filter (is_task_metadata_path tid) conflicts in
          if conflicts \<noteq> [] \<and> length metadata = length conflicts
          then g_bind (resolve_metadata_conflicts c metadata) (\<lambda>_. g_ret None)
          else g_ret (Some (str_or msg ''git cherry-pick failed''))) s1 = (Inr stuck, s')"
    by (auto simp: bind_Inr)
  from unmerged_files_Inr [OF u] obtain q where q: "gw_calls s1 = gw_calls s @ [q]" "gc_cwd q = main"
    "gc_args q = [''diff'', ''--name-only'', ''--diff-filter=U'']" "conflicts = stripped_lines (gc_out q)" by auto
  have "g_calls (\<lambda>_. True) (let metadata = List.filter (is_task_metadata_path tid) conflicts in
          if conflicts \<noteq> [] \<and> length metadata = length conflicts
          then g_bind (resolve_metadata_conflicts c metadata) (\<lambda>_. g_ret None)
          else g_ret (Some (str_or msg ''git cherry-pick failed'')))"
    unfolding Let_def by (intro git_calls)
  from callsD [OF this r] obtain ds where ds: "gw_calls s' = gw_calls s1 @ ds" by blast
  have "stuck = None \<Longrightarrow> conflicts \<noteq> [] \<and> length (List.filter (is_task_metadata_path tid) conflicts) = length conflicts"
    using r by (auto simp: Let_def ret_Inr split: if_splits)
  then have "stuck = None \<Longrightarrow> conflicts \<noteq> [] \<and> list_all (is_task_metadata_path tid) conflicts"
    by (auto simp: list_all_iff) (metis length_filter_less less_irrefl)
  with ds q assms(2,3) show ?thesis by (auto simp: picks_def intro!: exI [of _ "q # ds"])
qed

lemma rescue_commit_post:
  "g_post (rescue_commit c tid sha) (\<lambda>stuck cs. stuck = None \<longrightarrow> lands (wt_root c) tid sha cs)"
  unfolding g_post_def
proof (intro allI impI)
  let ?env = "wt_git c" and ?main = "wt_root c"
  fix s stuck s' assume run: "rescue_commit c tid sha s = (Inr stuck, s')"
  from run obtain ok msg s1 stuck1 s2 where 1: "cherry_pick_no_commit ?env ?main sha s = (Inr (ok, msg), s1)"
    and 2: "(if ok then g_ret None
              else g_bind (unmerged_files ?env ?main) (\<lambda>conflicts.
                   let metadata = List.filter (is_task_metadata_path tid) conflicts in
                   if conflicts \<noteq> [] \<and> length metadata = length conflicts
                   then g_bind (resolve_metadata_conflicts c metadata) (\<lambda>_. g_ret None)
                   else g_ret (Some (str_or msg ''git cherry-pick failed'')))) s1 = (Inr stuck1, s2)"
    and 3: "(case stuck1 of Some message \<Rightarrow> g_ret (Some message)
      | None \<Rightarrow>
          g_bind (drop_task_metadata_changes c tid) (\<lambda>_.
          g_bind (g_catch (g_bind (index_has_staged_changes ?env ?main) (\<lambda>b. g_ret (Some b)))
                    (\<lambda>e. case e of GitError _ \<Rightarrow> g_ret None | _ \<Rightarrow> g_raise e)) (\<lambda>staged.
          case staged of
            None \<Rightarrow> g_ret (Some ''unable to inspect staged rescue changes'')
          | Some False \<Rightarrow> g_ret None
          | Some True \<Rightarrow>
              g_bind (commit_reuse_message ?env ?main sha) (\<lambda>(committed, commit_message).
              g_ret (if committed then None
                     else Some (str_or commit_message ''git commit failed after rescue cherry-pick'')))))) s2 = (Inr stuck, s')"
    unfolding rescue_commit_def Let_def by (auto simp: bind_Inr split: prod.splits)
  obtain pick where pick: "gw_calls s1 = gw_calls s @ [pick]" "gc_cwd pick = ?main"
      "gc_args pick = [''cherry-pick'', ''--no-commit'', sha]" "ok = (gc_code pick = 0)"
    using 1 by (auto simp: cherry_pick_no_commit_def git_try_def bind_Inr ret_Inr run_git_def run_Inr split: if_splits)
  from conflicts_metadata [OF 2 pick(2-4)] obtain c2 where c2: "gw_calls s2 = gw_calls s1 @ c2"
    "stuck1 = None \<longrightarrow> (\<forall>ds. picks ?main tid sha pick (c2 @ ds))" by blast
  show "\<exists>cs. gw_calls s' = gw_calls s @ cs \<and> (stuck = None \<longrightarrow> lands ?main tid sha cs)"
  proof (cases stuck1)
    case (Some message)
    then show ?thesis using 3 pick(1) c2 by (auto simp: ret_Inr)
  next
    case None
    with 3 obtain s3 staged s4 where 4: "drop_task_metadata_changes c tid s2 = (Inr (), s3)"
      and 5: "g_catch (g_bind (index_has_staged_changes ?env ?main) (\<lambda>b. g_ret (Some b)))
                    (\<lambda>e. case e of GitError _ \<Rightarrow> g_ret None | _ \<Rightarrow> g_raise e) s3 = (Inr staged, s4)"
      and 6: "(case staged of
            None \<Rightarrow> g_ret (Some ''unable to inspect staged rescue changes'')
          | Some False \<Rightarrow> g_ret None
          | Some True \<Rightarrow>
              g_bind (commit_reuse_message ?env ?main sha) (\<lambda>(committed, commit_message).
              g_ret (if committed then None
                     else Some (str_or commit_message ''git commit failed after rescue cherry-pick'')))) s4 = (Inr stuck, s')"
      by (auto simp: bind_Inr)
    obtain c3 where c3: "gw_calls s3 = gw_calls s2 @ c3" using callsD [OF metadata_calls(2) 4] by blast
    obtain probe where probe: "gw_calls s4 = gw_calls s3 @ [probe]" "gc_cwd probe = ?main"
        "gc_args probe = [''diff'', ''--cached'', ''--quiet'', ''--exit-code'']" "staged = Some False \<longrightarrow> gc_code probe = 0"
      using 5 by (auto simp: g_catch_def index_has_staged_changes_def g_bind_def run_git_def run_git_input_def g_ret_def
          g_raise_def split: prod.splits sum.splits if_splits)
    have before: "gw_calls s4 = gw_calls s @ pick # (c2 @ c3) @ [probe]" using pick(1) c2(1) c3 probe(1) by simp
    show ?thesis
    proof (cases "staged = Some True")
      case True
      with 6 obtain call where "gw_calls s' = gw_calls s4 @ [call]" "stuck = None \<longrightarrow> settles ?main sha call"
        by (auto simp: commit_reuse_message_def git_try_def bind_Inr ret_Inr run_git_def run_Inr settles_def split: if_splits)
      moreover have "picks ?main tid sha pick ((c2 @ c3) @ [probe])" using c2(2) None by simp
      ultimately show ?thesis using before landsI [of ?main tid sha pick "(c2 @ c3) @ [probe]" call]
        by (intro exI [of _ "pick # ((c2 @ c3) @ [probe]) @ [call]"]) simp
    next
      case False
      then have "s' = s4 \<and> (stuck = None \<longrightarrow> staged = Some False)"
        using 6 by (auto simp: ret_Inr split: option.splits bool.splits)
      moreover have "picks ?main tid sha pick (c2 @ c3)" using c2(2) None by simp
      moreover have "staged = Some False \<longrightarrow> settles ?main sha probe" using probe by (simp add: settles_def)
      ultimately show ?thesis using before landsI [of ?main tid sha pick "c2 @ c3" probe]
        by (intro exI [of _ "pick # (c2 @ c3) @ [probe]"]) simp
    qed
  qed
qed

section \<open>What the records say afterwards\<close>

definition store_of :: "'g wt_world gw \<Rightarrow> task_store" where
  "store_of s = ww_store (gw_world s)"

definition rescue_closed :: "string \<Rightarrow> 'g wt_world gw \<Rightarrow> bool" where
  "rescue_closed tid s \<longleftrightarrow>
     (\<exists>t. map_of (tw_tasks (store_of s)) tid = Some t \<and> t_status t = Tst_DONE \<and> get_task_worktree_path t = None) \<and>
     tid \<notin> set (ws_unmerged_worktrees (tw_ws (store_of s)))"

definition rescue_pending :: "string \<Rightarrow> task_record \<Rightarrow> 'g wt_world gw \<Rightarrow> bool" where
  "rescue_pending tid t s \<longleftrightarrow>
     map_of (tw_tasks (store_of s)) tid = Some (task_state_for_storage t) \<and>
     tid \<in> set (ws_unmerged_worktrees (tw_ws (store_of s)))"

lemma unbound_stored:
  assumes "pr_worktree_path (t_pipeline t) = None" "t_worktree_path t = None"
  shows "get_task_worktree_path (task_state_for_storage t) = None"
proof -
  let ?u = "normalize_task_commit_sha_state t"
  have "pr_worktree_path (t_pipeline ?u) = None" "t_worktree_path ?u = None"
    using assms by (simp_all add: normalize_task_commit_sha_state_def)
  then have "normalize_task_worktree_state ?u = ?u"
    by (simp add: normalize_task_worktree_state_def opt_truthy_def)
  moreover have "pr_worktree_path (t_pipeline (normalize_task_flag_reason ?u)) = None"
    using assms by (simp add: normalize_task_flag_reason_def canonicalize_task_terminal_state_def Let_def
        normalize_task_commit_sha_state_def)
  ultimately show ?thesis
    by (simp add: task_state_for_storage_def to_storage_state_record_def get_task_worktree_path_def)
qed

lemma rescued_task_stored:
  assumes "outcome \<in> {''rescued'', ''already-landed'', ''no-op''}"
  shows "t_id (rescued_task outcome sha t) = t_id t" "t_status (rescued_task outcome sha t) = Tst_DONE"
    "get_task_worktree_path (task_state_for_storage (rescued_task outcome sha t)) = None"
proof -
  have r: "rescued_task outcome sha t = set_task_commit_sha sha
      ((set_task_worktree_path None t) \<lparr>t_status := Tst_DONE, t_pipeline_status := Pst_DONE\<rparr>)"
    unfolding rescued_task_def Let_def by (simp only: assms if_True)
  show "t_id (rescued_task outcome sha t) = t_id t" "t_status (rescued_task outcome sha t) = Tst_DONE"
    unfolding r by (simp_all add: set_task_commit_sha_def set_task_worktree_path_def)
  show "get_task_worktree_path (task_state_for_storage (rescued_task outcome sha t)) = None"
    unfolding r by (rule unbound_stored) (simp_all add: set_task_commit_sha_def set_task_worktree_path_def)
qed

lemma finish_rescue_spec:
  assumes "outcome \<in> {''rescued'', ''already-landed'', ''no-op''}"
  shows "g_spec (\<lambda>_. True) (finish_rescue t cand outcome head ch status msg)
    (\<lambda>r s. rq_status r = ''active_task'' \<or> rq_status r = status \<and> rescue_closed (t_id t) s) (\<lambda>_ _. True)"
proof (rule specI)
  fix s r s'
  assume "finish_rescue t cand outcome head ch status msg s = (Inr r, s')"
  then obtain conflict s1 where f: "finalize_rescue t outcome head s = (Inr conflict, s1)"
    and r: "(case conflict of
       Some m \<Rightarrow> g_ret (rescue_result_of cand ''active_task'' (rc_commit_shas cand) ch m)
     | None \<Rightarrow> g_ret (rescue_result_of cand status (rc_commit_shas cand) head msg)) s1 = (Inr r, s')"
    unfolding finish_rescue_def by (auto simp: bind_Inr)
  show "rq_status r = ''active_task'' \<or> rq_status r = status \<and> rescue_closed (t_id t) s'"
  proof (cases conflict)
    case Some
    then show ?thesis using r by (simp add: ret_Inr rescue_result_of_def)
  next
    case None
    then obtain st where st: "finalize_rescue_store t outcome head (store_of s) = Inr st" "store_of s1 = st"
      using f by (auto simp: finalize_rescue_def bind_Inr look_Inr ret_Inr update_store_def g_act_def store_of_def split: sum.splits)
    let ?ws = "tw_ws (store_of s)"
    have "store_of s1 = persist_transition (rescued_task outcome head t)
            (?ws \<lparr>ws_unmerged_worktrees := List.filter (\<lambda>i. i \<noteq> t_id t) (ws_unmerged_worktrees ?ws)\<rparr>)
            (finalize_message outcome head) (store_of s)"
      using st by (simp add: finalize_rescue_store_def Let_def split: if_splits sum.splits)
    then have "rescue_closed (t_id t) s1"
      by (simp add: rescue_closed_def persist_transition_def update_conv' merged_state_for_runner_owned_write_def
          rescued_task_stored [OF assms])
    then show ?thesis using r None by (simp add: ret_Inr rescue_result_of_def)
  qed
qed simp

definition rescue_outcome :: "task_record \<Rightarrow> rescue_result \<Rightarrow> 'g wt_world gw \<Rightarrow> bool" where
  "rescue_outcome t r s \<longleftrightarrow>
     rq_status r \<in> {''missing_worktree'', ''active_task''} \<or>
     rq_status r \<in> {''clean'', ''already_landed'', ''no_commits''} \<and> rescue_closed (t_id t) s \<or>
     rq_status r = ''manual_conflict'' \<and> rescue_pending (t_id t) t s"

abbreviation always :: "'a \<Rightarrow> 'b \<Rightarrow> bool" where
  "always \<equiv> \<lambda>_ _. True"

lemma spec_skip: "(\<And>x. g_spec (\<lambda>_. True) (k x) Q always) \<Longrightarrow> g_spec (\<lambda>_. True) (g_bind m k) Q always"
  by (rule spec_bind [where R = always]) (auto simp: g_spec_def split: prod.splits sum.splits)

lemma finish_outcome:
  assumes "outcome \<in> {''rescued'', ''already-landed'', ''no-op''}" "status \<in> {''clean'', ''already_landed'', ''no_commits''}"
  shows "g_spec (\<lambda>_. True) (finish_rescue t cand outcome head ch status msg) (rescue_outcome t) always"
  by (rule spec_conseq [OF finish_rescue_spec [OF assms(1)]]) (use assms(2) in \<open>auto simp: rescue_outcome_def\<close>)

lemma manual_conflict_outcome: "g_spec (\<lambda>_. True) (manual_conflict c t cand stashed msg) (rescue_outcome t) always"
proof -
  let ?saved = "\<lambda>s. map_of (tw_tasks (store_of s)) (t_id t) = Some (task_state_for_storage t)"
  have save: "g_spec (\<lambda>_. True) (save_task c t) (\<lambda>_. ?saved) always"
    by (rule specI) (auto simp: save_task_def try_save_task_def update_store_def put_task_def g_act_def bind_Inr
        look_Inr ret_Inr raise_Inr store_of_def update_conv' split: option.splits)
  have mark: "g_spec ?saved (ensure_unmerged_worktree_state c (t_id t)) (\<lambda>_. rescue_pending (t_id t) t) always"
    by (rule specI) (auto simp: ensure_unmerged_worktree_state_def workspace_now_def update_store_def g_act_def bind_Inr
        look_Inr ret_Inr raise_Inr store_of_def rescue_pending_def split: option.splits if_splits)
  show ?thesis unfolding manual_conflict_def
    by (rule spec_skip, rule spec_skip, rule spec_bind [OF save], rule spec_bind [OF mark], rule spec_ret)
       (simp add: rescue_outcome_def rescue_result_of_def)
qed

lemma rescue_commits_outcome:
  "g_spec (\<lambda>_. True) (rescue_commits c t cand stashed shas) (rescue_outcome t) always"
proof (induction shas)
  case Nil
  show ?case unfolding rescue_commits.simps by (rule spec_skip, rule spec_skip, rule finish_outcome) simp_all
next
  case (Cons sha shas)
  show ?case unfolding rescue_commits.simps
    by (rule spec_skip, rule spec_option) (simp_all add: Cons.IH manual_conflict_outcome)
qed

lemma apply_outcome:
  "g_spec (\<lambda>s. map_of (tw_tasks (store_of s)) (rc_task_id cand) = Some t) (apply_rescue_candidate c cand)
     (rescue_outcome t) always"
proof -
  have found: "g_spec (\<lambda>s. map_of (tw_tasks (store_of s)) (rc_task_id cand) = Some t) (stored_task (rc_task_id cand))
      (\<lambda>x _. x = Some t) always"
    unfolding stored_task_def by (rule spec_look) (simp add: store_of_def)
  have task: "g_spec (\<lambda>_. True) (rescue_task c cand t) (rescue_outcome t) always"
    unfolding rescue_task_def Let_def
    by (intro spec_skip spec_if spec_ret finish_outcome rescue_commits_outcome)
       (simp_all add: rescue_outcome_def rescue_result_of_def)
  show ?thesis unfolding apply_rescue_candidate_def
    by (rule spec_bind [OF found]) (use task in \<open>auto simp: g_spec_def split: option.split\<close>)
qed

lemma post_skip:
  assumes "g_calls (\<lambda>_. True) m" "\<And>x. g_post (k x) Q" "\<And>y cs ds. Q y ds \<Longrightarrow> Q y (cs @ ds)"
  shows "g_post (g_bind m k) Q"
proof (rule post_bind [OF calls_post [OF assms(1)]])
  show "g_post (k x) (\<lambda>y ds. Q y (cs @ ds))" for x cs
    using assms(2) [of x] assms(3) unfolding g_post_def by blast
qed

definition cleanly :: "string \<Rightarrow> string \<Rightarrow> string list \<Rightarrow> rescue_result \<Rightarrow> git_call list \<Rightarrow> bool" where
  "cleanly main tid shas r cs \<longleftrightarrow> (rq_status r = ''clean'' \<longrightarrow> lands_in_order main tid shas cs)"

lemma cleanly_append: "cleanly main tid shas r ds \<Longrightarrow> cleanly main tid shas r (cs @ ds)"
  by (simp add: cleanly_def lands_in_order_append)

lemma calls_sum [git_calls]:
  "(\<And>x. g_calls P (f x)) \<Longrightarrow> (\<And>y. g_calls P (g y)) \<Longrightarrow> g_calls P (case v of Inl x \<Rightarrow> f x | Inr y \<Rightarrow> g y)"
  by (simp split: sum.split)

lemma store_calls [git_calls]:
  "g_calls P (finalize_rescue t outcome sha)" "g_calls P workspace_now" "g_calls P (ensure_unmerged_worktree_state c tid)"
  unfolding finalize_rescue_def workspace_now_def ensure_unmerged_worktree_state_def Let_def
  by (intro git_calls)+

lemma stash_any_calls [git_calls]:
  "g_calls (\<lambda>_. True) (restore_litehive_changes c r)" "g_calls (\<lambda>_. True) (stash_litehive_changes c)"
  "g_calls (\<lambda>_. True) (cherry_pick_abort env cwd)" "g_calls (\<lambda>_. True) (patch_already_on_main c h m)"
  "g_calls (\<lambda>_. True) (worktree_has_non_metadata_changes c p tid)"
  unfolding restore_litehive_changes_def stash_litehive_changes_def stash_pop_def stash_apply_def stash_drop_def
    rev_parse_verify_def stash_push_def cherry_pick_abort_def patch_already_on_main_def cherry_check_def
    worktree_has_non_metadata_changes_def fork_point_def Let_def
  by (intro git_calls TrueI)+

lemma finish_status:
  assumes "finish_rescue t cand outcome head ch status msg s = (Inr r, s')"
  shows "rq_status r \<in> {''active_task'', status}"
proof -
  from assms obtain conflict s1 where r: "(case conflict of
       Some m \<Rightarrow> g_ret (rescue_result_of cand ''active_task'' (rc_commit_shas cand) ch m)
     | None \<Rightarrow> g_ret (rescue_result_of cand status (rc_commit_shas cand) head msg)) s1 = (Inr r, s')"
    unfolding finish_rescue_def by (auto simp: bind_Inr)
  then show ?thesis by (cases conflict) (simp_all add: ret_Inr rescue_result_of_def)
qed

lemma finish_post: "status = ''clean'' \<longrightarrow> shas = [] \<Longrightarrow> g_post (finish_rescue t cand outcome head ch status msg) (cleanly main tid shas)"
proof -
  assume st: "status = ''clean'' \<longrightarrow> shas = []"
  have "g_calls (\<lambda>_. True) (finish_rescue t cand outcome head ch status msg)"
    unfolding finish_rescue_def by (intro git_calls)
  from calls_post [OF this] show ?thesis
    using finish_status st unfolding g_post_def cleanly_def by fastforce
qed

lemma manual_conflict_post: "g_post (manual_conflict c t cand stashed msg) (cleanly main tid shas)"
  unfolding manual_conflict_def
  by (intro post_skip git_calls post_ret cleanly_append) (simp_all add: cleanly_def rescue_result_of_def)

lemma rescue_commits_post: "g_post (rescue_commits c t cand stashed shas) (cleanly (wt_root c) (t_id t) shas)"
proof (induction shas)
  case Nil
  show ?case unfolding rescue_commits.simps by (intro post_skip git_calls finish_post cleanly_append) simp_all
next
  case (Cons sha shas)
  show ?case unfolding rescue_commits.simps
  proof (rule post_bind [OF rescue_commit_post])
    fix stuck :: "string option" and cs assume landed: "stuck = None \<longrightarrow> lands (wt_root c) (t_id t) sha cs"
    show "g_post (case stuck of None \<Rightarrow> rescue_commits c t cand stashed shas
        | Some message \<Rightarrow> manual_conflict c t cand stashed message) (\<lambda>r ds. cleanly (wt_root c) (t_id t) (sha # shas) r (cs @ ds))"
    proof (cases stuck)
      case None
      then show ?thesis using Cons.IH landed lands_in_order_Cons unfolding g_post_def cleanly_def by fastforce
    next
      case (Some message)
      then show ?thesis using post_mono [OF manual_conflict_post cleanly_append] by simp
    qed
  qed
qed

lemma rescue_task_post: "g_post (rescue_task c cand t) (cleanly (wt_root c) (t_id t) (rc_commit_shas cand))"
  unfolding rescue_task_def Let_def
  by (intro post_skip git_calls post_if post_option post_ret finish_post rescue_commits_post cleanly_append)
     (auto simp: cleanly_def rescue_result_of_def split: option.split intro!: git_calls)

lemma apply_stored:
  "map_of (tw_tasks (store_of s)) (rc_task_id cand) = Some t \<Longrightarrow> apply_rescue_candidate c cand s = rescue_task c cand t s"
  by (simp add: apply_rescue_candidate_def stored_task_def g_bind_def g_look_def store_of_def)

text \<open>C31: a rescue that ends clean has landed the candidate's commits on main one after the other: each was
  cherry-picked, either successfully or with conflicts in the task's own metadata files only, and then
  committed, unless git answered that nothing was left staged. Whenever the rescue closes the task, the
  task is done, has no worktree and is no longer listed as unmerged; after a conflict the task is stored
  as it was and is listed.\<close>

theorem rescue_lands_or_keeps:
  assumes "map_of (tw_tasks (store_of s)) (rc_task_id cand) = Some t" "gw_calls s = []"
    "apply_rescue_candidate c cand s = (Inr r, s')"
  shows "rescue_outcome t r s' \<and>
    (rq_status r = ''clean'' \<longrightarrow> lands_in_order (wt_root c) (t_id t) (rc_commit_shas cand) (gw_calls s'))"
  using specD_Inr [OF apply_outcome, of s cand t] postD [OF rescue_task_post, of c cand t s r s'] assms
  by (simp add: cleanly_def apply_stored)

definition demo_flagged :: task_record where
  "demo_flagged = demo_wt_task \<lparr>t_status := Tst_FLAGGED, t_flag_reason := Some ''merge_failed''\<rparr>"

definition demo_rescue_world :: "string list wt_world gw" where
  "demo_rescue_world = \<lparr>gw_world = \<lparr>ww_fs = [''/w/wt/T1-demo''],
     ww_store = \<lparr>tw_tasks = [(''T1'', demo_flagged)], tw_ws = demo_ws [], tw_lifecycle = demo_wt_lifecycle,
       tw_activity = [], tw_journal = []\<rparr>\<rparr>, gw_calls = []\<rparr>"

definition demo_candidate :: rescue_candidate where
  "demo_candidate = \<lparr>rc_task_id = ''T1'', rc_worktree_rel = ''/w/wt/T1-demo'', rc_worktree_path = ''/w/wt/T1-demo'',
     rc_commit_shas = [''c1'']\<rparr>"

definition demo_ahead :: "(string list \<times> int \<times> string) list" where
  "demo_ahead = [([''rev-parse'', ''--verify'', ''HEAD''], 0, ''m''), ([''rev-parse''], 0, ''h''),
     ([''cherry'', ''m'', ''h''], 0, ''+ c1''), ([''diff'', ''--cached'', ''--quiet''], 1, [])]"

text \<open>The runs of git in the demonstration, without evaluating the world.\<close>

abbreviation demo_logged :: "string \<Rightarrow> string list \<Rightarrow> 'w gw \<Rightarrow> 'w gw" where
  "demo_logged cwd args s \<equiv> s \<lparr>gw_calls := gw_calls s @ [gc_call cwd args (demo_answer demo_ahead args)]\<rparr>"

lemma demo_run:
  "take 2 args \<noteq> [''worktree'', ''add''] \<Longrightarrow>
     run_git (wt_git (demo_wt_env demo_ahead)) cwd args s = (Inr (demo_answer demo_ahead args), demo_logged cwd args s)"
  by (simp add: run_git_def run_git_input_def lift_env_def demo_wt_env_def on_fs_def)

lemma demo_answers:
  "gp_code (demo_answer demo_ahead [''rev-parse'', ''HEAD'']) = 0"
  "opt_text (py_strip (gp_out (demo_answer demo_ahead [''rev-parse'', ''HEAD'']))) = Some ''h''"
  "gp_code (demo_answer demo_ahead [''rev-parse'', ''--verify'', ''HEAD'']) = 0"
  "opt_text (py_strip (gp_out (demo_answer demo_ahead [''rev-parse'', ''--verify'', ''HEAD'']))) = Some ''m''"
  "gp_code (demo_answer demo_ahead [''cherry'', ''m'', ''h'']) = 0"
  "stripped_lines (gp_out (demo_answer demo_ahead [''cherry'', ''m'', ''h''])) = [''+ c1'']"
  "gp_code (demo_answer demo_ahead [''status'', ''--porcelain'', ''--untracked-files=all'', ''--'', ''.litehive'']) = 0"
  "opt_text (py_strip (gp_out (demo_answer demo_ahead
     [''status'', ''--porcelain'', ''--untracked-files=all'', ''--'', ''.litehive'']))) = None"
  "gp_code (demo_answer demo_ahead [''cherry-pick'', ''--no-commit'', ''c1'']) = 0"
  "gp_code (demo_answer demo_ahead [''diff'', ''--cached'', ''--name-only'']) = 0"
  "opt_text (py_strip (gp_out (demo_answer demo_ahead [''diff'', ''--cached'', ''--name-only'']))) = None"
  "gp_code (demo_answer demo_ahead [''diff'', ''--cached'', ''--quiet'', ''--exit-code'']) = 1"
  "gp_code (demo_answer demo_ahead [''commit'', ''--reuse-message'', ''c1'']) = 0"
  by code_simp+

lemma demo_steps:
  "stdout_or_none (wt_git (demo_wt_env demo_ahead)) p [''rev-parse'', ''HEAD''] s =
     (Inr (Some ''h''), demo_logged p [''rev-parse'', ''HEAD''] s)"
  "current_head (wt_git (demo_wt_env demo_ahead)) p s =
     (Inr (Some ''m''), demo_logged p [''rev-parse'', ''--verify'', ''HEAD''] s)"
  "patch_already_on_main (demo_wt_env demo_ahead) ''h'' ''m'' s = (Inr False, demo_logged ''/w'' [''cherry'', ''m'', ''h''] s)"
  "stash_litehive_changes (demo_wt_env demo_ahead) s = (Inr None,
     demo_logged ''/w'' [''status'', ''--porcelain'', ''--untracked-files=all'', ''--'', ''.litehive''] s)"
  "\<exists>s'. rescue_commit (demo_wt_env demo_ahead) ''T1'' ''c1'' s = (Inr None, s') \<and> gw_world s' = gw_world s"
proof -
  have root: "wt_root (demo_wt_env demo_ahead) = ''/w''" by (simp add: demo_wt_env_def)
  note defs = g_bind_def g_ret_def demo_run demo_answers root Let_def
  show "stdout_or_none (wt_git (demo_wt_env demo_ahead)) p [''rev-parse'', ''HEAD''] s =
     (Inr (Some ''h''), demo_logged p [''rev-parse'', ''HEAD''] s)"
    by (simp add: stdout_or_none_def defs)
  show "current_head (wt_git (demo_wt_env demo_ahead)) p s =
     (Inr (Some ''m''), demo_logged p [''rev-parse'', ''--verify'', ''HEAD''] s)"
    by (simp add: current_head_def defs)
  show "patch_already_on_main (demo_wt_env demo_ahead) ''h'' ''m'' s = (Inr False, demo_logged ''/w'' [''cherry'', ''m'', ''h''] s)"
    by (simp add: patch_already_on_main_def cherry_check_def starts_with_def defs)
  show "stash_litehive_changes (demo_wt_env demo_ahead) s = (Inr None,
     demo_logged ''/w'' [''status'', ''--porcelain'', ''--untracked-files=all'', ''--'', ''.litehive''] s)"
    by (simp add: stash_litehive_changes_def stdout_lines_def stdout_or_none_def defs)
  show "\<exists>s'. rescue_commit (demo_wt_env demo_ahead) ''T1'' ''c1'' s = (Inr None, s') \<and> gw_world s' = gw_world s"
    by (simp add: rescue_commit_def cherry_pick_no_commit_def git_try_def drop_task_metadata_changes_def stdout_lines_def
        stdout_or_none_def restore_paths_def g_catch_def index_has_staged_changes_def commit_reuse_message_def defs)
qed

lemma demo_allowed:
  "ensure_future_task_mutation_allowed [''T1''] [(''T1'', demo_flagged)] (demo_ws []) = Inr ()"
  "ws_active_task_id (demo_ws q) = None" "t_id demo_flagged = ''T1''"
  by (code_simp, simp_all add: demo_ws_def demo_flagged_def demo_wt_task_def demo_record_def set_task_worktree_path_def)

lemma demo_env_facts:
  "we_exists (wt_git (demo_wt_env tb)) p w \<longleftrightarrow> p \<in> set (ww_fs w)" "wt_root (demo_wt_env tb) = ''/w''"
  by (simp_all add: demo_wt_env_def lift_env_def)

lemma demo_rescue_clean:
  "\<exists>r s'. apply_rescue_candidate (demo_wt_env demo_ahead) demo_candidate demo_rescue_world = (Inr r, s') \<and>
     rq_status r = ''clean''"
proof -
  let ?env = "demo_wt_env demo_ahead" and ?s = "demo_rescue_world"
  have world: "gw_world ?s = \<lparr>ww_fs = [''/w/wt/T1-demo''], ww_store = store_of ?s\<rparr>"
      "tw_tasks (store_of ?s) = [(''T1'', demo_flagged)]" "tw_ws (store_of ?s) = demo_ws []"
    by (simp_all add: demo_rescue_world_def store_of_def)
  have cand: "rc_task_id demo_candidate = ''T1''" "rc_worktree_path demo_candidate = ''/w/wt/T1-demo''"
      "rc_commit_shas demo_candidate = [''c1'']"
    by (simp_all add: demo_candidate_def)
  have "\<exists>s1. rescue_task ?env demo_candidate demo_flagged ?s =
      rescue_commits ?env demo_flagged demo_candidate None [''c1''] s1 \<and> gw_world s1 = gw_world ?s"
    by (simp add: rescue_task_def demo_steps g_bind_def g_ret_def Let_def path_there_def workspace_now_def g_look_def
        demo_allowed demo_env_facts world cand del: rescue_commits.simps)
       (rule exI, rule conjI, rule refl, simp add: world)
  then obtain s1 where 1: "rescue_task ?env demo_candidate demo_flagged ?s =
      rescue_commits ?env demo_flagged demo_candidate None [''c1''] s1" "store_of s1 = store_of ?s"
    unfolding store_of_def by auto
  obtain s2 where 2: "rescue_commit ?env ''T1'' ''c1'' s1 = (Inr None, s2)" "store_of s2 = store_of ?s"
    using demo_steps(5) 1(2) unfolding store_of_def by metis
  obtain st where st: "finalize_rescue_store demo_flagged ''rescued'' (Some ''m'') (store_of ?s) = Inr st"
    by (simp add: finalize_rescue_store_def Let_def world demo_allowed)
  have "\<exists>r s'. rescue_commits ?env demo_flagged demo_candidate None [''c1''] s1 = (Inr r, s') \<and> rq_status r = ''clean''"
    using 2 st
    by (simp add: g_bind_def g_ret_def demo_allowed restore_litehive_changes_def demo_steps finish_rescue_def
        finalize_rescue_def g_look_def update_store_def g_act_def store_of_def rescue_result_of_def)
  then show ?thesis
    using 1 by (simp add: apply_rescue_candidate_def g_bind_def stored_task_def g_look_def cand world)
qed

theorem rescue_lands_or_keeps_witness:
  "\<exists>r s'. apply_rescue_candidate (demo_wt_env demo_ahead) demo_candidate demo_rescue_world = (Inr r, s') \<and>
     rq_status r = ''clean'' \<and> rescue_closed ''T1'' s' \<and> lands_in_order ''/w'' ''T1'' [''c1''] (gw_calls s')"
proof -
  obtain r s' where r: "apply_rescue_candidate (demo_wt_env demo_ahead) demo_candidate demo_rescue_world = (Inr r, s')"
    "rq_status r = ''clean''"
    using demo_rescue_clean by blast
  have "t_id demo_flagged = ''T1''" by (simp add: demo_flagged_def demo_wt_task_def demo_record_def set_task_worktree_path_def)
  moreover have "rescue_outcome demo_flagged r s' \<and> (rq_status r = ''clean'' \<longrightarrow>
      lands_in_order (wt_root (demo_wt_env demo_ahead)) (t_id demo_flagged) (rc_commit_shas demo_candidate) (gw_calls s'))"
    by (rule rescue_lands_or_keeps [OF _ _ r(1)]) (simp_all add: store_of_def demo_rescue_world_def demo_candidate_def)
  ultimately show ?thesis using r by (simp add: rescue_outcome_def demo_wt_env_def demo_candidate_def)
qed

section \<open>A worktree git cannot read\<close>

lemma spec_total: "g_spec P m Q (\<lambda>_ _. False) \<Longrightarrow> P s \<Longrightarrow> \<exists>x s'. m s = (Inr x, s') \<and> Q x s'"
  unfolding g_spec_def by (drule spec [of _ s]) (auto split: prod.splits sum.splits)

lemma store_kept:
  "g_spec (\<lambda>s. store_of s = st) (run_git (wt_git c) cwd args) (\<lambda>_ s. store_of s = st) (\<lambda>_ _. False)"
  by (rule spec_run) (auto simp: store_of_def lift_env_def on_fs_def split: prod.splits)

lemma head_store: "g_spec (\<lambda>s. store_of s = st) (current_head (wt_git c) cwd) (\<lambda>_ s. store_of s = st) (\<lambda>_ _. False)"
  unfolding current_head_def by (rule spec_bind [OF store_kept], rule spec_ret)

lemma unreadable_answer:
  assumes "\<And>args x. gp_code (fst (git_answer c p args x)) \<noteq> 0"
  shows "g_spec (\<lambda>s. store_of s = st) (stdout_or_none (wt_git c) p args) (\<lambda>v s. v = None \<and> store_of s = st) (\<lambda>_ _. False)"
proof -
  have "g_spec (\<lambda>s. store_of s = st) (run_git (wt_git c) p args) (\<lambda>r s. gp_code r \<noteq> 0 \<and> store_of s = st) (\<lambda>_ _. False)"
  proof (rule spec_run)
    fix s r w assume "store_of s = st" and r: "git_answer c p args (gw_world s) = (r, w)"
    moreover have "ww_store w = ww_store (gw_world s)" using r by (auto simp: lift_env_def on_fs_def split: prod.splits)
    ultimately show "gp_code r \<noteq> 0 \<and> store_of (s \<lparr>gw_world := w, gw_calls := gw_calls s @ [gc_call p args r]\<rparr>) = st"
      using assms [of args "gw_world s"] by (simp add: store_of_def)
  qed
  then show ?thesis unfolding stdout_or_none_def by (rule spec_bind) (rule spec_ret, simp)
qed

lemma unreadable_candidate:
  assumes "\<And>args x. gp_code (fst (git_answer c (rc_worktree_path cand) args x)) \<noteq> 0"
    "rescue_candidate_of c t s = (Inr (Some cand), s')"
  shows "rc_commit_shas cand = [] \<and> rc_task_id cand = t_id t"
proof -
  have none: "worktree_commits_ahead_of_main c p s1 = (Inr shas, s2) \<Longrightarrow> rc_worktree_path cand = p \<Longrightarrow> shas = []" for p s1 shas s2
    using specD_Inr [OF unreadable_answer [OF assms(1)]]
    by (fastforce simp: worktree_commits_ahead_of_main_def fork_point_def bind_Inr ret_Inr)
  from assms(2) obtain path s2 where c: "(case (path, get_task_worktree_path t) of
        (Some p, Some r) \<Rightarrow>
          g_bind (path_there c p) (\<lambda>there.
          g_bind (if there then worktree_commits_ahead_of_main c p else g_ret []) (\<lambda>shas.
          g_ret (Some \<lparr>rc_task_id = t_id t, rc_worktree_rel = r, rc_worktree_path = p, rc_commit_shas = shas\<rparr>)))
      | _ \<Rightarrow> g_ret None) s2 = (Inr (Some cand), s')"
    by (auto simp: rescue_candidate_of_def Let_def bind_Inr ret_Inr split: if_splits)
  then obtain p r where "path = Some p" "get_task_worktree_path t = Some r"
    by (auto simp: ret_Inr split: option.splits)
  with c show ?thesis using none by (auto simp: bind_Inr ret_Inr split: if_splits)
qed

text \<open>C32: when git cannot read the recorded worktree of a flagged task, the rescue finds no commits there and
  closes the task as done, dropping the record of its worktree.\<close>

theorem unreadable_worktree_is_closed:
  assumes "\<And>args x. gp_code (fst (git_answer c (rc_worktree_path cand) args x)) \<noteq> 0"
    and "rescue_candidate_of c t s0 = (Inr (Some cand), s1)"
    and "map_of (tw_tasks (store_of s)) (t_id t) = Some t"
    and "we_exists (wt_git c) (rc_worktree_path cand) (gw_world s)"
    and "ws_active_task_id (tw_ws (store_of s)) \<noteq> Some (t_id t)"
    and "ensure_future_task_mutation_allowed [t_id t] (tw_tasks (store_of s)) (tw_ws (store_of s)) = Inr ()"
  shows "\<exists>r s'. apply_rescue_candidate c cand s = (Inr r, s') \<and> rq_status r = ''no_commits'' \<and> rescue_closed (t_id t) s'"
proof -
  let ?st = "store_of s" and ?p = "rc_worktree_path cand"
  note cand = unreadable_candidate [OF assms(1, 2)]
  obtain v s2 where "stdout_or_none (wt_git c) ?p [''rev-parse'', ''HEAD''] s = (Inr v, s2)" "v = None \<and> store_of s2 = ?st"
    using spec_total [OF unreadable_answer [OF assms(1)] refl] by blast
  then have h: "stdout_or_none (wt_git c) ?p [''rev-parse'', ''HEAD''] s = (Inr None, s2)" "store_of s2 = ?st" by simp_all
  obtain m s3 where m: "current_head (wt_git c) (wt_root c) s2 = (Inr m, s3)" "store_of s3 = ?st"
    using spec_total [OF head_store h(2)] by blast
  have "apply_rescue_candidate c cand s =
      finish_rescue t cand ''no-op'' m None ''no_commits'' ''no worktree commits ahead of main'' s3"
    using assms(3, 4, 5) cand h(1) m(1)
    by (simp add: apply_rescue_candidate_def rescue_task_def stored_task_def path_there_def workspace_now_def
        g_bind_def g_look_def g_ret_def store_of_def Let_def)
  moreover obtain st where "finalize_rescue_store t ''no-op'' m ?st = Inr st"
    using assms(5, 6) by (simp add: finalize_rescue_store_def Let_def)
  then obtain r s' where f: "finish_rescue t cand ''no-op'' m None ''no_commits'' ''no worktree commits ahead of main'' s3 = (Inr r, s')"
      "rq_status r = ''no_commits''"
    using m(2) by (simp add: finish_rescue_def finalize_rescue_def update_store_def g_act_def g_bind_def g_look_def
        g_ret_def store_of_def rescue_result_of_def)
  ultimately show ?thesis
    using specD_Inr [OF finish_rescue_spec _ f(1)] f by auto
qed

definition demo_unreadable :: "string list wt_env" where
  "demo_unreadable = demo_wt_env [] \<lparr>wt_files := (wt_files (demo_wt_env [])) \<lparr>we_git := \<lambda>cwd args input g.
     (if cwd = ''/w'' then demo_answer [] args else \<lparr>gp_code = 128, gp_out = [], gp_err = ''not a git repository''\<rparr>, g)\<rparr>\<rparr>"

lemma demo_ws_active: "ws_active_task_id (demo_ws q) = None"
  by (simp add: demo_ws_def)

theorem unreadable_worktree_is_closed_witness:
  "\<exists>cand s1 r s'. rescue_candidate_of demo_unreadable demo_flagged demo_rescue_world = (Inr (Some cand), s1) \<and>
     apply_rescue_candidate demo_unreadable cand demo_rescue_world = (Inr r, s') \<and> rq_status r = ''no_commits'' \<and>
     rescue_closed ''T1'' s'"
proof -
  have "case rescue_candidate_of demo_unreadable demo_flagged demo_rescue_world of
      (Inr (Some cand), _) \<Rightarrow> rc_worktree_path cand = ''/w/wt/T1-demo'' | _ \<Rightarrow> False" by code_simp
  then obtain cand s1 where cand: "rescue_candidate_of demo_unreadable demo_flagged demo_rescue_world = (Inr (Some cand), s1)"
    "rc_worktree_path cand = ''/w/wt/T1-demo''" by (auto split: prod.splits sum.splits option.splits)
  have tid: "t_id demo_flagged = ''T1''" by (simp add: demo_flagged_def demo_wt_task_def demo_record_def set_task_worktree_path_def)
  have allowed: "ensure_future_task_mutation_allowed [''T1''] [(''T1'', demo_flagged)] (demo_ws []) = Inr ()" by code_simp
  have "\<exists>r s'. apply_rescue_candidate demo_unreadable cand demo_rescue_world = (Inr r, s') \<and>
      rq_status r = ''no_commits'' \<and> rescue_closed (t_id demo_flagged) s'"
    by (rule unreadable_worktree_is_closed [OF _ cand(1)])
       (simp_all add: cand(2) tid allowed demo_ws_active demo_unreadable_def demo_wt_env_def lift_env_def on_fs_def store_of_def
          demo_rescue_world_def)
  then show ?thesis using cand(1) tid by auto
qed

section \<open>Cleaning up\<close>

definition removal_call :: "git_call \<Rightarrow> bool" where
  "removal_call call \<longleftrightarrow> take 2 (gc_args call) = [''worktree'', ''remove'']"

text \<open>The removal of one managed worktree, as main's git saw it.\<close>

definition removes :: "string \<Rightarrow> managed_worktree \<Rightarrow> git_call \<Rightarrow> bool" where
  "removes main m call \<longleftrightarrow>
     gc_cwd call = main \<and> gc_args call = [''worktree'', ''remove'', ''--force'', mw_worktree_path m]"

lemma keeps_catch_git [git_keeps]:
  "g_keeps I m \<Longrightarrow> (\<And>msg. g_keeps I (h msg)) \<Longrightarrow> g_keeps I (catch_git m h)"
  unfolding catch_git_def by (intro git_keeps)

lemma path_keeps [git_keeps]:
  "g_keeps (all_calls P) (resolved c p)" "g_keeps (all_calls P) (expanded c p)" "g_keeps (all_calls P) (path_there c p)"
  "g_keeps (all_calls P) (stored_task tid)" "g_keeps (all_calls P) workspace_now" "g_keeps (all_calls P) listed_tasks"
  "g_keeps (all_calls P) (is_managed_worktree_path c rel)"
  "g_keeps (all_calls P) (resolve_recorded_worktree_path c rel)"
  unfolding resolved_def expanded_def path_there_def stored_task_def workspace_now_def listed_tasks_def
    is_managed_worktree_path_def resolve_recorded_worktree_path_def
  by (intro git_keeps)+

lemma status_keeps [git_keeps]:
  "(\<And>p. P (gc_call cwd [''status'', ''--porcelain'', ''--untracked-files=all''] p)) \<Longrightarrow>
     g_keeps (all_calls P) (status_porcelain env cwd)"
  unfolding status_porcelain_def by (intro git_keeps)

lemma managed_keeps [git_keeps]: "g_keeps (all_calls (\<lambda>call. \<not> removal_call call)) (managed_worktree_of c a p t)"
  unfolding managed_worktree_of_def Let_def
  by (intro git_keeps) (simp_all add: removal_call_def)

lemma collect_keeps: "g_keeps (all_calls (\<lambda>call. \<not> removal_call call)) (collect_managed_worktrees c)"
  unfolding collect_managed_worktrees_def by (intro git_keeps)

lemma list_all2_from: "list_all2 P xs ys \<Longrightarrow> y \<in> set ys \<Longrightarrow> \<exists>x\<in>set xs. P x y"
  by (induction rule: list_all2_induct) auto

lemma map_Inr: "g_map f xs s = (Inr ys, s') \<Longrightarrow> list_all2 (\<lambda>x y. \<exists>s s'. f x s = (Inr y, s')) xs ys"
  by (induction xs arbitrary: ys s) (auto simp: ret_Inr bind_Inr)

text \<open>
  Whether a worktree is in use: it is the one of the active task, or has the path that the active task's
  record names.
\<close>

definition in_use :: "task_store \<Rightarrow> managed_worktree \<Rightarrow> bool" where
  "in_use st m \<longleftrightarrow> Some (mw_task_id m) = ws_active_task_id (tw_ws st) \<or>
     (\<exists>i t. ws_active_task_id (tw_ws st) = Some i \<and> i \<noteq> [] \<and> map_of (tw_tasks st) i = Some t \<and>
        get_task_worktree_path t = Some (mw_worktree_rel m))"

definition managed_by :: "task_store \<Rightarrow> managed_worktree \<Rightarrow> bool" where
  "managed_by st m \<longleftrightarrow> (\<exists>t\<in>snd ` set (tw_tasks st). mw_task_id m = t_id t \<and> mw_status m = t_status t \<and>
     get_task_worktree_path t = Some (mw_worktree_rel m)) \<and> mw_active m = in_use st m"

lemma managed_fields:
  assumes "managed_worktree_of c a p t s = (Inr (Some m), s')"
  shows "mw_task_id m = t_id t \<and> mw_status m = t_status t \<and> get_task_worktree_path t = Some (mw_worktree_rel m) \<and>
    mw_active m = (Some (t_id t) = a \<or> Some (mw_worktree_rel m) = p)"
proof -
  let ?rel = "get_task_worktree_path t"
  from assms obtain path s1 where c: "(case (path, ?rel) of
        (Some p', Some r) \<Rightarrow>
          g_bind (path_there c p') (\<lambda>there.
          if \<not> there then g_ret None else
          g_bind (catch_git (g_bind (status_porcelain (wt_git c) p') (\<lambda>ls. g_ret (length ls))) (\<lambda>_. g_ret 0)) (\<lambda>n.
          g_ret (Some \<lparr>mw_task_id = t_id t, mw_status = t_status t, mw_worktree_rel = r, mw_worktree_path = p',
                       mw_change_count = n, mw_active = (Some (t_id t) = a \<or> Some r = p)\<rparr>)))
      | _ \<Rightarrow> g_ret None) s1 = (Inr (Some m), s')"
    by (auto simp: managed_worktree_of_def Let_def bind_Inr ret_Inr split: if_splits)
  then obtain p' r where "path = Some p'" "?rel = Some r" by (auto simp: ret_Inr split: option.splits)
  with c show ?thesis by (auto simp: bind_Inr ret_Inr split: if_splits)
qed

lemma collected:
  assumes "collect_managed_worktrees c s = (Inr ms, s')"
  shows "\<forall>m\<in>set ms. managed_by (store_of s) m"
proof -
  let ?ws = "tw_ws (store_of s)" and ?ts = "map snd (sort_key fst (tw_tasks (store_of s)))"
  let ?path = "\<lambda>active. Option.bind active get_task_worktree_path"
  from assms obtain active s1 found s2 where
    1: "(case ws_active_task_id ?ws of Some i \<Rightarrow> if i = [] then g_ret None else stored_task i | None \<Rightarrow> g_ret None) s =
      (Inr active, s1)"
    and 2: "g_map (managed_worktree_of c (ws_active_task_id ?ws) (?path active))
        (map snd (sort_key fst (tw_tasks (store_of s1)))) s1 = (Inr found, s2)"
    and ms: "ms = sort_key mw_task_id (List.map_filter (\<lambda>x. x) found)"
    unfolding collect_managed_worktrees_def workspace_now_def listed_tasks_def store_of_def
    by (auto simp: bind_Inr look_Inr ret_Inr)
  have same: "s1 = s"
    using 1 by (auto simp: stored_task_def look_Inr ret_Inr split: option.splits if_splits)
  have active: "active = (case ws_active_task_id ?ws of None \<Rightarrow> None
      | Some i \<Rightarrow> if i = [] then None else map_of (tw_tasks (store_of s)) i)"
    using 1 by (auto simp: stored_task_def look_Inr ret_Inr store_of_def split: option.splits if_splits)
  from map_Inr [OF 2] same have found: "list_all2 (\<lambda>t y. \<exists>s s'. managed_worktree_of c (ws_active_task_id ?ws)
      (?path active) t s = (Inr y, s')) ?ts found" by simp
  have "managed_by (store_of s) m" if in_found: "Some m \<in> set found" for m
  proof -
    obtain t u u' where t: "t \<in> set ?ts" "managed_worktree_of c (ws_active_task_id ?ws)
        (?path active) t u = (Inr (Some m), u')"
      using list_all2_from [OF found in_found] by blast
    note f = managed_fields [OF t(2)]
    have "(Some (mw_worktree_rel m) = ?path active) = (\<exists>i t. ws_active_task_id ?ws = Some i \<and> i \<noteq> [] \<and>
        map_of (tw_tasks (store_of s)) i = Some t \<and> get_task_worktree_path t = Some (mw_worktree_rel m))"
      by (cases "ws_active_task_id ?ws") (auto simp: active Option.bind_eq_Some_conv eq_commute [of "Some (mw_worktree_rel m)"])
    with f have "mw_active m = in_use (store_of s) m" by (auto simp: in_use_def)
    with f t(1) show ?thesis by (auto simp: managed_by_def)
  qed
  then show ?thesis unfolding ms by (auto simp: List.map_filter_def)
qed

text \<open>One removal is one call of git, and its exit code decides whether it failed.\<close>

lemma remove_one_call:
  assumes "remove_one_worktree c m s = (Inr o', s')"
  shows "\<exists>call. gw_calls s' = gw_calls s @ [call] \<and> removes (wt_root c) m call \<and>
    (gc_code call = 0) = (o' \<in> {Removed, Deferred})"
proof -
  let ?args = "[''worktree'', ''remove'', ''--force'', mw_worktree_path m]"
  obtain p w where run: "we_git (wt_git c) (wt_root c) ?args None (gw_world s) = (p, w)"
    by (cases "we_git (wt_git c) (wt_root c) ?args None (gw_world s)")
  show ?thesis
  proof (cases "gp_code p = 0")
    case True
    with assms run have "\<exists>conflict. o' = (if conflict then Deferred else Removed)"
      "gw_calls s' = gw_calls s @ [gc_call (wt_root c) ?args p]"
      by (auto simp: remove_one_worktree_def remove_worktree_def catch_git_def g_catch_def g_bind_def run_git_def
          run_git_input_def g_ret_def stored_task_def g_look_def try_save_task_def update_store_def g_act_def
          split: option.splits if_splits)
    with True show ?thesis by (auto simp: removes_def)
  next
    case False
    with assms run have "\<exists>msg. o' = Not_removed msg" "gw_calls s' = gw_calls s @ [gc_call (wt_root c) ?args p]"
      by (auto simp: remove_one_worktree_def remove_worktree_def catch_git_def g_catch_def g_bind_def run_git_def
          run_git_input_def g_ret_def g_raise_def)
    with False show ?thesis by (auto simp: removes_def)
  qed
qed

lemma remove_all_calls:
  "g_map (remove_one_worktree c) ms s = (Inr os, s') \<Longrightarrow>
   \<exists>calls. gw_calls s' = gw_calls s @ calls \<and> list_all2 (removes (wt_root c)) ms calls \<and>
     list_all2 (\<lambda>o' call. (gc_code call = 0) = (o' \<in> {Removed, Deferred})) os calls"
proof (induction ms arbitrary: os s)
  case (Cons m ms)
  then obtain o1 s1 os1 where o1: "remove_one_worktree c m s = (Inr o1, s1)"
    and os1: "g_map (remove_one_worktree c) ms s1 = (Inr os1, s')" and os: "os = o1 # os1"
    by (auto simp: bind_Inr ret_Inr)
  from remove_one_call [OF o1] Cons.IH [OF os1] show ?case unfolding os by fastforce
qed (simp add: ret_Inr)

text \<open>The result sorts the candidates by the outcome of their removal.\<close>

lemma noted:
  assumes "list_all2 (\<lambda>o' call. (gc_code call = 0) = (o' \<in> {Removed, Deferred})) os calls" "length ms = length calls"
  shows "let r' = foldl note_removal r (zip ms os); done = List.filter (\<lambda>(m, call). gc_code call = 0) (zip ms calls) in
    mset (cr_removed r' @ cr_deferred r') = mset (cr_removed r @ cr_deferred r) + mset (map fst done) \<and>
    map fst (cr_failures r') =
      map fst (cr_failures r) @ map fst (List.filter (\<lambda>(m, call). gc_code call \<noteq> 0) (zip ms calls)) \<and>
    cr_candidates r' = cr_candidates r"
  using assms
proof (induction os calls arbitrary: ms r rule: list_all2_induct)
  case (Cons o1 os1 k ks)
  then obtain m ms1 where ms: "ms = m # ms1" "length ms1 = length ks" by (cases ms) auto
  show ?case using Cons.IH [OF ms(2), of "note_removal r (m, o1)"] Cons.hyps(1)
    by (cases o1; simp add: ms note_removal_def Let_def)
qed simp

text \<open>C33: a cleanup's candidates are exactly those of the managed worktrees it lists whose task is closed or
  done and which are not in use: they are not the active task's, and the active task's record does not
  name their path. In a dry run no \<open>git worktree remove\<close> is run. Otherwise exactly one is run per
  candidate, in their order, forced, on the candidate's path and in main, and no other; the candidates
  whose call failed are the failures, those whose call succeeded are the removed and the deferred ones.\<close>

theorem cleanup_spares_live_worktrees:
  assumes "remove_cleanable_worktrees c dry s = (Inr r, s')" "gw_calls s = []"
  shows "\<exists>ms s1 calls. collect_managed_worktrees c s = (Inr ms, s1) \<and> (\<forall>m\<in>set ms. managed_by (store_of s) m) \<and>
    cr_candidates r = List.filter (\<lambda>m. mw_status m \<in> {Tst_CLOSED, Tst_DONE} \<and> \<not> in_use (store_of s) m) ms \<and>
    calls = List.filter removal_call (gw_calls s') \<and>
    list_all2 (removes (wt_root c)) (if dry then [] else cr_candidates r) calls \<and>
    mset (cr_removed r @ cr_deferred r) =
      mset (map fst (List.filter (\<lambda>(m, call). gc_code call = 0) (zip (cr_candidates r) calls))) \<and>
    map fst (cr_failures r) = map fst (List.filter (\<lambda>(m, call). gc_code call \<noteq> 0) (zip (cr_candidates r) calls))"
proof -
  from assms(1) obtain ms s1 where ms: "collect_managed_worktrees c s = (Inr ms, s1)"
    and r: "(let candidates = List.filter mw_cleanable ms;
         none = \<lparr>cr_candidates = candidates, cr_skipped_active = List.filter mw_active ms, cr_removed = [],
                 cr_deferred = [], cr_failures = [], cr_attention = []\<rparr>
     in if dry then g_ret none
        else g_bind (g_map (remove_one_worktree c) candidates) (\<lambda>os.
             g_ret (foldl note_removal none (zip candidates os)))) s1 = (Inr r, s')"
    unfolding remove_cleanable_worktrees_def by (auto simp: bind_Inr)
  let ?cs = "List.filter mw_cleanable ms"
  let ?none = "\<lparr>cr_candidates = ?cs, cr_skipped_active = List.filter mw_active ms, cr_removed = [],
               cr_deferred = [], cr_failures = [], cr_attention = []\<rparr>"
  have quiet: "List.filter removal_call (gw_calls s1) = []"
    using keepsD [OF collect_keeps, of s c] assms(2) by (simp add: ms all_calls_def filter_empty_conv)
  note listed = collected [OF ms]
  have cands: "?cs = List.filter (\<lambda>m. mw_status m \<in> {Tst_CLOSED, Tst_DONE} \<and> \<not> in_use (store_of s) m) ms"
    by (rule filter_cong [OF refl]) (use listed in \<open>auto simp: mw_cleanable_def managed_by_def\<close>)
  have "\<exists>calls. cr_candidates r = ?cs \<and> calls = List.filter removal_call (gw_calls s') \<and>
    list_all2 (removes (wt_root c)) (if dry then [] else ?cs) calls \<and>
    mset (cr_removed r @ cr_deferred r) =
      mset (map fst (List.filter (\<lambda>(m, call). gc_code call = 0) (zip ?cs calls))) \<and>
    map fst (cr_failures r) = map fst (List.filter (\<lambda>(m, call). gc_code call \<noteq> 0) (zip ?cs calls))"
  proof (cases dry)
    case True
    then show ?thesis using r quiet by (simp add: ret_Inr Let_def)
  next
    case False
    from False r obtain os where os: "g_map (remove_one_worktree c) ?cs s1 = (Inr os, s')"
      and res: "r = foldl note_removal ?none (zip ?cs os)" by (auto simp: Let_def bind_Inr ret_Inr)
    from remove_all_calls [OF os] obtain calls where calls: "gw_calls s' = gw_calls s1 @ calls"
      "list_all2 (removes (wt_root c)) ?cs calls"
      "list_all2 (\<lambda>o' call. (gc_code call = 0) = (o' \<in> {Removed, Deferred})) os calls" by blast
    have "List.filter removal_call calls = calls"
      using calls(2) by (induction rule: list_all2_induct) (auto simp: removes_def removal_call_def)
    with calls(1) quiet have "calls = List.filter removal_call (gw_calls s')" by simp
    with noted [OF calls(3) list_all2_lengthD [OF calls(2)], of ?none] calls(2) False
    show ?thesis by (simp add: res Let_def)
  qed
  with ms listed cands show ?thesis by auto
qed

definition demo_closed_world :: "string list wt_world gw" where
  "demo_closed_world = demo_rescue_world \<lparr>gw_world := (gw_world demo_rescue_world) \<lparr>ww_store :=
     (store_of demo_rescue_world) \<lparr>tw_tasks := [(''T1'', demo_wt_task \<lparr>t_status := Tst_CLOSED\<rparr>)]\<rparr>\<rparr>\<rparr>"

theorem cleanup_spares_live_worktrees_witness:
  "\<exists>r s' call. remove_cleanable_worktrees (demo_wt_env []) False demo_closed_world = (Inr r, s') \<and>
     map mw_task_id (cr_removed r) = [''T1''] \<and> List.filter removal_call (gw_calls s') = [call] \<and>
     (\<exists>m. cr_candidates r = [m] \<and> removes ''/w'' m call)"
proof -
  have "case remove_cleanable_worktrees (demo_wt_env []) False demo_closed_world of
      (Inr r, _) \<Rightarrow> map mw_task_id (cr_removed r) = [''T1''] \<and> length (cr_candidates r) = 1 | _ \<Rightarrow> False" by code_simp
  then obtain r s' where r: "remove_cleanable_worktrees (demo_wt_env []) False demo_closed_world = (Inr r, s')"
    "map mw_task_id (cr_removed r) = [''T1'']" "length (cr_candidates r) = 1" by (auto split: prod.splits sum.splits)
  then obtain m where m: "cr_candidates r = [m]" by (auto simp: length_Suc_conv)
  have "gw_calls demo_closed_world = []" by (simp add: demo_closed_world_def demo_rescue_world_def)
  with cleanup_spares_live_worktrees [OF r(1)] m have
    "list_all2 (removes (wt_root (demo_wt_env []))) [m] (List.filter removal_call (gw_calls s'))" by auto
  then obtain call where "List.filter removal_call (gw_calls s') = [call]" "removes ''/w'' m call"
    by (auto simp: list_all2_Cons1 demo_wt_env_def)
  with r m show ?thesis by (intro exI conjI)
qed

end
