(* ===== verification/Hook_Reports.thy ===== *)
theory Hook_Reports
  imports Hook_Node Worktree_Sync
begin

text \<open>
  What the runner's hooks leave behind, \<open>litehive/lifecycle/hook_reports.py\<close> with \<open>_observe_transition\<close> of
  \<open>lifecycle/orchestration.py\<close>: hook entries of the configuration as hook specs, and the stage report, the
  activity entry and the journal line of a rejecting or warning hook. Storing a report is an action on the
  open world, which answers with the path it prints. The configuration is a JSON value.
\<close>

section \<open>Hooks from the configuration\<close>

definition text_or_none :: "pyval \<Rightarrow> string option" where
  "text_or_none v = (if v = PyNone then None else Some (py_str v))"

text \<open>\<open>None\<close> is an exception: an entry that is neither text nor an object, or one without a command.\<close>

fun normalize_hook_spec_data :: "pyval \<Rightarrow> (string, pyval) dict option" where
  "normalize_hook_spec_data (PyStr command) = Some [(''command'', PyStr command)]"
| "normalize_hook_spec_data (PyDict d) = Some d"
| "normalize_hook_spec_data _ = None"

definition build_hook_spec :: "(pyval \<Rightarrow> rat option) \<Rightarrow> (string, pyval) dict \<Rightarrow> hook_spec option" where
  "build_hook_spec float_of d =
     (case (map_of d ''command'', float_of (dict_get ''timeout_seconds'' (PyInt 60) d)) of
        (Some command, Some seconds) \<Rightarrow>
          Some \<lparr>hook_command = py_str command, timeout_seconds = seconds,
                spec_description = text_or_none (py_get ''description'' d),
                instructions_on_failure = text_or_none (py_get ''instructions_on_failure'' d)\<rparr>
      | _ \<Rightarrow> None)"

text \<open>Iterating a text gives its characters, iterating an object its keys.\<close>

fun iterated :: "pyval \<Rightarrow> pyval list option" where
  "iterated (PyList xs) = Some xs"
| "iterated (PyStr s) = Some (map (\<lambda>c. PyStr [c]) s)"
| "iterated (PyDict d) = Some (map (\<lambda>(k, _). PyStr k) d)"
| "iterated _ = None"

definition build_hook_specs_for_phase :: "(pyval \<Rightarrow> rat option) \<Rightarrow> pyval \<Rightarrow> hook_spec list option" where
  "build_hook_specs_for_phase float_of hooks =
     (if \<not> truthy hooks then Some []
      else Option.bind (iterated hooks)
             (\<lambda>xs. those (map (\<lambda>h. Option.bind (normalize_hook_spec_data h) (build_hook_spec float_of)) xs)))"

fun hook_specs_from_config ::
  "(pyval \<Rightarrow> rat option) \<Rightarrow> (string, pyval) dict \<Rightarrow> (pipeline_state, hook_spec list) dict \<Rightarrow>
   (pipeline_state, hook_spec list) dict option" where
  "hook_specs_from_config float_of [] specs = Some specs"
| "hook_specs_from_config float_of ((phase, hooks) # rest) specs =
     (case build_hook_specs_for_phase float_of hooks of
        None \<Rightarrow> None
      | Some [] \<Rightarrow> hook_specs_from_config float_of rest specs
      | Some hs \<Rightarrow>
          (case parse_state phase of Inl _ \<Rightarrow> None
           | Inr st \<Rightarrow> hook_specs_from_config float_of rest (AList.update st hs specs)))"

section \<open>Reports\<close>

record hook_report =
  hk_task_id :: string
  hk_stage :: string
  hk_verdict :: string
  hk_summary :: string
  hk_feedback :: string
  hk_warnings :: "string list"
  hk_classification :: "string option"
  hk_diagnostics :: "(string, pyval) dict"

record 'g hook_sinks =
  hs_now :: "'g \<Rightarrow> string"
  hs_marker :: string
  hs_store_report :: "hook_report \<Rightarrow> 'g \<Rightarrow> string \<times> 'g"

text \<open>\<open>None\<close> is the \<open>ValueError\<close> for a state that belongs to no stage.\<close>

definition report_stage_for_phase :: "pipeline_state \<Rightarrow> string option" where
  "report_stage_for_phase st =
     (if st = MERGE_RESOLVING \<or> st = RECOVERING then Some (pipeline_state_value st)
      else map_option task_stage_value (task_stage_of st))"

definition blank_line :: string where
  "blank_line = [CHR 0x0A, CHR 0x0A]"

text \<open>The three sinks: the report, the activity feed, the journal.\<close>

definition publish_hook_report ::
  "'g hook_sinks \<Rightarrow> hook_report \<Rightarrow> string \<Rightarrow> verdict \<Rightarrow> string \<Rightarrow> 'g wt_world \<Rightarrow> 'g wt_world" where
  "publish_hook_report env rep full_feedback vd headline w =
     (let tid = hk_task_id rep; (path, g) = hs_store_report env rep (ww_fs w); st = ww_store w;
          entry = \<lparr>ac_role = ''hook'', ac_stage = hk_stage rep, ac_verdict = vd, ac_verdict_classification = None,
                   ac_message = hk_summary rep @ blank_line @ full_feedback @ blank_line @ ''report: '' @ path,
                   ac_files_changed = [], ac_created_at = hs_now env g\<rparr>
      in w \<lparr>ww_fs := g,
            ww_store := st \<lparr>tw_activity := AList.update tid (dict_get tid [] (tw_activity st) @ [entry]) (tw_activity st),
                           tw_journal := tw_journal st @ [(tid, headline @ [CHR 0x0A] @ ''report: '' @ quoted path)]\<rparr>\<rparr>)"

definition record_hook_warnings ::
  "'g hook_sinks \<Rightarrow> string \<Rightarrow> pipeline_state \<Rightarrow> string list \<Rightarrow> 'g wt_world \<Rightarrow> 'g wt_world option" where
  "record_hook_warnings env tid phase warnings w =
     (case report_stage_for_phase phase of None \<Rightarrow> None
      | Some report_stage \<Rightarrow>
          (let ph = pipeline_state_value phase; feedback = py_join blank_line warnings in
           Some (publish_hook_report env
             \<lparr>hk_task_id = tid, hk_stage = report_stage, hk_verdict = ''pass'',
              hk_summary = ''Runner hooks at '' @ quoted ph @ '' completed with warnings.'',
              hk_feedback = cap_feedback (hs_marker env) feedback FEEDBACK_CAP, hk_warnings = warnings,
              hk_classification = None,
              hk_diagnostics = [(''phase'', PyStr ph), (''source'', PyStr ''hook'')]\<rparr>
             feedback Vd_COMMENT (''Runner hooks at '' @ quoted ph @ '' reported warnings.'') w)))"

definition record_hook_reject ::
  "'g hook_sinks \<Rightarrow> string \<Rightarrow> pipeline_state \<Rightarrow> string \<Rightarrow> string list \<Rightarrow> (string, pyval) dict option \<Rightarrow>
   int option \<Rightarrow> 'g wt_world \<Rightarrow> 'g wt_world option" where
  "record_hook_reject env tid phase reason warnings hook consecutive w =
     (case report_stage_for_phase phase of None \<Rightarrow> None
      | Some report_stage \<Rightarrow>
          (let ph = pipeline_state_value phase;
               headline = ''Runner hook at '' @ quoted ph @ '' rejected the stage.'';
               feedback = py_join blank_line (filter (\<lambda>p. p \<noteq> []) (reason # warnings))
           in Some (publish_hook_report env
             \<lparr>hk_task_id = tid, hk_stage = report_stage, hk_verdict = ''reject'', hk_summary = headline,
              hk_feedback = cap_feedback (hs_marker env) feedback FEEDBACK_CAP, hk_warnings = warnings,
              hk_classification = Some ''hook_reject'',
              hk_diagnostics =
                [(''phase'', PyStr ph), (''source'', PyStr ''hook''),
                 (''consecutive_same_hook_rejects'', case consecutive of None \<Rightarrow> PyNone | Some n \<Rightarrow> PyInt n)] @
                (case hook of None \<Rightarrow> []
                 | Some h \<Rightarrow> map (\<lambda>k. (k, py_get k h)) [''point'', ''command'', ''description'', ''fingerprint''])\<rparr>
             feedback Vd_REJECT headline w)))"

section \<open>The observer of transitions\<close>

text \<open>A hook's reject carries its warnings as a list.\<close>

fun warning_texts :: "pyval \<Rightarrow> string list" where
  "warning_texts (PyList xs) = map py_str xs"
| "warning_texts _ = []"

definition observe_transition ::
  "'g hook_sinks \<Rightarrow> task_state \<Rightarrow> pipeline_state \<Rightarrow> event \<Rightarrow> 'g wt_world \<Rightarrow> 'g wt_world option" where
  "observe_transition env s from_st e w =
     (if map_of (tw_tasks (ww_store w)) (task_id s) = None then Some w
      else case e of
        HookOk warnings \<Rightarrow>
          if warnings = [] then Some w else record_hook_warnings env (task_id s) from_st warnings w
      | Reject src reason _ meta \<Rightarrow>
          if src = Src_hook
          then record_hook_reject env (task_id s) from_st reason (warning_texts (py_get ''warnings'' meta))
                 (as_dict (py_get ''hook'' meta)) (as_int (py_get ''consecutive_same_hook_rejects'' meta)) w
          else Some w
      | _ \<Rightarrow> Some w)"

section \<open>Lemmas\<close>

text \<open>Every hook phase has a stage to report under, so the observer does not raise.\<close>

lemma hook_phase_reports: "st \<in> set [BEFORE_GROOMING, AFTER_GROOMING, BEFORE_IMPLEMENTING, AFTER_IMPLEMENTING,
    BEFORE_TESTING, AFTER_TESTING, BEFORE_ACCEPTING, AFTER_ACCEPTING, AFTER_COMMIT] \<Longrightarrow> report_stage_for_phase st \<noteq> None"
  by (auto simp: report_stage_for_phase_def)

text \<open>The observer writes reports, activity and journal, never the records, the queue or the lifecycle rows.\<close>

lemma published_frame [simp]:
  "tw_tasks (ww_store (publish_hook_report env rep fb vd h w)) = tw_tasks (ww_store w)"
  "tw_ws (ww_store (publish_hook_report env rep fb vd h w)) = tw_ws (ww_store w)"
  "tw_lifecycle (ww_store (publish_hook_report env rep fb vd h w)) = tw_lifecycle (ww_store w)"
  by (simp_all add: publish_hook_report_def Let_def split: prod.split)

lemma observed_frame:
  assumes "observe_transition env s st e w = Some w'"
  shows "tw_tasks (ww_store w') = tw_tasks (ww_store w) \<and> tw_ws (ww_store w') = tw_ws (ww_store w) \<and>
    tw_lifecycle (ww_store w') = tw_lifecycle (ww_store w)"
  using assms by (auto simp: observe_transition_def record_hook_warnings_def record_hook_reject_def Let_def
      split: if_splits event.splits option.splits)

end
