(* ===== verification/Session_Store.thy ===== *)
theory Session_Store
  imports Persistence
begin

text \<open>
  The conversations of agents with engines, \<open>litehive/lifecycle/sessions.py\<close>: what the next turn resumes,
  and the rows of \<open>pipeline_sessions\<close>, one for a task, a node and an engine.
\<close>

record engine_session =
  engine_session_id :: "string option"
  conversation_id :: "string option"

datatype session_continuation = Fresh_session | Resumable_session string

definition continuation_state :: "engine_session \<Rightarrow> session_continuation" where
  "continuation_state s =
     (case engine_session_id s of Some i \<Rightarrow> Resumable_session i
      | None \<Rightarrow> (case conversation_id s of Some i \<Rightarrow> Resumable_session i | None \<Rightarrow> Fresh_session))"

fun resume_session_id :: "session_continuation \<Rightarrow> string option" where
  "resume_session_id Fresh_session = None"
| "resume_session_id (Resumable_session i) = Some i"

definition capture_engine_session_id :: "string \<Rightarrow> engine_session \<Rightarrow> engine_session" where
  "capture_engine_session_id i s = s \<lparr>engine_session_id := Some i\<rparr>"

definition resumable :: "engine_session \<Rightarrow> bool" where
  "resumable s = (continuation_state s \<noteq> Fresh_session)"

section \<open>The rows\<close>

definition session_row :: "pipeline_state \<Rightarrow> string \<Rightarrow> engine_session \<Rightarrow> string \<Rightarrow> (string, pyval) dict" where
  "session_row node engine s now =
     [(''node_name'', PyStr (pipeline_state_value node)), (''engine_name'', PyStr engine),
      (''engine_session_id'', opt_str_val (engine_session_id s)),
      (''conversation_id'', opt_str_val (conversation_id s)), (''updated_at'', PyStr now)]"

fun row_columns :: "pyval \<Rightarrow> (string, pyval) dict" where
  "row_columns (PyDict d) = d"
| "row_columns _ = []"

definition of_node :: "string \<Rightarrow> pipeline_state \<Rightarrow> string \<times> pyval \<Rightarrow> bool" where
  "of_node tid node r =
     (fst r = tid \<and> py_get ''node_name'' (row_columns (snd r)) = PyStr (pipeline_state_value node))"

definition of_session :: "string \<Rightarrow> pipeline_state \<Rightarrow> string \<Rightarrow> string \<times> pyval \<Rightarrow> bool" where
  "of_session tid node engine r =
     (of_node tid node r \<and> py_get ''engine_name'' (row_columns (snd r)) = PyStr engine)"

definition get_or_create :: "string \<Rightarrow> pipeline_state \<Rightarrow> string \<Rightarrow> lifecycle_db \<Rightarrow> engine_session" where
  "get_or_create tid node engine db =
     (case find (of_session tid node engine) (pipeline_sessions db) of
        None \<Rightarrow> \<lparr>engine_session_id = None, conversation_id = None\<rparr>
      | Some r \<Rightarrow> \<lparr>engine_session_id = as_str (py_get ''engine_session_id'' (row_columns (snd r))),
                   conversation_id = as_str (py_get ''conversation_id'' (row_columns (snd r)))\<rparr>)"

definition persist ::
  "string \<Rightarrow> pipeline_state \<Rightarrow> string \<Rightarrow> engine_session \<Rightarrow> string \<Rightarrow> lifecycle_db \<Rightarrow> lifecycle_db" where
  "persist tid node engine s now db =
     (let row = (tid, PyDict (session_row node engine s now)); rows = pipeline_sessions db in
      db \<lparr>pipeline_sessions :=
            (if \<exists>r\<in>set rows. of_session tid node engine r
             then map (\<lambda>r. if of_session tid node engine r then row else r) rows else rows @ [row])\<rparr>)"

definition clear_node_sessions :: "string \<Rightarrow> pipeline_state \<Rightarrow> lifecycle_db \<Rightarrow> lifecycle_db" where
  "clear_node_sessions tid node db =
     db \<lparr>pipeline_sessions := filter (\<lambda>r. \<not> of_node tid node r) (pipeline_sessions db)\<rparr>"

section \<open>The contract of a session store\<close>

text \<open>
  What an agent node relies on: a session it persists is the one it gets back, other sessions stay, and a
  cleared node starts afresh with every engine.
\<close>

locale session_store =
  fixes get :: "string \<Rightarrow> pipeline_state \<Rightarrow> string \<Rightarrow> 'db \<Rightarrow> engine_session"
    and put :: "string \<Rightarrow> pipeline_state \<Rightarrow> string \<Rightarrow> engine_session \<Rightarrow> string \<Rightarrow> 'db \<Rightarrow> 'db"
    and clear :: "string \<Rightarrow> pipeline_state \<Rightarrow> 'db \<Rightarrow> 'db"
  assumes get_put: "get tid node engine (put tid node engine s now db) = s"
    and get_put_other: "(tid', node', engine') \<noteq> (tid, node, engine) \<Longrightarrow>
      get tid' node' engine' (put tid node engine s now db) = get tid' node' engine' db"
    and get_clear: "get tid node engine (clear tid node db) = \<lparr>engine_session_id = None, conversation_id = None\<rparr>"
    and get_clear_other: "(tid', node') \<noteq> (tid, node) \<Longrightarrow>
      get tid' node' engine (clear tid node db) = get tid' node' engine db"
begin

text \<open>A turn that captured the engine's handle is resumed by that handle, until its node is cleared.\<close>

lemma captured_turn_resumes:
  "resume_session_id (continuation_state
     (get tid node engine (put tid node engine (capture_engine_session_id i s) now db))) = Some i"
  by (simp add: get_put capture_engine_session_id_def continuation_state_def)

lemma cleared_node_starts_afresh:
  "\<not> resumable (get tid node engine (clear tid node (put tid node engine s now db)))"
  by (simp add: get_clear resumable_def continuation_state_def)

lemma clear_spares_others:
  "(tid', node') \<noteq> (tid, node) \<Longrightarrow>
   get tid' node' e (clear tid node (put tid' node' e s now db)) = s"
  by (simp add: get_clear_other get_put)

end

lemma row_of_session:
  "of_session tid' node' engine' (tid, PyDict (session_row node engine s now)) \<longleftrightarrow>
     (tid', node', engine') = (tid, node, engine)"
  by (auto simp: of_session_def of_node_def session_row_def pipeline_state_value_inject)

lemma session_of_row:
  "as_str (py_get ''engine_session_id'' (session_row node engine s now)) = engine_session_id s"
  "as_str (py_get ''conversation_id'' (session_row node engine s now)) = conversation_id s"
  by (simp_all add: session_row_def opt_str_val_def split: option.split)

text \<open>Replacing every matching element by one that matches.\<close>

lemma find_append: "find P (xs @ ys) = (case find P xs of None \<Rightarrow> find P ys | Some x \<Rightarrow> Some x)"
  by (induction xs) auto

lemma find_replace: "P x \<Longrightarrow> \<exists>y\<in>set xs. P y \<Longrightarrow> find P (map (\<lambda>y. if P y then x else y) xs) = Some x"
  by (induction xs) auto

lemma find_replace_other:
  "\<not> Q x \<Longrightarrow> (\<And>y. P y \<Longrightarrow> \<not> Q y) \<Longrightarrow> find Q (map (\<lambda>y. if P y then x else y) xs) = find Q xs"
  by (induction xs) auto

lemma find_filter_other: "(\<And>y. Q y \<Longrightarrow> P y) \<Longrightarrow> find Q (filter P xs) = find Q xs"
  by (induction xs) auto

lemma of_session_once:
  "of_session tid node engine r \<Longrightarrow> of_session tid' node' engine' r \<Longrightarrow> (tid', node', engine') = (tid, node, engine)"
  by (simp add: of_session_def of_node_def pipeline_state_value_inject)

lemma of_node_once: "of_node tid node r \<Longrightarrow> of_node tid' node' r \<Longrightarrow> (tid', node') = (tid, node)"
  by (simp add: of_node_def pipeline_state_value_inject)

interpretation sqlite: session_store get_or_create persist clear_node_sessions
proof unfold_locales
  fix tid engine now :: string and node :: pipeline_state and s and db :: lifecycle_db
  let ?P = "of_session tid node engine" and ?rows = "pipeline_sessions db"
  let ?row = "(tid, PyDict (session_row node engine s now))"
  have P: "?P ?row" by (simp add: row_of_session)
  have "find ?P (pipeline_sessions (persist tid node engine s now db)) = Some ?row"
  proof (cases "\<exists>r\<in>set ?rows. ?P r")
    case True
    then show ?thesis using find_replace [OF P True] by (simp add: persist_def Let_def)
  next
    case False
    then have "find ?P ?rows = None" by (auto simp: find_None_iff)
    with False P show ?thesis by (simp add: persist_def Let_def find_append)
  qed
  then show "get_or_create tid node engine (persist tid node engine s now db) = s"
    by (simp add: get_or_create_def session_of_row)
next
  fix tid' engine' tid engine now :: string and node' node :: pipeline_state and s and db :: lifecycle_db
  assume other: "(tid', node', engine') \<noteq> (tid, node, engine)"
  let ?P = "of_session tid node engine" and ?Q = "of_session tid' node' engine'"
  let ?row = "(tid, PyDict (session_row node engine s now))"
  have "\<not> ?Q ?row" using other by (auto simp: row_of_session)
  moreover have "\<And>r. ?P r \<Longrightarrow> \<not> ?Q r" using other of_session_once by blast
  ultimately have "find ?Q (pipeline_sessions (persist tid node engine s now db)) = find ?Q (pipeline_sessions db)"
    by (simp add: persist_def Let_def find_append find_replace_other split: option.split)
  then show "get_or_create tid' node' engine' (persist tid node engine s now db) = get_or_create tid' node' engine' db"
    by (simp add: get_or_create_def)
next
  fix tid engine :: string and node :: pipeline_state and db :: lifecycle_db
  have "find (of_session tid node engine) (filter (\<lambda>r. \<not> of_node tid node r) (pipeline_sessions db)) = None"
    by (auto simp: find_None_iff of_session_def)
  then show "get_or_create tid node engine (clear_node_sessions tid node db) =
      \<lparr>engine_session_id = None, conversation_id = None\<rparr>"
    by (simp add: get_or_create_def clear_node_sessions_def)
next
  fix tid' tid engine :: string and node' node :: pipeline_state and db :: lifecycle_db
  assume "(tid', node') \<noteq> (tid, node)"
  then have "find (of_session tid' node' engine) (filter (\<lambda>r. \<not> of_node tid node r) (pipeline_sessions db)) =
      find (of_session tid' node' engine) (pipeline_sessions db)"
    by (intro find_filter_other) (use of_node_once in \<open>blast dest: of_session_def [THEN iffD1]\<close>)
  then show "get_or_create tid' node' engine (clear_node_sessions tid node db) = get_or_create tid' node' engine db"
    by (simp add: get_or_create_def clear_node_sessions_def)
qed

end
