(* ===== verification/Orchestration.thy ===== *)
theory Orchestration
  imports Hook_Reports Session_Store Worktree_Cleanup Launch_State Crash_Recovery Node_Registry Engine_Policy
begin

text \<open>
  One run of one task from end to end: \<open>litehive/lifecycle/orchestration.py\<close> and the worktree wiring of
  \<open>lifecycle/worktree_setup.py\<close>. The world is the one of the worktree services, the file system with its
  repositories and the stored tasks, so the nodes, the persistence, the mirror, the session rows, the hook
  reports and git act on one state. \<open>Runner\<close> logs what the runner hands to its collaborators; here the
  entries of an iteration take effect before the next one starts. Engines, hook processes, the clock,
  the lock and the escalation entry of the activity feed are functions of the environment.
\<close>

section \<open>The environment\<close>

record ('p, 's, 'g) orch_env =
  oe_worktrees :: "'g wt_env"
  oe_deps :: "('p, 's, 'g wt_world gw) deps"
  oe_sinks :: "'g hook_sinks"
  oe_hook_process :: "string \<Rightarrow> hook_spec \<Rightarrow> task_state \<Rightarrow> 'g wt_world \<Rightarrow> process_result \<times> 'g wt_world"
  oe_runner_hooks :: "(string, pyval) dict"
  oe_float_of :: "pyval \<Rightarrow> rat option"
  oe_float_text :: "rat \<Rightarrow> string"
  oe_commit_task :: "task_record \<Rightarrow> commit_task"
  oe_engine_task :: "task_record \<Rightarrow> engine_task"
  oe_config :: engine_config
  oe_time_budget :: "rat option"
  oe_now :: "'g \<Rightarrow> string"
  oe_utc :: "'g \<Rightarrow> nat \<Rightarrow> string"
  oe_monotonic :: "'g \<Rightarrow> rat \<times> 'g"
  oe_escalation :: "task_store \<Rightarrow> string \<Rightarrow> escalation option"
  oe_enter :: "'g \<Rightarrow> string option \<times> 'g"
  oe_leave :: "'g \<Rightarrow> 'g"

type_synonym 'g run_world = "'g wt_world gw"

definition on_store :: "(task_store \<Rightarrow> task_store) \<Rightarrow> 'g run_world \<Rightarrow> 'g run_world" where
  "on_store f w = w \<lparr>gw_world := (gw_world w) \<lparr>ww_store := f (ww_store (gw_world w))\<rparr>\<rparr>"

definition on_files :: "('g \<Rightarrow> 'r \<times> 'g) \<Rightarrow> 'g run_world \<Rightarrow> 'r \<times> 'g run_world" where
  "on_files f w = (let (r, x) = on_fs f (gw_world w) in (r, w \<lparr>gw_world := x\<rparr>))"

definition store_in :: "'g run_world \<Rightarrow> task_store" where
  "store_in w = ww_store (gw_world w)"

definition now_in :: "('p, 's, 'g) orch_env \<Rightarrow> 'g run_world \<Rightarrow> string" where
  "now_in env w = oe_now env (ww_fs (gw_world w))"

section \<open>The worktree of a run\<close>

definition task_recorded_worktree :: "'g wt_env \<Rightarrow> string \<Rightarrow> ('g, task_record option \<times> string option) wt_m" where
  "task_recorded_worktree c tid =
     g_bind (stored_task tid) (\<lambda>found.
     case found of None \<Rightarrow> g_ret (None, None)
     | Some t \<Rightarrow>
         g_bind (resolve_recorded_worktree_path c (get_task_worktree_path t)) (\<lambda>p. g_ret (Some t, p)))"

definition resolve_worktree :: "'g wt_env \<Rightarrow> task_state \<Rightarrow> ('g, string) wt_m" where
  "resolve_worktree c s =
     g_bind (task_recorded_worktree c (task_id s)) (\<lambda>(_, path).
     g_ret (case path of None \<Rightarrow> wt_root c | Some p \<Rightarrow> p))"

definition resolve_hook_execution_root :: "'g wt_env \<Rightarrow> task_state \<Rightarrow> ('g, string) wt_m" where
  "resolve_hook_execution_root c s =
     (if stage s = AFTER_COMMIT then g_ret (wt_root c) else resolve_worktree c s)"

text \<open>A worktree that is recorded and gone.\<close>

definition lost_worktree :: "'g wt_env \<Rightarrow> task_record \<Rightarrow> ('g, bool) wt_m" where
  "lost_worktree c t =
     g_bind (inspect_task_worktree c t) (\<lambda>i. g_ret (wi_worktree_rel i \<noteq> None \<and> \<not> wi_exists i))"

fun call_result_of :: "(git_exn + bool) \<times> 'w \<Rightarrow> call_result \<times> 'w" where
  "call_result_of (Inr b, w) = (Call_Ok b, w)"
| "call_result_of (Inl (GitError msg), w) = (Call_Raised msg, w)"
| "call_result_of (Inl (Other_exn msg), w) = (Call_Raised msg, w)"
| "call_result_of (Inl (Conflict_exn files), w) =
     (Call_Raised (int_str (int (length files)) @ '' unresolved file(s)''), w)"

definition worktree_missing_probe :: "'g wt_env \<Rightarrow> 'g run_world probe" where
  "worktree_missing_probe c s w =
     call_result_of (g_bind (stored_task (task_id s)) (\<lambda>found.
       case found of None \<Rightarrow> g_ret False | Some t \<Rightarrow> lost_worktree c t) w)"

definition worktree_metadata_repair :: "'g wt_env \<Rightarrow> 'g run_world repair" where
  "worktree_metadata_repair c s w =
     call_result_of (g_bind (stored_task (task_id s)) (\<lambda>found.
       case found of None \<Rightarrow> g_ret True
       | Some t \<Rightarrow>
           g_bind (lost_worktree c t) (\<lambda>lost.
           if \<not> lost then g_ret True
           else g_bind (save_task c (set_task_worktree_path None t)) (\<lambda>_. g_ret True))) w)"

definition build_commit_node :: "('p, 's, 'g) orch_env \<Rightarrow> 'g wt_world commit_env" where
  "build_commit_node env =
     (let c = oe_worktrees env in
      \<lparr>ce_world = wt_git c, ce_root = wt_root c, ce_worktree = resolve_worktree c,
       ce_task = Some (\<lambda>s. g_bind (task_recorded_worktree c (task_id s))
         (\<lambda>(t, _). g_ret (map_option (oe_commit_task env) t)))\<rparr>)"

definition build_worktree_sync_node ::
  "('p, 's, 'g) orch_env \<Rightarrow> task_state \<Rightarrow> 'g run_world \<Rightarrow> bool git_outcome \<times> 'g run_world" where
  "build_worktree_sync_node env =
     (let c = oe_worktrees env in git_worktree_sync (sync_service c (resolve_worktree c) ''origin/main''))"

section \<open>The nodes of a run\<close>

text \<open>Where a hook runs is only looked up, which does not raise (\<open>hook_root_total\<close>).\<close>

lemma hook_root_total: "\<exists>r. resolve_hook_execution_root c s w = (Inr r, w)"
  by (auto simp: resolve_hook_execution_root_def resolve_worktree_def task_recorded_worktree_def stored_task_def
      resolve_recorded_worktree_path_def expanded_def resolved_def g_bind_def g_ret_def g_look_def Let_def
      split: option.split)

definition run_hook_process ::
  "('p, 's, 'g) orch_env \<Rightarrow> hook_spec \<Rightarrow> task_state \<Rightarrow> 'g run_world \<Rightarrow> process_result \<times> 'g run_world" where
  "run_hook_process env spec s w =
     (case resolve_hook_execution_root (oe_worktrees env) s w of
        (found, w1) \<Rightarrow>
          (let (p, x) = oe_hook_process env (case found of Inr r \<Rightarrow> r | Inl _ \<Rightarrow> wt_root (oe_worktrees env)) spec s (gw_world w1)
           in (p, w1 \<lparr>gw_world := x\<rparr>)))"

definition run_deps ::
  "('p, 's, 'g) orch_env \<Rightarrow> task_record \<Rightarrow> (pipeline_state, hook_spec list) dict \<Rightarrow> ('p, 's, 'g run_world) deps" where
  "run_deps env t specs =
     (let c = oe_worktrees env in
      (oe_deps env)
        \<lparr>dep_hook_runner := subprocess_hook_runner (oe_float_text env) (run_hook_process env),
         dep_hook_specs := specs,
         dep_probes := [worktree_missing_probe c], dep_repairs := [worktree_metadata_repair c],
         dep_sync := build_worktree_sync_node env,
         dep_merge := (\<lambda>s w. git_outcome_of (merge_worktree (build_commit_node env) s w)),
         dep_retry_budget := resolve_task_retry_policy (oe_engine_task env t) (oe_config env)\<rparr>)"

text \<open>The registry is the one \<open>build_registry\<close> returns (\<open>build_registry_ok\<close>).\<close>

definition run_runner ::
  "('p, 's, 'g) orch_env \<Rightarrow> ('p, 's, 'g run_world) deps \<Rightarrow> 'g run_world runner" where
  "run_runner env d =
     \<lparr>registry = registry_get (registry_entries d), run_rules = RULES, has_session_store = True,
      has_state_sync = True, has_observer = True, stop_requested = (\<lambda>w. (False, w)),
      task_time_budget_seconds = oe_time_budget env, monotonic = on_files (oe_monotonic env),
      utc = (\<lambda>w. oe_utc env (ww_fs (gw_world w)))\<rparr>"

section \<open>What the runner's calls do\<close>

definition sync_store ::
  "('p, 's, 'g) orch_env \<Rightarrow> task_state \<Rightarrow> 'g run_world \<Rightarrow> 'g run_world" where
  "sync_store env s w =
     on_store (\<lambda>st. case sync_back (now_in env w) (oe_escalation env st (task_id s)) s (tw_tasks st) of
         None \<Rightarrow> st
       | Some (note, _, tasks) \<Rightarrow>
           st \<lparr>tw_tasks := tasks,
              tw_journal := tw_journal st @ (case note of None \<Rightarrow> [] | Some m \<Rightarrow> [(task_id s, m)])\<rparr>) w"

text \<open>One entry of the log; only the observer can raise.\<close>

fun run_entry ::
  "('p, 's, 'g) orch_env \<Rightarrow> log_entry \<Rightarrow> 'g run_world \<Rightarrow> lifecycle_error option \<times> 'g run_world" where
  "run_entry env (SessionsCleared tid node) w =
     (None, on_store (\<lambda>st. st \<lparr>tw_lifecycle := clear_node_sessions tid node (tw_lifecycle st)\<rparr>) w)"
| "run_entry env (StateSaved s) w =
     (None, on_store (\<lambda>st. st \<lparr>tw_lifecycle := save (oe_float_text env) (now_in env w) s (tw_lifecycle st)\<rparr>) w)"
| "run_entry env (StateSynced s) w = (None, sync_store env s w)"
| "run_entry env (TransitionObserved s from_st e) w =
     (case observe_transition (oe_sinks env) s from_st e (gw_world w) of
        None \<Rightarrow> (Some (ValueError (''no report stage for '' @ pipeline_state_value from_st)), w)
      | Some x \<Rightarrow> (None, w \<lparr>gw_world := x\<rparr>))"
| "run_entry env _ w = (None, w)"

fun run_entries ::
  "('p, 's, 'g) orch_env \<Rightarrow> log_entry list \<Rightarrow> 'g run_world \<Rightarrow> lifecycle_error option \<times> 'g run_world" where
  "run_entries env [] w = (None, w)"
| "run_entries env (x # xs) w =
     (case run_entry env x w of (Some err, w1) \<Rightarrow> (Some err, w1) | (None, w1) \<Rightarrow> run_entries env xs w1)"

text \<open>The entries an iteration added, on its world.\<close>

definition settled ::
  "('p, 's, 'g) orch_env \<Rightarrow> 'g run_world machine \<Rightarrow> 'g run_world outcome \<Rightarrow> 'g run_world outcome" where
  "settled env m oc =
     (case oc of
        Continue m' \<Rightarrow>
          (case run_entries env (drop (length (m_log m)) (m_log m')) (m_world m') of
             (None, w) \<Rightarrow> Continue (m' \<lparr>m_world := w\<rparr>)
           | (Some err, w) \<Rightarrow> Raised err (m' \<lparr>m_world := w\<rparr>))
      | _ \<Rightarrow> oc)"

partial_function (option) run_iterations ::
  "('p, 's, 'g) orch_env \<Rightarrow> 'g run_world runner \<Rightarrow> 'g run_world machine \<Rightarrow> 'g run_world outcome option" where
  "run_iterations env r m =
     (case step r m of
        None \<Rightarrow> None
      | Some oc \<Rightarrow>
          (case settled env m oc of Continue m' \<Rightarrow> run_iterations env r m' | oc' \<Rightarrow> Some oc'))"

section \<open>The end of a run\<close>

definition MANUAL_REVIEW_FLAG_REASONS :: "string list" where
  "MANUAL_REVIEW_FLAG_REASONS = [''hook_reject_loop'', ''rejection_loop_detected'', ''time_budget_exceeded'']"

text \<open>The best-effort marking of a crashed run; the guard is held, so its writes are not refused.\<close>

definition mark_crashed :: "string \<Rightarrow> task_store \<Rightarrow> task_store" where
  "mark_crashed tid st =
     (let (tasks, ws) = mark_task_interrupted_on_crash tid (tw_tasks st, tw_ws st)
      in st \<lparr>tw_tasks := tasks, tw_ws := ws\<rparr>)"

definition cleanup_terminal_worktree :: "'g wt_env \<Rightarrow> task_record \<Rightarrow> ('g, unit) wt_m" where
  "cleanup_terminal_worktree c task =
     g_bind (stored_task (t_id task)) (\<lambda>fresh.
     let t = (case fresh of Some u \<Rightarrow> u | None \<Rightarrow> task) in
     if t_status t = Tst_FLAGGED \<and> t_flag_reason t \<in> Some ` set MANUAL_REVIEW_FLAG_REASONS then g_ret ()
     else cleanup_terminal_task_worktree c t)"

definition final_commit_result ::
  "('p, 's, 'g) orch_env \<Rightarrow> limits \<Rightarrow> task_state \<Rightarrow> 'g run_world \<Rightarrow> load_error + commit_result option" where
  "final_commit_result env l s w =
     (case commit_res s of Some r \<Rightarrow> Inr (Some r)
      | None \<Rightarrow>
          (case load (now_in env w) l (task_id s) (tw_lifecycle (store_in w)) of
             Inr loaded \<Rightarrow> Inr (commit_res loaded)
           | Inl (TaskNotFound _) \<Rightarrow> Inr None
           | Inl err \<Rightarrow> Inl err))"

text \<open>Storing a record normalizes it in place.\<close>

definition normalized :: "task_record \<Rightarrow> task_record" where
  "normalized t =
     normalize_task_flag_reason (normalize_task_worktree_state (normalize_task_commit_sha_state t))"

definition reconcile_terminal_commit_sha ::
  "'g wt_env \<Rightarrow> commit_result option \<Rightarrow> task_record \<Rightarrow> ('g, task_record) wt_m" where
  "reconcile_terminal_commit_sha c commit t =
     (case commit of None \<Rightarrow> g_ret t
      | Some r \<Rightarrow>
          g_bind (if head_sha r \<noteq> [] then g_ret (Some (head_sha r)) else current_head (wt_git c) (wt_root c)) (\<lambda>sha.
          if \<not> opt_truthy sha then g_ret t
          else g_bind (save_task c (set_task_commit_sha sha t)) (\<lambda>_.
               g_ret (normalized (set_task_commit_sha sha t)))))"

definition has_commit_sha :: "task_record \<Rightarrow> bool" where
  "has_commit_sha t = (opt_truthy (t_commit_sha t) \<and> opt_truthy (pr_commit_sha (t_pipeline t)))"

datatype run_error = Load_error load_error | Git_exception git_exn

definition reconciled ::
  "('p, 's, 'g) orch_env \<Rightarrow> limits \<Rightarrow> task_state \<Rightarrow> task_record \<Rightarrow> 'g run_world \<Rightarrow>
   (run_error + task_record) \<times> 'g run_world" where
  "reconciled env l s t w =
     (if stage s \<noteq> DONE \<or> has_commit_sha t then (Inr t, w)
      else (case final_commit_result env l s w of
         Inl err \<Rightarrow> (Inl (Load_error err), w)
       | Inr commit \<Rightarrow>
           (case reconcile_terminal_commit_sha (oe_worktrees env) commit t w of
              (Inl e, w1) \<Rightarrow> (Inl (Git_exception e), w1) | (Inr u, w1) \<Rightarrow> (Inr u, w1))))"

text \<open>
  After the loop: the mirror once more, then for a finished task the commit sha, the workspace state and
  the worktree. A git error of the teardown is swallowed.
\<close>

definition finish_run ::
  "('p, 's, 'g) orch_env \<Rightarrow> limits \<Rightarrow> task_record \<Rightarrow> task_state \<Rightarrow> 'g run_world \<Rightarrow>
   (run_error + task_record) \<times> 'g run_world" where
  "finish_run env l task s w =
     (let t = (case map_of (tw_tasks (store_in w)) (task_id s) of
                 Some u \<Rightarrow> normalized (synced (now_in env w) (oe_escalation env (store_in w) (task_id s)) s u)
               | None \<Rightarrow> task);
          w1 = sync_store env s w
      in if stage s \<notin> {DONE, FAILED} then (Inr t, w1)
         else (case reconciled env l s t w1 of
            (Inl err, w2) \<Rightarrow> (Inl err, w2)
          | (Inr u, w2) \<Rightarrow>
              (let w3 = on_store (\<lambda>st. st \<lparr>tw_ws := clear_terminal_task_from_workspace_state (t_id u) (tw_ws st)\<rparr>) w2
               in case catch_git (cleanup_terminal_worktree (oe_worktrees env) u) (\<lambda>_. g_ret ()) w3 of
                    (Inl e, w4) \<Rightarrow> (Inl (Git_exception e), w4) | (Inr _, w4) \<Rightarrow> (Inr u, w4))))"

section \<open>A run\<close>

record run_execution =
  xe_task :: task_record
  xe_final_state :: task_state
  xe_final_stage :: pipeline_state
  xe_failed_reason :: "failed_reason option"
  xe_failed_message :: "string option"

datatype run_result =
    Run_refused string
  | Run_not_launched launch_error
  | Run_bad_hooks
  | Run_not_loaded load_error
  | Run_crashed lifecycle_error
  | Run_not_settled run_error
  | Run_finished run_execution

definition run_limits :: "('p, 's, 'g) orch_env \<Rightarrow> task_record \<Rightarrow> limits" where
  "run_limits env t =
     default_limits \<lparr>rejection_loop_limit := resolve_task_rejection_loop_limit (oe_engine_task env t) (oe_config env)\<rparr>"

definition launch ::
  "('p, 's, 'g) orch_env \<Rightarrow> task_record \<Rightarrow> 'g run_world \<Rightarrow> (launch_error + task_state) \<times> 'g run_world" where
  "launch env t w =
     (let st = store_in w;
          (res, db) = load_or_initialize (oe_float_text env) (now_in env w) (run_limits env t) (t_id t)
                        (map_of (tw_tasks st) (t_id t)) (tw_lifecycle st)
      in (res, on_store (\<lambda>st. st \<lparr>tw_lifecycle := db\<rparr>) w))"

text \<open>\<open>runner.run_task\<close> between the heartbeats, and what follows it.\<close>

definition drive ::
  "('p, 's, 'g) orch_env \<Rightarrow> task_record \<Rightarrow> (pipeline_state, hook_spec list) dict \<Rightarrow> 'g run_world \<Rightarrow>
   (run_result \<times> 'g run_world) option" where
  "drive env t specs w =
     (let l = run_limits env t; crashed = on_store (mark_crashed (t_id t)) in
      case load (now_in env w) l (t_id t) (tw_lifecycle (store_in w)) of
        Inl err \<Rightarrow> Some (Run_not_loaded err, crashed w)
      | Inr s \<Rightarrow>
          (case run_iterations env (run_runner env (run_deps env t specs))
                  \<lparr>m_state = s, m_world = w, m_log = [TaskStarted (stage s)]\<rparr> of
             Some (Raised err m) \<Rightarrow> Some (Run_crashed err, crashed (m_world m))
           | Some (Returned m) \<Rightarrow>
               (case finish_run env l t (m_state m) (m_world m) of
                  (Inl err, w1) \<Rightarrow> Some (Run_not_settled err, w1)
                | (Inr u, w1) \<Rightarrow>
                    Some (Run_finished \<lparr>xe_task = u, xe_final_state = m_state m, xe_final_stage = stage (m_state m),
                      xe_failed_reason = failed_reason_of (m_state m), xe_failed_message = failed_message (m_state m)\<rparr>, w1))
           | _ \<Rightarrow> None))"

text \<open>\<open>TaskOrchestrator.run\<close>, inside the runner guard.\<close>

definition orchestrate ::
  "('p, 's, 'g) orch_env \<Rightarrow> task_record \<Rightarrow> 'g run_world \<Rightarrow> (run_result \<times> 'g run_world) option" where
  "orchestrate env t w =
     (case on_files (oe_enter env) w of
        (Some msg, w1) \<Rightarrow> Some (Run_refused msg, w1)
      | (None, w1) \<Rightarrow>
          map_option (\<lambda>(r, w2). (r, snd (on_files (\<lambda>g. ((), oe_leave env g)) w2)))
            (case launch env t w1 of
               (Inl err, w2) \<Rightarrow> Some (Run_not_launched err, w2)
             | (Inr _, w2) \<Rightarrow>
                 (case hook_specs_from_config (oe_float_of env) (oe_runner_hooks env) [] of
                    None \<Rightarrow> Some (Run_bad_hooks, w2)
                  | Some specs \<Rightarrow> drive env t specs w2)))"

end
