(* ===== verification/Run_Records.thy ===== *)
theory Run_Records
  imports Orchestration Git_Hoare
begin

text \<open>
  What the nodes of a run leave of the stored tasks. Git and the file system leave the store alone, so their
  computations keep every predicate of it; the services that save a record keep what saving keeps.
\<close>

definition store_sat :: "(task_store \<Rightarrow> bool) \<Rightarrow> 'g run_world \<Rightarrow> bool" where
  "store_sat P w \<longleftrightarrow> P (store_in w)"

section \<open>Git and files\<close>

lemma files_keep [git_keeps]: "g_keeps (store_sat P) (fs_act f)" "g_keeps (store_sat P) (g_act (on_fs f))"
  by (auto simp: g_keeps_def g_spec_def fs_act_def g_act_def on_fs_def store_sat_def store_in_def
      split: prod.split option.split)

lemma moves_keep [git_keeps]:
  "g_keeps (store_sat P) (g_act (we_mkdir (wt_git c) p))"
  "g_keeps (store_sat P) (g_act (we_copytree (wt_git c) p q))"
  "g_keeps (store_sat P) (g_act (we_copy2 (wt_git c) p q))"
  unfolding lift_env_def by (simp_all add: files_keep)

lemma git_keep [git_keeps]:
  "g_keeps (store_sat P) (run_git_input (wt_git c) cwd args input)" "g_keeps (store_sat P) (run_git (wt_git c) cwd args)"
  by (auto simp: g_keeps_def g_spec_def run_git_def run_git_input_def lift_env_def on_fs_def store_sat_def store_in_def
      split: prod.splits)

lemma filter_keep [git_keeps]: "(\<And>x. g_keeps I (p x)) \<Longrightarrow> g_keeps I (g_filter p xs)"
  unfolding g_filter_def by (intro git_keeps)

lemma catch_git_keep [git_keeps]:
  "g_keeps I m \<Longrightarrow> (\<And>msg. g_keeps I (h msg)) \<Longrightarrow> g_keeps I (catch_git m h)"
  unfolding catch_git_def by (intro git_keeps)

lemma wrappers_keep [git_keeps]:
  "g_keeps (store_sat P) (git_try (wt_git c) cwd args)" "g_keeps (store_sat P) (git_quiet (wt_git c) cwd args)"
  "g_keeps (store_sat P) (stdout_or_none (wt_git c) cwd args)" "g_keeps (store_sat P) (stdout_lines (wt_git c) cwd args)"
  unfolding git_try_def git_quiet_def stdout_lines_def stdout_or_none_def by (intro git_keeps)+

lemma probes_keep [git_keeps]:
  "g_keeps (store_sat P) (is_git_repo (wt_git c) cwd)" "g_keeps (store_sat P) (has_changes (wt_git c) cwd)"
  "g_keeps (store_sat P) (status_porcelain (wt_git c) cwd)" "g_keeps (store_sat P) (current_head (wt_git c) cwd)"
  "g_keeps (store_sat P) (rev_parse_verify (wt_git c) cwd ref)" "g_keeps (store_sat P) (git_fetch (wt_git c) cwd rm refs)"
  "g_keeps (store_sat P) (remote_url (wt_git c) cwd rm)" "g_keeps (store_sat P) (head_sha_strict (wt_git c) cwd)"
  "g_keeps (store_sat P) (current_branch (wt_git c) cwd)" "g_keeps (store_sat P) (cherry_check (wt_git c) cwd up tip)"
  "g_keeps (store_sat P) (status_porcelain_with_options (wt_git c) cwd ign)"
  "g_keeps (store_sat P) (is_path_tracked (wt_git c) cwd p)" "g_keeps (store_sat P) (check_ignore (wt_git c) cwd p)"
  "g_keeps (store_sat P) (list_worktrees_porcelain (wt_git c) cwd)" "g_keeps (store_sat P) (unmerged_files (wt_git c) cwd)"
  "g_keeps (store_sat P) (git_status_entries (wt_git c) cwd ign)"
  unfolding is_git_repo_def has_changes_def status_porcelain_def current_head_def rev_parse_verify_def git_fetch_def
    remote_url_def head_sha_strict_def current_branch_def cherry_check_def status_porcelain_with_options_def
    is_path_tracked_def check_ignore_def list_worktrees_porcelain_def unmerged_files_def git_status_entries_def
  by (intro git_keeps)+

lemma mutations_keep [git_keeps]:
  "g_keeps (store_sat P) (delete_branch (wt_git c) cwd b)" "g_keeps (store_sat P) (add_paths (wt_git c) cwd ps all)"
  "g_keeps (store_sat P) (commit_with_message_stdin (wt_git c) cwd m)" "g_keeps (store_sat P) (commit_no_edit (wt_git c) cwd)"
  "g_keeps (store_sat P) (prune_worktrees (wt_git c) cwd now)"
  "g_keeps (store_sat P) (add_worktree_branch (wt_git c) cwd b p ref fc)"
  "g_keeps (store_sat P) (stash_push (wt_git c) cwd m u ps)" "g_keeps (store_sat P) (stash_pop (wt_git c) cwd r i)"
  "g_keeps (store_sat P) (merge_no_edit (wt_git c) cwd ref)" "g_keeps (store_sat P) (merge_abort (wt_git c) cwd)"
  "g_keeps (store_sat P) (remove_worktree (wt_git c) cwd p fc)"
  "g_keeps (store_sat P) (rebase_worktree_onto (wt_git c) cwd ref)"
  unfolding delete_branch_def add_paths_def commit_with_message_stdin_def commit_no_edit_def prune_worktrees_def
    add_worktree_branch_def stash_push_def stash_pop_def merge_no_edit_def merge_abort_def remove_worktree_def
    rebase_worktree_onto_def
  by (intro git_keeps)+

section \<open>Paths, inspection, local changes\<close>

lemma paths_keep [git_keeps]:
  "g_keeps I (resolved c p)" "g_keeps I (expanded c p)" "g_keeps I (path_there c p)" "g_keeps I (stored_task tid)"
  "g_keeps I (resolve_recorded_worktree_path c rel)" "g_keeps I (serialize_worktree_path c p)"
  "g_keeps I (task_recorded_worktree c tid)" "g_keeps I (resolve_worktree c s)"
  "g_keeps I (resolve_hook_execution_root c s)" "g_keeps I (tracked_here c branch path' current)"
  unfolding resolve_hook_execution_root_def resolve_worktree_def task_recorded_worktree_def serialize_worktree_path_def
    resolve_recorded_worktree_path_def tracked_here_def stored_task_def path_there_def resolved_def expanded_def
  by (intro git_keeps)+

lemma scan_keep [git_keeps]: "g_keeps I (scan_worktrees c branch path current ls)"
  by (induction c branch path current ls rule: scan_worktrees.induct) (auto simp: Let_def intro!: git_keeps)

lemma inspection_keep [git_keeps]:
  "g_keeps (store_sat P) (worktree_uncommitted_changes c p)" "g_keeps (store_sat P) (committed_changes c p)"
  "g_keeps (store_sat P) (inspect_task_worktree c t)" "g_keeps (store_sat P) (lost_worktree c t)"
  unfolding lost_worktree_def inspect_task_worktree_def worktree_uncommitted_changes_def committed_changes_def
    fork_point_def Let_def
  by (intro git_keeps; simp split: option.split bool.split; intro allI impI conjI git_keeps)+

lemma sync_parts_keep [git_keeps]:
  "g_keeps (store_sat P) (registered_worktree_for_branch c branch)" "g_keeps (store_sat P) (ensure_venv_link c p)"
  "g_keeps (store_sat P) (stash_local_changes c p)" "g_keeps (store_sat P) (restore_local_changes c p r)"
  "g_keeps (store_sat P) (after_failure c p r e)" "g_keeps (store_sat P) (merge_origin_main c p ref)"
  "g_keeps (store_sat P) (rebase_existing_worktree_onto_local_main c p)"
  unfolding registered_worktree_for_branch_def ensure_venv_link_def stash_local_changes_def restore_local_changes_def
    after_failure_def merge_origin_main_def rebase_existing_worktree_onto_local_main_def Let_def
  by (intro git_keeps)+

section \<open>The commit node\<close>

lemma commit_parts_keep [git_keeps]:
  assumes "ce_world e = wt_git c" "\<And>r s. ce_task e = Some r \<Longrightarrow> g_keeps (store_sat P) (r s)"
  shows "g_keeps (store_sat P) (generated_commit_message e s d)" "g_keeps (store_sat P) (autocommit_worktree_changes e p s)"
    "g_keeps (store_sat P) (autocommit_main_checkout_changes e s)" "g_keeps (store_sat P) (worktree_local_only_paths e p)"
    "g_keeps (store_sat P) (restore_local_only_paths e p ps)" "g_keeps (store_sat P) (worktree_patch_already_on_main e p h)"
    "g_keeps (store_sat P) (merge_in_progress e)" "g_keeps (store_sat P) (merge_landed e s p ps h k)"
proof -
  show msg: "g_keeps (store_sat P) (generated_commit_message e s d)" for s d
    unfolding generated_commit_message_def Let_def using assms(2) by (cases "ce_task e") (auto intro!: git_keeps)
  show "g_keeps (store_sat P) (autocommit_worktree_changes e p s)"
    and main: "g_keeps (store_sat P) (autocommit_main_checkout_changes e s)" for s
    unfolding autocommit_worktree_changes_def autocommit_main_checkout_changes_def filter_stageable_paths_def
      is_untracked_embedded_git_repo_def Let_def assms(1)
    by (intro git_keeps msg)+
  show "g_keeps (store_sat P) (worktree_local_only_paths e p)" "g_keeps (store_sat P) (merge_in_progress e)"
    and rest: "g_keeps (store_sat P) (restore_local_only_paths e p ps)"
    and patch: "g_keeps (store_sat P) (worktree_patch_already_on_main e p h)" for p ps h
    unfolding worktree_local_only_paths_def restore_local_only_paths_def worktree_patch_already_on_main_def
      merge_in_progress_def Let_def assms(1)
    by (intro git_keeps)+
  show "g_keeps (store_sat P) (merge_landed e s p ps h k)"
    unfolding merge_landed_def Let_def by (intro git_keeps main rest patch) (unfold assms(1), intro git_keeps)
qed

section \<open>Nodes that save records\<close>

text \<open>Turns and hook processes act on the whole world; what they keep is an assumption on them.\<close>

definition engines_keep :: "(task_store \<Rightarrow> bool) \<Rightarrow> ('p, 's, 'g) orch_env \<Rightarrow> task_record \<Rightarrow> bool" where
  "engines_keep P env t \<longleftrightarrow>
     (\<forall>specs st s w res w'. store_sat P w \<longrightarrow> agent_run (role_agent (run_deps env t specs) st) s w = Some (res, w') \<longrightarrow>
        store_sat P w') \<and>
     (\<forall>cwd spec s x p x'. P (ww_store x) \<longrightarrow> oe_hook_process env cwd spec s x = (p, x') \<longrightarrow> P (ww_store x'))"

locale record_invariant =
  fixes P :: "task_store \<Rightarrow> bool"
  assumes put: "P st \<Longrightarrow> P (put_task t st)"
begin

lemma save_keep [git_keeps]: "g_keeps (store_sat P) (try_save_task c t)" "g_keeps (store_sat P) (save_task c t)"
proof -
  have put': "g_keeps (store_sat P) (update_store (put_task t))"
    by (auto simp: g_keeps_def g_spec_def update_store_def g_act_def store_sat_def store_in_def put)
  show saved: "g_keeps (store_sat P) (try_save_task c t)"
    unfolding try_save_task_def by (intro git_keeps put')
  show "g_keeps (store_sat P) (save_task c t)"
    unfolding save_task_def by (intro git_keeps saved)
qed

lemma sync_keep:
  assumes "\<And>r. resolver = Some r \<Longrightarrow> g_keeps (store_sat P) r"
  shows "g_keeps (store_sat P) (sync_task_worktree c tid entry resolver main_ref)"
proof -
  have existing: "g_keeps (store_sat P) (sync_existing_worktree c entry resolver main_ref p)" for p
    unfolding sync_existing_worktree_def Let_def using assms by (cases resolver) (auto intro!: git_keeps)
  have provision: "g_keeps (store_sat P) (provision_worktree c t b)" for t b
    unfolding provision_worktree_def Let_def by (intro git_keeps)
  show ?thesis unfolding sync_task_worktree_def by (intro git_keeps existing provision)
qed

lemma service_keep:
  assumes "store_sat P w" "git_worktree_sync (sync_service c (resolve_worktree c) ref) s w = (res, w')"
  shows "store_sat P w'"
proof -
  have "g_keeps (store_sat P) (sync_task_worktree c (task_id s) (map_option pipeline_state_value (entry_stage s))
      (Some (resolve_worktree c s)) ref)"
    by (rule sync_keep) (simp add: paths_keep)
  from keepsD [OF this assms(1)] assms(2) show ?thesis
    by (auto simp: git_worktree_sync_def sync_service_def split: prod.splits sum.splits git_exn.splits)
qed

lemma probe_keep: "store_sat P w \<Longrightarrow> worktree_missing_probe c s w = (res, w') \<Longrightarrow> store_sat P w'"
  and repair_keep: "store_sat P w \<Longrightarrow> worktree_metadata_repair c s w = (res, w') \<Longrightarrow> store_sat P w'"
proof -
  have snd_call: "snd (call_result_of x) = snd x" for x :: "(git_exn + bool) \<times> 'g run_world"
    by (cases x rule: call_result_of.cases) simp_all
  show "store_sat P w \<Longrightarrow> worktree_missing_probe c s w = (res, w') \<Longrightarrow> store_sat P w'"
    unfolding worktree_missing_probe_def
    by (drule arg_cong [of _ _ snd], simp only: snd_call snd_conv, erule subst, erule keepsD [rotated], intro git_keeps)
  show "store_sat P w \<Longrightarrow> worktree_metadata_repair c s w = (res, w') \<Longrightarrow> store_sat P w'"
    unfolding worktree_metadata_repair_def
    by (drule arg_cong [of _ _ snd], simp only: snd_call snd_conv, erule subst, erule keepsD [rotated], intro git_keeps)
qed

lemma merge_keep:
  assumes "store_sat P w" "git_outcome_of (merge_worktree (build_commit_node env) s w) = (res, w')"
  shows "store_sat P w'"
proof -
  let ?e = "build_commit_node env" and ?c = "oe_worktrees env"
  have e: "ce_world ?e = wt_git ?c" "ce_worktree ?e = resolve_worktree ?c" by (simp_all add: build_commit_node_def Let_def)
  have r: "ce_task ?e = Some f \<Longrightarrow> g_keeps (store_sat P) (f s)" for f s
    by (auto simp: build_commit_node_def Let_def intro!: git_keeps)
  note parts = commit_parts_keep [of ?e ?c P, OF e(1)]
  have "g_keeps (store_sat P) (merge_worktree ?e s)"
    unfolding merge_worktree_def Let_def e by (intro git_keeps parts r)
  from keepsD [OF this assms(1)] assms(2) show ?thesis
    by (cases "merge_worktree ?e s w" rule: git_outcome_of.cases) auto
qed

lemma hooks_keep:
  assumes "engines_keep P env t"
  shows "store_sat P w \<Longrightarrow> hook_node_run marker (subprocess_hook_runner ft (run_hook_process env)) st hs s w = (e, w') \<Longrightarrow>
    store_sat P w'"
proof (induction hs arbitrary: w)
  case (Cons h hs)
  obtain found w1 where root: "resolve_hook_execution_root (oe_worktrees env) s w = (found, w1)" by (metis surj_pair)
  have w1: "store_sat P w1" 
    using keepsD [of "store_sat P", OF paths_keep(9) Cons.prems(1), of "oe_worktrees env" s] root by simp
  obtain p w2 where run: "run_hook_process env h s w = (p, w2)" by (metis surj_pair)
  then have "store_sat P w2"
    using w1 assms root by (auto simp: run_hook_process_def Let_def engines_keep_def store_sat_def store_in_def split: prod.splits)
  with Cons run show ?case
    by (auto simp: subprocess_hook_runner_def split: prod.splits option.splits)
qed simp

lemma ready_keep: "store_sat P w \<Longrightarrow> ready_node_run [worktree_missing_probe c] s w = (e, w') \<Longrightarrow> store_sat P w'"
  by (auto split: prod.splits call_result.splits if_splits dest: probe_keep)

lemma pre_exec_keep:
  "store_sat P w \<Longrightarrow> pre_exec_node_run [worktree_metadata_repair c] s w = (e, w') \<Longrightarrow> store_sat P w'"
  by (auto simp: pre_exec_node_run_def split: if_splits) (metis repair_keep prod.collapse)

text \<open>Every node of the run keeps the predicate.\<close>

lemma node_keep:
  assumes keep: "engines_keep P env t"
    and nd: "registry_get (registry_entries (run_deps env t specs)) st = Some nd"
    and run: "node_run nd s w = Some (res, w')" and sat: "store_sat P w"
  shows "store_sat P w'"
  using state_cases [of st]
proof (elim disjE)
  assume "st \<in> {GROOMING, IMPLEMENTING, TESTING, ACCEPTING, MERGE_RESOLVING, RECOVERING}"
  with nd run have "agent_run (role_agent (run_deps env t specs) st) s w = Some (res, w')"
    by (simp only: registry_get_agent) (auto simp: agent_entry_def)
  with keep sat show ?thesis unfolding engines_keep_def by blast
next
  assume "st \<in> set HOOK_PHASES"
  with nd run obtain e where
    "hook_node_run (dep_marker (oe_deps env)) (subprocess_hook_runner (oe_float_text env) (run_hook_process env)) st
       (dict_get st [] specs) s w = (e, w')"
    by (auto simp: registry_get_hook hook_entry_def plain_node_def run_deps_def Let_def split: prod.splits)
  from hooks_keep [OF keep sat this] show ?thesis .
next
  assume st: "st \<in> {READY, RECOVERING_PRE_EXEC, WORKTREE_SYNC, COMMIT}"
  let ?c = "oe_worktrees env"
  consider "\<exists>e. ready_node_run [worktree_missing_probe ?c] s w = (e, w')"
    | "\<exists>e. pre_exec_node_run [worktree_metadata_repair ?c] s w = (e, w')"
    | "\<exists>e. build_worktree_sync_node env s w = (e, w')"
    | "\<exists>e. git_outcome_of (merge_worktree (build_commit_node env) s w) = (e, w')"
    using st nd run
    by (auto simp: registry_get_system plain_node_def fallible_node_def run_deps_def Let_def worktree_sync_node_run_def
        commit_node_run_def split: prod.splits git_outcome.splits simp del: ready_node_run.simps)
  then show ?thesis
    using sat by cases (auto simp: build_worktree_sync_node_def Let_def intro: ready_keep pre_exec_keep service_keep merge_keep
        simp del: ready_node_run.simps)
next
  assume "st \<in> {DONE, FAILED}"
  with nd run sat show ?thesis
    by (auto simp: registry_get_system plain_node_def terminal_node_run_def)
qed

text \<open>An iteration before its log takes effect.\<close>

lemma step_keep:
  assumes keep: "engines_keep P env t" and sat: "store_sat P (m_world m)"
    and st: "step (run_runner env (run_deps env t specs)) m = Some (Continue m')"
  shows "store_sat P (m_world m')"
proof -
  let ?r = "run_runner env (run_deps env t specs)"
  have clock: "store_sat P w' \<longleftrightarrow> store_sat P w" if "monotonic ?r w = (x, w')" for w x w'
    using that by (auto simp: run_runner_def on_files_def on_fs_def store_sat_def store_in_def Let_def split: prod.splits)
  have node: "store_sat P (m_world m1)"
    if nd: "registry ?r (stage (m_state m)) = Some nd" and run: "run_node ?r nd m = Some (Inr e, m1)" for nd e m1
  proof -
    have k: "node_run nd s w = Some (res, w') \<Longrightarrow> store_sat P w \<Longrightarrow> store_sat P w'" for s w res w'
      using nd by (auto simp: run_runner_def intro: node_keep [OF keep])
    show ?thesis
      using run sat by (auto simp: run_node_def Let_def clock split: if_splits option.splits sum.splits prod.splits dest: k)
  qed
  have world: "apply_transition ?r st e m1 = Inr m2 \<Longrightarrow> m_world m2 = m_world m1" for st e m1 m2
    by (auto simp: apply_transition_def Let_def split: sum.splits)
  have stop: "check_stop ?r oc = oc" for oc by (cases oc) (simp_all add: check_stop_def run_runner_def)
  from st show ?thesis
    using sat by (auto simp: step_def Let_def stop advance_def world node split: if_splits option.splits sum.splits prod.splits)
qed

end

section \<open>The record of the running task\<close>

text \<open>Records are stored under their ids, and the task has one.\<close>

definition holds_task :: "string \<Rightarrow> task_store \<Rightarrow> bool" where
  "holds_task tid st \<longleftrightarrow> (\<forall>i t. map_of (tw_tasks st) i = Some t \<longrightarrow> t_id t = i) \<and> map_of (tw_tasks st) tid \<noteq> None"

interpretation holds: record_invariant "holds_task tid" for tid
  by unfold_locales (auto simp: holds_task_def put_task_def update_conv')

end
