(* ===== verification/Orchestration_Properties.thy ===== *)
theory Orchestration_Properties
  imports Run_Records Crash_Properties Termination Worktree_Properties
begin

text \<open>
  A whole run: what each iteration leaves in the store, how a run leaves its task, and that it ends.
\<close>

section \<open>The log of an iteration\<close>

lemma store_sel [simp]: "store_in (on_store f w) = f (store_in w)" "ww_fs (gw_world (on_store f w)) = ww_fs (gw_world w)"
  "store_in (w \<lparr>gw_calls := cs\<rparr>) = store_in w"
  by (simp_all add: store_in_def on_store_def)

lemma files_sel: "on_files f w = (r, w') \<Longrightarrow> store_in w' = store_in w"
  by (auto simp: on_files_def on_fs_def store_in_def Let_def split: prod.splits)

text \<open>The saves of a transition, in the order of the code.\<close>

definition transition_saves :: "task_state \<Rightarrow> log_entry list \<Rightarrow> bool" where
  "transition_saves s xs \<longleftrightarrow>
     (\<exists>cleared st e to desc. xs = cleared @ [StateSaved s, StateSynced s, TransitionLogged st e to desc, TransitionObserved s st e] \<and>
        (cleared = [] \<or> (\<exists>node. cleared = [SessionsCleared (task_id s) node])))"

lemma after_transition_id [simp]: "task_id (after_transition f e mv s) = task_id s"
proof -
  have "task_id (apply_event_side_effects e s) = task_id s" for s by (cases e) (simp_all)
  then show ?thesis
    by (simp add: after_transition_def reset_hook_reject_tracking_on_progress_def clear_hook_tracking_def Let_def)
qed

lemma transition_logged:
  assumes "apply_transition (run_runner env d) st e m = Inr m'"
  shows "m_world m' = m_world m \<and> task_id (m_state m') = task_id (m_state m) \<and>
    (\<exists>xs. m_log m' = m_log m @ xs \<and> transition_saves (m_state m') xs)"
proof -
  from assms obtain t where t: "m_state m' = after_transition st e (next_state t, transition_delta t) (m_state m)"
    "m_world m' = m_world m" "m_log m' = m_log m @ transition_log (run_runner env d) st e t (m_state m')"
    by (auto simp: apply_transition_def Let_def split: sum.splits)
  have "transition_saves (m_state m') (transition_log (run_runner env d) st e t (m_state m'))"
    unfolding transition_saves_def transition_log_def run_runner_def by (auto split: option.split)
  with t show ?thesis by auto
qed

lemma run_node_frame:
  assumes "run_node r nd m = Some (res, m1)"
  shows "m_log m1 = m_log m \<and> task_id (m_state m1) = task_id (m_state m)"
  using assms by (auto simp: run_node_def Let_def split: if_splits option.splits sum.splits prod.splits)

text \<open>The orchestrated runner has no stop predicate.\<close>

lemma no_stop: "check_stop (run_runner env d) oc = oc"
  by (cases oc) (simp_all add: check_stop_def run_runner_def)

lemma step_logged:
  assumes "step (run_runner env d) m = Some (Continue m')"
  shows "task_id (m_state m') = task_id (m_state m) \<and> (\<exists>xs. m_log m' = m_log m @ xs \<and> transition_saves (m_state m') xs)"
proof -
  let ?r = "run_runner env d"
  from assms consider e where "apply_transition ?r (stage (m_state m)) e m = Inr m'"
    | nd e m1 where "run_node ?r nd m = Some (Inr e, m1)" "apply_transition ?r (stage (m_state m)) e m1 = Inr m'"
    by (auto simp: step_def Let_def no_stop advance_continue split: if_splits option.splits sum.splits prod.splits)
  then show ?thesis
  proof cases
    case (1 e)
    from transition_logged [OF this] show ?thesis by blast
  next
    case (2 nd e m1)
    from transition_logged [OF 2(2)] run_node_frame [OF 2(1)] show ?thesis by auto
  qed
qed

lemma step_returned:
  assumes "step (run_runner env d) m = Some (Returned m')"
  shows "stage (m_state m) \<in> {DONE, FAILED} \<and> m_state m' = m_state m \<and> m_world m' = m_world m"
  using assms by (auto simp: step_def Let_def no_stop log_to_def TERMINAL_NODES_def advance_def
      split: if_splits option.splits sum.splits prod.splits)

section \<open>Each iteration is mirrored\<close>

definition stored_row :: "('p, 's, 'g) orch_env \<Rightarrow> task_state \<Rightarrow> task_store \<Rightarrow> bool" where
  "stored_row env s st \<longleftrightarrow>
     (\<exists>now. map_of (pipeline_task_state (tw_lifecycle st)) (task_id s) = Some (row_of (oe_float_text env) now s))"

definition record_mirrors :: "task_state \<Rightarrow> task_store \<Rightarrow> bool" where
  "record_mirrors s st \<longleftrightarrow> (\<forall>t. map_of (tw_tasks st) (task_id s) = Some t \<longrightarrow> record_view t = state_view s)"

lemma synced_store:
  "record_mirrors s (store_in (sync_store env s w))" "tw_lifecycle (store_in (sync_store env s w)) = tw_lifecycle (store_in w)"
  "tw_ws (store_in (sync_store env s w)) = tw_ws (store_in w)"
  by (auto simp: record_mirrors_def sync_store_def sync_back_def Let_def synced_view update_conv' split: option.splits if_splits)

lemma saved_row:
  "run_entry env (StateSaved s) w = (e, w') \<Longrightarrow> e = None \<and> stored_row env s (store_in w')"
  by (auto simp: stored_row_def save_def append_event_def update_conv')

lemma observed_entry:
  assumes "run_entry env (TransitionObserved s st ev) w = (e, w')"
  shows "tw_tasks (store_in w') = tw_tasks (store_in w) \<and> tw_lifecycle (store_in w') = tw_lifecycle (store_in w) \<and>
    tw_ws (store_in w') = tw_ws (store_in w)"
  using assms observed_frame [of "oe_sinks env" s st ev "gw_world w"]
  by (auto simp: store_in_def split: option.splits)

lemma saves_settle:
  assumes "transition_saves s xs" "run_entries env xs w = (e, w')"
  shows "stored_row env s (store_in w') \<and> record_mirrors s (store_in w')"
proof -
  from assms(1) obtain cleared st ev to desc where
    xs: "xs = cleared @ [StateSaved s, StateSynced s, TransitionLogged st ev to desc, TransitionObserved s st ev]"
    and cl: "cleared = [] \<or> (\<exists>node. cleared = [SessionsCleared (task_id s) node])"
    unfolding transition_saves_def by blast
  obtain w1 where start: "run_entries env xs w =
      run_entries env [StateSaved s, StateSynced s, TransitionLogged st ev to desc, TransitionObserved s st ev] w1"
    using cl xs by auto
  obtain e2 w2 where save: "run_entry env (StateSaved s) w1 = (e2, w2)" by (metis surj_pair)
  note row = saved_row [OF save]
  let ?w3 = "sync_store env s w2"
  have row3: "stored_row env s (store_in ?w3)" using row by (simp add: stored_row_def synced_store)
  obtain e4 w4 where obs: "run_entry env (TransitionObserved s st ev) ?w3 = (e4, w4)" by (metis surj_pair)
  have "w' = w4"
    using assms(2) start save row obs by (auto split: option.splits)
  then show ?thesis
    using observed_entry [OF obs] row3 synced_store(1) [of s env w2] by (simp add: stored_row_def record_mirrors_def)
qed

text \<open>C23: After every iteration of a run, whatever its node did to the world, the stored lifecycle row is the
  machine's state and the stored record shows operators exactly that state, before the next node starts.\<close>

theorem iteration_is_mirrored:
  assumes "step (run_runner env d) m = Some (Continue m1)" and "settled env m (Continue m1) = Continue m2"
  shows "m_state m2 = m_state m1 \<and> stored_row env (m_state m2) (store_in (m_world m2)) \<and>
    record_mirrors (m_state m2) (store_in (m_world m2))"
proof -
  obtain xs where xs: "m_log m1 = m_log m @ xs" "transition_saves (m_state m1) xs" using step_logged [OF assms(1)] by blast
  obtain e w where run: "run_entries env xs (m_world m1) = (e, w)" by (metis surj_pair)
  with assms(2) xs(1) have "m2 = m1 \<lparr>m_world := w\<rparr>" by (auto simp: settled_def split: option.splits)
  with saves_settle [OF xs(2) run] show ?thesis by simp
qed

section \<open>The end of a run\<close>

lemma iterations_end:
  assumes "run_iterations env r m = Some oc" and "J m"
    and "\<And>m m1 m2. J m \<Longrightarrow> step r m = Some (Continue m1) \<Longrightarrow> settled env m (Continue m1) = Continue m2 \<Longrightarrow> J m2"
  shows "\<exists>m0 oc0. J m0 \<and> step r m0 = Some oc0 \<and> settled env m0 oc0 = oc \<and> (\<forall>m'. oc \<noteq> Continue m')"
  using assms
proof (induction rule: run_iterations.raw_induct [rotated, consumes 1, case_names 1])
  case (1 f env r m oc)
  from 1(2) obtain oc0 where st: "step r m = Some oc0" by (auto split: option.splits)
  show ?case
  proof (cases "settled env m oc0")
    case (Continue m2)
    from st obtain m1 where oc0: "oc0 = Continue m1" using Continue by (cases oc0) (auto simp: settled_def)
    from 1(2) st Continue have "f env r m2 = Some oc" by simp
    moreover have "J m2" using 1(3, 4) st Continue oc0 by blast
    ultimately show ?thesis by (rule 1(1)) (rule 1(4))
  qed (use 1(2, 3) st in \<open>auto intro!: exI\<close>)
qed

definition run_state_ok :: "string \<Rightarrow> 'g run_world machine \<Rightarrow> bool" where
  "run_state_ok tid m \<longleftrightarrow> store_sat (holds_task tid) (m_world m) \<and> task_id (m_state m) = tid"

lemma synced_id [simp]: "t_id (synced now l s t) = t_id t"
  by (simp add: synced_def terminal_status_view sync_runtime_fields_def Let_def)

lemma sync_holds: "holds_task tid (store_in w) \<Longrightarrow> holds_task tid (store_in (sync_store env s w))"
  by (auto simp: holds_task_def sync_store_def sync_back_def Let_def update_conv' split: option.splits if_splits)

lemma entry_holds:
  assumes "run_entry env x w = (e, w')" "holds_task tid (store_in w)"
  shows "holds_task tid (store_in w')"
proof (cases x)
  case (TransitionObserved s st ev)
  with assms show ?thesis using observed_entry [of env s st ev w e w'] by (simp add: holds_task_def del: run_entry.simps)
next
  case (StateSynced s)
  with assms sync_holds show ?thesis by auto
qed (use assms in \<open>auto simp: holds_task_def\<close>)

lemma entries_holds:
  "run_entries env xs w = (e, w') \<Longrightarrow> holds_task tid (store_in w) \<Longrightarrow> holds_task tid (store_in w')"
  by (induction xs arbitrary: w) (auto split: prod.splits option.splits dest: entry_holds)

lemma iteration_ok:
  assumes "engines_keep (holds_task tid) env t" and "run_state_ok tid m"
    and "step (run_runner env (run_deps env t specs)) m = Some (Continue m1)"
    and "settled env m (Continue m1) = Continue m2"
  shows "run_state_ok tid m2"
proof -
  have "store_sat (holds_task tid) (m_world m1)" "task_id (m_state m1) = tid"
    using holds.step_keep [OF assms(1) _ assms(3)] step_logged [OF assms(3)] assms(2) by (auto simp: run_state_ok_def)
  moreover obtain e w where "run_entries env (drop (length (m_log m)) (m_log m1)) (m_world m1) = (e, w)" by (metis surj_pair)
  ultimately show ?thesis using assms(4) entries_holds
    by (fastforce simp: settled_def run_state_ok_def store_sat_def split: option.splits)
qed

section \<open>Settling a finished run\<close>

definition shows_state :: "string \<Rightarrow> task_state \<Rightarrow> task_store \<Rightarrow> bool" where
  "shows_state tid s st \<longleftrightarrow> (\<exists>t. map_of (tw_tasks st) tid = Some t \<and> t_id t = tid \<and> record_view t = state_view s)"

definition released :: "string \<Rightarrow> task_store \<Rightarrow> bool" where
  "released tid st \<longleftrightarrow> ws_active_task_id (tw_ws st) \<noteq> Some tid \<and> tid \<notin> set (ws_queue (tw_ws st))"

lemma normalized_sel [simp]: "t_id (normalized t) = t_id t" "record_view (normalized t) = record_view t"
  by (simp_all add: normalized_def record_view_def normalize_task_flag_reason_def canonicalize_task_terminal_state_def
      normalize_task_worktree_state_def normalize_task_commit_sha_state_def set_task_worktree_path_def Let_def)

lemma commit_sha_sel [simp]: "t_id (set_task_commit_sha h t) = t_id t" "record_view (set_task_commit_sha h t) = record_view t"
  by (simp_all add: set_task_commit_sha_def record_view_def)

lemma worktree_path_sel [simp]: "t_id (set_task_worktree_path p t) = t_id t" "record_view (set_task_worktree_path p t) = record_view t"
  by (simp_all add: set_task_worktree_path_def record_view_def)

lemma cleared_releases: "released tid (st \<lparr>tw_ws := clear_terminal_task_from_workspace_state tid ws\<rparr>)"
proof -
  have "protected_positions [tid] (without tid q) = []" for q
    by (auto simp: protected_positions_def without_def filter_empty_conv in_set_enumerate_eq dest!: nth_mem)
  then show ?thesis
    by (auto simp: released_def clear_terminal_task_from_workspace_state_def merged_state_for_runner_owned_write_def
        merge_queue_preserving_future_changes_def splice_set)
qed

text \<open>Saving the task's own record with the same view.\<close>

lemma save_shows:
  assumes "t_id t = tid" "record_view t = state_view s"
  shows "g_keeps (store_sat (\<lambda>st. shows_state tid s st \<and> F (tw_ws st))) (save_task c t)"
proof -
  let ?P = "\<lambda>st. shows_state tid s st \<and> F (tw_ws st)"
  have "?P (put_task t st)" if "?P st" for st
    using that assms by (auto simp: shows_state_def put_task_def update_conv')
  then have "g_keeps (store_sat ?P) (update_store (put_task t))"
    by (auto simp: g_keeps_def g_spec_def update_store_def g_act_def store_sat_def store_in_def)
  then show ?thesis unfolding save_task_def try_save_task_def by (intro git_keeps)
qed

lemma finish_keeps:
  assumes "t_id u = tid" "record_view u = state_view s"
  shows "g_spec (store_sat (\<lambda>st. shows_state tid s st \<and> released tid st))
    (catch_git (cleanup_terminal_worktree c u) (\<lambda>_. g_ret ()))
    (\<lambda>_. store_sat (\<lambda>st. shows_state tid s st \<and> released tid st)) (\<lambda>_. store_sat (\<lambda>st. shows_state tid s st \<and> released tid st))"
proof -
  let ?Q = "\<lambda>st. shows_state tid s st \<and> released tid st"
  have save: "g_keeps (store_sat ?Q) (save_task c t)" if "t_id t = tid" "record_view t = state_view s" for t
    using save_shows [OF that, of "\<lambda>ws. ws_active_task_id ws \<noteq> Some tid \<and> tid \<notin> set (ws_queue ws)" c]
    by (simp add: released_def)
  have cleanup: "g_keeps (store_sat ?Q) (cleanup_terminal_task_worktree c t)"
    if "t_id t = tid" "record_view t = state_view s" for t
    unfolding cleanup_terminal_task_worktree_def Let_def by (intro git_keeps save) (simp_all add: that)
  have "g_spec (store_sat ?Q) (stored_task (t_id u))
      (\<lambda>f w. store_sat ?Q w \<and> (\<forall>t. f = Some t \<longrightarrow> t_id t = tid \<and> record_view t = state_view s)) (\<lambda>_. store_sat ?Q)"
    unfolding stored_task_def by (rule spec_look) (auto simp: store_sat_def store_in_def shows_state_def assms(1))
  then have "g_spec (store_sat ?Q) (cleanup_terminal_worktree c u) (\<lambda>_. store_sat ?Q) (\<lambda>_. store_sat ?Q)"
    unfolding cleanup_terminal_worktree_def
  proof (rule spec_bind)
    fix f
    let ?t = "case f of Some v \<Rightarrow> v | None \<Rightarrow> u"
    show "g_spec (\<lambda>w. store_sat ?Q w \<and> (\<forall>t. f = Some t \<longrightarrow> t_id t = tid \<and> record_view t = state_view s))
        (let t = ?t in if t_status t = Tst_FLAGGED \<and> t_flag_reason t \<in> Some ` set MANUAL_REVIEW_FLAG_REASONS then g_ret ()
         else cleanup_terminal_task_worktree c t) (\<lambda>_. store_sat ?Q) (\<lambda>_. store_sat ?Q)"
    proof (cases "\<forall>t. f = Some t \<longrightarrow> t_id t = tid \<and> record_view t = state_view s")
      case True
      then have "t_id ?t = tid" "record_view ?t = state_view s" using assms by (auto split: option.split)
      from keeps_spec [OF cleanup [OF this]] show ?thesis
        by (auto simp: Let_def intro!: spec_if spec_ret elim!: spec_conseq)
    next
      case False
      then show ?thesis by (auto simp: g_spec_def)
    qed
  qed
  then have "g_keeps (store_sat ?Q) (cleanup_terminal_worktree c u)" by (simp add: g_keeps_def)
  then have "g_keeps (store_sat ?Q) (catch_git (cleanup_terminal_worktree c u) (\<lambda>_. g_ret ()))" by (intro git_keeps)
  then show ?thesis by (rule keeps_spec)
qed

lemma reconciled_shows:
  assumes "t_id t = tid" "record_view t = state_view s" "shows_state tid s (store_in w)"
    and "reconciled env l s t w = (r, w')"
  shows "shows_state tid s (store_in w') \<and> (\<forall>u. r = Inr u \<longrightarrow> t_id u = tid \<and> record_view u = state_view s)"
proof -
  let ?I = "store_sat (\<lambda>st. shows_state tid s st \<and> True)" and ?c = "oe_worktrees env"
  have save: "g_keeps ?I (save_task ?c (set_task_commit_sha sha t))" for sha
    by (rule save_shows) (simp_all add: assms)
  have "g_keeps ?I (reconcile_terminal_commit_sha ?c commit t)" for commit
    unfolding reconcile_terminal_commit_sha_def by (intro git_keeps save)
  then have kept: "shows_state tid s (store_in w1)" if "reconcile_terminal_commit_sha ?c commit t w = (r, w1)" for commit r w1
    using keepsD [of ?I "reconcile_terminal_commit_sha ?c commit t" w] that assms(3) by (simp add: store_sat_def)
  have view: "t_id v = tid \<and> record_view v = state_view s" if "reconcile_terminal_commit_sha ?c commit t w = (Inr v, w1)" for commit v w1
    using that assms(1, 2)
    by (auto simp: reconcile_terminal_commit_sha_def bind_Inr ret_Inr split: option.splits if_splits)
  show ?thesis using assms kept view
    by (auto simp: reconciled_def split: if_splits sum.splits prod.splits)
qed

text \<open>The record shows the terminal state even when an exception cuts the teardown short.\<close>

lemma finish_settles:
  assumes "holds_task tid (store_in w)" "task_id s = tid" "stage s \<in> {DONE, FAILED}"
    and fin: "finish_run env l task s w = (r, w')"
  shows "shows_state tid s (store_in w') \<and> (\<forall>u. r = Inr u \<longrightarrow> released tid (store_in w'))"
proof -
  obtain t0 where t0: "map_of (tw_tasks (store_in w)) tid = Some t0" "t_id t0 = tid"
    using assms(1) by (auto simp: holds_task_def)
  let ?t = "normalized (synced (now_in env w) (oe_escalation env (store_in w) tid) s t0)" and ?w1 = "sync_store env s w"
  have t: "t_id ?t = tid" "record_view ?t = state_view s" by (simp_all add: t0 synced_view)
  have w1: "shows_state tid s (store_in ?w1)"
    using sync_holds [OF assms(1), of env s] synced_store(1) [of s env w] assms(2)
    by (auto simp: shows_state_def holds_task_def record_mirrors_def)
  obtain q w2 where rec: "reconciled env l s ?t ?w1 = (q, w2)" by (metis surj_pair)
  note v = reconciled_shows [OF t w1 rec]
  show ?thesis
  proof (cases q)
    case (Inl err)
    with fin assms(2, 3) t0 rec have "w' = w2" "r = Inl err" by (auto simp: finish_run_def Let_def)
    with v show ?thesis by simp
  next
    case (Inr u)
    let ?w3 = "on_store (\<lambda>st. st \<lparr>tw_ws := clear_terminal_task_from_workspace_state (t_id u) (tw_ws st)\<rparr>) w2"
    obtain k w4 where clean: "catch_git (cleanup_terminal_worktree (oe_worktrees env) u) (\<lambda>_. g_ret ()) ?w3 = (k, w4)"
      by (rule prod.exhaust)
    have "(case catch_git (cleanup_terminal_worktree (oe_worktrees env) u) (\<lambda>_. g_ret ()) ?w3 of
        (Inl e, w4) \<Rightarrow> (Inl (Git_exception e), w4) | (Inr _, w4) \<Rightarrow> (Inr u, w4)) = (r, w')"
      using fin assms(2, 3) t0(1) rec Inr by (auto simp: finish_run_def Let_def)
    then have "w' = w4" unfolding clean by (cases k) simp_all
    moreover have "store_sat (\<lambda>st. shows_state tid s st \<and> released tid st) ?w3"
      using v Inr cleared_releases [where tid = tid and st = "store_in w2" and ws = "tw_ws (store_in w2)"]
      by (simp add: store_sat_def shows_state_def)
    then have "store_sat (\<lambda>st. shows_state tid s st \<and> released tid st) w4"
      using finish_keeps [of u tid s "oe_worktrees env"] v Inr clean
      by (cases k) (auto dest: specD_Inr specD_Inl)
    ultimately show ?thesis by (simp add: store_sat_def)
  qed
qed

section \<open>How a run leaves its task\<close>

definition let_go :: "string \<Rightarrow> task_store \<Rightarrow> bool" where
  "let_go tid st \<longleftrightarrow> ws_active_task_id (tw_ws st) \<noteq> Some tid \<and>
     (\<forall>t. map_of (tw_tasks st) tid = Some t \<longrightarrow> pr_execution_status (t_pipeline t) \<noteq> ''running'')"

lemma crashed_lets_go: "let_go tid (mark_crashed tid st)"
  by (auto simp: let_go_def mark_crashed_def mark_task_interrupted_on_crash_def running_def update_conv'
      split: option.splits if_splits)

lemma launch_frame:
  assumes "launch env t w = (r, w')"
  shows "tw_tasks (store_in w') = tw_tasks (store_in w)" "r = Inr s \<Longrightarrow> map_of (tw_tasks (store_in w)) (t_id t) \<noteq> None"
  using assms by (auto simp: launch_def load_or_initialize_def Let_def split: prod.splits option.splits)

lemma and_then_E: "and_then m f = Inr s \<Longrightarrow> (\<And>x. f x = Inr s \<Longrightarrow> Q) \<Longrightarrow> Q"
  by (cases m) simp_all

lemma loaded_id: "load now l tid db = Inr s \<Longrightarrow> task_id s = tid"
proof -
  have "state_from_row now tid st md p l = Inr s \<Longrightarrow> task_id s = tid" for st md p
    unfolding state_from_row_def by (elim and_then_E) auto
  then show "load now l tid db = Inr s \<Longrightarrow> task_id s = tid"
    by (auto simp: load_def split: option.splits sum.splits)
qed

text \<open>
  What each way a run can end leaves of the task. \<open>st\<close> is the store the run started from. A run that did
  not get to its nodes has changed no record and nothing of the workspace state.
\<close>

definition untouched :: "task_store \<Rightarrow> task_store \<Rightarrow> bool" where
  "untouched st st' \<longleftrightarrow> st' = st \<lparr>tw_lifecycle := tw_lifecycle st'\<rparr>"

fun run_outcome :: "string \<Rightarrow> task_store \<Rightarrow> run_result \<Rightarrow> task_store \<Rightarrow> bool" where
  "run_outcome tid st (Run_finished r) st' =
     (xe_final_stage r \<in> {DONE, FAILED} \<and> released tid st' \<and> shows_state tid (xe_final_state r) st')"
| "run_outcome tid st (Run_crashed _) st' = let_go tid st'"
| "run_outcome tid st (Run_not_loaded _) st' = let_go tid st'"
| "run_outcome tid st (Run_not_settled _) st' = (\<exists>s. stage s \<in> {DONE, FAILED} \<and> shows_state tid s st')"
| "run_outcome tid st (Run_refused _) st' = (st' = st)"
| "run_outcome tid st (Run_not_launched _) st' = untouched st st'"
| "run_outcome tid st Run_bad_hooks st' = untouched st st'"

lemma drive_outcome:
  assumes keep: "engines_keep (holds_task (t_id t)) env t" and held: "holds_task (t_id t) (store_in w)"
    and run: "drive env t specs w = Some (res, w')"
  shows "run_outcome (t_id t) st res (store_in w')"
proof (cases "load (now_in env w) (run_limits env t) (t_id t) (tw_lifecycle (store_in w))")
  case (Inl err)
  with run show ?thesis by (auto simp: drive_def Let_def crashed_lets_go)
next
  case (Inr s)
  let ?d = "run_deps env t specs" let ?r = "run_runner env ?d"
  let ?m = "\<lparr>m_state = s, m_world = w, m_log = [TaskStarted (stage s)]\<rparr>"
  let ?tail = "\<lambda>oc. case oc of Some (Raised err m) \<Rightarrow> Some (Run_crashed err, on_store (mark_crashed (t_id t)) (m_world m))
     | Some (Returned m) \<Rightarrow>
         (case finish_run env (run_limits env t) t (m_state m) (m_world m) of
            (Inl err, w1) \<Rightarrow> Some (Run_not_settled err, w1)
          | (Inr u, w1) \<Rightarrow>
              Some (Run_finished \<lparr>xe_task = u, xe_final_state = m_state m, xe_final_stage = stage (m_state m),
                xe_failed_reason = failed_reason_of (m_state m), xe_failed_message = failed_message (m_state m)\<rparr>, w1))
     | _ \<Rightarrow> None"
  have run': "?tail (run_iterations env ?r ?m) = Some (res, w')" using run Inr by (simp add: drive_def Let_def)
  then obtain oc where oc: "run_iterations env ?r ?m = Some oc" by (cases "run_iterations env ?r ?m") auto
  note run' = run' [unfolded oc]
  have start: "run_state_ok (t_id t) ?m" using held loaded_id [OF Inr] by (simp add: run_state_ok_def store_sat_def)
  have "\<exists>m0 oc0. run_state_ok (t_id t) m0 \<and> step ?r m0 = Some oc0 \<and> settled env m0 oc0 = oc \<and>
      (\<forall>m'. oc \<noteq> Continue m')"
    by (rule iterations_end [where J = "run_state_ok (t_id t)", OF oc start]) (rule iteration_ok [OF keep])
  then obtain m0 oc0 where m0: "run_state_ok (t_id t) m0" "step ?r m0 = Some oc0" "settled env m0 oc0 = oc"
    "\<forall>m'. oc \<noteq> Continue m'" by (elim exE conjE)
  show ?thesis
  proof (cases oc)
    case (Continue m)
    with m0 show ?thesis by simp
  next
    case (Raised err m)
    with run' show ?thesis by (auto simp: crashed_lets_go)
  next
    case (Returned m)
    with m0(3) have "oc0 = Returned m" by (auto simp: settled_def split: outcome.splits option.splits prod.splits)
    with m0(2) have last: "stage (m_state m) \<in> {DONE, FAILED}" "m_state m = m_state m0" "m_world m = m_world m0"
      using step_returned [of env ?d m0 m] by auto
    have fin: "shows_state (t_id t) (m_state m) (store_in w1) \<and> (\<forall>u. r = Inr u \<longrightarrow> released (t_id t) (store_in w1))"
      if "finish_run env (run_limits env t) t (m_state m) (m_world m) = (r, w1)" for r w1
      by (rule finish_settles [OF _ _ last(1) that]) (use m0(1) last in \<open>simp_all add: run_state_ok_def store_sat_def\<close>)
    show ?thesis
    proof (cases "finish_run env (run_limits env t) t (m_state m) (m_world m)")
      case (Pair r w1)
      with run' Returned fin [OF Pair] last(1) show ?thesis by (cases r) auto
    qed
  qed
qed

text \<open>C24: What a run leaves of its task, for each of the ways it can end. A run that finished leaves it neither
  active nor queued, at a terminal stage that its record shows. A run that crashed in the loop, or could
  not load the state, leaves it not active and not marked running. A run whose teardown raised (the commit
  sha could not be read or stored, the worktree not removed) leaves a record that shows the terminal stage,
  though the task may still be the active one. A refused run changes nothing, and one that could not
  launch or has an invalid hook configuration changes only the lifecycle tables. Turns and hook
  processes may do anything to the world but move or delete records.\<close>

theorem run_releases_its_task:
  assumes "engines_keep (holds_task (t_id t)) env t"
    and "\<And>i u. map_of (tw_tasks (store_in w)) i = Some u \<Longrightarrow> t_id u = i"
    and "orchestrate env t w = Some (res, w')"
  shows "run_outcome (t_id t) (store_in w) res (store_in w')"
proof -
  obtain refused w1 where enter: "on_files (oe_enter env) w = (refused, w1)" by (metis surj_pair)
  obtain launched w2 where launch: "launch env t w1 = (launched, w2)" by (metis surj_pair)
  have leave: "store_in (snd (on_files (\<lambda>g. ((), oe_leave env g)) w)) = store_in w" for w :: "'c run_world"
    by (simp add: on_files_def on_fs_def store_in_def Let_def)
  have start: "store_in w1 = store_in w" by (rule files_sel [OF enter])
  have quiet: "untouched (store_in w) (store_in w2)"
    using launch start by (auto simp: launch_def untouched_def Let_def split: prod.splits)
  have tasks: "tw_tasks (store_in w2) = tw_tasks (store_in w)"
    using start launch_frame(1) [OF launch] by simp
  have held: "holds_task (t_id t) (store_in w2)" if "launched = Inr s" for s
    using launch_frame(2) [OF launch that] start assms(2) by (simp add: holds_task_def tasks launch_frame(1) [OF launch])
  show ?thesis
    using assms(3) enter launch held start quiet drive_outcome [OF assms(1), of w2]
    by (auto simp: orchestrate_def leave split: option.splits sum.splits)
qed

section \<open>A concrete run\<close>

text \<open>
  No engine is eligible, so an agent visit crashes at once; hooks succeed, git answers nothing. The task
  was grooming when its runner was killed, past its time budget.
\<close>

definition demo_turns :: "pipeline_state \<Rightarrow> (unit, unit, string list run_world) agent_node" where
  "demo_turns st =
     \<lparr>agent_name = st, select_engine = (\<lambda>s nm ex w. (None, w)), get_session = (\<lambda>t nm e w. ((), w)),
      persist_session = (\<lambda>t nm e u w. w), run_turn = (\<lambda>e u p s w. (Turn_Raised ''none'', w)),
      build_prompt = (\<lambda>s. ()), build_nudge_prompt = (\<lambda>s p. p), to_event = agent_verdict_to_event,
      retry_budget = 3, retry_on = [], retry_backoff_seconds = 0, retry_backoff_multiplier = 2, nudge_budget = 1,
      sleep_fn = (\<lambda>d w. w)\<rparr>"

definition demo_run_env :: "(unit, unit, string list) orch_env" where
  "demo_run_env =
     \<lparr>oe_worktrees = demo_wt_env [],
      oe_deps = \<lparr>dep_agent = demo_turns, dep_hook_runner = (\<lambda>spec s w. (None, w)), dep_hook_specs = [], dep_probes = [],
        dep_repairs = [], dep_sync = noop_sync, dep_merge = stub_merge, dep_marker = ''...'', dep_retry_budget = 3,
        dep_retry_on = []\<rparr>,
      oe_sinks = \<lparr>hs_now = (\<lambda>_. ''now''), hs_marker = ''...'', hs_store_report = (\<lambda>r g. (''report'', g))\<rparr>,
      oe_hook_process = (\<lambda>cwd spec s x. (Process_Completed 0 None None, x)), oe_runner_hooks = [],
      oe_float_of = (\<lambda>_. None), oe_float_text = (\<lambda>q. if q = 100 then ''100.0'' else ''0.0''),
      oe_commit_task = (\<lambda>t. \<lparr>ct_id = t_id t, ct_title = [], ct_slug = [], ct_goal = [], ct_acceptance = [],
        ct_commit_message = None, ct_checkpoint_attempts = 0\<rparr>),
      oe_engine_task = (\<lambda>_. demo_engine_task), oe_config = demo_engines, oe_time_budget = Some 60,
      oe_now = (\<lambda>_. ''now''), oe_utc = (\<lambda>_ _. ''now''), oe_monotonic = (\<lambda>g. (0, g)), oe_escalation = (\<lambda>_ _. None),
      oe_enter = (\<lambda>g. (None, g)), oe_leave = (\<lambda>g. g)\<rparr>"

definition demo_tired :: task_state where
  "demo_tired = (demo_run_state GROOMING) \<lparr>agent_elapsed_seconds := 100\<rparr>"

definition demo_start :: "string list run_world" where
  "demo_start =
     \<lparr>gw_world = \<lparr>ww_fs = [],
        ww_store = \<lparr>tw_tasks = demo_store GROOMING, tw_ws = demo_pinned,
          tw_lifecycle = save (oe_float_text demo_run_env) ''now'' demo_tired demo_wt_lifecycle,
          tw_activity = [], tw_journal = []\<rparr>\<rparr>, gw_calls = []\<rparr>"

declare run_iterations.simps [code]

lemma demo_turn:
  "agent_run (role_agent (run_deps demo_run_env t specs) st) s w =
     Some (Inr (Crash ''AllEnginesExhausted'' ''no engine eligible''), w)"
  by (simp add: agent_run_def select_loop.simps role_agent_def run_deps_def demo_run_env_def demo_turns_def Let_def)

lemma demo_keeps: "engines_keep P demo_run_env t"
  by (simp add: engines_keep_def demo_turn) (simp add: demo_run_env_def)

lemma demo_run_result:
  "case orchestrate demo_run_env (demo_live GROOMING) demo_start of
     Some (Run_finished r, w) \<Rightarrow> stage (xe_final_state r) = FAILED | _ \<Rightarrow> False"
  by code_simp

text \<open>One iteration of it.\<close>

lemma demo_iteration:
  "case step (run_runner demo_run_env (run_deps demo_run_env (demo_live GROOMING) []))
          \<lparr>m_state = demo_tired, m_world = demo_start, m_log = []\<rparr> of
     Some (Continue m1) \<Rightarrow>
       (case settled demo_run_env \<lparr>m_state = demo_tired, m_world = demo_start, m_log = []\<rparr> (Continue m1) of
          Continue m2 \<Rightarrow> stage (m_state m2) = FAILED | _ \<Rightarrow> False)
   | _ \<Rightarrow> False"
  by code_simp

lemma iteration_is_mirrored_witness:
  "\<exists>m1 m2. step (run_runner demo_run_env (run_deps demo_run_env (demo_live GROOMING) []))
         \<lparr>m_state = demo_tired, m_world = demo_start, m_log = []\<rparr> = Some (Continue m1) \<and>
     settled demo_run_env \<lparr>m_state = demo_tired, m_world = demo_start, m_log = []\<rparr> (Continue m1) = Continue m2 \<and>
     stage (m_state m2) = FAILED \<and> record_mirrors (m_state m2) (store_in (m_world m2))"
proof -
  let ?r = "run_runner demo_run_env (run_deps demo_run_env (demo_live GROOMING) [])"
  let ?m = "\<lparr>m_state = demo_tired, m_world = demo_start, m_log = []\<rparr>"
  obtain m1 where st: "step ?r ?m = Some (Continue m1)"
    using demo_iteration by (auto split: option.splits outcome.splits)
  then obtain m2 where se: "settled demo_run_env ?m (Continue m1) = Continue m2" "stage (m_state m2) = FAILED"
    using demo_iteration by (auto split: outcome.splits)
  with iteration_is_mirrored [OF st se(1)] st show ?thesis by blast
qed

lemma demo_held: "map_of (tw_tasks (store_in demo_start)) i = Some u \<Longrightarrow> t_id u = i"
  by (auto simp: demo_start_def store_in_def demo_store_def demo_live_def demo_record_def split: if_splits)

text \<open>The killed run that is over its budget: it fails, its record says so, and its task is free.\<close>

lemma run_releases_its_task_witness:
  "\<exists>r w'. orchestrate demo_run_env (demo_live GROOMING) demo_start = Some (Run_finished r, w') \<and>
     stage (xe_final_state r) = FAILED \<and> released ''T1'' (store_in w') \<and>
     (\<exists>t. map_of (tw_tasks (store_in w')) ''T1'' = Some t \<and> t_status t = Tst_FLAGGED)"
proof -
  obtain r w' where run: "orchestrate demo_run_env (demo_live GROOMING) demo_start = Some (Run_finished r, w')"
    and st: "stage (xe_final_state r) = FAILED"
    using demo_run_result by (auto split: option.splits run_result.splits prod.splits)
  have "t_id (demo_live GROOMING) = ''T1''" by (simp add: demo_live_def demo_record_def)
  with run_releases_its_task [OF demo_keeps demo_held run] have "run_outcome ''T1'' (store_in demo_start) (Run_finished r) (store_in w')" by simp
  then have rel: "released ''T1'' (store_in w')" and "shows_state ''T1'' (xe_final_state r) (store_in w')" by simp_all
  then obtain t where "map_of (tw_tasks (store_in w')) ''T1'' = Some t" "record_view t = state_view (xe_final_state r)"
    by (auto simp: shows_state_def)
  with run st rel show ?thesis by (auto simp: record_view_def state_view_def)
qed

section \<open>A run ends\<close>

lemma settled_continue: "settled env m oc = Continue m2 \<Longrightarrow> \<exists>m1. oc = Continue m1 \<and> m_state m2 = m_state m1"
  by (auto simp: settled_def split: outcome.splits prod.splits option.splits)

lemma iterations_return:
  assumes "registry r = registry_get (registry_entries d)" and "returning T r" and "finite T"
  shows "run_inv T (m_state m) \<Longrightarrow> run_iterations env r m \<noteq> None"
proof (induction "potential T (m_state m)" arbitrary: m rule: less_induct)
  case less
  obtain oc where st: "step r m = Some oc" using reg.step_returns [OF assms(1, 2)] by blast
  show ?case
  proof (cases "settled env m oc")
    case (Continue m2)
    with settled_continue obtain m1 where m1: "oc = Continue m1" "m_state m2 = m_state m1" by blast
    from reg.step_decreases [OF assms less.prems] st m1(1)
    have "run_inv T (m_state m2)" "potential T (m_state m2) < potential T (m_state m)" using m1(2) by auto
    with less.hyps have "run_iterations env r m2 \<noteq> None" by blast
    then show ?thesis using st Continue by (subst run_iterations.simps) simp
  qed (use st in \<open>subst run_iterations.simps, simp\<close>)+
qed

text \<open>C25: A run ends: if every agent visit returns, with crash classes of a finite set, and the launched
  state is one the machine's termination covers, the orchestrator answers, whatever hooks, git and the
  store did meanwhile.\<close>

theorem orchestrated_run_ends:
  assumes "\<And>specs. agents_return T (run_deps env t specs)" and "finite T" and "''GitError'' \<in> T"
    and "\<And>w1 r w2 s. on_files (oe_enter env) w = (None, w1) \<Longrightarrow> launch env t w1 = (Inr r, w2) \<Longrightarrow>
      load (now_in env w2) (run_limits env t) (t_id t) (tw_lifecycle (store_in w2)) = Inr s \<Longrightarrow> run_inv T s"
  shows "\<exists>res w'. orchestrate env t w = Some (res, w')"
proof -
  obtain refused w1 where enter: "on_files (oe_enter env) w = (refused, w1)" by (metis surj_pair)
  obtain launched w2 where launch: "launch env t w1 = (launched, w2)" by (metis surj_pair)
  have "drive env t specs w2 \<noteq> None" if "refused = None" "launched = Inr r" for specs r
  proof (cases "load (now_in env w2) (run_limits env t) (t_id t) (tw_lifecycle (store_in w2))")
    case (Inr s)
    let ?d = "run_deps env t specs"
    let ?m = "\<lparr>m_state = s, m_world = w2, m_log = [TaskStarted (stage s)]\<rparr>"
    have ret: "returning T (run_runner env ?d)"
      by (rule registry_returning [OF assms(1, 3)]) (simp_all add: run_runner_def)
    have inv: "run_inv T (m_state ?m)" using assms(4) enter launch that Inr by simp
    have "registry (run_runner env ?d) = registry_get (registry_entries ?d)" by (simp add: run_runner_def)
    from iterations_return [OF this ret assms(2) inv] obtain oc where oc: "run_iterations env (run_runner env ?d) ?m = Some oc"
      by blast
    from iterations_end [where J = "\<lambda>_. True", OF oc] have "\<forall>m'. oc \<noteq> Continue m'" by blast
    then show ?thesis using Inr oc
      by (cases oc) (simp_all add: drive_def Let_def split: prod.split sum.split)
  qed (simp add: drive_def Let_def)
  then have "orchestrate env t w \<noteq> None"
    using enter launch by (auto simp: orchestrate_def split: option.splits sum.splits)
  then show ?thesis by auto
qed

lemma demo_launched:
  "case launch demo_run_env (demo_live GROOMING) demo_start of (_, w2) \<Rightarrow>
     (case load ''now'' (run_limits demo_run_env (demo_live GROOMING)) ''T1'' (tw_lifecycle (store_in w2)) of
        Inr s \<Rightarrow> recovery_history s = [] \<and> recovery_budget_history_start s = 0 \<and> stage_retry s = [] \<and>
          entry_stage s = None \<and> stage s = GROOMING
      | _ \<Rightarrow> False)"
  by code_simp

lemma orchestrated_run_ends_witness:
  "\<exists>res w'. orchestrate demo_run_env (demo_live GROOMING) demo_start = Some (res, w')"
proof (rule orchestrated_run_ends [where T = "{''GitError'', ''AllEnginesExhausted''}"])
  show "agents_return {''GitError'', ''AllEnginesExhausted''} (run_deps demo_run_env (demo_live GROOMING) specs)" for specs
    by (simp add: agents_return_def demo_turn)
next
  fix w1 r w2 s
  assume enter: "on_files (oe_enter demo_run_env) demo_start = (None, w1)"
    and launch: "launch demo_run_env (demo_live GROOMING) w1 = (Inr r, w2)"
    and load: "load (now_in demo_run_env w2) (run_limits demo_run_env (demo_live GROOMING)) (t_id (demo_live GROOMING))
      (tw_lifecycle (store_in w2)) = Inr s"
  have "w1 = demo_start" using enter by (simp add: on_files_def on_fs_def demo_run_env_def Let_def)
  moreover have "now_in demo_run_env w2 = ''now''" "t_id (demo_live GROOMING) = ''T1''"
    by (simp_all add: now_in_def demo_run_env_def demo_live_def demo_record_def)
  ultimately have "recovery_history s = []" "recovery_budget_history_start s = 0" "stage_retry s = []"
    "entry_stage s = None" "stage s = GROOMING"
    using demo_launched launch load by (auto split: sum.splits)
  then show "run_inv {''GitError'', ''AllEnginesExhausted''} s" by (simp add: run_inv_def entry_ok_def)
qed simp_all

end
