(* ===== verification/Spec2Isabelle.thy ===== *)
theory Spec2Isabelle
  imports Machine_Properties Engine_Policy Resume_Properties Queue_Properties Crash_Properties Status_Properties
    Lock_Properties Daemon_Registry Git_Commit Rebuild_Properties Pool_Properties Rescue_Properties
    Orchestration_Properties
begin

text \<open>
  A verification development of litehive, a runner that takes coding tasks from a queue through a fixed
  pipeline of agents, hooks and git steps. This theory collects the others; each of them opens with what
  it models.

  \<^bold>\<open>The program.\<close> Tasks wait in the queue of a workspace (\<open>tasks/\<close>). A runner holds the workspace lock
  (\<open>state/locking.py\<close>), picks a task (\<open>tasks/queue_selection.py\<close>), launches it
  (\<open>lifecycle/launch_state.py\<close>) and drives the state machine (\<open>lifecycle/runner.py\<close>): it visits the node of
  the current state (\<open>lifecycle/nodes/\<close>), gets an event, looks up the first matching row of the rule table
  (\<open>lifecycle/rules.py\<close>), applies the row's delta to the task state, saves the state
  (\<open>lifecycle/persistence.py\<close>) and mirrors it on the task record (\<open>lifecycle/runtime_sync.py\<close>). Agent nodes
  ask the engine policy (\<open>config/engine_models.py\<close>) which engine to use. When a runner dies, the next one
  repairs what it left (\<open>recovery/\<close>). Operators change tasks meanwhile (\<open>tasks/status_*.py\<close>,
  \<open>tasks/stop.py\<close>). The commit node lands the work with git (\<open>git/ops.py\<close>).

  \<^bold>\<open>Which theory models what.\<close>
  \<^item> Shared: \<open>Prelude\<close> (Python strings, dicts as association lists, the locale of string-valued
    enumerations), \<open>Py_Values\<close> (JSON values), \<open>Vocabulary\<close> (\<open>domain/common.py\<close>, \<open>lifecycle/types.py\<close>).
  \<^item> State machine: \<open>Recovery_Domain\<close>, \<open>Events\<close>, \<open>Task_State\<close>, \<open>Deltas\<close>, \<open>Effects\<close>, \<open>Guards\<close>,
    \<open>Transitions\<close>, \<open>Rules\<close> are \<open>domain/recovery.py\<close>, \<open>lifecycle/events.py\<close>, the record of
    \<open>lifecycle/persistence.py\<close>, \<open>domain/lifecycle_deltas.py\<close>, \<open>lifecycle/guards.py\<close>,
    \<open>lifecycle/transitions.py\<close> and \<open>lifecycle/rules.py\<close>. \<open>Routing\<close> is the table in closed form, the abstract
    specification of what it routes where. \<open>Agent_Node\<close>, \<open>Hook_Node\<close>, \<open>System_Nodes\<close>, \<open>Node_Registry\<close> and
    \<open>Runner\<close> are the nodes, the registry and the loop. \<open>Safety\<close>, \<open>Lifecycle\<close>, \<open>Termination\<close> and
    \<open>Machine_Properties\<close> hold their lemmas and properties.
  \<^item> Persistence: \<open>Codec\<close>, \<open>Codec_Roundtrip\<close>, \<open>Persistence\<close>, \<open>Resume_Properties\<close>.
  \<^item> Engines: \<open>Engine_Policy\<close>.
  \<^item> Tasks and queue: \<open>Task_Record\<close> (\<open>domain/task.py\<close>, \<open>domain/runtime.py\<close>), \<open>Queue_Eligibility\<close>,
    \<open>Queue_Selection\<close>, \<open>Queue_Ops\<close>, \<open>Queue_Properties\<close>.
  \<^item> A run against its record, its death and the repair: \<open>Runtime_Sync\<close>, \<open>Launch_State\<close>,
    \<open>Crash_Recovery\<close>, \<open>Crash_Properties\<close>.
  \<^item> A run from end to end: \<open>Session_Store\<close> (\<open>lifecycle/sessions.py\<close>), \<open>Hook_Reports\<close>
    (\<open>lifecycle/hook_reports.py\<close>), \<open>Orchestration\<close> (\<open>lifecycle/orchestration.py\<close>,
    \<open>lifecycle/worktree_setup.py\<close>: launch, registry, loop and teardown on one state of stores, files and
    repositories), \<open>Run_Records\<close> (what the nodes leave of the stored tasks), \<open>Orchestration_Properties\<close>.
  \<^item> Operators: \<open>Task_Status\<close>, \<open>Task_Stop\<close>, \<open>Status_Properties\<close>.
  \<^item> Locks: \<open>Lock_Manager\<close> (\<open>state/lock_manager.py\<close>, \<open>state/process_lock.py\<close>), \<open>Runner_Guard\<close> and
    \<open>Lock_Properties\<close> (\<open>WorkspaceRunnerLock.guard\<close> under every interleaving), \<open>Daemon_Registry\<close>.
  \<^item> Event log and stores: \<open>Task_Tables\<close> (the rows), \<open>Event_Log\<close> (\<open>tasks/event_log.py\<close>: records, replay,
    rebuild; \<open>state/rebuild_safety.py\<close>), \<open>Task_Store\<close> (\<open>state/store.py\<close>, \<open>tasks/audit.py\<close>), \<open>Task_History\<close>
    (\<open>tasks/report_storage.py\<close>, \<open>tasks/activity.py\<close>, \<open>lifecycle/journal.py\<close>). \<open>Store_Sync\<close> is the relation
    between log and tables, up to the gap that two resets leave, \<open>Store_Steps\<close>, \<open>Store_Runs\<close>, \<open>Store_Transaction\<close> that every writer keeps it,
    \<open>Store_Rebuild\<close> and \<open>Store_Properties\<close> that a rebuild restores it, \<open>Rebuild_Properties\<close> the properties.
  \<^item> Git: \<open>Git_Ops\<close>, \<open>Git_Commit\<close> (\<open>GitCommitNode\<close>), \<open>Git_Hoare\<close> (a logic for git computations).
  \<^item> Worktrees: \<open>Worktree_Sync\<close> (\<open>worktree/paths.py\<close>, \<open>worktree/sync.py\<close>), \<open>Worktree_Rescue\<close>
    (\<open>worktree/rescue.py\<close>), \<open>Worktree_Cleanup\<close> (\<open>worktree/cleanup.py\<close>, \<open>worktree/inspection.py\<close>),
    \<open>Worktree_Properties\<close>, \<open>Rescue_Properties\<close>.
  \<^item> Pool and daemon: \<open>Pool_Domain\<close> (\<open>domain/pool.py\<close>, the reports of \<open>cli/pool.py\<close>), \<open>Pool_Loop\<close> (a run,
    the drain of a pool, the iterations of the daemon: \<open>daemon/task_execution.py\<close>, \<open>cli/pool.py\<close>,
    \<open>daemon/execution.py\<close>), \<open>Pool_Properties\<close>.

  \<^bold>\<open>How the model is built.\<close> Dataclasses are records, enumerations datatypes, dicts association lists in
  insertion order or maps, exceptions the left side of a sum. State is passed explicitly. What the code
  asks of the world (clocks, engines, hooks, git, the file system, process ids) is an argument: a function
  on a world state of any type. Functions compute, so the witnesses evaluate them. The runner's loop has
  fuel; \<open>run_terminates\<close> gives a fuel that is enough for every well-formed start, and
  \<open>sync_entry_never_returns\<close> the one start for which none is. The engine loops of the agent node are
  \<open>partial_function\<close>s; \<open>agent_visit_returns\<close> shows that they return. So are the drain of a pool, which
  \<open>drain_runs_at_most_limit\<close> shows to return under a limit, the loop of the daemon, which need not, and the
  loop of a composed run, which \<open>orchestrated_run_ends\<close> shows to end. Interleavings of threads and
  processes are an inductive step relation (\<open>guard_step\<close>), and invariants of it are proved by rule
  induction. A git computation records the commands it ran, and properties speak of that history.

  \<^bold>\<open>What is shown.\<close>
  \<^item> The rule table is the routing function, every event a node can return has a rule, runs terminate,
    recovery is spent once per fault and window, a task is done only on the answers that finish it and
    failed with a stored reason (or at the word of the recovery agent), retry counters are bounded
    (\<open>Machine_Properties\<close>).
  \<^item> A stored state reloads as itself and decides as itself (\<open>Resume_Properties\<close>).
  \<^item> The selected engine answered that it is available and is within its quota, those before it did not;
    visits return (\<open>Engine_Policy\<close>).
  \<^item> Dependencies stay acyclic, the picked task is the first that may run, a blocked active task leads
    to two active tasks and a queue that refuses every pickup, queue edits of others survive (\<open>Queue_Properties\<close>, \<open>Queue_Ops\<close>).
  \<^item> The record mirrors the state; killed runs resume where they were; crashed ones do so in the agent
    stages only (\<open>Crash_Properties\<close>).
  \<^item> The composed run, with its real stores, worktrees and git, mirrors every iteration, ends when the
    engines do, and leaves its task as the way it ended says (\<open>Orchestration_Properties\<close>).
  \<^item> Operator commands keep records and queue well formed (\<open>Status_Properties\<close>).
  \<^item> The runner guard excludes, whatever the schedule and whoever dies; a daemon registers once unless two
    race for a dead owner's file; the commit node passes only landed work (\<open>Lock_Properties\<close>,
    \<open>Daemon_Registry\<close>, \<open>Git_Commit\<close>).
  \<^item> Whatever the stores did, replaying the event log gives back the tables; a lost database heals, an
    uncommitted operation is redone or refused, new task numbers stay new. Two resets log less than they
    do: the statements are up to their gap (\<open>same_tables_but\<close>), which \<open>mark_gap\<close> computes from the
    operations and which is empty for a run without them (\<open>Rebuild_Properties\<close>).
  \<^item> A worktree sync that returns has done what it reports, and a refused rebase is an error; a rescue picks
    and commits every commit or keeps the task, unless git cannot read the worktree; a cleanup runs one
    removal for each worktree of a task that is over and not in use, and no other
    (\<open>Worktree_Properties\<close>, \<open>Rescue_Properties\<close>).
  \<^item> A bounded drain ends in time, no four tasks in a row fail, the stop that enforces this can be
    overwritten, and a daemon over a blocked queue never rests (\<open>Pool_Properties\<close>).

  \<^bold>\<open>Limits of the model.\<close> Strings are lists of characters below 256. Seconds are exact rationals, and
  times are the strings or instants the code compares; their parsing is a parameter. JSON text is its value
  with sorted keys, and SQLite tables are maps or lists of rows; the SQL itself is outside. pydantic is a
  parameter of the stores, with the laws of \<open>pydantic_laws\<close> (key order of the input shows at most in the
  key order of the output). Each append to the event log is one whole line: a torn write, which the next
  append would be glued to, is outside the runs of \<open>Rebuild_Properties\<close>. The processes table is in no
  event and is lost with the database. A heartbeat of the runner guard is one step, and the settings an
  engine visit reads do not change during it. In a composed run the engines, the hook
  processes, the clock, the runner lock and the escalation entry of the activity feed are parameters. The models of the queue and of the operator
  commands leave audit rows and journal text out; log messages are left out everywhere. Paths are strings; \<open>Path\<close> normalisation beyond trailing slashes is not done.

  \<^bold>\<open>Not modelled\<close>: the text of prompts and the engine adapters of
  \<open>lifecycle/heru_factory.py\<close>; \<open>tasks/switch_engine.py\<close> and the evidence texts of recovery; \<open>agents/\<close>, \<open>sandbox/\<close>, \<open>observability/\<close>, \<open>db/\<close>, argument parsing in \<open>cli/\<close> and
  the signals, subprocesses and log files of the daemon, which are processes, files and text around the
  parts above; the loading and validation of the configuration.
\<close>

end
